(* ===== verification/Oppa_Prelude.thy ===== *)
theory Oppa_Prelude
  imports Main "HOL-Library.Word" "HOL-Library.Product_Lexorder" "HOL-Library.List_Lexorder"
    "HOL-Library.Sublist"
begin

text \<open>
  Shared vocabulary of the development: Rust results as sums, the first failing check of a
  validation, Rust strings as lists of Unicode scalar values with their UTF-8 and UTF-16
  lengths, and the generic list lemmas that several components use.
\<close>

section \<open>Results\<close>

text \<open>\<open>Result<T, E>\<close> is \<open>'e + 'a\<close>; \<open>Err\<close> and \<open>Ok\<close> are its constructors.\<close>

abbreviation Err :: "'e \<Rightarrow> 'e + 'a" where
  "Err \<equiv> Inl"

abbreviation Ok :: "'a \<Rightarrow> 'e + 'a" where
  "Ok \<equiv> Inr"

text \<open>The \<open>?\<close> operator: continue with the value, or return the error.\<close>

fun and_then :: "'e + 'a \<Rightarrow> ('a \<Rightarrow> 'e + 'b) \<Rightarrow> 'e + 'b" where
  "and_then (Inl e) f = Inl e"
| "and_then (Inr a) f = f a"

fun map_err :: "('e \<Rightarrow> 'f) \<Rightarrow> 'e + 'a \<Rightarrow> 'f + 'a" where
  "map_err f (Inl e) = Inl (f e)"
| "map_err f (Inr a) = Inr a"

fun is_ok :: "'e + 'a \<Rightarrow> bool" where
  "is_ok (Inl e) = False"
| "is_ok (Inr a) = True"

fun ok_or :: "'e \<Rightarrow> 'a option \<Rightarrow> 'e + 'a" where
  "ok_or e None = Inl e"
| "ok_or e (Some a) = Inr a"

text \<open>\<open>if condition { return Err(e); }\<close> and a straight line of such checks, in order.\<close>

definition reject_if :: "bool \<Rightarrow> 'e \<Rightarrow> 'e + unit" where
  "reject_if b e = (if b then Inl e else Inr ())"

fun first_err :: "('e + unit) list \<Rightarrow> 'e + unit" where
  "first_err [] = Inr ()"
| "first_err (Inl e # cs) = Inl e"
| "first_err (Inr u # cs) = first_err cs"

definition if_some :: "'a option \<Rightarrow> ('a \<Rightarrow> 'e + unit) \<Rightarrow> 'e + unit" where
  "if_some m f = (case m of None \<Rightarrow> Inr () | Some a \<Rightarrow> f a)"

named_theorems checks \<open>rules that turn a validation result into its conditions\<close>

lemma and_then_Ok [checks]: "and_then m f = Inr b \<longleftrightarrow> (\<exists>a. m = Inr a \<and> f a = Inr b)"
  by (cases m) auto

lemma and_then_Err: "and_then m f = Inl e \<longleftrightarrow> m = Inl e \<or> (\<exists>a. m = Inr a \<and> f a = Inl e)"
  by (cases m) auto

lemma map_err_Ok [checks, simp]: "map_err f m = Inr a \<longleftrightarrow> m = Inr a"
  by (cases m) auto

lemma ok_or_Ok [checks, simp]: "ok_or e m = Inr a \<longleftrightarrow> m = Some a"
  by (cases m) auto

lemma ok_or_Ok_sym [simp]: "Inr a = ok_or e m \<longleftrightarrow> m = Some a"
  by (cases m) auto

lemma ok_or_Err [simp]: "ok_or e m = Inl e' \<longleftrightarrow> m = None \<and> e' = e"
  by (cases m) auto

lemma reject_if_Ok [checks, simp]: "reject_if b e = Inr u \<longleftrightarrow> \<not> b"
  by (simp add: reject_if_def)

lemma reject_if_Err [simp]: "reject_if b e = Inl e' \<longleftrightarrow> b \<and> e' = e"
  by (auto simp: reject_if_def)

lemma if_some_Ok [checks]: "if_some m f = Inr u \<longleftrightarrow> (\<forall>a. m = Some a \<longrightarrow> f a = Inr ())"
  by (cases m) (auto simp: if_some_def)

lemma is_ok_iff: "is_ok m \<longleftrightarrow> (\<exists>a. m = Inr a)"
  by (cases m) auto

lemma first_err_Cons:
  "first_err (c # cs) = (case c of Inl e \<Rightarrow> Inl e | Inr u \<Rightarrow> first_err cs)"
  by (cases c) auto

lemma first_err_Ok [checks]: "first_err cs = Inr u \<longleftrightarrow> (\<forall>c \<in> set cs. c = Inr ())"
  by (induction cs) (auto simp: first_err_Cons split: sum.splits)

lemma first_err_Err: "first_err cs = Inl e \<Longrightarrow> Inl e \<in> set cs"
  by (induction cs) (auto simp: first_err_Cons split: sum.splits)

section \<open>Effects\<close>

text \<open>
  Stateful code that may return early: the state is passed on in both cases, since an error does
  not undo what happened before it.
\<close>

type_synonym ('s, 'e, 'a) eff = "'s \<Rightarrow> ('e + 'a) \<times> 's"

definition eret :: "'a \<Rightarrow> ('s, 'e, 'a) eff" where
  "eret a s = (Inr a, s)"

definition elift :: "'e + 'a \<Rightarrow> ('s, 'e, 'a) eff" where
  "elift r s = (r, s)"

definition emodify :: "('s \<Rightarrow> 's) \<Rightarrow> ('s, 'e, unit) eff" where
  "emodify f s = (Inr (), f s)"

definition ebind :: "('s, 'e, 'a) eff \<Rightarrow> ('a \<Rightarrow> ('s, 'e, 'b) eff) \<Rightarrow> ('s, 'e, 'b) eff" where
  "ebind m f s = (case m s of (Inl e, s') \<Rightarrow> (Inl e, s') | (Inr a, s') \<Rightarrow> f a s')"

definition egets :: "('s \<Rightarrow> 'a) \<Rightarrow> ('s, 'e, 'a) eff" where
  "egets f s = (Inr (f s), s)"

text \<open>\<open>match m.await { ... }\<close>: continue with the result, error or not.\<close>

definition ecase :: "('s, 'e, 'a) eff \<Rightarrow> ('e + 'a \<Rightarrow> ('s, 'f, 'b) eff) \<Rightarrow> ('s, 'f, 'b) eff" where
  "ecase m k s = (case m s of (r, s') \<Rightarrow> k r s')"

definition emap_err :: "('e \<Rightarrow> 'f) \<Rightarrow> ('s, 'e, 'a) eff \<Rightarrow> ('s, 'f, 'a) eff" where
  "emap_err f m s = (case m s of (r, s') \<Rightarrow> (map_err f r, s'))"

lemma ebind_Ok: "ebind m f s = (Inr b, s') \<longleftrightarrow> (\<exists>a s1. m s = (Inr a, s1) \<and> f a s1 = (Inr b, s'))"
  by (auto simp: ebind_def split: prod.splits sum.splits)

lemma ebind_Err:
  "ebind m f s = (Inl e, s') \<longleftrightarrow> m s = (Inl e, s') \<or> (\<exists>a s1. m s = (Inr a, s1) \<and> f a s1 = (Inl e, s'))"
  by (auto simp: ebind_def split: prod.splits sum.splits)

lemma eret_eq [simp]: "eret a s = (r, s') \<longleftrightarrow> r = Inr a \<and> s' = s"
  by (auto simp: eret_def)

lemma elift_eq [simp]: "elift x s = (r, s') \<longleftrightarrow> x = r \<and> s' = s"
  by (auto simp: elift_def)

lemma emodify_eq [simp]: "emodify f s = (r, s') \<longleftrightarrow> r = Inr () \<and> s' = f s"
  by (auto simp: emodify_def)

lemma egets_eq [simp]: "egets f s = (r, s') \<longleftrightarrow> r = Inr (f s) \<and> s' = s"
  by (auto simp: egets_def)

lemma ecase_eq: "ecase m k s = (r, s') \<longleftrightarrow> (\<exists>x s1. m s = (x, s1) \<and> k x s1 = (r, s'))"
  by (auto simp: ecase_def split: prod.splits)

lemma emap_err_Ok [simp]: "emap_err f m s = (Inr a, s') \<longleftrightarrow> m s = (Inr a, s')"
  by (auto simp: emap_err_def split: prod.splits)

lemma emap_err_Err [simp]: "emap_err f m s = (Inl e, s') \<longleftrightarrow> (\<exists>e0. m s = (Inl e0, s') \<and> e = f e0)"
  by (cases "m s"; cases "fst (m s)") (auto simp: emap_err_def)

lemma map_err_Err: "map_err f m = Inl e \<longleftrightarrow> (\<exists>e0. m = Inl e0 \<and> e = f e0)"
  by (cases m) auto

text \<open>A property of the state that every part of an effect preserves.\<close>

definition preserves :: "('s \<Rightarrow> 's \<Rightarrow> bool) \<Rightarrow> ('s, 'e, 'a) eff \<Rightarrow> bool" where
  "preserves R m \<longleftrightarrow> (\<forall>s. R s (snd (m s)))"

named_theorems preserving \<open>effects that preserve a relation between states\<close>

lemma preserves_ret [preserving]: "reflp R \<Longrightarrow> preserves R (eret a)"
  by (simp add: preserves_def eret_def reflpD)

lemma preserves_lift [preserving]: "reflp R \<Longrightarrow> preserves R (elift r)"
  by (simp add: preserves_def elift_def reflpD)

lemma preserves_bind [preserving]:
  assumes "transp R" "preserves R m" "\<And>a. preserves R (f a)"
  shows "preserves R (ebind m f)"
  unfolding preserves_def
proof
  fix s
  obtain r s1 where m: "m s = (r, s1)" by (cases "m s")
  then have "R s s1" using assms(2) unfolding preserves_def by (metis snd_conv)
  show "R s (snd (ebind m f s))"
  proof (cases r)
    case (Inl e)
    then show ?thesis using m \<open>R s s1\<close> by (simp add: ebind_def)
  next
    case (Inr a)
    then have "R s1 (snd (f a s1))" using assms(3) by (simp add: preserves_def)
    then show ?thesis using m Inr \<open>R s s1\<close> transpD [OF assms(1)] by (simp add: ebind_def)
  qed
qed

lemma preserves_gets [preserving]: "reflp R \<Longrightarrow> preserves R (egets f)"
  by (simp add: preserves_def egets_def reflpD)

lemma preserves_case [preserving]:
  assumes "transp R" "preserves R m" "\<And>r. preserves R (k r)"
  shows "preserves R (ecase m k)"
  unfolding preserves_def
proof
  fix s
  obtain r s1 where m: "m s = (r, s1)" by (cases "m s")
  then have "R s s1" using assms(2) unfolding preserves_def by (metis snd_conv)
  moreover have "R s1 (snd (k r s1))" using assms(3) by (simp add: preserves_def)
  ultimately show "R s (snd (ecase m k s))" using m transpD [OF assms(1)] by (simp add: ecase_def)
qed

lemma preserves_sum [preserving]:
  "(\<And>e. preserves R (f e)) \<Longrightarrow> (\<And>a. preserves R (g a)) \<Longrightarrow>
   preserves R (case r of Inl e \<Rightarrow> f e | Inr a \<Rightarrow> g a)"
  by (cases r) auto

lemma preserves_if [preserving]:
  "preserves R f \<Longrightarrow> preserves R g \<Longrightarrow> preserves R (if b then f else g)"
  by simp

lemma preserves_option [preserving]:
  "preserves R f \<Longrightarrow> (\<And>a. preserves R (g a)) \<Longrightarrow> preserves R (case m of None \<Rightarrow> f | Some a \<Rightarrow> g a)"
  by (cases m) auto

lemma preserves_prod [preserving]:
  "(\<And>a b. preserves R (f a b)) \<Longrightarrow> preserves R (case p of (a, b) \<Rightarrow> f a b)"
  by (cases p) auto

lemma preserves_map_err [preserving]: "preserves R m \<Longrightarrow> preserves R (emap_err f m)"
  by (simp add: preserves_def emap_err_def split: prod.splits) (metis snd_conv)

section \<open>Strings\<close>

text \<open>
  A Rust \<open>String\<close> is a sequence of Unicode scalar values. Its \<open>len()\<close> counts UTF-8 bytes,
  its \<open>encode_utf16().count()\<close> counts UTF-16 code units. A literal of the source is
  \<open>lit ''...''\<close>.
\<close>

type_synonym codepoint = nat
type_synonym ustring = "codepoint list"

definition lit :: "string \<Rightarrow> ustring" where
  "lit s = map of_char s"

definition utf8_len :: "codepoint \<Rightarrow> nat" where
  "utf8_len c = (if c < 0x80 then 1 else if c < 0x800 then 2 else if c < 0x10000 then 3 else 4)"

definition utf16_len :: "codepoint \<Rightarrow> nat" where
  "utf16_len c = (if c < 0x10000 then 1 else 2)"

definition byte_len :: "ustring \<Rightarrow> nat" where
  "byte_len s = sum_list (map utf8_len s)"

definition utf16_count :: "ustring \<Rightarrow> nat" where
  "utf16_count s = sum_list (map utf16_len s)"

lemma utf8_len_pos [simp]: "0 < utf8_len c"
  by (simp add: utf8_len_def)

lemma byte_len_simps [simp]:
  "byte_len [] = 0" "byte_len (c # s) = utf8_len c + byte_len s"
  "byte_len (s @ t) = byte_len s + byte_len t"
  by (simp_all add: byte_len_def)

lemma utf16_count_simps [simp]:
  "utf16_count [] = 0" "utf16_count (c # s) = utf16_len c + utf16_count s"
  "utf16_count (s @ t) = utf16_count s + utf16_count t"
  by (simp_all add: utf16_count_def)

lemma length_le_byte_len: "length s \<le> byte_len s"
proof (induction s)
  case (Cons c s)
  moreover have "1 \<le> utf8_len c" by (simp add: utf8_len_def)
  ultimately show ?case by simp
qed simp

lemma utf16_le_utf8: "utf16_len c \<le> utf8_len c"
  by (simp add: utf16_len_def utf8_len_def)

lemma utf16_count_le_byte_len: "utf16_count s \<le> byte_len s"
  by (induction s) (auto intro: add_mono utf16_le_utf8)

lemma utf8_len_ascii [simp]: "c < 0x80 \<Longrightarrow> utf8_len c = 1"
  by (simp add: utf8_len_def)

lemma utf16_len_bmp [simp]: "c < 0x80 \<Longrightarrow> utf16_len c = 1"
  by (simp add: utf16_len_def)

lemma byte_len_ascii: "\<forall>c \<in> set s. c < 0x80 \<Longrightarrow> byte_len s = length s"
  by (induction s) auto

lemma utf16_count_ascii: "\<forall>c \<in> set s. c < 0x80 \<Longrightarrow> utf16_count s = length s"
  by (induction s) auto

text \<open>The bytes of a string, \<open>as_bytes()\<close>.\<close>

definition utf8_encode :: "codepoint \<Rightarrow> nat list" where
  "utf8_encode c =
     (if c < 0x80 then [c]
      else if c < 0x800 then [0xC0 + c div 64, 0x80 + c mod 64]
      else if c < 0x10000 then [0xE0 + c div 4096, 0x80 + c div 64 mod 64, 0x80 + c mod 64]
      else [0xF0 + c div 262144, 0x80 + c div 4096 mod 64, 0x80 + c div 64 mod 64,
            0x80 + c mod 64])"

definition utf8_bytes :: "ustring \<Rightarrow> nat list" where
  "utf8_bytes s = concat (map utf8_encode s)"

lemma utf8_bytes_simps [simp]:
  "utf8_bytes [] = []" "utf8_bytes (c # s) = utf8_encode c @ utf8_bytes s"
  by (simp_all add: utf8_bytes_def)

lemma length_utf8_bytes: "length (utf8_bytes s) = byte_len s"
  by (induction s) (auto simp: utf8_encode_def utf8_len_def)

lemma utf8_bytes_ascii: "\<forall>c \<in> set s. c < 0x80 \<Longrightarrow> utf8_bytes s = s"
  by (induction s) (auto simp: utf8_encode_def)

lemma ascii_utf8_encode: "\<forall>b \<in> set (utf8_encode c). b < 0x80 \<Longrightarrow> c < 0x80"
  by (rule ccontr) (simp add: utf8_encode_def split: if_splits)

lemma ascii_utf8_bytes: "\<forall>b \<in> set (utf8_bytes s). b < 0x80 \<Longrightarrow> \<forall>c \<in> set s. c < 0x80"
proof (induction s)
  case (Cons c s)
  then have "c < 0x80" using ascii_utf8_encode [of c] by simp
  with Cons show ?case by simp
qed simp

lemma ascii_bytes_eq: "\<forall>b \<in> set (utf8_bytes s). b < 0x80 \<Longrightarrow> utf8_bytes s = s"
  using ascii_utf8_bytes utf8_bytes_ascii by blast

subsection \<open>Character classes of the standard library\<close>

definition is_control :: "codepoint \<Rightarrow> bool" where
  "is_control c \<longleftrightarrow> c \<le> 0x1F \<or> (0x7F \<le> c \<and> c \<le> 0x9F)"

definition is_whitespace :: "codepoint \<Rightarrow> bool" where
  "is_whitespace c \<longleftrightarrow>
     (9 \<le> c \<and> c \<le> 13) \<or> c = 0x20 \<or> c = 0x85 \<or> c = 0xA0 \<or> c = 0x1680 \<or>
     (0x2000 \<le> c \<and> c \<le> 0x200A) \<or> c = 0x2028 \<or> c = 0x2029 \<or> c = 0x202F \<or>
     c = 0x205F \<or> c = 0x3000"

definition is_ascii_digit :: "codepoint \<Rightarrow> bool" where
  "is_ascii_digit c \<longleftrightarrow> 48 \<le> c \<and> c \<le> 57"

definition is_ascii_upper :: "codepoint \<Rightarrow> bool" where
  "is_ascii_upper c \<longleftrightarrow> 65 \<le> c \<and> c \<le> 90"

definition is_ascii_lower :: "codepoint \<Rightarrow> bool" where
  "is_ascii_lower c \<longleftrightarrow> 97 \<le> c \<and> c \<le> 122"

definition is_ascii_alnum :: "codepoint \<Rightarrow> bool" where
  "is_ascii_alnum c \<longleftrightarrow> is_ascii_digit c \<or> is_ascii_upper c \<or> is_ascii_lower c"

definition trim_start :: "ustring \<Rightarrow> ustring" where
  "trim_start s = dropWhile is_whitespace s"

definition trim_end :: "ustring \<Rightarrow> ustring" where
  "trim_end s = rev (dropWhile is_whitespace (rev s))"

definition trim :: "ustring \<Rightarrow> ustring" where
  "trim s = trim_end (trim_start s)"

lemma alnum_ascii: "is_ascii_alnum c \<Longrightarrow> c < 0x80"
  by (auto simp: is_ascii_alnum_def is_ascii_digit_def is_ascii_upper_def is_ascii_lower_def)

lemma alnum_not_control: "is_ascii_alnum c \<Longrightarrow> \<not> is_control c"
  by (auto simp: is_ascii_alnum_def is_ascii_digit_def is_ascii_upper_def is_ascii_lower_def
      is_control_def)

lemma alnum_not_whitespace: "is_ascii_alnum c \<Longrightarrow> \<not> is_whitespace c"
  by (auto simp: is_ascii_alnum_def is_ascii_digit_def is_ascii_upper_def is_ascii_lower_def
      is_whitespace_def)

lemma trim_id:
  assumes "s \<noteq> []" "\<not> is_whitespace (hd s)" "\<not> is_whitespace (last s)"
  shows "trim s = s"
proof -
  have "dropWhile is_whitespace s = s" using assms by (cases s) auto
  moreover have "dropWhile is_whitespace (rev s) = rev s"
    using assms by (cases s rule: rev_cases) auto
  ultimately show ?thesis by (simp add: trim_def trim_start_def trim_end_def)
qed

lemma sublist_trim: "sublist (trim s) s"
proof -
  have "suffix (trim_start s) s"
    by (simp add: trim_start_def suffix_dropWhile)
  moreover have "prefix (trim_end t) t" for t
    unfolding trim_end_def by (metis rev_rev_ident suffix_dropWhile suffix_to_prefix)
  ultimately show ?thesis
    unfolding trim_def
    by (meson prefix_imp_sublist sublist_order.order_trans suffix_imp_sublist)
qed

lemma set_trim: "set (trim s) \<subseteq> set s"
  using sublist_trim [of s] by (rule set_mono_sublist)

subsection \<open>Decimal numerals, as \<open>to_string\<close> and \<open>format!\<close> print them\<close>

fun dec :: "nat \<Rightarrow> ustring" where
  "dec n = (if n < 10 then [48 + n] else dec (n div 10) @ [48 + n mod 10])"

declare dec.simps [simp del]

lemma dec_nonempty [simp]: "dec n \<noteq> []"
  by (subst dec.simps) simp

lemma dec_digits: "\<forall>c \<in> set (dec n). is_ascii_digit c"
proof (induction n rule: dec.induct)
  case (1 n)
  show ?case
  proof (cases "n < 10")
    case True
    then show ?thesis by (subst dec.simps) (simp add: is_ascii_digit_def)
  next
    case False
    moreover from this have "\<forall>c \<in> set (dec (n div 10)). is_ascii_digit c" by (rule 1)
    moreover have "n mod 10 < 10" by simp
    ultimately show ?thesis by (subst dec.simps) (auto simp: is_ascii_digit_def)
  qed
qed

section \<open>Cutting a string at a byte offset\<close>

text \<open>
  \<open>byte_prefix n s\<close> is \<open>&s[..n]\<close> where \<open>n\<close> is a character boundary, and \<open>None\<close> where
  Rust would panic.
\<close>

fun byte_prefix :: "nat \<Rightarrow> ustring \<Rightarrow> ustring option" where
  "byte_prefix n [] = (if n = 0 then Some [] else None)"
| "byte_prefix n (c # s) =
     (if n = 0 then Some []
      else if utf8_len c \<le> n then map_option (Cons c) (byte_prefix (n - utf8_len c) s)
      else None)"

definition is_char_boundary :: "ustring \<Rightarrow> nat \<Rightarrow> bool" where
  "is_char_boundary s n \<longleftrightarrow> byte_prefix n s \<noteq> None"

lemma byte_prefix_SomeD:
  "byte_prefix n s = Some p \<Longrightarrow> prefix p s \<and> byte_len p = n"
proof (induction n s arbitrary: p rule: byte_prefix.induct)
  case (1 n)
  then show ?case by (simp split: if_splits)
next
  case (2 n c s)
  show ?case
  proof (cases "n = 0")
    case False
    with 2 show ?thesis by (auto split: if_splits)
  qed (use 2 in auto)
qed

lemma byte_prefix_complete:
  "prefix p s \<Longrightarrow> byte_prefix (byte_len p) s = Some p"
proof (induction p arbitrary: s)
  case (Cons c p)
  then obtain s' where "s = c # s'" "prefix p s'" by (cases s) auto
  moreover have "utf8_len c \<noteq> 0" using utf8_len_pos [of c] by linarith
  ultimately show ?case using Cons.IH by simp
next
  case Nil
  show ?case by (cases s) auto
qed

lemma is_char_boundary_0 [simp]: "is_char_boundary s 0"
  by (cases s) (auto simp: is_char_boundary_def)

lemma is_char_boundary_iff: "is_char_boundary s n \<longleftrightarrow> (\<exists>p. prefix p s \<and> byte_len p = n)"
  using byte_prefix_SomeD byte_prefix_complete by (fastforce simp: is_char_boundary_def)

lemma list_all_bytes:
  assumes "\<And>b. P b \<Longrightarrow> b < 0x80"
  shows "list_all P (utf8_bytes s) \<longleftrightarrow> list_all P s"
proof
  assume all: "list_all P (utf8_bytes s)"
  then have "utf8_bytes s = s" by (intro ascii_bytes_eq) (auto simp: list_all_iff assms)
  with all show "list_all P s" by simp
next
  assume all: "list_all P s"
  then have "utf8_bytes s = s" by (intro utf8_bytes_ascii) (auto simp: list_all_iff assms)
  with all show "list_all P (utf8_bytes s)" by simp
qed

section \<open>Splitting and parsing\<close>

text \<open>\<open>split(P)\<close>: one more piece than there are separators.\<close>

fun split_on :: "('a \<Rightarrow> bool) \<Rightarrow> 'a list \<Rightarrow> 'a list list" where
  "split_on P [] = [[]]"
| "split_on P (x # xs) =
     (if P x then [] # split_on P xs
      else (case split_on P xs of [] \<Rightarrow> [[x]] | p # ps \<Rightarrow> (x # p) # ps))"

lemma split_on_nonempty [simp]: "split_on P xs \<noteq> []"
  by (induction xs) (auto split: list.splits)

lemma hd_split_on: "hd (split_on P xs) = takeWhile (\<lambda>x. \<not> P x) xs"
  by (induction xs) (auto split: list.splits)

lemma split_on_pieces: "piece \<in> set (split_on P xs) \<Longrightarrow> \<forall>x \<in> set piece. \<not> P x \<and> x \<in> set xs"
proof (induction xs arbitrary: piece)
  case (Cons x xs)
  obtain q qs where q: "split_on P xs = q # qs"
    using split_on_nonempty [of P xs] by (cases "split_on P xs") auto
  have "\<forall>x \<in> set r. \<not> P x \<and> x \<in> set xs" if "r = [] \<or> r \<in> set (q # qs)" for r
    using that Cons.IH q by auto
  moreover have "piece \<in> set (q # qs) \<or> piece = [] \<or> \<not> P x \<and> piece = x # q"
    using Cons.prems q by (auto split: if_splits)
  ultimately show ?case by fastforce
qed simp

text \<open>\<open>split_once(c)\<close>.\<close>

fun split_once :: "'a \<Rightarrow> 'a list \<Rightarrow> ('a list \<times> 'a list) option" where
  "split_once c [] = None"
| "split_once c (x # xs) =
     (if x = c then Some ([], xs) else map_option (\<lambda>(a, b). (x # a, b)) (split_once c xs))"

lemma split_once_None: "split_once c xs = None \<longleftrightarrow> c \<notin> set xs"
  by (induction xs) auto

lemma split_once_Some: "split_once c xs = Some (a, b) \<longleftrightarrow> xs = a @ c # b \<and> c \<notin> set a"
proof (induction xs arbitrary: a)
  case (Cons x xs)
  then show ?case by (cases a) auto
qed simp

definition strip_prefix :: "'a list \<Rightarrow> 'a list \<Rightarrow> 'a list option" where
  "strip_prefix p s = (if prefix p s then Some (drop (length p) s) else None)"

lemma strip_prefix_Some [simp]: "strip_prefix p s = Some t \<longleftrightarrow> s = p @ t"
  by (auto simp: strip_prefix_def prefix_def)

lemma strip_prefix_None: "strip_prefix p s = None \<longleftrightarrow> \<not> prefix p s"
  by (simp add: strip_prefix_def)

text \<open>
  \<open>str::parse\<close> at an unsigned type of \<open>w\<close> bits: an optional plus sign, at least one digit,
  and a value that fits.
\<close>

definition digits_value :: "ustring \<Rightarrow> nat" where
  "digits_value s = foldl (\<lambda>n c. 10 * n + (c - 48)) 0 s"

definition parse_unsigned :: "nat \<Rightarrow> ustring \<Rightarrow> nat option" where
  "parse_unsigned w s =
     (let digits = (case s of c # cs \<Rightarrow> if c = 43 then cs else s | [] \<Rightarrow> []) in
      if digits \<noteq> [] \<and> list_all is_ascii_digit digits \<and> digits_value digits < 2 ^ w
      then Some (digits_value digits) else None)"

lemma digits_value_bound:
  "list_all is_ascii_digit s \<Longrightarrow> digits_value s < 10 ^ length s"
proof (induction s rule: rev_induct)
  case (snoc c s)
  then have "digits_value s < 10 ^ length s" "c - 48 < 10"
    by (auto simp: is_ascii_digit_def)
  then show ?case by (simp add: digits_value_def)
qed (simp add: digits_value_def)

lemma digits_value_snoc: "digits_value (s @ [c]) = 10 * digits_value s + (c - 48)"
  by (simp add: digits_value_def)

lemma dec_value: "digits_value (dec n) = n"
proof (induction n rule: dec.induct)
  case (1 n)
  then show ?case
    by (subst dec.simps) (auto simp: digits_value_snoc digits_value_def [of "[_]"])
qed

lemma dec_inject: "dec m = dec n \<longleftrightarrow> m = n"
  by (metis dec_value)

lemma dec_takeWhile:
  assumes "dec n @ c # s = dec m @ c # t" "\<not> is_ascii_digit c"
  shows "n = m \<and> s = t"
proof -
  have w: "takeWhile is_ascii_digit (dec k @ c # u) = dec k" for k u
    using assms(2) dec_digits [of k] by (simp add: takeWhile_append)
  have "dec n = dec m" using w [of n s] w [of m t] assms(1) by simp
  then show ?thesis using assms(1) by (simp add: dec_inject)
qed

section \<open>Lists addressed by an index\<close>

text \<open>\<open>slice.get(i)\<close>.\<close>

definition list_get :: "'a list \<Rightarrow> nat \<Rightarrow> 'a option" where
  "list_get xs i = (if i < length xs then Some (xs ! i) else None)"

lemma list_get_Some [simp]: "list_get xs i = Some x \<longleftrightarrow> i < length xs \<and> xs ! i = x"
  by (auto simp: list_get_def)

text \<open>The quadratic duplicate scan, \<open>values[..index].contains(value)\<close> at every index.\<close>

lemma enumerate_distinct:
  "(\<forall>x \<in> set (List.enumerate 0 vs). snd x \<notin> set (take (fst x) vs)) \<longleftrightarrow> distinct vs"
proof
  assume scan: "\<forall>x \<in> set (List.enumerate 0 vs). snd x \<notin> set (take (fst x) vs)"
  have "vs ! j \<noteq> vs ! i" if "i < length vs" "j < i" for i j
  proof -
    have "(i, vs ! i) \<in> set (List.enumerate 0 vs)" using that by (simp add: in_set_enumerate_eq)
    then have "vs ! i \<notin> set (take i vs)" using scan by fastforce
    moreover have "vs ! j \<in> set (take i vs)" using that by (auto simp: in_set_conv_nth)
    ultimately show ?thesis by metis
  qed
  then show "distinct vs" unfolding distinct_conv_nth by (metis linorder_neqE_nat)
next
  assume dist: "distinct vs"
  show "\<forall>x \<in> set (List.enumerate 0 vs). snd x \<notin> set (take (fst x) vs)"
  proof
    fix x assume "x \<in> set (List.enumerate 0 vs)"
    then have "fst x < length vs" "snd x = vs ! fst x" by (simp_all add: in_set_enumerate_eq)
    with dist show "snd x \<notin> set (take (fst x) vs)"
      by (auto simp: in_set_conv_nth distinct_conv_nth)
  qed
qed

section \<open>Lists addressed by a key\<close>

lemma find_Some_iff_set: "find P xs = Some x \<Longrightarrow> x \<in> set xs \<and> P x"
  by (auto simp: find_Some_iff)

lemma find_None_iff_all: "find P xs = None \<longleftrightarrow> (\<forall>x \<in> set xs. \<not> P x)"
  by (auto simp: find_None_iff)

lemma find_unique:
  assumes "distinct (map k xs)" "x \<in> set xs"
  shows "find (\<lambda>y. k y = k x) xs = Some x"
  using assms by (induction xs) (auto simp: image_iff)

lemma find_map_key:
  assumes "\<And>r. k (f r) = k r"
  shows "find (\<lambda>r. k r = x) (map f rs) = map_option f (find (\<lambda>r. k r = x) rs)"
  by (induction rs) (auto simp: assms)

lemma find_filter_key:
  assumes "distinct (map k rs)"
  shows "find (\<lambda>r. k r = x) (filter P rs) =
    (case find (\<lambda>r. k r = x) rs of Some r \<Rightarrow> if P r then Some r else None | None \<Rightarrow> None)"
  using assms
proof (induction rs)
  case (Cons a rs)
  show ?case
  proof (cases "k a = x")
    case True
    then have "find (\<lambda>r. k r = x) (filter P rs) = None"
      using Cons.prems by (auto simp: find_None_iff image_iff)
    with True show ?thesis by simp
  qed (use Cons in simp)
qed simp

text \<open>INSERT ... ON CONFLICT(key) DO UPDATE: replace the row with the key, or append one.\<close>

definition upsert :: "('r \<Rightarrow> 'k) \<Rightarrow> 'r \<Rightarrow> 'r list \<Rightarrow> 'r list" where
  "upsert k row rows =
     (if k row \<in> set (map k rows) then map (\<lambda>r. if k r = k row then row else r) rows
      else rows @ [row])"

lemma upsert_distinct: "distinct (map k rows) \<Longrightarrow> distinct (map k (upsert k row rows))"
proof -
  assume dist: "distinct (map k rows)"
  have "map k (map (\<lambda>r. if k r = k row then row else r) rows) = map k rows" by simp
  then show ?thesis using dist by (simp add: upsert_def del: map_map)
qed

lemma upsert_lookup:
  "find (\<lambda>r. k r = x) (upsert k row rows) =
     (if x = k row then Some row else find (\<lambda>r. k r = x) rows)"
proof (cases "k row \<in> set (map k rows)")
  case True
  define f where "f = (\<lambda>r. if k r = k row then row else r)"
  have "k (f r) = k r" for r by (simp add: f_def)
  then have "find (\<lambda>r. k r = x) (map f rows) = map_option f (find (\<lambda>r. k r = x) rows)"
    by (rule find_map_key)
  also have "\<dots> = (if x = k row then Some row else find (\<lambda>r. k r = x) rows)"
  proof (cases "find (\<lambda>r. k r = x) rows")
    case None
    then have "x \<noteq> k row" using True by (auto simp: find_None_iff_all)
    with None show ?thesis by simp
  next
    case (Some r)
    then have "k r = x" using find_Some_iff_set by fastforce
    with Some show ?thesis by (simp add: f_def)
  qed
  finally show ?thesis using True by (simp only: upsert_def f_def if_True)
next
  case False
  have "find (\<lambda>r. k r = x) (rows @ [row]) =
      (case find (\<lambda>r. k r = x) rows of Some r \<Rightarrow> Some r | None \<Rightarrow> if k row = x then Some row else None)"
    by (induction rows) simp_all
  also have "\<dots> = (if x = k row then Some row else find (\<lambda>r. k r = x) rows)"
  proof (cases "find (\<lambda>r. k r = x) rows")
    case None
    then show ?thesis by simp
  next
    case (Some r)
    then have "r \<in> set rows \<and> k r = x" by (rule find_Some_iff_set)
    then have "x \<noteq> k row" using False by (metis imageI set_map)
    with Some show ?thesis by simp
  qed
  finally show ?thesis using False by (simp only: upsert_def if_False)
qed

lemma distinct_map_filter_key: "distinct (map k xs) \<Longrightarrow> distinct (map k (filter P xs))"
  by (rule distinct_map_filter)

section \<open>More of \<open>str\<close>\<close>

definition split_whitespace :: "ustring \<Rightarrow> ustring list" where
  "split_whitespace s = filter (\<lambda>w. w \<noteq> []) (split_on is_whitespace s)"

definition to_ascii_lowercase :: "ustring \<Rightarrow> ustring" where
  "to_ascii_lowercase s = map (\<lambda>c. if is_ascii_upper c then c + 32 else c) s"

text \<open>\<open>str::lines\<close>: the pieces between line feeds, the last one only when it is not empty, each
  without one trailing carriage return.\<close>

definition strip_cr :: "ustring \<Rightarrow> ustring" where
  "strip_cr s = (if s \<noteq> [] \<and> last s = 13 then butlast s else s)"

definition str_lines :: "ustring \<Rightarrow> ustring list" where
  "str_lines s = (let pieces = split_on (\<lambda>c. c = 10) s in
     map strip_cr (butlast pieces) @ (if last pieces = [] then [] else [last pieces]))"

definition str_contains :: "ustring \<Rightarrow> ustring \<Rightarrow> bool" where
  "str_contains s pattern = sublist pattern s"

definition trim_start_char :: "codepoint \<Rightarrow> ustring \<Rightarrow> ustring" where
  "trim_start_char c s = dropWhile (\<lambda>x. x = c) s"

definition trim_end_char :: "codepoint \<Rightarrow> ustring \<Rightarrow> ustring" where
  "trim_end_char c s = rev (dropWhile (\<lambda>x. x = c) (rev s))"

end
