(* ===== verification/Oppa_Core.thy ===== *)
theory Oppa_Core
  imports Oppa_Prelude
begin

text \<open>
  The domain primitives of \<open>crates/oppa-core\<close>: typed identifiers and the validation behind
  every constructor of one, instants, and the life-cycle enumerations the other crates share.
  The four identifier types are produced by one macro around a private \<open>String\<close>; they are
  synonyms of the string here, and \<open>new_identifier\<close> is the constructor they all have.
\<close>

section \<open>Identifiers\<close>

definition MAX_IDENTIFIER_LEN :: nat where
  "MAX_IDENTIFIER_LEN = 128"

datatype IdentifierError =
  IdentifierEmpty
| IdentifierTooLong (too_long_actual: nat) (too_long_maximum: nat)
| IdentifierControlCharacter
| IdentifierSurroundingWhitespace

definition core_validate_identifier :: "ustring \<Rightarrow> IdentifierError + unit" where
  "core_validate_identifier value = first_err
     [reject_if (trim value = []) IdentifierEmpty,
      reject_if (byte_len value > MAX_IDENTIFIER_LEN)
        (IdentifierTooLong (byte_len value) MAX_IDENTIFIER_LEN),
      reject_if (trim value \<noteq> value) IdentifierSurroundingWhitespace,
      reject_if (list_ex is_control value) IdentifierControlCharacter]"

definition new_identifier :: "ustring \<Rightarrow> IdentifierError + ustring" where
  "new_identifier value = and_then (core_validate_identifier value) (\<lambda>_. Ok value)"

type_synonym AgentId = ustring
type_synonym PrinterId = ustring
type_synonym PrintJobId = ustring
type_synonym ProductId = ustring

definition valid_identifier :: "ustring \<Rightarrow> bool" where
  "valid_identifier s \<longleftrightarrow>
     s \<noteq> [] \<and> byte_len s \<le> 128 \<and> trim s = s \<and> (\<forall>c \<in> set s. \<not> is_control c)"

lemma core_validate_identifier_Ok [checks]:
  "core_validate_identifier s = Ok u \<longleftrightarrow> valid_identifier s"
  by (auto simp: core_validate_identifier_def valid_identifier_def first_err_Ok
      MAX_IDENTIFIER_LEN_def list_ex_iff)

lemma new_identifier_Ok [checks]:
  "new_identifier s = Ok t \<longleftrightarrow> t = s \<and> valid_identifier s"
  by (auto simp: new_identifier_def and_then_Ok core_validate_identifier_Ok)

lemma new_identifier_idem:
  "new_identifier s = Ok t \<Longrightarrow> new_identifier t = Ok t"
  by (simp add: new_identifier_Ok)

section \<open>Instants\<close>

text \<open>An instant is a number of nanoseconds since the Unix epoch.\<close>

type_synonym Timestamp = int

definition timestamp_millis :: "Timestamp \<Rightarrow> int" where
  "timestamp_millis t = t div 1000000"

lemma timestamp_millis_mono: "t \<le> u \<Longrightarrow> timestamp_millis t \<le> timestamp_millis u"
  by (simp add: timestamp_millis_def zdiv_mono1)

section \<open>Life cycles\<close>

datatype CoreAgentState =
  CoreUnconfigured | CorePairing | CoreDisconnected | CoreConnecting | CoreConnected
| CoreDegraded | CoreShuttingDown

datatype JobState = Received | Submitting | Submitted | Failed | Cancelled

definition is_terminal :: "JobState \<Rightarrow> bool" where
  "is_terminal s \<longleftrightarrow> s \<in> {Submitted, Failed, Cancelled}"

lemma is_terminal_simps [simp]:
  "\<not> is_terminal Received" "\<not> is_terminal Submitting"
  "is_terminal Submitted" "is_terminal Failed" "is_terminal Cancelled"
  by (simp_all add: is_terminal_def)

datatype ErrorCategory =
  CategoryValidation | CategoryConnectivity | CategoryTimeout | CategoryAuthentication
| CategoryStorage | CategoryUnsupported | CategoryCancelled | CategoryInternal

end
