(* ===== verification/Wire_Validation.thy ===== *)
theory Wire_Validation
  imports Oppa_Core
begin

text \<open>
  The leaf validators of the wire protocol (\<open>crates/oppa-protocol\<close>: \<open>lib.rs\<close>,
  \<open>error.rs\<close>, \<open>validation.rs\<close>). A \<open>BTreeMap\<close> of metadata is the list of its entries in
  key order, which is the order the code iterates in.
\<close>

section \<open>Protocol constants\<close>

definition PROTOCOL_VERSION :: ustring where
  "PROTOCOL_VERSION = lit ''1''"

definition MAX_WIRE_MESSAGE_BYTES :: nat where
  "MAX_WIRE_MESSAGE_BYTES = 2 * 1024 * 1024"

definition MAX_AUTH_MESSAGE_BYTES :: nat where
  "MAX_AUTH_MESSAGE_BYTES = 16 * 1024"

definition MAX_DOCUMENT_SECTIONS :: nat where
  "MAX_DOCUMENT_SECTIONS = 256"

definition MAX_PRINTERS_PER_INVENTORY :: nat where
  "MAX_PRINTERS_PER_INVENTORY = 512"

definition MAX_IMAGE_BASE64_LENGTH :: nat where
  "MAX_IMAGE_BASE64_LENGTH = 1398104"

definition MAX_METADATA_ENTRIES :: nat where
  "MAX_METADATA_ENTRIES = 32"

definition MAX_PDF_DOCUMENT_BYTES :: nat where
  "MAX_PDF_DOCUMENT_BYTES = 20 * 1024 * 1024"

definition MAX_PDF_URL_BYTES :: nat where
  "MAX_PDF_URL_BYTES = 2048"

section \<open>Errors\<close>

record ValidationError =
  ve_path :: ustring
  ve_message :: ustring

definition ValidationError_new :: "ustring \<Rightarrow> ustring \<Rightarrow> ValidationError" where
  "ValidationError_new p m = \<lparr>ve_path = p, ve_message = m\<rparr>"

definition ValidationError_at :: "ustring \<Rightarrow> ValidationError \<Rightarrow> ValidationError" where
  "ValidationError_at pre e =
     e\<lparr>ve_path := (if ve_path e = [] then pre else pre @ lit ''.'' @ ve_path e)\<rparr>"

datatype ProtocolError =
  InvalidJson
| InvalidMessage ValidationError
| MessageTooLarge (message_actual: nat) (message_limit: nat)
| UnsupportedProtocolVersion (version_received: ustring) (version_supported: "ustring list")
| Encoding ustring

definition ProtocolError_code :: "ProtocolError \<Rightarrow> ustring" where
  "ProtocolError_code e = (case e of
     InvalidJson \<Rightarrow> lit ''invalid_json''
   | InvalidMessage _ \<Rightarrow> lit ''invalid_message''
   | MessageTooLarge _ _ \<Rightarrow> lit ''message_too_large''
   | UnsupportedProtocolVersion _ _ \<Rightarrow> lit ''unsupported_protocol_version''
   | Encoding _ \<Rightarrow> lit ''invalid_message'')"

type_synonym 'a validated = "ValidationError + 'a"

text \<open>\<open>check p m b\<close>: reject with the path and message when the condition holds.\<close>

abbreviation check :: "bool \<Rightarrow> ustring \<Rightarrow> ustring \<Rightarrow> unit validated" where
  "check b p m \<equiv> reject_if b (ValidationError_new p m)"

section \<open>Identifiers and strings\<close>

definition is_identifier_char :: "codepoint \<Rightarrow> bool" where
  "is_identifier_char c \<longleftrightarrow> is_ascii_alnum c \<or> c \<in> set (lit ''._:-'')"

fun validate_identifier :: "ustring \<Rightarrow> ustring \<Rightarrow> nat \<Rightarrow> unit validated" where
  "validate_identifier [] p m = Err (ValidationError_new p (lit ''must not be empty''))"
| "validate_identifier (first # characters) p m = first_err
     [check (utf16_count (first # characters) > m) p
        (lit ''must contain at most '' @ dec m @ lit '' UTF-16 code units''),
      check (\<not> is_ascii_alnum first \<or> \<not> list_all is_identifier_char characters) p
        (lit ''must use the documented identifier character set'')]"

definition validate_string :: "ustring \<Rightarrow> ustring \<Rightarrow> nat \<Rightarrow> nat \<Rightarrow> unit validated" where
  "validate_string value p mi ma = check (\<not> (mi \<le> utf16_count value \<and> utf16_count value \<le> ma)) p
     (lit ''must contain between '' @ dec mi @ lit '' and '' @ dec ma @ lit '' UTF-16 code units'')"

definition is_brand_unsafe_character :: "codepoint \<Rightarrow> bool" where
  "is_brand_unsafe_character c \<longleftrightarrow>
     c \<le> 0x1F \<or> (0x7F \<le> c \<and> c \<le> 0x9F) \<or> c = 0x061C \<or> c = 0x200E \<or> c = 0x200F \<or>
     (0x202A \<le> c \<and> c \<le> 0x202E) \<or> (0x2066 \<le> c \<and> c \<le> 0x2069)"

definition is_brand_edge_whitespace :: "codepoint \<Rightarrow> bool" where
  "is_brand_edge_whitespace c \<longleftrightarrow>
     c = 0x20 \<or> c = 0xA0 \<or> c = 0x1680 \<or> (0x2000 \<le> c \<and> c \<le> 0x200A) \<or> c = 0x2028 \<or>
     c = 0x2029 \<or> c = 0x202F \<or> c = 0x205F \<or> c = 0x3000 \<or> c = 0xFEFF"

definition validate_brand_name :: "ustring \<Rightarrow> ustring \<Rightarrow> unit validated" where
  "validate_brand_name value p = and_then (validate_string value p 1 256) (\<lambda>_.
     check ((value \<noteq> [] \<and> is_brand_edge_whitespace (hd value)) \<or>
            (value \<noteq> [] \<and> is_brand_edge_whitespace (last value)) \<or>
            list_ex is_brand_unsafe_character value) p
       (lit ''must not contain leading or trailing whitespace, control characters, or direction-formatting controls''))"

section \<open>Timestamps\<close>

text \<open>The two digits at \<open>start\<close>, as a number; \<open>checked_sub\<close> fails below the digit zero.\<close>

definition two_digits :: "nat list \<Rightarrow> nat \<Rightarrow> nat option" where
  "two_digits bytes start = (case (list_get bytes start, list_get bytes (start + 1)) of
     (Some h, Some l) \<Rightarrow>
       if h < 48 \<or> l < 48 then None
       else if h - 48 \<le> 9 \<and> l - 48 \<le> 9 then Some ((h - 48) * 10 + (l - 48)) else None
   | _ \<Rightarrow> None)"

definition within :: "nat \<Rightarrow> nat \<Rightarrow> nat option \<Rightarrow> bool" where
  "within lo hi n = (case n of Some k \<Rightarrow> lo \<le> k \<and> k \<le> hi | None \<Rightarrow> False)"

definition valid_timestamp_ranges :: "nat list \<Rightarrow> bool" where
  "valid_timestamp_ranges bytes \<longleftrightarrow>
     within 1 12 (two_digits bytes 5) \<and> within 1 31 (two_digits bytes 8) \<and>
     within 0 23 (two_digits bytes 11) \<and> within 0 59 (two_digits bytes 14) \<and>
     within 0 59 (two_digits bytes 17)"

definition validate_timestamp :: "ustring \<Rightarrow> ustring \<Rightarrow> unit validated" where
  "validate_timestamp value p = (let bytes = utf8_bytes value; n = length bytes in
     check (\<not> (n = 20 \<or> (22 \<le> n \<and> n \<le> 30)) \<or>
            list_get bytes 4 \<noteq> Some 45 \<or> list_get bytes 7 \<noteq> Some 45 \<or>
            list_get bytes 10 \<noteq> Some 84 \<or> list_get bytes 13 \<noteq> Some 58 \<or>
            list_get bytes 16 \<noteq> Some 58 \<or> list_get bytes (n - 1) \<noteq> Some 90 \<or>
            \<not> list_all (\<lambda>(i, b). (b = 46 \<and> i = 19) \<or> is_ascii_digit b)
                (filter (\<lambda>(i, _). i \<noteq> n - 1)
                  (filter (\<lambda>(i, _). i \<notin> {4, 7, 10, 13, 16}) (List.enumerate 0 bytes))) \<or>
            (n > 20 \<and> list_get bytes 19 \<noteq> Some 46) \<or>
            \<not> valid_timestamp_ranges bytes) p
       (lit ''must be a UTC RFC 3339 timestamp ending in Z''))"

section \<open>Metadata, base64, digests\<close>

type_synonym Metadata = "(ustring \<times> ustring) list"

definition validate_metadata :: "Metadata \<Rightarrow> ustring \<Rightarrow> unit validated" where
  "validate_metadata metadata p = first_err
     (check (length metadata > MAX_METADATA_ENTRIES) p
        (lit ''must contain at most '' @ dec MAX_METADATA_ENTRIES @ lit '' entries'')
      # concat (map (\<lambda>(key, value).
          [validate_identifier key (p @ lit ''.'' @ key) 64,
           validate_string value (p @ lit ''.'' @ key) 0 1024]) metadata))"

definition is_base64_byte :: "nat \<Rightarrow> bool" where
  "is_base64_byte b \<longleftrightarrow> is_ascii_alnum b \<or> b = 43 \<or> b = 47"

definition validate_base64 :: "ustring \<Rightarrow> ustring \<Rightarrow> unit validated" where
  "validate_base64 value p =
     (let bytes = utf8_bytes value; n = length bytes;
          padding = length (takeWhile (\<lambda>b. b = 61) (rev bytes));
          data_length = n - padding in first_err
     [check (n < 4 \<or> n mod 4 \<noteq> 0 \<or> \<not> list_all (\<lambda>c. c < 0x80) value) p
        (lit ''must be padded base64''),
      check (padding > 2) p (lit ''must be padded base64''),
      check (\<not> list_all is_base64_byte (take data_length bytes) \<or>
             \<not> list_all (\<lambda>b. b = 61) (drop data_length bytes)) p
        (lit ''must be padded base64'')])"

definition validate_sha256 :: "ustring \<Rightarrow> ustring \<Rightarrow> unit validated" where
  "validate_sha256 value p =
     (let bytes = utf8_bytes value in
      check (length bytes \<noteq> 64 \<or>
             \<not> list_all (\<lambda>b. is_ascii_digit b \<or> (97 \<le> b \<and> b \<le> 102)) bytes) p
        (lit ''must be 64 lowercase hexadecimal characters''))"

section \<open>What the leaf validators accept\<close>

named_theorems wire_checks \<open>acceptance conditions of the wire validators\<close>

definition identifier_shape :: "nat \<Rightarrow> ustring \<Rightarrow> bool" where
  "identifier_shape m s \<longleftrightarrow>
     s \<noteq> [] \<and> utf16_count s \<le> m \<and> is_ascii_alnum (hd s) \<and> (\<forall>c \<in> set s. is_identifier_char c)"

lemma validate_identifier_Ok [wire_checks]:
  "validate_identifier s p m = Ok u \<longleftrightarrow> identifier_shape m s"
  by (cases s) (auto simp: identifier_shape_def first_err_Ok list_all_iff is_identifier_char_def)

lemma validate_string_Ok [wire_checks]:
  "validate_string s p mi ma = Ok u \<longleftrightarrow> mi \<le> utf16_count s \<and> utf16_count s \<le> ma"
  by (simp add: validate_string_def)

lemma identifier_char_ascii: "is_identifier_char c \<Longrightarrow> c < 0x80"
  by (auto simp: is_identifier_char_def alnum_ascii lit_def)

lemma identifier_char_plain: "is_identifier_char c \<Longrightarrow> \<not> is_control c \<and> \<not> is_whitespace c"
proof (cases "is_ascii_alnum c")
  case True
  then show ?thesis by (simp add: alnum_not_control alnum_not_whitespace)
next
  case False
  moreover assume "is_identifier_char c"
  ultimately have "c \<in> {46, 95, 58, 45}" by (simp add: is_identifier_char_def lit_def)
  then show ?thesis by (auto simp: is_control_def is_whitespace_def)
qed

lemma identifier_shape_bytes: "identifier_shape m s \<Longrightarrow> byte_len s \<le> m"
proof -
  assume shape: "identifier_shape m s"
  then have "\<forall>c \<in> set s. c < 0x80" by (simp add: identifier_shape_def identifier_char_ascii)
  with shape show ?thesis
    by (simp only: byte_len_ascii utf16_count_ascii identifier_shape_def)
qed

text \<open>A protocol identifier is a local identifier as well.\<close>

lemma identifier_shape_local:
  assumes "identifier_shape m s" "m \<le> 128"
  shows "valid_identifier s"
proof -
  have "s \<noteq> []" and plain: "\<forall>c \<in> set s. \<not> is_control c \<and> \<not> is_whitespace c"
    using assms(1) by (auto simp: identifier_shape_def identifier_char_plain)
  then have "trim s = s" by (intro trim_id) auto
  moreover have "byte_len s \<le> 128" using identifier_shape_bytes [OF assms(1)] assms(2) by simp
  ultimately show ?thesis using \<open>s \<noteq> []\<close> plain by (simp add: valid_identifier_def)
qed

lemma validate_metadata_Ok [wire_checks]:
  "validate_metadata md p = Ok u \<longleftrightarrow>
     length md \<le> 32 \<and> (\<forall>(k, v) \<in> set md. identifier_shape 64 k \<and> utf16_count v \<le> 1024)"
  by (fastforce simp: validate_metadata_def first_err_Ok MAX_METADATA_ENTRIES_def
      validate_identifier_Ok validate_string_Ok)

definition is_hex_digit :: "codepoint \<Rightarrow> bool" where
  "is_hex_digit b \<longleftrightarrow> is_ascii_digit b \<or> (97 \<le> b \<and> b \<le> 102)"

lemma validate_sha256_Ok [wire_checks]:
  "validate_sha256 s p = Ok u \<longleftrightarrow> length s = 64 \<and> list_all is_hex_digit s"
proof -
  have hex: "\<And>b. is_hex_digit b \<Longrightarrow> b < 0x80"
    by (auto simp: is_hex_digit_def is_ascii_digit_def)
  have "list_all is_hex_digit s \<Longrightarrow> utf8_bytes s = s"
    by (intro utf8_bytes_ascii) (auto simp: list_all_iff hex)
  then show ?thesis
    using list_all_bytes [of is_hex_digit s] hex
    by (auto simp: validate_sha256_def Let_def is_hex_digit_def [abs_def])
qed

end
