(* ===== verification/Wire_Document.thy ===== *)
theory Wire_Document
  imports Wire_Validation
begin

text \<open>
  Documents and jobs of the wire protocol (\<open>crates/oppa-protocol\<close>: \<open>pdf.rs\<close>,
  \<open>document.rs\<close>, \<open>job.rs\<close>): the receipt primitives, the PDF reference with its print
  settings, and the validation each job passes before it is accepted.
\<close>

abbreviation at_path :: "ustring \<Rightarrow> 'a validated \<Rightarrow> 'a validated" where
  "at_path pre m \<equiv> map_err (ValidationError_at pre) m"

section \<open>PDF documents\<close>

definition MIN_COPIES :: "16 word" where "MIN_COPIES = 1"
definition MAX_COPIES :: "16 word" where "MAX_COPIES = 99"
definition MIN_CUSTOM_PAPER_MM :: "16 word" where "MIN_CUSTOM_PAPER_MM = 10"
definition MAX_CUSTOM_PAPER_MM :: "16 word" where "MAX_CUSTOM_PAPER_MM = 1000"
definition MIN_SCALE_PERCENT :: "16 word" where "MIN_SCALE_PERCENT = 10"
definition MAX_SCALE_PERCENT :: "16 word" where "MAX_SCALE_PERCENT = 400"
definition MAX_PAGE_RANGE_BYTES :: nat where "MAX_PAGE_RANGE_BYTES = 256"

text \<open>
  The three stages of the URL check: the scheme, which yields the rest of the URL; the authority;
  the characters of the whole.
\<close>

definition url_scheme :: "ustring \<Rightarrow> ustring \<Rightarrow> ustring validated" where
  "url_scheme value p = (case strip_prefix (lit ''https://'') value of
     Some rest \<Rightarrow> Ok rest
   | None \<Rightarrow> (case strip_prefix (lit ''http://'') value of
       Some rest \<Rightarrow>
         (let authority = hd (split_on (\<lambda>c. c = 47) rest);
              host = hd (split_on (\<lambda>c. c = 58) authority) in
          if host \<noteq> lit ''localhost'' \<and> host \<noteq> lit ''127.0.0.1''
          then Err (ValidationError_new p (lit ''plain HTTP is allowed only for loopback hosts''))
          else Ok rest)
     | None \<Rightarrow> Err (ValidationError_new p (lit ''must be an absolute HTTPS URL''))))"

definition url_authority :: "ustring \<Rightarrow> ustring \<Rightarrow> unit validated" where
  "url_authority rest p =
     (let authority = hd (split_on (\<lambda>c. c = 47 \<or> c = 63) rest);
          (host, port) = (case split_once 58 authority of
             Some (host, port) \<Rightarrow> (host, Some port) | None \<Rightarrow> (authority, None));
          host_valid = (host \<noteq> [] \<and>
            list_all (\<lambda>b. is_ascii_alnum b \<or> b = 45 \<or> b = 46) (utf8_bytes host));
          port_valid = (case port of None \<Rightarrow> True
            | Some d \<Rightarrow> d \<noteq> [] \<and> byte_len d \<le> 5 \<and> list_all is_ascii_digit (utf8_bytes d)) in
      check (\<not> host_valid \<or> \<not> port_valid) p
        (lit ''must contain a plain host name or IPv4 address without credentials''))"

definition validate_document_url :: "ustring \<Rightarrow> ustring \<Rightarrow> unit validated" where
  "validate_document_url value p =
     and_then (check (byte_len value > MAX_PDF_URL_BYTES) p
       (lit ''must contain at most '' @ dec MAX_PDF_URL_BYTES @ lit '' bytes'')) (\<lambda>_.
     and_then (url_scheme value p) (\<lambda>rest. first_err
       [url_authority rest p,
        check (list_ex (\<lambda>b. b \<le> 32 \<or> b = 0x7F \<or> b = 35) (utf8_bytes value)) p
          (lit ''must not contain whitespace, control characters, or a fragment''),
        validate_string value p 1 MAX_PDF_URL_BYTES]))"

datatype PdfSource =
  PdfUrl (pdf_url: ustring) (pdf_sha256: ustring) (pdf_byte_length: "64 word")

definition PdfSource_validate :: "PdfSource \<Rightarrow> unit validated" where
  "PdfSource_validate s = (case s of PdfUrl url sha256 byte_length \<Rightarrow> first_err
     [validate_document_url url (lit ''url''),
      validate_sha256 sha256 (lit ''sha256''),
      check (byte_length = 0 \<or> unat byte_length > MAX_PDF_DOCUMENT_BYTES) (lit ''byteLength'')
        (lit ''must be between 1 and '' @ dec MAX_PDF_DOCUMENT_BYTES @ lit '' bytes'')])"

datatype StandardPaperSize = A4 | A5 | Letter | Legal

record CustomPaperSize =
  width_mm :: "16 word"
  height_mm :: "16 word"

datatype PaperSize = StandardPaper StandardPaperSize | CustomPaper CustomPaperSize

definition validate_custom_mm :: "16 word \<Rightarrow> ustring \<Rightarrow> unit validated" where
  "validate_custom_mm value p =
     check (\<not> (MIN_CUSTOM_PAPER_MM \<le> value \<and> value \<le> MAX_CUSTOM_PAPER_MM)) p
       (lit ''must be between '' @ dec (unat MIN_CUSTOM_PAPER_MM) @ lit '' and '' @
        dec (unat MAX_CUSTOM_PAPER_MM) @ lit '' millimetres'')"

definition PaperSize_validate :: "PaperSize \<Rightarrow> unit validated" where
  "PaperSize_validate s = (case s of
     StandardPaper _ \<Rightarrow> Ok ()
   | CustomPaper custom \<Rightarrow> first_err
       [validate_custom_mm (width_mm custom) (lit ''widthMm''),
        validate_custom_mm (height_mm custom) (lit ''heightMm'')])"

datatype Orientation = Portrait | Landscape

datatype Scaling = Fit | Actual | Percent "16 word"

definition Scaling_validate :: "Scaling \<Rightarrow> unit validated" where
  "Scaling_validate s = (case s of
     Percent percent \<Rightarrow>
       check (\<not> (MIN_SCALE_PERCENT \<le> percent \<and> percent \<le> MAX_SCALE_PERCENT)) (lit ''percent'')
         (lit ''must be between '' @ dec (unat MIN_SCALE_PERCENT) @ lit '' and '' @
          dec (unat MAX_SCALE_PERCENT) @ lit '' percent'')
   | _ \<Rightarrow> Ok ())"

datatype Duplex = Simplex | LongEdge | ShortEdge

record PrintSettings =
  set_copies :: "16 word option"
  set_paper :: "PaperSize option"
  set_orientation :: "Orientation option"
  set_scaling :: "Scaling option"
  set_page_ranges :: "ustring option"
  set_duplex :: "Duplex option"

definition PrintSettings_default :: PrintSettings where
  "PrintSettings_default = \<lparr>set_copies = None, set_paper = None, set_orientation = None,
     set_scaling = None, set_page_ranges = None, set_duplex = None\<rparr>"

definition effective_copies :: "PrintSettings \<Rightarrow> 16 word" where
  "effective_copies s = (case set_copies s of Some n \<Rightarrow> n | None \<Rightarrow> MIN_COPIES)"

definition effective_duplex :: "PrintSettings \<Rightarrow> Duplex" where
  "effective_duplex s = (case set_duplex s of Some d \<Rightarrow> d | None \<Rightarrow> Simplex)"

definition page_range_error :: "string \<Rightarrow> ValidationError" where
  "page_range_error m = ValidationError_new (lit ''pageRanges'') (lit m)"

definition parse_page_number :: "ustring \<Rightarrow> nat validated" where
  "parse_page_number value =
     (let malformed = page_range_error
            ''must contain comma-separated page numbers or ascending dash ranges'' in
      and_then (reject_if (value = [] \<or> byte_len value > 5 \<or>
                           \<not> list_all is_ascii_digit (utf8_bytes value)) malformed) (\<lambda>_.
      and_then (ok_or malformed (parse_unsigned 32 value)) (\<lambda>number.
      and_then (reject_if (number = 0) (page_range_error ''page numbers start at 1'')) (\<lambda>_.
      Ok number))))"

definition validate_page_range :: "ustring \<Rightarrow> unit validated" where
  "validate_page_range part =
     (let (start, end') = (case split_once 45 part of
            Some (s, e) \<Rightarrow> (s, e) | None \<Rightarrow> (part, part)) in
      and_then (parse_page_number start) (\<lambda>s.
      and_then (parse_page_number end') (\<lambda>e.
      reject_if (s > e)
        (page_range_error ''ranges must ascend from the first page to the last page''))))"

definition validate_page_ranges :: "ustring \<Rightarrow> unit validated" where
  "validate_page_ranges value =
     and_then (check (value = [] \<or> byte_len value > MAX_PAGE_RANGE_BYTES) (lit ''pageRanges'')
       (lit ''must contain between 1 and '' @ dec MAX_PAGE_RANGE_BYTES @ lit '' bytes'')) (\<lambda>_.
     first_err (map validate_page_range (split_on (\<lambda>c. c = 44) value)))"

definition PrintSettings_validate :: "PrintSettings \<Rightarrow> unit validated" where
  "PrintSettings_validate s = first_err
     [if_some (set_copies s) (\<lambda>copies.
        check (\<not> (MIN_COPIES \<le> copies \<and> copies \<le> MAX_COPIES)) (lit ''copies'')
          (lit ''must be between '' @ dec (unat MIN_COPIES) @ lit '' and '' @
           dec (unat MAX_COPIES))),
      if_some (set_paper s) (\<lambda>paper. at_path (lit ''paper'') (PaperSize_validate paper)),
      if_some (set_scaling s) (\<lambda>scaling. at_path (lit ''scaling'') (Scaling_validate scaling)),
      if_some (set_page_ranges s) validate_page_ranges]"

record PdfDocument =
  pdf_source :: PdfSource
  pdf_settings :: "PrintSettings option"

definition PdfDocument_validate :: "PdfDocument \<Rightarrow> unit validated" where
  "PdfDocument_validate d = first_err
     [at_path (lit ''source'') (PdfSource_validate (pdf_source d)),
      if_some (pdf_settings d) (\<lambda>settings.
        at_path (lit ''settings'') (PrintSettings_validate settings))]"

section \<open>Receipt documents\<close>

datatype ReceiptWidth = Mm58 | Mm80

fun millimetres :: "ReceiptWidth \<Rightarrow> 16 word" where
  "millimetres Mm58 = 58"
| "millimetres Mm80 = 80"

text \<open>The visitor behind \<open>Deserialize\<close>: the two widths, and nothing else.\<close>

definition visit_width :: "64 word \<Rightarrow> ustring + ReceiptWidth" where
  "visit_width value =
     (if value = 58 then Ok Mm58 else if value = 80 then Ok Mm80
      else Err (lit ''receipt width must be 58 or 80''))"

lemma visit_width_millimetres: "visit_width (ucast (millimetres w)) = Ok w"
  by (cases w) (simp_all add: visit_width_def)

datatype TextAlignment = AlignLeft | AlignCenter | AlignRight
datatype ImageMediaType = Png | Jpeg
datatype BarcodeFormat = Code128 | Code39 | Ean13 | Upca

datatype PrintSection =
  TextSection ustring "TextAlignment option" "bool option"
| RowSection ustring ustring
| DividerSection
| ImageSection ImageMediaType ustring
| QrSection ustring
| BarcodeSection BarcodeFormat ustring
| FeedSection "8 word"
| CutSection

fun PrintSection_validate :: "PrintSection \<Rightarrow> unit validated" where
  "PrintSection_validate (TextSection value align bold) =
     validate_string value (lit ''value'') 0 16384"
| "PrintSection_validate (RowSection left right) = first_err
     [validate_string left (lit ''left'') 0 4096, validate_string right (lit ''right'') 0 4096]"
| "PrintSection_validate DividerSection = Ok ()"
| "PrintSection_validate CutSection = Ok ()"
| "PrintSection_validate (ImageSection media data) = first_err
     [validate_string data (lit ''data'') 4 MAX_IMAGE_BASE64_LENGTH,
      validate_base64 data (lit ''data'')]"
| "PrintSection_validate (QrSection value) = validate_string value (lit ''value'') 1 4096"
| "PrintSection_validate (BarcodeSection format value) = first_err
     [validate_string value (lit ''value'') 1 256,
      check (\<not> list_all (\<lambda>b. 32 \<le> b \<and> b \<le> 126) (utf8_bytes value)) (lit ''value'')
        (lit ''must contain printable ASCII only'')]"
| "PrintSection_validate (FeedSection lines) =
     check (lines = 0) (lit ''lines'') (lit ''must be between 1 and 255'')"

record PrintDocument =
  doc_width :: ReceiptWidth
  doc_sections :: "PrintSection list"

definition PrintDocument_validate :: "PrintDocument \<Rightarrow> unit validated" where
  "PrintDocument_validate d = first_err
     (check (doc_sections d = [] \<or> length (doc_sections d) > MAX_DOCUMENT_SECTIONS)
        (lit ''sections'')
        (lit ''must contain between 1 and '' @ dec MAX_DOCUMENT_SECTIONS @ lit '' sections'')
      # map (\<lambda>(index, section). at_path (lit ''sections.'' @ dec index)
               (PrintSection_validate section)) (List.enumerate 0 (doc_sections d)))"

datatype JobDocument = ReceiptJob PrintDocument | PdfJob PdfDocument

fun format_name :: "JobDocument \<Rightarrow> ustring" where
  "format_name (ReceiptJob _) = lit ''receipt''"
| "format_name (PdfJob _) = lit ''pdf''"

fun is_pdf :: "JobDocument \<Rightarrow> bool" where
  "is_pdf (ReceiptJob _) = False"
| "is_pdf (PdfJob _) = True"

fun JobDocument_validate :: "JobDocument \<Rightarrow> unit validated" where
  "JobDocument_validate (ReceiptJob d) = PrintDocument_validate d"
| "JobDocument_validate (PdfJob d) = PdfDocument_validate d"

section \<open>Print jobs\<close>

record PrintJob =
  job_id :: ustring
  idempotency_key :: ustring
  printer_id :: ustring
  created_at :: ustring
  document :: JobDocument
  metadata :: "Metadata option"

definition PrintJob_validate :: "PrintJob \<Rightarrow> unit validated" where
  "PrintJob_validate j = first_err
     [validate_identifier (job_id j) (lit ''jobId'') 128,
      validate_string (idempotency_key j) (lit ''idempotencyKey'') 1 256,
      validate_identifier (printer_id j) (lit ''printerId'') 128,
      validate_timestamp (created_at j) (lit ''createdAt''),
      at_path (lit ''document'') (JobDocument_validate (document j)),
      if_some (metadata j) (\<lambda>m. validate_metadata m (lit ''metadata''))]"

section \<open>What the document validators accept\<close>

lemma parse_page_number_Ok [wire_checks]:
  "parse_page_number s = Ok n \<longleftrightarrow>
     s \<noteq> [] \<and> length s \<le> 5 \<and> list_all is_ascii_digit s \<and> n = digits_value s \<and> 0 < n"
proof -
  have bytes: "list_all is_ascii_digit (utf8_bytes s) \<longleftrightarrow> list_all is_ascii_digit s"
    by (rule list_all_bytes) (simp add: is_ascii_digit_def)
  have ascii: "list_all is_ascii_digit s \<Longrightarrow> byte_len s = length s"
    by (rule byte_len_ascii) (auto simp: list_all_iff is_ascii_digit_def)
  have parse: "parse_unsigned 32 s = Some (digits_value s)"
    if "s \<noteq> []" "length s \<le> 5" "list_all is_ascii_digit s"
  proof -
    have "hd s \<noteq> 43" using that by (cases s) (auto simp: is_ascii_digit_def)
    moreover have "digits_value s < 2 ^ 32"
    proof -
      have "digits_value s < 10 ^ length s" by (rule digits_value_bound [OF that(3)])
      also have "\<dots> \<le> 10 ^ 5" using that(2) by (intro power_increasing) auto
      finally show ?thesis by simp
    qed
    ultimately show ?thesis using that by (cases s) (auto simp: parse_unsigned_def)
  qed
  show ?thesis
    by (auto simp: parse_page_number_def Let_def and_then_Ok bytes ascii parse)
qed

text \<open>The URLs a PDF may be fetched from, as a grammar.\<close>

definition is_host_char :: "codepoint \<Rightarrow> bool" where
  "is_host_char c \<longleftrightarrow> is_ascii_alnum c \<or> c = 45 \<or> c = 46"

definition allowed_scheme :: "ustring \<Rightarrow> ustring \<Rightarrow> ustring \<Rightarrow> ustring \<Rightarrow> bool" where
  "allowed_scheme scheme host port tail \<longleftrightarrow>
     scheme = lit ''https://'' \<or>
     (scheme = lit ''http://'' \<and> host \<in> {lit ''localhost'', lit ''127.0.0.1''} \<and>
      (port = [] \<and> tail \<noteq> [] \<longrightarrow> hd tail = 47))"

lemma url_bytes_plain:
  "list_ex (\<lambda>b. b \<le> 32 \<or> b = 0x7F \<or> b = 35) (utf8_bytes v) \<longleftrightarrow>
   list_ex (\<lambda>b. b \<le> 32 \<or> b = 0x7F \<or> b = 35) v"
proof (induction v)
  case (Cons c v)
  have "list_ex (\<lambda>b. b \<le> 32 \<or> b = 0x7F \<or> b = 35) (utf8_encode c) \<longleftrightarrow>
      c \<le> 32 \<or> c = 0x7F \<or> c = 35"
    by (simp add: utf8_encode_def)
  with Cons show ?case by simp
qed simp

lemma takeWhile_stop:
  assumes "list_all P xs" "ys = [] \<or> \<not> P (hd ys)"
  shows "takeWhile P (xs @ ys) = xs"
  using assms by (induction xs) (auto, cases ys, auto)

lemma takeWhile_nested:
  "takeWhile P (takeWhile Q xs) = takeWhile (\<lambda>x. P x \<and> Q x) xs"
  by (induction xs) auto


definition host_ok :: "ustring \<Rightarrow> bool" where
  "host_ok host \<longleftrightarrow> host \<noteq> [] \<and> list_all is_host_char host"

definition port_ok :: "ustring \<Rightarrow> bool" where
  "port_ok d \<longleftrightarrow> d \<noteq> [] \<and> length d \<le> 5 \<and> list_all is_ascii_digit d"

definition url_parts :: "ustring \<Rightarrow> ustring \<Rightarrow> ustring \<Rightarrow> ustring \<Rightarrow> bool" where
  "url_parts rest host port tail \<longleftrightarrow> rest = host @ port @ tail \<and> host_ok host \<and>
     (port = [] \<or> (\<exists>d. port = 58 # d \<and> port_ok d)) \<and> (tail = [] \<or> hd tail \<in> {47, 63})"

lemma host_ok_code:
  "host \<noteq> [] \<and> list_all (\<lambda>b. is_ascii_alnum b \<or> b = 45 \<or> b = 46) (utf8_bytes host) \<longleftrightarrow> host_ok host"
proof -
  have "is_host_char c \<Longrightarrow> c < 0x80" for c by (auto simp: is_host_char_def alnum_ascii)
  then have "list_all is_host_char (utf8_bytes host) \<longleftrightarrow> list_all is_host_char host"
    by (rule list_all_bytes)
  then show ?thesis by (simp add: host_ok_def is_host_char_def [abs_def])
qed

lemma port_ok_code:
  "d \<noteq> [] \<and> byte_len d \<le> 5 \<and> list_all is_ascii_digit (utf8_bytes d) \<longleftrightarrow> port_ok d"
proof -
  have "list_all is_ascii_digit (utf8_bytes d) \<longleftrightarrow> list_all is_ascii_digit d"
    by (rule list_all_bytes) (simp add: is_ascii_digit_def)
  moreover have "list_all is_ascii_digit d \<Longrightarrow> byte_len d = length d"
    by (rule byte_len_ascii) (auto simp: list_all_iff is_ascii_digit_def)
  ultimately show ?thesis by (auto simp: port_ok_def)
qed

lemma host_char_plain: "is_host_char c \<Longrightarrow> c \<noteq> 47 \<and> c \<noteq> 63 \<and> c \<noteq> 58"
  by (auto simp: is_host_char_def is_ascii_alnum_def is_ascii_digit_def is_ascii_upper_def
      is_ascii_lower_def)

lemma digit_plain: "is_ascii_digit c \<Longrightarrow> c \<noteq> 47 \<and> c \<noteq> 63 \<and> c \<noteq> 58"
  by (auto simp: is_ascii_digit_def)

lemma url_parts_authority:
  assumes "url_parts rest host port tail"
  shows "takeWhile (\<lambda>c. c \<noteq> 47 \<and> c \<noteq> 63) rest = host @ port"
proof -
  have "list_all (\<lambda>c. c \<noteq> 47 \<and> c \<noteq> 63) (host @ port)"
    using assms
    by (fastforce simp: url_parts_def host_ok_def port_ok_def list_all_iff
        dest: host_char_plain digit_plain)
  then have "takeWhile (\<lambda>c. c \<noteq> 47 \<and> c \<noteq> 63) ((host @ port) @ tail) = host @ port"
    by (rule takeWhile_stop) (use assms in \<open>auto simp: url_parts_def\<close>)
  with assms show ?thesis by (simp add: url_parts_def)
qed

lemma url_parts_split:
  assumes "url_parts rest host port tail"
  shows "(case split_once 58 (host @ port) of Some (h, d) \<Rightarrow> (h, Some d) | None \<Rightarrow> (host @ port, None))
     = (host, if port = [] then None else Some (tl port))"
proof -
  have host: "58 \<notin> set host"
    using assms host_char_plain by (auto simp: url_parts_def host_ok_def list_all_iff)
  show ?thesis
  proof (cases "port = []")
    case True
    then show ?thesis using host by (simp add: split_once_None [THEN iffD2])
  next
    case False
    then obtain d where "port = 58 # d" using assms by (auto simp: url_parts_def)
    then have "split_once 58 (host @ port) = Some (host, d)" using host by (simp add: split_once_Some)
    then show ?thesis using \<open>port = 58 # d\<close> by simp
  qed
qed

text \<open>The checks of the authority succeed exactly when the rest of the URL has such parts.\<close>

lemma url_parts_iff:
  fixes rest
  defines "authority \<equiv> takeWhile (\<lambda>c. c \<noteq> 47 \<and> c \<noteq> 63) rest"
  defines "hp \<equiv> (case split_once 58 authority of Some (h, d) \<Rightarrow> (h, Some d) | None \<Rightarrow> (authority, None))"
  shows "host_ok (fst hp) \<and> (\<forall>d. snd hp = Some d \<longrightarrow> port_ok d) \<longleftrightarrow>
     (\<exists>port tail. url_parts rest (fst hp) port tail)"
proof
  assume ok: "host_ok (fst hp) \<and> (\<forall>d. snd hp = Some d \<longrightarrow> port_ok d)"
  define tail where "tail = dropWhile (\<lambda>c. c \<noteq> 47 \<and> c \<noteq> 63) rest"
  have rest: "rest = authority @ tail"
    unfolding authority_def tail_def by (rule takeWhile_dropWhile_id [symmetric])
  have tail: "tail = [] \<or> hd tail \<in> {47, 63}"
    using hd_dropWhile [of "\<lambda>c. c \<noteq> 47 \<and> c \<noteq> 63" rest] unfolding tail_def by blast
  show "\<exists>port tail. url_parts rest (fst hp) port tail"
  proof (cases "split_once 58 authority")
    case None
    then have "url_parts rest (fst hp) [] tail"
      using ok rest tail by (simp add: url_parts_def hp_def)
    then show ?thesis by blast
  next
    case (Some x)
    then obtain h d where hd: "split_once 58 authority = Some (h, d)" by (cases x) auto
    then have "url_parts rest (fst hp) (58 # d) tail"
      using ok rest tail split_once_Some [of 58 authority h d] by (simp add: url_parts_def hp_def)
    then show ?thesis by blast
  qed
next
  assume "\<exists>port tail. url_parts rest (fst hp) port tail"
  then obtain host port tail where host: "host = fst hp" and parts: "url_parts rest host port tail"
    by blast
  have auth: "authority = host @ port"
    unfolding authority_def by (rule url_parts_authority [OF parts])
  have "hp = (host, if port = [] then None else Some (tl port))"
    unfolding hp_def auth by (rule url_parts_split [OF parts])
  then have "snd hp = (if port = [] then None else Some (tl port))" by simp
  then show "host_ok (fst hp) \<and> (\<forall>d. snd hp = Some d \<longrightarrow> port_ok d)"
    unfolding host [symmetric] using parts by (auto simp: url_parts_def)
qed

lemma url_parts_loopback:
  assumes "url_parts rest host port tail"
  shows "hd (split_on (\<lambda>c. c = 58) (hd (split_on (\<lambda>c. c = 47) rest))) =
    (if port = [] \<and> tail \<noteq> [] \<and> hd tail = 63
     then host @ takeWhile (\<lambda>c. c \<noteq> 58 \<and> c \<noteq> 47) tail else host)"
proof -
  have tw: "hd (split_on (\<lambda>c. c = 58) (hd (split_on (\<lambda>c. c = 47) rest))) =
      takeWhile (\<lambda>c. c \<noteq> 58 \<and> c \<noteq> 47) rest"
    by (simp add: hd_split_on takeWhile_nested)
  have host: "list_all (\<lambda>c. c \<noteq> 58 \<and> c \<noteq> 47) host"
    using assms by (auto simp: url_parts_def host_ok_def list_all_iff dest: host_char_plain)
  have rest: "rest = host @ (port @ tail)" using assms by (simp add: url_parts_def)
  show ?thesis
  proof (cases "port = [] \<and> tail \<noteq> [] \<and> hd tail = 63")
    case True
    then have "takeWhile (\<lambda>c. c \<noteq> 58 \<and> c \<noteq> 47) rest = host @ takeWhile (\<lambda>c. c \<noteq> 58 \<and> c \<noteq> 47) tail"
      using host rest by (simp add: list_all_iff takeWhile_append2)
    with True tw show ?thesis by simp
  next
    case False
    then have "port @ tail = [] \<or> \<not> (hd (port @ tail) \<noteq> 58 \<and> hd (port @ tail) \<noteq> 47)"
      using assms by (auto simp: url_parts_def)
    from takeWhile_stop [OF host this] have "takeWhile (\<lambda>c. c \<noteq> 58 \<and> c \<noteq> 47) rest = host"
      unfolding rest .
    with tw show ?thesis unfolding if_not_P [OF False] by (rule trans)
  qed
qed


lemma loopback_literals:
  "63 \<notin> set (lit ''localhost'')" "63 \<notin> set (lit ''127.0.0.1'')"
  by (simp_all add: lit_def)

lemma http_loopback_iff:
  assumes "url_parts rest host port tail"
  shows "hd (split_on (\<lambda>c. c = 58) (hd (split_on (\<lambda>c. c = 47) rest))) \<in> {lit ''localhost'', lit ''127.0.0.1''}
     \<longleftrightarrow> host \<in> {lit ''localhost'', lit ''127.0.0.1''} \<and> (port = [] \<and> tail \<noteq> [] \<longrightarrow> hd tail = 47)"
proof (cases "port = [] \<and> tail \<noteq> [] \<and> hd tail = 63")
  case True
  then obtain t where "tail = 63 # t" by (cases tail) auto
  have "x \<notin> {lit ''localhost'', lit ''127.0.0.1''}" if "63 \<in> set x" for x
    using loopback_literals that by auto
  then have "host @ takeWhile (\<lambda>c. c \<noteq> 58 \<and> c \<noteq> 47) tail \<notin> {lit ''localhost'', lit ''127.0.0.1''}"
    using \<open>tail = 63 # t\<close> by auto
  then show ?thesis using True by (simp add: url_parts_loopback [OF assms])
next
  case False
  moreover have "tail \<noteq> [] \<longrightarrow> hd tail = 47 \<or> hd tail = 63"
    using assms by (auto simp: url_parts_def)
  ultimately show ?thesis by (auto simp: url_parts_loopback [OF assms])
qed


definition allowed_document_url :: "ustring \<Rightarrow> bool" where
  "allowed_document_url v \<longleftrightarrow>
     byte_len v \<le> 2048 \<and> (\<forall>c \<in> set v. 32 < c \<and> c \<noteq> 0x7F \<and> c \<noteq> 35) \<and>
     (\<exists>scheme rest host port tail. v = scheme @ rest \<and> url_parts rest host port tail \<and>
        allowed_scheme scheme host port tail)"

lemma scheme_distinct: "lit ''https://'' @ x \<noteq> lit ''http://'' @ y"
  by (simp add: lit_def)

lemma allowed_https:
  "allowed_document_url (lit ''https://'' @ rest) \<longleftrightarrow>
     byte_len (lit ''https://'' @ rest) \<le> 2048 \<and>
     (\<forall>c \<in> set (lit ''https://'' @ rest). 32 < c \<and> c \<noteq> 0x7F \<and> c \<noteq> 35) \<and>
     (\<exists>host port tail. url_parts rest host port tail)"
proof -
  have "(\<exists>scheme r host port tail. lit ''https://'' @ rest = scheme @ r \<and>
      url_parts r host port tail \<and> allowed_scheme scheme host port tail) \<longleftrightarrow>
      (\<exists>host port tail. url_parts rest host port tail)" (is "?L \<longleftrightarrow> ?R")
  proof
    assume ?L then show ?R by (auto simp: allowed_scheme_def scheme_distinct)
  next
    assume ?R then show ?L unfolding allowed_scheme_def by blast
  qed
  then show ?thesis by (simp only: allowed_document_url_def)
qed

lemma allowed_http:
  "allowed_document_url (lit ''http://'' @ rest) \<longleftrightarrow>
     byte_len (lit ''http://'' @ rest) \<le> 2048 \<and>
     (\<forall>c \<in> set (lit ''http://'' @ rest). 32 < c \<and> c \<noteq> 0x7F \<and> c \<noteq> 35) \<and>
     (\<exists>host port tail. url_parts rest host port tail) \<and>
     hd (split_on (\<lambda>c. c = 58) (hd (split_on (\<lambda>c. c = 47) rest))) \<in> {lit ''localhost'', lit ''127.0.0.1''}"
proof -
  have "(\<exists>scheme r host port tail. lit ''http://'' @ rest = scheme @ r \<and>
      url_parts r host port tail \<and> allowed_scheme scheme host port tail) \<longleftrightarrow>
      (\<exists>host port tail. url_parts rest host port tail) \<and>
      hd (split_on (\<lambda>c. c = 58) (hd (split_on (\<lambda>c. c = 47) rest)))
        \<in> {lit ''localhost'', lit ''127.0.0.1''}" (is "?L \<longleftrightarrow> ?R")
  proof
    assume ?L
    then obtain host port tail where parts: "url_parts rest host port tail"
        "host \<in> {lit ''localhost'', lit ''127.0.0.1''}" "port = [] \<and> tail \<noteq> [] \<longrightarrow> hd tail = 47"
      unfolding allowed_scheme_def using scheme_distinct [THEN not_sym] by auto
    then show ?R using http_loopback_iff [OF parts(1)] by blast
  next
    assume ?R then show ?L unfolding allowed_scheme_def using http_loopback_iff by blast
  qed
  then show ?thesis by (simp only: allowed_document_url_def)
qed

lemma url_authority_Ok:
  "url_authority rest p = Ok () \<longleftrightarrow> (\<exists>host port tail. url_parts rest host port tail)"
proof -
  let ?a = "takeWhile (\<lambda>c. c \<noteq> 47 \<and> c \<noteq> 63) rest"
  define hp where "hp = (case split_once 58 ?a of Some (h, d) \<Rightarrow> (h, Some d) | None \<Rightarrow> (?a, None))"
  obtain h d where hd: "hp = (h, d)" by (cases hp)
  have auth: "hd (split_on (\<lambda>c. c = 47 \<or> c = 63) rest) = ?a" by (simp add: hd_split_on)
  have parts: "host_ok h \<and> (\<forall>x. d = Some x \<longrightarrow> port_ok x) \<longleftrightarrow> (\<exists>port tail. url_parts rest h port tail)"
    using url_parts_iff [of rest] unfolding hp_def [symmetric] hd by simp
  have unique: "host = h" if p: "url_parts rest host port tail" for host port tail
  proof -
    have "hp = (host, if port = [] then None else Some (tl port))"
      unfolding hp_def url_parts_authority [OF p] by (rule url_parts_split [OF p])
    then show ?thesis using hd by simp
  qed
  have port: "(case d of None \<Rightarrow> True
      | Some d \<Rightarrow> d \<noteq> [] \<and> byte_len d \<le> 5 \<and> list_all is_ascii_digit (utf8_bytes d)) \<longleftrightarrow>
      (\<forall>x. d = Some x \<longrightarrow> port_ok x)"
    by (simp add: port_ok_code [symmetric] split: option.splits)
  have "url_authority rest p = Ok () \<longleftrightarrow> host_ok h \<and> (\<forall>x. d = Some x \<longrightarrow> port_ok x)"
    unfolding url_authority_def Let_def auth hp_def [symmetric] hd prod.case host_ok_code port
    by simp
  then show ?thesis using parts unique by blast
qed

lemma document_url_accepted_iff:
  "validate_document_url v p = Ok () \<longleftrightarrow> allowed_document_url v"
proof -
  have plain: "\<not> list_ex (\<lambda>b. b \<le> 32 \<or> b = 0x7F \<or> b = 35) (utf8_bytes v) \<longleftrightarrow>
      (\<forall>c \<in> set v. 32 < c \<and> c \<noteq> 0x7F \<and> c \<noteq> 35)"
    unfolding url_bytes_plain by (induction v) (simp_all add: not_le conj_ac)
  have len: "byte_len v \<le> 2048 \<Longrightarrow> utf16_count v \<le> 2048"
    using utf16_count_le_byte_len [of v] by simp
  have code: "validate_document_url v p = Ok () \<longleftrightarrow> byte_len v \<le> 2048 \<and>
      (\<forall>c \<in> set v. 32 < c \<and> c \<noteq> 0x7F \<and> c \<noteq> 35) \<and> 1 \<le> utf16_count v \<and>
      (\<exists>rest. url_scheme v p = Ok rest \<and> (\<exists>host port tail. url_parts rest host port tail))"
    unfolding plain [symmetric] using len
    by (auto simp: validate_document_url_def and_then_Ok first_err_Ok validate_string_Ok
        url_authority_Ok MAX_PDF_URL_BYTES_def)
  consider (https) rest where "v = lit ''https://'' @ rest"
    | (http) rest where "v = lit ''http://'' @ rest"
    | (other) "\<not> prefix (lit ''https://'') v" "\<not> prefix (lit ''http://'') v"
    by (auto simp: prefix_def)
  then show ?thesis
  proof cases
    case https
    then have "strip_prefix (lit ''https://'') v = Some rest" by simp
    then have scheme: "url_scheme v p = Ok rest" by (simp only: url_scheme_def option.case)
    have pos: "1 \<le> utf16_count v" using https by (simp add: lit_def)
    show ?thesis
      unfolding code scheme allowed_https [of rest, folded https] using pos by simp
  next
    case http
    let ?loopback = "hd (split_on (\<lambda>c. c = 58) (hd (split_on (\<lambda>c. c = 47) rest)))
      \<in> {lit ''localhost'', lit ''127.0.0.1''}"
    have strip: "strip_prefix (lit ''http://'') v = Some rest" "strip_prefix (lit ''https://'') v = None"
      using http scheme_distinct [THEN not_sym] by (simp_all add: strip_prefix_None prefix_def)
    then have scheme: "url_scheme v p = Ok r \<longleftrightarrow> r = rest \<and> ?loopback" for r
      unfolding url_scheme_def strip option.case Let_def by auto
    have pos: "1 \<le> utf16_count v" using http by (simp add: lit_def)
    show ?thesis
      unfolding code scheme allowed_http [of rest, folded http] using pos by blast
  next
    case other
    have "\<not> allowed_document_url v"
    proof
      assume "allowed_document_url v"
      then obtain scheme rest where "v = scheme @ rest"
          "scheme = lit ''https://'' \<or> scheme = lit ''http://''"
        unfolding allowed_document_url_def allowed_scheme_def by blast
      with other show False by auto
    qed
    moreover have "url_scheme v p \<noteq> Ok r" for r
      by (simp add: url_scheme_def strip_prefix_def other)
    ultimately show ?thesis unfolding code by blast
  qed
qed

text \<open>Page-range expressions: what a part denotes.\<close>

definition page_number :: "ustring \<Rightarrow> nat \<Rightarrow> bool" where
  "page_number s n \<longleftrightarrow>
     s \<noteq> [] \<and> length s \<le> 5 \<and> list_all is_ascii_digit s \<and> n = digits_value s \<and> 0 < n"

definition page_range :: "ustring \<Rightarrow> nat \<Rightarrow> nat \<Rightarrow> bool" where
  "page_range part a b \<longleftrightarrow> a \<le> b \<and>
     (page_number part a \<and> b = a \<or>
      (\<exists>s e. part = s @ 45 # e \<and> page_number s a \<and> page_number e b))"

lemma page_number_no_dash: "page_number s n \<Longrightarrow> 45 \<notin> set s"
  by (auto simp: page_number_def list_all_iff is_ascii_digit_def)

lemma page_number_bound: "page_number s n \<Longrightarrow> n \<le> 99999"
proof -
  assume n: "page_number s n"
  then have "n < 10 ^ length s" using digits_value_bound [of s] by (simp add: page_number_def)
  also have "\<dots> \<le> 10 ^ 5" using n by (intro power_increasing) (auto simp: page_number_def)
  finally show ?thesis by simp
qed

lemma validate_page_range_Ok [wire_checks]:
  "validate_page_range part = Ok () \<longleftrightarrow> (\<exists>a b. page_range part a b)"
proof (cases "split_once 45 part")
  case None
  then have "45 \<notin> set part" by (simp add: split_once_None)
  then show ?thesis
    by (auto simp: validate_page_range_def None and_then_Ok parse_page_number_Ok
        page_range_def page_number_def)
next
  case (Some x)
  then obtain s e where se: "split_once 45 part = Some (s, e)" by (cases x) auto
  then have part: "part = s @ 45 # e" "45 \<notin> set s" by (simp_all add: split_once_Some)
  have "page_range part a b \<longleftrightarrow> page_number s a \<and> page_number e b \<and> a \<le> b" for a b
  proof -
    have "\<not> page_number part a" using page_number_no_dash part(1) by fastforce
    moreover have "s' = s \<and> e' = e" if "part = s' @ 45 # e'" "page_number s' a" for s' e'
      using that se page_number_no_dash split_once_Some [of 45 part s' e'] by auto
    ultimately show ?thesis unfolding page_range_def using part(1) by blast
  qed
  then show ?thesis
    by (auto simp: validate_page_range_def se and_then_Ok parse_page_number_Ok page_number_def)
qed

lemma validate_page_ranges_Ok [wire_checks]:
  "validate_page_ranges v = Ok () \<longleftrightarrow> v \<noteq> [] \<and> byte_len v \<le> 256 \<and>
     (\<forall>part \<in> set (split_on (\<lambda>c. c = 44) v). \<exists>a b. page_range part a b)"
  by (auto simp: validate_page_ranges_def and_then_Ok first_err_Ok validate_page_range_Ok
      MAX_PAGE_RANGE_BYTES_def)

text \<open>What an accepted job guarantees to the agent.\<close>

lemma PrintJob_validate_Ok:
  assumes "PrintJob_validate j = Ok ()"
  shows "identifier_shape 128 (job_id j)" "identifier_shape 128 (printer_id j)"
    "1 \<le> utf16_count (idempotency_key j)" "utf16_count (idempotency_key j) \<le> 256"
    "JobDocument_validate (document j) = Ok ()"
  using assms
  by (auto simp: PrintJob_validate_def first_err_Ok validate_identifier_Ok validate_string_Ok)

lemma PdfJob_validate_Ok:
  assumes "PdfDocument_validate d = Ok ()"
  shows "\<exists>url sha n. pdf_source d = PdfUrl url sha n \<and> allowed_document_url url \<and>
    length sha = 64 \<and> list_all is_hex_digit sha \<and> 0 < unat n \<and> unat n \<le> MAX_PDF_DOCUMENT_BYTES"
  using assms
  by (cases "pdf_source d")
     (auto simp: PdfDocument_validate_def PdfSource_validate_def first_err_Ok
      document_url_accepted_iff validate_sha256_Ok unat_gt_0 not_less)

end
