(* ===== verification/Wire_Printer.thy ===== *)
theory Wire_Printer
  imports Wire_Document
begin

text \<open>
  Printer descriptors as they travel in inventories (\<open>crates/oppa-protocol/src/printer.rs\<close>) and
  the version negotiation of a session (\<open>negotiation.rs\<close>): the choice of a version, the inventory
  a version may carry, and the planner that falls back to the base protocol.
\<close>

section \<open>Descriptors\<close>

datatype WireConnection =
  WireSystem ustring
| WireTcp ustring "16 word"
| WireVirtual

definition WireConnection_validate :: "WireConnection \<Rightarrow> unit validated" where
  "WireConnection_validate c = (case c of
     WireSystem system_name \<Rightarrow> validate_string system_name (lit ''systemName'') 1 256
   | WireTcp host port \<Rightarrow> first_err
       [validate_string host (lit ''host'') 1 253,
        check (port = 0) (lit ''port'') (lit ''must be between 1 and 65535'')]
   | WireVirtual \<Rightarrow> Ok ())"

datatype WireKind = WireLocal | WireNetwork | WireVirtualKind
datatype WireAvailability = WireOnline | WireOffline | WireUnknown
datatype WireDocumentFormat = ReceiptFormat | PdfFormatKind

record PrintOptionsCapability =
  opt_copies :: bool
  opt_duplex :: bool
  opt_orientation :: bool
  opt_scaling :: bool
  opt_page_ranges :: bool

record WireCapabilities =
  cap_media_widths :: "ReceiptWidth list"
  cap_system_driver :: "bool option"
  cap_esc_pos :: "bool option"
  cap_raster :: bool
  cap_cut :: bool
  cap_qr :: bool
  cap_barcode :: bool
  cap_document_formats :: "WireDocumentFormat list option"
  cap_paper_sizes :: "StandardPaperSize list option"
  cap_custom_paper_size :: "bool option"
  cap_print_options :: "PrintOptionsCapability option"

definition uses_extended_protocol :: "WireCapabilities \<Rightarrow> bool" where
  "uses_extended_protocol c \<longleftrightarrow>
     cap_document_formats c \<noteq> None \<or> cap_paper_sizes c \<noteq> None \<or> cap_custom_paper_size c \<noteq> None \<or>
     cap_print_options c \<noteq> None"

definition WireCapabilities_validate :: "WireCapabilities \<Rightarrow> unit validated" where
  "WireCapabilities_validate c = first_err
     [check (cap_media_widths c = [] \<or> length (cap_media_widths c) > 2) (lit ''mediaWidths'')
        (lit ''must contain between 1 and 2 widths''),
      check (length (cap_media_widths c) = 2 \<and> cap_media_widths c ! 0 = cap_media_widths c ! 1)
        (lit ''mediaWidths'') (lit ''must not contain duplicate widths''),
      if_some (cap_document_formats c) (\<lambda>formats. first_err
        [check (formats = [] \<or> length formats > 2) (lit ''documentFormats'')
           (lit ''must contain between 1 and 2 formats''),
         check (length formats = 2 \<and> formats ! 0 = formats ! 1) (lit ''documentFormats'')
           (lit ''must not contain duplicate formats'')]),
      if_some (cap_paper_sizes c) (\<lambda>sizes. first_err
        (check (length sizes > 4) (lit ''paperSizes'')
           (lit ''must contain at most 4 standard sizes'')
         # map (\<lambda>(index, size). check (size \<in> set (take index sizes))
                  (lit ''paperSizes.'' @ dec index) (lit ''must not contain duplicate sizes''))
             (List.enumerate 0 sizes)))]"

record PrinterDescriptor =
  pd_id :: ustring
  pd_fingerprint :: ustring
  pd_name :: ustring
  pd_kind :: WireKind
  pd_connection :: WireConnection
  pd_capabilities :: "WireCapabilities option"
  pd_enabled :: bool
  pd_availability :: WireAvailability

definition without_extended_capabilities :: "PrinterDescriptor \<Rightarrow> PrinterDescriptor" where
  "without_extended_capabilities d = d\<lparr>pd_capabilities := map_option
     (\<lambda>c. c\<lparr>cap_document_formats := None, cap_paper_sizes := None, cap_custom_paper_size := None,
            cap_print_options := None\<rparr>) (pd_capabilities d)\<rparr>"

fun kind_matches_connection :: "WireKind \<Rightarrow> WireConnection \<Rightarrow> bool" where
  "kind_matches_connection WireLocal (WireSystem _) = True"
| "kind_matches_connection WireNetwork (WireTcp _ _) = True"
| "kind_matches_connection WireVirtualKind WireVirtual = True"
| "kind_matches_connection _ _ = False"

definition PrinterDescriptor_validate :: "PrinterDescriptor \<Rightarrow> unit validated" where
  "PrinterDescriptor_validate d = first_err
     [validate_identifier (pd_id d) (lit ''id'') 128,
      validate_string (pd_fingerprint d) (lit ''fingerprint'') 1 256,
      validate_string (pd_name d) (lit ''name'') 1 256,
      at_path (lit ''connection'') (WireConnection_validate (pd_connection d)),
      if_some (pd_capabilities d) (\<lambda>c.
        at_path (lit ''capabilities'') (WireCapabilities_validate c)),
      check (\<not> kind_matches_connection (pd_kind d) (pd_connection d)) (lit ''connection'')
        (lit ''must match the printer kind'')]"

section \<open>Negotiation\<close>

datatype ProtocolVersion = V1 | V2

definition BASE :: ProtocolVersion where "BASE = V1"
definition EXTENDED :: ProtocolVersion where "EXTENDED = V2"

text \<open>Milliseconds are \<open>u64\<close>; \<open>saturating_add\<close> stops at the largest value.\<close>

definition LEGACY_RETRY_INTERVAL_MS :: "64 word" where
  "LEGACY_RETRY_INTERVAL_MS = 24 * 60 * 60 * 1000"

definition saturating_add :: "64 word \<Rightarrow> 64 word \<Rightarrow> 64 word" where
  "saturating_add a b = (if unat a + unat b < 2 ^ 64 then a + b else - 1)"

definition select_protocol_version ::
  "ProtocolVersion list \<Rightarrow> ProtocolVersion list \<Rightarrow> ProtocolVersion option" where
  "select_protocol_version server_supported offered =
     find (\<lambda>v. v \<in> set server_supported \<and> v \<in> set offered) [EXTENDED, BASE]"

definition project_inventory ::
  "PrinterDescriptor list \<Rightarrow> ProtocolVersion \<Rightarrow> PrinterDescriptor list" where
  "project_inventory printers version =
     map (\<lambda>p. case version of V1 \<Rightarrow> without_extended_capabilities p | V2 \<Rightarrow> p) printers"

record LegacyServerRecord =
  legacy_until_ms :: "64 word"

datatype CacheUpdate = Unchanged | Store LegacyServerRecord | Clear

record HandshakePlanner =
  offered :: "ProtocolVersion list"
  had_record :: bool
  may_fall_back :: bool
  fell_back :: bool

definition HandshakePlanner_new :: "LegacyServerRecord option \<Rightarrow> 64 word \<Rightarrow> HandshakePlanner" where
  "HandshakePlanner_new rec now_ms =
     (let legacy_is_current = (case rec of Some r \<Rightarrow> legacy_until_ms r > now_ms | None \<Rightarrow> False) in
      if legacy_is_current
      then \<lparr>offered = [BASE], had_record = True, may_fall_back = False, fell_back = False\<rparr>
      else \<lparr>offered = [EXTENDED, BASE], had_record = (rec \<noteq> None), may_fall_back = True,
            fell_back = False\<rparr>)"

definition on_closed_before_hello :: "HandshakePlanner \<Rightarrow> bool \<times> HandshakePlanner" where
  "on_closed_before_hello p =
     (if \<not> may_fall_back p \<or> fell_back p then (False, p)
      else (True, p\<lparr>offered := [BASE], fell_back := True\<rparr>))"

definition on_accepted :: "HandshakePlanner \<Rightarrow> ProtocolVersion \<Rightarrow> 64 word \<Rightarrow> CacheUpdate" where
  "on_accepted p selected now_ms =
     (if selected = BASE \<and> fell_back p
      then Store \<lparr>legacy_until_ms = saturating_add now_ms LEGACY_RETRY_INTERVAL_MS\<rparr>
      else if selected = EXTENDED \<and> had_record p then Clear else Unchanged)"

section \<open>Facts about negotiation\<close>

lemma select_Some_iff:
  "select_protocol_version ss os = Some v \<longleftrightarrow>
     v \<in> set ss \<and> v \<in> set os \<and> (v = V1 \<longrightarrow> \<not> (V2 \<in> set ss \<and> V2 \<in> set os))"
  by (cases v) (auto simp: select_protocol_version_def EXTENDED_def BASE_def)

lemma select_commute: "select_protocol_version ss os = select_protocol_version os ss"
  by (simp add: select_protocol_version_def conj_commute)

lemma projected_base:
  "d \<in> set (project_inventory ds V1) \<Longrightarrow> pd_capabilities d = Some c \<Longrightarrow> \<not> uses_extended_protocol c"
  by (auto simp: project_inventory_def without_extended_capabilities_def uses_extended_protocol_def)

lemma projected_validate:
  assumes "PrinterDescriptor_validate d = Ok ()"
  shows "PrinterDescriptor_validate (without_extended_capabilities d) = Ok ()"
  using assms
  by (auto simp: PrinterDescriptor_validate_def WireCapabilities_validate_def first_err_Ok if_some_Ok
      without_extended_capabilities_def)

text \<open>A planner, and the runs of a connection over it: closed connections and one acceptance.\<close>

definition planner_ok :: "HandshakePlanner \<Rightarrow> bool" where
  "planner_ok p \<longleftrightarrow>
     offered p = (if may_fall_back p \<and> \<not> fell_back p then [V2, V1] else [V1]) \<and>
     (fell_back p \<longrightarrow> may_fall_back p) \<and> (\<not> may_fall_back p \<longrightarrow> had_record p)"

lemma planner_ok_new: "planner_ok (HandshakePlanner_new rec now)"
  by (auto simp: planner_ok_def HandshakePlanner_new_def BASE_def EXTENDED_def)

lemma planner_ok_closed: "planner_ok p \<Longrightarrow> planner_ok (snd (on_closed_before_hello p))"
  by (auto simp: planner_ok_def on_closed_before_hello_def BASE_def)

fun closings :: "nat \<Rightarrow> HandshakePlanner \<Rightarrow> bool list \<times> HandshakePlanner" where
  "closings 0 p = ([], p)"
| "closings (Suc n) p =
     (let (retry, p') = on_closed_before_hello p; (rs, p'') = closings n p' in (retry # rs, p''))"

lemma closings_exhausted:
  "\<not> may_fall_back p \<or> fell_back p \<Longrightarrow> closings n p = (replicate n False, p)"
  by (induction n arbitrary: p) (auto simp: on_closed_before_hello_def)

lemma closings_new:
  "fst (closings (Suc n) (HandshakePlanner_new rec now)) =
     (\<not> (\<exists>r. rec = Some r \<and> legacy_until_ms r > now)) # replicate n False"
  by (auto simp: on_closed_before_hello_def closings_exhausted HandshakePlanner_new_def Let_def
      split: option.splits prod.splits)

end
