(* ===== verification/Wire_Message.thy ===== *)
theory Wire_Message
  imports Wire_Printer
begin

text \<open>
  The envelopes and payloads of the wire protocol (\<open>crates/oppa-protocol/src/message.rs\<close>) with
  their semantic validation: which payloads need a correlation identifier, which version an
  envelope must carry, and the bounds of every field. The deserialisation itself is Serde's.
\<close>

section \<open>Versions\<close>

definition MAX_SAFE_INTEGER :: nat where
  "MAX_SAFE_INTEGER = 9007199254740991"

definition SUPPORTED :: "ProtocolVersion list" where
  "SUPPORTED = [V1, V2]"

fun version_as_str :: "ProtocolVersion \<Rightarrow> ustring" where
  "version_as_str V1 = lit ''1''"
| "version_as_str V2 = lit ''2''"

definition version_visit_str :: "ustring \<Rightarrow> ustring + ProtocolVersion" where
  "version_visit_str value =
     (if value = lit ''1'' then Ok V1 else if value = lit ''2'' then Ok V2
      else Err (lit ''unsupported protocol version '' @ value))"

lemma version_visit_as_str: "version_visit_str (version_as_str v) = Ok v"
  by (cases v) (simp_all add: version_visit_str_def lit_def)

lemma version_visit_Ok: "version_visit_str s = Ok v \<longleftrightarrow> s = version_as_str v"
  by (cases v) (auto simp: version_visit_str_def lit_def)

datatype JobStatus =
  StatusQueued | StatusDelivered | StatusReceived | StatusSubmitted | StatusFailed | StatusCancelled

section \<open>Shared checks\<close>

definition validate_envelope :: "ustring \<Rightarrow> ustring \<Rightarrow> ustring option \<Rightarrow> unit validated" where
  "validate_envelope message_id sent_at correlation_id = first_err
     [validate_identifier message_id (lit ''messageId'') 128,
      validate_timestamp sent_at (lit ''sentAt''),
      if_some correlation_id (\<lambda>c. validate_identifier c (lit ''correlationId'') 128)]"

definition validate_versions :: "ProtocolVersion list \<Rightarrow> ustring \<Rightarrow> unit validated" where
  "validate_versions versions p = first_err
     (check (versions = [] \<or> length versions > length SUPPORTED) p
        (lit ''must contain between 1 and '' @ dec (length SUPPORTED) @ lit '' versions'')
      # map (\<lambda>(index, version). check (version \<in> set (take index versions)) p
               (lit ''must not contain duplicate versions'')) (List.enumerate 0 versions))"

definition validate_envelope_version ::
  "ProtocolVersion \<Rightarrow> bool \<Rightarrow> ProtocolVersion \<Rightarrow> unit validated" where
  "validate_envelope_version version handshake required = first_err
     [check (handshake \<and> version \<noteq> BASE) (lit ''protocolVersion'')
        (lit ''handshake frames must use protocol version 1''),
      check (version = BASE \<and> required = EXTENDED) (lit ''protocolVersion'')
        (lit ''this content requires protocol version 2'')]"

definition validate_safe_integer :: "64 word \<Rightarrow> ustring \<Rightarrow> unit validated" where
  "validate_safe_integer value p = check (unat value > MAX_SAFE_INTEGER) p
     (lit ''must not exceed the JavaScript safe integer range'')"

definition validate_printers :: "PrinterDescriptor list \<Rightarrow> ustring \<Rightarrow> unit validated" where
  "validate_printers printers p = first_err
     (check (length printers > MAX_PRINTERS_PER_INVENTORY) p
        (lit ''must contain at most '' @ dec MAX_PRINTERS_PER_INVENTORY @ lit '' printers'')
      # map (\<lambda>(index, printer). at_path (p @ lit ''.'' @ dec index)
               (PrinterDescriptor_validate printer)) (List.enumerate 0 printers))"

definition validate_job_identity :: "ustring \<Rightarrow> ustring \<Rightarrow> unit validated" where
  "validate_job_identity jid key = first_err
     [validate_identifier jid (lit ''jobId'') 128,
      validate_string key (lit ''idempotencyKey'') 1 256]"

definition validate_expected_status :: "JobStatus \<Rightarrow> JobStatus \<Rightarrow> unit validated" where
  "validate_expected_status actual expected = check (actual \<noteq> expected) (lit ''status'')
     (lit ''does not match the message discriminator'')"

section \<open>Agent payloads\<close>

record AgentHello =
  ah_agent_id :: ustring
  ah_agent_version :: ustring
  ah_product_id :: ustring
  ah_product_version :: ustring
  ah_supported_versions :: "ProtocolVersion list"

definition AgentHello_validate :: "AgentHello \<Rightarrow> unit validated" where
  "AgentHello_validate h = first_err
     [validate_identifier (ah_agent_id h) (lit ''agentId'') 128,
      validate_string (ah_agent_version h) (lit ''agentVersion'') 1 256,
      validate_identifier (ah_product_id h) (lit ''productId'') 128,
      validate_string (ah_product_version h) (lit ''productVersion'') 1 256,
      validate_versions (ah_supported_versions h) (lit ''supportedProtocolVersions'')]"

record AgentHeartbeat =
  uptime_seconds :: "64 word"

definition AgentHeartbeat_validate :: "AgentHeartbeat \<Rightarrow> unit validated" where
  "AgentHeartbeat_validate h = validate_safe_integer (uptime_seconds h) (lit ''uptimeSeconds'')"

record PrinterInventory =
  inv_revision :: "64 word"
  inv_printers :: "PrinterDescriptor list"

definition PrinterInventory_validate :: "PrinterInventory \<Rightarrow> unit validated" where
  "PrinterInventory_validate i = first_err
     [validate_safe_integer (inv_revision i) (lit ''revision''),
      validate_printers (inv_printers i) (lit ''printers'')]"

record PrinterInventoryChanged =
  chg_revision :: "64 word"
  chg_added :: "PrinterDescriptor list"
  chg_updated :: "PrinterDescriptor list"
  chg_removed :: "ustring list"

definition PrinterInventoryChanged_validate :: "PrinterInventoryChanged \<Rightarrow> unit validated" where
  "PrinterInventoryChanged_validate c = first_err
     ([validate_safe_integer (chg_revision c) (lit ''revision''),
       validate_printers (chg_added c) (lit ''added''),
       validate_printers (chg_updated c) (lit ''updated''),
       check (length (chg_removed c) > MAX_PRINTERS_PER_INVENTORY) (lit ''removedPrinterIds'')
         (lit ''must contain at most '' @ dec MAX_PRINTERS_PER_INVENTORY @ lit '' identifiers'')]
      @ concat (map (\<lambda>(index, printer_id).
          [validate_identifier printer_id (lit ''removedPrinterIds.'' @ dec index) 128,
           check (printer_id \<in> set (take index (chg_removed c)))
             (lit ''removedPrinterIds.'' @ dec index)
             (lit ''must not contain duplicate identifiers'')]) (List.enumerate 0 (chg_removed c))))"

record JobReceived =
  jr_job_id :: ustring
  jr_idempotency_key :: ustring
  jr_status :: JobStatus
  jr_received_at :: ustring

definition JobReceived_validate :: "JobReceived \<Rightarrow> unit validated" where
  "JobReceived_validate r = first_err
     [validate_job_identity (jr_job_id r) (jr_idempotency_key r),
      validate_expected_status (jr_status r) StatusReceived,
      validate_timestamp (jr_received_at r) (lit ''receivedAt'')]"

record JobSubmitted =
  js_job_id :: ustring
  js_idempotency_key :: ustring
  js_printer_id :: ustring
  js_status :: JobStatus
  js_submitted_at :: ustring

definition JobSubmitted_validate :: "JobSubmitted \<Rightarrow> unit validated" where
  "JobSubmitted_validate r = first_err
     [validate_job_identity (js_job_id r) (js_idempotency_key r),
      validate_identifier (js_printer_id r) (lit ''printerId'') 128,
      validate_expected_status (js_status r) StatusSubmitted,
      validate_timestamp (js_submitted_at r) (lit ''submittedAt'')]"

record FailureDetail =
  fd_code :: ustring
  fd_message :: ustring
  fd_retryable :: bool

definition FailureDetail_validate :: "FailureDetail \<Rightarrow> unit validated" where
  "FailureDetail_validate d = first_err
     [validate_identifier (fd_code d) (lit ''code'') 128,
      validate_string (fd_message d) (lit ''message'') 1 1024]"

record JobFailed =
  jf_job_id :: ustring
  jf_idempotency_key :: ustring
  jf_status :: JobStatus
  jf_failed_at :: ustring
  jf_error :: FailureDetail

definition JobFailed_validate :: "JobFailed \<Rightarrow> unit validated" where
  "JobFailed_validate r = first_err
     [validate_job_identity (jf_job_id r) (jf_idempotency_key r),
      validate_expected_status (jf_status r) StatusFailed,
      validate_timestamp (jf_failed_at r) (lit ''failedAt''),
      at_path (lit ''error'') (FailureDetail_validate (jf_error r))]"

datatype AgentHealth = Healthy | DegradedHealth | Unhealthy
datatype DiagnosticSeverity = SeverityInfo | SeverityWarning | SeverityError

record DiagnosticIssue =
  di_code :: ustring
  di_message :: ustring
  di_severity :: DiagnosticSeverity

definition DiagnosticIssue_validate :: "DiagnosticIssue \<Rightarrow> unit validated" where
  "DiagnosticIssue_validate d = first_err
     [validate_identifier (di_code d) (lit ''code'') 128,
      validate_string (di_message d) (lit ''message'') 1 1024]"

record AgentDiagnostics =
  ad_agent_id :: ustring
  ad_collected_at :: ustring
  ad_health :: AgentHealth
  ad_queue_depth :: "64 word"
  ad_printers_online :: "16 word"
  ad_printers_total :: "16 word"
  ad_issues :: "DiagnosticIssue list"

definition AgentDiagnostics_validate :: "AgentDiagnostics \<Rightarrow> unit validated" where
  "AgentDiagnostics_validate d = first_err
     ([validate_identifier (ad_agent_id d) (lit ''agentId'') 128,
       validate_timestamp (ad_collected_at d) (lit ''collectedAt''),
       validate_safe_integer (ad_queue_depth d) (lit ''queueDepth''),
       check (unat (ad_printers_online d) > MAX_PRINTERS_PER_INVENTORY \<or>
              unat (ad_printers_total d) > MAX_PRINTERS_PER_INVENTORY) (lit ''printersTotal'')
         (lit ''printer counts must not exceed '' @ dec MAX_PRINTERS_PER_INVENTORY),
       check (length (ad_issues d) > 64) (lit ''issues'') (lit ''must contain at most 64 issues'')]
      @ map (\<lambda>(index, issue). at_path (lit ''issues.'' @ dec index)
               (DiagnosticIssue_validate issue)) (List.enumerate 0 (ad_issues d)))"

datatype AgentMessageKind =
  AgentHelloMsg AgentHello
| AgentHeartbeatMsg AgentHeartbeat
| AgentInventoryMsg PrinterInventory
| AgentInventoryChangedMsg PrinterInventoryChanged
| AgentJobReceivedMsg JobReceived
| AgentJobSubmittedMsg JobSubmitted
| AgentJobFailedMsg JobFailed
| AgentDiagnosticsMsg AgentDiagnostics

fun agent_message_type :: "AgentMessageKind \<Rightarrow> ustring" where
  "agent_message_type (AgentHelloMsg _) = lit ''agent.hello''"
| "agent_message_type (AgentHeartbeatMsg _) = lit ''agent.heartbeat''"
| "agent_message_type (AgentInventoryMsg _) = lit ''agent.printer_inventory''"
| "agent_message_type (AgentInventoryChangedMsg _) = lit ''agent.printer_inventory_changed''"
| "agent_message_type (AgentJobReceivedMsg _) = lit ''agent.job_received''"
| "agent_message_type (AgentJobSubmittedMsg _) = lit ''agent.job_submitted''"
| "agent_message_type (AgentJobFailedMsg _) = lit ''agent.job_failed''"
| "agent_message_type (AgentDiagnosticsMsg _) = lit ''agent.diagnostics''"

definition AgentMessageKind_validate :: "AgentMessageKind \<Rightarrow> unit validated" where
  "AgentMessageKind_validate k = at_path (lit ''payload'') (case k of
     AgentHelloMsg p \<Rightarrow> AgentHello_validate p
   | AgentHeartbeatMsg p \<Rightarrow> AgentHeartbeat_validate p
   | AgentInventoryMsg p \<Rightarrow> PrinterInventory_validate p
   | AgentInventoryChangedMsg p \<Rightarrow> PrinterInventoryChanged_validate p
   | AgentJobReceivedMsg p \<Rightarrow> JobReceived_validate p
   | AgentJobSubmittedMsg p \<Rightarrow> JobSubmitted_validate p
   | AgentJobFailedMsg p \<Rightarrow> JobFailed_validate p
   | AgentDiagnosticsMsg p \<Rightarrow> AgentDiagnostics_validate p)"

definition descriptor_uses_extended_protocol :: "PrinterDescriptor \<Rightarrow> bool" where
  "descriptor_uses_extended_protocol d =
     (case pd_capabilities d of Some c \<Rightarrow> uses_extended_protocol c | None \<Rightarrow> False)"

definition required_version :: "AgentMessageKind \<Rightarrow> ProtocolVersion" where
  "required_version k = (case k of
     AgentInventoryMsg i \<Rightarrow>
       if list_ex descriptor_uses_extended_protocol (inv_printers i) then EXTENDED else BASE
   | AgentInventoryChangedMsg c \<Rightarrow>
       if list_ex descriptor_uses_extended_protocol (chg_added c @ chg_updated c) then EXTENDED
       else BASE
   | _ \<Rightarrow> BASE)"

record AgentMessage =
  am_protocol_version :: ProtocolVersion
  am_message_id :: ustring
  am_sent_at :: ustring
  am_correlation_id :: "ustring option"
  am_kind :: AgentMessageKind

fun needs_correlation :: "AgentMessageKind \<Rightarrow> bool" where
  "needs_correlation (AgentHeartbeatMsg _) = True"
| "needs_correlation (AgentJobReceivedMsg _) = True"
| "needs_correlation (AgentJobSubmittedMsg _) = True"
| "needs_correlation (AgentJobFailedMsg _) = True"
| "needs_correlation _ = False"

fun forbids_correlation :: "AgentMessageKind \<Rightarrow> bool" where
  "forbids_correlation (AgentHelloMsg _) = True"
| "forbids_correlation (AgentInventoryChangedMsg _) = True"
| "forbids_correlation (AgentDiagnosticsMsg _) = True"
| "forbids_correlation _ = False"

fun is_agent_hello :: "AgentMessageKind \<Rightarrow> bool" where
  "is_agent_hello (AgentHelloMsg _) = True"
| "is_agent_hello _ = False"

definition AgentMessage_validate :: "AgentMessage \<Rightarrow> unit validated" where
  "AgentMessage_validate m = first_err
     [validate_envelope (am_message_id m) (am_sent_at m) (am_correlation_id m),
      check (needs_correlation (am_kind m) \<and> am_correlation_id m = None) (lit ''correlationId'')
        (lit ''is required for this response''),
      check (forbids_correlation (am_kind m) \<and> am_correlation_id m \<noteq> None) (lit ''correlationId'')
        (lit ''is not allowed for this event''),
      validate_envelope_version (am_protocol_version m) (is_agent_hello (am_kind m))
        (required_version (am_kind m)),
      AgentMessageKind_validate (am_kind m)]"

section \<open>Server payloads\<close>

record OpenPrinterBrandMetadata =
  brand_name :: ustring

definition Brand_validate :: "OpenPrinterBrandMetadata \<Rightarrow> unit validated" where
  "Brand_validate b = validate_brand_name (brand_name b) (lit ''brand.name'')"

record ServerHello =
  sh_server_id :: ustring
  sh_server_version :: ustring
  sh_brand :: OpenPrinterBrandMetadata
  sh_session_id :: ustring
  sh_supported_versions :: "ProtocolVersion list"
  sh_selected_version :: ProtocolVersion
  sh_heartbeat_interval_ms :: "32 word"
  sh_max_message_bytes :: "32 word"

definition ServerHello_validate :: "ServerHello \<Rightarrow> unit validated" where
  "ServerHello_validate h = first_err
     [validate_identifier (sh_server_id h) (lit ''serverId'') 128,
      validate_string (sh_server_version h) (lit ''serverVersion'') 1 256,
      Brand_validate (sh_brand h),
      validate_identifier (sh_session_id h) (lit ''sessionId'') 128,
      validate_versions (sh_supported_versions h) (lit ''supportedProtocolVersions''),
      check (sh_selected_version h \<notin> set (sh_supported_versions h)) (lit ''selectedProtocolVersion'')
        (lit ''must be one of the listed supported versions''),
      check (\<not> (5000 \<le> sh_heartbeat_interval_ms h \<and> sh_heartbeat_interval_ms h \<le> 300000))
        (lit ''heartbeatIntervalMs'') (lit ''must be between 5000 and 300000''),
      check (\<not> (1024 \<le> sh_max_message_bytes h \<and>
                sh_max_message_bytes h \<le> of_nat MAX_WIRE_MESSAGE_BYTES)) (lit ''maxMessageBytes'')
        (lit ''must be between 1024 and '' @ dec MAX_WIRE_MESSAGE_BYTES)]"

record HeartbeatRequest =
  timeout_ms :: "32 word"

definition HeartbeatRequest_validate :: "HeartbeatRequest \<Rightarrow> unit validated" where
  "HeartbeatRequest_validate h = check (\<not> (1000 \<le> timeout_ms h \<and> timeout_ms h \<le> 120000))
     (lit ''timeoutMs'') (lit ''must be between 1000 and 120000'')"

record CancelJob =
  cj_job_id :: ustring
  cj_reason :: "ustring option"

definition CancelJob_validate :: "CancelJob \<Rightarrow> unit validated" where
  "CancelJob_validate c = first_err
     [validate_identifier (cj_job_id c) (lit ''jobId'') 128,
      if_some (cj_reason c) (\<lambda>reason. validate_string reason (lit ''reason'') 1 512)]"

datatype ConfigurationScope = ScopeAgent | ScopePrinters | ScopeAll

record ConfigurationInvalidated =
  ci_scope :: ConfigurationScope
  ci_revision :: "ustring option"

definition ConfigurationInvalidated_validate :: "ConfigurationInvalidated \<Rightarrow> unit validated" where
  "ConfigurationInvalidated_validate c =
     if_some (ci_revision c) (\<lambda>r. validate_string r (lit ''revision'') 1 128)"

record Disconnect =
  dc_code :: ustring
  dc_reason :: ustring
  dc_reconnect :: bool
  dc_retry_after_ms :: "32 word option"

definition Disconnect_validate :: "Disconnect \<Rightarrow> unit validated" where
  "Disconnect_validate d = first_err
     [validate_identifier (dc_code d) (lit ''code'') 128,
      validate_string (dc_reason d) (lit ''reason'') 1 1024,
      if_some (dc_retry_after_ms d) (\<lambda>value. check (value > 86400000) (lit ''retryAfterMs'')
        (lit ''must be no greater than 86400000''))]"

datatype ServerMessageKind =
  ServerHelloMsg ServerHello
| ServerHeartbeatMsg HeartbeatRequest
| ServerPrintJobMsg PrintJob
| ServerCancelJobMsg CancelJob
| ServerRequestInventoryMsg
| ServerConfigurationInvalidatedMsg ConfigurationInvalidated
| ServerDisconnectMsg Disconnect

fun server_message_type :: "ServerMessageKind \<Rightarrow> ustring" where
  "server_message_type (ServerHelloMsg _) = lit ''server.hello''"
| "server_message_type (ServerHeartbeatMsg _) = lit ''server.heartbeat''"
| "server_message_type (ServerPrintJobMsg _) = lit ''server.print_job''"
| "server_message_type (ServerCancelJobMsg _) = lit ''server.cancel_job''"
| "server_message_type ServerRequestInventoryMsg = lit ''server.request_printer_inventory''"
| "server_message_type (ServerConfigurationInvalidatedMsg _) =
     lit ''server.configuration_invalidated''"
| "server_message_type (ServerDisconnectMsg _) = lit ''server.disconnect''"

definition ServerMessageKind_validate :: "ServerMessageKind \<Rightarrow> unit validated" where
  "ServerMessageKind_validate k = at_path (lit ''payload'') (case k of
     ServerHelloMsg p \<Rightarrow> ServerHello_validate p
   | ServerHeartbeatMsg p \<Rightarrow> HeartbeatRequest_validate p
   | ServerPrintJobMsg p \<Rightarrow> PrintJob_validate p
   | ServerCancelJobMsg p \<Rightarrow> CancelJob_validate p
   | ServerRequestInventoryMsg \<Rightarrow> Ok ()
   | ServerConfigurationInvalidatedMsg p \<Rightarrow> ConfigurationInvalidated_validate p
   | ServerDisconnectMsg p \<Rightarrow> Disconnect_validate p)"

definition required_server_version :: "ServerMessageKind \<Rightarrow> ProtocolVersion" where
  "required_server_version k = (case k of
     ServerPrintJobMsg job \<Rightarrow> if is_pdf (document job) then EXTENDED else BASE
   | _ \<Rightarrow> BASE)"

record ServerMessage =
  sm_protocol_version :: ProtocolVersion
  sm_message_id :: ustring
  sm_sent_at :: ustring
  sm_correlation_id :: "ustring option"
  sm_kind :: ServerMessageKind

fun is_server_hello :: "ServerMessageKind \<Rightarrow> bool" where
  "is_server_hello (ServerHelloMsg _) = True"
| "is_server_hello _ = False"

definition ServerMessage_validate :: "ServerMessage \<Rightarrow> unit validated" where
  "ServerMessage_validate m = first_err
     [validate_envelope (sm_message_id m) (sm_sent_at m) (sm_correlation_id m),
      check (is_server_hello (sm_kind m) \<and> sm_correlation_id m = None) (lit ''correlationId'')
        (lit ''is required for the server hello response''),
      check (\<not> is_server_hello (sm_kind m) \<and> sm_correlation_id m \<noteq> None) (lit ''correlationId'')
        (lit ''is not allowed for this server command''),
      validate_envelope_version (sm_protocol_version m) (is_server_hello (sm_kind m))
        (required_server_version (sm_kind m)),
      ServerMessageKind_validate (sm_kind m)]"

datatype ProtocolMessage = AgentProtocolMessage AgentMessage | ServerProtocolMessage ServerMessage

fun ProtocolMessage_validate :: "ProtocolMessage \<Rightarrow> unit validated" where
  "ProtocolMessage_validate (AgentProtocolMessage m) = AgentMessage_validate m"
| "ProtocolMessage_validate (ServerProtocolMessage m) = ServerMessage_validate m"

section \<open>What an accepted message guarantees\<close>

lemma validate_versions_Ok [wire_checks]:
  "validate_versions vs p = Ok () \<longleftrightarrow> vs \<noteq> [] \<and> length vs \<le> 2 \<and> distinct vs"
  unfolding enumerate_distinct [symmetric]
  by (auto simp: validate_versions_def first_err_Ok SUPPORTED_def case_prod_beta)

lemma validate_envelope_version_Ok [wire_checks]:
  "validate_envelope_version v h r = Ok () \<longleftrightarrow> (h \<longrightarrow> v = V1) \<and> (r = V2 \<longrightarrow> v = V2)"
  by (cases v; cases r) (auto simp: validate_envelope_version_def first_err_Ok BASE_def EXTENDED_def)

lemma required_version_base:
  "\<forall>d \<in> set ds. \<not> descriptor_uses_extended_protocol d \<Longrightarrow>
   required_version (AgentInventoryMsg \<lparr>inv_revision = r, inv_printers = ds\<rparr>) = V1"
  by (auto simp: required_version_def list_ex_iff BASE_def)

lemma projected_required_version:
  "required_version (AgentInventoryMsg \<lparr>inv_revision = r, inv_printers = project_inventory ds V1\<rparr>) = V1"
  using projected_base
  by (intro required_version_base) (fastforce simp: descriptor_uses_extended_protocol_def split: option.splits)

end
