(* ===== verification/Agent_Lifecycle.thy ===== *)
theory Agent_Lifecycle
  imports Oppa_Core
begin

text \<open>
  The agent's life cycle and the projection hosts observe (\<open>crates/oppa-agent/src/lib.rs\<close>), with
  the sanitising of diagnostics the agent shows or stores (\<open>lib.rs\<close> and \<open>processor.rs\<close>). The
  handle keeps the snapshot behind the lock, the value last sent to the watch channel, and the job
  events published so far; a broadcast without subscribers is a send whose error the code ignores.
\<close>

section \<open>Cutting and sanitising text\<close>

text \<open>The loop that steps back from \<open>n\<close> to a character boundary; zero is one.\<close>

fun prev_boundary :: "ustring \<Rightarrow> nat \<Rightarrow> nat" where
  "prev_boundary s 0 = 0"
| "prev_boundary s (Suc n) = (if is_char_boundary s (Suc n) then Suc n else prev_boundary s n)"

definition truncate_utf8 :: "ustring \<Rightarrow> nat \<Rightarrow> ustring" where
  "truncate_utf8 value maximum =
     (if byte_len value \<le> maximum then value
      else (case byte_prefix (prev_boundary value maximum) value of Some p \<Rightarrow> p | None \<Rightarrow> []))"

definition blank_controls :: "ustring \<Rightarrow> ustring" where
  "blank_controls value = map (\<lambda>c. if is_control c then 32 else c) value"

definition sanitize_message :: "ustring \<Rightarrow> ustring" where
  "sanitize_message value =
     (let sanitized = trim (blank_controls value) in
      if sanitized = [] then lit ''operation failed without diagnostic details''
      else truncate_utf8 sanitized 1000)"

definition MAX_ACTIVE_ERRORS :: nat where "MAX_ACTIVE_ERRORS = 32"
definition MAX_ACTIVE_ERROR_BYTES :: nat where "MAX_ACTIVE_ERROR_BYTES = 1000"

definition sanitize_active_errors :: "ustring list \<Rightarrow> ustring list" where
  "sanitize_active_errors errors = take MAX_ACTIVE_ERRORS
     (List.map_filter (\<lambda>e.
        let sanitized = trim (blank_controls e) in
        if sanitized = [] then None else Some (truncate_utf8 sanitized MAX_ACTIVE_ERROR_BYTES)) errors)"

section \<open>States, snapshots, events\<close>

datatype AgentState =
  Unconfigured | Pairing | Disconnected | Connecting | Connected | Degraded | ShuttingDown

record AgentSnapshot =
  snap_state :: AgentState
  snap_pending_jobs :: nat
  snap_active_errors :: "ustring list"

definition AgentSnapshot_default :: AgentSnapshot where
  "AgentSnapshot_default = \<lparr>snap_state = Unconfigured, snap_pending_jobs = 0, snap_active_errors = []\<rparr>"

datatype AgentEvent =
  PendingJobsChanged nat
| JobReceivedEvent PrintJobId
| DuplicateJobEvent PrintJobId JobState
| DuplicateIdempotencyEvent PrintJobId PrintJobId JobState
| JobSubmittingEvent PrintJobId
| JobSubmittedEvent PrintJobId
| JobFailedEvent PrintJobId ustring bool
| CancellationRequestedEvent PrintJobId
| JobCancelledEvent PrintJobId
| RecoveryCompletedEvent nat nat

datatype AgentError = InvalidAgentTransition AgentState AgentState

record AgentHandle =
  snapshot :: AgentSnapshot
  watched :: AgentSnapshot
  job_events :: "AgentEvent list"

definition AgentHandle_new :: "AgentSnapshot \<Rightarrow> AgentHandle" where
  "AgentHandle_new initial =
     (let s = initial\<lparr>snap_active_errors := sanitize_active_errors (snap_active_errors initial)\<rparr> in
      \<lparr>snapshot = s, watched = s, job_events = []\<rparr>)"

fun can_transition_between :: "AgentState \<Rightarrow> AgentState \<Rightarrow> bool" where
  "can_transition_between Unconfigured Pairing = True"
| "can_transition_between Pairing Unconfigured = True"
| "can_transition_between Pairing Disconnected = True"
| "can_transition_between Disconnected Connecting = True"
| "can_transition_between Connecting Connected = True"
| "can_transition_between Degraded Connected = True"
| "can_transition_between Connecting Disconnected = True"
| "can_transition_between Connected Disconnected = True"
| "can_transition_between Degraded Disconnected = True"
| "can_transition_between Disconnected Unconfigured = True"
| "can_transition_between Connecting Unconfigured = True"
| "can_transition_between Connected Unconfigured = True"
| "can_transition_between Degraded Unconfigured = True"
| "can_transition_between Connected Degraded = True"
| "can_transition_between _ _ = False"

definition can_transition :: "AgentState \<Rightarrow> AgentState \<Rightarrow> bool" where
  "can_transition from to =
     (if from = to then True else if to = ShuttingDown then True else can_transition_between from to)"

text \<open>The operations of the handle.\<close>

definition agent_transition :: "AgentState \<Rightarrow> AgentHandle \<Rightarrow> AgentError + AgentHandle" where
  "agent_transition next' h =
     (if \<not> can_transition (snap_state (snapshot h)) next'
      then Err (InvalidAgentTransition (snap_state (snapshot h)) next')
      else (let s = (snapshot h)\<lparr>snap_state := next'\<rparr> in Ok (h\<lparr>snapshot := s, watched := s\<rparr>)))"

definition set_pending_jobs :: "nat \<Rightarrow> AgentHandle \<Rightarrow> AgentHandle" where
  "set_pending_jobs n h =
     (if snap_pending_jobs (snapshot h) = n then h
      else (let s = (snapshot h)\<lparr>snap_pending_jobs := n\<rparr> in
        h\<lparr>snapshot := s, watched := s, job_events := job_events h @ [PendingJobsChanged n]\<rparr>))"

definition set_active_errors :: "ustring list \<Rightarrow> AgentHandle \<Rightarrow> AgentHandle" where
  "set_active_errors errors h =
     (let s = (snapshot h)\<lparr>snap_active_errors := sanitize_active_errors errors\<rparr> in
      h\<lparr>snapshot := s, watched := s\<rparr>)"

definition publish_job_event :: "AgentEvent \<Rightarrow> AgentHandle \<Rightarrow> AgentHandle" where
  "publish_job_event event h = h\<lparr>job_events := job_events h @ [event]\<rparr>"

section \<open>Facts about the text functions\<close>

lemma prev_boundary_le: "prev_boundary s n \<le> n"
  by (induction n) auto

lemma prev_boundary_is_boundary: "is_char_boundary s (prev_boundary s n)"
  by (induction n) auto

lemma prev_boundary_max: "m \<le> n \<Longrightarrow> is_char_boundary s m \<Longrightarrow> m \<le> prev_boundary s n"
  by (induction n) (auto simp: le_Suc_eq)

lemma truncate_byte_prefix:
  "byte_len s > m \<Longrightarrow> prefix (truncate_utf8 s m) s \<and> byte_len (truncate_utf8 s m) = prev_boundary s m"
  using prev_boundary_is_boundary [of s m]
  by (auto simp: truncate_utf8_def is_char_boundary_def dest: byte_prefix_SomeD)

lemma truncate_prefix: "prefix (truncate_utf8 s m) s"
  using truncate_byte_prefix [of m s] by (cases "byte_len s \<le> m") (auto simp: truncate_utf8_def)

lemma truncate_bytes: "byte_len (truncate_utf8 s m) \<le> m"
  using truncate_byte_prefix [of m s] prev_boundary_le [of s m]
  by (cases "byte_len s \<le> m") (auto simp: truncate_utf8_def)

lemma truncate_maximal:
  assumes "prefix p s" "byte_len p \<le> m"
  shows "byte_len p \<le> byte_len (truncate_utf8 s m)"
proof (cases "byte_len s \<le> m")
  case True
  then show ?thesis using assms(1) by (auto simp: truncate_utf8_def prefix_def)
next
  case False
  then show ?thesis
    using truncate_byte_prefix [of m s] prev_boundary_max [of "byte_len p" m s] assms
    by (auto simp: is_char_boundary_iff)
qed

lemma truncate_nonempty:
  assumes "s \<noteq> []" "4 \<le> m"
  shows "truncate_utf8 s m \<noteq> [] \<and> hd (truncate_utf8 s m) = hd s"
proof -
  obtain c t where s: "s = c # t" using assms(1) by (cases s) auto
  have "byte_len [c] \<le> m" using assms(2) by (simp add: utf8_len_def)
  moreover have "prefix [c] s" by (simp add: s)
  ultimately have "byte_len [c] \<le> byte_len (truncate_utf8 s m)" by (intro truncate_maximal)
  then have "truncate_utf8 s m \<noteq> []" using utf8_len_pos [of c] by (auto simp del: utf8_len_pos)
  moreover have "prefix (truncate_utf8 s m) s" by (rule truncate_prefix)
  ultimately show ?thesis by (auto simp: s prefix_Cons)
qed

lemma hd_trim: "trim s \<noteq> [] \<Longrightarrow> \<not> is_whitespace (hd (trim s))"
proof -
  assume ne: "trim s \<noteq> []"
  define t where "t = dropWhile is_whitespace s"
  have trim: "trim s = rev (dropWhile is_whitespace (rev t))"
    by (simp add: trim_def trim_start_def trim_end_def t_def)
  have "prefix (trim s) t" unfolding trim by (metis rev_rev_ident suffix_dropWhile suffix_to_prefix)
  then have "hd (trim s) = hd t" "t \<noteq> []" using ne by (auto simp: prefix_def)
  moreover have "\<not> is_whitespace (hd t)" using hd_dropWhile \<open>t \<noteq> []\<close> unfolding t_def by blast
  ultimately show ?thesis by simp
qed

lemma blank_controls_plain: "\<forall>c \<in> set (blank_controls s). \<not> is_control c"
  by (auto simp: blank_controls_def is_control_def)

text \<open>A stored or shown diagnostic: bounded, non-blank, free of control characters.\<close>

definition diagnostic_ok :: "ustring \<Rightarrow> bool" where
  "diagnostic_ok m \<longleftrightarrow>
     m \<noteq> [] \<and> \<not> is_whitespace (hd m) \<and> byte_len m \<le> 1000 \<and> (\<forall>c \<in> set m. \<not> is_control c)"

lemma sanitized_ok:
  assumes "trim (blank_controls s) \<noteq> []"
  shows "diagnostic_ok (truncate_utf8 (trim (blank_controls s)) 1000)"
proof -
  have "set (truncate_utf8 (trim (blank_controls s)) 1000) \<subseteq> set (blank_controls s)"
    using set_mono_prefix [OF truncate_prefix] set_trim by blast
  then show ?thesis
    unfolding diagnostic_ok_def
    using truncate_nonempty [OF assms, of 1000] hd_trim [OF assms] truncate_bytes blank_controls_plain
    by auto
qed

lemma sanitize_message_ok: "diagnostic_ok (sanitize_message s)"
proof (cases "trim (blank_controls s) = []")
  case True
  then show ?thesis
    by (simp add: sanitize_message_def diagnostic_ok_def lit_def is_whitespace_def is_control_def)
qed (simp add: sanitize_message_def sanitized_ok)

lemma diagnostic_trim: "diagnostic_ok m \<Longrightarrow> trim m \<noteq> []"
proof -
  assume m: "diagnostic_ok m"
  then obtain c t where c: "m = c # t" "\<not> is_whitespace c" by (cases m) (auto simp: diagnostic_ok_def)
  then have "trim_start m = m" by (simp add: trim_start_def)
  then show ?thesis using c by (simp add: trim_def trim_end_def)
qed

lemma sanitize_active_errors_ok:
  "length (sanitize_active_errors es) \<le> 32 \<and> (\<forall>e \<in> set (sanitize_active_errors es). diagnostic_ok e)"
  unfolding sanitize_active_errors_def MAX_ACTIVE_ERRORS_def MAX_ACTIVE_ERROR_BYTES_def
  by (auto simp: map_filter_def Let_def sanitized_ok dest!: in_set_takeD split: if_splits)

section \<open>Facts about the handle\<close>

definition handle_ok :: "AgentHandle \<Rightarrow> bool" where
  "handle_ok h \<longleftrightarrow> watched h = snapshot h \<and> length (snap_active_errors (snapshot h)) \<le> 32 \<and>
     (\<forall>e \<in> set (snap_active_errors (snapshot h)). diagnostic_ok e)"

lemma handle_ok_ops:
  "handle_ok (AgentHandle_new s)"
  "handle_ok h \<Longrightarrow> agent_transition q h = Ok h' \<Longrightarrow> handle_ok h'"
  "handle_ok h \<Longrightarrow> handle_ok (set_pending_jobs n h)"
  "handle_ok h \<Longrightarrow> handle_ok (set_active_errors es h)"
  "handle_ok h \<Longrightarrow> handle_ok (publish_job_event e h)"
  using sanitize_active_errors_ok
  by (auto simp: handle_ok_def AgentHandle_new_def agent_transition_def set_pending_jobs_def
      set_active_errors_def publish_job_event_def Let_def split: if_splits)

text \<open>Steps and runs of the life cycle.\<close>

inductive lifecycle_run :: "AgentState \<Rightarrow> AgentState list \<Rightarrow> AgentState \<Rightarrow> bool" where
  run_nil: "lifecycle_run s [] s"
| run_step: "can_transition s t \<Longrightarrow> lifecycle_run t path u \<Longrightarrow> lifecycle_run s (t # path) u"

inductive_cases run_nilE: "lifecycle_run s [] u"
inductive_cases run_ConsE: "lifecycle_run s (t # path) u"

lemma shutting_down_absorbs: "can_transition ShuttingDown t \<longleftrightarrow> t = ShuttingDown"
  by (cases t) (auto simp: can_transition_def)

lemma shutdown_run: "lifecycle_run s path u \<Longrightarrow> s = ShuttingDown \<Longrightarrow> u = ShuttingDown \<and> set path \<subseteq> {ShuttingDown}"
  by (induction rule: lifecycle_run.induct) (auto simp: shutting_down_absorbs)

definition paired :: "AgentState \<Rightarrow> bool" where
  "paired s \<longleftrightarrow> s \<in> {Disconnected, Connecting, Connected, Degraded}"

lemma pairing_first:
  "lifecycle_run s path u \<Longrightarrow> \<not> paired s \<Longrightarrow> paired u \<Longrightarrow> Pairing \<in> set (s # path)"
proof (induction rule: lifecycle_run.induct)
  case (run_step s t path u)
  show ?case
  proof (cases "paired t")
    case True
    then have "s = Pairing"
      using run_step.hyps(1) run_step.prems(1) by (cases s; cases t) (auto simp: paired_def can_transition_def)
    then show ?thesis by simp
  qed (use run_step in auto)
qed (simp add: paired_def)

lemma connecting_first:
  "lifecycle_run s path u \<Longrightarrow> s \<notin> {Connecting, Connected, Degraded} \<Longrightarrow> u \<in> {Connected, Degraded} \<Longrightarrow>
   Connecting \<in> set path"
proof (induction rule: lifecycle_run.induct)
  case (run_step s t path u)
  show ?case
  proof (cases "t \<in> {Connecting, Connected, Degraded}")
    case True
    then have "t = Connecting"
      using run_step.hyps(1) run_step.prems(1) by (cases s; cases t) (auto simp: can_transition_def)
    then show ?thesis by simp
  qed (use run_step in auto)
qed simp

end
