(* ===== verification/Printer_Ref.thy ===== *)
theory Printer_Ref
  imports Oppa_Core
begin

text \<open>
  The printer domain of \<open>crates/oppa-printer\<close>: how a printer is reached, what is submitted to
  it, the evidence that recognises it across discovery passes, and the validation a configured
  printer passes before it is saved or used. \<open>str::to_lowercase\<close> needs the Unicode case tables;
  it is the argument \<open>lower\<close> of the definitions that use it.
\<close>

section \<open>Connections and modes\<close>

definition MAX_PRINTER_NAME_BYTES :: nat where
  "MAX_PRINTER_NAME_BYTES = 256"

datatype PrinterConnection =
  SystemQueue (queue_name: ustring)
| Network (net_host: ustring) (net_port: "16 word")
| Usb (usb_vendor: "16 word") (usb_product: "16 word") (usb_serial: "ustring option")
| Virtual (virtual_id: ustring)

datatype PrinterLanguage = EscPos

datatype SubmissionMode = Driver | Raw PrinterLanguage

datatype VirtualPrinterProfile =
  EscPosReceipt (receipt_width_mm: "16 word")
| SystemDriverPage (page_width_mm: "16 word") (page_height_mm: "16 word") (page_dpi: "16 word")

datatype ConnectionKind = KindSystemQueue | KindNetwork | KindUsb | KindVirtual

fun connection_kind :: "PrinterConnection \<Rightarrow> ConnectionKind" where
  "connection_kind (SystemQueue _) = KindSystemQueue"
| "connection_kind (Network _ _) = KindNetwork"
| "connection_kind (Usb _ _ _) = KindUsb"
| "connection_kind (Virtual _) = KindVirtual"

datatype PrinterValidationError =
  TextEmpty ustring
| TextTooLong ustring nat
| InvalidHost
| InvalidPort
| MissingProvider
| MissingVirtualProfile
| UnexpectedVirtualProfile
| IncompatibleVirtualMode
| InvalidVirtualProfile

text \<open>The messages \<open>thiserror\<close> derives for a rejected printer.\<close>

fun printer_error_message :: "PrinterValidationError \<Rightarrow> ustring" where
  "printer_error_message (TextEmpty field) = field @ lit '' must not be empty''"
| "printer_error_message (TextTooLong field m) =
     field @ lit '' exceeds the '' @ dec m @ lit ''-byte limit''"
| "printer_error_message InvalidHost =
     lit ''network host must be a hostname or IP address, not a URL or path''"
| "printer_error_message InvalidPort = lit ''network printer port must be between 1 and 65535''"
| "printer_error_message MissingProvider =
     lit ''discovered printer must preserve at least one provider observation''"
| "printer_error_message MissingVirtualProfile =
     lit ''virtual printer must define an emulation profile''"
| "printer_error_message UnexpectedVirtualProfile =
     lit ''physical printers cannot define a virtual emulation profile''"
| "printer_error_message IncompatibleVirtualMode =
     lit ''virtual printer profile and submission mode are incompatible''"
| "printer_error_message InvalidVirtualProfile =
     lit ''virtual printer profile has unsupported dimensions or resolution''"

definition validate_text :: "ustring \<Rightarrow> ustring \<Rightarrow> nat \<Rightarrow> PrinterValidationError + unit" where
  "validate_text field value maximum = first_err
     [reject_if (trim value = [] \<or> trim value \<noteq> value) (TextEmpty field),
      reject_if (byte_len value > maximum) (TextTooLong field maximum)]"

definition VirtualPrinterProfile_validate ::
  "VirtualPrinterProfile \<Rightarrow> PrinterValidationError + unit" where
  "VirtualPrinterProfile_validate p = (case p of
     EscPosReceipt width_mm \<Rightarrow> reject_if (\<not> (width_mm = 58 \<or> width_mm = 80)) InvalidVirtualProfile
   | SystemDriverPage w h dpi \<Rightarrow>
       reject_if (\<not> (100 \<le> w \<and> w \<le> 500 \<and> 100 \<le> h \<and> h \<le> 500 \<and> 72 \<le> dpi \<and> dpi \<le> 600))
         InvalidVirtualProfile)"

definition PrinterConnection_validate ::
  "PrinterConnection \<Rightarrow> PrinterValidationError + unit" where
  "PrinterConnection_validate c = (case c of
     SystemQueue name \<Rightarrow> validate_text (lit ''queue name'') name MAX_PRINTER_NAME_BYTES
   | Network host port \<Rightarrow> first_err
       [validate_text (lit ''network host'') host 253,
        reject_if (sublist (lit ''://'') host \<or> 47 \<in> set host) InvalidHost,
        reject_if (port = 0) InvalidPort]
   | Usb _ _ serial_number \<Rightarrow>
       if_some serial_number (\<lambda>s. validate_text (lit ''USB serial number'') s 256)
   | Virtual vid \<Rightarrow> validate_text (lit ''virtual printer id'') vid MAX_PRINTER_NAME_BYTES)"

section \<open>Fingerprints\<close>

record PrinterFingerprint =
  fp_queue_name :: "ustring option"
  fp_driver_name :: "ustring option"
  fp_device_uri :: "ustring option"
  fp_host :: "ustring option"
  fp_port :: "16 word option"
  fp_usb_vendor_id :: "16 word option"
  fp_usb_product_id :: "16 word option"
  fp_serial_number :: "ustring option"
  fp_mac_address :: "ustring option"

definition normalized :: "(ustring \<Rightarrow> ustring) \<Rightarrow> ustring option \<Rightarrow> ustring option" where
  "normalized lower value = (case value of
     None \<Rightarrow> None | Some v \<Rightarrow> if trim v = [] then None else Some (lower (trim v)))"

definition hex_digit :: "nat \<Rightarrow> codepoint" where
  "hex_digit n = (if n < 10 then 48 + n else 87 + n)"

text \<open>\<open>{:04x}\<close>.\<close>

definition hex4 :: "16 word \<Rightarrow> ustring" where
  "hex4 w = (let n = unat w in
     [hex_digit (n div 4096), hex_digit (n div 256 mod 16), hex_digit (n div 16 mod 16),
      hex_digit (n mod 16)])"

definition identity_keys :: "(ustring \<Rightarrow> ustring) \<Rightarrow> PrinterFingerprint \<Rightarrow> ustring list" where
  "identity_keys lower f =
     (case (fp_usb_vendor_id f, fp_usb_product_id f, normalized lower (fp_serial_number f)) of
        (Some vendor, Some product, Some serial) \<Rightarrow>
          [lit ''usb:'' @ hex4 vendor @ lit '':'' @ hex4 product @ lit '':'' @ serial]
      | _ \<Rightarrow> []) @
     (case normalized lower (fp_device_uri f) of Some uri \<Rightarrow> [lit ''uri:'' @ uri] | None \<Rightarrow> []) @
     (case normalized lower (fp_host f) of
        Some host \<Rightarrow> [lit ''network:'' @ host @ lit '':'' @
          dec (unat (case fp_port f of Some p \<Rightarrow> p | None \<Rightarrow> 9100))]
      | None \<Rightarrow> []) @
     (case normalized lower (fp_queue_name f) of Some q \<Rightarrow> [lit ''queue:'' @ q] | None \<Rightarrow> []) @
     (case normalized lower (fp_mac_address f) of Some mac \<Rightarrow> [lit ''mac:'' @ mac] | None \<Rightarrow> [])"

definition merge_option :: "'a option \<Rightarrow> 'a option \<Rightarrow> 'a option" where
  "merge_option destination source = (if destination = None then source else destination)"

definition merge_missing :: "PrinterFingerprint \<Rightarrow> PrinterFingerprint \<Rightarrow> PrinterFingerprint" where
  "merge_missing f other = \<lparr>
     fp_queue_name = merge_option (fp_queue_name f) (fp_queue_name other),
     fp_driver_name = merge_option (fp_driver_name f) (fp_driver_name other),
     fp_device_uri = merge_option (fp_device_uri f) (fp_device_uri other),
     fp_host = merge_option (fp_host f) (fp_host other),
     fp_port = merge_option (fp_port f) (fp_port other),
     fp_usb_vendor_id = merge_option (fp_usb_vendor_id f) (fp_usb_vendor_id other),
     fp_usb_product_id = merge_option (fp_usb_product_id f) (fp_usb_product_id other),
     fp_serial_number = merge_option (fp_serial_number f) (fp_serial_number other),
     fp_mac_address = merge_option (fp_mac_address f) (fp_mac_address other)\<rparr>"

section \<open>Discovered printers\<close>

datatype PrinterKind = PurposeReceipt | PurposeLabel | PurposeDocument | PurposeVirtual | PurposeUnknown
datatype PrinterAvailability = Online | Offline | DegradedAvailability | UnknownAvailability
datatype StandardPaper = PaperA4 | PaperA5 | PaperLetter | PaperLegal

record PdfCapabilities =
  pdf_native :: bool
  pdf_duplex :: bool
  pdf_custom_paper :: bool
  pdf_paper_sizes :: "StandardPaper list"

record PrinterCapabilities =
  pc_receipt_widths_mm :: "16 word list"
  pc_esc_pos :: bool
  pc_system_driver :: bool
  pc_raster :: bool
  pc_cut :: bool
  pc_qr_code :: bool
  pc_barcode :: bool
  pc_cancellation :: bool
  pc_pdf :: "PdfCapabilities option"

record ProviderMetadata =
  prov_provider :: ustring
  prov_provider_id :: "ustring option"
  prov_attributes :: "(ustring \<times> ustring) list"

record DiscoveredPrinter =
  dp_id :: "PrinterId option"
  dp_name :: ustring
  dp_kind :: PrinterKind
  dp_connection :: PrinterConnection
  dp_fingerprint :: PrinterFingerprint
  dp_availability :: PrinterAvailability
  dp_capabilities :: "PrinterCapabilities option"
  dp_providers :: "ProviderMetadata list"

definition DiscoveredPrinter_validate ::
  "DiscoveredPrinter \<Rightarrow> PrinterValidationError + unit" where
  "DiscoveredPrinter_validate d = first_err
     ([validate_text (lit ''printer name'') (dp_name d) MAX_PRINTER_NAME_BYTES,
       PrinterConnection_validate (dp_connection d),
       reject_if (dp_providers d = []) MissingProvider]
      @ map (\<lambda>p. validate_text (lit ''provider name'') (prov_provider p) 64) (dp_providers d))"

section \<open>Configured printers\<close>

record PrinterRef =
  pr_id :: PrinterId
  pr_display_name :: ustring
  pr_connection :: PrinterConnection
  pr_submission_mode :: SubmissionMode
  pr_virtual_profile :: "VirtualPrinterProfile option"
  pr_enabled :: bool

definition PrinterRef_validate :: "PrinterRef \<Rightarrow> PrinterValidationError + unit" where
  "PrinterRef_validate p =
     and_then (validate_text (lit ''printer display name'') (pr_display_name p)
       MAX_PRINTER_NAME_BYTES) (\<lambda>_.
     and_then (PrinterConnection_validate (pr_connection p)) (\<lambda>_.
     (case (connection_kind (pr_connection p), pr_virtual_profile p) of
        (KindVirtual, Some profile) \<Rightarrow>
          and_then (VirtualPrinterProfile_validate profile) (\<lambda>_.
            (case (profile, pr_submission_mode p) of
               (EscPosReceipt _, Raw EscPos) \<Rightarrow> Ok ()
             | (SystemDriverPage _ _ _, Driver) \<Rightarrow> Ok ()
             | _ \<Rightarrow> Err IncompatibleVirtualMode))
      | (KindVirtual, None) \<Rightarrow> Err MissingVirtualProfile
      | (_, Some _) \<Rightarrow> Err UnexpectedVirtualProfile
      | _ \<Rightarrow> Ok ())))"

record SubmissionReceipt =
  sr_backend_job_id :: "ustring option"
  sr_backend :: ustring
  sr_accepted_at :: Timestamp
  sr_metadata :: "(ustring \<times> ustring) list"

section \<open>What validation accepts\<close>

lemma validate_text_Ok [checks]:
  "validate_text f s m = Ok u \<longleftrightarrow> s \<noteq> [] \<and> trim s = s \<and> byte_len s \<le> m"
  by (auto simp: validate_text_def first_err_Ok)

lemma profile_Ok [checks]:
  "VirtualPrinterProfile_validate p = Ok u \<longleftrightarrow> (case p of
     EscPosReceipt w \<Rightarrow> w = 58 \<or> w = 80
   | SystemDriverPage w h dpi \<Rightarrow> w \<in> {100..500} \<and> h \<in> {100..500} \<and> dpi \<in> {72..600})"
  by (cases p) (auto simp: VirtualPrinterProfile_validate_def)

text \<open>The profile of an accepted printer agrees with its connection and its mode.\<close>

definition profile_consistent :: "PrinterRef \<Rightarrow> bool" where
  "profile_consistent p \<longleftrightarrow> (case pr_virtual_profile p of
     None \<Rightarrow> connection_kind (pr_connection p) \<noteq> KindVirtual
   | Some (EscPosReceipt w) \<Rightarrow>
       connection_kind (pr_connection p) = KindVirtual \<and> pr_submission_mode p = Raw EscPos \<and>
       (w = 58 \<or> w = 80)
   | Some (SystemDriverPage w h dpi) \<Rightarrow>
       connection_kind (pr_connection p) = KindVirtual \<and> pr_submission_mode p = Driver \<and>
       w \<in> {100..500} \<and> h \<in> {100..500} \<and> dpi \<in> {72..600})"

lemma PrinterRef_validate_Ok [checks]:
  "PrinterRef_validate p = Ok () \<longleftrightarrow>
     pr_display_name p \<noteq> [] \<and> trim (pr_display_name p) = pr_display_name p \<and>
     byte_len (pr_display_name p) \<le> 256 \<and> PrinterConnection_validate (pr_connection p) = Ok () \<and>
     profile_consistent p"
proof -
  have mode: "m = Driver \<or> m = Raw EscPos" for m
    by (metis PrinterLanguage.exhaust SubmissionMode.exhaust)
  show ?thesis
    using mode [of "pr_submission_mode p"]
    by (cases "pr_virtual_profile p"; cases "the (pr_virtual_profile p)";
        cases "pr_connection p")
       (auto simp: PrinterRef_validate_def profile_consistent_def and_then_Ok validate_text_Ok
        profile_Ok MAX_PRINTER_NAME_BYTES_def)
qed

text \<open>Merging evidence never overwrites a selected observation and is idempotent.\<close>

lemma merge_option_laws [simp]:
  "merge_option None b = b" "merge_option (Some x) b = Some x" "merge_option a None = a"
  "merge_option a a = a" "merge_option (merge_option a b) c = merge_option a (merge_option b c)"
  by (auto simp: merge_option_def)

lemma merge_missing_assoc:
  "merge_missing (merge_missing a b) c = merge_missing a (merge_missing b c)"
  by (simp add: merge_missing_def)

lemma merge_missing_idem: "merge_missing a a = a" "merge_missing (merge_missing a b) b = merge_missing a b"
  by (simp_all add: merge_missing_def)

end
