(* ===== verification/Backends.thy ===== *)
theory Backends
  imports Wire_Document Printer_Ref
begin

text \<open>
  The boundary between the job processor and what renders, fetches and prints: the error types of
  \<open>oppa-renderer\<close>, \<open>oppa-spooler\<close> and \<open>oppa-documents\<close>, the render target of a printer, and
  the registry that routes a submission. A backend behind the \<open>Spooler\<close> trait is a function from
  the request and the state of its cancellation token to an error or a receipt.
\<close>

section \<open>Rendering\<close>

record PageRenderOptions =
  opt_width_mm :: "16 word"
  opt_height_mm :: "16 word"
  opt_dpi :: "16 word"

definition A4_PORTRAIT :: PageRenderOptions where
  "A4_PORTRAIT = \<lparr>opt_width_mm = 210, opt_height_mm = 297, opt_dpi = 300\<rparr>"

datatype RenderTarget = TargetEscPos | TargetPage PageRenderOptions | TargetVirtual

datatype RendererError =
  InvalidLimits
| InvalidPageOptions
| InvalidDocument ustring
| UnicodeRequiresRasterization
| InvalidImage ustring
| ImageTooLarge ustring
| InvalidBarcode BarcodeFormat ustring
| OutputTooLarge nat nat
| InvalidRasterPage ustring
| PageOverflow
| BarcodeRender ustring
| InvalidPdf ustring
| EncryptedPdf
| PdfLimitExceeded ustring "64 word" "64 word"
| InvalidPageRange ustring
| PdfRender ustring
| RasterizationTimedOut
| InvalidEscPos nat ustring

text \<open>\<open>impl Debug for BarcodeFormat\<close> and \<open>impl Display for RendererError\<close>.\<close>

fun BarcodeFormat_debug :: "BarcodeFormat \<Rightarrow> ustring" where
  "BarcodeFormat_debug Code128 = lit ''Code128''"
| "BarcodeFormat_debug Code39 = lit ''Code39''"
| "BarcodeFormat_debug Ean13 = lit ''Ean13''"
| "BarcodeFormat_debug Upca = lit ''Upca''"

fun RendererError_to_string :: "RendererError \<Rightarrow> ustring" where
  "RendererError_to_string InvalidLimits = lit ''renderer output limit must be greater than zero''"
| "RendererError_to_string InvalidPageOptions =
     lit ''page dimensions must be 100'' @ [0x2013] @ lit ''500 mm and resolution 72'' @ [0x2013] @ lit ''600 DPI''"
| "RendererError_to_string (InvalidDocument s) = lit ''print document is invalid: '' @ s"
| "RendererError_to_string UnicodeRequiresRasterization =
     lit ''ESC/POS text contains Unicode that is not reliably supported; use a raster text renderer''"
| "RendererError_to_string (InvalidImage s) = lit ''image data is invalid: '' @ s"
| "RendererError_to_string (ImageTooLarge s) = lit ''image exceeds renderer limits: '' @ s"
| "RendererError_to_string (InvalidBarcode f reason) =
     lit ''barcode is invalid for '' @ BarcodeFormat_debug f @ lit '': '' @ reason"
| "RendererError_to_string (OutputTooLarge actual maximum) =
     lit ''rendered output is '' @ dec actual @ lit '' bytes; maximum is '' @ dec maximum"
| "RendererError_to_string (InvalidRasterPage s) = lit ''raster page is invalid: '' @ s"
| "RendererError_to_string PageOverflow = lit ''receipt content exceeds the configured page height''"
| "RendererError_to_string (BarcodeRender s) = lit ''barcode cannot be rendered: '' @ s"
| "RendererError_to_string (InvalidPdf s) = lit ''PDF document is invalid: '' @ s"
| "RendererError_to_string EncryptedPdf =
     lit ''encrypted PDF documents are not supported; remove the password protection and retry''"
| "RendererError_to_string (PdfLimitExceeded limit actual maximum) =
     lit ''PDF '' @ limit @ lit '' is '' @ dec (unat actual) @ lit ''; the maximum is '' @ dec (unat maximum)"
| "RendererError_to_string (InvalidPageRange s) = lit ''page range is invalid: '' @ s"
| "RendererError_to_string (PdfRender s) = lit ''PDF rendering failed: '' @ s"
| "RendererError_to_string RasterizationTimedOut =
     lit ''PDF rasterization did not finish within its time limit''"
| "RendererError_to_string (InvalidEscPos offset reason) =
     lit ''ESC/POS command stream is unsupported or malformed at byte '' @ dec offset @ lit '': '' @ reason"

section \<open>Fetching\<close>

datatype DocumentFetchError =
  InvalidSource ustring
| Authorization ustring
| Refused "16 word"
| NotFound "16 word"
| ServerError "16 word"
| TransportFailed ustring
| FetchTimeout nat
| LengthMismatch "64 word" "64 word"
| IntegrityMismatch

fun fetch_error_code :: "DocumentFetchError \<Rightarrow> ustring" where
  "fetch_error_code (InvalidSource _) = lit ''document.invalid_source''"
| "fetch_error_code (Authorization _) = lit ''document.authorization_failed''"
| "fetch_error_code (Refused _) = lit ''document.refused''"
| "fetch_error_code (NotFound _) = lit ''document.not_found''"
| "fetch_error_code (ServerError _) = lit ''document.fetch_failed''"
| "fetch_error_code (TransportFailed _) = lit ''document.fetch_failed''"
| "fetch_error_code (FetchTimeout _) = lit ''document.fetch_failed''"
| "fetch_error_code (LengthMismatch _ _) = lit ''document.integrity_failed''"
| "fetch_error_code IntegrityMismatch = lit ''document.integrity_failed''"

fun fetch_error_retryable :: "DocumentFetchError \<Rightarrow> bool" where
  "fetch_error_retryable (ServerError _) = True"
| "fetch_error_retryable (TransportFailed _) = True"
| "fetch_error_retryable (FetchTimeout _) = True"
| "fetch_error_retryable _ = False"

section \<open>Spooling\<close>

datatype SpoolerError =
  InvalidTarget ustring
| PrinterDisabled PrinterId
| UnsupportedTarget ConnectionKind
| UnsupportedDocument ustring ustring
| InvalidSubmissionMode ustring
| DocumentRender ustring
| DocumentTooLarge nat nat
| BackendUnavailable ustring
| Connectivity ustring
| SpoolerTimeout ustring nat
| Rejected ustring
| SpoolerCancelled
| SimulatedFailure
| InvalidConfiguration ustring
| UnsupportedOption ustring

record 'doc SubmissionRequest =
  req_job_id :: PrintJobId
  req_printer :: PrinterRef
  req_document :: 'doc

type_synonym 'doc Spooler = "'doc SubmissionRequest \<Rightarrow> bool \<Rightarrow> SpoolerError + SubmissionReceipt"

type_synonym 'doc SpoolerRegistry = "ConnectionKind \<Rightarrow> 'doc Spooler option"

definition SpoolerRegistry_register ::
  "ConnectionKind \<Rightarrow> 'doc Spooler \<Rightarrow> 'doc SpoolerRegistry \<Rightarrow> 'doc SpoolerRegistry" where
  "SpoolerRegistry_register kind spooler r = r(kind \<mapsto> spooler)"

text \<open>The message a rejected printer is reported with is the argument \<open>message\<close>.\<close>

definition SpoolerRegistry_submit ::
  "'doc SpoolerRegistry \<Rightarrow> (PrinterValidationError \<Rightarrow> ustring) \<Rightarrow> 'doc SubmissionRequest \<Rightarrow> bool \<Rightarrow>
   SpoolerError + SubmissionReceipt" where
  "SpoolerRegistry_submit r message request cancelled =
     and_then (map_err (\<lambda>e. InvalidTarget (message e)) (PrinterRef_validate (req_printer request)))
       (\<lambda>_.
     and_then (reject_if (\<not> pr_enabled (req_printer request))
       (PrinterDisabled (pr_id (req_printer request)))) (\<lambda>_.
     and_then (ok_or (UnsupportedTarget (connection_kind (pr_connection (req_printer request))))
       (r (connection_kind (pr_connection (req_printer request))))) (\<lambda>spooler.
     spooler request cancelled)))"

text \<open>A submission reaches a backend only with a valid, enabled printer of the backend's family.\<close>

lemma registry_submit_Ok:
  "SpoolerRegistry_submit r m request c = Ok receipt \<longleftrightarrow>
     PrinterRef_validate (req_printer request) = Ok () \<and> pr_enabled (req_printer request) \<and>
     (\<exists>spooler. r (connection_kind (pr_connection (req_printer request))) = Some spooler \<and>
        spooler request c = Ok receipt)"
  by (auto simp: SpoolerRegistry_submit_def and_then_Ok)

end
