(* ===== verification/Wire_Properties.thy ===== *)
theory Wire_Properties
  imports Wire_Message Agent_Lifecycle Backends
begin

text \<open>
  The properties of the wire protocol, of the printer model and of the agent's life cycle, each with
  the concrete instance of its hypotheses where it has any.
\<close>

text \<open>The URL check accepts exactly the documented set: at most 2048 bytes, printable without a
  fragment, \<open>https\<close> with any host or \<open>http\<close> with a loopback host, a non-empty host of the allowed
  characters and an optional numeric port.\<close>

theorem document_url_gate: "validate_document_url v p = Ok () \<longleftrightarrow> allowed_document_url v"
  by (rule document_url_accepted_iff)

text \<open>Page ranges are accepted exactly when they are at most 256 bytes long and every
  comma-separated part denotes an ascending range of page numbers.\<close>

theorem page_ranges_gate:
  "validate_page_ranges v = Ok () \<longleftrightarrow> v \<noteq> [] \<and> byte_len v \<le> 256 \<and>
     list_all (\<lambda>part. \<exists>a b. page_range part a b) (split_on (\<lambda>c. c = 44) v)"
  by (simp add: validate_page_ranges_Ok list_all_iff)

text \<open>A server that closes the extended hello and accepts the base version is remembered: the
  retry offers only the base version, the record lasts a day (saturating at the largest instant), and
  exactly while it lasts new connections offer only the base version.\<close>

theorem legacy_server_remembered:
  assumes "on_closed_before_hello (HandshakePlanner_new rec now) = (True, p)"
    and "on_accepted p V1 now = Store r"
  shows "offered p = [V1] \<and> unat (legacy_until_ms r) = min (unat now + 86400000) (2 ^ 64 - 1) \<and>
    offered (HandshakePlanner_new (Some r) later) = (if later < legacy_until_ms r then [V1] else [V2, V1])"
proof -
  have p: "offered p = [V1]" "fell_back p"
    using assms(1) by (auto simp: on_closed_before_hello_def BASE_def split: if_splits)
  have r: "legacy_until_ms r = saturating_add now LEGACY_RETRY_INTERVAL_MS"
    using assms(2) p by (auto simp: on_accepted_def BASE_def)
  have "unat (saturating_add now LEGACY_RETRY_INTERVAL_MS) = min (unat now + 86400000) (2 ^ 64 - 1)"
  proof (cases "unat now + unat LEGACY_RETRY_INTERVAL_MS < 2 ^ 64")
    case True
    then have "unat (now + LEGACY_RETRY_INTERVAL_MS) = unat now + unat LEGACY_RETRY_INTERVAL_MS"
      using unat_add_lem [of now LEGACY_RETRY_INTERVAL_MS] by simp
    then show ?thesis using True by (simp add: saturating_add_def LEGACY_RETRY_INTERVAL_MS_def)
  next
    case False
    then show ?thesis
      by (simp add: saturating_add_def LEGACY_RETRY_INTERVAL_MS_def unsigned_minus_1_eq_mask mask_eq_exp_minus_1)
  qed
  then show ?thesis using p r by (simp add: HandshakePlanner_new_def BASE_def EXTENDED_def Let_def)
qed

theorem legacy_server_remembered_witness:
  "offered (snd (on_closed_before_hello (HandshakePlanner_new None 1000))) = [V1] \<and>
   offered (HandshakePlanner_new (Some \<lparr>legacy_until_ms = 86401000\<rparr>) 86400999) = [V1]"
proof -
  let ?p = "\<lparr>offered = [V1], had_record = False, may_fall_back = True, fell_back = True\<rparr>"
  have a: "on_closed_before_hello (HandshakePlanner_new None 1000) = (True, ?p)"
    by (simp add: on_closed_before_hello_def HandshakePlanner_new_def BASE_def)
  have b: "on_accepted ?p V1 1000 = Store \<lparr>legacy_until_ms = 86401000\<rparr>"
    by (simp add: on_accepted_def BASE_def saturating_add_def LEGACY_RETRY_INTERVAL_MS_def)
  show ?thesis using legacy_server_remembered [OF a b, of 86400999] a by simp
qed

text \<open>However often the server closes before its hello, a connection retries at most once, and
  not at all while a legacy record is current.\<close>

theorem falls_back_at_most_once:
  "fst (closings (Suc n) (HandshakePlanner_new rec now)) =
     (\<not> (case rec of Some r \<Rightarrow> now < legacy_until_ms r | None \<Rightarrow> False)) # replicate n False"
  using closings_new [of n rec now] by (cases rec) auto

text \<open>An inventory projected to the base version keeps the printers and their order, and can be
  sent in a base envelope.\<close>

theorem projection_downgrades:
  "required_version (AgentInventoryMsg \<lparr>inv_revision = r, inv_printers = project_inventory ds V1\<rparr>) = V1 \<and>
   map pd_id (project_inventory ds v) = map pd_id ds"
  using projected_required_version
  by (cases v) (auto simp: project_inventory_def without_extended_capabilities_def)

text \<open>A printer descriptor that is valid stays valid when it is projected to any version.\<close>

theorem projection_keeps_valid:
  assumes "d \<in> set (project_inventory ds v)" "list_all (\<lambda>x. PrinterDescriptor_validate x = Ok ()) ds"
  shows "PrinterDescriptor_validate d = Ok ()"
  using assms projected_validate by (cases v) (auto simp: project_inventory_def list_all_iff)

definition sample_descriptor :: PrinterDescriptor where
  "sample_descriptor = \<lparr>pd_id = lit ''p1'', pd_fingerprint = lit ''f'', pd_name = lit ''n'',
     pd_kind = WireVirtualKind, pd_connection = WireVirtual, pd_capabilities = None, pd_enabled = True,
     pd_availability = WireOnline\<rparr>"

theorem projection_keeps_valid_witness:
  "PrinterDescriptor_validate (without_extended_capabilities sample_descriptor) = Ok ()"
proof (rule projection_keeps_valid [of _ "[sample_descriptor]" V1])
  show "without_extended_capabilities sample_descriptor \<in> set (project_inventory [sample_descriptor] V1)"
    by (simp add: project_inventory_def)
  show "list_all (\<lambda>x. PrinterDescriptor_validate x = Ok ()) [sample_descriptor]"
    by (simp add: PrinterDescriptor_validate_def sample_descriptor_def first_err_Ok wire_checks
        identifier_shape_def is_identifier_char_def lit_def utf16_len_def is_ascii_alnum_def
        is_ascii_digit_def is_ascii_lower_def is_ascii_upper_def if_some_Ok WireConnection_validate_def)
qed

text \<open>A printer is accepted exactly when its display name is trimmed, non-empty and at most 256
  bytes, its connection is valid, and its emulation profile agrees with its connection and mode.\<close>

theorem printer_gate:
  "PrinterRef_validate p = Ok () \<longleftrightarrow>
     pr_display_name p \<noteq> [] \<and> trim (pr_display_name p) = pr_display_name p \<and>
     byte_len (pr_display_name p) \<le> 256 \<and> PrinterConnection_validate (pr_connection p) = Ok () \<and>
     profile_consistent p"
  by (rule PrinterRef_validate_Ok)

text \<open>A submission is accepted exactly by the backend registered for the connection family of a
  valid and enabled printer.\<close>

theorem registry_routes:
  "SpoolerRegistry_submit r m request c = Ok receipt \<longleftrightarrow>
     PrinterRef_validate (req_printer request) = Ok () \<and> pr_enabled (req_printer request) \<and>
     (\<exists>spooler. r (connection_kind (pr_connection (req_printer request))) = Some spooler \<and>
        spooler request c = Ok receipt)"
  by (rule registry_submit_Ok)

text \<open>An unconfigured agent is connected or degraded only after it was paired and connecting.\<close>

theorem connected_after_pairing:
  assumes "lifecycle_run Unconfigured path u" "u \<in> {Connected, Degraded}"
  shows "Pairing \<in> set path \<and> Connecting \<in> set path"
  using pairing_first [OF assms(1)] connecting_first [OF assms(1)] assms(2) by (auto simp: paired_def)

theorem connected_after_pairing_witness:
  "Pairing \<in> set [Pairing, Disconnected, Connecting, Connected] \<and>
   Connecting \<in> set [Pairing, Disconnected, Connecting, Connected]"
proof (rule connected_after_pairing [of _ Connected])
  show "lifecycle_run Unconfigured [Pairing, Disconnected, Connecting, Connected] Connected"
    by (auto intro!: lifecycle_run.intros simp: can_transition_def)
qed simp

text \<open>A stored or displayed diagnostic is never empty or blank, has at most 1000 bytes, no
  control character, and is cut at a character boundary as late as possible.\<close>

theorem diagnostics_bounded:
  assumes "prefix p (trim (blank_controls s))" "byte_len p \<le> 1000"
  shows "diagnostic_ok (sanitize_message s) \<and>
    (p \<noteq> [] \<longrightarrow> prefix (sanitize_message s) (trim (blank_controls s)) \<and> byte_len p \<le> byte_len (sanitize_message s))"
  using sanitize_message_ok truncate_maximal [OF assms] truncate_prefix [of "trim (blank_controls s)" 1000] assms(1)
  by (auto simp: sanitize_message_def Let_def)

theorem diagnostics_bounded_witness:
  "prefix (sanitize_message [97, 10, 98]) (trim (blank_controls [97, 10, 98])) \<and>
   3 \<le> byte_len (sanitize_message [97, 10, 98])"
proof -
  have t: "trim (blank_controls [97, 10, 98]) = [97, 32, 98]"
    by (simp add: trim_def trim_start_def trim_end_def blank_controls_def is_whitespace_def is_control_def)
  have "diagnostic_ok (sanitize_message [97, 10, 98]) \<and> ([97, 32, 98] \<noteq> ([] :: ustring) \<longrightarrow>
      prefix (sanitize_message [97, 10, 98]) (trim (blank_controls [97, 10, 98])) \<and>
      byte_len [97, 32, 98] \<le> byte_len (sanitize_message [97, 10, 98]))"
    by (rule diagnostics_bounded) (simp_all add: t utf8_len_def)
  then show ?thesis by (simp add: utf8_len_def)
qed

end
