(* ===== verification/Storage.thy ===== *)
theory Storage
  imports Printer_Ref
begin

text \<open>
  The durable job repository of \<open>crates/oppa-storage\<close>. A table is the list of its rows, its
  PRIMARY KEY, UNIQUE and REFERENCES constraints are written into the statements that could
  violate them, and a transaction is a function from the database to an error or a result with the
  new database, so that an error leaves the database as it was. A text column ordered by SQLite's
  binary collation is ordered by code points. \<open>serde_json\<close>, SHA-256 and the range of
  \<open>chrono\<close>'s timestamps are the fields of \<open>senv\<close>. Failures of SQLite itself (disk, lock,
  corruption) are not modelled, apart from constraint violations.
\<close>

section \<open>Environment, errors, limits\<close>

text \<open>
  \<open>json_text\<close> is \<open>serde_json::to_string\<close>, \<open>json_parse\<close> is \<open>from_str\<close>, \<open>digest\<close> is the
  lower-case hexadecimal SHA-256 of a text, \<open>millis_ok\<close> says which millisecond counts
  \<open>DateTime::from_timestamp_millis\<close> represents.
\<close>

record 'v senv =
  json_text :: "'v \<Rightarrow> ustring option"
  json_parse :: "ustring \<Rightarrow> 'v option"
  digest :: "ustring \<Rightarrow> ustring"
  millis_ok :: "int \<Rightarrow> bool"

definition MAX_JOB_PAYLOAD_BYTES :: nat where "MAX_JOB_PAYLOAD_BYTES = 2 * 1024 * 1024"
definition MAX_OUTBOUND_STATUS_BYTES :: nat where "MAX_OUTBOUND_STATUS_BYTES = 64 * 1024"
definition DEFAULT_MAX_PENDING_JOBS :: nat where "DEFAULT_MAX_PENDING_JOBS = 10000"
definition DEFAULT_MAX_TERMINAL_JOBS :: nat where "DEFAULT_MAX_TERMINAL_JOBS = 10000"
definition DEFAULT_OUTBOUND_STATUS_BATCH_SIZE :: nat where
  "DEFAULT_OUTBOUND_STATUS_BATCH_SIZE = 256"

datatype StorageError =
  SqliteConstraint
| SqliteColumn
| JsonError
| StoredIdentifier IdentifierError
| InvalidInput ustring
| QueueFull nat
| JobIdentityConflict PrintJobId
| JobContentConflict PrintJobId
| InvalidTransition PrintJobId JobState JobState
| JobNotFound PrintJobId
| StoredTimestamp int

record StorageLimits =
  lim_max_pending_jobs :: nat
  lim_max_terminal_jobs :: nat

definition StorageLimits_default :: StorageLimits where
  "StorageLimits_default = \<lparr>lim_max_pending_jobs = DEFAULT_MAX_PENDING_JOBS,
     lim_max_terminal_jobs = DEFAULT_MAX_TERMINAL_JOBS\<rparr>"

definition validate_limits :: "StorageLimits \<Rightarrow> StorageError + unit" where
  "validate_limits l = reject_if (lim_max_pending_jobs l = 0 \<or> lim_max_terminal_jobs l = 0)
     (InvalidInput (lit ''pending and terminal job limits must be greater than zero''))"

definition validate_key :: "ustring \<Rightarrow> ustring \<Rightarrow> nat \<Rightarrow> StorageError + unit" where
  "validate_key field value maximum = reject_if
     (trim value = [] \<or> trim value \<noteq> value \<or> byte_len value > maximum \<or> list_ex is_control value)
     (InvalidInput (field @ lit '' must be 1 to '' @ dec maximum @
        lit '' bytes without surrounding whitespace or control characters''))"

definition bounded_json :: "'v senv \<Rightarrow> 'v \<Rightarrow> nat \<Rightarrow> ustring \<Rightarrow> StorageError + ustring" where
  "bounded_json env value maximum field =
     and_then (ok_or JsonError (json_text env value)) (\<lambda>json.
     and_then (reject_if (byte_len json > maximum)
       (InvalidInput (field @ lit '' is '' @ dec (byte_len json) @ lit '' bytes; maximum is '' @
          dec maximum))) (\<lambda>_. Ok json))"

definition payload_fingerprint :: "'v senv \<Rightarrow> 'v \<Rightarrow> StorageError + ustring" where
  "payload_fingerprint env payload =
     and_then (ok_or JsonError (json_text env payload)) (\<lambda>canonical. Ok (digest env canonical))"

text \<open>The clock is read in nanoseconds from the epoch; the column is an \<open>i64\<close> of milliseconds.\<close>

definition now_millis :: "Timestamp \<Rightarrow> StorageError + int" where
  "now_millis now =
     and_then (reject_if (now < 0) (InvalidInput (lit ''system clock is before epoch''))) (\<lambda>_.
     and_then (reject_if (timestamp_millis now \<ge> 2 ^ 63) (InvalidInput (lit ''system time is too large'')))
       (\<lambda>_. Ok (timestamp_millis now)))"

definition timestamp_from_millis :: "'v senv \<Rightarrow> int \<Rightarrow> StorageError + Timestamp" where
  "timestamp_from_millis env value =
     (if millis_ok env value then Ok (value * 1000000) else Err (StoredTimestamp value))"

section \<open>Records exchanged with the repository\<close>

record 'v ReceivedPrintJob =
  rj_id :: PrintJobId
  rj_idempotency_key :: ustring
  rj_printer_id :: PrinterId
  rj_payload :: 'v
  rj_source_message_id :: ustring
  rj_received_at :: Timestamp

record StoredJobError =
  se_code :: ustring
  se_message :: ustring
  se_retryable :: bool
  se_occurred_at :: Timestamp

definition StoredJobError_validate :: "StoredJobError \<Rightarrow> StorageError + unit" where
  "StoredJobError_validate e = first_err
     [validate_key (lit ''job error code'') (se_code e) 64,
      reject_if (trim (se_message e) = [] \<or> byte_len (se_message e) > 2000)
        (InvalidInput (lit ''job error message must be 1 to 2000 bytes''))]"

record 'v StoredPrintJob =
  sj_id :: PrintJobId
  sj_idempotency_key :: ustring
  sj_printer_id :: PrinterId
  sj_payload :: 'v
  sj_source_message_id :: ustring
  sj_state :: JobState
  sj_received_at :: Timestamp
  sj_updated_at :: Timestamp
  sj_retry_attempts :: nat
  sj_recovery_count :: nat
  sj_receipt :: "SubmissionReceipt option"
  sj_error :: "StoredJobError option"

datatype InsertResult =
  Inserted
| DuplicateJob JobState
| DuplicateIdempotency PrintJobId JobState

record RecoveryResult =
  recovered_submissions :: nat
  pending_jobs :: nat

record 'v OutboundStatus =
  os_message_id :: ustring
  os_job_id :: PrintJobId
  os_payload :: 'v
  os_created_at :: Timestamp

record TerminalRetentionResult =
  payloads_pruned :: nat
  jobs_deleted :: nat
  jobs_retained :: nat

section \<open>Tables\<close>

text \<open>
  A row of \<open>print_jobs\<close>. The CHECK on \<open>state\<close> admits the five names, so the row keeps the
  state itself; \<open>receipt_json\<close> and \<open>error_json\<close> hold the records the code serialises there.
\<close>

record job_row =
  row_job_id :: PrintJobId
  row_key :: ustring
  row_printer_id :: PrinterId
  row_payload_json :: ustring
  row_state :: JobState
  row_received_at :: int
  row_updated_at :: int
  row_retry_attempts :: nat
  row_recovery_count :: nat
  row_receipt :: "SubmissionReceipt option"
  row_error :: "StoredJobError option"
  row_source_message_id :: ustring
  row_payload_sha256 :: ustring

record outbox_row =
  out_message_id :: ustring
  out_job_id :: PrintJobId
  out_payload_json :: ustring
  out_created_at :: int

record kv_row =
  kv_key :: ustring
  kv_value_json :: ustring
  kv_updated_at :: int

record printer_row =
  prow_printer :: PrinterRef
  prow_updated_at :: int

record binding_row =
  bind_id :: ustring
  bind_printer_id :: PrinterId
  bind_metadata_json :: ustring
  bind_updated_at :: int

record SqliteStorage =
  print_jobs :: "job_row list"
  outbox :: "outbox_row list"
  printers_table :: "printer_row list"
  bindings_table :: "binding_row list"
  settings_table :: "kv_row list"
  connection_table :: "kv_row list"
  diagnostics_table :: "kv_row list"
  max_pending :: nat
  max_terminal :: nat

type_synonym 'a storage_result = "StorageError + 'a \<times> SqliteStorage"

fun state_name :: "JobState \<Rightarrow> ustring" where
  "state_name Received = lit ''received''"
| "state_name Submitting = lit ''submitting''"
| "state_name Submitted = lit ''submitted''"
| "state_name Failed = lit ''failed''"
| "state_name Cancelled = lit ''cancelled''"

definition parse_state :: "ustring \<Rightarrow> StorageError + JobState" where
  "parse_state v =
     (if v = lit ''received'' then Ok Received
      else if v = lit ''submitting'' then Ok Submitting
      else if v = lit ''submitted'' then Ok Submitted
      else if v = lit ''failed'' then Ok Failed
      else if v = lit ''cancelled'' then Ok Cancelled
      else Err (InvalidInput (lit ''database contains unknown job state '' @ [34] @ v @ [34])))"

lemma parse_state_name [simp]: "parse_state (state_name s) = Ok s"
  by (cases s) (simp_all add: parse_state_def lit_def)

definition job_by_id :: "SqliteStorage \<Rightarrow> PrintJobId \<Rightarrow> job_row option" where
  "job_by_id db jid = find (\<lambda>r. row_job_id r = jid) (print_jobs db)"

definition job_by_key :: "SqliteStorage \<Rightarrow> ustring \<Rightarrow> job_row option" where
  "job_by_key db key = find (\<lambda>r. row_key r = key) (print_jobs db)"

definition count_jobs :: "(JobState \<Rightarrow> bool) \<Rightarrow> SqliteStorage \<Rightarrow> nat" where
  "count_jobs P db = length (filter (\<lambda>r. P (row_state r)) (print_jobs db))"

section \<open>Inserting a delivery\<close>

definition payload_matches :: "'v senv \<Rightarrow> job_row \<Rightarrow> 'v \<Rightarrow> ustring \<Rightarrow> StorageError + bool" where
  "payload_matches env r payload sha =
     (if row_payload_json r = lit ''null'' then Ok (row_payload_sha256 r = sha)
      else and_then (ok_or JsonError (json_parse env (row_payload_json r))) (\<lambda>v. Ok (v = payload)))"

definition insert_duplicate ::
  "'v senv \<Rightarrow> job_row \<Rightarrow> 'v ReceivedPrintJob \<Rightarrow> ustring \<Rightarrow> StorageError + InsertResult" where
  "insert_duplicate env r job sha =
     and_then (reject_if (row_key r \<noteq> rj_idempotency_key job) (JobIdentityConflict (rj_id job))) (\<lambda>_.
     and_then (payload_matches env r (rj_payload job) sha) (\<lambda>matches.
     and_then (reject_if (row_printer_id r \<noteq> rj_printer_id job \<or> \<not> matches)
       (JobContentConflict (rj_id job))) (\<lambda>_.
     and_then (parse_state (state_name (row_state r))) (\<lambda>s. Ok (DuplicateJob s)))))"

definition received_row :: "'v ReceivedPrintJob \<Rightarrow> ustring \<Rightarrow> ustring \<Rightarrow> job_row" where
  "received_row job payload sha = \<lparr>row_job_id = rj_id job, row_key = rj_idempotency_key job,
     row_printer_id = rj_printer_id job, row_payload_json = payload, row_state = Received,
     row_received_at = timestamp_millis (rj_received_at job),
     row_updated_at = timestamp_millis (rj_received_at job), row_retry_attempts = 0,
     row_recovery_count = 0, row_receipt = None, row_error = None,
     row_source_message_id = rj_source_message_id job, row_payload_sha256 = sha\<rparr>"

definition insert_received ::
  "'v senv \<Rightarrow> 'v ReceivedPrintJob \<Rightarrow> SqliteStorage \<Rightarrow> InsertResult storage_result" where
  "insert_received env job db =
     and_then (validate_key (lit ''idempotency key'') (rj_idempotency_key job) 256) (\<lambda>_.
     and_then (validate_key (lit ''source message id'') (rj_source_message_id job) 128) (\<lambda>_.
     and_then (bounded_json env (rj_payload job) MAX_JOB_PAYLOAD_BYTES (lit ''print job payload''))
       (\<lambda>payload.
     and_then (payload_fingerprint env (rj_payload job)) (\<lambda>sha.
     (case job_by_id db (rj_id job) of
        Some r \<Rightarrow> and_then (insert_duplicate env r job sha) (\<lambda>result. Ok (result, db))
      | None \<Rightarrow>
        (case job_by_key db (rj_idempotency_key job) of
           Some r \<Rightarrow>
             and_then (map_err StoredIdentifier (new_identifier (row_job_id r))) (\<lambda>existing.
             and_then (parse_state (state_name (row_state r))) (\<lambda>s.
             Ok (DuplicateIdempotency existing s, db)))
         | None \<Rightarrow>
             if count_jobs (\<lambda>s. s \<in> {Received, Submitting}) db \<ge> max_pending db
             then Err (QueueFull (max_pending db))
             else Ok (Inserted, db\<lparr>print_jobs := print_jobs db @ [received_row job payload sha]\<rparr>)))))))"

section \<open>Reading jobs\<close>

definition load_job :: "'v senv \<Rightarrow> job_row \<Rightarrow> StorageError + 'v StoredPrintJob" where
  "load_job env r =
     and_then (map_err StoredIdentifier (new_identifier (row_job_id r))) (\<lambda>jid.
     and_then (map_err StoredIdentifier (new_identifier (row_printer_id r))) (\<lambda>printer.
     and_then (ok_or JsonError (json_parse env (row_payload_json r))) (\<lambda>payload.
     and_then (parse_state (state_name (row_state r))) (\<lambda>state.
     and_then (timestamp_from_millis env (row_received_at r)) (\<lambda>received_at.
     and_then (timestamp_from_millis env (row_updated_at r)) (\<lambda>updated_at.
     and_then (reject_if (row_retry_attempts r \<ge> 2 ^ 32 \<or> row_recovery_count r \<ge> 2 ^ 32) SqliteColumn)
       (\<lambda>_.
     Ok \<lparr>sj_id = jid, sj_idempotency_key = row_key r, sj_printer_id = printer, sj_payload = payload,
        sj_source_message_id = row_source_message_id r, sj_state = state,
        sj_received_at = received_at, sj_updated_at = updated_at,
        sj_retry_attempts = row_retry_attempts r, sj_recovery_count = row_recovery_count r,
        sj_receipt = row_receipt r, sj_error = row_error r\<rparr>)))))))"

fun all_ok :: "('e + 'a) list \<Rightarrow> 'e + 'a list" where
  "all_ok [] = Ok []"
| "all_ok (m # ms) = and_then m (\<lambda>a. and_then (all_ok ms) (\<lambda>as. Ok (a # as)))"

definition load_jobs :: "'v senv \<Rightarrow> job_row list \<Rightarrow> StorageError + 'v StoredPrintJob list" where
  "load_jobs env rows = all_ok (map (load_job env) rows)"

definition pending_rows :: "SqliteStorage \<Rightarrow> job_row list" where
  "pending_rows db = sort_key (\<lambda>r. (row_received_at r, row_job_id r))
     (filter (\<lambda>r. row_state r = Received) (print_jobs db))"

definition pending :: "'v senv \<Rightarrow> SqliteStorage \<Rightarrow> StorageError + 'v StoredPrintJob list" where
  "pending env db = load_jobs env (pending_rows db)"

definition has_completed_idempotency_key :: "ustring \<Rightarrow> SqliteStorage \<Rightarrow> StorageError + bool" where
  "has_completed_idempotency_key key db =
     and_then (validate_key (lit ''idempotency key'') key 256) (\<lambda>_.
     Ok (list_ex (\<lambda>r. row_key r = key \<and> is_terminal (row_state r)) (print_jobs db)))"

section \<open>Terminal retention\<close>

definition prune_payload :: "job_row \<Rightarrow> job_row" where
  "prune_payload r = (if is_terminal (row_state r) \<and> row_payload_json r \<noteq> lit ''null''
     then r\<lparr>row_payload_json := lit ''null''\<rparr> else r)"

definition retention_victims :: "nat \<Rightarrow> PrintJobId option \<Rightarrow> job_row list \<Rightarrow> job_row list" where
  "retention_victims excess protected rows = take excess
     (sort_key (\<lambda>r. (row_updated_at r, row_job_id r))
       (filter (\<lambda>r. is_terminal (row_state r) \<and> (protected = None \<or> protected \<noteq> Some (row_job_id r)))
         rows))"

text \<open>\<open>DELETE FROM print_jobs\<close>; the outbox rows of a deleted job go with it (ON DELETE CASCADE).\<close>

definition delete_jobs :: "PrintJobId set \<Rightarrow> SqliteStorage \<Rightarrow> SqliteStorage" where
  "delete_jobs ids db = db\<lparr>
     print_jobs := filter (\<lambda>r. row_job_id r \<notin> ids) (print_jobs db),
     outbox := filter (\<lambda>ob. out_job_id ob \<notin> ids) (outbox db)\<rparr>"

definition enforce_terminal_retention ::
  "nat \<Rightarrow> PrintJobId option \<Rightarrow> SqliteStorage \<Rightarrow> TerminalRetentionResult \<times> SqliteStorage" where
  "enforce_terminal_retention maximum protected db =
     (let pruned = length (filter (\<lambda>r. is_terminal (row_state r) \<and> row_payload_json r \<noteq> lit ''null'')
            (print_jobs db));
          db1 = db\<lparr>print_jobs := map prune_payload (print_jobs db)\<rparr>;
          excess = count_jobs is_terminal db1 - maximum;
          victims = retention_victims excess protected (print_jobs db1);
          db2 = (if excess = 0 then db1 else delete_jobs (row_job_id ` set victims) db1) in
      (\<lparr>payloads_pruned = pruned, jobs_deleted = (if excess = 0 then 0 else length victims),
        jobs_retained = count_jobs is_terminal db2\<rparr>, db2))"

definition maintain_terminal_jobs ::
  "SqliteStorage \<Rightarrow> TerminalRetentionResult \<times> SqliteStorage" where
  "maintain_terminal_jobs db = enforce_terminal_retention (max_terminal db) None db"

section \<open>Transitions\<close>

fun transition_allowed :: "JobState \<Rightarrow> JobState \<Rightarrow> bool" where
  "transition_allowed current Submitting = (current = Received)"
| "transition_allowed current Submitted = (current = Submitting)"
| "transition_allowed current Failed = (current \<in> {Received, Submitting})"
| "transition_allowed current Cancelled = (current \<in> {Received, Submitting})"
| "transition_allowed current Received = False"

definition prepare_outbound_status ::
  "'v senv \<Rightarrow> PrintJobId \<Rightarrow> 'v OutboundStatus \<Rightarrow> StorageError + outbox_row" where
  "prepare_outbound_status env job_id status =
     and_then (validate_key (lit ''outbound message id'') (os_message_id status) 128) (\<lambda>_.
     and_then (reject_if (os_job_id status \<noteq> job_id)
       (InvalidInput (lit ''outbound status job id must match its terminal transition''))) (\<lambda>_.
     and_then (bounded_json env (os_payload status) MAX_OUTBOUND_STATUS_BYTES
       (lit ''outbound status payload'')) (\<lambda>json.
     Ok \<lparr>out_message_id = os_message_id status, out_job_id = os_job_id status,
        out_payload_json = json, out_created_at = timestamp_millis (os_created_at status)\<rparr>)))"

definition transition_row ::
  "JobState \<Rightarrow> int \<Rightarrow> SubmissionReceipt option \<Rightarrow> StoredJobError option \<Rightarrow> job_row \<Rightarrow> job_row" where
  "transition_row requested now receipt err r = r\<lparr>row_state := requested, row_updated_at := now,
     row_retry_attempts := row_retry_attempts r + (if requested = Submitting then 1 else 0),
     row_receipt := (case receipt of None \<Rightarrow> row_receipt r | Some x \<Rightarrow> Some x),
     row_error := err\<rparr>"

definition update_job :: "PrintJobId \<Rightarrow> (job_row \<Rightarrow> job_row) \<Rightarrow> SqliteStorage \<Rightarrow> SqliteStorage" where
  "update_job jid f db =
     db\<lparr>print_jobs := map (\<lambda>r. if row_job_id r = jid then f r else r) (print_jobs db)\<rparr>"

definition insert_outbox :: "outbox_row \<Rightarrow> SqliteStorage \<Rightarrow> StorageError + SqliteStorage" where
  "insert_outbox ob db =
     and_then (reject_if (out_message_id ob \<in> set (map out_message_id (outbox db)) \<or>
                          out_job_id ob \<notin> set (map row_job_id (print_jobs db))) SqliteConstraint)
       (\<lambda>_. Ok (db\<lparr>outbox := outbox db @ [ob]\<rparr>))"

definition insert_status :: "outbox_row option \<Rightarrow> SqliteStorage \<Rightarrow> StorageError + SqliteStorage" where
  "insert_status status db = (case status of None \<Rightarrow> Ok db | Some ob \<Rightarrow> insert_outbox ob db)"

definition transition ::
  "PrintJobId \<Rightarrow> JobState \<Rightarrow> SubmissionReceipt option \<Rightarrow> StoredJobError option \<Rightarrow>
   outbox_row option \<Rightarrow> Timestamp \<Rightarrow> SqliteStorage \<Rightarrow> unit storage_result" where
  "transition jid requested receipt err status clock db =
     and_then (now_millis clock) (\<lambda>now.
     and_then (ok_or (JobNotFound jid) (job_by_id db jid)) (\<lambda>r.
     and_then (parse_state (state_name (row_state r))) (\<lambda>current.
     and_then (reject_if (\<not> transition_allowed current requested)
       (InvalidTransition jid current requested)) (\<lambda>_.
     let db1 = update_job jid (transition_row requested now receipt err) db in
     and_then (insert_status status db1) (\<lambda>db2.
     Ok ((), if is_terminal requested
             then snd (enforce_terminal_retention (max_terminal db) (Some jid) db2) else db2))))))"

definition mark_submitting :: "PrintJobId \<Rightarrow> Timestamp \<Rightarrow> SqliteStorage \<Rightarrow> unit storage_result" where
  "mark_submitting jid clock db = transition jid Submitting None None None clock db"

definition mark_submitted ::
  "PrintJobId \<Rightarrow> SubmissionReceipt \<Rightarrow> Timestamp \<Rightarrow> SqliteStorage \<Rightarrow> unit storage_result" where
  "mark_submitted jid receipt clock db = transition jid Submitted (Some receipt) None None clock db"

definition mark_submitted_with_status ::
  "'v senv \<Rightarrow> PrintJobId \<Rightarrow> SubmissionReceipt \<Rightarrow> 'v OutboundStatus \<Rightarrow> Timestamp \<Rightarrow> SqliteStorage \<Rightarrow>
   unit storage_result" where
  "mark_submitted_with_status env jid receipt status clock db =
     and_then (prepare_outbound_status env jid status) (\<lambda>ob.
     transition jid Submitted (Some receipt) None (Some ob) clock db)"

definition mark_failed ::
  "PrintJobId \<Rightarrow> StoredJobError \<Rightarrow> Timestamp \<Rightarrow> SqliteStorage \<Rightarrow> unit storage_result" where
  "mark_failed jid err clock db =
     and_then (StoredJobError_validate err) (\<lambda>_. transition jid Failed None (Some err) None clock db)"

definition mark_failed_with_status ::
  "'v senv \<Rightarrow> PrintJobId \<Rightarrow> StoredJobError \<Rightarrow> 'v OutboundStatus \<Rightarrow> Timestamp \<Rightarrow> SqliteStorage \<Rightarrow>
   unit storage_result" where
  "mark_failed_with_status env jid err status clock db =
     and_then (StoredJobError_validate err) (\<lambda>_.
     and_then (prepare_outbound_status env jid status) (\<lambda>ob.
     transition jid Failed None (Some err) (Some ob) clock db))"

definition mark_cancelled :: "PrintJobId \<Rightarrow> Timestamp \<Rightarrow> SqliteStorage \<Rightarrow> unit storage_result" where
  "mark_cancelled jid clock db = transition jid Cancelled None None None clock db"

section \<open>Printers, bindings, settings\<close>

definition save_printer :: "PrinterRef \<Rightarrow> Timestamp \<Rightarrow> SqliteStorage \<Rightarrow> unit storage_result" where
  "save_printer printer clock db =
     and_then (map_err (\<lambda>e. InvalidInput (printer_error_message e)) (PrinterRef_validate printer)) (\<lambda>_.
     and_then (now_millis clock) (\<lambda>now.
     Ok ((), db\<lparr>printers_table := upsert (\<lambda>r. pr_id (prow_printer r))
       \<lparr>prow_printer = printer, prow_updated_at = now\<rparr> (printers_table db)\<rparr>)))"

definition printers :: "SqliteStorage \<Rightarrow> PrinterRef list" where
  "printers db = map prow_printer (sort_key (\<lambda>r. pr_id (prow_printer r)) (printers_table db))"

definition save_printer_binding ::
  "'v senv \<Rightarrow> ustring \<Rightarrow> PrinterId \<Rightarrow> 'v \<Rightarrow> Timestamp \<Rightarrow> SqliteStorage \<Rightarrow> unit storage_result" where
  "save_printer_binding env binding_id printer_id md clock db =
     and_then (validate_key (lit ''binding id'') binding_id 256) (\<lambda>_.
     and_then (bounded_json env md (64 * 1024) (lit ''binding metadata'')) (\<lambda>json.
     and_then (now_millis clock) (\<lambda>now.
     and_then (reject_if (printer_id \<notin> set (map (\<lambda>r. pr_id (prow_printer r)) (printers_table db)))
       SqliteConstraint) (\<lambda>_.
     Ok ((), db\<lparr>bindings_table := upsert bind_id \<lparr>bind_id = binding_id, bind_printer_id = printer_id,
       bind_metadata_json = json, bind_updated_at = now\<rparr> (bindings_table db)\<rparr>)))))"

datatype metadata_table = Settings | ConnectionMetadata | DiagnosticsMetadata

fun kv_table :: "metadata_table \<Rightarrow> SqliteStorage \<Rightarrow> kv_row list" where
  "kv_table Settings db = settings_table db"
| "kv_table ConnectionMetadata db = connection_table db"
| "kv_table DiagnosticsMetadata db = diagnostics_table db"

fun kv_update :: "metadata_table \<Rightarrow> kv_row list \<Rightarrow> SqliteStorage \<Rightarrow> SqliteStorage" where
  "kv_update Settings rows db = db\<lparr>settings_table := rows\<rparr>"
| "kv_update ConnectionMetadata rows db = db\<lparr>connection_table := rows\<rparr>"
| "kv_update DiagnosticsMetadata rows db = db\<lparr>diagnostics_table := rows\<rparr>"

definition set_metadata ::
  "'v senv \<Rightarrow> metadata_table \<Rightarrow> ustring \<Rightarrow> 'v \<Rightarrow> Timestamp \<Rightarrow> SqliteStorage \<Rightarrow> unit storage_result" where
  "set_metadata env t key value clock db =
     and_then (validate_key (lit ''metadata key'') key 128) (\<lambda>_.
     and_then (bounded_json env value (64 * 1024) (lit ''metadata'')) (\<lambda>json.
     and_then (now_millis clock) (\<lambda>now.
     Ok ((), kv_update t (upsert kv_key \<lparr>kv_key = key, kv_value_json = json, kv_updated_at = now\<rparr>
       (kv_table t db)) db))))"

definition get_metadata ::
  "'v senv \<Rightarrow> metadata_table \<Rightarrow> ustring \<Rightarrow> SqliteStorage \<Rightarrow> StorageError + 'v option" where
  "get_metadata env t key db =
     and_then (validate_key (lit ''metadata key'') key 128) (\<lambda>_.
     (case find (\<lambda>r. kv_key r = key) (kv_table t db) of
        None \<Rightarrow> Ok None
      | Some r \<Rightarrow> and_then (ok_or JsonError (json_parse env (kv_value_json r))) (\<lambda>v. Ok (Some v))))"

section \<open>Recovery and the outbox\<close>

definition recovery_error :: "Timestamp \<Rightarrow> StoredJobError" where
  "recovery_error t = \<lparr>se_code = lit ''agent-restarted'',
     se_message = lit ''submission was interrupted by agent restart; outcome is unknown'',
     se_retryable = True, se_occurred_at = t\<rparr>"

definition recover_row :: "int \<Rightarrow> StoredJobError \<Rightarrow> job_row \<Rightarrow> job_row" where
  "recover_row now err r = (if row_state r = Submitting
     then r\<lparr>row_state := Received, row_recovery_count := row_recovery_count r + 1,
            row_updated_at := now, row_error := Some err\<rparr> else r)"

definition recover_interrupted ::
  "'v senv \<Rightarrow> Timestamp \<Rightarrow> SqliteStorage \<Rightarrow> RecoveryResult storage_result" where
  "recover_interrupted env clock db =
     and_then (now_millis clock) (\<lambda>now.
     and_then (timestamp_from_millis env now) (\<lambda>t.
     let db1 = db\<lparr>print_jobs := map (recover_row now (recovery_error t)) (print_jobs db)\<rparr> in
     Ok (\<lparr>recovered_submissions = count_jobs (\<lambda>s. s = Submitting) db,
          pending_jobs = count_jobs (\<lambda>s. s = Received) db1\<rparr>, db1)))"

definition load_status :: "'v senv \<Rightarrow> outbox_row \<Rightarrow> StorageError + 'v OutboundStatus" where
  "load_status env ob =
     and_then (map_err StoredIdentifier (new_identifier (out_job_id ob))) (\<lambda>job_id.
     and_then (ok_or JsonError (json_parse env (out_payload_json ob))) (\<lambda>payload.
     and_then (timestamp_from_millis env (out_created_at ob)) (\<lambda>created_at.
     Ok \<lparr>os_message_id = out_message_id ob, os_job_id = job_id, os_payload = payload,
        os_created_at = created_at\<rparr>)))"

definition outbox_rows :: "SqliteStorage \<Rightarrow> outbox_row list" where
  "outbox_rows db = sort_key (\<lambda>ob. (out_created_at ob, out_message_id ob)) (outbox db)"

definition pending_outbound_statuses ::
  "'v senv \<Rightarrow> nat \<Rightarrow> SqliteStorage \<Rightarrow> StorageError + 'v OutboundStatus list" where
  "pending_outbound_statuses env limit db =
     and_then (reject_if (limit = 0)
       (InvalidInput (lit ''outbound status read limit must be greater than zero''))) (\<lambda>_.
     and_then (reject_if (limit \<ge> 2 ^ 63)
       (InvalidInput (lit ''outbound status read limit is too large''))) (\<lambda>_.
     all_ok (map (load_status env) (take limit (outbox_rows db)))))"

definition acknowledge_outbound_status :: "ustring \<Rightarrow> SqliteStorage \<Rightarrow> bool storage_result" where
  "acknowledge_outbound_status message_id db =
     and_then (validate_key (lit ''outbound message id'') message_id 128) (\<lambda>_.
     Ok (length (filter (\<lambda>ob. out_message_id ob = message_id) (outbox db)) = 1,
         db\<lparr>outbox := filter (\<lambda>ob. out_message_id ob \<noteq> message_id) (outbox db)\<rparr>))"

section \<open>Opening\<close>

text \<open>
  Opening a database that is at the current schema version: the limits are checked and set, and
  one retention pass runs. An empty database has empty tables.
\<close>

definition empty_database :: SqliteStorage where
  "empty_database = \<lparr>print_jobs = [], outbox = [], printers_table = [], bindings_table = [],
     settings_table = [], connection_table = [], diagnostics_table = [], max_pending = 0,
     max_terminal = 0\<rparr>"

definition open_with_limits :: "StorageLimits \<Rightarrow> SqliteStorage \<Rightarrow> StorageError + SqliteStorage" where
  "open_with_limits limits file =
     and_then (validate_limits limits) (\<lambda>_.
     Ok (snd (maintain_terminal_jobs (file\<lparr>max_pending := lim_max_pending_jobs limits,
       max_terminal := lim_max_terminal_jobs limits\<rparr>))))"

end
