(* ===== verification/Processor.thy ===== *)
theory Processor
  imports Wire_Message Storage Agent_Lifecycle Backends
begin

text \<open>
  The job processor of \<open>crates/oppa-agent/src/processor.rs\<close>: durable receipt, rendering,
  submission, failure reporting, cancellation and recovery. Its state is the repository, the agent
  handle, the map of active submissions with their cancellation flags, and a count of the readings
  taken from the environment. The environment \<open>penv\<close> holds what is behind a trait object or in a
  third-party crate: Serde, the clock, UUIDs, \<open>chrono\<close>'s formatting, the printer resolver, the
  renderer, the fetcher, the spoolers. Whatever may answer differently each time takes the reading
  count as an argument.
\<close>

section \<open>Printer resolution\<close>

datatype PrinterResolutionError =
  InvalidPrinter ustring
| DuplicatePrinter PrinterId
| ResolverBackend ustring

definition resolution_backend :: "ustring \<Rightarrow> PrinterResolutionError" where
  "resolution_backend message = ResolverBackend (sanitize_message message)"

type_synonym StaticPrinterResolver = "PrinterId \<rightharpoonup> PrinterRef"

definition resolver_check :: "PrinterRef \<Rightarrow> PrinterResolutionError + unit" where
  "resolver_check printer = map_err (\<lambda>e. InvalidPrinter (printer_error_message e)) (PrinterRef_validate printer)"

fun resolver_add ::
  "StaticPrinterResolver \<Rightarrow> PrinterRef list \<Rightarrow> PrinterResolutionError + StaticPrinterResolver" where
  "resolver_add catalog [] = Ok catalog"
| "resolver_add catalog (printer # rest) =
     and_then (resolver_check printer) (\<lambda>_.
     if catalog (pr_id printer) \<noteq> None then Err (DuplicatePrinter (pr_id printer))
     else resolver_add (catalog(pr_id printer \<mapsto> printer)) rest)"

definition resolver_new :: "PrinterRef list \<Rightarrow> PrinterResolutionError + StaticPrinterResolver" where
  "resolver_new refs = resolver_add Map.empty refs"

definition resolver_upsert ::
  "PrinterRef \<Rightarrow> StaticPrinterResolver \<Rightarrow> PrinterResolutionError + StaticPrinterResolver" where
  "resolver_upsert printer catalog =
     and_then (resolver_check printer) (\<lambda>_. Ok (catalog(pr_id printer \<mapsto> printer)))"

definition resolver_remove :: "PrinterId \<Rightarrow> StaticPrinterResolver \<Rightarrow> bool \<times> StaticPrinterResolver" where
  "resolver_remove pid catalog = (catalog pid \<noteq> None, catalog(pid := None))"

definition resolver_resolve ::
  "StaticPrinterResolver \<Rightarrow> PrinterId \<Rightarrow> PrinterResolutionError + PrinterRef option" where
  "resolver_resolve catalog pid = Ok (catalog pid)"

section \<open>Errors, outcomes, environment\<close>

datatype JobProcessingError =
  ExpectedPrintJob
| ProtocolInvalid ValidationError
| IdentifierInvalid IdentifierError
| PayloadJson
| StorageFailure StorageError

record JobFailure =
  fail_code :: ustring
  fail_message :: ustring
  fail_retryable :: bool

definition JobFailure_new :: "ustring \<Rightarrow> ustring \<Rightarrow> bool \<Rightarrow> JobFailure" where
  "JobFailure_new code message retryable =
     \<lparr>fail_code = code, fail_message = sanitize_message message, fail_retryable = retryable\<rparr>"

definition failure_stored :: "JobFailure \<Rightarrow> Timestamp \<Rightarrow> StoredJobError" where
  "failure_stored f occurred_at = \<lparr>se_code = fail_code f, se_message = fail_message f,
     se_retryable = fail_retryable f, se_occurred_at = occurred_at\<rparr>"

datatype ReceiveJobOutcome =
  ReceiveInserted AgentMessage
| ReceiveDuplicate JobState AgentMessage
| ReceiveDuplicateKey PrintJobId PrintJobId JobState

fun was_inserted :: "ReceiveJobOutcome \<Rightarrow> bool" where
  "was_inserted (ReceiveInserted _) = True"
| "was_inserted _ = False"

fun acknowledgement :: "ReceiveJobOutcome \<Rightarrow> AgentMessage option" where
  "acknowledgement (ReceiveInserted m) = Some m"
| "acknowledgement (ReceiveDuplicate _ m) = Some m"
| "acknowledgement (ReceiveDuplicateKey _ _ _) = None"

datatype ProcessOutcome =
  OutcomeSubmitted PrintJobId AgentMessage
| OutcomeFailed PrintJobId "AgentMessage option"
| OutcomeCancelled PrintJobId
| OutcomeSkipped PrintJobId JobState

fun outcome_message :: "ProcessOutcome \<Rightarrow> AgentMessage option" where
  "outcome_message (OutcomeSubmitted _ m) = Some m"
| "outcome_message (OutcomeFailed _ m) = m"
| "outcome_message _ = None"

fun outcome_job_id :: "ProcessOutcome \<Rightarrow> PrintJobId" where
  "outcome_job_id (OutcomeSubmitted j _) = j"
| "outcome_job_id (OutcomeFailed j _) = j"
| "outcome_job_id (OutcomeCancelled j) = j"
| "outcome_job_id (OutcomeSkipped j _) = j"

datatype CancelOutcome =
  CancelRequested PrintJobId
| CancelDone PrintJobId
| CancelAlreadyTerminal PrintJobId JobState
| CancelNotFound PrintJobId

record ('v, 'doc) penv =
  env_storage :: "'v senv"
  env_to_value :: "PrintJob \<Rightarrow> 'v option"
  env_from_value :: "'v \<Rightarrow> ustring + PrintJob"
  env_message_value :: "AgentMessage \<Rightarrow> 'v option"
  env_clock :: "nat \<Rightarrow> Timestamp"
  env_uuid :: "nat \<Rightarrow> ustring"
  env_rfc3339 :: "Timestamp \<Rightarrow> ustring"
  env_resolve :: "nat \<Rightarrow> PrinterId \<Rightarrow> PrinterResolutionError + PrinterRef option"
  env_render :: "PrintDocument \<Rightarrow> RenderTarget \<Rightarrow> RendererError + 'doc"
  env_render_pdf :: "nat list \<Rightarrow> PrintSettings \<Rightarrow> RendererError + 'doc"
  env_join_error :: "nat \<Rightarrow> ustring option"
  env_fetch :: "(nat \<Rightarrow> ustring \<Rightarrow> PdfSource \<Rightarrow> DocumentFetchError + nat list) option"
  env_spoolers :: "nat \<Rightarrow> 'doc SpoolerRegistry"
  env_cancel_during :: "nat \<Rightarrow> bool"
  env_resolution_text :: "PrinterResolutionError \<Rightarrow> ustring"
  env_renderer_text :: "RendererError \<Rightarrow> ustring"
  env_fetch_text :: "DocumentFetchError \<Rightarrow> ustring"
  env_spooler_text :: "SpoolerError \<Rightarrow> ustring"

record Proc =
  proc_db :: SqliteStorage
  proc_handle :: AgentHandle
  proc_active :: "PrintJobId \<rightharpoonup> bool"
  proc_tick :: nat

definition tick :: "Proc \<Rightarrow> Proc" where
  "tick s = s\<lparr>proc_tick := Suc (proc_tick s)\<rparr>"

text \<open>A reading of the environment: the value at the count, which then advances.\<close>

definition reading :: "(nat \<Rightarrow> 'a) \<Rightarrow> (Proc, 'e, 'a) eff" where
  "reading f s = (Ok (f (proc_tick s)), tick s)"

definition publish :: "AgentEvent \<Rightarrow> (Proc, 'e, unit) eff" where
  "publish event = emodify (\<lambda>s. s\<lparr>proc_handle := publish_job_event event (proc_handle s)\<rparr>)"

text \<open>A repository call that reads the clock; an error leaves the database as it was.\<close>

definition store_op ::
  "('v, 'doc) penv \<Rightarrow> (Timestamp \<Rightarrow> SqliteStorage \<Rightarrow> 'a storage_result) \<Rightarrow> (Proc, StorageError, 'a) eff" where
  "store_op env operation s = (case operation (env_clock env (proc_tick s)) (proc_db s) of
     Err e \<Rightarrow> (Err e, tick s)
   | Ok (a, db) \<Rightarrow> (Ok a, (tick s)\<lparr>proc_db := db\<rparr>))"

definition refresh_pending :: "('v, 'doc) penv \<Rightarrow> (Proc, 'e, unit) eff" where
  "refresh_pending env = emodify (\<lambda>s. case pending (env_storage env) (proc_db s) of
     Err _ \<Rightarrow> s
   | Ok jobs \<Rightarrow> s\<lparr>proc_handle := set_pending_jobs (length jobs) (proc_handle s)\<rparr>)"

section \<open>Messages\<close>

text \<open>The identifier is drawn before the time of sending.\<close>

definition agent_message ::
  "('v, 'doc) penv \<Rightarrow> ustring \<Rightarrow> AgentMessageKind \<Rightarrow> (Proc, ValidationError, AgentMessage) eff" where
  "agent_message env correlation_id kind =
     ebind (reading (env_uuid env)) (\<lambda>uuid.
     ebind (reading (env_clock env)) (\<lambda>now.
     let m = \<lparr>am_protocol_version = required_version kind, am_message_id = lit ''msg_'' @ uuid,
              am_sent_at = env_rfc3339 env now, am_correlation_id = Some correlation_id,
              am_kind = kind\<rparr> in
     ebind (elift (AgentMessage_validate m)) (\<lambda>_. eret m)))"

definition received_message ::
  "('v, 'doc) penv \<Rightarrow> PrintJob \<Rightarrow> ustring \<Rightarrow> Timestamp \<Rightarrow> (Proc, ValidationError, AgentMessage) eff" where
  "received_message env job correlation_id received_at =
     agent_message env correlation_id (AgentJobReceivedMsg \<lparr>jr_job_id = job_id job,
       jr_idempotency_key = idempotency_key job, jr_status = StatusReceived,
       jr_received_at = env_rfc3339 env received_at\<rparr>)"

definition received_message_for_stored ::
  "('v, 'doc) penv \<Rightarrow> 'v StoredPrintJob \<Rightarrow> (Proc, ValidationError, AgentMessage) eff" where
  "received_message_for_stored env stored =
     agent_message env (sj_source_message_id stored) (AgentJobReceivedMsg \<lparr>jr_job_id = sj_id stored,
       jr_idempotency_key = sj_idempotency_key stored, jr_status = StatusReceived,
       jr_received_at = env_rfc3339 env (sj_received_at stored)\<rparr>)"

definition submitted_message ::
  "('v, 'doc) penv \<Rightarrow> PrintJob \<Rightarrow> ustring \<Rightarrow> Timestamp \<Rightarrow> (Proc, ValidationError, AgentMessage) eff" where
  "submitted_message env job correlation_id submitted_at =
     agent_message env correlation_id (AgentJobSubmittedMsg \<lparr>js_job_id = job_id job,
       js_idempotency_key = idempotency_key job, js_printer_id = printer_id job,
       js_status = StatusSubmitted, js_submitted_at = env_rfc3339 env submitted_at\<rparr>)"

definition failed_message ::
  "('v, 'doc) penv \<Rightarrow> PrintJob \<Rightarrow> ustring \<Rightarrow> Timestamp \<Rightarrow> JobFailure \<Rightarrow>
   (Proc, ValidationError, AgentMessage) eff" where
  "failed_message env job correlation_id failed_at failure =
     agent_message env correlation_id (AgentJobFailedMsg \<lparr>jf_job_id = job_id job,
       jf_idempotency_key = idempotency_key job, jf_status = StatusFailed,
       jf_failed_at = env_rfc3339 env failed_at,
       jf_error = \<lparr>fd_code = fail_code failure, fd_message = fail_message failure,
         fd_retryable = fail_retryable failure\<rparr>\<rparr>)"

definition outbound_status ::
  "('v, 'doc) penv \<Rightarrow> PrintJobId \<Rightarrow> AgentMessage \<Rightarrow> (Proc, JobProcessingError, 'v OutboundStatus) eff" where
  "outbound_status env jid m =
     ebind (elift (ok_or PayloadJson (env_message_value env m))) (\<lambda>payload.
     ebind (reading (env_clock env)) (\<lambda>now.
     eret \<lparr>os_message_id = am_message_id m, os_job_id = jid, os_payload = payload,
           os_created_at = now\<rparr>))"

section \<open>Failures\<close>

definition ValidationError_text :: "ValidationError \<Rightarrow> ustring" where
  "ValidationError_text e = ve_path e @ lit '': '' @ ve_message e"

fun identifier_error_text :: "IdentifierError \<Rightarrow> ustring" where
  "identifier_error_text IdentifierEmpty = lit ''identifier must not be empty''"
| "identifier_error_text (IdentifierTooLong actual maximum) =
     lit ''identifier is '' @ dec actual @ lit '' bytes; the maximum is '' @ dec maximum"
| "identifier_error_text IdentifierControlCharacter =
     lit ''identifier must not contain control characters''"
| "identifier_error_text IdentifierSurroundingWhitespace =
     lit ''identifier must not have leading or trailing whitespace''"

definition renderer_failure :: "('v, 'doc) penv \<Rightarrow> RendererError \<Rightarrow> JobFailure" where
  "renderer_failure env e = JobFailure_new (lit ''render.failed'') (env_renderer_text env e)
     (e = UnicodeRequiresRasterization)"

fun pdf_failure_class :: "RendererError \<Rightarrow> string \<times> bool" where
  "pdf_failure_class (InvalidPdf _) = (''document.invalid'', False)"
| "pdf_failure_class EncryptedPdf = (''document.encrypted'', False)"
| "pdf_failure_class (PdfLimitExceeded _ _ _) = (''document.limit_exceeded'', False)"
| "pdf_failure_class (InvalidPageRange _) = (''document.page_range_invalid'', False)"
| "pdf_failure_class (InvalidDocument _) = (''document.settings_invalid'', False)"
| "pdf_failure_class RasterizationTimedOut = (''document.processing_timeout'', True)"
| "pdf_failure_class (PdfRender _) = (''document.render_failed'', False)"
| "pdf_failure_class _ = (''render.failed'', False)"

definition pdf_failure :: "('v, 'doc) penv \<Rightarrow> RendererError \<Rightarrow> JobFailure" where
  "pdf_failure env e = JobFailure_new (lit (fst (pdf_failure_class e))) (env_renderer_text env e)
     (snd (pdf_failure_class e))"

definition recovery_aware_failure :: "'v StoredPrintJob \<Rightarrow> JobFailure \<Rightarrow> JobFailure" where
  "recovery_aware_failure stored failure =
     (if sj_recovery_count stored = 0 then failure
      else JobFailure_new (lit ''job.recovery_uncertain'')
        (lit ''an interrupted submission may already have reached its backend; replay failed: '' @
         fail_message failure) False)"

fun spooler_retryable :: "SpoolerError \<Rightarrow> bool" where
  "spooler_retryable (BackendUnavailable _) = True"
| "spooler_retryable (Connectivity _) = True"
| "spooler_retryable (SpoolerTimeout _ _) = True"
| "spooler_retryable SimulatedFailure = True"
| "spooler_retryable _ = False"

definition spooler_failure :: "('v, 'doc) penv \<Rightarrow> SpoolerError \<Rightarrow> JobFailure" where
  "spooler_failure env e = (case e of
     UnsupportedOption _ \<Rightarrow> JobFailure_new (lit ''document.option_unsupported'') (env_spooler_text env e) False
   | _ \<Rightarrow> JobFailure_new (lit ''spooler.failed'') (env_spooler_text env e) (spooler_retryable e))"

definition printer_render_target :: "PrinterRef \<Rightarrow> JobFailure + RenderTarget" where
  "printer_render_target p =
     (let invalid = Err (JobFailure_new (lit ''printer.submission_mode_unsupported'')
        (lit ''the selected submission mode is not supported by this printer connection'') False) in
      (case (pr_connection p, pr_submission_mode p, pr_virtual_profile p) of
         (Virtual _, Raw EscPos, Some (EscPosReceipt _)) \<Rightarrow> Ok TargetEscPos
       | (SystemQueue _, Raw EscPos, None) \<Rightarrow> Ok TargetEscPos
       | (Network _ _, Raw EscPos, None) \<Rightarrow> Ok TargetEscPos
       | (Usb _ _ _, Raw EscPos, None) \<Rightarrow> Ok TargetEscPos
       | (Virtual _, Driver, Some (SystemDriverPage w h dpi)) \<Rightarrow>
           Ok (TargetPage \<lparr>opt_width_mm = w, opt_height_mm = h, opt_dpi = dpi\<rparr>)
       | (SystemQueue _, Driver, None) \<Rightarrow> Ok (TargetPage A4_PORTRAIT)
       | _ \<Rightarrow> invalid))"

definition pdf_route :: "PrinterRef \<Rightarrow> JobFailure + unit" where
  "pdf_route p =
     (if connection_kind (pr_connection p) \<in> {KindSystemQueue, KindVirtual} \<and>
         pr_submission_mode p = Driver \<and>
         (case pr_virtual_profile p of None \<Rightarrow> True | Some (SystemDriverPage _ _ _) \<Rightarrow> True | _ \<Rightarrow> False)
      then Ok ()
      else Err (JobFailure_new (lit ''document.format_unsupported'')
        (lit ''PDF documents need a system printer queue or a virtual office printer in driver mode; '' @
         pr_display_name p @ lit '' cannot print PDFs. Send a structured receipt or select a document printer.'')
        False))"

definition validate_persisted_job :: "'v StoredPrintJob \<Rightarrow> PrintJob \<Rightarrow> JobFailure + unit" where
  "validate_persisted_job stored job =
     and_then (map_err (\<lambda>e. JobFailure_new (lit ''job.invalid_persisted'') (ValidationError_text e) False)
       (PrintJob_validate job)) (\<lambda>_.
     reject_if (job_id job \<noteq> sj_id stored \<or> idempotency_key job \<noteq> sj_idempotency_key stored \<or>
                printer_id job \<noteq> sj_printer_id stored)
       (JobFailure_new (lit ''job.storage_mismatch'')
         (lit ''persisted job identity does not match its durable row'') False))"

section \<open>Receiving a delivery\<close>

definition receive_result ::
  "('v, 'doc) penv \<Rightarrow> ustring \<Rightarrow> PrintJob \<Rightarrow> PrintJobId \<Rightarrow> Timestamp \<Rightarrow> InsertResult \<Rightarrow>
   (Proc, JobProcessingError, ReceiveJobOutcome) eff" where
  "receive_result env source job jid received_at result = (case result of
     Inserted \<Rightarrow>
       ebind (publish (JobReceivedEvent jid)) (\<lambda>_.
       ebind (refresh_pending env) (\<lambda>_.
       ebind (emap_err ProtocolInvalid (received_message env job source received_at)) (\<lambda>ack.
       eret (ReceiveInserted ack))))
   | DuplicateJob state \<Rightarrow>
       ebind (publish (DuplicateJobEvent jid state)) (\<lambda>_.
       ebind (reading (env_clock env)) (\<lambda>now.
       ebind (emap_err ProtocolInvalid (received_message env job source now)) (\<lambda>ack.
       eret (ReceiveDuplicate state ack))))
   | DuplicateIdempotency existing state \<Rightarrow>
       ebind (publish (DuplicateIdempotencyEvent jid existing state)) (\<lambda>_.
       eret (ReceiveDuplicateKey jid existing state)))"

definition receive_insert ::
  "('v, 'doc) penv \<Rightarrow> ustring \<Rightarrow> PrintJob \<Rightarrow> PrintJobId \<Rightarrow> PrinterId \<Rightarrow>
   (Proc, JobProcessingError, ReceiveJobOutcome) eff" where
  "receive_insert env source job jid pid =
     ebind (reading (env_clock env)) (\<lambda>received_at.
     ebind (elift (ok_or PayloadJson (env_to_value env job))) (\<lambda>payload.
     ebind (emap_err StorageFailure (store_op env (\<lambda>_. insert_received (env_storage env)
       \<lparr>rj_id = jid, rj_idempotency_key = idempotency_key job, rj_printer_id = pid,
        rj_payload = payload, rj_source_message_id = source,
        rj_received_at = received_at\<rparr>))) (\<lambda>result.
     receive_result env source job jid received_at result)))"

definition receive_print_job ::
  "('v, 'doc) penv \<Rightarrow> ServerMessage \<Rightarrow> (Proc, JobProcessingError, ReceiveJobOutcome) eff" where
  "receive_print_job env m =
     ebind (emap_err ProtocolInvalid (elift (ServerMessage_validate m))) (\<lambda>_.
     (case sm_kind m of
        ServerPrintJobMsg job \<Rightarrow>
          ebind (emap_err ProtocolInvalid (elift (PrintJob_validate job))) (\<lambda>_.
          ebind (emap_err IdentifierInvalid (elift (new_identifier (job_id job)))) (\<lambda>jid.
          ebind (emap_err IdentifierInvalid (elift (new_identifier (printer_id job)))) (\<lambda>pid.
          receive_insert env (sm_message_id m) job jid pid)))
      | _ \<Rightarrow> elift (Err ExpectedPrintJob)))"

section \<open>Persisting a failure\<close>

definition persist_failure ::
  "('v, 'doc) penv \<Rightarrow> 'v StoredPrintJob \<Rightarrow> PrintJob \<Rightarrow> JobFailure \<Rightarrow>
   (Proc, JobProcessingError, ProcessOutcome) eff" where
  "persist_failure env stored job failure0 =
     (let failure = recovery_aware_failure stored failure0 in
      ebind (reading (env_clock env)) (\<lambda>occurred_at.
      ebind (emap_err ProtocolInvalid
        (failed_message env job (sj_source_message_id stored) occurred_at failure)) (\<lambda>m.
      ebind (outbound_status env (sj_id stored) m) (\<lambda>outbound.
      ebind (emap_err StorageFailure (store_op env (\<lambda>now db. mark_failed_with_status
        (env_storage env) (sj_id stored) (failure_stored failure occurred_at) outbound now db))) (\<lambda>_.
      ebind (publish (JobFailedEvent (sj_id stored) (fail_code failure) (fail_retryable failure))) (\<lambda>_.
      eret (OutcomeFailed (sj_id stored) (Some m))))))))"

definition persist_unreportable_failure ::
  "('v, 'doc) penv \<Rightarrow> 'v StoredPrintJob \<Rightarrow> JobFailure \<Rightarrow> (Proc, JobProcessingError, ProcessOutcome) eff" where
  "persist_unreportable_failure env stored failure0 =
     (let failure = recovery_aware_failure stored failure0 in
      ebind (reading (env_clock env)) (\<lambda>occurred_at.
      ebind (emap_err StorageFailure (store_op env (\<lambda>now db. mark_failed (sj_id stored)
        (failure_stored failure occurred_at) now db))) (\<lambda>_.
      ebind (publish (JobFailedEvent (sj_id stored) (fail_code failure) (fail_retryable failure))) (\<lambda>_.
      eret (OutcomeFailed (sj_id stored) None)))))"

section \<open>Cancellation\<close>

text \<open>The whole operation runs under the lock of the active map, up to the refresh.\<close>

definition cancel_queued ::
  "('v, 'doc) penv \<Rightarrow> PrintJobId \<Rightarrow> (Proc, JobProcessingError, CancelOutcome) eff" where
  "cancel_queued env jid = ecase (store_op env (mark_cancelled jid)) (\<lambda>result.
     case result of
       Ok _ \<Rightarrow>
         ebind (publish (JobCancelledEvent jid)) (\<lambda>_.
         ebind (refresh_pending env) (\<lambda>_. eret (CancelDone jid)))
     | Err (JobNotFound _) \<Rightarrow> ebind (refresh_pending env) (\<lambda>_. eret (CancelNotFound jid))
     | Err (InvalidTransition x current y) \<Rightarrow>
         if is_terminal current
         then ebind (refresh_pending env) (\<lambda>_. eret (CancelAlreadyTerminal jid current))
         else elift (Err (StorageFailure (InvalidTransition x current y)))
     | Err e \<Rightarrow> elift (Err (StorageFailure e)))"

definition set_active :: "PrintJobId \<Rightarrow> bool option \<Rightarrow> (Proc, 'e, unit) eff" where
  "set_active jid flag = emodify (\<lambda>s. s\<lparr>proc_active := (proc_active s)(jid := flag)\<rparr>)"

definition cancel_job ::
  "('v, 'doc) penv \<Rightarrow> ustring \<Rightarrow> (Proc, JobProcessingError, CancelOutcome) eff" where
  "cancel_job env raw =
     ebind (emap_err IdentifierInvalid (elift (new_identifier raw))) (\<lambda>jid.
     ebind (egets proc_active) (\<lambda>active.
     if active jid \<noteq> None
     then ebind (set_active jid (Some True)) (\<lambda>_.
          ebind (publish (CancellationRequestedEvent jid)) (\<lambda>_. eret (CancelRequested jid)))
     else cancel_queued env jid))"

section \<open>Submitting\<close>

text \<open>
  The claim, under the lock of the active map: the durable transition and the registration of the
  cancellation token. \<open>Some current\<close> is the early return with \<open>Skipped\<close>.
\<close>

definition submit_claim ::
  "('v, 'doc) penv \<Rightarrow> PrintJobId \<Rightarrow> (Proc, JobProcessingError, JobState option) eff" where
  "submit_claim env jid = ecase (store_op env (mark_submitting jid)) (\<lambda>result.
     case result of
       Ok _ \<Rightarrow>
         ebind (set_active jid (Some False)) (\<lambda>_.
         ebind (publish (JobSubmittingEvent jid)) (\<lambda>_. eret None))
     | Err (InvalidTransition _ current _) \<Rightarrow> eret (Some current)
     | Err e \<Rightarrow> elift (Err (StorageFailure e)))"

text \<open>
  The call of the backend. No lock is held: a concurrent \<open>cancel_job\<close> may set the token, which
  \<open>env_cancel_during\<close> decides.
\<close>

definition submit_spool ::
  "('v, 'doc) penv \<Rightarrow> PrintJobId \<Rightarrow> PrinterRef \<Rightarrow> 'doc \<Rightarrow>
   (Proc, JobProcessingError, SpoolerError + SubmissionReceipt) eff" where
  "submit_spool env jid printer rendered =
     ebind (reading (\<lambda>n. (env_cancel_during env n, env_spoolers env n))) (\<lambda>(cancel, spoolers).
     ecase (if cancel then ebind (cancel_job env jid) (\<lambda>_. eret ()) else eret ()) (\<lambda>_.
     ebind (egets proc_active) (\<lambda>active.
     eret (SpoolerRegistry_submit spoolers printer_error_message
       \<lparr>req_job_id = jid, req_printer = printer, req_document = rendered\<rparr>
       (active jid = Some True)))))"

text \<open>The terminal write, again under the lock, which removes the token whatever the result.\<close>

definition submit_conclude ::
  "('v, 'doc) penv \<Rightarrow> 'v StoredPrintJob \<Rightarrow> PrintJob \<Rightarrow> SpoolerError + SubmissionReceipt \<Rightarrow>
   (Proc, JobProcessingError, ProcessOutcome) eff" where
  "submit_conclude env stored job submission = (case submission of
     Ok receipt \<Rightarrow>
       ebind (emap_err ProtocolInvalid
         (submitted_message env job (sj_source_message_id stored) (sr_accepted_at receipt))) (\<lambda>m.
       ebind (outbound_status env (sj_id stored) m) (\<lambda>outbound.
       ebind (emap_err StorageFailure (store_op env (\<lambda>now db. mark_submitted_with_status
         (env_storage env) (sj_id stored) receipt outbound now db))) (\<lambda>_.
       ebind (publish (JobSubmittedEvent (sj_id stored))) (\<lambda>_.
       eret (OutcomeSubmitted (sj_id stored) m)))))
   | Err e \<Rightarrow>
       ebind (egets proc_active) (\<lambda>active.
       if active (sj_id stored) = Some True \<or> e = SpoolerCancelled
       then ebind (emap_err StorageFailure (store_op env (mark_cancelled (sj_id stored)))) (\<lambda>_.
            ebind (publish (JobCancelledEvent (sj_id stored))) (\<lambda>_.
            eret (OutcomeCancelled (sj_id stored))))
       else persist_failure env stored job (spooler_failure env e)))"

definition submit_finish ::
  "('v, 'doc) penv \<Rightarrow> 'v StoredPrintJob \<Rightarrow> PrintJob \<Rightarrow> SpoolerError + SubmissionReceipt \<Rightarrow>
   (Proc, JobProcessingError, ProcessOutcome) eff" where
  "submit_finish env stored job submission =
     ecase (submit_conclude env stored job submission) (\<lambda>outcome.
     ebind (set_active (sj_id stored) None) (\<lambda>_. elift outcome))"

definition submit ::
  "('v, 'doc) penv \<Rightarrow> 'v StoredPrintJob \<Rightarrow> PrintJob \<Rightarrow> PrinterRef \<Rightarrow> 'doc \<Rightarrow>
   (Proc, JobProcessingError, ProcessOutcome) eff" where
  "submit env stored job printer rendered =
     ebind (submit_claim env (sj_id stored)) (\<lambda>claimed.
     (case claimed of
        Some current \<Rightarrow> eret (OutcomeSkipped (sj_id stored) current)
      | None \<Rightarrow>
          ebind (submit_spool env (sj_id stored) printer rendered) (\<lambda>submission.
          submit_finish env stored job submission)))"

section \<open>Rendering\<close>

definition resolve_enabled_printer ::
  "('v, 'doc) penv \<Rightarrow> PrinterId \<Rightarrow> (Proc, JobFailure, PrinterRef) eff" where
  "resolve_enabled_printer env pid =
     ebind (reading (env_resolve env)) (\<lambda>resolve.
     ebind (elift (map_err (\<lambda>e. JobFailure_new (lit ''printer.resolve_failed'')
       (env_resolution_text env e) True) (resolve pid))) (\<lambda>found.
     ebind (elift (ok_or (JobFailure_new (lit ''printer.not_found'')
       (lit ''the selected local printer is not configured'') True) found)) (\<lambda>printer.
     ebind (elift (reject_if (pr_id printer \<noteq> pid) (JobFailure_new (lit ''printer.identity_mismatch'')
       (lit ''the printer resolver returned a different stable identity'') False))) (\<lambda>_.
     ebind (elift (reject_if (\<not> pr_enabled printer) (JobFailure_new (lit ''printer.disabled'')
       (lit ''the selected local printer is disabled'') True))) (\<lambda>_.
     eret printer)))))"

definition render_receipt ::
  "('v, 'doc) penv \<Rightarrow> PrintDocument \<Rightarrow> PrinterRef \<Rightarrow> JobFailure + 'doc" where
  "render_receipt env doc printer =
     and_then (printer_render_target printer) (\<lambda>target.
     map_err (renderer_failure env) (env_render env doc target))"

definition render_pdf_bytes ::
  "('v, 'doc) penv \<Rightarrow> nat list \<Rightarrow> PrintSettings \<Rightarrow> (Proc, JobFailure, 'doc) eff" where
  "render_pdf_bytes env bytes settings =
     ebind (reading (env_join_error env)) (\<lambda>join.
     (case join of
        Some e \<Rightarrow> elift (Err (JobFailure_new (lit ''document.render_failed'')
          (lit ''PDF validation did not finish: '' @ e) True))
      | None \<Rightarrow> elift (map_err (pdf_failure env) (env_render_pdf env bytes settings))))"

definition render_pdf_job ::
  "('v, 'doc) penv \<Rightarrow> PrintJobId \<Rightarrow> PdfDocument \<Rightarrow> PrinterRef \<Rightarrow> (Proc, JobFailure, 'doc) eff" where
  "render_pdf_job env jid doc printer =
     ebind (elift (pdf_route printer)) (\<lambda>_.
     ebind (elift (ok_or (JobFailure_new (lit ''document.fetch_unavailable'')
       (lit ''this agent is not configured to retrieve PDF documents'') False) (env_fetch env))) (\<lambda>fetch.
     ebind (reading fetch) (\<lambda>call.
     ebind (elift (map_err (\<lambda>e. JobFailure_new (fetch_error_code e) (env_fetch_text env e)
       (fetch_error_retryable e)) (call jid (pdf_source doc)))) (\<lambda>bytes.
     render_pdf_bytes env bytes
       (case pdf_settings doc of Some s \<Rightarrow> s | None \<Rightarrow> PrintSettings_default)))))"

definition render_job ::
  "('v, 'doc) penv \<Rightarrow> PrintJobId \<Rightarrow> PrintJob \<Rightarrow> PrinterRef \<Rightarrow> (Proc, JobFailure, 'doc) eff" where
  "render_job env jid job printer = (case document job of
     ReceiptJob doc \<Rightarrow> elift (render_receipt env doc printer)
   | PdfJob doc \<Rightarrow> render_pdf_job env jid doc printer)"

section \<open>Processing\<close>

text \<open>The steps before the claim, whose failures are persisted.\<close>

definition prepare_job ::
  "('v, 'doc) penv \<Rightarrow> 'v StoredPrintJob \<Rightarrow> PrintJob \<Rightarrow> (Proc, JobFailure, PrinterRef \<times> 'doc) eff" where
  "prepare_job env stored job =
     ebind (elift (validate_persisted_job stored job)) (\<lambda>_.
     ebind (resolve_enabled_printer env (sj_printer_id stored)) (\<lambda>printer.
     ebind (render_job env (sj_id stored) job printer) (\<lambda>rendered.
     eret (printer, rendered))))"

definition process_stored_job ::
  "('v, 'doc) penv \<Rightarrow> 'v StoredPrintJob \<Rightarrow> (Proc, JobProcessingError, ProcessOutcome) eff" where
  "process_stored_job env stored = (case env_from_value env (sj_payload stored) of
     Err e \<Rightarrow> persist_unreportable_failure env stored
       (JobFailure_new (lit ''job.invalid_persisted'') e False)
   | Ok job \<Rightarrow> ecase (prepare_job env stored job) (\<lambda>prepared. case prepared of
       Err failure \<Rightarrow> persist_failure env stored job failure
     | Ok (printer, rendered) \<Rightarrow> submit env stored job printer rendered))"

fun process_jobs ::
  "('v, 'doc) penv \<Rightarrow> 'v StoredPrintJob list \<Rightarrow> (Proc, JobProcessingError, ProcessOutcome list) eff" where
  "process_jobs env [] = eret []"
| "process_jobs env (stored # rest) =
     ebind (process_stored_job env stored) (\<lambda>outcome.
     ebind (refresh_pending env) (\<lambda>_.
     ebind (process_jobs env rest) (\<lambda>outcomes. eret (outcome # outcomes))))"

definition load_pending ::
  "('v, 'doc) penv \<Rightarrow> (Proc, JobProcessingError, 'v StoredPrintJob list) eff" where
  "load_pending env = ebind (egets proc_db) (\<lambda>db.
     emap_err StorageFailure (elift (pending (env_storage env) db)))"

definition process_pending ::
  "('v, 'doc) penv \<Rightarrow> (Proc, JobProcessingError, ProcessOutcome list) eff" where
  "process_pending env = ebind (load_pending env) (process_jobs env)"

fun receipts_for ::
  "('v, 'doc) penv \<Rightarrow> 'v StoredPrintJob list \<Rightarrow> (Proc, JobProcessingError, AgentMessage list) eff" where
  "receipts_for env [] = eret []"
| "receipts_for env (stored # rest) =
     ebind (emap_err ProtocolInvalid (received_message_for_stored env stored)) (\<lambda>m.
     ebind (receipts_for env rest) (\<lambda>ms. eret (m # ms)))"

definition pending_receipts ::
  "('v, 'doc) penv \<Rightarrow> (Proc, JobProcessingError, AgentMessage list) eff" where
  "pending_receipts env = ebind (load_pending env) (receipts_for env)"

definition processor_recover ::
  "('v, 'doc) penv \<Rightarrow> (Proc, JobProcessingError, RecoveryResult) eff" where
  "processor_recover env =
     ebind (emap_err StorageFailure (store_op env (recover_interrupted (env_storage env)))) (\<lambda>recovery.
     ebind (emodify (\<lambda>s. s\<lparr>proc_handle := set_pending_jobs (pending_jobs recovery) (proc_handle s)\<rparr>)) (\<lambda>_.
     ebind (publish (RecoveryCompletedEvent (recovered_submissions recovery) (pending_jobs recovery))) (\<lambda>_.
     eret recovery)))"

definition recover_and_process ::
  "('v, 'doc) penv \<Rightarrow> (Proc, JobProcessingError, RecoveryResult \<times> ProcessOutcome list) eff" where
  "recover_and_process env =
     ebind (processor_recover env) (\<lambda>recovery.
     ebind (process_pending env) (\<lambda>outcomes. eret (recovery, outcomes)))"

section \<open>Local tests\<close>

definition submit_rendered_local ::
  "('v, 'doc) penv \<Rightarrow> PrintJobId \<Rightarrow> PrinterRef \<Rightarrow> 'doc \<Rightarrow> (Proc, JobFailure, SubmissionReceipt) eff" where
  "submit_rendered_local env jid printer rendered =
     ebind (reading (env_spoolers env)) (\<lambda>spoolers.
     elift (map_err (spooler_failure env) (SpoolerRegistry_submit spoolers printer_error_message
       \<lparr>req_job_id = jid, req_printer = printer, req_document = rendered\<rparr> False)))"

definition submit_local_test ::
  "('v, 'doc) penv \<Rightarrow> PrintJob \<Rightarrow> (Proc, JobFailure, SubmissionReceipt) eff" where
  "submit_local_test env job =
     ebind (elift (map_err (\<lambda>e. JobFailure_new (lit ''job.invalid'') (ValidationError_text e) False)
       (PrintJob_validate job))) (\<lambda>_.
     ebind (elift (map_err (\<lambda>e. JobFailure_new (lit ''job.invalid_identifier'')
       (identifier_error_text e) False) (new_identifier (job_id job)))) (\<lambda>jid.
     ebind (elift (map_err (\<lambda>e. JobFailure_new (lit ''printer.invalid_identifier'')
       (identifier_error_text e) False) (new_identifier (printer_id job)))) (\<lambda>pid.
     ebind (resolve_enabled_printer env pid) (\<lambda>printer.
     (case document job of
        PdfJob _ \<Rightarrow> elift (Err (JobFailure_new (lit ''job.local_test_unsupported'')
          (lit ''local test jobs accept structured receipts; use submit_local_pdf for PDF files'') False))
      | ReceiptJob doc \<Rightarrow>
          ebind (elift (render_receipt env doc printer)) (\<lambda>rendered.
          submit_rendered_local env jid printer rendered))))))"

definition submit_local_pdf ::
  "('v, 'doc) penv \<Rightarrow> PrintJobId \<Rightarrow> PrinterId \<Rightarrow> nat list \<Rightarrow> PrintSettings \<Rightarrow>
   (Proc, JobFailure, SubmissionReceipt) eff" where
  "submit_local_pdf env jid pid bytes settings =
     ebind (resolve_enabled_printer env pid) (\<lambda>printer.
     ebind (elift (pdf_route printer)) (\<lambda>_.
     ebind (render_pdf_bytes env bytes settings) (\<lambda>rendered.
     submit_rendered_local env jid printer rendered)))"

end
