(* ===== verification/Storage_Laws.thy ===== *)
theory Storage_Laws
  imports Storage
begin

text \<open>
  What the job repository guarantees: the states a job can move between, the invariant of its
  tables under every operation, terminal retention, and duplicate detection. The interface
  \<open>job_lifecycle\<close> states the life-cycle laws once and derives their consequences for whole runs.
\<close>

lemma find_append:
  "find P (xs @ ys) = (case find P xs of None \<Rightarrow> find P ys | Some x \<Rightarrow> Some x)"
  by (induction xs) simp_all

section \<open>The state of a job\<close>

definition state_of :: "SqliteStorage \<Rightarrow> PrintJobId \<Rightarrow> JobState option" where
  "state_of db jid = map_option row_state (job_by_id db jid)"

definition ids_ok :: "SqliteStorage \<Rightarrow> bool" where
  "ids_ok db \<longleftrightarrow> distinct (map row_job_id (print_jobs db))"

lemma job_by_id_Some:
  "ids_ok db \<Longrightarrow> job_by_id db jid = Some r \<longleftrightarrow> r \<in> set (print_jobs db) \<and> row_job_id r = jid"
proof
  assume "job_by_id db jid = Some r"
  then show "r \<in> set (print_jobs db) \<and> row_job_id r = jid"
    unfolding job_by_id_def by (rule find_Some_iff_set)
next
  assume "ids_ok db" "r \<in> set (print_jobs db) \<and> row_job_id r = jid"
  then show "job_by_id db jid = Some r"
    unfolding ids_ok_def job_by_id_def using find_unique [of row_job_id "print_jobs db" r] by auto
qed

lemma job_by_id_None:
  "job_by_id db jid = None \<longleftrightarrow> jid \<notin> row_job_id ` set (print_jobs db)"
  by (auto simp: job_by_id_def find_None_iff_all)

section \<open>Retention\<close>

lemma prune_payload_simps [simp]:
  "row_job_id (prune_payload r) = row_job_id r" "row_key (prune_payload r) = row_key r"
  "row_state (prune_payload r) = row_state r" "row_updated_at (prune_payload r) = row_updated_at r"
  "row_received_at (prune_payload r) = row_received_at r"
  "row_printer_id (prune_payload r) = row_printer_id r"
  "row_payload_sha256 (prune_payload r) = row_payload_sha256 r"
  "row_error (prune_payload r) = row_error r" "row_receipt (prune_payload r) = row_receipt r"
  by (simp_all add: prune_payload_def)

lemma prune_payload_live: "\<not> is_terminal (row_state r) \<Longrightarrow> prune_payload r = r"
  by (simp add: prune_payload_def)

lemma prune_payload_null:
  "is_terminal (row_state r) \<Longrightarrow> row_payload_json (prune_payload r) = lit ''null''"
  by (simp add: prune_payload_def)

text \<open>The rows a retention pass deletes.\<close>

definition retention_deleted :: "nat \<Rightarrow> PrintJobId option \<Rightarrow> SqliteStorage \<Rightarrow> PrintJobId set" where
  "retention_deleted maximum protected db =
     (let rows = map prune_payload (print_jobs db); excess = count_jobs is_terminal db - maximum in
      if excess = 0 then {} else row_job_id ` set (retention_victims excess protected rows))"

lemma count_jobs_map:
  assumes "\<And>r. row_state (f r) = row_state r"
  shows "count_jobs P (db\<lparr>print_jobs := map f (print_jobs db)\<rparr>) = count_jobs P db"
  by (simp add: count_jobs_def filter_map o_def assms)

lemma enforce_db:
  "snd (enforce_terminal_retention m p db) =
     db\<lparr>print_jobs := filter (\<lambda>r. row_job_id r \<notin> retention_deleted m p db) (map prune_payload (print_jobs db)),
        outbox := filter (\<lambda>ob. out_job_id ob \<notin> retention_deleted m p db) (outbox db)\<rparr>"
  by (simp add: enforce_terminal_retention_def retention_deleted_def delete_jobs_def Let_def
      count_jobs_map)

lemma retention_deleted_terminal:
  assumes "jid \<in> retention_deleted m p db"
  shows "\<exists>r \<in> set (print_jobs db). row_job_id r = jid \<and> is_terminal (row_state r) \<and> p \<noteq> Some jid"
proof -
  obtain n where "jid \<in> row_job_id ` set (retention_victims n p (map prune_payload (print_jobs db)))"
    using assms by (auto simp: retention_deleted_def Let_def split: if_splits)
  then show ?thesis
    by (fastforce simp: retention_victims_def dest!: in_set_takeD)
qed

lemma enforce_ids: "ids_ok db \<Longrightarrow> ids_ok (snd (enforce_terminal_retention m p db))"
  by (simp add: ids_ok_def enforce_db distinct_map_filter o_def)

lemma enforce_state_of:
  assumes "ids_ok db"
  shows "state_of (snd (enforce_terminal_retention m p db)) jid =
    (if jid \<in> retention_deleted m p db then None else state_of db jid)"
proof -
  let ?D = "retention_deleted m p db"
  have "distinct (map row_job_id (map prune_payload (print_jobs db)))"
    using assms by (simp add: ids_ok_def o_def)
  then have "job_by_id (snd (enforce_terminal_retention m p db)) jid =
      (case map_option prune_payload (job_by_id db jid) of
         Some r \<Rightarrow> if row_job_id r \<notin> ?D then Some r else None | None \<Rightarrow> None)"
    by (simp add: job_by_id_def enforce_db find_filter_key find_map_key)
  moreover have "row_job_id r = jid" if "job_by_id db jid = Some r" for r
    using that assms by (simp add: job_by_id_Some)
  ultimately show ?thesis
    by (auto simp: state_of_def split: option.splits)
qed

lemma enforce_live_state:
  assumes "ids_ok db" "state_of db jid = Some s" "\<not> is_terminal s"
  shows "state_of (snd (enforce_terminal_retention m p db)) jid = Some s"
proof -
  have "jid \<notin> retention_deleted m p db"
  proof
    assume "jid \<in> retention_deleted m p db"
    then obtain r where "r \<in> set (print_jobs db)" "row_job_id r = jid" "is_terminal (row_state r)"
      using retention_deleted_terminal by blast
    then have "job_by_id db jid = Some r" using assms(1) by (simp add: job_by_id_Some)
    with assms \<open>is_terminal (row_state r)\<close> show False by (simp add: state_of_def)
  qed
  with assms show ?thesis by (simp add: enforce_state_of)
qed

lemma enforce_protected_state:
  assumes "ids_ok db"
  shows "state_of (snd (enforce_terminal_retention m (Some jid) db)) jid = state_of db jid"
  using assms retention_deleted_terminal [of jid m "Some jid" db] by (auto simp: enforce_state_of)


text \<open>Retention leaves at most the configured number of terminal rows.\<close>

lemma count_after_delete:
  assumes "distinct (map k rs)" "V \<subseteq> set (filter P rs)"
  shows "length (filter P (filter (\<lambda>r. k r \<notin> k ` V) rs)) = length (filter P rs) - card V"
proof -
  have inj: "inj_on k (set rs)" and dist: "distinct rs"
    using assms(1) by (simp_all add: distinct_map)
  have "k r \<in> k ` V \<longleftrightarrow> r \<in> V" if "r \<in> set rs" for r
    using that inj assms(2) by (auto dest: inj_onD)
  then have "set (filter P (filter (\<lambda>r. k r \<notin> k ` V) rs)) = set (filter P rs) - V" by auto
  then have "length (filter P (filter (\<lambda>r. k r \<notin> k ` V) rs)) = card (set (filter P rs) - V)"
    using dist by (metis distinct_card distinct_filter)
  also have "\<dots> = card (set (filter P rs)) - card V"
    using assms(2) by (intro card_Diff_subset) (auto intro: finite_subset)
  finally show ?thesis using dist by (metis distinct_card distinct_filter)
qed

lemma length_filter_excl:
  assumes "distinct (map k rs)"
  shows "length (filter P rs) - 1 \<le> length (filter (\<lambda>r. P r \<and> k r \<noteq> x) rs)"
  using assms
proof (induction rs)
  case (Cons a rs)
  show ?case
  proof (cases "k a = x")
    case True
    then have "filter (\<lambda>r. P r \<and> k r \<noteq> x) rs = filter P rs"
      using Cons.prems by (intro filter_cong) (auto simp: image_iff)
    with True show ?thesis by simp
  qed (use Cons in auto)
qed simp

lemma enforce_bound:
  assumes "ids_ok db" "0 < m"
  shows "count_jobs is_terminal (snd (enforce_terminal_retention m p db)) \<le> m"
proof -
  define rows where "rows = map prune_payload (print_jobs db)"
  let ?T = "\<lambda>r. is_terminal (row_state r)"
  define n where "n = count_jobs is_terminal db"
  have dist: "distinct (map row_job_id rows)"
    using assms(1) by (simp add: rows_def ids_ok_def o_def)
  have n: "length (filter ?T rows) = n"
    by (simp add: rows_def n_def count_jobs_def filter_map o_def)
  show ?thesis
  proof (cases "n - m = 0")
    case True
    then have "retention_deleted m p db = {}" by (simp add: retention_deleted_def n_def)
    then have "count_jobs is_terminal (snd (enforce_terminal_retention m p db)) = n"
      using n by (simp add: count_jobs_def enforce_db rows_def)
    with True show ?thesis by simp
  next
    case False
    define V where "V = retention_victims (n - m) p rows"
    have del: "retention_deleted m p db = row_job_id ` set V"
      using False by (simp add: retention_deleted_def V_def rows_def n_def)
    let ?C = "filter (\<lambda>r. ?T r \<and> (p = None \<or> p \<noteq> Some (row_job_id r))) rows"
    have "n - 1 \<le> length ?C"
    proof (cases p)
      case (Some x)
      have "?C = filter (\<lambda>r. ?T r \<and> row_job_id r \<noteq> x) rows"
        using Some by (intro filter_cong) auto
      then show ?thesis using length_filter_excl [OF dist, of ?T x] n by simp
    qed (use n in simp)
    then have "length V = n - m"
      using assms(2) by (simp add: V_def retention_victims_def)
    moreover have "distinct V"
      using dist by (simp add: V_def retention_victims_def distinct_map)
    moreover have sub: "set V \<subseteq> set (filter ?T rows)"
      by (auto simp: V_def retention_victims_def dest!: in_set_takeD)
    ultimately have "card (set V) = n - m" by (simp add: distinct_card)
    then have "length (filter ?T (filter (\<lambda>r. row_job_id r \<notin> row_job_id ` set V) rows)) = n - (n - m)"
      using count_after_delete [OF dist sub] n by simp
    then show ?thesis
      using False by (simp add: count_jobs_def enforce_db del rows_def [symmetric])
  qed
qed


section \<open>Transitions\<close>

lemma transition_row_simps [simp]:
  "row_job_id (transition_row q n rc e r) = row_job_id r" "row_key (transition_row q n rc e r) = row_key r"
  "row_state (transition_row q n rc e r) = q" "row_printer_id (transition_row q n rc e r) = row_printer_id r"
  "row_payload_json (transition_row q n rc e r) = row_payload_json r"
  "row_payload_sha256 (transition_row q n rc e r) = row_payload_sha256 r"
  "row_updated_at (transition_row q n rc e r) = n"
  "row_error (transition_row q n rc e r) = e"
  by (simp_all add: transition_row_def)

lemma update_job_state_of:
  assumes "\<And>r. row_job_id (f r) = row_job_id r"
  shows "state_of (update_job jid f db) j =
    (if j = jid then map_option (\<lambda>r. row_state (f r)) (job_by_id db jid) else state_of db j)"
proof -
  have "job_by_id (update_job jid f db) j =
      map_option (\<lambda>r. if row_job_id r = jid then f r else r) (job_by_id db j)"
    unfolding job_by_id_def update_job_def by (simp add: find_map_key assms)
  moreover have "row_job_id r = j" if "job_by_id db j = Some r" for r
    using that find_Some_iff_set unfolding job_by_id_def by fastforce
  ultimately show ?thesis by (cases "job_by_id db j") (auto simp: state_of_def)
qed

lemma transition_OkE:
  assumes "transition jid q rc e st clock db = Ok (u, db')"
  obtains now r db2 where
    "now_millis clock = Ok now" "job_by_id db jid = Some r" "transition_allowed (row_state r) q"
    "insert_status st (update_job jid (transition_row q now rc e) db) = Ok db2"
    "db' = (if is_terminal q then snd (enforce_terminal_retention (max_terminal db) (Some jid) db2)
            else db2)"
  using assms by (auto simp: transition_def and_then_Ok Let_def)

lemma insert_outbox_Ok:
  "insert_outbox ob db = Ok db' \<longleftrightarrow>
     out_message_id ob \<notin> out_message_id ` set (outbox db) \<and>
     out_job_id ob \<in> row_job_id ` set (print_jobs db) \<and> db' = db\<lparr>outbox := outbox db @ [ob]\<rparr>"
  by (auto simp: insert_outbox_def and_then_Ok)

lemma insert_status_Ok:
  "insert_status st db = Ok db' \<longleftrightarrow> (case st of None \<Rightarrow> db' = db
     | Some ob \<Rightarrow> out_message_id ob \<notin> out_message_id ` set (outbox db) \<and>
         out_job_id ob \<in> row_job_id ` set (print_jobs db) \<and> db' = db\<lparr>outbox := outbox db @ [ob]\<rparr>)"
  by (auto simp: insert_status_def insert_outbox_Ok split: option.splits)

lemma state_of_outbox [simp]: "state_of (db\<lparr>outbox := x\<rparr>) j = state_of db j"
  by (simp add: state_of_def job_by_id_def)

lemma ids_ok_outbox [simp]: "ids_ok (db\<lparr>outbox := x\<rparr>) = ids_ok db"
  by (simp add: ids_ok_def)

lemma ids_ok_update:
  assumes "\<And>r. row_job_id (f r) = row_job_id r"
  shows "ids_ok (update_job jid f db) = ids_ok db"
proof -
  have "map row_job_id (print_jobs (update_job jid f db)) = map row_job_id (print_jobs db)"
    by (auto simp: update_job_def assms)
  then show ?thesis by (simp add: ids_ok_def)
qed

text \<open>What a successful transition does to the states of all jobs.\<close>

lemma transition_outbox:
  assumes "transition jid q rc e (Some ob) clock db = Ok (u, db')" "out_job_id ob = jid"
  shows "ob \<in> set (outbox db')"
proof -
  obtain now r db2 where
    db2: "insert_status (Some ob) (update_job jid (transition_row q now rc e) db) = Ok db2"
    and db': "db' = (if is_terminal q then snd (enforce_terminal_retention (max_terminal db) (Some jid) db2)
            else db2)"
    using transition_OkE [OF assms(1)] by metis
  have "jid \<notin> retention_deleted (max_terminal db) (Some jid) db2"
    using retention_deleted_terminal by blast
  moreover have "ob \<in> set (outbox db2)" using db2 by (auto simp: insert_status_Ok)
  ultimately show ?thesis using db' assms(2) by (auto simp: enforce_db)
qed

lemma transition_states:
  assumes "transition jid q rc e st clock db = Ok (u, db')" "ids_ok db"
  shows "\<exists>s. state_of db jid = Some s \<and> transition_allowed s q" "state_of db' jid = Some q"
    "j \<noteq> jid \<Longrightarrow> state_of db' j = state_of db j \<or>
       (state_of db' j = None \<and> (\<exists>s. state_of db j = Some s \<and> is_terminal s))"
    "ids_ok db'"
proof -
  obtain now r db2 where now: "now_millis clock = Ok now" and r: "job_by_id db jid = Some r"
    and allowed: "transition_allowed (row_state r) q"
    and db2: "insert_status st (update_job jid (transition_row q now rc e) db) = Ok db2"
    and db': "db' = (if is_terminal q then snd (enforce_terminal_retention (max_terminal db) (Some jid) db2)
            else db2)"
    using transition_OkE [OF assms(1)] by metis
  show "\<exists>s. state_of db jid = Some s \<and> transition_allowed s q"
    using r allowed by (simp add: state_of_def)
  have ids: "ids_ok db2"
    using db2 assms(2) by (auto simp: insert_status_Ok ids_ok_update split: option.splits)
  have st: "state_of db2 j = (if j = jid then Some q else state_of db j)" for j
    using db2 r by (auto simp: insert_status_Ok update_job_state_of split: option.splits)
  show "state_of db' jid = Some q"
    using db' st ids by (simp add: enforce_protected_state)
  show "ids_ok db'" using db' ids by (simp add: enforce_ids)
  assume "j \<noteq> jid"
  have "\<exists>s. state_of db2 j = Some s \<and> is_terminal s" if "j \<in> retention_deleted (max_terminal db) (Some jid) db2"
    using retention_deleted_terminal [OF that] ids by (auto simp: state_of_def job_by_id_Some)
  then show "state_of db' j = state_of db j \<or>
       (state_of db' j = None \<and> (\<exists>s. state_of db j = Some s \<and> is_terminal s))"
    using db' st ids \<open>j \<noteq> jid\<close> by (auto simp: enforce_state_of)
qed


section \<open>The steps of the repository\<close>

text \<open>
  One successful call of a state-changing operation, with any arguments and any clock. A call
  that returns an error changes nothing and is no step.
\<close>

inductive storage_step :: "'v senv \<Rightarrow> SqliteStorage \<Rightarrow> SqliteStorage \<Rightarrow> bool" for env where
  step_insert: "insert_received env job db = Ok (res, db') \<Longrightarrow> storage_step env db db'"
| step_submitting: "mark_submitting jid clock db = Ok (u, db') \<Longrightarrow> storage_step env db db'"
| step_submitted: "mark_submitted jid receipt clock db = Ok (u, db') \<Longrightarrow> storage_step env db db'"
| step_submitted_status:
    "mark_submitted_with_status env jid receipt st clock db = Ok (u, db') \<Longrightarrow> storage_step env db db'"
| step_failed: "mark_failed jid err clock db = Ok (u, db') \<Longrightarrow> storage_step env db db'"
| step_failed_status:
    "mark_failed_with_status env jid err st clock db = Ok (u, db') \<Longrightarrow> storage_step env db db'"
| step_cancelled: "mark_cancelled jid clock db = Ok (u, db') \<Longrightarrow> storage_step env db db'"
| step_recover: "recover_interrupted env clock db = Ok (rr, db') \<Longrightarrow> storage_step env db db'"
| step_acknowledge: "acknowledge_outbound_status mid db = Ok (b, db') \<Longrightarrow> storage_step env db db'"
| step_maintain: "maintain_terminal_jobs db = (tr, db') \<Longrightarrow> storage_step env db db'"
| step_save_printer: "save_printer printer clock db = Ok (u, db') \<Longrightarrow> storage_step env db db'"
| step_save_binding:
    "save_printer_binding env binding pid md clock db = Ok (u, db') \<Longrightarrow> storage_step env db db'"
| step_set_metadata: "set_metadata env t key v clock db = Ok (u, db') \<Longrightarrow> storage_step env db db'"

text \<open>The same steps by what they do to the job tables.\<close>

definition same_jobs :: "SqliteStorage \<Rightarrow> SqliteStorage \<Rightarrow> bool" where
  "same_jobs db db' \<longleftrightarrow> print_jobs db' = print_jobs db \<and> outbox db' = outbox db \<and>
     max_pending db' = max_pending db \<and> max_terminal db' = max_terminal db"

lemma kv_update_same_jobs: "same_jobs db (kv_update t rows db)"
  by (cases t) (simp_all add: same_jobs_def)

lemma prepare_outbound_status_Ok:
  assumes "prepare_outbound_status env jid st = Ok ob"
  shows "out_job_id ob = jid" "out_message_id ob = os_message_id st"
    "json_text env (os_payload st) = Some (out_payload_json ob)"
    "out_created_at ob = timestamp_millis (os_created_at st)"
  using assms by (auto simp: prepare_outbound_status_def and_then_Ok bounded_json_def)

text \<open>A transition as the operations call it: a status comes with a terminal state only.\<close>

definition job_transition :: "SqliteStorage \<Rightarrow> SqliteStorage \<Rightarrow> PrintJobId \<Rightarrow> JobState \<Rightarrow> bool" where
  "job_transition db db' jid q \<longleftrightarrow>
     (\<exists>rc e st clock u. transition jid q rc e st clock db = Ok (u, db') \<and>
        (\<forall>ob. st = Some ob \<longrightarrow> is_terminal q \<and> out_job_id ob = jid))"

lemma mark_transitions:
  "mark_submitting jid clock db = Ok (u, db') \<Longrightarrow> job_transition db db' jid Submitting"
  "mark_submitted jid receipt clock db = Ok (u, db') \<Longrightarrow> job_transition db db' jid Submitted"
  "mark_failed jid err clock db = Ok (u, db') \<Longrightarrow> job_transition db db' jid Failed"
  "mark_cancelled jid clock db = Ok (u, db') \<Longrightarrow> job_transition db db' jid Cancelled"
  unfolding job_transition_def mark_submitting_def mark_submitted_def mark_failed_def
    mark_cancelled_def and_then_Ok
  by blast+

lemma mark_status_transitions:
  "mark_submitted_with_status env jid receipt st clock db = Ok (u, db') \<Longrightarrow>
    job_transition db db' jid Submitted"
  "mark_failed_with_status env jid err st clock db = Ok (u, db') \<Longrightarrow> job_transition db db' jid Failed"
  unfolding job_transition_def mark_submitted_with_status_def mark_failed_with_status_def and_then_Ok
  using prepare_outbound_status_Ok(1) by fastforce+

lemma storage_step_cases:
  assumes "storage_step env db db'"
  obtains (insert) job res where "insert_received env job db = Ok (res, db')"
  | (transition) jid q where "job_transition db db' jid q"
  | (recover) clock rr where "recover_interrupted env clock db = Ok (rr, db')"
  | (acknowledge) mid b where "acknowledge_outbound_status mid db = Ok (b, db')"
  | (maintain) "db' = snd (maintain_terminal_jobs db)"
  | (other) "same_jobs db db'"
  using assms
proof cases
  case (step_maintain tr)
  then show ?thesis using maintain by (metis snd_conv)
next
  case (step_save_printer printer clock u)
  then have "same_jobs db db'" by (auto simp: save_printer_def and_then_Ok same_jobs_def)
  then show ?thesis by (rule other)
next
  case (step_save_binding binding pid md clock u)
  then have "same_jobs db db'" by (auto simp: save_printer_binding_def and_then_Ok same_jobs_def)
  then show ?thesis by (rule other)
next
  case (step_set_metadata t key v clock u)
  then have "same_jobs db db'" by (auto simp: set_metadata_def and_then_Ok kv_update_same_jobs)
  then show ?thesis by (rule other)
next
  case (step_submitting jid clock u)
  then show ?thesis by (rule transition [OF mark_transitions(1)])
next
  case (step_submitted jid receipt clock u)
  then show ?thesis by (rule transition [OF mark_transitions(2)])
next
  case (step_submitted_status jid receipt st clock u)
  then show ?thesis by (rule transition [OF mark_status_transitions(1)])
next
  case (step_failed jid err clock u)
  then show ?thesis by (rule transition [OF mark_transitions(3)])
next
  case (step_failed_status jid err st clock u)
  then show ?thesis by (rule transition [OF mark_status_transitions(2)])
next
  case (step_cancelled jid clock u)
  then show ?thesis by (rule transition [OF mark_transitions(4)])
next
  case (step_insert job res)
  then show ?thesis by (rule insert)
next
  case (step_recover clock rr)
  then show ?thesis by (rule recover)
next
  case (step_acknowledge mid b)
  then show ?thesis by (rule acknowledge)
qed


section \<open>The invariant of the tables\<close>

definition outbox_ok :: "SqliteStorage \<Rightarrow> bool" where
  "outbox_ok db \<longleftrightarrow> distinct (map out_message_id (outbox db)) \<and>
     (\<forall>ob \<in> set (outbox db). \<exists>s. state_of db (out_job_id ob) = Some s \<and> is_terminal s)"

definition is_live :: "JobState \<Rightarrow> bool" where
  "is_live s \<longleftrightarrow> s \<in> {Received, Submitting}"

lemma is_live_iff: "is_live s \<longleftrightarrow> \<not> is_terminal s"
  by (cases s) (simp_all add: is_live_def)

text \<open>
  Job identifiers, idempotency keys and message identifiers are unique; every report in the outbox
  belongs to a retained terminal job; the payload of a terminal job is pruned; both row counts are
  within their limits.
\<close>

definition storage_ok :: "SqliteStorage \<Rightarrow> bool" where
  "storage_ok db \<longleftrightarrow>
     ids_ok db \<and> distinct (map row_key (print_jobs db)) \<and> outbox_ok db \<and>
     (\<forall>r \<in> set (print_jobs db). is_terminal (row_state r) \<longrightarrow> row_payload_json r = lit ''null'') \<and>
     0 < max_pending db \<and> count_jobs is_live db \<le> max_pending db \<and>
     0 < max_terminal db \<and> count_jobs is_terminal db \<le> max_terminal db"

lemma outbox_ok_filter:
  "outbox_ok db \<Longrightarrow> outbox_ok (db\<lparr>outbox := filter P (outbox db)\<rparr>)"
  by (auto simp: outbox_ok_def distinct_map_filter)

lemma enforce_keys:
  "distinct (map row_key (print_jobs db)) \<Longrightarrow>
   distinct (map row_key (print_jobs (snd (enforce_terminal_retention m p db))))"
  by (simp add: enforce_db distinct_map_filter o_def)

lemma enforce_outbox:
  assumes "ids_ok db" "outbox_ok db"
  shows "outbox_ok (snd (enforce_terminal_retention m p db))"
  unfolding outbox_ok_def
proof
  show "distinct (map out_message_id (outbox (snd (enforce_terminal_retention m p db))))"
    using assms(2) by (simp add: enforce_db outbox_ok_def distinct_map_filter)
  show "\<forall>ob \<in> set (outbox (snd (enforce_terminal_retention m p db))).
      \<exists>s. state_of (snd (enforce_terminal_retention m p db)) (out_job_id ob) = Some s \<and> is_terminal s"
  proof
    fix ob assume "ob \<in> set (outbox (snd (enforce_terminal_retention m p db)))"
    then have "ob \<in> set (outbox db)" "out_job_id ob \<notin> retention_deleted m p db"
      by (simp_all add: enforce_db)
    then show "\<exists>s. state_of (snd (enforce_terminal_retention m p db)) (out_job_id ob) = Some s \<and> is_terminal s"
      using assms by (auto simp: enforce_state_of outbox_ok_def)
  qed
qed

lemma enforce_pruned:
  "\<forall>r \<in> set (print_jobs (snd (enforce_terminal_retention m p db))).
     is_terminal (row_state r) \<longrightarrow> row_payload_json r = lit ''null''"
  by (auto simp: enforce_db prune_payload_null)

lemma count_filter_map_le:
  assumes "\<And>r. r \<in> set rs \<Longrightarrow> P (row_state (f r)) \<Longrightarrow> P (row_state r)"
  shows "length (filter (\<lambda>r. P (row_state r)) (filter Q (map f rs))) \<le>
    length (filter (\<lambda>r. P (row_state r)) rs)"
  using assms
proof (induction rs)
  case (Cons a rs)
  then have "length (filter (\<lambda>r. P (row_state r)) (filter Q (map f rs))) \<le>
      length (filter (\<lambda>r. P (row_state r)) rs)"
    by simp
  with Cons.prems [of a] show ?case by auto
qed simp

lemma enforce_live_count:
  "count_jobs is_live (snd (enforce_terminal_retention m p db)) \<le> count_jobs is_live db"
  using count_filter_map_le [of "print_jobs db" is_live prune_payload
      "\<lambda>r. row_job_id r \<notin> retention_deleted m p db"]
  by (simp add: count_jobs_def enforce_db)

lemma enforce_limits [simp]:
  "max_pending (snd (enforce_terminal_retention m p db)) = max_pending db"
  "max_terminal (snd (enforce_terminal_retention m p db)) = max_terminal db"
  by (simp_all add: enforce_db)

lemma enforce_storage_ok:
  assumes "ids_ok db" "distinct (map row_key (print_jobs db))" "outbox_ok db" "0 < max_pending db"
    "count_jobs is_live db \<le> max_pending db" "0 < max_terminal db"
  shows "storage_ok (snd (enforce_terminal_retention (max_terminal db) p db))"
  unfolding storage_ok_def
  using assms enforce_ids enforce_keys enforce_outbox enforce_pruned enforce_bound
    order_trans [OF enforce_live_count assms(5)]
  by simp

lemma job_transition_ok:
  assumes "job_transition db db' jid q" "storage_ok db"
  shows "storage_ok db'"
proof -
  obtain rc e st clock u where t: "transition jid q rc e st clock db = Ok (u, db')"
    and st: "\<forall>ob. st = Some ob \<longrightarrow> is_terminal q \<and> out_job_id ob = jid"
    using assms(1) unfolding job_transition_def by blast
  obtain now r db2 where r: "job_by_id db jid = Some r"
    and allowed: "transition_allowed (row_state r) q"
    and db2: "insert_status st (update_job jid (transition_row q now rc e) db) = Ok db2"
    and db': "db' = (if is_terminal q then snd (enforce_terminal_retention (max_terminal db) (Some jid) db2)
            else db2)"
    using transition_OkE [OF t] by metis
  let ?f = "\<lambda>r. if row_job_id r = jid then transition_row q now rc e r else r"
  have live: "\<not> is_terminal (row_state r)" using allowed by (cases q) auto
  have ids: "ids_ok db" "ids_ok db2" and keys: "distinct (map row_key (print_jobs db))"
    using db2 assms(2) by (auto simp: storage_ok_def insert_status_Ok ids_ok_update split: option.splits)
  have jobs: "print_jobs db2 = map ?f (print_jobs db)"
    and limits: "max_pending db2 = max_pending db" "max_terminal db2 = max_terminal db"
    using db2 by (auto simp: insert_status_Ok update_job_def split: option.splits)
  have "map row_key (map ?f (print_jobs db)) = map row_key (print_jobs db)" by simp
  then have keys2: "distinct (map row_key (print_jobs db2))" unfolding jobs using keys by metis
  have states: "state_of db2 j = (if j = jid then Some q else state_of db j)" for j
    using db2 r by (auto simp: insert_status_Ok update_job_state_of split: option.splits)
  have row: "row_state x = row_state r" if "x \<in> set (print_jobs db)" "row_job_id x = jid" for x
    using that r job_by_id_Some [OF ids(1), of jid x] by simp
  have count: "count_jobs P db2 \<le> count_jobs P db" if "P q \<Longrightarrow> P (row_state r)" for P
  proof -
    have "P (row_state x)" if "x \<in> set (print_jobs db)" "P (row_state (?f x))" for x
      using that row [of x] \<open>P q \<Longrightarrow> P (row_state r)\<close> by (auto split: if_splits)
    from count_filter_map_le [of "print_jobs db" P ?f "\<lambda>_. True", OF this] show ?thesis
      by (simp add: count_jobs_def jobs)
  qed
  have out_live: "out_job_id ob \<noteq> jid" if "ob \<in> set (outbox db)" for ob
    using that assms(2) r live unfolding storage_ok_def outbox_ok_def state_of_def by fastforce
  have old: "outbox_ok db" using assms(2) by (simp add: storage_ok_def)
  have keep: "\<exists>s. state_of db2 (out_job_id ob) = Some s \<and> is_terminal s" if "ob \<in> set (outbox db)" for ob
    using that old out_live [OF that] by (simp add: states outbox_ok_def)
  have outbox: "outbox_ok db2"
  proof (cases st)
    case None
    then have "outbox db2 = outbox db" using db2 by (simp add: insert_status_Ok update_job_def)
    then show ?thesis using old keep by (simp add: outbox_ok_def)
  next
    case (Some ob)
    then have "outbox db2 = outbox db @ [ob]" "out_message_id ob \<notin> out_message_id ` set (outbox db)"
      using db2 by (auto simp: insert_status_Ok update_job_def)
    moreover have "is_terminal q" "out_job_id ob = jid" using st Some by simp_all
    ultimately show ?thesis using old keep by (auto simp: outbox_ok_def states)
  qed
  have count_live: "count_jobs is_live db2 \<le> max_pending db2"
    using count [of is_live] assms(2) live limits by (simp add: is_live_iff storage_ok_def)
  show ?thesis
  proof (cases "is_terminal q")
    case True
    then show ?thesis
      using db' enforce_storage_ok [OF ids(2) keys2 outbox _ count_live, of "Some jid"] limits assms(2)
      by (simp add: storage_ok_def)
  next
    case False
    have pruned: "\<forall>x \<in> set (print_jobs db2). is_terminal (row_state x) \<longrightarrow> row_payload_json x = lit ''null''"
      using False assms(2) by (auto simp: jobs storage_ok_def)
    have "count_jobs is_terminal db2 \<le> max_terminal db2"
      using count [of is_terminal] False limits assms(2) by (simp add: storage_ok_def)
    then show ?thesis
      using False db' ids keys2 outbox pruned count_live limits assms(2) by (simp add: storage_ok_def)
  qed
qed


lemma insert_received_cases:
  assumes "insert_received env job db = Ok (res, db')"
  obtains (duplicate) r where "job_by_id db (rj_id job) = Some r" "row_key r = rj_idempotency_key job"
      "row_printer_id r = rj_printer_id job" "res = DuplicateJob (row_state r)" "db' = db"
  | (duplicate_key) r s where "job_by_id db (rj_id job) = None"
      "job_by_key db (rj_idempotency_key job) = Some r" "res = DuplicateIdempotency (row_job_id r) s" "db' = db"
  | (inserted) payload where "job_by_id db (rj_id job) = None"
      "job_by_key db (rj_idempotency_key job) = None" "count_jobs is_live db < max_pending db"
      "json_text env (rj_payload job) = Some payload" "res = Inserted"
      "db' = db\<lparr>print_jobs := print_jobs db @ [received_row job payload (digest env payload)]\<rparr>"
proof -
  have live: "(\<lambda>s. s = Received \<or> s = Submitting) = is_live"
    by (auto simp: is_live_def)
  show thesis
    using assms duplicate duplicate_key inserted
    by (auto simp: insert_received_def insert_duplicate_def and_then_Ok bounded_json_def live
        payload_fingerprint_def new_identifier_Ok not_le split: option.splits if_splits)
qed

lemma received_row_simps [simp]:
  "row_job_id (received_row job p h) = rj_id job" "row_key (received_row job p h) = rj_idempotency_key job"
  "row_state (received_row job p h) = Received" "row_payload_json (received_row job p h) = p"
  "row_payload_sha256 (received_row job p h) = h"
  "row_printer_id (received_row job p h) = rj_printer_id job"
  by (simp_all add: received_row_def)

lemma insert_received_ok:
  assumes "insert_received env job db = Ok (res, db')" "storage_ok db"
  shows "storage_ok db'"
  using assms(1)
proof (cases rule: insert_received_cases)
  case (inserted payload)
  let ?row = "received_row job payload (digest env payload)"
  have fresh: "rj_id job \<notin> row_job_id ` set (print_jobs db)" "rj_idempotency_key job \<notin> row_key ` set (print_jobs db)"
    using inserted(1,2) by (auto simp: job_by_id_def job_by_key_def find_None_iff)
  have st: "state_of db' j = Some s" if "state_of db j = Some s" for j s
    using that inserted(6) by (auto simp: state_of_def job_by_id_def find_append)
  have "outbox_ok db'"
    using assms(2) st inserted(6) by (auto simp: storage_ok_def outbox_ok_def)
  moreover have "count_jobs is_live db' = count_jobs is_live db + 1"
    "count_jobs is_terminal db' = count_jobs is_terminal db"
    by (simp_all add: inserted(6) count_jobs_def is_live_def)
  ultimately show ?thesis
    using assms(2) inserted(3,6) fresh by (auto simp: storage_ok_def ids_ok_def)
qed (use assms(2) in simp_all)

lemma recover_row_simps [simp]:
  "row_job_id (recover_row n e r) = row_job_id r" "row_key (recover_row n e r) = row_key r"
  "row_payload_json (recover_row n e r) = row_payload_json r"
  "row_payload_sha256 (recover_row n e r) = row_payload_sha256 r"
  "row_printer_id (recover_row n e r) = row_printer_id r"
  "row_state (recover_row n e r) = (if row_state r = Submitting then Received else row_state r)"
  by (simp_all add: recover_row_def)

lemma recover_OkE:
  assumes "recover_interrupted env clock db = Ok (rr, db')"
  obtains now t where "now_millis clock = Ok now"
    "db' = db\<lparr>print_jobs := map (recover_row now (recovery_error t)) (print_jobs db)\<rparr>"
    "recovered_submissions rr = count_jobs (\<lambda>s. s = Submitting) db"
    "pending_jobs rr = count_jobs (\<lambda>s. s = Received) db'"
  using assms by (auto simp: recover_interrupted_def and_then_Ok Let_def)

lemma recover_state_of:
  assumes "recover_interrupted env clock db = Ok (rr, db')"
  shows "state_of db' j = map_option (\<lambda>s. if s = Submitting then Received else s) (state_of db j)"
proof -
  obtain now t where "db' = db\<lparr>print_jobs := map (recover_row now (recovery_error t)) (print_jobs db)\<rparr>"
    using recover_OkE [OF assms] by metis
  then have "job_by_id db' j = map_option (recover_row now (recovery_error t)) (job_by_id db j)"
    by (simp add: job_by_id_def find_map_key)
  then show ?thesis by (simp add: state_of_def option.map_comp o_def)
qed

lemma recover_ok:
  assumes "recover_interrupted env clock db = Ok (rr, db')" "storage_ok db"
  shows "storage_ok db'"
proof -
  obtain now t where db': "db' = db\<lparr>print_jobs := map (recover_row now (recovery_error t)) (print_jobs db)\<rparr>"
    using recover_OkE [OF assms(1)] by metis
  have "count_jobs P db' = count_jobs P db" if "P Received = P Submitting" for P
    using that by (auto simp: db' count_jobs_def filter_map o_def intro!: arg_cong [where f = length] filter_cong)
  then have "count_jobs is_live db' = count_jobs is_live db" "count_jobs is_terminal db' = count_jobs is_terminal db"
    by (simp_all add: is_live_def)
  moreover have "outbox_ok db'"
    using assms(2) unfolding storage_ok_def outbox_ok_def recover_state_of [OF assms(1)]
    by (fastforce simp: db')
  ultimately show ?thesis
    using assms(2) by (auto simp: storage_ok_def ids_ok_def db' o_def)
qed

lemma acknowledge_Ok:
  "acknowledge_outbound_status mid db = Ok (b, db') \<Longrightarrow>
   db' = db\<lparr>outbox := filter (\<lambda>ob. out_message_id ob \<noteq> mid) (outbox db)\<rparr>"
  by (auto simp: acknowledge_outbound_status_def and_then_Ok)

lemma same_jobs_ok: "same_jobs db db' \<Longrightarrow> storage_ok db \<Longrightarrow> storage_ok db'"
  by (simp add: same_jobs_def storage_ok_def ids_ok_def outbox_ok_def state_of_def job_by_id_def
      count_jobs_def)

lemma storage_step_ok:
  assumes "storage_step env db db'" "storage_ok db"
  shows "storage_ok db'"
  using assms(1)
proof (cases rule: storage_step_cases)
  case (acknowledge mid b)
  then show ?thesis
    using assms(2) outbox_ok_filter acknowledge_Ok
    by (fastforce simp: storage_ok_def ids_ok_def count_jobs_def)
next
  case maintain
  then show ?thesis
    using assms(2) enforce_storage_ok unfolding maintain_terminal_jobs_def storage_ok_def by blast
qed (use assms(2) insert_received_ok job_transition_ok recover_ok same_jobs_ok in blast)+

lemma open_storage_ok:
  assumes "open_with_limits limits empty_database = Ok db"
  shows "storage_ok db"
proof -
  let ?db = "empty_database\<lparr>max_pending := lim_max_pending_jobs limits, max_terminal := lim_max_terminal_jobs limits\<rparr>"
  have "db = snd (enforce_terminal_retention (max_terminal ?db) None ?db)"
    and pos: "0 < max_pending ?db" "0 < max_terminal ?db"
    using assms by (auto simp: open_with_limits_def validate_limits_def and_then_Ok maintain_terminal_jobs_def)
  then show ?thesis
    using enforce_storage_ok [of ?db None]
    by (simp add: empty_database_def ids_ok_def outbox_ok_def count_jobs_def)
qed

section \<open>The life cycle as an interface\<close>

text \<open>One step of a job: stay, an allowed transition, or the recovery of a claim.\<close>

definition job_step :: "JobState \<Rightarrow> JobState \<Rightarrow> bool" where
  "job_step s s' \<longleftrightarrow> s' = s \<or> transition_allowed s s' \<or> (s = Submitting \<and> s' = Received)"

lemma job_step_terminal: "is_terminal s \<Longrightarrow> job_step s s' \<Longrightarrow> s' = s"
  by (cases s; cases s') (simp_all add: job_step_def)

lemma job_step_live:
  "job_step s s' \<Longrightarrow> \<not> is_terminal s \<Longrightarrow>
   s' = s \<or> is_terminal s' \<or> (s = Received \<and> s' = Submitting) \<or> (s = Submitting \<and> s' = Received)"
  by (cases s; cases s') (simp_all add: job_step_def)

locale job_lifecycle =
  fixes step :: "'db \<Rightarrow> 'db \<Rightarrow> bool"
    and state :: "'db \<Rightarrow> 'id \<Rightarrow> JobState option"
    and good :: "'db \<Rightarrow> bool"
  assumes good_step: "good db \<Longrightarrow> step db db' \<Longrightarrow> good db'"
    and live_step: "good db \<Longrightarrow> step db db' \<Longrightarrow> state db j = Some s \<Longrightarrow> \<not> is_terminal s \<Longrightarrow>
      \<exists>s'. state db' j = Some s' \<and> job_step s s'"
    and terminal_step: "good db \<Longrightarrow> step db db' \<Longrightarrow> state db j = Some s \<Longrightarrow> is_terminal s \<Longrightarrow>
      state db' j = Some s \<or> state db' j = None"
begin

lemma good_run: "step\<^sup>*\<^sup>* db db' \<Longrightarrow> good db \<Longrightarrow> good db'"
  by (induction rule: rtranclp_induct) (auto intro: good_step)

text \<open>A job that was accepted has an outcome before it can disappear.\<close>

lemma never_lost:
  assumes "step\<^sup>*\<^sup>* db db'" "good db" "state db j = Some s"
  shows "state db' j \<noteq> None \<or>
    (\<exists>mid t. step\<^sup>*\<^sup>* db mid \<and> step\<^sup>*\<^sup>* mid db' \<and> state mid j = Some t \<and> is_terminal t)"
  using assms(1)
proof (induction rule: rtranclp_induct)
  case base
  show ?case using assms(3) by simp
next
  case (step y z)
  show ?case
  proof (cases "state y j")
    case None
    then show ?thesis using step.IH step.hyps(2) by (meson rtranclp.rtrancl_into_rtrancl)
  next
    case (Some t)
    show ?thesis
    proof (cases "is_terminal t")
      case True
      then show ?thesis using Some step.hyps by blast
    next
      case False
      then have "\<exists>s'. state z j = Some s' \<and> job_step t s'"
        using live_step [of y z] good_run [OF step.hyps(1) assms(2)] step.hyps(2) Some by blast
      then show ?thesis by auto
    qed
  qed
qed

text \<open>While a job is retained, its outcome does not change.\<close>

lemma outcome_stable:
  assumes "(\<lambda>a b. step a b \<and> state b j \<noteq> None)\<^sup>*\<^sup>* db db'" "good db" "state db j = Some s" "is_terminal s"
  shows "good db' \<and> state db' j = Some s"
  using assms(1)
proof (induction rule: rtranclp_induct)
  case (step y z)
  then show ?case using good_step terminal_step [of y z j s] assms(4) by auto
qed (use assms in simp)

end

section \<open>The repository has the life cycle\<close>

lemma job_transition_states:
  assumes "job_transition db db' jid q" "ids_ok db"
  shows "\<exists>s. state_of db jid = Some s \<and> transition_allowed s q" "state_of db' jid = Some q"
    "j \<noteq> jid \<Longrightarrow> state_of db' j = state_of db j \<or>
       (state_of db' j = None \<and> (\<exists>s. state_of db j = Some s \<and> is_terminal s))"
proof -
  obtain rc e st clock u where t: "transition jid q rc e st clock db = Ok (u, db')"
    using assms(1) unfolding job_transition_def by blast
  show "\<exists>s. state_of db jid = Some s \<and> transition_allowed s q"
    by (rule transition_states(1) [OF t assms(2)])
  show "state_of db' jid = Some q" by (rule transition_states(2) [OF t assms(2)])
  assume "j \<noteq> jid"
  then show "state_of db' j = state_of db j \<or>
       (state_of db' j = None \<and> (\<exists>s. state_of db j = Some s \<and> is_terminal s))"
    by (rule transition_states(3) [OF t assms(2)])
qed

lemma same_jobs_state: "same_jobs db db' \<Longrightarrow> state_of db' j = state_of db j"
  by (simp add: same_jobs_def state_of_def job_by_id_def)

lemma insert_received_state:
  assumes "insert_received env job db = Ok (res, db')" "state_of db j = Some s"
  shows "state_of db' j = Some s"
  using assms(1)
proof (cases rule: insert_received_cases)
  case (inserted payload)
  then show ?thesis
    using assms(2) by (auto simp: state_of_def job_by_id_def find_append split: option.splits)
qed (use assms(2) in simp_all)

lemma storage_step_state:
  assumes "storage_step env db db'" "storage_ok db" "state_of db j = Some s"
  shows "(\<exists>s'. state_of db' j = Some s' \<and> job_step s s') \<or> (state_of db' j = None \<and> is_terminal s)"
proof -
  have ids: "ids_ok db" using assms(2) by (simp add: storage_ok_def)
  from assms(1) show ?thesis
  proof (cases rule: storage_step_cases)
    case (insert job res)
    then show ?thesis using insert_received_state [OF insert assms(3)] by (simp add: job_step_def)
  next
    case (transition jid q)
    show ?thesis
    proof (cases "j = jid")
      case True
      then show ?thesis
        using job_transition_states(1,2) [OF transition ids] assms(3) by (auto simp: job_step_def)
    next
      case False
      then show ?thesis
        using job_transition_states(3) [OF transition ids False] assms(3) by (auto simp: job_step_def)
    qed
  next
    case (recover clock rr)
    then show ?thesis using recover_state_of [OF recover] assms(3) by (auto simp: job_step_def)
  next
    case (acknowledge mid b)
    then show ?thesis using acknowledge_Ok assms(3) by (fastforce simp: job_step_def)
  next
    case maintain
    show ?thesis
      using assms(3) enforce_live_state [OF ids assms(3)] enforce_state_of [OF ids]
      unfolding maintain maintain_terminal_jobs_def
      by (cases "is_terminal s") (auto simp: job_step_def)
  next
    case other
    then show ?thesis using same_jobs_state assms(3) by (auto simp: job_step_def)
  qed
qed

interpretation storage: job_lifecycle "storage_step env" state_of storage_ok
proof
  fix db db' j s
  assume "storage_ok db" "storage_step env db db'"
  then show "storage_ok db'" by (rule storage_step_ok [rotated])
next
  fix db db' j s
  assume "storage_ok db" "storage_step env db db'" "state_of db j = Some s" "\<not> is_terminal s"
  then show "\<exists>s'. state_of db' j = Some s' \<and> job_step s s'"
    using storage_step_state by blast
next
  fix db db' j s
  assume "storage_ok db" "storage_step env db db'" "state_of db j = Some s" "is_terminal s"
  then show "state_of db' j = Some s \<or> state_of db' j = None"
    using storage_step_state job_step_terminal by metis
qed


section \<open>Duplicate detection\<close>

text \<open>\<open>serde_json\<close> reads back the value it wrote.\<close>

definition json_roundtrip :: "'v senv \<Rightarrow> bool" where
  "json_roundtrip env \<longleftrightarrow> (\<forall>v t. json_text env v = Some t \<longrightarrow> json_parse env t = Some v)"

definition same_delivery :: "job_row \<Rightarrow> job_row \<Rightarrow> bool" where
  "same_delivery r r' \<longleftrightarrow> row_key r' = row_key r \<and> row_printer_id r' = row_printer_id r \<and>
     row_payload_sha256 r' = row_payload_sha256 r \<and>
     (row_payload_json r' = row_payload_json r \<or> row_payload_json r' = lit ''null'')"

lemma same_delivery_refl [simp]: "same_delivery r r"
  by (simp add: same_delivery_def)

lemma same_delivery_trans: "same_delivery a b \<Longrightarrow> same_delivery b c \<Longrightarrow> same_delivery a c"
  by (auto simp: same_delivery_def)

lemma enforce_row:
  assumes "ids_ok db" "job_by_id (snd (enforce_terminal_retention m p db)) j = Some r'"
  shows "\<exists>r. job_by_id db j = Some r \<and> same_delivery r r'"
proof -
  have ids: "ids_ok (snd (enforce_terminal_retention m p db))" using assms(1) by (rule enforce_ids)
  obtain r where "r \<in> set (print_jobs db)" "r' = prune_payload r" "row_job_id r = j"
    using assms(2) unfolding job_by_id_Some [OF ids] by (auto simp: enforce_db)
  then show ?thesis
    using assms(1) by (auto simp: job_by_id_Some same_delivery_def prune_payload_def)
qed

lemma job_transition_row:
  assumes "job_transition db db' jid q" "ids_ok db" "job_by_id db' j = Some r'"
  shows "\<exists>r. job_by_id db j = Some r \<and> same_delivery r r'"
proof -
  obtain rc e st clock u where t: "transition jid q rc e st clock db = Ok (u, db')"
    using assms(1) unfolding job_transition_def by blast
  obtain now r0 db2 where db2: "insert_status st (update_job jid (transition_row q now rc e) db) = Ok db2"
    and db': "db' = (if is_terminal q then snd (enforce_terminal_retention (max_terminal db) (Some jid) db2)
            else db2)"
    using transition_OkE [OF t] by metis
  have jobs: "print_jobs db2 = map (\<lambda>r. if row_job_id r = jid then transition_row q now rc e r else r) (print_jobs db)"
    using db2 by (auto simp: insert_status_Ok update_job_def split: option.splits)
  have ids: "ids_ok db2"
    using db2 assms(2) by (auto simp: insert_status_Ok ids_ok_update split: option.splits)
  have "\<exists>r2. job_by_id db2 j = Some r2 \<and> same_delivery r2 r'"
    using assms(3) db' enforce_row [OF ids] by (auto split: if_splits)
  then obtain r2 where r2: "job_by_id db2 j = Some r2" "same_delivery r2 r'" by blast
  have "job_by_id db2 j = map_option (\<lambda>r. if row_job_id r = jid then transition_row q now rc e r else r) (job_by_id db j)"
    unfolding job_by_id_def jobs by (rule find_map_key) simp
  then obtain r where "job_by_id db j = Some r" "same_delivery r r2"
    using r2(1) by (cases "job_by_id db j") (auto simp: same_delivery_def)
  then show ?thesis using r2(2) same_delivery_trans by blast
qed

lemma storage_step_row:
  assumes "storage_step env db db'" "storage_ok db" "job_by_id db j = Some r" "job_by_id db' j = Some r'"
  shows "same_delivery r r'"
proof -
  have ids: "ids_ok db" using assms(2) by (simp add: storage_ok_def)
  from assms(1) have "\<exists>x. job_by_id db j = Some x \<and> same_delivery x r'"
  proof (cases rule: storage_step_cases)
    case (insert job res)
    then show ?thesis
    proof (cases rule: insert_received_cases)
      case (inserted payload)
      then have "job_by_id db' j = Some r"
        using assms(3) by (simp add: job_by_id_def find_append)
      then show ?thesis using assms(3,4) by simp
    qed (use assms(3,4) in simp_all)
  next
    case (transition jid q)
    then show ?thesis using job_transition_row ids assms(4) by blast
  next
    case (recover clock rr)
    obtain now t where db': "db' = db\<lparr>print_jobs := map (recover_row now (recovery_error t)) (print_jobs db)\<rparr>"
      using recover_OkE [OF recover] by metis
    have "job_by_id db' j = map_option (recover_row now (recovery_error t)) (job_by_id db j)"
      by (simp add: job_by_id_def db' find_map_key)
    then show ?thesis using assms(3,4) by (auto simp: same_delivery_def)
  next
    case (acknowledge mid b)
    then show ?thesis using acknowledge_Ok assms(4) by (fastforce simp: job_by_id_def)
  next
    case maintain
    then show ?thesis using enforce_row ids assms(4) unfolding maintain_terminal_jobs_def by blast
  next
    case other
    then show ?thesis using assms(4) by (auto simp: same_jobs_def job_by_id_def)
  qed
  then show ?thesis using assms(3) by simp
qed

definition delivered :: "'v senv \<Rightarrow> 'v ReceivedPrintJob \<Rightarrow> SqliteStorage \<Rightarrow> bool" where
  "delivered env job db \<longleftrightarrow> (\<exists>r enc. json_text env (rj_payload job) = Some enc \<and>
     job_by_id db (rj_id job) = Some r \<and> row_key r = rj_idempotency_key job \<and>
     row_printer_id r = rj_printer_id job \<and> row_payload_sha256 r = digest env enc \<and>
     (row_payload_json r = enc \<or> row_payload_json r = lit ''null''))"

lemma inserted_delivered:
  assumes "insert_received env job db = Ok (Inserted, db')"
  shows "delivered env job db'"
  using assms
proof (cases rule: insert_received_cases)
  case (inserted payload)
  then have "job_by_id db' (rj_id job) = Some (received_row job payload (digest env payload))"
    by (simp add: job_by_id_def find_append)
  with inserted show ?thesis by (simp add: delivered_def)
qed simp_all

lemma delivered_step:
  assumes "storage_step env db db'" "storage_ok db" "delivered env job db" "state_of db' (rj_id job) \<noteq> None"
  shows "delivered env job db'"
proof -
  obtain r' where r': "job_by_id db' (rj_id job) = Some r'" using assms(4) by (auto simp: state_of_def)
  obtain r where "job_by_id db (rj_id job) = Some r" using assms(3) by (auto simp: delivered_def)
  then have "same_delivery r r'" using storage_step_row assms(1,2) r' by blast
  then show ?thesis
    using assms(3) r' \<open>job_by_id db (rj_id job) = Some r\<close> by (auto simp: delivered_def same_delivery_def)
qed

text \<open>
  The same job in a later delivery: an envelope has its own message identifier, and the time of receipt
  is that of the delivery. Neither is part of the content of the job.
\<close>

definition redelivered :: "'v ReceivedPrintJob \<Rightarrow> ustring \<Rightarrow> Timestamp \<Rightarrow> 'v ReceivedPrintJob" where
  "redelivered job message_id t = job\<lparr>rj_source_message_id := message_id, rj_received_at := t\<rparr>"

lemma redelivered_simps [simp]:
  "rj_id (redelivered job m t) = rj_id job" "rj_idempotency_key (redelivered job m t) = rj_idempotency_key job"
  "rj_printer_id (redelivered job m t) = rj_printer_id job" "rj_payload (redelivered job m t) = rj_payload job"
  "rj_source_message_id (redelivered job m t) = m" "delivered env (redelivered job m t) db = delivered env job db"
  by (simp_all add: redelivered_def delivered_def)

lemma insert_checks:
  assumes "insert_received env job db = Ok (res, db')" "validate_key (lit ''source message id'') m 128 = Ok ()"
    and "job_by_id db2 (rj_id job) = Some r"
  shows "insert_received env (redelivered job m t) db2 =
    and_then (insert_duplicate env r (redelivered job m t) (digest env (the (json_text env (rj_payload job)))))
      (\<lambda>result. Ok (result, db2))"
  using assms
  by (auto simp: insert_received_def and_then_Ok bounded_json_def payload_fingerprint_def reject_if_def)

lemma delivered_redelivery:
  assumes "json_roundtrip env" "insert_received env job db0 = Ok (res, db1)" "delivered env job db"
    and "validate_key (lit ''source message id'') m 128 = Ok ()"
  shows "\<exists>s. state_of db (rj_id job) = Some s \<and> insert_received env (redelivered job m t) db = Ok (DuplicateJob s, db)"
proof -
  obtain r enc where enc: "json_text env (rj_payload job) = Some enc"
    and r: "job_by_id db (rj_id job) = Some r" "row_key r = rj_idempotency_key job"
      "row_printer_id r = rj_printer_id job" "row_payload_sha256 r = digest env enc"
    and json: "row_payload_json r = enc \<or> row_payload_json r = lit ''null''"
    using assms(3) unfolding delivered_def by blast
  have "payload_matches env r (rj_payload job) (digest env enc) = Ok True"
    using json assms(1) enc r(4) by (auto simp: payload_matches_def json_roundtrip_def)
  then have "insert_duplicate env r (redelivered job m t) (digest env enc) = Ok (DuplicateJob (row_state r))"
    using r by (simp add: insert_duplicate_def reject_if_def)
  then have "insert_received env (redelivered job m t) db = Ok (DuplicateJob (row_state r), db)"
    using insert_checks [OF assms(2,4) r(1)] enc by simp
  then show ?thesis using r(1) by (simp add: state_of_def)
qed

lemma redelivery_run:
  assumes "json_roundtrip env" "storage_ok db0" "insert_received env job db0 = Ok (Inserted, db1)"
    "(\<lambda>a b. storage_step env a b \<and> state_of b (rj_id job) \<noteq> None)\<^sup>*\<^sup>* db1 db"
    "validate_key (lit ''source message id'') m 128 = Ok ()"
  shows "\<exists>s. state_of db (rj_id job) = Some s \<and> insert_received env (redelivered job m t) db = Ok (DuplicateJob s, db)"
proof -
  from assms(4) have "storage_ok db \<and> delivered env job db"
  proof (induction rule: rtranclp_induct)
    case base
    show ?case using insert_received_ok [OF assms(3,2)] inserted_delivered [OF assms(3)] by simp
  next
    case (step y z)
    then show ?case using storage_step_ok delivered_step by blast
  qed
  then show ?thesis using delivered_redelivery [OF assms(1,3) _ assms(5)] by blast
qed

end
