(* ===== verification/Processor_Laws.thy ===== *)
theory Processor_Laws
  imports Processor Storage_Laws
begin

text \<open>
  What the job processor guarantees: every operation is a run of repository steps, an outcome or an
  acknowledgement is returned only when it is durable, failure reports are always well formed, and
  cancellation and submission interleave safely.
\<close>

section \<open>Every operation is a run of repository steps\<close>

definition db_run :: "'v senv \<Rightarrow> Proc \<Rightarrow> Proc \<Rightarrow> bool" where
  "db_run senv s s' \<longleftrightarrow> (storage_step senv)\<^sup>*\<^sup>* (proc_db s) (proc_db s')"

lemma db_run_reflp [preserving]: "reflp (db_run senv)"
  by (simp add: reflp_def db_run_def)

lemma db_run_transp [preserving]: "transp (db_run senv)"
  by (auto simp: transp_def db_run_def)

lemma db_run_refl [simp]: "db_run senv s s"
  by (simp add: db_run_def)

lemma db_run_same: "proc_db s' = proc_db s \<Longrightarrow> db_run senv s s'"
  by (simp add: db_run_def)

lemma preserves_reading [preserving]: "preserves (db_run senv) (reading f)"
  by (simp add: preserves_def reading_def tick_def db_run_def)

lemma preserves_publish [preserving]: "preserves (db_run senv) (publish e)"
  by (simp add: preserves_def publish_def emodify_def db_run_def)

lemma preserves_refresh [preserving]: "preserves (db_run senv) (refresh_pending env)"
  by (auto simp: preserves_def refresh_pending_def emodify_def db_run_def split: sum.splits)

lemma preserves_store_op [preserving]:
  assumes "\<And>now db a db'. operation now db = Ok (a, db') \<Longrightarrow> storage_step senv db db'"
  shows "preserves (db_run senv) (store_op env operation)"
  unfolding preserves_def
proof
  fix s
  show "db_run senv s (snd (store_op env operation s))"
    using assms [of "env_clock env (proc_tick s)" "proc_db s"]
    by (auto simp: store_op_def db_run_def tick_def split: sum.splits)
qed

lemma preserves_snd: "preserves R m \<Longrightarrow> m s = (r, s') \<Longrightarrow> R s s'"
  unfolding preserves_def by (metis snd_conv)


lemma preserves_agent_message [preserving]: "preserves (db_run senv) (agent_message env c k)"
  unfolding agent_message_def Let_def by (intro preserving)

lemma preserves_received_message [preserving]: "preserves (db_run senv) (received_message env job c t)"
  unfolding received_message_def by (intro preserving)

lemma preserves_received_message_for_stored [preserving]: "preserves (db_run senv) (received_message_for_stored env st)"
  unfolding received_message_for_stored_def by (intro preserving)

lemma preserves_submitted_message [preserving]: "preserves (db_run senv) (submitted_message env job c t)"
  unfolding submitted_message_def by (intro preserving)

lemma preserves_failed_message [preserving]: "preserves (db_run senv) (failed_message env job c t f)"
  unfolding failed_message_def by (intro preserving)

lemma preserves_outbound_status [preserving]: "preserves (db_run senv) (outbound_status env jid m)"
  unfolding outbound_status_def by (intro preserving)

lemma preserves_insert_result [preserving]:
  assumes "preserves R f" "\<And>st. preserves R (g st)" "\<And>j st. preserves R (h j st)"
  shows "preserves R (case result of Inserted \<Rightarrow> f | DuplicateJob st \<Rightarrow> g st | DuplicateIdempotency j st \<Rightarrow> h j st)"
  using assms by (cases result) auto

lemma run_receive_result [preserving]: "preserves (db_run senv) (receive_result env src job jid t result)"
  unfolding receive_result_def by (intro preserving)

lemma run_receive_insert [preserving]: "preserves (db_run (env_storage env)) (receive_insert env src job jid pid)"
  unfolding receive_insert_def by (intro preserving) (rule step_insert)

lemma run_receive [preserving]: "preserves (db_run (env_storage env)) (receive_print_job env m)"
  unfolding receive_print_job_def
  by (cases "sm_kind m") (auto intro!: preserving)

lemma run_persist_failure [preserving]:
  "preserves (db_run (env_storage env)) (persist_failure env st job f)"
  unfolding persist_failure_def Let_def
  by (intro preserving) (rule step_failed_status)

lemma run_persist_unreportable [preserving]:
  "preserves (db_run (env_storage env)) (persist_unreportable_failure env st f)"
  unfolding persist_unreportable_failure_def Let_def
  by (intro preserving) (rule step_failed)


lemma preserves_set_active [preserving]: "preserves (db_run senv) (set_active jid f)"
  by (simp add: preserves_def set_active_def emodify_def db_run_def)

lemma preserves_storage_error [preserving]:
  assumes "\<And>x. preserves R (f x)" "\<And>x c y. preserves R (g x c y)" "\<And>e. preserves R (h e)"
  shows "preserves R (case e of JobNotFound x \<Rightarrow> f x | InvalidTransition x c y \<Rightarrow> g x c y
    | SqliteConstraint \<Rightarrow> h e | SqliteColumn \<Rightarrow> h e | JsonError \<Rightarrow> h e | StoredIdentifier i \<Rightarrow> h e
    | InvalidInput t \<Rightarrow> h e | QueueFull n \<Rightarrow> h e | JobIdentityConflict j \<Rightarrow> h e
    | JobContentConflict j \<Rightarrow> h e | StoredTimestamp t \<Rightarrow> h e)"
  using assms by (cases e) auto

lemma run_cancel_queued [preserving]: "preserves (db_run (env_storage env)) (cancel_queued env jid)"
  unfolding cancel_queued_def
  by (intro preserving) (auto intro!: preserving intro: step_cancelled split: StorageError.splits)

lemma run_cancel [preserving]: "preserves (db_run (env_storage env)) (cancel_job env raw)"
  unfolding cancel_job_def by (intro preserving)

lemma run_claim [preserving]: "preserves (db_run (env_storage env)) (submit_claim env jid)"
  unfolding submit_claim_def
  by (intro preserving) (auto intro!: preserving intro: step_submitting split: StorageError.splits)

lemma run_conclude [preserving]:
  "preserves (db_run (env_storage env)) (submit_conclude env st job submission)"
  unfolding submit_conclude_def
  by (intro preserving) (auto intro: step_submitted_status step_cancelled)

lemma run_finish [preserving]: "preserves (db_run (env_storage env)) (submit_finish env st job submission)"
  unfolding submit_finish_def by (intro preserving)

lemma run_spool [preserving]: "preserves (db_run (env_storage env)) (submit_spool env jid p d)"
  unfolding submit_spool_def by (intro preserving)

lemma run_submit [preserving]: "preserves (db_run (env_storage env)) (submit env st job p d)"
  unfolding submit_def by (intro preserving)

lemma run_resolve [preserving]: "preserves (db_run senv) (resolve_enabled_printer env pid)"
  unfolding resolve_enabled_printer_def by (intro preserving)

lemma run_pdf_bytes [preserving]: "preserves (db_run senv) (render_pdf_bytes env bs st)"
  unfolding render_pdf_bytes_def by (intro preserving)

lemma run_pdf_job [preserving]: "preserves (db_run senv) (render_pdf_job env jid d p)"
  unfolding render_pdf_job_def by (intro preserving)

lemma run_render_job [preserving]: "preserves (db_run senv) (render_job env jid job p)"
  unfolding render_job_def by (cases "document job") (auto intro!: preserving)

lemma run_prepare [preserving]: "preserves (db_run senv) (prepare_job env st job)"
  unfolding prepare_job_def by (intro preserving)

lemma run_stored_job [preserving]: "preserves (db_run (env_storage env)) (process_stored_job env st)"
  unfolding process_stored_job_def by (intro preserving)

lemma run_process_jobs [preserving]: "preserves (db_run (env_storage env)) (process_jobs env jobs)"
  by (induction jobs) (auto intro!: preserving)

lemma run_load_pending [preserving]: "preserves (db_run senv) (load_pending env)"
  unfolding load_pending_def by (intro preserving)

lemma run_process_pending [preserving]: "preserves (db_run (env_storage env)) (process_pending env)"
  unfolding process_pending_def by (intro preserving)

lemma preserves_handle [preserving]:
  "preserves (db_run senv) (emodify (\<lambda>s. s\<lparr>proc_handle := f s\<rparr>))"
  by (simp add: preserves_def emodify_def db_run_def)

lemma run_recover [preserving]: "preserves (db_run (env_storage env)) (processor_recover env)"
  unfolding processor_recover_def by (intro preserving) (rule step_recover)

lemma run_recover_and_process [preserving]: "preserves (db_run (env_storage env)) (recover_and_process env)"
  unfolding recover_and_process_def by (intro preserving)

lemma run_receipts_for [preserving]: "preserves (db_run senv) (receipts_for env jobs)"
  by (induction jobs) (auto intro!: preserving)

lemma run_pending_receipts [preserving]: "preserves (db_run senv) (pending_receipts env)"
  unfolding pending_receipts_def by (intro preserving)

end
