(* ===== verification/Processor_Durability.thy ===== *)
theory Processor_Durability
  imports Processor_Laws
begin

text \<open>
  What an answer of the job processor stands for: an outcome is returned only when the state and the
  report it names are in the repository, an acknowledgement only when the delivered job has a row.
\<close>

section \<open>Effects that leave the repository alone\<close>

definition same_store :: "Proc \<Rightarrow> Proc \<Rightarrow> bool" where
  "same_store s s' \<longleftrightarrow> proc_db s' = proc_db s \<and> proc_active s' = proc_active s"

lemma same_store_reflp [preserving]: "reflp same_store"
  by (simp add: reflp_def same_store_def)

lemma same_store_transp [preserving]: "transp same_store"
  by (auto simp: transp_def same_store_def)

lemma quiet_reading [preserving]: "preserves same_store (reading f)"
  by (simp add: preserves_def reading_def tick_def same_store_def)

lemma quiet_publish [preserving]: "preserves same_store (publish e)"
  by (simp add: preserves_def publish_def emodify_def same_store_def)

lemma quiet_refresh [preserving]: "preserves same_store (refresh_pending env)"
  by (auto simp: preserves_def refresh_pending_def emodify_def same_store_def split: sum.splits)

lemma quiet_agent_message [preserving]: "preserves same_store (agent_message env c k)"
  unfolding agent_message_def Let_def by (intro preserving)

lemma quiet_received_message [preserving]: "preserves same_store (received_message env job c t)"
  unfolding received_message_def by (intro preserving)

lemma quiet_submitted_message [preserving]: "preserves same_store (submitted_message env job c t)"
  unfolding submitted_message_def by (intro preserving)

lemma quiet_failed_message [preserving]: "preserves same_store (failed_message env job c t f)"
  unfolding failed_message_def by (intro preserving)

lemma quiet_outbound_status [preserving]: "preserves same_store (outbound_status env jid m)"
  unfolding outbound_status_def by (intro preserving)

lemma quiet_resolve [preserving]: "preserves same_store (resolve_enabled_printer env pid)"
  unfolding resolve_enabled_printer_def by (intro preserving)

lemma quiet_pdf_bytes [preserving]: "preserves same_store (render_pdf_bytes env bs st)"
  unfolding render_pdf_bytes_def by (intro preserving)

lemma quiet_pdf_job [preserving]: "preserves same_store (render_pdf_job env jid d p)"
  unfolding render_pdf_job_def by (intro preserving)

lemma quiet_render_job [preserving]: "preserves same_store (render_job env jid job p)"
  unfolding render_job_def by (cases "document job") (auto intro!: preserving)

lemma quiet_prepare [preserving]: "preserves same_store (prepare_job env st job)"
  unfolding prepare_job_def by (intro preserving)

lemma quietD: "preserves same_store m \<Longrightarrow> m s = (r, s') \<Longrightarrow> proc_db s' = proc_db s \<and> proc_active s' = proc_active s"
  using preserves_snd [of same_store m s r s'] by (simp add: same_store_def)

lemma store_op_Ok:
  "store_op env operation s = (Ok a, s') \<longleftrightarrow>
     (\<exists>db. operation (env_clock env (proc_tick s)) (proc_db s) = Ok (a, db) \<and>
        s' = (tick s)\<lparr>proc_db := db\<rparr>)"
  by (auto simp: store_op_def split: sum.splits)

lemma store_op_Err:
  "store_op env operation s = (Err e, s') \<longleftrightarrow>
     operation (env_clock env (proc_tick s)) (proc_db s) = Err e \<and> s' = tick s"
  by (auto simp: store_op_def split: sum.splits)

lemma tick_simps [simp]:
  "proc_db (tick s) = proc_db s" "proc_active (tick s) = proc_active s" "proc_handle (tick s) = proc_handle s"
  by (simp_all add: tick_def)

text \<open>A message that is produced is valid, and says what it was asked to say.\<close>

lemma agent_message_Ok:
  assumes "agent_message env c k s = (Ok m, s')"
  shows "am_kind m = k" "am_correlation_id m = Some c" "AgentMessage_validate m = Ok ()"
    "proc_db s' = proc_db s" "proc_active s' = proc_active s"
  using assms quietD [OF quiet_agent_message assms]
  by (auto simp: agent_message_def ebind_Ok Let_def)

lemma outbound_status_Ok:
  assumes "outbound_status env jid m s = (Ok st, s')"
  shows "os_message_id st = am_message_id m" "os_job_id st = jid"
    "env_message_value env m = Some (os_payload st)" "proc_db s' = proc_db s" "proc_active s' = proc_active s"
  using assms quietD [OF quiet_outbound_status assms] ok_or_Ok [THEN iffD1, OF sym]
  by (auto simp: outbound_status_def ebind_Ok)

section \<open>Outcomes are durable\<close>

text \<open>The report of a job is in the outbox, with the payload that will be replayed.\<close>

definition reported :: "('v, 'doc) penv \<Rightarrow> SqliteStorage \<Rightarrow> PrintJobId \<Rightarrow> AgentMessage \<Rightarrow> bool" where
  "reported env db jid m \<longleftrightarrow> (\<exists>ob \<in> set (outbox db). out_message_id ob = am_message_id m \<and>
     out_job_id ob = jid \<and>
     (\<exists>v. env_message_value env m = Some v \<and> json_text (env_storage env) v = Some (out_payload_json ob)))"

lemma status_reported:
  assumes "transition jid q rc e (Some ob) clock db = Ok (u, db')" "ids_ok db"
    "prepare_outbound_status (env_storage env) jid st = Ok ob"
    "os_message_id st = am_message_id m" "env_message_value env m = Some (os_payload st)"
  shows "state_of db' jid = Some q \<and> reported env db' jid m"
proof
  show "state_of db' jid = Some q" by (rule transition_states(2) [OF assms(1,2)])
  have "out_job_id ob = jid" by (rule prepare_outbound_status_Ok(1) [OF assms(3)])
  then have "ob \<in> set (outbox db')" by (rule transition_outbox [OF assms(1)])
  then show "reported env db' jid m"
    using prepare_outbound_status_Ok [OF assms(3)] assms(4,5) unfolding reported_def by auto
qed

definition outcome_durable ::
  "('v, 'doc) penv \<Rightarrow> PrintJobId \<Rightarrow> SqliteStorage \<Rightarrow> ProcessOutcome \<Rightarrow> bool" where
  "outcome_durable env jid db out = (case out of
     OutcomeSubmitted j m \<Rightarrow> j = jid \<and> state_of db jid = Some Submitted \<and> reported env db jid m
   | OutcomeFailed j (Some m) \<Rightarrow> j = jid \<and> state_of db jid = Some Failed \<and> reported env db jid m
   | OutcomeFailed j None \<Rightarrow> j = jid \<and> state_of db jid = Some Failed
   | OutcomeCancelled j \<Rightarrow> j = jid \<and> state_of db jid = Some Cancelled
   | OutcomeSkipped j st \<Rightarrow> j = jid \<and> state_of db jid = Some st \<and> st \<noteq> Received)"

lemma publish_Ok [simp]:
  "publish e s = (r, s') \<longleftrightarrow> r = Ok () \<and> s' = s\<lparr>proc_handle := publish_job_event e (proc_handle s)\<rparr>"
  by (auto simp: publish_def)

lemma reading_Ok [simp]: "reading f s = (r, s') \<longleftrightarrow> r = Ok (f (proc_tick s)) \<and> s' = tick s"
  by (auto simp: reading_def)

lemma persist_failure_Ok:
  assumes "persist_failure env st job f s = (Ok out, s')"
  obtains t m s2 ob s3 s4 where
    "failed_message env job (sj_source_message_id st) t (recovery_aware_failure st f) (tick s) = (Ok m, s2)"
    "outbound_status env (sj_id st) m s2 = (Ok ob, s3)"
    "store_op env (\<lambda>now db. mark_failed_with_status (env_storage env) (sj_id st)
        (failure_stored (recovery_aware_failure st f) t) ob now db) s3 = (Ok (), s4)"
    "out = OutcomeFailed (sj_id st) (Some m)" "proc_db s' = proc_db s4"
  using assms unfolding persist_failure_def Let_def ebind_Ok emap_err_Ok reading_Ok publish_Ok eret_eq
  by (elim exE conjE) simp

lemma persist_failure_durable:
  assumes "persist_failure env st job f s = (Ok out, s')" "ids_ok (proc_db s)"
  shows "outcome_durable env (sj_id st) (proc_db s') out"
proof -
  obtain t m s2 ob s3 s4 where
    m: "failed_message env job (sj_source_message_id st) t (recovery_aware_failure st f) (tick s) = (Ok m, s2)"
    and ob: "outbound_status env (sj_id st) m s2 = (Ok ob, s3)"
    and db: "store_op env (\<lambda>now db. mark_failed_with_status (env_storage env) (sj_id st)
        (failure_stored (recovery_aware_failure st f) t) ob now db) s3 = (Ok (), s4)"
    and out: "out = OutcomeFailed (sj_id st) (Some m)" "proc_db s' = proc_db s4"
    using persist_failure_Ok [OF assms(1)] by metis
  have ids: "ids_ok (proc_db s3)"
    using quietD [OF quiet_failed_message m] outbound_status_Ok(4) [OF ob] assms(2) by simp
  from db obtain row where row: "prepare_outbound_status (env_storage env) (sj_id st) ob = Ok row"
    and t: "transition (sj_id st) Failed None (Some (failure_stored (recovery_aware_failure st f) t)) (Some row)
      (env_clock env (proc_tick s3)) (proc_db s3) = Ok ((), proc_db s4)"
    by (auto simp: store_op_Ok mark_failed_with_status_def and_then_Ok)
  show ?thesis
    using status_reported [OF t ids row outbound_status_Ok(1,3) [OF ob]] out
    by (simp add: outcome_durable_def)
qed


lemma persist_unreportable_durable:
  assumes "persist_unreportable_failure env st f s = (Ok out, s')" "ids_ok (proc_db s)"
  shows "outcome_durable env (sj_id st) (proc_db s') out"
proof -
  obtain t s2 where
    db: "store_op env (\<lambda>now db. mark_failed (sj_id st) (failure_stored (recovery_aware_failure st f) t) now db)
      (tick s) = (Ok (), s2)"
    and out: "out = OutcomeFailed (sj_id st) None" "proc_db s' = proc_db s2"
    using assms(1)
    unfolding persist_unreportable_failure_def Let_def ebind_Ok emap_err_Ok reading_Ok publish_Ok eret_eq
    by (elim exE conjE) simp
  then have "job_transition (proc_db s) (proc_db s2) (sj_id st) Failed"
    using mark_transitions(3) by (fastforce simp: store_op_Ok)
  then show ?thesis
    using job_transition_states(2) assms(2) out by (auto simp: outcome_durable_def)
qed

lemma set_active_Ok [simp]:
  "set_active jid f s = (r, s') \<longleftrightarrow> r = Ok () \<and> s' = s\<lparr>proc_active := (proc_active s)(jid := f)\<rparr>"
  by (auto simp: set_active_def)

lemma submit_conclude_durable:
  assumes "submit_conclude env st job submission s = (Ok out, s')" "ids_ok (proc_db s)"
  shows "outcome_durable env (sj_id st) (proc_db s') out"
proof (cases submission)
  case (Inr receipt)
  obtain m s1 ob s2 s3 where
    m: "submitted_message env job (sj_source_message_id st) (sr_accepted_at receipt) s = (Ok m, s1)"
    and ob: "outbound_status env (sj_id st) m s1 = (Ok ob, s2)"
    and db: "store_op env (\<lambda>now db. mark_submitted_with_status (env_storage env) (sj_id st) receipt ob now db) s2
      = (Ok (), s3)"
    and out: "out = OutcomeSubmitted (sj_id st) m" "proc_db s' = proc_db s3"
    using assms(1) unfolding submit_conclude_def Inr sum.case ebind_Ok emap_err_Ok publish_Ok eret_eq
    by (elim exE conjE) simp
  have ids: "ids_ok (proc_db s2)"
    using quietD [OF quiet_submitted_message m] outbound_status_Ok(4) [OF ob] assms(2) by simp
  from db obtain row where row: "prepare_outbound_status (env_storage env) (sj_id st) ob = Ok row"
    and t: "transition (sj_id st) Submitted (Some receipt) None (Some row)
      (env_clock env (proc_tick s2)) (proc_db s2) = Ok ((), proc_db s3)"
    by (auto simp: store_op_Ok mark_submitted_with_status_def and_then_Ok)
  show ?thesis
    using status_reported [OF t ids row outbound_status_Ok(1,3) [OF ob]] out
    by (simp add: outcome_durable_def)
next
  case (Inl e)
  show ?thesis
  proof (cases "proc_active s (sj_id st) = Some True \<or> e = SpoolerCancelled")
    case True
    obtain s1 where db: "store_op env (mark_cancelled (sj_id st)) s = (Ok (), s1)"
      and out: "out = OutcomeCancelled (sj_id st)" "proc_db s' = proc_db s1"
      using assms(1) True unfolding submit_conclude_def Inl sum.case ebind_Ok egets_eq
      by (auto simp: ebind_Ok)
    then have "job_transition (proc_db s) (proc_db s1) (sj_id st) Cancelled"
      using mark_transitions(4) by (fastforce simp: store_op_Ok)
    then show ?thesis
      using job_transition_states(2) assms(2) out by (auto simp: outcome_durable_def)
  next
    case False
    then have "persist_failure env st job (spooler_failure env e) s = (Ok out, s')"
      using assms(1) unfolding submit_conclude_def Inl by (auto simp: ebind_Ok)
    then show ?thesis using persist_failure_durable assms(2) by blast
  qed
qed

lemma submit_finish_durable:
  assumes "submit_finish env st job submission s = (Ok out, s')" "ids_ok (proc_db s)"
  shows "outcome_durable env (sj_id st) (proc_db s') out"
proof -
  obtain s1 where "submit_conclude env st job submission s = (Ok out, s1)" "proc_db s' = proc_db s1"
    using assms(1) by (auto simp: submit_finish_def ecase_eq ebind_Ok)
  then show ?thesis using submit_conclude_durable assms(2) by fastforce
qed

lemma claim_result:
  assumes "submit_claim env jid s = (Ok claimed, s')" "ids_ok (proc_db s)"
  shows "case claimed of
      None \<Rightarrow> state_of (proc_db s) jid = Some Received \<and> state_of (proc_db s') jid = Some Submitting \<and>
        proc_active s' = (proc_active s)(jid \<mapsto> False)
    | Some st \<Rightarrow> state_of (proc_db s') jid = Some st \<and> st \<noteq> Received \<and> proc_db s' = proc_db s \<and>
        proc_active s' = proc_active s"
proof -
  obtain r s1 where r: "store_op env (mark_submitting jid) s = (r, s1)" by (cases "store_op env (mark_submitting jid) s")
  show ?thesis
  proof (cases r)
    case (Inr u)
    then have jt: "job_transition (proc_db s) (proc_db s1) jid Submitting"
      using r mark_transitions(1) by (fastforce simp: store_op_Ok)
    have "state_of (proc_db s) jid = Some Received" "state_of (proc_db s1) jid = Some Submitting"
      using job_transition_states(1,2) [OF jt assms(2)] by auto
    moreover have "proc_active s1 = proc_active s" using r Inr by (auto simp: store_op_Ok)
    ultimately show ?thesis
      using assms(1) r Inr by (auto simp: submit_claim_def ecase_eq ebind_Ok)
  next
    case (Inl e)
    then have err: "transition jid Submitting None None None (env_clock env (proc_tick s)) (proc_db s) = Err e"
      and s1: "s1 = tick s"
      using r by (auto simp: store_op_Err mark_submitting_def)
    obtain x c y where e: "e = InvalidTransition x c y" and out: "claimed = Some c" "s' = s1"
      using assms(1) r Inl by (auto simp: submit_claim_def ecase_eq split: StorageError.splits)
    have "now_millis t \<noteq> Err (InvalidTransition x c y)" for t
      by (auto simp: now_millis_def and_then_Err)
    then have "state_of (proc_db s) jid = Some c \<and> c \<noteq> Received"
      using err unfolding e
      by (auto simp: transition_def and_then_Err Let_def state_of_def insert_status_def)
    then show ?thesis using out s1 by simp
  qed
qed


lemma run_storage_ok:
  assumes "db_run senv s s'" "storage_ok (proc_db s)"
  shows "storage_ok (proc_db s')"
  using assms storage.good_run unfolding db_run_def by blast

lemma storage_ok_ids: "storage_ok db \<Longrightarrow> ids_ok db"
  by (simp add: storage_ok_def)

lemma process_stored_job_durable:
  assumes "process_stored_job env st s = (Ok out, s')" "storage_ok (proc_db s)"
  shows "outcome_durable env (sj_id st) (proc_db s') out"
proof (cases "env_from_value env (sj_payload st)")
  case (Inl e)
  then have "persist_unreportable_failure env st (JobFailure_new (lit ''job.invalid_persisted'') e False) s = (Ok out, s')"
    using assms(1) by (simp add: process_stored_job_def)
  then show ?thesis using persist_unreportable_durable storage_ok_ids [OF assms(2)] by blast
next
  case (Inr job)
  obtain r s1 where prep: "prepare_job env st job s = (r, s1)" by (cases "prepare_job env st job s")
  have db1: "proc_db s1 = proc_db s" using quietD [OF quiet_prepare prep] by simp
  show ?thesis
  proof (cases r)
    case (Inl failure)
    then have "persist_failure env st job failure s1 = (Ok out, s')"
      using assms(1) prep \<open>env_from_value env (sj_payload st) = Ok job\<close>
      by (auto simp: process_stored_job_def ecase_eq)
    then show ?thesis using persist_failure_durable assms(2) db1 storage_ok_ids by fastforce
  next
    case (Inr pr)
    obtain printer rendered where pr: "pr = (printer, rendered)" by (cases pr)
    have submit: "submit env st job printer rendered s1 = (Ok out, s')"
      using assms(1) prep Inr pr \<open>env_from_value env (sj_payload st) = Ok job\<close>
      by (auto simp: process_stored_job_def ecase_eq)
    then obtain claimed s2 where claim: "submit_claim env (sj_id st) s1 = (Ok claimed, s2)"
      and rest: "(case claimed of Some current \<Rightarrow> eret (OutcomeSkipped (sj_id st) current)
        | None \<Rightarrow> ebind (submit_spool env (sj_id st) printer rendered) (\<lambda>submission.
            submit_finish env st job submission)) s2 = (Ok out, s')"
      unfolding submit_def ebind_Ok by blast
    show ?thesis
    proof (cases claimed)
      case (Some current)
      then show ?thesis
        using rest claim_result [OF claim] assms(2) db1 storage_ok_ids by (auto simp: outcome_durable_def)
    next
      case None
      then obtain submission s3 where spool: "submit_spool env (sj_id st) printer rendered s2 = (Ok submission, s3)"
        and fin: "submit_finish env st job submission s3 = (Ok out, s')"
        using rest by (auto simp: ebind_Ok)
      have "storage_ok (proc_db s2)"
        using run_storage_ok [OF preserves_snd [OF run_claim claim]] assms(2) db1 by simp
      then have "storage_ok (proc_db s3)"
        using run_storage_ok [OF preserves_snd [OF run_spool spool]] by blast
      then show ?thesis using submit_finish_durable [OF fin] storage_ok_ids by blast
    qed
  qed
qed

section \<open>Receipts are durable\<close>

lemma print_job_identifiers:
  assumes "PrintJob_validate job = Ok ()"
  shows "new_identifier (job_id job) = Ok (job_id job)" "new_identifier (printer_id job) = Ok (printer_id job)"
  using PrintJob_validate_Ok(1,2) [OF assms] identifier_shape_local
  by (auto simp: new_identifier_Ok)

lemma quiet_receive_result [preserving]: "preserves same_store (receive_result env src job jid t result)"
  unfolding receive_result_def by (intro preserving)

lemma receive_insert_Ok:
  assumes "receive_insert env src job jid pid s = (Ok out, s')"
  obtains payload result s1 where "env_to_value env job = Some payload"
    "insert_received (env_storage env) \<lparr>rj_id = jid, rj_idempotency_key = idempotency_key job,
       rj_printer_id = pid, rj_payload = payload, rj_source_message_id = src,
       rj_received_at = env_clock env (proc_tick s)\<rparr> (proc_db s) = Ok (result, proc_db s')"
    "receive_result env src job jid (env_clock env (proc_tick s)) result s1 = (Ok out, s')"
proof -
  let ?rj = "\<lambda>p. \<lparr>rj_id = jid, rj_idempotency_key = idempotency_key job,
       rj_printer_id = pid, rj_payload = p, rj_source_message_id = src,
       rj_received_at = env_clock env (proc_tick s)\<rparr>"
  obtain payload result s1 where p: "env_to_value env job = Some payload"
    and ins: "store_op env (\<lambda>_. insert_received (env_storage env) (?rj payload)) (tick s) = (Ok result, s1)"
    and rest: "receive_result env src job jid (env_clock env (proc_tick s)) result s1 = (Ok out, s')"
    using assms unfolding receive_insert_def ebind_Ok emap_err_Ok elift_eq reading_Ok by auto
  have "proc_db s' = proc_db s1" using quietD [OF quiet_receive_result rest] by simp
  then have "insert_received (env_storage env) (?rj payload) (proc_db s) = Ok (result, proc_db s')"
    using ins by (auto simp: store_op_Ok)
  then show thesis by (rule that [OF p _ rest])
qed

text \<open>Past validation, the receipt is the insertion under the identifiers of the job itself.\<close>

lemma receive_print_job_accepted:
  assumes "receive_print_job env m s = (r, s')" "\<And>e. r \<noteq> Err (ProtocolInvalid e)" "r \<noteq> Err ExpectedPrintJob"
  obtains job where "sm_kind m = ServerPrintJobMsg job" "PrintJob_validate job = Ok ()"
    "receive_insert env (sm_message_id m) job (job_id job) (printer_id job) s = (r, s')"
proof -
  have mv: "ServerMessage_validate m = Ok ()"
    using assms(1,2) by (cases "ServerMessage_validate m") (auto simp: receive_print_job_def ebind_def emap_err_def elift_def)
  obtain job where kind: "sm_kind m = ServerPrintJobMsg job"
    using assms(1,3) mv by (cases "sm_kind m") (auto simp: receive_print_job_def ebind_def emap_err_def elift_def)
  have jv: "PrintJob_validate job = Ok ()"
    using assms(1,2) mv kind
    by (cases "PrintJob_validate job") (auto simp: receive_print_job_def ebind_def emap_err_def elift_def)
  have "receive_insert env (sm_message_id m) job (job_id job) (printer_id job) s = (r, s')"
    using assms(1) mv kind jv print_job_identifiers [OF jv]
    by (simp add: receive_print_job_def ebind_def emap_err_def elift_def)
  then show thesis by (rule that [OF kind jv])
qed

lemma receive_print_job_Ok:
  assumes "receive_print_job env m s = (Ok out, s')"
  obtains job payload result s1 where
    "sm_kind m = ServerPrintJobMsg job" "env_to_value env job = Some payload"
    "insert_received (env_storage env) \<lparr>rj_id = job_id job, rj_idempotency_key = idempotency_key job,
       rj_printer_id = printer_id job, rj_payload = payload, rj_source_message_id = sm_message_id m,
       rj_received_at = env_clock env (proc_tick s)\<rparr> (proc_db s) = Ok (result, proc_db s')"
    "receive_result env (sm_message_id m) job (job_id job) (env_clock env (proc_tick s)) result s1 = (Ok out, s')"
proof -
  obtain job where kind: "sm_kind m = ServerPrintJobMsg job"
    and ins: "receive_insert env (sm_message_id m) job (job_id job) (printer_id job) s = (Ok out, s')"
    by (rule receive_print_job_accepted [OF assms]) simp_all
  show thesis using receive_insert_Ok [OF ins] that [OF kind] by metis
qed

lemma received_message_Ok:
  assumes "received_message env job c t s = (Ok m, s')"
  shows "am_kind m = AgentJobReceivedMsg \<lparr>jr_job_id = job_id job, jr_idempotency_key = idempotency_key job,
    jr_status = StatusReceived, jr_received_at = env_rfc3339 env t\<rparr>"
    "am_correlation_id m = Some c" "AgentMessage_validate m = Ok ()"
  using agent_message_Ok [OF assms [unfolded received_message_def]] by simp_all

text \<open>What an acknowledgement stands for: the row of the delivered job.\<close>

definition job_durable :: "SqliteStorage \<Rightarrow> PrintJob \<Rightarrow> bool" where
  "job_durable db job \<longleftrightarrow> (\<exists>r. job_by_id db (job_id job) = Some r \<and> row_key r = idempotency_key job \<and>
     row_printer_id r = printer_id job)"

lemma insert_durable:
  assumes "insert_received senv rj db = Ok (res, db')" "res = Inserted \<or> res = DuplicateJob st"
    "rj_id rj = job_id job" "rj_idempotency_key rj = idempotency_key job" "rj_printer_id rj = printer_id job"
  shows "job_durable db' job"
  using assms(1)
proof (cases rule: insert_received_cases)
  case (inserted payload)
  then have "job_by_id db' (rj_id rj) = Some (received_row rj payload (digest senv payload))"
    by (simp add: job_by_id_def find_append)
  then show ?thesis using assms(3-5) by (simp add: job_durable_def)
qed (use assms in \<open>auto simp: job_durable_def\<close>)

lemma acknowledged_durable:
  assumes "receive_print_job env m s = (Ok out, s')" "acknowledgement out = Some a"
  shows "\<exists>job t. sm_kind m = ServerPrintJobMsg job \<and> job_durable (proc_db s') job \<and>
    am_kind a = AgentJobReceivedMsg \<lparr>jr_job_id = job_id job, jr_idempotency_key = idempotency_key job,
      jr_status = StatusReceived, jr_received_at = t\<rparr> \<and>
    am_correlation_id a = Some (sm_message_id m) \<and> AgentMessage_validate a = Ok ()"
proof -
  obtain job payload result s1 where kind: "sm_kind m = ServerPrintJobMsg job"
    and ins: "insert_received (env_storage env) \<lparr>rj_id = job_id job, rj_idempotency_key = idempotency_key job,
       rj_printer_id = printer_id job, rj_payload = payload, rj_source_message_id = sm_message_id m,
       rj_received_at = env_clock env (proc_tick s)\<rparr> (proc_db s) = Ok (result, proc_db s')"
    and res: "receive_result env (sm_message_id m) job (job_id job) (env_clock env (proc_tick s)) result s1 = (Ok out, s')"
    using receive_print_job_Ok [OF assms(1)] by metis
  obtain t t0 t1 where msg: "received_message env job (sm_message_id m) t t0 = (Ok a, t1)"
      "result = Inserted \<or> (\<exists>st. result = DuplicateJob st)"
    using res assms(2) by (cases result) (auto simp: receive_result_def ebind_Ok)
  have "job_durable (proc_db s') job"
    using msg(2) insert_durable [OF ins] by auto
  then show ?thesis using kind received_message_Ok [OF msg(1)] by blast
qed

lemma receive_result_error: "fst (receive_result env src job jid t result s) \<noteq> Err (IdentifierInvalid e)"
proof
  assume "fst (receive_result env src job jid t result s) = Err (IdentifierInvalid e)"
  then obtain s' where "receive_result env src job jid t result s = (Err (IdentifierInvalid e), s')"
    by (metis prod.collapse)
  then show False
    by (cases result) (auto simp: receive_result_def ebind_Err refresh_pending_def)
qed

lemma receive_no_identifier_error: "fst (receive_print_job env m s) \<noteq> Err (IdentifierInvalid e)"
proof
  assume "fst (receive_print_job env m s) = Err (IdentifierInvalid e)"
  then obtain s' where err: "receive_print_job env m s = (Err (IdentifierInvalid e), s')"
    by (metis prod.collapse)
  obtain job where ins:
    "receive_insert env (sm_message_id m) job (job_id job) (printer_id job) s = (Err (IdentifierInvalid e), s')"
    by (rule receive_print_job_accepted [OF err]) simp_all
  show False
    using ins receive_result_error [of env "sm_message_id m" job "job_id job"]
    unfolding receive_insert_def ebind_Err emap_err_Err reading_Ok elift_eq
    by (cases "env_to_value env job") (auto, metis fst_conv)
qed

section \<open>Failures are well formed\<close>

definition fails_with :: "('e \<Rightarrow> bool) \<Rightarrow> ('s, 'e, 'a) eff \<Rightarrow> bool" where
  "fails_with P m \<longleftrightarrow> (\<forall>s e s'. m s = (Err e, s') \<longrightarrow> P e)"

named_theorems failing \<open>effects whose errors satisfy a predicate\<close>

lemma fails_ret [failing]: "fails_with P (eret a)"
  by (simp add: fails_with_def)

lemma fails_lift [failing]: "(\<And>e. r = Err e \<Longrightarrow> P e) \<Longrightarrow> fails_with P (elift r)"
  by (simp add: fails_with_def)

lemma fails_bind [failing]:
  "fails_with P m \<Longrightarrow> (\<And>a. fails_with P (f a)) \<Longrightarrow> fails_with P (ebind m f)"
  unfolding fails_with_def ebind_Err by blast

lemma fails_reading [failing]: "fails_with P (reading f)"
  by (auto simp: fails_with_def reading_def)

definition failure_ok :: "JobFailure \<Rightarrow> bool" where
  "failure_ok f \<longleftrightarrow> identifier_shape 64 (fail_code f) \<and> diagnostic_ok (fail_message f)"

lemma failure_new_ok: "failure_ok (JobFailure_new code m r) \<longleftrightarrow> identifier_shape 64 code"
  by (simp add: failure_ok_def JobFailure_new_def sanitize_message_ok)

lemmas identifier_eval = identifier_shape_def lit_def utf16_len_def is_ascii_alnum_def is_identifier_char_def
  is_ascii_digit_def is_ascii_lower_def is_ascii_upper_def

lemma failure_codes [simp]:
  "identifier_shape 64 (lit ''render.failed'')"
  "identifier_shape 64 (lit ''spooler.failed'')"
  "identifier_shape 64 (lit ''job.recovery_uncertain'')"
  "identifier_shape 64 (lit ''job.invalid_persisted'')"
  "identifier_shape 64 (lit ''job.storage_mismatch'')"
  "identifier_shape 64 (lit ''document.option_unsupported'')"
  "identifier_shape 64 (lit ''printer.submission_mode_unsupported'')"
  "identifier_shape 64 (lit ''document.format_unsupported'')"
  "identifier_shape 64 (lit ''document.fetch_unavailable'')"
  "identifier_shape 64 (lit ''document.render_failed'')"
  "identifier_shape 64 (lit ''printer.resolve_failed'')"
  "identifier_shape 64 (lit ''printer.not_found'')"
  "identifier_shape 64 (lit ''printer.identity_mismatch'')"
  "identifier_shape 64 (lit ''printer.disabled'')"
  by (simp_all add: identifier_eval)

lemma pdf_failure_codes [simp]: "identifier_shape 64 (lit (fst (pdf_failure_class e)))"
  by (cases e) (simp_all add: identifier_eval)

lemma fetch_failure_codes [simp]: "identifier_shape 64 (fetch_error_code e)"
  by (cases e) (simp_all add: identifier_eval)

lemma recovery_failure_ok: "failure_ok f \<Longrightarrow> failure_ok (recovery_aware_failure st f)"
  by (simp add: recovery_aware_failure_def failure_new_ok)

lemma spooler_failure_ok: "failure_ok (spooler_failure env e)"
  by (cases e) (simp_all add: spooler_failure_def failure_new_ok)

lemma persisted_failure_ok: "validate_persisted_job st job = Err f \<Longrightarrow> failure_ok f"
  by (auto simp: validate_persisted_job_def and_then_Err reject_if_def failure_new_ok map_err_Err
      split: if_splits sum.splits)

lemma resolve_failure_ok [failing]: "fails_with failure_ok (resolve_enabled_printer env pid)"
  unfolding resolve_enabled_printer_def
  by (intro failing) (auto simp: failure_new_ok map_err_Err reject_if_def split: sum.splits if_splits)

lemma render_target_failure_ok: "printer_render_target p = Err f \<Longrightarrow> failure_ok f"
  by (auto simp: printer_render_target_def Let_def failure_new_ok
      split: PrinterConnection.splits SubmissionMode.splits PrinterLanguage.splits option.splits
        VirtualPrinterProfile.splits)

lemma pdf_route_failure_ok: "pdf_route p = Err f \<Longrightarrow> failure_ok f"
  by (auto simp: pdf_route_def failure_new_ok split: if_splits)

lemma render_receipt_failure_ok: "render_receipt env d p = Err f \<Longrightarrow> failure_ok f"
  using render_target_failure_ok
  by (auto simp: render_receipt_def and_then_Err map_err_Err renderer_failure_def failure_new_ok split: sum.splits)

lemma pdf_bytes_failure_ok [failing]: "fails_with failure_ok (render_pdf_bytes env bs st)"
  unfolding render_pdf_bytes_def
  by (intro failing) (auto simp: pdf_failure_def failure_new_ok map_err_Err fails_with_def split: option.splits)

lemma render_job_failure_ok [failing]: "fails_with failure_ok (render_job env jid job p)"
proof (cases "document job")
  case (ReceiptJob d)
  then show ?thesis
    using render_receipt_failure_ok [of env d p] by (simp add: render_job_def fails_with_def)
next
  case (PdfJob d)
  have "fails_with failure_ok (render_pdf_job env jid d p)"
    unfolding render_pdf_job_def
    by (intro failing) (auto simp: failure_new_ok pdf_route_failure_ok map_err_Err split: sum.splits)
  then show ?thesis by (simp add: render_job_def PdfJob)
qed

lemma prepare_failure_ok: "fails_with failure_ok (prepare_job env st job)"
  unfolding prepare_job_def by (intro failing) (simp add: persisted_failure_ok)

lemma diagnostic_message: "diagnostic_ok m \<Longrightarrow> 1 \<le> utf16_count m \<and> utf16_count m \<le> 1000 \<and> byte_len m \<le> 1000"
  using utf16_count_le_byte_len [of m]
  by (cases m) (auto simp: diagnostic_ok_def utf16_len_def)

text \<open>A well-formed failure can be stored and can be reported.\<close>

lemma failure_ok_storable:
  assumes "failure_ok f"
  shows "StoredJobError_validate (failure_stored f t) = Ok ()"
proof -
  have id: "valid_identifier (fail_code f)"
    using assms identifier_shape_local [of 64 "fail_code f"] by (simp add: failure_ok_def)
  have "byte_len (fail_code f) \<le> 64" using assms identifier_shape_bytes by (simp add: failure_ok_def)
  then have "validate_key x (fail_code f) 64 = Ok ()" for x
    using id by (auto simp: validate_key_def valid_identifier_def list_ex_iff)
  moreover have "trim (fail_message f) \<noteq> [] \<and> byte_len (fail_message f) \<le> 2000"
    using assms diagnostic_trim diagnostic_message [of "fail_message f"] by (simp add: failure_ok_def)
  ultimately show ?thesis
    by (simp add: StoredJobError_validate_def failure_stored_def first_err_Ok)
qed

lemma failure_ok_reportable:
  assumes "failure_ok f"
  shows "FailureDetail_validate \<lparr>fd_code = fail_code f, fd_message = fail_message f,
    fd_retryable = fail_retryable f\<rparr> = Ok ()"
  using assms diagnostic_message [of "fail_message f"]
  by (auto simp: FailureDetail_validate_def first_err_Ok wire_checks failure_ok_def identifier_shape_def)

section \<open>Where failures come from\<close>

text \<open>
  Every call that makes a failure of a job: the steps before the claim, the refusal of the backend, a
  persisted payload that is no job, and the two kinds of local tests.
\<close>

inductive processor_failure :: "('v, 'doc) penv \<Rightarrow> JobFailure \<Rightarrow> bool" for env where
  preparing: "prepare_job env st job s = (Err f, s') \<Longrightarrow> processor_failure env f"
| spooling: "processor_failure env (spooler_failure env e)"
| undecodable: "env_from_value env v = Err message \<Longrightarrow>
    processor_failure env (JobFailure_new (lit ''job.invalid_persisted'') message False)"
| testing: "submit_local_test env job s = (Err f, s') \<Longrightarrow> processor_failure env f"
| printing: "submit_local_pdf env jid pid bytes settings s = (Err f, s') \<Longrightarrow> processor_failure env f"

lemma local_failure_codes [simp]:
  "identifier_shape 64 (lit ''job.invalid'')"
  "identifier_shape 64 (lit ''job.invalid_identifier'')"
  "identifier_shape 64 (lit ''printer.invalid_identifier'')"
  "identifier_shape 64 (lit ''job.local_test_unsupported'')"
  by (simp_all add: identifier_eval)

lemma submit_rendered_failure_ok [failing]: "fails_with failure_ok (submit_rendered_local env jid printer rendered)"
  unfolding submit_rendered_local_def
  by (intro failing) (auto simp: map_err_Err spooler_failure_ok)

lemma local_test_failure_ok: "fails_with failure_ok (submit_local_test env job)"
proof (cases "document job")
  case (ReceiptJob d)
  show ?thesis unfolding submit_local_test_def ReceiptJob JobDocument.case
    by (intro failing) (auto simp: map_err_Err failure_new_ok render_receipt_failure_ok)
next
  case (PdfJob d)
  show ?thesis unfolding submit_local_test_def PdfJob JobDocument.case
    by (intro failing) (auto simp: map_err_Err failure_new_ok)
qed

lemma local_pdf_failure_ok: "fails_with failure_ok (submit_local_pdf env jid pid bytes settings)"
  unfolding submit_local_pdf_def by (intro failing) (simp add: pdf_route_failure_ok)

lemma processor_failure_ok: "processor_failure env f \<Longrightarrow> failure_ok f"
proof (induction rule: processor_failure.induct)
  case (preparing st job s f s')
  then show ?case using prepare_failure_ok unfolding fails_with_def by blast
next
  case (testing job s f s')
  then show ?case using local_test_failure_ok unfolding fails_with_def by blast
next
  case (printing jid pid bytes settings s f s')
  then show ?case using local_pdf_failure_ok unfolding fails_with_def by blast
qed (simp_all add: spooler_failure_ok failure_new_ok)

section \<open>The report of a recovered job\<close>

definition final_report :: "ProcessOutcome \<Rightarrow> bool" where
  "final_report out \<longleftrightarrow> (case out of
     OutcomeFailed _ (Some m) \<Rightarrow> (\<exists>r. am_kind m = AgentJobFailedMsg r \<and> \<not> fd_retryable (jf_error r))
   | _ \<Rightarrow> True)"

lemma persist_failure_final:
  assumes "persist_failure env st job f s = (Ok out, s')" "sj_recovery_count st \<noteq> 0"
  shows "final_report out"
proof -
  obtain t m s2 where m: "failed_message env job (sj_source_message_id st) t (recovery_aware_failure st f) (tick s) = (Ok m, s2)"
    and out: "out = OutcomeFailed (sj_id st) (Some m)"
    using persist_failure_Ok [OF assms(1)] by metis
  then show ?thesis using agent_message_Ok(1) [OF m [unfolded failed_message_def]] assms(2)
    by (simp add: final_report_def recovery_aware_failure_def JobFailure_new_def)
qed

lemma submit_conclude_final:
  assumes "submit_conclude env st job submission s = (Ok out, s')" "sj_recovery_count st \<noteq> 0"
  shows "final_report out"
proof (cases submission)
  case (Inr receipt)
  then show ?thesis using assms(1) by (auto simp: submit_conclude_def ebind_Ok final_report_def)
next
  case (Inl e)
  then show ?thesis using assms persist_failure_final [of env st job "spooler_failure env e"]
    by (auto simp: submit_conclude_def ebind_Ok final_report_def split: if_splits)
qed

lemma process_stored_job_final:
  assumes "process_stored_job env st s = (Ok out, s')" "sj_recovery_count st \<noteq> 0"
  shows "final_report out"
proof (cases "env_from_value env (sj_payload st)")
  case (Inl e)
  then show ?thesis using assms(1)
    by (auto simp: process_stored_job_def persist_unreportable_failure_def Let_def ebind_Ok final_report_def)
next
  case (Inr job)
  obtain r s1 where prep: "prepare_job env st job s = (r, s1)" by (cases "prepare_job env st job s")
  show ?thesis
  proof (cases r)
    case (Inl failure)
    then show ?thesis using assms prep \<open>env_from_value env (sj_payload st) = Ok job\<close> persist_failure_final
      by (fastforce simp: process_stored_job_def ecase_eq)
  next
    case (Inr pr)
    obtain printer rendered where "pr = (printer, rendered)" by (cases pr)
    then have "submit env st job printer rendered s1 = (Ok out, s')"
      using assms(1) prep Inr \<open>env_from_value env (sj_payload st) = Ok job\<close>
      by (auto simp: process_stored_job_def ecase_eq)
    then obtain claimed s2 where rest: "(case claimed of Some current \<Rightarrow> eret (OutcomeSkipped (sj_id st) current)
        | None \<Rightarrow> ebind (submit_spool env (sj_id st) printer rendered) (\<lambda>submission.
            submit_finish env st job submission)) s2 = (Ok out, s')"
      unfolding submit_def ebind_Ok by blast
    show ?thesis
    proof (cases claimed)
      case (Some current)
      then show ?thesis using rest by (auto simp: final_report_def)
    next
      case None
      then obtain submission s3 s4 where "submit_conclude env st job submission s3 = (Ok out, s4)"
        using rest by (auto simp: ebind_Ok submit_finish_def ecase_eq)
      then show ?thesis using submit_conclude_final assms(2) by blast
    qed
  qed
qed

end
