(* ===== verification/Processor_Cancellation.thy ===== *)
theory Processor_Cancellation
  imports Processor_Durability
begin

text \<open>
  The interleavings of the processor's atomic blocks: which parts of the state each block leaves
  alone, the invariant that ties cancellation tokens to claimed rows, what \<open>cancel_job\<close> answers, and
  what is left behind when the terminal write fails.
\<close>

section \<open>What an operation leaves alone\<close>

text \<open>
  Outside \<open>J\<close> a claimed job stays claimed, and outside \<open>A\<close> the cancellation tokens stay as they
  are.
\<close>

definition leaves :: "PrintJobId set \<Rightarrow> PrintJobId set \<Rightarrow> Proc \<Rightarrow> Proc \<Rightarrow> bool" where
  "leaves J A s s' \<longleftrightarrow>
     (\<forall>j. j \<notin> A \<longrightarrow> proc_active s' j = proc_active s j) \<and>
     (storage_ok (proc_db s) \<longrightarrow> storage_ok (proc_db s') \<and>
       (\<forall>j. j \<notin> J \<longrightarrow> state_of (proc_db s) j = Some Submitting \<longrightarrow>
          state_of (proc_db s') j = Some Submitting))"

lemma leaves_reflp [preserving]: "reflp (leaves J A)"
  by (simp add: reflp_def leaves_def)

lemma leaves_transp [preserving]: "transp (leaves J A)"
  by (auto simp: transp_def leaves_def)

lemma leaves_quiet: "preserves same_store m \<Longrightarrow> preserves (leaves J A) m"
  unfolding preserves_def same_store_def leaves_def by simp

lemmas leaves_quiet_ops [preserving] = quiet_reading [THEN leaves_quiet] quiet_publish [THEN leaves_quiet]
  quiet_refresh [THEN leaves_quiet] quiet_submitted_message [THEN leaves_quiet]
  quiet_failed_message [THEN leaves_quiet] quiet_outbound_status [THEN leaves_quiet]
  quiet_receive_result [THEN leaves_quiet]

lemma leaves_set_active [preserving]: "jid \<in> A \<Longrightarrow> preserves (leaves J A) (set_active jid f)"
  by (auto simp: preserves_def set_active_def emodify_def leaves_def)

lemma leaves_store_op [preserving]:
  assumes "\<And>now db a db'. operation now db = Ok (a, db') \<Longrightarrow> storage_ok db \<Longrightarrow>
    storage_ok db' \<and> (\<forall>j. j \<notin> J \<longrightarrow> state_of db j = Some Submitting \<longrightarrow> state_of db' j = Some Submitting)"
  shows "preserves (leaves J A) (store_op env operation)"
  unfolding preserves_def
proof
  fix s
  show "leaves J A s (snd (store_op env operation s))"
    using assms [of "env_clock env (proc_tick s)" "proc_db s"]
    by (auto simp: store_op_def leaves_def split: sum.splits)
qed

lemma step_claims:
  assumes "storage_step senv db db'" "storage_ok db"
    and "job_transition db db' jid q \<or> (\<forall>j s. state_of db j = Some s \<longrightarrow> state_of db' j = Some s)"
  shows "storage_ok db' \<and> (\<forall>j. j \<notin> {jid} \<longrightarrow> state_of db j = Some Submitting \<longrightarrow> state_of db' j = Some Submitting)"
  using storage_step_ok [OF assms(1,2)] assms(3) job_transition_states(3) storage_ok_ids [OF assms(2)]
  by fastforce

lemma insert_claims:
  assumes "insert_received senv rj db = Ok (a, db')" "storage_ok db"
  shows "storage_ok db' \<and> (\<forall>j. j \<notin> {} \<longrightarrow> state_of db j = Some Submitting \<longrightarrow> state_of db' j = Some Submitting)"
  using storage_step_ok [OF step_insert [OF assms(1)] assms(2)] insert_received_state [OF assms(1)] by blast

lemma leaves_receive [preserving]: "preserves (leaves {} {}) (receive_print_job env m)"
proof -
  have "preserves (leaves {} {}) (receive_insert env src job jid pid)" for src job jid pid
    unfolding receive_insert_def by (intro preserving) (erule (1) insert_claims)
  then show ?thesis
    unfolding receive_print_job_def by (cases "sm_kind m") (auto intro!: preserving)
qed

lemma mark_claims:
  "mark_cancelled jid now db = Ok (u, db') \<Longrightarrow> storage_ok db \<Longrightarrow> storage_ok db' \<and>
    (\<forall>j. j \<notin> {jid} \<longrightarrow> state_of db j = Some Submitting \<longrightarrow> state_of db' j = Some Submitting)"
  "mark_submitting jid now db = Ok (u, db') \<Longrightarrow> storage_ok db \<Longrightarrow> storage_ok db' \<and>
    (\<forall>j. j \<notin> {jid} \<longrightarrow> state_of db j = Some Submitting \<longrightarrow> state_of db' j = Some Submitting)"
  "mark_failed jid err now db = Ok (u, db') \<Longrightarrow> storage_ok db \<Longrightarrow> storage_ok db' \<and>
    (\<forall>j. j \<notin> {jid} \<longrightarrow> state_of db j = Some Submitting \<longrightarrow> state_of db' j = Some Submitting)"
  "mark_failed_with_status senv jid err ob now db = Ok (u, db') \<Longrightarrow> storage_ok db \<Longrightarrow> storage_ok db' \<and>
    (\<forall>j. j \<notin> {jid} \<longrightarrow> state_of db j = Some Submitting \<longrightarrow> state_of db' j = Some Submitting)"
  "mark_submitted_with_status senv jid rc ob now db = Ok (u, db') \<Longrightarrow> storage_ok db \<Longrightarrow> storage_ok db' \<and>
    (\<forall>j. j \<notin> {jid} \<longrightarrow> state_of db j = Some Submitting \<longrightarrow> state_of db' j = Some Submitting)"
  by (rule step_claims [OF step_cancelled], assumption+, blast intro: mark_transitions,
      rule step_claims [OF step_submitting], assumption+, blast intro: mark_transitions,
      rule step_claims [OF step_failed], assumption+, blast intro: mark_transitions,
      rule step_claims [OF step_failed_status], assumption+, blast intro: mark_status_transitions,
      rule step_claims [OF step_submitted_status], assumption+, blast intro: mark_status_transitions)

lemma leaves_cancel_queued [preserving]: "preserves (leaves {jid} A) (cancel_queued env jid)"
  unfolding cancel_queued_def
  by (intro preserving) (erule (1) mark_claims(1), auto intro!: preserving split: StorageError.splits)

lemma leaves_claim [preserving]: "preserves (leaves {jid} {jid}) (submit_claim env jid)"
  unfolding submit_claim_def
  by (intro preserving) (erule (1) mark_claims(2), auto intro!: preserving split: StorageError.splits)

lemma leaves_persist_failure [preserving]:
  "preserves (leaves {sj_id st} A) (persist_failure env st job f)"
  unfolding persist_failure_def Let_def by (intro preserving) (erule (1) mark_claims(4))

lemma leaves_persist_unreportable [preserving]:
  "preserves (leaves {sj_id st} A) (persist_unreportable_failure env st f)"
  unfolding persist_unreportable_failure_def Let_def by (intro preserving) (erule (1) mark_claims(3))

lemma leaves_conclude [preserving]:
  "preserves (leaves {sj_id st} A) (submit_conclude env st job submission)"
  unfolding submit_conclude_def
  by (intro preserving) (erule (1) mark_claims(1), erule (1) mark_claims(5))

lemma leaves_finish [preserving]:
  "preserves (leaves {sj_id st} {sj_id st}) (submit_finish env st job submission)"
  unfolding submit_finish_def by (intro preserving) simp


section \<open>The interleavings\<close>

text \<open>
  The atomic blocks of the processor, in any order the locks allow. Receiving and cancelling may
  happen at any time. Claiming, failing before the claim and recovering happen under the drain lock,
  which is held until the token of the claimed job is removed, so no token is registered then. The
  terminal write of a claim happens while its token is registered. Acknowledging a report and the
  other repository calls of the host do not involve the tokens.
\<close>

inductive proc_step :: "('v, 'doc) penv \<Rightarrow> Proc \<Rightarrow> Proc \<Rightarrow> bool" for env where
  proc_receive: "receive_print_job env m s = (r, s') \<Longrightarrow> proc_step env s s'"
| proc_cancel: "cancel_job env raw s = (r, s') \<Longrightarrow> proc_step env s s'"
| proc_claim: "proc_active s = Map.empty \<Longrightarrow> submit_claim env jid s = (r, s') \<Longrightarrow> proc_step env s s'"
| proc_fail: "proc_active s = Map.empty \<Longrightarrow> persist_failure env st job f s = (r, s') \<Longrightarrow> proc_step env s s'"
| proc_fail_unreportable:
    "proc_active s = Map.empty \<Longrightarrow> persist_unreportable_failure env st f s = (r, s') \<Longrightarrow> proc_step env s s'"
| proc_recover: "proc_active s = Map.empty \<Longrightarrow> processor_recover env s = (r, s') \<Longrightarrow> proc_step env s s'"
| proc_finish: "proc_active s (sj_id st) \<noteq> None \<Longrightarrow> submit_finish env st job submission s = (r, s') \<Longrightarrow>
    proc_step env s s'"
| proc_acknowledge: "acknowledge_outbound_status mid (proc_db s) = Ok (b, db') \<Longrightarrow>
    proc_step env s (s\<lparr>proc_db := db'\<rparr>)"
| proc_quiet: "same_store s s' \<Longrightarrow> proc_step env s s'"

text \<open>A registered token belongs to a claimed job.\<close>

definition proc_ok :: "Proc \<Rightarrow> bool" where
  "proc_ok s \<longleftrightarrow> storage_ok (proc_db s) \<and>
     (\<forall>j f. proc_active s j = Some f \<longrightarrow> state_of (proc_db s) j = Some Submitting)"

lemma leaves_proc_ok:
  assumes "leaves J A s s'" "proc_ok s"
    and "\<And>j f. j \<in> J \<union> A \<Longrightarrow> proc_active s' j = Some f \<Longrightarrow> state_of (proc_db s') j = Some Submitting"
  shows "proc_ok s'"
  unfolding proc_ok_def
proof (intro conjI allI impI)
  show "storage_ok (proc_db s')" using assms(1,2) by (simp add: leaves_def proc_ok_def)
  fix j f assume act: "proc_active s' j = Some f"
  show "state_of (proc_db s') j = Some Submitting"
  proof (cases "j \<in> J \<union> A")
    case True
    then show ?thesis using assms(3) act by blast
  next
    case False
    then have "proc_active s j = Some f" using assms(1) act by (simp add: leaves_def)
    then show ?thesis using assms(1,2) False by (simp add: leaves_def proc_ok_def)
  qed
qed

lemma cancel_active:
  assumes "cancel_job env raw s = (r, s')" "new_identifier raw = Ok jid" "proc_active s jid \<noteq> None"
  shows "r = Ok (CancelRequested jid) \<and> proc_db s' = proc_db s \<and> proc_active s' = (proc_active s)(jid \<mapsto> True)"
  using assms by (auto simp: cancel_job_def ebind_def emap_err_def elift_def egets_def set_active_def
      emodify_def publish_def eret_def)

lemma cancel_inactive:
  assumes "cancel_job env raw s = (r, s')" "new_identifier raw = Ok jid" "proc_active s jid = None"
  shows "cancel_queued env jid s = (r, s')"
  using assms by (auto simp: cancel_job_def ebind_def emap_err_def elift_def egets_def)

lemma cancel_invalid:
  assumes "cancel_job env raw s = (r, s')" "new_identifier raw = Err e"
  shows "r = Err (IdentifierInvalid e) \<and> s' = s"
  using assms by (auto simp: cancel_job_def ebind_def emap_err_def elift_def)

lemma cancel_proc_ok:
  assumes "cancel_job env raw s = (r, s')" "proc_ok s"
  shows "proc_ok s'"
proof (cases "new_identifier raw")
  case (Inl e)
  then show ?thesis using cancel_invalid assms by blast
next
  case (Inr jid)
  show ?thesis
  proof (cases "proc_active s jid")
    case None
    then have q: "cancel_queued env jid s = (r, s')" using cancel_inactive [OF assms(1) Inr] by blast
    then have l: "leaves {jid} {} s s'" by (rule preserves_snd [OF leaves_cancel_queued])
    then have "proc_active s' jid = None" using None by (simp add: leaves_def)
    then show ?thesis using leaves_proc_ok [OF l assms(2)] by auto
  next
    case (Some f)
    then show ?thesis
      using cancel_active [OF assms(1) Inr] assms(2) by (auto simp: proc_ok_def)
  qed
qed

lemma claim_error: "submit_claim env jid s = (Err e, s') \<Longrightarrow> proc_active s' = proc_active s \<and> proc_db s' = proc_db s"
proof -
  assume claim: "submit_claim env jid s = (Err e, s')"
  obtain x s1 where op: "store_op env (mark_submitting jid) s = (x, s1)"
    by (cases "store_op env (mark_submitting jid) s")
  show ?thesis
  proof (cases x)
    case (Inl err)
    then show ?thesis
      using claim op by (cases err) (auto simp: submit_claim_def ecase_eq store_op_Err)
  next
    case (Inr u)
    then show ?thesis
      using claim op by (auto simp: submit_claim_def ecase_eq ebind_Err)
  qed
qed

lemma claim_proc_ok:
  assumes "submit_claim env jid s = (r, s')" "proc_ok s" "proc_active s = Map.empty"
  shows "proc_ok s'"
proof (rule leaves_proc_ok [OF preserves_snd [OF leaves_claim assms(1)] assms(2)])
  fix j f assume j: "j \<in> {jid} \<union> {jid}" "proc_active s' j = Some f"
  have ids: "ids_ok (proc_db s)" using assms(2) by (simp add: proc_ok_def storage_ok_ids)
  show "state_of (proc_db s') j = Some Submitting"
  proof (cases r)
    case (Inl e)
    then have "proc_active s' = proc_active s" using claim_error assms(1) by blast
    then show ?thesis using j assms(3) by simp
  next
    case (Inr claimed)
    then show ?thesis
      using claim_result [OF assms(1) [unfolded Inr] ids] j assms(3) by (cases claimed) auto
  qed
qed

lemma finish_releases:
  assumes "submit_finish env st job submission s = (r, s')"
  shows "proc_active s' (sj_id st) = None"
  using assms by (auto simp: submit_finish_def ecase_eq ebind_def set_active_def emodify_def elift_def split: prod.splits)

lemma recover_quiet_active:
  "preserves (\<lambda>s s'. proc_active s' = proc_active s) (processor_recover env)"
  by (auto simp: preserves_def processor_recover_def ebind_def emap_err_def store_op_def emodify_def
      publish_def eret_def split: sum.splits prod.splits)

lemma proc_step_ok:
  assumes "proc_step env s s'" "proc_ok s"
  shows "proc_ok s'"
  using assms
proof cases
  case (proc_receive m r)
  show ?thesis by (rule leaves_proc_ok [OF preserves_snd [OF leaves_receive proc_receive] assms(2)]) simp
next
  case (proc_cancel raw r)
  then show ?thesis using cancel_proc_ok assms(2) by blast
next
  case (proc_claim jid r)
  then show ?thesis using claim_proc_ok assms(2) by blast
next
  case (proc_fail st job f r)
  have l: "leaves {sj_id st} {} s s'" by (rule preserves_snd [OF leaves_persist_failure proc_fail(2)])
  then show ?thesis using leaves_proc_ok [OF l assms(2)] proc_fail(1) by (simp add: leaves_def)
next
  case (proc_fail_unreportable st f r)
  have l: "leaves {sj_id st} {} s s'"
    by (rule preserves_snd [OF leaves_persist_unreportable proc_fail_unreportable(2)])
  then show ?thesis using leaves_proc_ok [OF l assms(2)] proc_fail_unreportable(1) by (simp add: leaves_def)
next
  case (proc_recover r)
  have "proc_active s' = Map.empty"
    using preserves_snd [OF recover_quiet_active proc_recover(2)] proc_recover(1) by simp
  moreover have "storage_ok (proc_db s')"
    using run_storage_ok [OF preserves_snd [OF run_recover proc_recover(2)]] assms(2) by (simp add: proc_ok_def)
  ultimately show ?thesis by (simp add: proc_ok_def)
next
  case (proc_finish st job submission r)
  show ?thesis
    by (rule leaves_proc_ok [OF preserves_snd [OF leaves_finish proc_finish(2)] assms(2)])
      (use finish_releases [OF proc_finish(2)] in simp)
next
  case (proc_acknowledge mid b db')
  have "storage_ok db'"
    using storage_step_ok [OF step_acknowledge [OF proc_acknowledge(2)]] assms(2) by (simp add: proc_ok_def)
  moreover have "state_of db' j = state_of (proc_db s) j" for j
    using acknowledge_Ok [OF proc_acknowledge(2)] by auto
  ultimately show ?thesis using assms(2) proc_acknowledge(1) by (simp add: proc_ok_def)
next
  case proc_quiet
  then show ?thesis using assms(2) by (simp add: same_store_def proc_ok_def)
qed

lemma proc_run_ok: "(proc_step env)\<^sup>*\<^sup>* s s' \<Longrightarrow> proc_ok s \<Longrightarrow> proc_ok s'"
  by (induction rule: rtranclp_induct) (auto intro: proc_step_ok)


section \<open>What cancellation answers\<close>

definition cancel_truthful :: "PrintJobId \<Rightarrow> Proc \<Rightarrow> Proc \<Rightarrow> CancelOutcome \<Rightarrow> bool" where
  "cancel_truthful jid s s' out = (case out of
     CancelRequested j \<Rightarrow> j = jid \<and> state_of (proc_db s') jid = Some Submitting \<and> proc_active s' jid = Some True
   | CancelDone j \<Rightarrow> j = jid \<and> state_of (proc_db s') jid = Some Cancelled \<and>
       (\<exists>st. state_of (proc_db s) jid = Some st \<and> \<not> is_terminal st)
   | CancelAlreadyTerminal j st \<Rightarrow> j = jid \<and> state_of (proc_db s') jid = Some st \<and> is_terminal st
   | CancelNotFound j \<Rightarrow> j = jid \<and> state_of (proc_db s') jid = None)"

lemma transition_Err:
  assumes "transition jid q rc e None clock db = Err err"
  shows "(\<exists>t. err = InvalidInput t) \<or> (err = JobNotFound jid \<and> state_of db jid = None) \<or>
    (\<exists>c. err = InvalidTransition jid c q \<and> state_of db jid = Some c \<and> \<not> transition_allowed c q)"
  using assms
  by (auto simp: transition_def and_then_Err Let_def state_of_def insert_status_def now_millis_def)

lemma quiet_emodify_handle: "(proc_db (s\<lparr>proc_handle := h\<rparr>) = proc_db s)" "proc_active (s\<lparr>proc_handle := h\<rparr>) = proc_active s"
  by simp_all

lemma refresh_simps [simp]:
  "proc_db (snd (refresh_pending env s)) = proc_db s" "proc_active (snd (refresh_pending env s)) = proc_active s"
  by (auto simp: refresh_pending_def emodify_def split: sum.splits)

lemma refresh_Ok: "refresh_pending env s = (r, s') \<Longrightarrow> r = Ok () \<and> proc_db s' = proc_db s \<and> proc_active s' = proc_active s"
proof -
  assume r: "refresh_pending env s = (r, s')"
  then have "r = Ok ()" unfolding refresh_pending_def by simp
  then show ?thesis using quietD [OF quiet_refresh r] by simp
qed

lemma cancel_queued_truthful:
  assumes "cancel_queued env jid s = (Ok out, s')" "ids_ok (proc_db s)"
  shows "cancel_truthful jid s s' out"
proof -
  obtain x s1 where op: "store_op env (mark_cancelled jid) s = (x, s1)"
    by (cases "store_op env (mark_cancelled jid) s")
  show ?thesis
  proof (cases x)
    case (Inr u)
    have jt: "job_transition (proc_db s) (proc_db s1) jid Cancelled"
      using op Inr mark_transitions(4) by (fastforce simp: store_op_Ok)
    obtain c where "state_of (proc_db s) jid = Some c" "transition_allowed c Cancelled"
      using job_transition_states(1) [OF jt assms(2)] by blast
    moreover from this have "\<not> is_terminal c" by auto
    moreover have "state_of (proc_db s1) jid = Some Cancelled" by (rule job_transition_states(2) [OF jt assms(2)])
    moreover have "out = CancelDone jid \<and> proc_db s' = proc_db s1"
      using assms(1) op Inr refresh_Ok by (fastforce simp: cancel_queued_def ecase_eq ebind_Ok)
    ultimately show ?thesis by (simp add: cancel_truthful_def)
  next
    case (Inl err)
    have s1: "s1 = tick s" and err: "transition jid Cancelled None None None (env_clock env (proc_tick s)) (proc_db s) = Err err"
      using op Inl by (auto simp: store_op_Err mark_cancelled_def)
    show ?thesis
    proof (cases err)
      case (JobNotFound j)
      then have "out = CancelNotFound jid \<and> proc_db s' = proc_db s"
        using assms(1) op Inl s1 refresh_Ok by (fastforce simp: cancel_queued_def ecase_eq ebind_Ok)
      then show ?thesis
        using transition_Err [OF err] JobNotFound by (simp add: cancel_truthful_def)
    next
      case (InvalidTransition x c y)
      have k: "(if is_terminal c then ebind (refresh_pending env) (\<lambda>_. eret (CancelAlreadyTerminal jid c))
          else elift (Err (StorageFailure (InvalidTransition x c y)))) s1 = (Ok out, s')"
        using assms(1) op unfolding cancel_queued_def ecase_def Inl InvalidTransition by simp
      have fin: "is_terminal c"
      proof (rule ccontr)
        assume "\<not> is_terminal c"
        then show False using k by simp
      qed
      then have "is_terminal c \<and> out = CancelAlreadyTerminal jid c \<and> proc_db s' = proc_db s"
        using k s1 by (auto simp: ebind_Ok dest: refresh_Ok)
      then show ?thesis
        using transition_Err [OF err] InvalidTransition by (simp add: cancel_truthful_def)
    qed (use assms(1) op Inl in \<open>auto simp: cancel_queued_def ecase_eq\<close>)
  qed
qed

lemma cancel_job_truthful:
  assumes "cancel_job env raw s = (Ok out, s')" "proc_ok s"
  shows "\<exists>jid. new_identifier raw = Ok jid \<and> cancel_truthful jid s s' out"
proof (cases "new_identifier raw")
  case (Inl e)
  then show ?thesis using cancel_invalid [OF assms(1)] by simp
next
  case (Inr jid)
  show ?thesis
  proof (cases "proc_active s jid")
    case None
    then show ?thesis
      using cancel_inactive [OF assms(1) Inr] cancel_queued_truthful assms(2) storage_ok_ids Inr
      unfolding proc_ok_def by blast
  next
    case (Some f)
    then show ?thesis
      using cancel_active [OF assms(1) Inr] assms(2) Inr by (simp add: cancel_truthful_def proc_ok_def)
  qed
qed

section \<open>The terminal write\<close>

lemma persist_failure_error:
  "persist_failure env st job f s = (Err e, s') \<Longrightarrow> proc_db s' = proc_db s"
  unfolding persist_failure_def Let_def ebind_Err emap_err_Ok emap_err_Err reading_Ok publish_Ok eret_eq
  by (auto simp: store_op_Err dest!: quietD [OF quiet_failed_message] quietD [OF quiet_outbound_status])

lemma submit_conclude_error:
  assumes "submit_conclude env st job submission s = (Err e, s')"
  shows "proc_db s' = proc_db s"
proof (cases submission)
  case (Inr receipt)
  then show ?thesis
    using assms unfolding submit_conclude_def Inr sum.case ebind_Err emap_err_Ok emap_err_Err publish_Ok eret_eq
    by (auto simp: store_op_Err dest!: quietD [OF quiet_submitted_message] quietD [OF quiet_outbound_status])
next
  case (Inl err)
  show ?thesis
  proof (cases "proc_active s (sj_id st) = Some True \<or> err = SpoolerCancelled")
    case True
    then show ?thesis
      using assms unfolding submit_conclude_def Inl by (auto simp: ebind_Err store_op_Err)
  next
    case False
    then have "persist_failure env st job (spooler_failure env err) s = (Err e, s')"
      using assms unfolding submit_conclude_def Inl by (auto simp: ebind_Err)
    then show ?thesis by (rule persist_failure_error)
  qed
qed

lemma submit_finish_error:
  assumes "submit_finish env st job submission s = (Err e, s')"
  shows "proc_db s' = proc_db s \<and> proc_active s' (sj_id st) = None"
proof -
  obtain x s1 where c: "submit_conclude env st job submission s = (x, s1)" "x = Err e" "proc_db s' = proc_db s1"
    using assms by (auto simp: submit_finish_def ecase_eq ebind_Err)
  show ?thesis using submit_conclude_error c finish_releases [OF assms] by simp
qed

end
