(* ===== verification/Agent_Runtime.thy ===== *)
theory Agent_Runtime
  imports Processor_Cancellation
begin

text \<open>
  The agent runtime of \<open>crates/oppa-agent/src/runtime.rs\<close>: the job processor composed with the
  transport that carries its reports. The state adds the reports the transport accepted, in order.
  The transport \<open>rt_report\<close> and Serde's reading of a stored report \<open>rt_message_from_value\<close> are
  parameters. The locks of the code serialise the operations, so each operation is one function.
\<close>

section \<open>Errors and results\<close>

record OutboundReportError =
  report_message :: ustring

definition OutboundReportError_new :: "ustring \<Rightarrow> OutboundReportError" where
  "OutboundReportError_new raw =
     (let message = take 1000 (filter (\<lambda>c. \<not> is_control c) raw) in
      \<lparr>report_message = (if trim message = [] then lit ''transport did not provide diagnostic details''
        else message)\<rparr>)"

datatype AgentBuildError =
  MissingRepository | MissingPrinterResolver | MissingSpoolerRegistry | MissingOutboundReporter

datatype AgentRuntimeError =
  Processing JobProcessingError
| UnsupportedServerMessage ustring
| Reporting AgentMessage OutboundReportError
| InvalidOutboundStatus ustring ustring

record JobFlowResult =
  flow_receipt :: ReceiveJobOutcome
  flow_outcomes :: "ProcessOutcome list"

datatype ServerJobOutcome =
  ServerPrintJobOutcome JobFlowResult
| ServerCancelOutcome CancelOutcome

section \<open>Assembling the agent\<close>

text \<open>The parts a host must supply, and the two it may.\<close>

record ('r, 'p, 's, 'o, 'd) AgentBuilder =
  builder_repository :: "'r option"
  builder_printers :: "'p option"
  builder_spoolers :: "'s option"
  builder_reporter :: "'o option"
  builder_documents :: "'d option"
  builder_handle :: AgentHandle

record ('r, 'p, 's, 'o, 'd) AgentParts =
  agent_repository :: 'r
  agent_printers :: 'p
  agent_spoolers :: 's
  agent_reporter :: 'o
  agent_documents :: "'d option"
  agent_handle :: AgentHandle

definition build_agent ::
  "('r, 'p, 's, 'o, 'd) AgentBuilder \<Rightarrow> AgentBuildError + ('r, 'p, 's, 'o, 'd) AgentParts" where
  "build_agent b =
     and_then (ok_or MissingRepository (builder_repository b)) (\<lambda>r.
     and_then (ok_or MissingPrinterResolver (builder_printers b)) (\<lambda>p.
     and_then (ok_or MissingSpoolerRegistry (builder_spoolers b)) (\<lambda>s.
     and_then (ok_or MissingOutboundReporter (builder_reporter b)) (\<lambda>rep.
     Ok \<lparr>agent_repository = r, agent_printers = p, agent_spoolers = s, agent_reporter = rep,
        agent_documents = builder_documents b, agent_handle = builder_handle b\<rparr>))))"

section \<open>The running agent\<close>

record ('v, 'doc) renv =
  rt_env :: "('v, 'doc) penv"
  rt_report :: "nat \<Rightarrow> AgentMessage \<Rightarrow> OutboundReportError + unit"
  rt_message_from_value :: "'v \<Rightarrow> AgentMessage option"

record Agent =
  ag_proc :: Proc
  ag_sent :: "AgentMessage list"

definition lift_proc :: "(Proc, 'e, 'a) eff \<Rightarrow> (Agent, 'e, 'a) eff" where
  "lift_proc m s = (case m (ag_proc s) of (r, p) \<Rightarrow> (r, s\<lparr>ag_proc := p\<rparr>))"

definition on_proc :: "(Proc, JobProcessingError, 'a) eff \<Rightarrow> (Agent, AgentRuntimeError, 'a) eff" where
  "on_proc m = emap_err Processing (lift_proc m)"

definition report :: "('v, 'doc) renv \<Rightarrow> AgentMessage \<Rightarrow> (Agent, AgentRuntimeError, unit) eff" where
  "report renv m s = (case rt_report renv (proc_tick (ag_proc s)) m of
     Err e \<Rightarrow> (Err (Reporting m e), s\<lparr>ag_proc := tick (ag_proc s)\<rparr>)
   | Ok _ \<Rightarrow> (Ok (), s\<lparr>ag_proc := tick (ag_proc s), ag_sent := ag_sent s @ [m]\<rparr>))"

definition acknowledge ::
  "('v, 'doc) renv \<Rightarrow> ustring \<Rightarrow> (Agent, AgentRuntimeError, bool) eff" where
  "acknowledge renv mid = on_proc (emap_err StorageFailure
     (store_op (rt_env renv) (\<lambda>_. acknowledge_outbound_status mid)))"

definition report_and_ack ::
  "('v, 'doc) renv \<Rightarrow> AgentMessage \<Rightarrow> (Agent, AgentRuntimeError, unit) eff" where
  "report_and_ack renv m = ebind (report renv m) (\<lambda>_.
     ebind (acknowledge renv (am_message_id m)) (\<lambda>_. eret ()))"

fun report_all :: "('v, 'doc) renv \<Rightarrow> AgentMessage list \<Rightarrow> (Agent, AgentRuntimeError, unit) eff" where
  "report_all renv [] = eret ()"
| "report_all renv (m # ms) = ebind (report renv m) (\<lambda>_. report_all renv ms)"

fun report_outcomes ::
  "('v, 'doc) renv \<Rightarrow> ProcessOutcome list \<Rightarrow> (Agent, AgentRuntimeError, unit) eff" where
  "report_outcomes renv [] = eret ()"
| "report_outcomes renv (outcome # outcomes) =
     ebind (case outcome_message outcome of Some m \<Rightarrow> report_and_ack renv m | None \<Rightarrow> eret ())
       (\<lambda>_. report_outcomes renv outcomes)"

definition report_pending_receipts :: "('v, 'doc) renv \<Rightarrow> (Agent, AgentRuntimeError, unit) eff" where
  "report_pending_receipts renv =
     ebind (on_proc (pending_receipts (rt_env renv))) (report_all renv)"

section \<open>Server messages\<close>

definition handle_print_job ::
  "('v, 'doc) renv \<Rightarrow> ServerMessage \<Rightarrow> (Agent, AgentRuntimeError, JobFlowResult) eff" where
  "handle_print_job renv m =
     ebind (on_proc (receive_print_job (rt_env renv) m)) (\<lambda>receipt.
     ebind (case acknowledgement receipt of Some a \<Rightarrow> report renv a | None \<Rightarrow> eret ()) (\<lambda>_.
     if was_inserted receipt
     then ebind (on_proc (process_pending (rt_env renv))) (\<lambda>outcomes.
          ebind (report_outcomes renv outcomes) (\<lambda>_.
          eret \<lparr>flow_receipt = receipt, flow_outcomes = outcomes\<rparr>))
     else eret \<lparr>flow_receipt = receipt, flow_outcomes = []\<rparr>))"

definition agent_cancel_job ::
  "('v, 'doc) renv \<Rightarrow> ustring \<Rightarrow> (Agent, AgentRuntimeError, CancelOutcome) eff" where
  "agent_cancel_job renv raw = on_proc (cancel_job (rt_env renv) raw)"

definition handle_server_message ::
  "('v, 'doc) renv \<Rightarrow> ServerMessage \<Rightarrow> (Agent, AgentRuntimeError, ServerJobOutcome) eff" where
  "handle_server_message renv m =
     ebind (elift (map_err (\<lambda>e. Processing (ProtocolInvalid e)) (ServerMessage_validate m))) (\<lambda>_.
     (case sm_kind m of
        ServerPrintJobMsg _ \<Rightarrow>
          ebind (handle_print_job renv m) (\<lambda>flow. eret (ServerPrintJobOutcome flow))
      | ServerCancelJobMsg c \<Rightarrow>
          ebind (agent_cancel_job renv (cj_job_id c)) (\<lambda>out. eret (ServerCancelOutcome out))
      | kind \<Rightarrow> elift (Err (UnsupportedServerMessage (server_message_type kind)))))"

section \<open>Draining and recovery\<close>

definition agent_process_pending ::
  "('v, 'doc) renv \<Rightarrow> (Agent, AgentRuntimeError, ProcessOutcome list) eff" where
  "agent_process_pending renv =
     ebind (report_pending_receipts renv) (\<lambda>_.
     ebind (on_proc (process_pending (rt_env renv))) (\<lambda>outcomes.
     ebind (report_outcomes renv outcomes) (\<lambda>_. eret outcomes)))"

definition agent_recover ::
  "('v, 'doc) renv \<Rightarrow> (Agent, AgentRuntimeError, RecoveryResult \<times> ProcessOutcome list) eff" where
  "agent_recover renv =
     ebind (on_proc (processor_recover (rt_env renv))) (\<lambda>recovery.
     ebind (report_pending_receipts renv) (\<lambda>_.
     ebind (on_proc (process_pending (rt_env renv))) (\<lambda>outcomes.
     ebind (report_outcomes renv outcomes) (\<lambda>_. eret (recovery, outcomes)))))"

section \<open>Replaying the outbox\<close>

definition validate_outbound_status :: "ustring \<Rightarrow> PrintJobId \<Rightarrow> AgentMessage \<Rightarrow> ustring + unit" where
  "validate_outbound_status stored_message_id stored_job_id m =
     and_then (reject_if (am_message_id m \<noteq> stored_message_id)
       (lit ''message identity does not match its outbox row'')) (\<lambda>_.
     and_then (case am_kind m of
         AgentJobSubmittedMsg p \<Rightarrow> Ok (js_job_id p)
       | AgentJobFailedMsg p \<Rightarrow> Ok (jf_job_id p)
       | _ \<Rightarrow> Err (lit ''outbox payload is not a terminal job status'')) (\<lambda>payload_job_id.
     reject_if (payload_job_id \<noteq> stored_job_id)
       (lit ''job identity does not match its outbox row'')))"

definition replay_check :: "('v, 'doc) renv \<Rightarrow> 'v OutboundStatus \<Rightarrow> AgentRuntimeError + AgentMessage" where
  "replay_check renv st =
     and_then (ok_or (Processing PayloadJson) (rt_message_from_value renv (os_payload st))) (\<lambda>m.
     and_then (map_err (\<lambda>e. Processing (ProtocolInvalid e)) (AgentMessage_validate m)) (\<lambda>_.
     and_then (map_err (InvalidOutboundStatus (os_message_id st))
       (validate_outbound_status (os_message_id st) (os_job_id st) m)) (\<lambda>_. Ok m)))"

definition saturating_inc :: "nat \<Rightarrow> nat" where
  "saturating_inc n = (if n < 2 ^ 64 - 1 then n + 1 else n)"

fun replay_batch ::
  "('v, 'doc) renv \<Rightarrow> 'v OutboundStatus list \<Rightarrow> nat \<Rightarrow> (Agent, AgentRuntimeError, nat) eff" where
  "replay_batch renv [] count = eret count"
| "replay_batch renv (st # rest) count =
     ebind (elift (replay_check renv st)) (\<lambda>m.
     ebind (report_and_ack renv m) (\<lambda>_.
     replay_batch renv rest (saturating_inc count)))"

definition read_batch :: "('v, 'doc) renv \<Rightarrow> (Agent, AgentRuntimeError, 'v OutboundStatus list) eff" where
  "read_batch renv = ebind (egets (\<lambda>s. proc_db (ag_proc s))) (\<lambda>db.
     elift (map_err (\<lambda>e. Processing (StorageFailure e))
       (pending_outbound_statuses (env_storage (rt_env renv)) DEFAULT_OUTBOUND_STATUS_BATCH_SIZE db)))"

text \<open>The \<open>loop\<close>, with fuel for its iterations; \<open>None\<close> is a loop that has not returned.\<close>

fun replay_loop ::
  "('v, 'doc) renv \<Rightarrow> nat \<Rightarrow> nat \<Rightarrow> Agent \<Rightarrow> ((AgentRuntimeError + nat) \<times> Agent) option" where
  "replay_loop renv 0 count s = None"
| "replay_loop renv (Suc fuel) count s =
     (case read_batch renv s of
        (Err e, s1) \<Rightarrow> Some (Err e, s1)
      | (Ok statuses, s1) \<Rightarrow>
          if statuses = [] then Some (Ok count, s1)
          else (case replay_batch renv statuses count s1 of
              (Err e, s2) \<Rightarrow> Some (Err e, s2)
            | (Ok count', s2) \<Rightarrow>
                if length statuses < DEFAULT_OUTBOUND_STATUS_BATCH_SIZE then Some (Ok count', s2)
                else replay_loop renv fuel count' s2))"

definition replay_outbound_reports ::
  "('v, 'doc) renv \<Rightarrow> nat \<Rightarrow> Agent \<Rightarrow> ((AgentRuntimeError + nat) \<times> Agent) option" where
  "replay_outbound_reports renv fuel = replay_loop renv fuel 0"

end
