(* ===== verification/Agent_Runtime_Laws.thy ===== *)
theory Agent_Runtime_Laws
  imports Agent_Runtime
begin

text \<open>
  What the runtime guarantees: the outbox is replayed in order, each row is removed only after its
  report was accepted by the transport, the replay loop returns; a drain gives one durable outcome for
  every pending job, oldest first; a redelivery is acknowledged and never printed again.
\<close>

section \<open>Runtime effects\<close>

abbreviation agent_db :: "Agent \<Rightarrow> SqliteStorage" where
  "agent_db s \<equiv> proc_db (ag_proc s)"

lemma lift_proc_eq [simp]:
  "lift_proc m s = (r, s') \<longleftrightarrow> (\<exists>p. m (ag_proc s) = (r, p) \<and> s' = s\<lparr>ag_proc := p\<rparr>)"
  by (auto simp: lift_proc_def split: prod.splits)

lemma on_proc_Ok: "on_proc m s = (Ok a, s') \<longleftrightarrow> (\<exists>p. m (ag_proc s) = (Ok a, p) \<and> s' = s\<lparr>ag_proc := p\<rparr>)"
  by (simp add: on_proc_def)

lemma on_proc_Err:
  "on_proc m s = (Err e, s') \<longleftrightarrow> (\<exists>e0 p. m (ag_proc s) = (Err e0, p) \<and> e = Processing e0 \<and> s' = s\<lparr>ag_proc := p\<rparr>)"
  by (auto simp: on_proc_def)

lemma report_Ok:
  "report renv m s = (Ok u, s') \<longleftrightarrow> rt_report renv (proc_tick (ag_proc s)) m = Ok () \<and>
     s' = s\<lparr>ag_proc := tick (ag_proc s), ag_sent := ag_sent s @ [m]\<rparr>"
  by (auto simp: report_def split: sum.splits)

lemma report_Err:
  "report renv m s = (Err e, s') \<longleftrightarrow> (\<exists>x. rt_report renv (proc_tick (ag_proc s)) m = Err x \<and> e = Reporting m x) \<and>
     s' = s\<lparr>ag_proc := tick (ag_proc s)\<rparr>"
  by (auto simp: report_def split: sum.splits)

section \<open>The outbox as a queue\<close>

lemma all_ok_Ok: "all_ok xs = Ok ys \<longleftrightarrow> xs = map Ok ys"
  by (induction xs arbitrary: ys) (auto simp: and_then_Ok)

lemma load_status_Ok:
  "load_status senv ob = Ok st \<Longrightarrow> os_message_id st = out_message_id ob \<and> os_job_id st = out_job_id ob \<and>
     json_parse senv (out_payload_json ob) = Some (os_payload st)"
  by (auto simp: load_status_def and_then_Ok new_identifier_Ok)

lemma pending_outbound_rows:
  assumes "pending_outbound_statuses senv n db = Ok sts"
  shows "map (load_status senv) (take n (outbox_rows db)) = map Ok sts" "0 < n"
    "map os_message_id sts = map out_message_id (take n (outbox_rows db))"
proof -
  show l: "map (load_status senv) (take n (outbox_rows db)) = map Ok sts" "0 < n"
    using assms by (auto simp: pending_outbound_statuses_def and_then_Ok all_ok_Ok)
  have len: "length sts = length (take n (outbox_rows db))"
    using arg_cong [OF l(1), of length] by simp
  show "map os_message_id sts = map out_message_id (take n (outbox_rows db))"
  proof (rule nth_equalityI)
    fix i assume "i < length (map os_message_id sts)"
    then have i: "i < length sts" "i < length (take n (outbox_rows db))" using len by simp_all
    have "load_status senv (take n (outbox_rows db) ! i) = Ok (sts ! i)"
      using arg_cong [OF l(1), of "\<lambda>xs. xs ! i"] i by simp
    then show "map os_message_id sts ! i = map out_message_id (take n (outbox_rows db)) ! i"
      using load_status_Ok [of senv "outbox_rows db ! i" "sts ! i"] i by simp
  qed (use len in simp)
qed

lemma outbox_rows_mset [simp]:
  "distinct (map out_message_id (outbox_rows db)) = distinct (map out_message_id (outbox db))"
  "length (outbox_rows db) = length (outbox db)"
  by (simp_all add: outbox_rows_def distinct_map inj_on_def)

lemma outbox_rows_filter:
  "outbox_rows (db\<lparr>outbox := filter P (outbox db)\<rparr>) = filter P (outbox_rows db)"
  by (simp add: outbox_rows_def filter_sort)

lemma acknowledge_first:
  assumes "distinct (map out_message_id (outbox db))" "outbox_rows db = ob # rest"
    and "acknowledge_outbound_status (out_message_id ob) db = Ok (b, db')"
  shows "outbox_rows db' = rest \<and> distinct (map out_message_id (outbox db'))"
proof -
  have d: "distinct (map out_message_id (ob # rest))" using assms(1,2) outbox_rows_mset(1) by metis
  then have "filter (\<lambda>x. out_message_id x \<noteq> out_message_id ob) rest = rest"
    by (auto simp: filter_id_conv) (metis imageI)
  then have "outbox_rows db' = rest"
    using acknowledge_Ok [OF assms(3)] assms(2) by (simp add: outbox_rows_filter)
  moreover have "distinct (map out_message_id (outbox db'))"
    using acknowledge_Ok [OF assms(3)] assms(1) by (simp add: distinct_map_filter)
  ultimately show ?thesis by simp
qed

section \<open>Replay delivers the outbox in order\<close>

text \<open>
  The first \<open>k\<close> rows are gone and the messages \<open>ms\<close> were accepted by the transport: those of the
  rows that are gone, in order, and at most one more.
\<close>

definition replay_progress :: "Agent \<Rightarrow> Agent \<Rightarrow> nat \<Rightarrow> AgentMessage list \<Rightarrow> bool" where
  "replay_progress s s' k ms \<longleftrightarrow>
     ag_sent s' = ag_sent s @ ms \<and>
     outbox_rows (agent_db s') = drop k (outbox_rows (agent_db s)) \<and>
     k \<le> length ms \<and> length ms \<le> Suc k \<and> length ms \<le> length (outbox_rows (agent_db s)) \<and>
     map am_message_id ms = map out_message_id (take (length ms) (outbox_rows (agent_db s))) \<and>
     distinct (map out_message_id (outbox (agent_db s')))"

lemma progress_none:
  "ag_sent s' = ag_sent s \<Longrightarrow> agent_db s' = agent_db s \<Longrightarrow> distinct (map out_message_id (outbox (agent_db s))) \<Longrightarrow>
   replay_progress s s' 0 []"
  by (simp add: replay_progress_def)

lemma progress_trans:
  assumes "replay_progress s s1 k ms" "length ms = k" "replay_progress s1 s2 k2 ms2"
  shows "replay_progress s s2 (k + k2) (ms @ ms2)"
proof -
  let ?rows = "outbox_rows (agent_db s)"
  have r1: "outbox_rows (agent_db s1) = drop k ?rows" and m1: "map am_message_id ms = map out_message_id (take k ?rows)"
    and k: "k \<le> length ?rows"
    using assms(1,2) by (auto simp: replay_progress_def)
  have m2: "map am_message_id ms2 = map out_message_id (take (length ms2) (drop k ?rows))"
    using assms(3) r1 by (simp add: replay_progress_def)
  have "take (k + length ms2) ?rows = take k ?rows @ take (length ms2) (drop k ?rows)" by (simp add: take_add)
  then have "map am_message_id (ms @ ms2) = map out_message_id (take (length (ms @ ms2)) ?rows)"
    using m1 m2 assms(2) by simp
  then show ?thesis
    using assms r1 k unfolding replay_progress_def by (auto simp: add.commute)
qed

lemma replay_check_Ok:
  assumes "replay_check renv st = Ok m"
  shows "am_message_id m = os_message_id st" "AgentMessage_validate m = Ok ()"
    "rt_message_from_value renv (os_payload st) = Some m"
  using assms by (auto simp: replay_check_def and_then_Ok validate_outbound_status_def)

lemma report_and_ack_progress:
  assumes "report_and_ack renv m s = (r, s')" "distinct (map out_message_id (outbox (agent_db s)))"
    and "outbox_rows (agent_db s) = ob # rest" "am_message_id m = out_message_id ob"
  shows "\<exists>k ms. replay_progress s s' k ms \<and> (\<forall>u. r = Ok u \<longrightarrow> k = 1 \<and> ms = [m])"
proof -
  obtain x s1 where rep: "report renv m s = (x, s1)" by (cases "report renv m s")
  show ?thesis
  proof (cases x)
    case (Inl e)
    then have "s' = s1 \<and> (\<forall>u. r \<noteq> Ok u)" using assms(1) rep by (auto simp: report_and_ack_def ebind_def)
    then have "replay_progress s s' 0 []" "\<forall>u. r \<noteq> Ok u"
      using rep Inl assms(2) by (auto simp: report_Err intro!: progress_none)
    then show ?thesis by blast
  next
    case (Inr u)
    have s1: "s1 = s\<lparr>ag_proc := tick (ag_proc s), ag_sent := ag_sent s @ [m]\<rparr>"
      using rep Inr by (simp add: report_Ok)
    obtain y s2 where ack: "acknowledge renv (am_message_id m) s1 = (y, s2)"
      by (cases "acknowledge renv (am_message_id m) s1")
    have s': "s' = s2" "(\<exists>u. r = Ok u) \<longleftrightarrow> (\<exists>b. y = Ok b)"
      using assms(1) rep Inr ack by (cases y; auto simp: report_and_ack_def ebind_def eret_def)+
    show ?thesis
    proof (cases y)
      case (Inl e)
      then have "agent_db s2 = agent_db s \<and> ag_sent s2 = ag_sent s @ [m]"
        using ack s1 by (auto simp: acknowledge_def on_proc_Err store_op_Err)
      then have "replay_progress s s' 0 [m]"
        using s' assms by (simp add: replay_progress_def)
      then show ?thesis using s' Inl by blast
    next
      case (Inr b)
      then obtain db' where "acknowledge_outbound_status (out_message_id ob) (agent_db s) = Ok (b, db')"
        and "agent_db s2 = db'" "ag_sent s2 = ag_sent s @ [m]"
        using ack s1 assms(4) by (auto simp: acknowledge_def on_proc_Ok store_op_Ok)
      then have "replay_progress s s' 1 [m]"
        using acknowledge_first [OF assms(2,3)] s' assms(3,4) by (simp add: replay_progress_def)
      then show ?thesis by blast
    qed
  qed
qed

lemma replay_batch_progress:
  assumes "replay_batch renv sts n s = (r, s')" "distinct (map out_message_id (outbox (agent_db s)))"
    and "map os_message_id sts = map out_message_id (take (length sts) (outbox_rows (agent_db s)))"
  shows "\<exists>k ms. replay_progress s s' k ms \<and> (\<forall>c. r = Ok c \<longrightarrow> k = length sts \<and> length ms = k)"
  using assms
proof (induction sts arbitrary: n s)
  case Nil
  then show ?case using progress_none by fastforce
next
  case (Cons st sts)
  obtain ob rest where rows: "outbox_rows (agent_db s) = ob # rest"
    using Cons.prems(3) by (cases "outbox_rows (agent_db s)") auto
  have hd: "os_message_id st = out_message_id ob"
    and tl: "map os_message_id sts = map out_message_id (take (length sts) rest)"
    using Cons.prems(3) rows by auto
  show ?case
  proof (cases "replay_check renv st")
    case (Inl e)
    then have "s' = s" "r = Err e" using Cons.prems(1) by (auto simp: ebind_def elift_def)
    then show ?thesis using progress_none [of s s] Cons.prems(2) by blast
  next
    case (Inr m)
    obtain x s1 where ra: "report_and_ack renv m s = (x, s1)" by (cases "report_and_ack renv m s")
    obtain k ms where p: "replay_progress s s1 k ms" "\<forall>u. x = Ok u \<longrightarrow> k = 1 \<and> ms = [m]"
      using report_and_ack_progress [OF ra Cons.prems(2) rows] replay_check_Ok(1) [OF Inr] hd by auto
    show ?thesis
    proof (cases x)
      case (Inl e)
      then have "s' = s1" "r = Err e" using Cons.prems(1) Inr ra by (auto simp: ebind_def elift_def)
      then show ?thesis using p by blast
    next
      case (Inr u)
      have b: "replay_batch renv sts (saturating_inc n) s1 = (r, s')"
        using Cons.prems(1) \<open>replay_check renv st = Ok m\<close> ra Inr by (auto simp: ebind_def elift_def)
      have p1: "replay_progress s s1 1 [m]" using p Inr by blast
      have d: "distinct (map out_message_id (outbox (agent_db s1)))"
        and rows1: "outbox_rows (agent_db s1) = rest"
        using p1 rows by (simp_all add: replay_progress_def)
      obtain k2 ms2 where p2: "replay_progress s1 s' k2 ms2"
        "\<forall>c. r = Ok c \<longrightarrow> k2 = length sts \<and> length ms2 = k2"
        using Cons.IH [OF b d] tl rows1 by auto
      have "replay_progress s s' (1 + k2) ([m] @ ms2)" by (rule progress_trans [OF p1 _ p2(1)]) simp
      then show ?thesis using p2(2) by (intro exI [of _ "1 + k2"] exI [of _ "[m] @ ms2"]) auto
    qed
  qed
qed


lemma read_batch_eq:
  "read_batch renv s = (map_err (\<lambda>e. Processing (StorageFailure e))
     (pending_outbound_statuses (env_storage (rt_env renv)) DEFAULT_OUTBOUND_STATUS_BATCH_SIZE (agent_db s)), s)"
  by (simp add: read_batch_def ebind_def egets_def elift_def)

text \<open>Every iteration that goes on removes a full batch, so the outbox bounds the iterations.\<close>

lemma replay_loop_returns:
  assumes "distinct (map out_message_id (outbox (agent_db s)))" "length (outbox (agent_db s)) < fuel"
  shows "\<exists>r s' k ms. replay_loop renv fuel n s = Some (r, s') \<and> replay_progress s s' k ms \<and>
    (\<forall>c. r = Ok c \<longrightarrow> k = length (outbox (agent_db s)) \<and> length ms = k)"
  using assms
proof (induction fuel arbitrary: n s)
  case (Suc fuel)
  let ?B = "DEFAULT_OUTBOUND_STATUS_BATCH_SIZE"
  show ?case
  proof (cases "pending_outbound_statuses (env_storage (rt_env renv)) ?B (agent_db s)")
    case (Inl e)
    then have "replay_loop renv (Suc fuel) n s = Some (Err (Processing (StorageFailure e)), s)"
      by (simp add: read_batch_eq)
    then show ?thesis using progress_none [OF refl refl Suc.prems(1)] by blast
  next
    case (Inr sts)
    have ids: "map os_message_id sts = map out_message_id (take ?B (outbox_rows (agent_db s)))"
      by (rule pending_outbound_rows(3) [OF Inr])
    have len: "length sts = min ?B (length (outbox (agent_db s)))"
      using arg_cong [OF ids, of length] by (simp add: min.commute)
    then have ids': "map os_message_id sts = map out_message_id (take (length sts) (outbox_rows (agent_db s)))"
      using ids by (simp add: min_def split: if_splits)
    obtain r s1 where b: "replay_batch renv sts n s = (r, s1)" by (cases "replay_batch renv sts n s")
    obtain k ms where p: "replay_progress s s1 k ms" "\<forall>c. r = Ok c \<longrightarrow> k = length sts \<and> length ms = k"
      using replay_batch_progress [OF b Suc.prems(1) ids'] by blast
    show ?thesis
    proof (cases "sts = []")
      case True
      then have "replay_loop renv (Suc fuel) n s = Some (Ok n, s)" using Inr by (simp add: read_batch_eq)
      moreover have "length (outbox (agent_db s)) = 0"
        using len True by (simp add: DEFAULT_OUTBOUND_STATUS_BATCH_SIZE_def min_def split: if_splits)
      ultimately show ?thesis using progress_none [OF refl refl Suc.prems(1)] by fastforce
    next
      case False
      show ?thesis
      proof (cases r)
        case (Inl e)
        then have "replay_loop renv (Suc fuel) n s = Some (Err e, s1)"
          using Inr False b by (simp add: read_batch_eq)
        then show ?thesis using p(1) by blast
      next
        case (Inr c)
        have k: "k = length sts" "length ms = k" using p(2) Inr by auto
        show ?thesis
        proof (cases "length sts < ?B")
          case True
          then have "replay_loop renv (Suc fuel) n s = Some (Ok c, s1)"
            using Inr \<open>_ = Ok sts\<close> False b by (simp add: read_batch_eq)
          moreover have "k = length (outbox (agent_db s))" using len True k by simp
          ultimately show ?thesis using p k by blast
        next
          case more: False
          have loop: "replay_loop renv (Suc fuel) n s = replay_loop renv fuel c s1"
            using Inr \<open>_ = Ok sts\<close> False b more by (simp add: read_batch_eq)
          have d: "distinct (map out_message_id (outbox (agent_db s1)))"
            and "outbox_rows (agent_db s1) = drop k (outbox_rows (agent_db s))"
            using p(1) by (auto simp: replay_progress_def)
          then have l1: "length (outbox (agent_db s1)) = length (outbox (agent_db s)) - k"
            by (metis length_drop outbox_rows_mset(2))
          have "0 < length sts" using False by simp
          then have kl: "0 < k" "k \<le> length (outbox (agent_db s))"
            unfolding k(1) len by linarith+
          then have "length (outbox (agent_db s1)) < fuel" using l1 Suc.prems(2) by simp
          then obtain r2 s2 k2 ms2 where q: "replay_loop renv fuel c s1 = Some (r2, s2)"
            "replay_progress s1 s2 k2 ms2"
            "\<forall>c. r2 = Ok c \<longrightarrow> k2 = length (outbox (agent_db s1)) \<and> length ms2 = k2"
            using Suc.IH [OF d] by blast
          show ?thesis
            using loop q progress_trans [OF p(1) k(2) q(2)] l1 k kl
            by (intro exI [of _ r2] exI [of _ s2] exI [of _ "k + k2"] exI [of _ "ms @ ms2"]) auto
        qed
      qed
    qed
  qed
qed simp

section \<open>One durable outcome per pending job\<close>

lemma durable_job_id: "outcome_durable env jid db out \<Longrightarrow> outcome_job_id out = jid"
  by (auto simp: outcome_durable_def split: ProcessOutcome.splits option.splits)

text \<open>
  The states a drain passes through: for each job, in order, what processing it gave and the state it
  was given in, before the next job is taken up.
\<close>

fun drain_run ::
  "('v, 'doc) penv \<Rightarrow> 'v StoredPrintJob list \<Rightarrow> Proc \<Rightarrow> ((JobProcessingError + ProcessOutcome) \<times> Proc) list" where
  "drain_run env [] s = []"
| "drain_run env (stored # rest) s = (case process_stored_job env stored s of
     (r, s1) \<Rightarrow> (r, s1) # drain_run env rest (snd ((refresh_pending env :: (Proc, JobProcessingError, unit) eff) s1)))"

lemma drain_run_length [simp]: "length (drain_run env jobs s) = length jobs"
  by (induction jobs arbitrary: s) (simp_all split: prod.split)

text \<open>The outcome was committed in the state it was given in, and nothing but steps of the repository follow.\<close>

definition committed ::
  "('v, 'doc) penv \<Rightarrow> PrintJobId \<Rightarrow> ProcessOutcome \<Rightarrow> SqliteStorage \<Rightarrow> SqliteStorage \<Rightarrow> bool" where
  "committed env jid out db db' \<longleftrightarrow> outcome_durable env jid db out \<and> (storage_step (env_storage env))\<^sup>*\<^sup>* db db'"

lemma process_jobs_durable:
  assumes "process_jobs env jobs s = (Ok outs, s')" "storage_ok (proc_db s)"
  shows "map fst (drain_run env jobs s) = map Ok outs \<and> (\<forall>i < length jobs.
    committed env (sj_id (jobs ! i)) (outs ! i) (proc_db (snd (drain_run env jobs s ! i))) (proc_db s'))"
  using assms
proof (induction jobs arbitrary: s outs)
  case (Cons st rest)
  obtain out s1 s2 outs1 where first: "process_stored_job env st s = (Ok out, s1)"
    and r: "(refresh_pending env :: (Proc, JobProcessingError, unit) eff) s1 = (Ok (), s2)"
    and tail: "process_jobs env rest s2 = (Ok outs1, s')" and outs: "outs = out # outs1"
    using Cons.prems(1) by (auto simp: ebind_Ok)
  have ref: "proc_db s2 = proc_db s1" using refresh_Ok [OF r] by blast
  have run1: "(storage_step (env_storage env))\<^sup>*\<^sup>* (proc_db s) (proc_db s1)"
    using preserves_snd [OF run_stored_job first] by (simp add: db_run_def)
  have run2: "(storage_step (env_storage env))\<^sup>*\<^sup>* (proc_db s1) (proc_db s')"
    using preserves_snd [OF run_process_jobs tail] ref by (simp add: db_run_def)
  have ok2: "storage_ok (proc_db s2)"
    using storage.good_run [OF run1 Cons.prems(2)] ref by simp
  have step: "drain_run env (st # rest) s = (Ok out, s1) # drain_run env rest s2" using first r by simp
  have d: "committed env (sj_id st) out (proc_db s1) (proc_db s')"
    using process_stored_job_durable [OF first Cons.prems(2)] run2 by (simp add: committed_def)
  show ?case
    using Cons.IH [OF tail ok2] d unfolding step outs by (auto simp: nth_Cons split: nat.split)
qed simp

lemma load_job_id: "load_job senv r = Ok st \<Longrightarrow> sj_id st = row_job_id r"
  by (auto simp: load_job_def and_then_Ok new_identifier_Ok)

lemma pending_ids:
  assumes "pending senv db = Ok jobs"
  shows "map sj_id jobs = map row_job_id (pending_rows db)"
proof -
  have l: "map (load_job senv) (pending_rows db) = map Ok jobs"
    using assms by (simp add: pending_def load_jobs_def all_ok_Ok)
  have len: "length jobs = length (pending_rows db)" using arg_cong [OF l, of length] by simp
  show ?thesis
  proof (rule nth_equalityI)
    fix i assume "i < length (map sj_id jobs)"
    then have i: "i < length jobs" "i < length (pending_rows db)" using len by simp_all
    have "load_job senv (pending_rows db ! i) = Ok (jobs ! i)"
      using arg_cong [OF l, of "\<lambda>xs. xs ! i"] i by simp
    then show "map sj_id jobs ! i = map row_job_id (pending_rows db) ! i"
      using load_job_id [of senv "pending_rows db ! i" "jobs ! i"] i by simp
  qed (use len in simp)
qed

lemma process_pending_durable:
  assumes "process_pending env s = (Ok outs, s')" "storage_ok (proc_db s)"
  shows "\<exists>jobs. pending (env_storage env) (proc_db s) = Ok jobs \<and>
    map sj_id jobs = map row_job_id (pending_rows (proc_db s)) \<and>
    map fst (drain_run env jobs s) = map Ok outs \<and> (\<forall>i < length jobs.
      committed env (sj_id (jobs ! i)) (outs ! i) (proc_db (snd (drain_run env jobs s ! i))) (proc_db s'))"
proof -
  obtain jobs where jobs: "pending (env_storage env) (proc_db s) = Ok jobs"
    and run: "process_jobs env jobs s = (Ok outs, s')"
    using assms(1) by (auto simp: process_pending_def load_pending_def ebind_Ok)
  show ?thesis using process_jobs_durable [OF run assms(2)] pending_ids [OF jobs] jobs by blast
qed

section \<open>Deliveries\<close>

lemma receive_not_inserted:
  assumes "receive_print_job env m s = (Ok out, s')" "\<not> was_inserted out"
  shows "proc_db s' = proc_db s"
proof -
  obtain job payload result s1 where ins: "insert_received (env_storage env) \<lparr>rj_id = job_id job,
       rj_idempotency_key = idempotency_key job, rj_printer_id = printer_id job, rj_payload = payload,
       rj_source_message_id = sm_message_id m,
       rj_received_at = env_clock env (proc_tick s)\<rparr> (proc_db s) = Ok (result, proc_db s')"
    and res: "receive_result env (sm_message_id m) job (job_id job) (env_clock env (proc_tick s)) result s1 = (Ok out, s')"
    using receive_print_job_Ok [OF assms(1)] by metis
  have "result \<noteq> Inserted"
    using res assms(2) by (auto simp: receive_result_def ebind_Ok)
  with ins show ?thesis by (cases rule: insert_received_cases) auto
qed

lemma report_db: "report renv m s = (r, s') \<Longrightarrow> agent_db s' = agent_db s"
  by (cases r) (auto simp: report_Ok report_Err)

text \<open>A delivery that is not new changes nothing, prints nothing and is at most acknowledged.\<close>

lemma handle_redelivery:
  assumes "receive_print_job (rt_env renv) m (ag_proc s) = (Ok receipt, p)" "\<not> was_inserted receipt"
    and "handle_print_job renv m s = (r, s')"
  shows "agent_db s' = agent_db s \<and> (\<forall>flow. r = Ok flow \<longrightarrow> flow_outcomes flow = [] \<and>
    ag_sent s' = ag_sent s @ (case acknowledgement receipt of None \<Rightarrow> [] | Some a \<Rightarrow> [a]))"
proof -
  have db: "proc_db p = agent_db s" using receive_not_inserted [OF assms(1,2)] by simp
  have "ebind (case acknowledgement receipt of Some a \<Rightarrow> report renv a | None \<Rightarrow> eret ())
      (\<lambda>_. eret \<lparr>flow_receipt = receipt, flow_outcomes = []\<rparr>) (s\<lparr>ag_proc := p\<rparr>) = (r, s')"
    using assms unfolding handle_print_job_def on_proc_def by (simp add: ebind_def emap_err_def lift_proc_def)
  then show ?thesis
    using db by (cases r; cases "acknowledgement receipt")
      (auto simp: ebind_Ok ebind_Err report_Ok report_Err)
qed

text \<open>A new job is not claimed before its receipt was accepted by the transport.\<close>

lemma handle_unreported_receipt:
  assumes "receive_print_job (rt_env renv) m (ag_proc s) = (Ok receipt, p)" "acknowledgement receipt = Some a"
    and "rt_report renv (proc_tick p) a = Err e"
  shows "handle_print_job renv m s = (Err (Reporting a e), s\<lparr>ag_proc := tick p\<rparr>)"
  using assms by (simp add: handle_print_job_def ebind_def on_proc_def emap_err_def lift_proc_def report_def)

lemma received_is_received:
  assumes "receive_print_job env m s = (Ok (ReceiveInserted a), s')"
  shows "\<exists>job. sm_kind m = ServerPrintJobMsg job \<and> state_of (proc_db s') (job_id job) = Some Received"
proof -
  obtain job payload result s1 where kind: "sm_kind m = ServerPrintJobMsg job"
    and ins: "insert_received (env_storage env) \<lparr>rj_id = job_id job,
       rj_idempotency_key = idempotency_key job, rj_printer_id = printer_id job, rj_payload = payload,
       rj_source_message_id = sm_message_id m,
       rj_received_at = env_clock env (proc_tick s)\<rparr> (proc_db s) = Ok (result, proc_db s')"
    and res: "receive_result env (sm_message_id m) job (job_id job) (env_clock env (proc_tick s)) result s1
      = (Ok (ReceiveInserted a), s')"
    using receive_print_job_Ok [OF assms] by metis
  have "result = Inserted"
    using res by (cases result) (auto simp: receive_result_def ebind_Ok)
  with ins show ?thesis
    using kind by (cases rule: insert_received_cases) (auto simp: state_of_def job_by_id_def find_append)
qed

section \<open>Reports that cannot be replayed\<close>

text \<open>
  A persisted job whose payload names another job is failed with a report that names the payload's
  job, under the row's identity: the check of the replay refuses it.
\<close>

lemma mismatch_report_refused:
  assumes "persist_failure env st job f s = (Ok (OutcomeFailed j (Some m)), s')" "job_id job \<noteq> sj_id st"
  shows "\<exists>reason. validate_outbound_status (am_message_id m) (sj_id st) m = Err reason"
proof -
  obtain t s2 where "failed_message env job (sj_source_message_id st) t (recovery_aware_failure st f) (tick s) = (Ok m, s2)"
    using persist_failure_Ok [OF assms(1)] by (metis ProcessOutcome.inject(2) option.inject)
  then have "\<exists>p. am_kind m = AgentJobFailedMsg p \<and> jf_job_id p = job_id job"
    using agent_message_Ok(1) unfolding failed_message_def by fastforce
  then show ?thesis using assms(2) by (auto simp: validate_outbound_status_def reject_if_def)
qed

end
