(* ===== verification/Sample_Values.thy ===== *)
theory Sample_Values
  imports Agent_Runtime_Laws
begin

text \<open>
  A small concrete configuration on which the properties are exercised: one receipt job, one
  driver-mode queue, a codec that writes identifiers, and a backend that accepts everything.
\<close>

definition sample_job :: PrintJob where
  "sample_job = \<lparr>job_id = lit ''j1'', idempotency_key = lit ''k1'', printer_id = lit ''p1'',
     created_at = lit ''2024-01-01T00:00:00Z'',
     document = ReceiptJob \<lparr>doc_width = Mm80, doc_sections = [CutSection]\<rparr>, metadata = None\<rparr>"

definition sample_message :: ServerMessage where
  "sample_message = \<lparr>sm_protocol_version = V1, sm_message_id = lit ''m1'',
     sm_sent_at = lit ''2024-01-01T00:00:00Z'', sm_correlation_id = None,
     sm_kind = ServerPrintJobMsg sample_job\<rparr>"

definition sample_printer :: PrinterRef where
  "sample_printer = \<lparr>pr_id = lit ''p1'', pr_display_name = lit ''Desk'',
     pr_connection = SystemQueue (lit ''q''), pr_submission_mode = Driver,
     pr_virtual_profile = None, pr_enabled = True\<rparr>"

definition sample_receipt :: SubmissionReceipt where
  "sample_receipt = \<lparr>sr_backend_job_id = None, sr_backend = lit ''spool'', sr_accepted_at = 0,
     sr_metadata = []\<rparr>"

definition sample_storage_env :: "ustring senv" where
  "sample_storage_env = \<lparr>json_text = Some, json_parse = Some, digest = (\<lambda>s. s), millis_ok = (\<lambda>_. True)\<rparr>"

definition sample_env :: "(ustring, unit) penv" where
  "sample_env = \<lparr>env_storage = sample_storage_env, env_to_value = (\<lambda>j. Some (job_id j)),
     env_from_value = (\<lambda>_. Ok sample_job), env_message_value = (\<lambda>m. Some (am_message_id m)),
     env_clock = (\<lambda>n. 0), env_uuid = (\<lambda>_. lit ''u''), env_rfc3339 = (\<lambda>_. lit ''2024-01-01T00:00:00Z''),
     env_resolve = (\<lambda>_ _. Ok (Some sample_printer)), env_render = (\<lambda>_ _. Ok ()),
     env_render_pdf = (\<lambda>_ _. Ok ()), env_join_error = (\<lambda>_. None), env_fetch = None,
     env_spoolers = (\<lambda>_. [KindSystemQueue \<mapsto> (\<lambda>_ _. Ok sample_receipt)]),
     env_cancel_during = (\<lambda>_. False), env_resolution_text = (\<lambda>_. []), env_renderer_text = (\<lambda>_. []),
     env_fetch_text = (\<lambda>_. []), env_spooler_text = (\<lambda>_. [])\<rparr>"

definition sample_db :: SqliteStorage where
  "sample_db = empty_database\<lparr>max_pending := 2, max_terminal := 2\<rparr>"

definition sample_proc :: Proc where
  "sample_proc = \<lparr>proc_db = sample_db, proc_handle = AgentHandle_new AgentSnapshot_default,
     proc_active = Map.empty, proc_tick = 0\<rparr>"

lemma sample_open: "open_with_limits \<lparr>lim_max_pending_jobs = 2, lim_max_terminal_jobs = 2\<rparr> empty_database = Ok sample_db"
  by (simp add: open_with_limits_def validate_limits_def reject_if_def maintain_terminal_jobs_def
      enforce_terminal_retention_def empty_database_def sample_db_def Let_def count_jobs_def)

lemma sample_storage_ok: "storage_ok sample_db"
  by (simp add: storage_ok_def sample_db_def empty_database_def ids_ok_def outbox_ok_def count_jobs_def)

lemma sample_proc_ok: "proc_ok sample_proc"
  by (simp add: proc_ok_def sample_proc_def sample_storage_ok)

lemma sample_timestamp: "validate_timestamp (lit ''2024-01-01T00:00:00Z'') p = Ok ()"
  by (simp add: validate_timestamp_def lit_def utf8_bytes_def utf8_encode_def valid_timestamp_ranges_def
      two_digits_def within_def list_get_def is_ascii_digit_def Let_def)

lemma sample_shapes [simp]:
  "identifier_shape 128 (lit ''j1'')" "identifier_shape 128 (lit ''p1'')" "identifier_shape 128 (lit ''m1'')"
  "utf16_count (lit ''k1'') = 2"
  by (simp_all add: identifier_eval)

lemma sample_document: "PrintDocument_validate \<lparr>doc_width = Mm80, doc_sections = [CutSection]\<rparr> = Ok ()"
  by (simp add: PrintDocument_validate_def first_err_Ok MAX_DOCUMENT_SECTIONS_def)

lemma sample_job_valid: "PrintJob_validate sample_job = Ok ()"
  by (simp add: PrintJob_validate_def sample_job_def first_err_Ok wire_checks sample_timestamp sample_document
      if_some_Ok)

lemma sample_message_valid: "ServerMessage_validate sample_message = Ok ()"
  using sample_job_valid
  by (simp add: ServerMessage_validate_def sample_message_def first_err_Ok wire_checks validate_envelope_def
      sample_timestamp ServerMessageKind_validate_def required_server_version_def if_some_Ok sample_job_def BASE_def)

lemmas run_eval = ebind_def emap_err_def elift_def eret_def egets_def ecase_def emodify_def reading_def publish_def
  tick_def store_op_def set_active_def refresh_pending_def

definition sample_row :: job_row where
  "sample_row = \<lparr>row_job_id = lit ''j1'', row_key = lit ''k1'', row_printer_id = lit ''p1'',
     row_payload_json = lit ''j1'', row_state = Received, row_received_at = 0, row_updated_at = 0,
     row_retry_attempts = 0, row_recovery_count = 0, row_receipt = None, row_error = None,
     row_source_message_id = lit ''m1'', row_payload_sha256 = lit ''j1''\<rparr>"

lemma sample_keys [simp]:
  "validate_key f (lit ''k1'') 256 = Ok ()" "validate_key f (lit ''m1'') 128 = Ok ()"
  "validate_key f (lit ''msg_u'') 128 = Ok ()"
  by (simp_all add: validate_key_def lit_def trim_def trim_start_def trim_end_def is_whitespace_def is_control_def
      reject_if_def utf8_len_def)

lemma sample_bytes [simp]: "byte_len (lit ''j1'') = 2" "byte_len (lit ''msg_u'') = 5"
  by (simp_all add: lit_def utf8_len_def)

lemma sample_ids [simp]:
  "new_identifier (lit ''j1'') = Ok (lit ''j1'')" "new_identifier (lit ''p1'') = Ok (lit ''p1'')"
  using identifier_shape_local [of 128 "lit ''j1''"] identifier_shape_local [of 128 "lit ''p1''"]
  by (simp_all add: new_identifier_Ok)

lemma sample_shape [simp]: "identifier_shape 128 (lit ''msg_u'')"
  by (simp add: identifier_eval)

lemma sample_insert:
  "insert_received sample_storage_env \<lparr>rj_id = lit ''j1'', rj_idempotency_key = lit ''k1'',
     rj_printer_id = lit ''p1'', rj_payload = lit ''j1'', rj_source_message_id = lit ''m1'', rj_received_at = 0\<rparr>
     sample_db = Ok (Inserted, sample_db\<lparr>print_jobs := [sample_row]\<rparr>)"
  by (simp add: insert_received_def bounded_json_def sample_storage_env_def payload_fingerprint_def
      job_by_id_def job_by_key_def sample_db_def empty_database_def count_jobs_def received_row_def
      sample_row_def timestamp_millis_def reject_if_def MAX_JOB_PAYLOAD_BYTES_def)

definition sample_ack :: AgentMessage where
  "sample_ack = \<lparr>am_protocol_version = V1, am_message_id = lit ''msg_u'', am_sent_at = lit ''2024-01-01T00:00:00Z'',
     am_correlation_id = Some (lit ''m1''), am_kind = AgentJobReceivedMsg \<lparr>jr_job_id = lit ''j1'',
       jr_idempotency_key = lit ''k1'', jr_status = StatusReceived, jr_received_at = lit ''2024-01-01T00:00:00Z''\<rparr>\<rparr>"

lemma sample_ack_valid: "AgentMessage_validate sample_ack = Ok ()"
  by (simp add: AgentMessage_validate_def sample_ack_def first_err_Ok wire_checks validate_envelope_def
      sample_timestamp AgentMessageKind_validate_def required_version_def if_some_Ok BASE_def
      JobReceived_validate_def validate_job_identity_def validate_expected_status_def)


lemma sample_env_simps [simp]:
  "env_storage sample_env = sample_storage_env" "env_to_value sample_env j = Some (job_id j)"
  "env_from_value sample_env v = Ok sample_job" "env_message_value sample_env m = Some (am_message_id m)"
  "env_clock sample_env n = 0" "env_uuid sample_env n = lit ''u''"
  "env_rfc3339 sample_env t = lit ''2024-01-01T00:00:00Z''"
  "env_resolve sample_env n pid = Ok (Some sample_printer)" "env_render sample_env d target = Ok ()"
  "env_spoolers sample_env n = [KindSystemQueue \<mapsto> (\<lambda>_ _. Ok sample_receipt)]"
  "env_cancel_during sample_env n = False"
  by (simp_all add: sample_env_def)

lemma sample_prefix [simp]: "lit ''msg_'' @ lit ''u'' = lit ''msg_u''"
  by (simp add: lit_def)

lemma sample_job_simps [simp]:
  "job_id sample_job = lit ''j1''" "idempotency_key sample_job = lit ''k1''" "printer_id sample_job = lit ''p1''"
  "document sample_job = ReceiptJob \<lparr>doc_width = Mm80, doc_sections = [CutSection]\<rparr>"
  by (simp_all add: sample_job_def)

lemma sample_ack_run:
  "received_message sample_env sample_job (lit ''m1'') t s = (Ok sample_ack, tick (tick s))"
  using sample_ack_valid
  by (simp add: received_message_def agent_message_def run_eval required_version_def BASE_def sample_ack_def)

lemma sample_receive:
  "\<exists>s'. receive_print_job sample_env sample_message sample_proc = (Ok (ReceiveInserted sample_ack), s') \<and>
     proc_db s' = sample_db\<lparr>print_jobs := [sample_row]\<rparr> \<and> proc_active s' = Map.empty"
proof -
  have "sm_kind sample_message = ServerPrintJobMsg sample_job" "sm_message_id sample_message = lit ''m1''"
    by (simp_all add: sample_message_def)
  moreover obtain s1 where "store_op sample_env (\<lambda>_. insert_received sample_storage_env \<lparr>rj_id = lit ''j1'',
      rj_idempotency_key = lit ''k1'', rj_printer_id = lit ''p1'', rj_payload = lit ''j1'',
      rj_source_message_id = lit ''m1'', rj_received_at = 0\<rparr>) (tick sample_proc) = (Ok Inserted, s1)"
     "proc_db s1 = sample_db\<lparr>print_jobs := [sample_row]\<rparr>" "proc_active s1 = Map.empty"
    using sample_insert by (simp add: store_op_def sample_proc_def tick_def)
  moreover obtain s2 where "receive_result sample_env (lit ''m1'') sample_job (lit ''j1'') 0 Inserted s1
      = (Ok (ReceiveInserted sample_ack), s2)"
    by (simp add: receive_result_def ebind_def publish_def emodify_def refresh_pending_def emap_err_def sample_ack_run eret_def)
  moreover from this have "proc_db s2 = proc_db s1 \<and> proc_active s2 = proc_active s1"
    by (rule quietD [OF quiet_receive_result])
  ultimately show ?thesis
    using sample_message_valid sample_job_valid
    by (simp add: receive_print_job_def receive_insert_def ebind_def emap_err_def elift_def reading_def)
qed


definition sample_stored :: "ustring StoredPrintJob" where
  "sample_stored = \<lparr>sj_id = lit ''j1'', sj_idempotency_key = lit ''k1'', sj_printer_id = lit ''p1'',
     sj_payload = lit ''j1'', sj_source_message_id = lit ''m1'', sj_state = Received, sj_received_at = 0,
     sj_updated_at = 0, sj_retry_attempts = 0, sj_recovery_count = 0, sj_receipt = None, sj_error = None\<rparr>"

lemma sample_pending: "pending sample_storage_env (sample_db\<lparr>print_jobs := [sample_row]\<rparr>) = Ok [sample_stored]"
  by (simp add: pending_def pending_rows_def load_jobs_def load_job_def sample_row_def sample_stored_def
      sample_storage_env_def timestamp_from_millis_def reject_if_def parse_state_def)

lemma sample_printer_valid: "PrinterRef_validate sample_printer = Ok ()"
  by (simp add: PrinterRef_validate_def sample_printer_def validate_text_def first_err_Ok
      PrinterConnection_validate_def lit_def trim_def trim_start_def trim_end_def is_whitespace_def
      MAX_PRINTER_NAME_BYTES_def utf8_len_def reject_if_def)

lemma sample_prepare:
  "prepare_job sample_env sample_stored sample_job s = (Ok (sample_printer, ()), tick s)"
  using sample_job_valid
  by (simp add: prepare_job_def validate_persisted_job_def sample_stored_def resolve_enabled_printer_def
      render_job_def render_receipt_def printer_render_target_def sample_printer_def reject_if_def
      ebind_def elift_def eret_def reading_def tick_def)

definition sample_claimed_row :: job_row where
  "sample_claimed_row = sample_row\<lparr>row_state := Submitting, row_retry_attempts := 1\<rparr>"

lemma sample_claim:
  assumes "proc_db s = sample_db\<lparr>print_jobs := [sample_row]\<rparr>"
  shows "\<exists>s'. submit_claim sample_env (lit ''j1'') s = (Ok None, s') \<and>
    proc_db s' = sample_db\<lparr>print_jobs := [sample_claimed_row]\<rparr> \<and>
    proc_active s' = (proc_active s)(lit ''j1'' \<mapsto> False)"
  using assms
  by (simp add: submit_claim_def run_eval mark_submitting_def transition_def now_millis_def timestamp_millis_def
      job_by_id_def sample_row_def reject_if_def insert_status_def update_job_def transition_row_def
      sample_claimed_row_def Let_def)

lemma sample_spool:
  "\<exists>s'. submit_spool sample_env (lit ''j1'') sample_printer () s = (Ok (Ok sample_receipt), s') \<and>
    proc_db s' = proc_db s \<and> proc_active s' = proc_active s"
  using sample_printer_valid
  by (simp add: submit_spool_def run_eval SpoolerRegistry_submit_def sample_printer_def reject_if_def)

definition sample_report :: AgentMessage where
  "sample_report = \<lparr>am_protocol_version = V1, am_message_id = lit ''msg_u'', am_sent_at = lit ''2024-01-01T00:00:00Z'',
     am_correlation_id = Some (lit ''m1''), am_kind = AgentJobSubmittedMsg \<lparr>js_job_id = lit ''j1'',
       js_idempotency_key = lit ''k1'', js_printer_id = lit ''p1'', js_status = StatusSubmitted,
       js_submitted_at = lit ''2024-01-01T00:00:00Z''\<rparr>\<rparr>"

lemma sample_report_valid: "AgentMessage_validate sample_report = Ok ()"
  by (simp add: AgentMessage_validate_def sample_report_def first_err_Ok wire_checks validate_envelope_def
      sample_timestamp AgentMessageKind_validate_def required_version_def if_some_Ok BASE_def
      JobSubmitted_validate_def validate_job_identity_def validate_expected_status_def)

lemma sample_report_run:
  "submitted_message sample_env sample_job (lit ''m1'') t s = (Ok sample_report, tick (tick s))"
  using sample_report_valid
  by (simp add: submitted_message_def agent_message_def run_eval required_version_def BASE_def sample_report_def)

lemma sample_outbound:
  "outbound_status sample_env (lit ''j1'') sample_report s = (Ok \<lparr>os_message_id = lit ''msg_u'', os_job_id = lit ''j1'',
     os_payload = lit ''msg_u'', os_created_at = 0\<rparr>, tick s)"
  by (simp add: outbound_status_def sample_report_def run_eval)

definition sample_done_db :: SqliteStorage where
  "sample_done_db = sample_db\<lparr>print_jobs := [sample_row\<lparr>row_payload_json := lit ''null'', row_state := Submitted,
       row_retry_attempts := 1, row_receipt := Some sample_receipt\<rparr>],
     outbox := [\<lparr>out_message_id = lit ''msg_u'', out_job_id = lit ''j1'', out_payload_json = lit ''msg_u'', out_created_at = 0\<rparr>]\<rparr>"

lemma sample_mark:
  "mark_submitted_with_status sample_storage_env (lit ''j1'') sample_receipt \<lparr>os_message_id = lit ''msg_u'',
     os_job_id = lit ''j1'', os_payload = lit ''msg_u'', os_created_at = 0\<rparr> 0
     (sample_db\<lparr>print_jobs := [sample_claimed_row]\<rparr>) = Ok ((), sample_done_db)"
  by (simp add: mark_submitted_with_status_def prepare_outbound_status_def bounded_json_def reject_if_def
      MAX_OUTBOUND_STATUS_BYTES_def sample_storage_env_def transition_def now_millis_def timestamp_millis_def
      job_by_id_def sample_claimed_row_def sample_row_def insert_status_def insert_outbox_def update_job_def
      transition_row_def enforce_terminal_retention_def prune_payload_def count_jobs_def Let_def
      sample_done_db_def sample_db_def empty_database_def)


lemma sample_process:
  assumes "proc_db s = sample_db\<lparr>print_jobs := [sample_row]\<rparr>"
  shows "\<exists>s'. process_stored_job sample_env sample_stored s = (Ok (OutcomeSubmitted (lit ''j1'') sample_report), s') \<and>
    proc_db s' = sample_done_db"
proof -
  have st: "sj_id sample_stored = lit ''j1''" "sj_source_message_id sample_stored = lit ''m1''"
    by (simp_all add: sample_stored_def)
  obtain s1 where claim: "submit_claim sample_env (lit ''j1'') (tick s) = (Ok None, s1)"
    "proc_db s1 = sample_db\<lparr>print_jobs := [sample_claimed_row]\<rparr>"
    using sample_claim [of "tick s"] assms by auto
  obtain s2 where spool: "submit_spool sample_env (lit ''j1'') sample_printer () s1 = (Ok (Ok sample_receipt), s2)"
    "proc_db s2 = proc_db s1"
    using sample_spool by blast
  have "\<exists>s'. submit_conclude sample_env sample_stored sample_job (Ok sample_receipt) s2 =
      (Ok (OutcomeSubmitted (lit ''j1'') sample_report), s') \<and> proc_db s' = sample_done_db"
    using sample_mark claim(2) spool(2)
    by (simp add: submit_conclude_def st ebind_def emap_err_def sample_report_run sample_outbound store_op_def
        publish_def emodify_def eret_def)
  then obtain s3 where "submit_finish sample_env sample_stored sample_job (Ok sample_receipt) s2 =
      (Ok (OutcomeSubmitted (lit ''j1'') sample_report), s3) \<and> proc_db s3 = sample_done_db"
    by (auto simp: submit_finish_def ecase_def ebind_def set_active_def emodify_def elift_def)
  then show ?thesis
    using claim spool by (simp add: process_stored_job_def ecase_def sample_prepare submit_def ebind_def st)
qed

lemma sample_drain:
  assumes "proc_db s = sample_db\<lparr>print_jobs := [sample_row]\<rparr>"
  shows "\<exists>s'. process_pending sample_env s = (Ok [OutcomeSubmitted (lit ''j1'') sample_report], s') \<and>
    proc_db s' = sample_done_db"
proof -
  obtain s1 where "process_stored_job sample_env sample_stored s = (Ok (OutcomeSubmitted (lit ''j1'') sample_report), s1)"
    "proc_db s1 = sample_done_db"
    using sample_process [OF assms] by blast
  then show ?thesis
    using sample_pending assms
    by (simp add: process_pending_def load_pending_def ebind_def egets_def emap_err_def elift_def
        refresh_pending_def emodify_def eret_def split: sum.splits)
qed

lemma sample_row_ok: "storage_ok (sample_db\<lparr>print_jobs := [sample_row]\<rparr>)"
  using storage_step_ok [OF step_insert [OF sample_insert] sample_storage_ok] .

end
