(* ===== verification/Storage_Properties.thy ===== *)
theory Storage_Properties
  imports Sample_Values
begin

text \<open>
  The properties of the repository: its invariant over every reachable database, the fate of an
  accepted job, recognition of redeliveries, recovery and retention.
\<close>

lemma step_limits: "storage_step env db db' \<Longrightarrow> max_pending db' = max_pending db \<and> max_terminal db' = max_terminal db"
proof (erule storage_step_cases)
  fix job res assume "insert_received env job db = Ok (res, db')"
  then show ?thesis by (cases rule: insert_received_cases) auto
next
  fix jid q assume "job_transition db db' jid q"
  then obtain rc e st clock u where "transition jid q rc e st clock db = Ok (u, db')"
    unfolding job_transition_def by blast
  then show ?thesis
    by (rule transition_OkE) (auto simp: insert_status_Ok update_job_def split: option.splits if_splits)
qed (auto simp: same_jobs_def maintain_terminal_jobs_def dest: acknowledge_Ok elim: recover_OkE)

lemma run_limits: "(storage_step env)\<^sup>*\<^sup>* db db' \<Longrightarrow> max_pending db' = max_pending db \<and> max_terminal db' = max_terminal db"
  by (induction rule: rtranclp_induct) (auto dest: step_limits)

text \<open>C4: In every database reachable from a fresh one, whatever calls succeeded in whatever order,
  identities and keys are unique, every unacknowledged report belongs to a retained terminal job,
  terminal payloads are pruned, and both queues respect the configured limits.\<close>

theorem repository_invariant:
  assumes "open_with_limits limits empty_database = Ok db0" "(storage_step env)\<^sup>*\<^sup>* db0 db"
  shows "storage_ok db \<and> count_jobs is_live db \<le> lim_max_pending_jobs limits \<and>
    count_jobs is_terminal db \<le> lim_max_terminal_jobs limits"
proof -
  have ok: "storage_ok db"
    using storage.good_run [OF assms(2)] open_storage_ok [OF assms(1)] by blast
  have "max_pending db0 = lim_max_pending_jobs limits" "max_terminal db0 = lim_max_terminal_jobs limits"
    using assms(1) by (auto simp: open_with_limits_def and_then_Ok maintain_terminal_jobs_def)
  then show ?thesis using ok run_limits [OF assms(2)] by (auto simp: storage_ok_def)
qed

theorem repository_invariant_witness:
  "storage_ok (sample_db\<lparr>print_jobs := [sample_row]\<rparr>) \<and>
   count_jobs is_live (sample_db\<lparr>print_jobs := [sample_row]\<rparr>) \<le> 2"
proof -
  have "(storage_step sample_storage_env)\<^sup>*\<^sup>* sample_db (sample_db\<lparr>print_jobs := [sample_row]\<rparr>)"
    by (rule r_into_rtranclp) (rule step_insert [OF sample_insert])
  from repository_invariant [OF sample_open this] show ?thesis by simp
qed

text \<open>C1: An accepted job is never lost: at every later point its row is there, or it reached a
  terminal state before the row was dropped.\<close>

theorem accepted_job_never_lost:
  assumes "insert_received env job db0 = Ok (Inserted, db1)" "storage_ok db0" "(storage_step env)\<^sup>*\<^sup>* db1 db"
  shows "state_of db (rj_id job) \<noteq> None \<or>
    (\<exists>mid t. (storage_step env)\<^sup>*\<^sup>* db1 mid \<and> (storage_step env)\<^sup>*\<^sup>* mid db \<and>
       state_of mid (rj_id job) = Some t \<and> is_terminal t)"
proof -
  have ok: "storage_ok db1" using storage_step_ok [OF step_insert [OF assms(1)] assms(2)] .
  have "state_of db1 (rj_id job) = Some Received"
    using assms(1) by (cases rule: insert_received_cases) (auto simp: state_of_def job_by_id_def find_append)
  then show ?thesis by (rule storage.never_lost [OF assms(3) ok])
qed

theorem accepted_job_never_lost_witness:
  "\<exists>db. (storage_step sample_storage_env)\<^sup>*\<^sup>* (sample_db\<lparr>print_jobs := [sample_row]\<rparr>) db \<and>
     (state_of db (lit ''j1'') \<noteq> None \<or> (\<exists>mid t. (storage_step sample_storage_env)\<^sup>*\<^sup>* (sample_db\<lparr>print_jobs := [sample_row]\<rparr>) mid \<and>
       (storage_step sample_storage_env)\<^sup>*\<^sup>* mid db \<and> state_of mid (lit ''j1'') = Some t \<and> is_terminal t))"
  using accepted_job_never_lost [OF sample_insert sample_storage_ok rtranclp.rtrancl_refl] by auto

text \<open>C38: An outcome is final: while its row is retained, a submitted, failed or cancelled job keeps
  that state through every later operation.\<close>

theorem outcome_final:
  assumes "(\<lambda>a b. storage_step env a b \<and> state_of b j \<noteq> None)\<^sup>*\<^sup>* db db'" "storage_ok db"
    and "state_of db j = Some s" "is_terminal s"
  shows "state_of db' j = Some s"
  using storage.outcome_stable [OF assms] by blast

lemma sample_done_ok: "storage_ok sample_done_db"
proof -
  have c: "storage_ok (sample_db\<lparr>print_jobs := [sample_claimed_row]\<rparr>)"
  proof -
    obtain p where "submit_claim sample_env (lit ''j1'') (sample_proc\<lparr>proc_db := sample_db\<lparr>print_jobs := [sample_row]\<rparr>\<rparr>) = (Ok None, p)"
        "proc_db p = sample_db\<lparr>print_jobs := [sample_claimed_row]\<rparr>"
      using sample_claim [of "sample_proc\<lparr>proc_db := sample_db\<lparr>print_jobs := [sample_row]\<rparr>\<rparr>"] by auto
    then show ?thesis
      using run_storage_ok [OF preserves_snd [OF run_claim], of sample_env "lit ''j1''"] sample_row_ok by fastforce
  qed
  show ?thesis by (rule storage_step_ok [OF step_submitted_status [OF sample_mark] c])
qed

lemma sample_done_state: "state_of sample_done_db (lit ''j1'') = Some Submitted"
  by (simp add: state_of_def job_by_id_def sample_done_db_def sample_row_def)

lemma sample_acknowledge:
  "acknowledge_outbound_status (lit ''msg_u'') sample_done_db = Ok (True, sample_done_db\<lparr>outbox := []\<rparr>)"
  by (simp add: acknowledge_outbound_status_def sample_done_db_def)

theorem outcome_final_witness: "state_of (sample_done_db\<lparr>outbox := []\<rparr>) (lit ''j1'') = Some Submitted"
proof (rule outcome_final [of sample_storage_env _ sample_done_db])
  show "(\<lambda>a b. storage_step sample_storage_env a b \<and> state_of b (lit ''j1'') \<noteq> None)\<^sup>*\<^sup>* sample_done_db (sample_done_db\<lparr>outbox := []\<rparr>)"
    using step_acknowledge [OF sample_acknowledge] sample_done_state by (intro r_into_rtranclp) simp
qed (simp_all add: sample_done_ok sample_done_state)


text \<open>C3: At-least-once delivery is idempotent: while the row of an accepted job is retained, whatever
  happened to the job and whether or not its payload was pruned, delivering the same job again, in an
  envelope of its own and at another time, is recognised as a duplicate and changes nothing.\<close>

theorem redelivery_idempotent:
  assumes "json_roundtrip env" "storage_ok db0" "insert_received env job db0 = Ok (Inserted, db1)"
    and "(\<lambda>a b. storage_step env a b \<and> state_of b (rj_id job) \<noteq> None)\<^sup>*\<^sup>* db1 db"
    and "validate_key (lit ''source message id'') m 128 = Ok ()"
  shows "\<exists>s. state_of db (rj_id job) = Some s \<and>
    insert_received env (job\<lparr>rj_source_message_id := m, rj_received_at := t\<rparr>) db = Ok (DuplicateJob s, db)"
  using redelivery_run [OF assms] by (simp add: redelivered_def)

lemma sample_submitting:
  "mark_submitting (lit ''j1'') 0 (sample_db\<lparr>print_jobs := [sample_row]\<rparr>) =
     Ok ((), sample_db\<lparr>print_jobs := [sample_claimed_row]\<rparr>)"
  by (simp add: mark_submitting_def transition_def now_millis_def timestamp_millis_def job_by_id_def sample_row_def
      reject_if_def insert_status_def update_job_def transition_row_def sample_claimed_row_def Let_def)

text \<open>
  The job was claimed and submitted, its payload is pruned to \<open>null\<close>, and it is delivered again in another
  message, nine milliseconds later.
\<close>

theorem redelivery_idempotent_witness:
  "map row_payload_json (print_jobs sample_done_db) = [lit ''null''] \<and>
   insert_received sample_storage_env \<lparr>rj_id = lit ''j1'', rj_idempotency_key = lit ''k1'',
     rj_printer_id = lit ''p1'', rj_payload = lit ''j1'', rj_source_message_id = lit ''msg_u'', rj_received_at = 9\<rparr>
     sample_done_db = Ok (DuplicateJob Submitted, sample_done_db)"
proof -
  let ?job = "\<lparr>rj_id = lit ''j1'', rj_idempotency_key = lit ''k1'', rj_printer_id = lit ''p1'',
    rj_payload = lit ''j1'', rj_source_message_id = lit ''m1'', rj_received_at = 0\<rparr>"
  let ?R = "\<lambda>a b. storage_step sample_storage_env a b \<and> state_of b (rj_id ?job) \<noteq> None"
  have claimed: "?R (sample_db\<lparr>print_jobs := [sample_row]\<rparr>) (sample_db\<lparr>print_jobs := [sample_claimed_row]\<rparr>)"
    using step_submitting [OF sample_submitting]
    by (simp add: state_of_def job_by_id_def sample_claimed_row_def sample_row_def)
  have submitted: "?R (sample_db\<lparr>print_jobs := [sample_claimed_row]\<rparr>) sample_done_db"
    using step_submitted_status [OF sample_mark] sample_done_state by simp
  have run: "?R\<^sup>*\<^sup>* (sample_db\<lparr>print_jobs := [sample_row]\<rparr>) sample_done_db"
    by (rule converse_rtranclp_into_rtranclp [of ?R, OF claimed]) (rule r_into_rtranclp [of ?R, OF submitted])
  have json: "json_roundtrip sample_storage_env" by (simp add: json_roundtrip_def sample_storage_env_def)
  have "validate_key (lit ''source message id'') (lit ''msg_u'') 128 = Ok ()" by simp
  from redelivery_idempotent [OF json sample_storage_ok sample_insert run this, of 9]
  show ?thesis using sample_done_state by (auto simp: sample_done_db_def)
qed

text \<open>Recovery puts exactly the interrupted submissions back in the queue: no job is left claimed,
  every other job keeps its state, and the two reported counts are the rows concerned.\<close>

theorem recovery_requeues:
  assumes "recover_interrupted env clock db = Ok (rr, db')"
  shows "state_of db' j = map_option (\<lambda>s. if s = Submitting then Received else s) (state_of db j) \<and>
    count_jobs (\<lambda>s. s = Submitting) db' = 0 \<and>
    recovered_submissions rr = count_jobs (\<lambda>s. s = Submitting) db \<and>
    pending_jobs rr = count_jobs (\<lambda>s. s = Received) db + count_jobs (\<lambda>s. s = Submitting) db"
proof -
  obtain now t where db': "db' = db\<lparr>print_jobs := map (recover_row now (recovery_error t)) (print_jobs db)\<rparr>"
    and rr: "recovered_submissions rr = count_jobs (\<lambda>s. s = Submitting) db"
      "pending_jobs rr = count_jobs (\<lambda>s. s = Received) db'"
    using recover_OkE [OF assms] by metis
  have "length (filter (\<lambda>r. row_state r = Received) (map (recover_row now e) rows)) =
      length (filter (\<lambda>r. row_state r = Received) rows) + length (filter (\<lambda>r. row_state r = Submitting) rows)"
    for e rows by (induction rows) (simp_all add: recover_row_def)
  moreover have "filter (\<lambda>r. row_state r = Submitting) (map (recover_row now e) rows) = []" for e rows
    by (induction rows) (simp_all add: recover_row_def)
  ultimately show ?thesis
    using recover_state_of [OF assms] rr by (simp add: db' count_jobs_def)
qed

theorem recovery_requeues_witness:
  "\<exists>rr db'. recover_interrupted sample_storage_env 0 (sample_db\<lparr>print_jobs := [sample_claimed_row]\<rparr>) = Ok (rr, db') \<and>
     state_of db' (lit ''j1'') = Some Received \<and> recovered_submissions rr = 1 \<and> pending_jobs rr = 1"
proof -
  let ?db = "sample_db\<lparr>print_jobs := [sample_claimed_row]\<rparr>"
  obtain rr db' where r: "recover_interrupted sample_storage_env 0 ?db = Ok (rr, db')"
    by (simp add: recover_interrupted_def now_millis_def timestamp_millis_def timestamp_from_millis_def
        sample_storage_env_def reject_if_def Let_def)
  have "state_of ?db (lit ''j1'') = Some Submitting" "count_jobs (\<lambda>s. s = Submitting) ?db = 1"
    "count_jobs (\<lambda>s. s = Received) ?db = 0"
    by (simp_all add: state_of_def job_by_id_def sample_claimed_row_def sample_row_def count_jobs_def)
  with r recovery_requeues [OF r, of "lit ''j1''"] show ?thesis by auto
qed

text \<open>Retention bounds the terminal history, never touches a job that is waiting or being
  submitted, and spares the job whose transition triggered it.\<close>

theorem retention_bounded:
  assumes "ids_ok db" "0 < maximum" "enforce_terminal_retention maximum protected db = (tr, db')"
  shows "count_jobs is_terminal db' \<le> maximum \<and> jobs_retained tr = count_jobs is_terminal db' \<and>
    (\<forall>j s. state_of db j = Some s \<longrightarrow> \<not> is_terminal s \<or> protected = Some j \<longrightarrow> state_of db' j = Some s)"
proof -
  have db': "db' = snd (enforce_terminal_retention maximum protected db)" using assms(3) by simp
  have "jobs_retained tr = count_jobs is_terminal db'"
    using assms(3) by (auto simp: enforce_terminal_retention_def Let_def)
  moreover have "state_of db' j = Some s" if "state_of db j = Some s" "\<not> is_terminal s \<or> protected = Some j" for j s
    using that(2)
  proof
    assume "protected = Some j"
    then show ?thesis using enforce_protected_state [OF assms(1), of maximum j] that(1) db' by simp
  qed (use enforce_live_state [OF assms(1) that(1)] db' in simp)
  ultimately show ?thesis using enforce_bound [OF assms(1,2)] db' by simp
qed

definition sample_history :: SqliteStorage where
  "sample_history = sample_db\<lparr>print_jobs := [sample_row\<lparr>row_job_id := lit ''a'', row_state := Failed\<rparr>,
     sample_row\<lparr>row_job_id := lit ''b'', row_state := Submitted\<rparr>, sample_row]\<rparr>"

theorem retention_bounded_witness:
  "count_jobs is_terminal (snd (enforce_terminal_retention 1 (Some (lit ''a'')) sample_history)) \<le> 1 \<and>
   state_of (snd (enforce_terminal_retention 1 (Some (lit ''a'')) sample_history)) (lit ''a'') = Some Failed"
proof -
  have ids: "ids_ok sample_history"
    by (simp add: ids_ok_def sample_history_def sample_row_def lit_def)
  have a: "state_of sample_history (lit ''a'') = Some Failed"
    by (simp add: state_of_def job_by_id_def sample_history_def)
  obtain tr db' where r: "enforce_terminal_retention 1 (Some (lit ''a'')) sample_history = (tr, db')"
    by (cases "enforce_terminal_retention 1 (Some (lit ''a'')) sample_history")
  show ?thesis using retention_bounded [OF ids _ r] a r by simp
qed

end
