(* ===== verification/Processor_Properties.thy ===== *)
theory Processor_Properties
  imports Storage_Properties
begin

text \<open>The properties of the job processor.\<close>

text \<open>C2: A drain that succeeds processed every job that was waiting, oldest first, one after the other, and its
  outcomes are those of the jobs in this order. In the very state in which the processing of a job gave
  its outcome, before the next job is taken up, the outcome is in the repository: the row of that job has
  the state the outcome says, and for a reported outcome that very message is in the outbox, not
  acknowledged, with the payload that will be sent.\<close>

theorem drain_outcomes_durable:
  assumes "process_pending env s = (Ok outs, s')" "storage_ok (proc_db s)"
  shows "\<exists>jobs. pending (env_storage env) (proc_db s) = Ok jobs \<and>
    map sj_id jobs = map row_job_id (pending_rows (proc_db s)) \<and>
    map fst (drain_run env jobs s) = map Ok outs \<and> (\<forall>i < length jobs.
      committed env (sj_id (jobs ! i)) (outs ! i) (proc_db (snd (drain_run env jobs s ! i))) (proc_db s'))"
  by (rule process_pending_durable [OF assms])

theorem drain_outcomes_durable_witness:
  "\<exists>s s1 s'. process_pending sample_env s = (Ok [OutcomeSubmitted (lit ''j1'') sample_report], s') \<and>
     drain_run sample_env [sample_stored] s = [(Ok (OutcomeSubmitted (lit ''j1'') sample_report), s1)] \<and>
     outcome_durable sample_env (lit ''j1'') (proc_db s1) (OutcomeSubmitted (lit ''j1'') sample_report)"
proof -
  let ?s = "sample_proc\<lparr>proc_db := sample_db\<lparr>print_jobs := [sample_row]\<rparr>\<rparr>"
  let ?out = "OutcomeSubmitted (lit ''j1'') sample_report"
  obtain s' where r: "process_pending sample_env ?s = (Ok [?out], s')"
    using sample_drain [of ?s] by auto
  have "storage_ok (proc_db ?s)" using sample_row_ok by simp
  from drain_outcomes_durable [OF r this] have "map fst (drain_run sample_env [sample_stored] ?s) = map Ok [?out]"
    "committed sample_env (sj_id sample_stored) ?out (proc_db (snd (drain_run sample_env [sample_stored] ?s ! 0))) (proc_db s')"
    using sample_pending by auto
  moreover obtain x s1 where "drain_run sample_env [sample_stored] ?s = [(x, s1)]"
    by (cases "process_stored_job sample_env sample_stored ?s") simp
  ultimately show ?thesis using r
    by (intro exI [of _ ?s] exI [of _ s1] exI [of _ s']) (simp add: committed_def sample_stored_def)
qed

text \<open>C8: An acknowledgement is sent only for a job that has its durable row, it names that job and
  the delivery it answers, and it is a valid protocol message.\<close>

theorem acknowledgement_durable:
  assumes "receive_print_job env m s = (Ok out, s')" "acknowledgement out = Some a"
  shows "\<exists>job t. sm_kind m = ServerPrintJobMsg job \<and> job_durable (proc_db s') job \<and>
    am_kind a = AgentJobReceivedMsg \<lparr>jr_job_id = job_id job, jr_idempotency_key = idempotency_key job,
      jr_status = StatusReceived, jr_received_at = t\<rparr> \<and>
    am_correlation_id a = Some (sm_message_id m) \<and> AgentMessage_validate a = Ok ()"
  by (rule acknowledged_durable [OF assms])

theorem acknowledgement_durable_witness:
  "\<exists>s'. receive_print_job sample_env sample_message sample_proc = (Ok (ReceiveInserted sample_ack), s') \<and>
     job_durable (proc_db s') sample_job"
proof -
  obtain s' where r: "receive_print_job sample_env sample_message sample_proc = (Ok (ReceiveInserted sample_ack), s')"
    using sample_receive by blast
  from acknowledgement_durable [OF r] have "job_durable (proc_db s') sample_job"
    by (auto simp: sample_message_def)
  then show ?thesis using r by blast
qed

text \<open>Receiving a job never fails on its identifiers: what the protocol accepts as an identifier,
  the domain types accept.\<close>

theorem protocol_identifiers_accepted: "fst (receive_print_job env m s) \<noteq> Err (IdentifierInvalid e)"
  by (rule receive_no_identifier_error)

text \<open>C39: Every failure the processor can produce, before or after the spooler was called, of a payload that
  is no job or of a local test, can be stored with a job and can be reported to the server, whatever
  text a backend, a document server or Serde gave it, and so can what a recovered job makes of it; and
  no report of a failure that the processing of a recovered job returns is declared retryable, since
  the interrupted submission may have printed.\<close>

theorem failures_well_formed:
  assumes "processor_failure env f"
  shows "(\<forall>g \<in> {f, recovery_aware_failure st f}. StoredJobError_validate (failure_stored g t) = Ok () \<and>
      FailureDetail_validate \<lparr>fd_code = fail_code g, fd_message = fail_message g, fd_retryable = fail_retryable g\<rparr> = Ok ()) \<and>
    (sj_recovery_count st \<noteq> 0 \<and> process_stored_job env st s = (Ok (OutcomeFailed jid (Some m)), s') \<longrightarrow>
      (\<exists>r. am_kind m = AgentJobFailedMsg r \<and> \<not> fd_retryable (jf_error r)))"
proof -
  have ok: "failure_ok g" if "g \<in> {f, recovery_aware_failure st f}" for g
    using that processor_failure_ok [OF assms] recovery_failure_ok [of f st] by auto
  have "\<exists>r. am_kind m = AgentJobFailedMsg r \<and> \<not> fd_retryable (jf_error r)"
    if "sj_recovery_count st \<noteq> 0" "process_stored_job env st s = (Ok (OutcomeFailed jid (Some m)), s')"
    using process_stored_job_final [OF that(2,1)] by (simp add: final_report_def)
  then show ?thesis using failure_ok_storable failure_ok_reportable ok by blast
qed

text \<open>A job that was being submitted when the application stopped, for a printer that is no longer configured.\<close>

definition sample_unresolved_env :: "(ustring, unit) penv" where
  "sample_unresolved_env = sample_env\<lparr>env_resolve := (\<lambda>_ _. Ok None)\<rparr>"

definition sample_recovered :: "ustring StoredPrintJob" where
  "sample_recovered = sample_stored\<lparr>sj_recovery_count := 1\<rparr>"

definition sample_missing :: JobFailure where
  "sample_missing = JobFailure_new (lit ''printer.not_found'') (lit ''the selected local printer is not configured'') True"

definition sample_recovery_report :: AgentMessage where
  "sample_recovery_report = (let f = recovery_aware_failure sample_recovered sample_missing in
     \<lparr>am_protocol_version = V1, am_message_id = lit ''msg_u'', am_sent_at = lit ''2024-01-01T00:00:00Z'',
       am_correlation_id = Some (lit ''m1''), am_kind = AgentJobFailedMsg \<lparr>jf_job_id = lit ''j1'',
         jf_idempotency_key = lit ''k1'', jf_status = StatusFailed, jf_failed_at = lit ''2024-01-01T00:00:00Z'',
         jf_error = \<lparr>fd_code = fail_code f, fd_message = fail_message f, fd_retryable = fail_retryable f\<rparr>\<rparr>\<rparr>)"

lemma sample_unresolved_simps [simp]:
  "env_storage sample_unresolved_env = sample_storage_env" "env_clock sample_unresolved_env n = 0"
  "env_from_value sample_unresolved_env v = Ok sample_job" "env_uuid sample_unresolved_env n = lit ''u''"
  "env_message_value sample_unresolved_env m = Some (am_message_id m)"
  "env_rfc3339 sample_unresolved_env t = lit ''2024-01-01T00:00:00Z''"
  by (simp_all add: sample_unresolved_env_def)

lemma sample_unresolved:
  "prepare_job sample_unresolved_env sample_recovered sample_job s = (Err sample_missing, tick s)"
  using sample_job_valid
  by (simp add: prepare_job_def validate_persisted_job_def sample_recovered_def sample_stored_def
      resolve_enabled_printer_def sample_unresolved_env_def sample_missing_def reject_if_def run_eval)

lemma sample_missing_ok: "failure_ok (recovery_aware_failure sample_recovered sample_missing)"
  by (rule recovery_failure_ok) (simp add: sample_missing_def failure_new_ok)

lemma sample_recovery_report_valid: "AgentMessage_validate sample_recovery_report = Ok ()"
  using failure_ok_reportable [OF sample_missing_ok]
  by (simp add: AgentMessage_validate_def sample_recovery_report_def first_err_Ok wire_checks validate_envelope_def
      sample_timestamp AgentMessageKind_validate_def required_version_def if_some_Ok BASE_def Let_def
      JobFailed_validate_def validate_job_identity_def validate_expected_status_def)

lemma sample_recovered_fails:
  "\<exists>s s'. process_stored_job sample_unresolved_env sample_recovered s =
     (Ok (OutcomeFailed (lit ''j1'') (Some sample_recovery_report)), s')"
proof -
  let ?s = "sample_proc\<lparr>proc_db := sample_db\<lparr>print_jobs := [sample_row]\<rparr>\<rparr>"
  let ?f = "recovery_aware_failure sample_recovered sample_missing"
  have st: "sj_id sample_recovered = lit ''j1''" "sj_source_message_id sample_recovered = lit ''m1''"
    "sj_payload sample_recovered = lit ''j1''"
    by (simp_all add: sample_recovered_def sample_stored_def)
  have report: "failed_message sample_unresolved_env sample_job (lit ''m1'') t ?f s = (Ok sample_recovery_report, tick (tick s))" for t s
    using sample_recovery_report_valid
    by (simp add: failed_message_def agent_message_def run_eval required_version_def BASE_def sample_recovery_report_def Let_def)
  have outbound: "outbound_status sample_unresolved_env (lit ''j1'') sample_recovery_report s =
      (Ok \<lparr>os_message_id = lit ''msg_u'', os_job_id = lit ''j1'', os_payload = lit ''msg_u'', os_created_at = 0\<rparr>, tick s)" for s
    by (simp add: outbound_status_def sample_recovery_report_def run_eval Let_def)
  have "\<exists>db. mark_failed_with_status sample_storage_env (lit ''j1'') (failure_stored ?f t)
      \<lparr>os_message_id = lit ''msg_u'', os_job_id = lit ''j1'', os_payload = lit ''msg_u'', os_created_at = 0\<rparr> 0
      (proc_db ?s) = Ok ((), db)" for t
    using failure_ok_storable [OF sample_missing_ok]
    by (simp add: mark_failed_with_status_def prepare_outbound_status_def bounded_json_def reject_if_def
      MAX_OUTBOUND_STATUS_BYTES_def sample_storage_env_def transition_def now_millis_def timestamp_millis_def
      job_by_id_def sample_row_def insert_status_def insert_outbox_def update_job_def sample_db_def empty_database_def Let_def)
  then obtain db where db: "mark_failed_with_status sample_storage_env (lit ''j1'') (failure_stored ?f 0)
      \<lparr>os_message_id = lit ''msg_u'', os_job_id = lit ''j1'', os_payload = lit ''msg_u'', os_created_at = 0\<rparr> 0
      (proc_db ?s) = Ok ((), db)" by blast
  have "\<exists>s'. persist_failure sample_unresolved_env sample_recovered sample_job sample_missing (tick ?s) =
      (Ok (OutcomeFailed (lit ''j1'') (Some sample_recovery_report)), s')"
    using db by (simp add: persist_failure_def Let_def st report outbound run_eval)
  then obtain s' where "persist_failure sample_unresolved_env sample_recovered sample_job sample_missing (tick ?s) =
      (Ok (OutcomeFailed (lit ''j1'') (Some sample_recovery_report)), s')" by blast
  then have "process_stored_job sample_unresolved_env sample_recovered ?s =
      (Ok (OutcomeFailed (lit ''j1'') (Some sample_recovery_report)), s')"
    by (simp add: process_stored_job_def ecase_def st sample_unresolved)
  then show ?thesis by blast
qed

theorem failures_well_formed_witness:
  "StoredJobError_validate (failure_stored (recovery_aware_failure sample_recovered sample_missing) 0) = Ok () \<and>
   (\<exists>r. am_kind sample_recovery_report = AgentJobFailedMsg r \<and> \<not> fd_retryable (jf_error r))"
proof -
  obtain s s' where run: "process_stored_job sample_unresolved_env sample_recovered s =
      (Ok (OutcomeFailed (lit ''j1'') (Some sample_recovery_report)), s')"
    using sample_recovered_fails by blast
  have "processor_failure sample_unresolved_env sample_missing" by (rule preparing [OF sample_unresolved])
  from failures_well_formed [OF this, of sample_recovered 0 s "lit ''j1''" sample_recovery_report s'] run
  show ?thesis by (simp add: sample_recovered_def)
qed

text \<open>C6: Whatever the interleaving of deliveries, cancellations, claims, terminal writes and recovery,
  what \<open>cancel_job\<close> answers is true: a requested cancellation concerns a job that is being submitted
  and its token is set, a cancelled job was waiting or claimed and is cancelled in the repository, and
  the other two answers report the state of the row.\<close>

theorem cancellation_truthful:
  assumes "(proc_step env)\<^sup>*\<^sup>* s0 s" "proc_ok s0" "cancel_job env raw s = (Ok out, s')"
  shows "\<exists>jid. new_identifier raw = Ok jid \<and> cancel_truthful jid s s' out"
  by (rule cancel_job_truthful [OF assms(3) proc_run_ok [OF assms(1,2)]])

lemma sample_cancel:
  "\<exists>s'. cancel_job sample_env (lit ''j1'') sample_proc = (Ok (CancelNotFound (lit ''j1'')), s')"
  by (simp add: cancel_job_def run_eval cancel_queued_def mark_cancelled_def transition_def now_millis_def
      timestamp_millis_def reject_if_def job_by_id_def sample_proc_def sample_db_def empty_database_def)

theorem cancellation_truthful_witness:
  "\<exists>s' jid. new_identifier (lit ''j1'') = Ok jid \<and> cancel_truthful jid sample_proc s' (CancelNotFound (lit ''j1''))"
proof -
  obtain s' where r: "cancel_job sample_env (lit ''j1'') sample_proc = (Ok (CancelNotFound (lit ''j1'')), s')"
    using sample_cancel by blast
  from cancellation_truthful [OF rtranclp.rtrancl_refl sample_proc_ok r] show ?thesis by blast
qed

text \<open>In every interleaving, a registered cancellation token belongs to a job that is durably
  claimed, and the repository keeps its invariant.\<close>

theorem tokens_belong_to_claims:
  assumes "(proc_step env)\<^sup>*\<^sup>* s0 s" "storage_ok (proc_db s0)" "proc_active s0 = Map.empty"
  shows "storage_ok (proc_db s) \<and> (proc_active s j = Some flag \<longrightarrow> state_of (proc_db s) j = Some Submitting)"
proof -
  have "proc_ok s0" using assms(2,3) by (simp add: proc_ok_def)
  then show ?thesis using proc_run_ok [OF assms(1)] by (simp add: proc_ok_def)
qed

theorem tokens_belong_to_claims_witness:
  "\<exists>s :: Proc. proc_active s (lit ''j1'') = Some False \<and> state_of (proc_db s) (lit ''j1'') = Some Submitting"
proof -
  let ?s0 = "sample_proc\<lparr>proc_db := sample_db\<lparr>print_jobs := [sample_row]\<rparr>\<rparr>"
  obtain s where c: "submit_claim sample_env (lit ''j1'') ?s0 = (Ok None, s)"
    and a: "proc_active s (lit ''j1'') = Some False"
    using sample_claim [of ?s0] by auto
  have "(proc_step sample_env)\<^sup>*\<^sup>* ?s0 s"
    by (rule r_into_rtranclp, rule proc_claim [OF _ c]) (simp add: sample_proc_def)
  from tokens_belong_to_claims [OF this, of "lit ''j1''" False] a sample_row_ok
  have "state_of (proc_db s) (lit ''j1'') = Some Submitting" by (simp add: sample_proc_def)
  then show ?thesis using a by blast
qed

text \<open>When the terminal write of a claimed job fails, the token is dropped all the same and the
  row stays claimed: a caller that finds no token does not always find a terminal row.\<close>

theorem failed_terminal_write:
  assumes "submit_finish env st job submission s = (Err e, s')" "state_of (proc_db s) (sj_id st) = Some Submitting"
  shows "proc_active s' (sj_id st) = None \<and> state_of (proc_db s') (sj_id st) = Some Submitting \<and>
    outbox (proc_db s') = outbox (proc_db s)"
  using submit_finish_error [OF assms(1)] assms(2) by simp

theorem failed_terminal_write_witness:
  "\<exists>s s'. submit_finish (sample_env\<lparr>env_message_value := (\<lambda>_. None)\<rparr>) sample_stored sample_job (Ok sample_receipt) s
       = (Err PayloadJson, s') \<and> proc_active s' (lit ''j1'') = None \<and>
     state_of (proc_db s') (lit ''j1'') = Some Submitting"
proof -
  let ?env = "sample_env\<lparr>env_message_value := (\<lambda>_. None)\<rparr>"
  let ?s = "sample_proc\<lparr>proc_db := sample_db\<lparr>print_jobs := [sample_claimed_row]\<rparr>,
    proc_active := [lit ''j1'' \<mapsto> False]\<rparr>"
  have st: "sj_id sample_stored = lit ''j1''" "sj_source_message_id sample_stored = lit ''m1''"
    by (simp_all add: sample_stored_def)
  have m: "submitted_message ?env sample_job (lit ''m1'') 0 ?s = (Ok sample_report, tick (tick ?s))"
    using sample_report_valid
    by (simp add: submitted_message_def agent_message_def run_eval required_version_def BASE_def sample_report_def)
  obtain s' where r: "submit_finish ?env sample_stored sample_job (Ok sample_receipt) ?s = (Err PayloadJson, s')"
    using m by (simp add: submit_finish_def submit_conclude_def st outbound_status_def ebind_def ecase_def
        emap_err_def elift_def sample_receipt_def set_active_def emodify_def)
  have "state_of (proc_db ?s) (sj_id sample_stored) = Some Submitting"
    by (simp add: st state_of_def job_by_id_def sample_claimed_row_def sample_row_def)
  from failed_terminal_write [OF r this] r st show ?thesis by auto
qed


text \<open>A print job that the protocol accepts but whose idempotency key the repository does not
  (more than 256 bytes, a control character or surrounding whitespace) is neither stored nor
  acknowledged, so its redelivery cannot end.\<close>

theorem protocol_key_unstorable:
  assumes "ServerMessage_validate m = Ok ()" "sm_kind m = ServerPrintJobMsg job" "env_to_value env job = Some v"
    and "validate_key (lit ''idempotency key'') (idempotency_key job) 256 = Err x"
  shows "fst (receive_print_job env m s) = Err (StorageFailure x) \<and>
    proc_db (snd (receive_print_job env m s)) = proc_db s"
proof -
  have valid: "PrintJob_validate job = Ok ()"
    using assms(1,2) by (simp add: ServerMessage_validate_def first_err_Ok ServerMessageKind_validate_def wire_checks)
  have "insert_received senv (rj :: 'a ReceivedPrintJob) db = Err x" if "rj_idempotency_key rj = idempotency_key job"
    for senv rj db
    using assms(4) that by (simp add: insert_received_def)
  then show ?thesis
    using assms(1-3) valid print_job_identifiers [OF valid]
    by (simp add: receive_print_job_def receive_insert_def run_eval)
qed

definition sample_spaced_job :: PrintJob where
  "sample_spaced_job = sample_job\<lparr>idempotency_key := lit '' k''\<rparr>"

theorem protocol_key_unstorable_witness:
  "\<exists>x. fst (receive_print_job sample_env (sample_message\<lparr>sm_kind := ServerPrintJobMsg sample_spaced_job\<rparr>) sample_proc)
     = Err (StorageFailure x)"
proof -
  let ?m = "sample_message\<lparr>sm_kind := ServerPrintJobMsg sample_spaced_job\<rparr>"
  have key: "utf16_count (lit '' k'') = 2" by (simp add: lit_def utf16_len_def)
  have "PrintJob_validate sample_spaced_job = Ok ()"
    by (simp add: PrintJob_validate_def sample_spaced_job_def sample_job_def first_err_Ok wire_checks
        sample_timestamp sample_document if_some_Ok key)
  then have m: "ServerMessage_validate ?m = Ok ()"
    by (simp add: ServerMessage_validate_def sample_message_def first_err_Ok wire_checks validate_envelope_def
        sample_timestamp ServerMessageKind_validate_def required_server_version_def if_some_Ok
        sample_spaced_job_def sample_job_def BASE_def)
  obtain x where x: "validate_key (lit ''idempotency key'') (idempotency_key sample_spaced_job) 256 = Err x"
    by (simp add: validate_key_def sample_spaced_job_def lit_def trim_def trim_start_def trim_end_def
        is_whitespace_def reject_if_def)
  from protocol_key_unstorable [OF m _ _ x, of sample_env "job_id sample_spaced_job" sample_proc]
  show ?thesis by auto
qed

text \<open>The report of a persisted job that names another job than its row is stored in the outbox,
  but the replay refuses it, so no report behind it is replayed.\<close>

theorem mismatched_report_refused:
  assumes "persist_failure env st job f s = (Ok (OutcomeFailed j (Some m)), s')" "job_id job \<noteq> sj_id st"
  shows "\<exists>reason. validate_outbound_status (am_message_id m) (sj_id st) m = Err reason"
  by (rule mismatch_report_refused [OF assms])


definition sample_other :: "ustring StoredPrintJob" where
  "sample_other = sample_stored\<lparr>sj_id := lit ''j2''\<rparr>"

definition sample_other_proc :: Proc where
  "sample_other_proc = sample_proc\<lparr>proc_db := sample_db\<lparr>print_jobs := [sample_row\<lparr>row_job_id := lit ''j2''\<rparr>]\<rparr>\<rparr>"

definition sample_mismatch :: JobFailure where
  "sample_mismatch = JobFailure_new (lit ''job.storage_mismatch'')
     (lit ''persisted job identity does not match its durable row'') False"

definition sample_failed_report :: AgentMessage where
  "sample_failed_report = sample_report\<lparr>am_kind := AgentJobFailedMsg \<lparr>jf_job_id = lit ''j1'',
     jf_idempotency_key = lit ''k1'', jf_status = StatusFailed, jf_failed_at = lit ''2024-01-01T00:00:00Z'',
     jf_error = \<lparr>fd_code = fail_code sample_mismatch, fd_message = fail_message sample_mismatch,
       fd_retryable = fail_retryable sample_mismatch\<rparr>\<rparr>\<rparr>"

lemma sample_failed_valid: "AgentMessage_validate sample_failed_report = Ok ()"
proof -
  have "failure_ok sample_mismatch" by (simp add: sample_mismatch_def failure_new_ok)
  from failure_ok_reportable [OF this] show ?thesis
    by (simp add: sample_failed_report_def required_version_def BASE_def sample_report_def
        AgentMessage_validate_def first_err_Ok wire_checks validate_envelope_def sample_timestamp
        AgentMessageKind_validate_def if_some_Ok JobFailed_validate_def validate_job_identity_def
        validate_expected_status_def)
qed

lemma sample_failed_run:
  "failed_message sample_env sample_job (lit ''m1'') t sample_mismatch s = (Ok sample_failed_report, tick (tick s))"
  using sample_failed_valid
  by (simp add: failed_message_def agent_message_def run_eval required_version_def BASE_def sample_failed_report_def
      sample_report_def)

lemma sample_mark_failed:
  "\<exists>db. mark_failed_with_status sample_storage_env (lit ''j2'') (failure_stored sample_mismatch 0)
     \<lparr>os_message_id = lit ''msg_u'', os_job_id = lit ''j2'', os_payload = lit ''msg_u'', os_created_at = 0\<rparr> 0
     (proc_db sample_other_proc) = Ok ((), db)"
proof -
  have "failure_ok sample_mismatch" by (simp add: sample_mismatch_def failure_new_ok)
  from failure_ok_storable [OF this] show ?thesis
    by (simp add: mark_failed_with_status_def prepare_outbound_status_def bounded_json_def reject_if_def
        MAX_OUTBOUND_STATUS_BYTES_def sample_storage_env_def transition_def now_millis_def timestamp_millis_def
        job_by_id_def sample_row_def insert_status_def insert_outbox_def update_job_def transition_row_def
        Let_def sample_other_proc_def sample_proc_def sample_db_def empty_database_def)
qed

theorem mismatched_report_refused_witness:
  "\<exists>m s' reason. persist_failure sample_env sample_other sample_job sample_mismatch sample_other_proc
       = (Ok (OutcomeFailed (lit ''j2'') (Some m)), s') \<and>
     validate_outbound_status (am_message_id m) (lit ''j2'') m = Err reason"
proof -
  have st: "sj_id sample_other = lit ''j2''" "sj_source_message_id sample_other = lit ''m1''"
    "recovery_aware_failure sample_other f = f" for f
    by (simp_all add: sample_other_def sample_stored_def recovery_aware_failure_def)
  obtain db where db: "mark_failed_with_status sample_storage_env (lit ''j2'') (failure_stored sample_mismatch 0)
     \<lparr>os_message_id = lit ''msg_u'', os_job_id = lit ''j2'', os_payload = lit ''msg_u'', os_created_at = 0\<rparr> 0
     (proc_db sample_other_proc) = Ok ((), db)"
    using sample_mark_failed by blast
  obtain m s' where r: "persist_failure sample_env sample_other sample_job sample_mismatch sample_other_proc
      = (Ok (OutcomeFailed (lit ''j2'') (Some m)), s')"
    using db by (simp add: persist_failure_def st sample_failed_run outbound_status_def sample_failed_report_def
        sample_report_def run_eval Let_def)
  have "job_id sample_job \<noteq> sj_id sample_other" by (simp add: st lit_def)
  from mismatched_report_refused [OF r this] r st(1) show ?thesis by auto
qed

end
