(* ===== verification/Runtime_Properties.thy ===== *)
theory Runtime_Properties
  imports Processor_Properties
begin

text \<open>The properties of the agent runtime: the processor together with the transport of its reports.\<close>

definition sample_renv :: "(ustring, unit) renv" where
  "sample_renv = \<lparr>rt_env = sample_env, rt_report = (\<lambda>_ _. Ok ()),
     rt_message_from_value = (\<lambda>v. if v = lit ''msg_u'' then Some sample_report else None)\<rparr>"

definition sample_agent :: "SqliteStorage \<Rightarrow> Agent" where
  "sample_agent db = \<lparr>ag_proc = sample_proc\<lparr>proc_db := db\<rparr>, ag_sent = []\<rparr>"

text \<open>C5: Replaying the outbox returns, whatever the transport answers. The reports the transport
  accepted are those of the oldest rows, in order; a row leaves the outbox only after its report was
  accepted, at most one accepted report is still in the outbox, and a successful replay has emptied
  the outbox.\<close>

theorem replay_in_order:
  assumes "storage_ok (agent_db s)" "length (outbox (agent_db s)) < fuel"
  shows "\<exists>r s' k ms. replay_outbound_reports renv fuel s = Some (r, s') \<and> replay_progress s s' k ms \<and>
    (\<forall>c. r = Ok c \<longrightarrow> k = length (outbox (agent_db s)) \<and> length ms = k \<and> outbox (agent_db s') = [])"
proof -
  have d: "distinct (map out_message_id (outbox (agent_db s)))"
    using assms(1) by (simp add: storage_ok_def outbox_ok_def)
  obtain r s' k ms where r: "replay_loop renv fuel 0 s = Some (r, s')" "replay_progress s s' k ms"
    "\<forall>c. r = Ok c \<longrightarrow> k = length (outbox (agent_db s)) \<and> length ms = k"
    using replay_loop_returns [OF d assms(2)] by blast
  have "outbox (agent_db s') = []" if "k = length (outbox (agent_db s))"
    using r(2) that outbox_rows_mset(2) [of "agent_db s'"] by (simp add: replay_progress_def)
  then show ?thesis
    using r unfolding replay_outbound_reports_def
    by (intro exI [of _ r] exI [of _ s'] exI [of _ k] exI [of _ ms]) simp
qed

theorem replay_in_order_witness:
  "\<exists>r s'. replay_outbound_reports sample_renv 2 (sample_agent sample_done_db) = Some (r, s')"
proof -
  have "storage_ok (agent_db (sample_agent sample_done_db))" by (simp add: sample_agent_def sample_done_ok)
  from replay_in_order [OF this, of 2 sample_renv] show ?thesis
    by (auto simp: sample_agent_def sample_done_db_def)
qed

text \<open>C7: A delivery that is not new is never printed: it changes nothing in the repository, produces
  no outcome, and at most its acknowledgement is sent.\<close>

theorem redelivery_never_prints:
  assumes "receive_print_job (rt_env renv) m (ag_proc s) = (Ok receipt, p)" "\<not> was_inserted receipt"
    and "handle_print_job renv m s = (r, s')"
  shows "agent_db s' = agent_db s \<and> (\<forall>flow. r = Ok flow \<longrightarrow> flow_outcomes flow = [] \<and>
    ag_sent s' = ag_sent s @ (case acknowledgement receipt of None \<Rightarrow> [] | Some a \<Rightarrow> [a]))"
  by (rule handle_redelivery [OF assms])

lemma sample_receive_again:
  "\<exists>p. receive_print_job sample_env sample_message (sample_proc\<lparr>proc_db := sample_db\<lparr>print_jobs := [sample_row]\<rparr>\<rparr>)
     = (Ok (ReceiveDuplicate Received sample_ack), p)"
proof -
  have "insert_received sample_storage_env \<lparr>rj_id = lit ''j1'', rj_idempotency_key = lit ''k1'',
      rj_printer_id = lit ''p1'', rj_payload = lit ''j1'', rj_source_message_id = lit ''m1'', rj_received_at = 0\<rparr>
      (sample_db\<lparr>print_jobs := [sample_row]\<rparr>) = Ok (DuplicateJob Received, sample_db\<lparr>print_jobs := [sample_row]\<rparr>)"
    by (simp add: insert_received_def bounded_json_def sample_storage_env_def payload_fingerprint_def
        job_by_id_def sample_row_def insert_duplicate_def payload_matches_def parse_state_def reject_if_def
        MAX_JOB_PAYLOAD_BYTES_def)
  then show ?thesis
    using sample_message_valid sample_job_valid
    by (simp add: receive_print_job_def receive_insert_def receive_result_def sample_message_def
        ebind_def emap_err_def elift_def reading_def publish_def emodify_def sample_ack_run eret_def
        store_op_def)
qed

theorem redelivery_never_prints_witness:
  "\<exists>r s'. handle_print_job sample_renv sample_message (sample_agent (sample_db\<lparr>print_jobs := [sample_row]\<rparr>)) = (r, s') \<and>
     agent_db s' = sample_db\<lparr>print_jobs := [sample_row]\<rparr>"
proof -
  let ?s = "sample_agent (sample_db\<lparr>print_jobs := [sample_row]\<rparr>)"
  obtain p where p: "receive_print_job (rt_env sample_renv) sample_message (ag_proc ?s) = (Ok (ReceiveDuplicate Received sample_ack), p)"
    using sample_receive_again by (auto simp: sample_agent_def sample_renv_def)
  obtain r s' where r: "handle_print_job sample_renv sample_message ?s = (r, s')"
    by (cases "handle_print_job sample_renv sample_message ?s")
  from redelivery_never_prints [OF p _ r] r show ?thesis by (auto simp: sample_agent_def)
qed

text \<open>A new job is not claimed before the transport accepted its acknowledgement: when the
  transport refuses it, the flow ends with that report and the job waits in the repository.\<close>

theorem receipt_reported_before_claim:
  assumes "receive_print_job (rt_env renv) m (ag_proc s) = (Ok (ReceiveInserted a), p)"
    and "rt_report renv (proc_tick p) a = Err e" "handle_print_job renv m s = (r, s')"
  shows "r = Err (Reporting a e) \<and> ag_sent s' = ag_sent s \<and>
    (\<exists>job. sm_kind m = ServerPrintJobMsg job \<and> state_of (agent_db s') (job_id job) = Some Received)"
  using handle_unreported_receipt [OF assms(1) _ assms(2)] assms(3) received_is_received [OF assms(1)] by auto

theorem receipt_reported_before_claim_witness:
  "\<exists>r s'. handle_print_job (sample_renv\<lparr>rt_report := (\<lambda>_ _. Err (OutboundReportError_new []))\<rparr>) sample_message
     (sample_agent sample_db) = (r, s') \<and> state_of (agent_db s') (lit ''j1'') = Some Received"
proof -
  let ?renv = "sample_renv\<lparr>rt_report := (\<lambda>_ _. Err (OutboundReportError_new []))\<rparr>"
  have "sample_proc\<lparr>proc_db := sample_db\<rparr> = sample_proc" by (simp add: sample_proc_def)
  then obtain p where p: "receive_print_job (rt_env ?renv) sample_message (ag_proc (sample_agent sample_db))
      = (Ok (ReceiveInserted sample_ack), p)"
    using sample_receive by (auto simp: sample_agent_def sample_renv_def)
  obtain r s' where r: "handle_print_job ?renv sample_message (sample_agent sample_db) = (r, s')"
    by (cases "handle_print_job ?renv sample_message (sample_agent sample_db)")
  from receipt_reported_before_claim [OF p _ r] r show ?thesis by (auto simp: sample_message_def)
qed

end
