(* ===== verification/Std_Library.thy ===== *)
theory Std_Library
  imports Oppa_Prelude
begin

text \<open>
  The parts of the standard library, of the URL crate and of the host platform that the program reads:
  decoding of UTF-8, parsed URLs and IP addresses, platform commands, and the printed form of a duration.
\<close>

section \<open>UTF-8\<close>

text \<open>
  Decoding of UTF-8 as \<open>std::str::from_utf8\<close> does it: a byte sequence that is too long for its value,
  encodes a surrogate or lies above U+10FFFF is refused. The result on the encoding of a string is
  that string.
\<close>

definition is_scalar :: "codepoint \<Rightarrow> bool" where
  "is_scalar c \<longleftrightarrow> c < 0xD800 \<or> (0xE000 \<le> c \<and> c < 0x110000)"

definition is_cont :: "nat \<Rightarrow> bool" where
  "is_cont b \<longleftrightarrow> 0x80 \<le> b \<and> b < 0xC0"

text \<open>The second byte of a sequence of three, and of four.\<close>

definition second_of_three :: "nat \<Rightarrow> nat \<Rightarrow> bool" where
  "second_of_three a b \<longleftrightarrow> is_cont b \<and> (a = 0xE0 \<longrightarrow> 0xA0 \<le> b) \<and> (a = 0xED \<longrightarrow> b < 0xA0)"

definition second_of_four :: "nat \<Rightarrow> nat \<Rightarrow> bool" where
  "second_of_four a b \<longleftrightarrow> is_cont b \<and> (a = 0xF0 \<longrightarrow> 0x90 \<le> b) \<and> (a = 0xF4 \<longrightarrow> b < 0x90)"

fun utf8_decode :: "nat list \<Rightarrow> ustring option" where
  "utf8_decode [] = Some []"
| "utf8_decode (a # s) =
     (if a < 0x80 then map_option (Cons a) (utf8_decode s)
      else if 0xC2 \<le> a \<and> a < 0xE0 then (case s of
        b # s1 \<Rightarrow> if is_cont b
          then map_option (Cons ((a - 0xC0) * 64 + (b - 0x80))) (utf8_decode s1) else None
      | _ \<Rightarrow> None)
      else if 0xE0 \<le> a \<and> a < 0xF0 then (case s of
        b # c # s2 \<Rightarrow> if second_of_three a b \<and> is_cont c
          then map_option (Cons ((a - 0xE0) * 4096 + (b - 0x80) * 64 + (c - 0x80))) (utf8_decode s2)
          else None
      | _ \<Rightarrow> None)
      else if 0xF0 \<le> a \<and> a < 0xF5 then (case s of
        b # c # d # s3 \<Rightarrow> if second_of_four a b \<and> is_cont c \<and> is_cont d
          then map_option (Cons ((a - 0xF0) * 262144 + (b - 0x80) * 4096 + (c - 0x80) * 64 + (d - 0x80)))
                 (utf8_decode s3)
          else None
      | _ \<Rightarrow> None)
      else None)"

lemma cont_digit: "is_cont (0x80 + n mod 64)"
  by (simp add: is_cont_def)

lemma div_64_step:
  "n div 64 = n div 4096 * 64 + n div 64 mod 64"
  "n div 4096 = n div 262144 * 64 + n div 4096 mod 64" for n :: nat
  using div_mult_mod_eq [of "n div 64" 64] div_mult_mod_eq [of "n div 4096" 64]
  by (simp_all add: div_mult2_eq [symmetric])

lemma base64_digits:
  "n div 4096 * 4096 + n div 64 mod 64 * 64 + n mod 64 = n"
  "n div 262144 * 262144 + n div 4096 mod 64 * 4096 + n div 64 mod 64 * 64 + n mod 64 = n" for n :: nat
  using div_64_step [of n] div_mult_mod_eq [of n 64] by linarith+

lemma utf8_decode_encode:
  assumes "is_scalar c"
  shows "utf8_decode (utf8_encode c @ s) = map_option (Cons c) (utf8_decode s)"
proof -
  consider "c < 0x80" | "0x80 \<le> c" "c < 0x800" | "0x800 \<le> c" "c < 0x10000"
    | "0x10000 \<le> c" "c < 0x110000"
    using assms by (fastforce simp: is_scalar_def)
  then show ?thesis
  proof cases
    case 1
    then show ?thesis by (simp add: utf8_encode_def)
  next
    case 2
    then have "2 \<le> c div 64" "c div 64 < 32" by linarith+
    moreover have "c div 64 * 64 + c mod 64 = c" by simp
    moreover from calculation have "0xC2 \<le> 0xC0 + c div 64" "0xC0 + c div 64 < 0xE0" by linarith+
    ultimately show ?thesis using 2 cont_digit [of c] by (simp add: utf8_encode_def)
  next
    case 3
    then have d: "c div 4096 < 16" by linarith
    have "c div 4096 = 0 \<longrightarrow> 32 \<le> c div 64 mod 64" "c div 4096 = 13 \<longrightarrow> c div 64 mod 64 < 32"
      using 3 assms div_64_step(1) [of c] unfolding is_scalar_def by linarith+
    then have "second_of_three (0xE0 + c div 4096) (0x80 + c div 64 mod 64)"
      using cont_digit [of "c div 64"] by (simp add: second_of_three_def)
    then show ?thesis using 3 d cont_digit [of c] base64_digits(1) [of c]
      by (simp add: utf8_encode_def)
  next
    case 4
    then have d: "c div 262144 < 5" by linarith
    have "c div 262144 = 0 \<longrightarrow> 16 \<le> c div 4096 mod 64" "c div 262144 = 4 \<longrightarrow> c div 4096 mod 64 < 16"
      using 4 div_64_step(2) [of c] by linarith+
    then have "second_of_four (0xF0 + c div 262144) (0x80 + c div 4096 mod 64)"
      using cont_digit [of "c div 4096"] by (simp add: second_of_four_def)
    then show ?thesis using 4 d cont_digit [of c] cont_digit [of "c div 64"] base64_digits(2) [of c]
      by (simp add: utf8_encode_def)
  qed
qed

lemma utf8_roundtrip: "list_all is_scalar s \<Longrightarrow> utf8_decode (utf8_bytes s) = Some s"
  by (induction s) (simp_all add: utf8_decode_encode)

lemma utf8_decode_ascii: "\<forall>b \<in> set s. b < 0x80 \<Longrightarrow> utf8_decode s = Some s"
  by (induction s) simp_all

lemma utf8_encode_byte: "is_scalar c \<Longrightarrow> b \<in> set (utf8_encode c) \<Longrightarrow> b < 256"
  by (auto simp: utf8_encode_def is_scalar_def split: if_splits)

lemma utf8_bytes_byte: "list_all is_scalar s \<Longrightarrow> b \<in> set (utf8_bytes s) \<Longrightarrow> b < 256"
  by (induction s) (auto simp: utf8_encode_byte)

section \<open>URLs and addresses\<close>

text \<open>
  What the program reads of a parsed \<open>url::Url\<close>, the operations of that crate it calls, and the
  parser of IP addresses of the standard library, which decides what counts as loopback.
\<close>

record Url =
  u_as_str :: ustring
  u_scheme :: ustring
  u_username :: ustring
  u_password :: "ustring option"
  u_host_str :: "ustring option"
  u_path :: ustring
  u_query :: "ustring option"
  u_fragment :: "ustring option"

text \<open>
  The crate \<open>url\<close>: parsing, joining a reference to a base, and the setters, each of which keeps the
  serialisation in step.
\<close>

record url_lib =
  url_parse :: "ustring \<Rightarrow> ustring + Url"
  url_join :: "Url \<Rightarrow> ustring \<Rightarrow> ustring + Url"
  url_set_scheme :: "ustring \<Rightarrow> Url \<Rightarrow> Url option"
  url_set_path :: "ustring \<Rightarrow> Url \<Rightarrow> Url"
  url_clear_query :: "Url \<Rightarrow> Url"
  url_clear_fragment :: "Url \<Rightarrow> Url"

section \<open>IP addresses of the standard library\<close>

definition ipv4_octet :: "ustring \<Rightarrow> nat option" where
  "ipv4_octet s =
     (if s \<noteq> [] \<and> length s \<le> 3 \<and> list_all is_ascii_digit s \<and> (length s = 1 \<or> hd s \<noteq> 48) \<and>
         digits_value s < 256
      then Some (digits_value s) else None)"

fun all_some :: "'a option list \<Rightarrow> 'a list option" where
  "all_some [] = Some []"
| "all_some (None # xs) = None"
| "all_some (Some x # xs) = map_option (Cons x) (all_some xs)"

definition parse_ipv4 :: "ustring \<Rightarrow> nat list option" where
  "parse_ipv4 s = (let parts = split_on (\<lambda>c. c = 46) s in
     if length parts = 4 then all_some (map ipv4_octet parts) else None)"

definition hex_digit_value :: "codepoint \<Rightarrow> nat option" where
  "hex_digit_value c =
     (if is_ascii_digit c then Some (c - 48)
      else if 97 \<le> c \<and> c \<le> 102 then Some (c - 87)
      else if 65 \<le> c \<and> c \<le> 70 then Some (c - 55) else None)"

definition ipv6_group :: "ustring \<Rightarrow> nat option" where
  "ipv6_group s =
     (if s \<noteq> [] \<and> length s \<le> 4
      then map_option (foldl (\<lambda>n d. 16 * n + d) 0) (all_some (map hex_digit_value s)) else None)"

text \<open>The groups between colons; the last one may be an embedded IPv4 address.\<close>

definition ipv6_groups :: "ustring \<Rightarrow> nat list option" where
  "ipv6_groups s =
     (if s = [] then Some []
      else let parts = split_on (\<lambda>c. c = 58) s in
        (case parse_ipv4 (last parts) of
           Some [a, b, c, d] \<Rightarrow>
             map_option (\<lambda>gs. gs @ [256 * a + b, 256 * c + d]) (all_some (map ipv6_group (butlast parts)))
         | _ \<Rightarrow> all_some (map ipv6_group parts)))"

fun split_double_colon :: "ustring \<Rightarrow> (ustring \<times> ustring) option" where
  "split_double_colon (a # b # s) =
     (if a = 58 \<and> b = 58 then Some ([], s)
      else map_option (\<lambda>(p, q). (a # p, q)) (split_double_colon (b # s)))"
| "split_double_colon _ = None"

definition parse_ipv6 :: "ustring \<Rightarrow> nat list option" where
  "parse_ipv6 s = (case split_double_colon s of
     None \<Rightarrow> (case ipv6_groups s of
         Some gs \<Rightarrow> if length gs = 8 then Some gs else None
       | None \<Rightarrow> None)
   | Some (before, after) \<Rightarrow> (case (ipv6_groups before, ipv6_groups after) of
         (Some hs, Some ts) \<Rightarrow>
           if length hs + length ts \<le> 7 \<and> 46 \<notin> set before
           then Some (hs @ replicate (8 - length hs - length ts) 0 @ ts) else None
       | _ \<Rightarrow> None))"

text \<open>\<open>host.parse::<IpAddr>().is_ok_and(|ip| ip.is_loopback())\<close>.\<close>

definition is_loopback_ip :: "ustring \<Rightarrow> bool" where
  "is_loopback_ip s = (case parse_ipv4 s of
     Some octets \<Rightarrow> hd octets = 127
   | None \<Rightarrow> parse_ipv6 s = Some [0, 0, 0, 0, 0, 0, 0, 1])"

definition is_loopback_url :: "Url \<Rightarrow> bool" where
  "is_loopback_url u = (case u_host_str u of
     None \<Rightarrow> False
   | Some host \<Rightarrow> to_ascii_lowercase host = lit ''localhost'' \<or> is_loopback_ip host)"

lemma replicate_seven: "replicate 7 (x :: nat) = [x, x, x, x, x, x, x]"
  by (simp add: eval_nat_numeral)

lemma loopback_examples:
  "is_loopback_ip (lit ''127.0.0.1'')" "is_loopback_ip (lit ''127.9.0.2'')" "is_loopback_ip (lit ''::1'')"
  "\<not> is_loopback_ip (lit ''[::1]'')" "\<not> is_loopback_ip (lit ''128.0.0.1'')" "\<not> is_loopback_ip (lit ''127.0.0.01'')"
  by (simp_all add: is_loopback_ip_def parse_ipv4_def parse_ipv6_def ipv6_groups_def ipv6_group_def ipv4_octet_def
      lit_def digits_value_def is_ascii_digit_def hex_digit_value_def replicate_seven)

section \<open>The host\<close>

text \<open>
  What the platform code shares: the target it is compiled for, a platform command as what it
  ended with, the texts of the standard library it reports, and the printed form of a duration.
\<close>

text \<open>The target the agent is compiled for.\<close>

datatype HostPlatform = UnixHost | WindowsHost | OtherHost

section \<open>Commands\<close>

record command_output =
  co_success :: bool
  co_status :: ustring
  co_stdout :: "nat list"
  co_stderr :: "nat list"

datatype command_result =
  CommandElapsed
| CommandNotStarted ustring
| CommandFinished command_output

text \<open>The texts of the standard library: the error of \<open>String::from_utf8\<close> and the lossy decoding.\<close>

record text_lib =
  tl_utf8_error :: "nat list \<Rightarrow> ustring"
  tl_utf8_lossy :: "nat list \<Rightarrow> ustring"

section \<open>Durations\<close>

text \<open>A \<open>Duration\<close> is its nanoseconds; \<open>{:?}\<close> prints the largest unit with the fraction it needs.\<close>

definition pad_digits :: "nat \<Rightarrow> ustring \<Rightarrow> ustring" where
  "pad_digits width s = replicate (width - length s) 48 @ s"

definition duration_decimal :: "nat \<Rightarrow> nat \<Rightarrow> nat \<Rightarrow> ustring" where
  "duration_decimal whole fraction width = dec whole @
     (if fraction = 0 then [] else 46 # trim_end_char 48 (pad_digits width (dec fraction)))"

definition duration_debug :: "nat \<Rightarrow> ustring" where
  "duration_debug n =
     (if n \<ge> 1000000000 then duration_decimal (n div 1000000000) (n mod 1000000000) 9 @ lit ''s''
      else if n \<ge> 1000000 then duration_decimal (n div 1000000) (n mod 1000000) 6 @ lit ''ms''
      else if n \<ge> 1000 then duration_decimal (n div 1000) (n mod 1000) 3 @ [0xB5] @ lit ''s''
      else dec n @ lit ''ns'')"

end
