(* ===== verification/Receipt_Text.thy ===== *)
theory Receipt_Text
  imports Backends Std_Library
begin

text \<open>
  Text of a receipt (\<open>crates/oppa-renderer/src/lib.rs\<close>): line wrapping, two-column rows and the
  alignment of a preview line. The display width of a string and its division into graphemes come
  from the crates \<open>unicode-width\<close> and \<open>unicode-segmentation\<close>; they are the record \<open>shaping\<close>,
  an argument of the definitions that use it.
\<close>

section \<open>What the text crates provide\<close>

record shaping =
  str_width :: "ustring \<Rightarrow> nat"
  graphemes :: "ustring \<Rightarrow> ustring list"

text \<open>
  The documented behaviour that proofs rely on: graphemes divide the string, and on printable ASCII
  every character is one grapheme of one column.
\<close>

definition is_graphic :: "codepoint \<Rightarrow> bool" where
  "is_graphic c \<longleftrightarrow> 33 \<le> c \<and> c \<le> 126"

definition is_printable :: "codepoint \<Rightarrow> bool" where
  "is_printable c \<longleftrightarrow> is_graphic c \<or> c = 32"

definition divides_graphemes :: "shaping \<Rightarrow> bool" where
  "divides_graphemes T \<longleftrightarrow> (\<forall>s. concat (graphemes T s) = s)"

definition shapes_ascii :: "shaping \<Rightarrow> bool" where
  "shapes_ascii T \<longleftrightarrow> (\<forall>s. list_all is_printable s \<longrightarrow>
     str_width T s = length s \<and> graphemes T s = map (\<lambda>c. [c]) s)"

section \<open>Wrapping\<close>

definition USIZE_MAX :: nat where "USIZE_MAX = 2 ^ 64 - 1"

definition columns :: "ReceiptWidth \<Rightarrow> nat" where
  "columns width = (case width of Mm58 \<Rightarrow> 32 | Mm80 \<Rightarrow> 48)"

definition require_ascii :: "ustring \<Rightarrow> RendererError + unit" where
  "require_ascii value = reject_if (\<not> list_all (\<lambda>c. c < 0x80) value) UnicodeRequiresRasterization"

definition alignment_code :: "TextAlignment option \<Rightarrow> 8 word" where
  "alignment_code alignment =
     (case (case alignment of None \<Rightarrow> AlignLeft | Some a \<Rightarrow> a) of
        AlignLeft \<Rightarrow> 0 | AlignCenter \<Rightarrow> 1 | AlignRight \<Rightarrow> 2)"

text \<open>The finished lines and the line under construction, as the loops update them.\<close>

type_synonym wrapping = "ustring list \<times> ustring"

definition wrap_grapheme :: "shaping \<Rightarrow> nat \<Rightarrow> wrapping \<Rightarrow> ustring \<Rightarrow> wrapping" where
  "wrap_grapheme T width w grapheme = (case w of (result, segment) \<Rightarrow>
     if segment \<noteq> [] \<and> str_width T segment + str_width T grapheme > width
     then (result @ [segment], grapheme)
     else (result, segment @ grapheme))"

definition wrap_break :: "shaping \<Rightarrow> nat \<Rightarrow> wrapping \<Rightarrow> ustring \<Rightarrow> wrapping" where
  "wrap_break T width w word = (case w of (result, current) \<Rightarrow>
     let candidate_width =
           str_width T current + (if current = [] then 0 else 1) + str_width T word in
     if current \<noteq> [] \<and> candidate_width > width then (result @ [current], []) else (result, current))"

definition wrap_word :: "shaping \<Rightarrow> nat \<Rightarrow> wrapping \<Rightarrow> ustring \<Rightarrow> wrapping" where
  "wrap_word T width w word = (case wrap_break T width w word of (result, current) \<Rightarrow>
     if str_width T word > width
     then foldl (wrap_grapheme T width)
            (if current \<noteq> [] then result @ [current] else result, []) (graphemes T word)
     else (result, (if current \<noteq> [] then current @ [32] else current) @ word))"

definition wrap_source_line :: "shaping \<Rightarrow> nat \<Rightarrow> ustring list \<Rightarrow> ustring \<Rightarrow> ustring list" where
  "wrap_source_line T width result source_line =
     (if source_line = [] then result @ [[]]
      else (case foldl (wrap_word T width) (result, []) (split_whitespace source_line) of
        (result, current) \<Rightarrow> if current \<noteq> [] then result @ [current] else result))"

definition wrap_text :: "shaping \<Rightarrow> ustring \<Rightarrow> nat \<Rightarrow> ustring list" where
  "wrap_text T value width =
     foldl (wrap_source_line T width) [] (split_on (\<lambda>c. c = 10) value)"

section \<open>Rows and previews\<close>

definition spaces :: "nat \<Rightarrow> ustring" where
  "spaces n = replicate n 32"

definition row_line :: "shaping \<Rightarrow> nat \<Rightarrow> ustring list \<Rightarrow> ustring list \<Rightarrow> nat \<Rightarrow> ustring" where
  "row_line T width left_lines right_lines index =
     (let left = (case list_get left_lines index of None \<Rightarrow> [] | Some l \<Rightarrow> l);
          right = (case list_get right_lines index of None \<Rightarrow> [] | Some r \<Rightarrow> r);
          spacing = max (width - (str_width T left + str_width T right)) 1 in
      left @ spaces spacing @ right)"

definition layout_row :: "shaping \<Rightarrow> ustring \<Rightarrow> ustring \<Rightarrow> nat \<Rightarrow> ustring list" where
  "layout_row T left right width =
     (if str_width T left + str_width T right < width
      then [left @ spaces (width - str_width T left - str_width T right) @ right]
      else
        let left_width = min (width * 3) USIZE_MAX div 5;
            right_width = width - (left_width + 1);
            left_lines = wrap_text T left (max left_width 1);
            right_lines = wrap_text T right (max right_width 1);
            count = max (length left_lines) (length right_lines) in
        map (row_line T width left_lines right_lines) [0..<count])"

definition align_preview ::
  "shaping \<Rightarrow> ustring \<Rightarrow> nat \<Rightarrow> TextAlignment option \<Rightarrow> ustring" where
  "align_preview T value width alignment =
     (let padding = width - str_width T value in
      case (case alignment of None \<Rightarrow> AlignLeft | Some a \<Rightarrow> a) of
        AlignLeft \<Rightarrow> value
      | AlignCenter \<Rightarrow> spaces (padding div 2) @ value
      | AlignRight \<Rightarrow> spaces padding @ value)"

section \<open>Nothing is lost\<close>

text \<open>The characters that take ink: what is left of a text without its white space.\<close>

definition ink :: "ustring \<Rightarrow> ustring" where
  "ink s = filter (\<lambda>c. \<not> is_whitespace c) s"

lemma ink_simps [simp]: "ink [] = []" "ink (s @ t) = ink s @ ink t" "ink (32 # s) = ink s"
  by (simp_all add: ink_def is_whitespace_def)

lemma concat_split_on: "filter (\<lambda>c. \<not> P c) s = concat (split_on P s)"
  by (induction s) (auto split: list.splits)

lemma ink_split_whitespace: "concat (split_whitespace s) = ink s"
proof -
  have "concat (filter (\<lambda>w. w \<noteq> []) ws) = concat ws" for ws :: "ustring list"
    by (induction ws) auto
  then show ?thesis by (simp add: split_whitespace_def ink_def concat_split_on)
qed

lemma ink_word: "w \<in> set (split_whitespace s) \<Longrightarrow> ink w = w"
  using split_on_pieces [of w is_whitespace s] by (auto simp: split_whitespace_def ink_def)

lemma ink_split_lines: "ink (concat (split_on (\<lambda>c. c = 10) s)) = ink s"
proof -
  have "concat (split_on (\<lambda>c. c = 10) s) = filter (\<lambda>c. c \<noteq> 10) s" by (simp add: concat_split_on)
  moreover have "ink (filter (\<lambda>c. c \<noteq> 10) s) = ink s"
    by (induction s) (auto simp: ink_def is_whitespace_def)
  ultimately show ?thesis by simp
qed

definition wrapped_ink :: "wrapping \<Rightarrow> ustring" where
  "wrapped_ink w = ink (concat (fst w)) @ ink (snd w)"

lemma written_grapheme: "wrapped_ink (wrap_grapheme T width w g) = wrapped_ink w @ ink g"
  by (cases w) (simp add: wrapped_ink_def wrap_grapheme_def)

lemma written_graphemes:
  "wrapped_ink (foldl (wrap_grapheme T width) w gs) = wrapped_ink w @ ink (concat gs)"
  by (induction gs arbitrary: w) (simp_all add: written_grapheme)

lemma written_break: "wrapped_ink (wrap_break T width w word) = wrapped_ink w"
  by (cases w) (simp add: wrapped_ink_def wrap_break_def Let_def)

lemma written_word:
  assumes "divides_graphemes T"
  shows "wrapped_ink (wrap_word T width w word) = wrapped_ink w @ ink word"
proof -
  obtain result current where b: "wrap_break T width w word = (result, current)" by fastforce
  then have "wrapped_ink w = ink (concat result) @ ink current"
    using written_break [of T width w word] by (simp add: wrapped_ink_def)
  with b assms show ?thesis
    by (simp add: wrap_word_def written_graphemes divides_graphemes_def) (simp add: wrapped_ink_def)
qed

lemma written_words:
  assumes "divides_graphemes T"
  shows "wrapped_ink (foldl (wrap_word T width) w ws) = wrapped_ink w @ ink (concat ws)"
  by (induction ws arbitrary: w) (simp_all add: written_word [OF assms])

lemma ink_source_line:
  assumes "divides_graphemes T"
  shows "ink (concat (wrap_source_line T width result line)) = ink (concat result) @ ink line"
proof -
  obtain r c where f: "foldl (wrap_word T width) (result, []) (split_whitespace line) = (r, c)"
    by fastforce
  then have "ink (concat r) @ ink c = ink (concat result) @ ink (ink line)"
    using written_words [OF assms, of width "(result, [])" "split_whitespace line"]
    by (simp add: wrapped_ink_def ink_split_whitespace)
  moreover have "ink (ink line) = ink line" by (simp add: ink_def)
  ultimately show ?thesis by (auto simp: wrap_source_line_def f)
qed

lemma ink_source_lines:
  assumes "divides_graphemes T"
  shows "ink (concat (foldl (wrap_source_line T width) result ls)) = ink (concat result) @ ink (concat ls)"
  by (induction ls arbitrary: result) (simp_all add: ink_source_line [OF assms])

lemma wrap_text_ink:
  "divides_graphemes T \<Longrightarrow> ink (concat (wrap_text T value width)) = ink value"
  by (simp add: wrap_text_def ink_source_lines ink_split_lines)

section \<open>Lines fit, on printable ASCII\<close>

fun single_spaced :: "ustring \<Rightarrow> bool" where
  "single_spaced (a # b # s) \<longleftrightarrow> \<not> (a = 32 \<and> b = 32) \<and> single_spaced (b # s)"
| "single_spaced _ \<longleftrightarrow> True"

lemma single_spaced_append:
  "single_spaced (s @ t) \<longleftrightarrow> single_spaced s \<and> single_spaced t \<and>
     \<not> (s \<noteq> [] \<and> t \<noteq> [] \<and> last s = 32 \<and> hd t = 32)"
proof (induction s)
  case (Cons a s)
  then show ?case by (cases s; cases t) auto
qed simp

lemma single_spaced_graphic: "list_all is_graphic s \<Longrightarrow> single_spaced s"
  by (induction s rule: single_spaced.induct) (auto simp: is_graphic_def)

text \<open>A wrapped line: at most the width, printable, single spaces between words only.\<close>

definition tidy :: "ustring \<Rightarrow> bool" where
  "tidy s \<longleftrightarrow> list_all is_printable s \<and> single_spaced s \<and> (s \<noteq> [] \<longrightarrow> hd s \<noteq> 32 \<and> last s \<noteq> 32)"

definition line_ok :: "nat \<Rightarrow> ustring \<Rightarrow> bool" where
  "line_ok width s \<longleftrightarrow> length s \<le> width \<and> tidy s"

definition wrapping_ok :: "nat \<Rightarrow> wrapping \<Rightarrow> bool" where
  "wrapping_ok width w \<longleftrightarrow> list_all (line_ok width) (fst w) \<and> line_ok width (snd w)"

lemma line_ok_Nil [simp]: "line_ok width []"
  by (simp add: line_ok_def tidy_def)

lemma graphic_ne_space: "list_all is_graphic s \<Longrightarrow> s \<noteq> [] \<Longrightarrow> hd s \<noteq> 32 \<and> last s \<noteq> 32"
proof -
  assume "list_all is_graphic s" "s \<noteq> []"
  then have "is_graphic (hd s)" "is_graphic (last s)" by (auto simp: list_all_iff)
  then show ?thesis by (auto simp: is_graphic_def)
qed

lemma graphic_printable: "list_all is_graphic s \<Longrightarrow> list_all is_printable s"
  by (auto simp: list_all_iff is_printable_def)

lemma tidy_word: "list_all is_graphic w \<Longrightarrow> tidy w"
  using graphic_ne_space [of w] by (auto simp: tidy_def single_spaced_graphic graphic_printable)

lemma tidy_append_word:
  assumes "tidy s" "s \<noteq> []" "list_all is_graphic w" "w \<noteq> []"
  shows "tidy (s @ 32 # w)"
proof -
  have "hd w \<noteq> 32" "last w \<noteq> 32" using graphic_ne_space assms by auto
  moreover have "single_spaced (32 # w)"
    using single_spaced_graphic [OF assms(3)] \<open>hd w \<noteq> 32\<close> assms(4) by (cases w) auto
  ultimately show ?thesis
    using assms by (auto simp: tidy_def single_spaced_append graphic_printable is_printable_def)
qed

lemma wrap_break_ok: "wrapping_ok width w \<Longrightarrow> wrapping_ok width (wrap_break T width w word)"
  by (cases w) (auto simp: wrapping_ok_def wrap_break_def Let_def)

lemma wrap_graphemes_ok:
  assumes T: "shapes_ascii T" and width: "0 < width"
  shows "list_all is_graphic cs \<Longrightarrow> list_all (line_ok width) result \<Longrightarrow>
    list_all is_graphic segment \<Longrightarrow> length segment \<le> width \<Longrightarrow>
    wrapping_ok width (foldl (wrap_grapheme T width) (result, segment) (map (\<lambda>c. [c]) cs))"
proof (induction cs arbitrary: result segment)
  case Nil
  then have "line_ok width segment" by (simp add: line_ok_def tidy_word)
  with Nil show ?case by (simp add: wrapping_ok_def)
next
  case (Cons c cs)
  have w: "str_width T s = length s" if "list_all is_graphic s" for s
    using T graphic_printable [OF that] by (simp add: shapes_ascii_def)
  show ?case
  proof (cases "segment \<noteq> [] \<and> str_width T segment + str_width T [c] > width")
    case True
    then have "wrap_grapheme T width (result, segment) [c] = (result @ [segment], [c])"
      by (simp add: wrap_grapheme_def)
    moreover have "line_ok width segment" using Cons.prems by (simp add: line_ok_def tidy_word)
    ultimately show ?thesis using Cons.IH [of "result @ [segment]" "[c]"] Cons.prems width by simp
  next
    case False
    then have "length (segment @ [c]) \<le> width"
      using Cons.prems width w [of segment] w [of "[c]"] by (cases "segment = []") auto
    moreover have "wrap_grapheme T width (result, segment) [c] = (result, segment @ [c])"
      using False by (auto simp: wrap_grapheme_def)
    ultimately show ?thesis using Cons.IH [of result "segment @ [c]"] Cons.prems by simp
  qed
qed

lemma wrap_word_ok:
  assumes T: "shapes_ascii T" and width: "0 < width" and ok: "wrapping_ok width w"
    and word: "list_all is_graphic word" "word \<noteq> []"
  shows "wrapping_ok width (wrap_word T width w word)"
proof -
  obtain result current where b: "wrap_break T width w word = (result, current)" by fastforce
  have ok': "wrapping_ok width (result, current)" using wrap_break_ok [OF ok, of T word] b by simp
  have shape: "str_width T s = length s \<and> graphemes T s = map (\<lambda>c. [c]) s" if "list_all is_printable s" for s
    using T that by (simp add: shapes_ascii_def)
  have printable: "list_all is_printable word" using word graphic_printable by simp
  show ?thesis
  proof (cases "str_width T word > width")
    case True
    have "wrapping_ok width (foldl (wrap_grapheme T width)
        (if current \<noteq> [] then result @ [current] else result, []) (map (\<lambda>c. [c]) word))"
      using ok' word width by (intro wrap_graphemes_ok [OF T width]) (auto simp: wrapping_ok_def)
    with True show ?thesis by (simp add: wrap_word_def b shape [OF printable])
  next
    case False
    have "line_ok width ((if current \<noteq> [] then current @ [32] else current) @ word)"
    proof (cases "current = []")
      case True
      with False word shape [OF printable] show ?thesis by (simp add: line_ok_def tidy_word)
    next
      case nonempty: False
      then have keep: "w = (result, current)"
        "str_width T current + 1 + str_width T word \<le> width"
        using b by (cases w; auto simp: wrap_break_def Let_def split: if_splits)+
      have "tidy current" using ok' by (simp add: wrapping_ok_def line_ok_def)
      moreover from this have "str_width T current = length current"
        using shape by (simp add: tidy_def)
      ultimately show ?thesis
        using nonempty keep word shape [OF printable] tidy_append_word [of current word]
        by (simp add: line_ok_def)
    qed
    with False ok' show ?thesis by (simp add: wrap_word_def b wrapping_ok_def)
  qed
qed

text \<open>Text whose characters are printable or white space; other control characters excluded.\<close>

definition plain_text :: "ustring \<Rightarrow> bool" where
  "plain_text s \<longleftrightarrow> list_all (\<lambda>c. is_graphic c \<or> is_whitespace c \<and> c < 0x80) s"

lemma plain_words:
  assumes "plain_text s" "w \<in> set (split_whitespace s)"
  shows "list_all is_graphic w \<and> w \<noteq> []"
  using assms split_on_pieces [of w is_whitespace s]
  by (auto simp: split_whitespace_def plain_text_def list_all_iff)

lemma wrap_words_ok:
  assumes "shapes_ascii T" "0 < width"
  shows "wrapping_ok width w \<Longrightarrow> \<forall>word \<in> set ws. list_all is_graphic word \<and> word \<noteq> [] \<Longrightarrow>
    wrapping_ok width (foldl (wrap_word T width) w ws)"
  by (induction ws arbitrary: w) (simp_all add: wrap_word_ok [OF assms])

lemma wrap_source_line_ok:
  assumes "shapes_ascii T" "0 < width" "list_all (line_ok width) result" "plain_text line"
  shows "list_all (line_ok width) (wrap_source_line T width result line)"
proof -
  have "wrapping_ok width (foldl (wrap_word T width) (result, []) (split_whitespace line))"
    using assms plain_words [OF assms(4)]
    by (intro wrap_words_ok [OF assms(1,2)]) (auto simp: wrapping_ok_def)
  with assms(3) show ?thesis
    by (auto simp: wrap_source_line_def wrapping_ok_def split: prod.splits)
qed

lemma wrap_text_ok:
  assumes T: "shapes_ascii T" "0 < width" and plain: "plain_text value"
  shows "list_all (line_ok width) (wrap_text T value width)"
proof -
  have "list_all (line_ok width) (foldl (wrap_source_line T width) result ls)"
    if "list_all (line_ok width) result" "\<forall>l \<in> set ls. plain_text l" for result ls
    using that by (induction ls arbitrary: result) (simp_all add: wrap_source_line_ok [OF T])
  moreover have "\<forall>l \<in> set (split_on (\<lambda>c. c = 10) value). plain_text l"
    using plain split_on_pieces [of _ "\<lambda>c. c = 10" "value"]
    by (fastforce simp: plain_text_def list_all_iff)
  ultimately show ?thesis by (simp add: wrap_text_def)
qed

text \<open>A row of printable columns: printable lines of at most the width.\<close>

lemma printable_plain: "list_all is_printable s \<Longrightarrow> plain_text s"
  by (auto simp: plain_text_def list_all_iff is_printable_def is_whitespace_def)

lemma spaces_printable [simp]: "list_all is_printable (spaces n)"
  and spaces_length [simp]: "length (spaces n) = n"
  by (auto simp: spaces_def list_all_iff is_printable_def)

lemma list_get_ok:
  "list_all P xs \<Longrightarrow> P [] \<Longrightarrow> P (case list_get xs i of None \<Rightarrow> [] | Some x \<Rightarrow> x)"
  by (auto simp: list_get_def list_all_length)

lemma layout_row_ok:
  assumes T: "shapes_ascii T" and left: "list_all is_printable left"
    and right: "list_all is_printable right" and width: "5 \<le> width"
  shows "list_all (\<lambda>l. list_all is_printable l \<and> length l \<le> width) (layout_row T left right width)"
proof -
  have w: "str_width T s = length s" if "list_all is_printable s" for s
    using T that by (simp add: shapes_ascii_def)
  show ?thesis
  proof (cases "length left + length right < width")
    case True
    then show ?thesis using w left right by (simp add: layout_row_def)
  next
    case False
    define lw where "lw = min (width * 3) USIZE_MAX div 5"
    have lw: "1 \<le> lw" "lw + 2 \<le> width"
      using width unfolding lw_def USIZE_MAX_def min_def by (simp_all, linarith+)
    have ll: "list_all (line_ok (max lw 1)) (wrap_text T left (max lw 1))"
      and rr: "list_all (line_ok (max (width - (lw + 1)) 1)) (wrap_text T right (max (width - (lw + 1)) 1))"
      using left right by (auto intro!: wrap_text_ok [OF T] printable_plain)
    have sum: "max lw 1 + max (width - (lw + 1)) 1 + 1 \<le> width"
      using lw by (simp add: max_def)
    have "list_all is_printable l \<and> length l \<le> width"
      if "l = row_line T width (wrap_text T left (max lw 1))
            (wrap_text T right (max (width - (lw + 1)) 1)) i" for l i
    proof -
      define a where "a = (case list_get (wrap_text T left (max lw 1)) i of None \<Rightarrow> [] | Some x \<Rightarrow> x)"
      define b where "b = (case list_get (wrap_text T right (max (width - (lw + 1)) 1)) i of None \<Rightarrow> [] | Some x \<Rightarrow> x)"
      have a: "line_ok (max lw 1) a" unfolding a_def by (rule list_get_ok [OF ll]) simp
      have b: "line_ok (max (width - (lw + 1)) 1) b" unfolding b_def by (rule list_get_ok [OF rr]) simp
      have l: "l = a @ spaces (max (width - (length a + length b)) 1) @ b"
        using a b w unfolding that row_line_def a_def [symmetric] b_def [symmetric]
        by (simp add: Let_def line_ok_def tidy_def)
      have "length a + length b + 1 \<le> width"
        using a b sum unfolding line_ok_def by linarith
      then have "max (width - (length a + length b)) 1 + (length a + length b) = width" by simp
      with a b show ?thesis by (simp add: l line_ok_def tidy_def)
    qed
    with False w left right show ?thesis
      by (auto simp: layout_row_def Let_def list_all_iff lw_def [symmetric])
  qed
qed

end
