(* ===== verification/Receipt_Layout.thy ===== *)
theory Receipt_Layout
  imports Receipt_Text
begin

text \<open>
  The device-independent receipt (\<open>crates/oppa-renderer\<close>: the layout and image part of
  \<open>page.rs\<close>, the image part of \<open>lib.rs\<close>): the elements a document is turned into, packed one-bit
  images, raster pages and their validation. Base64 and image decoding, resizing and the conversion
  to gray values are the crates \<open>base64\<close> and \<open>image\<close>: the record \<open>imaging\<close>.
\<close>

unbundle bit_operations_syntax

type_synonym byte = "8 word"

section \<open>32-bit arithmetic of the layout\<close>

definition sat_mul32 :: "32 word \<Rightarrow> 32 word \<Rightarrow> 32 word" where
  "sat_mul32 a b = (if unat a * unat b < 2 ^ 32 then a * b else - 1)"

definition sat_add32 :: "32 word \<Rightarrow> 32 word \<Rightarrow> 32 word" where
  "sat_add32 a b = (if unat a + unat b < 2 ^ 32 then a + b else - 1)"

definition sat_sub32 :: "32 word \<Rightarrow> 32 word \<Rightarrow> 32 word" where
  "sat_sub32 a b = (if b \<le> a then a - b else 0)"

definition checked_mul32 :: "32 word \<Rightarrow> 32 word \<Rightarrow> 32 word option" where
  "checked_mul32 a b = (if unat a * unat b < 2 ^ 32 then Some (a * b) else None)"

definition checked_add32 :: "32 word \<Rightarrow> 32 word \<Rightarrow> 32 word option" where
  "checked_add32 a b = (if unat a + unat b < 2 ^ 32 then Some (a + b) else None)"

definition div_ceil8 :: "32 word \<Rightarrow> 32 word" where
  "div_ceil8 w = w div 8 + (if w mod 8 = 0 then 0 else 1)"

definition checked_mul_usize :: "nat \<Rightarrow> nat \<Rightarrow> nat option" where
  "checked_mul_usize a b = (if a * b \<le> USIZE_MAX then Some (a * b) else None)"

definition raster_error :: "string \<Rightarrow> RendererError" where
  "raster_error m = InvalidRasterPage (lit m)"

definition mm_to_px :: "16 word \<Rightarrow> 16 word \<Rightarrow> RendererError + 32 word" where
  "mm_to_px mm dpi = ok_or (raster_error ''dimension overflow'')
     (Option.bind (checked_mul32 (ucast mm) (ucast dpi)) (\<lambda>dots.
      Option.bind (checked_mul32 dots 10) (\<lambda>dots.
      map_option (\<lambda>dots. dots div 254) (checked_add32 dots 127))))"

definition receipt_pixel_width :: "ReceiptWidth \<Rightarrow> 16 word \<Rightarrow> 32 word" where
  "receipt_pixel_width width dpi =
     (case mm_to_px (millimetres width) dpi of Ok px \<Rightarrow> px | Err _ \<Rightarrow> 1)"

section \<open>Packed one-bit images\<close>

text \<open>The plain pixel buffer of \<open>image::GrayImage\<close>, row by row.\<close>

record GrayImage =
  gray_width :: "32 word"
  gray_height :: "32 word"
  gray_data :: "byte list"

definition get_pixel :: "GrayImage \<Rightarrow> nat \<Rightarrow> nat \<Rightarrow> byte" where
  "get_pixel g x y = gray_data g ! (y * unat (gray_width g) + x)"

record ReceiptImage =
  im_width :: "32 word"
  im_height :: "32 word"
  im_dpi :: "16 word"
  im_stride :: "32 word"
  im_data :: "byte list"

text \<open>The index is computed in 32 bits; a position outside of the buffer is ignored.\<close>

definition set_packed_bit :: "byte list \<Rightarrow> 32 word \<Rightarrow> 32 word \<Rightarrow> 32 word \<Rightarrow> byte list" where
  "set_packed_bit data stride x y =
     (let index = unat (y * stride + x div 8) in
      if index < length data
      then data[index := data ! index OR drop_bit (unat (x mod 8)) 0x80] else data)"

definition from_gray :: "GrayImage \<Rightarrow> ReceiptImage" where
  "from_gray g =
     (let width = gray_width g; height = gray_height g; stride = div_ceil8 width;
          data = foldl (\<lambda>data y. foldl (\<lambda>data x.
                   if get_pixel g x y < 160
                   then set_packed_bit data stride (of_nat x) (of_nat y) else data)
                   data [0..<unat width])
                 (replicate (unat stride * unat height) 0) [0..<unat height] in
      \<lparr>im_width = width, im_height = height, im_dpi = 203, im_stride = stride, im_data = data\<rparr>)"

definition from_mono :: "32 word \<Rightarrow> 32 word \<Rightarrow> byte list \<Rightarrow> RendererError + ReceiptImage" where
  "from_mono width height data =
     (let stride = div_ceil8 width in
      and_then (ok_or (raster_error ''image size overflow'')
        (checked_mul_usize (unat stride) (unat height))) (\<lambda>expected.
      and_then (reject_if (width = 0 \<or> height = 0 \<or> length data \<noteq> expected)
        (raster_error ''ESC/POS image dimensions do not match its payload'')) (\<lambda>_.
      Ok \<lparr>im_width = width, im_height = height, im_dpi = 203, im_stride = stride, im_data = data\<rparr>)))"

section \<open>Raster pages\<close>

datatype PixelFormat = Mono1 | Gray8 | Rgb24 | Rgba32

record RasterPage =
  rp_width :: "32 word"
  rp_height :: "32 word"
  rp_dpi_x :: "16 word"
  rp_dpi_y :: "16 word"
  rp_format :: PixelFormat
  rp_data :: "byte list"

type_synonym RasterDocument = "RasterPage list"

definition bytes_per_row :: "RasterPage \<Rightarrow> RendererError + 32 word" where
  "bytes_per_row p =
     (let overflow = raster_error ''row size overflow'' in
      case rp_format p of
        Mono1 \<Rightarrow> Ok (div_ceil8 (rp_width p))
      | Gray8 \<Rightarrow> Ok (rp_width p)
      | Rgb24 \<Rightarrow> ok_or overflow (checked_mul32 (rp_width p) 3)
      | Rgba32 \<Rightarrow> ok_or overflow (checked_mul32 (rp_width p) 4))"

definition RasterPage_validate :: "RasterPage \<Rightarrow> RendererError + unit" where
  "RasterPage_validate p =
     and_then (bytes_per_row p) (\<lambda>row.
     and_then (ok_or (raster_error ''page size overflow'')
       (checked_mul_usize (unat row) (unat (rp_height p)))) (\<lambda>expected.
     and_then (reject_if (rp_width p = 0 \<or> rp_height p = 0 \<or> rp_dpi_x p = 0 \<or> rp_dpi_y p = 0)
       (raster_error ''dimensions and resolution must be non-zero'')) (\<lambda>_.
     reject_if (length (rp_data p) \<noteq> expected)
       (InvalidRasterPage (lit ''pixel buffer has '' @ dec (length (rp_data p)) @
          lit '' bytes; expected '' @ dec expected)))))"

definition mono_page_pixel :: "RasterPage \<Rightarrow> 32 word \<Rightarrow> 32 word \<Rightarrow> bool" where
  "mono_page_pixel p x y =
     (if rp_format p \<noteq> Mono1 \<or> x \<ge> rp_width p \<or> y \<ge> rp_height p then False
      else
        let stride = div_ceil8 (rp_width p); index = unat (y * stride + x div 8) in
        case list_get (rp_data p) index of
          None \<Rightarrow> False
        | Some b \<Rightarrow> b AND drop_bit (unat (x mod 8)) 0x80 \<noteq> 0)"

definition PageRenderOptions_validate :: "PageRenderOptions \<Rightarrow> RendererError + unit" where
  "PageRenderOptions_validate options = reject_if
     (\<not> (100 \<le> opt_width_mm options \<and> opt_width_mm options \<le> 500) \<or>
      \<not> (100 \<le> opt_height_mm options \<and> opt_height_mm options \<le> 500) \<or>
      \<not> (72 \<le> opt_dpi options \<and> opt_dpi options \<le> 600)) InvalidPageOptions"

section \<open>Decoding images\<close>

definition MAX_DECODED_IMAGE_BYTES :: nat where "MAX_DECODED_IMAGE_BYTES = 1024 * 1024"
definition MAX_IMAGE_DECODER_ALLOCATION_BYTES :: nat where
  "MAX_IMAGE_DECODER_ALLOCATION_BYTES = 16 * 1024 * 1024"
definition MAX_IMAGE_DIMENSION :: nat where "MAX_IMAGE_DIMENSION = 2048"

datatype LimitErrorKind = DimensionError | InsufficientMemory | UnsupportedLimits | OtherLimit

datatype ImageError = LimitsError LimitErrorKind | OtherImageError ustring

text \<open>The decoder receives the limits on both dimensions and on its allocation.\<close>

record 'i imaging =
  base64_decode :: "ustring \<Rightarrow> ustring + byte list"
  image_decode :: "byte list \<Rightarrow> ImageMediaType \<Rightarrow> nat \<Rightarrow> nat \<Rightarrow> nat \<Rightarrow> ImageError + 'i"
  image_width :: "'i \<Rightarrow> 32 word"
  image_height :: "'i \<Rightarrow> 32 word"
  resize_triangle :: "32 word \<Rightarrow> 32 word \<Rightarrow> 'i \<Rightarrow> 'i"
  to_luma8 :: "'i \<Rightarrow> GrayImage"

fun map_image_decode_error :: "ImageError \<Rightarrow> RendererError" where
  "map_image_decode_error (OtherImageError e) = InvalidImage e"
| "map_image_decode_error (LimitsError kind) = ImageTooLarge (case kind of
     DimensionError \<Rightarrow>
       lit ''width and height must each be at most '' @ dec MAX_IMAGE_DIMENSION @ lit ''px''
   | InsufficientMemory \<Rightarrow>
       lit ''decoder allocation exceeds '' @ dec MAX_IMAGE_DECODER_ALLOCATION_BYTES @ lit '' bytes''
   | UnsupportedLimits \<Rightarrow> lit ''decoder cannot enforce the required image safety limits''
   | OtherLimit \<Rightarrow> lit ''decoder resource limit exceeded'')"

definition decode_image :: "'i imaging \<Rightarrow> ImageMediaType \<Rightarrow> ustring \<Rightarrow> RendererError + 'i" where
  "decode_image I media_type data =
     and_then (map_err InvalidImage (base64_decode I data)) (\<lambda>decoded.
     and_then (reject_if (length decoded > MAX_DECODED_IMAGE_BYTES)
       (ImageTooLarge (lit ''decoded image is '' @ dec (length decoded) @
          lit '' bytes; maximum is '' @ dec MAX_DECODED_IMAGE_BYTES))) (\<lambda>_.
     map_err map_image_decode_error
       (image_decode I decoded media_type MAX_IMAGE_DIMENSION MAX_IMAGE_DIMENSION
          MAX_IMAGE_DECODER_ALLOCATION_BYTES)))"

section \<open>From a document to its layout\<close>

datatype ReceiptElement =
  TextElement ustring TextAlignment bool
| RowElement ustring ustring
| DividerElement
| ImageElement ReceiptImage
| QrElement ustring
| BarcodeElement BarcodeFormat ustring byte bool
| FeedElement byte
| CutElement

record PrintLayout =
  pl_width :: ReceiptWidth
  pl_elements :: "ReceiptElement list"

definition validation_text :: "ValidationError \<Rightarrow> ustring" where
  "validation_text e = ve_path e @ lit '': '' @ ve_message e"

definition scaled_to_width :: "'i imaging \<Rightarrow> 32 word \<Rightarrow> 'i \<Rightarrow> 'i" where
  "scaled_to_width I maximum_width decoded =
     (if image_width I decoded > maximum_width
      then
        let scaled = sat_mul32 (image_height I decoded) maximum_width;
            height = max (if image_width I decoded = 0 then 1
                          else scaled div image_width I decoded) 1 in
        resize_triangle I maximum_width height decoded
      else decoded)"

fun element_of_section ::
  "'i imaging \<Rightarrow> ReceiptWidth \<Rightarrow> PrintSection \<Rightarrow> RendererError + ReceiptElement" where
  "element_of_section I w (TextSection txt align bold) = Ok (TextElement txt
     (case align of None \<Rightarrow> AlignLeft | Some a \<Rightarrow> a) (case bold of None \<Rightarrow> False | Some b \<Rightarrow> b))"
| "element_of_section I w (RowSection left right) = Ok (RowElement left right)"
| "element_of_section I w DividerSection = Ok DividerElement"
| "element_of_section I w (ImageSection media data) =
     and_then (decode_image I media data) (\<lambda>decoded.
     Ok (ImageElement (from_gray (to_luma8 I
       (scaled_to_width I (receipt_pixel_width w 203) decoded)))))"
| "element_of_section I w (QrSection v) = Ok (QrElement v)"
| "element_of_section I w (BarcodeSection format v) = Ok (BarcodeElement format v 80 True)"
| "element_of_section I w (FeedSection lines) = Ok (FeedElement lines)"
| "element_of_section I w CutSection = Ok CutElement"

text \<open>A loop with the question mark operator in its body: the first failure ends it.\<close>

fun try_map :: "('a \<Rightarrow> 'e + 'b) \<Rightarrow> 'a list \<Rightarrow> 'e + 'b list" where
  "try_map f [] = Ok []"
| "try_map f (x # xs) = and_then (f x) (\<lambda>y. and_then (try_map f xs) (\<lambda>ys. Ok (y # ys)))"

definition from_document :: "'i imaging \<Rightarrow> PrintDocument \<Rightarrow> RendererError + PrintLayout" where
  "from_document I d =
     and_then (map_err (\<lambda>e. InvalidDocument (validation_text e)) (PrintDocument_validate d)) (\<lambda>_.
     and_then (try_map (element_of_section I (doc_width d)) (doc_sections d)) (\<lambda>elements.
     Ok \<lparr>pl_width = doc_width d, pl_elements = elements\<rparr>))"

lemma try_map_Ok: "try_map f xs = Inr ys \<longleftrightarrow> list_all2 (\<lambda>x y. f x = Inr y) xs ys"
  by (induction xs arbitrary: ys) (auto simp: and_then_Ok list_all2_Cons1)

end
