(* ===== verification/Escpos.thy ===== *)
theory Escpos
  imports Receipt_Layout
begin

text \<open>
  ESC/POS (\<open>crates/oppa-renderer/src/escpos.rs\<close>): the encoder of a receipt layout and the
  interpreter of the command subset the encoder emits. The parser is a record that every operation
  passes on; its main loop is total, since every step consumes a byte or stops.
\<close>

section \<open>Encoding\<close>

definition ESC :: byte where "ESC = 0x1B"
definition GS :: byte where "GS = 0x1D"
definition MAX_RASTER_BYTES :: nat where "MAX_RASTER_BYTES = 2 * 1024 * 1024"
definition MAX_QR_BYTES :: nat where "MAX_QR_BYTES = 4096"
definition MAX_TEXT_BYTES :: nat where "MAX_TEXT_BYTES = 256 * 1024"

definition str_bytes :: "ustring \<Rightarrow> byte list" where
  "str_bytes s = map of_nat (utf8_bytes s)"

definition str_of_bytes :: "byte list \<Rightarrow> ustring option" where
  "str_of_bytes bs = utf8_decode (map unat bs)"

definition lines_bytes :: "ustring list \<Rightarrow> byte list" where
  "lines_bytes ls = concat (map (\<lambda>line. str_bytes line @ [10]) ls)"

definition render_qr :: "ustring \<Rightarrow> byte list" where
  "render_qr v =
     (let data_len = byte_len v + 3; low = of_nat (data_len mod 256);
          high = of_nat (data_len div 256 mod 256) in
      [0x1D, 0x28, 0x6B, 4, 0, 49, 65, 50, 0] @ [0x1D, 0x28, 0x6B, 3, 0, 49, 67, 6] @
      [0x1D, 0x28, 0x6B, 3, 0, 49, 69, 49] @ [0x1D, 0x28, 0x6B, low, high, 49, 80, 48] @
      str_bytes v @ [0x1D, 0x28, 0x6B, 3, 0, 49, 81, 48])"

definition code39_byte :: "nat \<Rightarrow> bool" where
  "code39_byte b \<longleftrightarrow> is_ascii_upper b \<or> is_ascii_digit b \<or> b \<in> set (lit '' -.$/+%'')"

definition barcode_payload :: "BarcodeFormat \<Rightarrow> ustring \<Rightarrow> RendererError + byte \<times> byte list" where
  "barcode_payload format v = (case format of
     Code128 \<Rightarrow>
       if \<not> list_all (\<lambda>c. c < 0x80) v \<or> byte_len v > 253
       then Err (InvalidBarcode format (lit ''Code 128 must be at most 253 ASCII bytes''))
       else Ok (73, str_bytes (lit ''{B'' @ v))
   | Code39 \<Rightarrow>
       if \<not> list_all code39_byte (utf8_bytes v)
       then Err (InvalidBarcode format (lit ''Code 39 contains unsupported characters''))
       else Ok (69, str_bytes v)
   | Ean13 \<Rightarrow>
       if \<not> (byte_len v = 12 \<or> byte_len v = 13) \<or> \<not> list_all is_ascii_digit (utf8_bytes v)
       then Err (InvalidBarcode format (lit ''EAN-13 requires 12 or 13 digits''))
       else Ok (67, str_bytes v)
   | Upca \<Rightarrow>
       if \<not> (byte_len v = 11 \<or> byte_len v = 12) \<or> \<not> list_all is_ascii_digit (utf8_bytes v)
       then Err (InvalidBarcode format (lit ''UPC-A requires 11 or 12 digits''))
       else Ok (65, str_bytes v))"

definition render_barcode :: "BarcodeFormat \<Rightarrow> ustring \<Rightarrow> RendererError + byte list" where
  "render_barcode format v =
     and_then (barcode_payload format v) (\<lambda>(command, payload).
     and_then (reject_if (length payload > 255)
       (InvalidBarcode format (lit ''barcode payload is too long''))) (\<lambda>_.
     Ok ([0x1D, 0x48, 2, 0x1D, 0x68, 80, 0x1D, 0x6B, command, of_nat (length payload)] @ payload)))"

text \<open>The two low bytes of a dimension; the conversions to \<open>u8\<close> cannot fail after the mask.\<close>

definition low_byte :: "32 word \<Rightarrow> byte" where
  "low_byte w = ucast (w AND 0xFF)"

definition high_byte :: "32 word \<Rightarrow> byte" where
  "high_byte w = ucast (drop_bit 8 w AND 0xFF)"

fun element_bytes :: "shaping \<Rightarrow> nat \<Rightarrow> ReceiptElement \<Rightarrow> RendererError + byte list" where
  "element_bytes T cols (TextElement v alignment bold) =
     and_then (require_ascii v) (\<lambda>_.
     Ok ([ESC, 0x61, alignment_code (Some alignment), ESC, 0x45, if bold then 1 else 0] @
         lines_bytes (wrap_text T v cols) @ [ESC, 0x45, 0]))"
| "element_bytes T cols (RowElement left right) =
     and_then (require_ascii left) (\<lambda>_.
     and_then (require_ascii right) (\<lambda>_.
     Ok ([ESC, 0x61, 0] @ lines_bytes (layout_row T left right cols))))"
| "element_bytes T cols DividerElement = Ok (replicate cols 0x2D @ [10])"
| "element_bytes T cols (ImageElement im) =
     Ok ([GS, 0x76, 0x30, 0, low_byte (im_stride im), high_byte (im_stride im),
          low_byte (im_height im), high_byte (im_height im)] @ im_data im)"
| "element_bytes T cols (QrElement v) = Ok (render_qr v)"
| "element_bytes T cols (BarcodeElement format v height_dots human_readable) =
     and_then (render_barcode format v) (\<lambda>bytes.
     Ok (bytes[2 := if human_readable then 2 else 0, 5 := height_dots]))"
| "element_bytes T cols (FeedElement n) = Ok [ESC, 0x64, n]"
| "element_bytes T cols CutElement = Ok [GS, 0x56, 0]"

definition render_layout :: "shaping \<Rightarrow> PrintLayout \<Rightarrow> RendererError + byte list" where
  "render_layout T layout =
     and_then (try_map (element_bytes T (columns (pl_width layout))) (pl_elements layout))
       (\<lambda>parts. Ok ([ESC, 0x40] @ concat parts))"

section \<open>Rows in a line of text\<close>

text \<open>
  The scan for the last run of at least two spaces. Its positions count bytes; they are positions of
  characters here, which agree on the ASCII lines it is used on.
\<close>

function scan_runs :: "(nat \<times> nat) option \<Rightarrow> nat \<Rightarrow> ustring \<Rightarrow> (nat \<times> nat) option" where
  "scan_runs selected index [] = selected"
| "b \<noteq> 32 \<Longrightarrow> scan_runs selected index (b # bs) = scan_runs selected (index + 1) bs"
| "scan_runs selected index (32 # bs) =
     (let run = 1 + length (takeWhile (\<lambda>b. b = 32) bs) in
      scan_runs (if run \<ge> 2 then Some (index, index + run) else selected) (index + run)
        (drop (run - 1) bs))"
  by (auto, metis list.exhaust)
termination by (relation "measure (\<lambda>(selected, index, bs). length bs)") auto

definition split_emitted_row :: "ustring \<Rightarrow> (ustring \<times> ustring) option" where
  "split_emitted_row line = (case scan_runs None 0 line of
     None \<Rightarrow> None
   | Some (start, stop) \<Rightarrow>
       let left = trim_end (take start line); right = trim_start (drop stop line) in
       if left = [] then None else Some (left, right))"

section \<open>The parser and its state\<close>

record EscPosDiagnostics =
  ed_interpreted_commands :: nat
  ed_text_lines :: nat
  ed_images :: nat
  ed_qr_codes :: nat
  ed_barcodes :: nat
  ed_feed_lines :: nat
  ed_cut_requested :: bool
  ed_unsupported :: "(nat \<times> ustring) list"

record EscPosInterpretation =
  ei_layout :: PrintLayout
  ei_diagnostics :: EscPosDiagnostics

record Parser =
  ps_bytes :: "byte list"
  ps_offset :: nat
  ps_layout :: PrintLayout
  ps_diagnostics :: EscPosDiagnostics
  ps_alignment :: TextAlignment
  ps_bold :: bool
  ps_text :: "byte list"
  ps_qr_payload :: "ustring option"
  ps_barcode_height :: byte
  ps_barcode_hri :: bool
  ps_stopped :: bool

definition Diagnostics_default :: EscPosDiagnostics where
  "Diagnostics_default = \<lparr>ed_interpreted_commands = 0, ed_text_lines = 0, ed_images = 0,
     ed_qr_codes = 0, ed_barcodes = 0, ed_feed_lines = 0, ed_cut_requested = False,
     ed_unsupported = []\<rparr>"

definition Parser_new :: "byte list \<Rightarrow> ReceiptWidth \<Rightarrow> Parser" where
  "Parser_new bytes width = \<lparr>ps_bytes = bytes, ps_offset = 0,
     ps_layout = \<lparr>pl_width = width, pl_elements = []\<rparr>, ps_diagnostics = Diagnostics_default,
     ps_alignment = AlignLeft, ps_bold = False, ps_text = [], ps_qr_payload = None,
     ps_barcode_height = 80, ps_barcode_hri = True, ps_stopped = False\<rparr>"

type_synonym 'a parse = "(Parser, RendererError, 'a) eff"

abbreviation update_diag :: "(EscPosDiagnostics \<Rightarrow> EscPosDiagnostics) \<Rightarrow> Parser \<Rightarrow> Parser" where
  "update_diag f p \<equiv> p\<lparr>ps_diagnostics := f (ps_diagnostics p)\<rparr>"

definition push_element :: "ReceiptElement \<Rightarrow> Parser \<Rightarrow> Parser" where
  "push_element e p =
     p\<lparr>ps_layout := (ps_layout p)\<lparr>pl_elements := pl_elements (ps_layout p) @ [e]\<rparr>\<rparr>"

definition invalid :: "nat \<Rightarrow> ustring \<Rightarrow> RendererError + 'a" where
  "invalid offset reason = Err (InvalidEscPos offset reason)"

definition unsupported :: "nat \<Rightarrow> ustring \<Rightarrow> unit parse" where
  "unsupported offset command = emodify (\<lambda>p.
     (update_diag (\<lambda>d. d\<lparr>ed_unsupported := ed_unsupported d @ [(offset, command)]\<rparr>) p)
       \<lparr>ps_stopped := True\<rparr>)"

definition take_byte :: "nat \<Rightarrow> string \<Rightarrow> byte option parse" where
  "take_byte command_offset description p = (case list_get (ps_bytes p) (ps_offset p) of
     None \<Rightarrow> (invalid command_offset (lit ''truncated '' @ lit description), p)
   | Some v \<Rightarrow> (Ok (Some v), p\<lparr>ps_offset := ps_offset p + 1\<rparr>))"

definition take_payload :: "nat \<Rightarrow> nat \<Rightarrow> string \<Rightarrow> byte list option parse" where
  "take_payload len command_offset description p =
     (if ps_offset p + len > USIZE_MAX
      then (invalid command_offset (lit description @ lit '' length overflow''), p)
      else if ps_offset p + len > length (ps_bytes p)
      then (invalid command_offset (lit ''truncated '' @ lit description), p)
      else (Ok (Some (take len (drop (ps_offset p) (ps_bytes p)))),
            p\<lparr>ps_offset := ps_offset p + len\<rparr>))"

text \<open>\<open>let Some(v) = ...? else { return Ok(()) }\<close>.\<close>

definition or_return :: "'a option parse \<Rightarrow> ('a \<Rightarrow> unit parse) \<Rightarrow> unit parse" where
  "or_return m k = ebind m (\<lambda>v. case v of None \<Rightarrow> eret () | Some v \<Rightarrow> k v)"

definition hex2 :: "byte \<Rightarrow> ustring" where
  "hex2 b = (let digit = (\<lambda>d. if d < 10 then 48 + d else 55 + d) in
     lit ''0x'' @ [digit (unat b div 16), digit (unat b mod 16)])"

section \<open>Text\<close>

text \<open>The buffer is taken before it is decoded, so it is empty after a failure too.\<close>

definition take_text :: "ustring parse" where
  "take_text p = (case str_of_bytes (ps_text p) of
     None \<Rightarrow> (invalid (ps_offset p) (lit ''text bytes are not ASCII''), p\<lparr>ps_text := []\<rparr>)
   | Some s \<Rightarrow> (Ok s, p\<lparr>ps_text := []\<rparr>))"

definition flush_text :: "bool \<Rightarrow> unit parse" where
  "flush_text count_line p =
     (if ps_text p = [] then (Ok (), p)
      else ebind take_text (\<lambda>s.
        ebind (emodify (\<lambda>p. push_element (TextElement s (ps_alignment p) (ps_bold p)) p)) (\<lambda>_.
        emodify (\<lambda>p. if count_line
          then update_diag (\<lambda>d. d\<lparr>ed_text_lines := ed_text_lines d + 1\<rparr>) p else p))) p)"

definition classify_line :: "nat \<Rightarrow> TextAlignment \<Rightarrow> bool \<Rightarrow> ustring \<Rightarrow> ReceiptElement" where
  "classify_line cols alignment bold s =
     (if byte_len s = cols \<and> list_all (\<lambda>b. b = 0x2D) (utf8_bytes s) then DividerElement
      else (case split_emitted_row s of
        Some (left, right) \<Rightarrow> RowElement left right
      | None \<Rightarrow> TextElement s alignment bold))"

definition finish_text_line :: "unit parse" where
  "finish_text_line p =
     (if ps_text p = []
      then (Ok (), update_diag (\<lambda>d. d\<lparr>ed_feed_lines := ed_feed_lines d + 1\<rparr>)
                     (push_element (FeedElement 1) p))
      else ebind take_text (\<lambda>s.
        ebind (emodify (update_diag (\<lambda>d. d\<lparr>ed_text_lines := ed_text_lines d + 1\<rparr>))) (\<lambda>_.
        emodify (\<lambda>p. push_element
          (classify_line (columns (pl_width (ps_layout p))) (ps_alignment p) (ps_bold p) s) p))) p)"

section \<open>Commands\<close>

definition le16 :: "byte \<Rightarrow> byte \<Rightarrow> 'a::len word" where
  "le16 low high = ucast low OR push_bit 8 (ucast high)"

definition parse_raster_image :: "nat \<Rightarrow> unit parse" where
  "parse_raster_image co =
     or_return (take_byte co ''raster subcommand'') (\<lambda>subcommand.
     if subcommand \<noteq> 0x30 then unsupported co (lit ''GS v mode '' @ hex2 subcommand)
     else or_return (take_byte co ''raster mode'') (\<lambda>mode.
     if mode \<noteq> 0 then unsupported co (lit ''GS v 0 mode '' @ dec (unat mode))
     else or_return (take_byte co ''raster row width'') (\<lambda>width_low.
     or_return (take_byte co ''raster row width'') (\<lambda>width_high.
     or_return (take_byte co ''raster height'') (\<lambda>height_low.
     or_return (take_byte co ''raster height'') (\<lambda>height_high.
     let row_bytes = le16 width_low width_high :: 32 word;
         height = le16 height_low height_high :: 32 word in
     case checked_mul_usize (unat row_bytes) (unat height) of
       None \<Rightarrow> elift (invalid co (lit ''raster dimensions overflow''))
     | Some byte_count \<Rightarrow>
         if row_bytes = 0 \<or> height = 0 \<or> byte_count > MAX_RASTER_BYTES
         then elift (invalid co (lit ''raster block exceeds its supported dimensions''))
         else or_return (take_payload byte_count co ''raster pixels'') (\<lambda>payload.
         ebind (elift (from_mono (row_bytes * 8) height payload)) (\<lambda>im.
         emodify (\<lambda>p. update_diag (\<lambda>d. d\<lparr>ed_images := ed_images d + 1\<rparr>)
           (push_element (ImageElement im) p))))))))))"

definition store_qr :: "nat \<Rightarrow> byte list \<Rightarrow> unit parse" where
  "store_qr co bytes = (case str_of_bytes bytes of
     None \<Rightarrow> elift (invalid co (lit ''QR payload is not UTF-8''))
   | Some v \<Rightarrow> emodify (\<lambda>p. p\<lparr>ps_qr_payload := Some v\<rparr>))"

definition print_qr :: "nat \<Rightarrow> unit parse" where
  "print_qr co p = (case ps_qr_payload p of
     None \<Rightarrow> unsupported co (lit ''QR print without stored data'') p
   | Some v \<Rightarrow> (Ok (), update_diag (\<lambda>d. d\<lparr>ed_qr_codes := ed_qr_codes d + 1\<rparr>)
       (push_element (QrElement v) (p\<lparr>ps_qr_payload := None\<rparr>))))"

definition qr_function :: "nat \<Rightarrow> byte list \<Rightarrow> unit parse" where
  "qr_function co payload =
     (let f = payload ! 1; argument = payload ! 2 in
      if f = 65 \<and> list_get payload 2 = Some 50 then eret ()
      else if f = 67 \<and> length payload = 3 \<and> 1 \<le> argument \<and> argument \<le> 16 then eret ()
      else if f = 69 \<and> length payload = 3 \<and> 48 \<le> argument \<and> argument \<le> 51 then eret ()
      else if f = 80 \<and> length payload \<ge> 3 \<and> argument = 48 then store_qr co (drop 3 payload)
      else if f = 81 \<and> length payload = 3 \<and> argument = 48 then print_qr co
      else unsupported co (lit ''QR function '' @ dec (unat f)))"

definition parse_qr_command :: "nat \<Rightarrow> unit parse" where
  "parse_qr_command co =
     or_return (take_byte co ''GS ( function'') (\<lambda>f.
     if f \<noteq> 0x6B then unsupported co (lit ''GS ( '' @ hex2 f)
     else or_return (take_byte co ''QR payload length'') (\<lambda>length_low.
     or_return (take_byte co ''QR payload length'') (\<lambda>length_high.
     let len = unat (le16 length_low length_high :: 64 word) in
     if len = 0 \<or> len > MAX_QR_BYTES + 3
     then elift (invalid co (lit ''QR payload length exceeds its limit''))
     else or_return (take_payload len co ''QR payload'') (\<lambda>payload.
     if length payload < 3 \<or> payload ! 0 \<noteq> 49
     then unsupported co (lit ''QR command has an unknown parameter prefix'')
     else qr_function co payload))))"

text \<open>The symbology of a barcode command with its content, or the command that is unsupported.\<close>

definition barcode_content :: "byte \<Rightarrow> byte list \<Rightarrow> ustring + BarcodeFormat \<times> byte list" where
  "barcode_content command payload =
     (if command = 73 then
        (if prefix [0x7B, 0x42] payload then Ok (Code128, drop 2 payload)
         else Err (lit ''Code 128 command must use the emitted set-B subset''))
      else if command = 69 then Ok (Code39, payload)
      else if command = 67 then Ok (Ean13, payload)
      else if command = 65 then Ok (Upca, payload)
      else Err (lit ''barcode type '' @ dec (unat command)))"

definition parse_barcode :: "nat \<Rightarrow> unit parse" where
  "parse_barcode co =
     or_return (take_byte co ''barcode type'') (\<lambda>command.
     or_return (take_byte co ''barcode length'') (\<lambda>len.
     or_return (take_payload (unat len) co ''barcode data'') (\<lambda>payload.
     case barcode_content command payload of
       Err reason \<Rightarrow> unsupported co reason
     | Ok (format, v) \<Rightarrow>
         (case str_of_bytes v of
            None \<Rightarrow> elift (invalid co (lit ''barcode data is not ASCII''))
          | Some s \<Rightarrow> emodify (\<lambda>p. update_diag (\<lambda>d. d\<lparr>ed_barcodes := ed_barcodes d + 1\<rparr>)
              (push_element (BarcodeElement format s (ps_barcode_height p) (ps_barcode_hri p)) p))))))"

definition escape_command :: "nat \<Rightarrow> byte \<Rightarrow> unit parse" where
  "escape_command co command =
     (if command = 0x40 then
        emodify (\<lambda>p. p\<lparr>ps_alignment := AlignLeft, ps_bold := False, ps_qr_payload := None\<rparr>)
      else if command = 0x61 then or_return (take_byte co ''alignment value'') (\<lambda>v.
        if v = 0 then emodify (\<lambda>p. p\<lparr>ps_alignment := AlignLeft\<rparr>)
        else if v = 1 then emodify (\<lambda>p. p\<lparr>ps_alignment := AlignCenter\<rparr>)
        else if v = 2 then emodify (\<lambda>p. p\<lparr>ps_alignment := AlignRight\<rparr>)
        else unsupported co (lit ''ESC a alignment '' @ dec (unat v)))
      else if command = 0x45 then or_return (take_byte co ''bold value'') (\<lambda>v.
        if v = 0 then emodify (\<lambda>p. p\<lparr>ps_bold := False\<rparr>)
        else if v = 1 then emodify (\<lambda>p. p\<lparr>ps_bold := True\<rparr>)
        else unsupported co (lit ''ESC E value '' @ dec (unat v)))
      else if command = 0x64 then or_return (take_byte co ''feed line count'') (\<lambda>n.
        if n = 0 then unsupported co (lit ''ESC d feed 0'')
        else emodify (\<lambda>p. update_diag (\<lambda>d. d\<lparr>ed_feed_lines := ed_feed_lines d + unat n\<rparr>)
          (push_element (FeedElement n) p)))
      else unsupported co (lit ''ESC '' @ hex2 command))"

definition group_command :: "nat \<Rightarrow> byte \<Rightarrow> unit parse" where
  "group_command co command =
     (if command = 0x76 then parse_raster_image co
      else if command = 0x28 then parse_qr_command co
      else if command = 0x48 then or_return (take_byte co ''barcode text mode'') (\<lambda>v.
        if v > 3 then unsupported co (lit ''GS H text mode '' @ dec (unat v))
        else emodify (\<lambda>p. p\<lparr>ps_barcode_hri := v \<noteq> 0\<rparr>))
      else if command = 0x68 then or_return (take_byte co ''barcode height'') (\<lambda>v.
        emodify (\<lambda>p. p\<lparr>ps_barcode_height := v\<rparr>))
      else if command = 0x6B then parse_barcode co
      else if command = 0x56 then or_return (take_byte co ''cut mode'') (\<lambda>mode.
        if mode > 1 then unsupported co (lit ''GS V cut mode '' @ dec (unat mode))
        else emodify (\<lambda>p. update_diag (\<lambda>d. d\<lparr>ed_cut_requested := True\<rparr>)
          (push_element CutElement p)))
      else unsupported co (lit ''GS '' @ hex2 command))"

text \<open>
  Both families begin alike: the pending text is written, the command byte is read, and the command
  is counted. The argument \<open>truncated\<close> is the reason when there is no command byte.
\<close>

definition parse_command :: "string \<Rightarrow> (nat \<Rightarrow> byte \<Rightarrow> unit parse) \<Rightarrow> nat \<Rightarrow> unit parse" where
  "parse_command truncated family co =
     ebind (flush_text False) (\<lambda>_.
     ebind (egets (\<lambda>p. list_get (ps_bytes p) (ps_offset p + 1))) (\<lambda>command.
     case command of
       None \<Rightarrow> elift (invalid co (lit truncated))
     | Some command \<Rightarrow>
         ebind (emodify (\<lambda>p. update_diag
             (\<lambda>d. d\<lparr>ed_interpreted_commands := ed_interpreted_commands d + 1\<rparr>)
             (p\<lparr>ps_offset := ps_offset p + 2\<rparr>))) (\<lambda>_.
         family co command)))"

definition parse_escape :: "nat \<Rightarrow> unit parse" where
  "parse_escape = parse_command ''truncated ESC command'' escape_command"

definition parse_group_separator :: "nat \<Rightarrow> unit parse" where
  "parse_group_separator = parse_command ''truncated GS command'' group_command"

section \<open>The loop\<close>

definition push_text_byte :: "nat \<Rightarrow> byte \<Rightarrow> unit parse" where
  "push_text_byte co b =
     ebind (emodify (\<lambda>p. p\<lparr>ps_text := ps_text p @ [b], ps_offset := ps_offset p + 1\<rparr>)) (\<lambda>_.
     ebind (egets (\<lambda>p. length (ps_text p))) (\<lambda>n.
     if n > MAX_TEXT_BYTES then elift (invalid co (lit ''text segment exceeds its limit''))
     else eret ()))"

definition parse_step :: "unit parse" where
  "parse_step p =
     (let co = ps_offset p; b = ps_bytes p ! co in
      if b = ESC then parse_escape co p
      else if b = GS then parse_group_separator co p
      else if b = 10 then
        ebind (emodify (\<lambda>p. p\<lparr>ps_offset := ps_offset p + 1\<rparr>)) (\<lambda>_. finish_text_line) p
      else if b = 13 then emodify (\<lambda>p. p\<lparr>ps_offset := ps_offset p + 1\<rparr>) p
      else if is_graphic (unat b) \<or> b = 32 then push_text_byte co b p
      else unsupported co (lit ''non-printable byte '' @ hex2 b @
             lit '' outside a supported command'') p)"

definition parsing :: "Parser \<Rightarrow> bool" where
  "parsing p \<longleftrightarrow> ps_offset p < length (ps_bytes p) \<and> \<not> ps_stopped p"

section \<open>Progress\<close>

text \<open>What every operation does to the position: the input stays, the offset never falls.\<close>

definition advances :: "Parser \<Rightarrow> Parser \<Rightarrow> bool" where
  "advances p p' \<longleftrightarrow> ps_bytes p' = ps_bytes p \<and> ps_offset p \<le> ps_offset p'"

lemma advances_refl [simp, intro]: "reflp advances"
  by (simp add: reflp_def advances_def)

lemma advances_trans [simp, intro]: "transp advances"
  by (auto simp: transp_def advances_def)

lemma preserves_advances_modify [preserving]:
  "(\<And>p. ps_bytes (f p) = ps_bytes p \<and> ps_offset p \<le> ps_offset (f p)) \<Longrightarrow>
   preserves advances (emodify f)"
  by (simp add: preserves_def emodify_def advances_def)

lemma push_element_fields [simp]:
  "ps_bytes (push_element e p) = ps_bytes p" "ps_offset (push_element e p) = ps_offset p"
  "ps_text (push_element e p) = ps_text p" "ps_stopped (push_element e p) = ps_stopped p"
  "ps_alignment (push_element e p) = ps_alignment p" "ps_bold (push_element e p) = ps_bold p"
  "ps_qr_payload (push_element e p) = ps_qr_payload p"
  "ps_barcode_height (push_element e p) = ps_barcode_height p"
  "ps_barcode_hri (push_element e p) = ps_barcode_hri p"
  "ps_diagnostics (push_element e p) = ps_diagnostics p"
  "pl_width (ps_layout (push_element e p)) = pl_width (ps_layout p)"
  "pl_elements (ps_layout (push_element e p)) = pl_elements (ps_layout p) @ [e]"
  by (simp_all add: push_element_def)

lemma advances_unsupported [preserving]: "preserves advances (unsupported co c)"
  unfolding unsupported_def by (rule preserving) simp

lemma advances_take_byte [preserving]: "preserves advances (take_byte co d)"
  by (simp add: preserves_def take_byte_def advances_def split: option.split)

lemma advances_take_payload [preserving]: "preserves advances (take_payload n co d)"
  by (simp add: preserves_def take_payload_def advances_def)

lemma advances_take_text [preserving]: "preserves advances take_text"
  by (simp add: preserves_def take_text_def advances_def split: option.split)

lemma advances_or_return [preserving]:
  "preserves advances m \<Longrightarrow> (\<And>v. preserves advances (k v)) \<Longrightarrow> preserves advances (or_return m k)"
  unfolding or_return_def by (intro preserving advances_trans advances_refl) auto

lemma preserves_expand: "(\<And>s. f s = (if P s then (r s, g s) else m s)) \<Longrightarrow>
    (\<And>s. R s (g s)) \<Longrightarrow> preserves R m \<Longrightarrow> preserves R f"
  by (simp add: preserves_def)

lemma advances_flush_text [preserving]: "preserves advances (flush_text c)"
proof (rule preserves_expand)
  show "flush_text c p = (if ps_text p = [] then (Ok (), p) else
      ebind take_text (\<lambda>s.
        ebind (emodify (\<lambda>p. push_element (TextElement s (ps_alignment p) (ps_bold p)) p)) (\<lambda>_.
        emodify (\<lambda>p. if c then update_diag (\<lambda>d. d\<lparr>ed_text_lines := ed_text_lines d + 1\<rparr>) p else p))) p)"
    for p by (rule flush_text_def)
qed (simp add: advances_def, (intro preserving advances_trans; simp))

lemma advances_finish_text_line [preserving]: "preserves advances finish_text_line"
  by (rule preserves_expand, rule finish_text_line_def, simp add: advances_def,
      (intro preserving advances_trans; simp))

lemma advances_print_qr [preserving]: "preserves advances (print_qr co)"
  by (simp add: preserves_def print_qr_def unsupported_def emodify_def advances_def split: option.split)

lemma advances_qr_function [preserving]: "preserves advances (qr_function co payload)"
  unfolding qr_function_def store_qr_def Let_def
  by (intro preserving advances_trans advances_refl) auto

lemma advances_escape_command [preserving]: "preserves advances (escape_command co c)"
  unfolding escape_command_def by (intro preserving advances_trans advances_refl) auto

lemma advances_barcode [preserving]: "preserves advances (parse_barcode co)"
  unfolding parse_barcode_def by (intro preserving advances_trans advances_refl) auto

lemma advances_qr_command [preserving]: "preserves advances (parse_qr_command co)"
  unfolding parse_qr_command_def Let_def by (intro preserving advances_trans advances_refl)

lemma advances_raster [preserving]: "preserves advances (parse_raster_image co)"
  unfolding parse_raster_image_def Let_def by (intro preserving advances_trans advances_refl) auto

lemma advances_group_command [preserving]: "preserves advances (group_command co c)"
  unfolding group_command_def by (intro preserving advances_trans advances_refl) auto

lemma advancesD: "preserves advances m \<Longrightarrow> m p = (r, p') \<Longrightarrow>
    ps_bytes p' = ps_bytes p \<and> ps_offset p \<le> ps_offset p'"
  unfolding preserves_def advances_def by (metis snd_conv)

lemma parse_command_progress:
  assumes "\<And>c. preserves advances (family co c)" "parse_command t family co p = (Ok u, p')"
  shows "ps_bytes p' = ps_bytes p \<and> ps_offset p < ps_offset p'"
proof -
  obtain p1 c where p1: "flush_text False p = (Ok (), p1)"
    and c: "family co c (update_diag
             (\<lambda>d. d\<lparr>ed_interpreted_commands := ed_interpreted_commands d + 1\<rparr>)
             (p1\<lparr>ps_offset := ps_offset p1 + 2\<rparr>)) = (Ok u, p')"
    using assms(2) by (auto simp: parse_command_def ebind_Ok invalid_def split: option.splits)
  from p1 have "ps_bytes p1 = ps_bytes p \<and> ps_offset p \<le> ps_offset p1"
    by (rule advancesD [OF advances_flush_text])
  then show ?thesis using advancesD [OF assms(1) c] by simp
qed

lemma parse_step_progress:
  assumes "parse_step p = (Ok u, p')"
  shows "ps_bytes p' = ps_bytes p \<and> (ps_stopped p' \<or> ps_offset p < ps_offset p')"
proof -
  define b where "b = ps_bytes p ! ps_offset p"
  consider "b = ESC" | "b = GS" "b \<noteq> ESC" | "b = 10" "b \<noteq> GS" "b \<noteq> ESC"
    | "b \<noteq> 10" "b \<noteq> GS" "b \<noteq> ESC"
    by blast
  then show ?thesis
  proof cases
    case 1
    then have "parse_command ''truncated ESC command'' escape_command (ps_offset p) p = (Ok u, p')"
      using assms by (simp add: parse_step_def parse_escape_def Let_def b_def [symmetric])
    from parse_command_progress [OF advances_escape_command this] show ?thesis by blast
  next
    case 2
    then have "parse_command ''truncated GS command'' group_command (ps_offset p) p = (Ok u, p')"
      using assms by (simp add: parse_step_def parse_group_separator_def Let_def b_def [symmetric])
    from parse_command_progress [OF advances_group_command this] show ?thesis by blast
  next
    case 3
    then have "finish_text_line (p\<lparr>ps_offset := ps_offset p + 1\<rparr>) = (Ok u, p')"
      using assms by (simp add: parse_step_def Let_def b_def [symmetric] ebind_Ok)
    from advancesD [OF advances_finish_text_line this] show ?thesis by simp
  next
    case 4
    then show ?thesis using assms
      by (auto simp: parse_step_def Let_def b_def [symmetric] push_text_byte_def ebind_Ok
          unsupported_def invalid_def split: if_splits)
  qed
qed

text \<open>The \<open>while\<close> loop of \<open>run\<close>.\<close>

function run_loop :: "unit parse" where
  "run_loop p =
     (if parsing p
      then (case parse_step p of
        (Err e, p') \<Rightarrow> (Err e, p')
      | (Ok u, p') \<Rightarrow> run_loop p')
      else (Ok (), p))"
  by auto
termination
  by (relation "measure (\<lambda>p. if ps_stopped p then 0 else Suc (length (ps_bytes p) - ps_offset p))")
     (auto simp: parsing_def dest!: parse_step_progress [OF sym])

declare run_loop.simps [simp del]

definition run_parser :: "EscPosInterpretation parse" where
  "run_parser =
     ebind run_loop (\<lambda>_.
     ebind (\<lambda>p. if \<not> ps_stopped p then flush_text False p else (Ok (), p)) (\<lambda>_.
     egets (\<lambda>p. \<lparr>ei_layout = ps_layout p, ei_diagnostics = ps_diagnostics p\<rparr>)))"

definition interpret_escpos :: "ReceiptWidth \<Rightarrow> byte list \<Rightarrow> RendererError + EscPosInterpretation" where
  "interpret_escpos width bytes = fst (run_parser (Parser_new bytes width))"

end
