(* ===== verification/Escpos_Roundtrip.thy ===== *)
theory Escpos_Roundtrip
  imports Escpos
begin

text \<open>
  What the interpreter reads from what the encoder writes. The lemmas follow the stream: each says
  which bytes the loop consumes from a state and which state it goes on with; they compose along the
  elements of a layout.
\<close>

section \<open>Reading along the stream\<close>

definition remaining :: "Parser \<Rightarrow> byte list" where
  "remaining p = drop (ps_offset p) (ps_bytes p)"

lemma remaining_Cons: "remaining p = b # r \<Longrightarrow>
    ps_offset p < length (ps_bytes p) \<and> ps_bytes p ! ps_offset p = b"
  unfolding remaining_def
  by (metis drop_all hd_drop_conv_nth linorder_not_less list.distinct(1) list.sel(1))

lemma remaining_advance:
  "ps_bytes p' = ps_bytes p \<Longrightarrow> ps_offset p' = ps_offset p + n \<Longrightarrow> remaining p' = drop n (remaining p)"
  by (simp add: remaining_def add.commute)

lemma list_get_remaining:
  "list_get (ps_bytes p) (ps_offset p + n) = list_get (remaining p) n"
  by (auto simp: list_get_def remaining_def)

lemma take_byte_remaining:
  "remaining p = b # r \<Longrightarrow> take_byte co d p = (Ok (Some b), p\<lparr>ps_offset := ps_offset p + 1\<rparr>)"
  using remaining_Cons [of p b r] by (simp add: take_byte_def list_get_def)

lemma or_return_take_byte:
  "remaining p = b # r \<Longrightarrow>
   or_return (take_byte co d) k p = k b (p\<lparr>ps_offset := ps_offset p + 1\<rparr>)"
  by (simp add: or_return_def ebind_def take_byte_remaining)

lemma or_return_take_payload:
  assumes "remaining p = bs @ r" "n = length bs" "length (ps_bytes p) \<le> USIZE_MAX"
    "ps_offset p \<le> length (ps_bytes p)"
  shows "or_return (take_payload n co d) k p = k bs (p\<lparr>ps_offset := ps_offset p + n\<rparr>)"
proof -
  have "length bs + length r = length (ps_bytes p) - ps_offset p"
    using assms(1) unfolding remaining_def by (metis length_append length_drop)
  then have "ps_offset p + n \<le> length (ps_bytes p)" using assms(2,4) by simp
  moreover have "take n (drop (ps_offset p) (ps_bytes p)) = bs"
    using assms(1,2) by (simp add: remaining_def)
  ultimately show ?thesis using assms(3)
    by (simp add: or_return_def ebind_def take_payload_def)
qed

lemma run_step:
  "\<not> ps_stopped p \<Longrightarrow> remaining p \<noteq> [] \<Longrightarrow> parse_step p = (Ok (), p') \<Longrightarrow> run_loop p = run_loop p'"
  by (subst run_loop.simps) (simp add: parsing_def remaining_def)

section \<open>Text\<close>

definition add_text :: "byte list \<Rightarrow> Parser \<Rightarrow> Parser" where
  "add_text bs p = p\<lparr>ps_text := ps_text p @ bs, ps_offset := ps_offset p + length bs\<rparr>"

lemma printable_not_command: "is_printable (unat b) \<Longrightarrow> b \<noteq> ESC \<and> b \<noteq> GS \<and> b \<noteq> 10 \<and> b \<noteq> (13::byte)"
  by (auto simp: is_printable_def is_graphic_def ESC_def GS_def)

lemma unat_space: "unat (b::byte) = 32 \<longleftrightarrow> b = 32"
  by (simp add: word_unat_eq_iff)

lemma run_text:
  "\<not> ps_stopped p \<Longrightarrow> remaining p = bs @ r \<Longrightarrow> list_all (\<lambda>b. is_printable (unat b)) bs \<Longrightarrow>
   length (ps_text p) + length bs \<le> MAX_TEXT_BYTES \<Longrightarrow> run_loop p = run_loop (add_text bs p)"
proof (induction bs arbitrary: p)
  case (Cons b bs)
  then have b: "is_printable (unat b)" and r: "remaining p = b # bs @ r" by simp_all
  have "parse_step p = (Ok (), add_text [b] p)"
    using remaining_Cons [OF r] printable_not_command [OF b] b Cons.prems(4)
    by (auto simp: parse_step_def Let_def push_text_byte_def ebind_def emodify_def egets_def eret_def
        add_text_def is_printable_def unat_space)
  then have "run_loop p = run_loop (add_text [b] p)" using run_step Cons.prems(1) r by simp
  also have "\<dots> = run_loop (add_text bs (add_text [b] p))"
    using Cons.prems r remaining_advance [of "add_text [b] p" p 1]
    by (intro Cons.IH) (simp_all add: add_text_def)
  also have "add_text bs (add_text [b] p) = add_text (b # bs) p" by (simp add: add_text_def)
  finally show ?case .
qed (simp add: add_text_def)

text \<open>A string of printable characters and its bytes.\<close>

lemma printable_ascii: "list_all is_printable s \<Longrightarrow> \<forall>c \<in> set s. c < 0x80"
  by (auto simp: list_all_iff is_printable_def is_graphic_def)

lemma str_bytes_ascii: "\<forall>c \<in> set s. c < 0x80 \<Longrightarrow> str_bytes s = map of_nat s"
  by (simp add: str_bytes_def utf8_bytes_ascii)

lemma unat_byte: "c < 256 \<Longrightarrow> unat (of_nat c :: byte) = c"
  by (simp add: unat_of_nat take_bit_eq_mod)

lemma str_of_bytes_str_bytes:
  assumes "list_all is_scalar s"
  shows "str_of_bytes (str_bytes s) = Some s"
proof -
  have "map unat (str_bytes s) = utf8_bytes s"
    using utf8_bytes_byte [OF assms] by (simp add: str_bytes_def map_idI unat_byte)
  then show ?thesis by (simp add: str_of_bytes_def utf8_roundtrip [OF assms])
qed

lemma ascii_scalar: "\<forall>c \<in> set s. c < 0x80 \<Longrightarrow> list_all is_scalar s"
  by (auto simp: list_all_iff is_scalar_def)

lemma length_str_bytes: "length (str_bytes s) = byte_len s"
  by (simp add: str_bytes_def length_utf8_bytes)

lemma printable_bytes:
  "list_all is_printable s \<Longrightarrow> list_all (\<lambda>b. is_printable (unat b)) (str_bytes s)"
  using printable_ascii [of s] by (auto simp: str_bytes_ascii list_all_iff unat_byte)

lemma str_bytes_Nil [simp]: "str_bytes s = [] \<longleftrightarrow> s = []"
  using length_str_bytes [of s] length_le_byte_len [of s] by (metis byte_len_simps(1) le_zero_eq length_0_conv)

section \<open>Idle states\<close>

text \<open>Between two elements: nothing pending, plain weight, an input that fits a buffer.\<close>

definition idle :: "Parser \<Rightarrow> bool" where
  "idle p \<longleftrightarrow> \<not> ps_stopped p \<and> ps_text p = [] \<and> length (ps_bytes p) \<le> USIZE_MAX"

definition cols :: "Parser \<Rightarrow> nat" where
  "cols p = columns (pl_width (ps_layout p))"

definition line_element :: "nat \<Rightarrow> TextAlignment \<Rightarrow> bool \<Rightarrow> ustring \<Rightarrow> ReceiptElement" where
  "line_element n alignment bold line =
     (if line = [] then FeedElement 1 else classify_line n alignment bold line)"

text \<open>
  \<open>reads p bs es p'\<close>: from \<open>p\<close> the loop consumes \<open>bs\<close>, appends the elements \<open>es\<close> and goes on
  from \<open>p'\<close>, having met nothing unsupported.
\<close>

definition reads :: "Parser \<Rightarrow> byte list \<Rightarrow> ReceiptElement list \<Rightarrow> Parser \<Rightarrow> bool" where
  "reads p bs es p' \<longleftrightarrow> run_loop p = run_loop p' \<and> idle p' \<and>
     ps_bytes p' = ps_bytes p \<and> ps_offset p' = ps_offset p + length bs \<and>
     pl_width (ps_layout p') = pl_width (ps_layout p) \<and>
     pl_elements (ps_layout p') = pl_elements (ps_layout p) @ es \<and>
     ed_unsupported (ps_diagnostics p') = ed_unsupported (ps_diagnostics p)"

lemma reads_nothing: "idle p \<Longrightarrow> reads p [] [] p"
  by (simp add: reads_def)

lemma reads_append: "reads p bs es q \<Longrightarrow> reads q cs fs r \<Longrightarrow> reads p (bs @ cs) (es @ fs) r"
  by (simp add: reads_def)

lemma reads_idle: "reads p bs es q \<Longrightarrow> idle q"
  by (simp add: reads_def)

lemma reads_remaining: "reads p bs es q \<Longrightarrow> remaining p = bs @ r \<Longrightarrow> remaining q = r"
  using remaining_advance [of q p "length bs"] by (simp add: reads_def)

lemma reads_cols: "reads p bs es q \<Longrightarrow> cols q = cols p"
  by (simp add: reads_def cols_def)

text \<open>One line of text with its end.\<close>

definition line_read :: "ustring \<Rightarrow> Parser \<Rightarrow> Parser" where
  "line_read line p = push_element (line_element (cols p) (ps_alignment p) (ps_bold p) line)
     (update_diag (if line = [] then (\<lambda>d. d\<lparr>ed_feed_lines := ed_feed_lines d + 1\<rparr>)
                   else (\<lambda>d. d\<lparr>ed_text_lines := ed_text_lines d + 1\<rparr>))
       (p\<lparr>ps_offset := ps_offset p + length (str_bytes line @ [10])\<rparr>))"

lemma step_newline:
  assumes "remaining p = 10 # r"
  shows "parse_step p = finish_text_line (p\<lparr>ps_offset := ps_offset p + 1\<rparr>)"
  using remaining_Cons [OF assms]
  by (simp add: parse_step_def ESC_def GS_def ebind_def emodify_def)

lemma finish_pending:
  assumes "str_of_bytes (ps_text p) = Some line" "ps_text p \<noteq> []"
  shows "finish_text_line p = (Ok (), push_element
     (classify_line (cols p) (ps_alignment p) (ps_bold p) line)
     (update_diag (\<lambda>d. d\<lparr>ed_text_lines := ed_text_lines d + 1\<rparr>) (p\<lparr>ps_text := []\<rparr>)))"
  using assms by (simp add: finish_text_line_def take_text_def ebind_def emodify_def cols_def)

lemma run_line:
  assumes p: "idle p" and rem: "remaining p = (str_bytes line @ [10]) @ r"
    and line: "list_all is_printable line" "length line \<le> MAX_TEXT_BYTES"
  shows "run_loop p = run_loop (line_read line p)"
proof (cases "line = []")
  case True
  then have "parse_step p = (Ok (), line_read line p)"
    using p rem step_newline [of p r] by (simp add: finish_text_line_def line_read_def line_element_def idle_def)
  with p rem True show ?thesis by (intro run_step) (auto simp: idle_def)
next
  case False
  have len: "length (str_bytes line) = length line"
    using printable_ascii [OF line(1)] by (simp add: str_bytes_ascii)
  define q where "q = add_text (str_bytes line) p"
  have q: "run_loop p = run_loop q" unfolding q_def
    using p rem line printable_bytes len by (intro run_text [where r = "10 # r"]) (auto simp: idle_def)
  have rem_q: "remaining q = 10 # r"
    using rem remaining_advance [of q p "length (str_bytes line)"] by (simp add: q_def add_text_def)
  have "str_of_bytes (ps_text q) = Some line" "ps_text q \<noteq> []"
    using p False str_of_bytes_str_bytes [OF ascii_scalar [OF printable_ascii [OF line(1)]]]
    by (simp_all add: q_def add_text_def idle_def)
  moreover have empty: "ps_text_update (\<lambda>_. []) (ps_offset_update f p) = ps_offset_update f p" for f
    using p by (cases p) (simp add: idle_def)
  ultimately have "parse_step q = (Ok (), line_read line p)"
    unfolding step_newline [OF rem_q] using p False
    by (subst finish_pending)
       (simp_all add: q_def add_text_def line_read_def line_element_def cols_def push_element_def idle_def empty)
  moreover have "\<not> ps_stopped q" using p by (simp add: q_def add_text_def idle_def)
  ultimately show ?thesis using q rem_q run_step by simp
qed

lemma line_read_fields [simp]:
  "ps_alignment (line_read l p) = ps_alignment p" "ps_bold (line_read l p) = ps_bold p"
  "ps_qr_payload (line_read l p) = ps_qr_payload p"
  by (simp_all add: line_read_def)

lemma reads_line:
  assumes "idle p" "remaining p = (str_bytes line @ [10]) @ r"
    "list_all is_printable line" "length line \<le> MAX_TEXT_BYTES"
  shows "reads p (str_bytes line @ [10]) [line_element (cols p) (ps_alignment p) (ps_bold p) line]
           (line_read line p)"
  using run_line [OF assms] assms(1) by (auto simp: reads_def line_read_def idle_def)

lemma reads_lines:
  "idle p \<Longrightarrow> remaining p = lines_bytes ls @ r \<Longrightarrow>
   list_all (\<lambda>l. list_all is_printable l \<and> length l \<le> MAX_TEXT_BYTES) ls \<Longrightarrow>
   \<exists>q. reads p (lines_bytes ls) (map (line_element (cols p) (ps_alignment p) (ps_bold p)) ls) q \<and>
     ps_alignment q = ps_alignment p \<and> ps_bold q = ps_bold p"
proof (induction ls arbitrary: p)
  case Nil
  then show ?case using reads_nothing by (auto simp: lines_bytes_def)
next
  case (Cons l ls)
  define q where "q = line_read l p"
  have rem: "remaining p = (str_bytes l @ [10]) @ lines_bytes ls @ r"
    using Cons.prems by (simp add: lines_bytes_def)
  have one: "reads p (str_bytes l @ [10]) [line_element (cols p) (ps_alignment p) (ps_bold p) l] q"
    unfolding q_def using Cons.prems rem by (intro reads_line) auto
  obtain q' where q': "reads q (lines_bytes ls)
      (map (line_element (cols q) (ps_alignment q) (ps_bold q)) ls) q'"
    "ps_alignment q' = ps_alignment q" "ps_bold q' = ps_bold q"
    using Cons.IH [OF reads_idle [OF one] reads_remaining [OF one rem]] Cons.prems(3) by auto
  have "reads p (lines_bytes (l # ls)) (map (line_element (cols p) (ps_alignment p) (ps_bold p)) (l # ls)) q'"
    using reads_append [OF one q'(1)] reads_cols [OF one]
    by (simp add: lines_bytes_def q_def)
  with q' show ?case by (auto simp: q_def)
qed

section \<open>Commands\<close>

text \<open>The state after the two bytes every command starts with.\<close>

definition skip :: "Parser \<Rightarrow> Parser" where
  "skip p = update_diag (\<lambda>d. d\<lparr>ed_interpreted_commands := ed_interpreted_commands d + 1\<rparr>)
     (p\<lparr>ps_offset := ps_offset p + 2\<rparr>)"

lemma skip_fields [simp]:
  "ps_bytes (skip p) = ps_bytes p" "ps_offset (skip p) = ps_offset p + 2"
  "ps_layout (skip p) = ps_layout p" "ps_text (skip p) = ps_text p"
  "ps_stopped (skip p) = ps_stopped p" "ps_alignment (skip p) = ps_alignment p"
  "ps_bold (skip p) = ps_bold p" "ps_qr_payload (skip p) = ps_qr_payload p"
  "ps_barcode_height (skip p) = ps_barcode_height p" "ps_barcode_hri (skip p) = ps_barcode_hri p"
  "ed_unsupported (ps_diagnostics (skip p)) = ed_unsupported (ps_diagnostics p)"
  by (simp_all add: skip_def)

lemma skip_remaining: "remaining p = a # c # r \<Longrightarrow> remaining (skip p) = r"
  using remaining_advance [of "skip p" p 2] by simp

lemma parse_command_idle:
  assumes "idle p" "remaining p = a # c # r"
  shows "parse_command t family (ps_offset p) p = family (ps_offset p) c (skip p)"
  using assms list_get_remaining [of p 1]
  by (simp add: parse_command_def flush_text_def ebind_def idle_def egets_def emodify_def skip_def
      list_get_def)

lemma run_escape:
  assumes "idle p" "remaining p = ESC # c # r" "escape_command (ps_offset p) c (skip p) = (Ok (), q)"
  shows "run_loop p = run_loop q"
proof (rule run_step)
  show "parse_step p = (Ok (), q)"
    using assms remaining_Cons [OF assms(2)] parse_command_idle [OF assms(1,2)]
    by (simp add: parse_step_def parse_escape_def)
qed (use assms in \<open>simp_all add: idle_def\<close>)

lemma run_group:
  assumes "idle p" "remaining p = GS # c # r" "group_command (ps_offset p) c (skip p) = (Ok (), q)"
  shows "run_loop p = run_loop q"
proof (rule run_step)
  have "GS \<noteq> ESC" by (simp add: GS_def ESC_def)
  then show "parse_step p = (Ok (), q)"
    using assms remaining_Cons [OF assms(2)] parse_command_idle [OF assms(1,2)]
    by (simp add: parse_step_def parse_group_separator_def)
qed (use assms in \<open>simp_all add: idle_def\<close>)

text \<open>A command with one argument byte.\<close>

definition skip_arg :: "Parser \<Rightarrow> Parser" where
  "skip_arg p = (skip p)\<lparr>ps_offset := ps_offset (skip p) + 1\<rparr>"

lemma arg_byte: "remaining p = a # c # v # r \<Longrightarrow>
    or_return (take_byte co d) k (skip p) = k v (skip_arg p)"
  using or_return_take_byte [of "skip p" v r] skip_remaining [of p a c "v # r"]
  by (simp add: skip_arg_def)

lemma skip_arg_fields [simp]:
  "ps_bytes (skip_arg p) = ps_bytes p" "ps_offset (skip_arg p) = ps_offset p + 3"
  "ps_layout (skip_arg p) = ps_layout p" "ps_text (skip_arg p) = ps_text p"
  "ps_stopped (skip_arg p) = ps_stopped p" "ps_alignment (skip_arg p) = ps_alignment p"
  "ps_bold (skip_arg p) = ps_bold p" "ps_qr_payload (skip_arg p) = ps_qr_payload p"
  "ps_barcode_height (skip_arg p) = ps_barcode_height p"
  "ps_barcode_hri (skip_arg p) = ps_barcode_hri p"
  "ed_unsupported (ps_diagnostics (skip_arg p)) = ed_unsupported (ps_diagnostics p)"
  by (simp_all add: skip_arg_def)

lemma reads_reset:
  assumes "idle p" "remaining p = [ESC, 0x40] @ r"
  shows "\<exists>q. reads p [ESC, 0x40] [] q \<and> ps_bold q = False"
proof -
  define q where "q = (skip p)\<lparr>ps_alignment := AlignLeft, ps_bold := False, ps_qr_payload := None\<rparr>"
  have "run_loop p = run_loop q"
    using assms by (intro run_escape [where c = "0x40" and r = r]) (simp_all add: escape_command_def q_def emodify_def)
  then have "reads p [ESC, 0x40] [] q" using assms by (simp add: reads_def q_def idle_def)
  then show ?thesis by (auto simp: q_def)
qed

lemma reads_align:
  assumes "idle p" "remaining p = [ESC, 0x61, alignment_code (Some a)] @ r"
  shows "\<exists>q. reads p [ESC, 0x61, alignment_code (Some a)] [] q \<and> ps_alignment q = a \<and>
    ps_bold q = ps_bold p"
proof -
  define q where "q = (skip_arg p)\<lparr>ps_alignment := a\<rparr>"
  have "run_loop p = run_loop q"
    using assms arg_byte [of p ESC "0x61" "alignment_code (Some a)" r]
    by (intro run_escape [where c = "0x61"])
       (simp_all add: escape_command_def q_def emodify_def alignment_code_def split: TextAlignment.split)
  then have "reads p [ESC, 0x61, alignment_code (Some a)] [] q"
    using assms by (simp add: reads_def q_def idle_def)
  then show ?thesis by (auto simp: q_def)
qed

lemma reads_bold:
  assumes "idle p" "remaining p = [ESC, 0x45, if b then 1 else 0] @ r"
  shows "\<exists>q. reads p [ESC, 0x45, if b then 1 else 0] [] q \<and> ps_bold q = b \<and>
    ps_alignment q = ps_alignment p"
proof -
  define q where "q = (skip_arg p)\<lparr>ps_bold := b\<rparr>"
  have "run_loop p = run_loop q"
    using assms arg_byte [of p ESC "0x45" "if b then 1 else 0" r]
    by (intro run_escape [where c = "0x45"]) (auto simp: escape_command_def q_def emodify_def)
  then have "reads p [ESC, 0x45, if b then 1 else 0] [] q"
    using assms by (auto simp: reads_def q_def idle_def)
  then show ?thesis by (auto simp: q_def)
qed

lemma reads_feed:
  assumes "idle p" "remaining p = [ESC, 0x64, n] @ r" "n \<noteq> 0"
  shows "\<exists>q. reads p [ESC, 0x64, n] [FeedElement n] q \<and> ps_bold q = ps_bold p"
proof -
  define q where "q = update_diag (\<lambda>d. d\<lparr>ed_feed_lines := ed_feed_lines d + unat n\<rparr>)
      (push_element (FeedElement n) (skip_arg p))"
  have "run_loop p = run_loop q"
    using assms arg_byte [of p ESC "0x64" n r]
    by (intro run_escape [where c = "0x64"]) (auto simp: escape_command_def q_def emodify_def)
  then have "reads p [ESC, 0x64, n] [FeedElement n] q"
    using assms by (auto simp: reads_def q_def idle_def)
  then show ?thesis by (auto simp: q_def)
qed

lemma reads_cut:
  assumes "idle p" "remaining p = [GS, 0x56, 0] @ r"
  shows "\<exists>q. reads p [GS, 0x56, 0] [CutElement] q \<and> ps_bold q = ps_bold p"
proof -
  define q where "q = update_diag (\<lambda>d. d\<lparr>ed_cut_requested := True\<rparr>)
      (push_element CutElement (skip_arg p))"
  have "run_loop p = run_loop q"
    using assms arg_byte [of p GS "0x56" 0 r]
    by (intro run_group [where c = "0x56"]) (auto simp: group_command_def q_def emodify_def)
  then have "reads p [GS, 0x56, 0] [CutElement] q"
    using assms by (auto simp: reads_def q_def idle_def)
  then show ?thesis by (auto simp: q_def)
qed

lemma reads_hri:
  assumes "idle p" "remaining p = [GS, 0x48, v] @ r" "v \<le> 3"
  shows "\<exists>q. reads p [GS, 0x48, v] [] q \<and> ps_barcode_hri q = (v \<noteq> 0) \<and> ps_bold q = ps_bold p"
proof -
  define q where "q = (skip_arg p)\<lparr>ps_barcode_hri := v \<noteq> 0\<rparr>"
  have "run_loop p = run_loop q"
    using assms arg_byte [of p GS "0x48" v r]
    by (intro run_group [where c = "0x48"]) (auto simp: group_command_def q_def emodify_def)
  then have "reads p [GS, 0x48, v] [] q"
    using assms by (auto simp: reads_def q_def idle_def)
  then show ?thesis by (auto simp: q_def)
qed

lemma reads_barcode_height:
  assumes "idle p" "remaining p = [GS, 0x68, v] @ r"
  shows "\<exists>q. reads p [GS, 0x68, v] [] q \<and> ps_barcode_height q = v \<and>
    ps_barcode_hri q = ps_barcode_hri p \<and> ps_bold q = ps_bold p"
proof -
  define q where "q = (skip_arg p)\<lparr>ps_barcode_height := v\<rparr>"
  have "run_loop p = run_loop q"
    using assms arg_byte [of p GS "0x68" v r]
    by (intro run_group [where c = "0x68"]) (auto simp: group_command_def q_def emodify_def)
  then have "reads p [GS, 0x68, v] [] q"
    using assms by (auto simp: reads_def q_def idle_def)
  then show ?thesis by (auto simp: q_def)
qed

text \<open>Commands with several arguments: the state \<open>n\<close> bytes after the command byte.\<close>

definition skip_n :: "nat \<Rightarrow> Parser \<Rightarrow> Parser" where
  "skip_n n p = (skip p)\<lparr>ps_offset := ps_offset p + 2 + n\<rparr>"

lemma skip_n_0: "skip p = skip_n 0 p"
  by (cases p) (simp add: skip_n_def skip_def)

lemma skip_n_fields [simp]:
  "ps_bytes (skip_n n p) = ps_bytes p" "ps_offset (skip_n n p) = ps_offset p + 2 + n"
  "ps_layout (skip_n n p) = ps_layout p" "ps_text (skip_n n p) = ps_text p"
  "ps_stopped (skip_n n p) = ps_stopped p" "ps_alignment (skip_n n p) = ps_alignment p"
  "ps_bold (skip_n n p) = ps_bold p" "ps_qr_payload (skip_n n p) = ps_qr_payload p"
  "ps_barcode_height (skip_n n p) = ps_barcode_height p"
  "ps_barcode_hri (skip_n n p) = ps_barcode_hri p"
  "ed_unsupported (ps_diagnostics (skip_n n p)) = ed_unsupported (ps_diagnostics p)"
  by (simp_all add: skip_n_def)

lemma skip_n_remaining: "remaining p = a # c # bs \<Longrightarrow> remaining (skip_n n p) = drop n bs"
  using remaining_advance [of "skip_n n p" p "2 + n"] by (simp add: ac_simps)

lemma byte_at:
  assumes "remaining p = a # c # bs" "n < length bs"
  shows "or_return (take_byte co d) k (skip_n n p) = k (bs ! n) (skip_n (Suc n) p)"
proof -
  have "remaining (skip_n n p) = bs ! n # drop (Suc n) bs"
    using skip_n_remaining [OF assms(1)] Cons_nth_drop_Suc [OF assms(2)] by simp
  from or_return_take_byte [OF this] show ?thesis by (simp add: skip_n_def)
qed

lemma payload_at:
  assumes "remaining p = a # c # bs" "drop n bs = payload @ r" "m = length payload" "n \<le> length bs"
    "idle p"
  shows "or_return (take_payload m co d) k (skip_n n p) = k payload (skip_n (n + m) p)"
proof -
  have "length (ps_bytes p) - ps_offset p = length bs + 2"
    using assms(1) unfolding remaining_def by (metis add_2_eq_Suc' length_Cons length_drop)
  then have "ps_offset (skip_n n p) \<le> length (ps_bytes (skip_n n p))" using assms(4) by simp
  then show ?thesis
    using or_return_take_payload [of "skip_n n p" payload r m] skip_n_remaining [OF assms(1)] assms
    by (simp add: idle_def skip_n_def add.assoc)
qed

subsection \<open>Barcodes\<close>

lemma digits_bytes:
  assumes "list_all is_ascii_digit (utf8_bytes v)"
  shows "str_bytes v = map of_nat v" "\<forall>c \<in> set v. c < 0x80"
proof -
  have "\<forall>b \<in> set (utf8_bytes v). b < 0x80" using assms by (auto simp: list_all_iff is_ascii_digit_def)
  then show "\<forall>c \<in> set v. c < 0x80" by (rule ascii_utf8_bytes)
  then show "str_bytes v = map of_nat v" by (rule str_bytes_ascii)
qed

lemma code39_bytes:
  assumes "list_all code39_byte (utf8_bytes v)"
  shows "\<forall>c \<in> set v. c < 0x80"
proof -
  have "\<forall>b \<in> set (utf8_bytes v). b < 0x80"
    using assms by (auto simp: list_all_iff code39_byte_def is_ascii_digit_def is_ascii_upper_def lit_def)
  then show ?thesis by (rule ascii_utf8_bytes)
qed

lemma barcode_payload_content:
  assumes "barcode_payload format v = Ok (command, payload)"
  shows "barcode_content command payload = Ok (format, str_bytes v)" "\<forall>c \<in> set v. c < 0x80"
proof -
  show "\<forall>c \<in> set v. c < 0x80"
    using assms digits_bytes(2) [of v] code39_bytes [of v]
    by (cases format) (auto simp: barcode_payload_def list_all_iff split: if_splits)
  show "barcode_content command payload = Ok (format, str_bytes v)"
    using assms by (cases format)
      (auto simp: barcode_payload_def barcode_content_def str_bytes_def lit_def utf8_encode_def split: if_splits)
qed

lemma reads_barcode:
  assumes idle: "idle p"
    and payload: "barcode_payload format v = Ok (command, payload)" "length payload \<le> 255"
    and rem: "remaining p = ([GS, 0x6B, command, of_nat (length payload)] @ payload) @ r"
  shows "\<exists>q. reads p ([GS, 0x6B, command, of_nat (length payload)] @ payload)
    [BarcodeElement format v (ps_barcode_height p) (ps_barcode_hri p)] q \<and> ps_bold q = ps_bold p"
proof -
  let ?bs = "command # of_nat (length payload) # payload @ r"
  define q where "q = update_diag (\<lambda>d. d\<lparr>ed_barcodes := ed_barcodes d + 1\<rparr>)
      (push_element (BarcodeElement format v (ps_barcode_height p) (ps_barcode_hri p))
        (skip_n (2 + length payload) p))"
  have rem': "remaining p = GS # 0x6B # ?bs" using rem by simp
  have len: "unat (of_nat (length payload) :: byte) = length payload" using payload(2) by (simp add: unat_byte)
  have "str_of_bytes (str_bytes v) = Some v"
    using barcode_payload_content(2) [OF payload(1)] by (intro str_of_bytes_str_bytes ascii_scalar)
  then have "group_command (ps_offset p) 0x6B (skip p) = (Ok (), q)"
    using byte_at [OF rem', of 0] byte_at [OF rem', of 1] barcode_payload_content(1) [OF payload(1)]
      payload_at [OF rem', of "Suc (Suc 0)" payload r "length payload"] idle len
    by (simp add: group_command_def parse_barcode_def skip_n_0 q_def emodify_def)
  then have "run_loop p = run_loop q" using run_group [OF idle rem'] by simp
  then show ?thesis using idle by (intro exI [of _ q]) (auto simp: reads_def q_def idle_def)
qed

subsection \<open>Dimensions of two bytes\<close>

lemma nat_or_push_bit:
  assumes "a < 256"
  shows "a OR push_bit 8 b = a + 256 * (b::nat)"
proof -
  have "take_bit 8 a = a" using assms by (simp add: take_bit_eq_mod)
  then have "\<not> bit a n \<or> \<not> bit (push_bit 8 b) n" for n
    by (metis bit_push_bit_iff bit_take_bit_iff linorder_not_less)
  then have "a + push_bit 8 b = a OR push_bit 8 b" by (intro disjunctive_add)
  then show ?thesis by (simp add: push_bit_eq_mult)
qed

lemma unat_byte_bound: "unat (b::byte) < 256"
  using unsigned_less [of b, where ?'a = nat] by simp

lemma unat_le16_64: "unat (le16 a b :: 64 word) = unat a + 256 * unat b"
proof -
  have "unat a + 256 * unat b < 2 ^ 64" using unat_byte_bound [of a] unat_byte_bound [of b] by simp
  then show ?thesis
    using unat_byte_bound [of a] unat_byte_bound [of b]
    by (simp add: le16_def unsigned_or_eq unsigned_push_bit_eq unsigned_ucast_eq
        take_bit_nat_eq_self nat_or_push_bit [symmetric] take_bit_push_bit)
qed
lemma le16_low_high:
  fixes w :: "32 word" assumes "unat w < 2 ^ 16"
  shows "le16 (low_byte w) (high_byte w) = w"
proof (rule bit_word_eqI)
  fix n assume "n < LENGTH(32)"
  have t: "take_bit 16 w = w" using assms by (metis take_bit_nat_eq_self unsigned_take_bit_eq unsigned_word_eqI)
  then have w: "bit w n \<Longrightarrow> n < 16" by (metis bit_take_bit_iff)
  have ff: "bit (255::int) k \<longleftrightarrow> k < 8" for k
    using bit_mask_iff [where 'a = int, of 8 k] by (simp add: mask_eq_exp_minus_1)
  show "bit (le16 (low_byte w) (high_byte w) :: 32 word) n \<longleftrightarrow> bit w n"
    using w \<open>n < LENGTH(32)\<close>
    by (auto simp: le16_def low_byte_def high_byte_def bit_or_iff bit_push_bit_iff bit_unsigned_iff
        bit_and_iff bit_drop_bit_eq ff)
qed
lemma le16_length:
  assumes "n < 2 ^ 16"
  shows "unat (le16 (of_nat (n mod 256)) (of_nat (n div 256 mod 256)) :: 64 word) = n"
proof -
  have "n div 256 mod 256 = n div 256" using assms by simp
  then show ?thesis by (simp add: unat_le16_64 unat_byte)
qed

subsection \<open>QR codes\<close>

text \<open>A QR function: its length in two bytes and its payload, which starts with 49.\<close>

lemma run_qr:
  assumes idle: "idle p" and rem: "remaining p = ([GS, 0x28, 0x6B, of_nat (length payload mod 256),
      of_nat (length payload div 256 mod 256)] @ payload) @ r"
    and payload: "3 \<le> length payload" "length payload \<le> MAX_QR_BYTES + 3" "payload ! 0 = 49"
    and q: "qr_function (ps_offset p) payload (skip_n (Suc (Suc (Suc (length payload)))) p) = (Ok (), q)"
  shows "run_loop p = run_loop q"
proof -
  let ?n = "length payload"
  let ?bs = "0x6B # of_nat (?n mod 256) # of_nat (?n div 256 mod 256) # payload @ r"
  have rem': "remaining p = GS # 0x28 # ?bs" using rem by simp
  have len: "unat (le16 (of_nat (?n mod 256)) (of_nat (?n div 256 mod 256)) :: 64 word) = ?n"
    using payload(2) by (intro le16_length) (simp add: MAX_QR_BYTES_def)
  have "payload \<noteq> []" using payload(1) by auto
  then have "parse_qr_command (ps_offset p) (skip_n 0 p) = (Ok (), q)"
    using byte_at [OF rem', of 0] byte_at [OF rem', of 1] byte_at [OF rem', of "Suc (Suc 0)"]
      payload_at [OF rem', of "Suc (Suc (Suc 0))" payload r ?n] idle payload q len
    by (simp add: parse_qr_command_def Let_def not_less)
  then have "group_command (ps_offset p) 0x28 (skip p) = (Ok (), q)"
    by (simp add: group_command_def skip_n_0)
  with run_group [OF idle rem'] show ?thesis by simp
qed

lemma reads_qr_setting:
  assumes "idle p" "remaining p = ([GS, 0x28, 0x6B, of_nat (length payload), 0] @ payload) @ r"
    "payload \<in> {[49, 65, 50, 0], [49, 67, 6], [49, 69, 49]}"
  shows "\<exists>q. reads p ([GS, 0x28, 0x6B, of_nat (length payload), 0] @ payload) [] q \<and>
    ps_bold q = ps_bold p"
proof -
  define q where "q = skip_n (Suc (Suc (Suc (length payload)))) p"
  have "qr_function (ps_offset p) payload q = (Ok (), q)"
    using assms(3) by (auto simp: qr_function_def list_get_def eret_def)
  then have "run_loop p = run_loop q" using assms unfolding q_def
    by (intro run_qr [where payload = payload and r = r]) (auto simp: MAX_QR_BYTES_def)
  then have "reads p ([GS, 0x28, 0x6B, of_nat (length payload), 0] @ payload) [] q"
    using assms(1) by (simp add: reads_def q_def idle_def)
  then show ?thesis by (auto simp: q_def)
qed

lemma reads_qr_store:
  assumes idle: "idle p" and v: "list_all is_scalar v" "byte_len v \<le> MAX_QR_BYTES"
    and rem: "remaining p = ([GS, 0x28, 0x6B, of_nat ((byte_len v + 3) mod 256),
      of_nat ((byte_len v + 3) div 256 mod 256), 49, 80, 48] @ str_bytes v) @ r"
  shows "\<exists>q. reads p ([GS, 0x28, 0x6B, of_nat ((byte_len v + 3) mod 256),
      of_nat ((byte_len v + 3) div 256 mod 256), 49, 80, 48] @ str_bytes v) [] q \<and>
    ps_qr_payload q = Some v \<and> ps_bold q = ps_bold p"
proof -
  let ?payload = "[49, 80, 48] @ str_bytes v"
  define q where "q = (skip_n (Suc (Suc (Suc (length ?payload)))) p)\<lparr>ps_qr_payload := Some v\<rparr>"
  have len: "length ?payload = byte_len v + 3" by (simp add: length_str_bytes)
  have "qr_function (ps_offset p) ?payload (skip_n (Suc (Suc (Suc (length ?payload)))) p) = (Ok (), q)"
    using v by (simp add: qr_function_def store_qr_def str_of_bytes_str_bytes q_def emodify_def list_get_def)
  moreover have "remaining p = ([GS, 0x28, 0x6B, of_nat (length ?payload mod 256),
      of_nat (length ?payload div 256 mod 256)] @ ?payload) @ r"
    unfolding len using rem by simp
  ultimately have "run_loop p = run_loop q"
    using idle v len by (intro run_qr [where payload = ?payload and r = r]) auto
  then show ?thesis using idle
    by (intro exI [of _ q]) (simp add: reads_def q_def idle_def length_str_bytes)
qed

lemma reads_qr_print:
  assumes "idle p" "remaining p = [GS, 0x28, 0x6B, 3, 0, 49, 81, 48] @ r" "ps_qr_payload p = Some v"
  shows "\<exists>q. reads p [GS, 0x28, 0x6B, 3, 0, 49, 81, 48] [QrElement v] q \<and> ps_bold q = ps_bold p"
proof -
  let ?payload = "[49, 81, 48] :: byte list"
  define q where "q = update_diag (\<lambda>d. d\<lparr>ed_qr_codes := ed_qr_codes d + 1\<rparr>)
       (push_element (QrElement v) ((skip_n (Suc (Suc (Suc (length ?payload)))) p)\<lparr>ps_qr_payload := None\<rparr>))"
  have "qr_function (ps_offset p) ?payload (skip_n (Suc (Suc (Suc (length ?payload)))) p) = (Ok (), q)"
    using assms(3) by (simp add: qr_function_def print_qr_def q_def list_get_def)
  then have "run_loop p = run_loop q" using assms
    by (intro run_qr [where payload = "[49, 81, 48]" and r = r]) (simp_all add: MAX_QR_BYTES_def)
  then show ?thesis using assms(1) by (intro exI [of _ q]) (simp add: reads_def q_def idle_def)
qed

subsection \<open>Images\<close>

definition image_ok :: "ReceiptImage \<Rightarrow> bool" where
  "image_ok im \<longleftrightarrow> im_stride im \<noteq> 0 \<and> im_height im \<noteq> 0 \<and>
     unat (im_stride im) < 2 ^ 16 \<and> unat (im_height im) < 2 ^ 16 \<and>
     unat (im_stride im) * unat (im_height im) \<le> MAX_RASTER_BYTES \<and>
     length (im_data im) = unat (im_stride im) * unat (im_height im)"

text \<open>The stream carries whole bytes per row, so the width comes back as a multiple of eight.\<close>

definition whole_bytes :: "ReceiptImage \<Rightarrow> ReceiptImage" where
  "whole_bytes im = im\<lparr>im_width := im_stride im * 8, im_dpi := 203\<rparr>"

lemma div_ceil8_whole:
  fixes w :: "32 word"
  assumes "unat w < 2 ^ 16"
  shows "div_ceil8 (w * 8) = w"
proof -
  have m: "unat (w * 8) = unat w * 8" using assms by (simp add: unat_mult_lem [THEN iffD1])
  have "unat (w * 8 div 8) = unat w" by (simp add: unat_div m)
  then have d: "w * 8 div 8 = w" by (simp add: word_unat_eq_iff)
  have "unat (w * 8 mod 8) = 0" by (simp add: unat_mod m)
  then have "w * 8 mod 8 = 0" by (simp add: unat_eq_zero)
  with d show ?thesis by (simp add: div_ceil8_def)
qed

lemma from_mono_whole:
  assumes "image_ok im"
  shows "from_mono (im_stride im * 8) (im_height im) (im_data im) = Ok (whole_bytes im)"
proof -
  have "unat (im_stride im * 8) = unat (im_stride im) * 8"
    using assms by (simp add: image_ok_def unat_mult_lem [THEN iffD1])
  moreover have "unat (im_stride im) \<noteq> 0" using assms by (simp add: image_ok_def unat_eq_zero)
  ultimately have "im_stride im * 8 \<noteq> 0" by (metis mult_is_0 unat_0 zero_neq_numeral)
  moreover have "unat (im_stride im) * unat (im_height im) \<le> USIZE_MAX"
    using assms by (simp add: image_ok_def MAX_RASTER_BYTES_def USIZE_MAX_def)
  ultimately show ?thesis
    using assms div_ceil8_whole [of "im_stride im"]
    by (cases im) (simp add: from_mono_def image_ok_def Let_def checked_mul_usize_def whole_bytes_def reject_if_def)
qed

lemma reads_image:
  assumes idle: "idle p" and ok: "image_ok im"
    and rem: "remaining p = ([GS, 0x76, 0x30, 0, low_byte (im_stride im), high_byte (im_stride im),
          low_byte (im_height im), high_byte (im_height im)] @ im_data im) @ r"
  shows "\<exists>q. reads p ([GS, 0x76, 0x30, 0, low_byte (im_stride im), high_byte (im_stride im),
          low_byte (im_height im), high_byte (im_height im)] @ im_data im)
          [ImageElement (whole_bytes im)] q \<and> ps_bold q = ps_bold p"
proof -
  let ?n = "Suc (Suc (Suc (Suc (Suc (Suc 0)))))"
  let ?bs = "0x30 # 0 # low_byte (im_stride im) # high_byte (im_stride im) # low_byte (im_height im) #
      high_byte (im_height im) # im_data im @ r"
  define q where "q = update_diag (\<lambda>d. d\<lparr>ed_images := ed_images d + 1\<rparr>)
      (push_element (ImageElement (whole_bytes im)) (skip_n (?n + length (im_data im)) p))"
  have rem': "remaining p = GS # 0x76 # ?bs" using rem by simp
  have dims: "le16 (low_byte (im_stride im)) (high_byte (im_stride im)) = im_stride im"
    "le16 (low_byte (im_height im)) (high_byte (im_height im)) = im_height im"
    using ok le16_low_high by (simp_all add: image_ok_def)
  have fits: "unat (im_stride im) * unat (im_height im) \<le> USIZE_MAX"
    "\<not> MAX_RASTER_BYTES < unat (im_stride im) * unat (im_height im)"
    "length (im_data im) = unat (im_stride im) * unat (im_height im)"
    "im_stride im \<noteq> 0" "im_height im \<noteq> 0"
    using ok by (simp_all add: image_ok_def MAX_RASTER_BYTES_def USIZE_MAX_def)
  have "parse_raster_image (ps_offset p) (skip_n 0 p) = (Ok (), q)"
    using byte_at [OF rem', of 0] byte_at [OF rem', of 1] byte_at [OF rem', of "Suc (Suc 0)"]
      byte_at [OF rem', of "Suc (Suc (Suc 0))"] byte_at [OF rem', of "Suc (Suc (Suc (Suc 0)))"]
      byte_at [OF rem', of "Suc (Suc (Suc (Suc (Suc 0))))"]
      payload_at [OF rem', of ?n "im_data im" r "unat (im_stride im) * unat (im_height im)"]
      idle fits dims from_mono_whole [OF ok]
    by (simp add: parse_raster_image_def Let_def checked_mul_usize_def q_def emodify_def ebind_def elift_def)
  then have "group_command (ps_offset p) 0x76 (skip p) = (Ok (), q)"
    by (simp add: group_command_def skip_n_0)
  with run_group [OF idle rem'] have "run_loop p = run_loop q" by simp
  then show ?thesis using idle by (intro exI [of _ q]) (auto simp: reads_def q_def idle_def)
qed

section \<open>Elements and layouts\<close>

text \<open>
  The elements the interpreter finds where the encoder wrote \<open>e\<close>: a text or a row comes back line by
  line, everything else as it was.
\<close>

fun decoded_element :: "shaping \<Rightarrow> nat \<Rightarrow> ReceiptElement \<Rightarrow> ReceiptElement list" where
  "decoded_element T n (TextElement v alignment bold) =
     map (line_element n alignment bold) (wrap_text T v n)"
| "decoded_element T n (RowElement left right) =
     map (line_element n AlignLeft False) (layout_row T left right n)"
| "decoded_element T n (ImageElement im) = [ImageElement (whole_bytes im)]"
| "decoded_element T n e = [e]"

fun element_ok :: "ReceiptElement \<Rightarrow> bool" where
  "element_ok (TextElement v alignment bold) \<longleftrightarrow> plain_text v"
| "element_ok (RowElement left right) \<longleftrightarrow> list_all is_printable left \<and> list_all is_printable right"
| "element_ok (ImageElement im) \<longleftrightarrow> image_ok im"
| "element_ok (QrElement v) \<longleftrightarrow> list_all is_scalar v \<and> byte_len v \<le> MAX_QR_BYTES"
| "element_ok (FeedElement n) \<longleftrightarrow> n \<noteq> 0"
| "element_ok _ \<longleftrightarrow> True"

lemma columns_bounds: "5 \<le> columns w \<and> columns w \<le> 48"
  by (cases w) (simp_all add: columns_def)

lemma lines_fit:
  "list_all (\<lambda>l. list_all is_printable l \<and> length l \<le> columns w) ls \<Longrightarrow>
   list_all (\<lambda>l. list_all is_printable l \<and> length l \<le> MAX_TEXT_BYTES) ls"
  using columns_bounds [of w] by (auto simp: list_all_iff MAX_TEXT_BYTES_def)

definition ready :: "Parser \<Rightarrow> bool" where
  "ready p \<longleftrightarrow> idle p \<and> \<not> ps_bold p"

lemma reads_text:
  assumes T: "shapes_ascii T" and p: "ready p" and plain: "plain_text v"
    and rem: "remaining p = ([ESC, 0x61, alignment_code (Some a), ESC, 0x45, if b then 1 else 0] @
      lines_bytes (wrap_text T v (cols p)) @ [ESC, 0x45, 0]) @ r"
  shows "\<exists>q. reads p ([ESC, 0x61, alignment_code (Some a), ESC, 0x45, if b then 1 else 0] @
      lines_bytes (wrap_text T v (cols p)) @ [ESC, 0x45, 0])
      (map (line_element (cols p) a b) (wrap_text T v (cols p))) q \<and> ready q"
proof -
  let ?ls = "wrap_text T v (cols p)"
  have fit: "list_all (\<lambda>l. list_all is_printable l \<and> length l \<le> MAX_TEXT_BYTES) ?ls"
    using wrap_text_ok [OF T _ plain, of "cols p"] columns_bounds [of "pl_width (ps_layout p)"]
    unfolding cols_def by (intro lines_fit) (auto simp: list_all_iff line_ok_def tidy_def)
  have idle: "idle p" using p by (simp add: ready_def)
  have r1: "remaining p = [ESC, 0x61, alignment_code (Some a)] @
      ([ESC, 0x45, if b then 1 else 0] @ lines_bytes ?ls @ [ESC, 0x45, 0] @ r)"
    using rem by simp
  obtain p1 where p1: "reads p [ESC, 0x61, alignment_code (Some a)] [] p1" "ps_alignment p1 = a"
    using reads_align [OF idle r1] by blast
  have r2: "remaining p1 = [ESC, 0x45, if b then 1 else 0] @ (lines_bytes ?ls @ [ESC, 0x45, 0] @ r)"
    by (rule reads_remaining [OF p1(1) r1])
  obtain p2 where p2: "reads p1 [ESC, 0x45, if b then 1 else 0] [] p2" "ps_bold p2 = b"
    "ps_alignment p2 = a"
    using reads_bold [OF reads_idle [OF p1(1)] r2] p1(2) by blast
  have r3: "remaining p2 = lines_bytes ?ls @ ([ESC, 0x45, 0] @ r)"
    by (rule reads_remaining [OF p2(1) r2])
  obtain p3 where p3: "reads p2 (lines_bytes ?ls) (map (line_element (cols p2) a b) ?ls) p3"
    using reads_lines [OF reads_idle [OF p2(1)] r3 fit] p2 by auto
  have r4: "remaining p3 = [ESC, 0x45, if False then 1 else 0] @ r"
    using reads_remaining [OF p3 r3] by simp
  obtain p4 where p4: "reads p3 [ESC, 0x45, if False then 1 else 0] [] p4" "ps_bold p4 = False"
    using reads_bold [OF reads_idle [OF p3] r4] by blast
  have c: "cols p2 = cols p" using reads_cols [OF p1(1)] reads_cols [OF p2(1)] by simp
  show ?thesis
    using reads_append [OF reads_append [OF reads_append [OF p1(1) p2(1)] p3] p4(1)] p4(2)
      reads_idle [OF p4(1)] c
    by (intro exI [of _ p4]) (simp add: ready_def)
qed

lemma reads_row:
  assumes T: "shapes_ascii T" and p: "ready p"
    and ok: "list_all is_printable left" "list_all is_printable right"
    and rem: "remaining p = ([ESC, 0x61, 0] @ lines_bytes (layout_row T left right (cols p))) @ r"
  shows "\<exists>q. reads p ([ESC, 0x61, 0] @ lines_bytes (layout_row T left right (cols p)))
      (map (line_element (cols p) AlignLeft False) (layout_row T left right (cols p))) q \<and> ready q"
proof -
  let ?ls = "layout_row T left right (cols p)"
  have fit: "list_all (\<lambda>l. list_all is_printable l \<and> length l \<le> MAX_TEXT_BYTES) ?ls"
    unfolding cols_def
    by (rule lines_fit) (use layout_row_ok [OF T ok] columns_bounds in blast)
  have idle: "idle p" using p by (simp add: ready_def)
  have z: "alignment_code (Some AlignLeft) = 0" by (simp add: alignment_code_def)
  have r1: "remaining p = [ESC, 0x61, alignment_code (Some AlignLeft)] @ (lines_bytes ?ls @ r)"
    using rem by (simp add: z)
  obtain p1 where p1: "reads p [ESC, 0x61, alignment_code (Some AlignLeft)] [] p1"
    "ps_alignment p1 = AlignLeft" "ps_bold p1 = False"
    using reads_align [OF idle r1] p by (auto simp: ready_def)
  have r2: "remaining p1 = lines_bytes ?ls @ r" by (rule reads_remaining [OF p1(1) r1])
  obtain p2 where p2: "reads p1 (lines_bytes ?ls) (map (line_element (cols p1) AlignLeft False) ?ls) p2"
    "ps_bold p2 = False"
    using reads_lines [OF reads_idle [OF p1(1)] r2 fit] p1 by auto
  show ?thesis
    using reads_append [OF p1(1) p2(1)] p2(2) reads_idle [OF p2(1)] reads_cols [OF p1(1)]
    by (intro exI [of _ p2]) (simp add: ready_def z)
qed

lemma reads_divider:
  assumes p: "ready p" and rem: "remaining p = (replicate (cols p) 0x2D @ [10]) @ r"
  shows "\<exists>q. reads p (replicate (cols p) 0x2D @ [10]) [DividerElement] q \<and> ready q"
proof -
  let ?line = "replicate (cols p) (0x2D :: nat)"
  have n: "5 \<le> cols p" "cols p \<le> 48" using columns_bounds by (auto simp: cols_def)
  then have ne: "?line \<noteq> []" by auto
  have bytes: "str_bytes ?line = replicate (cols p) 0x2D"
    by (subst str_bytes_ascii) (auto simp: map_replicate_const)
  have u: "utf8_bytes ?line = ?line" by (intro utf8_bytes_ascii) auto
  have d: "line_element (cols p) a b ?line = DividerElement" for a b
    using ne n unfolding line_element_def classify_line_def length_utf8_bytes [symmetric] u
    by (simp add: list_all_iff)
  have "reads p (str_bytes ?line @ [10])
      [line_element (cols p) (ps_alignment p) (ps_bold p) ?line] (line_read ?line p)"
    using p rem n unfolding bytes [symmetric]
    by (intro reads_line) (auto simp: ready_def list_all_iff is_printable_def is_graphic_def MAX_TEXT_BYTES_def)
  then show ?thesis using p unfolding bytes d
    by (intro exI [of _ "line_read ?line p"]) (auto simp: ready_def dest: reads_idle)
qed

lemma reads_qr:
  assumes p: "ready p" and v: "list_all is_scalar v" "byte_len v \<le> MAX_QR_BYTES"
    and rem: "remaining p = render_qr v @ r"
  shows "\<exists>q. reads p (render_qr v) [QrElement v] q \<and> ready q"
proof -
  let ?s1 = "[GS, 0x28, 0x6B, of_nat (length [49, 65, 50, 0 :: byte]), 0] @ [49, 65, 50, 0]"
  let ?s2 = "[GS, 0x28, 0x6B, of_nat (length [49, 67, 6 :: byte]), 0] @ [49, 67, 6]"
  let ?s3 = "[GS, 0x28, 0x6B, of_nat (length [49, 69, 49 :: byte]), 0] @ [49, 69, 49]"
  let ?store = "[GS, 0x28, 0x6B, of_nat ((byte_len v + 3) mod 256),
      of_nat ((byte_len v + 3) div 256 mod 256), 49, 80, 48] @ str_bytes v"
  let ?print = "[GS, 0x28, 0x6B, 3, 0, 49, 81, 48]"
  have split: "render_qr v = ?s1 @ ?s2 @ ?s3 @ ?store @ ?print"
    by (simp add: render_qr_def GS_def Let_def)
  have r1: "remaining p = ?s1 @ (?s2 @ ?s3 @ ?store @ ?print @ r)" using rem split by simp
  have idle: "idle p" using p by (simp add: ready_def)
  obtain p1 where p1: "reads p ?s1 [] p1" "ps_bold p1 = ps_bold p"
    using reads_qr_setting [OF idle r1] by blast
  note r2 = reads_remaining [OF p1(1) r1]
  obtain p2 where p2: "reads p1 ?s2 [] p2" "ps_bold p2 = ps_bold p1"
    using reads_qr_setting [OF reads_idle [OF p1(1)] r2] by blast
  note r3 = reads_remaining [OF p2(1) r2]
  obtain p3 where p3: "reads p2 ?s3 [] p3" "ps_bold p3 = ps_bold p2"
    using reads_qr_setting [OF reads_idle [OF p2(1)] r3] by blast
  note r4 = reads_remaining [OF p3(1) r3]
  obtain p4 where p4: "reads p3 ?store [] p4" "ps_qr_payload p4 = Some v" "ps_bold p4 = ps_bold p3"
    using reads_qr_store [OF reads_idle [OF p3(1)] v r4] by blast
  note r5 = reads_remaining [OF p4(1) r4]
  obtain p5 where p5: "reads p4 ?print [QrElement v] p5" "ps_bold p5 = ps_bold p4"
    using reads_qr_print [OF reads_idle [OF p4(1)] r5 p4(2)] by blast
  have "reads p (render_qr v) [QrElement v] p5"
    using reads_append [OF reads_append [OF reads_append [OF reads_append [OF p1(1) p2(1)] p3(1)] p4(1)] p5(1)]
    unfolding split by simp
  then show ?thesis using p p1(2) p2(2) p3(2) p4(3) p5(2) reads_idle [OF p5(1)]
    by (auto simp: ready_def)
qed

lemma reads_barcode_element:
  assumes p: "ready p" and render: "render_barcode format v = Ok bytes"
    and bs: "bs = bytes[2 := if hri then 2 else 0, 5 := h]" and rem: "remaining p = bs @ r"
  shows "\<exists>q. reads p bs [BarcodeElement format v h hri] q \<and> ready q"
proof -
  obtain command payload where payload: "barcode_payload format v = Ok (command, payload)"
    "length payload \<le> 255"
    "bytes = [0x1D, 0x48, 2, 0x1D, 0x68, 80, 0x1D, 0x6B, command, of_nat (length payload)] @ payload"
    using render by (auto simp: render_barcode_def and_then_Ok not_less)
  let ?h = "[GS, 0x48, if hri then 2 else 0]" and ?height = "[GS, 0x68, h]"
  let ?code = "[GS, 0x6B, command, of_nat (length payload)] @ payload"
  have split: "bs = ?h @ ?height @ ?code" by (simp add: bs payload(3) GS_def)
  have r1: "remaining p = ?h @ (?height @ ?code @ r)" using rem split by simp
  have idle: "idle p" using p by (simp add: ready_def)
  obtain p1 where p1: "reads p ?h [] p1" "ps_barcode_hri p1 = hri" "ps_bold p1 = ps_bold p"
    using reads_hri [OF idle r1] by (cases hri) auto
  note r2 = reads_remaining [OF p1(1) r1]
  obtain p2 where p2: "reads p1 ?height [] p2" "ps_barcode_height p2 = h" "ps_barcode_hri p2 = hri"
    "ps_bold p2 = ps_bold p1"
    using reads_barcode_height [OF reads_idle [OF p1(1)] r2] p1(2) by auto
  note r3 = reads_remaining [OF p2(1) r2]
  obtain p3 where p3: "reads p2 ?code [BarcodeElement format v h hri] p3" "ps_bold p3 = ps_bold p2"
    using reads_barcode [OF reads_idle [OF p2(1)] payload(1,2) r3] p2 by auto
  have "reads p bs [BarcodeElement format v h hri] p3"
    using reads_append [OF reads_append [OF p1(1) p2(1)] p3(1)] unfolding split by simp
  then show ?thesis using p p1(3) p2(4) p3(2) reads_idle [OF p3(1)] by (auto simp: ready_def)
qed

lemma reads_element:
  assumes T: "shapes_ascii T" and p: "ready p" and ok: "element_ok e"
    and bytes: "element_bytes T (cols p) e = Ok bytes" and rem: "remaining p = bytes @ r"
  shows "\<exists>q. reads p bytes (decoded_element T (cols p) e) q \<and> ready q"
proof -
  have idle: "idle p" using p by (simp add: ready_def)
  show ?thesis
  proof (cases e)
    case (TextElement v a b)
    with bytes have "bytes = [ESC, 0x61, alignment_code (Some a), ESC, 0x45, if b then 1 else 0] @
        lines_bytes (wrap_text T v (cols p)) @ [ESC, 0x45, 0]"
      by (auto simp: and_then_Ok)
    with reads_text [OF T p, of v a b r] ok rem TextElement show ?thesis by simp
  next
    case (RowElement left right)
    with bytes have "bytes = [ESC, 0x61, 0] @ lines_bytes (layout_row T left right (cols p))"
      by (auto simp: and_then_Ok)
    with reads_row [OF T p, of left right r] ok rem RowElement show ?thesis by simp
  next
    case DividerElement
    with bytes rem reads_divider [OF p, of r] show ?thesis by simp
  next
    case (ImageElement im)
    with bytes rem reads_image [OF idle, of im r] ok p show ?thesis
      by (auto simp: ready_def dest: reads_idle)
  next
    case (QrElement v)
    with bytes rem reads_qr [OF p, of v r] ok show ?thesis by simp
  next
    case (BarcodeElement format v h hri)
    with bytes obtain bs where "render_barcode format v = Ok bs"
      "bytes = bs[2 := if hri then 2 else 0, 5 := h]"
      by (auto simp: and_then_Ok)
    from reads_barcode_element [OF p this rem] BarcodeElement show ?thesis by simp
  next
    case (FeedElement n)
    with bytes rem reads_feed [OF idle, of n r] ok p show ?thesis
      by (auto simp: ready_def dest: reads_idle)
  next
    case CutElement
    with bytes rem reads_cut [OF idle, of r] p show ?thesis
      by (auto simp: ready_def dest: reads_idle)
  qed
qed

lemma reads_elements:
  assumes T: "shapes_ascii T"
  shows "ready p \<Longrightarrow> list_all element_ok es \<Longrightarrow>
    list_all2 (\<lambda>e bs. element_bytes T (cols p) e = Ok bs) es parts \<Longrightarrow>
    remaining p = concat parts @ r \<Longrightarrow>
    \<exists>q. reads p (concat parts) (concat (map (decoded_element T (cols p)) es)) q \<and> ready q"
proof (induction es arbitrary: p parts)
  case Nil
  then show ?case using reads_nothing by (auto simp: ready_def)
next
  case (Cons e es)
  then obtain bs parts' where parts: "parts = bs # parts'" "element_bytes T (cols p) e = Ok bs"
    "list_all2 (\<lambda>e bs. element_bytes T (cols p) e = Ok bs) es parts'"
    by (auto simp: list_all2_Cons1)
  have rem: "remaining p = bs @ (concat parts' @ r)" using Cons.prems(4) parts(1) by simp
  obtain q where q: "reads p bs (decoded_element T (cols p) e) q" "ready q"
    using reads_element [OF T Cons.prems(1) _ parts(2) rem] Cons.prems(2) by auto
  have c: "cols q = cols p" by (rule reads_cols [OF q(1)])
  obtain q' where q': "reads q (concat parts') (concat (map (decoded_element T (cols q)) es)) q'" "ready q'"
    using Cons.IH [OF q(2)] Cons.prems(2) parts(3) reads_remaining [OF q(1) rem] c by auto
  from reads_append [OF q(1) q'(1)] q'(2) show ?case
    unfolding parts(1) c by (intro exI [of _ q']) simp
qed

lemma interpret_rendered:
  assumes T: "shapes_ascii T" and ok: "list_all element_ok (pl_elements layout)"
    and bytes: "render_layout T layout = Ok bytes" and fits: "length bytes \<le> USIZE_MAX"
  shows "\<exists>d. interpret_escpos (pl_width layout) bytes =
      Ok \<lparr>ei_layout = \<lparr>pl_width = pl_width layout, pl_elements =
            concat (map (decoded_element T (columns (pl_width layout))) (pl_elements layout))\<rparr>,
          ei_diagnostics = d\<rparr> \<and> ed_unsupported d = []"
proof -
  let ?p = "Parser_new bytes (pl_width layout)"
  obtain parts where parts: "bytes = [ESC, 0x40] @ concat parts"
    "list_all2 (\<lambda>e bs. element_bytes T (columns (pl_width layout)) e = Ok bs) (pl_elements layout) parts"
    using bytes by (auto simp: render_layout_def and_then_Ok try_map_Ok)
  have idle: "idle ?p" using fits by (simp add: idle_def Parser_new_def)
  have r0: "remaining ?p = [ESC, 0x40] @ concat parts" by (simp add: remaining_def Parser_new_def parts(1))
  obtain q where q: "reads ?p [ESC, 0x40] [] q" "ps_bold q = False"
    using reads_reset [OF idle r0] by blast
  have c: "cols q = columns (pl_width layout)" using reads_cols [OF q(1)] by (simp add: cols_def Parser_new_def)
  have ready: "ready q" using q reads_idle by (auto simp: ready_def)
  obtain q' where q': "reads q (concat parts)
      (concat (map (decoded_element T (cols q)) (pl_elements layout))) q'" "ready q'"
    using reads_elements [OF T ready ok, of parts "[]"] parts(2) reads_remaining [OF q(1) r0] c by auto
  have all: "reads ?p bytes (concat (map (decoded_element T (cols q)) (pl_elements layout))) q'"
    using reads_append [OF q(1) q'(1)] parts(1) by simp
  have stop: "run_loop q' = (Ok (), q')"
    using all by (subst run_loop.simps) (simp add: parsing_def reads_def Parser_new_def)
  have "ps_layout q' = \<lparr>pl_width = pl_width layout, pl_elements =
      concat (map (decoded_element T (cols q)) (pl_elements layout))\<rparr>"
    using all by (cases "ps_layout q'") (simp add: reads_def Parser_new_def)
  moreover have "ed_unsupported (ps_diagnostics q') = []"
    using all by (simp add: reads_def Parser_new_def Diagnostics_default_def)
  moreover have "fst (run_parser ?p) = Ok \<lparr>ei_layout = ps_layout q', ei_diagnostics = ps_diagnostics q'\<rparr>"
    using all stop q'(2)
    by (simp add: run_parser_def reads_def ready_def idle_def ebind_def flush_text_def egets_def)
  ultimately show ?thesis unfolding interpret_escpos_def c by auto
qed

section \<open>Text is never taken for a row, and a row that fits comes back\<close>

lemma scan_single_spaced:
  "single_spaced (s @ t) \<Longrightarrow> t = [] \<or> hd t \<noteq> 32 \<Longrightarrow>
   scan_runs selected i (s @ t) = scan_runs selected (i + length s) t"
proof (induction s arbitrary: i)
  case (Cons b s)
  have rest: "single_spaced (s @ t)" using Cons.prems(1) by (cases "s @ t") auto
  show ?case
  proof (cases "b = 32")
    case True
    then have "takeWhile (\<lambda>b. b = 32) (s @ t) = []"
      using Cons.prems(1) by (cases "s @ t") auto
    with True show ?thesis using Cons.IH [OF rest Cons.prems(2)] by simp
  next
    case False
    then show ?thesis using Cons.IH [OF rest Cons.prems(2)] by simp
  qed
qed simp

lemma scan_no_run: "single_spaced s \<Longrightarrow> scan_runs selected i s = selected"
  using scan_single_spaced [of s "[]"] by simp

lemma scan_run:
  assumes "2 \<le> k" "t = [] \<or> hd t \<noteq> 32"
  shows "scan_runs selected i (spaces k @ t) = scan_runs (Some (i, i + k)) (i + k) t"
proof -
  obtain m where k: "k = Suc m" using assms(1) by (cases k) auto
  have "takeWhile (\<lambda>b. b = 32) (replicate m 32 @ t) = replicate m 32"
    using assms(2) by (cases t) (auto simp: takeWhile_append takeWhile_eq_all_conv)
  then show ?thesis using assms(1) by (simp add: spaces_def k)
qed

lemma scan_plain:
  "single_spaced s \<Longrightarrow> s = [] \<or> last s \<noteq> 32 \<Longrightarrow>
   scan_runs selected i (s @ t) = scan_runs selected (i + length s) t"
proof (induction s arbitrary: i)
  case (Cons b s)
  have rest: "single_spaced s" "s = [] \<or> last s \<noteq> 32"
    using Cons.prems by (cases s; auto)+
  show ?case
  proof (cases "b = 32")
    case True
    then have "s \<noteq> []" "hd s \<noteq> 32" using Cons.prems by (cases s; auto)+
    then have "takeWhile (\<lambda>b. b = 32) (s @ t) = []" by (cases s) auto
    with True show ?thesis using Cons.IH [OF rest] by simp
  next
    case False
    then show ?thesis using Cons.IH [OF rest] by simp
  qed
qed simp

lemma tidy_not_row: "tidy s \<Longrightarrow> split_emitted_row s = None"
  by (simp add: split_emitted_row_def scan_no_run tidy_def)

lemma tidy_edges: "tidy s \<Longrightarrow> s \<noteq> [] \<Longrightarrow> \<not> is_whitespace (hd s) \<and> \<not> is_whitespace (last s)"
proof -
  assume s: "tidy s" "s \<noteq> []"
  have graphic: "is_printable c \<Longrightarrow> c \<noteq> 32 \<Longrightarrow> \<not> is_whitespace c" for c
    by (auto simp: is_printable_def is_graphic_def is_whitespace_def)
  have "is_printable (hd s)" "is_printable (last s)"
    using s by (auto simp: tidy_def list_all_iff)
  with s graphic show ?thesis by (simp add: tidy_def)
qed

lemma row_found:
  assumes left: "tidy left" "left \<noteq> []" and right: "tidy right" and k: "2 \<le> k"
  shows "split_emitted_row (left @ spaces k @ right) = Some (left, right)"
proof -
  have l: "trim_end left = left"
    using tidy_edges [OF left] left(2) by (cases left rule: rev_cases) (auto simp: trim_end_def)
  have r: "trim_start right = right"
    using tidy_edges [OF right] by (cases right) (auto simp: trim_start_def)
  have "scan_runs None 0 (left @ spaces k @ right) = scan_runs None (length left) (spaces k @ right)"
    using scan_plain [of left None 0] left by (simp add: tidy_def)
  also have "\<dots> = scan_runs (Some (length left, length left + k)) (length left + k) right"
    using scan_run [of k right] k right by (auto simp: tidy_def)
  also have "\<dots> = Some (length left, length left + k)"
    using right by (simp add: scan_no_run tidy_def)
  finally show ?thesis using l r left(2) by (simp add: split_emitted_row_def)
qed

lemma spaces_not_dashes: "0 < k \<Longrightarrow> \<not> list_all (\<lambda>b. b = 45) (utf8_bytes (s @ spaces k @ t))"
  by (cases k) (auto simp: utf8_bytes_def spaces_def utf8_encode_def list_all_iff)

lemma text_decoded:
  assumes "shapes_ascii T" "plain_text v" "0 < n" "e \<in> set (decoded_element T n (TextElement v a b))"
  shows "e = FeedElement 1 \<or> e = DividerElement \<or> (\<exists>line \<in> set (wrap_text T v n). e = TextElement line a b)"
  using wrap_text_ok [OF assms(1,3,2)] assms(4)
  by (auto simp: line_element_def classify_line_def list_all_iff line_ok_def tidy_not_row)

lemma row_decoded:
  assumes T: "shapes_ascii T" and left: "tidy left" "left \<noteq> []" and right: "tidy right"
    and fits: "length left + length right + 2 \<le> n"
  shows "decoded_element T n (RowElement left right) = [RowElement left right]"
proof -
  have w: "str_width T left = length left" "str_width T right = length right"
    using T left right by (simp_all add: shapes_ascii_def tidy_def)
  let ?k = "n - length left - length right"
  have k: "2 \<le> ?k" using fits by simp
  have "line_element n AlignLeft False (left @ spaces ?k @ right) = RowElement left right"
    using row_found [OF left right k] spaces_not_dashes [of ?k left right] k left(2)
    by (simp add: line_element_def classify_line_def)
  then show ?thesis using fits by (simp add: layout_row_def w)
qed

end
