(* ===== verification/Packed_Bits.thy ===== *)
theory Packed_Bits
  imports Receipt_Layout
begin

text \<open>
  Packed one-bit pixels: reading and setting a pixel of a row-major buffer, most significant bit
  first, and what a loop of settings leaves in the buffer. The image conversion and the canvas of a
  page both rest on these facts.
\<close>

definition bit_at :: "byte list \<Rightarrow> nat \<Rightarrow> nat \<Rightarrow> nat \<Rightarrow> bool" where
  "bit_at data stride x y \<longleftrightarrow>
     (let i = y * stride + x div 8 in i < length data \<and> bit (data ! i) (7 - x mod 8))"

definition mark :: "nat \<Rightarrow> byte list \<Rightarrow> nat \<Rightarrow> nat \<Rightarrow> byte list" where
  "mark stride data x y =
     (let i = y * stride + x div 8 in
      if i < length data then data[i := data ! i OR drop_bit (x mod 8) 0x80] else data)"

lemma length_mark [simp]: "length (mark stride data x y) = length data"
  by (simp add: mark_def Let_def)

lemma bit_0x80: "bit (0x80 :: byte) m \<longleftrightarrow> m = 7" and bit_128: "bit (128 :: int) m \<longleftrightarrow> m = 7"
  using bit_exp_iff [where 'a = byte, of 7 m] bit_exp_iff [where 'a = int, of 7 m] by auto

lemma bit_selector: "k < 8 \<Longrightarrow> bit (drop_bit k 0x80 :: byte) m \<longleftrightarrow> m = 7 - k"
  by (auto simp: bit_drop_bit_eq bit_0x80 bit_128)

lemma selected_bit:
  assumes "k < 8"
  shows "(b :: byte) AND drop_bit k 0x80 \<noteq> 0 \<longleftrightarrow> bit b (7 - k)"
proof
  assume "b AND drop_bit k 0x80 \<noteq> 0"
  then obtain n where "bit (b AND drop_bit k 0x80) n" by (auto simp: bit_eq_iff)
  with assms show "bit b (7 - k)" by (auto simp: bit_and_iff bit_selector)
next
  assume "bit b (7 - k)"
  with assms have "bit (b AND drop_bit k 0x80) (7 - k)" by (simp add: bit_and_iff bit_selector)
  then show "b AND drop_bit k 0x80 \<noteq> 0" by auto
qed

text \<open>Coordinates inside of the rows determine byte and bit.\<close>

lemma position_inj:
  fixes x x' y y' stride :: nat
  assumes "x div 8 < stride" "x' div 8 < stride" "y * stride + x div 8 = y' * stride + x' div 8"
    "x mod 8 = x' mod 8"
  shows "x = x' \<and> y = y'"
proof -
  have "(y * stride + x div 8) mod stride = (y' * stride + x' div 8) mod stride"
    by (simp only: assms(3))
  then have same: "x div 8 = x' div 8" using assms(1,2) by simp
  then have "y * stride = y' * stride" using assms(3) by linarith
  then have "y = y'" using assms(1) by simp
  moreover have "x = x'"
    using same assms(4) div_mult_mod_eq [of x 8] div_mult_mod_eq [of x' 8] by linarith
  ultimately show ?thesis by simp
qed

lemma bit_at_mark:
  assumes "x div 8 < stride" "x' div 8 < stride" "y * stride + x div 8 < length data"
  shows "bit_at (mark stride data x y) stride x' y' \<longleftrightarrow> bit_at data stride x' y' \<or> (x' = x \<and> y' = y)"
proof (cases "y' * stride + x' div 8 = y * stride + x div 8")
  case True
  have "x' mod 8 = x mod 8 \<longleftrightarrow> x' = x \<and> y' = y"
    using position_inj [OF assms(2,1) True] by auto
  moreover have "7 - x' mod 8 = 7 - x mod 8 \<longleftrightarrow> x' mod 8 = x mod 8"
    using mod_less_divisor [of 8 x] mod_less_divisor [of 8 x'] by linarith
  ultimately show ?thesis using assms(3)
    by (simp add: bit_at_def mark_def Let_def True bit_or_iff bit_selector)
next
  case False
  then show ?thesis using assms(3) by (auto simp: bit_at_def mark_def Let_def)
qed

lemma foldl_nested:
  "foldl (\<lambda>d y. foldl (\<lambda>d x. f d x y) d xs) d ys =
   foldl (\<lambda>d (x, y). f d x y) d (concat (map (\<lambda>y. map (\<lambda>x. (x, y)) xs) ys))"
  by (induction ys arbitrary: d) (simp_all add: foldl_map)

lemma set_positions: "set (concat (map (\<lambda>y. map (\<lambda>x. (x, y)) xs) ys)) = set xs \<times> set ys"
  by auto

lemma length_marks:
  "length (foldl (\<lambda>d (x, y). if P x y then mark stride d x y else d) data ps) = length data"
  by (induction ps arbitrary: data) auto

lemma bit_at_marks:
  assumes "\<forall>(x, y) \<in> set ps. x div 8 < stride \<and> y * stride + x div 8 < length data" "X div 8 < stride"
  shows "length (foldl (\<lambda>d (x, y). if P x y then mark stride d x y else d) data ps) = length data \<and>
    (bit_at (foldl (\<lambda>d (x, y). if P x y then mark stride d x y else d) data ps) stride X Y \<longleftrightarrow>
       bit_at data stride X Y \<or> ((X, Y) \<in> set ps \<and> P X Y))"
  using assms(1)
proof (induction ps arbitrary: data)
  case (Cons p ps)
  obtain x y where p: "p = (x, y)" by (cases p)
  let ?d = "if P x y then mark stride data x y else data"
  have "\<forall>(x, y) \<in> set ps. x div 8 < stride \<and> y * stride + x div 8 < length ?d"
    using Cons.prems by auto
  from Cons.IH [OF this]
  have rest: "length (foldl (\<lambda>d (x, y). if P x y then mark stride d x y else d) ?d ps) = length data"
    "bit_at (foldl (\<lambda>d (x, y). if P x y then mark stride d x y else d) ?d ps) stride X Y \<longleftrightarrow>
       bit_at ?d stride X Y \<or> ((X, Y) \<in> set ps \<and> P X Y)"
    by auto
  moreover have "bit_at ?d stride X Y \<longleftrightarrow> bit_at data stride X Y \<or> (P x y \<and> X = x \<and> Y = y)"
    using Cons.prems p assms(2) by (auto simp: bit_at_mark)
  ultimately show ?case by (auto simp: p)
qed simp

text \<open>In the 32-bit arithmetic of the code, where the buffer is small enough.\<close>

lemma packed_index:
  fixes x y stride :: "32 word"
  assumes "unat y * unat stride + unat x div 8 < 2 ^ 32"
  shows "unat (y * stride + x div 8) = unat y * unat stride + unat x div 8"
proof -
  have "unat (y * stride) = unat y * unat stride"
    using assms by (intro unat_mult_lem [THEN iffD1]) simp
  moreover have "unat (x div 8) = unat x div 8" by (simp add: unat_div)
  ultimately show ?thesis using assms
    by (subst unat_add_lem [THEN iffD1]) simp_all
qed

lemma set_packed_bit_mark:
  "unat y * unat stride + unat x div 8 < 2 ^ 32 \<Longrightarrow>
   set_packed_bit data stride x y = mark (unat stride) data (unat x) (unat y)"
  by (simp add: set_packed_bit_def mark_def packed_index unat_mod Let_def)

lemma unat_div_ceil8: "unat (div_ceil8 w) = (unat w + 7) div 8"
proof -
  have m: "unat (w mod 8) = unat w mod 8" and d: "unat (w div 8) = unat w div 8"
    by (simp_all add: unat_mod unat_div)
  have "unat w div 8 + 1 < 2 ^ 32" using unsigned_less [of w, where ?'a = nat] by simp
  then have "unat (w div 8 + 1) = unat w div 8 + 1"
    by (subst unat_add_lem [THEN iffD1]) (simp_all add: d)
  moreover have "w mod 8 = 0 \<longleftrightarrow> unat w mod 8 = 0" by (simp add: m [symmetric] unat_eq_zero)
  moreover have "(n + 7) div 8 = n div 8 + (if n mod 8 = 0 then 0 else 1)" for n :: nat by presburger
  ultimately show ?thesis by (simp add: div_ceil8_def d)
qed

lemma stride_covers: "x < unat w \<Longrightarrow> x div 8 < unat (div_ceil8 w)"
  unfolding unat_div_ceil8 by linarith

lemma inside_buffer:
  assumes "x div 8 < stride" "y < (height :: nat)"
  shows "y * stride + x div 8 < stride * height"
proof -
  have "y * stride + x div 8 < Suc y * stride" using assms(1) by simp
  also have "\<dots> \<le> height * stride" using assms(2) by (intro mult_le_mono1) simp
  finally show ?thesis by (simp add: mult.commute)
qed

lemma bit_at_empty: "\<not> bit_at (replicate n 0) stride x y"
  by (simp add: bit_at_def Let_def)

text \<open>The conversion from gray: exactly the pixels below the threshold are black.\<close>

lemma foldl_cong_set:
  "(\<And>d x. x \<in> set xs \<Longrightarrow> f d x = g d x) \<Longrightarrow> foldl f d xs = foldl g d xs"
  by (induction xs arbitrary: d) simp_all

lemma from_gray_pixels:
  fixes g :: GrayImage
  defines "S \<equiv> unat (div_ceil8 (gray_width g))"
  assumes small: "S * unat (gray_height g) < 2 ^ 32"
  shows "length (im_data (from_gray g)) = S * unat (gray_height g)"
    "X < unat (gray_width g) \<Longrightarrow> Y < unat (gray_height g) \<Longrightarrow>
     bit_at (im_data (from_gray g)) S X Y \<longleftrightarrow> get_pixel g X Y < 160"
proof -
  let ?w = "unat (gray_width g)" and ?h = "unat (gray_height g)"
  let ?P = "\<lambda>x y. get_pixel g x y < 160"
  let ?ps = "concat (map (\<lambda>y. map (\<lambda>x. (x, y)) [0..<?w]) [0..<?h])"
  let ?f = "\<lambda>d (x, y). if ?P x y then mark S d x y else d"
  have step: "(if ?P x y then set_packed_bit d (div_ceil8 (gray_width g)) (of_nat x) (of_nat y) else d) =
      (if ?P x y then mark S d x y else d)" if "x < ?w" "y < ?h" for d x y
  proof -
    have "unat (of_nat x :: 32 word) = x" "unat (of_nat y :: 32 word) = y"
      using that unsigned_less [of "gray_width g", where ?'a = nat] unsigned_less [of "gray_height g", where ?'a = nat]
      by (simp_all add: unat_of_nat take_bit_nat_eq_self)
    moreover have "y * S + x div 8 < 2 ^ 32"
      using inside_buffer [OF stride_covers [OF that(1)] that(2)] small by (simp add: S_def)
    ultimately show ?thesis by (simp add: set_packed_bit_mark S_def)
  qed
  have "im_data (from_gray g) =
      foldl (\<lambda>d y. foldl (\<lambda>d x. ?f d (x, y)) d [0..<?w]) (replicate (S * ?h) 0) [0..<?h]"
    unfolding from_gray_def Let_def S_def [symmetric] ReceiptImage.simps
    by (intro foldl_cong_set) (simp add: step)
  then have data: "im_data (from_gray g) = foldl ?f (replicate (S * ?h) 0) ?ps"
    by (simp add: foldl_nested)
  have inside: "\<forall>(x, y) \<in> set ?ps. x div 8 < S \<and> y * S + x div 8 < length (replicate (S * ?h) (0 :: byte))"
    using inside_buffer stride_covers by (fastforce simp: S_def)
  show "length (im_data (from_gray g)) = S * ?h"
    unfolding data by (simp add: length_marks)
  show "bit_at (im_data (from_gray g)) S X Y \<longleftrightarrow> ?P X Y" if "X < ?w" "Y < ?h"
  proof -
    have "(X, Y) \<in> set ?ps" using that by (simp only: set_positions) simp
    moreover have "X div 8 < S" using stride_covers [OF that(1)] by (simp add: S_def)
    ultimately show ?thesis using bit_at_marks [OF inside, of X ?P Y]
      unfolding data by (simp only: bit_at_empty simp_thms)
  qed
qed

end
