(* ===== verification/Receipt_Page.thy ===== *)
theory Receipt_Page
  imports Packed_Bits Escpos
begin

text \<open>
  Drawing a receipt on a page (the rest of \<open>crates/oppa-renderer/src/page.rs\<close>): the canvas, text,
  rules, images, codes, the page and the tall preview. Glyphs, QR modules and barcode modules come from
  the crates \<open>font8x8\<close>, \<open>qrcode\<close> and \<open>barcoders\<close>; the one computation in floating point goes through the
  operations of \<open>f64\<close>. All of them are fields of the record \<open>drawing\<close>. Plain \<open>u32\<close> additions and
  multiplications wrap, as in a release build.
\<close>

section \<open>What the crates provide\<close>

record 'f drawing =
  dr_shaping :: shaping
  dr_glyph :: "codepoint \<Rightarrow> byte list option"
  dr_qr :: "byte list \<Rightarrow> ustring + bool list list"
  dr_code128 :: "ustring \<Rightarrow> ustring + byte list"
  dr_code39 :: "ustring \<Rightarrow> ustring + byte list"
  dr_ean13 :: "ustring \<Rightarrow> ustring + byte list"
  dr_upca :: "ustring \<Rightarrow> ustring + byte list"
  f64_of :: "32 word \<Rightarrow> 'f"
  f64_div :: "'f \<Rightarrow> 'f \<Rightarrow> 'f"
  f64_mul :: "'f \<Rightarrow> 'f \<Rightarrow> 'f"
  f64_min :: "'f \<Rightarrow> 'f \<Rightarrow> 'f"
  f64_max :: "'f \<Rightarrow> 'f \<Rightarrow> 'f"
  f64_round :: "'f \<Rightarrow> 'f"
  f64_to_u32 :: "'f \<Rightarrow> 32 word"

section \<open>The canvas\<close>

definition MAX_PAGE_PIXELS :: nat where "MAX_PAGE_PIXELS = 42000000"
definition MAX_RECEIPT_IMAGE_HEIGHT :: "32 word" where "MAX_RECEIPT_IMAGE_HEIGHT = 8192"
definition GLYPH_SCALE_AT_300_DPI :: "32 word" where "GLYPH_SCALE_AT_300_DPI = 3"
definition TOP_MARGIN_MM :: "16 word" where "TOP_MARGIN_MM = 12"
definition HRI_GLYPH_SCALE :: "32 word" where "HRI_GLYPH_SCALE = 2"

record MonoCanvas =
  cv_width :: "32 word"
  cv_height :: "32 word"
  cv_dpi :: "16 word"
  cv_stride :: "32 word"
  cv_data :: "byte list"

definition MonoCanvas_new :: "32 word \<Rightarrow> 32 word \<Rightarrow> 16 word \<Rightarrow> RendererError + MonoCanvas" where
  "MonoCanvas_new width height dpi =
     (let stride = div_ceil8 width in
      and_then (ok_or (raster_error ''canvas size overflow'')
        (checked_mul_usize (unat stride) (unat height))) (\<lambda>n.
      Ok \<lparr>cv_width = width, cv_height = height, cv_dpi = dpi, cv_stride = stride,
          cv_data = replicate n 0\<rparr>))"

definition canvas_set :: "32 word \<Rightarrow> 32 word \<Rightarrow> MonoCanvas \<Rightarrow> MonoCanvas" where
  "canvas_set x y c = c\<lparr>cv_data := set_packed_bit (cv_data c) (cv_stride c) x y\<rparr>"

definition fill_rect ::
  "32 word \<Rightarrow> 32 word \<Rightarrow> 32 word \<Rightarrow> 32 word \<Rightarrow> MonoCanvas \<Rightarrow> MonoCanvas" where
  "fill_rect x y width height c =
     (let right = min (sat_add32 x width) (cv_width c);
          bottom = min (sat_add32 y height) (cv_height c) in
      foldl (\<lambda>d py. foldl (\<lambda>d px. canvas_set (of_nat px) (of_nat py) d) d
          [unat (min x (cv_width c))..<unat right])
        c [unat (min y (cv_height c))..<unat bottom])"

definition source_black :: "ReceiptImage \<Rightarrow> 32 word \<Rightarrow> 32 word \<Rightarrow> bool" where
  "source_black im source_x source_y =
     (case list_get (im_data im) (unat (source_y * im_stride im + source_x div 8)) of
        None \<Rightarrow> False
      | Some b \<Rightarrow> b AND drop_bit (unat (source_x mod 8)) 0x80 \<noteq> 0)"

definition blit_receipt_image ::
  "ReceiptImage \<Rightarrow> 32 word \<Rightarrow> 32 word \<Rightarrow> 32 word \<Rightarrow> 32 word \<Rightarrow> MonoCanvas \<Rightarrow> MonoCanvas" where
  "blit_receipt_image im x y target_width target_height c =
     (if target_width = 0 \<or> target_height = 0 then c
      else foldl (\<lambda>c target_y.
        let source_y = sat_mul32 (of_nat target_y) (im_height im) div target_height in
        foldl (\<lambda>c target_x.
          let source_x = sat_mul32 (of_nat target_x) (im_width im) div target_width in
          if source_black im source_x source_y
          then canvas_set (sat_add32 x (of_nat target_x)) (sat_add32 y (of_nat target_y)) c else c)
          c [0..<unat target_width]) c [0..<unat target_height])"

definition into_page :: "MonoCanvas \<Rightarrow> 16 word \<Rightarrow> RasterPage" where
  "into_page c dpi = \<lparr>rp_width = cv_width c, rp_height = cv_height c, rp_dpi_x = dpi,
     rp_dpi_y = dpi, rp_format = Mono1, rp_data = cv_data c\<rparr>"

definition validate_canvas_area :: "32 word \<Rightarrow> 32 word \<Rightarrow> RendererError + unit" where
  "validate_canvas_area width height =
     reject_if (unat width * unat height > MAX_PAGE_PIXELS)
       (OutputTooLarge (unat width * unat height div 8) (MAX_PAGE_PIXELS div 8))"

definition glyph_scale :: "16 word \<Rightarrow> 32 word" where
  "glyph_scale dpi = max (ucast dpi * GLYPH_SCALE_AT_300_DPI div 300) 1"

section \<open>Text and images\<close>

record TextPlacement =
  tp_alignment :: TextAlignment
  tp_bold :: bool
  tp_left :: "32 word"
  tp_y :: "32 word"
  tp_max_width :: "32 word"
  tp_scale :: "32 word"

definition draw_glyph_row ::
  "TextPlacement \<Rightarrow> 32 word \<Rightarrow> nat \<Rightarrow> byte \<Rightarrow> MonoCanvas \<Rightarrow> MonoCanvas" where
  "draw_glyph_row t x row bits c =
     foldl (\<lambda>c column.
       if bits AND push_bit column 1 \<noteq> 0
       then
         let px = x + of_nat column * tp_scale t; py = tp_y t + of_nat row * tp_scale t;
             c = fill_rect px py (tp_scale t) (tp_scale t) c in
         if tp_bold t then fill_rect (sat_add32 px (tp_scale t)) py 1 (tp_scale t) c else c
       else c) c [0..<8]"

definition draw_glyph :: "'f drawing \<Rightarrow> TextPlacement \<Rightarrow> 32 word \<Rightarrow> codepoint \<Rightarrow> MonoCanvas \<Rightarrow> MonoCanvas" where
  "draw_glyph D t x character c =
     (case (case dr_glyph D character of None \<Rightarrow> dr_glyph D 63 | Some g \<Rightarrow> Some g) of
        None \<Rightarrow> c
      | Some g \<Rightarrow> foldl (\<lambda>c (row, bits). draw_glyph_row t x row bits c) c (List.enumerate 0 g))"

definition text_offset :: "TextPlacement \<Rightarrow> ustring \<Rightarrow> 32 word" where
  "text_offset t v =
     (let chars = (if length v < 2 ^ 32 then of_nat (length v) else - 1);
          text_width = sat_mul32 chars (8 * tp_scale t) in
      case tp_alignment t of
        AlignLeft \<Rightarrow> 0
      | AlignCenter \<Rightarrow> sat_sub32 (tp_max_width t) text_width div 2
      | AlignRight \<Rightarrow> sat_sub32 (tp_max_width t) text_width)"

definition draw_text :: "'f drawing \<Rightarrow> TextPlacement \<Rightarrow> ustring \<Rightarrow> MonoCanvas \<Rightarrow> MonoCanvas" where
  "draw_text D t v c =
     fst (foldl (\<lambda>(c, x) character.
         (draw_glyph D t x character c, sat_add32 x (8 * tp_scale t)))
       (c, sat_add32 (tp_left t) (text_offset t v)) v)"

definition fit_dimensions ::
  "'f drawing \<Rightarrow> 32 word \<Rightarrow> 32 word \<Rightarrow> 32 word \<Rightarrow> 32 word \<Rightarrow> 32 word \<times> 32 word" where
  "fit_dimensions D source_width source_height max_width max_height =
     (if source_width = 0 \<or> source_height = 0 \<or> max_width = 0 \<or> max_height = 0 then (0, 0)
      else
        let width_ratio = f64_div D (f64_of D max_width) (f64_of D source_width);
            height_ratio = f64_div D (f64_of D max_height) (f64_of D source_height);
            ratio = f64_min D (f64_min D width_ratio height_ratio) (f64_of D 1);
            scaled = (\<lambda>n. f64_to_u32 D (f64_max D (f64_round D (f64_mul D (f64_of D n) ratio)) (f64_of D 1))) in
        (scaled source_width, scaled source_height))"

section \<open>The elements of a receipt\<close>

definition encode_barcode :: "'f drawing \<Rightarrow> BarcodeFormat \<Rightarrow> ustring \<Rightarrow> RendererError + byte list" where
  "encode_barcode D format v = map_err BarcodeRender (case format of
     Code128 \<Rightarrow> dr_code128 D (0x181 # v)
   | Code39 \<Rightarrow> dr_code39 D v
   | Ean13 \<Rightarrow> dr_ean13 D v
   | Upca \<Rightarrow> dr_upca D v)"

definition qr_code :: "'f drawing \<Rightarrow> ustring \<Rightarrow> RendererError + bool list list" where
  "qr_code D v = map_err InvalidImage (dr_qr D (str_bytes v))"

definition u32_of :: "nat \<Rightarrow> 32 word \<Rightarrow> 32 word" where
  "u32_of n fallback = (if n < 2 ^ 32 then of_nat n else fallback)"

text \<open>
  The division by the number of modules of a barcode is by a positive number: an encoded barcode is
  never empty.
\<close>

text \<open>The columns a line of text may have at a receipt width and glyph scale.\<close>

definition max_chars :: "32 word \<Rightarrow> 32 word \<Rightarrow> nat" where
  "max_chars receipt_width scale = max (unat (receipt_width div max (8 * scale) 1)) 1"

definition placement ::
  "TextAlignment \<Rightarrow> bool \<Rightarrow> 32 word \<Rightarrow> 32 word \<Rightarrow> 32 word \<Rightarrow> 32 word \<Rightarrow> TextPlacement" where
  "placement alignment bold left y max_width scale =
     \<lparr>tp_alignment = alignment, tp_bold = bold, tp_left = left, tp_y = y, tp_max_width = max_width,
      tp_scale = scale\<rparr>"

type_synonym cursor = "MonoCanvas \<times> 32 word"

definition draw_lines ::
  "'f drawing \<Rightarrow> TextAlignment \<Rightarrow> bool \<Rightarrow> 32 word \<Rightarrow> 32 word \<Rightarrow> 32 word \<Rightarrow> ustring list \<Rightarrow> cursor \<Rightarrow> cursor" where
  "draw_lines D alignment bold left receipt_width scale ls cy =
     foldl (\<lambda>(c, y) line. (draw_text D (placement alignment bold left y receipt_width scale) line c,
       sat_add32 y (9 * scale))) cy ls"

definition draw_row ::
  "'f drawing \<Rightarrow> 32 word \<Rightarrow> 32 word \<Rightarrow> 32 word \<Rightarrow> ustring \<Rightarrow> ustring \<Rightarrow> cursor \<Rightarrow> cursor" where
  "draw_row D left receipt_width scale first right cy =
     (let m = max_chars receipt_width scale;
          left_chars = min (m * 3) USIZE_MAX div 5;
          right_chars = max (m - (left_chars + 1)) 1;
          left_lines = wrap_text (dr_shaping D) first (max left_chars 1);
          right_lines = wrap_text (dr_shaping D) right right_chars;
          draw = (\<lambda>alignment y line c. case line of
            None \<Rightarrow> c
          | Some line \<Rightarrow> draw_text D (placement alignment False left y receipt_width scale) line c) in
      foldl (\<lambda>(c, y) index.
          (draw AlignRight y (list_get right_lines index)
             (draw AlignLeft y (list_get left_lines index) c), sat_add32 y (9 * scale)))
        cy [0..<max (length left_lines) (length right_lines)])"

definition draw_divider :: "32 word \<Rightarrow> 32 word \<Rightarrow> 32 word \<Rightarrow> cursor \<Rightarrow> cursor" where
  "draw_divider left receipt_width scale cy = (case cy of (c, y) \<Rightarrow>
     let line_height = 9 * scale; thickness = ucast (max (cv_dpi c div 150) 1) in
     (fill_rect left (sat_add32 y (line_height div 2)) receipt_width thickness c,
      sat_add32 y line_height))"

definition draw_image :: "'f drawing \<Rightarrow> 32 word \<Rightarrow> 32 word \<Rightarrow> 32 word \<Rightarrow> ReceiptImage \<Rightarrow> cursor \<Rightarrow> cursor" where
  "draw_image D left receipt_width scale im cy = (case cy of (c, y) \<Rightarrow>
     let source_dpi = ucast (max (im_dpi im) 1); target_dpi = ucast (cv_dpi c);
         image_width = sat_mul32 (im_width im) target_dpi div source_dpi;
         image_height = sat_mul32 (im_height im) target_dpi div source_dpi;
         (target_width, target_height) = fit_dimensions D (max image_width 1) (max image_height 1)
           receipt_width (min MAX_RECEIPT_IMAGE_HEIGHT (sat_sub32 (cv_height c) y)) in
     (blit_receipt_image im left y target_width target_height c,
      sat_add32 (sat_add32 y target_height) (sat_mul32 scale 2)))"

definition draw_qr ::
  "'f drawing \<Rightarrow> 32 word \<Rightarrow> 32 word \<Rightarrow> 32 word \<Rightarrow> ustring \<Rightarrow> cursor \<Rightarrow> RendererError + cursor" where
  "draw_qr D left receipt_width scale v cy = (case cy of (c, y) \<Rightarrow>
     and_then (qr_code D v) (\<lambda>code.
     let modules = u32_of (length code) (- 1);
         total_modules = sat_add32 modules 8;
         nominal_module = max (ucast (cv_dpi c) * 6 div 203) 1;
         module = max (min nominal_module (receipt_width div max total_modules 1)) 1;
         code_width = sat_mul32 total_modules module;
         code_x = sat_add32 left (sat_sub32 receipt_width code_width div 2);
         quiet = 4 * module;
         c = foldl (\<lambda>c module_y. foldl (\<lambda>c module_x.
               if code ! module_y ! module_x
               then fill_rect (code_x + quiet + of_nat module_x * module)
                      (y + quiet + of_nat module_y * module) module module c else c)
               c [0..<unat modules]) c [0..<unat modules] in
     Ok (c, sat_add32 (sat_add32 y code_width) (scale * 2))))"

definition draw_barcode ::
  "'f drawing \<Rightarrow> 32 word \<Rightarrow> 32 word \<Rightarrow> 32 word \<Rightarrow> BarcodeFormat \<Rightarrow> ustring \<Rightarrow> byte \<Rightarrow> bool \<Rightarrow> cursor \<Rightarrow>
   RendererError + cursor" where
  "draw_barcode D left receipt_width scale format v height_dots human_readable cy = (case cy of (c, y) \<Rightarrow>
     and_then (encode_barcode D format v) (\<lambda>encoded.
     let quiet = 10; available = max (sat_sub32 receipt_width (quiet * 2)) 1 in
     and_then (reject_if (u32_of (length encoded) (- 1) > available)
       (BarcodeRender (lit ''encoded barcode is wider than the receipt''))) (\<lambda>_.
     let module_scale = min (max (available div u32_of (length encoded) 1) 1) (max (ucast (cv_dpi c) div 100) 1);
         barcode_width = u32_of (length encoded) 0 * module_scale;
         barcode_x = sat_add32 left (sat_sub32 receipt_width barcode_width div 2);
         barcode_height = max (ucast (cv_dpi c) * ucast height_dots div 203) 1;
         c = foldl (\<lambda>c (index, bar).
               if bar = 1
               then fill_rect (barcode_x + u32_of index 0 * module_scale) y module_scale barcode_height c
               else c) c (List.enumerate 0 encoded);
         y = sat_add32 (sat_add32 y barcode_height) (2 * scale) in
     Ok (if human_readable
         then (draw_text D (placement AlignCenter False left y receipt_width (min HRI_GLYPH_SCALE scale)) v c,
               sat_add32 y (9 * scale))
         else (c, y)))))"

fun render_element ::
  "'f drawing \<Rightarrow> 32 word \<Rightarrow> 32 word \<Rightarrow> 32 word \<Rightarrow> ReceiptElement \<Rightarrow> cursor \<Rightarrow> RendererError + cursor" where
  "render_element D left rw scale (TextElement v alignment bold) cy = Ok
     (draw_lines D alignment bold left rw scale (wrap_text (dr_shaping D) v (max_chars rw scale)) cy)"
| "render_element D left rw scale (RowElement first right) cy = Ok (draw_row D left rw scale first right cy)"
| "render_element D left rw scale DividerElement cy = Ok (draw_divider left rw scale cy)"
| "render_element D left rw scale (ImageElement im) cy = Ok (draw_image D left rw scale im cy)"
| "render_element D left rw scale (QrElement v) cy = draw_qr D left rw scale v cy"
| "render_element D left rw scale (BarcodeElement format v h hri) cy =
     draw_barcode D left rw scale format v h hri cy"
| "render_element D left rw scale (FeedElement n) (c, y) = Ok (c, sat_add32 y (ucast n * (9 * scale)))"
| "render_element D left rw scale CutElement cy = Ok cy"

fun render_each ::
  "'f drawing \<Rightarrow> 32 word \<Rightarrow> 32 word \<Rightarrow> 32 word \<Rightarrow> ReceiptElement list \<Rightarrow> cursor \<Rightarrow> RendererError + cursor" where
  "render_each D left rw scale [] cy = Ok cy"
| "render_each D left rw scale (e # es) cy =
     and_then (render_element D left rw scale e cy) (\<lambda>(c, y).
     and_then (reject_if (y > cv_height c) PageOverflow) (\<lambda>_.
     render_each D left rw scale es (c, y)))"

definition render_elements ::
  "'f drawing \<Rightarrow> PrintLayout \<Rightarrow> MonoCanvas \<Rightarrow> 32 word \<Rightarrow> 32 word \<Rightarrow> 32 word \<Rightarrow> RendererError + cursor" where
  "render_elements D layout c left y receipt_width =
     render_each D left receipt_width (glyph_scale (cv_dpi c)) (pl_elements layout) (c, y)"

section \<open>Pages\<close>

definition render_layout_page ::
  "'f drawing \<Rightarrow> PrintLayout \<Rightarrow> PageRenderOptions \<Rightarrow> RendererError + RasterDocument" where
  "render_layout_page D layout options =
     and_then (PageRenderOptions_validate options) (\<lambda>_.
     and_then (mm_to_px (opt_width_mm options) (opt_dpi options)) (\<lambda>width.
     and_then (mm_to_px (opt_height_mm options) (opt_dpi options)) (\<lambda>height.
     and_then (validate_canvas_area width height) (\<lambda>_.
     let receipt_width = min (receipt_pixel_width (pl_width layout) (opt_dpi options)) width;
         x = sat_sub32 width receipt_width div 2 in
     and_then (mm_to_px TOP_MARGIN_MM (opt_dpi options)) (\<lambda>y.
     and_then (MonoCanvas_new width height (opt_dpi options)) (\<lambda>c.
     and_then (render_elements D layout c x y receipt_width) (\<lambda>(c, _).
     Ok [into_page c (opt_dpi options)])))))))"

definition render_escpos_for_page ::
  "'f drawing \<Rightarrow> byte list \<Rightarrow> ReceiptWidth \<Rightarrow> PageRenderOptions \<Rightarrow>
   RendererError + RasterDocument \<times> EscPosDiagnostics" where
  "render_escpos_for_page D bytes width options =
     and_then (interpret_escpos width bytes) (\<lambda>i.
     case ed_unsupported (ei_diagnostics i) of
       (offset, command) # _ \<Rightarrow> Err (InvalidEscPos offset command)
     | [] \<Rightarrow>
         and_then (render_layout_page D (ei_layout i) options) (\<lambda>page.
         Ok (page, ei_diagnostics i)))"

definition lines_height :: "nat \<Rightarrow> 32 word \<Rightarrow> 32 word" where
  "lines_height n line_height = u32_of n (- 1) * line_height"

fun element_height ::
  "'f drawing \<Rightarrow> 16 word \<Rightarrow> 32 word \<Rightarrow> nat \<Rightarrow> ReceiptElement \<Rightarrow> RendererError + 32 word" where
  "element_height D dpi scale m (TextElement v _ _) =
     Ok (lines_height (max (length (wrap_text (dr_shaping D) v m)) 1) (9 * scale))"
| "element_height D dpi scale m (RowElement left right) = Ok (lines_height
     (max (max (length (wrap_text (dr_shaping D) left (max (m * 3 div 5) 1)))
               (length (wrap_text (dr_shaping D) right (max (m * 2 div 5) 1)))) 1) (9 * scale))"
| "element_height D dpi scale m DividerElement = Ok (9 * scale)"
| "element_height D dpi scale m (ImageElement im) =
     Ok (min (sat_mul32 (im_height im) (ucast dpi) div ucast (max (im_dpi im) 1)) MAX_RECEIPT_IMAGE_HEIGHT
         + scale * 2)"
| "element_height D dpi scale m (QrElement v) =
     and_then (qr_code D v) (\<lambda>code.
     Ok (sat_add32 (sat_mul32 (sat_add32 (u32_of (length code) (- 1)) 8) (max (ucast dpi * 6 div 203) 1))
           (scale * 2)))"
| "element_height D dpi scale m (BarcodeElement format v height_dots human_readable) =
     and_then (encode_barcode D format v) (\<lambda>_.
     Ok (ucast dpi * ucast height_dots div 203 + (if human_readable then 9 * scale else 0) + scale * 2))"
| "element_height D dpi scale m (FeedElement n) = Ok (ucast n * (9 * scale))"
| "element_height D dpi scale m CutElement = Ok 0"

fun add_heights ::
  "'f drawing \<Rightarrow> 16 word \<Rightarrow> 32 word \<Rightarrow> nat \<Rightarrow> ReceiptElement list \<Rightarrow> 32 word \<Rightarrow> RendererError + 32 word" where
  "add_heights D dpi scale m [] height = Ok height"
| "add_heights D dpi scale m (e # es) height =
     and_then (element_height D dpi scale m e) (\<lambda>h.
     add_heights D dpi scale m es (sat_add32 height h))"

definition estimate_layout_height :: "'f drawing \<Rightarrow> PrintLayout \<Rightarrow> 16 word \<Rightarrow> RendererError + 32 word" where
  "estimate_layout_height D layout dpi =
     (let scale = glyph_scale dpi;
          m = max_chars (receipt_pixel_width (pl_width layout) dpi) scale in
      and_then (add_heights D dpi scale m (pl_elements layout) (4 * scale)) (\<lambda>height.
      Ok (max height 1)))"

definition crop_page_height :: "RasterPage \<Rightarrow> 32 word \<Rightarrow> RendererError + RasterPage" where
  "crop_page_height page height =
     (if height \<ge> rp_height page then Ok page
      else
        and_then (ok_or (raster_error ''crop size overflow'')
          (checked_mul_usize (unat (div_ceil8 (rp_width page))) (unat height))) (\<lambda>new_len.
        let page = page\<lparr>rp_data := take new_len (rp_data page), rp_height := height\<rparr> in
        and_then (RasterPage_validate page) (\<lambda>_. Ok page)))"

definition render_layout_receipt ::
  "'f drawing \<Rightarrow> PrintLayout \<Rightarrow> 16 word \<Rightarrow> RendererError + RasterDocument" where
  "render_layout_receipt D layout dpi =
     and_then (reject_if (\<not> (72 \<le> dpi \<and> dpi \<le> 600)) InvalidPageOptions) (\<lambda>_.
     let width = receipt_pixel_width (pl_width layout) dpi in
     and_then (estimate_layout_height D layout dpi) (\<lambda>estimated_height.
     and_then (validate_canvas_area width estimated_height) (\<lambda>_.
     and_then (MonoCanvas_new width estimated_height dpi) (\<lambda>c.
     and_then (render_elements D layout c 0 0 width) (\<lambda>(c, final_y).
     let page = into_page c dpi; content_height = min (max final_y 1) (rp_height page) in
     and_then (crop_page_height page content_height) (\<lambda>page.
     Ok [page]))))))"

section \<open>Back to gray\<close>

definition page_luminance :: "RasterPage \<Rightarrow> nat \<Rightarrow> nat \<Rightarrow> byte" where
  "page_luminance page x y =
     (let pixel = unat (of_nat y * rp_width page + of_nat x :: 32 word);
          weighted = (\<lambda>channels.
            let i = unat ((of_nat y * rp_width page + of_nat x) * channels :: 32 word);
                red = unat (rp_data page ! i); green = unat (rp_data page ! (i + 1));
                blue = unat (rp_data page ! (i + 2)) in
            of_nat ((red * 299 + green * 587 + blue * 114) div 1000)) in
      case rp_format page of
        Mono1 \<Rightarrow> if mono_page_pixel page (of_nat x) (of_nat y) then 0 else 255
      | Gray8 \<Rightarrow> rp_data page ! pixel
      | Rgb24 \<Rightarrow> weighted 3
      | Rgba32 \<Rightarrow> weighted 4)"

definition page_to_gray :: "RasterPage \<Rightarrow> GrayImage" where
  "page_to_gray page = \<lparr>gray_width = rp_width page, gray_height = rp_height page,
     gray_data = concat (map (\<lambda>y. map (\<lambda>x. page_luminance page x y) [0..<unat (rp_width page)])
       [0..<unat (rp_height page)])\<rparr>"

text \<open>The PNG encoder is the argument \<open>png\<close>.\<close>

definition encode_raster_page_png ::
  "(GrayImage \<Rightarrow> ustring + byte list) \<Rightarrow> RasterPage \<Rightarrow> RendererError + byte list" where
  "encode_raster_page_png png page =
     and_then (RasterPage_validate page) (\<lambda>_. map_err InvalidImage (png (page_to_gray page)))"

section \<open>What drawing keeps\<close>

text \<open>
  The canvas keeps its shape under every drawing operation, so that a finished page passes its own
  validation; a filled rectangle is exactly the clipped rectangle; a drawn element never ends below
  the page.
\<close>

section \<open>The shape of the canvas\<close>

definition same_shape :: "MonoCanvas \<Rightarrow> MonoCanvas \<Rightarrow> bool" where
  "same_shape c c' \<longleftrightarrow> cv_width c' = cv_width c \<and> cv_height c' = cv_height c \<and> cv_dpi c' = cv_dpi c \<and>
     cv_stride c' = cv_stride c \<and> length (cv_data c') = length (cv_data c)"

named_theorems shape \<open>drawing operations keep the shape of the canvas\<close>

lemma same_shape_refl [shape]: "same_shape c c"
  by (simp add: same_shape_def)

lemma same_shape_trans: "same_shape a b \<Longrightarrow> same_shape b c \<Longrightarrow> same_shape a c"
  by (simp add: same_shape_def)

lemma shape_foldl [shape]:
  "(\<And>c x. same_shape c (f c x)) \<Longrightarrow> same_shape c (foldl f c xs)"
  by (induction xs arbitrary: c) (auto intro: same_shape_refl same_shape_trans)

lemma shape_if [shape]: "same_shape c a \<Longrightarrow> same_shape c b \<Longrightarrow> same_shape c (if P then a else b)"
  by simp

lemma length_set_packed_bit [simp]: "length (set_packed_bit data stride x y) = length data"
  by (simp add: set_packed_bit_def Let_def)

lemma shape_canvas_set [shape]: "same_shape c (canvas_set x y c)"
  by (simp add: same_shape_def canvas_set_def)

lemma shape_fill_rect [shape]: "same_shape c (fill_rect x y w h c)"
  unfolding fill_rect_def Let_def by (intro shape)

lemma shape_blit [shape]: "same_shape c (blit_receipt_image im x y w h c)"
  unfolding blit_receipt_image_def Let_def by (intro shape)

lemma shape_glyph_row [shape]: "same_shape c (draw_glyph_row t x row bits c)"
  unfolding draw_glyph_row_def Let_def
  by (intro shape) (auto intro: same_shape_trans shape_fill_rect)

lemma shape_draw_glyph [shape]: "same_shape c (draw_glyph D t x ch c)"
  unfolding draw_glyph_def by (auto split: option.split prod.split intro!: shape)

text \<open>Operations that carry the vertical position along.\<close>

lemma shape_cursor:
  "(\<And>cy x. same_shape (fst cy) (fst (f cy x))) \<Longrightarrow> same_shape (fst cy) (fst (foldl f cy xs))"
proof (induction xs arbitrary: cy)
  case (Cons x xs)
  show ?case using same_shape_trans [OF Cons.prems [of cy x] Cons.IH [of "f cy x"]] Cons.prems by simp
qed (simp add: same_shape_refl)

lemma shape_draw_text [shape]: "same_shape c (draw_text D t v c)"
proof -
  have "same_shape (fst (c, x)) (fst (foldl (\<lambda>(c, x) character.
         (draw_glyph D t x character c, sat_add32 x (8 * tp_scale t))) (c, x) v))" for x
    by (rule shape_cursor) (auto split: prod.split intro: shape)
  then show ?thesis by (simp add: draw_text_def)
qed

lemma shape_draw_lines [shape]: "same_shape (fst cy) (fst (draw_lines D a b l rw s ls cy))"
  unfolding draw_lines_def by (rule shape_cursor) (auto split: prod.split intro: shape)

lemma shape_draw_row [shape]: "same_shape (fst cy) (fst (draw_row D l rw s first right cy))"
  unfolding draw_row_def Let_def
  by (rule shape_cursor) (auto split: prod.split option.split intro: shape same_shape_trans)

lemma shape_render_element:
  assumes "render_element D l rw s e cy = Ok cy'"
  shows "same_shape (fst cy) (fst cy')"
proof (cases e)
  case (TextElement v a b)
  with assms show ?thesis by (auto intro: shape)
next
  case (RowElement first right)
  with assms show ?thesis by (auto intro: shape)
next
  case (FeedElement n)
  with assms show ?thesis by (cases cy) (auto intro: shape)
next
  case CutElement
  with assms show ?thesis by (auto intro: shape)
next
  case DividerElement
  with assms show ?thesis by (cases cy) (auto simp: draw_divider_def Let_def intro: shape)
next
  case (ImageElement im)
  with assms show ?thesis
    by (cases cy) (auto simp: draw_image_def Let_def split: prod.splits intro: shape)
next
  case (QrElement v)
  have "same_shape c (foldl (\<lambda>c y. foldl (\<lambda>c x. if P x y then fill_rect (X x) (Y y) m m c else c) c xs) c ys)"
    for c P X Y m and xs ys :: "nat list"
    by (intro shape)
  with QrElement assms show ?thesis by (cases cy) (auto simp: draw_qr_def Let_def and_then_Ok)
next
  case (BarcodeElement format v h hri)
  have bars: "same_shape c (foldl (\<lambda>c (i, bar). if bar = 1 then fill_rect (X i) y m b c else c) c xs)"
    for c X y m b and xs :: "(nat \<times> byte) list"
    by (intro shape_foldl) (auto intro: shape)
  from BarcodeElement assms show ?thesis
    by (cases cy) (auto simp: draw_barcode_def Let_def and_then_Ok
        intro: bars same_shape_trans [OF bars shape_draw_text] split: if_splits)
qed

lemma render_each_result:
  "render_each D l rw s es cy = Ok cy' \<Longrightarrow>
   same_shape (fst cy) (fst cy') \<and> (es \<noteq> [] \<longrightarrow> snd cy' \<le> cv_height (fst cy))"
proof (induction es arbitrary: cy)
  case (Cons e es)
  obtain c y where step: "render_element D l rw s e cy = Ok (c, y)" "y \<le> cv_height c"
    "render_each D l rw s es (c, y) = Ok cy'"
    using Cons.prems by (auto simp: and_then_Ok not_less)
  have first: "same_shape (fst cy) c" using shape_render_element [OF step(1)] by simp
  from Cons.IH [OF step(3)]
  have rest: "same_shape c (fst cy')" "es \<noteq> [] \<longrightarrow> snd cy' \<le> cv_height c" by auto
  show ?case
  proof (intro conjI impI)
    show "same_shape (fst cy) (fst cy')" by (rule same_shape_trans [OF first rest(1)])
    show "snd cy' \<le> cv_height (fst cy)"
      using first rest step(2,3) by (cases "es = []") (auto simp: same_shape_def)
  qed
qed (simp add: same_shape_refl)

section \<open>Finished pages are valid\<close>

definition canvas_ok :: "MonoCanvas \<Rightarrow> bool" where
  "canvas_ok c \<longleftrightarrow> cv_stride c = div_ceil8 (cv_width c) \<and>
     length (cv_data c) = unat (div_ceil8 (cv_width c)) * unat (cv_height c) \<and>
     unat (div_ceil8 (cv_width c)) * unat (cv_height c) \<le> USIZE_MAX"

lemma canvas_new_ok:
  "MonoCanvas_new w h dpi = Ok c \<Longrightarrow> canvas_ok c \<and> cv_width c = w \<and> cv_height c = h \<and> cv_dpi c = dpi \<and>
     cv_data c = replicate (unat (div_ceil8 w) * unat h) 0"
  by (auto simp: MonoCanvas_new_def Let_def and_then_Ok checked_mul_usize_def canvas_ok_def split: if_splits)

lemma canvas_ok_shape: "canvas_ok c \<Longrightarrow> same_shape c c' \<Longrightarrow> canvas_ok c'"
  by (simp add: canvas_ok_def same_shape_def)

lemma into_page_valid:
  assumes "canvas_ok c" "cv_width c \<noteq> 0" "cv_height c \<noteq> 0" "dpi \<noteq> 0"
  shows "RasterPage_validate (into_page c dpi) = Ok ()"
  using assms
  by (simp add: RasterPage_validate_def into_page_def bytes_per_row_def Let_def checked_mul_usize_def
      canvas_ok_def reject_if_def)

lemma mm_to_px_value:
  fixes mm dpi :: "16 word"
  assumes "mm_to_px mm dpi = Ok px"
  shows "unat px = (unat mm * unat dpi * 10 + 127) div 254"
proof -
  have u: "unat (ucast mm :: 32 word) = unat mm" "unat (ucast dpi :: 32 word) = unat dpi"
    using unsigned_less [of mm, where ?'a = nat] unsigned_less [of dpi, where ?'a = nat]
    by (simp_all add: unsigned_ucast_eq take_bit_nat_eq_self)
  have m: "unat (ucast mm * ucast dpi :: 32 word) = unat mm * unat dpi"
    if "unat mm * unat dpi < 2 ^ 32"
    using that u by (subst unat_mult_lem [THEN iffD1]) simp_all
  have c: "unat (ucast mm :: 32 word) * unat (ucast dpi :: 32 word) < 2 ^ 32"
    "unat (ucast mm * ucast dpi :: 32 word) * unat (10 :: 32 word) < 2 ^ 32"
    "unat (ucast mm * ucast dpi * 10 :: 32 word) + unat (127 :: 32 word) < 2 ^ 32"
    using assms by (auto simp: mm_to_px_def checked_mul32_def checked_add32_def bind_eq_Some_conv
        simp del: unat_numeral split: if_splits)
  have a1: "unat mm * unat dpi < 2 ^ 32" using c(1) by (simp only: u)
  have a2: "unat mm * unat dpi * 10 < 2 ^ 32" using c(2) by (simp add: m [OF a1])
  have ten: "unat (ucast mm * ucast dpi * 10 :: 32 word) = unat mm * unat dpi * 10"
    using a2 m [OF a1] by (subst unat_mult_lem [THEN iffD1]) simp_all
  have a3: "unat mm * unat dpi * 10 + 127 < 2 ^ 32" using c(3) by (simp add: ten)
  from ten have "unat (ucast mm * ucast dpi * 10 + 127 :: 32 word) = unat mm * unat dpi * 10 + 127"
    using a3 by (subst unat_add_lem [THEN iffD1]) simp_all
  moreover have "px = (ucast mm * ucast dpi * 10 + 127) div 254"
    using assms by (auto simp: mm_to_px_def checked_mul32_def checked_add32_def bind_eq_Some_conv split: if_splits)
  ultimately show ?thesis by (simp add: unat_div)
qed

lemma page_pixels:
  "validate_canvas_area w h = Ok () \<Longrightarrow> unat w * unat h \<le> MAX_PAGE_PIXELS"
  by (simp add: validate_canvas_area_def not_less)

lemma dimension_nonzero:
  assumes "mm_to_px mm dpi = Ok px" "100 \<le> mm" "72 \<le> dpi"
  shows "px \<noteq> 0"
proof -
  have "100 \<le> unat mm" "72 \<le> unat dpi" using assms(2,3) by (simp_all add: word_le_nat_alt)
  then have "100 * 72 \<le> unat mm * unat dpi" by (rule mult_le_mono)
  then have "1 \<le> unat px" unfolding mm_to_px_value [OF assms(1)] by simp
  then show ?thesis by auto
qed

lemma render_layout_page_valid:
  assumes "render_layout_page D layout options = Ok pages"
  shows "\<exists>page. pages = [page] \<and> RasterPage_validate page = Ok () \<and> rp_format page = Mono1 \<and>
    mm_to_px (opt_width_mm options) (opt_dpi options) = Ok (rp_width page) \<and>
    mm_to_px (opt_height_mm options) (opt_dpi options) = Ok (rp_height page) \<and>
    unat (rp_width page) * unat (rp_height page) \<le> MAX_PAGE_PIXELS"
proof -
  let ?dpi = "opt_dpi options"
  obtain width height left rw top c0 c y where steps:
    "PageRenderOptions_validate options = Ok ()"
    "mm_to_px (opt_width_mm options) ?dpi = Ok width"
    "mm_to_px (opt_height_mm options) ?dpi = Ok height" "validate_canvas_area width height = Ok ()"
    "MonoCanvas_new width height ?dpi = Ok c0"
    "render_each D left rw (glyph_scale (cv_dpi c0)) (pl_elements layout) (c0, top) = Ok (c, y)"
    "pages = [into_page c ?dpi]"
    using assms by (auto simp: render_layout_page_def render_elements_def and_then_Ok Let_def)
  have options: "100 \<le> opt_width_mm options" "100 \<le> opt_height_mm options" "72 \<le> ?dpi"
    using steps(1) by (simp_all add: PageRenderOptions_validate_def)
  have new: "canvas_ok c0" "cv_width c0 = width" "cv_height c0 = height"
    using canvas_new_ok [OF steps(5)] by simp_all
  have drawn: "same_shape c0 c" "pl_elements layout \<noteq> [] \<longrightarrow> y \<le> cv_height c0"
    using render_each_result [OF steps(6)] by simp_all
  then have dims: "cv_width c = width" "cv_height c = height" using new by (simp_all add: same_shape_def)
  have "?dpi \<noteq> 0" using options(3) by auto
  then have "RasterPage_validate (into_page c ?dpi) = Ok ()"
    using canvas_ok_shape [OF new(1) drawn(1)] dims dimension_nonzero [OF steps(2) options(1,3)]
      dimension_nonzero [OF steps(3) options(2,3)]
    by (intro into_page_valid) simp_all
  with steps dims drawn(2) new page_pixels [OF steps(4)] show ?thesis
    by (intro exI [of _ "into_page c ?dpi"]) (simp add: into_page_def)
qed

lemma render_layout_receipt_valid:
  assumes "render_layout_receipt D layout dpi = Ok pages"
  shows "\<exists>page. pages = [page] \<and> RasterPage_validate page = Ok ()"
proof -
  let ?w = "receipt_pixel_width (pl_width layout) dpi"
  obtain est c0 c y page where steps: "72 \<le> dpi"
    "estimate_layout_height D layout dpi = Ok est" "MonoCanvas_new ?w est dpi = Ok c0"
    "render_each D 0 ?w (glyph_scale (cv_dpi c0)) (pl_elements layout) (c0, 0) = Ok (c, y)"
    "crop_page_height (into_page c dpi) (min (max y 1) (rp_height (into_page c dpi))) = Ok page"
    "pages = [page]"
    using assms by (auto simp: render_layout_receipt_def render_elements_def and_then_Ok Let_def)
  have new: "canvas_ok c0" "cv_width c0 = ?w" "cv_height c0 = est"
    using canvas_new_ok [OF steps(3)] by simp_all
  have shape: "same_shape c0 c" using render_each_result [OF steps(4)] by simp
  have "est \<noteq> 0"
    using steps(2) by (auto simp: estimate_layout_height_def and_then_Ok Let_def max_def split: if_splits)
  moreover have "?w \<noteq> 0"
  proof (cases "mm_to_px (millimetres (pl_width layout)) dpi")
    case (Inl e)
    then show ?thesis by (simp add: receipt_pixel_width_def)
  next
    case (Inr px)
    have "58 \<le> unat (millimetres (pl_width layout))" by (cases "pl_width layout") simp_all
    moreover have "72 \<le> unat dpi" using steps(1) by (simp add: word_le_nat_alt)
    ultimately have "58 * 72 \<le> unat (millimetres (pl_width layout)) * unat dpi" by (rule mult_le_mono)
    then have "1 \<le> unat px" unfolding mm_to_px_value [OF Inr] by simp
    then show ?thesis using Inr by (auto simp: receipt_pixel_width_def)
  qed
  moreover have "dpi \<noteq> 0" using steps(1) by auto
  ultimately have "RasterPage_validate (into_page c dpi) = Ok ()"
    using canvas_ok_shape [OF new(1) shape] new shape
    by (intro into_page_valid) (simp_all add: same_shape_def)
  then have "RasterPage_validate page = Ok ()"
    using steps(5) by (auto simp: crop_page_height_def and_then_Ok Let_def split: if_splits)
  with steps(6) show ?thesis by simp
qed

section \<open>A filled rectangle\<close>

definition canvas_pixel :: "MonoCanvas \<Rightarrow> nat \<Rightarrow> nat \<Rightarrow> bool" where
  "canvas_pixel c x y \<longleftrightarrow> bit_at (cv_data c) (unat (cv_stride c)) x y"

lemma foldl_canvas:
  "foldl (\<lambda>c (x, y). canvas_set (of_nat x) (of_nat y) c) c ps =
   c\<lparr>cv_data := foldl (\<lambda>d (x, y). set_packed_bit d (cv_stride c) (of_nat x) (of_nat y)) (cv_data c) ps\<rparr>"
proof (induction ps arbitrary: c)
  case (Cons p ps)
  then show ?case by (cases p) (simp add: canvas_set_def)
qed simp

lemma unat_min32: "unat (min a b :: 32 word) = min (unat a) (unat b)"
  by (simp add: min_def word_le_nat_alt)

lemma unat_min_sat_add: "unat (min (sat_add32 a b) c) = min (unat a + unat b) (unat c)"
proof (cases "unat a + unat b < 2 ^ 32")
  case True
  then have "unat (a + b) = unat a + unat b" by (subst unat_add_lem [THEN iffD1]) simp_all
  with True show ?thesis by (simp add: unat_min32 sat_add32_def)
next
  case False
  have "unat c < 2 ^ 32" using unsigned_less [of c, where ?'a = nat] by simp
  moreover have "unat (- 1 :: 32 word) = 2 ^ 32 - 1"
    by (simp add: unsigned_minus_1_eq_mask mask_eq_exp_minus_1)
  ultimately show ?thesis using False by (simp add: unat_min32 sat_add32_def)
qed

lemma fill_rect_pixels:
  assumes c: "canvas_ok c" and small: "unat (cv_stride c) * unat (cv_height c) < 2 ^ 32"
    and X: "X < unat (cv_width c)" and Y: "Y < unat (cv_height c)"
  shows "canvas_pixel (fill_rect x y w h c) X Y \<longleftrightarrow> canvas_pixel c X Y \<or>
    (unat x \<le> X \<and> X < unat x + unat w \<and> unat y \<le> Y \<and> Y < unat y + unat h)"
proof -
  define S where "S = unat (cv_stride c)"
  define H where "H = unat (cv_height c)"
  define W where "W = unat (cv_width c)"
  let ?xs = "[min (unat x) W..<min (unat x + unat w) W]"
  let ?ys = "[min (unat y) H..<min (unat y + unat h) H]"
  let ?ps = "concat (map (\<lambda>y. map (\<lambda>x. (x, y)) ?xs) ?ys)"
  have SW: "S = unat (div_ceil8 (cv_width c))" using c by (simp add: canvas_ok_def S_def)
  have len: "length (cv_data c) = S * H" using c by (simp add: canvas_ok_def H_def SW)
  have pos: "px div 8 < S \<and> py * S + px div 8 < S * H" if "px < W" "py < H" for px py
    using stride_covers [of px "cv_width c"] that inside_buffer [of px S py H] by (simp add: SW W_def)
  have set: "set ?ps = {min (unat x) W..<min (unat x + unat w) W} \<times> {min (unat y) H..<min (unat y + unat h) H}"
    by (simp only: set_positions set_upt)
  have word: "set_packed_bit d (cv_stride c) (of_nat px) (of_nat py) = mark S d px py"
    if "(px, py) \<in> set ?ps" for d px py
  proof -
    have b: "px < W" "py < H" using that unfolding set by auto
    have "W < 2 ^ 32" "H < 2 ^ 32"
      using unsigned_less [of "cv_width c", where ?'a = nat] unsigned_less [of "cv_height c", where ?'a = nat]
      by (simp_all add: W_def H_def)
    then have "unat (of_nat px :: 32 word) = px" "unat (of_nat py :: 32 word) = py"
      using b by (simp_all add: unat_of_nat take_bit_nat_eq_self)
    moreover have "py * S + px div 8 < 2 ^ 32" using pos [OF b] small by (simp add: S_def H_def)
    ultimately show ?thesis by (simp add: set_packed_bit_mark S_def)
  qed
  have "fill_rect x y w h c = foldl (\<lambda>c (px, py). canvas_set (of_nat px) (of_nat py) c) c ?ps"
    by (simp only: fill_rect_def Let_def unat_min32 unat_min_sat_add [unfolded unat_min32] foldl_nested W_def H_def)
  then have "cv_data (fill_rect x y w h c) =
      foldl (\<lambda>d (px, py). set_packed_bit d (cv_stride c) (of_nat px) (of_nat py)) (cv_data c) ?ps"
    by (simp add: foldl_canvas)
  also have "\<dots> = foldl (\<lambda>d (px, py). if True then mark S d px py else d) (cv_data c) ?ps"
  proof (rule foldl_cong_set)
    fix d p assume p: "p \<in> set ?ps"
    obtain px py where "p = (px, py)" by (cases p)
    with word [of px py d] p show "(\<lambda>d (px, py). set_packed_bit d (cv_stride c) (of_nat px) (of_nat py)) d p =
        (\<lambda>d (px, py). if True then mark S d px py else d) d p"
      by (simp only: prod.case if_True)
  qed
  finally have pixels: "cv_data (fill_rect x y w h c) = \<dots>" .
  have "cv_stride (fill_rect x y w h c) = cv_stride c" using shape_fill_rect [of c x y w h] by (simp add: same_shape_def)
  moreover have "\<forall>(px, py) \<in> set ?ps. px div 8 < S \<and> py * S + px div 8 < length (cv_data c)"
    unfolding set len using pos by auto
  moreover have "X div 8 < S" using pos X Y by (simp add: W_def H_def)
  ultimately have "canvas_pixel (fill_rect x y w h c) X Y \<longleftrightarrow> canvas_pixel c X Y \<or> (X, Y) \<in> set ?ps"
    using bit_at_marks [of ?ps S "cv_data c" X "\<lambda>_ _. True" Y]
    by (simp add: canvas_pixel_def pixels S_def)
  then show ?thesis unfolding set using X Y by (auto simp: W_def H_def)
qed

end
