(* ===== verification/Pdf_Render.thy ===== *)
theory Pdf_Render
  imports Receipt_Layout
begin

text \<open>
  PDF documents (\<open>crates/oppa-renderer/src/pdf.rs\<close>): the checks before a PDF is accepted, the
  resolution of a page selection, and the budget of rasterization. The PDF engine (crate \<open>hayro\<close>) is
  a parameter: what loading the bytes gives, and what rendering one page gives. The floating-point
  geometry of a page is inside the second parameter.
\<close>

section \<open>Limits and documents\<close>

definition MAX_PDF_PAGES :: nat where "MAX_PDF_PAGES = 2000"
definition MAX_PDF_RASTER_OUTPUT_PAGES :: nat where "MAX_PDF_RASTER_OUTPUT_PAGES = 200"
definition MAX_PDF_RASTER_BYTES :: nat where "MAX_PDF_RASTER_BYTES = 64 * 1024 * 1024"
definition MAX_PDF_PIXELS_PER_PAGE :: nat where "MAX_PDF_PIXELS_PER_PAGE = 42000000"
definition MIN_RASTER_DPI :: "16 word" where "MIN_RASTER_DPI = 72"
definition MAX_RASTER_DPI :: "16 word" where "MAX_RASTER_DPI = 600"
definition MONOCHROME_THRESHOLD :: nat where "MONOCHROME_THRESHOLD = 140"
definition PDF_HEADER :: "byte list" where "PDF_HEADER = [0x25, 0x50, 0x44, 0x46, 0x2D]"
definition HEADER_SEARCH_BYTES :: nat where "HEADER_SEARCH_BYTES = 1024"

record PdfPrintDocument =
  pp_bytes :: "byte list"
  pp_settings :: PrintSettings
  pp_page_count :: nat
  pp_selected_pages :: "nat list"

text \<open>Loading: the engine may panic, refuse an encrypted file, refuse a malformed one, or give pages.\<close>

datatype 'page load_result = LoadPanicked | LoadDecryption | LoadInvalid | Loaded "'page list"

type_synonym 'page load_pdf = "byte list \<Rightarrow> 'page load_result"

definition load_pdf :: "'page load_pdf \<Rightarrow> byte list \<Rightarrow> RendererError + 'page list" where
  "load_pdf engine bytes = (case engine bytes of
     LoadPanicked \<Rightarrow> Err (PdfRender (lit ''the PDF parser stopped unexpectedly''))
   | LoadDecryption \<Rightarrow> Err EncryptedPdf
   | LoadInvalid \<Rightarrow> Err (InvalidPdf (lit ''the file could not be parsed''))
   | Loaded pages \<Rightarrow> Ok pages)"

section \<open>Page selection\<close>

text \<open>
  Writing outside of the vector panics in the source, as does the predecessor of page zero: \<open>None\<close>.
  The theorems below show that neither happens.
\<close>

definition mark_page :: "bool list \<Rightarrow> nat \<Rightarrow> bool list option" where
  "mark_page selected page =
     (if 1 \<le> page \<and> page - 1 < length selected then Some (selected[page - 1 := True]) else None)"

fun mark_pages :: "bool list \<Rightarrow> nat list \<Rightarrow> bool list option" where
  "mark_pages selected [] = Some selected"
| "mark_pages selected (page # pages) =
     Option.bind (mark_page selected page) (\<lambda>selected. mark_pages selected pages)"

definition parse_page :: "ustring \<Rightarrow> RendererError + nat" where
  "parse_page v = ok_or (InvalidPageRange (lit ''page numbers must be integers'')) (parse_unsigned 64 v)"

definition part_pages :: "nat \<Rightarrow> ustring \<Rightarrow> RendererError + nat list" where
  "part_pages page_count part =
     (let (start, stop) = (case split_once 45 part of Some p \<Rightarrow> p | None \<Rightarrow> (part, part)) in
      and_then (parse_page start) (\<lambda>first.
      and_then (parse_page stop) (\<lambda>last'.
      and_then (reject_if (last' > page_count)
        (InvalidPageRange (lit ''page '' @ dec last' @ lit '' does not exist; the document has '' @
           dec page_count @ lit '' pages''))) (\<lambda>_.
      Ok [first..<last' + 1]))))"

fun select_parts :: "nat \<Rightarrow> bool list \<Rightarrow> ustring list \<Rightarrow> (RendererError + bool list) option" where
  "select_parts page_count selected [] = Some (Ok selected)"
| "select_parts page_count selected (part # parts) = (case part_pages page_count part of
     Err e \<Rightarrow> Some (Err e)
   | Ok pages \<Rightarrow> Option.bind (mark_pages selected pages)
       (\<lambda>selected. select_parts page_count selected parts))"

definition chosen_indices :: "bool list \<Rightarrow> nat list" where
  "chosen_indices selected = map fst (filter snd (List.enumerate 0 selected))"

definition resolve_page_selection :: "ustring option \<Rightarrow> nat \<Rightarrow> (RendererError + nat list) option" where
  "resolve_page_selection ranges page_count = (case ranges of
     None \<Rightarrow> Some (Ok [0..<page_count])
   | Some ranges \<Rightarrow>
       (case validate_page_ranges ranges of
          Err e \<Rightarrow> Some (Err (InvalidPageRange (validation_text e)))
        | Ok _ \<Rightarrow> map_option (\<lambda>r. and_then r (\<lambda>selected. Ok (chosen_indices selected)))
            (select_parts page_count (replicate page_count False) (split_on (\<lambda>c. c = 44) ranges))))"

section \<open>What a selection denotes\<close>

text \<open>The numbers a part of the expression names, read independently of the code above.\<close>

definition part_bounds :: "ustring \<Rightarrow> nat \<times> nat" where
  "part_bounds part = (case split_once 45 part of
     Some (a, b) \<Rightarrow> (digits_value a, digits_value b)
   | None \<Rightarrow> (digits_value part, digits_value part))"

definition names_page :: "ustring \<Rightarrow> nat \<Rightarrow> bool" where
  "names_page ranges page \<longleftrightarrow> (\<exists>part \<in> set (split_on (\<lambda>c. c = 44) ranges).
     fst (part_bounds part) \<le> page \<and> page \<le> snd (part_bounds part))"

lemma parse_page_number_value:
  assumes "parse_page_number s = Ok n"
  shows "n = digits_value s \<and> 1 \<le> n \<and> parse_page s = Ok n"
proof -
  have "list_all is_ascii_digit (utf8_bytes s)" "s \<noteq> []" "parse_unsigned 32 s = Some n" "n \<noteq> 0"
    using assms by (auto simp: parse_page_number_def Let_def and_then_Ok)
  moreover from this have "list_all is_ascii_digit s"
    using list_all_bytes [of is_ascii_digit s] by (auto simp: is_ascii_digit_def)
  moreover from this have "\<forall>cs. s \<noteq> 43 # cs" by (auto simp: is_ascii_digit_def)
  ultimately show ?thesis
    by (cases s) (auto simp: parse_unsigned_def parse_page_def Let_def split: if_splits)
qed

lemma validated_part:
  assumes "validate_page_range part = Ok u"
  shows "1 \<le> fst (part_bounds part)" "fst (part_bounds part) \<le> snd (part_bounds part)"
    "part_pages n part =
       (if snd (part_bounds part) > n
        then Err (InvalidPageRange (lit ''page '' @ dec (snd (part_bounds part)) @
               lit '' does not exist; the document has '' @ dec n @ lit '' pages''))
        else Ok [fst (part_bounds part)..<snd (part_bounds part) + 1])"
proof -
  obtain a b where ab: "(case split_once 45 part of Some p \<Rightarrow> p | None \<Rightarrow> (part, part)) = (a, b)"
    by fastforce
  then have ab': "(case split_once 45 part of Some (s, e) \<Rightarrow> (s, e) | None \<Rightarrow> (part, part)) = (a, b)"
    by (auto split: option.splits)
  then obtain m k where mk: "parse_page_number a = Ok m" "parse_page_number b = Ok k" "m \<le> k"
    using assms by (auto simp: validate_page_range_def Let_def and_then_Ok)
  have bounds: "part_bounds part = (m, k)"
    using ab parse_page_number_value [OF mk(1)] parse_page_number_value [OF mk(2)]
    by (auto simp: part_bounds_def split: option.splits)
  show "1 \<le> fst (part_bounds part)" "fst (part_bounds part) \<le> snd (part_bounds part)"
    using bounds mk parse_page_number_value [OF mk(1)] by auto
  show "part_pages n part =
       (if snd (part_bounds part) > n
        then Err (InvalidPageRange (lit ''page '' @ dec (snd (part_bounds part)) @
               lit '' does not exist; the document has '' @ dec n @ lit '' pages''))
        else Ok [fst (part_bounds part)..<snd (part_bounds part) + 1])"
    using parse_page_number_value [OF mk(1)] parse_page_number_value [OF mk(2)] bounds
    by (simp add: part_pages_def ab Let_def reject_if_def)
qed

lemma mark_pages_in_range:
  "\<forall>page \<in> set pages. 1 \<le> page \<and> page \<le> length selected \<Longrightarrow>
   \<exists>marked. mark_pages selected pages = Some marked \<and> length marked = length selected \<and>
     (\<forall>i < length selected. marked ! i \<longleftrightarrow> selected ! i \<or> Suc i \<in> set pages)"
proof (induction pages arbitrary: selected)
  case (Cons page pages)
  let ?s = "selected[page - 1 := True]"
  have page: "1 \<le> page" "page - 1 < length selected" using Cons.prems by auto
  obtain marked where marked: "mark_pages ?s pages = Some marked" "length marked = length selected"
    "\<forall>i < length selected. marked ! i \<longleftrightarrow> ?s ! i \<or> Suc i \<in> set pages"
    using Cons.IH [of ?s] Cons.prems by auto
  have "marked ! i \<longleftrightarrow> selected ! i \<or> Suc i \<in> set (page # pages)" if "i < length selected" for i
    using marked(3) that page by (cases "i = page - 1") auto
  with marked page show ?case by (auto simp: mark_page_def)
qed simp

lemma select_parts_result:
  assumes "\<forall>part \<in> set parts. validate_page_range part = Ok ()" "length selected = n"
  shows "\<exists>r. select_parts n selected parts = Some r \<and>
      (case r of
         Err e \<Rightarrow> \<exists>part \<in> set parts. n < snd (part_bounds part)
       | Ok marked \<Rightarrow> length marked = n \<and> (\<forall>part \<in> set parts. snd (part_bounds part) \<le> n) \<and>
           (\<forall>i < n. marked ! i \<longleftrightarrow> selected ! i \<or> (\<exists>part \<in> set parts.
              fst (part_bounds part) \<le> Suc i \<and> Suc i \<le> snd (part_bounds part))))"
  using assms
proof (induction parts arbitrary: selected)
  case (Cons part parts)
  let ?a = "fst (part_bounds part)" and ?b = "snd (part_bounds part)"
  have v: "validate_page_range part = Ok ()" using Cons.prems(1) by simp
  show ?case
  proof (cases "?b > n")
    case True
    then show ?thesis using validated_part(3) [OF v, of n] by auto
  next
    case False
    have "\<forall>page \<in> set [?a..<?b + 1]. 1 \<le> page \<and> page \<le> length selected"
      using validated_part(1) [OF v] False Cons.prems(2) by auto
    then obtain marked where marked: "mark_pages selected [?a..<?b + 1] = Some marked"
      "length marked = n" "\<forall>i < n. marked ! i \<longleftrightarrow> selected ! i \<or> Suc i \<in> set [?a..<?b + 1]"
      using mark_pages_in_range Cons.prems(2) by metis
    have "\<forall>part \<in> set parts. validate_page_range part = Ok ()" using Cons.prems(1) by simp
    from Cons.IH [OF this marked(2)] obtain r where r: "select_parts n marked parts = Some r"
      "case r of
         Err e \<Rightarrow> \<exists>part \<in> set parts. n < snd (part_bounds part)
       | Ok marked' \<Rightarrow> length marked' = n \<and> (\<forall>part \<in> set parts. snd (part_bounds part) \<le> n) \<and>
           (\<forall>i < n. marked' ! i \<longleftrightarrow> marked ! i \<or> (\<exists>part \<in> set parts.
              fst (part_bounds part) \<le> Suc i \<and> Suc i \<le> snd (part_bounds part)))"
      using marked(2) by blast
    have "select_parts n selected (part # parts) = Some r"
      using r(1) marked(1) False validated_part(3) [OF v, of n] by simp
    with r(2) marked(3) False show ?thesis by (cases r) auto
  qed
qed simp

lemma chosen_indices_set: "set (chosen_indices bs) = {i. i < length bs \<and> bs ! i}"
  by (force simp: chosen_indices_def in_set_enumerate_eq image_iff)

lemma chosen_indices_sorted: "sorted (chosen_indices bs)" "distinct (chosen_indices bs)"
proof -
  have "sorted (map fst (filter snd (List.enumerate k bs))) \<and>
      distinct (map fst (filter snd (List.enumerate k bs)))" for k
  proof (induction bs arbitrary: k)
    case (Cons b bs)
    have "\<forall>x \<in> set (List.enumerate (Suc k) bs). k < fst x"
      by (auto simp: in_set_enumerate_eq)
    with Cons.IH [of "Suc k"] show ?case by auto
  qed simp
  then show "sorted (chosen_indices bs)" "distinct (chosen_indices bs)"
    by (auto simp: chosen_indices_def)
qed

lemma resolve_result:
  "\<exists>r. resolve_page_selection ranges n = Some r \<and>
     (case r of
        Err e \<Rightarrow> \<exists>s. ranges = Some s \<and> (validate_page_ranges s \<noteq> Ok () \<or> (\<exists>page > n. names_page s page))
      | Ok pages \<Rightarrow> sorted pages \<and> distinct pages \<and> (case ranges of
            None \<Rightarrow> pages = [0..<n]
          | Some s \<Rightarrow> validate_page_ranges s = Ok () \<and> set pages = {i. names_page s (Suc i)} \<and>
              (\<forall>page. names_page s page \<longrightarrow> 1 \<le> page \<and> page \<le> n)))"
proof (cases ranges)
  case None
  then show ?thesis by (simp add: resolve_page_selection_def)
next
  case (Some s)
  show ?thesis
  proof (cases "validate_page_ranges s")
    case (Inl e)
    with Some show ?thesis by (simp add: resolve_page_selection_def)
  next
    case (Inr u)
    let ?parts = "split_on (\<lambda>c. c = 44) s"
    have valid: "\<forall>part \<in> set ?parts. validate_page_range part = Ok ()"
      using Inr by (auto simp: validate_page_ranges_def and_then_Ok first_err_Ok)
    obtain r where r: "select_parts n (replicate n False) ?parts = Some r"
      "case r of
         Err e \<Rightarrow> \<exists>part \<in> set ?parts. n < snd (part_bounds part)
       | Ok marked \<Rightarrow> length marked = n \<and> (\<forall>part \<in> set ?parts. snd (part_bounds part) \<le> n) \<and>
           (\<forall>i < n. marked ! i \<longleftrightarrow> replicate n False ! i \<or> (\<exists>part \<in> set ?parts.
              fst (part_bounds part) \<le> Suc i \<and> Suc i \<le> snd (part_bounds part)))"
      using select_parts_result [OF valid, of "replicate n False" n] by auto
    have low: "1 \<le> page" if "names_page s page" for page
      using that valid validated_part(1) by (fastforce simp: names_page_def)
    show ?thesis
    proof (cases r)
      case (Inl e)
      then obtain part where part: "part \<in> set ?parts" "n < snd (part_bounds part)" using r(2) by auto
      then have "names_page s (snd (part_bounds part))"
        using valid validated_part(2) by (auto simp: names_page_def)
      with Inl r(1) Some Inr part show ?thesis by (auto simp: resolve_page_selection_def)
    next
      case marked: (Inr marked)
      have high: "page \<le> n" if "names_page s page" for page
        using that r(2) marked by (fastforce simp: names_page_def)
      have "set (chosen_indices marked) = {i. names_page s (Suc i)}"
      proof -
        have "i < n" if "names_page s (Suc i)" for i using high [OF that] by simp
        then show ?thesis using r(2) marked by (auto simp: chosen_indices_set names_page_def)
      qed
      with marked r(1) Some Inr low high show ?thesis
        by (simp add: resolve_page_selection_def chosen_indices_sorted)
    qed
  qed
qed

text \<open>
  The same independently of the code: the grammar of page expressions is \<open>page_range\<close> of the wire
  documents, and an expression lists the pages between the two numbers of one of its parts.
\<close>

definition page_expression :: "ustring \<Rightarrow> bool" where
  "page_expression s \<longleftrightarrow> s \<noteq> [] \<and> byte_len s \<le> 256 \<and>
     (\<forall>part \<in> set (split_on (\<lambda>c. c = 44) s). \<exists>a b. page_range part a b)"

definition listed_page :: "ustring \<Rightarrow> nat \<Rightarrow> bool" where
  "listed_page s page \<longleftrightarrow> (\<exists>part \<in> set (split_on (\<lambda>c. c = 44) s). \<exists>a b. page_range part a b \<and> a \<le> page \<and> page \<le> b)"

lemma page_range_bounds: "page_range part a b \<Longrightarrow> part_bounds part = (a, b)"
proof -
  assume range: "page_range part a b"
  show ?thesis
  proof (cases "split_once 45 part")
    case None
    then have "45 \<notin> set part" by (simp add: split_once_None)
    then show ?thesis using range None by (auto simp: page_range_def page_number_def part_bounds_def)
  next
    case (Some x)
    obtain s e where se: "part = s @ 45 # e" "page_number s a" "page_number e b"
      using range Some page_number_no_dash [of part a] split_once_None [of 45 part] by (auto simp: page_range_def)
    have "split_once 45 part = Some (s, e)"
      using se(1) page_number_no_dash [OF se(2)] split_once_Some [of 45 part s e] by simp
    then show ?thesis using se by (simp add: part_bounds_def page_number_def)
  qed
qed

lemma listed_names:
  assumes "page_expression s"
  shows "listed_page s page \<longleftrightarrow> names_page s page"
proof -
  have "(\<exists>a b. page_range part a b \<and> a \<le> page \<and> page \<le> b) \<longleftrightarrow>
      fst (part_bounds part) \<le> page \<and> page \<le> snd (part_bounds part)"
    if part: "part \<in> set (split_on (\<lambda>c. c = 44) s)" for part
  proof -
    obtain a b where "page_range part a b" using assms part by (auto simp: page_expression_def)
    then show ?thesis using page_range_bounds by fastforce
  qed
  then show ?thesis by (simp add: listed_page_def names_page_def)
qed

lemma resolve_exact:
  "\<exists>r. resolve_page_selection ranges n = Some r \<and> (\<forall>pages. r = Ok pages \<longleftrightarrow> (case ranges of
       None \<Rightarrow> pages = [0..<n]
     | Some s \<Rightarrow> page_expression s \<and> (\<forall>page. listed_page s page \<longrightarrow> page \<le> n) \<and>
         pages = filter (\<lambda>i. listed_page s (Suc i)) [0..<n]))"
proof (cases ranges)
  case None
  then show ?thesis by (auto simp: resolve_page_selection_def)
next
  case (Some s)
  obtain r where r: "resolve_page_selection (Some s) n = Some r"
    "case r of
        Err e \<Rightarrow> \<exists>s'. Some s = Some s' \<and> (validate_page_ranges s' \<noteq> Ok () \<or> (\<exists>page > n. names_page s' page))
      | Ok pages \<Rightarrow> sorted pages \<and> distinct pages \<and> validate_page_ranges s = Ok () \<and>
          set pages = {i. names_page s (Suc i)} \<and> (\<forall>page. names_page s page \<longrightarrow> 1 \<le> page \<and> page \<le> n)"
    using resolve_result [of "Some s" n, unfolded option.case] by blast
  have expression: "validate_page_ranges s = Ok () \<longleftrightarrow> page_expression s"
    by (simp add: validate_page_ranges_Ok page_expression_def)
  show ?thesis
  proof (cases r)
    case (Inl e)
    then have "\<not> (page_expression s \<and> (\<forall>page. listed_page s page \<longrightarrow> page \<le> n))"
      using r(2) expression listed_names by (auto simp: not_le)
    with r(1) Inl Some show ?thesis by auto
  next
    case (Inr found)
    with r(2) expression have ok: "page_expression s" "sorted found" "distinct found" by simp_all
    then have named: "set found = {i. listed_page s (Suc i)}" "\<forall>page. listed_page s page \<longrightarrow> page \<le> n"
      using r(2) Inr listed_names by auto
    have "found = filter (\<lambda>i. listed_page s (Suc i)) [0..<n]"
    proof (rule sorted_distinct_set_unique [OF ok(2,3)])
      show "set found = set (filter (\<lambda>i. listed_page s (Suc i)) [0..<n])"
        using named by (auto simp: Suc_le_eq)
    qed (simp_all add: sorted_wrt_filter)
    with r(1) Inr Some ok(1) named(2) show ?thesis by auto
  qed
qed

section \<open>Validation\<close>

definition has_pdf_header :: "byte list \<Rightarrow> bool" where
  "has_pdf_header bytes = list_ex (\<lambda>i. take (length PDF_HEADER) (drop i bytes) = PDF_HEADER)
     [0..<min HEADER_SEARCH_BYTES (length bytes + 1 - length PDF_HEADER)]"

definition pdf_limit :: "string \<Rightarrow> nat \<Rightarrow> nat \<Rightarrow> RendererError" where
  "pdf_limit what actual maximum = PdfLimitExceeded (lit what) (of_nat actual) (of_nat maximum)"

text \<open>\<open>None\<close> stands for a panic of the page selection, as above.\<close>

definition validate_pdf ::
  "'page load_pdf \<Rightarrow> byte list \<Rightarrow> PrintSettings \<Rightarrow> (RendererError + PdfPrintDocument) option" where
  "validate_pdf engine bytes settings =
     (case and_then (reject_if (length bytes > MAX_PDF_DOCUMENT_BYTES)
             (pdf_limit ''size in bytes'' (length bytes) MAX_PDF_DOCUMENT_BYTES)) (\<lambda>_.
           and_then (reject_if (\<not> has_pdf_header bytes)
             (InvalidPdf (lit ''the file does not start with a PDF header''))) (\<lambda>_.
           and_then (load_pdf engine bytes) (\<lambda>pages.
           and_then (reject_if (pages = []) (InvalidPdf (lit ''the document contains no pages''))) (\<lambda>_.
           and_then (reject_if (length pages > MAX_PDF_PAGES)
             (pdf_limit ''page count'' (length pages) MAX_PDF_PAGES)) (\<lambda>_.
           Ok (length pages)))))) of
        Err e \<Rightarrow> Some (Err e)
      | Ok page_count \<Rightarrow>
          map_option (\<lambda>r. and_then r (\<lambda>selected.
             let output_pages = length selected * unat (effective_copies settings) in
             and_then (reject_if (output_pages > MAX_PDF_RASTER_OUTPUT_PAGES)
               (pdf_limit ''output pages after copies'' output_pages MAX_PDF_RASTER_OUTPUT_PAGES)) (\<lambda>_.
             Ok \<lparr>pp_bytes = bytes, pp_settings = settings, pp_page_count = page_count,
                 pp_selected_pages = selected\<rparr>)))
           (resolve_page_selection (set_page_ranges settings) page_count))"

section \<open>Rasterization\<close>

definition check_pixel_budget :: "32 word \<Rightarrow> 32 word \<Rightarrow> RendererError + unit" where
  "check_pixel_budget width height =
     and_then (reject_if (width = 0 \<or> height = 0) InvalidPageOptions) (\<lambda>_.
     let pixels = unat width * unat height in
     reject_if (pixels > MAX_PDF_PIXELS_PER_PAGE)
       (pdf_limit ''pixels per page'' pixels MAX_PDF_PIXELS_PER_PAGE))"

text \<open>The rows of an RGBA bitmap; a pixel is dark when its luminance is below the threshold.\<close>

type_synonym rgba = "byte \<times> byte \<times> byte \<times> byte"

definition luminance :: "rgba \<Rightarrow> nat" where
  "luminance pixel = (case pixel of (red, green, blue, _) \<Rightarrow>
     (unat red * 299 + unat green * 587 + unat blue * 114) div 1000)"

definition darken :: "nat \<Rightarrow> nat \<Rightarrow> nat \<Rightarrow> byte list \<Rightarrow> byte list" where
  "darken stride x y data = (let index = y * stride + x div 8 in
     data[index := data ! index OR drop_bit (x mod 8) 0x80])"

definition pack_monochrome :: "32 word \<Rightarrow> rgba list list \<Rightarrow> byte list" where
  "pack_monochrome width rows =
     (let stride = unat (div_ceil8 width) in
      foldl (\<lambda>data (y, row). foldl (\<lambda>data (x, pixel).
          if luminance pixel < MONOCHROME_THRESHOLD then darken stride x y data else data)
          data (List.enumerate 0 row))
        (replicate (stride * length rows) 0) (List.enumerate 0 rows))"

text \<open>
  The clock is read once before each page and once before each copy; \<open>expired k\<close> is the answer of the
  \<open>k\<close>-th reading.
\<close>

definition check_deadline :: "bool \<Rightarrow> RendererError + unit" where
  "check_deadline expired = reject_if expired RasterizationTimedOut"

definition sat_usize :: "nat \<Rightarrow> nat" where
  "sat_usize n = min n USIZE_MAX"

fun render_selected ::
  "(nat \<Rightarrow> bool) \<Rightarrow> ('page \<Rightarrow> RendererError + RasterPage) \<Rightarrow> 'page list \<Rightarrow> nat \<Rightarrow> nat \<Rightarrow> nat \<Rightarrow>
   RasterPage list \<Rightarrow> nat list \<Rightarrow> RendererError + RasterPage list" where
  "render_selected expired render_page pages copies k selection_bytes rendered [] = Ok rendered"
| "render_selected expired render_page pages copies k selection_bytes rendered (index # rest) =
     and_then (check_deadline (expired k)) (\<lambda>_.
     and_then (ok_or (InvalidPageRange (lit ''page '' @ dec (index + 1) @ lit '' is missing''))
       (list_get pages index)) (\<lambda>page.
     and_then (render_page page) (\<lambda>raster.
     let selection_bytes = sat_usize (selection_bytes + length (rp_data raster));
         output_bytes = sat_usize (selection_bytes * copies) in
     and_then (reject_if (output_bytes > MAX_PDF_RASTER_BYTES)
       (pdf_limit ''raster bytes'' output_bytes MAX_PDF_RASTER_BYTES)) (\<lambda>_.
     render_selected expired render_page pages copies (k + 1) selection_bytes (rendered @ [raster])
       rest))))"

fun repeat_copies ::
  "(nat \<Rightarrow> bool) \<Rightarrow> nat \<Rightarrow> nat \<Rightarrow> RasterPage list \<Rightarrow> RasterPage list \<Rightarrow> RendererError + RasterPage list" where
  "repeat_copies expired k 0 rendered output = Ok output"
| "repeat_copies expired k (Suc n) rendered output =
     and_then (check_deadline (expired k)) (\<lambda>_.
     repeat_copies expired (k + 1) n rendered (output @ rendered))"

definition rasterize_pdf ::
  "'page load_pdf \<Rightarrow> ('page \<Rightarrow> 16 word \<Rightarrow> PrintSettings \<Rightarrow> RendererError + RasterPage) \<Rightarrow>
   (nat \<Rightarrow> bool) \<Rightarrow> PdfPrintDocument \<Rightarrow> 16 word \<Rightarrow> RendererError + RasterDocument" where
  "rasterize_pdf engine render_page expired d dpi =
     and_then (reject_if (\<not> (MIN_RASTER_DPI \<le> dpi \<and> dpi \<le> MAX_RASTER_DPI)) InvalidPageOptions) (\<lambda>_.
     and_then (load_pdf engine (pp_bytes d)) (\<lambda>pages.
     let copies = unat (effective_copies (pp_settings d)) in
     and_then (render_selected expired (\<lambda>page. render_page page dpi (pp_settings d)) pages copies 0 0 []
       (pp_selected_pages d)) (\<lambda>rendered.
     repeat_copies expired (length (pp_selected_pages d)) copies rendered [])))"

section \<open>The raster budget\<close>

definition raster_bytes :: "RasterPage list \<Rightarrow> nat" where
  "raster_bytes pages = sum_list (map (\<lambda>p. length (rp_data p)) pages)"

lemma raster_bytes_simps [simp]:
  "raster_bytes [] = 0" "raster_bytes (ps @ qs) = raster_bytes ps + raster_bytes qs"
  "raster_bytes (p # ps) = length (rp_data p) + raster_bytes ps"
  by (simp_all add: raster_bytes_def)

lemma render_selected_budget:
  "render_selected expired render_page pages copies k n rendered selected = Ok out \<Longrightarrow>
   0 < copies \<Longrightarrow> n = raster_bytes rendered \<Longrightarrow> raster_bytes rendered * copies \<le> MAX_PDF_RASTER_BYTES \<Longrightarrow>
   \<exists>rs. out = rendered @ rs \<and> raster_bytes out * copies \<le> MAX_PDF_RASTER_BYTES \<and>
     list_all2 (\<lambda>index r. index < length pages \<and> render_page (pages ! index) = Ok r) selected rs"
proof (induction selected arbitrary: k n rendered)
  case (Cons index rest)
  obtain raster where raster: "index < length pages" "render_page (pages ! index) = Ok raster"
    "sat_usize (sat_usize (n + length (rp_data raster)) * copies) \<le> MAX_PDF_RASTER_BYTES"
    "render_selected expired render_page pages copies (k + 1)
       (sat_usize (n + length (rp_data raster))) (rendered @ [raster]) rest = Ok out"
    using Cons.prems(1) by (auto simp: and_then_Ok Let_def not_less)
  let ?b = "n + length (rp_data raster)"
  have "MAX_PDF_RASTER_BYTES < USIZE_MAX" by (simp add: MAX_PDF_RASTER_BYTES_def USIZE_MAX_def)
  then have "sat_usize ?b * copies \<le> MAX_PDF_RASTER_BYTES"
    using raster(3) by (auto simp: sat_usize_def min_def split: if_splits)
  moreover from this have "sat_usize ?b \<le> MAX_PDF_RASTER_BYTES"
    using Cons.prems(2) by (metis Suc_leI One_nat_def le_trans mult.right_neutral mult_le_mono2)
  ultimately have exact: "sat_usize ?b = ?b" "?b * copies \<le> MAX_PDF_RASTER_BYTES"
    using \<open>MAX_PDF_RASTER_BYTES < USIZE_MAX\<close> by (auto simp: sat_usize_def min_def split: if_splits)
  obtain rs where "out = (rendered @ [raster]) @ rs" "raster_bytes out * copies \<le> MAX_PDF_RASTER_BYTES"
    "list_all2 (\<lambda>index r. index < length pages \<and> render_page (pages ! index) = Ok r) rest rs"
    using Cons.IH [OF raster(4) Cons.prems(2)] exact Cons.prems(3) by auto
  with raster(1,2) show ?case by (intro exI [of _ "raster # rs"]) simp
qed simp

lemma repeat_copies_Ok:
  "repeat_copies expired k n rendered acc = Ok out \<Longrightarrow> out = acc @ concat (replicate n rendered)"
  by (induction n arbitrary: k acc) (auto simp: and_then_Ok, metis append.assoc)

lemma raster_bytes_copies: "raster_bytes (concat (replicate n ps)) = n * raster_bytes ps"
  by (induction n) simp_all

lemma rasterize_budget:
  assumes "rasterize_pdf engine render_page expired d dpi = Ok out" "0 < effective_copies (pp_settings d)"
  shows "\<exists>rendered. out = concat (replicate (unat (effective_copies (pp_settings d))) rendered) \<and>
    length rendered = length (pp_selected_pages d) \<and> raster_bytes out \<le> MAX_PDF_RASTER_BYTES"
proof -
  let ?copies = "unat (effective_copies (pp_settings d))"
  have pos: "0 < ?copies" using assms(2) by (simp add: unat_gt_0)
  obtain pages rendered where r: "render_selected expired (\<lambda>page. render_page page dpi (pp_settings d))
      pages ?copies 0 0 [] (pp_selected_pages d) = Ok rendered"
    "repeat_copies expired (length (pp_selected_pages d)) ?copies rendered [] = Ok out"
    using assms(1) by (auto simp: rasterize_pdf_def and_then_Ok Let_def)
  from render_selected_budget [OF r(1) pos]
  have "raster_bytes rendered * ?copies \<le> MAX_PDF_RASTER_BYTES"
    "length rendered = length (pp_selected_pages d)"
    by (auto dest: list_all2_lengthD)
  with repeat_copies_Ok [OF r(2)] show ?thesis
    by (intro exI [of _ rendered]) (simp add: raster_bytes_copies mult.commute)
qed

end
