(* ===== verification/Document_Renderer.thy ===== *)
theory Document_Renderer
  imports Escpos_Roundtrip Receipt_Page Pdf_Render
begin

text \<open>
  The renderer itself (\<open>crates/oppa-renderer/src/lib.rs\<close>): its limits, the three targets of a
  structured document, the PDF path, and the virtual preview. \<open>DocumentRenderer\<close> ties the layout,
  the encoder and the page of the sibling theories together.
\<close>

section \<open>Output\<close>

definition DEFAULT_MAX_OUTPUT_BYTES :: nat where "DEFAULT_MAX_OUTPUT_BYTES = 4 * 1024 * 1024"

record VirtualPrintDocument =
  vd_document :: PrintDocument
  vd_preview_lines :: "ustring list"

datatype RenderedDocument =
  EscPosOutput "byte list" ReceiptWidth
| RasterOutput RasterDocument
| NativeOutput ustring "byte list"
| VirtualOutput VirtualPrintDocument
| PdfOutput PdfPrintDocument

fun RenderedDocument_kind :: "RenderedDocument \<Rightarrow> ustring" where
  "RenderedDocument_kind (EscPosOutput _ _) = lit ''esc-pos''"
| "RenderedDocument_kind (RasterOutput _) = lit ''raster''"
| "RenderedDocument_kind (NativeOutput _ _) = lit ''native''"
| "RenderedDocument_kind (VirtualOutput _) = lit ''virtual''"
| "RenderedDocument_kind (PdfOutput _) = lit ''pdf''"

fun RenderedDocument_byte_len :: "RenderedDocument \<Rightarrow> nat" where
  "RenderedDocument_byte_len (EscPosOutput bytes _) = length bytes"
| "RenderedDocument_byte_len (RasterOutput pages) = sum_list (map (\<lambda>p. length (rp_data p)) pages)"
| "RenderedDocument_byte_len (NativeOutput _ data) = length data"
| "RenderedDocument_byte_len (VirtualOutput d) = sum_list (map byte_len (vd_preview_lines d))"
| "RenderedDocument_byte_len (PdfOutput d) = length (pp_bytes d)"

section \<open>The virtual preview\<close>

definition media_name :: "ImageMediaType \<Rightarrow> ustring" where
  "media_name m = (case m of Png \<Rightarrow> lit ''Png'' | Jpeg \<Rightarrow> lit ''Jpeg'')"

definition barcode_name :: "BarcodeFormat \<Rightarrow> ustring" where
  "barcode_name f = (case f of
     Code128 \<Rightarrow> lit ''Code128'' | Code39 \<Rightarrow> lit ''Code39'' | Ean13 \<Rightarrow> lit ''Ean13'' | Upca \<Rightarrow> lit ''Upca'')"

fun preview_section :: "shaping \<Rightarrow> nat \<Rightarrow> PrintSection \<Rightarrow> ustring list" where
  "preview_section T width (TextSection v align _) =
     map (\<lambda>line. align_preview T line width align) (wrap_text T v width)"
| "preview_section T width (RowSection left right) = layout_row T left right width"
| "preview_section T width DividerSection = [replicate width 45]"
| "preview_section T width (ImageSection media _) = [lit ''[image: '' @ media_name media @ lit '']'']"
| "preview_section T width (QrSection v) = [lit ''[QR: '' @ v @ lit '']'']"
| "preview_section T width (BarcodeSection format v) =
     [lit ''[barcode '' @ barcode_name format @ lit '': '' @ v @ lit '']'']"
| "preview_section T width (FeedSection n) = replicate (unat n) []"
| "preview_section T width CutSection = [lit ''[cut]'']"

definition render_virtual :: "shaping \<Rightarrow> PrintDocument \<Rightarrow> VirtualPrintDocument" where
  "render_virtual T d = \<lparr>vd_document = d,
     vd_preview_lines = concat (map (preview_section T (columns (doc_width d))) (doc_sections d))\<rparr>"

section \<open>The renderer\<close>

record DocumentRenderer = max_output_bytes :: nat

definition DocumentRenderer_new :: "nat \<Rightarrow> RendererError + DocumentRenderer" where
  "DocumentRenderer_new limit =
     and_then (reject_if (limit = 0) InvalidLimits) (\<lambda>_. Ok \<lparr>max_output_bytes = limit\<rparr>)"

definition render_target ::
  "'f drawing \<Rightarrow> 'i imaging \<Rightarrow> PrintDocument \<Rightarrow> RenderTarget \<Rightarrow> RendererError + RenderedDocument" where
  "render_target D I d t = (case t of
     TargetEscPos \<Rightarrow>
       and_then (from_document I d) (\<lambda>layout.
       and_then (render_layout (dr_shaping D) layout) (\<lambda>bytes.
       Ok (EscPosOutput bytes (pl_width layout))))
   | TargetPage options \<Rightarrow>
       and_then (from_document I d) (\<lambda>layout.
       and_then (render_layout_page D layout options) (\<lambda>pages.
       Ok (RasterOutput pages)))
   | TargetVirtual \<Rightarrow> Ok (VirtualOutput (render_virtual (dr_shaping D) d)))"

definition DocumentRenderer_render ::
  "'f drawing \<Rightarrow> 'i imaging \<Rightarrow> DocumentRenderer \<Rightarrow> PrintDocument \<Rightarrow> RenderTarget \<Rightarrow>
   RendererError + RenderedDocument" where
  "DocumentRenderer_render D I r d t =
     and_then (map_err (\<lambda>e. InvalidDocument (validation_text e)) (PrintDocument_validate d)) (\<lambda>_.
     and_then (render_target D I d t) (\<lambda>rendered.
     let actual = RenderedDocument_byte_len rendered in
     and_then (reject_if (actual > max_output_bytes r) (OutputTooLarge actual (max_output_bytes r))) (\<lambda>_.
     Ok rendered)))"

definition DocumentRenderer_render_pdf ::
  "'page load_pdf \<Rightarrow> byte list \<Rightarrow> PrintSettings \<Rightarrow> (RendererError + RenderedDocument) option" where
  "DocumentRenderer_render_pdf engine bytes settings =
     (case PrintSettings_validate settings of
        Err e \<Rightarrow> Some (Err (InvalidDocument (validation_text e)))
      | Ok _ \<Rightarrow> map_option (\<lambda>r. and_then r (\<lambda>d. Ok (PdfOutput d))) (validate_pdf engine bytes settings))"

section \<open>Images of validated documents fit the command\<close>

text \<open>
  The documented behaviour of the image crate: a decoded image obeys the limits the decoder was given
  and is not empty, resizing yields the requested size, the conversion to gray keeps the size.
\<close>

definition imaging_ok :: "'i imaging \<Rightarrow> bool" where
  "imaging_ok I \<longleftrightarrow>
     (\<forall>bytes media w h alloc im. image_decode I bytes media w h alloc = Ok im \<longrightarrow>
        0 < unat (image_width I im) \<and> unat (image_width I im) \<le> w \<and>
        0 < unat (image_height I im) \<and> unat (image_height I im) \<le> h) \<and>
     (\<forall>w h im. image_width I (resize_triangle I w h im) = w \<and> image_height I (resize_triangle I w h im) = h) \<and>
     (\<forall>im. gray_width (to_luma8 I im) = image_width I im \<and> gray_height (to_luma8 I im) = image_height I im)"

lemma receipt_pixel_width_203: "unat (receipt_pixel_width w 203) \<in> {464, 639}"
  by (cases w) (simp_all add: receipt_pixel_width_def mm_to_px_def checked_mul32_def checked_add32_def)

lemma scaled_dimensions:
  assumes I: "imaging_ok I" and dec: "decode_image I media data = Ok im"
  shows "let s = scaled_to_width I (receipt_pixel_width w 203) im in
    0 < unat (image_width I s) \<and> unat (image_width I s) \<le> 639 \<and>
    0 < unat (image_height I s) \<and> unat (image_height I s) \<le> 2048"
proof -
  let ?m = "receipt_pixel_width w 203"
  have m: "unat ?m \<le> 639" "0 < unat ?m" using receipt_pixel_width_203 [of w] by auto
  have im: "0 < unat (image_width I im)" "unat (image_width I im) \<le> 2048"
    "0 < unat (image_height I im)" "unat (image_height I im) \<le> 2048"
    using dec I by (auto simp: decode_image_def and_then_Ok imaging_ok_def MAX_IMAGE_DIMENSION_def)
  show ?thesis
  proof (cases "image_width I im > ?m")
    case True
    then have wide: "unat ?m < unat (image_width I im)" by (simp add: word_less_nat_alt)
    have "unat (image_height I im) * unat ?m \<le> 2048 * 639" using im(4) m(1) by (rule mult_le_mono)
    then have "unat (sat_mul32 (image_height I im) ?m) = unat (image_height I im) * unat ?m"
      by (simp add: sat_mul32_def) (subst unat_mult_lem [THEN iffD1]; simp)
    then have "unat (sat_mul32 (image_height I im) ?m div image_width I im) =
        unat (image_height I im) * unat ?m div unat (image_width I im)"
      by (simp add: unat_div)
    also have "\<dots> \<le> unat (image_height I im)"
      using wide by (metis div_le_mono div_mult_self_is_m gr_zeroI le_less mult_le_mono2 not_less0)
    finally have "unat (sat_mul32 (image_height I im) ?m div image_width I im) \<le> 2048" using im(4) by simp
    then have "unat (max (sat_mul32 (image_height I im) ?m div image_width I im) 1) \<le> 2048"
      by (simp add: max_def)
    moreover have "0 < unat (max (sat_mul32 (image_height I im) ?m div image_width I im) 1)"
      by (simp add: max_def word_le_nat_alt)
    moreover have "image_width I im \<noteq> 0" using im(1) by auto
    ultimately show ?thesis using True I m by (simp add: scaled_to_width_def Let_def imaging_ok_def)
  next
    case False
    then have "unat (image_width I im) \<le> unat ?m" by (simp add: word_le_nat_alt not_less)
    with False im m show ?thesis by (simp add: scaled_to_width_def Let_def)
  qed
qed

lemma from_gray_ok:
  assumes "0 < unat (gray_width g)" "unat (gray_width g) \<le> 639" "0 < unat (gray_height g)"
    "unat (gray_height g) \<le> 2048"
  shows "image_ok (from_gray g)"
proof -
  let ?S = "unat (div_ceil8 (gray_width g))"
  have S: "1 \<le> ?S" "?S \<le> 80" using assms(1,2) unfolding unat_div_ceil8 by linarith+
  then have p: "?S * unat (gray_height g) \<le> 80 * 2048" using assms(4) by (intro mult_le_mono)
  have "length (im_data (from_gray g)) = ?S * unat (gray_height g)"
    using p by (intro from_gray_pixels(1)) simp
  moreover have "div_ceil8 (gray_width g) \<noteq> 0" "gray_height g \<noteq> 0" using S(1) assms(3) by auto
  ultimately show ?thesis using S p assms
    by (simp add: image_ok_def from_gray_def Let_def MAX_RASTER_BYTES_def)
qed

lemma PrintDocument_sections:
  assumes "PrintDocument_validate d = Ok ()" "s \<in> set (doc_sections d)"
  shows "PrintSection_validate s = Ok ()"
proof -
  obtain i where "i < length (doc_sections d)" "s = doc_sections d ! i"
    using assms(2) by (metis in_set_conv_nth)
  then have "(i, s) \<in> set (List.enumerate 0 (doc_sections d))" by (simp add: in_set_enumerate_eq)
  moreover have "\<forall>(i, s) \<in> set (List.enumerate 0 (doc_sections d)).
      at_path (lit ''sections.'' @ dec i) (PrintSection_validate s) = Ok ()"
    using assms(1) by (auto simp: PrintDocument_validate_def first_err_Ok)
  ultimately show ?thesis by auto
qed

text \<open>What the sections must contain for the receipt to be read back as it was laid out.\<close>

fun section_ok :: "PrintSection \<Rightarrow> bool" where
  "section_ok (TextSection v _ _) \<longleftrightarrow> plain_text v"
| "section_ok (RowSection left right) \<longleftrightarrow> list_all is_printable left \<and> list_all is_printable right"
| "section_ok (QrSection v) \<longleftrightarrow> list_all is_scalar v \<and> byte_len v \<le> MAX_QR_BYTES"
| "section_ok _ \<longleftrightarrow> True"

lemma section_element_ok:
  assumes I: "imaging_ok I" and ok: "section_ok s" and valid: "PrintSection_validate s = Ok ()"
    and e: "element_of_section I w s = Ok e"
  shows "element_ok e"
proof (cases s)
  case (ImageSection media data)
  with e obtain im where im: "decode_image I media data = Ok im"
    "e = ImageElement (from_gray (to_luma8 I (scaled_to_width I (receipt_pixel_width w 203) im)))"
    by (auto simp: and_then_Ok)
  from scaled_dimensions [OF I im(1), of w] I show ?thesis
    by (auto simp: im(2) Let_def imaging_ok_def intro!: from_gray_ok)
qed (use ok valid e in auto)

end
