(* ===== verification/Rendering_Properties.thy ===== *)
theory Rendering_Properties
  imports Document_Renderer
begin

text \<open>
  The properties of the renderer, each with an instance on a small concrete receipt: what the ESC/POS
  interpreter reads back, what wrapping keeps, what a page and a PDF selection contain.
\<close>

section \<open>A concrete configuration\<close>

definition sample_shaping :: shaping where
  "sample_shaping = \<lparr>str_width = length, graphemes = map (\<lambda>c. [c])\<rparr>"

definition sample_drawing :: "nat drawing" where
  "sample_drawing = \<lparr>dr_shaping = sample_shaping, dr_glyph = (\<lambda>c. Some [0x18]), dr_qr = (\<lambda>_. Ok [[True]]),
     dr_code128 = (\<lambda>_. Ok [1]), dr_code39 = (\<lambda>_. Ok [1]), dr_ean13 = (\<lambda>_. Ok [1]), dr_upca = (\<lambda>_. Ok [1]),
     f64_of = unat, f64_div = (div), f64_mul = (*), f64_min = min, f64_max = max, f64_round = (\<lambda>x. x),
     f64_to_u32 = of_nat\<rparr>"

definition sample_imaging :: "GrayImage imaging" where
  "sample_imaging = \<lparr>base64_decode = (\<lambda>_. Ok []),
     image_decode = (\<lambda>_ _ w h _. if 1 \<le> w \<and> 1 \<le> h
       then Ok \<lparr>gray_width = 1, gray_height = 1, gray_data = [0]\<rparr> else Err (OtherImageError [])),
     image_width = gray_width, image_height = gray_height,
     resize_triangle = (\<lambda>w h g. \<lparr>gray_width = w, gray_height = h,
       gray_data = replicate (unat w * unat h) 0\<rparr>), to_luma8 = (\<lambda>g. g)\<rparr>"

definition sample_renderer :: DocumentRenderer where
  "sample_renderer = \<lparr>max_output_bytes = DEFAULT_MAX_OUTPUT_BYTES\<rparr>"

lemma shaping_shapes: "shapes_ascii sample_shaping" "divides_graphemes sample_shaping"
  by (auto simp: shapes_ascii_def divides_graphemes_def sample_shaping_def concat_map_singleton)

lemma sample_imaging_ok: "imaging_ok sample_imaging"
  by (auto simp: imaging_ok_def sample_imaging_def split: if_splits)

definition sample_slip :: PrintDocument where
  "sample_slip = \<lparr>doc_width = Mm58, doc_sections = [TextSection [72, 105] (Some AlignCenter) (Some True),
     RowSection [65] [66], QrSection [67], FeedSection 2, CutSection]\<rparr>"

section \<open>Reading back\<close>

text \<open>C19: What the ESC/POS encoder writes for a validated document of plain content is read back by the
  interpreter: no command is unsupported, and the elements found are those of the layout in order, text
  and rows line by line, images with whole bytes per row, codes, feeds and cuts as they were. Plain
  content is what validation does not ask for: texts of graphic ASCII characters and ASCII white space,
  rows of printable ASCII, and QR values of at most 4096 bytes; a document with control characters in
  its text or with a longer QR value is rendered too, and its bytes read back differently.\<close>

theorem escpos_roundtrip:
  assumes "shapes_ascii (dr_shaping D)" "imaging_ok I" "list_all section_ok (doc_sections d)"
    and "max_output_bytes r \<le> USIZE_MAX" "DocumentRenderer_render D I r d TargetEscPos = Ok out"
  shows "\<exists>bytes layout diagnostics. out = EscPosOutput bytes (doc_width d) \<and>
    from_document I d = Ok layout \<and>
    interpret_escpos (doc_width d) bytes = Ok \<lparr>ei_layout = \<lparr>pl_width = doc_width d, pl_elements =
        concat (map (decoded_element (dr_shaping D) (columns (doc_width d))) (pl_elements layout))\<rparr>,
      ei_diagnostics = diagnostics\<rparr> \<and> ed_unsupported diagnostics = []"
proof -
  obtain layout bytes where l: "from_document I d = Ok layout"
    "render_layout (dr_shaping D) layout = Ok bytes" "out = EscPosOutput bytes (pl_width layout)"
    "length bytes \<le> max_output_bytes r" "PrintDocument_validate d = Ok ()"
    using assms(5) by (auto simp: DocumentRenderer_render_def render_target_def and_then_Ok Let_def not_less)
  obtain elements where e: "layout = \<lparr>pl_width = doc_width d, pl_elements = elements\<rparr>"
    "list_all2 (\<lambda>s e. element_of_section I (doc_width d) s = Ok e) (doc_sections d) elements"
    using l(1) by (auto simp: from_document_def and_then_Ok try_map_Ok)
  have "element_ok e" if "e \<in> set elements" for e
  proof -
    obtain i where "i < length elements" "e = elements ! i" using \<open>e \<in> set elements\<close>
      by (auto simp: in_set_conv_nth)
    with e(2) have s: "doc_sections d ! i \<in> set (doc_sections d)"
      "element_of_section I (doc_width d) (doc_sections d ! i) = Ok e"
      by (auto simp: list_all2_conv_all_nth)
    define s where "s = doc_sections d ! i"
    note s = s [folded s_def]
    have "PrintSection_validate s = Ok ()" using PrintDocument_sections [OF l(5) s(1)] .
    moreover have "section_ok s" using assms(3) s(1) by (simp add: list_all_iff)
    ultimately show ?thesis using section_element_ok [OF assms(2) _ _ s(2)] by simp
  qed
  then have "list_all element_ok (pl_elements layout)" by (simp add: e(1) list_all_iff)
  from interpret_rendered [OF assms(1) this l(2)] l assms(4) show ?thesis by (auto simp: e(1))
qed


lemma slip_valid: "PrintDocument_validate sample_slip = Ok ()"
  by (simp add: PrintDocument_validate_def sample_slip_def MAX_DOCUMENT_SECTIONS_def
      validate_string_def utf16_len_def reject_if_def)

lemma slip_layout: "from_document sample_imaging sample_slip = Ok \<lparr>pl_width = Mm58, pl_elements =
    [TextElement [72, 105] AlignCenter True, RowElement [65] [66], QrElement [67], FeedElement 2, CutElement]\<rparr>"
  using slip_valid by (simp add: from_document_def sample_slip_def)

lemma wrap_sample: "wrap_text sample_shaping [72, 105] 32 = [[72, 105]]"
  by (simp add: wrap_text_def wrap_source_line_def split_whitespace_def is_whitespace_def wrap_word_def
      wrap_break_def Let_def sample_shaping_def)

lemma row_sample: "layout_row sample_shaping [65] [66] 32 = [[65] @ spaces 30 @ [66]]"
  by (simp add: layout_row_def sample_shaping_def)

lemma sample_drawing_shaping [simp]: "dr_shaping sample_drawing = sample_shaping"
  by (simp add: sample_drawing_def)

lemma slip_bytes: "\<exists>bytes. DocumentRenderer_render sample_drawing sample_imaging sample_renderer
    sample_slip TargetEscPos = Ok (EscPosOutput bytes Mm58)"
  by (simp add: DocumentRenderer_render_def slip_valid render_target_def slip_layout render_layout_def
      columns_def require_ascii_def wrap_sample row_sample lines_bytes_def reject_if_def
      spaces_def render_qr_def Let_def sample_renderer_def DEFAULT_MAX_OUTPUT_BYTES_def
      str_bytes_def utf8_bytes_def utf8_encode_def)

theorem escpos_roundtrip_witness:
  "\<exists>bytes layout diagnostics. from_document sample_imaging sample_slip = Ok layout \<and>
     interpret_escpos Mm58 bytes = Ok \<lparr>ei_layout = \<lparr>pl_width = Mm58, pl_elements =
        concat (map (decoded_element sample_shaping 32) (pl_elements layout))\<rparr>,
      ei_diagnostics = diagnostics\<rparr>"
proof -
  obtain bytes where b: "DocumentRenderer_render sample_drawing sample_imaging sample_renderer
    sample_slip TargetEscPos = Ok (EscPosOutput bytes Mm58)"
    using slip_bytes by blast
  have "list_all section_ok (doc_sections sample_slip)"
    by (simp add: sample_slip_def plain_text_def is_graphic_def is_printable_def is_scalar_def
        MAX_QR_BYTES_def)
  moreover have "max_output_bytes sample_renderer \<le> USIZE_MAX"
    by (simp add: sample_renderer_def DEFAULT_MAX_OUTPUT_BYTES_def USIZE_MAX_def)
  ultimately show ?thesis
    using escpos_roundtrip [OF _ sample_imaging_ok _ _ b] shaping_shapes(1)
    by (auto simp: sample_slip_def columns_def)
qed

text \<open>A row whose two trimmed, single-spaced columns fit on a line with two spaces between them is
  read back as that row, and no line of plain text is ever taken for a row.\<close>

theorem row_comes_back:
  assumes "shapes_ascii T" "tidy left" "left \<noteq> []" "tidy right" "length left + length right + 2 \<le> n"
    and "plain_text v"
  shows "decoded_element T n (RowElement left right) = [RowElement left right] \<and>
    (\<forall>e \<in> set (decoded_element T n (TextElement v a b)). \<forall>l r. e \<noteq> RowElement l r)"
proof -
  have "0 < n" using assms(5) by simp
  with row_decoded [OF assms(1-5)] text_decoded [OF assms(1,6)] show ?thesis by blast
qed

theorem row_comes_back_witness:
  "decoded_element sample_shaping 32 (RowElement [65] [66]) = [RowElement [65] [66]]"
  using row_comes_back [of sample_shaping "[65]" "[66]" 32 "[67]"] shaping_shapes
  by (simp add: tidy_def is_printable_def is_graphic_def plain_text_def)

text \<open>C21: Wrapping loses and reorders no character other than white space, and on plain ASCII text every
  line fits the width, has no edge spaces and only single spaces inside.\<close>

theorem wrapping_keeps_text:
  assumes "divides_graphemes T"
  shows "ink (concat (wrap_text T v width)) = ink v \<and>
    (shapes_ascii T \<and> 0 < width \<and> plain_text v \<longrightarrow>
       (\<forall>line \<in> set (wrap_text T v width). length line \<le> width \<and> tidy line))"
  using wrap_text_ink [OF assms] wrap_text_ok [of T width v] by (auto simp: list_all_iff line_ok_def)

theorem wrapping_keeps_text_witness:
  "ink (concat (wrap_text sample_shaping [72, 105, 32, 120] 2)) = [72, 105, 120] \<and>
   list_all (\<lambda>line. length line \<le> 2) (wrap_text sample_shaping [72, 105, 32, 120] 2)"
  using wrapping_keeps_text [OF shaping_shapes(2), of "[72, 105, 32, 120]" 2] shaping_shapes(1)
  by (simp add: plain_text_def is_graphic_def is_whitespace_def ink_def list_all_iff)

section \<open>What text may contain\<close>

text \<open>A word of ASCII characters that fits a line is written to the printer as it is, control
  characters included: a document whose text is an escape sequence passes validation and its bytes reach
  the device as a command.\<close>

theorem control_text_emitted:
  assumes "v \<noteq> []" "\<forall>c \<in> set v. c < 0x80 \<and> \<not> is_whitespace c" "length v \<le> 16384"
    and "str_width (dr_shaping D) v \<le> columns w" "length v + 12 \<le> max_output_bytes r"
  shows "DocumentRenderer_render D I r \<lparr>doc_width = w, doc_sections = [TextSection v None None]\<rparr> TargetEscPos =
    Ok (EscPosOutput ([ESC, 0x40, ESC, 0x61, 0, ESC, 0x45, 0] @ map of_nat v @ [10, ESC, 0x45, 0]) w)"
proof -
  let ?d = "\<lparr>doc_width = w, doc_sections = [TextSection v None None]\<rparr>"
  have ascii: "\<forall>c \<in> set v. c < 0x80" using assms(2) by simp
  have "utf16_count v \<le> 16384" unfolding utf16_count_ascii [OF ascii] by (rule assms(3))
  then have valid: "PrintDocument_validate ?d = Ok ()"
    by (simp add: PrintDocument_validate_def MAX_DOCUMENT_SECTIONS_def validate_string_def reject_if_def)
  have "is_whitespace 10" by (simp add: is_whitespace_def)
  then have "10 \<notin> set v" using assms(2) by blast
  then have lines: "split_on (\<lambda>c. c = 10) v = [v]"
  proof (induction v)
    case (Cons c v)
    then show ?case by auto
  qed simp
  have "split_on is_whitespace v = [v]" using assms(2)
  proof (induction v)
    case (Cons c v)
    then show ?case by auto
  qed simp
  then have "wrap_text (dr_shaping D) v (columns w) = [v]" using assms(1,4) lines
    by (simp add: wrap_text_def wrap_source_line_def split_whitespace_def wrap_word_def wrap_break_def)
  moreover have "require_ascii v = Ok ()" using ascii by (simp add: require_ascii_def list_all_iff)
  ultimately have "element_bytes (dr_shaping D) (columns w) (TextElement v AlignLeft False) =
      Ok ([ESC, 0x61, 0, ESC, 0x45, 0] @ map of_nat v @ [10, ESC, 0x45, 0])"
    by (simp add: alignment_code_def lines_bytes_def str_bytes_ascii [OF ascii])
  moreover have "from_document I ?d =
      Ok \<lparr>pl_width = w, pl_elements = [TextElement v AlignLeft False]\<rparr>"
    using valid by (simp add: from_document_def)
  ultimately have "render_target D I ?d TargetEscPos = Ok (EscPosOutput
      ([ESC, 0x40, ESC, 0x61, 0, ESC, 0x45, 0] @ map of_nat v @ [10, ESC, 0x45, 0]) w)"
    by (simp add: render_target_def render_layout_def del: element_bytes.simps)
  with valid assms(5) show ?thesis by (simp add: DocumentRenderer_render_def Let_def reject_if_def)
qed

theorem control_text_emitted_witness:
  "DocumentRenderer_render sample_drawing sample_imaging sample_renderer
     \<lparr>doc_width = Mm58, doc_sections = [TextSection [0x1B, 0x70, 48] None None]\<rparr> TargetEscPos =
   Ok (EscPosOutput [ESC, 0x40, ESC, 0x61, 0, ESC, 0x45, 0, 0x1B, 0x70, 48, 10, ESC, 0x45, 0] Mm58)"
  using control_text_emitted [of "[0x1B, 0x70, 48]" sample_drawing Mm58 sample_renderer sample_imaging]
  by (simp add: is_whitespace_def sample_shaping_def columns_def sample_renderer_def DEFAULT_MAX_OUTPUT_BYTES_def)

section \<open>Pages\<close>

text \<open>C26: A rendered driver page is one monochrome page that passes its own validation, has the pixel
  dimensions of the configured paper, rounded to the nearest dot, and keeps the pixel budget.\<close>

theorem page_valid:
  assumes "render_layout_page D layout options = Ok pages"
  shows "\<exists>page. pages = [page] \<and> RasterPage_validate page = Ok () \<and> rp_format page = Mono1 \<and>
    unat (rp_width page) = (unat (opt_width_mm options) * unat (opt_dpi options) * 10 + 127) div 254 \<and>
    unat (rp_height page) = (unat (opt_height_mm options) * unat (opt_dpi options) * 10 + 127) div 254 \<and>
    unat (rp_width page) * unat (rp_height page) \<le> MAX_PAGE_PIXELS"
proof -
  obtain page where "pages = [page]" "RasterPage_validate page = Ok ()" "rp_format page = Mono1"
    "mm_to_px (opt_width_mm options) (opt_dpi options) = Ok (rp_width page)"
    "mm_to_px (opt_height_mm options) (opt_dpi options) = Ok (rp_height page)"
    "unat (rp_width page) * unat (rp_height page) \<le> MAX_PAGE_PIXELS"
    using render_layout_page_valid [OF assms] by blast
  then show ?thesis using mm_to_px_value by blast
qed

lemma sample_feed_page: "\<exists>pages. render_layout_page sample_drawing
    \<lparr>pl_width = Mm58, pl_elements = [FeedElement 2, CutElement]\<rparr>
    \<lparr>opt_width_mm = 100, opt_height_mm = 100, opt_dpi = 72\<rparr> = Ok pages"
  by (simp add: render_layout_page_def PageRenderOptions_validate_def mm_to_px_def checked_mul32_def
      checked_add32_def validate_canvas_area_def MAX_PAGE_PIXELS_def reject_if_def Let_def TOP_MARGIN_MM_def
      MonoCanvas_new_def div_ceil8_def checked_mul_usize_def USIZE_MAX_def render_elements_def
      sat_add32_def glyph_scale_def GLYPH_SCALE_AT_300_DPI_def)

theorem page_valid_witness:
  "\<exists>page. RasterPage_validate page = Ok () \<and> unat (rp_width page) = 283 \<and> unat (rp_height page) = 283"
  using sample_feed_page page_valid by fastforce

text \<open>Filling a rectangle blackens exactly the pixels of the rectangle that lie on the canvas and
  leaves every other pixel as it was, in the packed representation and with saturating coordinates.\<close>

theorem fill_rect_exact:
  assumes "canvas_ok c" "unat (cv_stride c) * unat (cv_height c) < 2 ^ 32"
    and "X < unat (cv_width c)" "Y < unat (cv_height c)"
  shows "canvas_pixel (fill_rect x y w h c) X Y \<longleftrightarrow> canvas_pixel c X Y \<or>
    (unat x \<le> X \<and> X < unat x + unat w \<and> unat y \<le> Y \<and> Y < unat y + unat h)"
  by (rule fill_rect_pixels [OF assms])

theorem fill_rect_exact_witness:
  "canvas_pixel (fill_rect 1 0 5 1 \<lparr>cv_width = 9, cv_height = 1, cv_dpi = 203, cv_stride = 2, cv_data = [0, 0]\<rparr>) 5 0 \<and>
   \<not> canvas_pixel (fill_rect 1 0 5 1 \<lparr>cv_width = 9, cv_height = 1, cv_dpi = 203, cv_stride = 2, cv_data = [0, 0]\<rparr>) 6 0"
  using fill_rect_exact [of "\<lparr>cv_width = 9, cv_height = 1, cv_dpi = 203, cv_stride = 2, cv_data = [0, 0]\<rparr>" 5 0 1 0 5 1]
    fill_rect_exact [of "\<lparr>cv_width = 9, cv_height = 1, cv_dpi = 203, cv_stride = 2, cv_data = [0, 0]\<rparr>" 6 0 1 0 5 1]
  by (simp add: canvas_ok_def div_ceil8_def USIZE_MAX_def canvas_pixel_def bit_at_def)

section \<open>PDF\<close>

text \<open>C20: Resolving a page selection never panics, and what it accepts is exact: an expression gives a result
  if and only if it is written in the grammar of page ranges (one to five digits, not zero, ranges
  ascending, at most 256 bytes) and names no page beyond the document, and the result is then every
  named page once, in document order, counted from zero; no expression selects the whole document.\<close>

theorem page_selection_exact:
  "\<exists>r. resolve_page_selection ranges n = Some r \<and> (\<forall>pages. r = Ok pages \<longleftrightarrow> (case ranges of
       None \<Rightarrow> pages = [0..<n]
     | Some s \<Rightarrow> page_expression s \<and> (\<forall>page. listed_page s page \<longrightarrow> page \<le> n) \<and>
         pages = filter (\<lambda>i. listed_page s (Suc i)) [0..<n]))"
  by (rule resolve_exact)

text \<open>The expressions \<open>2-3,2\<close> and \<open>3-2\<close> over three pages.\<close>

lemma sample_parts:
  "split_on (\<lambda>c. c = 44) [50, 45, 51, 44, 50] = [[50, 45, 51], [50 :: nat]]"
  "split_on (\<lambda>c. c = 44) [51, 45, 50] = [[51, 45, 50 :: nat]]"
  by simp_all

lemma sample_range: "page_range [50] 2 2" "page_range [50, 45, 51] 2 3"
proof -
  have n: "page_number [50] 2" "page_number [51] 3"
    by (simp_all add: page_number_def is_ascii_digit_def digits_value_def)
  show "page_range [50] 2 2" using n by (simp add: page_range_def)
  show "page_range [50, 45, 51] 2 3" using n by (auto simp: page_range_def intro: exI [of _ "[50]"] exI [of _ "[51]"])
qed

lemma sample_range_bounds:
  "page_range [50] a b \<longleftrightarrow> a = 2 \<and> b = 2" "page_range [50, 45, 51] a b \<longleftrightarrow> a = 2 \<and> b = 3"
  "\<not> page_range [51, 45, 50] a b"
proof -
  show "page_range [50] a b \<longleftrightarrow> a = 2 \<and> b = 2"
    using sample_range(1) page_range_bounds [OF sample_range(1)] page_range_bounds [of "[50]" a b] by auto
  show "page_range [50, 45, 51] a b \<longleftrightarrow> a = 2 \<and> b = 3"
    using sample_range(2) page_range_bounds [OF sample_range(2)] page_range_bounds [of "[50, 45, 51]" a b] by auto
  have "part_bounds [51, 45, 50] = (3, 2)"
    by (simp add: part_bounds_def digits_value_def)
  moreover have "a \<le> b" if "page_range [51, 45, 50] a b" using that page_range_def by blast
  ultimately show "\<not> page_range [51, 45, 50] a b" using page_range_bounds [of "[51, 45, 50]" a b] by force
qed

theorem page_selection_exact_witness:
  "resolve_page_selection (Some [50, 45, 51, 44, 50]) 3 = Some (Ok [1, 2]) \<and>
   (\<exists>e. resolve_page_selection (Some [51, 45, 50]) 3 = Some (Err e))"
proof
  have expression: "page_expression [50, 45, 51, 44, 50]" "\<not> page_expression [51, 45, 50]"
    using sample_range by (auto simp: page_expression_def sample_parts sample_range_bounds(3) utf8_len_def)
  have listed: "listed_page [50, 45, 51, 44, 50] p \<longleftrightarrow> p = 2 \<or> p = 3" for p
    by (auto simp: listed_page_def sample_parts sample_range_bounds)
  have "filter (\<lambda>i. listed_page [50, 45, 51, 44, 50] (Suc i)) [0..<3] = [1, 2]"
    by (simp add: listed upt_rec)
  then show "resolve_page_selection (Some [50, 45, 51, 44, 50]) 3 = Some (Ok [1, 2])"
    using page_selection_exact [of "Some [50, 45, 51, 44, 50]" 3] expression listed by auto
  from page_selection_exact [of "Some [51, 45, 50]" 3] expression obtain r
    where "resolve_page_selection (Some [51, 45, 50]) 3 = Some r" "\<And>pages. r \<noteq> Ok pages" by auto
  then show "\<exists>e. resolve_page_selection (Some [51, 45, 50]) 3 = Some (Err e)" by (cases r) auto
qed

text \<open>A rasterized PDF is the rendered selection repeated once per copy, and all its pages together
  stay within the byte budget.\<close>

theorem raster_within_budget:
  assumes "rasterize_pdf engine render_page expired d dpi = Ok out" "0 < effective_copies (pp_settings d)"
  shows "\<exists>rendered. out = concat (replicate (unat (effective_copies (pp_settings d))) rendered) \<and>
    length rendered = length (pp_selected_pages d) \<and> raster_bytes out \<le> MAX_PDF_RASTER_BYTES"
  by (rule rasterize_budget [OF assms])

theorem raster_within_budget_witness:
  "\<exists>out. rasterize_pdf (\<lambda>_. Loaded [()])
     (\<lambda>_ _ _. Ok \<lparr>rp_width = 8, rp_height = 1, rp_dpi_x = 72, rp_dpi_y = 72, rp_format = Mono1, rp_data = [0]\<rparr>)
     (\<lambda>_. False) \<lparr>pp_bytes = [], pp_settings = PrintSettings_default\<lparr>set_copies := Some 1\<rparr>,
       pp_page_count = 1, pp_selected_pages = [0]\<rparr> 72 = Ok out \<and> raster_bytes out \<le> MAX_PDF_RASTER_BYTES"
proof -
  let ?d = "\<lparr>pp_bytes = [], pp_settings = PrintSettings_default\<lparr>set_copies := Some 1\<rparr>,
       pp_page_count = 1, pp_selected_pages = [0]\<rparr>"
  let ?render = "\<lambda>_ _ _. Ok \<lparr>rp_width = 8, rp_height = 1, rp_dpi_x = 72, rp_dpi_y = 72,
      rp_format = Mono1, rp_data = [0]\<rparr>"
  obtain out where out: "rasterize_pdf (\<lambda>_. Loaded [()]) ?render (\<lambda>_. False) ?d 72 = Ok out"
    by (simp add: rasterize_pdf_def reject_if_def MIN_RASTER_DPI_def MAX_RASTER_DPI_def load_pdf_def Let_def
        effective_copies_def PrintSettings_default_def check_deadline_def list_get_def sat_usize_def
        USIZE_MAX_def MAX_PDF_RASTER_BYTES_def)
  from raster_within_budget [OF this] show ?thesis
    using out by (auto simp: effective_copies_def PrintSettings_default_def)
qed

end
