(* ===== verification/Wire_Codec.thy ===== *)
theory Wire_Codec
  imports Wire_Message
begin

text \<open>
  The codec of the wire protocol (\<open>crates/oppa-protocol/src/codec.rs\<close>): size limit, JSON values,
  normalisation of integral floats, the version gate, the shape of the envelope and the routing by
  discriminator. Parsing and printing of JSON and the derived conversions between values and
  messages are Serde's: they are the record \<open>serde\<close>.
\<close>

section \<open>JSON values\<close>

text \<open>
  \<open>serde_json::Value\<close>. A number is an unsigned or a negative 64-bit integer, or a double; a finite
  double is its mantissa and exponent. An object is the list of its entries in key order.
\<close>

datatype f64 = Finite (mantissa: int) (binary_exponent: int) | NotFinite

datatype Number = PosInt "64 word" | NegInt "64 word" | Float f64

datatype Value =
  JNull
| JBool bool
| JNumber Number
| JString ustring
| JArray "Value list"
| JObject "(ustring \<times> Value) list"

fun value_get :: "Value \<Rightarrow> ustring \<Rightarrow> Value option" where
  "value_get (JObject entries) key = map_of entries key"
| "value_get _ key = None"

fun as_object :: "Value \<Rightarrow> (ustring \<times> Value) list option" where
  "as_object (JObject entries) = Some entries"
| "as_object _ = None"

fun as_str :: "Value \<Rightarrow> ustring option" where
  "as_str (JString s) = Some s"
| "as_str _ = None"

text \<open>The value of a finite double when it has no fractional part.\<close>

fun integral_value :: "f64 \<Rightarrow> int option" where
  "integral_value (Finite m e) =
     (if 0 \<le> e then Some (m * 2 ^ nat e)
      else if m mod 2 ^ nat (- e) = 0 then Some (m div 2 ^ nat (- e)) else None)"
| "integral_value NotFinite = None"

definition JSON_SAFE_INTEGER :: int where
  "JSON_SAFE_INTEGER = 9007199254740991"

fun normalize_number :: "Number \<Rightarrow> Number" where
  "normalize_number (PosInt n) = PosInt n"
| "normalize_number (NegInt n) = NegInt n"
| "normalize_number (Float float) = (case integral_value float of
     None \<Rightarrow> Float float
   | Some i \<Rightarrow>
       if 0 \<le> i \<and> i \<le> JSON_SAFE_INTEGER then PosInt (of_int i)
       else if - JSON_SAFE_INTEGER \<le> i \<and> i < 0 then NegInt (of_int i)
       else Float float)"

fun normalize_integral_numbers :: "Value \<Rightarrow> Value" where
  "normalize_integral_numbers (JNumber number) = JNumber (normalize_number number)"
| "normalize_integral_numbers (JArray elements) = JArray (map normalize_integral_numbers elements)"
| "normalize_integral_numbers (JObject entries) =
     JObject (map (\<lambda>(key, v). (key, normalize_integral_numbers v)) entries)"
| "normalize_integral_numbers v = v"

section \<open>The third-party side\<close>

record serde =
  from_slice :: "nat list \<Rightarrow> Value option"
  float_to_string :: "f64 \<Rightarrow> ustring"
  agent_from_value :: "Value \<Rightarrow> ustring + AgentMessage"
  server_from_value :: "Value \<Rightarrow> ustring + ServerMessage"
  agent_to_vec :: "AgentMessage \<Rightarrow> ustring + nat list"
  server_to_vec :: "ServerMessage \<Rightarrow> ustring + nat list"

section \<open>Decoding\<close>

definition enforce_size :: "nat \<Rightarrow> ProtocolError + unit" where
  "enforce_size actual = reject_if (actual > MAX_WIRE_MESSAGE_BYTES)
     (MessageTooLarge actual MAX_WIRE_MESSAGE_BYTES)"

definition number_to_string :: "serde \<Rightarrow> Number \<Rightarrow> ustring" where
  "number_to_string S n = (case n of
     PosInt k \<Rightarrow> dec (unat k)
   | NegInt k \<Rightarrow> lit ''-'' @ dec (nat (- sint k))
   | Float f \<Rightarrow> float_to_string S f)"

fun received_version :: "serde \<Rightarrow> Value \<Rightarrow> ustring option" where
  "received_version S JNull = Some (lit ''null'')"
| "received_version S (JBool b) = Some (if b then lit ''true'' else lit ''false'')"
| "received_version S (JNumber n) = Some (number_to_string S n)"
| "received_version S (JString s) = Some s"
| "received_version S (JArray _) = None"
| "received_version S (JObject _) = None"

definition assert_supported_version ::
  "serde \<Rightarrow> Value \<Rightarrow> ProtocolVersion list \<Rightarrow> ProtocolError + unit" where
  "assert_supported_version S v supported = (case value_get v (lit ''protocolVersion'') of
     None \<Rightarrow> Ok ()
   | Some version \<Rightarrow>
       if list_ex (\<lambda>candidate. version = JString (version_as_str candidate)) supported then Ok ()
       else (case received_version S version of
           Some received \<Rightarrow>
             Err (UnsupportedProtocolVersion received (map version_as_str supported))
         | None \<Rightarrow> Ok ()))"

definition decode_value ::
  "serde \<Rightarrow> nat list \<Rightarrow> ProtocolVersion list \<Rightarrow> ProtocolError + Value" where
  "decode_value S input supported =
     and_then (enforce_size (length input)) (\<lambda>_.
     and_then (ok_or InvalidJson (from_slice S input)) (\<lambda>raw.
     let v = normalize_integral_numbers raw in
     and_then (assert_supported_version S v supported) (\<lambda>_. Ok v)))"

definition ENVELOPE_FIELDS :: "ustring list" where
  "ENVELOPE_FIELDS = [lit ''protocolVersion'', lit ''messageId'', lit ''sentAt'',
     lit ''correlationId'', lit ''type'', lit ''payload'']"

definition reject_unknown_fields ::
  "(ustring \<times> Value) list \<Rightarrow> ustring list \<Rightarrow> ustring \<Rightarrow> ProtocolError + unit" where
  "reject_unknown_fields object allowed p =
     (case find (\<lambda>field. field \<notin> set allowed) (map fst object) of
       Some field \<Rightarrow> Err (InvalidMessage (ValidationError_new p (lit ''contains unknown field '' @ field)))
     | None \<Rightarrow> Ok ())"

definition validate_envelope_shape :: "Value \<Rightarrow> ProtocolError + unit" where
  "validate_envelope_shape v =
     and_then (ok_or (InvalidMessage (ValidationError_new (lit ''/'') (lit ''message must be a JSON object'')))
       (as_object v))
     (\<lambda>object. reject_unknown_fields object ENVELOPE_FIELDS (lit ''/''))"

definition ensure_offers_supported ::
  "ProtocolVersion list \<Rightarrow> ProtocolVersion list \<Rightarrow> ProtocolError + unit" where
  "ensure_offers_supported listed supported =
     reject_if (\<not> list_all (\<lambda>version. version \<in> set supported) listed)
       (InvalidMessage (ValidationError_new (lit ''supportedProtocolVersions'')
          (lit ''lists a protocol version this peer does not support'')))"

definition deserialize_message :: "(Value \<Rightarrow> ustring + 'm) \<Rightarrow> Value \<Rightarrow> ProtocolError + 'm" where
  "deserialize_message from_value v =
     map_err (\<lambda>e. InvalidMessage (ValidationError_new (lit ''/'') e)) (from_value v)"

definition decode_agent_message_for ::
  "serde \<Rightarrow> nat list \<Rightarrow> ProtocolVersion list \<Rightarrow> ProtocolError + AgentMessage" where
  "decode_agent_message_for S input supported =
     and_then (decode_value S input supported) (\<lambda>v.
     and_then (validate_envelope_shape v) (\<lambda>_.
     and_then (deserialize_message (agent_from_value S) v) (\<lambda>message.
     and_then (map_err InvalidMessage (AgentMessage_validate message)) (\<lambda>_.
     and_then (case am_kind message of
         AgentHelloMsg hello \<Rightarrow> ensure_offers_supported (ah_supported_versions hello) supported
       | _ \<Rightarrow> Ok ()) (\<lambda>_. Ok message)))))"

definition decode_agent_message :: "serde \<Rightarrow> nat list \<Rightarrow> ProtocolError + AgentMessage" where
  "decode_agent_message S input = decode_agent_message_for S input SUPPORTED"

definition decode_server_message_for ::
  "serde \<Rightarrow> nat list \<Rightarrow> ProtocolVersion list \<Rightarrow> ProtocolError + ServerMessage" where
  "decode_server_message_for S input supported =
     and_then (decode_value S input supported) (\<lambda>v.
     and_then (validate_envelope_shape v) (\<lambda>_.
     and_then (deserialize_message (server_from_value S) v) (\<lambda>message.
     and_then (map_err InvalidMessage (ServerMessage_validate message)) (\<lambda>_.
     and_then (case sm_kind message of
         ServerHelloMsg hello \<Rightarrow> ensure_offers_supported (sh_supported_versions hello) supported
       | _ \<Rightarrow> Ok ()) (\<lambda>_. Ok message)))))"

definition decode_server_message :: "serde \<Rightarrow> nat list \<Rightarrow> ProtocolError + ServerMessage" where
  "decode_server_message S input = decode_server_message_for S input SUPPORTED"

definition decode_protocol_message :: "serde \<Rightarrow> nat list \<Rightarrow> ProtocolError + ProtocolMessage" where
  "decode_protocol_message S input =
     and_then (decode_value S input SUPPORTED) (\<lambda>v.
     and_then (validate_envelope_shape v) (\<lambda>_.
     and_then (ok_or (InvalidMessage (ValidationError_new (lit ''type'') (lit ''must be a string discriminator'')))
        (Option.bind (value_get v (lit ''type'')) as_str)) (\<lambda>message_type.
     if prefix (lit ''agent.'') message_type then
       and_then (deserialize_message (agent_from_value S) v) (\<lambda>message.
       and_then (map_err InvalidMessage (AgentMessage_validate message)) (\<lambda>_.
         Ok (AgentProtocolMessage message)))
     else if prefix (lit ''server.'') message_type then
       and_then (deserialize_message (server_from_value S) v) (\<lambda>message.
       and_then (map_err InvalidMessage (ServerMessage_validate message)) (\<lambda>_.
         Ok (ServerProtocolMessage message)))
     else Err (InvalidMessage (ValidationError_new (lit ''type'')
       (lit ''is not a documented message discriminator''))))))"

section \<open>Encoding\<close>

definition encode_message ::
  "('m \<Rightarrow> unit validated) \<Rightarrow> ('m \<Rightarrow> ustring + nat list) \<Rightarrow> 'm \<Rightarrow> ProtocolError + nat list" where
  "encode_message validate to_vec message =
     and_then (map_err InvalidMessage (validate message)) (\<lambda>_.
     and_then (map_err Encoding (to_vec message)) (\<lambda>encoded.
     and_then (enforce_size (length encoded)) (\<lambda>_. Ok encoded)))"

definition encode_agent_message :: "serde \<Rightarrow> AgentMessage \<Rightarrow> ProtocolError + nat list" where
  "encode_agent_message S = encode_message AgentMessage_validate (agent_to_vec S)"

definition encode_server_message :: "serde \<Rightarrow> ServerMessage \<Rightarrow> ProtocolError + nat list" where
  "encode_server_message S = encode_message ServerMessage_validate (server_to_vec S)"

fun encode_protocol_message :: "serde \<Rightarrow> ProtocolMessage \<Rightarrow> ProtocolError + nat list" where
  "encode_protocol_message S (AgentProtocolMessage m) = encode_agent_message S m"
| "encode_protocol_message S (ServerProtocolMessage m) = encode_server_message S m"

end
