(* ===== verification/Wire_Auth.thy ===== *)
theory Wire_Auth
  imports Wire_Validation
begin

text \<open>
  The messages of discovery, pairing and gateway authentication
  (\<open>crates/oppa-protocol/src/auth.rs\<close>) with their validation. The unpadded base64url codec is
  the \<open>base64\<close> crate's: it is the record \<open>base64url\<close>.
\<close>

record base64url =
  b64_decode :: "ustring \<Rightarrow> nat list option"
  b64_encode :: "nat list \<Rightarrow> ustring"

definition AUTHENTICATION_METHOD :: ustring where
  "AUTHENTICATION_METHOD = lit ''pairing-code-ed25519''"

definition SIGNATURE_ALGORITHM :: ustring where
  "SIGNATURE_ALGORITHM = lit ''Ed25519''"

definition DISCOVERY_PATH :: ustring where
  "DISCOVERY_PATH = lit ''/.well-known/openprinter''"

text \<open>\<open>impl Display for ValidationError\<close>.\<close>

definition ValidationError_to_string :: "ValidationError \<Rightarrow> ustring" where
  "ValidationError_to_string e = ve_path e @ lit '': '' @ ve_message e"

section \<open>Keys\<close>

record PublicEd25519Jwk =
  jwk_kty :: ustring
  jwk_crv :: ustring
  jwk_x :: ustring

definition PublicEd25519Jwk_validate :: "base64url \<Rightarrow> PublicEd25519Jwk \<Rightarrow> unit validated" where
  "PublicEd25519Jwk_validate B k =
     and_then (check (jwk_kty k \<noteq> lit ''OKP'' \<or> jwk_crv k \<noteq> lit ''Ed25519'') (lit ''publicKey'')
       (lit ''must be an Ed25519 OKP JWK'')) (\<lambda>_.
     and_then (ok_or (ValidationError_new (lit ''publicKey.x'') (lit ''must be unpadded base64url''))
       (b64_decode B (jwk_x k))) (\<lambda>decoded.
     check (length decoded \<noteq> 32 \<or> b64_encode B decoded \<noteq> jwk_x k) (lit ''publicKey.x'')
       (lit ''must encode exactly 32 bytes'')))"

definition validate_base64url ::
  "base64url \<Rightarrow> ustring \<Rightarrow> ustring \<Rightarrow> nat \<Rightarrow> nat \<Rightarrow> nat option \<Rightarrow> unit validated" where
  "validate_base64url B v field minimum maximum decoded_length =
     and_then (check (\<not> (minimum \<le> byte_len v \<and> byte_len v \<le> maximum)) field
       (lit ''has an invalid encoded length'')) (\<lambda>_.
     and_then (ok_or (ValidationError_new field (lit ''must be canonical unpadded base64url''))
       (b64_decode B v)) (\<lambda>decoded.
     check (b64_encode B decoded \<noteq> v \<or>
            (case decoded_length of Some n \<Rightarrow> length decoded \<noteq> n | None \<Rightarrow> False)) field
       (lit ''must be canonical unpadded base64url'')))"

section \<open>Discovery\<close>

record DiscoveryServer =
  ds_id :: ustring
  ds_name :: ustring
  ds_version :: ustring

record DiscoveryEndpoints =
  de_pairing :: ustring
  de_gateway :: ustring

record DiscoveryAuthentication =
  da_method :: ustring
  da_challenge_ttl_seconds :: "32 word"

record DiscoveryDocument =
  dd_protocol_version :: ustring
  dd_server :: DiscoveryServer
  dd_endpoints :: DiscoveryEndpoints
  dd_authentication :: DiscoveryAuthentication

definition validate_endpoint :: "ustring \<Rightarrow> ustring \<Rightarrow> unit validated" where
  "validate_endpoint v field = first_err
     [validate_string v field 1 2048,
      check (list_ex is_whitespace v \<or>
             \<not> (prefix (lit ''/'') v \<or> prefix (lit ''http://'') v \<or> prefix (lit ''https://'') v \<or>
                prefix (lit ''ws://'') v \<or> prefix (lit ''wss://'') v)) field
        (lit ''must be a relative or absolute OpenPrinter endpoint'')]"

definition DiscoveryDocument_validate :: "DiscoveryDocument \<Rightarrow> unit validated" where
  "DiscoveryDocument_validate d = first_err
     [check (dd_protocol_version d \<noteq> PROTOCOL_VERSION) (lit ''protocolVersion'') (lit ''is unsupported''),
      check (da_method (dd_authentication d) \<noteq> AUTHENTICATION_METHOD) (lit ''authentication.method'')
        (lit ''is unsupported''),
      validate_identifier (ds_id (dd_server d)) (lit ''server.id'') 128,
      validate_brand_name (ds_name (dd_server d)) (lit ''server.name''),
      validate_string (ds_version (dd_server d)) (lit ''server.version'') 1 256,
      validate_endpoint (de_pairing (dd_endpoints d)) (lit ''endpoints.pairing''),
      validate_endpoint (de_gateway (dd_endpoints d)) (lit ''endpoints.gateway''),
      check (\<not> (5 \<le> da_challenge_ttl_seconds (dd_authentication d) \<and>
                da_challenge_ttl_seconds (dd_authentication d) \<le> 300))
        (lit ''authentication.challengeTtlSeconds'') (lit ''must be between 5 and 300'')]"

section \<open>Pairing\<close>

record PairingAgent =
  pa_name :: ustring
  pa_version :: ustring
  pa_platform :: ustring
  pa_installation_id :: ustring

record PairingCredential =
  pc_algorithm :: ustring
  pc_public_key :: PublicEd25519Jwk

record PairingRequest =
  pq_protocol_version :: ustring
  pq_code :: ustring
  pq_agent :: PairingAgent
  pq_credential :: PairingCredential

definition PairingRequest_validate :: "base64url \<Rightarrow> PairingRequest \<Rightarrow> unit validated" where
  "PairingRequest_validate B r = first_err
     [check (pq_protocol_version r \<noteq> PROTOCOL_VERSION) (lit ''protocolVersion'') (lit ''is unsupported''),
      check (\<not> (4 \<le> byte_len (pq_code r) \<and> byte_len (pq_code r) \<le> 64) \<or>
             \<not> list_all (\<lambda>b. is_ascii_alnum b \<or> b = 45) (utf8_bytes (pq_code r))) (lit ''code'')
        (lit ''must be a bounded pairing code''),
      validate_string (pa_name (pq_agent r)) (lit ''agent.name'') 1 128,
      validate_string (pa_version (pq_agent r)) (lit ''agent.version'') 1 256,
      validate_string (pa_platform (pq_agent r)) (lit ''agent.platform'') 1 64,
      validate_identifier (pa_installation_id (pq_agent r)) (lit ''agent.installationId'') 128,
      check (pc_algorithm (pq_credential r) \<noteq> SIGNATURE_ALGORITHM) (lit ''credential.algorithm'')
        (lit ''is unsupported''),
      PublicEd25519Jwk_validate B (pc_public_key (pq_credential r))]"

record PairingResponse =
  pr_agent_id :: ustring
  pr_key_id :: ustring
  pr_server_id :: ustring
  pr_paired_at :: ustring

definition PairingResponse_validate :: "PairingResponse \<Rightarrow> unit validated" where
  "PairingResponse_validate r = first_err
     [validate_identifier (pr_agent_id r) (lit ''agentId'') 128,
      validate_identifier (pr_key_id r) (lit ''keyId'') 128,
      validate_identifier (pr_server_id r) (lit ''serverId'') 128,
      validate_timestamp (pr_paired_at r) (lit ''pairedAt'')]"

section \<open>Gateway authentication\<close>

record GatewayAuthenticationChallenge =
  gc_message_type :: ustring
  gc_challenge_id :: ustring
  gc_payload :: ustring
  gc_expires_at :: ustring

definition Challenge_validate :: "base64url \<Rightarrow> GatewayAuthenticationChallenge \<Rightarrow> unit validated" where
  "Challenge_validate B c = first_err
     [check (gc_message_type c \<noteq> lit ''auth.challenge'') (lit ''type'') (lit ''must be auth.challenge''),
      validate_identifier (gc_challenge_id c) (lit ''challengeId'') 128,
      validate_timestamp (gc_expires_at c) (lit ''expiresAt''),
      validate_base64url B (gc_payload c) (lit ''payload'') 1 4096 None]"

record GatewayAuthenticationAccepted =
  ga_message_type :: ustring
  ga_session_id :: ustring
  ga_agent_id :: ustring
  ga_heartbeat_interval_ms :: "32 word"

definition Accepted_validate :: "GatewayAuthenticationAccepted \<Rightarrow> unit validated" where
  "Accepted_validate a = first_err
     [check (ga_message_type a \<noteq> lit ''auth.accepted'') (lit ''type'') (lit ''must be auth.accepted''),
      validate_identifier (ga_session_id a) (lit ''sessionId'') 128,
      validate_identifier (ga_agent_id a) (lit ''agentId'') 128,
      check (\<not> (5000 \<le> ga_heartbeat_interval_ms a \<and> ga_heartbeat_interval_ms a \<le> 300000))
        (lit ''heartbeatIntervalMs'') (lit ''must be between 5000 and 300000'')]"

record GatewayAuthenticationRejected =
  gr_message_type :: ustring
  gr_code :: ustring
  gr_message :: ustring

definition REJECTION_CODES :: "ustring list" where
  "REJECTION_CODES = [lit ''challenge_expired'', lit ''challenge_invalid'', lit ''challenge_consumed'',
     lit ''credential_not_found'', lit ''credential_revoked'', lit ''invalid_signature'',
     lit ''unsupported_algorithm'', lit ''authentication_timeout'']"

definition Rejected_validate :: "GatewayAuthenticationRejected \<Rightarrow> unit validated" where
  "Rejected_validate r = first_err
     [check (gr_message_type r \<noteq> lit ''auth.rejected'') (lit ''type'') (lit ''must be auth.rejected''),
      check (gr_code r \<notin> set REJECTION_CODES) (lit ''code'')
        (lit ''is not a supported authentication failure''),
      validate_string (gr_message r) (lit ''message'') 1 512]"

datatype GatewayAuthenticationServerMessage =
  Challenge GatewayAuthenticationChallenge
| Accepted GatewayAuthenticationAccepted
| Rejected GatewayAuthenticationRejected

fun GatewayAuthentication_validate ::
  "base64url \<Rightarrow> GatewayAuthenticationServerMessage \<Rightarrow> unit validated" where
  "GatewayAuthentication_validate B (Challenge v) = Challenge_validate B v"
| "GatewayAuthentication_validate B (Accepted v) = Accepted_validate v"
| "GatewayAuthentication_validate B (Rejected v) = Rejected_validate v"

record GatewayAuthenticationResponse =
  gp_message_type :: ustring
  gp_challenge_id :: ustring
  gp_agent_id :: ustring
  gp_key_id :: ustring
  gp_algorithm :: ustring
  gp_signature :: ustring

definition Response_validate :: "base64url \<Rightarrow> GatewayAuthenticationResponse \<Rightarrow> unit validated" where
  "Response_validate B r = first_err
     [check (gp_message_type r \<noteq> lit ''auth.response'') (lit ''type'') (lit ''must be auth.response''),
      validate_identifier (gp_challenge_id r) (lit ''challengeId'') 128,
      validate_identifier (gp_agent_id r) (lit ''agentId'') 128,
      validate_identifier (gp_key_id r) (lit ''keyId'') 128,
      check (gp_algorithm r \<noteq> SIGNATURE_ALGORITHM) (lit ''algorithm'') (lit ''is unsupported''),
      validate_base64url B (gp_signature r) (lit ''signature'') 86 86 (Some 64)]"

section \<open>What accepted messages guarantee\<close>

lemma validate_base64url_Ok [wire_checks]:
  "validate_base64url B v p lo hi n = Ok u \<longleftrightarrow> lo \<le> byte_len v \<and> byte_len v \<le> hi \<and>
     (\<exists>bytes. b64_decode B v = Some bytes \<and> b64_encode B bytes = v \<and>
        (\<forall>k. n = Some k \<longrightarrow> length bytes = k))"
  by (auto simp: validate_base64url_def and_then_Ok split: option.splits)

lemma PublicEd25519Jwk_validate_Ok [wire_checks]:
  "PublicEd25519Jwk_validate B k = Ok u \<longleftrightarrow> jwk_kty k = lit ''OKP'' \<and> jwk_crv k = lit ''Ed25519'' \<and>
     (\<exists>bytes. b64_decode B (jwk_x k) = Some bytes \<and> length bytes = 32 \<and> b64_encode B bytes = jwk_x k)"
  by (auto simp: PublicEd25519Jwk_validate_def and_then_Ok)

text \<open>An accepted frame carries its own discriminator, so the three kinds are never confused.\<close>

lemma Challenge_validate_type: "Challenge_validate B c = Ok u \<Longrightarrow> gc_message_type c = lit ''auth.challenge''"
  by (simp add: Challenge_validate_def first_err_Ok)

lemma Accepted_validate_type: "Accepted_validate a = Ok u \<Longrightarrow> ga_message_type a = lit ''auth.accepted''"
  by (simp add: Accepted_validate_def first_err_Ok)

lemma Rejected_validate_type: "Rejected_validate r = Ok u \<Longrightarrow> gr_message_type r = lit ''auth.rejected''"
  by (simp add: Rejected_validate_def first_err_Ok)

lemma Response_validate_type: "Response_validate B r = Ok u \<Longrightarrow> gp_message_type r = lit ''auth.response''"
  by (simp add: Response_validate_def first_err_Ok)

end
