(* ===== verification/Transport.thy ===== *)
theory Transport
  imports Wire_Codec Wire_Auth Std_Library
begin

text \<open>
  The WebSocket transport of the agent (\<open>crates/oppa-transport/src/lib.rs\<close>): configuration,
  reconnection policy, and the connection with its authentication, its mandatory hello and its
  outbound buffer.

  A socket is the log of the frames written and read on it so far, together with the scripts of what
  its reads, its writes and its closing handshake will answer; a script of reads that has run out is an idle timeout, one
  of writes succeeds. The outcome of connecting is a function of the number of the attempt. Durations
  are nanoseconds. Rounding arithmetic on doubles is the record \<open>float_lib\<close>.
\<close>

section \<open>Configuration\<close>

datatype TransportError =
  InvalidConfiguration ustring
| AlreadyConnected
| NotConnected
| ConnectTimeout nat
| IdleTimeout nat
| CloseTimeout nat
| WebSocket ustring
| AuthenticationRejected ustring
| AuthenticationRequired
| UnexpectedAuthenticationMessage
| Closed "ustring option"
| UnexpectedFrame ustring
| Protocol ProtocolError
| ProtocolEncoding ustring
| OutboundBufferFull nat
| HelloRequired
| HelloAlreadySent
| HelloCannotBeBuffered
| TransportCancelled

fun is_retryable :: "TransportError \<Rightarrow> bool" where
  "is_retryable (ConnectTimeout _) = True"
| "is_retryable (IdleTimeout _) = True"
| "is_retryable (CloseTimeout _) = True"
| "is_retryable (WebSocket _) = True"
| "is_retryable (Closed _) = True"
| "is_retryable _ = False"

record TransportConfig =
  tc_endpoint :: Url
  tc_connect_timeout :: nat
  tc_idle_timeout :: nat
  tc_outbound_buffer_capacity :: nat

definition TransportConfig_validate :: "TransportConfig \<Rightarrow> TransportError + unit" where
  "TransportConfig_validate c =
     (let u = tc_endpoint c;
          loopback = (u_host_str u \<in> {Some (lit ''localhost''), Some (lit ''127.0.0.1''), Some (lit ''::1'')}) in
      first_err
     [reject_if (u_scheme u \<noteq> lit ''wss'' \<and> \<not> (u_scheme u = lit ''ws'' \<and> loopback))
        (InvalidConfiguration (lit ''gateway must use WSS except for loopback development'')),
      reject_if (u_username u \<noteq> [] \<or> u_password u \<noteq> None \<or> u_fragment u \<noteq> None)
        (InvalidConfiguration (lit ''gateway URL must not contain credentials or a fragment'')),
      reject_if (tc_connect_timeout c = 0 \<or> tc_idle_timeout c = 0 \<or> tc_outbound_buffer_capacity c = 0)
        (InvalidConfiguration (lit ''timeouts and outbound buffer capacity must be greater than zero''))])"

section \<open>Reconnection policy\<close>

text \<open>Comparison of doubles is exact; any comparison with a value that is not finite is false here.\<close>

fun f64_le :: "f64 \<Rightarrow> f64 \<Rightarrow> bool" where
  "f64_le (Finite m e) (Finite n f) \<longleftrightarrow>
     m * 2 ^ nat (e - min e f) \<le> n * 2 ^ nat (f - min e f)"
| "f64_le _ _ \<longleftrightarrow> False"

definition f64_is_finite :: "f64 \<Rightarrow> bool" where
  "f64_is_finite x \<longleftrightarrow> x \<noteq> NotFinite"

definition f64_one :: f64 where "f64_one = Finite 1 0"
definition f64_zero :: f64 where "f64_zero = Finite 0 0"

text \<open>The double nearest to \<open>0.001\<close>.\<close>

definition f64_millisecond :: f64 where
  "f64_millisecond = Finite 4611686018427388 (- 62)"

record float_lib =
  fl_mul :: "f64 \<Rightarrow> f64 \<Rightarrow> f64"
  fl_add :: "f64 \<Rightarrow> f64 \<Rightarrow> f64"
  fl_mul_add :: "f64 \<Rightarrow> f64 \<Rightarrow> f64 \<Rightarrow> f64"
  fl_powi :: "f64 \<Rightarrow> nat \<Rightarrow> f64"
  fl_min :: "f64 \<Rightarrow> f64 \<Rightarrow> f64"
  fl_max :: "f64 \<Rightarrow> f64 \<Rightarrow> f64"
  fl_as_secs :: "nat \<Rightarrow> f64"
  fl_from_secs :: "f64 \<Rightarrow> nat"

record BackoffPolicy =
  bp_initial_delay :: nat
  bp_maximum_delay :: nat
  bp_multiplier :: f64
  bp_jitter_fraction :: f64
  bp_maximum_attempts :: "32 word option"

definition BackoffPolicy_validate :: "BackoffPolicy \<Rightarrow> TransportError + unit" where
  "BackoffPolicy_validate p = reject_if
     (bp_initial_delay p = 0 \<or> bp_maximum_delay p < bp_initial_delay p \<or>
      \<not> f64_is_finite (bp_multiplier p) \<or> \<not> f64_le f64_one (bp_multiplier p) \<or>
      \<not> f64_is_finite (bp_jitter_fraction p) \<or>
      \<not> (f64_le f64_zero (bp_jitter_fraction p) \<and> f64_le (bp_jitter_fraction p) f64_one) \<or>
      bp_maximum_attempts p = Some 0)
     (InvalidConfiguration (lit ''invalid reconnect backoff policy''))"

definition delay_for ::
  "float_lib \<Rightarrow> BackoffPolicy \<Rightarrow> 32 word \<Rightarrow> f64 \<Rightarrow> TransportError + nat" where
  "delay_for F p attempt jitter_sample =
     and_then (BackoffPolicy_validate p) (\<lambda>_.
     and_then (reject_if (attempt = 0 \<or>
         \<not> (f64_le (Finite (- 1) 0) jitter_sample \<and> f64_le jitter_sample f64_one))
       (InvalidConfiguration
         (lit ''attempt must be positive and jitter sample must be between -1 and 1''))) (\<lambda>_.
     let exponent = min (unat attempt - 1) 63;
         base = fl_min F (fl_mul_add F (fl_as_secs F (bp_initial_delay p))
                  (fl_powi F (bp_multiplier p) exponent) f64_zero) (fl_as_secs F (bp_maximum_delay p));
         factor = fl_add F f64_one (fl_mul F (bp_jitter_fraction p) jitter_sample) in
     Ok (fl_from_secs F (fl_min F (fl_max F (fl_mul F base factor) f64_millisecond)
           (fl_as_secs F (bp_maximum_delay p))))))"

record ReconnectBackoff =
  rb_policy :: BackoffPolicy
  rb_attempts :: "32 word"

definition ReconnectBackoff_new :: "BackoffPolicy \<Rightarrow> TransportError + ReconnectBackoff" where
  "ReconnectBackoff_new policy =
     and_then (BackoffPolicy_validate policy) (\<lambda>_. Ok \<lparr>rb_policy = policy, rb_attempts = 0\<rparr>)"

definition next_delay ::
  "float_lib \<Rightarrow> f64 \<Rightarrow> ReconnectBackoff \<Rightarrow>
     (TransportError + (32 word \<times> nat) option) \<times> ReconnectBackoff" where
  "next_delay F jitter b =
     (if (case bp_maximum_attempts (rb_policy b) of Some maximum \<Rightarrow> rb_attempts b \<ge> maximum | None \<Rightarrow> False)
      then (Ok None, b)
      else let attempts = (if rb_attempts b = - 1 then - 1 else rb_attempts b + 1);
               b' = b\<lparr>rb_attempts := attempts\<rparr> in
        (and_then (delay_for F (rb_policy b) attempts jitter) (\<lambda>delay. Ok (Some (attempts, delay))), b'))"

definition backoff_reset :: "ReconnectBackoff \<Rightarrow> ReconnectBackoff" where
  "backoff_reset b = b\<lparr>rb_attempts := 0\<rparr>"

section \<open>Sockets\<close>

datatype Frame =
  TextFrame ustring
| BinaryFrame "nat list"
| PingFrame "nat list"
| PongFrame "nat list"
| CloseFrame "ustring option"
| RawFrame

datatype Next = NextTimeout | NextNone | NextError ustring | NextFrame Frame

datatype CloseOutcome = CloseTimedOut | CloseFailed ustring | CloseDone

datatype wire_event = Sent Frame | Got Frame

record socket =
  sk_log :: "wire_event list"
  sk_reads :: "Next list"
  sk_writes :: "(ustring + unit) list"
  sk_close :: CloseOutcome

definition new_socket :: "Next list \<Rightarrow> (ustring + unit) list \<Rightarrow> CloseOutcome \<Rightarrow> socket" where
  "new_socket reads writes c = \<lparr>sk_log = [], sk_reads = reads, sk_writes = writes, sk_close = c\<rparr>"

definition socket_next :: "socket \<Rightarrow> Next \<times> socket" where
  "socket_next k = (case sk_reads k of [] \<Rightarrow> (NextTimeout, k)
   | NextFrame f # es \<Rightarrow> (NextFrame f, k\<lparr>sk_log := sk_log k @ [Got f], sk_reads := es\<rparr>)
   | e # es \<Rightarrow> (e, k\<lparr>sk_reads := es\<rparr>))"

definition socket_send :: "Frame \<Rightarrow> socket \<Rightarrow> (ustring + unit) \<times> socket" where
  "socket_send f k = (case sk_writes k of
     [] \<Rightarrow> (Ok (), k\<lparr>sk_log := sk_log k @ [Sent f]\<rparr>)
   | Inr u # ws \<Rightarrow> (Ok (), k\<lparr>sk_log := sk_log k @ [Sent f], sk_writes := ws\<rparr>)
   | Inl e # ws \<Rightarrow> (Err e, k\<lparr>sk_writes := ws\<rparr>))"

section \<open>The transport\<close>

datatype ConnectionState =
  Disconnected | Connecting | Connected | BackingOff "32 word" nat | Closing

datatype ConnectOutcome = ConnectTimedOut | ConnectFailed ustring | ConnectDone "Next list" "(ustring + unit) list" CloseOutcome

record transport_env =
  te_serde :: serde
  te_base64 :: base64url
  te_floats :: float_lib
  te_from_utf8_error :: "nat list \<Rightarrow> ustring"
  te_response_to_string :: "GatewayAuthenticationResponse \<Rightarrow> ustring + ustring"
  te_auth_from_str :: "ustring \<Rightarrow> GatewayAuthenticationServerMessage option"
  te_into_request :: "ustring \<Rightarrow> ustring + unit"
  te_connect :: "nat \<Rightarrow> ConnectOutcome"
  te_jitter :: "nat \<Rightarrow> f64"
  te_cancelled :: "nat \<Rightarrow> bool"

record WebSocketTransport =
  tr_config :: TransportConfig
  tr_socket :: "socket option"
  tr_state :: ConnectionState
  tr_published :: ConnectionState
  tr_outbound :: "AgentMessage list"
  tr_authenticated :: bool
  tr_hello_sent :: bool
  tr_connects :: nat

type_synonym 'a transport = "(WebSocketTransport, TransportError, 'a) eff"

definition WebSocketTransport_new :: "TransportConfig \<Rightarrow> TransportError + WebSocketTransport" where
  "WebSocketTransport_new config = and_then (TransportConfig_validate config) (\<lambda>_. Ok
     \<lparr>tr_config = config, tr_socket = None, tr_state = Disconnected, tr_published = Disconnected,
      tr_outbound = [], tr_authenticated = False, tr_hello_sent = False, tr_connects = 0\<rparr>)"

definition set_state :: "ConnectionState \<Rightarrow> WebSocketTransport \<Rightarrow> WebSocketTransport" where
  "set_state st s = s\<lparr>tr_state := st, tr_published := st\<rparr>"

definition transport_disconnect :: "WebSocketTransport \<Rightarrow> WebSocketTransport" where
  "transport_disconnect s = set_state Disconnected
     (s\<lparr>tr_socket := None, tr_authenticated := False, tr_hello_sent := False\<rparr>)"

definition buffer :: "transport_env \<Rightarrow> AgentMessage \<Rightarrow> unit transport" where
  "buffer T message =
     ebind (elift (map_err Protocol (encode_agent_message (te_serde T) message))) (\<lambda>_ s.
       if is_agent_hello (am_kind message) then (Err HelloCannotBeBuffered, s)
       else if length (tr_outbound s) \<ge> tc_outbound_buffer_capacity (tr_config s)
       then (Err (OutboundBufferFull (tc_outbound_buffer_capacity (tr_config s))), s)
       else (Ok (), s\<lparr>tr_outbound := tr_outbound s @ [message]\<rparr>))"

definition buffered_len :: "WebSocketTransport \<Rightarrow> nat" where
  "buffered_len s = length (tr_outbound s)"

text \<open>A write on the active socket.\<close>

definition write_frame :: "Frame \<Rightarrow> unit transport" where
  "write_frame f s = (case tr_socket s of
     None \<Rightarrow> (Err NotConnected, s)
   | Some k \<Rightarrow> (case socket_send f k of (r, k') \<Rightarrow> (map_err WebSocket r, s\<lparr>tr_socket := Some k'\<rparr>)))"

definition encoded_text :: "transport_env \<Rightarrow> AgentMessage \<Rightarrow> TransportError + ustring" where
  "encoded_text T message =
     and_then (map_err Protocol (encode_agent_message (te_serde T) message)) (\<lambda>bytes.
       ok_or (ProtocolEncoding (te_from_utf8_error T bytes)) (utf8_decode bytes))"

definition send_encoded :: "transport_env \<Rightarrow> AgentMessage \<Rightarrow> unit transport" where
  "send_encoded T message = ebind (elift (encoded_text T message)) (\<lambda>t. write_frame (TextFrame t))"

lemma write_frame_outbound: "write_frame f s = (r, s') \<Longrightarrow> tr_outbound s' = tr_outbound s"
  by (auto simp: write_frame_def split: option.splits prod.splits)

lemma send_encoded_outbound: "send_encoded T m s = (r, s') \<Longrightarrow> tr_outbound s' = tr_outbound s"
  by (cases r) (auto simp: send_encoded_def ebind_Ok ebind_Err dest: write_frame_outbound)

function flush_buffer :: "transport_env \<Rightarrow> unit transport" where
  "flush_buffer T s = (case tr_outbound s of
     [] \<Rightarrow> (Ok (), s)
   | message # _ \<Rightarrow> (case send_encoded T message s of
       (Inl e, s1) \<Rightarrow> (Inl e, s1)
     | (Inr _, s1) \<Rightarrow> flush_buffer T (s1\<lparr>tr_outbound := tl (tr_outbound s1)\<rparr>)))"
  by pat_completeness auto
termination
  by (relation "measure (\<lambda>(T, s). length (tr_outbound s))") (auto dest: send_encoded_outbound [OF sym])

declare flush_buffer.simps [simp del]

text \<open>
  The next frame of the socket under the idle deadline; every failure drops the connection.
\<close>

definition next_frame :: "Frame transport" where
  "next_frame s = (case tr_socket s of
     None \<Rightarrow> (Err NotConnected, s)
   | Some k \<Rightarrow> (case socket_next k of
       (NextTimeout, k') \<Rightarrow> (Err (IdleTimeout (tc_idle_timeout (tr_config s))), transport_disconnect s)
     | (NextNone, k') \<Rightarrow> (Err (Closed None), transport_disconnect s)
     | (NextError e, k') \<Rightarrow> (Err (WebSocket e), transport_disconnect s)
     | (NextFrame f, k') \<Rightarrow> (Ok f, s\<lparr>tr_socket := Some k'\<rparr>)))"

definition pending_reads :: "WebSocketTransport \<Rightarrow> nat" where
  "pending_reads s = (case tr_socket s of None \<Rightarrow> 0 | Some k \<Rightarrow> length (sk_reads k))"

lemma next_frame_reads: "next_frame s = (Inr f, s') \<Longrightarrow> pending_reads s' < pending_reads s"
  by (auto simp: next_frame_def socket_next_def pending_reads_def
      split: option.splits list.splits Next.splits prod.splits)

lemma write_frame_reads: "write_frame f s = (r, s') \<Longrightarrow> pending_reads s' = pending_reads s"
  by (auto simp: write_frame_def socket_send_def pending_reads_def
      split: option.splits list.splits sum.splits prod.splits)

function receive_text_frame :: "ustring transport" where
  "receive_text_frame s = (case next_frame s of
     (Inl e, s1) \<Rightarrow> (Inl e, s1)
   | (Inr frame, s1) \<Rightarrow> (case frame of
       TextFrame t \<Rightarrow> (Ok t, s1)
     | BinaryFrame _ \<Rightarrow> (Err (UnexpectedFrame (lit ''binary'')), transport_disconnect s1)
     | PingFrame payload \<Rightarrow> (case write_frame (PongFrame payload) s1 of
         (Inl e, s2) \<Rightarrow> (Inl e, if e = NotConnected then s2 else transport_disconnect s2)
       | (Inr _, s2) \<Rightarrow> receive_text_frame s2)
     | PongFrame _ \<Rightarrow> receive_text_frame s1
     | CloseFrame reason \<Rightarrow> (Err (Closed (map_option (take 500) reason)), transport_disconnect s1)
     | RawFrame \<Rightarrow> receive_text_frame s1))"
  by pat_completeness auto
termination
  by (relation "measure pending_reads")
    (auto dest!: next_frame_reads [OF sym] write_frame_reads [OF sym])

declare receive_text_frame.simps [simp del]

section \<open>The operations of the transport trait\<close>

definition transport_connect :: "transport_env \<Rightarrow> unit transport" where
  "transport_connect T s =
     (if tr_socket s \<noteq> None then (Err AlreadyConnected, s)
      else case te_into_request T (u_as_str (tc_endpoint (tr_config s))) of
        Inl e \<Rightarrow> (Err (InvalidConfiguration e), s)
      | Inr _ \<Rightarrow>
          (let s1 = (set_state Connecting s)\<lparr>tr_connects := Suc (tr_connects s)\<rparr> in
           case te_connect T (tr_connects s) of
             ConnectTimedOut \<Rightarrow>
               (Err (ConnectTimeout (tc_connect_timeout (tr_config s))), set_state Disconnected s1)
           | ConnectFailed e \<Rightarrow> (Err (WebSocket e), set_state Disconnected s1)
           | ConnectDone reads writes c \<Rightarrow> (Ok (), set_state Connected
               (s1\<lparr>tr_socket := Some (new_socket reads writes c), tr_authenticated := False, tr_hello_sent := False\<rparr>))))"

definition send_authentication_response ::
  "transport_env \<Rightarrow> GatewayAuthenticationResponse \<Rightarrow> unit transport" where
  "send_authentication_response T response s =
     (if tr_state s \<noteq> Connected then (Err NotConnected, s)
      else if tr_authenticated s \<or> tr_hello_sent s \<or> gp_message_type response \<noteq> lit ''auth.response''
      then (Err UnexpectedAuthenticationMessage, s)
      else ebind (elift (map_err (\<lambda>_. UnexpectedAuthenticationMessage)
          (Response_validate (te_base64 T) response))) (\<lambda>_.
        ebind (elift (map_err ProtocolEncoding (te_response_to_string T response))) (\<lambda>encoded.
        if byte_len encoded > MAX_AUTH_MESSAGE_BYTES
        then elift (Err UnexpectedAuthenticationMessage)
        else write_frame (TextFrame encoded))) s)"

text \<open>The final match of \<open>receive_authentication\<close>.\<close>

definition accept_authentication ::
  "GatewayAuthenticationServerMessage \<Rightarrow> GatewayAuthenticationServerMessage transport" where
  "accept_authentication message s = (case message of
     Challenge c \<Rightarrow> if gc_message_type c = lit ''auth.challenge'' then (Ok message, s)
       else (Err UnexpectedAuthenticationMessage, s)
   | Accepted a \<Rightarrow> if ga_message_type a = lit ''auth.accepted''
       then (Ok message, s\<lparr>tr_authenticated := True\<rparr>)
       else (Err UnexpectedAuthenticationMessage, s)
   | Rejected r \<Rightarrow> if gr_message_type r = lit ''auth.rejected''
       then (Err (AuthenticationRejected (gr_code r)), s)
       else (Err UnexpectedAuthenticationMessage, s))"

definition receive_authentication ::
  "transport_env \<Rightarrow> GatewayAuthenticationServerMessage transport" where
  "receive_authentication T s =
     (if tr_state s \<noteq> Connected \<or> tr_authenticated s \<or> tr_hello_sent s
      then (Err UnexpectedAuthenticationMessage, s)
      else ebind receive_text_frame (\<lambda>t.
        if byte_len t > MAX_AUTH_MESSAGE_BYTES then elift (Err UnexpectedAuthenticationMessage)
        else ebind (elift (ok_or UnexpectedAuthenticationMessage (te_auth_from_str T t))) (\<lambda>message.
          ebind (elift (map_err (\<lambda>_. UnexpectedAuthenticationMessage)
            (GatewayAuthentication_validate (te_base64 T) message))) (\<lambda>_.
            accept_authentication message))) s)"

definition transport_send :: "transport_env \<Rightarrow> AgentMessage \<Rightarrow> unit transport" where
  "transport_send T message s =
     (let is_hello = is_agent_hello (am_kind message) in
      if tr_state s \<noteq> Connected then (Err NotConnected, s)
      else if \<not> tr_authenticated s then (Err AuthenticationRequired, s)
      else if \<not> tr_hello_sent s \<and> \<not> is_hello then (Err HelloRequired, s)
      else if tr_hello_sent s \<and> is_hello then (Err HelloAlreadySent, s)
      else
        let (result, s1) = (case send_encoded T message s of
              (Inr _, s1) \<Rightarrow> if is_hello then flush_buffer T (s1\<lparr>tr_hello_sent := True\<rparr>) else (Ok (), s1)
            | (Inl e, s1) \<Rightarrow> (Err e, s1)) in
        (result, if is_ok result then s1 else transport_disconnect s1))"

definition transport_receive :: "transport_env \<Rightarrow> ServerMessage transport" where
  "transport_receive T s =
     (if tr_state s \<noteq> Connected then (Err NotConnected, s)
      else if \<not> tr_authenticated s then (Err AuthenticationRequired, s)
      else if \<not> tr_hello_sent s then (Err HelloRequired, s)
      else ebind receive_text_frame (\<lambda>t s1.
        (case decode_server_message (te_serde T) (utf8_bytes t) of
           Inr message \<Rightarrow> (Ok message, s1)
         | Inl e \<Rightarrow> (Err (Protocol e), transport_disconnect s1))) s)"

definition transport_close :: "unit transport" where
  "transport_close s = (case tr_socket s of
     None \<Rightarrow> (Ok (), set_state Disconnected (s\<lparr>tr_authenticated := False, tr_hello_sent := False\<rparr>))
   | Some k \<Rightarrow>
       (let s1 = set_state Closing (s\<lparr>tr_socket := None\<rparr>);
            s2 = set_state Disconnected (s1\<lparr>tr_authenticated := False, tr_hello_sent := False\<rparr>) in
        (case sk_close k of
           CloseTimedOut \<Rightarrow> Err (CloseTimeout (tc_connect_timeout (tr_config s)))
         | CloseFailed e \<Rightarrow> Err (WebSocket e)
         | CloseDone \<Rightarrow> Ok (), s2)))"

section \<open>Reconnecting\<close>

text \<open>
  The loop may run for ever without an attempt limit: it takes the number of iterations it may make
  and returns \<open>None\<close> when they do not suffice. The cancellation token and the jitter are readings,
  numbered by the connection attempts made.
\<close>

fun connect_with_backoff ::
  "nat \<Rightarrow> transport_env \<Rightarrow> WebSocketTransport \<times> ReconnectBackoff \<Rightarrow>
     ((TransportError + unit) \<times> WebSocketTransport \<times> ReconnectBackoff) option" where
  "connect_with_backoff 0 T (s, b) = None"
| "connect_with_backoff (Suc fuel) T (s, b) = (case transport_connect T s of
     (Inr _, s1) \<Rightarrow> Some (Ok (), s1, backoff_reset b)
   | (Inl e, s1) \<Rightarrow>
       if \<not> is_retryable e then Some (Err e, s1, b)
       else (case next_delay (te_floats T) (te_jitter T (tr_connects s1)) b of
           (Inl e', b1) \<Rightarrow> Some (Err e', s1, b1)
         | (Inr None, b1) \<Rightarrow> Some (Err e, s1, b1)
         | (Inr (Some (attempt, delay)), b1) \<Rightarrow>
             (let s2 = set_state (BackingOff attempt delay) s1 in
              if te_cancelled T (tr_connects s1)
              then Some (Err TransportCancelled, set_state Disconnected s2, b1)
              else connect_with_backoff fuel T (s2, b1))))"

end
