(* ===== verification/Transport_Laws.thy ===== *)
theory Transport_Laws
  imports Transport
begin

text \<open>
  The transport implements a session automaton: on every socket the frames written and read follow
  the phases challenged, admitted, established. The invariant, its preservation by each operation,
  and the lemmas on the reconnection loop.
\<close>

section \<open>The session automaton\<close>

datatype phase = Challenged | Admitted | Established

definition auth_text :: "transport_env \<Rightarrow> ustring \<Rightarrow> bool" where
  "auth_text T t \<longleftrightarrow> (\<exists>r. Response_validate (te_base64 T) r = Ok () \<and> te_response_to_string T r = Ok t)"

definition accepting_text :: "transport_env \<Rightarrow> ustring \<Rightarrow> bool" where
  "accepting_text T t \<longleftrightarrow> byte_len t \<le> MAX_AUTH_MESSAGE_BYTES \<and>
     (\<exists>a. te_auth_from_str T t = Some (Accepted a) \<and> Accepted_validate a = Ok ())"

definition message_text :: "transport_env \<Rightarrow> bool \<Rightarrow> ustring \<Rightarrow> bool" where
  "message_text T hello t \<longleftrightarrow> (\<exists>m. encoded_text T m = Ok t \<and> is_agent_hello (am_kind m) = hello)"

inductive session_step :: "transport_env \<Rightarrow> phase \<Rightarrow> wire_event \<Rightarrow> phase \<Rightarrow> bool" for T where
  prove: "auth_text T t \<Longrightarrow> session_step T Challenged (Sent (TextFrame t)) Challenged"
| admit: "accepting_text T t \<Longrightarrow> session_step T Challenged (Got (TextFrame t)) Admitted"
| other: "\<not> accepting_text T t \<Longrightarrow> session_step T Challenged (Got (TextFrame t)) Challenged"
| hello: "message_text T True t \<Longrightarrow> session_step T Admitted (Sent (TextFrame t)) Established"
| event: "message_text T False t \<Longrightarrow> session_step T Established (Sent (TextFrame t)) Established"
| command: "session_step T Established (Got (TextFrame t)) Established"
| control: "\<forall>t. f \<noteq> TextFrame t \<Longrightarrow> session_step T p (Got f) p"
| pong: "session_step T p (Sent (PongFrame x)) p"

inductive session :: "transport_env \<Rightarrow> wire_event list \<Rightarrow> phase \<Rightarrow> bool" for T where
  start: "session T [] Challenged"
| extend: "session T es p \<Longrightarrow> session_step T p e q \<Longrightarrow> session T (es @ [e]) q"


text \<open>The payloads of the pings read, and those of the pongs written.\<close>

fun pings :: "wire_event list \<Rightarrow> nat list list" where
  "pings [] = []"
| "pings (Got (PingFrame x) # es) = x # pings es"
| "pings (_ # es) = pings es"

fun pongs :: "wire_event list \<Rightarrow> nat list list" where
  "pongs [] = []"
| "pongs (Sent (PongFrame x) # es) = x # pongs es"
| "pongs (_ # es) = pongs es"

lemma pings_append [simp]: "pings (es @ fs) = pings es @ pings fs"
  by (induction es rule: pings.induct) auto

lemma pongs_append [simp]: "pongs (es @ fs) = pongs es @ pongs fs"
  by (induction es rule: pongs.induct) auto

section \<open>The invariant\<close>

definition phase_of :: "WebSocketTransport \<Rightarrow> phase" where
  "phase_of s = (if tr_hello_sent s then Established else if tr_authenticated s then Admitted
     else Challenged)"

definition buffered :: "transport_env \<Rightarrow> AgentMessage \<Rightarrow> bool" where
  "buffered T m \<longleftrightarrow> \<not> is_agent_hello (am_kind m) \<and> is_ok (encode_agent_message (te_serde T) m)"

definition base_ok :: "transport_env \<Rightarrow> WebSocketTransport \<Rightarrow> bool" where
  "base_ok T s \<longleftrightarrow> (tr_state s = Connected \<longleftrightarrow> tr_socket s \<noteq> None) \<and>
     (tr_authenticated s \<longrightarrow> tr_socket s \<noteq> None) \<and> (tr_hello_sent s \<longrightarrow> tr_authenticated s) \<and>
     tr_published s = tr_state s \<and>
     length (tr_outbound s) \<le> tc_outbound_buffer_capacity (tr_config s) \<and>
     list_all (buffered T) (tr_outbound s)"

definition session_ok :: "transport_env \<Rightarrow> phase \<Rightarrow> WebSocketTransport \<Rightarrow> bool" where
  "session_ok T p s \<longleftrightarrow> (case tr_socket s of None \<Rightarrow> True
     | Some k \<Rightarrow> session T (sk_log k) p \<and> pongs (sk_log k) = pings (sk_log k))"

definition transport_ok :: "transport_env \<Rightarrow> WebSocketTransport \<Rightarrow> bool" where
  "transport_ok T s \<longleftrightarrow> base_ok T s \<and> session_ok T (phase_of s) s"

lemma transport_ok_disconnect [intro]:
  "base_ok T s \<Longrightarrow> transport_ok T (transport_disconnect s)"
  by (simp add: transport_ok_def base_ok_def session_ok_def transport_disconnect_def set_state_def)

lemma write_frame_base: "write_frame f s = (r, s') \<Longrightarrow> base_ok T s \<Longrightarrow> base_ok T s'"
  by (auto simp: write_frame_def base_ok_def split: option.splits prod.splits)

lemma write_frame_phase [simp]:
  "write_frame f s = (r, s') \<Longrightarrow> tr_authenticated s' = tr_authenticated s \<and>
     tr_hello_sent s' = tr_hello_sent s \<and> phase_of s' = phase_of s \<and> tr_config s' = tr_config s \<and>
     tr_connects s' = tr_connects s \<and> tr_state s' = tr_state s"
  by (auto simp: write_frame_def phase_of_def split: option.splits prod.splits)

lemma write_text_session:
  assumes "write_frame (TextFrame t) s = (r, s')" "session_ok T p s"
    and "session_step T p (Sent (TextFrame t)) q"
  shows "session_ok T (if is_ok r then q else p) s'"
proof (cases "tr_socket s")
  case (Some k)
  then have "session T (sk_log k @ [Sent (TextFrame t)]) q"
    using assms(2,3) by (auto simp: session_ok_def intro: session.extend)
  then show ?thesis using assms Some
    by (auto simp: write_frame_def socket_send_def session_ok_def
        split: list.splits sum.splits prod.splits)
qed (use assms in \<open>auto simp: write_frame_def session_ok_def\<close>)


section \<open>Reading frames\<close>

text \<open>
  What reading text leaves behind: on success the frame is the last entry of the log, on failure the
  transport is as sound as before.
\<close>

definition read_text :: "transport_env \<Rightarrow> phase \<Rightarrow> ustring \<Rightarrow> WebSocketTransport \<Rightarrow> bool" where
  "read_text T p t s \<longleftrightarrow> (\<exists>k es. tr_socket s = Some k \<and> sk_log k = es @ [Got (TextFrame t)] \<and>
     session T es p \<and> pongs es = pings es)"

definition same_flags :: "WebSocketTransport \<Rightarrow> WebSocketTransport \<Rightarrow> bool" where
  "same_flags s s' \<longleftrightarrow> tr_authenticated s' = tr_authenticated s \<and> tr_hello_sent s' = tr_hello_sent s \<and>
     tr_config s' = tr_config s \<and> tr_outbound s' = tr_outbound s \<and> tr_state s' = tr_state s"

lemma next_frame_cases:
  assumes "next_frame s = (r, s')"
  obtains e where "r = Err e" "s' = transport_disconnect s \<or> s' = s \<and> tr_socket s = None"
  | f k rest where "r = Ok f" "tr_socket s = Some k"
      "s' = s\<lparr>tr_socket := Some (k\<lparr>sk_log := sk_log k @ [Got f], sk_reads := rest\<rparr>)\<rparr>"
proof (cases "tr_socket s")
  case None
  then show ?thesis using assms that(1) by (auto simp: next_frame_def)
next
  case (Some k)
  show ?thesis
  proof (cases "sk_reads k")
    case Nil
    then show ?thesis using assms that(1) Some by (auto simp: next_frame_def socket_next_def)
  next
    case (Cons e es)
    then show ?thesis using assms that Some
      by (cases e) (auto simp: next_frame_def socket_next_def)
  qed
qed

text \<open>A ping is answered before anything else is read, or the connection is dropped.\<close>

lemma answer_ping:
  assumes "base_ok T s" "session_ok T p s" "tr_socket s = Some k"
    and s1: "s1 = s\<lparr>tr_socket := Some (k\<lparr>sk_log := sk_log k @ [Got (PingFrame x)], sk_reads := rest\<rparr>)\<rparr>"
    and wr: "write_frame (PongFrame x) s1 = (w, s2)"
  shows "base_ok T s2 \<and> same_flags s s2 \<and> tr_socket s2 \<noteq> None \<and> w \<noteq> Err NotConnected \<and>
    (is_ok w \<longrightarrow> session_ok T p s2)"
proof -
  have "base_ok T s1" using assms(1,3) s1 by (simp add: base_ok_def)
  then have "base_ok T s2" by (rule write_frame_base [OF wr])
  moreover have "session T ((sk_log k @ [Got (PingFrame x)]) @ [Sent (PongFrame x)]) p"
    using assms(2,3)
    by (auto simp: session_ok_def simp del: append_assoc
        intro!: session.extend [OF _ session_step.pong] session.extend [OF _ session_step.control])
  moreover have "pongs (sk_log k) = pings (sk_log k)" using assms(2,3) by (simp add: session_ok_def)
  ultimately show ?thesis using wr s1
    by (auto simp: write_frame_def socket_send_def session_ok_def same_flags_def
        split: list.splits sum.splits)
qed

lemma receive_text_frame_ok:
  assumes "receive_text_frame s = (r, s')" "base_ok T s" "session_ok T p s" "tr_socket s \<noteq> None"
  shows "(\<exists>e. r = Err e \<and> transport_ok T s') \<or>
         (\<exists>t. r = Ok t \<and> base_ok T s' \<and> same_flags s s' \<and> read_text T p t s')"
  using assms
proof (induction s arbitrary: r s' rule: receive_text_frame.induct)
  case (1 s)
  obtain x s1 where next_eq: "next_frame s = (x, s1)" by (cases "next_frame s")
  note unfold = receive_text_frame.simps [of s]
  show ?case using next_eq
  proof (cases rule: next_frame_cases)
    case (1 e)
    then show ?thesis using "1.prems" next_eq by (auto simp: unfold)
  next
    case (2 f k rest)
    have base: "base_ok T s1" and flags: "same_flags s s1" and sock: "tr_socket s1 \<noteq> None"
      using "1.prems"(2) 2 by (auto simp: base_ok_def same_flags_def)
    have log: "session T (sk_log k) p" "pongs (sk_log k) = pings (sk_log k)"
      using "1.prems"(3) 2 by (auto simp: session_ok_def)
    have plain: "session_ok T p s1" if "\<forall>t. f \<noteq> TextFrame t" "\<forall>x. f \<noteq> PingFrame x"
      using that log 2 by (cases f) (auto simp: session_ok_def intro: session.extend session_step.control)
    show ?thesis
    proof (cases f)
      case (PingFrame x)
      obtain w s2 where wr: "write_frame (PongFrame x) s1 = (w, s2)"
        by (cases "write_frame (PongFrame x) s1")
      have after: "base_ok T s2 \<and> same_flags s s2 \<and> tr_socket s2 \<noteq> None \<and> w \<noteq> Err NotConnected \<and>
          (is_ok w \<longrightarrow> session_ok T p s2)"
        using 2 PingFrame by (intro answer_ping [OF "1.prems"(2,3) 2(2) _ wr]) simp
      show ?thesis
      proof (cases w)
        case (Inl e)
        then show ?thesis using "1.prems" next_eq 2 PingFrame wr after by (auto simp: unfold)
      next
        case (Inr u)
        then have "receive_text_frame s2 = (r, s')"
          using "1.prems"(1) next_eq 2 PingFrame wr by (simp add: unfold)
        then show ?thesis
          using "1.IH"(1) [of "Inr f" s1 f x "Inr u" s2 u r s']
            next_eq 2 PingFrame wr Inr after
          by (auto simp: same_flags_def)
      qed
    next
      case (PongFrame x)
      then have "receive_text_frame s1 = (r, s')" using "1.prems"(1) next_eq 2 by (simp add: unfold)
      then show ?thesis
        using "1.IH"(2) [of "Inr f" s1 f x r s'] next_eq 2 PongFrame base plain sock flags
        by (auto simp: same_flags_def)
    next
      case RawFrame
      then have "receive_text_frame s1 = (r, s')" using "1.prems"(1) next_eq 2 by (simp add: unfold)
      then show ?thesis
        using "1.IH"(3) [of "Inr f" s1 f r s'] next_eq 2 RawFrame base plain sock flags
        by (auto simp: same_flags_def)
    qed (use "1.prems" next_eq 2 base flags log in \<open>auto simp: unfold read_text_def\<close>)
  qed
qed


section \<open>Writing messages\<close>

lemma write_frame_flags: "write_frame f s = (r, s') \<Longrightarrow> same_flags s s'"
  by (auto simp: same_flags_def write_frame_phase write_frame_outbound)

lemma send_encoded_ok:
  assumes "send_encoded T m s = (r, s')" "base_ok T s" "session_ok T p s"
    and step: "\<And>t. encoded_text T m = Ok t \<Longrightarrow> session_step T p (Sent (TextFrame t)) q"
  shows "base_ok T s' \<and> same_flags s s' \<and> session_ok T (if is_ok r then q else p) s'"
proof (cases "encoded_text T m")
  case (Inl e)
  then show ?thesis using assms(1-3) by (auto simp: send_encoded_def ebind_def elift_def same_flags_def)
next
  case (Inr t)
  then have wr: "write_frame (TextFrame t) s = (r, s')"
    using assms(1) by (simp add: send_encoded_def ebind_def elift_def)
  then show ?thesis
    using write_frame_base [OF wr assms(2)] write_frame_flags [OF wr]
      write_text_session [OF wr assms(3) step [OF Inr]] by blast
qed

text \<open>The buffer is written in order; what was not written is still in it.\<close>

lemma flush_buffer_ok:
  assumes "flush_buffer T s = (r, s')" "base_ok T s" "session_ok T Established s"
  shows "base_ok T s' \<and> session_ok T Established s' \<and> tr_hello_sent s' = tr_hello_sent s \<and>
    tr_authenticated s' = tr_authenticated s"
  using assms
proof (induction T s arbitrary: r s' rule: flush_buffer.induct)
  case (1 T s)
  note unfold = flush_buffer.simps [of T s]
  show ?case
  proof (cases "tr_outbound s")
    case Nil
    then show ?thesis using "1.prems" by (simp add: unfold)
  next
    case (Cons m ms)
    obtain x s1 where send: "send_encoded T m s = (x, s1)" by (cases "send_encoded T m s")
    have "\<not> is_agent_hello (am_kind m)" using "1.prems"(2) Cons by (simp add: base_ok_def buffered_def)
    then have step: "\<And>t. encoded_text T m = Ok t \<Longrightarrow>
        session_step T Established (Sent (TextFrame t)) Established"
      by (auto intro!: session_step.event simp: message_text_def)
    have s1: "base_ok T s1 \<and> same_flags s s1 \<and> session_ok T Established s1"
      using send_encoded_ok [OF send "1.prems"(2,3) step] by (simp split: if_splits)
    show ?thesis
    proof (cases x)
      case (Inl e)
      then show ?thesis using "1.prems"(1) Cons send s1 by (auto simp: unfold same_flags_def)
    next
      case (Inr u)
      let ?s2 = "s1\<lparr>tr_outbound := tl (tr_outbound s1)\<rparr>"
      have "tr_outbound s1 = m # ms" using send_encoded_outbound [OF send] Cons by simp
      then have "base_ok T ?s2" "session_ok T Established ?s2"
        using s1 by (auto simp: base_ok_def session_ok_def)
      moreover have "flush_buffer T ?s2 = (r, s')" using "1.prems"(1) Cons send Inr by (simp add: unfold)
      ultimately show ?thesis
        using "1.IH" [of m ms x s1 u r s'] Cons send Inr s1 by (auto simp: same_flags_def)
    qed
  qed
qed

text \<open>The frames of a socket, \<open>[]\<close> when there is none.\<close>

definition wire_log :: "WebSocketTransport \<Rightarrow> wire_event list" where
  "wire_log s = (case tr_socket s of None \<Rightarrow> [] | Some k \<Rightarrow> sk_log k)"

definition sent_messages :: "transport_env \<Rightarrow> AgentMessage list \<Rightarrow> wire_event list" where
  "sent_messages T ms = map (\<lambda>m. Sent (TextFrame (projr (encoded_text T m)))) ms"

lemma send_encoded_log:
  assumes "send_encoded T m s = (r, s')" "tr_socket s \<noteq> None"
  shows "tr_socket s' \<noteq> None \<and> wire_log s' = wire_log s @ (if is_ok r then sent_messages T [m] else [])"
proof (cases "encoded_text T m")
  case (Inl e)
  then show ?thesis using assms by (auto simp: send_encoded_def ebind_def elift_def)
next
  case (Inr t)
  then have wr: "write_frame (TextFrame t) s = (r, s')"
    using assms(1) by (simp add: send_encoded_def ebind_def elift_def)
  obtain k where k: "tr_socket s = Some k" using assms(2) by blast
  obtain x k' where x: "socket_send (TextFrame t) k = (x, k')" by (cases "socket_send (TextFrame t) k")
  then have "sk_log k' = sk_log k @ (if is_ok x then [Sent (TextFrame t)] else [])"
    by (auto simp: socket_send_def split: list.splits sum.splits)
  then show ?thesis using wr k x Inr
    by (cases x) (auto simp: write_frame_def wire_log_def sent_messages_def)
qed

lemma flush_buffer_order:
  assumes "flush_buffer T s = (r, s')" "tr_socket s \<noteq> None"
  shows "\<exists>n. wire_log s' = wire_log s @ sent_messages T (take n (tr_outbound s)) \<and>
    tr_outbound s' = drop n (tr_outbound s) \<and> (is_ok r \<longrightarrow> tr_outbound s' = []) \<and> tr_socket s' \<noteq> None"
  using assms
proof (induction T s arbitrary: r s' rule: flush_buffer.induct)
  case (1 T s)
  note unfold = flush_buffer.simps [of T s]
  show ?case
  proof (cases "tr_outbound s")
    case Nil
    then show ?thesis using "1.prems" by (auto simp: unfold sent_messages_def)
  next
    case (Cons m ms)
    obtain x s1 where send: "send_encoded T m s = (x, s1)" by (cases "send_encoded T m s")
    note log = send_encoded_log [OF send "1.prems"(2)]
    have out: "tr_outbound s1 = m # ms" using send_encoded_outbound [OF send] Cons by simp
    show ?thesis
    proof (cases x)
      case (Inl e)
      then show ?thesis using "1.prems"(1) Cons send log out
        by (auto simp: unfold sent_messages_def intro!: exI [of _ 0])
    next
      case (Inr u)
      let ?s2 = "s1\<lparr>tr_outbound := tl (tr_outbound s1)\<rparr>"
      have "flush_buffer T ?s2 = (r, s')" using "1.prems"(1) Cons send Inr by (simp add: unfold)
      then obtain n where n: "wire_log s' = wire_log ?s2 @ sent_messages T (take n ms)"
          "tr_outbound s' = drop n ms" "is_ok r \<longrightarrow> tr_outbound s' = []" "tr_socket s' \<noteq> None"
        using "1.IH" [of m ms x s1 u r s'] Cons send Inr log out by auto
      then show ?thesis using log Inr Cons
        by (intro exI [of _ "Suc n"]) (auto simp: sent_messages_def wire_log_def)
    qed
  qed
qed


section \<open>Every operation preserves the invariant\<close>

named_theorems transport_keeps \<open>operations that preserve the invariant of the transport\<close>

lemma new_keeps: "WebSocketTransport_new c = Ok s \<Longrightarrow> transport_ok T s"
  by (auto simp: WebSocketTransport_new_def and_then_Ok transport_ok_def base_ok_def session_ok_def)

lemma phase_flags: "same_flags s s' \<Longrightarrow> phase_of s' = phase_of s"
  by (simp add: same_flags_def phase_of_def)

lemma transport_ok_flags:
  "base_ok T s' \<Longrightarrow> session_ok T (phase_of s) s' \<Longrightarrow> same_flags s s' \<Longrightarrow> transport_ok T s'"
  using phase_flags [of s s'] by (simp add: transport_ok_def)

lemma set_state_keeps:
  "transport_ok T s \<Longrightarrow> tr_socket s = None \<Longrightarrow> st \<noteq> Connected \<Longrightarrow> transport_ok T (set_state st s)"
  by (auto simp: transport_ok_def base_ok_def session_ok_def set_state_def)

lemma buffer_keeps [transport_keeps]:
  "buffer T m s = (r, s') \<Longrightarrow> transport_ok T s \<Longrightarrow> transport_ok T s'"
  by (auto simp: buffer_def ebind_def elift_def transport_ok_def base_ok_def session_ok_def phase_of_def
      buffered_def is_ok_iff split: sum.splits if_splits)

lemma connect_keeps [transport_keeps]:
  "transport_connect T s = (r, s') \<Longrightarrow> transport_ok T s \<Longrightarrow> transport_ok T s'"
  by (auto simp: transport_connect_def transport_ok_def base_ok_def session_ok_def phase_of_def Let_def
      set_state_def new_socket_def intro: session.start split: sum.splits if_splits ConnectOutcome.splits)

lemma send_authentication_response_keeps [transport_keeps]:
  assumes "send_authentication_response T a s = (r, s')" "transport_ok T s"
  shows "transport_ok T s'"
proof (cases "s' = s")
  case False
  then obtain t where t: "Response_validate (te_base64 T) a = Ok ()" "te_response_to_string T a = Ok t"
      "write_frame (TextFrame t) s = (r, s')" and ph: "phase_of s = Challenged"
    using assms(1) by (auto simp: send_authentication_response_def ebind_def elift_def phase_of_def
        split: if_splits sum.splits)
  have base: "base_ok T s" "session_ok T Challenged s" using assms(2) ph by (auto simp: transport_ok_def)
  have step: "session_step T Challenged (Sent (TextFrame t)) Challenged"
    using t(1,2) by (auto intro!: session_step.prove simp: auth_text_def)
  have "session_ok T Challenged s'" using write_text_session [OF t(3) base(2) step] by (simp split: if_splits)
  then show ?thesis
    using transport_ok_flags [OF write_frame_base [OF t(3) base(1)] _ write_frame_flags [OF t(3)]] ph by simp
qed (use assms in simp)

text \<open>A text frame read before the acceptance, and what becomes of it.\<close>

lemma read_text_session:
  "read_text T p t s \<Longrightarrow> session_step T p (Got (TextFrame t)) q \<Longrightarrow> session_ok T q s"
  by (auto simp: read_text_def session_ok_def intro: session.extend)

lemma accept_authentication_step:
  assumes "accept_authentication m s = (r, s')"
  shows "s' = s \<or> (\<exists>a. m = Accepted a \<and> s' = s\<lparr>tr_authenticated := True\<rparr>)"
  using assms by (auto simp: accept_authentication_def split: GatewayAuthenticationServerMessage.splits if_splits)

lemma accept_authentication_accepts:
  "accept_authentication (Accepted a) s = (r, s') \<Longrightarrow> Accepted_validate a = Ok () \<Longrightarrow>
    s' = s\<lparr>tr_authenticated := True\<rparr>"
  using Accepted_validate_type [of a "()"] by (simp add: accept_authentication_def split: if_splits)

lemma challenged_read:
  assumes "read_text T Challenged t s" "base_ok T s" "phase_of s = Challenged"
  shows "if accepting_text T t then transport_ok T (s\<lparr>tr_authenticated := True\<rparr>) else transport_ok T s"
proof -
  have flags: "\<not> tr_authenticated s" "\<not> tr_hello_sent s" using assms(3) by (auto simp: phase_of_def split: if_splits)
  have "tr_socket s \<noteq> None" using assms(1) by (auto simp: read_text_def)
  then show ?thesis
    using flags assms read_text_session [OF assms(1) session_step.admit] read_text_session [OF assms(1) session_step.other]
    by (auto simp: transport_ok_def base_ok_def session_ok_def phase_of_def)
qed

lemma receive_authentication_keeps [transport_keeps]:
  assumes "receive_authentication T s = (r, s')" "transport_ok T s"
  shows "transport_ok T s'"
proof (cases "tr_state s \<noteq> Connected \<or> tr_authenticated s \<or> tr_hello_sent s")
  case True
  then show ?thesis using assms by (simp add: receive_authentication_def)
next
  case False
  then have ph: "phase_of s = Challenged" and sock: "tr_socket s \<noteq> None"
    using assms(2) by (auto simp: phase_of_def transport_ok_def base_ok_def)
  obtain x s1 where rd: "receive_text_frame s = (x, s1)" by (cases "receive_text_frame s")
  have "base_ok T s" "session_ok T Challenged s" using assms(2) ph by (auto simp: transport_ok_def)
  note read = receive_text_frame_ok [OF rd this sock]
  show ?thesis
  proof (cases x)
    case (Inl e)
    then show ?thesis using assms(1) False rd read by (auto simp: receive_authentication_def ebind_def)
  next
    case (Inr t)
    with read have s1: "base_ok T s1" "same_flags s s1" "read_text T Challenged t s1" by auto
    have "phase_of s1 = Challenged" using phase_flags [OF s1(2)] ph by simp
    note ok = challenged_read [OF s1(3,1) this]
    let ?m = "te_auth_from_str T t"
    show ?thesis
    proof (cases "accepting_text T t")
      case True
      then obtain a where a: "?m = Some (Accepted a)" "Accepted_validate a = Ok ()" "byte_len t \<le> MAX_AUTH_MESSAGE_BYTES"
        by (auto simp: accepting_text_def)
      then have "accept_authentication (Accepted a) s1 = (r, s')"
        using assms(1) False rd Inr by (simp add: receive_authentication_def ebind_def elift_def)
      with a(2) ok True show ?thesis using accept_authentication_accepts by auto
    next
      case not: False
      have "s' = s1"
        using assms(1) False rd Inr not
        by (auto simp: receive_authentication_def ebind_def elift_def accepting_text_def
            split: if_splits option.splits sum.splits dest!: accept_authentication_step)
      with ok not show ?thesis by simp
    qed
  qed
qed


lemma hello_then_flush_keeps:
  assumes "send_encoded T m s = (Ok u, s1)" "flush_buffer T (s1\<lparr>tr_hello_sent := True\<rparr>) = (r, s2)"
    and "transport_ok T s" "phase_of s = Admitted" "is_agent_hello (am_kind m)"
  shows "base_ok T s2 \<and> transport_ok T s2"
proof -
  let ?s = "s1\<lparr>tr_hello_sent := True\<rparr>"
  have step: "\<And>t. encoded_text T m = Ok t \<Longrightarrow> session_step T Admitted (Sent (TextFrame t)) Established"
    using assms(5) by (auto intro!: session_step.hello simp: message_text_def)
  have ok: "base_ok T s" "session_ok T Admitted s" using assms(3,4) by (auto simp: transport_ok_def)
  have s1: "base_ok T s1" "same_flags s s1" "session_ok T Established s1"
    using send_encoded_ok [OF assms(1) ok step] by simp_all
  have auth: "tr_authenticated s1" using s1(2) assms(4) by (auto simp: same_flags_def phase_of_def split: if_splits)
  have "base_ok T ?s" "session_ok T Established ?s"
    using s1 auth by (auto simp: base_ok_def session_ok_def)
  from flush_buffer_ok [OF assms(2) this] show ?thesis by (simp add: transport_ok_def phase_of_def)
qed

lemma send_keeps [transport_keeps]:
  assumes "transport_send T m s = (r, s')" "transport_ok T s"
  shows "transport_ok T s'"
proof (cases "tr_state s \<noteq> Connected \<or> \<not> tr_authenticated s \<or> tr_hello_sent s = is_agent_hello (am_kind m)")
  case True
  then have "s' = s" using assms by (auto simp: transport_send_def Let_def split: if_splits)
  then show ?thesis using assms(2) by simp
next
  case False
  obtain x s1 where send: "send_encoded T m s = (x, s1)" by (cases "send_encoded T m s")
  have ok: "base_ok T s" "session_ok T (phase_of s) s" using assms(2) by (auto simp: transport_ok_def)
  show ?thesis
  proof (cases "is_agent_hello (am_kind m)")
    case hello: True
    then have ph: "phase_of s = Admitted" using False by (simp add: phase_of_def)
    have step: "\<And>t. encoded_text T m = Ok t \<Longrightarrow> session_step T Admitted (Sent (TextFrame t)) Established"
      using hello by (auto intro!: session_step.hello simp: message_text_def)
    have "base_ok T s1" using send_encoded_ok [OF send ok(1) ok(2) [unfolded ph] step] by blast
    then show ?thesis
      using assms(1) False send hello hello_then_flush_keeps [OF _ _ assms(2) ph hello]
      by (auto simp: transport_send_def Let_def split: sum.splits prod.splits)
  next
    case event: False
    then have ph: "phase_of s = Established" using False by (simp add: phase_of_def)
    have step: "\<And>t. encoded_text T m = Ok t \<Longrightarrow> session_step T Established (Sent (TextFrame t)) Established"
      using event by (auto intro!: session_step.event simp: message_text_def)
    have "base_ok T s1 \<and> same_flags s s1 \<and> session_ok T Established s1"
      using send_encoded_ok [OF send ok(1) ok(2) [unfolded ph] step] by (simp split: if_splits)
    then have "base_ok T s1" "transport_ok T s1" using transport_ok_flags [of T s1 s] ph by auto
    then show ?thesis using assms(1) False send event
      by (auto simp: transport_send_def Let_def split: sum.splits)
  qed
qed

lemma receive_keeps [transport_keeps]:
  assumes "transport_receive T s = (r, s')" "transport_ok T s"
  shows "transport_ok T s'"
proof (cases "tr_state s \<noteq> Connected \<or> \<not> tr_authenticated s \<or> \<not> tr_hello_sent s")
  case True
  then show ?thesis using assms by (auto simp: transport_receive_def split: if_splits)
next
  case False
  then have ph: "phase_of s = Established" and sock: "tr_socket s \<noteq> None"
    using assms(2) by (auto simp: phase_of_def transport_ok_def base_ok_def)
  obtain x s1 where rd: "receive_text_frame s = (x, s1)" by (cases "receive_text_frame s")
  have "base_ok T s" "session_ok T Established s" using assms(2) ph by (auto simp: transport_ok_def)
  note read = receive_text_frame_ok [OF rd this sock]
  show ?thesis
  proof (cases x)
    case (Inl e)
    then show ?thesis using assms(1) False rd read by (auto simp: transport_receive_def ebind_def)
  next
    case (Inr t)
    with read have s1: "base_ok T s1" "same_flags s s1" "read_text T Established t s1" by auto
    have "session_ok T Established s1" by (rule read_text_session [OF s1(3) session_step.command])
    then have "transport_ok T s1" using transport_ok_flags [OF s1(1) _ s1(2)] ph by simp
    then show ?thesis using assms(1) False rd Inr s1(1)
      by (auto simp: transport_receive_def ebind_def split: sum.splits)
  qed
qed

lemma close_keeps [transport_keeps]:
  "transport_close s = (r, s') \<Longrightarrow> transport_ok T s \<Longrightarrow> transport_ok T s'"
  by (auto simp: transport_close_def Let_def transport_ok_def base_ok_def session_ok_def set_state_def
      split: option.splits)

lemma connect_fails_closed:
  "transport_connect T s = (Err e, s') \<Longrightarrow> is_retryable e \<Longrightarrow> tr_socket s' = None"
  by (auto simp: transport_connect_def Let_def set_state_def split: sum.splits if_splits ConnectOutcome.splits)

lemma backoff_keeps [transport_keeps]:
  "connect_with_backoff fuel T (s, b) = Some (r, s', b') \<Longrightarrow> transport_ok T s \<Longrightarrow> transport_ok T s'"
proof (induction fuel T "(s, b)" arbitrary: s b rule: connect_with_backoff.induct)
  case (2 fuel T s b)
  obtain x s1 where conn: "transport_connect T s = (x, s1)" by (cases "transport_connect T s")
  have ok: "transport_ok T s1" by (rule connect_keeps [OF conn 2(3)])
  obtain d b1 where d: "next_delay (te_floats T) (te_jitter T (tr_connects s1)) b = (d, b1)"
    by (cases "next_delay (te_floats T) (te_jitter T (tr_connects s1)) b")
  show ?case
  proof (cases "\<exists>e at dl. x = Err e \<and> is_retryable e \<and> d = Ok (Some (at, dl))")
    case False
    then show ?thesis using 2(2) conn ok d
      by (auto split: sum.splits if_splits option.splits)
  next
    case True
    then obtain e at dl where e: "x = Err e" "is_retryable e" "d = Ok (Some (at, dl))" by blast
    have closed: "tr_socket s1 = None" using connect_fails_closed conn e by blast
    let ?s2 = "set_state (BackingOff at dl) s1"
    have s2: "transport_ok T ?s2" by (rule set_state_keeps [OF ok closed]) simp
    moreover have "transport_ok T (set_state Disconnected ?s2)"
      by (rule set_state_keeps [OF s2]) (simp_all add: closed set_state_def)
    ultimately show ?thesis using 2(1) [OF conn [symmetric] e(1) _ d [symmetric] e(3)] 2(2) conn d e
      by (auto simp: Let_def split: if_splits)
  qed
qed simp

section \<open>Reachable transports\<close>

inductive transport_reachable :: "transport_env \<Rightarrow> WebSocketTransport \<Rightarrow> bool" for T where
  created: "WebSocketTransport_new c = Ok s \<Longrightarrow> transport_reachable T s"
| buffering: "transport_reachable T s \<Longrightarrow> buffer T m s = (r, s') \<Longrightarrow> transport_reachable T s'"
| connecting: "transport_reachable T s \<Longrightarrow> transport_connect T s = (r, s') \<Longrightarrow> transport_reachable T s'"
| reconnecting: "transport_reachable T s \<Longrightarrow> connect_with_backoff n T (s, b) = Some (r, s', b') \<Longrightarrow>
    transport_reachable T s'"
| proving: "transport_reachable T s \<Longrightarrow> send_authentication_response T a s = (r, s') \<Longrightarrow>
    transport_reachable T s'"
| authenticating: "transport_reachable T s \<Longrightarrow> receive_authentication T s = (r', s') \<Longrightarrow>
    transport_reachable T s'"
| sending: "transport_reachable T s \<Longrightarrow> transport_send T m s = (r, s') \<Longrightarrow> transport_reachable T s'"
| receiving: "transport_reachable T s \<Longrightarrow> transport_receive T s = (r'', s') \<Longrightarrow> transport_reachable T s'"
| closing: "transport_reachable T s \<Longrightarrow> transport_close s = (r, s') \<Longrightarrow> transport_reachable T s'"

lemma reachable_ok: "transport_reachable T s \<Longrightarrow> transport_ok T s"
  by (induction rule: transport_reachable.induct) (blast intro: new_keeps transport_keeps)+

section \<open>The reconnection loop\<close>

text \<open>
  The reconnection loop of the transport: the attempts it may make, that a limit ends it, and that a
  gateway which eventually answers is reached.
\<close>

definition policy_ok :: "BackoffPolicy \<Rightarrow> bool" where
  "policy_ok p \<longleftrightarrow> BackoffPolicy_validate p = Ok ()"

definition jitter_ok :: "f64 \<Rightarrow> bool" where
  "jitter_ok x \<longleftrightarrow> f64_le (Finite (- 1) 0) x \<and> f64_le x f64_one"

lemma unat_max32: "unat (- 1 :: 32 word) = 4294967295"
  by (simp add: unsigned_minus_1_eq_mask mask_eq_exp_minus_1)

lemma attempts_step:
  fixes a :: "32 word"
  assumes "a < n"
  shows "unat (if a = - 1 then - 1 else a + 1) = Suc (unat a)" "a + 1 \<noteq> 0" "a \<noteq> - 1"
proof -
  have "unat a < unat n" "unat n < 4294967296"
    using assms unsigned_less [where w = n] by (simp_all add: word_less_nat_alt)
  then have le: "unat a < 4294967295" by linarith
  show max: "a \<noteq> - 1" using le unat_max32 by force
  have "unat (a + 1) = Suc (unat a)" using le by (simp add: unat_word_ariths)
  then show "unat (if a = - 1 then - 1 else a + 1) = Suc (unat a)" "a + 1 \<noteq> 0"
    using max by auto
qed

lemma next_delay_limit:
  assumes "next_delay F j b = (Ok (Some p), b')" "bp_maximum_attempts (rb_policy b) = Some n"
  shows "unat (rb_attempts b) < unat n \<and> unat (rb_attempts b') = Suc (unat (rb_attempts b)) \<and>
    rb_policy b' = rb_policy b"
proof -
  have lt: "rb_attempts b < n" using assms by (simp add: next_delay_def split: if_splits)
  then have "rb_attempts b' = (if rb_attempts b = - 1 then - 1 else rb_attempts b + 1)"
      "rb_policy b' = rb_policy b"
    using assms not_le [of n "rb_attempts b"] lt by (auto simp: next_delay_def Let_def and_then_Ok)
  then show ?thesis using attempts_step(1) [OF lt] lt by (simp add: word_less_nat_alt)
qed

lemma next_delay_Ok:
  assumes "policy_ok (rb_policy b)" "jitter_ok j"
    and "case bp_maximum_attempts (rb_policy b) of Some n \<Rightarrow> rb_attempts b < n | None \<Rightarrow> rb_attempts b < - 1"
  shows "\<exists>d. next_delay F j b = (Ok (Some (rb_attempts b + 1, d)), b\<lparr>rb_attempts := rb_attempts b + 1\<rparr>)"
proof -
  have "rb_attempts b + 1 \<noteq> 0" "rb_attempts b \<noteq> - 1"
    using assms(3) attempts_step(2,3) by (auto split: option.splits)
  moreover have "\<not> (case bp_maximum_attempts (rb_policy b) of Some maximum \<Rightarrow> rb_attempts b \<ge> maximum | None \<Rightarrow> False)"
    using assms(3) by (simp add: not_le split: option.splits)
  ultimately show ?thesis using assms(1,2)
    by (simp add: next_delay_def delay_for_def policy_ok_def jitter_ok_def reject_if_def Let_def)
qed

lemma connect_connects:
  "transport_connect T s = (r, s') \<Longrightarrow> tr_connects s' \<le> Suc (tr_connects s) \<and>
     (is_ok r \<longrightarrow> tr_state s' = Connected)"
  by (auto simp: transport_connect_def Let_def set_state_def split: if_splits sum.splits ConnectOutcome.splits)

lemma set_state_connects [simp]: "tr_connects (set_state st s) = tr_connects s"
  by (simp add: set_state_def)

lemma backoff_connects:
  "connect_with_backoff fuel T (s, b) = Some (r, s', b') \<Longrightarrow> tr_connects s' \<le> tr_connects s + fuel"
proof (induction fuel T "(s, b)" arbitrary: s b rule: connect_with_backoff.induct)
  case (2 fuel T s b)
  obtain x s1 where conn: "transport_connect T s = (x, s1)" by (cases "transport_connect T s")
  have le: "tr_connects s1 \<le> Suc (tr_connects s)" using connect_connects [OF conn] by simp
  obtain d b1 where d: "next_delay (te_floats T) (te_jitter T (tr_connects s1)) b = (d, b1)"
    by (cases "next_delay (te_floats T) (te_jitter T (tr_connects s1)) b")
  show ?case
  proof (cases "\<exists>e at dl. x = Err e \<and> is_retryable e \<and> d = Ok (Some (at, dl))")
    case False
    then show ?thesis using 2(2) conn le d by (auto split: sum.splits if_splits option.splits)
  next
    case True
    then obtain e at dl where e: "x = Err e" "is_retryable e" "d = Ok (Some (at, dl))" by blast
    then show ?thesis using 2(1) [OF conn [symmetric] e(1) _ d [symmetric] e(3)] 2(2) conn d le
      by (fastforce simp: Let_def split: if_splits)
  qed
qed simp

lemma backoff_returns:
  assumes "bp_maximum_attempts (rb_policy b) = Some n" "fuel > unat n - unat (rb_attempts b)"
  shows "connect_with_backoff fuel T (s, b) \<noteq> None"
  using assms
proof (induction fuel T "(s, b)" arbitrary: s b rule: connect_with_backoff.induct)
  case (2 fuel T s b)
  obtain x s1 where conn: "transport_connect T s = (x, s1)" by (cases "transport_connect T s")
  obtain d b1 where d: "next_delay (te_floats T) (te_jitter T (tr_connects s1)) b = (d, b1)"
    by (cases "next_delay (te_floats T) (te_jitter T (tr_connects s1)) b")
  show ?case
  proof (cases "\<exists>e p. x = Err e \<and> is_retryable e \<and> d = Ok (Some p)")
    case False
    then show ?thesis using conn d by (auto split: sum.splits option.splits)
  next
    case True
    then obtain e p where e: "x = Err e" "is_retryable e" "d = Ok (Some p)" by blast
    have "bp_maximum_attempts (rb_policy b1) = Some n" "fuel > unat n - unat (rb_attempts b1)"
      using next_delay_limit [OF d [unfolded e(3)] 2(2)] 2(2,3) by auto
    then show ?thesis
      using 2(1) [OF conn [symmetric] e(1) _ d [symmetric] e(3)] conn d e by (cases p) (auto simp: Let_def)
  qed
qed simp

text \<open>The gateway refuses or times out \<open>k\<close> times from attempt \<open>c\<close> on and then accepts.\<close>

definition answers_after :: "transport_env \<Rightarrow> nat \<Rightarrow> nat \<Rightarrow> bool" where
  "answers_after T c k \<longleftrightarrow>
     (\<forall>i < k. (\<forall>r w d. te_connect T (c + i) \<noteq> ConnectDone r w d) \<and> \<not> te_cancelled T (c + i + 1) \<and>
        jitter_ok (te_jitter T (c + i + 1))) \<and>
     (\<exists>r w d. te_connect T (c + k) = ConnectDone r w d)"

lemma answers_after_Suc: "answers_after T c (Suc k) \<Longrightarrow> answers_after T (Suc c) k"
  unfolding answers_after_def by (auto simp: All_less_Suc2)

lemma connect_refused:
  assumes "tr_socket s = None" "te_into_request T (u_as_str (tc_endpoint (tr_config s))) = Ok u"
    and "\<forall>r w d. te_connect T (tr_connects s) \<noteq> ConnectDone r w d"
  shows "\<exists>e. transport_connect T s =
      (Err e, (set_state Disconnected s)\<lparr>tr_connects := Suc (tr_connects s)\<rparr>) \<and> is_retryable e"
  using assms by (cases "te_connect T (tr_connects s)") (auto simp: transport_connect_def Let_def set_state_def)

lemma backoff_succeeds:
  assumes "answers_after T (tr_connects s) k" "tr_socket s = None"
    and "te_into_request T (u_as_str (tc_endpoint (tr_config s))) = Ok u" "policy_ok (rb_policy b)"
    and "case bp_maximum_attempts (rb_policy b) of Some n \<Rightarrow> unat (rb_attempts b) + k \<le> unat n
      | None \<Rightarrow> unat (rb_attempts b) + k < 2 ^ 32"
  shows "\<exists>s' b'. connect_with_backoff (Suc k) T (s, b) = Some (Ok (), s', b') \<and>
    tr_state s' = Connected \<and> phase_of s' = Challenged \<and> wire_log s' = [] \<and> rb_attempts b' = 0 \<and>
    tr_connects s' = tr_connects s + Suc k \<and> tr_outbound s' = tr_outbound s"
  using assms
proof (induction k arbitrary: s b)
  case 0
  then obtain r w d where "te_connect T (tr_connects s) = ConnectDone r w d" by (auto simp: answers_after_def)
  then show ?case using "0.prems"(2,3)
    by (auto simp: transport_connect_def Let_def set_state_def backoff_reset_def phase_of_def wire_log_def
        new_socket_def)
next
  case (Suc k)
  let ?s1 = "(set_state Disconnected s)\<lparr>tr_connects := Suc (tr_connects s)\<rparr>"
  have "answers_after T (tr_connects s) (Suc k)" by (rule Suc.prems(1))
  then have now: "\<forall>r w d. te_connect T (tr_connects s) \<noteq> ConnectDone r w d"
      "\<not> te_cancelled T (Suc (tr_connects s))" "jitter_ok (te_jitter T (Suc (tr_connects s)))"
    by (auto simp: answers_after_def All_less_Suc2)
  obtain e where e: "transport_connect T s = (Err e, ?s1)" "is_retryable e"
    using connect_refused [OF Suc.prems(2,3) now(1)] by blast
  have lt: "case bp_maximum_attempts (rb_policy b) of Some n \<Rightarrow> rb_attempts b < n | None \<Rightarrow> rb_attempts b < - 1"
    using Suc.prems(5) by (auto simp: word_less_nat_alt unat_max32 split: option.splits)
  obtain d where d: "next_delay (te_floats T) (te_jitter T (Suc (tr_connects s))) b =
      (Ok (Some (rb_attempts b + 1, d)), b\<lparr>rb_attempts := rb_attempts b + 1\<rparr>)"
    using next_delay_Ok [OF Suc.prems(4) now(3) lt] by blast
  let ?s2 = "set_state (BackingOff (rb_attempts b + 1) d) ?s1"
  let ?b = "b\<lparr>rb_attempts := rb_attempts b + 1\<rparr>"
  have "unat (rb_attempts b + 1) = Suc (unat (rb_attempts b))"
    using lt attempts_step by (auto split: option.splits if_splits)
  then have "\<exists>s' b'. connect_with_backoff (Suc k) T (?s2, ?b) = Some (Ok (), s', b') \<and>
    tr_state s' = Connected \<and> phase_of s' = Challenged \<and> wire_log s' = [] \<and> rb_attempts b' = 0 \<and>
    tr_connects s' = tr_connects ?s2 + Suc k \<and> tr_outbound s' = tr_outbound ?s2"
    using Suc.prems answers_after_Suc [OF Suc.prems(1)]
    by (intro Suc.IH) (auto simp: set_state_def split: option.splits)
  then show ?case using e d now(2) by (subst connect_with_backoff.simps) (simp add: Let_def set_state_def)
qed

end
