(* ===== verification/Platform.thy ===== *)
theory Platform
  imports Std_Library
begin

text \<open>
  The platform interfaces (\<open>crates/oppa-platform\<close>): the credential store as an interface with its
  in-memory and its keyring implementation, the checks before a platform API is called, and the
  explicit fallbacks. The native keyring is a parameter.
\<close>

datatype PlatformError =
  InvalidPlatformInput ustring
| Unsupported ustring ustring
| MissingCredential
| CredentialStoreFailed ustring
| DataPath ustring
| BrowserFailed ustring
| TaskFailed ustring

text \<open>\<open>impl Display for PlatformError\<close>.\<close>

fun PlatformError_to_string :: "PlatformError \<Rightarrow> ustring" where
  "PlatformError_to_string (InvalidPlatformInput s) = lit ''invalid platform input: '' @ s"
| "PlatformError_to_string (Unsupported c p) = c @ lit '' is unsupported on '' @ p"
| "PlatformError_to_string MissingCredential = lit ''secure credential was not found''"
| "PlatformError_to_string (CredentialStoreFailed s) = lit ''secure credential store failed: '' @ s"
| "PlatformError_to_string (DataPath s) = lit ''application data path failed: '' @ s"
| "PlatformError_to_string (BrowserFailed s) = lit ''could not open system browser: '' @ s"
| "PlatformError_to_string (TaskFailed s) = lit ''platform task failed: '' @ s"

definition validate_platform_key :: "ustring \<Rightarrow> ustring \<Rightarrow> PlatformError + unit" where
  "validate_platform_key field v = first_err
     [reject_if (trim v = [] \<or> trim v \<noteq> v \<or> byte_len v > 256)
        (InvalidPlatformInput (field @ lit '' must be 1 to 256 bytes without surrounding whitespace'')),
      reject_if (list_ex is_control v)
        (InvalidPlatformInput (field @ lit '' must not contain control characters''))]"

definition credential_account :: ustring where
  "credential_account = lit ''credential account''"

section \<open>The in-memory store\<close>

type_synonym memory_store = "ustring \<rightharpoonup> ustring"

definition memory_set :: "ustring \<Rightarrow> ustring \<Rightarrow> (memory_store, PlatformError, unit) eff" where
  "memory_set account secret = ebind (elift (validate_platform_key credential_account account))
     (\<lambda>_. emodify (\<lambda>values. values(account \<mapsto> secret)))"

definition memory_get :: "ustring \<Rightarrow> (memory_store, PlatformError, ustring option) eff" where
  "memory_get account = ebind (elift (validate_platform_key credential_account account))
     (\<lambda>_. egets (\<lambda>values. values account))"

definition memory_delete :: "ustring \<Rightarrow> (memory_store, PlatformError, unit) eff" where
  "memory_delete account = ebind (elift (validate_platform_key credential_account account))
     (\<lambda>_. emodify (\<lambda>values. values(account := None)))"

section \<open>The native store\<close>

text \<open>The keyring crate: an entry per service and account, which may fail for its own reasons.\<close>

datatype KeyringError = NoEntry | KeyringFailed ustring

record 'k keyring =
  kr_entry :: "ustring \<Rightarrow> ustring \<Rightarrow> KeyringError + unit"
  kr_set :: "ustring \<Rightarrow> ustring \<Rightarrow> ustring \<Rightarrow> ('k, KeyringError, unit) eff"
  kr_get :: "ustring \<Rightarrow> ustring \<Rightarrow> ('k, KeyringError, ustring) eff"
  kr_delete :: "ustring \<Rightarrow> ustring \<Rightarrow> ('k, KeyringError, unit) eff"
  kr_error_text :: "KeyringError \<Rightarrow> ustring"

definition KeyringCredentialStore_new :: "ustring \<Rightarrow> PlatformError + ustring" where
  "KeyringCredentialStore_new service =
     and_then (validate_platform_key (lit ''credential service'') service) (\<lambda>_. Ok service)"

definition keyring_entry :: "'k keyring \<Rightarrow> ustring \<Rightarrow> ustring \<Rightarrow> PlatformError + unit" where
  "keyring_entry K service account =
     and_then (validate_platform_key credential_account account) (\<lambda>_.
       map_err (\<lambda>e. CredentialStoreFailed (kr_error_text K e)) (kr_entry K service account))"

definition keyring_set :: "'k keyring \<Rightarrow> ustring \<Rightarrow> ustring \<Rightarrow> ustring \<Rightarrow> ('k, PlatformError, unit) eff" where
  "keyring_set K service account secret =
     ebind (elift (validate_platform_key credential_account account)) (\<lambda>_.
     ebind (elift (keyring_entry K service account)) (\<lambda>_.
       emap_err (\<lambda>e. CredentialStoreFailed (kr_error_text K e)) (kr_set K service account secret)))"

definition keyring_get :: "'k keyring \<Rightarrow> ustring \<Rightarrow> ustring \<Rightarrow> ('k, PlatformError, ustring option) eff" where
  "keyring_get K service account =
     ebind (elift (validate_platform_key credential_account account)) (\<lambda>_.
     ebind (elift (keyring_entry K service account)) (\<lambda>_.
       ecase (kr_get K service account) (\<lambda>r. case r of
         Inr secret \<Rightarrow> eret (Some secret)
       | Inl NoEntry \<Rightarrow> eret None
       | Inl e \<Rightarrow> elift (Err (CredentialStoreFailed (kr_error_text K e))))))"

definition keyring_delete :: "'k keyring \<Rightarrow> ustring \<Rightarrow> ustring \<Rightarrow> ('k, PlatformError, unit) eff" where
  "keyring_delete K service account =
     ebind (elift (validate_platform_key credential_account account)) (\<lambda>_.
     ebind (elift (keyring_entry K service account)) (\<lambda>_.
       ecase (kr_delete K service account) (\<lambda>r. case r of
         Inr _ \<Rightarrow> eret ()
       | Inl NoEntry \<Rightarrow> eret ()
       | Inl e \<Rightarrow> elift (Err (CredentialStoreFailed (kr_error_text K e))))))"

section \<open>The interface\<close>

text \<open>
  What the trait promises its clients, for the accounts a store accepts: a secret read back is the
  one last set, deleting makes it absent and is idempotent, other accounts are not affected, and
  reading changes nothing.
\<close>

locale credential_store =
  fixes accepts :: "ustring \<Rightarrow> bool"
    and lookup :: "'s \<Rightarrow> ustring \<Rightarrow> ustring option"
    and cs_set :: "ustring \<Rightarrow> ustring \<Rightarrow> ('s, PlatformError, unit) eff"
    and cs_get :: "ustring \<Rightarrow> ('s, PlatformError, ustring option) eff"
    and cs_delete :: "ustring \<Rightarrow> ('s, PlatformError, unit) eff"
  assumes set_accepted: "accepts a \<Longrightarrow> \<exists>s'. cs_set a v s = (Ok (), s') \<and>
      lookup s' = (lookup s)(a \<mapsto> v)"
    and get_accepted: "accepts a \<Longrightarrow> cs_get a s = (Ok (lookup s a), s)"
    and delete_accepted: "accepts a \<Longrightarrow> \<exists>s'. cs_delete a s = (Ok (), s') \<and>
      lookup s' = (lookup s)(a := None)"
    and rejected: "\<not> accepts a \<Longrightarrow> (\<exists>e. cs_set a v s = (Err e, s)) \<and> (\<exists>e. cs_get a s = (Err e, s)) \<and>
      (\<exists>e. cs_delete a s = (Err e, s))"
begin

lemma get_after_set:
  assumes "cs_set a v s = (Ok (), s')"
  shows "cs_get a s' = (Ok (Some v), s')"
proof -
  have "accepts a" using assms rejected [of a v s] by (metis Pair_inject sum.distinct(1))
  moreover from this have "lookup s' = (lookup s)(a \<mapsto> v)" using assms set_accepted [of a v s] by auto
  ultimately show ?thesis using get_accepted [of a s'] by simp
qed

lemma get_after_delete:
  assumes "cs_delete a s = (Ok (), s')"
  shows "cs_get a s' = (Ok None, s') \<and> (\<exists>s''. cs_delete a s' = (Ok (), s'') \<and> lookup s'' = lookup s')"
proof -
  have acc: "accepts a" using assms rejected [of a "[]" s] by (metis Pair_inject sum.distinct(1))
  then have "lookup s' = (lookup s)(a := None)" using assms delete_accepted [of a s] by auto
  with acc show ?thesis using get_accepted [of a s'] delete_accepted [of a s'] by auto
qed

end

definition memory_accepts :: "ustring \<Rightarrow> bool" where
  "memory_accepts a \<longleftrightarrow> is_ok (validate_platform_key credential_account a)"

interpretation memory: credential_store memory_accepts "\<lambda>s. s" memory_set memory_get memory_delete
proof unfold_locales
  fix a v :: ustring and s :: memory_store
  show "memory_accepts a \<Longrightarrow> \<exists>s'. memory_set a v s = (Ok (), s') \<and> s' = s(a \<mapsto> v)"
    by (auto simp: memory_accepts_def is_ok_iff memory_set_def ebind_Ok)
  show "memory_accepts a \<Longrightarrow> memory_get a s = (Ok (s a), s)"
    by (auto simp: memory_accepts_def is_ok_iff memory_get_def ebind_Ok)
  show "memory_accepts a \<Longrightarrow> \<exists>s'. memory_delete a s = (Ok (), s') \<and> s' = s(a := None)"
    by (auto simp: memory_accepts_def is_ok_iff memory_delete_def ebind_Ok)
  show "\<not> memory_accepts a \<Longrightarrow> (\<exists>e. memory_set a v s = (Err e, s)) \<and> (\<exists>e. memory_get a s = (Err e, s)) \<and>
      (\<exists>e. memory_delete a s = (Err e, s))"
    by (cases "validate_platform_key credential_account a")
      (auto simp: memory_accepts_def memory_set_def memory_get_def memory_delete_def ebind_def elift_def)
qed

section \<open>Other services\<close>

definition SystemBrowser_open ::
  "(ustring \<Rightarrow> ustring + unit) \<Rightarrow> Url \<Rightarrow> PlatformError + unit" where
  "SystemBrowser_open that_detached u =
     (if u_scheme u \<notin> {lit ''http'', lit ''https''} \<or> u_username u \<noteq> [] \<or> u_password u \<noteq> None
      then Err (InvalidPlatformInput (lit ''browser URL must be HTTP(S) and must not embed credentials''))
      else map_err BrowserFailed (that_detached (u_as_str u)))"

datatype PowerEvent = Sleeping | Woke
datatype SingleInstanceOutcome = Acquired | AlreadyRunning
datatype NotificationLevel = NoticeInformation | NoticeWarning | NoticeError

record Notification =
  nt_title :: ustring
  nt_body :: ustring
  nt_level :: NotificationLevel

text \<open>The fallbacks of a host without the integration; \<open>os\<close> is the constant of the target.\<close>

definition unsupported_next_event :: "ustring \<Rightarrow> PlatformError + PowerEvent" where
  "unsupported_next_event os = Err (Unsupported (lit ''sleep and wake awareness'') os)"

definition unsupported_acquire :: "ustring \<Rightarrow> ustring \<Rightarrow> PlatformError + SingleInstanceOutcome" where
  "unsupported_acquire os application_id = Err (Unsupported (lit ''single-instance guard'') os)"

definition unsupported_show :: "ustring \<Rightarrow> Notification \<Rightarrow> PlatformError + unit" where
  "unsupported_show os n = Err (Unsupported (lit ''notifications'') os)"

definition unsupported_startup :: "ustring \<Rightarrow> PlatformError" where
  "unsupported_startup os = Unsupported (lit ''start-on-login'') os"

definition unsupported_is_enabled :: "ustring \<Rightarrow> PlatformError + bool" where
  "unsupported_is_enabled os = Err (unsupported_startup os)"

definition unsupported_set_enabled :: "ustring \<Rightarrow> bool \<Rightarrow> PlatformError + unit" where
  "unsupported_set_enabled os enabled = Err (unsupported_startup os)"

record AppPaths =
  data_dir :: ustring
  cache_dir :: ustring
  log_dir :: ustring

text \<open>
  \<open>ProjectDirs\<close> and the file system are parameters: the three directories of a project, and the
  outcome of creating one.
\<close>

definition resolve_app_paths ::
  "(ustring \<Rightarrow> ustring \<Rightarrow> ustring \<Rightarrow> AppPaths option) \<Rightarrow> (ustring \<Rightarrow> ustring + unit) \<Rightarrow>
     ustring \<Rightarrow> ustring \<Rightarrow> ustring \<Rightarrow> PlatformError + AppPaths" where
  "resolve_app_paths project_dirs create_dir_all qualifier organization application =
     and_then (first_err (map (\<lambda>(field, v). reject_if (trim v = [] \<or> list_ex is_control v)
         (InvalidPlatformInput (field @ lit '' must not be empty or contain control characters'')))
       [(lit ''qualifier'', qualifier), (lit ''organization'', organization),
        (lit ''application'', application)])) (\<lambda>_.
     and_then (ok_or (DataPath (lit ''operating system did not provide a home directory''))
       (project_dirs qualifier organization application)) (\<lambda>paths.
     and_then (first_err (map (\<lambda>p. map_err (\<lambda>e. DataPath (lit ''cannot create '' @ p @ lit '': '' @ e))
         (create_dir_all p)) [data_dir paths, cache_dir paths, log_dir paths])) (\<lambda>_.
     Ok paths)))"

end
