(* ===== verification/Agent_Auth.thy ===== *)
theory Agent_Auth
  imports Wire_Auth Platform
begin

text \<open>
  Discovery, pairing and the client-owned credential (\<open>crates/oppa-auth\<close>). The Ed25519 primitives,
  randomness, the base64url codec, Serde and the HTTP client are parameters; the credential store is
  any implementation of the interface of \<open>Platform\<close>, passed as its three operations.
\<close>

datatype AuthError =
  AuthInvalidInput ustring
| DiscoveryFailed ustring
| PairingFailed ustring
| ServerIdentityChanged
| CredentialNotFound
| CredentialEncoding
| InvalidChallenge ustring
| CryptoFailed ustring
| ResponseTooLarge
| AuthPlatform PlatformError
| HttpFailed ustring
| UrlFailed ustring

text \<open>\<open>impl Display for AuthError\<close>.\<close>

fun AuthError_to_string :: "AuthError \<Rightarrow> ustring" where
  "AuthError_to_string (AuthInvalidInput s) = lit ''invalid authentication input: '' @ s"
| "AuthError_to_string (DiscoveryFailed s) = lit ''server discovery failed: '' @ s"
| "AuthError_to_string (PairingFailed s) = lit ''pairing failed: '' @ s"
| "AuthError_to_string ServerIdentityChanged =
     lit ''the configured URL now identifies a different OpenPrinter server; pair again explicitly''"
| "AuthError_to_string CredentialNotFound = lit ''the local agent credential was not found''"
| "AuthError_to_string CredentialEncoding = lit ''the local agent credential could not be decoded''"
| "AuthError_to_string (InvalidChallenge s) = lit ''gateway challenge is invalid: '' @ s"
| "AuthError_to_string (CryptoFailed s) = lit ''Ed25519 operation failed: '' @ s"
| "AuthError_to_string ResponseTooLarge = lit ''server response exceeded the authentication size limit''"
| "AuthError_to_string (AuthPlatform e) = PlatformError_to_string e"
| "AuthError_to_string (HttpFailed s) = s"
| "AuthError_to_string (UrlFailed s) = s"

definition MAX_HTTP_RESPONSE_BYTES :: nat where
  "MAX_HTTP_RESPONSE_BYTES = 64 * 1024"

definition MAX_CHALLENGE_BYTES :: nat where
  "MAX_CHALLENGE_BYTES = 4 * 1024"

section \<open>Inputs\<close>

definition validate_server_identifier :: "ustring \<Rightarrow> ustring \<Rightarrow> AuthError + unit" where
  "validate_server_identifier v name = reject_if
     (v = [] \<or> byte_len v > 128 \<or>
      \<not> list_all (\<lambda>b. is_ascii_alnum b \<or> b \<in> set (lit ''._:-'')) (utf8_bytes v))
     (AuthInvalidInput (name @ lit '' is not a valid OpenPrinter identifier''))"

definition validate_credential_ref :: "ustring \<Rightarrow> AuthError + unit" where
  "validate_credential_ref v = reject_if
     (\<not> prefix (lit ''oppa-ed25519-'') v \<or> byte_len v > 128 \<or> list_ex is_control v)
     (AuthInvalidInput (lit ''credential reference is invalid''))"

definition validate_server_url :: "Url \<Rightarrow> AuthError + unit" where
  "validate_server_url u = first_err
     [reject_if (u_scheme u \<noteq> lit ''https'' \<and> \<not> (u_scheme u = lit ''http'' \<and> is_loopback_url u))
        (AuthInvalidInput (lit ''server URL must use HTTPS; HTTP is allowed only for loopback development'')),
      reject_if (u_host_str u = None \<or> u_username u \<noteq> [] \<or> u_password u \<noteq> None \<or> u_fragment u \<noteq> None)
        (AuthInvalidInput (lit ''server URL must have a host and must not contain credentials or a fragment''))]"

text \<open>\<open>trim_end_matches('/')\<close>.\<close>

definition trim_end_slashes :: "ustring \<Rightarrow> ustring" where
  "trim_end_slashes s = rev (dropWhile (\<lambda>c. c = 47) (rev s))"

definition normalize_server_url :: "url_lib \<Rightarrow> ustring \<Rightarrow> AuthError + Url" where
  "normalize_server_url L v =
     and_then (reject_if (trim v \<noteq> v \<or> v = [] \<or> byte_len v > 2048 \<or> list_ex is_control v)
       (AuthInvalidInput (lit ''server URL is invalid''))) (\<lambda>_.
     and_then (map_err (\<lambda>_. AuthInvalidInput (lit ''server URL must be absolute'')) (url_parse L v)) (\<lambda>u.
     and_then (validate_server_url u) (\<lambda>_.
     let u1 = url_clear_fragment L (url_clear_query L u);
         u2 = url_set_path L (trim_end_slashes (u_path u1)) u1 in
     Ok (if u_path u2 = [] then url_set_path L (lit ''/'') u2 else u2))))"

section \<open>Keys\<close>

text \<open>
  The primitives: the random seed of a reading, the public key and the signature of a seed, a fresh
  UUID, and the base64url codec.
\<close>

record crypto =
  cr_base64 :: base64url
  cr_random_seed :: "nat \<Rightarrow> nat list option"
  cr_uuid :: "nat \<Rightarrow> ustring"
  cr_public_key :: "nat list \<Rightarrow> nat list"
  cr_sign :: "nat list \<Rightarrow> nat list \<Rightarrow> nat list"

record 's secret_ops =
  so_set :: "ustring \<Rightarrow> ustring \<Rightarrow> ('s, PlatformError, unit) eff"
  so_get :: "ustring \<Rightarrow> ('s, PlatformError, ustring option) eff"
  so_delete :: "ustring \<Rightarrow> ('s, PlatformError, unit) eff"

record GeneratedCredential =
  gk_credential_ref :: ustring
  gk_public_key :: PublicEd25519Jwk

definition key_generate ::
  "crypto \<Rightarrow> 's secret_ops \<Rightarrow> nat \<Rightarrow> ustring \<Rightarrow> ('s, AuthError, GeneratedCredential) eff" where
  "key_generate C K n server_id =
     ebind (elift (validate_server_identifier server_id (lit ''server ID''))) (\<lambda>_.
     ebind (elift (ok_or (CryptoFailed (lit ''operating-system randomness is unavailable''))
       (cr_random_seed C n))) (\<lambda>seed.
     let credential_ref = lit ''oppa-ed25519-'' @ cr_uuid C n in
     ebind (emap_err AuthPlatform (so_set K credential_ref (b64_encode (cr_base64 C) seed))) (\<lambda>_.
     eret \<lparr>gk_credential_ref = credential_ref,
       gk_public_key = \<lparr>jwk_kty = lit ''OKP'', jwk_crv = lit ''Ed25519'',
         jwk_x = b64_encode (cr_base64 C) (cr_public_key C seed)\<rparr>\<rparr>)))"

definition key_sign ::
  "crypto \<Rightarrow> 's secret_ops \<Rightarrow> ustring \<Rightarrow> nat list \<Rightarrow> ('s, AuthError, nat list) eff" where
  "key_sign C K credential_ref payload =
     ebind (elift (validate_credential_ref credential_ref)) (\<lambda>_.
     ebind (elift (reject_if (payload = [] \<or> length payload > MAX_CHALLENGE_BYTES)
       (AuthInvalidInput (lit ''challenge payload must contain 1 to '' @ dec MAX_CHALLENGE_BYTES @ lit '' bytes'')))) (\<lambda>_.
     ebind (emap_err AuthPlatform (so_get K credential_ref)) (\<lambda>stored.
     ebind (elift (ok_or CredentialNotFound stored)) (\<lambda>secret.
     ebind (elift (ok_or CredentialEncoding (b64_decode (cr_base64 C) secret))) (\<lambda>decoded.
     ebind (elift (reject_if (length decoded \<noteq> 32) CredentialEncoding)) (\<lambda>_.
     eret (cr_sign C decoded payload)))))))"

definition key_delete :: "'s secret_ops \<Rightarrow> ustring \<Rightarrow> ('s, AuthError, unit) eff" where
  "key_delete K credential_ref =
     ebind (elift (validate_credential_ref credential_ref)) (\<lambda>_.
     ebind (emap_err AuthPlatform (so_delete K credential_ref)) (\<lambda>_. eret ()))"

definition key_exists :: "'s secret_ops \<Rightarrow> ustring \<Rightarrow> ('s, AuthError, bool) eff" where
  "key_exists K credential_ref =
     ebind (elift (validate_credential_ref credential_ref)) (\<lambda>_.
     ebind (emap_err AuthPlatform (so_get K credential_ref)) (\<lambda>stored. eret (stored \<noteq> None)))"

definition sign_challenge ::
  "crypto \<Rightarrow> 's secret_ops \<Rightarrow> ustring \<Rightarrow> GatewayAuthenticationChallenge \<Rightarrow> ('s, AuthError, ustring) eff" where
  "sign_challenge C K credential_ref challenge =
     ebind (elift (map_err (\<lambda>e. InvalidChallenge (ValidationError_to_string e))
       (Challenge_validate (cr_base64 C) challenge))) (\<lambda>_.
     ebind (elift (ok_or (InvalidChallenge (lit ''payload is not unpadded base64url''))
       (b64_decode (cr_base64 C) (gc_payload challenge)))) (\<lambda>payload.
     ebind (key_sign C K credential_ref payload) (\<lambda>signature.
     eret (b64_encode (cr_base64 C) signature))))"

section \<open>Discovery and pairing\<close>

record HttpResponse =
  hr_status :: nat
  hr_content_length :: "nat option"
  hr_body :: "ustring + nat list"

definition is_success :: "nat \<Rightarrow> bool" where
  "is_success status \<longleftrightarrow> 200 \<le> status \<and> status < 300"

definition bounded_body :: "HttpResponse \<Rightarrow> AuthError + nat list" where
  "bounded_body response =
     and_then (reject_if (case hr_content_length response of
         Some n \<Rightarrow> n > MAX_HTTP_RESPONSE_BYTES | None \<Rightarrow> False) ResponseTooLarge) (\<lambda>_.
     and_then (map_err HttpFailed (hr_body response)) (\<lambda>bytes.
     and_then (reject_if (length bytes > MAX_HTTP_RESPONSE_BYTES) ResponseTooLarge) (\<lambda>_. Ok bytes)))"

definition gateway_scheme :: "url_lib \<Rightarrow> Url \<Rightarrow> AuthError + Url" where
  "gateway_scheme L endpoint =
     (if u_scheme endpoint = lit ''http'' then
        ok_or (DiscoveryFailed (lit ''gateway scheme is invalid'')) (url_set_scheme L (lit ''ws'') endpoint)
      else if u_scheme endpoint = lit ''https'' then
        ok_or (DiscoveryFailed (lit ''gateway scheme is invalid'')) (url_set_scheme L (lit ''wss'') endpoint)
      else if u_scheme endpoint \<in> {lit ''ws'', lit ''wss''} then Ok endpoint
      else Err (DiscoveryFailed (lit ''gateway endpoint must use HTTP(S) or WS(S)'')))"

definition resolve_endpoint :: "url_lib \<Rightarrow> Url \<Rightarrow> ustring \<Rightarrow> bool \<Rightarrow> AuthError + Url" where
  "resolve_endpoint L base v gateway =
     and_then (reject_if (v = [] \<or> byte_len v > 2048 \<or> list_ex is_whitespace v)
       (DiscoveryFailed (lit ''discovery endpoint is invalid''))) (\<lambda>_.
     and_then (if prefix (lit ''/'') v then map_err UrlFailed (url_join L base v)
         else map_err (\<lambda>_. DiscoveryFailed (lit ''discovery endpoint is not absolute'')) (url_parse L v)) (\<lambda>parsed.
     and_then (if gateway then gateway_scheme L parsed
         else if u_scheme parsed \<notin> {lit ''http'', lit ''https''}
         then Err (DiscoveryFailed (lit ''pairing endpoint must use HTTP(S)'')) else Ok parsed) (\<lambda>endpoint.
     and_then (reject_if (u_username endpoint \<noteq> [] \<or> u_password endpoint \<noteq> None \<or> u_fragment endpoint \<noteq> None)
       (DiscoveryFailed (lit ''discovery endpoint must not contain credentials or a fragment''))) (\<lambda>_.
     and_then (reject_if (u_scheme endpoint \<in> {lit ''http'', lit ''ws''} \<and> \<not> is_loopback_url endpoint)
       (DiscoveryFailed (lit ''discovery endpoint must use TLS outside loopback development''))) (\<lambda>_.
     Ok endpoint)))))"

record DiscoveredServer =
  dv_document :: DiscoveryDocument
  dv_pairing_url :: Url
  dv_gateway_url :: Url

record http_client =
  hc_get :: "Url \<Rightarrow> ustring + HttpResponse"
  hc_post_json :: "Url \<Rightarrow> PairingRequest \<Rightarrow> ustring + HttpResponse"
  hc_status_text :: "nat \<Rightarrow> ustring"
  hc_discovery_from_slice :: "nat list \<Rightarrow> ustring + DiscoveryDocument"
  hc_pairing_from_slice :: "nat list \<Rightarrow> ustring + PairingResponse"
  hc_error_from_slice :: "nat list \<Rightarrow> (ustring \<times> ustring) option"

definition PairingClient_new :: "nat \<Rightarrow> AuthError + unit" where
  "PairingClient_new timeout = reject_if (timeout = 0 \<or> timeout > 120 * 1000000000)
     (AuthInvalidInput (lit ''HTTP timeout must be between 1 nanosecond and 120 seconds''))"

definition discovery_url :: "url_lib \<Rightarrow> Url \<Rightarrow> Url" where
  "discovery_url L server_url = url_set_path L (trim_end_slashes (u_path server_url) @ DISCOVERY_PATH) server_url"

definition discover :: "url_lib \<Rightarrow> http_client \<Rightarrow> Url \<Rightarrow> AuthError + DiscoveredServer" where
  "discover L H server_url =
     and_then (validate_server_url server_url) (\<lambda>_.
     let discovery = discovery_url L server_url in
     and_then (map_err HttpFailed (hc_get H discovery)) (\<lambda>response.
     and_then (bounded_body response) (\<lambda>bytes.
     and_then (reject_if (\<not> is_success (hr_status response))
       (DiscoveryFailed (lit ''server returned HTTP '' @ hc_status_text H (hr_status response) @
          lit '' for url '' @ u_as_str discovery))) (\<lambda>_.
     and_then (map_err (\<lambda>e. DiscoveryFailed (lit ''invalid discovery response: '' @ e))
       (hc_discovery_from_slice H bytes)) (\<lambda>document.
     and_then (map_err (\<lambda>e. DiscoveryFailed (ValidationError_to_string e))
       (DiscoveryDocument_validate document)) (\<lambda>_.
     and_then (resolve_endpoint L server_url (de_pairing (dd_endpoints document)) False) (\<lambda>pairing_url.
     and_then (resolve_endpoint L server_url (de_gateway (dd_endpoints document)) True) (\<lambda>gateway_url.
     Ok \<lparr>dv_document = document, dv_pairing_url = pairing_url, dv_gateway_url = gateway_url\<rparr>))))))))"

definition pair ::
  "base64url \<Rightarrow> http_client \<Rightarrow> DiscoveredServer \<Rightarrow> PairingRequest \<Rightarrow> AuthError + PairingResponse" where
  "pair B H discovered request =
     and_then (map_err (\<lambda>e. AuthInvalidInput (ValidationError_to_string e))
       (PairingRequest_validate B request)) (\<lambda>_.
     and_then (map_err HttpFailed (hc_post_json H (dv_pairing_url discovered) request)) (\<lambda>response.
     and_then (bounded_body response) (\<lambda>bytes.
     if is_success (hr_status response) then
       and_then (map_err (\<lambda>e. PairingFailed (lit ''invalid pairing response: '' @ e))
         (hc_pairing_from_slice H bytes)) (\<lambda>paired.
       and_then (map_err (\<lambda>e. PairingFailed (ValidationError_to_string e))
         (PairingResponse_validate paired)) (\<lambda>_.
       if pr_server_id paired \<noteq> ds_id (dd_server (dv_document discovered)) then Err ServerIdentityChanged
       else Ok paired))
     else Err (PairingFailed (case hc_error_from_slice H bytes of
         Some (code, message) \<Rightarrow> code @ lit '': '' @ message
       | None \<Rightarrow> lit ''pairing failed with HTTP '' @ hc_status_text H (hr_status response))))))"

end
