(* ===== verification/Agent_Auth_Laws.thy ===== *)
theory Agent_Auth_Laws
  imports Agent_Auth
begin

text \<open>
  The key life cycle over any store that keeps the promises of the interface, and what discovery and
  pairing guarantee of the endpoints and identities they return.
\<close>

section \<open>Keys\<close>

definition uuid_shape :: "ustring \<Rightarrow> bool" where
  "uuid_shape u \<longleftrightarrow> length u = 36 \<and> (\<forall>c \<in> set u. is_ascii_digit c \<or> (97 \<le> c \<and> c \<le> 102) \<or> c = 45)"

lemma generated_ref_valid:
  assumes "uuid_shape u"
  shows "validate_credential_ref (lit ''oppa-ed25519-'' @ u) = Ok ()"
proof -
  have "\<forall>c \<in> set u. c < 0x80 \<and> \<not> is_control c"
    using assms by (auto simp: uuid_shape_def is_ascii_digit_def is_control_def)
  then have "byte_len u = 36" "\<not> list_ex is_control u"
    using assms byte_len_ascii [of u] by (auto simp: uuid_shape_def list_ex_iff)
  then show ?thesis by (simp add: validate_credential_ref_def lit_def is_control_def)
qed

text \<open>The parameters of the key manager behave as the crates document it.\<close>

definition crypto_ok :: "crypto \<Rightarrow> nat \<Rightarrow> nat list \<Rightarrow> bool" where
  "crypto_ok C n seed \<longleftrightarrow> cr_random_seed C n = Some seed \<and> length seed = 32 \<and> uuid_shape (cr_uuid C n) \<and>
     b64_decode (cr_base64 C) (b64_encode (cr_base64 C) seed) = Some seed"

context credential_store
begin

definition ops :: "'s secret_ops" where
  "ops = \<lparr>so_set = cs_set, so_get = cs_get, so_delete = cs_delete\<rparr>"

lemma generated_signs:
  assumes "crypto_ok C n seed" "key_generate C ops n server_id s = (Ok g, s')"
    and "payload \<noteq> []" "length payload \<le> MAX_CHALLENGE_BYTES"
  shows "key_sign C ops (gk_credential_ref g) payload s' = (Ok (cr_sign C seed payload), s') \<and>
    jwk_x (gk_public_key g) = b64_encode (cr_base64 C) (cr_public_key C seed)"
proof -
  have set: "cs_set (gk_credential_ref g) (b64_encode (cr_base64 C) seed) s = (Ok (), s')"
    and g: "gk_credential_ref g = lit ''oppa-ed25519-'' @ cr_uuid C n"
      "jwk_x (gk_public_key g) = b64_encode (cr_base64 C) (cr_public_key C seed)"
    using assms(1,2) by (auto simp: key_generate_def ops_def crypto_ok_def Let_def ebind_Ok)
  have ref: "validate_credential_ref (gk_credential_ref g) = Ok ()"
    using assms(1) g(1) generated_ref_valid by (simp add: crypto_ok_def)
  show ?thesis using assms(1,3,4) ref g(2) get_after_set [OF set]
    by (simp add: key_sign_def ops_def ebind_def elift_def eret_def emap_err_def reject_if_def crypto_ok_def)
qed

lemma deleted_signs_nothing:
  assumes "key_delete ops r s = (Ok (), s')" "payload \<noteq> []" "length payload \<le> MAX_CHALLENGE_BYTES"
  shows "key_sign C ops r payload s' = (Err CredentialNotFound, s') \<and> key_exists ops r s' = (Ok False, s')"
proof -
  have ref: "validate_credential_ref r = Ok ()" and del: "cs_delete r s = (Ok (), s')"
    using assms(1) by (auto simp: key_delete_def ops_def ebind_Ok)
  show ?thesis using assms(2,3) ref get_after_delete [OF del]
    by (simp add: key_sign_def key_exists_def ops_def ebind_def elift_def eret_def emap_err_def reject_if_def)
qed

end

definition memory_ops :: "memory_store secret_ops" where
  "memory_ops = \<lparr>so_set = memory_set, so_get = memory_get, so_delete = memory_delete\<rparr>"

lemma memory_ops_eq: "memory.ops = memory_ops"
  by (simp add: memory.ops_def memory_ops_def)

section \<open>Endpoints\<close>

definition secure_endpoint :: "Url \<Rightarrow> bool" where
  "secure_endpoint u \<longleftrightarrow> u_username u = [] \<and> u_password u = None \<and> u_fragment u = None \<and>
     (u_scheme u \<in> {lit ''http'', lit ''ws''} \<longrightarrow> is_loopback_url u)"

lemma resolve_endpoint_secure:
  "resolve_endpoint L base v gateway = Ok u \<Longrightarrow> secure_endpoint u"
  by (auto simp: resolve_endpoint_def secure_endpoint_def and_then_Ok)

text \<open>The setter of a scheme does what its name says.\<close>

definition sets_scheme :: "url_lib \<Rightarrow> bool" where
  "sets_scheme L \<longleftrightarrow> (\<forall>s u u'. url_set_scheme L s u = Some u' \<longrightarrow> u_scheme u' = s)"

lemma resolve_endpoint_scheme:
  assumes "resolve_endpoint L base v gateway = Ok u" "sets_scheme L"
  shows "u_scheme u \<in> (if gateway then {lit ''ws'', lit ''wss''} else {lit ''http'', lit ''https''})"
  using assms
  by (auto simp: resolve_endpoint_def gateway_scheme_def sets_scheme_def and_then_Ok split: if_splits)

lemma discover_Ok:
  assumes "discover L H base = Ok d"
  shows "validate_server_url base = Ok () \<and> DiscoveryDocument_validate (dv_document d) = Ok () \<and>
    resolve_endpoint L base (de_pairing (dd_endpoints (dv_document d))) False = Ok (dv_pairing_url d) \<and>
    resolve_endpoint L base (de_gateway (dd_endpoints (dv_document d))) True = Ok (dv_gateway_url d)"
  using assms by (auto simp: discover_def and_then_Ok Let_def)

lemma pair_Ok:
  assumes "pair B H d q = Ok p"
  shows "PairingRequest_validate B q = Ok () \<and> PairingResponse_validate p = Ok () \<and>
    pr_server_id p = ds_id (dd_server (dv_document d))"
  using assms by (auto simp: pair_def and_then_Ok split: if_splits)

lemma bounded_body_Ok: "bounded_body r = Ok b \<Longrightarrow> length b \<le> MAX_HTTP_RESPONSE_BYTES \<and> hr_body r = Ok b"
  by (auto simp: bounded_body_def and_then_Ok)

end
