(* ===== verification/Document_Fetch.thy ===== *)
theory Document_Fetch
  imports Agent_Auth Backends
begin

text \<open>
  The authenticated retrieval of job PDFs (\<open>crates/oppa-documents\<close>). The HTTP exchange is a
  parameter: the status, the advertised length and the chunks of the body, each of which may fail,
  and whether a deadline passes. SHA-256 is a parameter as well.
\<close>

definition SIGNATURE_CONTEXT :: ustring where
  "SIGNATURE_CONTEXT = lit ''OPENPRINTER-DOCUMENT-V1''"

definition canonical_request :: "ustring \<Rightarrow> ustring \<Rightarrow> ustring \<Rightarrow> 64 word \<Rightarrow> ustring \<Rightarrow> ustring" where
  "canonical_request path_and_query agent_id jid timestamp_ms sha256 =
     SIGNATURE_CONTEXT @ [10] @ lit ''GET'' @ [10] @ path_and_query @ [10] @ agent_id @ [10] @ jid @ [10] @
     dec (unat timestamp_ms) @ [10] @ sha256"

datatype TransferFailure = TransferTimeout | TransferConnect | TransferOther

fun sanitize_transport :: "TransferFailure \<Rightarrow> ustring" where
  "sanitize_transport TransferTimeout = lit ''the connection timed out''"
| "sanitize_transport TransferConnect = lit ''the server could not be reached''"
| "sanitize_transport TransferOther = lit ''the transfer ended unexpectedly''"

record SignedRequest =
  sr_url :: Url
  sr_agent_id :: ustring
  sr_job_id :: ustring
  sr_timestamp :: ustring
  sr_signature :: ustring

record DocumentResponse =
  dr_status :: nat
  dr_content_length :: "64 word option"
  dr_chunks :: "(TransferFailure + nat list) list"
  dr_body_timed_out :: bool

text \<open>\<open>None\<close> is the deadline of the crate's own \<open>timeout\<close>.\<close>

record fetch_env =
  fe_urls :: url_lib
  fe_crypto :: crypto
  fe_sha256 :: "nat list \<Rightarrow> nat list"
  fe_unix_milliseconds :: "nat \<Rightarrow> 64 word"
  fe_send :: "SignedRequest \<Rightarrow> (TransferFailure + DocumentResponse) option"

record HttpDocumentFetcher =
  hf_credential_ref :: ustring
  hf_agent_id :: ustring
  hf_timeout :: nat

section \<open>Integrity\<close>

definition hex_nibble :: "nat \<Rightarrow> codepoint" where
  "hex_nibble n = (if n < 10 then 48 + n else 87 + n)"

definition sha256_hex :: "fetch_env \<Rightarrow> nat list \<Rightarrow> ustring" where
  "sha256_hex E body = concat (map (\<lambda>b. [hex_nibble (b div 16), hex_nibble (b mod 16)]) (fe_sha256 E body))"

definition verify_digest :: "fetch_env \<Rightarrow> nat list \<Rightarrow> ustring \<Rightarrow> DocumentFetchError + unit" where
  "verify_digest E body expected_hex =
     (if sha256_hex E body = expected_hex then Ok () else Err IntegrityMismatch)"

text \<open>The lengths are \<open>u64\<close>; a body longer than the declaration is refused at the chunk that exceeds it.\<close>

fun read_chunks ::
  "(TransferFailure + nat list) list \<Rightarrow> 64 word \<Rightarrow> nat list \<Rightarrow> DocumentFetchError + nat list" where
  "read_chunks [] expected body = Ok body"
| "read_chunks (Inl e # chunks) expected body = Err (TransportFailed (sanitize_transport e))"
| "read_chunks (Inr chunk # chunks) expected body =
     (let received = length body + length chunk in
      if received > unat expected then Err (LengthMismatch expected (of_nat received))
      else read_chunks chunks expected (body @ chunk))"

definition read_bounded ::
  "(TransferFailure + nat list) list \<Rightarrow> 64 word \<Rightarrow> DocumentFetchError + nat list" where
  "read_bounded chunks expected =
     and_then (read_chunks chunks expected []) (\<lambda>body.
       if length body \<noteq> unat expected then Err (LengthMismatch expected (of_nat (length body)))
       else Ok body)"

section \<open>Fetching\<close>

text \<open>The checks on the status line and the advertised length, in order.\<close>

definition check_response :: "DocumentResponse \<Rightarrow> 64 word \<Rightarrow> DocumentFetchError + unit" where
  "check_response response byte_length =
     (let status = dr_status response in
      if status = 404 \<or> status = 410 then Err (NotFound (of_nat status))
      else if 500 \<le> status \<and> status < 600 then Err (ServerError (of_nat status))
      else if \<not> is_success status then Err (Refused (of_nat status))
      else case dr_content_length response of
        Some advertised \<Rightarrow>
          if advertised \<noteq> byte_length then Err (LengthMismatch byte_length advertised) else Ok ()
      | None \<Rightarrow> Ok ())"

definition fetch_pdf ::
  "fetch_env \<Rightarrow> 's secret_ops \<Rightarrow> HttpDocumentFetcher \<Rightarrow> nat \<Rightarrow> ustring \<Rightarrow> PdfSource \<Rightarrow>
     ('s, DocumentFetchError, nat list) eff" where
  "fetch_pdf E K f n jid pdf = (case pdf of PdfUrl url sha256 byte_length \<Rightarrow>
     ebind (elift (map_err (\<lambda>e. InvalidSource (ValidationError_to_string e)) (PdfSource_validate pdf))) (\<lambda>_.
     ebind (elift (map_err (\<lambda>_. InvalidSource (lit ''the URL is not absolute'')) (url_parse (fe_urls E) url))) (\<lambda>parsed.
     let path_and_query = (case u_query parsed of
           Some query \<Rightarrow> u_path parsed @ lit ''?'' @ query | None \<Rightarrow> u_path parsed);
         timestamp_ms = fe_unix_milliseconds E n;
         payload = canonical_request path_and_query (hf_agent_id f) jid timestamp_ms sha256 in
     ebind (emap_err (\<lambda>e. Authorization (AuthError_to_string e))
       (key_sign (fe_crypto E) K (hf_credential_ref f) (utf8_bytes payload))) (\<lambda>signature.
     let request = \<lparr>sr_url = parsed, sr_agent_id = hf_agent_id f, sr_job_id = jid,
           sr_timestamp = dec (unat timestamp_ms), sr_signature = b64_encode (cr_base64 (fe_crypto E)) signature\<rparr> in
     ebind (elift (ok_or (FetchTimeout (hf_timeout f)) (fe_send E request))) (\<lambda>sent.
     ebind (elift (map_err (\<lambda>e. TransportFailed (sanitize_transport e)) sent)) (\<lambda>response.
     ebind (elift (check_response response byte_length)) (\<lambda>_.
     ebind (elift (reject_if (dr_body_timed_out response) (FetchTimeout (hf_timeout f)))) (\<lambda>_.
     ebind (elift (read_bounded (dr_chunks response) byte_length)) (\<lambda>body.
     ebind (elift (verify_digest E body sha256)) (\<lambda>_.
     eret body))))))))))"

section \<open>What is returned and what is signed\<close>

lemma read_chunks_Ok:
  "read_chunks chunks expected body = Ok b \<Longrightarrow>
    \<exists>cs. chunks = map Inr cs \<and> b = body @ concat cs"
proof (induction chunks expected body rule: read_chunks.induct)
  case (3 chunk chunks expected body)
  then obtain cs where "chunks = map Inr cs" "b = (body @ chunk) @ concat cs"
    by (auto simp: Let_def split: if_splits)
  then show ?case by (intro exI [of _ "chunk # cs"]) simp
qed auto

text \<open>However long the body would be, no more than the declared length is ever kept.\<close>

lemma read_bounded_length: "read_bounded chunks expected = Ok b \<Longrightarrow> length b = unat expected"
  by (auto simp: read_bounded_def and_then_Ok split: if_splits)

lemma read_bounded_exact:
  "concat cs = b \<Longrightarrow> length b = unat expected \<Longrightarrow> read_bounded (map Inr cs) expected = Ok b"
proof -
  have "length body + length (concat cs) \<le> unat expected \<Longrightarrow>
      read_chunks (map Inr cs) expected body = Ok (body @ concat cs)" for body
    by (induction cs arbitrary: body) (auto simp: Let_def)
  from this [of "[]"] show "concat cs = b \<Longrightarrow> length b = unat expected \<Longrightarrow> ?thesis"
    by (simp add: read_bounded_def)
qed

text \<open>Everything that was agreed on enters the signed text injectively.\<close>

lemma first_line:
  "10 \<notin> set a \<Longrightarrow> 10 \<notin> set b \<Longrightarrow> a @ 10 # s = b @ 10 # t \<Longrightarrow> a = b \<and> s = t"
proof (induction a arbitrary: b)
  case Nil
  then show ?case by (cases b) auto
next
  case (Cons x a)
  then show ?case by (cases b) auto
qed

lemma dec_no_newline: "10 \<notin> set (dec n)"
  using dec_digits [of n] by (auto simp: is_ascii_digit_def)

lemma canonical_request_inject:
  assumes "10 \<notin> set p" "10 \<notin> set p'" "10 \<notin> set a" "10 \<notin> set a'" "10 \<notin> set j" "10 \<notin> set j'"
  shows "canonical_request p a j t h = canonical_request p' a' j' t' h' \<longleftrightarrow>
    p = p' \<and> a = a' \<and> j = j' \<and> t = t' \<and> h = h'"
proof
  assume "canonical_request p a j t h = canonical_request p' a' j' t' h'"
  then have "p @ 10 # a @ 10 # j @ 10 # dec (unat t) @ 10 # h =
      p' @ 10 # a' @ 10 # j' @ 10 # dec (unat t') @ 10 # h'"
    by (simp add: canonical_request_def)
  then show "p = p' \<and> a = a' \<and> j = j' \<and> t = t' \<and> h = h'"
    using assms first_line dec_no_newline dec_inject by (metis word_unat_eq_iff)
qed simp

end
