(* ===== verification/Connection_Properties.thy ===== *)
theory Connection_Properties
  imports Transport_Laws Agent_Auth_Laws Document_Fetch Sample_Values
begin

text \<open>
  The properties of the connection to the server: the codec, the session a transport keeps, its
  buffer and its reconnection loop, the endpoints and keys of the authentication, and the retrieval
  of documents.
\<close>

section \<open>The codec\<close>

text \<open>
  The derived conversion of a server message reads the version of the envelope from its field and
  knows no other spelling of it.
\<close>

definition reads_version :: "serde \<Rightarrow> bool" where
  "reads_version S \<longleftrightarrow> (\<forall>v m. server_from_value S v = Ok m \<longrightarrow>
     value_get v (lit ''protocolVersion'') = Some (JString (version_as_str (sm_protocol_version m))))"

lemma version_as_str_inject: "version_as_str v = version_as_str w \<longleftrightarrow> v = w"
  by (cases v; cases w) (simp_all add: lit_def)

lemma supported_all: "v \<in> set SUPPORTED"
  by (cases v) (simp_all add: SUPPORTED_def)

lemma offers_checked:
  "ensure_offers_supported offers supported = Ok () \<longleftrightarrow> set offers \<subseteq> set supported"
  by (auto simp: ensure_offers_supported_def list_all_iff)

definition hello_offers :: "ServerMessage \<Rightarrow> ProtocolVersion list" where
  "hello_offers m = (case sm_kind m of ServerHelloMsg hello \<Rightarrow> sh_supported_versions hello | _ \<Rightarrow> [])"

text \<open>The part of decoding that does not depend on the supported versions.\<close>

definition message_of_value :: "serde \<Rightarrow> Value \<Rightarrow> ProtocolError + ServerMessage" where
  "message_of_value S v =
     and_then (validate_envelope_shape v) (\<lambda>_.
     and_then (deserialize_message (server_from_value S) v) (\<lambda>message.
     and_then (map_err InvalidMessage (ServerMessage_validate message)) (\<lambda>_. Ok message)))"

lemma decode_server_split:
  "decode_server_message_for S bytes supported =
     and_then (enforce_size (length bytes)) (\<lambda>_.
     and_then (ok_or InvalidJson (from_slice S bytes)) (\<lambda>raw.
     and_then (assert_supported_version S (normalize_integral_numbers raw) supported) (\<lambda>_.
     and_then (message_of_value S (normalize_integral_numbers raw)) (\<lambda>m.
     and_then (ensure_offers_supported (hello_offers m) supported) (\<lambda>_. Ok m)))))"
proof -
  have assoc: "and_then (and_then x f) g = and_then x (\<lambda>a. and_then (f a) g)"
    for x :: "'e + 'a" and f :: "'a \<Rightarrow> 'e + 'b" and g :: "'b \<Rightarrow> 'e + 'c" by (cases x) simp_all
  have "(case sm_kind m of ServerHelloMsg hello \<Rightarrow> ensure_offers_supported (sh_supported_versions hello) supported
      | _ \<Rightarrow> Ok ()) = ensure_offers_supported (hello_offers m) supported" for m
    by (simp add: hello_offers_def ensure_offers_supported_def reject_if_def split: ServerMessageKind.split)
  then show ?thesis
    by (simp add: decode_server_message_for_def decode_value_def message_of_value_def Let_def assoc)
qed

lemma version_gate:
  assumes "reads_version S" "message_of_value S v = Ok m"
  shows "assert_supported_version S v supported = (if sm_protocol_version m \<in> set supported then Ok ()
    else Err (UnsupportedProtocolVersion (version_as_str (sm_protocol_version m)) (map version_as_str supported)))"
proof -
  have "server_from_value S v = Ok m" using assms(2)
    by (auto simp: message_of_value_def deserialize_message_def and_then_Ok)
  then have "value_get v (lit ''protocolVersion'') = Some (JString (version_as_str (sm_protocol_version m)))"
    using assms(1) by (simp add: reads_version_def)
  moreover have "list_ex (\<lambda>candidate. JString (version_as_str (sm_protocol_version m)) =
      JString (version_as_str candidate)) supported \<longleftrightarrow> sm_protocol_version m \<in> set supported"
    by (auto simp: list_ex_iff version_as_str_inject)
  ultimately show ?thesis by (simp add: assert_supported_version_def)
qed

text \<open>A message that is well formed in every version: what the decoders of narrower peers make of it.\<close>

lemma decode_narrowed:
  assumes "reads_version S" "decode_server_message S bytes = Ok m"
  shows "decode_server_message_for S bytes supported =
    (if sm_protocol_version m \<notin> set supported
     then Err (UnsupportedProtocolVersion (version_as_str (sm_protocol_version m)) (map version_as_str supported))
     else and_then (ensure_offers_supported (hello_offers m) supported) (\<lambda>_. Ok m))"
proof -
  obtain raw where "from_slice S bytes = Some raw" and m: "message_of_value S (normalize_integral_numbers raw) = Ok m"
    and "enforce_size (length bytes) = Ok ()"
    using assms(2) by (auto simp: decode_server_message_def decode_server_split and_then_Ok split: option.splits)
  then show ?thesis using version_gate [OF assms(1) m] by (simp add: decode_server_split)
qed

lemma decode_widened:
  assumes "reads_version S" "decode_server_message_for S bytes supported = Ok m"
  shows "decode_server_message S bytes = Ok m"
proof -
  obtain raw where "from_slice S bytes = Some raw" and m: "message_of_value S (normalize_integral_numbers raw) = Ok m"
    and "enforce_size (length bytes) = Ok ()"
    using assms(2) by (auto simp: decode_server_split and_then_Ok split: option.splits)
  moreover have "ensure_offers_supported (hello_offers m) SUPPORTED = Ok ()"
    using supported_all by (auto simp: offers_checked)
  ultimately show ?thesis using version_gate [OF assms(1) m, of SUPPORTED] supported_all
    by (simp add: decode_server_message_def decode_server_split)
qed

lemma decoded_valid:
  assumes "decode_server_message S bytes = Ok m"
  shows "length bytes \<le> MAX_WIRE_MESSAGE_BYTES" "ServerMessage_validate m = Ok ()"
  using assms by (auto simp: decode_server_message_def decode_server_split message_of_value_def and_then_Ok enforce_size_def
      reject_if_def split: if_splits)

text \<open>C22: The versions a peer supports decide exactly which messages of the server it takes: a decoder
  for some versions returns a message if and only if the decoder for all of them returns it, the
  version of its envelope is supported and, for a hello, every offered version is; a message
  with another version is refused by naming that version and the supported ones, and a hello with another offer is
  refused. Whatever is returned fits the size limit, a hello has the base version, and a print job for
  a PDF document has the extended one, so a peer restricted to the base version is never given one.\<close>

theorem versions_enforced:
  assumes "reads_version S"
  shows "(decode_server_message_for S bytes supported = Ok m \<longleftrightarrow> decode_server_message S bytes = Ok m \<and>
      sm_protocol_version m \<in> set supported \<and>
      (\<forall>hello. sm_kind m = ServerHelloMsg hello \<longrightarrow> set (sh_supported_versions hello) \<subseteq> set supported)) \<and>
    (decode_server_message S bytes = Ok m \<longrightarrow> length bytes \<le> MAX_WIRE_MESSAGE_BYTES \<and>
      (\<forall>hello. sm_kind m = ServerHelloMsg hello \<longrightarrow> sm_protocol_version m = V1 \<and>
         sh_selected_version hello \<in> set (sh_supported_versions hello)) \<and>
      (\<forall>job. sm_kind m = ServerPrintJobMsg job \<longrightarrow> is_pdf (document job) \<longrightarrow> sm_protocol_version m = V2) \<and>
      (sm_protocol_version m \<notin> set supported \<longrightarrow> decode_server_message_for S bytes supported =
         Err (UnsupportedProtocolVersion (version_as_str (sm_protocol_version m)) (map version_as_str supported))))"
proof (intro conjI impI)
  have offers: "set (hello_offers m) \<subseteq> set supported \<longleftrightarrow>
      (\<forall>hello. sm_kind m = ServerHelloMsg hello \<longrightarrow> set (sh_supported_versions hello) \<subseteq> set supported)"
    by (cases "sm_kind m") (simp_all add: hello_offers_def)
  show "decode_server_message_for S bytes supported = Ok m \<longleftrightarrow> decode_server_message S bytes = Ok m \<and>
      sm_protocol_version m \<in> set supported \<and>
      (\<forall>hello. sm_kind m = ServerHelloMsg hello \<longrightarrow> set (sh_supported_versions hello) \<subseteq> set supported)"
  proof -
    have "decode_server_message_for S bytes supported = Ok m \<longleftrightarrow>
        sm_protocol_version m \<in> set supported \<and> set (hello_offers m) \<subseteq> set supported"
      if "decode_server_message S bytes = Ok m"
      using decode_narrowed [OF assms that, of supported] by (simp add: and_then_Ok offers_checked)
    then show ?thesis unfolding offers [symmetric] using decode_widened [OF assms, of bytes supported m] by blast
  qed
next
  assume ok: "decode_server_message S bytes = Ok m"
  note valid = decoded_valid [OF ok]
  show "length bytes \<le> MAX_WIRE_MESSAGE_BYTES" by (rule valid(1))
  show "\<forall>hello. sm_kind m = ServerHelloMsg hello \<longrightarrow> sm_protocol_version m = V1 \<and>
      sh_selected_version hello \<in> set (sh_supported_versions hello)"
    using valid(2) by (auto simp: ServerMessage_validate_def first_err_Ok wire_checks ServerMessageKind_validate_def
        ServerHello_validate_def)
  show "\<forall>job. sm_kind m = ServerPrintJobMsg job \<longrightarrow> is_pdf (document job) \<longrightarrow> sm_protocol_version m = V2"
    using valid(2) by (auto simp: ServerMessage_validate_def first_err_Ok wire_checks required_server_version_def EXTENDED_def)
  show "decode_server_message_for S bytes supported =
      Err (UnsupportedProtocolVersion (version_as_str (sm_protocol_version m)) (map version_as_str supported))"
    if "sm_protocol_version m \<notin> set supported"
    using decode_narrowed [OF assms ok] that by simp
qed

text \<open>
  A reader of heartbeat requests: the first byte of the text is the version, the rest the identifier
  of the message.
\<close>

definition sample_heartbeat_request :: "ProtocolVersion \<Rightarrow> ustring \<Rightarrow> ServerMessage" where
  "sample_heartbeat_request version i = \<lparr>sm_protocol_version = version, sm_message_id = i,
     sm_sent_at = lit ''2024-01-01T00:00:00Z'', sm_correlation_id = None,
     sm_kind = ServerHeartbeatMsg \<lparr>timeout_ms = 5000\<rparr>\<rparr>"

definition sample_reader :: serde where
  "sample_reader = \<lparr>from_slice = (\<lambda>bytes. if bytes = [] then None else Some (JObject
       [(lit ''protocolVersion'', JString [hd bytes]), (lit ''messageId'', JString (tl bytes))])),
     float_to_string = (\<lambda>_. []), agent_from_value = (\<lambda>_. Err []),
     server_from_value = (\<lambda>v. case (value_get v (lit ''protocolVersion''), value_get v (lit ''messageId'')) of
         (Some (JString version), Some (JString i)) \<Rightarrow>
           (case find (\<lambda>candidate. version_as_str candidate = version) SUPPORTED of
              Some candidate \<Rightarrow> Ok (sample_heartbeat_request candidate i) | None \<Rightarrow> Err (lit ''unknown variant''))
       | _ \<Rightarrow> Err (lit ''missing field'')),
     agent_to_vec = (\<lambda>_. Err []), server_to_vec = (\<lambda>_. Err [])\<rparr>"

lemma sample_reader_reads: "reads_version sample_reader"
  by (auto simp: reads_version_def sample_reader_def sample_heartbeat_request_def find_Some_iff
      split: option.splits Value.splits)

lemma sample_heartbeat_decoded:
  "decode_server_message sample_reader (lit ''2m1'') = Ok (sample_heartbeat_request V2 (lit ''m1''))"
proof -
  have "ServerMessage_validate (sample_heartbeat_request V2 (lit ''m1'')) = Ok ()"
    by (simp add: ServerMessage_validate_def sample_heartbeat_request_def first_err_Ok wire_checks validate_envelope_def
        sample_timestamp ServerMessageKind_validate_def required_server_version_def if_some_Ok BASE_def
        HeartbeatRequest_validate_def)
  then show ?thesis
    by (simp add: decode_server_message_def decode_server_split enforce_size_def MAX_WIRE_MESSAGE_BYTES_def reject_if_def
        sample_reader_def message_of_value_def deserialize_message_def validate_envelope_shape_def reject_unknown_fields_def
        ENVELOPE_FIELDS_def assert_supported_version_def SUPPORTED_def hello_offers_def sample_heartbeat_request_def
        ensure_offers_supported_def lit_def)
qed

theorem versions_enforced_witness:
  "decode_server_message_for sample_reader (lit ''2m1'') [V2] = Ok (sample_heartbeat_request V2 (lit ''m1'')) \<and>
   decode_server_message_for sample_reader (lit ''2m1'') [V1] =
     Err (UnsupportedProtocolVersion (lit ''2'') [lit ''1''])"
  using versions_enforced [OF sample_reader_reads, of "lit ''2m1''" "[V2]" "sample_heartbeat_request V2 (lit ''m1'')"]
    versions_enforced [OF sample_reader_reads, of "lit ''2m1''" "[V1]" "sample_heartbeat_request V2 (lit ''m1'')"]
    sample_heartbeat_decoded
  by (simp add: sample_heartbeat_request_def)

section \<open>A sample\<close>

definition sample_heartbeat :: AgentMessage where
  "sample_heartbeat = \<lparr>am_protocol_version = V1, am_message_id = lit ''m1'',
     am_sent_at = lit ''2024-01-01T00:00:00Z'', am_correlation_id = Some (lit ''m1''),
     am_kind = AgentHeartbeatMsg \<lparr>uptime_seconds = 5\<rparr>\<rparr>"

definition sample_hello :: AgentMessage where
  "sample_hello = \<lparr>am_protocol_version = V1, am_message_id = lit ''m1'',
     am_sent_at = lit ''2024-01-01T00:00:00Z'', am_correlation_id = None,
     am_kind = AgentHelloMsg \<lparr>ah_agent_id = lit ''p1'', ah_agent_version = lit ''1'',
       ah_product_id = lit ''p1'', ah_product_version = lit ''1'', ah_supported_versions = [V1]\<rparr>\<rparr>"

lemma sample_one: "utf16_count (lit ''1'') = 1"
  by (simp add: lit_def)

lemma sample_heartbeat_valid: "AgentMessage_validate sample_heartbeat = Ok ()"
  by (simp add: AgentMessage_validate_def sample_heartbeat_def first_err_Ok wire_checks validate_envelope_def
      sample_timestamp AgentMessageKind_validate_def AgentHeartbeat_validate_def validate_safe_integer_def
      MAX_SAFE_INTEGER_def required_version_def if_some_Ok BASE_def)

lemma sample_hello_valid: "AgentMessage_validate sample_hello = Ok ()"
  by (simp add: AgentMessage_validate_def sample_hello_def first_err_Ok wire_checks validate_envelope_def
      sample_timestamp AgentMessageKind_validate_def AgentHello_validate_def sample_one
      required_version_def if_some_Ok BASE_def)

definition sample_serde :: serde where
  "sample_serde = \<lparr>from_slice = (\<lambda>_. Some (JObject [(lit ''protocolVersion'', JString (lit ''1''))])),
     float_to_string = (\<lambda>_. []), agent_from_value = (\<lambda>_. Ok sample_heartbeat),
     server_from_value = (\<lambda>_. Ok sample_message),
     agent_to_vec = (\<lambda>m. Ok [if is_agent_hello (am_kind m) then 104 else 98]),
     server_to_vec = (\<lambda>_. Ok [115])\<rparr>"

lemma sample_encodes:
  "encode_agent_message sample_serde sample_heartbeat = Ok [98]"
  "encode_agent_message sample_serde sample_hello = Ok [104]"
  by (simp_all add: encode_agent_message_def encode_message_def sample_heartbeat_valid sample_hello_valid)
    (simp_all add: sample_serde_def sample_heartbeat_def sample_hello_def enforce_size_def
      MAX_WIRE_MESSAGE_BYTES_def reject_if_def)

section \<open>The session\<close>

text \<open>C9: Whatever operations ran and whatever the peer, the network and the user did, the frames
  written and read on the socket of a transport are a run of the session automaton that ends in the
  phase its flags name: proofs before the acceptance was read, then one hello, then only other
  messages; every ping was answered in order, and a socket is there exactly when the transport says
  it is connected.\<close>

theorem session_refined:
  assumes "transport_reachable T s"
  shows "session T (wire_log s) (if tr_socket s = None then Challenged else phase_of s) \<and>
    pongs (wire_log s) = pings (wire_log s) \<and>
    (tr_state s = ConnectionState.Connected \<longleftrightarrow> tr_socket s \<noteq> None) \<and> tr_published s = tr_state s \<and>
    length (tr_outbound s) \<le> tc_outbound_buffer_capacity (tr_config s)"
  using reachable_ok [OF assms]
  by (auto simp: transport_ok_def base_ok_def session_ok_def wire_log_def intro: session.start split: option.splits)

definition sample_accepted :: GatewayAuthenticationAccepted where
  "sample_accepted = \<lparr>ga_message_type = lit ''auth.accepted'', ga_session_id = lit ''m1'',
     ga_agent_id = lit ''p1'', ga_heartbeat_interval_ms = 5000\<rparr>"

definition sample_base64 :: base64url where
  "sample_base64 = \<lparr>b64_decode = Some, b64_encode = (\<lambda>s. s)\<rparr>"

definition sample_transport_env :: transport_env where
  "sample_transport_env = \<lparr>te_serde = sample_serde, te_base64 = sample_base64,
     te_floats = \<lparr>fl_mul = (\<lambda>a _. a), fl_add = (\<lambda>a _. a), fl_mul_add = (\<lambda>a _ _. a), fl_powi = (\<lambda>a _. a),
       fl_min = (\<lambda>a _. a), fl_max = (\<lambda>a _. a), fl_as_secs = (\<lambda>n. Finite (int n) 0),
       fl_from_secs = (\<lambda>f. nat (mantissa f))\<rparr>,
     te_from_utf8_error = (\<lambda>_. []), te_response_to_string = (\<lambda>_. Ok []),
     te_auth_from_str = (\<lambda>_. Some (Accepted sample_accepted)), te_into_request = (\<lambda>_. Ok ()),
     te_connect = (\<lambda>n. if n < 2 then ConnectTimedOut
       else ConnectDone [NextFrame (PingFrame [1]), NextFrame (TextFrame (lit ''a''))] [] CloseDone),
     te_jitter = (\<lambda>_. f64_zero), te_cancelled = (\<lambda>_. False)\<rparr>"

definition sample_config :: TransportConfig where
  "sample_config = \<lparr>tc_endpoint = \<lparr>u_as_str = lit ''wss://h/'', u_scheme = lit ''wss'', u_username = [],
     u_password = None, u_host_str = Some (lit ''h''), u_path = lit ''/'', u_query = None, u_fragment = None\<rparr>,
     tc_connect_timeout = 7, tc_idle_timeout = 7, tc_outbound_buffer_capacity = 2\<rparr>"

text \<open>The transport after the gateway refused twice, and with one accepted connection.\<close>

definition sample_connected :: WebSocketTransport where
  "sample_connected = \<lparr>tr_config = sample_config,
     tr_socket = Some (new_socket [NextFrame (PingFrame [1]), NextFrame (TextFrame (lit ''a''))] [] CloseDone),
     tr_state = ConnectionState.Connected, tr_published = ConnectionState.Connected, tr_outbound = [sample_heartbeat],
     tr_authenticated = False, tr_hello_sent = False, tr_connects = 3\<rparr>"

definition sample_admitted :: WebSocketTransport where
  "sample_admitted = sample_connected\<lparr>tr_socket := Some \<lparr>sk_log = [Got (PingFrame [1]), Sent (PongFrame [1]),
     Got (TextFrame (lit ''a''))], sk_reads = [], sk_writes = [], sk_close = CloseDone\<rparr>,
     tr_authenticated := True\<rparr>"

definition sample_created :: WebSocketTransport where
  "sample_created = \<lparr>tr_config = sample_config, tr_socket = None, tr_state = ConnectionState.Disconnected,
     tr_published = ConnectionState.Disconnected, tr_outbound = [], tr_authenticated = False, tr_hello_sent = False,
     tr_connects = 0\<rparr>"

lemma sample_config_valid: "TransportConfig_validate sample_config = Ok ()"
  by (simp add: TransportConfig_validate_def sample_config_def Let_def first_err_Ok)

lemma sample_config_sizes [simp]:
  "tc_connect_timeout sample_config = 7" "tc_outbound_buffer_capacity sample_config = 2"
  by (simp_all add: sample_config_def)

lemma sample_transport_steps:
  "WebSocketTransport_new sample_config = Ok sample_created"
  "buffer sample_transport_env sample_heartbeat sample_created =
     (Ok (), sample_created\<lparr>tr_outbound := [sample_heartbeat]\<rparr>)"
  "transport_connect sample_transport_env (sample_created\<lparr>tr_outbound := [sample_heartbeat]\<rparr>) =
     (Err (ConnectTimeout 7), sample_created\<lparr>tr_outbound := [sample_heartbeat], tr_connects := 1\<rparr>)"
  "transport_connect sample_transport_env (sample_created\<lparr>tr_outbound := [sample_heartbeat], tr_connects := 1\<rparr>) =
     (Err (ConnectTimeout 7), sample_created\<lparr>tr_outbound := [sample_heartbeat], tr_connects := 2\<rparr>)"
  "transport_connect sample_transport_env (sample_created\<lparr>tr_outbound := [sample_heartbeat], tr_connects := 2\<rparr>) =
     (Ok (), sample_connected)"
proof -
  have enc: "encode_agent_message (te_serde sample_transport_env) sample_heartbeat = Ok [98]"
    using sample_encodes by (simp add: sample_transport_env_def)
  show "WebSocketTransport_new sample_config = Ok sample_created"
    by (simp add: WebSocketTransport_new_def sample_config_valid sample_created_def)
  show "buffer sample_transport_env sample_heartbeat sample_created =
      (Ok (), sample_created\<lparr>tr_outbound := [sample_heartbeat]\<rparr>)"
    by (simp add: buffer_def enc run_eval sample_created_def) (simp add: sample_heartbeat_def)
qed (simp_all add: sample_created_def transport_connect_def sample_transport_env_def sample_connected_def
    set_state_def Let_def)

lemma sample_accepted_valid: "Accepted_validate sample_accepted = Ok ()"
  by (simp add: Accepted_validate_def sample_accepted_def first_err_Ok wire_checks)

lemma sample_accepts:
  "accept_authentication (Accepted sample_accepted) s = (Ok (Accepted sample_accepted), s\<lparr>tr_authenticated := True\<rparr>)"
  by (simp add: accept_authentication_def sample_accepted_def)

lemma sample_authenticates:
  "receive_authentication sample_transport_env sample_connected = (Ok (Accepted sample_accepted), sample_admitted)"
proof -
  have env: "te_auth_from_str sample_transport_env t = Some (Accepted sample_accepted)" for t
    by (simp add: sample_transport_env_def)
  have "receive_text_frame sample_connected = (Ok (lit ''a''), sample_admitted\<lparr>tr_authenticated := False\<rparr>)"
    by (simp add: sample_connected_def sample_admitted_def receive_text_frame.simps next_frame_def
        socket_next_def write_frame_def socket_send_def new_socket_def)
  moreover have "tr_state sample_connected = ConnectionState.Connected" "\<not> tr_authenticated sample_connected"
      "\<not> tr_hello_sent sample_connected" "byte_len (lit ''a'') \<le> MAX_AUTH_MESSAGE_BYTES"
    by (simp_all add: sample_connected_def MAX_AUTH_MESSAGE_BYTES_def lit_def)
  moreover have "sample_admitted\<lparr>tr_authenticated := False, tr_authenticated := True\<rparr> = sample_admitted"
    by (simp add: sample_admitted_def)
  ultimately show ?thesis
    by (simp add: receive_authentication_def run_eval env sample_accepted_valid sample_accepts)
qed

lemma sample_reachable: "transport_reachable sample_transport_env sample_admitted"
  using transport_reachable.created [OF sample_transport_steps(1)]
    transport_reachable.buffering [OF _ sample_transport_steps(2)]
    transport_reachable.connecting [OF _ sample_transport_steps(3)]
    transport_reachable.connecting [OF _ sample_transport_steps(4)]
    transport_reachable.connecting [OF _ sample_transport_steps(5)]
    transport_reachable.authenticating [OF _ sample_authenticates] by blast

theorem session_refined_witness:
  "session sample_transport_env [Got (PingFrame [1]), Sent (PongFrame [1]), Got (TextFrame (lit ''a''))] Admitted"
  using session_refined [OF sample_reachable]
  by (simp add: sample_admitted_def sample_connected_def wire_log_def phase_of_def)


text \<open>A hello that is accepted is followed on the wire by exactly the buffered messages, oldest
  first, and empties the buffer; whatever happens to a send, the buffer afterwards is what is left of
  it behind a prefix, so no buffered message is dropped from the middle, duplicated or reordered.\<close>

theorem buffer_sent_in_order:
  assumes "transport_send T m s = (r, s')" "is_agent_hello (am_kind m)" "transport_reachable T s"
  shows "(is_ok r \<longrightarrow> wire_log s' = wire_log s @ sent_messages T (m # tr_outbound s) \<and> tr_outbound s' = [] \<and>
      tr_hello_sent s') \<and>
    (\<exists>n. tr_outbound s' = drop n (tr_outbound s))"
proof (cases "tr_state s \<noteq> ConnectionState.Connected \<or> \<not> tr_authenticated s \<or> tr_hello_sent s")
  case True
  then have "s' = s" "\<not> is_ok r" using assms(1,2) by (auto simp: transport_send_def Let_def split: if_splits)
  then show ?thesis by (auto intro: exI [of _ 0])
next
  case False
  then have sock: "tr_socket s \<noteq> None"
    using reachable_ok [OF assms(3)] by (auto simp: transport_ok_def base_ok_def)
  obtain x s1 where send: "send_encoded T m s = (x, s1)" by (cases "send_encoded T m s")
  note log = send_encoded_log [OF send sock] and out = send_encoded_outbound [OF send]
  show ?thesis
  proof (cases x)
    case (Inl e)
    then have "s' = transport_disconnect s1" "\<not> is_ok r"
      using assms(1,2) False send by (auto simp: transport_send_def Let_def)
    then show ?thesis using out by (auto simp: transport_disconnect_def set_state_def intro: exI [of _ 0])
  next
    case (Inr u)
    let ?s = "s1\<lparr>tr_hello_sent := True\<rparr>"
    obtain y s2 where fl: "flush_buffer T ?s = (y, s2)" by (cases "flush_buffer T ?s")
    have res: "r = y" "s' = (if is_ok y then s2 else transport_disconnect s2)"
      using assms(1,2) False send Inr fl by (auto simp: transport_send_def Let_def)
    obtain n where n: "wire_log s2 = wire_log ?s @ sent_messages T (take n (tr_outbound ?s))"
        "tr_outbound s2 = drop n (tr_outbound ?s)" "is_ok y \<longrightarrow> tr_outbound s2 = []"
      using flush_buffer_order [OF fl] log by auto
    have "base_ok T s2"
      using hello_then_flush_keeps [OF send [unfolded Inr] fl reachable_ok [OF assms(3)] _ assms(2)] False
      by (simp add: phase_of_def)
    have ph: "tr_hello_sent s2"
    proof -
      have "phase_of s = Admitted" using False by (simp add: phase_of_def)
      moreover have "transport_ok T s" by (rule reachable_ok [OF assms(3)])
      ultimately have ok: "base_ok T s" "session_ok T Admitted s" by (auto simp: transport_ok_def)
      have "\<And>t. encoded_text T m = Ok t \<Longrightarrow> session_step T Admitted (Sent (TextFrame t)) Established"
        using assms(2) by (auto intro!: session_step.hello simp: message_text_def)
      from send_encoded_ok [OF send ok this] Inr False
      have "base_ok T ?s" "session_ok T Established ?s"
        by (auto simp: base_ok_def session_ok_def same_flags_def)
      from flush_buffer_ok [OF fl this] show ?thesis by simp
    qed
    show ?thesis
    proof (cases "is_ok y")
      case True
      then have "take n (tr_outbound s) = tr_outbound s" using n(2,3) out by simp
      then show ?thesis using True res n log out Inr ph
        by (auto simp: wire_log_def sent_messages_def)
    next
      case False
      then show ?thesis using res n(2) out by (auto simp: transport_disconnect_def set_state_def)
    qed
  qed
qed

lemma sample_sends:
  "transport_send sample_transport_env sample_hello sample_admitted = (Ok (),
     sample_admitted\<lparr>tr_socket := Some \<lparr>sk_log = [Got (PingFrame [1]), Sent (PongFrame [1]),
       Got (TextFrame (lit ''a'')), Sent (TextFrame [104]), Sent (TextFrame [98])], sk_reads = [], sk_writes = [],
       sk_close = CloseDone\<rparr>, tr_hello_sent := True, tr_outbound := []\<rparr>)"
proof -
  have "encoded_text sample_transport_env sample_heartbeat = Ok [98]" "encoded_text sample_transport_env sample_hello = Ok [104]"
    using sample_encodes by (simp_all add: encoded_text_def sample_transport_env_def)
  moreover have "is_agent_hello (am_kind sample_hello)" by (simp add: sample_hello_def)
  ultimately show ?thesis
    by (simp add: transport_send_def sample_admitted_def sample_connected_def send_encoded_def run_eval
        write_frame_def socket_send_def flush_buffer.simps)
qed

theorem buffer_sent_in_order_witness:
  "sent_messages sample_transport_env [sample_hello, sample_heartbeat] = [Sent (TextFrame [104]), Sent (TextFrame [98])]"
proof -
  have "is_agent_hello (am_kind sample_hello)" by (simp add: sample_hello_def)
  from buffer_sent_in_order [OF sample_sends this sample_reachable] show ?thesis
    by (simp add: wire_log_def sample_admitted_def sample_connected_def)
qed

section \<open>Reconnecting\<close>

text \<open>With a limit on its attempts the reconnection loop returns whatever the network does, after
  at most one connection attempt more than the limit leaves.\<close>

theorem reconnect_returns:
  assumes "bp_maximum_attempts (rb_policy b) = Some n"
  shows "\<exists>r s' b'. connect_with_backoff (Suc (unat n - unat (rb_attempts b))) T (s, b) = Some (r, s', b') \<and>
    tr_connects s' \<le> tr_connects s + Suc (unat n - unat (rb_attempts b))"
proof -
  obtain r s' b' where "connect_with_backoff (Suc (unat n - unat (rb_attempts b))) T (s, b) = Some (r, s', b')"
    using backoff_returns [OF assms, of "Suc (unat n - unat (rb_attempts b))" T s] by auto
  moreover from this have "tr_connects s' \<le> tr_connects s + Suc (unat n - unat (rb_attempts b))"
    by (rule backoff_connects)
  ultimately show ?thesis by blast
qed

definition sample_backoff :: ReconnectBackoff where
  "sample_backoff = \<lparr>rb_policy = \<lparr>bp_initial_delay = 5, bp_maximum_delay = 9, bp_multiplier = Finite 2 0,
     bp_jitter_fraction = f64_zero, bp_maximum_attempts = Some 3\<rparr>, rb_attempts = 0\<rparr>"

theorem reconnect_returns_witness:
  "connect_with_backoff 4 sample_transport_env (sample_created, sample_backoff) \<noteq> None"
proof -
  have "bp_maximum_attempts (rb_policy sample_backoff) = Some 3" by (simp add: sample_backoff_def)
  moreover have "Suc (unat (3 :: 32 word) - unat (rb_attempts sample_backoff)) = 4" by (simp add: sample_backoff_def)
  ultimately show ?thesis
    using reconnect_returns [of sample_backoff 3 sample_transport_env sample_created] by (metis option.distinct(1))
qed

text \<open>C23: A gateway that refuses or times out a number of times within the limit and then accepts is
  connected to: the loop returns success, on a fresh unauthenticated socket, with the counter of failed
  attempts cleared and the buffered messages still there.\<close>

theorem reconnect_succeeds:
  assumes "answers_after T (tr_connects s) k" "tr_socket s = None"
    and "te_into_request T (u_as_str (tc_endpoint (tr_config s))) = Ok u" "policy_ok (rb_policy b)"
    and "case bp_maximum_attempts (rb_policy b) of Some n \<Rightarrow> unat (rb_attempts b) + k \<le> unat n
      | None \<Rightarrow> unat (rb_attempts b) + k < 2 ^ 32"
  shows "\<exists>s' b'. connect_with_backoff (Suc k) T (s, b) = Some (Ok (), s', b') \<and>
    tr_state s' = ConnectionState.Connected \<and> phase_of s' = Challenged \<and> wire_log s' = [] \<and> rb_attempts b' = 0 \<and>
    tr_connects s' = tr_connects s + Suc k \<and> tr_outbound s' = tr_outbound s"
  by (rule backoff_succeeds [OF assms])

theorem reconnect_succeeds_witness:
  "\<exists>s' b'. connect_with_backoff 3 sample_transport_env (sample_created, sample_backoff) = Some (Ok (), s', b') \<and>
    tr_state s' = ConnectionState.Connected \<and> rb_attempts b' = 0"
proof -
  have "answers_after sample_transport_env (tr_connects sample_created) 2"
    by (auto simp: answers_after_def sample_transport_env_def sample_created_def jitter_ok_def f64_zero_def f64_one_def)
  moreover have "te_into_request sample_transport_env (u_as_str (tc_endpoint (tr_config sample_created))) = Ok ()"
    by (simp add: sample_transport_env_def)
  moreover have "policy_ok (rb_policy sample_backoff)"
    by (simp add: policy_ok_def sample_backoff_def BackoffPolicy_validate_def f64_is_finite_def f64_one_def f64_zero_def)
  moreover have "tr_socket sample_created = None" by (simp add: sample_created_def)
  moreover have "case bp_maximum_attempts (rb_policy sample_backoff) of Some n \<Rightarrow> unat (rb_attempts sample_backoff) + 2 \<le> unat n
      | None \<Rightarrow> unat (rb_attempts sample_backoff) + 2 < 2 ^ 32"
    by (simp add: sample_backoff_def)
  moreover have "Suc 2 = (3 :: nat)" by simp
  ultimately show ?thesis
    using reconnect_succeeds [of sample_transport_env sample_created 2 "()" sample_backoff] by metis
qed

end
