(* ===== verification/Authentication_Properties.thy ===== *)
theory Authentication_Properties
  imports Agent_Auth_Laws Document_Fetch Transport
begin

text \<open>
  The properties of discovery, pairing and the agent's key, and of the retrieval of documents with
  it.
\<close>

section \<open>Discovery\<close>

text \<open>C25: A discovery that succeeds on a validated document yields endpoints without credentials or
  fragment that use TLS unless their host is loopback, with the schemes each is used for; and a pairing
  that succeeds over it names the discovered server.\<close>

theorem discovered_endpoints_secure:
  assumes "discover L H base = Ok d" "sets_scheme L" "pair B H d q = Ok p"
  shows "secure_endpoint (dv_pairing_url d) \<and> u_scheme (dv_pairing_url d) \<in> {lit ''http'', lit ''https''} \<and>
    secure_endpoint (dv_gateway_url d) \<and> u_scheme (dv_gateway_url d) \<in> {lit ''ws'', lit ''wss''} \<and>
    DiscoveryDocument_validate (dv_document d) = Ok () \<and> PairingResponse_validate p = Ok () \<and>
    pr_server_id p = ds_id (dd_server (dv_document d))"
proof -
  note d = discover_Ok [OF assms(1)]
  from d have p: "resolve_endpoint L base (de_pairing (dd_endpoints (dv_document d))) False = Ok (dv_pairing_url d)"
    and g: "resolve_endpoint L base (de_gateway (dd_endpoints (dv_document d))) True = Ok (dv_gateway_url d)"
    by auto
  show ?thesis
    using d pair_Ok [OF assms(3)] resolve_endpoint_secure [OF p] resolve_endpoint_secure [OF g]
      resolve_endpoint_scheme [OF p assms(2)] resolve_endpoint_scheme [OF g assms(2)] by simp
qed

definition sample_base64url :: base64url where
  "sample_base64url = \<lparr>b64_decode = Some, b64_encode = (\<lambda>s. s)\<rparr>"

definition sample_url :: Url where
  "sample_url = \<lparr>u_as_str = lit ''https://h/'', u_scheme = lit ''https'', u_username = [], u_password = None,
     u_host_str = Some (lit ''h''), u_path = lit ''/'', u_query = None, u_fragment = None\<rparr>"

definition sample_url_lib :: url_lib where
  "sample_url_lib = \<lparr>url_parse = (\<lambda>_. Ok sample_url), url_join = (\<lambda>u _. Ok u),
     url_set_scheme = (\<lambda>s u. Some (u\<lparr>u_scheme := s\<rparr>)), url_set_path = (\<lambda>p u. u\<lparr>u_path := p\<rparr>),
     url_clear_query = (\<lambda>u. u\<lparr>u_query := None\<rparr>), url_clear_fragment = (\<lambda>u. u\<lparr>u_fragment := None\<rparr>)\<rparr>"

definition sample_document :: DiscoveryDocument where
  "sample_document = \<lparr>dd_protocol_version = PROTOCOL_VERSION,
     dd_server = \<lparr>ds_id = lit ''s1'', ds_name = lit ''Shop'', ds_version = lit ''12''\<rparr>,
     dd_endpoints = \<lparr>de_pairing = lit ''/p'', de_gateway = lit ''/g''\<rparr>,
     dd_authentication = \<lparr>da_method = AUTHENTICATION_METHOD, da_challenge_ttl_seconds = 60\<rparr>\<rparr>"

definition sample_pairing_request :: PairingRequest where
  "sample_pairing_request = \<lparr>pq_protocol_version = PROTOCOL_VERSION, pq_code = lit ''AB-12'',
     pq_agent = \<lparr>pa_name = lit ''Desk'', pa_version = lit ''12'', pa_platform = lit ''os'', pa_installation_id = lit ''s1''\<rparr>,
     pq_credential = \<lparr>pc_algorithm = SIGNATURE_ALGORITHM,
       pc_public_key = \<lparr>jwk_kty = lit ''OKP'', jwk_crv = lit ''Ed25519'', jwk_x = replicate 32 65\<rparr>\<rparr>\<rparr>"

definition sample_pairing_response :: PairingResponse where
  "sample_pairing_response = \<lparr>pr_agent_id = lit ''s1'', pr_key_id = lit ''s1'', pr_server_id = lit ''s1'',
     pr_paired_at = lit ''2024-01-01T00:00:00Z''\<rparr>"

definition sample_http :: http_client where
  "sample_http = \<lparr>hc_get = (\<lambda>_. Ok \<lparr>hr_status = 200, hr_content_length = None, hr_body = Ok []\<rparr>),
     hc_post_json = (\<lambda>_ _. Ok \<lparr>hr_status = 200, hr_content_length = None, hr_body = Ok []\<rparr>),
     hc_status_text = dec, hc_discovery_from_slice = (\<lambda>_. Ok sample_document),
     hc_pairing_from_slice = (\<lambda>_. Ok sample_pairing_response), hc_error_from_slice = (\<lambda>_. None)\<rparr>"

lemma sample_identifier: "identifier_shape 128 (lit ''s1'')"
  by (simp add: identifier_shape_def lit_def utf16_len_def is_ascii_alnum_def is_identifier_char_def
      is_ascii_digit_def is_ascii_lower_def is_ascii_upper_def)

lemma sample_paired_at: "validate_timestamp (lit ''2024-01-01T00:00:00Z'') p = Ok ()"
  by (simp add: validate_timestamp_def lit_def utf8_bytes_def utf8_encode_def valid_timestamp_ranges_def
      two_digits_def within_def list_get_def is_ascii_digit_def Let_def)

lemma sample_document_valid: "DiscoveryDocument_validate sample_document = Ok ()"
  by (simp add: DiscoveryDocument_validate_def sample_document_def first_err_Ok wire_checks sample_identifier
      validate_brand_name_def validate_endpoint_def and_then_Ok)
    (simp add: lit_def is_brand_edge_whitespace_def is_brand_unsafe_character_def is_whitespace_def)

lemma sample_request_valid: "PairingRequest_validate sample_base64url sample_pairing_request = Ok ()"
  by (simp add: PairingRequest_validate_def sample_pairing_request_def first_err_Ok wire_checks sample_identifier
      sample_base64url_def)
    (simp add: lit_def utf8_bytes_def utf8_encode_def is_ascii_alnum_def is_ascii_digit_def is_ascii_upper_def)

lemma sample_response_valid: "PairingResponse_validate sample_pairing_response = Ok ()"
  by (simp add: PairingResponse_validate_def sample_pairing_response_def first_err_Ok wire_checks sample_identifier
      sample_paired_at)

definition sample_discovered :: DiscoveredServer where
  "sample_discovered = \<lparr>dv_document = sample_document, dv_pairing_url = sample_url,
     dv_gateway_url = sample_url\<lparr>u_scheme := lit ''wss''\<rparr>\<rparr>"

lemma sample_resolves:
  "resolve_endpoint sample_url_lib sample_url (lit ''/p'') False = Ok sample_url"
  "resolve_endpoint sample_url_lib sample_url (lit ''/g'') True = Ok (sample_url\<lparr>u_scheme := lit ''wss''\<rparr>)"
  by (simp_all add: resolve_endpoint_def gateway_scheme_def sample_url_lib_def sample_url_def lit_def
      is_whitespace_def reject_if_def)

lemma sample_body:
  "bounded_body \<lparr>hr_status = 200, hr_content_length = None, hr_body = Ok []\<rparr> = Ok []" "is_success 200"
  by (simp_all add: bounded_body_def reject_if_def is_success_def)

lemma sample_discovers: "discover sample_url_lib sample_http sample_url = Ok sample_discovered"
proof -
  have "validate_server_url sample_url = Ok ()"
    by (simp add: validate_server_url_def sample_url_def first_err_Ok)
  moreover have "de_pairing (dd_endpoints sample_document) = lit ''/p''" "de_gateway (dd_endpoints sample_document) = lit ''/g''"
    by (simp_all add: sample_document_def)
  ultimately show ?thesis using sample_document_valid sample_resolves
    by (simp add: discover_def sample_http_def sample_body reject_if_def sample_discovered_def Let_def)
qed

lemma sample_pairs: "pair sample_base64url sample_http sample_discovered sample_pairing_request = Ok sample_pairing_response"
  by (simp add: pair_def sample_request_valid sample_http_def sample_body sample_response_valid)
    (simp add: sample_pairing_response_def sample_discovered_def sample_document_def)

theorem discovered_endpoints_secure_witness:
  "secure_endpoint (dv_gateway_url sample_discovered) \<and> u_scheme (dv_gateway_url sample_discovered) = lit ''wss''"
proof -
  have "sets_scheme sample_url_lib" by (simp add: sets_scheme_def sample_url_lib_def)
  from discovered_endpoints_secure [OF sample_discovers this sample_pairs] show ?thesis
    by (simp add: sample_discovered_def)
qed

text \<open>An unencrypted gateway on a loopback address other than 127.0.0.1 passes discovery and is
  refused by the transport, so such an agent pairs and can never connect.\<close>

theorem loopback_gateway_refused:
  assumes "resolve_endpoint L base v True = Ok u" "u_scheme u = lit ''ws''" "u_host_str u = Some h"
    and "h \<notin> {lit ''localhost'', lit ''127.0.0.1'', lit ''::1''}"
  shows "is_loopback_url u \<and>
    WebSocketTransport_new \<lparr>tc_endpoint = u, tc_connect_timeout = c, tc_idle_timeout = i,
      tc_outbound_buffer_capacity = n\<rparr> =
    Err (TransportError.InvalidConfiguration (lit ''gateway must use WSS except for loopback development''))"
proof -
  have "is_loopback_url u" using resolve_endpoint_secure [OF assms(1)] assms(2) by (simp add: secure_endpoint_def)
  moreover have "lit ''ws'' \<noteq> lit ''wss''" by (simp add: lit_def)
  ultimately show ?thesis using assms(2-4)
    by (simp add: WebSocketTransport_new_def TransportConfig_validate_def Let_def reject_if_def)
qed

theorem loopback_gateway_refused_witness:
  "\<exists>u. resolve_endpoint (sample_url_lib\<lparr>url_parse := (\<lambda>_. Ok (sample_url\<lparr>u_scheme := lit ''ws'',
      u_host_str := Some (lit ''127.0.0.2'')\<rparr>))\<rparr>) sample_url (lit ''ws://127.0.0.2/g'') True = Ok u \<and>
    \<not> is_ok (WebSocketTransport_new \<lparr>tc_endpoint = u, tc_connect_timeout = 9, tc_idle_timeout = 9,
      tc_outbound_buffer_capacity = 9\<rparr>)"
proof -
  let ?u = "sample_url\<lparr>u_scheme := lit ''ws'', u_host_str := Some (lit ''127.0.0.2'')\<rparr>"
  let ?L = "sample_url_lib\<lparr>url_parse := (\<lambda>_. Ok ?u)\<rparr>"
  have "is_loopback_url ?u"
    by (simp add: is_loopback_url_def is_loopback_ip_def parse_ipv4_def ipv4_octet_def lit_def digits_value_def
        is_ascii_digit_def)
  then have r: "resolve_endpoint ?L sample_url (lit ''ws://127.0.0.2/g'') True = Ok ?u"
    by (simp add: resolve_endpoint_def gateway_scheme_def)
      (simp add: lit_def is_whitespace_def reject_if_def sample_url_def)
  have "lit ''127.0.0.2'' \<notin> {lit ''localhost'', lit ''127.0.0.1'', lit ''::1''}" by (simp add: lit_def)
  then have "is_loopback_url ?u \<and> \<not> is_ok (WebSocketTransport_new \<lparr>tc_endpoint = ?u, tc_connect_timeout = 9,
      tc_idle_timeout = 9, tc_outbound_buffer_capacity = 9\<rparr>)"
    using loopback_gateway_refused [OF r, of "lit ''127.0.0.2''"] by simp
  with r show ?thesis by blast
qed

section \<open>Keys\<close>

text \<open>A generated credential signs with the key whose public half was returned, no other stored
  secret changes, and once deleted it signs nothing.\<close>

theorem generated_key_signs:
  assumes "crypto_ok C n seed" "key_generate C memory_ops n server_id s = (Ok g, s')"
    and "payload \<noteq> []" "length payload \<le> MAX_CHALLENGE_BYTES"
    and "key_delete memory_ops (gk_credential_ref g) s' = (Ok (), s'')"
  shows "key_sign C memory_ops (gk_credential_ref g) payload s' = (Ok (cr_sign C seed payload), s') \<and>
    jwk_x (gk_public_key g) = b64_encode (cr_base64 C) (cr_public_key C seed) \<and>
    (\<forall>a. a \<noteq> gk_credential_ref g \<longrightarrow> s' a = s a \<and> s'' a = s a) \<and>
    key_sign C memory_ops (gk_credential_ref g) payload s'' = (Err CredentialNotFound, s'')"
proof -
  have "s' = s(gk_credential_ref g \<mapsto> b64_encode (cr_base64 C) seed)"
    using assms(1,2) by (auto simp: key_generate_def memory_ops_def memory_set_def crypto_ok_def Let_def ebind_Ok)
  moreover have "s'' = s'(gk_credential_ref g := None)"
    using assms(5) by (auto simp: key_delete_def memory_ops_def memory_delete_def ebind_Ok)
  ultimately show ?thesis
    using memory.generated_signs [OF assms(1) _ assms(3,4)] memory.deleted_signs_nothing [OF _ assms(3,4)]
      assms(2,5) by (simp add: memory_ops_eq)
qed

definition sample_crypto :: crypto where
  "sample_crypto = \<lparr>cr_base64 = sample_base64url, cr_random_seed = (\<lambda>_. Some (replicate 32 65)),
     cr_uuid = (\<lambda>_. replicate 36 97), cr_public_key = (\<lambda>s. s), cr_sign = (\<lambda>s p. p)\<rparr>"

lemma sample_crypto_ok: "crypto_ok sample_crypto n (replicate 32 65)"
  by (simp add: crypto_ok_def sample_crypto_def uuid_shape_def sample_base64url_def)

definition sample_ref :: ustring where "sample_ref = lit ''oppa-ed25519-'' @ replicate 36 97"

lemma sample_ref_ok:
  "validate_platform_key credential_account sample_ref = Ok ()" "validate_credential_ref sample_ref = Ok ()"
proof -
  have "\<forall>c \<in> set sample_ref. c < 0x80 \<and> \<not> is_control c"
    by (auto simp: sample_ref_def lit_def is_control_def)
  moreover have "length sample_ref = 49" by (simp add: sample_ref_def lit_def)
  moreover have "trim sample_ref = sample_ref"
    by (rule trim_id) (simp_all add: sample_ref_def lit_def is_whitespace_def)
  moreover have "sample_ref \<noteq> []" by (simp add: sample_ref_def lit_def)
  ultimately show "validate_platform_key credential_account sample_ref = Ok ()"
      "validate_credential_ref sample_ref = Ok ()"
    using byte_len_ascii [of sample_ref]
    by (auto simp: validate_platform_key_def validate_credential_ref_def first_err_Ok list_ex_iff)
      (simp add: sample_ref_def)
qed

lemma sample_generates:
  "key_generate sample_crypto memory_ops 0 (lit ''s1'') s =
     (Ok \<lparr>gk_credential_ref = sample_ref, gk_public_key = \<lparr>jwk_kty = lit ''OKP'', jwk_crv = lit ''Ed25519'',
        jwk_x = replicate 32 65\<rparr>\<rparr>, s(sample_ref \<mapsto> replicate 32 65))"
  "key_delete memory_ops sample_ref s = (Ok (), s(sample_ref := None))"
proof -
  have "validate_server_identifier (lit ''s1'') p = Ok ()" for p
    by (simp add: validate_server_identifier_def lit_def utf8_bytes_def utf8_encode_def is_ascii_alnum_def
        is_ascii_digit_def is_ascii_lower_def)
  then show "key_generate sample_crypto memory_ops 0 (lit ''s1'') s =
     (Ok \<lparr>gk_credential_ref = sample_ref, gk_public_key = \<lparr>jwk_kty = lit ''OKP'', jwk_crv = lit ''Ed25519'',
        jwk_x = replicate 32 65\<rparr>\<rparr>, s(sample_ref \<mapsto> replicate 32 65))"
    using sample_ref_ok unfolding sample_ref_def
    by (simp add: key_generate_def sample_crypto_def memory_ops_def memory_set_def ebind_def elift_def
        emodify_def eret_def emap_err_def sample_base64url_def Let_def)
  show "key_delete memory_ops sample_ref s = (Ok (), s(sample_ref := None))"
    using sample_ref_ok by (simp add: key_delete_def memory_ops_def memory_delete_def ebind_def elift_def
        emodify_def eret_def emap_err_def)
qed

theorem generated_key_signs_witness:
  "key_sign sample_crypto memory_ops sample_ref [7] ((Map.empty :: memory_store)(sample_ref \<mapsto> replicate 32 65)) =
    (Ok [7], (Map.empty :: memory_store)(sample_ref \<mapsto> replicate 32 65))"
proof -
  have "cr_sign sample_crypto seed p = p" for seed p by (simp add: sample_crypto_def)
  then show ?thesis
    using generated_key_signs [OF sample_crypto_ok sample_generates(1) _ _, of "[7]", simplified, OF _ sample_generates(2)]
    by (simp add: MAX_CHALLENGE_BYTES_def)
qed


section \<open>Documents\<close>

text \<open>C24: A document that is returned has exactly the length and the digest its job declared, between one
  byte and twenty megabytes, and came in a successful response to a request for the job's URL that was
  signed over the agent, the job, the time and that digest with the agent's stored key.\<close>

theorem fetched_document_exact:
  assumes "fetch_pdf E K f n jid (PdfUrl url sha len) s = (Ok body, s')"
  shows "length body = unat len \<and> 1 \<le> length body \<and> length body \<le> MAX_PDF_DOCUMENT_BYTES \<and>
    sha256_hex E body = sha \<and>
    (\<exists>u p signature response s1. url_parse (fe_urls E) url = Ok u \<and>
      p = (case u_query u of Some query \<Rightarrow> u_path u @ lit ''?'' @ query | None \<Rightarrow> u_path u) \<and>
      key_sign (fe_crypto E) K (hf_credential_ref f)
        (utf8_bytes (canonical_request p (hf_agent_id f) jid (fe_unix_milliseconds E n) sha)) s = (Ok signature, s1) \<and>
      fe_send E \<lparr>sr_url = u, sr_agent_id = hf_agent_id f, sr_job_id = jid,
        sr_timestamp = dec (unat (fe_unix_milliseconds E n)),
        sr_signature = b64_encode (cr_base64 (fe_crypto E)) signature\<rparr> = Some (Ok response) \<and>
      is_success (dr_status response))"
proof -
  have valid: "PdfSource_validate (PdfUrl url sha len) = Ok ()"
    and run: "\<exists>u p signature response s1. url_parse (fe_urls E) url = Ok u \<and>
      p = (case u_query u of Some query \<Rightarrow> u_path u @ lit ''?'' @ query | None \<Rightarrow> u_path u) \<and>
      key_sign (fe_crypto E) K (hf_credential_ref f)
        (utf8_bytes (canonical_request p (hf_agent_id f) jid (fe_unix_milliseconds E n) sha)) s = (Ok signature, s1) \<and>
      fe_send E \<lparr>sr_url = u, sr_agent_id = hf_agent_id f, sr_job_id = jid,
        sr_timestamp = dec (unat (fe_unix_milliseconds E n)),
        sr_signature = b64_encode (cr_base64 (fe_crypto E)) signature\<rparr> = Some (Ok response) \<and>
      check_response response len = Ok () \<and> read_bounded (dr_chunks response) len = Ok body \<and>
      verify_digest E body sha = Ok ()"
    using assms by (fastforce simp: fetch_pdf_def Let_def ebind_Ok)+
  then obtain response where r: "check_response response len = Ok ()" "read_bounded (dr_chunks response) len = Ok body"
      "verify_digest E body sha = Ok ()" by blast
  have "is_success (dr_status x)" if "check_response x len = Ok ()" for x
    using that by (auto simp: check_response_def Let_def split: if_splits)
  moreover have "1 \<le> unat len" "unat len \<le> MAX_PDF_DOCUMENT_BYTES"
    using valid by (auto simp: PdfSource_validate_def first_err_Ok word_neq_0_conv unat_gt_0 Suc_le_eq)
  moreover have "sha256_hex E body = sha" using r(3) by (simp add: verify_digest_def split: if_splits)
  ultimately show ?thesis using run read_bounded_length [OF r(2)] by metis
qed

definition sample_fetch_env :: fetch_env where
  "sample_fetch_env = \<lparr>fe_urls = sample_url_lib, fe_crypto = sample_crypto,
     fe_sha256 = (\<lambda>_. replicate 32 170), fe_unix_milliseconds = (\<lambda>_. 7),
     fe_send = (\<lambda>_. Some (Ok \<lparr>dr_status = 200, dr_content_length = Some 2,
       dr_chunks = [Ok [37], Ok [80]], dr_body_timed_out = False\<rparr>))\<rparr>"

definition sample_fetcher :: HttpDocumentFetcher where
  "sample_fetcher = \<lparr>hf_credential_ref = sample_ref, hf_agent_id = lit ''s1'', hf_timeout = 9\<rparr>"

definition sample_pdf :: PdfSource where
  "sample_pdf = PdfUrl (lit ''https://h/'') (replicate 64 97) 2"

lemma sample_pdf_valid: "PdfSource_validate sample_pdf = Ok ()"
proof -
  have "validate_document_url (lit ''https://h/'') (lit ''url'') = Ok ()"
    by (simp add: validate_document_url_def url_scheme_def url_authority_def lit_def MAX_PDF_URL_BYTES_def
        and_then_Ok first_err_Ok validate_string_def utf8_bytes_def utf8_encode_def strip_prefix_def
        is_ascii_alnum_def is_ascii_digit_def is_ascii_lower_def is_ascii_upper_def)
  moreover have "validate_sha256 (replicate 64 97) (lit ''sha256'') = Ok ()"
    by (simp add: wire_checks is_hex_digit_def list_all_iff)
  ultimately show ?thesis
    by (simp add: PdfSource_validate_def sample_pdf_def first_err_Ok MAX_PDF_DOCUMENT_BYTES_def)
qed

lemma sample_canonical:
  "utf8_bytes (canonical_request (lit ''/'') (lit ''s1'') (lit ''j1'') 7 (replicate 64 97)) =
     canonical_request (lit ''/'') (lit ''s1'') (lit ''j1'') 7 (replicate 64 97)"
  "length (canonical_request (lit ''/'') (lit ''s1'') (lit ''j1'') 7 (replicate 64 97)) \<le> MAX_CHALLENGE_BYTES"
  "canonical_request (lit ''/'') (lit ''s1'') (lit ''j1'') 7 (replicate 64 97) \<noteq> []"
proof -
  have "dec 7 = [55]" by (simp add: dec.simps)
  then have eq: "canonical_request (lit ''/'') (lit ''s1'') (lit ''j1'') 7 (replicate 64 97) =
    lit ''OPENPRINTER-DOCUMENT-V1'' @ [10] @ lit ''GET'' @ [10] @ lit ''/'' @ [10] @ lit ''s1'' @ [10] @
      lit ''j1'' @ [10, 55, 10] @ replicate 64 97"
    by (simp add: canonical_request_def SIGNATURE_CONTEXT_def)
  show "utf8_bytes (canonical_request (lit ''/'') (lit ''s1'') (lit ''j1'') 7 (replicate 64 97)) =
     canonical_request (lit ''/'') (lit ''s1'') (lit ''j1'') 7 (replicate 64 97)"
    unfolding eq by (rule utf8_bytes_ascii) (auto simp: lit_def)
  show "length (canonical_request (lit ''/'') (lit ''s1'') (lit ''j1'') 7 (replicate 64 97)) \<le> MAX_CHALLENGE_BYTES"
    unfolding eq by (simp add: lit_def MAX_CHALLENGE_BYTES_def)
  show "canonical_request (lit ''/'') (lit ''s1'') (lit ''j1'') 7 (replicate 64 97) \<noteq> []"
    unfolding eq by (simp add: lit_def)
qed

lemma sample_digest: "sha256_hex sample_fetch_env b = replicate 64 97"
proof -
  have "concat (replicate n [97, 97]) = replicate (2 * n) (97 :: nat)" for n
    by (induction n) auto
  from this [of 32] show ?thesis by (simp add: sha256_hex_def sample_fetch_env_def hex_nibble_def)
qed

lemma sample_fetches:
  "fetch_pdf sample_fetch_env memory_ops sample_fetcher 0 (lit ''j1'') sample_pdf
     ((Map.empty :: memory_store)(sample_ref \<mapsto> replicate 32 65)) =
   (Ok [37, 80], (Map.empty :: memory_store)(sample_ref \<mapsto> replicate 32 65))"
proof -
  let ?s = "(Map.empty :: memory_store)(sample_ref \<mapsto> replicate 32 65)"
  have sign: "key_sign sample_crypto memory_ops sample_ref p ?s = (Ok p, ?s)"
    if "p \<noteq> []" "length p \<le> MAX_CHALLENGE_BYTES" for p
  proof -
    have "cr_sign sample_crypto seed p = p" for seed by (simp add: sample_crypto_def)
    then show ?thesis
      using memory.generated_signs [OF sample_crypto_ok, of 0 "lit ''s1''" Map.empty _ ?s p] sample_generates(1) that
      by (simp add: memory_ops_eq)
  qed
  have parsed: "url_parse (fe_urls sample_fetch_env) u = Ok sample_url" "fe_crypto sample_fetch_env = sample_crypto"
      "fe_unix_milliseconds sample_fetch_env 0 = 7" "u_query sample_url = None" "u_path sample_url = lit ''/''" for u
    by (simp_all add: sample_fetch_env_def sample_url_lib_def sample_url_def)
  have sent: "fe_send sample_fetch_env q = Some (Ok \<lparr>dr_status = 200, dr_content_length = Some 2,
       dr_chunks = [Ok [37], Ok [80]], dr_body_timed_out = False\<rparr>)" for q
    by (simp add: sample_fetch_env_def)
  show ?thesis using sample_pdf_valid sample_canonical sample_digest sign
    by (simp add: fetch_pdf_def sample_pdf_def sample_fetcher_def parsed sent Let_def ebind_def elift_def eret_def
        emap_err_def check_response_def is_success_def read_bounded_def reject_if_def verify_digest_def)
qed

theorem fetched_document_exact_witness:
  "sha256_hex sample_fetch_env [37, 80] = replicate 64 97"
  using fetched_document_exact [of sample_fetch_env memory_ops sample_fetcher 0 "lit ''j1''" "lit ''https://h/''"
      "replicate 64 97" 2] sample_fetches
  unfolding sample_pdf_def by blast

text \<open>The text an agent signs for a document determines the path, the agent, the job, the time and
  the digest, so a signature cannot be used for another request.\<close>

theorem signed_request_binds:
  assumes "10 \<notin> set p" "10 \<notin> set p'" "identifier_shape 128 a" "identifier_shape 128 a'"
    and "identifier_shape 128 j" "identifier_shape 128 j'"
  shows "canonical_request p a j t h = canonical_request p' a' j' t' h' \<longleftrightarrow>
    p = p' \<and> a = a' \<and> j = j' \<and> t = t' \<and> h = h'"
proof -
  have "10 \<notin> set i" if "identifier_shape 128 i" for i
  proof
    assume "10 \<in> set i"
    then have "\<not> is_control 10" using that identifier_char_plain by (auto simp: identifier_shape_def)
    then show False by (simp add: is_control_def)
  qed
  with assms show ?thesis by (intro canonical_request_inject) auto
qed

theorem signed_request_binds_witness:
  "canonical_request (lit ''/a'') (lit ''s1'') (lit ''s1'') 1 [97] \<noteq> canonical_request (lit ''/'') (lit ''s1'') (lit ''s1'') 1 [97]"
  using signed_request_binds [of "lit ''/a''" "lit ''/''" "lit ''s1''" "lit ''s1''" "lit ''s1''" "lit ''s1''"
      1 "[97]" 1 "[97]"] sample_identifier
  by (simp add: lit_def)

end
