(* ===== verification/Job_Ledger.thy ===== *)
theory Job_Ledger
  imports Storage Agent_Lifecycle
begin

text \<open>
  The job history of the desktop application (\<open>apps/oppa/src-tauri\<close>: \<open>job_ledger.rs\<close>,
  \<open>error.rs\<close> and the job part of \<open>models.rs\<close>): a list of at most one hundred summaries, newest
  first, that every change writes to one setting of the repository. Serde's conversions and the text
  of a storage error and of a timestamp are parameters.
\<close>

section \<open>Command errors\<close>

record CommandError =
  ce_code :: ustring
  ce_message :: ustring

definition REDACTED :: ustring where "REDACTED = lit ''[REDACTED]''"

definition MARKERS :: "ustring list" where
  "MARKERS = [lit ''privateKey'', lit ''pairingCode'', lit ''challengePayload'', lit ''signature'']"

text \<open>\<open>str::find\<close>: the position of the first occurrence.\<close>

fun find_text :: "ustring \<Rightarrow> ustring \<Rightarrow> nat option" where
  "find_text m [] = (if m = [] then Some 0 else None)"
| "find_text m (c # s) = (if prefix m (c # s) then Some 0 else map_option Suc (find_text m s))"

definition ends_secret :: "codepoint \<Rightarrow> bool" where
  "ends_secret c \<longleftrightarrow> c \<in> {32, 9, 10, 12, 13} \<or> c \<in> set (lit ''&,;'') \<or> c = 34 \<or> c = 39"

lemma find_text_bound: "find_text m s = Some i \<Longrightarrow> i + length m \<le> length s"
  by (induction m s arbitrary: i rule: find_text.induct) (auto split: if_splits dest: prefix_length_le)

text \<open>The markers are not empty; each round continues behind the inserted text.\<close>

function redact_after_marker :: "ustring \<Rightarrow> ustring \<Rightarrow> ustring" where
  "redact_after_marker m s = (if m = [] then s else case find_text m s of
     None \<Rightarrow> s
   | Some i \<Rightarrow> take (i + length m) s @ REDACTED @
       redact_after_marker m (dropWhile (\<lambda>c. \<not> ends_secret c) (drop (i + length m) s)))"
  by pat_completeness auto

termination
proof (relation "measure (\<lambda>(m, s). length s)", goal_cases)
  case (2 m s i)
  have "length (dropWhile (\<lambda>c. \<not> ends_secret c) (drop (i + length m) s)) \<le> length (drop (i + length m) s)"
    by (rule length_dropWhile_le)
  also have "\<dots> < length s" using 2 find_text_bound [of m s i] by (cases m) auto
  finally show ?case by simp
qed simp

declare redact_after_marker.simps [simp del]

definition sanitize :: "ustring \<Rightarrow> ustring" where
  "sanitize v =
     (let kept = take 1000 (filter (\<lambda>c. \<not> is_control c \<or> c = 32) v);
          sanitized = foldl (\<lambda>s marker. redact_after_marker marker s) kept MARKERS in
      if trim sanitized = [] then lit ''Operation failed without diagnostic details.'' else sanitized)"

definition CommandError_new :: "ustring \<Rightarrow> ustring \<Rightarrow> CommandError" where
  "CommandError_new c m = \<lparr>ce_code = c, ce_message = sanitize m\<rparr>"

definition command_internal :: "ustring \<Rightarrow> CommandError" where
  "command_internal m = CommandError_new (lit ''internal'') m"

definition command_not_found :: "ustring \<Rightarrow> CommandError" where
  "command_not_found entity = CommandError_new (lit ''not_found'') (entity @ lit '' was not found'')"

definition command_invalid :: "ustring \<Rightarrow> CommandError" where
  "command_invalid m = CommandError_new (lit ''invalid_input'') m"

section \<open>Summaries\<close>

datatype DesktopJobState = JobQueued | JobReceived | JobSubmitted | JobFailed | JobCancelled

record JobSummary =
  jb_id :: ustring
  jb_printer_id :: ustring
  jb_printer_name :: ustring
  jb_idempotency_key :: ustring
  jb_state :: DesktopJobState
  jb_received_at :: ustring
  jb_updated_at :: ustring
  jb_attempts :: "32 word"
  jb_error :: "ustring option"

fun is_terminal_state :: "DesktopJobState \<Rightarrow> bool" where
  "is_terminal_state JobSubmitted = True"
| "is_terminal_state JobFailed = True"
| "is_terminal_state JobCancelled = True"
| "is_terminal_state _ = False"

definition merge_delivery :: "JobSummary \<Rightarrow> JobSummary \<Rightarrow> JobSummary" where
  "merge_delivery existing incoming =
     (if is_terminal_state (jb_state existing) then existing
      else existing\<lparr>jb_state := jb_state incoming, jb_updated_at := jb_updated_at incoming,
        jb_attempts := max (jb_attempts existing) (jb_attempts incoming), jb_error := jb_error incoming\<rparr>)"

section \<open>The ledger\<close>

definition JOB_HISTORY_SETTING :: ustring where "JOB_HISTORY_SETTING = lit ''desktop.recent-jobs.v1''"
definition MAX_RECENT_JOBS :: nat where "MAX_RECENT_JOBS = 100"

record 'v ledger_env =
  le_storage :: "'v senv"
  le_to_value :: "JobSummary list \<Rightarrow> ustring + 'v"
  le_from_value :: "'v \<Rightarrow> ustring + JobSummary list"
  le_storage_text :: "StorageError \<Rightarrow> ustring"
  le_time_text :: "Timestamp \<Rightarrow> ustring"

record JobLedger =
  lg_storage :: SqliteStorage
  lg_jobs :: "JobSummary list"

type_synonym 'a ledger_op = "(JobLedger, CommandError, 'a) eff"

definition ledger_load :: "'v ledger_env \<Rightarrow> SqliteStorage \<Rightarrow> CommandError + JobLedger" where
  "ledger_load E db =
     and_then (map_err (\<lambda>e. command_internal (le_storage_text E e))
       (get_metadata (le_storage E) Settings JOB_HISTORY_SETTING db)) (\<lambda>stored.
     and_then (case stored of
         Some v \<Rightarrow> map_err (\<lambda>e. command_internal (lit ''job history is invalid: '' @ e)) (le_from_value E v)
       | None \<Rightarrow> Ok []) (\<lambda>jobs.
     Ok \<lparr>lg_storage = db, lg_jobs = take MAX_RECENT_JOBS jobs\<rparr>))"

definition ledger_list :: "JobLedger \<Rightarrow> JobSummary list" where
  "ledger_list g = lg_jobs g"

definition persist :: "'v ledger_env \<Rightarrow> Timestamp \<Rightarrow> unit ledger_op" where
  "persist E clock g =
     (case and_then (map_err command_internal (le_to_value E (lg_jobs g))) (\<lambda>v.
        map_err (\<lambda>e. command_internal (le_storage_text E e))
          (set_metadata (le_storage E) Settings JOB_HISTORY_SETTING v clock (lg_storage g))) of
        Inl e \<Rightarrow> (Err e, g)
      | Inr (_, db) \<Rightarrow> (Ok (), g\<lparr>lg_storage := db\<rparr>))"

definition with_jobs :: "(JobSummary list \<Rightarrow> JobSummary list) \<Rightarrow> JobLedger \<Rightarrow> JobLedger" where
  "with_jobs f g = g\<lparr>lg_jobs := f (lg_jobs g)\<rparr>"

definition insert_job :: "JobSummary \<Rightarrow> JobSummary list \<Rightarrow> JobSummary list" where
  "insert_job job jobs = take MAX_RECENT_JOBS (case find (\<lambda>e. jb_id e = jb_id job) jobs of
     Some existing \<Rightarrow> merge_delivery existing job # remove1 existing jobs
   | None \<Rightarrow> job # jobs)"

definition ledger_insert :: "'v ledger_env \<Rightarrow> Timestamp \<Rightarrow> JobSummary \<Rightarrow> unit ledger_op" where
  "ledger_insert E clock job g =
     (case find (\<lambda>e. jb_id e = jb_id job) (lg_jobs g) of
        Some existing \<Rightarrow>
          if jb_printer_id existing \<noteq> jb_printer_id job \<or> jb_printer_name existing \<noteq> jb_printer_name job \<or>
             jb_idempotency_key existing \<noteq> jb_idempotency_key job
          then (Err (CommandError_new (lit ''job_identity_conflict'')
                 (lit ''A job with this ID already exists with different immutable metadata.'')), g)
          else persist E clock (with_jobs (insert_job job) g)
      | None \<Rightarrow> persist E clock (with_jobs (insert_job job) g))"

text \<open>\<open>iter_mut().find\<close>: change the first summary with the id.\<close>

fun modify_first :: "ustring \<Rightarrow> (JobSummary \<Rightarrow> JobSummary) \<Rightarrow> JobSummary list \<Rightarrow> JobSummary list" where
  "modify_first i f [] = []"
| "modify_first i f (j # js) = (if jb_id j = i then f j # js else j # modify_first i f js)"

definition live_job :: "ustring \<Rightarrow> JobSummary list \<Rightarrow> bool" where
  "live_job i jobs = (case find (\<lambda>j. jb_id j = i) jobs of
     Some j \<Rightarrow> \<not> is_terminal_state (jb_state j) | None \<Rightarrow> False)"

definition ledger_update ::
  "'v ledger_env \<Rightarrow> Timestamp \<Rightarrow> ustring \<Rightarrow> DesktopJobState \<Rightarrow> ustring option \<Rightarrow> 32 word option \<Rightarrow>
     ustring \<Rightarrow> unit ledger_op" where
  "ledger_update E clock jid state err attempts updated_at g =
     (if \<not> live_job jid (lg_jobs g) then (Ok (), g)
      else persist E clock (with_jobs (modify_first jid (\<lambda>j. j\<lparr>jb_state := state, jb_updated_at := updated_at,
        jb_error := map_option sanitize err,
        jb_attempts := (case attempts of Some n \<Rightarrow> n | None \<Rightarrow> jb_attempts j)\<rparr>)) g))"

definition fail_if_non_terminal :: "'v ledger_env \<Rightarrow> Timestamp \<Rightarrow> ustring \<Rightarrow> ustring \<Rightarrow> unit ledger_op" where
  "fail_if_non_terminal E clock jid err g =
     (if \<not> live_job jid (lg_jobs g) then (Ok (), g)
      else persist E clock (with_jobs (modify_first jid (\<lambda>j. j\<lparr>jb_state := JobFailed,
        jb_updated_at := le_time_text E clock, jb_error := Some (sanitize err)\<rparr>)) g))"

definition ledger_clear :: "'v ledger_env \<Rightarrow> Timestamp \<Rightarrow> unit ledger_op" where
  "ledger_clear E clock g = persist E clock (with_jobs (\<lambda>_. []) g)"

definition restore_one :: "JobSummary list \<Rightarrow> JobSummary \<Rightarrow> JobSummary list" where
  "restore_one jobs job =
     (if jb_id job \<in> set (map jb_id jobs) then modify_first (jb_id job) (\<lambda>e. merge_delivery e job) jobs
      else job # jobs)"

text \<open>A stable sort, newest first.\<close>

fun insert_newest :: "JobSummary \<Rightarrow> JobSummary list \<Rightarrow> JobSummary list" where
  "insert_newest j [] = [j]"
| "insert_newest j (k # ks) =
     (if jb_received_at k < jb_received_at j then j # k # ks else k # insert_newest j ks)"

definition newest_first :: "JobSummary list \<Rightarrow> JobSummary list" where
  "newest_first jobs = foldl (\<lambda>sorted j. insert_newest j sorted) [] jobs"

definition restore_pending :: "'v ledger_env \<Rightarrow> Timestamp \<Rightarrow> JobSummary list \<Rightarrow> unit ledger_op" where
  "restore_pending E clock waiting g =
     persist E clock (with_jobs (\<lambda>jobs. take MAX_RECENT_JOBS (newest_first (foldl restore_one jobs waiting))) g)"

definition apply_event :: "'v ledger_env \<Rightarrow> Timestamp \<Rightarrow> AgentEvent \<Rightarrow> unit ledger_op" where
  "apply_event E clock event = (let now = le_time_text E clock in case event of
     JobReceivedEvent jid \<Rightarrow> ledger_update E clock jid JobReceived None None now
   | JobSubmittingEvent jid \<Rightarrow> ledger_update E clock jid JobReceived None (Some 1) now
   | JobSubmittedEvent jid \<Rightarrow> ledger_update E clock jid JobSubmitted None None now
   | JobFailedEvent jid c _ \<Rightarrow> ledger_update E clock jid JobFailed
       (Some (lit ''Print job failed ('' @ c @ lit '').'')) None now
   | JobCancelledEvent jid \<Rightarrow> ledger_update E clock jid JobCancelled None None now
   | _ \<Rightarrow> eret ())"

text \<open>The state of a stored job as the history shows it (\<open>connection.rs\<close>).\<close>

fun desktop_job_state :: "JobState \<Rightarrow> DesktopJobState" where
  "desktop_job_state Received = JobReceived"
| "desktop_job_state Submitting = JobReceived"
| "desktop_job_state Submitted = JobSubmitted"
| "desktop_job_state Failed = JobFailed"
| "desktop_job_state Cancelled = JobCancelled"

end
