(* ===== verification/Job_Ledger_Laws.thy ===== *)
theory Job_Ledger_Laws
  imports Job_Ledger "HOL-Library.Multiset"
begin

text \<open>
  The invariant of the job history, the immutability of finished summaries, and what a successful
  change leaves in the repository.
\<close>

section \<open>Lists of summaries\<close>

definition history_ok :: "JobSummary list \<Rightarrow> bool" where
  "history_ok jobs \<longleftrightarrow> distinct (map jb_id jobs)"

text \<open>A finished summary of the first list is unchanged wherever its job is in the second.\<close>

definition finished_kept :: "JobSummary list \<Rightarrow> JobSummary list \<Rightarrow> bool" where
  "finished_kept jobs jobs' \<longleftrightarrow>
     (\<forall>j \<in> set jobs. is_terminal_state (jb_state j) \<longrightarrow> (\<forall>k \<in> set jobs'. jb_id k = jb_id j \<longrightarrow> k = j))"

lemma finished_kept_refl: "history_ok jobs \<Longrightarrow> finished_kept jobs jobs"
  by (auto simp: finished_kept_def history_ok_def distinct_map inj_on_def)

lemma finished_kept_subset: "finished_kept jobs ks \<Longrightarrow> set ks' \<subseteq> set ks \<Longrightarrow> finished_kept jobs ks'"
  by (fastforce simp: finished_kept_def)

lemma merge_delivery_id [simp]: "jb_id (merge_delivery e j) = jb_id e"
  by (simp add: merge_delivery_def)

lemma merge_delivery_finished: "is_terminal_state (jb_state e) \<Longrightarrow> merge_delivery e j = e"
  by (simp add: merge_delivery_def)

lemma modify_first_ids:
  "(\<And>j. jb_id (f j) = jb_id j) \<Longrightarrow> map jb_id (modify_first i f jobs) = map jb_id jobs"
  by (induction jobs) auto

lemma modify_first_set:
  "k \<in> set (modify_first i f jobs) \<Longrightarrow> k \<in> set jobs \<or> (\<exists>j \<in> set jobs. jb_id j = i \<and> k = f j)"
  by (induction jobs) (auto split: if_splits)

text \<open>A change that leaves ids and finished summaries alone, applied to one summary.\<close>

lemma modify_first_ok:
  assumes "history_ok jobs" "\<And>j. jb_id (f j) = jb_id j"
    and "\<And>j. j \<in> set jobs \<Longrightarrow> jb_id j = i \<Longrightarrow> is_terminal_state (jb_state j) \<Longrightarrow> f j = j"
  shows "history_ok (modify_first i f jobs) \<and> finished_kept jobs (modify_first i f jobs)"
proof
  show "history_ok (modify_first i f jobs)"
    using assms(1) modify_first_ids [OF assms(2)] by (simp add: history_ok_def)
  have uniq: "\<And>j k. j \<in> set jobs \<Longrightarrow> k \<in> set jobs \<Longrightarrow> jb_id j = jb_id k \<Longrightarrow> j = k"
    using assms(1) by (auto simp: history_ok_def distinct_map inj_on_def)
  show "finished_kept jobs (modify_first i f jobs)"
    unfolding finished_kept_def using modify_first_set assms(2,3) uniq by metis
qed

lemma live_job_modify:
  assumes "history_ok jobs" "live_job i jobs" "\<And>j. jb_id (f j) = jb_id j"
  shows "history_ok (modify_first i f jobs) \<and> finished_kept jobs (modify_first i f jobs)"
proof (rule modify_first_ok [OF assms(1,3)])
  fix j assume j: "j \<in> set jobs" "jb_id j = i" "is_terminal_state (jb_state j)"
  then have "find (\<lambda>k. jb_id k = jb_id j) jobs = Some j"
    using assms(1) find_unique [of jb_id jobs j] by (simp add: history_ok_def)
  then show "f j = j" using assms(2) j by (simp add: live_job_def)
qed

lemma insert_job_ok:
  assumes "history_ok jobs"
  shows "history_ok (insert_job job jobs) \<and> finished_kept jobs (insert_job job jobs)"
proof (cases "find (\<lambda>e. jb_id e = jb_id job) jobs")
  case None
  then have new: "jb_id job \<notin> jb_id ` set jobs" by (auto simp: find_None_iff)
  then have "history_ok (job # jobs)" "finished_kept jobs (job # jobs)"
    using assms finished_kept_refl [OF assms] by (auto simp: history_ok_def finished_kept_def image_iff)
  then show ?thesis using None
    by (auto simp: insert_job_def history_ok_def distinct_take take_map intro: finished_kept_subset [OF _ set_take_subset]
        simp flip: take_map)
next
  case (Some e)
  then have e: "e \<in> set jobs" "jb_id e = jb_id job" by (auto dest: find_Some_iff_set)
  have uniq: "\<And>j k. j \<in> set jobs \<Longrightarrow> k \<in> set jobs \<Longrightarrow> jb_id j = jb_id k \<Longrightarrow> j = k" and "distinct jobs"
    using assms by (auto simp: history_ok_def distinct_map inj_on_def)
  let ?ks = "merge_delivery e job # remove1 e jobs"
  have "distinct (map jb_id ?ks)"
    using assms e uniq \<open>distinct jobs\<close> by (auto simp: history_ok_def distinct_map inj_on_def)
  moreover have "finished_kept jobs ?ks"
    unfolding finished_kept_def
  proof (intro ballI impI)
    fix j k assume j: "j \<in> set jobs" "is_terminal_state (jb_state j)" "k \<in> set ?ks" "jb_id k = jb_id j"
    show "k = j"
    proof (cases "k = merge_delivery e job")
      case True
      then have "e = j" using uniq [OF e(1) j(1)] j(4) by simp
      with True j(2) show ?thesis by (simp add: merge_delivery_finished)
    next
      case False
      then have "k \<in> set jobs" using j(3) notin_set_remove1 by fastforce
      then show ?thesis using uniq j(1,4) by blast
    qed
  qed
  ultimately show ?thesis using Some
    by (auto simp: insert_job_def history_ok_def intro: finished_kept_subset [OF _ set_take_subset]
        simp flip: take_map simp del: list.map)
qed

lemma insert_newest_mset: "mset (insert_newest j ks) = add_mset j (mset ks)"
  by (induction ks) auto

lemma newest_first_mset: "mset (newest_first jobs) = mset jobs"
proof -
  have "mset (foldl (\<lambda>sorted j. insert_newest j sorted) ks jobs) = mset ks + mset jobs" for ks
    by (induction jobs arbitrary: ks) (auto simp: insert_newest_mset)
  then show ?thesis by (simp add: newest_first_def)
qed

lemma newest_first_sorted: "sorted_wrt (\<lambda>j k. jb_received_at k \<le> jb_received_at j) (newest_first jobs)"
proof -
  have ins: "sorted_wrt (\<lambda>j k. jb_received_at k \<le> jb_received_at j) ks \<Longrightarrow>
      sorted_wrt (\<lambda>j k. jb_received_at k \<le> jb_received_at j) (insert_newest j ks)" for j ks
  proof (induction ks)
    case (Cons k ks)
    have "set (insert_newest j ks) = insert j (set ks)"
      using insert_newest_mset [of j ks] by (metis set_mset_add_mset_insert set_mset_mset)
    with Cons show ?case by auto
  qed simp
  have "sorted_wrt (\<lambda>j k. jb_received_at k \<le> jb_received_at j) ks \<Longrightarrow>
      sorted_wrt (\<lambda>j k. jb_received_at k \<le> jb_received_at j) (foldl (\<lambda>sorted j. insert_newest j sorted) ks jobs)" for ks
    by (induction jobs arbitrary: ks) (auto intro: ins)
  then show ?thesis by (simp add: newest_first_def)
qed

lemma restore_one_ok:
  assumes "history_ok ks" "finished_kept jobs ks" "jb_id ` set jobs \<subseteq> jb_id ` set ks"
  shows "history_ok (restore_one ks job) \<and> finished_kept jobs (restore_one ks job) \<and>
    jb_id ` set jobs \<subseteq> jb_id ` set (restore_one ks job)"
proof (cases "jb_id job \<in> set (map jb_id ks)")
  case True
  let ?f = "\<lambda>e. merge_delivery e job"
  have "map jb_id (modify_first (jb_id job) ?f ks) = map jb_id ks" by (rule modify_first_ids) simp
  then have ids: "jb_id ` set (modify_first (jb_id job) ?f ks) = jb_id ` set ks"
    by (metis list.set_map)
  have m: "history_ok (modify_first (jb_id job) ?f ks)"
    using modify_first_ok [of ks ?f "jb_id job"] assms(1) merge_delivery_finished by auto
  have "finished_kept jobs (modify_first (jb_id job) ?f ks)"
    unfolding finished_kept_def
  proof (intro ballI impI)
    fix j k assume j: "j \<in> set jobs" "is_terminal_state (jb_state j)"
      and k: "k \<in> set (modify_first (jb_id job) ?f ks)" "jb_id k = jb_id j"
    from modify_first_set [OF k(1)] show "k = j"
    proof
      assume "k \<in> set ks"
      then show ?thesis using assms(2) j k(2) by (auto simp: finished_kept_def)
    next
      assume "\<exists>e \<in> set ks. jb_id e = jb_id job \<and> k = merge_delivery e job"
      then obtain e where e: "e \<in> set ks" "k = merge_delivery e job" by blast
      then have "e = j" using assms(2) j k(2) by (auto simp: finished_kept_def)
      then show ?thesis using e(2) j(2) merge_delivery_finished by simp
    qed
  qed
  with m ids True show ?thesis using assms(3) by (simp add: restore_one_def)
next
  case False
  then show ?thesis using assms by (auto simp: restore_one_def history_ok_def finished_kept_def)
qed

lemma restore_all_ok:
  assumes "history_ok jobs"
  shows "history_ok (take n (newest_first (foldl restore_one jobs ps))) \<and>
    finished_kept jobs (take n (newest_first (foldl restore_one jobs ps)))"
proof -
  have "history_ok (foldl restore_one ks ps) \<and> finished_kept jobs (foldl restore_one ks ps) \<and>
      jb_id ` set jobs \<subseteq> jb_id ` set (foldl restore_one ks ps)"
    if "history_ok ks" "finished_kept jobs ks" "jb_id ` set jobs \<subseteq> jb_id ` set ks" for ks
    using that
  proof (induction ps arbitrary: ks)
    case (Cons p ps)
    show ?case using restore_one_ok [OF Cons.prems, of p] by (simp add: Cons.IH)
  qed simp
  from this [OF assms finished_kept_refl [OF assms]]
  have all: "history_ok (foldl restore_one jobs ps)" "finished_kept jobs (foldl restore_one jobs ps)" by auto
  have "mset (map jb_id (newest_first (foldl restore_one jobs ps))) = mset (map jb_id (foldl restore_one jobs ps))"
    by (simp add: newest_first_mset)
  then have "history_ok (newest_first (foldl restore_one jobs ps))"
    using all(1) mset_eq_imp_distinct_iff unfolding history_ok_def by blast
  moreover have "set (newest_first (foldl restore_one jobs ps)) = set (foldl restore_one jobs ps)"
    by (rule mset_eq_setD [OF newest_first_mset])
  ultimately show ?thesis using all(2) set_take_subset [of n "newest_first (foldl restore_one jobs ps)"]
    by (auto simp: history_ok_def simp flip: take_map intro!: finished_kept_subset [OF all(2)])
qed


section \<open>Reachable ledgers\<close>

text \<open>Serde reads back what it wrote, and the text of a value parses to that value.\<close>

definition serde_faithful :: "'v ledger_env \<Rightarrow> bool" where
  "serde_faithful E \<longleftrightarrow> (\<forall>js v. le_to_value E js = Ok v \<longrightarrow> le_from_value E v = Ok js) \<and>
     (\<forall>v t. json_text (le_storage E) v = Some t \<longrightarrow> json_parse (le_storage E) t = Some v)"

inductive ledger_step :: "'v ledger_env \<Rightarrow> JobLedger \<Rightarrow> JobLedger \<Rightarrow> bool" for E where
  inserting: "ledger_insert E t job g = (r, g') \<Longrightarrow> ledger_step E g g'"
| updating: "ledger_update E t i st e n u g = (r, g') \<Longrightarrow> ledger_step E g g'"
| failing: "fail_if_non_terminal E t i e g = (r, g') \<Longrightarrow> ledger_step E g g'"
| restoring: "restore_pending E t ps g = (r, g') \<Longrightarrow> ledger_step E g g'"
| applying: "apply_event E t ev g = (r, g') \<Longrightarrow> ledger_step E g g'"
| clearing: "ledger_clear E t g = (r, g') \<Longrightarrow> ledger_step E g g'"

text \<open>A ledger starts on a repository without a history, runs, and may be loaded again.\<close>

inductive ledger_reachable :: "'v ledger_env \<Rightarrow> JobLedger \<Rightarrow> bool" for E where
  fresh: "get_metadata (le_storage E) Settings JOB_HISTORY_SETTING db = Ok None \<Longrightarrow>
    ledger_load E db = Ok g \<Longrightarrow> ledger_reachable E g"
| running: "ledger_reachable E g \<Longrightarrow> ledger_step E g g' \<Longrightarrow> ledger_reachable E g'"
| restarted: "ledger_reachable E g \<Longrightarrow> ledger_load E (lg_storage g) = Ok g' \<Longrightarrow> ledger_reachable E g'"

definition ledger_ok :: "'v ledger_env \<Rightarrow> JobLedger \<Rightarrow> bool" where
  "ledger_ok E g \<longleftrightarrow> history_ok (lg_jobs g) \<and> length (lg_jobs g) \<le> MAX_RECENT_JOBS \<and>
     (get_metadata (le_storage E) Settings JOB_HISTORY_SETTING (lg_storage g) = Ok None \<or>
      (\<exists>v js. get_metadata (le_storage E) Settings JOB_HISTORY_SETTING (lg_storage g) = Ok (Some v) \<and>
        le_from_value E v = Ok js \<and> history_ok js \<and> length js \<le> MAX_RECENT_JOBS))"

lemma history_key_valid: "validate_key (lit ''metadata key'') JOB_HISTORY_SETTING 128 = Ok ()"
  by (simp add: validate_key_def JOB_HISTORY_SETTING_def lit_def trim_def trim_start_def trim_end_def
      is_whitespace_def is_control_def first_err_Ok)

lemma set_metadata_get:
  assumes "set_metadata E Settings k v clock db = Ok (u, db')"
    and "\<And>t. json_text E v = Some t \<Longrightarrow> json_parse E t = Some v"
  shows "get_metadata E Settings k db' = Ok (Some v)"
  using assms by (auto simp: set_metadata_def get_metadata_def and_then_Ok bounded_json_def upsert_lookup)

text \<open>A change that reports success has stored exactly the summaries it shows.\<close>

lemma persist_durable:
  assumes "serde_faithful E" "persist E clock g = (Ok (), g')"
  shows "lg_jobs g' = lg_jobs g \<and> (\<exists>v. get_metadata (le_storage E) Settings JOB_HISTORY_SETTING (lg_storage g') =
    Ok (Some v) \<and> le_from_value E v = Ok (lg_jobs g))"
proof -
  obtain v db where v: "le_to_value E (lg_jobs g) = Ok v" "g' = g\<lparr>lg_storage := db\<rparr>"
      "set_metadata (le_storage E) Settings JOB_HISTORY_SETTING v clock (lg_storage g) = Ok ((), db)"
    using assms(2) by (auto simp: persist_def and_then_Ok split: sum.splits prod.splits)
  have "get_metadata (le_storage E) Settings JOB_HISTORY_SETTING db = Ok (Some v)"
    using assms(1) by (intro set_metadata_get [OF v(3)]) (simp add: serde_faithful_def)
  then show ?thesis using v assms(1) by (simp add: serde_faithful_def)
qed

lemma persist_keeps:
  assumes "serde_faithful E" "persist E clock (with_jobs f g) = (r, g')" "ledger_ok E g"
    and "history_ok (f (lg_jobs g)) \<and> length (f (lg_jobs g)) \<le> MAX_RECENT_JOBS"
  shows "ledger_ok E g' \<and> lg_jobs g' = f (lg_jobs g)"
proof (cases r)
  case (Inl e)
  then have "g' = with_jobs f g" using assms(2) by (auto simp: persist_def split: sum.splits prod.splits)
  then show ?thesis using assms(3,4) by (simp add: ledger_ok_def with_jobs_def)
next
  case (Inr u)
  then show ?thesis using persist_durable [OF assms(1), of clock "with_jobs f g" g'] assms(2,4)
    by (auto simp: ledger_ok_def with_jobs_def)
qed

lemma modify_first_length [simp]: "length (modify_first i f jobs) = length jobs"
  by (induction jobs) auto

lemma ledger_update_keeps:
  assumes "serde_faithful E" "ledger_update E t i st e n u g = (r, g')" "ledger_ok E g"
  shows "ledger_ok E g' \<and> finished_kept (lg_jobs g) (lg_jobs g')"
proof (cases "live_job i (lg_jobs g)")
  case True
  have h: "history_ok (lg_jobs g)" "length (lg_jobs g) \<le> MAX_RECENT_JOBS" using assms(3) by (auto simp: ledger_ok_def)
  let ?f = "\<lambda>j. j\<lparr>jb_state := st, jb_updated_at := u, jb_error := map_option sanitize e,
    jb_attempts := (case n of Some n \<Rightarrow> n | None \<Rightarrow> jb_attempts j)\<rparr>"
  note m = live_job_modify [OF h(1) True, of ?f]
  have "persist E t (with_jobs (modify_first i ?f) g) = (r, g')" using assms(2) True by (simp add: ledger_update_def)
  from persist_keeps [OF assms(1) this assms(3)] m h(2) show ?thesis by simp
qed (use assms finished_kept_refl in \<open>auto simp: ledger_update_def ledger_ok_def\<close>)

lemma apply_event_keeps:
  assumes "serde_faithful E" "apply_event E t ev g = (r, g')" "ledger_ok E g"
  shows "ledger_ok E g' \<and> finished_kept (lg_jobs g) (lg_jobs g')"
  using assms ledger_update_keeps finished_kept_refl
  by (cases ev) (fastforce simp: apply_event_def Let_def ledger_ok_def)+

lemma ledger_step_keeps:
  assumes "ledger_step E g g'" "serde_faithful E" "ledger_ok E g"
  shows "ledger_ok E g' \<and> finished_kept (lg_jobs g) (lg_jobs g')"
  using assms(1)
proof cases
  have h: "history_ok (lg_jobs g)" "length (lg_jobs g) \<le> MAX_RECENT_JOBS" using assms(3) by (auto simp: ledger_ok_def)
  note refl = finished_kept_refl [OF h(1)]
  {
    case (inserting t job r)
    have len: "length (insert_job job (lg_jobs g)) \<le> MAX_RECENT_JOBS" by (simp add: insert_job_def)
    note ins = insert_job_ok [OF h(1), of job]
    from inserting show ?thesis
      using persist_keeps [OF assms(2) _ assms(3), of t "insert_job job" r g'] ins len refl assms(3)
      by (auto simp: ledger_insert_def split: option.splits if_splits)
  next
    case (updating t i st e n u r)
    then show ?thesis using ledger_update_keeps [OF assms(2) _ assms(3)] by blast
  next
    case (failing t i e r)
    let ?f = "\<lambda>j. j\<lparr>jb_state := JobFailed, jb_updated_at := le_time_text E t, jb_error := Some (sanitize e)\<rparr>"
    show ?thesis
    proof (cases "live_job i (lg_jobs g)")
      case True
      then have "persist E t (with_jobs (modify_first i ?f) g) = (r, g')"
        using failing by (simp add: fail_if_non_terminal_def)
      from persist_keeps [OF assms(2) this assms(3)] live_job_modify [OF h(1) True, of ?f] h(2)
      show ?thesis by simp
    qed (use failing refl assms(3) in \<open>auto simp: fail_if_non_terminal_def\<close>)
  next
    case (restoring t ps r)
    let ?f = "\<lambda>jobs. take MAX_RECENT_JOBS (newest_first (foldl restore_one jobs ps))"
    have "persist E t (with_jobs ?f g) = (r, g')" using restoring by (simp add: restore_pending_def)
    from persist_keeps [OF assms(2) this assms(3)] restore_all_ok [OF h(1)] show ?thesis by simp
  next
    case (applying t ev r)
    then show ?thesis using apply_event_keeps [OF assms(2) _ assms(3)] by blast
  next
    case (clearing t r)
    then have "persist E t (with_jobs (\<lambda>_. []) g) = (r, g')" by (simp add: ledger_clear_def)
    from persist_keeps [OF assms(2) this assms(3)] show ?thesis
      by (simp add: history_ok_def finished_kept_def)
  }
qed

lemma ledger_load_stored:
  assumes "get_metadata (le_storage E) Settings JOB_HISTORY_SETTING db = Ok (Some v)" "le_from_value E v = Ok js"
    and "length js \<le> MAX_RECENT_JOBS"
  shows "ledger_load E db = Ok \<lparr>lg_storage = db, lg_jobs = js\<rparr>"
  using assms by (simp add: ledger_load_def)

lemma ledger_reachable_ok: "ledger_reachable E g \<Longrightarrow> serde_faithful E \<Longrightarrow> ledger_ok E g"
proof (induction rule: ledger_reachable.induct)
  case (fresh db g)
  then show ?case by (auto simp: ledger_load_def ledger_ok_def history_ok_def)
next
  case (running g g')
  then show ?case using ledger_step_keeps by blast
next
  case (restarted g g')
  then have ok: "ledger_ok E g" by simp
  then show ?case
  proof (cases "get_metadata (le_storage E) Settings JOB_HISTORY_SETTING (lg_storage g) = Ok None")
    case True
    then show ?thesis using restarted.hyps(2) by (auto simp: ledger_load_def ledger_ok_def history_ok_def)
  next
    case False
    with ok obtain v js where v: "get_metadata (le_storage E) Settings JOB_HISTORY_SETTING (lg_storage g) = Ok (Some v)"
        "le_from_value E v = Ok js" "history_ok js" "length js \<le> MAX_RECENT_JOBS"
      by (auto simp: ledger_ok_def)
    then have "g' = \<lparr>lg_storage = lg_storage g, lg_jobs = js\<rparr>"
      using restarted.hyps(2) ledger_load_stored [OF v(1,2,4)] by simp
    with v show ?thesis by (auto simp: ledger_ok_def)
  qed
qed

text \<open>A history whose JSON is larger than a setting may be is not written, by any change.\<close>

lemma persist_too_large:
  assumes "le_to_value E (lg_jobs g) = Ok v" "json_text (le_storage E) v = Some t" "byte_len t > 64 * 1024"
  shows "\<exists>e. persist E clock g = (Err e, g)"
  using assms
  by (auto simp: persist_def set_metadata_def history_key_valid bounded_json_def reject_if_def)

end
