(* ===== verification/Desktop_Properties.thy ===== *)
theory Desktop_Properties
  imports Job_Ledger_Laws
begin

text \<open>
  The properties of the desktop's job history and of the sanitiser of its error messages.
\<close>

text \<open>C40: The history never shows a job twice nor more than a hundred jobs, whatever was inserted,
  updated, restored or reloaded, and no operation changes a summary that is submitted, failed or
  cancelled as long as it is shown.\<close>

theorem history_invariant:
  assumes "ledger_reachable E g" "serde_faithful E" "ledger_step E g g'"
  shows "distinct (map jb_id (lg_jobs g')) \<and> length (lg_jobs g') \<le> 100 \<and>
    (\<forall>j \<in> set (lg_jobs g). \<forall>k \<in> set (lg_jobs g').
       is_terminal_state (jb_state j) \<longrightarrow> jb_id k = jb_id j \<longrightarrow> k = j)"
  using ledger_step_keeps [OF assms(3,2) ledger_reachable_ok [OF assms(1,2)]]
  by (auto simp: ledger_ok_def history_ok_def finished_kept_def MAX_RECENT_JOBS_def)

definition sample_job_summary :: JobSummary where
  "sample_job_summary = \<lparr>jb_id = lit ''j1'', jb_printer_id = lit ''p1'', jb_printer_name = lit ''Desk'',
     jb_idempotency_key = lit ''k1'', jb_state = JobSubmitted, jb_received_at = lit ''1'',
     jb_updated_at = lit ''1'', jb_attempts = 1, jb_error = None\<rparr>"

text \<open>An ideal Serde whose values are the summaries, with the names of the jobs as text.\<close>

definition sample_ledger_env :: "JobSummary list ledger_env" where
  "sample_ledger_env = \<lparr>le_storage = \<lparr>json_text = (\<lambda>js. if js = [sample_job_summary] then Some (lit ''j'')
       else if js = [] then Some [] else None),
       json_parse = (\<lambda>t. if t = lit ''j'' then Some [sample_job_summary] else Some []),
       digest = (\<lambda>s. s), millis_ok = (\<lambda>_. True)\<rparr>,
     le_to_value = Ok, le_from_value = Ok, le_storage_text = (\<lambda>_. []), le_time_text = (\<lambda>_. [])\<rparr>"

lemma sample_serde_faithful: "serde_faithful sample_ledger_env"
  by (simp add: serde_faithful_def sample_ledger_env_def lit_def)

definition sample_ledger :: JobLedger where
  "sample_ledger = \<lparr>lg_storage = empty_database, lg_jobs = []\<rparr>"

lemma sample_ledger_reachable: "ledger_reachable sample_ledger_env sample_ledger"
proof (rule ledger_reachable.fresh)
  show none: "get_metadata (le_storage sample_ledger_env) Settings JOB_HISTORY_SETTING empty_database = Ok None"
    by (simp add: get_metadata_def history_key_valid empty_database_def)
  then show "ledger_load sample_ledger_env empty_database = Ok sample_ledger"
    by (simp add: ledger_load_def sample_ledger_def)
qed

lemma sample_letter: "byte_len (lit ''j'') = 1"
  by (simp add: lit_def)

lemma sample_ledger_inserts:
  "\<exists>db. ledger_insert sample_ledger_env 0 sample_job_summary sample_ledger =
     (Ok (), \<lparr>lg_storage = db, lg_jobs = [sample_job_summary]\<rparr>)"
  by (simp add: ledger_insert_def sample_ledger_def insert_job_def MAX_RECENT_JOBS_def with_jobs_def persist_def
      sample_ledger_env_def set_metadata_def history_key_valid bounded_json_def reject_if_def
      now_millis_def timestamp_millis_def sample_letter)

theorem history_invariant_witness:
  "\<exists>g'. ledger_step sample_ledger_env sample_ledger g' \<and> lg_jobs g' = [sample_job_summary] \<and> length (lg_jobs g') \<le> 100"
proof -
  obtain db where step: "ledger_step sample_ledger_env sample_ledger \<lparr>lg_storage = db, lg_jobs = [sample_job_summary]\<rparr>"
    using sample_ledger_inserts ledger_step.inserting by blast
  from history_invariant [OF sample_ledger_reachable sample_serde_faithful this] step show ?thesis by fastforce
qed

text \<open>After a change that reported success, loading the history from the repository again gives
  exactly the summaries that are shown.\<close>

theorem history_durable:
  assumes "ledger_reachable E g" "serde_faithful E" "persist E clock g = (Ok (), g')"
  shows "ledger_load E (lg_storage g') = Ok g' \<and> lg_jobs g' = lg_jobs g"
proof -
  have jobs: "lg_jobs g' = lg_jobs g" by (rule conjunct1 [OF persist_durable [OF assms(2,3)]])
  obtain v where v: "get_metadata (le_storage E) Settings JOB_HISTORY_SETTING (lg_storage g') = Ok (Some v)"
      "le_from_value E v = Ok (lg_jobs g)"
    using persist_durable [OF assms(2,3)] by blast
  have "length (lg_jobs g) \<le> MAX_RECENT_JOBS" using ledger_reachable_ok [OF assms(1,2)] by (simp add: ledger_ok_def)
  from ledger_load_stored [OF v this] jobs show ?thesis by simp
qed

theorem history_durable_witness:
  "\<exists>g'. persist sample_ledger_env 0 sample_ledger = (Ok (), g') \<and> ledger_load sample_ledger_env (lg_storage g') = Ok g'"
proof -
  have "\<exists>g'. persist sample_ledger_env 0 sample_ledger = (Ok (), g')"
    by (simp add: persist_def sample_ledger_def sample_ledger_env_def set_metadata_def history_key_valid
        bounded_json_def reject_if_def now_millis_def timestamp_millis_def)
  then show ?thesis using history_durable [OF sample_ledger_reachable sample_serde_faithful] by blast
qed

text \<open>A history whose JSON exceeds the 64 KiB of a setting, which a hundred summaries with
  permitted error texts do, is shown but not written: recording a new job fails, the job is in the
  list, and the repository keeps the older history.\<close>

theorem history_not_written:
  assumes "find (\<lambda>e. jb_id e = jb_id job) (lg_jobs g) = None"
    and "le_to_value E (insert_job job (lg_jobs g)) = Ok v" "json_text (le_storage E) v = Some t"
    and "byte_len t > 64 * 1024"
  shows "\<exists>e. ledger_insert E clock job g = (Err e, g\<lparr>lg_jobs := insert_job job (lg_jobs g)\<rparr>) \<and>
    job \<in> set (insert_job job (lg_jobs g))"
proof -
  have "le_to_value E (lg_jobs (with_jobs (insert_job job) g)) = Ok v" using assms(2) by (simp add: with_jobs_def)
  from persist_too_large [OF this assms(3,4), of clock] assms(1) show ?thesis
    by (simp add: ledger_insert_def with_jobs_def insert_job_def MAX_RECENT_JOBS_def)
qed

theorem history_not_written_witness:
  "\<exists>e g'. ledger_insert (sample_ledger_env\<lparr>le_storage := (le_storage sample_ledger_env)\<lparr>json_text :=
      (\<lambda>_. Some (replicate 65537 97))\<rparr>\<rparr>) 0 sample_job_summary sample_ledger = (Err e, g')"
proof -
  let ?E = "sample_ledger_env\<lparr>le_storage := (le_storage sample_ledger_env)\<lparr>json_text := (\<lambda>_. Some (replicate 65537 97))\<rparr>\<rparr>"
  have "byte_len (replicate 65537 97) = length (replicate 65537 (97 :: nat))" by (rule byte_len_ascii) simp
  then have "byte_len (replicate 65537 97) > 64 * 1024" by (simp del: replicate_Suc)
  moreover have "le_to_value ?E js = Ok js" for js by (simp add: sample_ledger_env_def)
  moreover have "find (\<lambda>e. jb_id e = jb_id sample_job_summary) (lg_jobs sample_ledger) = None"
    by (simp add: sample_ledger_def)
  ultimately show ?thesis
    using history_not_written [of sample_job_summary sample_ledger ?E _ "replicate 65537 97" 0] by fastforce
qed

section \<open>Redaction\<close>

text \<open>The sanitiser removes a secret that follows its marker directly, and leaves one that is
  quoted as JSON or follows a colon and a space in the message.\<close>

theorem redaction_needs_adjacency:
  "sanitize (lit ''signature=s3cret'') = lit ''signature[REDACTED]'' \<and>
   sanitize (lit ''signature: s3cret'') = lit ''signature[REDACTED] s3cret''"
  by (simp add: sanitize_def lit_def MARKERS_def REDACTED_def redact_after_marker.simps ends_secret_def
      is_control_def trim_def trim_start_def trim_end_def is_whitespace_def)

end
