(* ===== verification/Product.thy ===== *)
theory Product
  imports Oppa_Core Std_Library
begin

text \<open>
  The compile-time product configuration (\<open>crates/oppa-product\<close>): the semantic constraints beyond
  the JSON shape, each reported as an issue, and the lookup of an embedded asset. The embedded
  values are generated by the build and are parameters.
\<close>

definition PRODUCT_SCHEMA_VERSION :: "32 word" where
  "PRODUCT_SCHEMA_VERSION = 1"

record ProductUpdates =
  up_endpoint :: "Url option"

record ProductBranding =
  br_support_url :: Url
  br_documentation_url :: Url

record ProductLegal =
  lg_privacy_url :: "Url option"
  lg_terms_url :: "Url option"
  lg_text :: "ustring option"

record ProductFeatures =
  ft_virtual_printer :: bool
  ft_system_printer_discovery :: bool
  ft_network_printer_discovery :: bool
  ft_usb_printer_discovery :: bool
  ft_remote_diagnostics :: bool
  ft_managed_hardware :: bool

record ProductConfig =
  pf_schema_version :: "32 word"
  pf_product_id :: ustring
  pf_product_name :: ustring
  pf_application_id :: ustring
  pf_description :: ustring
  pf_updates :: ProductUpdates
  pf_branding :: ProductBranding
  pf_features :: ProductFeatures
  pf_legal :: ProductLegal
  pf_deep_link_scheme :: "ustring option"

section \<open>Checks\<close>

definition is_ascii_alphabetic :: "codepoint \<Rightarrow> bool" where
  "is_ascii_alphabetic c \<longleftrightarrow> is_ascii_upper c \<or> is_ascii_lower c"

definition validate_required :: "ustring \<Rightarrow> ustring \<Rightarrow> nat \<Rightarrow> ustring list" where
  "validate_required field v maximum =
     (if trim v = [] then [field @ lit '' must not be empty'']
      else if trim v \<noteq> v then [field @ lit '' must not have surrounding whitespace'']
      else if byte_len v > maximum then [field @ lit '' must not exceed '' @ dec maximum @ lit '' bytes'']
      else [])"

definition application_segment :: "ustring \<Rightarrow> bool" where
  "application_segment segment \<longleftrightarrow> segment \<noteq> [] \<and>
     list_all (\<lambda>c. is_ascii_alnum c \<or> c = 45) segment \<and> is_ascii_alphabetic (hd segment)"

definition validate_application_id :: "ustring \<Rightarrow> ustring list" where
  "validate_application_id v = validate_required (lit ''applicationId'') v 255 @
     (let segments = split_on (\<lambda>c. c = 46) v in
      if length segments < 2 \<or> \<not> list_all application_segment segments
      then [lit ''applicationId must be a reverse-DNS identifier with alphabetic segment starts''] else [])"

definition is_loopback :: "Url \<Rightarrow> bool" where
  "is_loopback u \<longleftrightarrow> u_host_str u \<in> {Some (lit ''127.0.0.1''), Some (lit ''localhost''), Some (lit ''::1'')}"

definition validate_deep_link_scheme :: "ustring \<Rightarrow> ustring \<Rightarrow> ustring list" where
  "validate_deep_link_scheme field v =
     (if v = [] then [field @ lit '' must not be empty'']
      else (if \<not> is_ascii_alphabetic (hd v) \<or>
               \<not> list_all (\<lambda>c. is_ascii_alnum c \<or> c \<in> set (lit ''+-.'')) (tl v)
            then [field @ lit '' must be a valid URL scheme: letter start, then letters/digits/+/-/.''] else []) @
           (if v \<in> {lit ''http'', lit ''https'', lit ''file'', lit ''ftp''}
            then [field @ lit '' must not shadow a standard URL scheme''] else []))"

definition validate_http_url :: "ustring \<Rightarrow> Url \<Rightarrow> ustring list" where
  "validate_http_url field u =
     (if \<not> (u_scheme u = lit ''https'' \<or> (u_scheme u = lit ''http'' \<and> is_loopback u))
      then [field @ lit '' must use HTTPS (HTTP is allowed only for a loopback development endpoint)''] else []) @
     (if u_username u \<noteq> [] \<or> u_password u \<noteq> None
      then [field @ lit '' must not contain embedded credentials''] else []) @
     (if u_fragment u \<noteq> None then [field @ lit '' must not contain a URL fragment''] else [])"

definition issues_of :: "'a option \<Rightarrow> ('a \<Rightarrow> ustring list) \<Rightarrow> ustring list" where
  "issues_of m f = (case m of None \<Rightarrow> [] | Some a \<Rightarrow> f a)"

definition validation_issues :: "ProductConfig \<Rightarrow> ustring list" where
  "validation_issues c = concat
     [(if pf_schema_version c \<noteq> PRODUCT_SCHEMA_VERSION
       then [lit ''schemaVersion '' @ dec (unat (pf_schema_version c)) @
         lit '' is unsupported; this build supports '' @ dec (unat PRODUCT_SCHEMA_VERSION)] else []),
      validate_required (lit ''productName'') (pf_product_name c) 100,
      validate_required (lit ''description'') (pf_description c) 500,
      validate_application_id (pf_application_id c),
      validate_http_url (lit ''branding.supportUrl'') (br_support_url (pf_branding c)),
      validate_http_url (lit ''branding.documentationUrl'') (br_documentation_url (pf_branding c)),
      issues_of (up_endpoint (pf_updates c)) (validate_http_url (lit ''updates.endpoint'')),
      issues_of (lg_privacy_url (pf_legal c)) (validate_http_url (lit ''legal.privacyUrl'')),
      issues_of (lg_terms_url (pf_legal c)) (validate_http_url (lit ''legal.termsUrl'')),
      issues_of (lg_text (pf_legal c)) (\<lambda>t. validate_required (lit ''legal.text'') t 20000),
      issues_of (pf_deep_link_scheme c) (validate_deep_link_scheme (lit ''deepLinkScheme''))]"

section \<open>Loading\<close>

datatype ProductConfigError =
  ReadFailed ustring ustring
| ParseFailed ustring
| ValidationFailed ustring
| EmbeddedInvalid ustring

fun join :: "ustring \<Rightarrow> ustring list \<Rightarrow> ustring" where
  "join sep [] = []"
| "join sep [x] = x"
| "join sep (x # xs) = x @ sep @ join sep xs"

definition embedded_product :: "(ustring + ProductConfig) \<Rightarrow> ProductConfigError + ProductConfig" where
  "embedded_product embedded_json = map_err EmbeddedInvalid (and_then embedded_json (\<lambda>config.
     let issues = validation_issues config in
     if issues = [] then Ok config else Err (join (lit ''; '') issues)))"

definition load_product_file ::
  "(ustring \<Rightarrow> ustring + ustring) \<Rightarrow> (ustring \<Rightarrow> ustring + ProductConfig) \<Rightarrow> ustring \<Rightarrow>
     ProductConfigError + ProductConfig" where
  "load_product_file read_to_string from_str path =
     and_then (map_err (ReadFailed path) (read_to_string path)) (\<lambda>contents.
     and_then (map_err ParseFailed (from_str contents)) (\<lambda>product.
     let issues = validation_issues product in
     if issues = [] then Ok product else Err (ValidationFailed (join (lit ''; '') issues))))"

text \<open>An asset is its path and its bytes.\<close>

definition embedded_asset :: "(ustring \<times> nat list) list \<Rightarrow> ustring \<Rightarrow> (ustring \<times> nat list) option" where
  "embedded_asset assets path =
     (let normalized = map (\<lambda>c. if c = 92 then 47 else c) (dropWhile (\<lambda>c. c = 47) path) in
      find (\<lambda>asset. fst asset = normalized) assets)"

section \<open>What an accepted configuration guarantees\<close>

definition secure_link :: "Url \<Rightarrow> bool" where
  "secure_link u \<longleftrightarrow> (u_scheme u = lit ''https'' \<or> u_scheme u = lit ''http'' \<and> is_loopback u) \<and>
     u_username u = [] \<and> u_password u = None \<and> u_fragment u = None"

lemma validate_http_url_none: "validate_http_url f u = [] \<longleftrightarrow> secure_link u"
  by (auto simp: validate_http_url_def secure_link_def)

lemma issues_of_none: "issues_of m f = [] \<longleftrightarrow> (\<forall>a. m = Some a \<longrightarrow> f a = [])"
  by (cases m) (auto simp: issues_of_def)

lemma validate_required_none:
  "validate_required f v n = [] \<longleftrightarrow> v \<noteq> [] \<and> trim v = v \<and> byte_len v \<le> n"
  by (auto simp: validate_required_def)

text \<open>Every link of an accepted configuration is a secure one.\<close>

lemma accepted_links_secure:
  assumes "validation_issues c = []"
    and "u \<in> {br_support_url (pf_branding c), br_documentation_url (pf_branding c)} \<or>
      Some u \<in> {up_endpoint (pf_updates c), lg_privacy_url (pf_legal c), lg_terms_url (pf_legal c)}"
  shows "secure_link u"
  using assms by (auto simp: validation_issues_def validate_http_url_none issues_of_none)

text \<open>Schemes compare without case, the check of the deep link does not.\<close>

lemma upper_case_scheme_accepted: "validate_deep_link_scheme field (lit ''HTTP'') = []"
  by (simp add: validate_deep_link_scheme_def lit_def is_ascii_alphabetic_def is_ascii_upper_def
      is_ascii_lower_def is_ascii_alnum_def)

end
