(* ===== verification/Sorted_Map.thy ===== *)
theory Sorted_Map
  imports Oppa_Prelude
begin

text \<open>
  \<open>BTreeMap\<close> and \<open>BTreeSet\<close>: an ordered map is its list of entries in ascending order of the
  keys, the order in which the code iterates over it; an ordered set is its ascending list of
  elements. \<open>str\<close> keys compare by bytes, which for UTF-8 is the order of the scalar values.
\<close>

section \<open>The interface\<close>

text \<open>What a client of a map relies on, as laws of its lookup.\<close>

locale ordered_map =
  fixes lookup :: "'m \<Rightarrow> 'k \<Rightarrow> 'v option"
    and vacant :: 'm
    and insert_at :: "'k \<Rightarrow> 'v \<Rightarrow> 'm \<Rightarrow> 'm"
    and remove_at :: "'k \<Rightarrow> 'm \<Rightarrow> 'm"
    and wf :: "'m \<Rightarrow> bool"
  assumes lookup_vacant: "lookup vacant = Map.empty"
    and wf_vacant: "wf vacant"
    and lookup_insert_at: "wf m \<Longrightarrow> lookup (insert_at k v m) = (lookup m)(k \<mapsto> v)"
    and wf_insert_at: "wf m \<Longrightarrow> wf (insert_at k v m)"
    and lookup_remove_at: "wf m \<Longrightarrow> lookup (remove_at k m) = (lookup m)(k := None)"
    and wf_remove_at: "wf m \<Longrightarrow> wf (remove_at k m)"
begin

text \<open>\<open>collect\<close>: the entries are inserted one after the other.\<close>

definition collect :: "('k \<times> 'v) list \<Rightarrow> 'm \<Rightarrow> 'm" where
  "collect kvs m = fold (\<lambda>(k, v). insert_at k v) kvs m"

lemma collect_wf: "wf m \<Longrightarrow> wf (collect kvs m)"
  by (induction kvs arbitrary: m) (auto simp: collect_def wf_insert_at)

lemma collect_lookup: "wf m \<Longrightarrow> lookup (collect kvs m) = lookup m ++ map_of (rev kvs)"
proof (induction kvs arbitrary: m)
  case (Cons a kvs)
  obtain k v where a: "a = (k, v)" by force
  have "lookup (collect (a # kvs) m) = lookup (insert_at k v m) ++ map_of (rev kvs)"
    using Cons wf_insert_at [of m k v] by (simp add: a collect_def)
  also have "\<dots> = lookup m ++ map_of (rev (a # kvs))"
    using Cons.prems by (simp add: a lookup_insert_at map_add_upd_left map_of_append)
  finally show ?case .
qed (simp add: collect_def)

lemma collect_member:
  assumes "lookup (collect kvs vacant) k = Some v"
  shows "(k, v) \<in> set kvs"
proof -
  have "map_of (rev kvs) k = Some v" using assms by (simp add: collect_lookup wf_vacant lookup_vacant)
  then show ?thesis by (auto dest: map_of_SomeD)
qed

lemma collect_keys: "dom (lookup (collect kvs vacant)) = fst ` set kvs"
  by (simp add: collect_lookup wf_vacant lookup_vacant dom_map_of_conv_image_fst)

end

section \<open>Entries in ascending order\<close>

type_synonym ('k, 'v) btree = "('k \<times> 'v) list"

fun btree_insert :: "'k::linorder \<Rightarrow> 'v \<Rightarrow> ('k, 'v) btree \<Rightarrow> ('k, 'v) btree" where
  "btree_insert k v [] = [(k, v)]"
| "btree_insert k v ((a, b) # m) =
     (if k < a then (k, v) # (a, b) # m
      else if k = a then (k, v) # m
      else (a, b) # btree_insert k v m)"

definition btree_remove :: "'k \<Rightarrow> ('k, 'v) btree \<Rightarrow> ('k, 'v) btree" where
  "btree_remove k m = filter (\<lambda>e. fst e \<noteq> k) m"

definition btree_collect :: "('k::linorder \<times> 'v) list \<Rightarrow> ('k, 'v) btree" where
  "btree_collect kvs = fold (\<lambda>(k, v). btree_insert k v) kvs []"

text \<open>\<open>entry(k).or_default()\<close> followed by an update of the entry.\<close>

definition btree_update :: "'k::linorder \<Rightarrow> 'v \<Rightarrow> ('v \<Rightarrow> 'v) \<Rightarrow> ('k, 'v) btree \<Rightarrow> ('k, 'v) btree" where
  "btree_update k d f m = btree_insert k (f (case map_of m k of None \<Rightarrow> d | Some v \<Rightarrow> v)) m"

definition btree_ok :: "('k::linorder, 'v) btree \<Rightarrow> bool" where
  "btree_ok m \<longleftrightarrow> sorted_wrt (<) (map fst m)"

text \<open>\<open>BTreeSet\<close>: the elements of a list, ascending and without repetition.\<close>

definition btree_set :: "'a::linorder list \<Rightarrow> 'a list" where
  "btree_set xs = sort (remdups xs)"

lemma btree_set_laws [simp]: "set (btree_set xs) = set xs" "distinct (btree_set xs)" "sorted (btree_set xs)"
  by (simp_all add: btree_set_def)

lemma btree_set_nil [simp]: "btree_set xs = [] \<longleftrightarrow> xs = []"
  by (metis btree_set_laws(1) set_empty)

section \<open>The laws\<close>

lemma btree_insert_keys: "fst ` set (btree_insert k v m) = insert k (fst ` set m)"
  by (induction k v m rule: btree_insert.induct) auto

lemma btree_insert_ok: "btree_ok m \<Longrightarrow> btree_ok (btree_insert k v m)"
proof (induction k v m rule: btree_insert.induct)
  case (2 k v a b m)
  have keys: "x \<in> fst ` set (btree_insert k v m) \<Longrightarrow> a < k \<Longrightarrow> a < x" for x
    using "2.prems" by (auto simp: btree_insert_keys btree_ok_def)
  have tail: "btree_ok m" using "2.prems" by (simp add: btree_ok_def)
  show ?case
  proof (cases "k \<le> a")
    case True
    then show ?thesis using "2.prems" by (auto simp: btree_ok_def le_less)
  next
    case False
    then have "btree_ok (btree_insert k v m)" "a < k" using "2.IH" tail by auto
    then show ?thesis using keys False by (auto simp: btree_ok_def)
  qed
qed (simp add: btree_ok_def)

lemma btree_insert_lookup: "btree_ok m \<Longrightarrow> map_of (btree_insert k v m) = (map_of m)(k \<mapsto> v)"
proof (induction k v m rule: btree_insert.induct)
  case (2 k v a b m)
  then show ?case by (auto simp: btree_ok_def fun_eq_iff)
qed simp

lemma btree_remove_ok: "btree_ok m \<Longrightarrow> btree_ok (btree_remove k m)"
  unfolding btree_ok_def btree_remove_def by (induction m) auto

lemma btree_remove_lookup: "map_of (btree_remove k m) = (map_of m)(k := None)"
proof -
  have "map_of (filter (\<lambda>e. fst e \<noteq> k) m) x = (if x = k then None else map_of m x)" for x
    by (induction m) auto
  then show ?thesis by (auto simp: btree_remove_def)
qed

interpretation btree: ordered_map map_of "[]" btree_insert btree_remove
  "btree_ok :: ('k::linorder, 'v) btree \<Rightarrow> bool"
  by unfold_locales
     (auto simp: btree_insert_lookup btree_insert_ok btree_remove_lookup btree_remove_ok btree_ok_def [of "[]"])

lemma btree_collect_eq: "btree_collect kvs = btree.collect kvs []"
  by (simp add: btree_collect_def btree.collect_def)

lemma btree_ok_distinct: "btree_ok m \<Longrightarrow> distinct (map fst m)"
  unfolding btree_ok_def by (simp add: strict_sorted_iff)

lemma btree_lookup_iff: "btree_ok m \<Longrightarrow> map_of m k = Some v \<longleftrightarrow> (k, v) \<in> set m"
  using btree_ok_distinct [of m] by auto

lemma map_of_rev_distinct: "distinct (map fst xs) \<Longrightarrow> map_of (rev xs) = map_of xs"
  by (simp add: map_of_inject_set rev_map [symmetric])

lemma btree_entry: "(k, v) \<in> set m \<Longrightarrow> btree_ok m \<Longrightarrow> map_of m k = Some v"
  by (simp add: btree_lookup_iff)

text \<open>The entries are determined by the lookup.\<close>

lemma btree_ext:
  assumes "btree_ok m" "btree_ok n" "map_of m = map_of n"
  shows "m = n"
proof -
  have same: "set m = set n" using assms btree_lookup_iff by (metis subrelI subset_antisym)
  have "inj_on fst (set m \<union> set n)"
    using btree_ok_distinct [OF assms(1)] same by (simp add: distinct_map)
  then show ?thesis
    using assms same
    by (auto simp: btree_ok_def strict_sorted_iff intro: map_sorted_distinct_set_unique [of fst])
qed

lemma btree_update_ok: "btree_ok m \<Longrightarrow> btree_ok (btree_update k d f m)"
  by (simp add: btree_update_def btree_insert_ok)

lemma btree_update_keys: "fst ` set (btree_update k d f m) = insert k (fst ` set m)"
  by (simp add: btree_update_def btree_insert_keys)

end
