(* ===== verification/Discovery.thy ===== *)
theory Discovery
  imports Sorted_Map Printer_Ref Std_Library "HOL-Library.Option_ord"
begin

text \<open>
  The discovery manager (\<open>crates/oppa-discovery/src/manager.rs\<close>): the normalisation of one
  observation, the merging of observations that share an identity key, the changes against the
  previous pass, and one pass over the answers of the providers. The providers themselves are the
  environment: a pass takes what each of them answered before its deadline.
  \<open>str::to_lowercase\<close> is the argument \<open>lower\<close>.
\<close>

section \<open>Errors of a provider\<close>

datatype DiscoveryError =
  ProviderUnavailable ustring
| ProviderTimeout nat
| ProviderInvalidData ustring
| ProviderOperationFailed ustring

fun DiscoveryError_to_string :: "DiscoveryError \<Rightarrow> ustring" where
  "DiscoveryError_to_string (ProviderUnavailable s) = lit ''provider is unavailable: '' @ s"
| "DiscoveryError_to_string (ProviderTimeout d) = lit ''provider timed out after '' @ duration_debug d"
| "DiscoveryError_to_string (ProviderInvalidData s) = lit ''provider returned invalid data: '' @ s"
| "DiscoveryError_to_string (ProviderOperationFailed s) = lit ''provider operation failed: '' @ s"

section \<open>Normalisation\<close>

definition provider_key :: "ProviderMetadata \<Rightarrow> ustring \<times> ustring option" where
  "provider_key p = (prov_provider p, prov_provider_id p)"

text \<open>\<open>Vec::dedup_by\<close>: of consecutive entries with the same key the first stays.\<close>

fun dedup_by_key :: "('a \<Rightarrow> 'k) \<Rightarrow> 'a list \<Rightarrow> 'a list" where
  "dedup_by_key k [] = []"
| "dedup_by_key k [x] = [x]"
| "dedup_by_key k (x # y # ys) =
     (if k y = k x then dedup_by_key k (x # ys) else x # dedup_by_key k (y # ys))"

definition trimmed_some :: "ustring option \<Rightarrow> ustring option" where
  "trimmed_some v = (case v of None \<Rightarrow> None
     | Some s \<Rightarrow> if trim s = [] then None else Some (trim s))"

definition normalize_connection :: "PrinterConnection \<Rightarrow> PrinterConnection" where
  "normalize_connection c = (case c of
     SystemQueue q \<Rightarrow> SystemQueue (trim q)
   | Network h p \<Rightarrow> Network (to_ascii_lowercase (trim_end_char 46 (trim h))) p
   | Usb v p serial_number \<Rightarrow> Usb v p (trimmed_some serial_number)
   | Virtual i \<Rightarrow> Virtual (trim i))"

definition normalize_fingerprint :: "PrinterFingerprint \<Rightarrow> PrinterFingerprint" where
  "normalize_fingerprint f = f\<lparr>
     fp_queue_name := trimmed_some (fp_queue_name f),
     fp_driver_name := trimmed_some (fp_driver_name f),
     fp_device_uri := trimmed_some (fp_device_uri f),
     fp_host := map_option (\<lambda>h. to_ascii_lowercase (trim_end_char 46 h)) (trimmed_some (fp_host f)),
     fp_serial_number := trimmed_some (fp_serial_number f),
     fp_mac_address := trimmed_some (fp_mac_address f)\<rparr>"

definition normalize_printer :: "DiscoveredPrinter \<Rightarrow> PrinterValidationError + DiscoveredPrinter" where
  "normalize_printer p =
     (let q = p\<lparr>
        dp_name := trim (dp_name p),
        dp_connection := normalize_connection (dp_connection p),
        dp_fingerprint := normalize_fingerprint (dp_fingerprint p),
        dp_providers := dedup_by_key provider_key (sort_key provider_key (dp_providers p))\<rparr> in
      and_then (DiscoveredPrinter_validate q) (\<lambda>_. Ok q))"

section \<open>Identity\<close>

definition connection_keys :: "(ustring \<Rightarrow> ustring) \<Rightarrow> PrinterConnection \<Rightarrow> ustring list" where
  "connection_keys lower c = (case c of
     SystemQueue q \<Rightarrow> [lit ''queue:'' @ lower (trim q)]
   | Network h p \<Rightarrow> [lit ''network:'' @ lower (trim_end_char 46 h) @ lit '':'' @ dec (unat p)]
   | Usb v p (Some serial_number) \<Rightarrow>
       [lit ''usb:'' @ hex4 v @ lit '':'' @ hex4 p @ lit '':'' @ lower (trim serial_number)]
   | Usb v p None \<Rightarrow> []
   | Virtual i \<Rightarrow> [lit ''virtual:'' @ lower i])"

definition printer_identity_keys :: "(ustring \<Rightarrow> ustring) \<Rightarrow> DiscoveredPrinter \<Rightarrow> ustring list" where
  "printer_identity_keys lower p =
     btree_set (identity_keys lower (dp_fingerprint p) @ connection_keys lower (dp_connection p))"

definition unknown_provider :: ProviderMetadata where
  "unknown_provider = \<lparr>prov_provider = lit ''unknown'', prov_provider_id = None, prov_attributes = []\<rparr>"

definition inventory_key :: "(ustring \<Rightarrow> ustring) \<Rightarrow> DiscoveredPrinter \<Rightarrow> ustring" where
  "inventory_key lower p = (case dp_id p of
     Some i \<Rightarrow> lit ''id:'' @ i
   | None \<Rightarrow> (case printer_identity_keys lower p of
       key # _ \<Rightarrow> key
     | [] \<Rightarrow>
         let provider = (case dp_providers p of q # _ \<Rightarrow> q | [] \<Rightarrow> unknown_provider) in
         lit ''provider:'' @ prov_provider provider @ lit '':'' @
           (case prov_provider_id provider of Some i \<Rightarrow> i | None \<Rightarrow> []) @ lit '':'' @
           lower (dp_name p)))"

section \<open>Merging\<close>

fun availability_rank :: "PrinterAvailability \<Rightarrow> nat" where
  "availability_rank Online = 3"
| "availability_rank DegradedAvailability = 2"
| "availability_rank UnknownAvailability = 1"
| "availability_rank Offline = 0"

definition merge_capabilities :: "PrinterCapabilities \<Rightarrow> PrinterCapabilities \<Rightarrow> PrinterCapabilities" where
  "merge_capabilities d s = d\<lparr>
     pc_receipt_widths_mm := remdups_adj (sort (pc_receipt_widths_mm d @ pc_receipt_widths_mm s)),
     pc_esc_pos := pc_esc_pos d \<or> pc_esc_pos s,
     pc_raster := pc_raster d \<or> pc_raster s,
     pc_cut := pc_cut d \<or> pc_cut s,
     pc_qr_code := pc_qr_code d \<or> pc_qr_code s,
     pc_barcode := pc_barcode d \<or> pc_barcode s,
     pc_cancellation := pc_cancellation d \<or> pc_cancellation s\<rparr>"

fun append_providers :: "ProviderMetadata list \<Rightarrow> ProviderMetadata list \<Rightarrow> ProviderMetadata list" where
  "append_providers ds [] = ds"
| "append_providers ds (s # ss) =
     append_providers (if list_ex (\<lambda>d. provider_key d = provider_key s) ds then ds else ds @ [s]) ss"

definition merge_observation :: "DiscoveredPrinter \<Rightarrow> DiscoveredPrinter \<Rightarrow> DiscoveredPrinter" where
  "merge_observation d s = d\<lparr>
     dp_fingerprint := merge_missing (dp_fingerprint d) (dp_fingerprint s),
     dp_id := (if dp_id d = None then dp_id s else dp_id d),
     dp_capabilities := (case (dp_capabilities d, dp_capabilities s) of
         (None, c) \<Rightarrow> c
       | (Some existing, Some additional) \<Rightarrow> Some (merge_capabilities existing additional)
       | (Some existing, None) \<Rightarrow> Some existing),
     dp_availability := (if availability_rank (dp_availability s) > availability_rank (dp_availability d)
       then dp_availability s else dp_availability d),
     dp_providers := sort_key provider_key (append_providers (dp_providers d) (dp_providers s))\<rparr>"

definition shares_key :: "(ustring \<Rightarrow> ustring) \<Rightarrow> DiscoveredPrinter \<Rightarrow> DiscoveredPrinter \<Rightarrow> bool" where
  "shares_key lower p q \<longleftrightarrow>
     list_ex (\<lambda>k. k \<in> set (printer_identity_keys lower q)) (printer_identity_keys lower p)"

text \<open>The first entry with a common key takes the observation; otherwise it is a new entry.\<close>

fun merge_into :: "(ustring \<Rightarrow> ustring) \<Rightarrow> DiscoveredPrinter \<Rightarrow> DiscoveredPrinter list \<Rightarrow> DiscoveredPrinter list" where
  "merge_into lower p [] = [p]"
| "merge_into lower p (q # qs) =
     (if shares_key lower p q then merge_observation q p # qs else q # merge_into lower p qs)"

definition sort_inventory :: "(ustring \<Rightarrow> ustring) \<Rightarrow> DiscoveredPrinter list \<Rightarrow> DiscoveredPrinter list" where
  "sort_inventory lower ps = sort_key (\<lambda>p. (lower (dp_name p), inventory_key lower p)) ps"

definition deduplicate :: "(ustring \<Rightarrow> ustring) \<Rightarrow> DiscoveredPrinter list \<Rightarrow> DiscoveredPrinter list" where
  "deduplicate lower ps = sort_inventory lower (fold (merge_into lower) ps [])"

section \<open>Changes\<close>

datatype InventoryChange =
  Added DiscoveredPrinter
| Updated DiscoveredPrinter DiscoveredPrinter
| Removed DiscoveredPrinter

type_synonym inventory = "(ustring, DiscoveredPrinter) btree"

definition inventory_changes :: "inventory \<Rightarrow> inventory \<Rightarrow> InventoryChange list" where
  "inventory_changes previous current =
     concat (map (\<lambda>(key, p). case map_of previous key of
        None \<Rightarrow> [Added p]
      | Some old \<Rightarrow> if old \<noteq> p then [Updated old p] else []) current) @
     concat (map (\<lambda>(key, p). if map_of current key = None then [Removed p] else []) previous)"

section \<open>A pass\<close>

record ProviderFailure =
  pf_provider :: ustring
  pf_message :: ustring

record DiscoverySnapshot =
  ds_printers :: "DiscoveredPrinter list"
  ds_changes :: "InventoryChange list"
  ds_failures :: "ProviderFailure list"

record DiscoveryManager =
  dm_provider_timeout :: nat
  dm_previous :: inventory

definition DiscoveryManager_new :: "nat \<Rightarrow> DiscoveryManager" where
  "DiscoveryManager_new provider_timeout =
     \<lparr>dm_provider_timeout = provider_timeout, dm_previous = []\<rparr>"

text \<open>What a provider answered: \<open>None\<close> when its deadline elapsed first.\<close>

type_synonym provider_answer = "ustring \<times> (DiscoveryError + DiscoveredPrinter list) option"

definition answered_printers :: "provider_answer \<Rightarrow> DiscoveredPrinter list" where
  "answered_printers a = (case snd a of Some (Inr printers) \<Rightarrow> printers | _ \<Rightarrow> [])"

definition answer_failure :: "nat \<Rightarrow> provider_answer \<Rightarrow> ProviderFailure list" where
  "answer_failure provider_timeout a = (case snd a of
     Some (Inr _) \<Rightarrow> []
   | Some (Inl e) \<Rightarrow> [\<lparr>pf_provider = fst a, pf_message = DiscoveryError_to_string e\<rparr>]
   | None \<Rightarrow> [\<lparr>pf_provider = fst a,
       pf_message = lit ''provider timed out after '' @ duration_debug provider_timeout\<rparr>])"

definition normalized_printers :: "DiscoveredPrinter \<Rightarrow> DiscoveredPrinter list" where
  "normalized_printers p = (case normalize_printer p of Inr q \<Rightarrow> [q] | Inl e \<Rightarrow> [])"

definition normalization_failure :: "DiscoveredPrinter \<Rightarrow> ProviderFailure list" where
  "normalization_failure p = (case normalize_printer p of
     Inr q \<Rightarrow> []
   | Inl e \<Rightarrow> [\<lparr>pf_provider = lit ''normalization'', pf_message = printer_error_message e\<rparr>])"

definition keyed_inventory :: "(ustring \<Rightarrow> ustring) \<Rightarrow> DiscoveredPrinter list \<Rightarrow> inventory" where
  "keyed_inventory lower ps = btree_collect (map (\<lambda>p. (inventory_key lower p, p)) ps)"

definition discover_pass ::
  "(ustring \<Rightarrow> ustring) \<Rightarrow> provider_answer list \<Rightarrow> DiscoveryManager \<Rightarrow>
     DiscoverySnapshot \<times> DiscoveryManager" where
  "discover_pass lower answers m =
     (let observations = concat (map answered_printers answers);
          failures = concat (map (answer_failure (dm_provider_timeout m)) answers) @
            concat (map normalization_failure observations);
          printers = deduplicate lower (concat (map normalized_printers observations));
          current = keyed_inventory lower printers in
      (\<lparr>ds_printers = printers, ds_changes = inventory_changes (dm_previous m) current,
        ds_failures = failures\<rparr>,
       m\<lparr>dm_previous := current\<rparr>))"

end
