(* ===== verification/Discovery_Laws.thy ===== *)
theory Discovery_Laws
  imports Discovery "HOL-Library.Multiset"
begin

text \<open>
  Laws of the discovery manager: what merging keeps of each observation, that normalised
  observations stay valid, that the changes turn the previous inventory into the current one, and
  the managers reachable by passes.
\<close>

section \<open>Lists with keys\<close>

lemma dedup_by_key_keys [simp]: "k ` set (dedup_by_key k xs) = k ` set xs"
  by (induction k xs rule: dedup_by_key.induct) auto

lemma dedup_by_key_subset: "set (dedup_by_key k xs) \<subseteq> set xs"
  by (induction k xs rule: dedup_by_key.induct) auto

lemma dedup_by_key_nil [simp]: "dedup_by_key k xs = [] \<longleftrightarrow> xs = []"
  by (metis dedup_by_key_keys image_is_empty set_empty)

lemma dedup_by_key_distinct: "sorted (map k xs) \<Longrightarrow> distinct (map k (dedup_by_key k xs))"
proof (induction k xs rule: dedup_by_key.induct)
  case (3 k x y ys)
  show ?case
  proof (cases "k y = k x")
    case True
    then show ?thesis using 3 by auto
  next
    case False
    then have "k x < k y" using "3.prems" by auto
    then have "\<forall>z \<in> set (y # ys). k x < k z" using "3.prems" by auto
    then have "k x \<notin> k ` set (dedup_by_key k (y # ys))" unfolding dedup_by_key_keys by force
    then show ?thesis using False 3 by simp
  qed
qed auto

lemma provider_present:
  "list_ex (\<lambda>d. provider_key d = provider_key s) ds \<longleftrightarrow> provider_key s \<in> provider_key ` set ds"
  by (auto simp: list_ex_iff image_iff eq_commute)

lemma append_providers_keys:
  "provider_key ` set (append_providers ds ss) = provider_key ` set ds \<union> provider_key ` set ss"
  by (induction ds ss rule: append_providers.induct) (auto simp only: append_providers.simps
      provider_present set_append list.set image_Un image_insert split: if_splits)

lemma append_providers_subset: "set (append_providers ds ss) \<subseteq> set ds \<union> set ss"
  by (induction ds ss rule: append_providers.induct) (auto split: if_splits)

lemma append_providers_distinct:
  "distinct (map provider_key ds) \<Longrightarrow> distinct (map provider_key (append_providers ds ss))"
proof (induction ds ss rule: append_providers.induct)
  case (2 ds s ss)
  show ?case
  proof (cases "provider_key s \<in> provider_key ` set ds")
    case False
    then have "distinct (map provider_key (ds @ [s]))" using "2.prems" by simp
    with False 2 show ?thesis by (simp add: provider_present)
  qed (use 2 in \<open>simp add: provider_present\<close>)
qed simp

section \<open>What merging keeps\<close>

definition provider_keys :: "DiscoveredPrinter \<Rightarrow> (ustring \<times> ustring option) set" where
  "provider_keys p = provider_key ` set (dp_providers p)"

text \<open>The capabilities an observation reports, except the two that merging does not combine.\<close>

definition capabilities_within :: "PrinterCapabilities option \<Rightarrow> PrinterCapabilities option \<Rightarrow> bool" where
  "capabilities_within c c' \<longleftrightarrow> (case (c, c') of
     (None, _) \<Rightarrow> True
   | (Some a, Some b) \<Rightarrow>
       set (pc_receipt_widths_mm a) \<subseteq> set (pc_receipt_widths_mm b) \<and>
       (pc_esc_pos a \<longrightarrow> pc_esc_pos b) \<and> (pc_raster a \<longrightarrow> pc_raster b) \<and> (pc_cut a \<longrightarrow> pc_cut b) \<and>
       (pc_qr_code a \<longrightarrow> pc_qr_code b) \<and> (pc_barcode a \<longrightarrow> pc_barcode b) \<and>
       (pc_cancellation a \<longrightarrow> pc_cancellation b)
   | (Some _, None) \<Rightarrow> False)"

definition represented :: "DiscoveredPrinter \<Rightarrow> DiscoveredPrinter \<Rightarrow> bool" where
  "represented p q \<longleftrightarrow> provider_keys p \<subseteq> provider_keys q \<and>
     availability_rank (dp_availability p) \<le> availability_rank (dp_availability q) \<and>
     (dp_id p \<noteq> None \<longrightarrow> dp_id q \<noteq> None) \<and>
     capabilities_within (dp_capabilities p) (dp_capabilities q)"

lemma represented_refl [simp, intro]: "represented p p"
  by (auto simp: represented_def capabilities_within_def split: option.splits)

lemma capabilities_within_trans:
  "capabilities_within a b \<Longrightarrow> capabilities_within b c \<Longrightarrow> capabilities_within a c"
  by (cases a; cases b; cases c) (simp_all add: capabilities_within_def, blast)

lemma represented_trans:
  assumes "represented p q" "represented q r"
  shows "represented p r"
  using assms capabilities_within_trans [of "dp_capabilities p" "dp_capabilities q" "dp_capabilities r"]
  unfolding represented_def by (meson order_trans)

lemma provider_keys_merge [simp]:
  "provider_keys (merge_observation d s) = provider_keys d \<union> provider_keys s"
  by (simp add: provider_keys_def merge_observation_def append_providers_keys)

lemma capabilities_within_merge:
  "capabilities_within (dp_capabilities d) (dp_capabilities (merge_observation d s))"
  "capabilities_within (dp_capabilities s) (dp_capabilities (merge_observation d s))"
  by (auto simp: capabilities_within_def merge_observation_def merge_capabilities_def
      split: option.splits)

lemma represented_merge: "represented d (merge_observation d s)" "represented s (merge_observation d s)"
  unfolding represented_def
  by (auto simp: capabilities_within_merge) (auto simp: merge_observation_def)

lemma merge_into_represents:
  "\<exists>q \<in> set (merge_into lower p qs). represented p q"
  "r \<in> set qs \<Longrightarrow> \<exists>q \<in> set (merge_into lower p qs). represented r q"
  by (induction qs) (auto intro: represented_merge)

lemma merge_into_keys:
  "(\<Union>q \<in> set (merge_into lower p qs). provider_keys q) = provider_keys p \<union> (\<Union>q \<in> set qs. provider_keys q)"
  by (induction qs) auto

definition same_printer :: "DiscoveredPrinter \<Rightarrow> DiscoveredPrinter \<Rightarrow> bool" where
  "same_printer p q \<longleftrightarrow> dp_name p = dp_name q \<and> dp_kind p = dp_kind q \<and> dp_connection p = dp_connection q"

lemma same_printer_refl [simp]: "same_printer p p"
  by (simp add: same_printer_def)

lemma same_printer_merge [simp]: "same_printer p (merge_observation d s) \<longleftrightarrow> same_printer p d"
  by (simp add: same_printer_def merge_observation_def)

lemma merge_into_origin:
  "q \<in> set (merge_into lower p qs) \<Longrightarrow> \<exists>r \<in> insert p (set qs). same_printer r q"
proof (induction qs)
  case (Cons a qs)
  consider "q = merge_observation a p" | "q \<in> set (a # qs)" | "q \<in> set (merge_into lower p qs)"
    using Cons.prems by (auto split: if_splits)
  then show ?case
  proof cases
    case 1
    then have "same_printer a q" by simp
    then show ?thesis by auto
  next
    case 2
    then show ?thesis using same_printer_refl by blast
  next
    case 3
    then show ?thesis using Cons.IH by auto
  qed
qed simp

lemma fold_merge_represents:
  "r \<in> set qs \<union> set ps \<Longrightarrow> \<exists>q \<in> set (fold (merge_into lower) ps qs). represented r q"
proof (induction ps arbitrary: qs r)
  case (Cons p ps)
  have "\<exists>t \<in> set (merge_into lower p qs) \<union> set ps. represented r t"
    using Cons.prems merge_into_represents(1) [where lower = lower and p = p and qs = qs]
      merge_into_represents(2) [where lower = lower and p = p and qs = qs and r = r]
    by auto
  then obtain t where t: "t \<in> set (merge_into lower p qs) \<union> set ps" "represented r t" by blast
  obtain q where "q \<in> set (fold (merge_into lower) ps (merge_into lower p qs))" "represented t q"
    using Cons.IH [OF t(1)] by blast
  then show ?case using represented_trans [OF t(2)] by auto
qed auto

lemma fold_merge_keys:
  "(\<Union>q \<in> set (fold (merge_into lower) ps qs). provider_keys q) =
     (\<Union>q \<in> set qs. provider_keys q) \<union> (\<Union>q \<in> set ps. provider_keys q)"
  by (induction ps arbitrary: qs) (auto simp: merge_into_keys)

lemma fold_merge_origin:
  "q \<in> set (fold (merge_into lower) ps qs) \<Longrightarrow> \<exists>r \<in> set qs \<union> set ps. same_printer r q"
proof (induction ps arbitrary: qs)
  case (Cons p ps)
  then obtain r where r: "r \<in> set (merge_into lower p qs) \<union> set ps" "same_printer r q" by fastforce
  then obtain r' where "r' \<in> set qs \<union> set (p # ps)" "same_printer r' r"
    using merge_into_origin [of r lower p qs] same_printer_refl [of r]
    by (metis Un_iff insertE list.simps(15) insertCI)
  then show ?case using r(2) unfolding same_printer_def by metis
qed (auto intro: same_printer_refl)

lemma deduplicate_set: "set (deduplicate lower ps) = set (fold (merge_into lower) ps [])"
  by (simp add: deduplicate_def sort_inventory_def)

text \<open>Without a common key nothing is merged.\<close>

lemma merge_into_apart:
  "\<forall>q \<in> set qs. \<not> shares_key lower p q \<Longrightarrow> merge_into lower p qs = qs @ [p]"
  by (induction qs) auto

definition common_key :: "(ustring \<Rightarrow> ustring) \<Rightarrow> DiscoveredPrinter \<Rightarrow> DiscoveredPrinter \<Rightarrow> bool" where
  "common_key lower p q \<longleftrightarrow> set (printer_identity_keys lower p) \<inter> set (printer_identity_keys lower q) \<noteq> {}"

lemma shares_key_common: "shares_key lower = common_key lower"
  by (auto simp: fun_eq_iff shares_key_def common_key_def list_ex_iff)

lemma shares_key_sym: "shares_key lower p q \<longleftrightarrow> shares_key lower q p"
  by (auto simp: shares_key_def list_ex_iff)

lemma fold_merge_apart:
  "sorted_wrt (\<lambda>p q. \<not> shares_key lower p q) (qs @ ps) \<Longrightarrow> fold (merge_into lower) ps qs = qs @ ps"
proof (induction ps arbitrary: qs)
  case (Cons p ps)
  have "\<forall>q \<in> set qs. \<not> shares_key lower p q"
    using Cons.prems by (auto simp: sorted_wrt_append shares_key_sym)
  then show ?case using Cons.IH [of "qs @ [p]"] Cons.prems by (simp add: merge_into_apart)
qed simp

section \<open>One more observation\<close>

text \<open>
  The entry that an entry \<open>q\<close> and an observation \<open>p\<close> become: the name, the kind, the connection and
  whatever else is known only once are those of \<open>q\<close>; \<open>p\<close> fills what \<open>q\<close> does not know. Driver and PDF
  support are those of \<open>q\<close> when \<open>q\<close> reports capabilities at all.
\<close>

definition earlier :: "'a option \<Rightarrow> 'a option \<Rightarrow> 'a option" where
  "earlier a b = (if a = None then b else a)"

definition joined_fingerprint :: "PrinterFingerprint \<Rightarrow> PrinterFingerprint \<Rightarrow> PrinterFingerprint" where
  "joined_fingerprint f g = \<lparr>fp_queue_name = earlier (fp_queue_name f) (fp_queue_name g),
     fp_driver_name = earlier (fp_driver_name f) (fp_driver_name g),
     fp_device_uri = earlier (fp_device_uri f) (fp_device_uri g), fp_host = earlier (fp_host f) (fp_host g),
     fp_port = earlier (fp_port f) (fp_port g), fp_usb_vendor_id = earlier (fp_usb_vendor_id f) (fp_usb_vendor_id g),
     fp_usb_product_id = earlier (fp_usb_product_id f) (fp_usb_product_id g),
     fp_serial_number = earlier (fp_serial_number f) (fp_serial_number g),
     fp_mac_address = earlier (fp_mac_address f) (fp_mac_address g)\<rparr>"

definition joined_capabilities ::
  "PrinterCapabilities option \<Rightarrow> PrinterCapabilities option \<Rightarrow> PrinterCapabilities option \<Rightarrow> bool" where
  "joined_capabilities a b c \<longleftrightarrow> (case (a, b) of
     (Some x, Some y) \<Rightarrow> (\<exists>z. c = Some z \<and>
       set (pc_receipt_widths_mm z) = set (pc_receipt_widths_mm x) \<union> set (pc_receipt_widths_mm y) \<and>
       pc_esc_pos z = (pc_esc_pos x \<or> pc_esc_pos y) \<and> pc_raster z = (pc_raster x \<or> pc_raster y) \<and>
       pc_cut z = (pc_cut x \<or> pc_cut y) \<and> pc_qr_code z = (pc_qr_code x \<or> pc_qr_code y) \<and>
       pc_barcode z = (pc_barcode x \<or> pc_barcode y) \<and> pc_cancellation z = (pc_cancellation x \<or> pc_cancellation y) \<and>
       pc_system_driver z = pc_system_driver x \<and> pc_pdf z = pc_pdf x)
   | _ \<Rightarrow> c = earlier a b)"

definition joined :: "DiscoveredPrinter \<Rightarrow> DiscoveredPrinter \<Rightarrow> DiscoveredPrinter \<Rightarrow> bool" where
  "joined q p r \<longleftrightarrow> same_printer q r \<and> dp_id r = earlier (dp_id q) (dp_id p) \<and>
     dp_fingerprint r = joined_fingerprint (dp_fingerprint q) (dp_fingerprint p) \<and>
     provider_keys r = provider_keys q \<union> provider_keys p \<and>
     availability_rank (dp_availability r) = max (availability_rank (dp_availability q)) (availability_rank (dp_availability p)) \<and>
     joined_capabilities (dp_capabilities q) (dp_capabilities p) (dp_capabilities r)"

lemma merge_joins: "joined q p (merge_observation q p)"
proof -
  have "dp_fingerprint (merge_observation q p) = joined_fingerprint (dp_fingerprint q) (dp_fingerprint p)"
    by (simp add: merge_observation_def merge_missing_def merge_option_def joined_fingerprint_def earlier_def
        split: option.split)
  moreover have "joined_capabilities (dp_capabilities q) (dp_capabilities p) (dp_capabilities (merge_observation q p))"
    by (auto simp: joined_capabilities_def merge_observation_def merge_capabilities_def earlier_def split: option.split)
  moreover have "dp_id (merge_observation q p) = earlier (dp_id q) (dp_id p)"
    "availability_rank (dp_availability (merge_observation q p)) =
      max (availability_rank (dp_availability q)) (availability_rank (dp_availability p))"
    by (simp_all add: merge_observation_def earlier_def)
  ultimately show ?thesis by (simp add: joined_def)
qed

lemma merge_into_one:
  assumes "\<exists>q \<in> set qs. shares_key lower p q"
  shows "\<exists>q. q \<in> set qs \<and> shares_key lower p q \<and>
    mset (merge_into lower p qs) = add_mset (merge_observation q p) (mset qs - {#q#})"
  using assms
proof (induction qs)
  case (Cons a qs)
  show ?case
  proof (cases "shares_key lower p a")
    case False
    then obtain q where q: "q \<in> set qs" "shares_key lower p q"
      "mset (merge_into lower p qs) = add_mset (merge_observation q p) (mset qs - {#q#})" using Cons by auto
    then have "q \<noteq> a" using False by auto
    then show ?thesis using False q by (intro exI [of _ q]) simp
  qed auto
qed simp

text \<open>What an observation that arrives last does to the entries made of those before it.\<close>

definition accounts_for :: "(ustring \<Rightarrow> ustring) \<Rightarrow> DiscoveredPrinter \<Rightarrow> DiscoveredPrinter list \<Rightarrow> DiscoveredPrinter list \<Rightarrow> bool" where
  "accounts_for lower p before after \<longleftrightarrow>
     (if list_ex (shares_key lower p) before
      then \<exists>q r. q \<in> set before \<and> shares_key lower p q \<and> joined q p r \<and> mset after = add_mset r (mset before - {#q#})
      else mset after = add_mset p (mset before))"

lemma merge_accounts: "accounts_for lower p qs (merge_into lower p qs)"
proof (cases "list_ex (shares_key lower p) qs")
  case True
  then obtain q where "q \<in> set qs" "shares_key lower p q"
      "mset (merge_into lower p qs) = add_mset (merge_observation q p) (mset qs - {#q#})"
    using merge_into_one [of qs lower p] by (auto simp: list_ex_iff)
  then show ?thesis using True merge_joins by (auto simp: accounts_for_def)
next
  case False
  then show ?thesis by (simp add: accounts_for_def merge_into_apart list_ex_iff)
qed

lemma accounts_mset:
  "mset before' = mset before \<Longrightarrow> mset after' = mset after \<Longrightarrow> accounts_for lower p before' after' = accounts_for lower p before after"
  using mset_eq_setD [of before' before] by (simp add: accounts_for_def list_ex_iff)

lemma deduplicate_mset: "mset (deduplicate lower ps) = mset (fold (merge_into lower) ps [])"
  by (simp add: deduplicate_def sort_inventory_def)

lemma deduplicate_snoc: "accounts_for lower p (deduplicate lower ps) (deduplicate lower (ps @ [p]))"
  using merge_accounts [of lower p "fold (merge_into lower) ps []"]
    accounts_mset [OF deduplicate_mset deduplicate_mset] by simp

section \<open>Valid observations\<close>

abbreviation valid_observation :: "DiscoveredPrinter \<Rightarrow> bool" where
  "valid_observation p \<equiv> DiscoveredPrinter_validate p = Ok ()"

lemma valid_observation_iff:
  "valid_observation p \<longleftrightarrow> validate_text (lit ''printer name'') (dp_name p) MAX_PRINTER_NAME_BYTES = Ok () \<and>
     PrinterConnection_validate (dp_connection p) = Ok () \<and> dp_providers p \<noteq> [] \<and>
     (\<forall>q \<in> set (dp_providers p). validate_text (lit ''provider name'') (prov_provider q) 64 = Ok ())"
  by (auto simp: DiscoveredPrinter_validate_def first_err_Ok)

lemma normalize_printer_valid: "normalize_printer p = Ok q \<Longrightarrow> valid_observation q"
  by (auto simp: normalize_printer_def Let_def and_then_Ok)

lemma merge_observation_valid:
  assumes "valid_observation d" "valid_observation s"
  shows "valid_observation (merge_observation d s)"
proof -
  have "dp_providers (merge_observation d s) \<noteq> []"
    using assms(1) provider_keys_merge [of d s] by (auto simp: valid_observation_iff provider_keys_def)
  moreover have "set (dp_providers (merge_observation d s)) \<subseteq> set (dp_providers d) \<union> set (dp_providers s)"
    using append_providers_subset by (simp add: merge_observation_def)
  ultimately show ?thesis using assms by (auto simp: valid_observation_iff merge_observation_def)
qed

lemma merge_into_valid:
  "valid_observation p \<Longrightarrow> \<forall>q \<in> set qs. valid_observation q \<Longrightarrow>
     \<forall>q \<in> set (merge_into lower p qs). valid_observation q"
  by (induction qs) (auto simp: merge_observation_valid)

lemma fold_merge_valid:
  "\<forall>q \<in> set qs \<union> set ps. valid_observation q \<Longrightarrow>
     \<forall>q \<in> set (fold (merge_into lower) ps qs). valid_observation q"
proof (induction ps arbitrary: qs)
  case (Cons p ps)
  then have "\<forall>q \<in> set (merge_into lower p qs). valid_observation q"
    by (intro merge_into_valid) simp_all
  then have "\<forall>q \<in> set (merge_into lower p qs) \<union> set ps. valid_observation q"
    using Cons.prems by auto
  then show ?case using Cons.IH by simp
qed simp

section \<open>Changes\<close>

text \<open>What a listener does with a change: it keeps the inventory under the keys of the printers.\<close>

fun apply_change :: "(ustring \<Rightarrow> ustring) \<Rightarrow> InventoryChange \<Rightarrow> inventory \<Rightarrow> inventory" where
  "apply_change lower (Added p) m = btree_insert (inventory_key lower p) p m"
| "apply_change lower (Updated old p) m = btree_insert (inventory_key lower p) p m"
| "apply_change lower (Removed p) m = btree_remove (inventory_key lower p) m"

definition keyed :: "(ustring \<Rightarrow> ustring) \<Rightarrow> inventory \<Rightarrow> bool" where
  "keyed lower m \<longleftrightarrow> btree_ok m \<and> (\<forall>(k, p) \<in> set m. k = inventory_key lower p)"

lemma keyed_collected [simp]: "keyed lower (keyed_inventory lower ps)"
proof -
  have ok: "btree_ok (keyed_inventory lower ps)"
    unfolding keyed_inventory_def btree_collect_eq by (rule btree.collect_wf) (simp add: btree.wf_vacant)
  moreover have "k = inventory_key lower p" if "(k, p) \<in> set (keyed_inventory lower ps)" for k p
  proof -
    have "map_of (keyed_inventory lower ps) k = Some p" using that ok btree_lookup_iff by metis
    then have "(k, p) \<in> set (map (\<lambda>p. (inventory_key lower p, p)) ps)"
      unfolding keyed_inventory_def btree_collect_eq by (rule btree.collect_member)
    then show ?thesis by auto
  qed
  ultimately show ?thesis by (auto simp: keyed_def)
qed

lemma changes_nil [simp]: "btree_ok m \<Longrightarrow> inventory_changes m m = []"
  by (auto simp: inventory_changes_def concat_eq_Nil_conv dest: btree_entry)

lemma apply_updates:
  assumes "\<forall>(k, p) \<in> set entries. k = inventory_key lower p"
  shows "fold (apply_change lower) (concat (map (\<lambda>(key, p). case map_of previous key of
        None \<Rightarrow> [Added p] | Some old \<Rightarrow> if old \<noteq> p then [Updated old p] else []) entries)) m =
     btree.collect (filter (\<lambda>(k, p). map_of previous k \<noteq> Some p) entries) m"
  using assms
proof (induction entries arbitrary: m)
  case (Cons e entries)
  then show ?case
    by (cases e; cases "map_of previous (fst e)") (auto simp: btree.collect_def)
qed (simp add: btree.collect_def)

lemma apply_removals:
  assumes "\<forall>(k, p) \<in> set entries. k = inventory_key lower p" "btree_ok m"
  shows "btree_ok (fold (apply_change lower) (concat (map (\<lambda>(key, p).
        if map_of current key = None then [Removed p] else []) entries)) m) \<and>
     map_of (fold (apply_change lower) (concat (map (\<lambda>(key, p).
        if map_of current key = None then [Removed p] else []) entries)) m) =
     map_of m |` {k. \<not> (k \<in> fst ` set entries \<and> map_of current k = None)}"
  using assms
proof (induction entries arbitrary: m)
  case (Cons e entries)
  obtain k p where e: "e = (k, p)" by force
  show ?case
  proof (cases "map_of current k")
    case None
    have "btree_ok (btree_remove k m)" using Cons.prems btree_remove_ok by blast
    with None Cons show ?thesis
      by (auto simp: e btree_remove_lookup restrict_map_def fun_eq_iff)
  next
    case (Some v)
    with Cons show ?thesis by (auto simp: e restrict_map_def fun_eq_iff)
  qed
qed (simp add: restrict_map_def)

lemma apply_changes:
  assumes "keyed lower previous" "keyed lower current"
  shows "fold (apply_change lower) (inventory_changes previous current) previous = current"
proof -
  define changed where "changed = filter (\<lambda>(k, p). map_of previous k \<noteq> Some p) current"
  define middle where "middle = btree.collect changed previous"
  have okp: "btree_ok previous" and okc: "btree_ok current" using assms by (simp_all add: keyed_def)
  have okm: "btree_ok middle" unfolding middle_def by (rule btree.collect_wf [OF okp])
  have dist: "distinct (map fst changed)"
    unfolding changed_def by (rule distinct_map_filter_key [OF btree_ok_distinct [OF okc]])
  have changed_lookup: "map_of changed k = (case map_of current k of None \<Rightarrow> None
      | Some p \<Rightarrow> if map_of previous k = Some p then None else Some p)" for k
  proof (cases "map_of changed k")
    case None
    then have "map_of previous k = Some p" if "map_of current k = Some p" for p
      using map_of_SomeD [OF that] by (auto simp: changed_def map_of_eq_None_iff image_iff)
    then show ?thesis using None by (auto split: option.splits)
  next
    case (Some p)
    then have "(k, p) \<in> set current" "map_of previous k \<noteq> Some p"
      by (auto simp: changed_def dest: map_of_SomeD)
    then show ?thesis using Some btree_entry [of k p current] okc by simp
  qed
  have "map_of middle = map_of previous ++ map_of changed"
    using dist by (simp add: middle_def btree.collect_lookup [OF okp] map_of_rev_distinct)
  then have middle_lookup: "map_of middle k =
      (case map_of changed k of None \<Rightarrow> map_of previous k | Some p \<Rightarrow> Some p)" for k
    by (simp add: map_add_def)
  have res: "map_of middle |` {k. \<not> (k \<in> fst ` set previous \<and> map_of current k = None)} = map_of current"
  proof
    fix k
    have "k \<in> fst ` set previous \<longleftrightarrow> map_of previous k \<noteq> None" by (simp add: map_of_eq_None_iff)
    then show "(map_of middle |` {k. \<not> (k \<in> fst ` set previous \<and> map_of current k = None)}) k =
        map_of current k"
      by (cases "map_of current k")
         (auto simp: restrict_map_def middle_lookup changed_lookup split: option.splits)
  qed
  let ?final = "fold (apply_change lower) (concat (map (\<lambda>(key, p).
        if map_of current key = None then [Removed p] else []) previous)) middle"
  have "fold (apply_change lower) (inventory_changes previous current) previous = ?final"
    using assms(2) by (simp add: inventory_changes_def apply_updates keyed_def middle_def changed_def)
  moreover have "btree_ok ?final" "map_of ?final = map_of current"
    using apply_removals [of previous lower middle current, unfolded res] assms(1) okm
    unfolding keyed_def by blast+
  ultimately show ?thesis using btree_ext [OF _ okc] by simp
qed

section \<open>Passes\<close>

inductive discovery_reachable :: "(ustring \<Rightarrow> ustring) \<Rightarrow> nat \<Rightarrow> DiscoveryManager \<Rightarrow> bool"
  for lower :: "ustring \<Rightarrow> ustring" and deadline :: nat where
  discovery_new: "discovery_reachable lower deadline (DiscoveryManager_new deadline)"
| discovery_pass: "discovery_reachable lower deadline m \<Longrightarrow>
    discovery_reachable lower deadline (snd (discover_pass lower answers m))"

lemma discover_pass_previous:
  "dm_previous (snd (discover_pass lower answers m)) = keyed_inventory lower (ds_printers (fst (discover_pass lower answers m)))"
  by (simp add: discover_pass_def Let_def)

lemma discover_pass_changes:
  "ds_changes (fst (discover_pass lower answers m)) =
     inventory_changes (dm_previous m) (dm_previous (snd (discover_pass lower answers m)))"
  by (simp add: discover_pass_def Let_def)

lemma discovery_reachable_keyed:
  "discovery_reachable lower deadline m \<Longrightarrow> keyed lower (dm_previous m)"
proof (induction rule: discovery_reachable.induct)
  case discovery_new
  then show ?case by (simp add: DiscoveryManager_new_def keyed_def btree_ok_def)
qed (simp add: discover_pass_previous)

text \<open>A provider that answered.\<close>

definition healthy :: "provider_answer \<Rightarrow> bool" where
  "healthy a \<longleftrightarrow> (case snd a of Some (Inr _) \<Rightarrow> True | _ \<Rightarrow> False)"

lemma answered_healthy:
  "concat (map answered_printers answers) = concat (map answered_printers (filter healthy answers))"
  by (induction answers) (auto simp: answered_printers_def healthy_def split: option.splits sum.splits)

lemma answer_failure_filter:
  "concat (map (answer_failure d) (filter healthy answers)) = []"
  by (induction answers) (auto simp: answer_failure_def healthy_def split: option.splits sum.splits)

lemma answer_failure_names:
  "map pf_provider (concat (map (answer_failure d) answers)) = map fst (filter (\<lambda>a. \<not> healthy a) answers)"
  by (induction answers) (auto simp: answer_failure_def healthy_def split: option.splits sum.splits)

end
