(* ===== verification/Discovery_Providers.thy ===== *)
theory Discovery_Providers
  imports Discovery Std_Library
begin

text \<open>
  The discovery providers (\<open>crates/oppa-discovery/src/providers.rs\<close> and \<open>cups.rs\<close>): the parsers
  of the platform commands, the manual network printers, the virtual printers, and the system
  queue provider on top of the result of its commands. Running a command and opening a socket are
  the environment; a command is what it ended with.
\<close>

section \<open>CUPS options\<close>

record CupsQueueOptions =
  cups_paper_sizes :: "StandardPaper list"
  cups_custom_paper :: bool
  cups_duplex :: bool

definition CupsQueueOptions_default :: CupsQueueOptions where
  "CupsQueueOptions_default = \<lparr>cups_paper_sizes = [], cups_custom_paper = False, cups_duplex = False\<rparr>"

definition pdf_capabilities :: "CupsQueueOptions \<Rightarrow> PdfCapabilities" where
  "pdf_capabilities options = \<lparr>pdf_native = True, pdf_duplex = cups_duplex options,
     pdf_custom_paper = cups_custom_paper options, pdf_paper_sizes = cups_paper_sizes options\<rparr>"

definition standard_paper :: "ustring \<Rightarrow> StandardPaper option" where
  "standard_paper token = (let t = to_ascii_lowercase token in
     if t = lit ''a4'' \<or> t = lit ''iso_a4_210x297mm'' then Some PaperA4
     else if t = lit ''a5'' \<or> t = lit ''iso_a5_148x210mm'' then Some PaperA5
     else if t = lit ''letter'' \<or> t = lit ''na_letter_8.5x11in'' then Some PaperLetter
     else if t = lit ''legal'' \<or> t = lit ''na_legal_8.5x14in'' then Some PaperLegal
     else None)"

definition cups_media_token :: "ustring \<Rightarrow> CupsQueueOptions \<Rightarrow> CupsQueueOptions" where
  "cups_media_token token options = (case standard_paper token of
     Some paper \<Rightarrow>
       if paper \<in> set (cups_paper_sizes options) then options
       else options\<lparr>cups_paper_sizes := cups_paper_sizes options @ [paper]\<rparr>
   | None \<Rightarrow>
       if prefix (lit ''custom'') (to_ascii_lowercase token)
       then options\<lparr>cups_custom_paper := True\<rparr> else options)"

definition cups_duplex_token :: "ustring \<Rightarrow> bool" where
  "cups_duplex_token token = (let t = to_ascii_lowercase token in
     prefix (lit ''duplex'') t \<or> prefix (lit ''two-sided'') t)"

definition cups_option_line :: "ustring \<Rightarrow> CupsQueueOptions \<Rightarrow> CupsQueueOptions" where
  "cups_option_line line options = (case split_once 58 line of
     None \<Rightarrow> options
   | Some (raw_key, values) \<Rightarrow>
       let key = to_ascii_lowercase (trim raw_key);
           tokens = map (trim_start_char 42) (split_whitespace values) in
       if prefix (lit ''pagesize'') key \<or> prefix (lit ''media/'') key \<or> key = lit ''media''
       then fold cups_media_token tokens options
       else if str_contains key (lit ''duplex'') \<or> prefix (lit ''sides'') key
       then options\<lparr>cups_duplex := cups_duplex options \<or> list_ex cups_duplex_token tokens\<rparr>
       else options)"

fun paper_rank :: "StandardPaper \<Rightarrow> nat" where
  "paper_rank PaperA4 = 0"
| "paper_rank PaperA5 = 1"
| "paper_rank PaperLetter = 2"
| "paper_rank PaperLegal = 3"

definition parse_cups_options :: "ustring \<Rightarrow> CupsQueueOptions" where
  "parse_cups_options content =
     (let options = fold cups_option_line (str_lines content) CupsQueueOptions_default in
      options\<lparr>cups_paper_sizes := sort_key paper_rank (cups_paper_sizes options)\<rparr>)"

definition query_cups_options ::
  "text_lib \<Rightarrow> nat \<Rightarrow> command_result \<Rightarrow> DiscoveryError + CupsQueueOptions" where
  "query_cups_options L deadline result = (case result of
     CommandElapsed \<Rightarrow> Err (ProviderTimeout deadline)
   | CommandNotStarted e \<Rightarrow> Err (ProviderUnavailable (lit ''cannot run lpoptions: '' @ e))
   | CommandFinished out \<Rightarrow>
       if \<not> co_success out
       then Err (ProviderUnavailable (lit ''lpoptions exited with '' @ co_status out))
       else (case utf8_decode (co_stdout out) of
           None \<Rightarrow> Err (ProviderInvalidData (lit ''lpoptions returned non-UTF-8 output: '' @
             tl_utf8_error L (co_stdout out)))
         | Some content \<Rightarrow> Ok (parse_cups_options content)))"

section \<open>Capabilities\<close>

definition receipt_capabilities :: PrinterCapabilities where
  "receipt_capabilities = \<lparr>pc_receipt_widths_mm = [58, 80], pc_esc_pos = True,
     pc_system_driver = False, pc_raster = True, pc_cut = True, pc_qr_code = True,
     pc_barcode = True, pc_cancellation = True, pc_pdf = None\<rparr>"

definition system_driver_capabilities :: PrinterCapabilities where
  "system_driver_capabilities = \<lparr>pc_receipt_widths_mm = [58, 80], pc_esc_pos = False,
     pc_system_driver = True, pc_raster = True, pc_cut = False, pc_qr_code = True,
     pc_barcode = True, pc_cancellation = True, pc_pdf = None\<rparr>"

definition windows_queue_capabilities :: PrinterCapabilities where
  "windows_queue_capabilities = system_driver_capabilities\<lparr>pc_pdf := Some \<lparr>pdf_native = False,
     pdf_duplex = False, pdf_custom_paper = True,
     pdf_paper_sizes = [PaperA4, PaperA5, PaperLetter, PaperLegal]\<rparr>\<rparr>"

definition PrinterFingerprint_default :: PrinterFingerprint where
  "PrinterFingerprint_default = \<lparr>fp_queue_name = None, fp_driver_name = None, fp_device_uri = None,
     fp_host = None, fp_port = None, fp_usb_vendor_id = None, fp_usb_product_id = None,
     fp_serial_number = None, fp_mac_address = None\<rparr>"

section \<open>Manual network printers\<close>

record ManualNetworkPrinter =
  mn_id :: PrinterId
  mn_name :: ustring
  mn_host :: ustring
  mn_port :: "16 word"

definition manual_network :: ustring where
  "manual_network = lit ''manual-network''"

text \<open>\<open>connects host port\<close>: a connection was established within the probe timeout.\<close>

definition probe_network_printer ::
  "(ustring \<Rightarrow> 16 word \<Rightarrow> bool) \<Rightarrow> ustring \<Rightarrow> 16 word \<Rightarrow> PrinterAvailability" where
  "probe_network_printer connects host port = (if connects host port then Online else Offline)"

definition manual_observation ::
  "(ustring \<Rightarrow> 16 word \<Rightarrow> bool) \<Rightarrow> ManualNetworkPrinter \<Rightarrow> DiscoveryError + DiscoveredPrinter" where
  "manual_observation connects p =
     (let observation = \<lparr>dp_id = Some (mn_id p), dp_name = mn_name p, dp_kind = PurposeReceipt,
        dp_connection = Network (mn_host p) (mn_port p),
        dp_fingerprint = PrinterFingerprint_default
          \<lparr>fp_host := Some (mn_host p), fp_port := Some (mn_port p)\<rparr>,
        dp_availability = probe_network_printer connects (mn_host p) (mn_port p),
        dp_capabilities = Some receipt_capabilities,
        dp_providers = [\<lparr>prov_provider = manual_network, prov_provider_id = Some (mn_id p),
          prov_attributes = []\<rparr>]\<rparr> in
      and_then (map_err (\<lambda>e. ProviderInvalidData (printer_error_message e))
        (DiscoveredPrinter_validate observation)) (\<lambda>_. Ok observation))"

text \<open>\<open>collect\<close> of results: all values, or the first error.\<close>

fun collect_results :: "('e + 'a) list \<Rightarrow> 'e + 'a list" where
  "collect_results [] = Ok []"
| "collect_results (Inl e # rs) = Err e"
| "collect_results (Inr a # rs) = and_then (collect_results rs) (\<lambda>as. Ok (a # as))"

definition ManualNetworkProvider_discover ::
  "(ustring \<Rightarrow> 16 word \<Rightarrow> bool) \<Rightarrow> ManualNetworkPrinter list \<Rightarrow> DiscoveryError + DiscoveredPrinter list" where
  "ManualNetworkProvider_discover connects ps = collect_results (map (manual_observation connects) ps)"

section \<open>Virtual printers\<close>

record VirtualPrinterDefinition =
  vpd_id :: PrinterId
  vpd_name :: ustring
  vpd_availability :: PrinterAvailability

definition virtual_observation :: "VirtualPrinterDefinition \<Rightarrow> DiscoveredPrinter" where
  "virtual_observation p = \<lparr>dp_id = Some (vpd_id p), dp_name = vpd_name p, dp_kind = PurposeVirtual,
     dp_connection = Virtual (vpd_id p), dp_fingerprint = PrinterFingerprint_default,
     dp_availability = vpd_availability p, dp_capabilities = Some receipt_capabilities,
     dp_providers = [\<lparr>prov_provider = lit ''virtual'', prov_provider_id = Some (vpd_id p),
       prov_attributes = []\<rparr>]\<rparr>"

definition VirtualPrinterProvider_discover ::
  "VirtualPrinterDefinition list \<Rightarrow> DiscoveryError + DiscoveredPrinter list" where
  "VirtualPrinterProvider_discover ps = Ok (map virtual_observation ps)"

section \<open>\<open>lpstat\<close>\<close>

record LpstatQueue =
  lq_seen :: bool
  lq_offline :: bool
  lq_ready :: bool
  lq_uri :: "ustring option"

definition LpstatQueue_default :: LpstatQueue where
  "LpstatQueue_default = \<lparr>lq_seen = False, lq_offline = False, lq_ready = False, lq_uri = None\<rparr>"

definition lpstat_status :: "ustring \<Rightarrow> LpstatQueue \<Rightarrow> LpstatQueue" where
  "lpstat_status raw_status queue =
     (let status = to_ascii_lowercase raw_status;
          offline = str_contains status (lit ''disabled'') \<or> str_contains status (lit ''offline'') in
      queue\<lparr>lq_seen := True, lq_offline := offline,
        lq_ready := \<not> offline \<and> (str_contains status (lit ''idle'') \<or>
          str_contains status (lit ''printing'') \<or> str_contains status (lit ''processing'') \<or>
          str_contains status (lit ''enabled''))\<rparr>)"

type_synonym lpstat_queues = "(ustring, LpstatQueue) btree"

definition lpstat_printer_line :: "ustring \<Rightarrow> (ustring \<times> ustring) option" where
  "lpstat_printer_line line = (case strip_prefix (lit ''printer '') line of
     None \<Rightarrow> None | Some rest \<Rightarrow> split_once 32 rest)"

definition lpstat_device_line :: "ustring \<Rightarrow> (ustring \<times> ustring) option" where
  "lpstat_device_line line = (case strip_prefix (lit ''device for '') line of
     None \<Rightarrow> None | Some rest \<Rightarrow> split_once 58 rest)"

definition lpstat_line :: "ustring \<Rightarrow> lpstat_queues \<Rightarrow> lpstat_queues" where
  "lpstat_line raw_line queues =
     (let line = trim raw_line in
      case lpstat_printer_line line of
        Some (name, status) \<Rightarrow> btree_update name LpstatQueue_default (lpstat_status status) queues
      | None \<Rightarrow> (case lpstat_device_line line of
          Some (name, uri) \<Rightarrow>
            if trim name \<noteq> [] \<and> trim uri \<noteq> []
            then btree_update (trim name) LpstatQueue_default (\<lambda>q. q\<lparr>lq_uri := Some (trim uri)\<rparr>) queues
            else queues
        | None \<Rightarrow> queues))"

definition lpstat_observation :: "ustring \<times> LpstatQueue \<Rightarrow> DiscoveredPrinter" where
  "lpstat_observation e = (case e of (name, queue) \<Rightarrow>
     \<lparr>dp_id = None, dp_name = name, dp_kind = PurposeUnknown, dp_connection = SystemQueue name,
      dp_fingerprint = PrinterFingerprint_default
        \<lparr>fp_queue_name := Some name, fp_device_uri := lq_uri queue\<rparr>,
      dp_availability = (if lq_offline queue then Offline
        else if lq_ready queue then Online else UnknownAvailability),
      dp_capabilities = Some system_driver_capabilities,
      dp_providers = [\<lparr>prov_provider = lit ''system-queue'', prov_provider_id = Some name,
        prov_attributes = (case lq_uri queue of None \<Rightarrow> [] | Some uri \<Rightarrow> [(lit ''deviceUri'', uri)])\<rparr>]\<rparr>)"

definition parse_lpstat :: "ustring \<Rightarrow> DiscoveredPrinter list" where
  "parse_lpstat content = map lpstat_observation
     (filter (\<lambda>(_, queue). lq_seen queue \<or> lq_uri queue \<noteq> None) (fold lpstat_line (str_lines content) []))"

section \<open>\<open>Get-Printer\<close>\<close>

definition windows_availability :: "ustring \<Rightarrow> ustring \<Rightarrow> PrinterAvailability" where
  "windows_availability raw_status work_offline =
     (if to_ascii_lowercase work_offline = lit ''true'' then Offline
      else let status = to_ascii_lowercase raw_status in
        if str_contains status (lit ''offline'') \<or> str_contains status (lit ''not available'') then Offline
        else if status = [] \<or> status = lit ''unknown'' then UnknownAvailability
        else if str_contains status (lit ''normal'') \<or> str_contains status (lit ''idle'') \<or>
          str_contains status (lit ''printing'') then Online
        else DegradedAvailability)"

definition windows_observation :: "nat \<times> ustring \<Rightarrow> DiscoveryError + DiscoveredPrinter" where
  "windows_observation indexed = (case indexed of (index, line) \<Rightarrow>
     let fs = map trim (split_on (\<lambda>c. c = 9) line) in
     if length fs \<noteq> 5 \<or> fs ! 0 = []
     then Err (ProviderInvalidData (lit ''malformed Windows printer record on line '' @ dec (index + 1)))
     else Ok \<lparr>dp_id = None, dp_name = fs ! 0, dp_kind = PurposeUnknown, dp_connection = SystemQueue (fs ! 0),
       dp_fingerprint = PrinterFingerprint_default\<lparr>fp_queue_name := Some (fs ! 0),
         fp_driver_name := Some (fs ! 1), fp_device_uri := Some (fs ! 2)\<rparr>,
       dp_availability = windows_availability (fs ! 3) (fs ! 4),
       dp_capabilities = Some windows_queue_capabilities,
       dp_providers = [\<lparr>prov_provider = lit ''system-queue'', prov_provider_id = Some (fs ! 0),
         prov_attributes = [(lit ''driverName'', fs ! 1), (lit ''portName'', fs ! 2),
           (lit ''printerStatus'', fs ! 3)]\<rparr>]\<rparr>)"

definition parse_windows_printers :: "ustring \<Rightarrow> DiscoveryError + DiscoveredPrinter list" where
  "parse_windows_printers content =
     collect_results (map windows_observation (enumerate 0 (str_lines content)))"

section \<open>System queues\<close>

definition parse_platform_queues :: "HostPlatform \<Rightarrow> ustring \<Rightarrow> DiscoveryError + DiscoveredPrinter list" where
  "parse_platform_queues host content = (case host of
     UnixHost \<Rightarrow> Ok (parse_lpstat content)
   | WindowsHost \<Rightarrow> parse_windows_printers content
   | OtherHost \<Rightarrow> Err (ProviderUnavailable (lit ''system printer discovery is unsupported on this platform'')))"

definition describe_pdf_route ::
  "text_lib \<Rightarrow> nat \<Rightarrow> (ustring \<Rightarrow> command_result) \<Rightarrow> DiscoveredPrinter \<Rightarrow> DiscoveredPrinter" where
  "describe_pdf_route L deadline lpoptions p = (case dp_connection p of
     SystemQueue queue \<Rightarrow>
       let options = (case query_cups_options L deadline (lpoptions queue) of
          Inr o' \<Rightarrow> o' | Inl _ \<Rightarrow> CupsQueueOptions_default) in
       p\<lparr>dp_capabilities := map_option (\<lambda>c. c\<lparr>pc_pdf := Some (pdf_capabilities options)\<rparr>) (dp_capabilities p)\<rparr>
   | _ \<Rightarrow> p)"

definition describe_pdf_routes ::
  "HostPlatform \<Rightarrow> text_lib \<Rightarrow> nat \<Rightarrow> (ustring \<Rightarrow> command_result) \<Rightarrow>
     DiscoveredPrinter list \<Rightarrow> DiscoveredPrinter list" where
  "describe_pdf_routes host L deadline lpoptions ps =
     (if host = UnixHost then map (describe_pdf_route L deadline lpoptions) ps else ps)"

definition SystemQueueProvider_discover ::
  "HostPlatform \<Rightarrow> text_lib \<Rightarrow> nat \<Rightarrow> command_result \<Rightarrow> (ustring \<Rightarrow> command_result) \<Rightarrow>
     DiscoveryError + DiscoveredPrinter list" where
  "SystemQueueProvider_discover host L deadline result lpoptions = (case result of
     CommandElapsed \<Rightarrow> Err (ProviderTimeout deadline)
   | CommandNotStarted e \<Rightarrow> Err (ProviderUnavailable (lit ''cannot execute printer query: '' @ e))
   | CommandFinished out \<Rightarrow>
       if \<not> co_success out
       then Err (ProviderUnavailable (lit ''printer query exited with '' @ co_status out @ lit '': '' @
         trim (tl_utf8_lossy L (co_stderr out))))
       else (case utf8_decode (co_stdout out) of
           None \<Rightarrow> Err (ProviderInvalidData (lit ''printer query returned non-UTF-8 output: '' @
             tl_utf8_error L (co_stdout out)))
         | Some content \<Rightarrow> and_then (parse_platform_queues host content) (\<lambda>ps.
             Ok (describe_pdf_routes host L deadline lpoptions ps))))"

section \<open>Laws of the parsers\<close>

lemma lpstat_line_ok: "btree_ok qs \<Longrightarrow> btree_ok (lpstat_line line qs)"
  by (auto simp: lpstat_line_def Let_def btree_update_ok split: option.splits)

lemma fold_lpstat_ok: "btree_ok qs \<Longrightarrow> btree_ok (fold lpstat_line ls qs)"
  by (induction ls arbitrary: qs) (auto simp: lpstat_line_ok)

text \<open>A queue is one printer however many lines speak of it, in the order of the names.\<close>

lemma parse_lpstat_names: "sorted_wrt (<) (map dp_name (parse_lpstat content))"
proof -
  have "dp_name \<circ> lpstat_observation = fst" by (auto simp: lpstat_observation_def fun_eq_iff)
  then have "map dp_name (parse_lpstat content) = map fst
      (filter (\<lambda>(_, queue). lq_seen queue \<or> lq_uri queue \<noteq> None) (fold lpstat_line (str_lines content) []))"
    by (simp add: parse_lpstat_def)
  moreover have "btree_ok (fold lpstat_line (str_lines content) [])"
    by (rule fold_lpstat_ok) (simp add: btree_ok_def)
  ultimately show ?thesis by (simp add: btree_ok_def sorted_wrt_map sorted_wrt_filter)
qed

lemma cups_line_papers:
  "distinct (cups_paper_sizes os) \<Longrightarrow> distinct (cups_paper_sizes (cups_option_line line os))"
proof -
  have "distinct (cups_paper_sizes os) \<Longrightarrow> distinct (cups_paper_sizes (fold cups_media_token ts os))" for ts
    by (induction ts arbitrary: os) (auto simp: cups_media_token_def split: option.splits)
  then show "distinct (cups_paper_sizes os) \<Longrightarrow> distinct (cups_paper_sizes (cups_option_line line os))"
    by (auto simp: cups_option_line_def Let_def split: option.splits)
qed

lemma parse_cups_papers:
  "distinct (cups_paper_sizes (parse_cups_options content))"
  "sorted (map paper_rank (cups_paper_sizes (parse_cups_options content)))"
proof -
  have "distinct (cups_paper_sizes os) \<Longrightarrow> distinct (cups_paper_sizes (fold cups_option_line ls os))" for ls os
    by (induction ls arbitrary: os) (auto simp: cups_line_papers)
  then show "distinct (cups_paper_sizes (parse_cups_options content))"
    by (simp add: parse_cups_options_def Let_def CupsQueueOptions_default_def)
qed (simp add: parse_cups_options_def Let_def)

lemma collect_results_Ok:
  "collect_results rs = Ok as \<longleftrightarrow> rs = map Inr as"
  by (induction rs arbitrary: as rule: collect_results.induct) (auto simp: and_then_Ok)

end
