(* ===== verification/Discovery_Properties.thy ===== *)
theory Discovery_Properties
  imports Discovery_Laws Discovery_Providers "HOL-Library.Multiset"
begin

text \<open>
  Discovery as its clients see it: failures stay with their provider, merging keeps every
  observation, the changes of a pass are exactly the difference, and the order in which
  observations arrive decides what is merged.
\<close>

section \<open>Passes\<close>

definition sample_observation :: "ustring \<Rightarrow> ustring \<Rightarrow> ustring option \<Rightarrow> DiscoveredPrinter" where
  "sample_observation provider queue host = \<lparr>dp_id = None, dp_name = queue, dp_kind = PurposeReceipt,
     dp_connection = SystemQueue queue,
     dp_fingerprint = PrinterFingerprint_default\<lparr>fp_host := host\<rparr>,
     dp_availability = UnknownAvailability, dp_capabilities = None,
     dp_providers = [\<lparr>prov_provider = provider, prov_provider_id = Some queue, prov_attributes = []\<rparr>]\<rparr>"

lemma sample_normal:
  "normalize_printer (sample_observation (lit ''p'') (lit ''a'') h) =
     Ok (sample_observation (lit ''p'') (lit ''a'') (fp_host (normalize_fingerprint
       (PrinterFingerprint_default\<lparr>fp_host := h\<rparr>))))"
  by (simp add: sample_observation_def normalize_printer_def normalize_connection_def
      normalize_fingerprint_def trimmed_some_def PrinterFingerprint_default_def lit_def trim_def
      trim_start_def trim_end_def is_whitespace_def DiscoveredPrinter_validate_def
      PrinterConnection_validate_def validate_text_def utf8_len_def MAX_PRINTER_NAME_BYTES_def
      reject_if_def)

text \<open>A failing or late provider hides nothing: the printers, the changes and the next state are
  those of a pass over the providers that answered, and each of the others is reported once, in
  order, before the observations that did not pass validation.\<close>

theorem discovery_isolates_failures:
  "discover_pass lower answers m =
     (let (snapshot, m') = discover_pass lower (filter healthy answers) m in
      (snapshot\<lparr>ds_failures := concat (map (answer_failure (dm_provider_timeout m)) answers) @
         ds_failures snapshot\<rparr>, m')) \<and>
   map pf_provider (concat (map (answer_failure (dm_provider_timeout m)) answers)) =
     map fst (filter (\<lambda>a. \<not> healthy a) answers)"
  using answered_healthy [of answers]
  by (simp add: discover_pass_def Let_def answer_failure_filter answer_failure_names)

text \<open>C29: In every state a manager reaches, applying the reported changes to the previous inventory gives
  the current one, which is the reported printers under their keys, and a pass with the same answers
  reports no change.\<close>

theorem changes_reconstruct_inventory:
  assumes "discovery_reachable lower deadline m"
    and "discover_pass lower answers m = (snapshot, m')"
  shows "fold (apply_change lower) (ds_changes snapshot) (dm_previous m) = dm_previous m' \<and>
     dm_previous m' = keyed_inventory lower (ds_printers snapshot) \<and>
     ds_changes (fst (discover_pass lower answers m')) = []"
proof -
  have prev: "dm_previous m' = keyed_inventory lower (ds_printers snapshot)"
    using discover_pass_previous [of lower answers m] assms(2) by simp
  then have keyed: "keyed lower (dm_previous m')" by simp
  have "fold (apply_change lower) (ds_changes snapshot) (dm_previous m) = dm_previous m'"
    using apply_changes [OF discovery_reachable_keyed [OF assms(1)] keyed]
      discover_pass_changes [of lower answers m] assms(2) by simp
  moreover have "ds_changes (fst (discover_pass lower answers m')) = []"
    using assms(2) keyed by (auto simp: discover_pass_def Let_def keyed_def)
  ultimately show ?thesis using prev by simp
qed

definition sample_pass :: "DiscoverySnapshot \<times> DiscoveryManager" where
  "sample_pass = discover_pass to_ascii_lowercase
     [(lit ''p'', Some (Ok [sample_observation (lit ''p'') (lit ''a'') None]))] (DiscoveryManager_new 1)"

lemma changes_reconstruct_inventory_witness:
  "fold (apply_change to_ascii_lowercase) (ds_changes (fst sample_pass)) [] = dm_previous (snd sample_pass) \<and>
     ds_printers (fst sample_pass) = [sample_observation (lit ''p'') (lit ''a'') None]"
proof -
  have "discovery_reachable to_ascii_lowercase 1 (DiscoveryManager_new 1)" by (rule discovery_new)
  moreover have "discover_pass to_ascii_lowercase
     [(lit ''p'', Some (Ok [sample_observation (lit ''p'') (lit ''a'') None]))] (DiscoveryManager_new 1) =
     (fst sample_pass, snd sample_pass)" by (simp add: sample_pass_def)
  ultimately have "fold (apply_change to_ascii_lowercase) (ds_changes (fst sample_pass))
      (dm_previous (DiscoveryManager_new 1)) = dm_previous (snd sample_pass)"
    using changes_reconstruct_inventory by blast
  moreover have "normalized_printers (sample_observation (lit ''p'') (lit ''a'') None) =
      [sample_observation (lit ''p'') (lit ''a'') None]"
    by (simp add: normalized_printers_def sample_normal normalize_fingerprint_def trimmed_some_def
        PrinterFingerprint_default_def)
  ultimately show ?thesis
    by (simp add: DiscoveryManager_new_def sample_pass_def discover_pass_def Let_def
        answered_printers_def deduplicate_def sort_inventory_def)
qed

text \<open>C28: Merging loses no observation and makes none up. Each observation is represented by an entry that has its
  providers, at least its availability, its capabilities other than driver and PDF support, and some
  assigned identity if it had one; the providers of the result are exactly those observed; each entry
  has the name, kind and connection of an observation; and entries of valid observations are valid.
  What is merged is decided by the keys: the last observation, if it shares an identity key with an entry made of the others,
  is joined to one such entry, field by field, and changes nothing else; otherwise it is an entry of its
  own, exactly as it was.\<close>

theorem deduplication_represents:
  "(\<forall>p \<in> set ps. \<exists>q \<in> set (deduplicate lower ps). represented p q) \<and>
   (\<Union>q \<in> set (deduplicate lower ps). provider_keys q) = (\<Union>p \<in> set ps. provider_keys p) \<and>
   (\<forall>q \<in> set (deduplicate lower ps). \<exists>p \<in> set ps. same_printer p q) \<and>
   (\<forall>q \<in> set (deduplicate lower ps). (\<forall>p \<in> set ps. valid_observation p) \<longrightarrow> valid_observation q) \<and>
   (sorted_wrt (\<lambda>p q. \<not> common_key lower p q) ps \<longrightarrow> mset (deduplicate lower ps) = mset ps) \<and>
   (if list_ex (common_key lower p) (deduplicate lower ps)
    then \<exists>q r. q \<in> set (deduplicate lower ps) \<and> common_key lower p q \<and> joined q p r \<and>
      mset (deduplicate lower (ps @ [p])) = add_mset r (mset (deduplicate lower ps) - {#q#})
    else mset (deduplicate lower (ps @ [p])) = add_mset p (mset (deduplicate lower ps)))"
proof -
  have "(\<forall>p \<in> set ps. \<exists>q \<in> set (deduplicate lower ps). represented p q) \<and>
   (\<Union>q \<in> set (deduplicate lower ps). provider_keys q) = (\<Union>p \<in> set ps. provider_keys p) \<and>
   (\<forall>q \<in> set (deduplicate lower ps). \<exists>p \<in> set ps. same_printer p q) \<and>
   (\<forall>q \<in> set (deduplicate lower ps). (\<forall>p \<in> set ps. valid_observation p) \<longrightarrow> valid_observation q) \<and>
   (sorted_wrt (\<lambda>p q. \<not> shares_key lower p q) ps \<longrightarrow> mset (deduplicate lower ps) = mset ps)"
    using fold_merge_represents [of _ "[]" ps lower] fold_merge_keys [of lower ps "[]"]
      fold_merge_origin [of _ lower ps "[]"] fold_merge_valid [of "[]" ps lower]
      fold_merge_apart [of lower "[]" ps]
    by (auto simp: deduplicate_set deduplicate_mset)
  with deduplicate_snoc [of lower p ps] show ?thesis unfolding accounts_for_def shares_key_common by blast
qed

text \<open>Two providers that see the same queue.\<close>

lemma deduplication_represents_witness:
  "\<exists>r. deduplicate to_ascii_lowercase [sample_observation (lit ''p'') (lit ''a'') None,
       sample_observation (lit ''q'') (lit ''a'') None] = [r] \<and>
     provider_keys r = {(lit ''p'', Some (lit ''a'')), (lit ''q'', Some (lit ''a''))}"
proof -
  let ?p = "sample_observation (lit ''p'') (lit ''a'') None" and ?q = "sample_observation (lit ''q'') (lit ''a'') None"
  have one: "deduplicate to_ascii_lowercase [?p] = [?p]" by (simp add: deduplicate_def sort_inventory_def)
  have "shares_key to_ascii_lowercase ?q ?p"
    by (simp add: shares_key_def printer_identity_keys_def identity_keys_def normalized_def connection_keys_def
        sample_observation_def PrinterFingerprint_default_def btree_set_def)
  then have shares: "list_ex (common_key to_ascii_lowercase ?q) (deduplicate to_ascii_lowercase [?p])" by (simp add: one shares_key_common)
  obtain q r where "q \<in> set (deduplicate to_ascii_lowercase [?p])" "joined q ?q r"
      "mset (deduplicate to_ascii_lowercase ([?p] @ [?q])) = add_mset r (mset (deduplicate to_ascii_lowercase [?p]) - {#q#})"
    using deduplication_represents [of "[?p]" to_ascii_lowercase ?q] shares by (simp only: if_True) blast
  then have r: "joined ?p ?q r" "mset (deduplicate to_ascii_lowercase [?p, ?q]) = {#r#}" by (auto simp: one)
  from r(1) have "provider_keys r = {(lit ''p'', Some (lit ''a'')), (lit ''q'', Some (lit ''a''))}"
    by (auto simp: joined_def provider_keys_def provider_key_def sample_observation_def)
  with r(2) show ?thesis by auto
qed

section \<open>The order of the observations\<close>

definition first_queue :: DiscoveredPrinter where
  "first_queue = sample_observation (lit ''p'') (lit ''a'') None"

definition second_queue :: DiscoveredPrinter where
  "second_queue = sample_observation (lit ''p'') (lit ''b'') (Some (lit ''h''))"

definition bridging_queue :: DiscoveredPrinter where
  "bridging_queue = sample_observation (lit ''q'') (lit ''a'') (Some (lit ''h''))"

lemmas observation_evaluation = first_queue_def second_queue_def bridging_queue_def
  sample_observation_def PrinterFingerprint_default_def printer_identity_keys_def identity_keys_def
  normalized_def connection_keys_def btree_set_def trim_def trim_start_def trim_end_def
  is_whitespace_def to_ascii_lowercase_def is_ascii_upper_def dec.simps

lemma first_keys: "printer_identity_keys to_ascii_lowercase first_queue = [lit ''queue:a'']"
  by (simp add: observation_evaluation lit_def)

lemma second_keys:
  "printer_identity_keys to_ascii_lowercase second_queue = [lit ''network:h:9100'', lit ''queue:b'']"
  by (simp add: observation_evaluation lit_def)

lemma bridging_keys:
  "printer_identity_keys to_ascii_lowercase bridging_queue = [lit ''network:h:9100'', lit ''queue:a'']"
  by (simp add: observation_evaluation lit_def)

lemma joined_keys:
  "printer_identity_keys to_ascii_lowercase (merge_observation first_queue bridging_queue) =
     [lit ''network:h:9100'', lit ''queue:a'']"
  "printer_identity_keys to_ascii_lowercase (merge_observation bridging_queue first_queue) =
     [lit ''network:h:9100'', lit ''queue:a'']"
  by (simp_all add: observation_evaluation merge_observation_def merge_missing_def merge_option_def lit_def)

lemma no_identity:
  "dp_id second_queue = None" "dp_id (merge_observation first_queue bridging_queue) = None"
  by (simp_all add: first_queue_def second_queue_def bridging_queue_def sample_observation_def
      merge_observation_def)

text \<open>Which observations are merged depends on their order: when the observation that connects two
  queues comes last, it joins only the first of them, and the result keeps two entries that share
  an identity key and even the inventory key, so the inventory against which changes are computed
  has one entry fewer; in another order the three are one entry.\<close>

theorem merging_depends_on_order:
  "(let entries = deduplicate to_ascii_lowercase [first_queue, second_queue, bridging_queue] in
     length entries = 2 \<and> shares_key to_ascii_lowercase (entries ! 0) (entries ! 1) \<and>
     length (keyed_inventory to_ascii_lowercase entries) = 1) \<and>
   length (deduplicate to_ascii_lowercase [bridging_queue, first_queue, second_queue]) = 1"
proof -
  let ?l = to_ascii_lowercase
  have parts: "fold (merge_into ?l) [first_queue, second_queue, bridging_queue] [] =
      [merge_observation first_queue bridging_queue, second_queue]"
    by (simp add: shares_key_def first_keys second_keys bridging_keys) (simp add: lit_def)
  have whole: "fold (merge_into ?l) [bridging_queue, first_queue, second_queue] [] =
      [merge_observation (merge_observation bridging_queue first_queue) second_queue]"
    by (simp add: shares_key_def first_keys second_keys bridging_keys joined_keys)
  have order: "deduplicate ?l [first_queue, second_queue, bridging_queue] \<in>
      {[merge_observation first_queue bridging_queue, second_queue],
       [second_queue, merge_observation first_queue bridging_queue]}"
    unfolding deduplicate_def sort_inventory_def parts by simp
  obtain p q where entries: "deduplicate ?l [first_queue, second_queue, bridging_queue] = [p, q]"
    and cases: "(p, q) = (merge_observation first_queue bridging_queue, second_queue) \<or>
      (p, q) = (second_queue, merge_observation first_queue bridging_queue)"
    using order by blast
  have "shares_key ?l p q \<and> inventory_key ?l p = inventory_key ?l q"
    using cases by (auto simp: shares_key_def inventory_key_def second_keys joined_keys no_identity)
  moreover have "length (deduplicate ?l [bridging_queue, first_queue, second_queue]) = 1"
    unfolding deduplicate_def sort_inventory_def whole by simp
  ultimately show ?thesis by (simp add: entries keyed_inventory_def btree_collect_def)
qed

end
