(* ===== verification/Driver_Print.thy ===== *)
theory Driver_Print
  imports Packed_Bits
begin

text \<open>
  Printing pages through a printer driver (\<open>crates/oppa-windows-print\<close>): the sequence of calls a
  document makes on the driver interface, and the pure conversions of the GDI backend. The driver is
  any function from the calls made so far to the answer of the last one, so it may fail at any of
  them; the handle it returns is not looked at by the sequence. Narrow integers wrap, as in a
  release build.
\<close>

section \<open>The driver interface\<close>

datatype driver_call =
  OpenQueue ustring
| StartDocument
| StartPage
| DrawPage RasterPage
| EndPage
| EndDocument
| AbortDocument
| CloseContext

type_synonym driver_api = "driver_call list \<Rightarrow> ustring + nat"

type_synonym 'a driver_eff = "(driver_call list, ustring, 'a) eff"

definition driver_do :: "driver_api \<Rightarrow> driver_call \<Rightarrow> nat driver_eff" where
  "driver_do api c = (\<lambda>calls. (api (calls @ [c]), calls @ [c]))"

datatype PrintStage = StageOpen | StageStartDocument | StageStartPage | StageDrawPage | StageEndPage | StageEndDocument

fun PrintStage_debug :: "PrintStage \<Rightarrow> ustring" where
  "PrintStage_debug StageOpen = lit ''Open''"
| "PrintStage_debug StageStartDocument = lit ''StartDocument''"
| "PrintStage_debug StageStartPage = lit ''StartPage''"
| "PrintStage_debug StageDrawPage = lit ''DrawPage''"
| "PrintStage_debug StageEndPage = lit ''EndPage''"
| "PrintStage_debug StageEndDocument = lit ''EndDocument''"

record PrintError =
  pe_stage :: PrintStage
  pe_message :: ustring

definition PrintError_to_string :: "PrintError \<Rightarrow> ustring" where
  "PrintError_to_string e = lit ''Windows driver printing failed during '' @
     PrintStage_debug (pe_stage e) @ lit '': '' @ pe_message e"

section \<open>A document\<close>

definition at_stage :: "PrintStage \<Rightarrow> 'a driver_eff \<Rightarrow> (driver_call list, PrintError, 'a) eff" where
  "at_stage stage m = emap_err (\<lambda>message. \<lparr>pe_stage = stage, pe_message = message\<rparr>) m"

definition print_page :: "driver_api \<Rightarrow> RasterPage \<Rightarrow> (driver_call list, PrintError, unit) eff" where
  "print_page api page =
     ebind (at_stage StageStartPage (driver_do api StartPage)) (\<lambda>_.
     ebind (at_stage StageDrawPage (driver_do api (DrawPage page))) (\<lambda>_.
     ebind (at_stage StageEndPage (driver_do api EndPage)) (\<lambda>_. eret ())))"

fun print_pages :: "driver_api \<Rightarrow> RasterPage list \<Rightarrow> (driver_call list, PrintError, unit) eff" where
  "print_pages api [] = eret ()"
| "print_pages api (page # pages) = ebind (print_page api page) (\<lambda>_. print_pages api pages)"

definition print_started_document ::
  "driver_api \<Rightarrow> RasterDocument \<Rightarrow> nat \<Rightarrow> (driver_call list, PrintError, nat) eff" where
  "print_started_document api d job =
     ebind (print_pages api d) (\<lambda>_.
     ebind (at_stage StageEndDocument (driver_do api EndDocument)) (\<lambda>_. eret job))"

definition check_pages :: "RasterDocument \<Rightarrow> PrintError + unit" where
  "check_pages d =
     (if d = [] then Err \<lparr>pe_stage = StageDrawPage, pe_message = lit ''document has no pages''\<rparr>
      else map_err (\<lambda>e. \<lparr>pe_stage = StageDrawPage, pe_message = RendererError_to_string e\<rparr>)
        (first_err (map RasterPage_validate d)))"

definition print_with_api ::
  "driver_api \<Rightarrow> ustring \<Rightarrow> RasterDocument \<Rightarrow> (driver_call list, PrintError, nat) eff" where
  "print_with_api api queue d =
     ebind (elift (check_pages d)) (\<lambda>_.
     ebind (at_stage StageOpen (driver_do api (OpenQueue queue))) (\<lambda>_.
     ecase (driver_do api StartDocument) (\<lambda>r. case r of
       Inl message \<Rightarrow> ecase (driver_do api CloseContext) (\<lambda>_.
         elift (Err \<lparr>pe_stage = StageStartDocument, pe_message = message\<rparr>))
     | Inr job \<Rightarrow> ecase (print_started_document api d job) (\<lambda>result.
         ecase (if is_ok result then eret 0 else driver_do api AbortDocument) (\<lambda>_.
         ecase (driver_do api CloseContext) (\<lambda>_. elift result))))))"

section \<open>The calls of a document\<close>

definition page_calls :: "RasterPage \<Rightarrow> driver_call list" where
  "page_calls page = [StartPage, DrawPage page, EndPage]"

definition document_calls :: "RasterDocument \<Rightarrow> driver_call list" where
  "document_calls d = concat (map page_calls d) @ [EndDocument]"

fun call_stage :: "driver_call \<Rightarrow> PrintStage" where
  "call_stage (OpenQueue _) = StageOpen"
| "call_stage StartDocument = StageStartDocument"
| "call_stage StartPage = StageStartPage"
| "call_stage (DrawPage _) = StageDrawPage"
| "call_stage EndPage = StageEndPage"
| "call_stage _ = StageEndDocument"

text \<open>The driver answered every one of the calls made after \<open>before\<close> with success.\<close>

definition all_answered :: "driver_api \<Rightarrow> driver_call list \<Rightarrow> driver_call list \<Rightarrow> bool" where
  "all_answered api before made \<longleftrightarrow> (\<forall>k \<in> {1..length made}. is_ok (api (before @ take k made)))"

text \<open>The last of these calls is the first that failed, and the error names it.\<close>

definition fails_at :: "driver_api \<Rightarrow> driver_call list \<Rightarrow> driver_call list \<Rightarrow> PrintError \<Rightarrow> bool" where
  "fails_at api before made e \<longleftrightarrow> made \<noteq> [] \<and> all_answered api before (butlast made) \<and>
     api (before @ made) = Err (pe_message e) \<and> pe_stage e = call_stage (last made)"

text \<open>The calls a failed document made between its start and its abort.\<close>

definition cut_short :: "driver_api \<Rightarrow> driver_call list \<Rightarrow> driver_call list \<Rightarrow> PrintError \<Rightarrow> driver_call list \<Rightarrow> bool" where
  "cut_short api before all e made \<longleftrightarrow> prefix made all \<and> fails_at api before made e"

lemma all_answered_Nil [simp]: "all_answered api before []"
  by (simp add: all_answered_def)

lemma all_answered_append:
  "all_answered api before (xs @ ys) \<longleftrightarrow> all_answered api before xs \<and> all_answered api (before @ xs) ys"
proof (intro iffI conjI)
  assume all: "all_answered api before (xs @ ys)"
  show "all_answered api before xs" unfolding all_answered_def
  proof
    fix k assume "k \<in> {1..length xs}"
    then show "is_ok (api (before @ take k xs))"
      using all [unfolded all_answered_def, rule_format, of k] by simp
  qed
  show "all_answered api (before @ xs) ys" unfolding all_answered_def
  proof
    fix k assume "k \<in> {1..length ys}"
    then show "is_ok (api ((before @ xs) @ take k ys))"
      using all [unfolded all_answered_def, rule_format, of "length xs + k"] by simp
  qed
next
  assume parts: "all_answered api before xs \<and> all_answered api (before @ xs) ys"
  show "all_answered api before (xs @ ys)" unfolding all_answered_def
  proof
    fix k assume k: "k \<in> {1..length (xs @ ys)}"
    show "is_ok (api (before @ take k (xs @ ys)))"
    proof (cases "k \<le> length xs")
      case True
      then show ?thesis using k parts by (simp add: all_answered_def)
    next
      case False
      then have "k - length xs \<in> {1..length ys}" using k by auto
      then show ?thesis using False parts by (simp add: all_answered_def)
    qed
  qed
qed

lemma all_answered_single [simp]: "all_answered api before [c] \<longleftrightarrow> is_ok (api (before @ [c]))"
  by (simp add: all_answered_def)

lemma all_answered_Cons:
  "all_answered api before (c # cs) \<longleftrightarrow> is_ok (api (before @ [c])) \<and> all_answered api (before @ [c]) cs"
  using all_answered_append [of api before "[c]" cs] by simp

lemma driver_do_cases: "driver_do api c calls = (r, calls') \<longleftrightarrow> api (calls @ [c]) = r \<and> calls' = calls @ [c]"
  by (auto simp: driver_do_def)

lemma at_stage_Ok: "at_stage stage m s = (Inr a, s') \<longleftrightarrow> m s = (Inr a, s')"
  by (simp add: at_stage_def)

lemma at_stage_Err: "at_stage stage m s = (Inl e, s') \<longleftrightarrow>
    (\<exists>message. m s = (Inl message, s') \<and> e = \<lparr>pe_stage = stage, pe_message = message\<rparr>)"
  by (auto simp: at_stage_def)

lemmas driver_steps = ebind_Ok ebind_Err at_stage_Ok at_stage_Err driver_do_cases

lemma print_page_Ok:
  "print_page api p calls = (Inr u, calls') \<Longrightarrow> calls' = calls @ page_calls p \<and> all_answered api calls (page_calls p)"
  by (auto simp: print_page_def driver_steps page_calls_def all_answered_Cons)

lemma print_page_Err:
  "print_page api p calls = (Inl e, calls') \<Longrightarrow>
     \<exists>made. calls' = calls @ made \<and> cut_short api calls (page_calls p) e made"
  by (auto simp: print_page_def driver_steps page_calls_def cut_short_def fails_at_def all_answered_Cons)

lemma print_pages_Ok:
  "print_pages api ps calls = (Inr u, calls') \<Longrightarrow>
     calls' = calls @ concat (map page_calls ps) \<and> all_answered api calls (concat (map page_calls ps))"
proof (induction ps arbitrary: calls)
  case (Cons p ps)
  then obtain v calls1 where first: "print_page api p calls = (Inr v, calls1)"
    and rest: "print_pages api ps calls1 = (Inr (), calls')" by (auto simp: ebind_Ok)
  then have "print_pages api ps calls1 = (Inr u, calls')" by simp
  from Cons.IH [OF this] print_page_Ok [OF first] show ?case by (simp add: all_answered_append)
qed simp

lemma cut_short_extend: "cut_short api before xs e made \<Longrightarrow> cut_short api before (xs @ ys) e made"
  by (auto simp: cut_short_def)

lemma cut_short_after:
  "cut_short api (before @ xs) ys e made \<Longrightarrow> all_answered api before xs \<Longrightarrow> cut_short api before (xs @ ys) e (xs @ made)"
  by (auto simp: cut_short_def fails_at_def butlast_append all_answered_append)

lemma print_pages_Err:
  "print_pages api ps calls = (Inl e, calls') \<Longrightarrow>
     \<exists>made. calls' = calls @ made \<and> cut_short api calls (concat (map page_calls ps)) e made"
proof (induction ps arbitrary: calls)
  case (Cons p ps)
  consider (first) "print_page api p calls = (Inl e, calls')"
    | (later) u calls1 where "print_page api p calls = (Inr u, calls1)" "print_pages api ps calls1 = (Inl e, calls')"
    using Cons.prems by (auto simp: ebind_Err)
  then show ?case
  proof cases
    case first
    then show ?thesis using print_page_Err cut_short_extend by fastforce
  next
    case later
    note page = print_page_Ok [OF later(1)]
    from page Cons.IH [OF later(2)] obtain made
      where "calls' = calls @ page_calls p @ made"
        "cut_short api (calls @ page_calls p) (concat (map page_calls ps)) e made" by auto
    then show ?thesis using cut_short_after page by fastforce
  qed
qed simp

lemma print_started_Ok:
  "print_started_document api d job calls = (Inr j, calls') \<Longrightarrow>
     j = job \<and> calls' = calls @ document_calls d \<and> all_answered api calls (document_calls d)"
  by (auto simp: print_started_document_def driver_steps document_calls_def all_answered_append
      dest!: print_pages_Ok)

lemma print_started_Err:
  assumes "print_started_document api d job calls = (Inl e, calls')"
  shows "\<exists>made. calls' = calls @ made \<and> cut_short api calls (document_calls d) e made"
proof -
  consider (pages) "print_pages api d calls = (Inl e, calls')"
    | (last_call) u calls1 where "print_pages api d calls = (Inr u, calls1)"
        "at_stage StageEndDocument (driver_do api EndDocument) calls1 = (Inl e, calls')"
    using assms by (auto simp: print_started_document_def ebind_Err)
  then show ?thesis
  proof cases
    case pages
    then show ?thesis using print_pages_Err cut_short_extend unfolding document_calls_def by fastforce
  next
    case last_call
    have "calls1 = calls @ concat (map page_calls d)" "all_answered api calls (concat (map page_calls d))"
      using print_pages_Ok [OF last_call(1)] by simp_all
    moreover from this have "calls' = calls @ document_calls d" "api calls' = Err (pe_message e)"
        "pe_stage e = StageEndDocument"
      using last_call(2) by (auto simp: at_stage_Err driver_do_cases document_calls_def)
    ultimately show ?thesis
      by (intro exI [of _ "document_calls d"]) (simp add: cut_short_def fails_at_def document_calls_def)
  qed
qed

text \<open>The pages that are checked before anything is called.\<close>

definition printable_pages :: "RasterDocument \<Rightarrow> bool" where
  "printable_pages d \<longleftrightarrow> d \<noteq> [] \<and> (\<forall>p \<in> set d. RasterPage_validate p = Ok ())"

lemma check_pages_Ok: "check_pages d = Ok u \<longleftrightarrow> printable_pages d"
  by (cases u) (auto simp: check_pages_def printable_pages_def first_err_Ok map_err_Ok)

lemma check_pages_Err: "check_pages d = Err e \<Longrightarrow> \<not> printable_pages d"
  using check_pages_Ok [of d "()"] by auto

text \<open>The whole sequence.\<close>

lemma print_with_api_cases:
  assumes "print_with_api api queue d [] = (r, calls)"
  shows "(case r of
     Inr job \<Rightarrow> printable_pages d \<and> api [OpenQueue queue, StartDocument] = Ok job \<and>
       all_answered api [] ([OpenQueue queue, StartDocument] @ document_calls d) \<and>
       calls = [OpenQueue queue, StartDocument] @ document_calls d @ [CloseContext]
   | Inl e \<Rightarrow> (\<not> printable_pages d \<and> calls = []) \<or> (printable_pages d \<and>
       (fails_at api [] [OpenQueue queue] e \<and> calls = [OpenQueue queue] \<or>
        fails_at api [] [OpenQueue queue, StartDocument] e \<and> calls = [OpenQueue queue, StartDocument, CloseContext] \<or>
        (\<exists>made. calls = [OpenQueue queue, StartDocument] @ made @ [AbortDocument, CloseContext] \<and> prefix made (document_calls d) \<and>
           made \<noteq> [] \<and> fails_at api [] ([OpenQueue queue, StartDocument] @ made) e))))"
proof (cases "check_pages d")
  case (Inl e)
  then show ?thesis using assms check_pages_Err [OF Inl]
    by (auto simp: print_with_api_def ebind_def elift_def)
next
  case (Inr u)
  then have pages: "printable_pages d" by (simp add: check_pages_Ok)
  show ?thesis
  proof (cases "api [OpenQueue queue]")
    case (Inl m)
    then show ?thesis using assms pages Inr
      by (auto simp: print_with_api_def ebind_def elift_def at_stage_def emap_err_def driver_do_def fails_at_def)
  next
    case opened: (Inr h)
    show ?thesis
    proof (cases "api [OpenQueue queue, StartDocument]")
      case (Inl m)
      then show ?thesis using assms pages Inr opened
        by (auto simp: print_with_api_def ebind_def elift_def at_stage_def emap_err_def driver_do_def ecase_def
            fails_at_def)
    next
      case started: (Inr job)
      obtain result made where run: "print_started_document api d job [OpenQueue queue, StartDocument] = (result, made)"
        by force
      have shape: "r = result \<and> calls = (if is_ok result then made @ [CloseContext] else made @ [AbortDocument, CloseContext])"
        using assms Inr opened started run
        by (auto simp: print_with_api_def ebind_def elift_def at_stage_def emap_err_def driver_do_def ecase_def eret_def
            split: if_splits)
      show ?thesis
      proof (cases result)
        case (Inl e)
        with run obtain x where x: "made = [OpenQueue queue, StartDocument] @ x"
          "cut_short api [OpenQueue queue, StartDocument] (document_calls d) e x"
          using print_started_Err by blast
        then have "fails_at api [] ([OpenQueue queue, StartDocument] @ x) e"
          using opened started by (auto simp: cut_short_def fails_at_def butlast_append all_answered_Cons)
        then show ?thesis using shape x Inl pages by (auto simp: cut_short_def fails_at_def)
      next
        case (Inr j)
        then have "j = job \<and> made = [OpenQueue queue, StartDocument] @ document_calls d \<and>
            all_answered api [OpenQueue queue, StartDocument] (document_calls d)"
          using print_started_Ok [of api d job "[OpenQueue queue, StartDocument]" j made] run by simp
        then show ?thesis using shape Inr pages opened started by (simp add: all_answered_Cons)
      qed
    qed
  qed
qed

section \<open>Bitmaps of the GDI backend\<close>

text \<open>The colour mixing is done in \<open>u16\<close>.\<close>

definition dib_colour_black :: "byte \<Rightarrow> byte \<Rightarrow> byte \<Rightarrow> byte \<Rightarrow> bool" where
  "dib_colour_black r g b a =
     (let red = ucast r :: 16 word; green = ucast g; blue = ucast b; alpha = ucast a;
          luminance = (red * 299 + green * 587 + blue * 114) div 1000;
          composited = (luminance * alpha + 255 * (255 - alpha)) div 255 in
      composited < 128)"

text \<open>Whether a pixel is printed; \<open>None\<close> is an index out of the buffer, a panic.\<close>

definition dib_pixel :: "RasterPage \<Rightarrow> nat \<Rightarrow> nat \<Rightarrow> bool option" where
  "dib_pixel p x y =
     (let data = rp_data p; width = unat (rp_width p); position = y * width + x in
      case rp_format p of
        Mono1 \<Rightarrow> map_option (\<lambda>b. b AND drop_bit (x mod 8) 0x80 \<noteq> 0)
          (list_get data (y * unat (div_ceil8 (rp_width p)) + x div 8))
      | Gray8 \<Rightarrow> map_option (\<lambda>b. b < 128) (list_get data position)
      | Rgb24 \<Rightarrow>
          Option.bind (list_get data (position * 3)) (\<lambda>r.
          Option.bind (list_get data (position * 3 + 1)) (\<lambda>g.
          map_option (\<lambda>b. dib_colour_black r g b 255) (list_get data (position * 3 + 2))))
      | Rgba32 \<Rightarrow>
          Option.bind (list_get data (position * 4)) (\<lambda>r.
          Option.bind (list_get data (position * 4 + 1)) (\<lambda>g.
          Option.bind (list_get data (position * 4 + 2)) (\<lambda>b.
          map_option (\<lambda>a. dib_colour_black r g b a) (list_get data (position * 4 + 3))))))"

definition dib_set :: "nat \<Rightarrow> byte list \<Rightarrow> nat \<Rightarrow> nat \<Rightarrow> byte list option" where
  "dib_set stride output x y = (let i = y * stride + x div 8 in
     if i < length output then Some (output[i := output ! i OR drop_bit (x mod 8) 0x80]) else None)"

definition dib_step :: "RasterPage \<Rightarrow> nat \<Rightarrow> byte list option \<Rightarrow> nat \<times> nat \<Rightarrow> byte list option" where
  "dib_step p stride output xy = (case xy of (x, y) \<Rightarrow>
     Option.bind output (\<lambda>out. Option.bind (dib_pixel p x y) (\<lambda>black.
       if black then dib_set stride out x y else Some out)))"

definition dib_stride :: "RasterPage \<Rightarrow> nat" where
  "dib_stride p = (unat (rp_width p) + 31) div 32 * 4"

definition make_top_down_dib :: "RasterPage \<Rightarrow> (ustring + byte list) option" where
  "make_top_down_dib p =
     (let height = unat (rp_height p); width = unat (rp_width p) in
      case checked_mul_usize ((width + 31) div 32) 4 of
        None \<Rightarrow> Some (Err (lit ''page DIB stride overflow''))
      | Some stride \<Rightarrow> (case checked_mul_usize stride height of
          None \<Rightarrow> Some (Err (lit ''DIB payload size overflow''))
        | Some bytes \<Rightarrow> map_option Ok (foldl (dib_step p stride) (Some (replicate bytes 0))
            (concat (map (\<lambda>y. map (\<lambda>x. (x, y)) [0..<width]) [0..<height])))))"

text \<open>\<open>u64\<close> arithmetic on the way, the result as \<open>i32\<close>; a zero resolution would divide by zero.\<close>

definition scale_to_device :: "32 word \<Rightarrow> int \<Rightarrow> 16 word \<Rightarrow> (ustring + int) option" where
  "scale_to_device pixels printer_dpi raster_dpi =
     (if printer_dpi < 0 then Some (Err (lit ''invalid device resolution''))
      else let scaled = unat pixels * nat printer_dpi + unat raster_dpi div 2 in
        if scaled \<ge> 2 ^ 64 then Some (Err (lit ''destination dimensions overflow''))
        else if raster_dpi = 0 then None
        else Some (let result = int (scaled div unat raster_dpi) in
          if result < 2 ^ 31 then Ok result else Err (lit ''destination dimensions exceed GDI limits'')))"

section \<open>The bitmap of a valid page\<close>

lemma dib_strides: "x < unat w \<Longrightarrow> x div 8 < (unat (w :: 32 word) + 31) div 32 * 4"
  by linarith

lemma dib_fits:
  "checked_mul_usize ((unat (w :: 32 word) + 31) div 32) 4 = Some ((unat w + 31) div 32 * 4)"
  "checked_mul_usize ((unat w + 31) div 32 * 4) (unat (h :: 32 word)) = Some ((unat w + 31) div 32 * 4 * unat h)"
proof -
  have w: "unat w < 2 ^ 32" and h: "unat h < 2 ^ 32"
    using unsigned_less [of w, where ?'a = nat] unsigned_less [of h, where ?'a = nat] by simp_all
  have "unat w < 4294967296" using w by simp
  then have s: "(unat w + 31) div 32 * 4 \<le> 2 ^ 29" by simp
  then have "(unat w + 31) div 32 * 4 * unat h \<le> 2 ^ 29 * 2 ^ 32" using h by (intro mult_le_mono) auto
  also have "(2 ^ 29 * 2 ^ 32 :: nat) \<le> USIZE_MAX" by (simp add: USIZE_MAX_def)
  finally have "(unat w + 31) div 32 * 4 * unat h \<le> USIZE_MAX" .
  moreover have "(unat w + 31) div 32 * 4 \<le> USIZE_MAX" using s by (simp add: USIZE_MAX_def)
  ultimately show "checked_mul_usize ((unat w + 31) div 32) 4 = Some ((unat w + 31) div 32 * 4)"
    "checked_mul_usize ((unat w + 31) div 32 * 4) (unat h) = Some ((unat w + 31) div 32 * 4 * unat h)"
    by (simp_all only: checked_mul_usize_def if_True)
qed

lemma dib_set_mark: "y * stride + x div 8 < length out \<Longrightarrow> dib_set stride out x y = Some (mark stride out x y)"
  by (simp add: dib_set_def mark_def Let_def)

lemma dib_steps:
  assumes "\<forall>(x, y) \<in> set ps. dib_pixel p x y = Some (P x y) \<and> y * stride + x div 8 < length out"
  shows "foldl (dib_step p stride) (Some out) ps =
     Some (foldl (\<lambda>d (x, y). if P x y then mark stride d x y else d) out ps)"
  using assms
proof (induction ps arbitrary: out)
  case (Cons xy ps)
  obtain x y where xy: "xy = (x, y)" by force
  let ?out = "if P x y then mark stride out x y else out"
  have "dib_step p stride (Some out) xy = Some ?out"
    using Cons.prems by (auto simp: dib_step_def xy dib_set_mark)
  moreover have "\<forall>(x, y) \<in> set ps. dib_pixel p x y = Some (P x y) \<and> y * stride + x div 8 < length ?out"
    using Cons.prems by auto
  ultimately show ?case using Cons.IH [of ?out] by (simp add: xy)
qed simp

lemma valid_page_data:
  assumes "RasterPage_validate p = Ok ()"
  obtains row where "bytes_per_row p = Ok row" "length (rp_data p) = unat row * unat (rp_height p)"
  using assms by (auto simp: RasterPage_validate_def and_then_Ok checked_mul_usize_def split: if_splits)

lemma inside_row:
  assumes "x < width" "y < (height :: nat)" "k < c"
  shows "(y * width + x) * c + k < width * c * height"
proof -
  have "(y * width + x) * c + k < (y * width + x + 1) * c" using assms(3) by simp
  also have "\<dots> \<le> (height * width) * c"
  proof (intro mult_le_mono1)
    have "y * width + x + 1 \<le> Suc y * width" using assms(1) by simp
    also have "\<dots> \<le> height * width" using assms(2) by (intro mult_le_mono1) simp
    finally show "y * width + x + 1 \<le> height * width" .
  qed
  finally show ?thesis by (simp add: ac_simps)
qed

lemma dib_pixel_total:
  assumes valid: "RasterPage_validate p = Ok ()" and x: "x < unat (rp_width p)" and y: "y < unat (rp_height p)"
  shows "dib_pixel p x y \<noteq> None"
proof -
  obtain row where row: "bytes_per_row p = Ok row" and len: "length (rp_data p) = unat row * unat (rp_height p)"
    using valid_page_data [OF valid] .
  have times: "unat (rp_width p * c) = unat (rp_width p) * unat c"
    if "unat (rp_width p) * unat c < 2 ^ 32" for c :: "32 word"
    using that by (intro unat_mult_lem [THEN iffD1]) simp
  show ?thesis
  proof (cases "rp_format p")
    case Mono1
    then have "row = div_ceil8 (rp_width p)" using row by (simp add: bytes_per_row_def)
    then have "y * unat (div_ceil8 (rp_width p)) + x div 8 < length (rp_data p)"
      using inside_buffer [OF stride_covers [OF x] y] len by simp
    then show ?thesis using Mono1 by (simp add: dib_pixel_def Let_def list_get_def)
  next
    case Gray8
    then have "row = rp_width p" using row by (simp add: bytes_per_row_def)
    then have "y * unat (rp_width p) + x < length (rp_data p)"
      using inside_row [OF x y, of 0 1] len by simp
    then show ?thesis using Gray8 by (simp add: dib_pixel_def Let_def list_get_def)
  next
    case Rgb24
    then have "unat row = unat (rp_width p) * 3" using row times [of 3]
      by (auto simp: bytes_per_row_def Let_def checked_mul32_def split: if_splits)
    then have "(y * unat (rp_width p) + x) * 3 + k < length (rp_data p)" if "k < 3" for k
      using inside_row [OF x y that] len by simp
    from this [of 0] this [of 1] this [of 2] show ?thesis
      using Rgb24 by (simp add: dib_pixel_def Let_def list_get_def)
  next
    case Rgba32
    then have "unat row = unat (rp_width p) * 4" using row times [of 4]
      by (auto simp: bytes_per_row_def Let_def checked_mul32_def split: if_splits)
    then have "(y * unat (rp_width p) + x) * 4 + k < length (rp_data p)" if "k < 4" for k
      using inside_row [OF x y that] len by simp
    from this [of 0] this [of 1] this [of 2] this [of 3] show ?thesis
      using Rgba32 by (simp add: dib_pixel_def Let_def list_get_def)
  qed
qed

lemma make_dib_exact:
  assumes valid: "RasterPage_validate p = Ok ()"
  shows "\<exists>out. make_top_down_dib p = Some (Ok out) \<and> length out = dib_stride p * unat (rp_height p) \<and>
    (\<forall>x y. x div 8 < dib_stride p \<longrightarrow> (bit_at out (dib_stride p) x y \<longleftrightarrow>
       x < unat (rp_width p) \<and> y < unat (rp_height p) \<and> dib_pixel p x y = Some True))"
proof -
  let ?w = "unat (rp_width p)" and ?h = "unat (rp_height p)" and ?s = "dib_stride p"
  let ?ps = "concat (map (\<lambda>y. map (\<lambda>x. (x, y)) [0..<?w]) [0..<?h])"
  let ?P = "\<lambda>x y. dib_pixel p x y = Some True"
  let ?z = "replicate (?s * ?h) 0 :: byte list"
  let ?out = "foldl (\<lambda>d (x, y). if ?P x y then mark ?s d x y else d) ?z ?ps"
  have pixel: "dib_pixel p x y = Some (?P x y)" if "x < ?w" "y < ?h" for x y
    using dib_pixel_total [OF valid that] by (cases "dib_pixel p x y") auto
  have inside: "x div 8 < ?s \<and> y * ?s + x div 8 < length ?z" if "(x, y) \<in> set ?ps" for x y
    using that inside_buffer [of x ?s y ?h] dib_strides [of x "rp_width p"] by (auto simp: dib_stride_def)
  have "foldl (dib_step p ?s) (Some ?z) ?ps = Some ?out"
  proof (rule dib_steps)
    show "\<forall>(x, y) \<in> set ?ps. dib_pixel p x y = Some (?P x y) \<and> y * ?s + x div 8 < length ?z"
      using pixel inside unfolding set_positions by fastforce
  qed
  then have steps: "make_top_down_dib p = Some (Ok ?out)"
    by (simp add: make_top_down_dib_def Let_def dib_fits dib_stride_def)
  have marks: "bit_at ?out ?s x y \<longleftrightarrow> bit_at ?z ?s x y \<or> ((x, y) \<in> set ?ps \<and> ?P x y)"
    if "x div 8 < ?s" for x y
    using bit_at_marks [of ?ps ?s ?z x ?P y] inside that by blast
  have clear: "\<not> bit_at ?z ?s x y" for x y by (auto simp: bit_at_def Let_def)
  have member: "(x, y) \<in> set ?ps \<longleftrightarrow> x < ?w \<and> y < ?h" for x y unfolding set_positions by simp
  have "length ?out = ?s * ?h" by (simp add: length_marks)
  moreover have "bit_at ?out ?s x y \<longleftrightarrow> x < ?w \<and> y < ?h \<and> ?P x y" if "x div 8 < ?s" for x y
    using marks [OF that] clear member by blast
  ultimately show ?thesis using steps by blast
qed

lemma dib_mono_pixel:
  assumes "RasterPage_validate p = Ok ()" "rp_format p = Mono1" "x < unat (rp_width p)" "y < unat (rp_height p)"
  shows "dib_pixel p x y = Some (bit_at (rp_data p) (unat (div_ceil8 (rp_width p))) x y)"
  using dib_pixel_total [OF assms(1,3,4)] assms(2)
  by (auto simp: dib_pixel_def Let_def list_get_def bit_at_def selected_bit split: if_splits)

text \<open>The products of the colour mixing do not fit \<open>u16\<close>: every opaque pixel is black.\<close>

lemma opaque_is_black: "dib_colour_black r g b 255"
proof -
  define l where "l = (ucast r * 299 + ucast g * 587 + ucast b * 114 :: 16 word) div 1000"
  have "unat l \<le> 65"
    using unsigned_less [of "ucast r * 299 + ucast g * 587 + ucast b * 114 :: 16 word", where ?'a = nat]
    by (simp add: l_def unat_div)
  moreover have "unat (l * 255) = unat l * 255"
  proof -
    have "unat l * unat (255 :: 16 word) < 2 ^ LENGTH(16)" using \<open>unat l \<le> 65\<close> by simp
    then show ?thesis unfolding unat_mult_lem by simp
  qed
  ultimately have "unat (l * 255 div 255) \<le> 65" by (simp add: unat_div)
  then show ?thesis by (simp add: dib_colour_black_def Let_def l_def [symmetric] word_less_nat_alt)
qed

text \<open>
  What is printed, in natural numbers: the bit of a packed page, the dark half of a gray one, every pixel of
  an opaque colour page, and for a translucent one the mixture with white of a luminance that is cut
  to 16 bits before it is divided.
\<close>

definition cut_luminance :: "byte \<Rightarrow> byte \<Rightarrow> byte \<Rightarrow> nat" where
  "cut_luminance r g b = (unat r * 299 + unat g * 587 + unat b * 114) mod 2 ^ 16 div 1000"

definition printed_pixel :: "RasterPage \<Rightarrow> nat \<Rightarrow> nat \<Rightarrow> bool" where
  "printed_pixel p x y = (let n = y * unat (rp_width p) + x in case rp_format p of
     Mono1 \<Rightarrow> bit_at (rp_data p) (unat (div_ceil8 (rp_width p))) x y
   | Gray8 \<Rightarrow> unat (rp_data p ! n) < 128
   | Rgb24 \<Rightarrow> True
   | Rgba32 \<Rightarrow> let opacity = unat (rp_data p ! (n * 4 + 3)) in
       (cut_luminance (rp_data p ! (n * 4)) (rp_data p ! (n * 4 + 1)) (rp_data p ! (n * 4 + 2)) * opacity +
         255 * (255 - opacity)) div 255 < 128)"

lemma colour_black_nat:
  "dib_colour_black r g b a \<longleftrightarrow> (cut_luminance r g b * unat a + 255 * (255 - unat a)) div 255 < 128"
proof -
  define l where "l = (ucast r * 299 + ucast g * 587 + ucast b * 114 :: 16 word) div 1000"
  have bytes: "unat r < 256" "unat g < 256" "unat b < 256" "unat a < 256"
    using unsigned_less [of _, where ?'a = nat and ?'b = 8] by auto
  have wide: "unat (ucast v :: 16 word) = unat v" for v :: byte
    using unsigned_less [of v, where ?'a = nat] by (simp add: unsigned_ucast_eq take_bit_nat_eq_self)
  have "unat (ucast r * 299 + ucast g * 587 + ucast b * 114 :: 16 word) =
      (unat r * 299 + unat g * 587 + unat b * 114) mod 2 ^ 16"
  proof -
    have "unat (x * 299 + y * 587 + z * 114) = (unat x * 299 + unat y * 587 + unat z * 114) mod 2 ^ 16"
      for x y z :: "16 word"
      by (simp add: unat_word_ariths(1,2) mod_add_left_eq mod_add_right_eq)
    then show ?thesis by (simp only: wide)
  qed
  then have l: "unat l = cut_luminance r g b" by (simp add: l_def unat_div cut_luminance_def)
  have small: "cut_luminance r g b \<le> 65" by (simp add: cut_luminance_def)
  note alpha = wide [of a]
  have white: "unat (255 - ucast a :: 16 word) = 255 - unat a"
  proof -
    have "(ucast a :: 16 word) \<le> 255" using alpha bytes(4) by (simp add: word_le_nat_alt)
    then show ?thesis using unat_sub [of "ucast a" "255 :: 16 word"] alpha by simp
  qed
  have ink: "cut_luminance r g b * unat a \<le> 65 * unat a" using small by (rule mult_le_mono1)
  have "cut_luminance r g b * unat a + 255 * (255 - unat a) < 65536" using ink bytes(4) by linarith
  then have sum: "cut_luminance r g b * unat a + 255 * (255 - unat a) < 2 ^ 16" by simp
  have "unat (l * ucast a) = cut_luminance r g b * unat a"
    using l alpha sum by (simp add: unat_word_ariths(2))
  moreover have "unat (255 * (255 - ucast a) :: 16 word) = 255 * (255 - unat a)"
  proof -
    have "unat (255 * w) = 255 * unat w" if "255 * unat w < 65536" for w :: "16 word"
      using that by (simp add: unat_word_ariths(2))
    from this [of "255 - ucast a"] show ?thesis unfolding white by simp
  qed
  ultimately have "unat (l * ucast a + 255 * (255 - ucast a)) = cut_luminance r g b * unat a + 255 * (255 - unat a)"
    using sum by (simp add: unat_word_ariths(1))
  then show ?thesis
    by (simp add: dib_colour_black_def Let_def l_def [symmetric] word_less_nat_alt unat_div)
qed

lemma dib_pixel_printed:
  assumes "RasterPage_validate p = Ok ()" "x < unat (rp_width p)" "y < unat (rp_height p)"
  shows "dib_pixel p x y = Some (printed_pixel p x y)"
proof (cases "rp_format p")
  case Mono1
  then show ?thesis using dib_mono_pixel [OF assms(1) Mono1 assms(2,3)] by (simp add: printed_pixel_def Let_def)
next
  case Gray8
  then show ?thesis using dib_pixel_total [OF assms]
    by (auto simp: dib_pixel_def printed_pixel_def Let_def list_get_def word_less_nat_alt split: if_splits)
next
  case Rgb24
  then show ?thesis using dib_pixel_total [OF assms]
    by (auto simp: dib_pixel_def printed_pixel_def Let_def opaque_is_black split: bind_splits option.splits)
next
  case Rgba32
  then show ?thesis using dib_pixel_total [OF assms]
    by (auto simp: dib_pixel_def printed_pixel_def Let_def list_get_def colour_black_nat split: bind_splits if_splits)
qed

text \<open>Scaling rounds to the nearest device unit.\<close>

lemma scale_to_device_nearest:
  assumes "scale_to_device pixels dpi raster = Some (Ok n)"
  shows "0 \<le> n \<and> 2 * \<bar>n * int (unat raster) - int (unat pixels) * dpi\<bar> \<le> int (unat raster)"
proof -
  define r where "r = unat raster"
  define a where "a = unat pixels * nat dpi"
  have n: "n = int ((a + r div 2) div r)" and dpi: "dpi \<ge> 0" and r0: "r \<noteq> 0"
    using assms by (auto simp: scale_to_device_def Let_def a_def r_def unat_eq_zero split: if_splits)
  define b where "b = (a + r div 2) div r * r"
  have split: "b + (a + r div 2) mod r = a + r div 2" by (simp add: b_def)
  have "(a + r div 2) mod r < r" using r0 by simp
  then have "2 * b \<le> 2 * a + r" "2 * a \<le> 2 * b + r" using split by linarith+
  then have "2 * \<bar>int b - int a\<bar> \<le> int r" unfolding abs_if by auto
  moreover have "int (unat pixels) * dpi = int a" using dpi by (simp add: a_def)
  moreover have "n * int (unat raster) = int b" by (simp add: n r_def b_def)
  ultimately show ?thesis using n by (simp add: r_def)
qed

end
