(* ===== verification/Spoolers.thy ===== *)
theory Spoolers
  imports Driver_Print Document_Renderer Sorted_Map Std_Library
begin

text \<open>
  The spoolers of physical printers (\<open>crates/oppa-spooler\<close>): raw TCP, the CUPS and the Windows
  route of system queues, and the translation of PDF settings to \<open>lp\<close> arguments. The network, the
  file system, the \<open>lp\<close> command and the Windows printing calls are the environment \<open>spool_env\<close>; an
  effect keeps the list of what was handed to them. A race against the cancellation token and the
  deadline is a \<open>race\<close>: which of them came first, and the result if it was the operation.
\<close>

section \<open>Limits and modes\<close>

definition DEFAULT_MAX_SUBMISSION_BYTES :: nat where
  "DEFAULT_MAX_SUBMISSION_BYTES = 4 * 1024 * 1024"

definition enforce_submission_size :: "nat \<Rightarrow> nat \<Rightarrow> SpoolerError + unit" where
  "enforce_submission_size actual maximum =
     reject_if (maximum = 0 \<or> actual > maximum) (DocumentTooLarge actual maximum)"

definition raw_bytes :: "RenderedDocument \<Rightarrow> SpoolerError + byte list" where
  "raw_bytes d = (case d of
     EscPosOutput bytes _ \<Rightarrow> Ok bytes
   | _ \<Rightarrow> Err (UnsupportedDocument (lit ''raw byte spooler'') (RenderedDocument_kind d)))"

definition require_raw_mode :: "PrinterRef \<Rightarrow> SpoolerError + unit" where
  "require_raw_mode p = reject_if (pr_submission_mode p \<noteq> Raw EscPos)
     (InvalidSubmissionMode (lit ''raw TCP requires explicit raw ESC/POS mode''))"

definition spool_receipt ::
  "Timestamp \<Rightarrow> ustring \<Rightarrow> ustring option \<Rightarrow> (ustring \<times> ustring) list \<Rightarrow> SubmissionReceipt" where
  "spool_receipt now backend backend_job_id entries = \<lparr>sr_backend_job_id = backend_job_id,
     sr_backend = backend, sr_accepted_at = now, sr_metadata = entries\<rparr>"

definition bool_text :: "bool \<Rightarrow> ustring" where
  "bool_text b = (if b then lit ''true'' else lit ''false'')"

section \<open>The environment\<close>

datatype 'a race = CancelWon | DeadlineWon | Finished "ustring + 'a"

datatype spool_call =
  TcpConnect ustring "16 word"
| TcpWrite "byte list"
| LpWithInput "ustring list" "byte list"
| LpWithFiles "ustring list" "byte list list"
| WindowsRaw ustring "byte list"
| WindowsDriver ustring RasterDocument

record 'f spool_env =
  se_host :: HostPlatform
  se_text :: text_lib
  se_now :: Timestamp
  se_drawing :: "'f drawing"
  se_tcp_connect :: "unit race"
  se_tcp_write :: "unit race"
  se_lp_spawn :: "ustring + bool"
  se_lp_run :: "command_output race"
  se_png :: "GrayImage \<Rightarrow> ustring + byte list"
  se_temp_file :: "nat \<Rightarrow> ustring + ustring"
  se_write_file :: "nat \<Rightarrow> ustring + unit"
  se_worker :: "unit race"
  se_find_queue :: "ustring \<Rightarrow> bool"
  se_windows_raw :: "ustring + nat"
  se_driver :: driver_api
  se_rasterize :: "PdfPrintDocument \<Rightarrow> 16 word \<Rightarrow> RendererError + RasterDocument"

type_synonym 'a spool_eff = "(spool_call list, SpoolerError, 'a) eff"

definition spool_do :: "spool_call \<Rightarrow> unit spool_eff" where
  "spool_do c = emodify (\<lambda>calls. calls @ [c])"

definition settle :: "ustring \<Rightarrow> nat \<Rightarrow> (ustring \<Rightarrow> SpoolerError) \<Rightarrow> 'a race \<Rightarrow> 'a spool_eff" where
  "settle stage deadline failure r = elift (case r of
     CancelWon \<Rightarrow> Err SpoolerCancelled
   | DeadlineWon \<Rightarrow> Err (SpoolerTimeout stage deadline)
   | Finished x \<Rightarrow> map_err failure x)"

section \<open>Raw TCP\<close>

record RawTcpSpooler =
  rt_connect_timeout :: nat
  rt_write_timeout :: nat
  rt_max_submission_bytes :: nat

definition RawTcpSpooler_default :: RawTcpSpooler where
  "RawTcpSpooler_default = \<lparr>rt_connect_timeout = 5000000000, rt_write_timeout = 15000000000,
     rt_max_submission_bytes = DEFAULT_MAX_SUBMISSION_BYTES\<rparr>"

definition RawTcpSpooler_submit ::
  "RawTcpSpooler \<Rightarrow> 'f spool_env \<Rightarrow> PrinterRef \<Rightarrow> RenderedDocument \<Rightarrow> SubmissionReceipt spool_eff" where
  "RawTcpSpooler_submit s env printer d = (case pr_connection printer of
     Network host port \<Rightarrow>
       ebind (elift (require_raw_mode printer)) (\<lambda>_.
       ebind (elift (raw_bytes d)) (\<lambda>bytes.
       ebind (elift (enforce_submission_size (length bytes) (rt_max_submission_bytes s))) (\<lambda>_.
       ebind (spool_do (TcpConnect host port)) (\<lambda>_.
       ebind (settle (lit ''connect'') (rt_connect_timeout s) Connectivity (se_tcp_connect env)) (\<lambda>_.
       ebind (spool_do (TcpWrite bytes)) (\<lambda>_.
       ebind (settle (lit ''write'') (rt_write_timeout s) Connectivity (se_tcp_write env)) (\<lambda>_.
       eret (spool_receipt (se_now env) (lit ''raw-tcp'') None (btree_collect
         [(lit ''endpoint'', host @ lit '':'' @ dec (unat port)), (lit ''submissionMode'', lit ''raw''),
          (lit ''language'', lit ''esc-pos'')])))))))))
   | c \<Rightarrow> elift (Err (UnsupportedTarget (connection_kind c))))"

section \<open>Preparing a queue submission\<close>

datatype SystemQueuePayload =
  RawEscPosPayload "byte list"
| DriverPagesPayload RasterDocument "EscPosDiagnostics option"
| NativePdfPayload PdfPrintDocument
| RasterPdfPayload PdfPrintDocument

definition prepare_pdf_submission ::
  "HostPlatform \<Rightarrow> PrinterRef \<Rightarrow> PdfPrintDocument \<Rightarrow> SpoolerError + SystemQueuePayload" where
  "prepare_pdf_submission host printer d =
     and_then (reject_if (pr_submission_mode printer \<noteq> Driver)
       (InvalidSubmissionMode (lit ''PDF documents require driver submission mode''))) (\<lambda>_.
     case host of
       UnixHost \<Rightarrow> and_then (enforce_submission_size (length (pp_bytes d)) MAX_PDF_DOCUMENT_BYTES)
         (\<lambda>_. Ok (NativePdfPayload d))
     | WindowsHost \<Rightarrow> and_then (reject_if (effective_duplex (pp_settings d) \<noteq> Simplex)
         (UnsupportedOption (lit ''duplex PDF printing is not available on Windows; the driver's default device mode is used'')))
         (\<lambda>_. Ok (RasterPdfPayload d))
     | OtherHost \<Rightarrow> Err (BackendUnavailable (lit ''PDF submission is not implemented on this platform'')))"

definition driver_pages ::
  "'f drawing \<Rightarrow> RenderedDocument \<Rightarrow> SpoolerError + RasterDocument \<times> EscPosDiagnostics option" where
  "driver_pages D d = (case d of
     RasterOutput pages \<Rightarrow> Ok (pages, None)
   | EscPosOutput bytes width \<Rightarrow>
       and_then (map_err (\<lambda>e. DocumentRender (RendererError_to_string e))
         (render_escpos_for_page D bytes width A4_PORTRAIT)) (\<lambda>(page, diagnostics).
       Ok (page, Some diagnostics))
   | _ \<Rightarrow> Err (UnsupportedDocument (lit ''system driver'') (RenderedDocument_kind d)))"

fun payload_bytes :: "SystemQueuePayload \<Rightarrow> nat" where
  "payload_bytes (RawEscPosPayload bytes) = length bytes"
| "payload_bytes (DriverPagesPayload pages _) = sum_list (map (\<lambda>p. length (rp_data p)) pages)"
| "payload_bytes (NativePdfPayload _) = 0"
| "payload_bytes (RasterPdfPayload _) = 0"

definition prepare_system_queue_submission ::
  "'f spool_env \<Rightarrow> PrinterRef \<Rightarrow> RenderedDocument \<Rightarrow> nat \<Rightarrow> SpoolerError + SystemQueuePayload" where
  "prepare_system_queue_submission env printer d maximum = (case d of
     PdfOutput pdf \<Rightarrow> prepare_pdf_submission (se_host env) printer pdf
   | _ \<Rightarrow>
       and_then (case pr_submission_mode printer of
           Raw EscPos \<Rightarrow> and_then (raw_bytes d) (\<lambda>bytes. Ok (RawEscPosPayload bytes))
         | Driver \<Rightarrow> and_then (driver_pages (se_drawing env) d)
             (\<lambda>(pages, compatibility). Ok (DriverPagesPayload pages compatibility))) (\<lambda>payload.
       and_then (enforce_submission_size (payload_bytes payload) maximum) (\<lambda>_. Ok payload)))"

section \<open>CUPS\<close>

definition cups_raw_args :: "ustring \<Rightarrow> ustring list" where
  "cups_raw_args queue = [lit ''-d'', queue, lit ''-o'', lit ''raw'']"

definition cups_driver_args :: "ustring \<Rightarrow> ustring list \<Rightarrow> ustring list" where
  "cups_driver_args queue paths = [lit ''-d'', queue] @ paths"

definition push_option :: "ustring \<Rightarrow> ustring \<Rightarrow> ustring list" where
  "push_option name v = [lit ''-o'', name @ lit ''='' @ v]"

fun cups_sides :: "Duplex \<Rightarrow> ustring" where
  "cups_sides Simplex = lit ''one-sided''"
| "cups_sides LongEdge = lit ''two-sided-long-edge''"
| "cups_sides ShortEdge = lit ''two-sided-short-edge''"

fun cups_media_name :: "PaperSize \<Rightarrow> ustring" where
  "cups_media_name (StandardPaper A4) = lit ''A4''"
| "cups_media_name (StandardPaper A5) = lit ''A5''"
| "cups_media_name (StandardPaper Letter) = lit ''Letter''"
| "cups_media_name (StandardPaper Legal) = lit ''Legal''"
| "cups_media_name (CustomPaper c) = lit ''Custom.'' @ dec (unat (width_mm c)) @ lit ''x'' @
     dec (unat (height_mm c)) @ lit ''mm''"

definition cups_pdf_args :: "ustring \<Rightarrow> PrintSettings \<Rightarrow> ustring \<Rightarrow> ustring list" where
  "cups_pdf_args queue s path =
     [lit ''-d'', queue, lit ''-n'', dec (unat (effective_copies s))] @
     (case set_page_ranges s of None \<Rightarrow> [] | Some ranges \<Rightarrow> [lit ''-P'', ranges]) @
     (case set_paper s of None \<Rightarrow> [] | Some paper \<Rightarrow> push_option (lit ''media'') (cups_media_name paper)) @
     (case set_orientation s of None \<Rightarrow> []
      | Some Portrait \<Rightarrow> push_option (lit ''orientation-requested'') (lit ''3'')
      | Some Landscape \<Rightarrow> push_option (lit ''orientation-requested'') (lit ''4'')) @
     push_option (lit ''sides'') (cups_sides (effective_duplex s)) @
     (case set_scaling s of
        Some (Percent percent) \<Rightarrow> push_option (lit ''print-scaling'') (lit ''none'') @
          push_option (lit ''scaling'') (dec (unat percent))
      | Some Fit \<Rightarrow> push_option (lit ''print-scaling'') (lit ''fit'')
      | Some Actual \<Rightarrow> push_option (lit ''print-scaling'') (lit ''none'')
      | None \<Rightarrow> push_option (lit ''print-scaling'') (lit ''none'')) @
     [path]"

definition parse_lp_job_id :: "ustring \<Rightarrow> ustring option" where
  "parse_lp_job_id out =
     (case list_get (dropWhile (\<lambda>w. w \<noteq> lit ''is'') (split_whitespace out)) 1 of
        Some v \<Rightarrow> if v \<noteq> [] \<and> byte_len v \<le> 256 then Some v else None
      | None \<Rightarrow> None)"

definition compatibility_metadata :: "EscPosDiagnostics option \<Rightarrow> (ustring \<times> ustring) list" where
  "compatibility_metadata compatibility = (case compatibility of None \<Rightarrow> []
     | Some diagnostics \<Rightarrow>
         [(lit ''compatibilityCommands'', dec (ed_interpreted_commands diagnostics)),
          (lit ''compatibilityCutRequested'', bool_text (ed_cut_requested diagnostics))])"

definition lp_receipt ::
  "'f spool_env \<Rightarrow> ustring \<Rightarrow> command_output \<Rightarrow> ustring \<Rightarrow> ustring \<Rightarrow> ustring option \<Rightarrow>
     EscPosDiagnostics option \<Rightarrow> SpoolerError + SubmissionReceipt" where
  "lp_receipt env queue out backend mode language compatibility =
     (if \<not> co_success out
      then Err (Rejected (take 1000 (trim (tl_utf8_lossy (se_text env) (co_stderr out)))))
      else Ok (spool_receipt (se_now env) backend
        (parse_lp_job_id (tl_utf8_lossy (se_text env) (co_stdout out)))
        (btree_collect ([(lit ''queue'', queue), (lit ''submissionMode'', mode)] @
          (case language of None \<Rightarrow> [] | Some l \<Rightarrow> [(lit ''language'', l)]) @
          compatibility_metadata compatibility))))"

definition queue_stage :: ustring where
  "queue_stage = lit ''system queue submission''"

definition cannot_start_lp :: "ustring \<Rightarrow> SpoolerError" where
  "cannot_start_lp e = BackendUnavailable (lit ''cannot start lp: '' @ e)"

definition submit_cups_raw ::
  "'f spool_env \<Rightarrow> ustring \<Rightarrow> byte list \<Rightarrow> nat \<Rightarrow> SubmissionReceipt spool_eff" where
  "submit_cups_raw env queue bytes deadline =
     ebind (elift (map_err cannot_start_lp (se_lp_spawn env))) (\<lambda>piped.
     ebind (elift (reject_if (\<not> piped)
       (BackendUnavailable (lit ''lp did not expose a standard input pipe'')))) (\<lambda>_.
     ebind (spool_do (LpWithInput (cups_raw_args queue) bytes)) (\<lambda>_.
     ebind (settle queue_stage deadline Connectivity (se_lp_run env)) (\<lambda>out.
     elift (lp_receipt env queue out (lit ''cups-raw'') (lit ''raw'') (Some (lit ''esc-pos'')) None)))))"

text \<open>Each page becomes a temporary file, in order.\<close>

fun write_pages ::
  "'f spool_env \<Rightarrow> nat \<Rightarrow> RasterPage list \<Rightarrow> SpoolerError + (ustring \<times> byte list) list" where
  "write_pages env k [] = Ok []"
| "write_pages env k (page # pages) =
     and_then (map_err (\<lambda>e. DocumentRender (RendererError_to_string e))
       (encode_raster_page_png (se_png env) page)) (\<lambda>image.
     and_then (map_err BackendUnavailable (se_temp_file env k)) (\<lambda>path.
     and_then (map_err Connectivity (se_write_file env k)) (\<lambda>_.
     and_then (write_pages env (k + 1) pages) (\<lambda>files. Ok ((path, image) # files)))))"

definition submit_cups_driver ::
  "'f spool_env \<Rightarrow> ustring \<Rightarrow> RasterDocument \<Rightarrow> EscPosDiagnostics option \<Rightarrow> nat \<Rightarrow>
     SubmissionReceipt spool_eff" where
  "submit_cups_driver env queue pages compatibility deadline =
     ebind (elift (reject_if (pages = []) (DocumentRender (lit ''driver document contains no pages'')))) (\<lambda>_.
     ebind (elift (write_pages env 0 pages)) (\<lambda>files.
     ebind (spool_do (LpWithFiles (cups_driver_args queue (map fst files)) (map snd files))) (\<lambda>_.
     ebind (settle queue_stage deadline cannot_start_lp (se_lp_run env)) (\<lambda>out.
     elift (lp_receipt env queue out (lit ''cups-filter'') (lit ''driver'') None compatibility)))))"

definition submit_cups_pdf ::
  "'f spool_env \<Rightarrow> ustring \<Rightarrow> PdfPrintDocument \<Rightarrow> nat \<Rightarrow> SubmissionReceipt spool_eff" where
  "submit_cups_pdf env queue d deadline =
     ebind (elift (map_err BackendUnavailable (se_temp_file env 0))) (\<lambda>path.
     ebind (elift (map_err Connectivity (se_write_file env 0))) (\<lambda>_.
     ebind (spool_do (LpWithFiles (cups_pdf_args queue (pp_settings d) path) [pp_bytes d])) (\<lambda>_.
     ebind (settle queue_stage deadline cannot_start_lp (se_lp_run env)) (\<lambda>out.
     elift (lp_receipt env queue out (lit ''cups-pdf'') (lit ''pdf'') (Some (lit ''pdf'')) None)))))"

section \<open>Windows\<close>

definition windows_print_raw :: "'f spool_env \<Rightarrow> ustring \<Rightarrow> byte list \<Rightarrow> SubmissionReceipt spool_eff" where
  "windows_print_raw env queue bytes =
     ebind (elift (reject_if (\<not> se_find_queue env queue)
       (Connectivity (lit ''the Windows print spooler has no queue named '' @ queue)))) (\<lambda>_.
     ebind (spool_do (WindowsRaw queue bytes)) (\<lambda>_.
     ebind (elift (map_err (\<lambda>e. Rejected (take 1000 e)) (se_windows_raw env))) (\<lambda>job.
     eret (spool_receipt (se_now env) (lit ''windows-spooler'') (Some (dec job)) (btree_collect
       [(lit ''queue'', queue), (lit ''submissionMode'', lit ''raw''), (lit ''language'', lit ''esc-pos'')])))))"

definition windows_print_driver ::
  "'f spool_env \<Rightarrow> ustring \<Rightarrow> RasterDocument \<Rightarrow> EscPosDiagnostics option \<Rightarrow> SubmissionReceipt spool_eff" where
  "windows_print_driver env queue pages compatibility =
     ebind (spool_do (WindowsDriver queue pages)) (\<lambda>_.
     ebind (elift (map_err (\<lambda>e. Rejected (PrintError_to_string e))
       (fst (print_with_api (se_driver env) queue pages [])))) (\<lambda>job.
     eret (spool_receipt (se_now env) (lit ''windows-gdi'') (Some (dec job)) (btree_collect
       ([(lit ''queue'', queue), (lit ''submissionMode'', lit ''driver''),
         (lit ''pageCount'', dec (length pages))] @ compatibility_metadata compatibility)))))"

definition DRIVER_PDF_DPI :: "16 word" where "DRIVER_PDF_DPI = 300"

definition rasterize_for_driver ::
  "'f spool_env \<Rightarrow> PdfPrintDocument \<Rightarrow> nat \<Rightarrow> SpoolerError + RasterDocument" where
  "rasterize_for_driver env d deadline =
     map_err (\<lambda>e. case e of
         RasterizationTimedOut \<Rightarrow> SpoolerTimeout (lit ''PDF rasterization'') deadline
       | _ \<Rightarrow> DocumentRender (RendererError_to_string e))
       (se_rasterize env d DRIVER_PDF_DPI)"

definition windows_print_pdf ::
  "'f spool_env \<Rightarrow> ustring \<Rightarrow> PdfPrintDocument \<Rightarrow> nat \<Rightarrow> SubmissionReceipt spool_eff" where
  "windows_print_pdf env queue d deadline =
     ebind (elift (rasterize_for_driver env d deadline)) (\<lambda>raster.
     windows_print_driver env queue raster None)"

section \<open>System queues\<close>

text \<open>
  On Windows the submission runs on a worker which cancellation and the deadline do not stop; the
  calls listed are those it makes when it runs to its end. \<open>NativePdf\<close> exists only on Unix and
  \<open>RasterPdf\<close> only on Windows; \<open>prepare_on_host\<close> below shows that the other target never meets them.
\<close>

definition submit_system_queue ::
  "'f spool_env \<Rightarrow> ustring \<Rightarrow> SystemQueuePayload \<Rightarrow> nat \<Rightarrow> SubmissionReceipt spool_eff" where
  "submit_system_queue env queue payload deadline = (case se_host env of
     UnixHost \<Rightarrow> (case payload of
         RawEscPosPayload bytes \<Rightarrow> submit_cups_raw env queue bytes deadline
       | DriverPagesPayload pages compatibility \<Rightarrow> submit_cups_driver env queue pages compatibility deadline
       | NativePdfPayload d \<Rightarrow> submit_cups_pdf env queue d deadline
       | RasterPdfPayload d \<Rightarrow> elift (Err (BackendUnavailable [])))
   | WindowsHost \<Rightarrow> ecase (case payload of
         RawEscPosPayload bytes \<Rightarrow> windows_print_raw env queue bytes
       | DriverPagesPayload pages compatibility \<Rightarrow> windows_print_driver env queue pages compatibility
       | RasterPdfPayload d \<Rightarrow> windows_print_pdf env queue d deadline
       | NativePdfPayload d \<Rightarrow> elift (Err (BackendUnavailable []))) (\<lambda>result.
       ebind (settle queue_stage deadline (\<lambda>e. BackendUnavailable (lit ''print worker did not finish: '' @ e))
         (se_worker env)) (\<lambda>_. elift result))
   | OtherHost \<Rightarrow> elift (Err (BackendUnavailable
       (lit ''system queue submission is not implemented on this platform''))))"

record SystemQueueSpooler =
  sq_submission_timeout :: nat
  sq_max_submission_bytes :: nat

definition SystemQueueSpooler_default :: SystemQueueSpooler where
  "SystemQueueSpooler_default = \<lparr>sq_submission_timeout = 30000000000,
     sq_max_submission_bytes = DEFAULT_MAX_SUBMISSION_BYTES\<rparr>"

definition SystemQueueSpooler_submit ::
  "SystemQueueSpooler \<Rightarrow> 'f spool_env \<Rightarrow> PrinterRef \<Rightarrow> RenderedDocument \<Rightarrow> SubmissionReceipt spool_eff" where
  "SystemQueueSpooler_submit s env printer d = (case pr_connection printer of
     SystemQueue queue \<Rightarrow>
       ebind (elift (prepare_system_queue_submission env printer d (sq_max_submission_bytes s))) (\<lambda>prepared.
       submit_system_queue env queue prepared (sq_submission_timeout s))
   | c \<Rightarrow> elift (Err (UnsupportedTarget (connection_kind c))))"

end
