(* ===== verification/Spooler_Laws.thy ===== *)
theory Spooler_Laws
  imports Spoolers
begin

text \<open>
  What an accepted submission handed to its backend, that a refused one handed over nothing, and
  that the arguments of \<open>lp\<close> determine the print settings.
\<close>

section \<open>Settings\<close>

lemma cups_sides_inject: "cups_sides d = cups_sides e \<Longrightarrow> d = e"
  by (cases d; cases e) (simp_all add: lit_def)

lemma cups_media_inject: "cups_media_name p = cups_media_name q \<Longrightarrow> p = q"
proof -
  assume eq: "cups_media_name p = cups_media_name q"
  show "p = q"
  proof (cases "(\<exists>c. p = CustomPaper c) \<and> (\<exists>c. q = CustomPaper c)")
    case True
    then obtain a b where ab: "p = CustomPaper a" "q = CustomPaper b" by blast
    have "dec (unat (width_mm a)) @ 120 # dec (unat (height_mm a)) @ [109, 109] =
        dec (unat (width_mm b)) @ 120 # dec (unat (height_mm b)) @ [109, 109]"
      using eq ab by (simp add: lit_def)
    from dec_takeWhile [OF this] have "unat (width_mm a) = unat (width_mm b)" "unat (height_mm a) = unat (height_mm b)"
      by (simp_all add: is_ascii_digit_def dec_inject)
    then show ?thesis using ab by (cases a; cases b) (simp add: word_unat_eq_iff)
  next
    case False
    then show ?thesis using eq
      by (cases p rule: cups_media_name.cases; cases q rule: cups_media_name.cases) (simp_all add: lit_def)
  qed
qed

text \<open>An optional argument can be told from what follows it.\<close>

lemma peel_pages:
  assumes "(case r of None \<Rightarrow> [] | Some v \<Rightarrow> [lit ''-P'', v]) @ lit ''-o'' # xs =
    (case r' of None \<Rightarrow> [] | Some v \<Rightarrow> [lit ''-P'', v]) @ lit ''-o'' # ys"
  shows "r = r' \<and> xs = ys"
  using assms by (cases r; cases r') (auto simp: lit_def)

lemma peel_option:
  assumes "(case r of None \<Rightarrow> [] | Some v \<Rightarrow> push_option (c # name) (f v)) @ [lit ''-o'', a # s] @ xs =
    (case r' of None \<Rightarrow> [] | Some v \<Rightarrow> push_option (c # name) (f v)) @ [lit ''-o'', b # t] @ ys"
    and "a \<noteq> c" "b \<noteq> c"
  shows "map_option f r = map_option f r' \<and> [lit ''-o'', a # s] @ xs = [lit ''-o'', b # t] @ ys"
  using assms by (cases r; cases r') (auto simp: push_option_def)

definition settings_meaning :: "PrintSettings \<Rightarrow>
  16 word \<times> ustring option \<times> PaperSize option \<times> Orientation option \<times> Duplex \<times> Scaling" where
  "settings_meaning s = (effective_copies s, set_page_ranges s, set_paper s, set_orientation s,
     effective_duplex s, (case set_scaling s of None \<Rightarrow> Actual | Some c \<Rightarrow> c))"

fun scaling_args :: "Scaling \<Rightarrow> ustring list" where
  "scaling_args (Percent percent) = push_option (lit ''print-scaling'') (lit ''none'') @
     push_option (lit ''scaling'') (dec (unat percent))"
| "scaling_args Fit = push_option (lit ''print-scaling'') (lit ''fit'')"
| "scaling_args Actual = push_option (lit ''print-scaling'') (lit ''none'')"

lemma scaling_args_inject:
  assumes "scaling_args c @ [p] = scaling_args d @ [q]"
  shows "c = d \<and> p = q"
  using assms
  by (cases c; cases d) (simp_all add: push_option_def lit_def dec_inject word_unat_eq_iff)

definition orientation_number :: "Orientation \<Rightarrow> ustring" where
  "orientation_number v = (case v of Portrait \<Rightarrow> lit ''3'' | Landscape \<Rightarrow> lit ''4'')"

definition sides_and_rest :: "PrintSettings \<Rightarrow> ustring \<Rightarrow> ustring list" where
  "sides_and_rest s path = [lit ''-o'', 115 # lit ''ides='' @ cups_sides (effective_duplex s)] @
     scaling_args (case set_scaling s of None \<Rightarrow> Actual | Some c \<Rightarrow> c) @ [path]"

lemma cups_pdf_args_shape:
  "cups_pdf_args queue s path = [lit ''-d'', queue, lit ''-n'', dec (unat (effective_copies s))] @
     (case set_page_ranges s of None \<Rightarrow> [] | Some v \<Rightarrow> [lit ''-P'', v]) @
     (case set_paper s of None \<Rightarrow> [] | Some v \<Rightarrow> push_option (109 # lit ''edia'') (cups_media_name v)) @
     (case set_orientation s of None \<Rightarrow> []
      | Some v \<Rightarrow> push_option (111 # lit ''rientation-requested'') (orientation_number v)) @
     sides_and_rest s path"
proof -
  have c: "(case set_scaling s of
        Some (Percent percent) \<Rightarrow> push_option (lit ''print-scaling'') (lit ''none'') @
          push_option (lit ''scaling'') (dec (unat percent))
      | Some Fit \<Rightarrow> push_option (lit ''print-scaling'') (lit ''fit'')
      | Some Actual \<Rightarrow> push_option (lit ''print-scaling'') (lit ''none'')
      | None \<Rightarrow> push_option (lit ''print-scaling'') (lit ''none'')) =
      scaling_args (case set_scaling s of None \<Rightarrow> Actual | Some c \<Rightarrow> c)"
    by (simp split: option.splits Scaling.splits)
  have o: "(case set_orientation s of None \<Rightarrow> []
      | Some Portrait \<Rightarrow> push_option (lit ''orientation-requested'') (lit ''3'')
      | Some Landscape \<Rightarrow> push_option (lit ''orientation-requested'') (lit ''4'')) =
      (case set_orientation s of None \<Rightarrow> []
      | Some v \<Rightarrow> push_option (111 # lit ''rientation-requested'') (orientation_number v))"
    by (simp add: orientation_number_def lit_def split: option.splits Orientation.splits)
  have names: "lit ''media'' = 109 # lit ''edia''"
    "push_option (lit ''sides'') v = [lit ''-o'', 115 # lit ''ides='' @ v]" for v
    by (simp_all add: lit_def push_option_def)
  show ?thesis unfolding cups_pdf_args_def c o names sides_and_rest_def by simp
qed

text \<open>The tail after an option starts with an option of another name.\<close>

lemma sides_start: "\<exists>xs. sides_and_rest s path = [lit ''-o'', 115 # lit ''ides='' @ cups_sides (effective_duplex s)] @ xs"
  by (simp add: sides_and_rest_def)

lemma orientation_start:
  "\<exists>a t xs. a \<noteq> 109 \<and> (case set_orientation s of None \<Rightarrow> []
      | Some v \<Rightarrow> push_option (111 # lit ''rientation-requested'') (orientation_number v)) @
     sides_and_rest s path = [lit ''-o'', a # t] @ xs"
  by (cases "set_orientation s") (auto simp: push_option_def sides_and_rest_def)

lemma paper_start:
  "\<exists>xs. (case set_paper s of None \<Rightarrow> [] | Some v \<Rightarrow> push_option (109 # lit ''edia'') (cups_media_name v)) @
     (case set_orientation s of None \<Rightarrow> []
      | Some v \<Rightarrow> push_option (111 # lit ''rientation-requested'') (orientation_number v)) @
     sides_and_rest s path = lit ''-o'' # xs"
  by (cases "set_paper s"; cases "set_orientation s") (auto simp: push_option_def sides_and_rest_def)

lemma cups_pdf_args_inject:
  assumes "cups_pdf_args queue s path = cups_pdf_args queue' s' path'"
  shows "queue = queue' \<and> settings_meaning s = settings_meaning s' \<and> path = path'"
proof -
  let ?O = "\<lambda>s. case set_orientation s of None \<Rightarrow> []
      | Some v \<Rightarrow> push_option (111 # lit ''rientation-requested'') (orientation_number v)"
  let ?M = "\<lambda>s. case set_paper s of None \<Rightarrow> [] | Some v \<Rightarrow> push_option (109 # lit ''edia'') (cups_media_name v)"
  have head: "queue = queue'" "effective_copies s = effective_copies s'"
    and tail: "(case set_page_ranges s of None \<Rightarrow> [] | Some v \<Rightarrow> [lit ''-P'', v]) @ ?M s @ ?O s @ sides_and_rest s path =
      (case set_page_ranges s' of None \<Rightarrow> [] | Some v \<Rightarrow> [lit ''-P'', v]) @ ?M s' @ ?O s' @ sides_and_rest s' path'"
    using assms unfolding cups_pdf_args_shape by (simp_all add: dec_inject word_unat_eq_iff)
  have ranges: "set_page_ranges s = set_page_ranges s'"
    and tail: "?M s @ ?O s @ sides_and_rest s path = ?M s' @ ?O s' @ sides_and_rest s' path'"
    using peel_pages [where r = "set_page_ranges s" and r' = "set_page_ranges s'"] tail
      paper_start [of s path] paper_start [of s' path'] by metis+
  have "map_option cups_media_name (set_paper s) = map_option cups_media_name (set_paper s')"
    and tail: "?O s @ sides_and_rest s path = ?O s' @ sides_and_rest s' path'"
    using peel_option [where r = "set_paper s" and r' = "set_paper s'" and f = cups_media_name] tail
      orientation_start [of s path] orientation_start [of s' path'] by metis+
  moreover from this have paper: "set_paper s = set_paper s'"
    using cups_media_inject option.inj_map_strong by metis
  have "map_option orientation_number (set_orientation s) = map_option orientation_number (set_orientation s')"
    and tail: "sides_and_rest s path = sides_and_rest s' path'"
    using peel_option [OF tail [unfolded sides_and_rest_def]] unfolding sides_and_rest_def by simp_all
  moreover have "orientation_number v = orientation_number w \<Longrightarrow> v = w" for v w
    by (cases v; cases w) (simp_all add: orientation_number_def lit_def)
  ultimately have orientation: "set_orientation s = set_orientation s'"
    using option.inj_map_strong by metis
  have "effective_duplex s = effective_duplex s'"
    "(case set_scaling s of None \<Rightarrow> Actual | Some c \<Rightarrow> c) = (case set_scaling s' of None \<Rightarrow> Actual | Some c \<Rightarrow> c)"
    "path = path'"
    using tail scaling_args_inject cups_sides_inject by (auto simp: sides_and_rest_def)
  with head ranges paper orientation show ?thesis by (simp add: settings_meaning_def)
qed

section \<open>What an accepted submission handed over\<close>

definition complete_submission ::
  "'f spool_env \<Rightarrow> PrinterRef \<Rightarrow> RenderedDocument \<Rightarrow> spool_call list \<Rightarrow> bool" where
  "complete_submission env printer d calls \<longleftrightarrow> (case pr_connection printer of
     Network host port \<Rightarrow> (\<exists>bytes width. d = EscPosOutput bytes width \<and>
       calls = [TcpConnect host port, TcpWrite bytes])
   | SystemQueue queue \<Rightarrow> (case (d, pr_submission_mode printer) of
       (PdfOutput pdf, Driver) \<Rightarrow>
         if se_host env = UnixHost
         then \<exists>path. calls = [LpWithFiles (cups_pdf_args queue (pp_settings pdf) path) [pp_bytes pdf]]
         else \<exists>pages. se_rasterize env pdf DRIVER_PDF_DPI = Ok pages \<and> calls = [WindowsDriver queue pages]
     | (EscPosOutput bytes width, Raw EscPos) \<Rightarrow>
         calls = [if se_host env = UnixHost then LpWithInput (cups_raw_args queue) bytes else WindowsRaw queue bytes]
     | (_, Driver) \<Rightarrow> \<exists>pages compatibility. driver_pages (se_drawing env) d = Ok (pages, compatibility) \<and>
         (if se_host env = UnixHost
          then \<exists>files. list_all2 (\<lambda>page file. encode_raster_page_png (se_png env) page = Ok (snd file)) pages files \<and>
            calls = [LpWithFiles (cups_driver_args queue (map fst files)) (map snd files)]
          else calls = [WindowsDriver queue pages])
     | _ \<Rightarrow> False)
   | _ \<Rightarrow> False)"

lemma spool_do_eq: "spool_do c calls = (r, calls') \<longleftrightarrow> r = Inr () \<and> calls' = calls @ [c]"
  by (auto simp: spool_do_def)

lemma settle_Ok: "settle stage deadline f r calls = (Inr a, calls') \<longleftrightarrow> r = Finished (Inr a) \<and> calls' = calls"
  by (auto simp: settle_def split: race.splits)

lemmas spool_steps = ebind_Ok ebind_Err spool_do_eq settle_Ok

lemma write_pages_images:
  "write_pages env k pages = Ok files \<Longrightarrow>
     list_all2 (\<lambda>page file. encode_raster_page_png (se_png env) page = Ok (snd file)) pages files"
  by (induction pages arbitrary: k files) (auto simp: and_then_Ok)

lemma raw_tcp_complete:
  assumes "RawTcpSpooler_submit s env printer d [] = (Ok receipt, calls)"
  shows "complete_submission env printer d calls \<and>
     RenderedDocument_byte_len d \<le> rt_max_submission_bytes s"
proof (cases "pr_connection printer")
  case (Network host port)
  with assms obtain bytes where "raw_bytes d = Ok bytes" "length bytes \<le> rt_max_submission_bytes s"
    "calls = [TcpConnect host port, TcpWrite bytes]"
    by (auto simp: RawTcpSpooler_submit_def spool_steps enforce_submission_size_def)
  with Network show ?thesis
    by (cases d) (auto simp: raw_bytes_def complete_submission_def)
qed (use assms in \<open>simp_all add: RawTcpSpooler_submit_def\<close>)

text \<open>
  The limits of a submission through a system queue, on what is handed over: the raw bytes or the bytes of
  the pages that are printed against the configured limit, a PDF given to CUPS against its own.
\<close>

definition submission_within :: "'f spool_env \<Rightarrow> PrinterRef \<Rightarrow> RenderedDocument \<Rightarrow> nat \<Rightarrow> bool" where
  "submission_within env printer d maximum = (case d of
     PdfOutput pdf \<Rightarrow> se_host env = UnixHost \<longrightarrow> length (pp_bytes pdf) \<le> MAX_PDF_DOCUMENT_BYTES
   | _ \<Rightarrow> (case pr_submission_mode printer of
         Raw EscPos \<Rightarrow> RenderedDocument_byte_len d \<le> maximum
       | Driver \<Rightarrow> (case driver_pages (se_drawing env) d of
             Ok (pages, _) \<Rightarrow> sum_list (map (length \<circ> rp_data) pages) \<le> maximum
           | Err _ \<Rightarrow> False)))"

text \<open>The payload of a host is one the host can submit.\<close>

lemma prepare_on_host:
  assumes "prepare_system_queue_submission env printer d maximum = Ok payload"
  shows "(case payload of
     RawEscPosPayload bytes \<Rightarrow> (\<exists>w. d = EscPosOutput bytes w) \<and> pr_submission_mode printer = Raw EscPos
   | DriverPagesPayload pages c \<Rightarrow> driver_pages (se_drawing env) d = Ok (pages, c) \<and>
       pr_submission_mode printer = Driver \<and> (\<forall>pdf. d \<noteq> PdfOutput pdf)
   | NativePdfPayload pdf \<Rightarrow> d = PdfOutput pdf \<and> se_host env = UnixHost \<and> pr_submission_mode printer = Driver
   | RasterPdfPayload pdf \<Rightarrow> d = PdfOutput pdf \<and> se_host env = WindowsHost \<and> pr_submission_mode printer = Driver) \<and>
   submission_within env printer d maximum"
proof (cases "\<exists>pdf. d = PdfOutput pdf")
  case True
  with assms show ?thesis
    by (auto simp: prepare_system_queue_submission_def prepare_pdf_submission_def and_then_Ok
        submission_within_def enforce_submission_size_def split: HostPlatform.splits)
next
  case False
  then have "prepare_system_queue_submission env printer d maximum =
      and_then (case pr_submission_mode printer of
           Raw EscPos \<Rightarrow> and_then (raw_bytes d) (\<lambda>bytes. Ok (RawEscPosPayload bytes))
         | Driver \<Rightarrow> and_then (driver_pages (se_drawing env) d)
             (\<lambda>(pages, compatibility). Ok (DriverPagesPayload pages compatibility))) (\<lambda>payload.
       and_then (enforce_submission_size (payload_bytes payload) maximum) (\<lambda>_. Ok payload))"
    by (cases d) (auto simp: prepare_system_queue_submission_def)
  note choice = this [symmetric, unfolded assms]
  show ?thesis
  proof (cases "pr_submission_mode printer")
    case Driver
    then show ?thesis using choice False
      by (cases d) (auto simp: and_then_Ok enforce_submission_size_def submission_within_def comp_def)
  next
    case (Raw language)
    then have "and_then (raw_bytes d) (\<lambda>bytes. Ok (RawEscPosPayload bytes)) = Ok payload"
      "payload_bytes payload \<le> maximum"
      using choice by (cases language; auto simp: and_then_Ok enforce_submission_size_def)+
    then show ?thesis using Raw by (cases language; cases d) (auto simp: raw_bytes_def submission_within_def)
  qed
qed

lemma cups_raw_complete:
  "submit_cups_raw env queue bytes deadline calls0 = (Ok receipt, calls) \<Longrightarrow>
     calls = calls0 @ [LpWithInput (cups_raw_args queue) bytes]"
  by (auto simp: submit_cups_raw_def spool_steps)

lemma cups_driver_complete:
  "submit_cups_driver env queue pages c deadline calls0 = (Ok receipt, calls) \<Longrightarrow>
     \<exists>files. list_all2 (\<lambda>page file. encode_raster_page_png (se_png env) page = Ok (snd file)) pages files \<and>
       calls = calls0 @ [LpWithFiles (cups_driver_args queue (map fst files)) (map snd files)]"
  by (auto simp: submit_cups_driver_def spool_steps dest: write_pages_images)

lemma cups_pdf_complete:
  "submit_cups_pdf env queue d deadline calls0 = (Ok receipt, calls) \<Longrightarrow>
     \<exists>path. calls = calls0 @ [LpWithFiles (cups_pdf_args queue (pp_settings d) path) [pp_bytes d]]"
  by (auto simp: submit_cups_pdf_def spool_steps)

lemma windows_complete:
  "windows_print_raw env queue bytes calls0 = (Ok receipt, calls) \<Longrightarrow> calls = calls0 @ [WindowsRaw queue bytes]"
  "windows_print_driver env queue pages c calls0 = (Ok receipt, calls) \<Longrightarrow> calls = calls0 @ [WindowsDriver queue pages]"
  "windows_print_pdf env queue d deadline calls0 = (Ok receipt, calls) \<Longrightarrow>
     \<exists>pages. se_rasterize env d DRIVER_PDF_DPI = Ok pages \<and> calls = calls0 @ [WindowsDriver queue pages]"
  by (auto simp: windows_print_raw_def windows_print_driver_def windows_print_pdf_def spool_steps
      rasterize_for_driver_def)

lemma system_queue_complete:
  assumes "SystemQueueSpooler_submit s env printer d [] = (Ok receipt, calls)"
  shows "complete_submission env printer d calls \<and> submission_within env printer d (sq_max_submission_bytes s)"
proof (cases "pr_connection printer")
  case (SystemQueue queue)
  with assms obtain payload where prepared:
      "prepare_system_queue_submission env printer d (sq_max_submission_bytes s) = Ok payload"
    and submitted: "submit_system_queue env queue payload (sq_submission_timeout s) [] = (Ok receipt, calls)"
    by (auto simp: SystemQueueSpooler_submit_def spool_steps)
  note p = prepare_on_host [OF prepared]
  show ?thesis
  proof (cases payload)
    case (RawEscPosPayload bytes)
    then show ?thesis using p submitted SystemQueue
      by (auto simp: complete_submission_def submit_system_queue_def ecase_eq spool_steps
          split: HostPlatform.splits dest: cups_raw_complete windows_complete(1))
  next
    case (DriverPagesPayload pages c)
    then have pages: "driver_pages (se_drawing env) d = Ok (pages, c)" "pr_submission_mode printer = Driver"
      "\<forall>pdf. d \<noteq> PdfOutput pdf" "submission_within env printer d (sq_max_submission_bytes s)" using p by auto
    have "(if se_host env = UnixHost
          then \<exists>files. list_all2 (\<lambda>page file. encode_raster_page_png (se_png env) page = Ok (snd file)) pages files \<and>
            calls = [LpWithFiles (cups_driver_args queue (map fst files)) (map snd files)]
          else calls = [WindowsDriver queue pages])"
      using submitted DriverPagesPayload
      by (auto simp: submit_system_queue_def ecase_eq spool_steps split: HostPlatform.splits
          dest!: cups_driver_complete windows_complete(2))
    then show ?thesis using pages SystemQueue by (cases d) (auto simp: complete_submission_def)
  next
    case (NativePdfPayload pdf)
    then show ?thesis using p submitted SystemQueue
      by (auto simp: complete_submission_def submit_system_queue_def dest!: cups_pdf_complete)
  next
    case (RasterPdfPayload pdf)
    then show ?thesis using p submitted SystemQueue
      by (auto simp: complete_submission_def submit_system_queue_def ecase_eq spool_steps
          dest!: windows_complete(3))
  qed
qed (use assms in \<open>simp_all add: SystemQueueSpooler_submit_def\<close>)

end
