(* ===== verification/Virtual_Spooler.thy ===== *)
theory Virtual_Spooler
  imports Spoolers
begin

text \<open>
  The virtual printer (\<open>crates/oppa-spooler/src/lib.rs\<close>, \<open>VirtualSpooler\<close>) with its bounded
  history, and the per-printer devices of the desktop application
  (\<open>apps/oppa/src-tauri/src/virtual_spooler.rs\<close>). The state of a spooler is what its mutex guards.
\<close>

section \<open>Simulation and history\<close>

datatype VirtualSimulation = SimAlwaysSucceed | SimFailNext | SimAlwaysFail | SimDelay nat | SimOffline

datatype VirtualOutcome = OutcomeAccepted | OutcomeRejected | OutcomeOffline

record VirtualPreview =
  vp_pages :: "RasterPage list"
  vp_escpos :: "EscPosDiagnostics option"

record VirtualSubmission =
  vsub_job_id :: PrintJobId
  vsub_printer_id :: PrinterId
  vsub_recorded_at :: Timestamp
  vsub_outcome :: VirtualOutcome
  vsub_document :: RenderedDocument
  vsub_preview :: VirtualPreview

definition retained_bytes :: "VirtualSubmission \<Rightarrow> nat" where
  "retained_bytes v = RenderedDocument_byte_len (vsub_document v) +
     sum_list (map (\<lambda>p. length (rp_data p)) (vp_pages (vsub_preview v)))"

record VirtualState =
  vst_simulation :: VirtualSimulation
  vst_history :: "VirtualSubmission list"
  vst_retained_bytes :: nat

definition VirtualState_default :: VirtualState where
  "VirtualState_default = \<lparr>vst_simulation = SimAlwaysSucceed, vst_history = [], vst_retained_bytes = 0\<rparr>"

definition DEFAULT_MAX_VIRTUAL_HISTORY :: nat where "DEFAULT_MAX_VIRTUAL_HISTORY = 20"
definition MAX_VIRTUAL_HISTORY_BYTES :: nat where "MAX_VIRTUAL_HISTORY_BYTES = 64 * 1024 * 1024"
definition VIRTUAL_PREVIEW_DPI :: "16 word" where "VIRTUAL_PREVIEW_DPI = 100"

record VirtualSpooler =
  vsp_max_history :: nat
  vsp_max_submission_bytes :: nat

definition VirtualSpooler_new :: "nat \<Rightarrow> nat \<Rightarrow> SpoolerError + VirtualSpooler" where
  "VirtualSpooler_new max_history max_submission_bytes =
     (if max_history = 0 \<or> max_submission_bytes = 0
      then Err (InvalidConfiguration (lit ''virtual history and submission limits must be greater than zero''))
      else Ok \<lparr>vsp_max_history = max_history, vsp_max_submission_bytes = max_submission_bytes\<rparr>)"

definition VirtualSpooler_default :: VirtualSpooler where
  "VirtualSpooler_default = \<lparr>vsp_max_history = DEFAULT_MAX_VIRTUAL_HISTORY,
     vsp_max_submission_bytes = DEFAULT_MAX_SUBMISSION_BYTES\<rparr>"

definition set_simulation :: "VirtualSimulation \<Rightarrow> VirtualState \<Rightarrow> VirtualState" where
  "set_simulation simulation s = s\<lparr>vst_simulation := simulation\<rparr>"

definition clear_history :: "VirtualState \<Rightarrow> VirtualState" where
  "clear_history s = s\<lparr>vst_history := [], vst_retained_bytes := 0\<rparr>"

text \<open>The oldest entries leave until the new one fits or nothing is left.\<close>

fun evict_oldest :: "nat \<Rightarrow> nat \<Rightarrow> VirtualSubmission list \<Rightarrow> nat \<Rightarrow> VirtualSubmission list \<times> nat" where
  "evict_oldest max_history incoming [] retained = ([], retained)"
| "evict_oldest max_history incoming (v # vs) retained =
     (if length (v # vs) \<ge> max_history \<or> sat_usize (retained + incoming) > MAX_VIRTUAL_HISTORY_BYTES
      then evict_oldest max_history incoming vs (retained - retained_bytes v)
      else (v # vs, retained))"

definition record_submission :: "VirtualSpooler \<Rightarrow> VirtualSubmission \<Rightarrow> VirtualState \<Rightarrow> VirtualState" where
  "record_submission sp v s =
     (let incoming = retained_bytes v;
          (history, retained) = evict_oldest (vsp_max_history sp) incoming (vst_history s) (vst_retained_bytes s) in
      s\<lparr>vst_history := history @ [v], vst_retained_bytes := sat_usize (retained + incoming)\<rparr>)"

definition take_simulation :: "VirtualState \<Rightarrow> VirtualSimulation \<times> VirtualState" where
  "take_simulation s = (let current = vst_simulation s in
     (current, if current = SimFailNext then s\<lparr>vst_simulation := SimAlwaysSucceed\<rparr> else s))"

section \<open>The preview\<close>

text \<open>\<open>rasterize\<close> is the rasterisation of a PDF within the preview deadline.\<close>

record 'f virtual_env =
  ve_drawing :: "'f drawing"
  ve_rasterize :: "PdfPrintDocument \<Rightarrow> 16 word \<Rightarrow> RendererError + RasterDocument"
  ve_worker_error :: "ustring option"
  ve_cancelled_in_delay :: bool
  ve_cancelled :: bool
  ve_now :: Timestamp
  ve_uuid :: ustring

definition spooler_receipt_width :: "16 word \<Rightarrow> SpoolerError + ReceiptWidth" where
  "spooler_receipt_width w =
     (if w = 58 then Ok Mm58 else if w = 80 then Ok Mm80
      else Err (InvalidTarget (lit ''virtual receipt width must be 58 or 80 millimetres'')))"

definition render_failure :: "RendererError \<Rightarrow> SpoolerError" where
  "render_failure e = DocumentRender (RendererError_to_string e)"

definition receipt_preview :: "'f virtual_env \<Rightarrow> 16 word \<Rightarrow> RenderedDocument \<Rightarrow> SpoolerError + VirtualPreview" where
  "receipt_preview env w d = (case d of
     EscPosOutput bytes _ \<Rightarrow>
       and_then (spooler_receipt_width w) (\<lambda>width.
       and_then (map_err render_failure (interpret_escpos width bytes)) (\<lambda>interpretation.
       and_then (map_err render_failure (render_layout_receipt (ve_drawing env) (ei_layout interpretation) 203)) (\<lambda>pages.
       Ok \<lparr>vp_pages = pages, vp_escpos = Some (ei_diagnostics interpretation)\<rparr>)))
   | _ \<Rightarrow> Err (UnsupportedDocument (lit ''virtual ESC/POS device'') (RenderedDocument_kind d)))"

definition page_preview :: "'f virtual_env \<Rightarrow> PageRenderOptions \<Rightarrow> RenderedDocument \<Rightarrow> SpoolerError + VirtualPreview" where
  "page_preview env options d = (case d of
     RasterOutput pages \<Rightarrow> Ok \<lparr>vp_pages = pages, vp_escpos = None\<rparr>
   | EscPosOutput bytes width \<Rightarrow>
       and_then (map_err render_failure (render_escpos_for_page (ve_drawing env) bytes width options))
         (\<lambda>(pages, diagnostics). Ok \<lparr>vp_pages = pages, vp_escpos = Some diagnostics\<rparr>)
   | PdfOutput pdf \<Rightarrow>
       and_then (map_err render_failure (ve_rasterize env pdf VIRTUAL_PREVIEW_DPI))
         (\<lambda>pages. Ok \<lparr>vp_pages = pages, vp_escpos = None\<rparr>)
   | _ \<Rightarrow> Err (UnsupportedDocument (lit ''virtual system driver device'') (RenderedDocument_kind d)))"

definition virtual_preview :: "'f virtual_env \<Rightarrow> PrinterRef \<Rightarrow> RenderedDocument \<Rightarrow> SpoolerError + VirtualPreview" where
  "virtual_preview env printer d =
     and_then (ok_or (InvalidTarget (lit ''virtual printer profile is missing'')) (pr_virtual_profile printer)) (\<lambda>profile.
     case profile of
       EscPosReceipt w \<Rightarrow> receipt_preview env w d
     | SystemDriverPage w h dpi \<Rightarrow>
         page_preview env \<lparr>opt_width_mm = w, opt_height_mm = h, opt_dpi = dpi\<rparr> d)"

section \<open>Submission\<close>

type_synonym 'a virtual_eff = "(VirtualState, SpoolerError, 'a) eff"

fun simulated_outcome :: "VirtualSimulation \<Rightarrow> VirtualOutcome" where
  "simulated_outcome SimAlwaysSucceed = OutcomeAccepted"
| "simulated_outcome (SimDelay _) = OutcomeAccepted"
| "simulated_outcome SimFailNext = OutcomeRejected"
| "simulated_outcome SimAlwaysFail = OutcomeRejected"
| "simulated_outcome SimOffline = OutcomeOffline"

definition virtual_metadata :: "PrinterRef \<Rightarrow> VirtualPreview \<Rightarrow> (ustring \<times> ustring) list" where
  "virtual_metadata printer preview = btree_collect
     ([(lit ''submissionMode'', case pr_submission_mode printer of Driver \<Rightarrow> lit ''driver'' | Raw EscPos \<Rightarrow> lit ''raw''),
       (lit ''pageCount'', dec (length (vp_pages preview)))] @
      (case vp_escpos preview of None \<Rightarrow> [] | Some diagnostics \<Rightarrow>
        [(lit ''interpretedCommands'', dec (ed_interpreted_commands diagnostics)),
         (lit ''cutRequested'', bool_text (ed_cut_requested diagnostics))]))"

definition outcome_result ::
  "'f virtual_env \<Rightarrow> PrinterRef \<Rightarrow> VirtualPreview \<Rightarrow> VirtualOutcome \<Rightarrow> SpoolerError + SubmissionReceipt" where
  "outcome_result env printer preview outcome = (case outcome of
     OutcomeAccepted \<Rightarrow> Ok (spool_receipt (ve_now env) (lit ''virtual'') (Some (ve_uuid env))
       (virtual_metadata printer preview))
   | OutcomeRejected \<Rightarrow> Err SimulatedFailure
   | OutcomeOffline \<Rightarrow> Err (Connectivity (lit ''virtual printer is offline'')))"

definition VirtualSpooler_submit ::
  "VirtualSpooler \<Rightarrow> 'f virtual_env \<Rightarrow> PrintJobId \<Rightarrow> PrinterRef \<Rightarrow> RenderedDocument \<Rightarrow> SubmissionReceipt virtual_eff" where
  "VirtualSpooler_submit sp env job printer d =
     ebind (elift (enforce_submission_size (RenderedDocument_byte_len d) (vsp_max_submission_bytes sp))) (\<lambda>_.
     ebind (elift (case ve_worker_error env of
         Some e \<Rightarrow> Err (BackendUnavailable (lit ''preview worker did not finish: '' @ e))
       | None \<Rightarrow> virtual_preview env printer d)) (\<lambda>preview.
     ebind (\<lambda>s. case take_simulation s of (current, s') \<Rightarrow> (Ok current, s')) (\<lambda>simulation.
     ebind (elift (reject_if (case simulation of SimDelay _ \<Rightarrow> ve_cancelled_in_delay env | _ \<Rightarrow> False) SpoolerCancelled)) (\<lambda>_.
     ebind (elift (reject_if (ve_cancelled env) SpoolerCancelled)) (\<lambda>_.
     let outcome = simulated_outcome simulation in
     ebind (emodify (record_submission sp \<lparr>vsub_job_id = job, vsub_printer_id = pr_id printer,
       vsub_recorded_at = ve_now env, vsub_outcome = outcome, vsub_document = d, vsub_preview = preview\<rparr>)) (\<lambda>_.
     elift (outcome_result env printer preview outcome)))))))"

section \<open>Per-printer devices\<close>

datatype VirtualPrinterMode = ModeAlwaysSucceed | ModeFailNext | ModeAlwaysFail | ModeDelay | ModeOffline

record VirtualDevice =
  vd_spooler :: VirtualState
  vd_policy :: "VirtualPrinterMode \<times> nat"
  vd_sound_enabled :: bool

definition VirtualDevice_new :: "VirtualPrinterMode \<Rightarrow> nat \<Rightarrow> VirtualDevice" where
  "VirtualDevice_new mode delay_ms = \<lparr>vd_spooler = VirtualState_default, vd_policy = (mode, delay_ms),
     vd_sound_enabled = False\<rparr>"

record PerPrinterVirtualSpooler =
  pv_devices :: "PrinterId \<rightharpoonup> VirtualDevice"
  pv_sounds :: "PrinterId list"

type_synonym 'a device_eff = "(PerPrinterVirtualSpooler, SpoolerError, 'a) eff"

definition device_register :: "PrinterId \<Rightarrow> VirtualPrinterMode \<Rightarrow> nat \<Rightarrow> PerPrinterVirtualSpooler \<Rightarrow> PerPrinterVirtualSpooler" where
  "device_register i mode delay_ms s =
     (let device = (case pv_devices s i of Some dev \<Rightarrow> dev | None \<Rightarrow> VirtualDevice_new mode delay_ms) in
      s\<lparr>pv_devices := (pv_devices s)(i \<mapsto> device\<lparr>vd_policy := (mode, delay_ms)\<rparr>)\<rparr>)"

definition device_lookup :: "PrinterId \<Rightarrow> VirtualDevice device_eff" where
  "device_lookup i = (\<lambda>s. (ok_or (BackendUnavailable (lit ''virtual printer is not registered'')) (pv_devices s i), s))"

definition device_store :: "PrinterId \<Rightarrow> VirtualDevice \<Rightarrow> unit device_eff" where
  "device_store i dev = emodify (\<lambda>s. s\<lparr>pv_devices := (pv_devices s)(i \<mapsto> dev)\<rparr>)"

definition device_set_sound :: "PrinterId \<Rightarrow> bool \<Rightarrow> unit device_eff" where
  "device_set_sound i enabled = ebind (device_lookup i) (\<lambda>dev. device_store i (dev\<lparr>vd_sound_enabled := enabled\<rparr>))"

definition device_remove :: "PrinterId \<Rightarrow> PerPrinterVirtualSpooler \<Rightarrow> PerPrinterVirtualSpooler" where
  "device_remove i s = s\<lparr>pv_devices := (pv_devices s)(i := None)\<rparr>"

definition device_policy :: "PrinterId \<Rightarrow> (VirtualPrinterMode \<times> nat) device_eff" where
  "device_policy i = ebind (device_lookup i) (\<lambda>dev. eret (vd_policy dev))"

definition device_history :: "PrinterId \<Rightarrow> VirtualSubmission list device_eff" where
  "device_history i = ebind (device_lookup i) (\<lambda>dev. eret (vst_history (vd_spooler dev)))"

definition device_clear_history :: "PrinterId \<Rightarrow> unit device_eff" where
  "device_clear_history i = ebind (device_lookup i) (\<lambda>dev.
     device_store i (dev\<lparr>vd_spooler := clear_history (vd_spooler dev)\<rparr>))"

text \<open>The policy is read and, for a single failure, used up; milliseconds become nanoseconds.\<close>

definition policy_simulation :: "VirtualPrinterMode \<times> nat \<Rightarrow> VirtualSimulation \<times> (VirtualPrinterMode \<times> nat)" where
  "policy_simulation policy = (case fst policy of
     ModeAlwaysSucceed \<Rightarrow> (SimAlwaysSucceed, policy)
   | ModeFailNext \<Rightarrow> (SimFailNext, (ModeAlwaysSucceed, snd policy))
   | ModeAlwaysFail \<Rightarrow> (SimAlwaysFail, policy)
   | ModeDelay \<Rightarrow> (SimDelay (snd policy * 1000000), policy)
   | ModeOffline \<Rightarrow> (SimOffline, policy))"

definition device_submit ::
  "'f virtual_env \<Rightarrow> PrintJobId \<Rightarrow> PrinterRef \<Rightarrow> RenderedDocument \<Rightarrow> SubmissionReceipt device_eff" where
  "device_submit env job printer d =
     ebind (device_lookup (pr_id printer)) (\<lambda>dev.
     let (simulation, policy) = policy_simulation (vd_policy dev);
         (result, spooler) = VirtualSpooler_submit VirtualSpooler_default env job printer d
           (set_simulation simulation (vd_spooler dev)) in
     ebind (if vd_sound_enabled dev
       then emodify (\<lambda>s. s\<lparr>pv_sounds := pv_sounds s @ [pr_id printer]\<rparr>) else eret ()) (\<lambda>_.
     ebind (device_store (pr_id printer) (dev\<lparr>vd_policy := policy, vd_spooler := spooler\<rparr>)) (\<lambda>_.
     elift result)))"

end
