(* ===== verification/Virtual_Spooler_Laws.thy ===== *)
theory Virtual_Spooler_Laws
  imports Virtual_Spooler
begin

text \<open>
  The history of a virtual printer in every interleaving of its operations, and what a submission
  to a device does for each policy.
\<close>

section \<open>Eviction\<close>

definition history_bytes :: "VirtualSubmission list \<Rightarrow> nat" where
  "history_bytes vs = sum_list (map retained_bytes vs)"

lemma history_bytes_simps [simp]:
  "history_bytes [] = 0" "history_bytes (v # vs) = retained_bytes v + history_bytes vs"
  "history_bytes (vs @ ws) = history_bytes vs + history_bytes ws"
  by (simp_all add: history_bytes_def)

definition history_room :: "nat \<Rightarrow> nat \<Rightarrow> VirtualSubmission list \<Rightarrow> bool" where
  "history_room max_history incoming vs \<longleftrightarrow>
     length vs < max_history \<and> history_bytes vs + incoming \<le> MAX_VIRTUAL_HISTORY_BYTES"

lemma sat_usize_over: "MAX_VIRTUAL_HISTORY_BYTES < sat_usize n \<longleftrightarrow> MAX_VIRTUAL_HISTORY_BYTES < n"
  by (simp add: sat_usize_def USIZE_MAX_def MAX_VIRTUAL_HISTORY_BYTES_def min_def)

lemma evict_oldest_spec:
  assumes "evict_oldest max_history incoming vs (history_bytes vs) = (ws, r)"
  shows "suffix ws vs \<and> r = history_bytes ws \<and> (ws = [] \<or> history_room max_history incoming ws) \<and>
    (\<forall>ts. suffix ts vs \<longrightarrow> length ws < length ts \<longrightarrow> \<not> history_room max_history incoming ts)"
  using assms
proof (induction vs)
  case (Cons v vs)
  show ?case
  proof (cases "history_room max_history incoming (v # vs)")
    case True
    then have "(ws, r) = (v # vs, history_bytes (v # vs))"
      using Cons.prems by (auto simp: history_room_def sat_usize_over not_le)
    then show ?thesis using True by (auto dest: suffix_length_le)
  next
    case False
    then have "evict_oldest max_history incoming vs (history_bytes vs) = (ws, r)"
      using Cons.prems by (auto simp: history_room_def sat_usize_over not_le not_less split: if_splits)
    from Cons.IH [OF this] False show ?thesis by (auto simp: suffix_Cons)
  qed
qed simp

section \<open>The states of a virtual spooler\<close>

text \<open>
  Every operation on the state is one of these, under the lock; a submission takes the simulation
  and later records, so that other operations may run in between.
\<close>

inductive virtual_reachable :: "VirtualSpooler \<Rightarrow> VirtualState \<Rightarrow> bool" for sp :: VirtualSpooler where
  virtual_start: "virtual_reachable sp VirtualState_default"
| virtual_set: "virtual_reachable sp s \<Longrightarrow> virtual_reachable sp (set_simulation simulation s)"
| virtual_clear: "virtual_reachable sp s \<Longrightarrow> virtual_reachable sp (clear_history s)"
| virtual_take: "virtual_reachable sp s \<Longrightarrow> virtual_reachable sp (snd (take_simulation s))"
| virtual_record: "virtual_reachable sp s \<Longrightarrow> retained_bytes v \<le> USIZE_MAX \<Longrightarrow>
    virtual_reachable sp (record_submission sp v s)"

definition histories_ok :: "VirtualSpooler \<Rightarrow> VirtualState \<Rightarrow> bool" where
  "histories_ok sp s \<longleftrightarrow> length (vst_history s) \<le> vsp_max_history sp \<and>
     vst_retained_bytes s = history_bytes (vst_history s) \<and>
     (vst_retained_bytes s \<le> MAX_VIRTUAL_HISTORY_BYTES \<or> length (vst_history s) = 1)"

lemma record_submission_spec:
  assumes ok: "histories_ok sp s" and fits: "retained_bytes v \<le> USIZE_MAX" and pos: "0 < vsp_max_history sp"
  shows "histories_ok sp (record_submission sp v s) \<and>
    (\<exists>kept. vst_history (record_submission sp v s) = kept @ [v] \<and> suffix kept (vst_history s) \<and>
      (\<forall>ts. suffix ts (vst_history s) \<longrightarrow> length kept < length ts \<longrightarrow>
         \<not> history_room (vsp_max_history sp) (retained_bytes v) ts))"
proof -
  obtain ws r where evicted: "evict_oldest (vsp_max_history sp) (retained_bytes v) (vst_history s)
      (vst_retained_bytes s) = (ws, r)" by force
  note spec = evict_oldest_spec [OF evicted [unfolded ok [unfolded histories_ok_def, THEN conjunct2, THEN conjunct1]]]
  have new: "vst_history (record_submission sp v s) = ws @ [v]"
    "vst_retained_bytes (record_submission sp v s) = sat_usize (r + retained_bytes v)"
    using evicted by (simp_all add: record_submission_def Let_def)
  have "histories_ok sp (record_submission sp v s)"
  proof (cases "ws = []")
    case True
    then show ?thesis using spec new fits pos by (simp add: histories_ok_def sat_usize_def)
  next
    case False
    then have room: "length ws < vsp_max_history sp" "history_bytes ws + retained_bytes v \<le> MAX_VIRTUAL_HISTORY_BYTES"
      using spec by (auto simp: history_room_def)
    then have "sat_usize (r + retained_bytes v) = history_bytes ws + retained_bytes v"
      using spec by (simp add: sat_usize_def USIZE_MAX_def MAX_VIRTUAL_HISTORY_BYTES_def)
    with room new show ?thesis by (simp add: histories_ok_def)
  qed
  then show ?thesis using spec new by blast
qed

lemma virtual_reachable_ok:
  assumes "virtual_reachable sp s" "0 < vsp_max_history sp"
  shows "histories_ok sp s"
  using assms(1)
proof induction
  case (virtual_record s v)
  then show ?case using record_submission_spec assms(2) by blast
qed (auto simp: histories_ok_def VirtualState_default_def set_simulation_def clear_history_def
    take_simulation_def Let_def)

section \<open>Devices\<close>

text \<open>A submission that nothing stops before the simulation decides it.\<close>

definition undisturbed :: "'f virtual_env \<Rightarrow> PrinterRef \<Rightarrow> RenderedDocument \<Rightarrow> VirtualPreview \<Rightarrow> bool" where
  "undisturbed env printer d preview \<longleftrightarrow> RenderedDocument_byte_len d \<le> DEFAULT_MAX_SUBMISSION_BYTES \<and>
     ve_worker_error env = None \<and> virtual_preview env printer d = Ok preview \<and>
     \<not> ve_cancelled env \<and> \<not> ve_cancelled_in_delay env"

definition submission_entry ::
  "'f virtual_env \<Rightarrow> PrintJobId \<Rightarrow> PrinterRef \<Rightarrow> RenderedDocument \<Rightarrow> VirtualPreview \<Rightarrow> VirtualOutcome \<Rightarrow> VirtualSubmission" where
  "submission_entry env job printer d preview outcome = \<lparr>vsub_job_id = job, vsub_printer_id = pr_id printer,
     vsub_recorded_at = ve_now env, vsub_outcome = outcome, vsub_document = d, vsub_preview = preview\<rparr>"

fun mode_outcome :: "VirtualPrinterMode \<Rightarrow> VirtualOutcome" where
  "mode_outcome ModeAlwaysSucceed = OutcomeAccepted"
| "mode_outcome ModeDelay = OutcomeAccepted"
| "mode_outcome ModeFailNext = OutcomeRejected"
| "mode_outcome ModeAlwaysFail = OutcomeRejected"
| "mode_outcome ModeOffline = OutcomeOffline"

definition next_mode :: "VirtualPrinterMode \<Rightarrow> VirtualPrinterMode" where
  "next_mode mode = (if mode = ModeFailNext then ModeAlwaysSucceed else mode)"

lemma policy_simulation_spec:
  "policy_simulation (mode, ms) = (simulation, policy) \<Longrightarrow>
     simulated_outcome simulation = mode_outcome mode \<and> policy = (next_mode mode, ms)"
  by (cases mode) (auto simp: policy_simulation_def next_mode_def)

lemma virtual_submit_undisturbed:
  assumes "undisturbed env printer d preview"
  shows "VirtualSpooler_submit VirtualSpooler_default env job printer d (set_simulation simulation s) =
    (outcome_result env printer preview (simulated_outcome simulation),
     record_submission VirtualSpooler_default
       (submission_entry env job printer d preview (simulated_outcome simulation))
       (snd (take_simulation (set_simulation simulation s))))"
proof -
  have size: "enforce_submission_size (RenderedDocument_byte_len d) (vsp_max_submission_bytes VirtualSpooler_default) = Ok ()"
    using assms by (simp add: undisturbed_def enforce_submission_size_def VirtualSpooler_default_def
        DEFAULT_MAX_SUBMISSION_BYTES_def)
  have free: "reject_if (case simulation of SimDelay _ \<Rightarrow> ve_cancelled_in_delay env | _ \<Rightarrow> False) SpoolerCancelled = Ok ()"
    "reject_if (ve_cancelled env) SpoolerCancelled = Ok ()"
    using assms by (auto simp: undisturbed_def split: VirtualSimulation.splits)
  define t where "t = snd (take_simulation (set_simulation simulation s))"
  have taken: "take_simulation (set_simulation simulation s) = (simulation, t)"
    by (simp add: t_def take_simulation_def set_simulation_def)
  have preview: "(case ve_worker_error env of
         Some e \<Rightarrow> Err (BackendUnavailable (lit ''preview worker did not finish: '' @ e))
       | None \<Rightarrow> virtual_preview env printer d) = Ok preview"
    using assms by (simp add: undisturbed_def)
  show ?thesis
    unfolding VirtualSpooler_submit_def ebind_def elift_def emodify_def Let_def
    by (simp only: size preview taken free prod.case sum.case submission_entry_def snd_conv)
qed

lemma device_submit_undisturbed:
  assumes dev: "pv_devices s (pr_id printer) = Some dev" "vd_policy dev = (mode, ms)"
    and free: "undisturbed env printer d preview"
    and run: "device_submit env job printer d s = (result, s')"
  shows "result = outcome_result env printer preview (mode_outcome mode) \<and>
    (\<exists>dev'. pv_devices s' = (pv_devices s)(pr_id printer \<mapsto> dev') \<and> vd_policy dev' = (next_mode mode, ms) \<and>
       (\<exists>spooler. vd_spooler dev' = record_submission VirtualSpooler_default
          (submission_entry env job printer d preview (mode_outcome mode)) spooler \<and>
          vst_history spooler = vst_history (vd_spooler dev) \<and>
          vst_retained_bytes spooler = vst_retained_bytes (vd_spooler dev)))"
proof -
  obtain simulation policy where ps: "policy_simulation (vd_policy dev) = (simulation, policy)" by (rule prod.exhaust)
  note sim = policy_simulation_spec [OF ps [unfolded dev(2)]]
  let ?s = "snd (take_simulation (set_simulation simulation (vd_spooler dev)))"
  have same: "vst_history ?s = vst_history (vd_spooler dev)" "vst_retained_bytes ?s = vst_retained_bytes (vd_spooler dev)"
    by (simp_all add: take_simulation_def set_simulation_def Let_def)
  show ?thesis
    using run same sim
    unfolding device_submit_def device_lookup_def device_store_def ebind_def elift_def emodify_def eret_def
    by (auto simp: dev(1) ps virtual_submit_undisturbed [OF free] Let_def split: if_splits
        intro!: exI [of _ ?s])
qed

end
