(* ===== verification/Printing_Properties.thy ===== *)
theory Printing_Properties
  imports Spooler_Laws Virtual_Spooler_Laws Rendering_Properties
begin

text \<open>
  Printing as the job processor relies on it: an accepted submission is complete, the settings of a
  PDF reach CUPS, a driver document is bracketed whatever the driver answers, and the virtual
  printers keep a bounded history and follow their policy.
\<close>

section \<open>Physical printers\<close>

text \<open>C27: An accepted submission handed over the whole document, once, in the form of the selected route: the
  raw bytes over TCP or to the raw queue, one image per page or the PDF itself with its arguments to
  CUPS, the pages to the Windows driver; and what was handed over was within its limit: the raw bytes,
  or the bytes of the pages, within the limit of the spooler, a PDF given to CUPS within that for PDFs.\<close>

theorem accepted_submission_complete:
  "(RawTcpSpooler_submit raw env printer d [] = (Ok receipt, calls) \<longrightarrow>
      complete_submission env printer d calls \<and> RenderedDocument_byte_len d \<le> rt_max_submission_bytes raw) \<and>
   (SystemQueueSpooler_submit queues env printer d [] = (Ok receipt, calls) \<longrightarrow>
      complete_submission env printer d calls \<and> submission_within env printer d (sq_max_submission_bytes queues))"
  using raw_tcp_complete system_queue_complete by blast

definition sample_spool_env :: "nat spool_env" where
  "sample_spool_env = \<lparr>se_host = UnixHost, se_text = \<lparr>tl_utf8_error = (\<lambda>_. []), tl_utf8_lossy = (\<lambda>b. b)\<rparr>,
     se_now = 0, se_drawing = sample_drawing, se_tcp_connect = Finished (Ok ()), se_tcp_write = Finished (Ok ()),
     se_lp_spawn = Ok True,
     se_lp_run = Finished (Ok \<lparr>co_success = True, co_status = [], co_stdout = [], co_stderr = []\<rparr>),
     se_png = (\<lambda>_. Ok []), se_temp_file = (\<lambda>_. Ok []), se_write_file = (\<lambda>_. Ok ()), se_worker = Finished (Ok ()),
     se_find_queue = (\<lambda>_. True), se_windows_raw = Ok 1, se_driver = (\<lambda>_. Ok 1), se_rasterize = (\<lambda>_ _. Ok [])\<rparr>"

definition sample_queue_printer :: PrinterRef where
  "sample_queue_printer = \<lparr>pr_id = lit ''p'', pr_display_name = lit ''p'', pr_connection = SystemQueue (lit ''q''),
     pr_submission_mode = Raw EscPos, pr_virtual_profile = None, pr_enabled = True\<rparr>"

lemma accepted_submission_complete_witness:
  "\<exists>receipt. SystemQueueSpooler_submit SystemQueueSpooler_default sample_spool_env sample_queue_printer
       (EscPosOutput [0x1B, 0x40] Mm58) [] = (Ok receipt, [LpWithInput (cups_raw_args (lit ''q'')) [0x1B, 0x40]]) \<and>
     complete_submission sample_spool_env sample_queue_printer (EscPosOutput [0x1B, 0x40] Mm58)
       [LpWithInput (cups_raw_args (lit ''q'')) [0x1B, 0x40]] \<and>
     submission_within sample_spool_env sample_queue_printer (EscPosOutput [0x1B, 0x40] Mm58) DEFAULT_MAX_SUBMISSION_BYTES"
proof -
  have "\<exists>receipt. SystemQueueSpooler_submit SystemQueueSpooler_default sample_spool_env sample_queue_printer
       (EscPosOutput [0x1B, 0x40] Mm58) [] = (Ok receipt, [LpWithInput (cups_raw_args (lit ''q'')) [0x1B, 0x40]])"
    by (simp add: SystemQueueSpooler_submit_def sample_queue_printer_def SystemQueueSpooler_default_def
        prepare_system_queue_submission_def raw_bytes_def enforce_submission_size_def DEFAULT_MAX_SUBMISSION_BYTES_def
        submit_system_queue_def submit_cups_raw_def sample_spool_env_def ebind_def elift_def spool_do_def
        emodify_def settle_def lp_receipt_def reject_if_def)
  moreover have "sq_max_submission_bytes SystemQueueSpooler_default = DEFAULT_MAX_SUBMISSION_BYTES"
    by (simp add: SystemQueueSpooler_default_def)
  ultimately show ?thesis using accepted_submission_complete by metis
qed

text \<open>The arguments handed to \<open>lp\<close> for a PDF determine the queue, the file and what the print settings mean:
  copies, page ranges, paper, orientation, sides and scaling, absent scaling being actual size.\<close>

theorem native_pdf_settings_kept:
  assumes "cups_pdf_args queue s path = cups_pdf_args queue' s' path'"
  shows "queue = queue' \<and> settings_meaning s = settings_meaning s' \<and> path = path'"
  using assms by (rule cups_pdf_args_inject)

lemma native_pdf_settings_kept_witness:
  "settings_meaning (PrintSettings_default\<lparr>set_scaling := Some Actual\<rparr>) = settings_meaning PrintSettings_default"
proof -
  have "cups_pdf_args [] (PrintSettings_default\<lparr>set_scaling := Some Actual\<rparr>) [] = cups_pdf_args [] PrintSettings_default []"
    by (simp add: cups_pdf_args_def PrintSettings_default_def effective_copies_def effective_duplex_def)
  from native_pdf_settings_kept [OF this] show ?thesis by simp
qed

section \<open>Printer drivers\<close>

text \<open>C30: Whatever the driver answers, the calls of a document are bracketed. Nothing is called for a document
  without pages or with an invalid one. Otherwise a success means that every call was answered with
  success and that the calls are the start, every page in order, the end and the closing, once each;
  and a failure means that the calls stopped at the first that failed, which the error names: at the
  opening nothing more is called, at the start the context is closed, later the document is aborted
  and the context closed.\<close>

theorem driver_document_bracketed:
  assumes "print_with_api api queue d [] = (r, calls)"
  shows "case r of
     Inr job \<Rightarrow> printable_pages d \<and> api [OpenQueue queue, StartDocument] = Ok job \<and>
       all_answered api [] ([OpenQueue queue, StartDocument] @ document_calls d) \<and>
       calls = [OpenQueue queue, StartDocument] @ document_calls d @ [CloseContext]
   | Inl e \<Rightarrow> (\<not> printable_pages d \<and> calls = []) \<or> (printable_pages d \<and>
       (fails_at api [] [OpenQueue queue] e \<and> calls = [OpenQueue queue] \<or>
        fails_at api [] [OpenQueue queue, StartDocument] e \<and> calls = [OpenQueue queue, StartDocument, CloseContext] \<or>
        (\<exists>made. calls = [OpenQueue queue, StartDocument] @ made @ [AbortDocument, CloseContext] \<and> prefix made (document_calls d) \<and>
           made \<noteq> [] \<and> fails_at api [] ([OpenQueue queue, StartDocument] @ made) e)))"
  using assms by (rule print_with_api_cases)

definition sample_page :: RasterPage where
  "sample_page = \<lparr>rp_width = 1, rp_height = 1, rp_dpi_x = 300, rp_dpi_y = 300, rp_format = Rgb24,
     rp_data = [255, 255, 255]\<rparr>"

lemma sample_page_valid: "RasterPage_validate sample_page = Ok ()"
  by (simp add: sample_page_def RasterPage_validate_def bytes_per_row_def checked_mul32_def
      checked_mul_usize_def USIZE_MAX_def reject_if_def)

lemma driver_document_bracketed_witness:
  "snd (print_with_api (\<lambda>calls. if last calls = EndPage then Err (lit ''paper jam'') else Ok 7) (lit ''q'') [sample_page] []) =
     [OpenQueue (lit ''q''), StartDocument, StartPage, DrawPage sample_page, EndPage, AbortDocument, CloseContext]"
proof -
  let ?api = "\<lambda>calls. if last calls = EndPage then Err (lit ''paper jam'') else Ok 7 :: ustring + nat"
  obtain r calls where run: "print_with_api ?api (lit ''q'') [sample_page] [] = (r, calls)" by force
  have shape: "r = Inl \<lparr>pe_stage = StageEndPage, pe_message = lit ''paper jam''\<rparr> \<and> length calls = 7"
    using run by (auto simp: print_with_api_def check_pages_def sample_page_valid print_started_document_def
        print_page_def at_stage_def ebind_def ecase_def elift_def eret_def driver_do_def emap_err_def)
  from driver_document_bracketed [OF run] shape obtain made where
    "calls = [OpenQueue (lit ''q''), StartDocument] @ made @ [AbortDocument, CloseContext]"
    "prefix made (document_calls [sample_page])"
    by auto
  with shape run show ?thesis by (auto simp: document_calls_def page_calls_def prefix_Cons)
qed

text \<open>C31: The bitmap made of a valid page never reads or writes out of bounds, has a row per line of the page
  padded to four bytes, clear padding, and its bit is set exactly where the page is to be printed: the
  set bits of a packed page, the pixels below the middle of a gray one, and of a colour page what is
  left after the luminance is cut to 16 bits, which is every pixel that is opaque, white included.\<close>

theorem bitmap_exact:
  assumes "RasterPage_validate p = Ok ()"
  shows "\<exists>out. make_top_down_dib p = Some (Ok out) \<and> length out = dib_stride p * unat (rp_height p) \<and>
    (\<forall>x y. x div 8 < dib_stride p \<longrightarrow> (bit_at out (dib_stride p) x y \<longleftrightarrow>
       x < unat (rp_width p) \<and> y < unat (rp_height p) \<and> printed_pixel p x y))"
proof -
  obtain out where "make_top_down_dib p = Some (Ok out)" "length out = dib_stride p * unat (rp_height p)"
    "\<forall>x y. x div 8 < dib_stride p \<longrightarrow> (bit_at out (dib_stride p) x y \<longleftrightarrow>
       x < unat (rp_width p) \<and> y < unat (rp_height p) \<and> dib_pixel p x y = Some True)"
    using make_dib_exact [OF assms] by blast
  then show ?thesis using dib_pixel_printed [OF assms] by (intro exI [of _ out]) auto
qed

lemma bitmap_exact_witness:
  "\<exists>out. make_top_down_dib sample_page = Some (Ok out) \<and> length out = 4 \<and> bit_at out 4 0 0 \<and> \<not> bit_at out 4 1 0"
proof -
  have "dib_stride sample_page = 4" "printed_pixel sample_page 0 0" "unat (rp_width sample_page) = 1"
    "unat (rp_height sample_page) = 1"
    by (simp_all add: dib_stride_def printed_pixel_def sample_page_def)
  then show ?thesis using bitmap_exact [OF sample_page_valid] by fastforce
qed

text \<open>On Windows every pixel of a colour page is printed black, white included: the luminance is computed in 16
  bits, where the products of a bright pixel do not fit.\<close>

theorem colour_page_printed_black:
  assumes "RasterPage_validate p = Ok ()" "rp_format p = Rgb24" "x < unat (rp_width p)" "y < unat (rp_height p)"
  shows "dib_pixel p x y = Some True"
  using dib_pixel_total [OF assms(1,3,4)] assms(2)
  by (auto simp: dib_pixel_def Let_def opaque_is_black split: bind_splits option.splits)

lemma colour_page_printed_black_witness: "rp_data sample_page = [255, 255, 255] \<and> dib_pixel sample_page 0 0 = Some True"
  using colour_page_printed_black [OF sample_page_valid, of 0 0] by (simp add: sample_page_def)

section \<open>Virtual printers\<close>

text \<open>C32: In every interleaving of its operations a virtual printer keeps at most the configured number of entries,
  accounts for their bytes exactly and stays within the byte budget unless a single entry exceeds
  it; a new entry is the newest and displaces only as many of the oldest as it must.\<close>

theorem virtual_history_bounded:
  assumes "virtual_reachable sp s" "0 < vsp_max_history sp"
  shows "length (vst_history s) \<le> vsp_max_history sp \<and>
    vst_retained_bytes s = history_bytes (vst_history s) \<and>
    (history_bytes (vst_history s) \<le> MAX_VIRTUAL_HISTORY_BYTES \<or> length (vst_history s) = 1) \<and>
    (retained_bytes v \<le> USIZE_MAX \<longrightarrow>
      (\<exists>kept. vst_history (record_submission sp v s) = kept @ [v] \<and> suffix kept (vst_history s) \<and>
        (\<forall>ts. suffix ts (vst_history s) \<longrightarrow> length kept < length ts \<longrightarrow>
           \<not> history_room (vsp_max_history sp) (retained_bytes v) ts)))"
  using virtual_reachable_ok [OF assms] record_submission_spec [of sp s v] assms(2)
  by (auto simp: histories_ok_def)

definition sample_entry :: VirtualSubmission where
  "sample_entry = \<lparr>vsub_job_id = lit ''j'', vsub_printer_id = lit ''p'', vsub_recorded_at = 0,
     vsub_outcome = OutcomeAccepted, vsub_document = EscPosOutput [0] Mm58,
     vsub_preview = \<lparr>vp_pages = [], vp_escpos = None\<rparr>\<rparr>"

lemma virtual_history_bounded_witness:
  "vst_retained_bytes (record_submission VirtualSpooler_default sample_entry VirtualState_default) = 1"
proof -
  let ?s = "record_submission VirtualSpooler_default sample_entry VirtualState_default"
  have one: "retained_bytes sample_entry = 1" by (simp add: sample_entry_def retained_bytes_def)
  have "virtual_reachable VirtualSpooler_default ?s"
    by (intro virtual_record virtual_start) (simp add: one USIZE_MAX_def)
  from virtual_history_bounded [OF this, of sample_entry]
  have "vst_retained_bytes ?s = history_bytes (vst_history ?s)"
    by (simp add: VirtualSpooler_default_def DEFAULT_MAX_VIRTUAL_HISTORY_def)
  moreover have "vst_history ?s = [sample_entry]"
    by (simp add: record_submission_def Let_def VirtualState_default_def)
  ultimately show ?thesis by (simp add: one)
qed

text \<open>A submission that nothing stops beforehand ends as the policy of its printer says, is recorded with that
  outcome as the newest entry of that printer, uses up a single failure and touches no other
  printer.\<close>

theorem device_follows_policy:
  assumes "pv_devices s (pr_id printer) = Some dev" "vd_policy dev = (mode, ms)"
    and "undisturbed env printer d preview"
    and "device_submit env job printer d s = (result, s')"
  shows "result = outcome_result env printer preview (mode_outcome mode) \<and>
    (\<exists>dev'. pv_devices s' = (pv_devices s)(pr_id printer \<mapsto> dev') \<and> vd_policy dev' = (next_mode mode, ms) \<and>
       (\<exists>kept. vst_history (vd_spooler dev') = kept @ [submission_entry env job printer d preview (mode_outcome mode)]))"
proof -
  from device_submit_undisturbed [OF assms] obtain dev' spooler where
    "result = outcome_result env printer preview (mode_outcome mode)"
    "pv_devices s' = (pv_devices s)(pr_id printer \<mapsto> dev')" "vd_policy dev' = (next_mode mode, ms)"
    "vd_spooler dev' = record_submission VirtualSpooler_default
       (submission_entry env job printer d preview (mode_outcome mode)) spooler" by blast
  moreover have "\<exists>kept. vst_history (record_submission sp v t) = kept @ [v]" for sp v t
    by (simp add: record_submission_def Let_def split: prod.splits)
  ultimately show ?thesis by metis
qed

definition sample_virtual_printer :: PrinterRef where
  "sample_virtual_printer = \<lparr>pr_id = lit ''v'', pr_display_name = lit ''v'', pr_connection = Virtual (lit ''v''),
     pr_submission_mode = Driver, pr_virtual_profile = Some (SystemDriverPage 210 297 100), pr_enabled = True\<rparr>"

definition sample_virtual_env :: "nat virtual_env" where
  "sample_virtual_env = \<lparr>ve_drawing = sample_drawing, ve_rasterize = (\<lambda>_ _. Ok []), ve_worker_error = None,
     ve_cancelled_in_delay = False, ve_cancelled = False, ve_now = 0, ve_uuid = lit ''u''\<rparr>"

definition sample_devices :: PerPrinterVirtualSpooler where
  "sample_devices = device_register (lit ''v'') ModeFailNext 0 \<lparr>pv_devices = Map.empty, pv_sounds = []\<rparr>"

lemma device_follows_policy_witness:
  "fst (device_submit sample_virtual_env (lit ''j'') sample_virtual_printer (RasterOutput []) sample_devices) =
     Err SimulatedFailure"
proof -
  obtain result s' where run:
    "device_submit sample_virtual_env (lit ''j'') sample_virtual_printer (RasterOutput []) sample_devices = (result, s')"
    by force
  have dev: "pv_devices sample_devices (pr_id sample_virtual_printer) = Some (VirtualDevice_new ModeFailNext 0)"
    by (simp add: sample_devices_def device_register_def sample_virtual_printer_def VirtualDevice_new_def)
  have policy: "vd_policy (VirtualDevice_new ModeFailNext 0) = (ModeFailNext, 0)" by (simp add: VirtualDevice_new_def)
  have "undisturbed sample_virtual_env sample_virtual_printer (RasterOutput []) \<lparr>vp_pages = [], vp_escpos = None\<rparr>"
    by (simp add: undisturbed_def sample_virtual_env_def sample_virtual_printer_def virtual_preview_def page_preview_def)
  from device_follows_policy [OF dev policy this run] show ?thesis
    by (simp add: run outcome_result_def)
qed

end
