(* ===== verification/Catalog_Printer.thy ===== *)
theory Catalog_Printer
  imports Virtual_Spooler Discovery_Providers Job_Ledger Product Wire_Message
begin

text \<open>
  The rows of the desktop's printer catalogue (\<open>apps/oppa/src-tauri\<close>: \<open>models.rs\<close> and the free
  functions of \<open>printer_catalog.rs\<close>): which capabilities a printer gets, how an observation is
  recognised, what the front end sees of a row and what the protocol advertises. The PNG encoder with
  its base64 text, the text of an instant and the text of a spooler error are parameters.
\<close>

section \<open>Rows\<close>

record CatalogPrinter =
  cp_reference :: PrinterRef
  cp_source_name :: ustring
  cp_availability :: PrinterAvailability
  cp_capabilities :: "PrinterCapabilities option"
  cp_fingerprint :: PrinterFingerprint
  cp_providers :: "ProviderMetadata list"
  cp_virtual_width :: "16 word option"
  cp_virtual_mode :: VirtualPrinterMode
  cp_virtual_delay_ms :: nat

abbreviation cp_id :: "CatalogPrinter \<Rightarrow> PrinterId" where
  "cp_id p \<equiv> pr_id (cp_reference p)"

abbreviation cp_connection :: "CatalogPrinter \<Rightarrow> PrinterConnection" where
  "cp_connection p \<equiv> pr_connection (cp_reference p)"

definition is_virtual :: "CatalogPrinter \<Rightarrow> bool" where
  "is_virtual p \<longleftrightarrow> (case cp_connection p of Virtual _ \<Rightarrow> True | _ \<Rightarrow> False)"

record PersistedCatalog =
  cat_printers :: "CatalogPrinter list"
  cat_suppressed :: "ustring list"

definition PersistedCatalog_default :: PersistedCatalog where
  "PersistedCatalog_default = \<lparr>cat_printers = [], cat_suppressed = []\<rparr>"

fun feature_allows :: "ProductFeatures \<Rightarrow> PrinterConnection \<Rightarrow> bool" where
  "feature_allows f (SystemQueue _) = ft_system_printer_discovery f"
| "feature_allows f (Network _ _) = ft_network_printer_discovery f"
| "feature_allows f (Usb _ _ _) = ft_usb_printer_discovery f"
| "feature_allows f (Virtual _) = ft_virtual_printer f"

definition feature_allows_printer :: "ProductFeatures \<Rightarrow> CatalogPrinter \<Rightarrow> bool" where
  "feature_allows_printer f p = feature_allows f (cp_connection p)"

definition persisted_virtual_mode :: "VirtualPrinterMode \<Rightarrow> VirtualPrinterMode" where
  "persisted_virtual_mode mode = (if mode = ModeFailNext then ModeAlwaysSucceed else mode)"

section \<open>Capabilities and modes\<close>

definition raster_pdf_capabilities :: PdfCapabilities where
  "raster_pdf_capabilities = \<lparr>pdf_native = False, pdf_duplex = False, pdf_custom_paper = True,
     pdf_paper_sizes = [PaperA4, PaperA5, PaperLetter, PaperLegal]\<rparr>"

definition catalog_receipt_capabilities :: PrinterCapabilities where
  "catalog_receipt_capabilities = \<lparr>pc_receipt_widths_mm = [58, 80], pc_esc_pos = True,
     pc_system_driver = False, pc_raster = False, pc_cut = True, pc_qr_code = True,
     pc_barcode = True, pc_cancellation = True, pc_pdf = None\<rparr>"

definition virtual_capabilities :: "16 word \<Rightarrow> PrinterCapabilities" where
  "virtual_capabilities width = \<lparr>pc_receipt_widths_mm = [width], pc_esc_pos = True,
     pc_system_driver = False, pc_raster = False, pc_cut = True, pc_qr_code = True,
     pc_barcode = True, pc_cancellation = True, pc_pdf = None\<rparr>"

definition catalog_driver_capabilities :: PrinterCapabilities where
  "catalog_driver_capabilities = \<lparr>pc_receipt_widths_mm = [58, 80], pc_esc_pos = False,
     pc_system_driver = True, pc_raster = True, pc_cut = False, pc_qr_code = True,
     pc_barcode = True, pc_cancellation = True, pc_pdf = Some raster_pdf_capabilities\<rparr>"

definition virtual_capabilities_for_profile :: "VirtualPrinterProfile option \<Rightarrow> PrinterCapabilities" where
  "virtual_capabilities_for_profile profile = (case profile of
     Some (EscPosReceipt w) \<Rightarrow> virtual_capabilities w
   | _ \<Rightarrow> catalog_driver_capabilities)"

fun mode_for_virtual_profile :: "VirtualPrinterProfile \<Rightarrow> SubmissionMode" where
  "mode_for_virtual_profile (EscPosReceipt _) = Raw EscPos"
| "mode_for_virtual_profile (SystemDriverPage _ _ _) = Driver"

definition new_printer_submission_mode ::
  "PrinterConnection \<Rightarrow> PrinterCapabilities option \<Rightarrow> SubmissionMode" where
  "new_printer_submission_mode c capabilities = (case c of
     SystemQueue _ \<Rightarrow> Driver
   | Usb _ _ _ \<Rightarrow> Driver
   | Network _ _ \<Rightarrow> (case capabilities of
       Some pc \<Rightarrow> if pc_esc_pos pc then Raw EscPos else Driver | None \<Rightarrow> Driver)
   | Virtual _ \<Rightarrow> Raw EscPos)"

fun profile_width :: "VirtualPrinterProfile \<Rightarrow> 16 word option" where
  "profile_width (EscPosReceipt w) = Some w"
| "profile_width (SystemDriverPage _ _ _) = None"

section \<open>Recognising an observation\<close>

definition fingerprint_for_connection :: "PrinterConnection \<Rightarrow> PrinterFingerprint" where
  "fingerprint_for_connection c = (case c of
     SystemQueue q \<Rightarrow> PrinterFingerprint_default\<lparr>fp_queue_name := Some q\<rparr>
   | Network h p \<Rightarrow> PrinterFingerprint_default\<lparr>fp_host := Some h, fp_port := Some p\<rparr>
   | Usb v p serial_number \<Rightarrow> PrinterFingerprint_default
       \<lparr>fp_usb_vendor_id := Some v, fp_usb_product_id := Some p, fp_serial_number := serial_number\<rparr>
   | Virtual _ \<Rightarrow> PrinterFingerprint_default)"

definition same_provider_entry :: "ProviderMetadata \<Rightarrow> ProviderMetadata \<Rightarrow> bool" where
  "same_provider_entry stored observed \<longleftrightarrow>
     prov_provider stored = prov_provider observed \<and> prov_provider_id stored \<noteq> None \<and>
     prov_provider_id stored = prov_provider_id observed"

definition evidence_matches :: "(ustring \<Rightarrow> ustring) \<Rightarrow> DiscoveredPrinter \<Rightarrow> CatalogPrinter \<Rightarrow> bool" where
  "evidence_matches lower ob p \<longleftrightarrow>
     (let observed_keys = identity_keys lower (dp_fingerprint ob) in
        observed_keys \<noteq> [] \<and>
        list_ex (\<lambda>key. key \<in> set observed_keys) (identity_keys lower (cp_fingerprint p))) \<or>
     list_ex (\<lambda>stored. list_ex (same_provider_entry stored) (dp_providers ob)) (cp_providers p)"

fun position :: "('a \<Rightarrow> bool) \<Rightarrow> 'a list \<Rightarrow> nat option" where
  "position P [] = None"
| "position P (x # xs) = (if P x then Some 0 else map_option Suc (position P xs))"

definition matching_printer_index ::
  "(ustring \<Rightarrow> ustring) \<Rightarrow> CatalogPrinter list \<Rightarrow> PrinterId \<Rightarrow> DiscoveredPrinter \<Rightarrow> nat option" where
  "matching_printer_index lower ps observed_id ob =
     (case position (\<lambda>p. cp_id p = observed_id) ps of
        Some i \<Rightarrow> Some i
      | None \<Rightarrow> position (evidence_matches lower ob) ps)"

definition connection_fingerprint :: "PrinterConnection \<Rightarrow> ustring" where
  "connection_fingerprint c = (case c of
     SystemQueue q \<Rightarrow> lit ''system:'' @ q
   | Network h p \<Rightarrow> lit ''tcp:'' @ h @ lit '':'' @ dec (unat p)
   | Usb v p serial_number \<Rightarrow> lit ''usb:'' @ dec (unat v) @ lit '':'' @ dec (unat p) @ lit '':'' @
       (case serial_number of Some s \<Rightarrow> s | None \<Rightarrow> [])
   | Virtual i \<Rightarrow> lit ''virtual:'' @ i)"

fun first_provider_id :: "ProviderMetadata list \<Rightarrow> ustring option" where
  "first_provider_id [] = None"
| "first_provider_id (p # ps) = (case prov_provider_id p of
     Some i \<Rightarrow> Some (prov_provider p @ lit '':'' @ i) | None \<Rightarrow> first_provider_id ps)"

text \<open>The first identity key, else the first provider that has an identifier.\<close>

definition evidence_text ::
  "(ustring \<Rightarrow> ustring) \<Rightarrow> PrinterFingerprint \<Rightarrow> ProviderMetadata list \<Rightarrow> ustring option" where
  "evidence_text lower f providers = (case identity_keys lower f of
     key # _ \<Rightarrow> Some key | [] \<Rightarrow> first_provider_id providers)"

definition fnv1a :: "nat list \<Rightarrow> 64 word" where
  "fnv1a bytes = fold (\<lambda>b hash. (hash XOR of_nat b) * 0x100000001b3) bytes 0xcbf29ce484222325"

text \<open>\<open>{:016x}\<close>.\<close>

definition hex16 :: "64 word \<Rightarrow> ustring" where
  "hex16 w = map (\<lambda>i. hex_digit (unat w div 16 ^ i mod 16)) (rev [0..<16])"

definition discovered_printer_id :: "(ustring \<Rightarrow> ustring) \<Rightarrow> DiscoveredPrinter \<Rightarrow> PrinterId" where
  "discovered_printer_id lower ob =
     lit ''printer_discovered_'' @ hex16 (fnv1a (utf8_bytes
       (case evidence_text lower (dp_fingerprint ob) (dp_providers ob) of
          Some source \<Rightarrow> source | None \<Rightarrow> connection_fingerprint (dp_connection ob))))"

section \<open>What the front end sees\<close>

datatype DocumentType = TypeEscPos | TypeRaster | TypeDriver | TypeVirtual | TypePdf
datatype PdfRoute = RouteNative | RouteRaster
datatype PrinterConnectionType = TypeSystemQueue | TypeNetwork | TypeVirtualPrinter | TypeUsb
datatype VirtualOutputFormat = FormatStructured | FormatEscPos | FormatRaster | FormatPdf

record DesktopPdf =
  dpdf_route :: PdfRoute
  dpdf_paper_sizes :: "ustring list"
  dpdf_custom_paper :: bool
  dpdf_duplex :: bool

record DesktopCapabilities =
  dc_widths :: "16 word list"
  dc_document_types :: "DocumentType list"
  dc_supports_system_driver :: bool
  dc_supports_esc_pos :: bool
  dc_supports_cut :: bool
  dc_supports_qr :: bool
  dc_pdf :: "DesktopPdf option"

record VirtualOutputDiagnostics =
  vod_interpreted_commands :: nat
  vod_text_lines :: nat
  vod_images :: nat
  vod_qr_codes :: nat
  vod_barcodes :: nat
  vod_feed_lines :: nat
  vod_cut_requested :: bool
  vod_unsupported_commands :: "ustring list"

record DesktopOutput =
  vo_id :: ustring
  vo_job_id :: ustring
  vo_created_at :: ustring
  vo_format :: VirtualOutputFormat
  vo_preview :: ustring
  vo_byte_length :: nat
  vo_image_data_url :: "ustring option"
  vo_diagnostics :: "VirtualOutputDiagnostics option"
  vo_document :: "PrintDocument option"

record PrinterSummary =
  ps_id :: ustring
  ps_display_name :: ustring
  ps_source_name :: ustring
  ps_connection_type :: PrinterConnectionType
  ps_address :: "ustring option"
  ps_enabled :: bool
  ps_available :: bool
  ps_is_virtual :: bool
  ps_capabilities :: "DesktopCapabilities option"
  ps_submission_mode :: SubmissionMode
  ps_virtual_profile :: "VirtualPrinterProfile option"
  ps_mode :: "VirtualPrinterMode option"
  ps_delay_ms :: "nat option"
  ps_history :: "DesktopOutput list option"

fun paper_name :: "StandardPaper \<Rightarrow> ustring" where
  "paper_name PaperA4 = lit ''A4''"
| "paper_name PaperA5 = lit ''A5''"
| "paper_name PaperLetter = lit ''Letter''"
| "paper_name PaperLegal = lit ''Legal''"

definition desktop_pdf_capabilities :: "PdfCapabilities \<Rightarrow> DesktopPdf" where
  "desktop_pdf_capabilities pdf = \<lparr>dpdf_route = (if pdf_native pdf then RouteNative else RouteRaster),
     dpdf_paper_sizes = map paper_name (pdf_paper_sizes pdf), dpdf_custom_paper = pdf_custom_paper pdf,
     dpdf_duplex = pdf_duplex pdf\<rparr>"

definition configured_document_types :: "CatalogPrinter \<Rightarrow> DocumentType list" where
  "configured_document_types p =
     (if is_virtual p then TypeVirtual # (case pr_virtual_profile (cp_reference p) of
          Some (EscPosReceipt _) \<Rightarrow> [TypeEscPos]
        | Some (SystemDriverPage _ _ _) \<Rightarrow> [TypeDriver]
        | None \<Rightarrow> [])
      else (case pr_submission_mode (cp_reference p) of
          Driver \<Rightarrow> [TypeDriver] | Raw EscPos \<Rightarrow> [TypeEscPos]))"

definition desktop_capabilities :: "CatalogPrinter \<Rightarrow> PrinterCapabilities \<Rightarrow> DesktopCapabilities" where
  "desktop_capabilities p pc = \<lparr>
     dc_widths = pc_receipt_widths_mm pc,
     dc_document_types = configured_document_types p @ (if pc_raster pc then [TypeRaster] else []) @
       (if pc_pdf pc \<noteq> None then [TypePdf] else []),
     dc_supports_system_driver = pc_system_driver pc,
     dc_supports_esc_pos = (pc_esc_pos pc \<or> pr_submission_mode (cp_reference p) = Raw EscPos),
     dc_supports_cut = pc_cut pc, dc_supports_qr = pc_qr_code pc,
     dc_pdf = map_option desktop_pdf_capabilities (pc_pdf pc)\<rparr>"

definition connection_summary :: "PrinterConnection \<Rightarrow> PrinterConnectionType \<times> ustring option" where
  "connection_summary c = (case c of
     SystemQueue q \<Rightarrow> (TypeSystemQueue, Some q)
   | Network h p \<Rightarrow> (TypeNetwork, Some (h @ lit '':'' @ dec (unat p)))
   | Virtual _ \<Rightarrow> (TypeVirtualPrinter, None)
   | Usb v p _ \<Rightarrow> (TypeUsb, Some (hex4 v @ lit '':'' @ hex4 p)))"

text \<open>\<open>pl_png\<close> is the data URL of a page, when the PNG encoder succeeds.\<close>

record projection_lib =
  pl_png :: "RasterPage \<Rightarrow> ustring option"
  pl_time_text :: "Timestamp \<Rightarrow> ustring"
  pl_spooler_text :: "SpoolerError \<Rightarrow> ustring"

text \<open>The separator of the summary line, a middle dot between spaces.\<close>

definition middle_dot :: ustring where
  "middle_dot = [32, 183, 32]"

definition diagnostics_line :: "EscPosDiagnostics \<Rightarrow> ustring" where
  "diagnostics_line d =
     dec (ed_interpreted_commands d) @ lit '' commands'' @ middle_dot @
     dec (ed_text_lines d) @ lit '' text lines'' @ middle_dot @
     dec (ed_qr_codes d) @ lit '' QR'' @ middle_dot @
     dec (ed_barcodes d) @ lit '' barcode'' @ middle_dot @
     dec (ed_images d) @ lit '' image'' @ (if ed_images d = 1 then [] else lit ''s'') @ middle_dot @
     dec (ed_feed_lines d) @ lit '' feed lines'' @ middle_dot @ lit ''cut '' @
     (if ed_cut_requested d then lit ''requested'' else lit ''not requested'')"

definition output_diagnostics :: "EscPosDiagnostics \<Rightarrow> VirtualOutputDiagnostics" where
  "output_diagnostics d = \<lparr>
     vod_interpreted_commands = ed_interpreted_commands d, vod_text_lines = ed_text_lines d,
     vod_images = ed_images d, vod_qr_codes = ed_qr_codes d, vod_barcodes = ed_barcodes d,
     vod_feed_lines = ed_feed_lines d, vod_cut_requested = ed_cut_requested d,
     vod_unsupported_commands = map snd (ed_unsupported d)\<rparr>"

fun output_form ::
  "VirtualPreview \<Rightarrow> RenderedDocument \<Rightarrow> VirtualOutputFormat \<times> ustring \<times> PrintDocument option" where
  "output_form preview (VirtualOutput d) =
     (FormatStructured, join [10] (vd_preview_lines d), Some (vd_document d))"
| "output_form preview (EscPosOutput bytes _) = (FormatEscPos,
     (case vp_escpos preview of
        None \<Rightarrow> dec (length bytes) @ lit '' ESC/POS bytes interpreted''
      | Some diagnostics \<Rightarrow> diagnostics_line diagnostics), None)"
| "output_form preview (RasterOutput pages) = (FormatRaster, dec (length pages) @ lit '' raster page(s)'', None)"
| "output_form preview (NativeOutput media _) =
     (FormatStructured, lit ''Native document ('' @ media @ lit '')'', None)"
| "output_form preview (PdfOutput d) = (FormatPdf,
     lit ''PDF'' @ middle_dot @ dec (pp_page_count d) @ lit '' page(s) in document'' @ middle_dot @
     dec (length (pp_selected_pages d)) @ lit '' selected'', None)"

definition virtual_output :: "projection_lib \<Rightarrow> nat \<times> VirtualSubmission \<Rightarrow> DesktopOutput" where
  "virtual_output L indexed = (case indexed of (index, v) \<Rightarrow>
     let (format, preview, document) = output_form (vsub_preview v) (vsub_document v) in
     \<lparr>vo_id = lit ''output_'' @ vsub_job_id v @ lit ''_'' @ dec index,
      vo_job_id = vsub_job_id v,
      vo_created_at = pl_time_text L (vsub_recorded_at v),
      vo_format = format, vo_preview = preview,
      vo_byte_length = RenderedDocument_byte_len (vsub_document v),
      vo_image_data_url = (case vp_pages (vsub_preview v) of p # _ \<Rightarrow> pl_png L p | [] \<Rightarrow> None),
      vo_diagnostics = map_option output_diagnostics (vp_escpos (vsub_preview v)),
      vo_document = document\<rparr>)"

text \<open>\<open>devices\<close> is the virtual spooler at the time of the reads.\<close>

definition virtual_details ::
  "projection_lib \<Rightarrow> PerPrinterVirtualSpooler \<Rightarrow> CatalogPrinter \<Rightarrow>
     CommandError + VirtualPrinterMode option \<times> nat option \<times> DesktopOutput list option" where
  "virtual_details L devices p =
     (if is_virtual p then
        and_then (map_err (\<lambda>e. command_internal (pl_spooler_text L e)) (fst (device_policy (cp_id p) devices)))
          (\<lambda>(mode, delay_ms).
        and_then (map_err (\<lambda>e. command_internal (pl_spooler_text L e)) (fst (device_history (cp_id p) devices)))
          (\<lambda>history.
        Ok (Some mode, Some delay_ms, Some (map (virtual_output L) (List.enumerate 0 history)))))
      else Ok (None, None, None))"

definition printer_summary ::
  "projection_lib \<Rightarrow> ProductFeatures \<Rightarrow> PerPrinterVirtualSpooler \<Rightarrow> CatalogPrinter \<Rightarrow>
     CommandError + PrinterSummary" where
  "printer_summary L features devices p =
     and_then (virtual_details L devices p) (\<lambda>(mode, delay_ms, history).
     let (ctype, address) = connection_summary (cp_connection p) in
     Ok \<lparr>ps_id = cp_id p,
       ps_display_name = pr_display_name (cp_reference p),
       ps_source_name = cp_source_name p,
       ps_connection_type = ctype, ps_address = address,
       ps_enabled = (pr_enabled (cp_reference p) \<and> feature_allows_printer features p),
       ps_available = (feature_allows_printer features p \<and> cp_availability p = Online),
       ps_is_virtual = is_virtual p,
       ps_capabilities = map_option (desktop_capabilities p) (cp_capabilities p),
       ps_submission_mode = pr_submission_mode (cp_reference p),
       ps_virtual_profile = pr_virtual_profile (cp_reference p),
       ps_mode = mode, ps_delay_ms = delay_ms, ps_history = history\<rparr>)"

section \<open>What the protocol advertises\<close>

fun protocol_paper_size :: "StandardPaper \<Rightarrow> StandardPaperSize" where
  "protocol_paper_size PaperA4 = A4"
| "protocol_paper_size PaperA5 = A5"
| "protocol_paper_size PaperLetter = Letter"
| "protocol_paper_size PaperLegal = Legal"

definition protocol_document_formats :: "PrinterCapabilities \<Rightarrow> WireDocumentFormat list" where
  "protocol_document_formats pc = ReceiptFormat # (if pc_pdf pc \<noteq> None then [PdfFormatKind] else [])"

definition protocol_width :: "16 word \<Rightarrow> ReceiptWidth list" where
  "protocol_width width = (if width = 58 then [Mm58] else if width = 80 then [Mm80] else [])"

definition protocol_widths :: "16 word list \<Rightarrow> ReceiptWidth list" where
  "protocol_widths widths = remdups_adj (sort_key millimetres (concat (map protocol_width widths)))"

definition protocol_capabilities :: "PrinterCapabilities \<Rightarrow> SubmissionMode \<Rightarrow> WireCapabilities option" where
  "protocol_capabilities pc mode =
     (let widths = protocol_widths (pc_receipt_widths_mm pc) in
      if widths = [] then None else Some \<lparr>
        cap_media_widths = widths,
        cap_system_driver = Some (pc_system_driver pc),
        cap_esc_pos = Some (pc_esc_pos pc \<or> mode = Raw EscPos),
        cap_raster = pc_raster pc, cap_cut = pc_cut pc, cap_qr = pc_qr_code pc, cap_barcode = pc_barcode pc,
        cap_document_formats = Some (protocol_document_formats pc),
        cap_paper_sizes = (case pc_pdf pc of
            Some pdf \<Rightarrow> if pdf_paper_sizes pdf = [] then None else Some (map protocol_paper_size (pdf_paper_sizes pdf))
          | None \<Rightarrow> None),
        cap_custom_paper_size = map_option pdf_custom_paper (pc_pdf pc),
        cap_print_options = map_option (\<lambda>pdf. \<lparr>opt_copies = True, opt_duplex = pdf_duplex pdf,
          opt_orientation = True, opt_scaling = True, opt_page_ranges = True\<rparr>) (pc_pdf pc)\<rparr>)"

definition protocol_connection :: "PrinterConnection \<Rightarrow> CommandError + WireKind \<times> WireConnection \<times> ustring" where
  "protocol_connection c = (case c of
     SystemQueue q \<Rightarrow> Ok (WireLocal, WireSystem q, lit ''system:'' @ q)
   | Network h p \<Rightarrow> Ok (WireNetwork, WireTcp h p, lit ''tcp:'' @ h @ lit '':'' @ dec (unat p))
   | Virtual i \<Rightarrow> Ok (WireVirtualKind, WireVirtual, lit ''virtual:'' @ i)
   | Usb _ _ _ \<Rightarrow> Err (CommandError_new (lit ''feature_unavailable'')
       (lit ''The current wire protocol cannot advertise USB printer descriptors.'')))"

fun protocol_availability :: "PrinterAvailability \<Rightarrow> WireAvailability" where
  "protocol_availability Online = WireOnline"
| "protocol_availability Offline = WireOffline"
| "protocol_availability _ = WireUnknown"

definition protocol_descriptor :: "(ustring \<Rightarrow> ustring) \<Rightarrow> CatalogPrinter \<Rightarrow> CommandError + PrinterDescriptor" where
  "protocol_descriptor lower p =
     and_then (protocol_connection (cp_connection p)) (\<lambda>(kind, connection, fingerprint).
     Ok \<lparr>pd_id = cp_id p,
       pd_fingerprint = (case evidence_text lower (cp_fingerprint p) (cp_providers p) of
         Some evidence \<Rightarrow> evidence | None \<Rightarrow> fingerprint),
       pd_name = pr_display_name (cp_reference p),
       pd_kind = kind, pd_connection = connection,
       pd_capabilities = Option.bind (cp_capabilities p)
         (\<lambda>pc. protocol_capabilities pc (pr_submission_mode (cp_reference p))),
       pd_enabled = pr_enabled (cp_reference p),
       pd_availability = protocol_availability (cp_availability p)\<rparr>)"

end
