(* ===== verification/Catalog_Migration.thy ===== *)
theory Catalog_Migration
  imports Sorted_Map Wire_Codec
begin

text \<open>
  The migration of printer catalogues written by earlier releases
  (\<open>apps/oppa/src-tauri/src/printer_catalog.rs\<close>, \<open>migrate_legacy_printer_config\<close>): rows without a
  submission mode or, for virtual printers, without a device profile are completed in the JSON value
  before it is decoded. \<open>get_mut\<close> changes an entry in place; \<open>insert\<close> keeps the entries of an
  object in key order.
\<close>

section \<open>Values\<close>

fun as_array :: "Value \<Rightarrow> Value list option" where
  "as_array (JArray vs) = Some vs"
| "as_array _ = None"

fun as_u64 :: "Value \<Rightarrow> 64 word option" where
  "as_u64 (JNumber (PosInt n)) = Some n"
| "as_u64 _ = None"

fun entries_set :: "ustring \<Rightarrow> Value \<Rightarrow> (ustring \<times> Value) list \<Rightarrow> (ustring \<times> Value) list" where
  "entries_set key v [] = []"
| "entries_set key v ((k, w) # es) = (if k = key then (k, v) # es else (k, w) # entries_set key v es)"

text \<open>\<open>*value.get_mut(key) = v\<close>.\<close>

fun value_set :: "ustring \<Rightarrow> Value \<Rightarrow> Value \<Rightarrow> Value" where
  "value_set key v (JObject es) = JObject (entries_set key v es)"
| "value_set key v w = w"

section \<open>One row\<close>

definition legacy_width :: "Value \<Rightarrow> 64 word" where
  "legacy_width printer = (case Option.bind (value_get printer (lit ''virtualWidth'')) as_u64 of
     Some width \<Rightarrow> if width = 58 \<or> width = 80 then width else 80
   | None \<Rightarrow> 80)"

definition connection_type :: "(ustring \<times> Value) list \<Rightarrow> ustring option" where
  "connection_type reference =
     Option.bind (map_of reference (lit ''connection'')) (\<lambda>connection.
     Option.bind (value_get connection (lit ''type'')) as_str)"

definition driver_mode_value :: Value where
  "driver_mode_value = JObject [(lit ''type'', JString (lit ''driver''))]"

definition raw_mode_value :: Value where
  "raw_mode_value = JObject [(lit ''language'', JString (lit ''esc-pos'')), (lit ''type'', JString (lit ''raw''))]"

definition legacy_submission_mode :: "ustring option \<Rightarrow> Value option" where
  "legacy_submission_mode ctype =
     (if ctype = Some (lit ''system-queue'') then Some driver_mode_value
      else if ctype = Some (lit ''network'') \<or> ctype = Some (lit ''usb'') \<or> ctype = Some (lit ''virtual'')
      then Some raw_mode_value else None)"

definition page_profile_value :: Value where
  "page_profile_value = JObject [(lit ''dpi'', JNumber (PosInt 300)),
     (lit ''pageHeightMm'', JNumber (PosInt 297)), (lit ''pageWidthMm'', JNumber (PosInt 210)),
     (lit ''type'', JString (lit ''system-driver-page''))]"

definition receipt_profile_value :: "64 word \<Rightarrow> Value" where
  "receipt_profile_value width = JObject [(lit ''type'', JString (lit ''esc-pos-receipt'')),
     (lit ''widthMm'', JNumber (PosInt width))]"

definition legacy_profile :: "64 word \<Rightarrow> (ustring \<times> Value) list \<Rightarrow> Value" where
  "legacy_profile width reference =
     (if Option.bind (map_of reference (lit ''submissionMode'')) (\<lambda>mode.
           Option.bind (value_get mode (lit ''type'')) as_str) = Some (lit ''driver'')
      then page_profile_value else receipt_profile_value width)"

definition add_missing :: "ustring \<Rightarrow> Value \<Rightarrow> (ustring \<times> Value) list \<Rightarrow> (ustring \<times> Value) list" where
  "add_missing key v es = (if map_of es key = None then btree_insert key v es else es)"

definition queue_capabilities :: "(ustring \<times> Value) list \<Rightarrow> (ustring \<times> Value) list" where
  "queue_capabilities capabilities =
     fold (\<lambda>(key, flag). btree_insert key (JBool flag))
       [(lit ''systemDriver'', True), (lit ''escPos'', False), (lit ''raster'', True), (lit ''cut'', False),
        (lit ''qrCode'', True), (lit ''barcode'', True), (lit ''cancellation'', True)]
       (add_missing (lit ''receiptWidthsMm'') (JArray [JNumber (PosInt 58), JNumber (PosInt 80)]) capabilities)"

definition migrate_legacy_system_queue_capabilities :: "Value \<Rightarrow> Value" where
  "migrate_legacy_system_queue_capabilities printer = (case as_object printer of
     None \<Rightarrow> printer
   | Some es \<Rightarrow>
       let present = add_missing (lit ''capabilities'') (JObject []) es in
       (case map_of present (lit ''capabilities'') of
          Some JNull \<Rightarrow> JObject (entries_set (lit ''capabilities'') (JObject (queue_capabilities [])) present)
        | Some (JObject capabilities) \<Rightarrow>
            JObject (entries_set (lit ''capabilities'') (JObject (queue_capabilities capabilities)) present)
        | _ \<Rightarrow> JObject present))"

definition migrate_reference ::
  "64 word \<Rightarrow> (ustring \<times> Value) list \<Rightarrow> (bool \<times> (ustring \<times> Value) list) option" where
  "migrate_reference width reference =
     (let ctype = connection_type reference;
          had_submission_mode = (map_of reference (lit ''submissionMode'') \<noteq> None) in
      Option.bind (if had_submission_mode then Some reference
          else map_option (\<lambda>m. btree_insert (lit ''submissionMode'') m reference) (legacy_submission_mode ctype))
        (\<lambda>reference1.
      let missing = (ctype = Some (lit ''virtual'') \<and> map_of reference1 (lit ''virtualProfile'') = None) in
      Some (\<not> had_submission_mode \<or> missing,
        if missing then btree_insert (lit ''virtualProfile'') (legacy_profile width reference1) reference1
        else reference1)))"

definition migrate_printer :: "Value \<Rightarrow> bool \<times> Value" where
  "migrate_printer printer = (case Option.bind (value_get printer (lit ''reference'')) as_object of
     None \<Rightarrow> (False, printer)
   | Some reference \<Rightarrow>
      (case migrate_reference (legacy_width printer) reference of
         None \<Rightarrow> (False, printer)
       | Some (changed, migrated) \<Rightarrow>
           let printer1 = value_set (lit ''reference'') (JObject migrated) printer in
           (changed,
            if map_of reference (lit ''submissionMode'') = None \<and>
               connection_type reference = Some (lit ''system-queue'')
            then migrate_legacy_system_queue_capabilities printer1 else printer1)))"

section \<open>The catalogue\<close>

definition migrate_legacy_printer_config :: "Value \<Rightarrow> bool \<times> Value" where
  "migrate_legacy_printer_config v = (case Option.bind (value_get v (lit ''printers'')) as_array of
     None \<Rightarrow> (False, v)
   | Some printers \<Rightarrow>
       (list_ex fst (map migrate_printer printers),
        value_set (lit ''printers'') (JArray (map (\<lambda>p. snd (migrate_printer p)) printers)) v))"

section \<open>The laws\<close>

lemma entries_set_lookup:
  "map_of (entries_set key v es) k =
     (if k = key \<and> map_of es key \<noteq> None then Some v else map_of es k)"
  by (induction key v es rule: entries_set.induct) auto

lemma entries_set_same: "map_of es key = Some v \<Longrightarrow> entries_set key v es = es"
  by (induction key v es rule: entries_set.induct) (auto split: if_splits)

lemma btree_insert_map_of: "map_of (btree_insert key v es) k = (if k = key then Some v else map_of es k)"
  by (induction key v es rule: btree_insert.induct) auto

lemma value_set_get:
  "value_get v key = Some w \<Longrightarrow> value_get (value_set key u v) k = (if k = key then Some u else value_get v k)"
  by (cases v) (auto simp: entries_set_lookup)

lemma value_set_same: "value_get v key = Some w \<Longrightarrow> value_set key w v = v"
  by (cases v) (auto simp: entries_set_same)

text \<open>A row in the current form: its mode is given or cannot be guessed, and a virtual one has a profile.\<close>

definition reference_current :: "(ustring \<times> Value) list \<Rightarrow> bool" where
  "reference_current r \<longleftrightarrow>
     (if map_of r (lit ''submissionMode'') = None then legacy_submission_mode (connection_type r) = None
      else connection_type r = Some (lit ''virtual'') \<longrightarrow> map_of r (lit ''virtualProfile'') \<noteq> None)"

definition row_current :: "Value \<Rightarrow> bool" where
  "row_current p \<longleftrightarrow> (case Option.bind (value_get p (lit ''reference'')) as_object of
     None \<Rightarrow> True | Some r \<Rightarrow> reference_current r)"

definition catalog_current :: "Value \<Rightarrow> bool" where
  "catalog_current v \<longleftrightarrow> (case Option.bind (value_get v (lit ''printers'')) as_array of
     None \<Rightarrow> True | Some ps \<Rightarrow> list_all row_current ps)"

lemma key_names [simp]:
  "lit ''virtualProfile'' \<noteq> lit ''connection''" "lit ''submissionMode'' \<noteq> lit ''connection''"
  "lit ''virtualProfile'' \<noteq> lit ''submissionMode''" "lit ''submissionMode'' \<noteq> lit ''virtualProfile''"
  "lit ''connection'' \<noteq> lit ''virtualProfile''" "lit ''connection'' \<noteq> lit ''submissionMode''"
  "lit ''capabilities'' \<noteq> lit ''reference''" "lit ''reference'' \<noteq> lit ''capabilities''"
  by (simp_all add: lit_def)

lemma connection_type_insert [simp]:
  "key \<noteq> lit ''connection'' \<Longrightarrow> connection_type (btree_insert key v r) = connection_type r"
  by (auto simp: connection_type_def btree_insert_map_of)

lemma migrate_reference_current:
  assumes "migrate_reference w r = Some (changed, r')"
  shows "reference_current r'" and "changed \<longleftrightarrow> \<not> reference_current r" and "\<not> changed \<Longrightarrow> r' = r"
    and "connection_type r' = connection_type r" and "map_of r' (lit ''submissionMode'') \<noteq> None"
  using assms
  by (auto simp: migrate_reference_def Let_def reference_current_def btree_insert_map_of
      split: if_splits bind_splits)

lemma migrate_reference_None:
  "migrate_reference w r = None \<longleftrightarrow>
     map_of r (lit ''submissionMode'') = None \<and> legacy_submission_mode (connection_type r) = None"
  by (auto simp: migrate_reference_def Let_def split: bind_splits)

lemma as_object_Some: "as_object v = Some es \<longleftrightarrow> v = JObject es"
  by (cases v) auto

lemma capabilities_keep_reference:
  "value_get (migrate_legacy_system_queue_capabilities p) (lit ''reference'') = value_get p (lit ''reference'')"
  by (cases p)
     (auto simp: migrate_legacy_system_queue_capabilities_def add_missing_def Let_def entries_set_lookup
      btree_insert_map_of split: option.splits Value.splits)

lemma migrate_printer_current:
  "row_current (snd (migrate_printer p))"
  "fst (migrate_printer p) \<longleftrightarrow> \<not> row_current p"
  "row_current p \<Longrightarrow> migrate_printer p = (False, p)"
proof -
  have all: "row_current (snd (migrate_printer p)) \<and> (fst (migrate_printer p) \<longleftrightarrow> \<not> row_current p) \<and>
    (row_current p \<longrightarrow> migrate_printer p = (False, p))"
  proof (cases "Option.bind (value_get p (lit ''reference'')) as_object")
    case None
    then show ?thesis by (simp add: migrate_printer_def row_current_def)
  next
    case (Some r)
    then have r: "value_get p (lit ''reference'') = Some (JObject r)"
      by (auto simp: as_object_Some split: bind_splits)
    have bound: "Option.bind (value_get p (lit ''reference'')) as_object = Some r" using r by simp
    show ?thesis
    proof (cases "migrate_reference (legacy_width p) r")
      case None
      then have "reference_current r" by (auto simp: migrate_reference_None reference_current_def)
      then show ?thesis by (simp add: migrate_printer_def row_current_def bound None)
    next
      case (Some m)
      obtain changed r' where pair: "m = (changed, r')" by (rule prod.exhaust)
      with Some have run: "migrate_reference (legacy_width p) r = Some (changed, r')" by simp
      note facts = migrate_reference_current [OF run]
      let ?p = "value_set (lit ''reference'') (JObject r') p"
      have get: "value_get ?p (lit ''reference'') = Some (JObject r')" using r by (simp add: value_set_get)
      have same: "?p = p" if "\<not> changed" using r facts(3) that by (simp add: value_set_same)
      have kept: "map_of r (lit ''submissionMode'') \<noteq> None" if "\<not> changed" using facts(3,5) that by simp
      let ?q = "if map_of r (lit ''submissionMode'') = None \<and> connection_type r = Some (lit ''system-queue'')
        then migrate_legacy_system_queue_capabilities ?p else ?p"
      have result: "migrate_printer p = (changed, ?q)" by (simp add: migrate_printer_def bound run Let_def)
      have "value_get ?q (lit ''reference'') = Some (JObject r')" using get by (simp add: capabilities_keep_reference)
      then have "row_current ?q" using facts(1) by (simp only: row_current_def) simp
      moreover have "row_current p \<longleftrightarrow> reference_current r" by (simp add: row_current_def bound)
      moreover have "?q = p" if "\<not> changed" using same [OF that] kept [OF that] by auto
      ultimately show ?thesis using facts(2) by (auto simp: result)
    qed
  qed
  show "row_current (snd (migrate_printer p))" "fst (migrate_printer p) \<longleftrightarrow> \<not> row_current p"
    "row_current p \<Longrightarrow> migrate_printer p = (False, p)"
    using all by blast+
qed

lemma migrate_current:
  "fst (migrate_legacy_printer_config v) \<longleftrightarrow> \<not> catalog_current v"
  by (auto simp: migrate_legacy_printer_config_def catalog_current_def list_ex_iff list_all_iff
      migrate_printer_current(2) split: option.splits)

lemma as_array_Some: "as_array v = Some vs \<longleftrightarrow> v = JArray vs"
  by (cases v) auto

lemma current_unchanged:
  assumes "catalog_current v"
  shows "migrate_legacy_printer_config v = (False, v)"
proof (cases "Option.bind (value_get v (lit ''printers'')) as_array")
  case None
  then show ?thesis by (simp add: migrate_legacy_printer_config_def)
next
  case (Some ps)
  then have get: "value_get v (lit ''printers'') = Some (JArray ps)" by (auto simp: as_array_Some split: bind_splits)
  have "\<forall>p \<in> set ps. migrate_printer p = (False, p)"
    using assms Some migrate_printer_current(3) by (auto simp: catalog_current_def list_all_iff)
  then have "map (\<lambda>p. snd (migrate_printer p)) ps = ps" by (auto intro: map_idI)
  moreover have "\<not> fst (migrate_legacy_printer_config v)" using assms migrate_current by blast
  ultimately show ?thesis using Some value_set_same [OF get]
    by (simp add: migrate_legacy_printer_config_def)
qed

lemma migrated_current: "catalog_current (snd (migrate_legacy_printer_config v))"
proof (cases "Option.bind (value_get v (lit ''printers'')) as_array")
  case None
  then show ?thesis by (simp add: migrate_legacy_printer_config_def catalog_current_def)
next
  case (Some ps)
  then have "value_get v (lit ''printers'') = Some (JArray ps)" by (auto simp: as_array_Some split: bind_splits)
  then show ?thesis using Some migrate_printer_current(1)
    by (simp add: migrate_legacy_printer_config_def catalog_current_def value_set_get list_all_iff)
qed

section \<open>What becomes of a row\<close>

definition reference_field :: "ustring \<Rightarrow> Value \<Rightarrow> Value option" where
  "reference_field key p = Option.bind (value_get p (lit ''reference'')) (\<lambda>r. value_get r key)"

definition type_field :: "Value option \<Rightarrow> ustring option" where
  "type_field v = Option.bind v (\<lambda>w. Option.bind (value_get w (lit ''type'')) as_str)"

text \<open>The mode that is put in where there is none, and the profile of a virtual printer with a mode.\<close>

definition completed_mode :: "ustring option \<Rightarrow> Value option" where
  "completed_mode kind =
     (if kind = Some (lit ''system-queue'') then Some (JObject [(lit ''type'', JString (lit ''driver''))])
      else if kind \<in> {Some (lit ''network''), Some (lit ''usb''), Some (lit ''virtual'')}
      then Some (JObject [(lit ''language'', JString (lit ''esc-pos'')), (lit ''type'', JString (lit ''raw''))])
      else None)"

definition completed_profile :: "Value option \<Rightarrow> Value option \<Rightarrow> Value" where
  "completed_profile mode width =
     (if type_field mode = Some (lit ''driver'')
      then JObject [(lit ''dpi'', JNumber (PosInt 300)), (lit ''pageHeightMm'', JNumber (PosInt 297)),
        (lit ''pageWidthMm'', JNumber (PosInt 210)), (lit ''type'', JString (lit ''system-driver-page''))]
      else JObject [(lit ''type'', JString (lit ''esc-pos-receipt'')),
        (lit ''widthMm'', JNumber (PosInt (if width = Some (JNumber (PosInt 58)) then 58 else 80)))])"

text \<open>The capabilities of a queue that had no mode: what it can do is known, its paper widths stay, other keys too.\<close>

definition completed_capability :: "ustring \<Rightarrow> Value option \<Rightarrow> Value option" where
  "completed_capability key stored =
     (if key \<in> {lit ''systemDriver'', lit ''raster'', lit ''qrCode'', lit ''barcode'', lit ''cancellation''} then Some (JBool True)
      else if key \<in> {lit ''escPos'', lit ''cut''} then Some (JBool False)
      else if key = lit ''receiptWidthsMm'' \<and> stored = None then Some (JArray [JNumber (PosInt 58), JNumber (PosInt 80)])
      else stored)"

definition completed_capabilities :: "Value option \<Rightarrow> Value option \<Rightarrow> bool" where
  "completed_capabilities stored result \<longleftrightarrow> (case stored of
     None \<Rightarrow> (\<exists>es. result = Some (JObject es) \<and> (\<forall>key. map_of es key = completed_capability key None))
   | Some JNull \<Rightarrow> (\<exists>es. result = Some (JObject es) \<and> (\<forall>key. map_of es key = completed_capability key None))
   | Some (JObject given) \<Rightarrow>
       (\<exists>es. result = Some (JObject es) \<and> (\<forall>key. map_of es key = completed_capability key (map_of given key)))
   | Some v \<Rightarrow> result = Some v)"

text \<open>
  A migrated row: every entry of the row and of its reference is kept; only a missing mode, a missing profile of a virtual printer,
  and the capabilities of a queue without a mode are put in.
\<close>

definition completes_row :: "Value \<Rightarrow> Value \<Rightarrow> bool" where
  "completes_row p q \<longleftrightarrow>
     (let kind = type_field (reference_field (lit ''connection'') p);
          mode = reference_field (lit ''submissionMode'') p in
      (row_current p \<longrightarrow> q = p) \<and>
      (\<forall>key. key \<notin> {lit ''reference'', lit ''capabilities''} \<longrightarrow> value_get q key = value_get p key) \<and>
      (\<forall>key. key \<notin> {lit ''submissionMode'', lit ''virtualProfile''} \<longrightarrow> reference_field key q = reference_field key p) \<and>
      reference_field (lit ''submissionMode'') q = (if mode = None then completed_mode kind else mode) \<and>
      reference_field (lit ''virtualProfile'') q =
        (if reference_field (lit ''virtualProfile'') p = None \<and> kind = Some (lit ''virtual'')
         then Some (completed_profile (reference_field (lit ''submissionMode'') q) (value_get p (lit ''virtualWidth'')))
         else reference_field (lit ''virtualProfile'') p) \<and>
      (if mode = None \<and> kind = Some (lit ''system-queue'')
       then completed_capabilities (value_get p (lit ''capabilities'')) (value_get q (lit ''capabilities''))
       else value_get q (lit ''capabilities'') = value_get p (lit ''capabilities'')))"

lemma completed_mode_eq: "completed_mode kind = legacy_submission_mode kind"
  by (auto simp: completed_mode_def legacy_submission_mode_def driver_mode_value_def raw_mode_value_def)

lemma as_u64_Some: "as_u64 v = Some n \<longleftrightarrow> v = JNumber (PosInt n)"
  by (cases v rule: as_u64.cases) auto

lemma completed_profile_eq:
  "completed_profile (map_of r (lit ''submissionMode'')) (value_get p (lit ''virtualWidth'')) = legacy_profile (legacy_width p) r"
proof -
  have "legacy_width p = (if value_get p (lit ''virtualWidth'') = Some (JNumber (PosInt 58)) then 58 else 80)"
    by (auto simp: legacy_width_def as_u64_Some split: option.split bind_splits)
  then show ?thesis
    by (simp add: completed_profile_def legacy_profile_def type_field_def page_profile_value_def receipt_profile_value_def)
qed

lemma migrate_reference_fields:
  assumes "migrate_reference w r = Some (changed, r')"
  shows "key \<notin> {lit ''submissionMode'', lit ''virtualProfile''} \<Longrightarrow> map_of r' key = map_of r key"
    and "map_of r' (lit ''submissionMode'') = (if map_of r (lit ''submissionMode'') = None
      then legacy_submission_mode (connection_type r) else map_of r (lit ''submissionMode''))"
    and "map_of r' (lit ''virtualProfile'') = (if map_of r (lit ''virtualProfile'') = None \<and>
        connection_type r = Some (lit ''virtual'') then Some (legacy_profile w r') else map_of r (lit ''virtualProfile''))"
  using assms
  by (auto simp: migrate_reference_def Let_def btree_insert_map_of legacy_profile_def split: if_splits bind_splits)

lemma queue_capability: "map_of (queue_capabilities es) key = completed_capability key (map_of es key)"
proof -
  have "map_of (add_missing (lit ''receiptWidthsMm'') v es) key =
      (if key = lit ''receiptWidthsMm'' \<and> map_of es key = None then Some v else map_of es key)" for v
    by (auto simp: add_missing_def btree_insert_map_of)
  moreover have "lit ''receiptWidthsMm'' \<notin> {lit ''systemDriver'', lit ''raster'', lit ''qrCode'', lit ''barcode'',
      lit ''cancellation'', lit ''escPos'', lit ''cut''}"
    "{lit ''systemDriver'', lit ''raster'', lit ''qrCode'', lit ''barcode'', lit ''cancellation''} \<inter> {lit ''escPos'', lit ''cut''} = {}"
    by (simp_all add: lit_def)
  ultimately show ?thesis by (auto simp: queue_capabilities_def completed_capability_def btree_insert_map_of)
qed

lemma migrated_capabilities:
  "value_get p key = value_get (migrate_legacy_system_queue_capabilities p) key" if "key \<noteq> lit ''capabilities''"
  using that by (cases p) (auto simp: migrate_legacy_system_queue_capabilities_def add_missing_def Let_def entries_set_lookup
      btree_insert_map_of split: option.splits Value.splits)

lemma migrated_capabilities_completed:
  "completed_capabilities (map_of es (lit ''capabilities''))
     (value_get (migrate_legacy_system_queue_capabilities (JObject es)) (lit ''capabilities''))"
  by (auto simp: migrate_legacy_system_queue_capabilities_def add_missing_def Let_def entries_set_lookup
      btree_insert_map_of completed_capabilities_def queue_capability split: option.splits Value.splits)

lemma type_field_connection: "type_field (map_of r (lit ''connection'')) = connection_type r"
  by (simp add: type_field_def connection_type_def)

lemma unrecognised_row:
  assumes "\<And>key. reference_field key p = None"
  shows "completes_row p p"
  using assms by (simp add: completes_row_def Let_def type_field_def completed_mode_def)

lemma migrate_printer_completes: "completes_row p (snd (migrate_printer p))"
proof (cases "Option.bind (value_get p (lit ''reference'')) as_object")
  case None
  have "value_get v key = None" if "as_object v = None" for v key using that by (cases v) simp_all
  then have "reference_field key p = None" for key
    using None by (auto simp: reference_field_def split: bind_splits)
  then show ?thesis using None unrecognised_row by (simp add: migrate_printer_def)
next
  case (Some r)
  then have r: "value_get p (lit ''reference'') = Some (JObject r)" by (auto simp: as_object_Some split: bind_splits)
  then obtain es where es: "p = JObject es" by (cases p) simp_all
  have old: "reference_field key p = map_of r key" for key by (simp add: reference_field_def r)
  show ?thesis
  proof (cases "migrate_reference (legacy_width p) r")
    case None
    then have "map_of r (lit ''submissionMode'') = None" "legacy_submission_mode (connection_type r) = None"
      by (simp_all add: migrate_reference_None)
    moreover from this have "connection_type r \<noteq> Some (lit ''virtual'')" "connection_type r \<noteq> Some (lit ''system-queue'')"
      by (auto simp: legacy_submission_mode_def split: if_splits)
    ultimately show ?thesis using None Some
      by (simp add: migrate_printer_def completes_row_def Let_def old type_field_connection completed_mode_eq)
  next
    case (Some m)
    obtain changed r' where pair: "m = (changed, r')" by (rule prod.exhaust)
    with Some have run: "migrate_reference (legacy_width p) r = Some (changed, r')" by simp
    note fields = migrate_reference_fields [OF run]
    let ?p = "value_set (lit ''reference'') (JObject r') p"
    let ?queue = "map_of r (lit ''submissionMode'') = None \<and> connection_type r = Some (lit ''system-queue'')"
    let ?q = "if ?queue then migrate_legacy_system_queue_capabilities ?p else ?p"
    have q: "snd (migrate_printer p) = ?q" by (simp add: migrate_printer_def r run Let_def)
    have get: "value_get ?p key = (if key = lit ''reference'' then Some (JObject r') else value_get p key)" for key
      using value_set_get [OF r] by simp
    have "value_get ?q (lit ''reference'') = Some (JObject r')" by (simp add: get capabilities_keep_reference)
    then have new: "reference_field key ?q = map_of r' key" for key by (simp add: reference_field_def)
    have others: "value_get ?q key = value_get p key" if "key \<notin> {lit ''reference'', lit ''capabilities''}" for key
      using that migrated_capabilities [of key ?p] get [of key] by simp
    have capabilities: "if ?queue
        then completed_capabilities (value_get p (lit ''capabilities'')) (value_get ?q (lit ''capabilities''))
        else value_get ?q (lit ''capabilities'') = value_get p (lit ''capabilities'')"
    proof (cases ?queue)
      case True
      then show ?thesis using migrated_capabilities_completed [of "entries_set (lit ''reference'') (JObject r') es"]
        by (simp add: es entries_set_lookup)
    next
      case False
      show ?thesis unfolding if_not_P [OF False] using get by simp
    qed
    show ?thesis unfolding q completes_row_def Let_def
    proof (intro conjI impI allI)
      show "?q = p" if "row_current p" using migrate_printer_current(3) [OF that] q by simp
      show "value_get ?q key = value_get p key" if "key \<notin> {lit ''reference'', lit ''capabilities''}" for key
        using that by (rule others)
      show "reference_field key ?q = reference_field key p" if "key \<notin> {lit ''submissionMode'', lit ''virtualProfile''}" for key
        unfolding old new using that by (rule fields(1))
      show "reference_field (lit ''submissionMode'') ?q =
          (if reference_field (lit ''submissionMode'') p = None
           then completed_mode (type_field (reference_field (lit ''connection'') p))
           else reference_field (lit ''submissionMode'') p)"
        unfolding old new type_field_connection completed_mode_eq by (rule fields(2))
      show "reference_field (lit ''virtualProfile'') ?q =
          (if reference_field (lit ''virtualProfile'') p = None \<and>
              type_field (reference_field (lit ''connection'') p) = Some (lit ''virtual'')
           then Some (completed_profile (reference_field (lit ''submissionMode'') ?q) (value_get p (lit ''virtualWidth'')))
           else reference_field (lit ''virtualProfile'') p)"
        unfolding old new type_field_connection completed_profile_eq by (rule fields(3))
      show "if reference_field (lit ''submissionMode'') p = None \<and>
            type_field (reference_field (lit ''connection'') p) = Some (lit ''system-queue'')
          then completed_capabilities (value_get p (lit ''capabilities'')) (value_get ?q (lit ''capabilities''))
          else value_get ?q (lit ''capabilities'') = value_get p (lit ''capabilities'')"
        unfolding old type_field_connection by (rule capabilities)
    qed
  qed
qed

definition completes_catalog :: "Value \<Rightarrow> Value \<Rightarrow> bool" where
  "completes_catalog v w \<longleftrightarrow> (case Option.bind (value_get v (lit ''printers'')) as_array of
     None \<Rightarrow> w = v
   | Some ps \<Rightarrow> (\<forall>key. key \<noteq> lit ''printers'' \<longrightarrow> value_get w key = value_get v key) \<and>
       (\<exists>qs. value_get w (lit ''printers'') = Some (JArray qs) \<and> list_all2 completes_row ps qs))"

lemma migration_completes: "completes_catalog v (snd (migrate_legacy_printer_config v))"
proof (cases "Option.bind (value_get v (lit ''printers'')) as_array")
  case None
  then show ?thesis by (simp add: migrate_legacy_printer_config_def completes_catalog_def)
next
  case (Some ps)
  then have "value_get v (lit ''printers'') = Some (JArray ps)" by (auto simp: as_array_Some split: bind_splits)
  then show ?thesis using Some
    by (simp add: migrate_legacy_printer_config_def completes_catalog_def value_set_get list_all2_conv_all_nth
        migrate_printer_completes)
qed

end
