(* ===== verification/Printer_Catalog.thy ===== *)
theory Printer_Catalog
  imports Catalog_Printer Catalog_Migration Processor
begin

text \<open>
  The printer catalogue of the desktop application (\<open>apps/oppa/src-tauri/src/printer_catalog.rs\<close>):
  the configured and discovered printers, kept in one setting of the repository, in the resolver of
  the agent and, for virtual printers, in the virtual spooler. One operation holds the mutation lock
  from its first read to its last write, so it is one step; discovery looks at the catalogue before
  it takes the lock and is two.
\<close>

section \<open>The diagnostics log\<close>

datatype DiagnosticLevel = LevelInfo | LevelWarn | LevelError

record DiagnosticLogEntry =
  dl_timestamp :: ustring
  dl_level :: DiagnosticLevel
  dl_target :: ustring
  dl_message :: ustring

definition MAX_LOG_ENTRIES :: nat where "MAX_LOG_ENTRIES = 200"

definition log_push ::
  "ustring \<Rightarrow> DiagnosticLevel \<Rightarrow> ustring \<Rightarrow> ustring \<Rightarrow> DiagnosticLogEntry list \<Rightarrow> DiagnosticLogEntry list" where
  "log_push now level target message entries =
     drop (length entries - (MAX_LOG_ENTRIES - 1)) entries @
     [\<lparr>dl_timestamp = now, dl_level = level, dl_target = sanitize target, dl_message = sanitize message\<rparr>]"

lemma log_push_bound: "length (log_push now level target message entries) \<le> MAX_LOG_ENTRIES"
  by (simp add: log_push_def MAX_LOG_ENTRIES_def)

section \<open>State\<close>

definition CATALOG_SETTING :: ustring where "CATALOG_SETTING = lit ''desktop.printer-catalog.v1''"
definition DISCOVERY_TIMEOUT :: nat where "DISCOVERY_TIMEOUT = 8000000000"
definition MAX_VIRTUAL_DELAY_MS :: nat where "MAX_VIRTUAL_DELAY_MS = 60000"

record DiscoveryProviderStatus =
  st_name :: ustring
  st_available :: bool
  st_last_scan_at :: "ustring option"
  st_detail :: ustring

record PrinterCatalog =
  pcat_storage :: SqliteStorage
  pcat_state :: PersistedCatalog
  pcat_resolver :: StaticPrinterResolver
  pcat_devices :: PerPrinterVirtualSpooler
  pcat_features :: ProductFeatures
  pcat_status :: "DiscoveryProviderStatus list"
  pcat_revision :: "64 word"
  pcat_log :: "DiagnosticLogEntry list"

text \<open>
  Serde's conversions of the catalogue, the text of a storage error, \<open>str::to_lowercase\<close>, the text of
  an instant (\<open>to_rfc3339\<close>) and the projections of the virtual output.
\<close>

record catalog_env =
  cx_storage :: "Value senv"
  cx_to_value :: "PersistedCatalog \<Rightarrow> ustring + Value"
  cx_from_value :: "Value \<Rightarrow> ustring + PersistedCatalog"
  cx_storage_text :: "StorageError \<Rightarrow> ustring"
  cx_lower :: "ustring \<Rightarrow> ustring"
  cx_rfc3339 :: "Timestamp \<Rightarrow> ustring"
  cx_projection :: projection_lib

type_synonym 'a catalog_op = "(PrinterCatalog, CommandError, 'a) eff"

section \<open>Loading\<close>

definition storage_error :: "catalog_env \<Rightarrow> StorageError \<Rightarrow> CommandError" where
  "storage_error E e = command_internal (cx_storage_text E e)"

definition store_catalog ::
  "catalog_env \<Rightarrow> Timestamp \<Rightarrow> PersistedCatalog \<Rightarrow> SqliteStorage \<Rightarrow> CommandError + SqliteStorage" where
  "store_catalog E clock c db =
     and_then (map_err command_internal (cx_to_value E c)) (\<lambda>v.
     and_then (map_err (storage_error E) (set_metadata (cx_storage E) Settings CATALOG_SETTING v clock db))
       (\<lambda>(_, db'). Ok db'))"

definition decode_catalog ::
  "catalog_env \<Rightarrow> Timestamp \<Rightarrow> Value \<Rightarrow> SqliteStorage \<Rightarrow> CommandError + PersistedCatalog \<times> SqliteStorage" where
  "decode_catalog E clock v db =
     (case migrate_legacy_printer_config v of (migrated, v') \<Rightarrow>
      and_then (map_err (\<lambda>e. command_internal (lit ''printer catalog is invalid: '' @ e)) (cx_from_value E v')) (\<lambda>c.
      if migrated then and_then (store_catalog E clock c db) (\<lambda>db'. Ok (c, db')) else Ok (c, db)))"

definition read_catalog ::
  "catalog_env \<Rightarrow> Timestamp \<Rightarrow> SqliteStorage \<Rightarrow> CommandError + PersistedCatalog \<times> SqliteStorage" where
  "read_catalog E clock db =
     and_then (map_err (storage_error E) (get_metadata (cx_storage E) Settings CATALOG_SETTING db)) (\<lambda>stored.
     case stored of Some v \<Rightarrow> decode_catalog E clock v db | None \<Rightarrow> Ok (PersistedCatalog_default, db))"

fun check_printers ::
  "ProductFeatures \<Rightarrow> PrinterId set \<Rightarrow> CatalogPrinter list \<Rightarrow> PerPrinterVirtualSpooler \<Rightarrow>
     CommandError + PerPrinterVirtualSpooler" where
  "check_printers features seen [] devices = Ok devices"
| "check_printers features seen (p # ps) devices =
     and_then (map_err (\<lambda>e. command_internal (lit ''stored printer is invalid: '' @ printer_error_message e))
       (PrinterRef_validate (cp_reference p))) (\<lambda>_.
     and_then (reject_if (cp_id p \<in> seen)
       (command_internal (lit ''stored printer id '' @ cp_id p @ lit '' is duplicated''))) (\<lambda>_.
     check_printers features (insert (cp_id p) seen) ps
       (if is_virtual p \<and> feature_allows_printer features p
        then device_register (cp_id p) (persisted_virtual_mode (cp_virtual_mode p)) (cp_virtual_delay_ms p) devices
        else devices)))"

fun resolution_text :: "PrinterResolutionError \<Rightarrow> ustring" where
  "resolution_text (InvalidPrinter message) = lit ''invalid printer reference: '' @ message"
| "resolution_text (DuplicatePrinter i) = lit ''duplicate printer id '' @ i"
| "resolution_text (ResolverBackend message) = lit ''printer resolver failed: '' @ message"

definition active_references :: "ProductFeatures \<Rightarrow> CatalogPrinter list \<Rightarrow> PrinterRef list" where
  "active_references features ps = map cp_reference (filter (feature_allows_printer features) ps)"

definition catalog_load ::
  "catalog_env \<Rightarrow> Timestamp \<Rightarrow> PerPrinterVirtualSpooler \<Rightarrow> ProductFeatures \<Rightarrow> DiagnosticLogEntry list \<Rightarrow>
     SqliteStorage \<Rightarrow> CommandError + PrinterCatalog" where
  "catalog_load E clock devices features log db =
     and_then (read_catalog E clock db) (\<lambda>(persisted, db').
     and_then (check_printers features {} (cat_printers persisted) devices) (\<lambda>devices'.
     and_then (map_err (\<lambda>e. command_internal (resolution_text e))
       (resolver_new (active_references features (cat_printers persisted)))) (\<lambda>resolver.
     Ok \<lparr>pcat_storage = db', pcat_state = persisted, pcat_resolver = resolver, pcat_devices = devices',
       pcat_features = features, pcat_status = [], pcat_revision = 1, pcat_log = log\<rparr>)))"

section \<open>Writing\<close>

definition bump_revision :: "unit catalog_op" where
  "bump_revision = emodify (\<lambda>c. c\<lparr>pcat_revision := saturating_add (pcat_revision c) 1\<rparr>)"

text \<open>The new state is written to the repository first and shown afterwards.\<close>

definition commit :: "catalog_env \<Rightarrow> Timestamp \<Rightarrow> PersistedCatalog \<Rightarrow> unit catalog_op" where
  "commit E clock next c = (case store_catalog E clock next (pcat_storage c) of
     Inl e \<Rightarrow> (Err e, c)
   | Inr db \<Rightarrow> (Ok (), c\<lparr>pcat_storage := db, pcat_state := next\<rparr>))"

definition resolver_put :: "PrinterRef \<Rightarrow> unit catalog_op" where
  "resolver_put r c = (case resolver_upsert r (pcat_resolver c) of
     Inl e \<Rightarrow> (Err (command_internal (resolution_text e)), c)
   | Inr resolver \<Rightarrow> (Ok (), c\<lparr>pcat_resolver := resolver\<rparr>))"

definition resolver_drop :: "PrinterId \<Rightarrow> unit catalog_op" where
  "resolver_drop i = emodify (\<lambda>c. c\<lparr>pcat_resolver := snd (resolver_remove i (pcat_resolver c))\<rparr>)"

definition on_devices :: "(PerPrinterVirtualSpooler \<Rightarrow> PerPrinterVirtualSpooler) \<Rightarrow> unit catalog_op" where
  "on_devices f = emodify (\<lambda>c. c\<lparr>pcat_devices := f (pcat_devices c)\<rparr>)"

definition summary_of :: "catalog_env \<Rightarrow> CatalogPrinter \<Rightarrow> PrinterSummary catalog_op" where
  "summary_of E p c = (printer_summary (cx_projection E) (pcat_features c) (pcat_devices c) p, c)"

definition parse_id :: "ustring \<Rightarrow> CommandError + PrinterId" where
  "parse_id s = map_err (\<lambda>e. command_invalid (identifier_error_text e)) (new_identifier s)"

fun replace_first :: "('a \<Rightarrow> bool) \<Rightarrow> 'a \<Rightarrow> 'a list \<Rightarrow> 'a list" where
  "replace_first P y [] = []"
| "replace_first P y (x # xs) = (if P x then y # xs else x # replace_first P y xs)"

text \<open>\<open>iter_mut().find\<close> and an update that may refuse; nothing is changed in that case.\<close>

definition update_printer ::
  "PrinterId \<Rightarrow> (CatalogPrinter \<Rightarrow> CommandError + CatalogPrinter) \<Rightarrow> PersistedCatalog \<Rightarrow>
     CommandError + CatalogPrinter \<times> PersistedCatalog" where
  "update_printer i f c =
     and_then (ok_or (command_not_found (lit ''Printer'')) (find (\<lambda>p. cp_id p = i) (cat_printers c))) (\<lambda>p.
     and_then (f p) (\<lambda>q.
     Ok (q, c\<lparr>cat_printers := replace_first (\<lambda>p. cp_id p = i) q (cat_printers c)\<rparr>)))"

definition validated_reference :: "PrinterRef \<Rightarrow> CommandError + unit" where
  "validated_reference r = map_err (\<lambda>e. command_invalid (printer_error_message e)) (PrinterRef_validate r)"

definition unavailable :: "ustring \<Rightarrow> CommandError" where
  "unavailable m = CommandError_new (lit ''feature_unavailable'') m"

record ConfigurePrinterChanges =
  ch_display_name :: "ustring option"
  ch_enabled :: "bool option"
  ch_submission_mode :: "SubmissionMode option"

definition apply_changes ::
  "ProductFeatures \<Rightarrow> ConfigurePrinterChanges \<Rightarrow> CatalogPrinter \<Rightarrow> CommandError + CatalogPrinter" where
  "apply_changes features changes p =
     and_then (reject_if (\<not> feature_allows_printer features p)
       (unavailable (lit ''This printer connection is disabled in the current product build.''))) (\<lambda>_.
     let r = cp_reference p;
         r1 = (case ch_display_name changes of Some n \<Rightarrow> r\<lparr>pr_display_name := n\<rparr> | None \<Rightarrow> r);
         r2 = (case ch_enabled changes of Some b \<Rightarrow> r1\<lparr>pr_enabled := b\<rparr> | None \<Rightarrow> r1) in
     and_then (case ch_submission_mode changes of
         Some m \<Rightarrow> if connection_kind (pr_connection r2) = KindSystemQueue then Ok (r2\<lparr>pr_submission_mode := m\<rparr>)
           else Err (command_invalid
             (lit ''Only system queues can switch between driver and raw ESC/POS mode.''))
       | None \<Rightarrow> Ok r2) (\<lambda>r3.
     and_then (validated_reference r3) (\<lambda>_. Ok (p\<lparr>cp_reference := r3\<rparr>))))"

definition catalog_configure ::
  "catalog_env \<Rightarrow> Timestamp \<Rightarrow> ustring \<Rightarrow> ConfigurePrinterChanges \<Rightarrow> PrinterSummary catalog_op" where
  "catalog_configure E clock pid changes =
     ebind (elift (parse_id pid)) (\<lambda>i.
     ebind (\<lambda>c. (update_printer i (apply_changes (pcat_features c) changes) (pcat_state c), c)) (\<lambda>(updated, next).
     ebind (commit E clock next) (\<lambda>_.
     ebind (resolver_put (cp_reference updated)) (\<lambda>_.
     ebind bump_revision (\<lambda>_. summary_of E updated)))))"

section \<open>Adding printers\<close>

definition append_printer :: "CatalogPrinter \<Rightarrow> PersistedCatalog \<Rightarrow> PersistedCatalog" where
  "append_printer p c = c\<lparr>cat_printers := cat_printers c @ [p]\<rparr>"

definition commit_appended :: "catalog_env \<Rightarrow> Timestamp \<Rightarrow> CatalogPrinter \<Rightarrow> unit catalog_op" where
  "commit_appended E clock p c = commit E clock (append_printer p (pcat_state c)) c"

definition generated_id :: "ustring \<Rightarrow> ustring \<Rightarrow> CommandError + PrinterId" where
  "generated_id kind uuid = map_err (\<lambda>e. command_internal (identifier_error_text e)) (new_identifier (kind @ uuid))"

definition own_provider :: "ustring \<Rightarrow> PrinterId \<Rightarrow> ProviderMetadata" where
  "own_provider name i = \<lparr>prov_provider = name, prov_provider_id = Some i, prov_attributes = []\<rparr>"

record ManualPrinterInput =
  mi_display_name :: ustring
  mi_host :: ustring
  mi_port :: "16 word"

definition manual_printer :: "PrinterId \<Rightarrow> ManualPrinterInput \<Rightarrow> CatalogPrinter" where
  "manual_printer i input =
     (let reference = \<lparr>pr_id = i, pr_display_name = mi_display_name input,
        pr_connection = Network (mi_host input) (mi_port input), pr_submission_mode = Raw EscPos,
        pr_virtual_profile = None, pr_enabled = True\<rparr> in
      \<lparr>cp_reference = reference, cp_source_name = lit ''Raw TCP printer'',
       cp_availability = UnknownAvailability, cp_capabilities = Some catalog_receipt_capabilities,
       cp_fingerprint = fingerprint_for_connection (pr_connection reference),
       cp_providers = [own_provider manual_network i], cp_virtual_width = None,
       cp_virtual_mode = ModeAlwaysSucceed, cp_virtual_delay_ms = 0\<rparr>)"

definition catalog_add_manual ::
  "catalog_env \<Rightarrow> Timestamp \<Rightarrow> ustring \<Rightarrow> ManualPrinterInput \<Rightarrow> PrinterSummary catalog_op" where
  "catalog_add_manual E clock uuid input =
     ebind (\<lambda>c. (reject_if (\<not> ft_network_printer_discovery (pcat_features c))
       (unavailable (lit ''Manual network printers are disabled in this product build.'')), c)) (\<lambda>_.
     ebind (elift (generated_id (lit ''printer_network_'') uuid)) (\<lambda>i.
     let p = manual_printer i input in
     ebind (elift (validated_reference (cp_reference p))) (\<lambda>_.
     ebind (commit_appended E clock p) (\<lambda>_.
     ebind (resolver_put (cp_reference p)) (\<lambda>_.
     ebind bump_revision (\<lambda>_. summary_of E p))))))"

record VirtualPrinterInput =
  vi_display_name :: ustring
  vi_profile :: VirtualPrinterProfile

definition virtual_printer :: "PrinterId \<Rightarrow> VirtualPrinterInput \<Rightarrow> CatalogPrinter" where
  "virtual_printer i input =
     (let profile = vi_profile input;
          reference = \<lparr>pr_id = i, pr_display_name = vi_display_name input,
            pr_connection = Virtual i, pr_submission_mode = mode_for_virtual_profile profile,
            pr_virtual_profile = Some profile, pr_enabled = True\<rparr> in
      \<lparr>cp_reference = reference, cp_source_name = lit ''Virtual printer'', cp_availability = Online,
       cp_capabilities = Some (virtual_capabilities_for_profile (Some profile)),
       cp_fingerprint = fingerprint_for_connection (pr_connection reference),
       cp_providers = [own_provider (lit ''virtual'') i], cp_virtual_width = profile_width profile,
       cp_virtual_mode = ModeAlwaysSucceed, cp_virtual_delay_ms = 0\<rparr>)"

definition require_virtual :: "unit catalog_op" where
  "require_virtual c = (reject_if (\<not> ft_virtual_printer (pcat_features c))
     (unavailable (lit ''Virtual printers are disabled in this product build.'')), c)"

definition catalog_create_virtual ::
  "catalog_env \<Rightarrow> Timestamp \<Rightarrow> ustring \<Rightarrow> VirtualPrinterInput \<Rightarrow> PrinterSummary catalog_op" where
  "catalog_create_virtual E clock uuid input =
     ebind require_virtual (\<lambda>_.
     ebind (elift (map_err (\<lambda>e. command_invalid (printer_error_message e))
       (VirtualPrinterProfile_validate (vi_profile input)))) (\<lambda>_.
     ebind (elift (generated_id (lit ''printer_virtual_'') uuid)) (\<lambda>i.
     let p = virtual_printer i input in
     ebind (elift (validated_reference (cp_reference p))) (\<lambda>_.
     ebind (commit_appended E clock p) (\<lambda>_.
     ebind (on_devices (device_register i ModeAlwaysSucceed 0)) (\<lambda>_.
     ebind (resolver_put (cp_reference p)) (\<lambda>_.
     ebind bump_revision (\<lambda>_. summary_of E p))))))))"

section \<open>Virtual printers and removal\<close>

definition with_virtual_mode ::
  "VirtualPrinterMode \<Rightarrow> nat \<Rightarrow> CatalogPrinter \<Rightarrow> CommandError + CatalogPrinter" where
  "with_virtual_mode mode delay_ms p =
     (if \<not> is_virtual p then Err (command_invalid (lit ''Printer is not virtual.''))
      else Ok (p\<lparr>cp_virtual_mode := persisted_virtual_mode mode, cp_virtual_delay_ms := delay_ms,
        cp_availability := (if mode = ModeOffline then Offline else Online)\<rparr>))"

definition catalog_update_virtual ::
  "catalog_env \<Rightarrow> Timestamp \<Rightarrow> ustring \<Rightarrow> VirtualPrinterMode \<Rightarrow> nat \<Rightarrow> PrinterSummary catalog_op" where
  "catalog_update_virtual E clock pid mode delay_ms =
     ebind require_virtual (\<lambda>_.
     ebind (elift (reject_if (delay_ms > MAX_VIRTUAL_DELAY_MS) (command_invalid
       (lit ''Virtual delay must not exceed '' @ dec MAX_VIRTUAL_DELAY_MS @ lit '' milliseconds.'')))) (\<lambda>_.
     ebind (elift (parse_id pid)) (\<lambda>i.
     ebind (\<lambda>c. (update_printer i (with_virtual_mode mode delay_ms) (pcat_state c), c)) (\<lambda>(updated, next).
     ebind (commit E clock next) (\<lambda>_.
     ebind (on_devices (device_register i mode delay_ms)) (\<lambda>_.
     ebind bump_revision (\<lambda>_. summary_of E updated)))))))"

definition catalog_clear_virtual_history :: "catalog_env \<Rightarrow> ustring \<Rightarrow> unit catalog_op" where
  "catalog_clear_virtual_history E pid =
     ebind require_virtual (\<lambda>_.
     ebind (elift (parse_id pid)) (\<lambda>i.
     \<lambda>c. (case device_clear_history i (pcat_devices c) of (r, devices) \<Rightarrow>
       (map_err (\<lambda>e. command_invalid (pl_spooler_text (cx_projection E) e)) r, c\<lparr>pcat_devices := devices\<rparr>))))"

fun remove_first :: "('a \<Rightarrow> bool) \<Rightarrow> 'a list \<Rightarrow> 'a list" where
  "remove_first P [] = []"
| "remove_first P (x # xs) = (if P x then xs else x # remove_first P xs)"

definition without_printer :: "PrinterId \<Rightarrow> PersistedCatalog \<Rightarrow> CommandError + CatalogPrinter \<times> PersistedCatalog" where
  "without_printer i c =
     and_then (ok_or (command_not_found (lit ''Printer'')) (find (\<lambda>p. cp_id p = i) (cat_printers c))) (\<lambda>removed.
     Ok (removed, c\<lparr>cat_printers := remove_first (\<lambda>p. cp_id p = i) (cat_printers c),
       cat_suppressed := (if connection_kind (cp_connection removed) = KindSystemQueue \<and> i \<notin> set (cat_suppressed c)
         then cat_suppressed c @ [i] else cat_suppressed c)\<rparr>))"

definition catalog_remove :: "catalog_env \<Rightarrow> Timestamp \<Rightarrow> ustring \<Rightarrow> unit catalog_op" where
  "catalog_remove E clock pid =
     ebind (elift (parse_id pid)) (\<lambda>i.
     ebind (\<lambda>c. (without_printer i (pcat_state c), c)) (\<lambda>(removed, next).
     ebind (commit E clock next) (\<lambda>_.
     ebind (resolver_drop i) (\<lambda>_.
     ebind (if is_virtual removed then on_devices (device_remove i) else eret ()) (\<lambda>_.
     bump_revision)))))"

section \<open>Reading\<close>

definition catalog_get :: "ustring \<Rightarrow> PrinterCatalog \<Rightarrow> CommandError + CatalogPrinter" where
  "catalog_get pid c =
     ok_or (command_not_found (lit ''Printer'')) (find (\<lambda>p. cp_id p = pid) (cat_printers (pcat_state c)))"

definition is_active :: "PrinterCatalog \<Rightarrow> CatalogPrinter \<Rightarrow> bool" where
  "is_active c p = feature_allows_printer (pcat_features c) p"

definition catalog_list :: "catalog_env \<Rightarrow> PrinterCatalog \<Rightarrow> CommandError + PrinterSummary list" where
  "catalog_list E c =
     and_then (collect_results (map (printer_summary (cx_projection E) (pcat_features c) (pcat_devices c))
       (filter (is_active c) (cat_printers (pcat_state c))))) (\<lambda>summaries.
     Ok (sort_key (\<lambda>s. (cx_lower E (ps_display_name s), ps_id s)) summaries))"

definition protocol_descriptors :: "catalog_env \<Rightarrow> PrinterCatalog \<Rightarrow> CommandError + PrinterDescriptor list" where
  "protocol_descriptors E c = collect_results (map (protocol_descriptor (cx_lower E))
     (filter (\<lambda>p. is_active c p \<and> connection_kind (cp_connection p) \<noteq> KindUsb) (cat_printers (pcat_state c))))"

end
