(* ===== verification/Catalog_Refresh.thy ===== *)
theory Catalog_Refresh
  imports Printer_Catalog
begin

text \<open>
  Discovery in the printer catalogue (\<open>printer_catalog.rs\<close>, \<open>PrinterCatalog::refresh\<close>): the
  providers are built from a snapshot of the catalogue and asked without the lock; what they observed
  is then merged into the catalogue as it is by then.
\<close>

section \<open>The scan\<close>

text \<open>
  What the providers meet: the platform's printer query and the options of its queues, which hosts
  accept a connection, and which providers miss the deadline.
\<close>

record scan_env =
  sc_host :: HostPlatform
  sc_text :: text_lib
  sc_query :: command_result
  sc_lpoptions :: "ustring \<Rightarrow> command_result"
  sc_connects :: "ustring \<Rightarrow> 16 word \<Rightarrow> bool"
  sc_late :: "ustring \<Rightarrow> bool"

definition QUERY_TIMEOUT :: nat where "QUERY_TIMEOUT = 5000000000"

definition manual_definition :: "CatalogPrinter \<Rightarrow> ManualNetworkPrinter list" where
  "manual_definition p = (case cp_connection p of
     Network host port \<Rightarrow> [\<lparr>mn_id = cp_id p, mn_name = pr_display_name (cp_reference p),
       mn_host = host, mn_port = port\<rparr>]
   | _ \<Rightarrow> [])"

definition virtual_definition :: "CatalogPrinter \<Rightarrow> VirtualPrinterDefinition" where
  "virtual_definition p = \<lparr>vpd_id = cp_id p, vpd_name = pr_display_name (cp_reference p),
     vpd_availability = (if cp_virtual_mode p = ModeOffline then Offline else Online)\<rparr>"

definition refresh_answers ::
  "scan_env \<Rightarrow> ProductFeatures \<Rightarrow> CatalogPrinter list \<Rightarrow>
     (ustring \<times> (DiscoveryError + DiscoveredPrinter list)) list" where
  "refresh_answers S features ps =
     (if ft_system_printer_discovery features
      then [(lit ''system-queue'', SystemQueueProvider_discover (sc_host S) (sc_text S) QUERY_TIMEOUT
        (sc_query S) (sc_lpoptions S))] else []) @
     (if ft_network_printer_discovery features
      then [(manual_network, ManualNetworkProvider_discover (sc_connects S) (concat (map manual_definition ps)))]
      else []) @
     (if ft_virtual_printer features
      then [(lit ''virtual'', VirtualPrinterProvider_discover (map virtual_definition (filter is_virtual ps)))]
      else [])"

definition in_time :: "scan_env \<Rightarrow> ustring \<times> (DiscoveryError + DiscoveredPrinter list) \<Rightarrow> provider_answer" where
  "in_time S a = (fst a, if sc_late S (fst a) then None else Some (snd a))"

definition refresh_scan ::
  "catalog_env \<Rightarrow> scan_env \<Rightarrow> PrinterCatalog \<Rightarrow> ustring list \<times> DiscoverySnapshot" where
  "refresh_scan E S c =
     (let answers = refresh_answers S (pcat_features c) (cat_printers (pcat_state c)) in
      (map fst answers,
       fst (discover_pass (cx_lower E) (map (in_time S) answers) (DiscoveryManager_new DISCOVERY_TIMEOUT))))"

section \<open>The status of the providers\<close>

definition display_provider_name :: "ustring \<Rightarrow> ustring" where
  "display_provider_name provider =
     (if provider = lit ''system-queue'' then lit ''System queues''
      else if provider = manual_network then lit ''Manual network''
      else if provider = lit ''virtual'' then lit ''Virtual''
      else provider)"

text \<open>The failures are collected by provider; of several the last one stays.\<close>

definition provider_status :: "ustring \<Rightarrow> DiscoverySnapshot \<Rightarrow> ustring \<Rightarrow> DiscoveryProviderStatus" where
  "provider_status scanned_at d provider =
     (let failure = map_of (rev (map (\<lambda>f. (pf_provider f, pf_message f)) (ds_failures d))) provider in
      \<lparr>st_name = display_provider_name provider,
       st_available = (failure = None),
       st_last_scan_at = Some scanned_at,
       st_detail = (case failure of
          None \<Rightarrow> dec (length (filter (\<lambda>p. list_ex (\<lambda>m. prov_provider m = provider) (dp_providers p))
              (ds_printers d))) @ lit '' printer(s) observed''
        | Some message \<Rightarrow> sanitize message)\<rparr>)"

section \<open>Merging what was observed\<close>

definition mark_system_offline :: "CatalogPrinter \<Rightarrow> CatalogPrinter" where
  "mark_system_offline p =
     (if connection_kind (cp_connection p) = KindSystemQueue then p\<lparr>cp_availability := Offline\<rparr> else p)"

definition observed_again :: "DiscoveredPrinter \<Rightarrow> CatalogPrinter \<Rightarrow> CatalogPrinter" where
  "observed_again ob p =
     (let q = p\<lparr>cp_source_name := dp_name ob,
        cp_reference := (cp_reference p)\<lparr>pr_connection := dp_connection ob\<rparr>,
        cp_availability := dp_availability ob,
        cp_capabilities := dp_capabilities ob,
        cp_fingerprint := merge_missing (dp_fingerprint ob) (cp_fingerprint p),
        cp_providers := dp_providers ob\<rparr> in
      if is_virtual q
      then q\<lparr>cp_capabilities := Some (virtual_capabilities_for_profile (pr_virtual_profile (cp_reference q)))\<rparr>
      else q)"

definition newly_observed :: "PrinterId \<Rightarrow> DiscoveredPrinter \<Rightarrow> CatalogPrinter" where
  "newly_observed i ob =
     (let profile = (case dp_connection ob of Virtual _ \<Rightarrow> Some (EscPosReceipt 80) | _ \<Rightarrow> None) in
      \<lparr>cp_reference = \<lparr>pr_id = i, pr_display_name = dp_name ob, pr_connection = dp_connection ob,
         pr_submission_mode = new_printer_submission_mode (dp_connection ob) (dp_capabilities ob),
         pr_virtual_profile = profile, pr_enabled = True\<rparr>,
       cp_source_name = dp_name ob,
       cp_availability = dp_availability ob,
       cp_capabilities = (if profile \<noteq> None then Some (virtual_capabilities_for_profile profile)
         else if connection_kind (dp_connection ob) = KindSystemQueue \<and> dp_capabilities ob = None
         then Some catalog_driver_capabilities else dp_capabilities ob),
       cp_fingerprint = dp_fingerprint ob,
       cp_providers = dp_providers ob,
       cp_virtual_width = Option.bind profile profile_width,
       cp_virtual_mode = ModeAlwaysSucceed,
       cp_virtual_delay_ms = 0\<rparr>)"

definition observed_id :: "(ustring \<Rightarrow> ustring) \<Rightarrow> DiscoveredPrinter \<Rightarrow> PrinterId" where
  "observed_id lower ob = (case dp_id ob of Some i \<Rightarrow> i | None \<Rightarrow> discovered_printer_id lower ob)"

definition merge_observed ::
  "(ustring \<Rightarrow> ustring) \<Rightarrow> ustring list \<Rightarrow> DiscoveredPrinter \<Rightarrow> CatalogPrinter list \<Rightarrow> CatalogPrinter list" where
  "merge_observed lower suppressed ob ps =
     (let i = observed_id lower ob in
      if i \<in> set suppressed then ps
      else case matching_printer_index lower ps i ob of
        Some n \<Rightarrow> ps[n := observed_again ob (ps ! n)]
      | None \<Rightarrow> ps @ [newly_observed i ob])"

definition merge_discovered ::
  "(ustring \<Rightarrow> ustring) \<Rightarrow> DiscoveredPrinter list \<Rightarrow> PersistedCatalog \<Rightarrow> PersistedCatalog" where
  "merge_discovered lower obs c = c\<lparr>cat_printers :=
     fold (merge_observed lower (cat_suppressed c)) obs (map mark_system_offline (cat_printers c))\<rparr>"

section \<open>The step that writes\<close>

fun resolve_all :: "CatalogPrinter list \<Rightarrow> unit catalog_op" where
  "resolve_all [] = eret ()"
| "resolve_all (p # ps) =
     ebind (\<lambda>c. if is_active c p then resolver_put (cp_reference p) c else resolver_drop (cp_id p) c) (\<lambda>_.
     resolve_all ps)"

definition log_info :: "catalog_env \<Rightarrow> Timestamp \<Rightarrow> ustring \<Rightarrow> ustring \<Rightarrow> unit catalog_op" where
  "log_info E clock target message =
     emodify (\<lambda>c. c\<lparr>pcat_log := log_push (cx_rfc3339 E clock) LevelInfo target message (pcat_log c)\<rparr>)"

definition refresh_finish ::
  "catalog_env \<Rightarrow> Timestamp \<Rightarrow> ustring list \<times> DiscoverySnapshot \<Rightarrow> PrinterSummary list catalog_op" where
  "refresh_finish E clock scan = (case scan of (provider_names, d) \<Rightarrow>
     ebind (emodify (\<lambda>c. c\<lparr>pcat_status := map (provider_status (cx_rfc3339 E clock) d) provider_names\<rparr>)) (\<lambda>_.
     ebind (\<lambda>c. (Ok (merge_discovered (cx_lower E) (ds_printers d) (pcat_state c)), c)) (\<lambda>next.
     ebind (commit E clock next) (\<lambda>_.
     ebind (resolve_all (cat_printers next)) (\<lambda>_.
     ebind bump_revision (\<lambda>_.
     ebind (log_info E clock (lit ''discovery'') (lit ''Printer discovery completed with '' @
       dec (length (ds_failures d)) @ lit '' provider failure(s).'')) (\<lambda>_.
     \<lambda>c. (catalog_list E c, c))))))))"

text \<open>Without interference a refresh is both parts in one.\<close>

definition catalog_refresh ::
  "catalog_env \<Rightarrow> scan_env \<Rightarrow> Timestamp \<Rightarrow> PrinterSummary list catalog_op" where
  "catalog_refresh E S clock c = refresh_finish E clock (refresh_scan E S c) c"

end
