(* ===== verification/Catalog_Laws.thy ===== *)
theory Catalog_Laws
  imports Catalog_Refresh Discovery_Laws
begin

text \<open>
  What keeps the printers of one connection family apart from those of another: the evidence that the
  providers give for system queues, network and virtual printers has no identity key, provider entry
  or identifier in common, so that neither the merge of the observations nor the merge into the
  catalogue mixes them.
\<close>

section \<open>The evidence of a family\<close>

fun id_prefix :: "ConnectionKind \<Rightarrow> ustring" where
  "id_prefix KindSystemQueue = lit ''printer_discovered_''"
| "id_prefix KindNetwork = lit ''printer_network_''"
| "id_prefix KindUsb = lit ''printer_usb_''"
| "id_prefix KindVirtual = lit ''printer_virtual_''"

fun provider_of :: "ConnectionKind \<Rightarrow> ustring" where
  "provider_of KindSystemQueue = lit ''system-queue''"
| "provider_of KindNetwork = manual_network"
| "provider_of KindUsb = lit ''usb''"
| "provider_of KindVirtual = lit ''virtual''"

fun fingerprint_of :: "ConnectionKind \<Rightarrow> PrinterFingerprint \<Rightarrow> bool" where
  "fingerprint_of KindSystemQueue f \<longleftrightarrow>
     fp_host f = None \<and> fp_usb_vendor_id f = None \<and> fp_mac_address f = None"
| "fingerprint_of KindNetwork f \<longleftrightarrow>
     fp_queue_name f = None \<and> fp_device_uri f = None \<and> fp_usb_vendor_id f = None \<and> fp_mac_address f = None"
| "fingerprint_of KindUsb f \<longleftrightarrow> False"
| "fingerprint_of KindVirtual f \<longleftrightarrow>
     fp_queue_name f = None \<and> fp_device_uri f = None \<and> fp_host f = None \<and> fp_usb_vendor_id f = None \<and>
     fp_mac_address f = None"

definition evidence_of :: "ConnectionKind \<Rightarrow> PrinterFingerprint \<Rightarrow> ProviderMetadata list \<Rightarrow> bool" where
  "evidence_of k f providers \<longleftrightarrow> fingerprint_of k f \<and> (\<forall>m \<in> set providers. prov_provider m = provider_of k)"

lemma id_prefix_unique:
  assumes "prefix (id_prefix k) s" "prefix (id_prefix k') s"
  shows "k = k'"
proof -
  have "prefix (id_prefix k) (id_prefix k') \<or> prefix (id_prefix k') (id_prefix k)"
    using assms prefix_same_cases by blast
  then show ?thesis by (cases k; cases k') (simp_all add: lit_def)
qed

lemma provider_of_unique: "provider_of k = provider_of k' \<longleftrightarrow> k = k'"
  by (cases k; cases k') (simp_all add: lit_def manual_network_def)

lemma fingerprint_merge: "fingerprint_of k f \<Longrightarrow> fingerprint_of k g \<Longrightarrow> fingerprint_of k (merge_missing f g)"
  by (cases k) (simp_all add: merge_missing_def)

lemma fingerprint_normalize: "fingerprint_of k f \<Longrightarrow> fingerprint_of k (normalize_fingerprint f)"
  by (cases k) (simp_all add: normalize_fingerprint_def trimmed_some_def)

section \<open>Identity keys\<close>

fun key_of :: "ConnectionKind \<Rightarrow> ustring \<Rightarrow> bool" where
  "key_of KindSystemQueue key \<longleftrightarrow> prefix (lit ''uri:'') key \<or> prefix (lit ''queue:'') key"
| "key_of KindNetwork key \<longleftrightarrow> prefix (lit ''network:'') key"
| "key_of KindUsb key \<longleftrightarrow> prefix (lit ''usb:'') key"
| "key_of KindVirtual key \<longleftrightarrow> prefix (lit ''virtual:'') key"

lemma key_of_unique: "key_of k key \<Longrightarrow> key_of k' key \<Longrightarrow> k = k'"
  by (cases k; cases k'; cases key; cases "tl key") (auto simp: lit_def)

lemma identity_keys_of:
  "fingerprint_of k f \<Longrightarrow> key \<in> set (identity_keys lower f) \<Longrightarrow> key_of k key"
  by (cases k) (auto simp: identity_keys_def normalized_def split: option.splits if_splits)

lemma connection_keys_of: "key \<in> set (connection_keys lower c) \<Longrightarrow> key_of (connection_kind c) key"
  by (cases c) (auto simp: connection_keys_def split: option.splits)

definition observation_of :: "DiscoveredPrinter \<Rightarrow> bool" where
  "observation_of ob \<longleftrightarrow> (let k = connection_kind (dp_connection ob) in
     evidence_of k (dp_fingerprint ob) (dp_providers ob) \<and>
     (case dp_id ob of None \<Rightarrow> k = KindSystemQueue | Some i \<Rightarrow> prefix (id_prefix k) i))"

lemma shared_key_kind:
  assumes "shares_key lower p q" "observation_of p" "observation_of q"
  shows "connection_kind (dp_connection p) = connection_kind (dp_connection q)"
proof -
  obtain key where "key \<in> set (printer_identity_keys lower p)" "key \<in> set (printer_identity_keys lower q)"
    using assms(1) by (auto simp: shares_key_def list_ex_iff)
  then have "key_of (connection_kind (dp_connection p)) key" "key_of (connection_kind (dp_connection q)) key"
    using assms(2,3) identity_keys_of connection_keys_of
    by (auto simp: printer_identity_keys_def observation_of_def evidence_of_def Let_def)
  then show ?thesis by (rule key_of_unique)
qed

section \<open>Observations stay in their family\<close>

lemma append_providers_member:
  "m \<in> set (append_providers ds ss) \<Longrightarrow> m \<in> set ds \<or> m \<in> set ss"
  by (induction ds ss rule: append_providers.induct) (auto split: if_splits)

lemma merge_observation_of:
  assumes "observation_of q" "observation_of p"
    and kind: "connection_kind (dp_connection p) = connection_kind (dp_connection q)"
  shows "observation_of (merge_observation q p)"
proof -
  have "fingerprint_of (connection_kind (dp_connection q)) (merge_missing (dp_fingerprint q) (dp_fingerprint p))"
    using assms by (intro fingerprint_merge) (auto simp: observation_of_def evidence_of_def Let_def)
  moreover have "prov_provider m = provider_of (connection_kind (dp_connection q))"
    if "m \<in> set (append_providers (dp_providers q) (dp_providers p))" for m
    using append_providers_member [OF that] assms by (auto simp: observation_of_def evidence_of_def Let_def)
  ultimately show ?thesis using assms
    by (auto simp: observation_of_def evidence_of_def merge_observation_def Let_def split: option.splits)
qed

lemma merge_into_of:
  "list_all observation_of qs \<Longrightarrow> observation_of p \<Longrightarrow> list_all observation_of (merge_into lower p qs)"
proof (induction qs)
  case (Cons q qs)
  then show ?case using shared_key_kind [of lower p q] merge_observation_of [of q p] by auto
qed simp

lemma deduplicate_of:
  assumes "list_all observation_of ps"
  shows "list_all observation_of (deduplicate lower ps)"
proof -
  have "list_all observation_of qs \<Longrightarrow> list_all observation_of (fold (merge_into lower) ps qs)" for qs
    using assms by (induction ps arbitrary: qs) (auto simp: merge_into_of)
  from this [of "[]"] show ?thesis by (simp add: deduplicate_def sort_inventory_def list_all_iff)
qed

lemma dedup_by_key_member: "x \<in> set (dedup_by_key k xs) \<Longrightarrow> x \<in> set xs"
  by (induction k xs rule: dedup_by_key.induct) (auto split: if_splits)

lemma normalize_kind [simp]: "connection_kind (normalize_connection c) = connection_kind c"
  by (cases c) (simp_all add: normalize_connection_def)

lemma normalize_printer_of:
  assumes "normalize_printer p = Ok q" "observation_of p"
  shows "observation_of q \<and> DiscoveredPrinter_validate q = Ok ()"
proof -
  let ?n = "p\<lparr>dp_name := trim (dp_name p), dp_connection := normalize_connection (dp_connection p),
    dp_fingerprint := normalize_fingerprint (dp_fingerprint p),
    dp_providers := dedup_by_key provider_key (sort_key provider_key (dp_providers p))\<rparr>"
  have q: "q = ?n" "DiscoveredPrinter_validate ?n = Ok ()"
    using assms(1) by (auto simp: normalize_printer_def Let_def and_then_Ok)
  have "prov_provider m = provider_of (connection_kind (dp_connection p))"
    if "m \<in> set (dedup_by_key provider_key (sort_key provider_key (dp_providers p)))" for m
    using dedup_by_key_member [OF that] assms(2) by (auto simp: observation_of_def evidence_of_def Let_def)
  then have "observation_of ?n" using assms(2)
    by (auto simp: observation_of_def evidence_of_def Let_def fingerprint_normalize)
  with q show ?thesis by simp
qed

section \<open>What the providers answer\<close>

lemma collect_results_member: "collect_results rs = Ok xs \<Longrightarrow> x \<in> set xs \<Longrightarrow> Inr x \<in> set rs"
proof (induction rs arbitrary: xs)
  case (Cons r rs)
  then show ?case by (cases r) (auto simp: and_then_Ok)
qed simp

lemma lpstat_of: "observation_of (lpstat_observation e)"
  by (cases e) (simp add: lpstat_observation_def observation_of_def evidence_of_def PrinterFingerprint_default_def)

lemma windows_of: "windows_observation e = Ok p \<Longrightarrow> observation_of p"
  by (cases e) (auto simp: windows_observation_def observation_of_def evidence_of_def
      PrinterFingerprint_default_def Let_def split: if_splits)

lemma observation_of_capabilities: "observation_of (dp_capabilities_update f p) = observation_of p"
  by (simp add: observation_of_def)

lemma describe_of: "observation_of p \<Longrightarrow> observation_of (describe_pdf_route L deadline lpoptions p)"
  by (simp add: describe_pdf_route_def Let_def observation_of_capabilities split: PrinterConnection.splits)

lemma parse_windows_of:
  "parse_windows_printers content = Ok ps \<Longrightarrow> p \<in> set ps \<Longrightarrow> observation_of p"
  unfolding parse_windows_printers_def
  by (auto dest!: collect_results_member) (metis windows_of)

lemma system_answer_of:
  assumes "SystemQueueProvider_discover host L deadline result lpoptions = Ok ps" "p \<in> set ps"
  shows "observation_of p"
proof -
  obtain content qs where qs: "parse_platform_queues host content = Ok qs"
      "ps = describe_pdf_routes host L deadline lpoptions qs"
    using assms(1) by (auto simp: SystemQueueProvider_discover_def and_then_Ok
        split: command_result.splits if_splits option.splits)
  have "observation_of q" if "q \<in> set qs" for q
    using qs(1) that parse_windows_of
    by (cases host) (auto simp: parse_platform_queues_def parse_lpstat_def lpstat_of)
  then show ?thesis using qs(2) assms(2) describe_of
    by (auto simp: describe_pdf_routes_def split: if_splits)
qed

lemma manual_observation_of:
  assumes "manual_observation connects mn = Ok p" "prefix (id_prefix KindNetwork) (mn_id mn)"
  shows "observation_of p"
  using assms by (auto simp: manual_observation_def Let_def and_then_Ok observation_of_def evidence_of_def
      PrinterFingerprint_default_def)

lemma virtual_observation_of:
  "prefix (id_prefix KindVirtual) (vpd_id v) \<Longrightarrow> observation_of (virtual_observation v)"
  by (simp add: virtual_observation_def observation_of_def evidence_of_def PrinterFingerprint_default_def)

section \<open>Rows\<close>

text \<open>A row has a valid reference, and its identifier and evidence are those of its family.\<close>

definition row_ok :: "CatalogPrinter \<Rightarrow> bool" where
  "row_ok p \<longleftrightarrow> (let k = connection_kind (cp_connection p) in
     PrinterRef_validate (cp_reference p) = Ok () \<and> prefix (id_prefix k) (cp_id p) \<and>
     evidence_of k (cp_fingerprint p) (cp_providers p))"

definition scanned_ok :: "DiscoveredPrinter \<Rightarrow> bool" where
  "scanned_ok ob \<longleftrightarrow> observation_of ob \<and>
     validate_text (lit ''printer name'') (dp_name ob) MAX_PRINTER_NAME_BYTES = Ok () \<and>
     PrinterConnection_validate (dp_connection ob) = Ok ()"

lemma scanned_ok_validated:
  "observation_of ob \<Longrightarrow> DiscoveredPrinter_validate ob = Ok () \<Longrightarrow> scanned_ok ob"
  by (simp add: scanned_ok_def DiscoveredPrinter_validate_def first_err_Ok)

lemma is_virtual_kind: "is_virtual p \<longleftrightarrow> connection_kind (cp_connection p) = KindVirtual"
  by (cases "cp_connection p") (simp_all add: is_virtual_def)

lemma refresh_answers_of:
  assumes "list_all row_ok ps" "(name, Ok obs) \<in> set (refresh_answers S features ps)" "ob \<in> set obs"
  shows "observation_of ob"
proof -
  consider (system) "Ok obs = SystemQueueProvider_discover (sc_host S) (sc_text S) QUERY_TIMEOUT (sc_query S) (sc_lpoptions S)"
    | (manual) "Ok obs = ManualNetworkProvider_discover (sc_connects S) (concat (map manual_definition ps))"
    | (virtual) "Ok obs = VirtualPrinterProvider_discover (map virtual_definition (filter is_virtual ps))"
    using assms(2) by (auto simp: refresh_answers_def split: if_splits)
  then show ?thesis
  proof cases
    case system
    then show ?thesis using system_answer_of assms(3) by metis
  next
    case manual
    have "Inr ob \<in> set (map (manual_observation (sc_connects S)) (concat (map manual_definition ps)))"
      by (rule collect_results_member [OF manual [symmetric, unfolded ManualNetworkProvider_discover_def] assms(3)])
    then obtain p mn where mn: "p \<in> set ps" "mn \<in> set (manual_definition p)" "manual_observation (sc_connects S) mn = Ok ob"
      by (auto simp: eq_commute [of "Inr ob"])
    have "row_ok p" using assms(1) mn(1) by (auto simp: list_all_iff)
    then have "prefix (id_prefix KindNetwork) (mn_id mn)" using mn(2)
      by (cases "cp_connection p") (auto simp: manual_definition_def row_ok_def Let_def)
    with mn(3) show ?thesis by (rule manual_observation_of)
  next
    case virtual
    then obtain p where p: "p \<in> set ps" "is_virtual p" "ob = virtual_observation (virtual_definition p)"
      using assms(3) by (auto simp: VirtualPrinterProvider_discover_def)
    then have "row_ok p" using assms(1) by (auto simp: list_all_iff)
    then have "prefix (id_prefix KindVirtual) (vpd_id (virtual_definition p))"
      using p(2) by (auto simp: virtual_definition_def row_ok_def is_virtual_kind Let_def)
    with p(3) show ?thesis by (simp add: virtual_observation_of)
  qed
qed

lemma normalized_of:
  "observation_of p \<Longrightarrow> q \<in> set (normalized_printers p) \<Longrightarrow> scanned_ok q"
  using normalize_printer_of [of p q] scanned_ok_validated [of q]
  by (auto simp: normalized_printers_def split: sum.splits)

text \<open>Names and connections of merged entries are those of an observation.\<close>

lemma merge_into_shown:
  "\<forall>q \<in> set qs. P (dp_name q) (dp_connection q) \<Longrightarrow> P (dp_name p) (dp_connection p) \<Longrightarrow>
     \<forall>q \<in> set (merge_into lower p qs). P (dp_name q) (dp_connection q)"
  by (induction qs) (auto simp: merge_observation_def)

lemma deduplicate_shown:
  assumes "\<forall>q \<in> set ps. P (dp_name q) (dp_connection q)"
  shows "\<forall>q \<in> set (deduplicate lower ps). P (dp_name q) (dp_connection q)"
proof -
  have "\<forall>q \<in> set qs. P (dp_name q) (dp_connection q) \<Longrightarrow>
      \<forall>q \<in> set (fold (merge_into lower) ps qs). P (dp_name q) (dp_connection q)" for qs
    using assms
  proof (induction ps arbitrary: qs)
    case (Cons p ps)
    have "\<forall>q \<in> set (merge_into lower p qs). P (dp_name q) (dp_connection q)"
      by (rule merge_into_shown) (use Cons.prems in simp_all)
    from Cons.IH [OF this] Cons.prems(2) show ?case by simp
  qed simp
  from this [of "[]"] show ?thesis by (simp add: deduplicate_def sort_inventory_def)
qed

lemma scan_ok:
  assumes "list_all row_ok (cat_printers (pcat_state c))"
  shows "list_all scanned_ok (ds_printers (snd (refresh_scan E S c)))"
proof -
  let ?answers = "map (in_time S) (refresh_answers S (pcat_features c) (cat_printers (pcat_state c)))"
  let ?obs = "concat (map normalized_printers (concat (map answered_printers ?answers)))"
  have "observation_of p" if "p \<in> set (concat (map answered_printers ?answers))" for p
    using that refresh_answers_of [OF assms]
    by (auto simp: answered_printers_def in_time_def split: option.splits sum.splits if_splits)
  then have ok: "list_all scanned_ok ?obs" using normalized_of by (auto simp: list_all_iff)
  have "list_all observation_of (deduplicate (cx_lower E) ?obs)"
    using ok by (intro deduplicate_of) (auto simp: list_all_iff scanned_ok_def)
  moreover have "\<forall>q \<in> set (deduplicate (cx_lower E) ?obs).
      validate_text (lit ''printer name'') (dp_name q) MAX_PRINTER_NAME_BYTES = Ok () \<and>
      PrinterConnection_validate (dp_connection q) = Ok ()"
    by (rule deduplicate_shown) (use ok in \<open>auto simp: list_all_iff scanned_ok_def\<close>)
  ultimately show ?thesis
    by (simp add: refresh_scan_def discover_pass_def Let_def list_all_iff scanned_ok_def)
qed

text \<open>
  The invariant of the printer catalogue: identifiers are unique, every row is valid, what was removed
  stays suppressed, the resolver holds exactly the active printers, and the repository holds what is
  shown. Every operation keeps it, in any interleaving with discovery passes.
\<close>

section \<open>Lists addressed by an identifier\<close>

lemma find_replace_first:
  "cp_id q = i \<Longrightarrow> find (\<lambda>p. cp_id p = i) ps \<noteq> None \<Longrightarrow>
     find (\<lambda>p. cp_id p = j) (replace_first (\<lambda>p. cp_id p = i) q ps) =
       (if j = i then Some q else find (\<lambda>p. cp_id p = j) ps)"
  by (induction ps) auto

lemma ids_replace_first:
  "cp_id q = i \<Longrightarrow> map cp_id (replace_first (\<lambda>p. cp_id p = i) q ps) = map cp_id ps"
  by (induction ps) auto

lemma set_replace_first: "x \<in> set (replace_first P q ps) \<Longrightarrow> x = q \<or> x \<in> set ps"
  by (induction ps) (auto split: if_splits)

lemma set_remove_first: "x \<in> set (remove_first P ps) \<Longrightarrow> x \<in> set ps"
  by (induction ps) (auto split: if_splits)

lemma distinct_remove_first:
  "distinct (map cp_id ps) \<Longrightarrow> distinct (map cp_id (remove_first P ps))"
  by (induction ps) (auto dest: set_remove_first)

lemma find_remove_first:
  "distinct (map cp_id ps) \<Longrightarrow>
     find (\<lambda>p. cp_id p = j) (remove_first (\<lambda>p. cp_id p = i) ps) =
       (if j = i then None else find (\<lambda>p. cp_id p = j) ps)"
proof (induction ps)
  case (Cons p ps)
  have "cp_id p = j \<Longrightarrow> find (\<lambda>p. cp_id p = j) ps = None"
    using Cons.prems by (auto simp: find_None_iff image_iff)
  with Cons show ?case by auto
qed simp

lemma position_bound: "position P xs = Some n \<Longrightarrow> n < length xs \<and> P (xs ! n)"
  by (induction xs arbitrary: n) (auto split: if_splits)

lemma position_None: "position P xs = None \<longleftrightarrow> (\<forall>x \<in> set xs. \<not> P x)"
  by (induction xs) auto

section \<open>The invariant\<close>

definition resolver_of :: "ProductFeatures \<Rightarrow> CatalogPrinter list \<Rightarrow> StaticPrinterResolver" where
  "resolver_of features ps i = (case find (\<lambda>p. cp_id p = i) ps of
     Some p \<Rightarrow> if feature_allows_printer features p then Some (cp_reference p) else None
   | None \<Rightarrow> None)"

definition state_ok :: "PersistedCatalog \<Rightarrow> bool" where
  "state_ok s \<longleftrightarrow> distinct (map cp_id (cat_printers s)) \<and> list_all row_ok (cat_printers s) \<and>
     set (map cp_id (cat_printers s)) \<inter> set (cat_suppressed s) = {} \<and>
     list_all (prefix (id_prefix KindSystemQueue)) (cat_suppressed s)"

definition stored_ok :: "catalog_env \<Rightarrow> PersistedCatalog \<Rightarrow> SqliteStorage \<Rightarrow> bool" where
  "stored_ok E s db \<longleftrightarrow> (case get_metadata (cx_storage E) Settings CATALOG_SETTING db of
     Inr (Some v) \<Rightarrow> catalog_current v \<and> cx_from_value E v = Ok s
   | Inr None \<Rightarrow> s = PersistedCatalog_default
   | Inl e \<Rightarrow> False)"

definition catalog_ok :: "catalog_env \<Rightarrow> PrinterCatalog \<Rightarrow> bool" where
  "catalog_ok E c \<longleftrightarrow> state_ok (pcat_state c) \<and>
     pcat_resolver c = resolver_of (pcat_features c) (cat_printers (pcat_state c)) \<and>
     stored_ok E (pcat_state c) (pcat_storage c)"

text \<open>
  What is expected of Serde and of the repository's JSON: a written catalogue is read back as it was,
  and its value has the current form; a JSON text is parsed to the value it was printed from.
\<close>

definition catalog_serde :: "catalog_env \<Rightarrow> bool" where
  "catalog_serde E \<longleftrightarrow>
     (\<forall>s v. cx_to_value E s = Ok v \<longrightarrow> cx_from_value E v = Ok s \<and> catalog_current v) \<and>
     (\<forall>v t. json_text (cx_storage E) v = Some t \<longrightarrow> json_parse (cx_storage E) t = Some v)"

section \<open>Writing\<close>

lemma catalog_key_valid: "validate_key f CATALOG_SETTING 128 = Ok ()"
  by (simp add: validate_key_def CATALOG_SETTING_def lit_def trim_def trim_start_def trim_end_def
      is_whitespace_def byte_len_def utf8_len_def is_control_def reject_if_def)

lemma store_catalog_stored:
  assumes "catalog_serde E" "store_catalog E clock s db = Ok db'"
  shows "stored_ok E s db'"
proof -
  obtain v where v: "cx_to_value E s = Ok v"
      "set_metadata (cx_storage E) Settings CATALOG_SETTING v clock db = Ok ((), db')"
    using assms(2) by (auto simp: store_catalog_def and_then_Ok)
  from v(2) obtain json now where json: "json_text (cx_storage E) v = Some json"
      "db' = kv_update Settings (upsert kv_key \<lparr>kv_key = CATALOG_SETTING, kv_value_json = json, kv_updated_at = now\<rparr>
        (kv_table Settings db)) db"
    by (auto simp: set_metadata_def and_then_Ok bounded_json_def)
  then have "get_metadata (cx_storage E) Settings CATALOG_SETTING db' = Ok (Some v)"
    using assms(1) json by (simp add: get_metadata_def catalog_key_valid upsert_lookup catalog_serde_def)
  then show ?thesis using assms(1) v(1) by (simp add: stored_ok_def catalog_serde_def)
qed

lemma commit_cases:
  assumes "commit E clock s2 c = (r, c')"
  obtains (failed) e where "r = Err e" "c' = c"
  | (written) db where "r = Ok ()" "store_catalog E clock s2 (pcat_storage c) = Ok db"
      "c' = c\<lparr>pcat_storage := db, pcat_state := s2\<rparr>"
  using assms by (auto simp: commit_def split: sum.splits)

lemma resolver_put_valid:
  assumes "PrinterRef_validate p = Ok ()"
  shows "resolver_put p c = (Ok (), c\<lparr>pcat_resolver := (pcat_resolver c)(pr_id p \<mapsto> p)\<rparr>)"
  using assms by (simp add: resolver_put_def resolver_upsert_def resolver_check_def)

lemma row_reference: "row_ok p \<Longrightarrow> PrinterRef_validate (cp_reference p) = Ok ()"
  by (simp add: row_ok_def Let_def)

section \<open>Changed rows\<close>

lemma apply_changes_row:
  assumes "apply_changes features changes p = Ok q" "row_ok p"
  shows "row_ok q \<and> cp_id q = cp_id p \<and> cp_connection q = cp_connection p"
  using assms
  by (auto simp: apply_changes_def Let_def and_then_Ok validated_reference_def row_ok_def
      split: option.splits if_splits)

lemma apply_changes_allowed: "apply_changes features changes p = Ok q \<Longrightarrow> feature_allows_printer features q"
  by (auto simp: apply_changes_def Let_def and_then_Ok feature_allows_printer_def split: option.splits if_splits)

lemma with_virtual_mode_row:
  assumes "with_virtual_mode mode delay_ms p = Ok q"
  shows "row_ok q = row_ok p \<and> cp_reference q = cp_reference p"
  using assms by (auto simp: with_virtual_mode_def row_ok_def split: if_splits)

lemma update_printer_state:
  assumes "update_printer i f s = Ok (q, s')" "state_ok s"
    and "\<And>p. row_ok p \<Longrightarrow> f p = Ok q \<Longrightarrow> cp_id p = i \<Longrightarrow> row_ok q \<and> cp_id q = i"
  shows "state_ok s' \<and> row_ok q \<and> cp_id q = i \<and>
    (\<forall>j. find (\<lambda>p. cp_id p = j) (cat_printers s') =
       (if j = i then Some q else find (\<lambda>p. cp_id p = j) (cat_printers s)))"
proof -
  obtain p where p: "find (\<lambda>p. cp_id p = i) (cat_printers s) = Some p" "f p = Ok q"
      "s' = s\<lparr>cat_printers := replace_first (\<lambda>p. cp_id p = i) q (cat_printers s)\<rparr>"
    using assms(1) by (auto simp: update_printer_def and_then_Ok)
  have "p \<in> set (cat_printers s)" "cp_id p = i" using find_Some_iff_set [OF p(1)] by auto
  then have q: "row_ok q" "cp_id q = i" using assms(2,3) p(2) by (auto simp: state_ok_def list_all_iff)
  have "set (map cp_id (cat_printers s')) = set (map cp_id (cat_printers s))"
    using p(3) q(2) by (simp add: ids_replace_first flip: set_map)
  then have "state_ok s'" using assms(2) p(3) q
    by (auto simp: state_ok_def ids_replace_first list_all_iff dest!: set_replace_first)
  then show ?thesis using p q by (simp add: find_replace_first)
qed

section \<open>Each operation\<close>

text \<open>What a completed operation did: \<open>s2\<close> was written, and is shown with the resolver \<open>R\<close>.\<close>

definition written ::
  "catalog_env \<Rightarrow> Timestamp \<Rightarrow> PersistedCatalog \<Rightarrow> StaticPrinterResolver \<Rightarrow> PrinterCatalog \<Rightarrow> PrinterCatalog \<Rightarrow> bool" where
  "written E clock s2 R c c' \<longleftrightarrow> store_catalog E clock s2 (pcat_storage c) = Ok (pcat_storage c') \<and>
     pcat_state c' = s2 \<and> pcat_resolver c' = R \<and> pcat_features c' = pcat_features c"

lemma written_ok:
  assumes "written E clock s2 R c c'" "catalog_serde E" "state_ok s2"
    and "R = resolver_of (pcat_features c) (cat_printers s2)"
  shows "catalog_ok E c'"
  using assms store_catalog_stored by (auto simp: written_def catalog_ok_def)

lemmas catalog_runs = ebind_def elift_def eret_def emodify_def summary_of_def bump_revision_def
  on_devices_def resolver_drop_def resolver_remove_def require_virtual_def

lemma configure_run:
  assumes "catalog_configure E clock pid changes c = (r, c')" "catalog_ok E c"
  shows "c' = c \<or> (\<exists>q s2. update_printer pid (apply_changes (pcat_features c) changes) (pcat_state c) = Ok (q, s2) \<and>
    state_ok s2 \<and> written E clock s2 ((pcat_resolver c)(pid \<mapsto> cp_reference q)) c c')"
proof (cases "parse_id pid")
  case (Inl e)
  then show ?thesis using assms(1) by (simp add: catalog_configure_def catalog_runs)
next
  case (Inr i)
  then have i: "i = pid" by (simp add: parse_id_def new_identifier_Ok)
  show ?thesis
  proof (cases "update_printer pid (apply_changes (pcat_features c) changes) (pcat_state c)")
    case (Inl e)
    then show ?thesis using assms(1) Inr i by (simp add: catalog_configure_def catalog_runs)
  next
    case (Inr qn)
    obtain q s2 where qn: "qn = (q, s2)" by (rule prod.exhaust)
    have upd: "state_ok s2" "row_ok q" "cp_id q = pid"
      using update_printer_state [OF Inr [unfolded qn]] assms(2) apply_changes_row
      by (auto simp: catalog_ok_def)
    obtain r1 c1 where run: "commit E clock s2 c = (r1, c1)" by (rule prod.exhaust)
    then show ?thesis
    proof (cases rule: commit_cases)
      case (failed e)
      then show ?thesis using assms(1) \<open>parse_id pid = Inr i\<close> i Inr qn run
        by (simp add: catalog_configure_def catalog_runs)
    next
      case (written db)
      then show ?thesis using assms(1) \<open>parse_id pid = Inr i\<close> i Inr qn run upd
          resolver_put_valid [OF row_reference [OF upd(2)]]
        by (auto simp: catalog_configure_def catalog_runs written_def)
    qed
  qed
qed

lemma resolver_of_changed:
  assumes "\<forall>j. find (\<lambda>p. cp_id p = j) ps' = (if j = i then Some q else find (\<lambda>p. cp_id p = j) ps)"
    and "feature_allows_printer features q"
  shows "resolver_of features ps' = (resolver_of features ps)(i \<mapsto> cp_reference q)"
  using assms by (auto simp: resolver_of_def fun_eq_iff)

lemma configure_keeps:
  assumes "catalog_configure E clock pid changes c = (r, c')" "catalog_serde E" "catalog_ok E c"
  shows "catalog_ok E c'"
proof -
  consider "c' = c" | q s2 where "update_printer pid (apply_changes (pcat_features c) changes) (pcat_state c) = Ok (q, s2)"
      "state_ok s2" "written E clock s2 ((pcat_resolver c)(pid \<mapsto> cp_reference q)) c c'"
    using configure_run [OF assms(1,3)] by blast
  then show ?thesis
  proof cases
    case 2
    have q: "feature_allows_printer (pcat_features c) q"
      using 2(1) apply_changes_allowed by (auto simp: update_printer_def and_then_Ok)
    have "\<forall>j. find (\<lambda>p. cp_id p = j) (cat_printers s2) =
        (if j = pid then Some q else find (\<lambda>p. cp_id p = j) (cat_printers (pcat_state c)))"
      using update_printer_state [OF 2(1)] assms(3) apply_changes_row by (auto simp: catalog_ok_def)
    from resolver_of_changed [OF this q] assms(3)
    have "(pcat_resolver c)(pid \<mapsto> cp_reference q) = resolver_of (pcat_features c) (cat_printers s2)"
      by (simp add: catalog_ok_def)
    then show ?thesis by (rule written_ok [OF 2(3) assms(2) 2(2)])
  qed (use assms in simp)
qed

lemma update_virtual_run:
  assumes "catalog_update_virtual E clock pid mode delay_ms c = (r, c')"
  shows "c' = c \<or> (\<exists>q s2. update_printer pid (with_virtual_mode mode delay_ms) (pcat_state c) = Ok (q, s2) \<and>
    written E clock s2 (pcat_resolver c) c c' \<and> pcat_devices c' = device_register pid mode delay_ms (pcat_devices c))"
proof (cases "update_printer pid (with_virtual_mode mode delay_ms) (pcat_state c)")
  case (Inl e)
  then show ?thesis using assms
    by (auto simp: catalog_update_virtual_def catalog_runs parse_id_def new_identifier_Ok
        split: sum.splits if_splits)
next
  case (Inr qn)
  obtain q s2 where qn: "qn = (q, s2)" by (rule prod.exhaust)
  obtain r1 c1 where run: "commit E clock s2 c = (r1, c1)" by (rule prod.exhaust)
  show ?thesis using run
  proof (cases rule: commit_cases)
    case (failed e)
    then show ?thesis using assms Inr qn run
      by (auto simp: catalog_update_virtual_def catalog_runs parse_id_def new_identifier_Ok
          split: sum.splits if_splits)
  next
    case (written db)
    then show ?thesis using assms Inr qn run
      by (auto simp: catalog_update_virtual_def catalog_runs parse_id_def new_identifier_Ok written_def
          split: sum.splits if_splits)
  qed
qed

lemma update_virtual_keeps:
  assumes "catalog_update_virtual E clock pid mode delay_ms c = (r, c')" "catalog_serde E" "catalog_ok E c"
  shows "catalog_ok E c'"
proof -
  consider "c' = c" | q s2 where "update_printer pid (with_virtual_mode mode delay_ms) (pcat_state c) = Ok (q, s2)"
      "written E clock s2 (pcat_resolver c) c c'"
    using update_virtual_run [OF assms(1)] by blast
  then show ?thesis
  proof cases
    case 2
    obtain p where p: "find (\<lambda>p. cp_id p = pid) (cat_printers (pcat_state c)) = Some p"
        "with_virtual_mode mode delay_ms p = Ok q"
      using 2(1) by (auto simp: update_printer_def and_then_Ok)
    note same = with_virtual_mode_row [OF p(2)]
    have upd: "state_ok s2 \<and> row_ok q \<and> cp_id q = pid \<and>
        (\<forall>j. find (\<lambda>p. cp_id p = j) (cat_printers s2) =
          (if j = pid then Some q else find (\<lambda>p. cp_id p = j) (cat_printers (pcat_state c))))"
      using assms(3) with_virtual_mode_row by (intro update_printer_state [OF 2(1)]) (auto simp: catalog_ok_def)
    have "resolver_of features (cat_printers s2) = resolver_of features (cat_printers (pcat_state c))" for features
    proof
      fix j
      show "resolver_of features (cat_printers s2) j = resolver_of features (cat_printers (pcat_state c)) j"
        using upd p(1) same by (simp add: resolver_of_def feature_allows_printer_def)
    qed
    then show ?thesis using 2 assms upd by (intro written_ok [OF 2(2)]) (simp_all add: catalog_ok_def)
  qed (use assms in simp)
qed

lemma appended_state:
  assumes "state_ok s" "row_ok p" "cp_id p \<notin> set (map cp_id (cat_printers s))"
    and "connection_kind (cp_connection p) \<noteq> KindSystemQueue \<or> cp_id p \<notin> set (cat_suppressed s)"
  shows "state_ok (append_printer p s) \<and>
    (\<forall>j. find (\<lambda>p. cp_id p = j) (cat_printers (append_printer p s)) =
       (if j = cp_id p then Some p else find (\<lambda>p. cp_id p = j) (cat_printers s)))"
proof -
  have own: "prefix (id_prefix (connection_kind (cp_connection p))) (cp_id p)"
    using assms(2) by (simp add: row_ok_def Let_def)
  have fresh: "cp_id p \<notin> set (cat_suppressed s)"
  proof
    assume "cp_id p \<in> set (cat_suppressed s)"
    then have "prefix (id_prefix KindSystemQueue) (cp_id p)"
      using assms(1) by (auto simp: state_ok_def list_all_iff simp del: id_prefix.simps)
    from id_prefix_unique [OF this own] \<open>cp_id p \<in> set (cat_suppressed s)\<close> assms(4) show False by auto
  qed
  have "find (\<lambda>q. cp_id q = cp_id p) (cat_printers s) = None"
    using assms(3) unfolding find_None_iff by (metis image_eqI set_map)
  moreover have "find P (ps @ [q]) = (case find P ps of Some x \<Rightarrow> Some x | None \<Rightarrow> if P q then Some q else None)"
    for P ps and q :: CatalogPrinter
    by (induction ps) auto
  ultimately show ?thesis using assms fresh
    by (auto simp: state_ok_def append_printer_def split: option.splits)
qed

lemma generated_id_Ok: "generated_id kind uuid = Ok i \<Longrightarrow> i = kind @ uuid"
  by (simp add: generated_id_def new_identifier_Ok)

lemma manual_row: "validated_reference (cp_reference (manual_printer (id_prefix KindNetwork @ uuid) input)) = Ok () \<Longrightarrow>
    row_ok (manual_printer (id_prefix KindNetwork @ uuid) input)"
  by (simp add: manual_printer_def Let_def row_ok_def validated_reference_def evidence_of_def own_provider_def
      fingerprint_for_connection_def PrinterFingerprint_default_def)

lemma virtual_row: "validated_reference (cp_reference (virtual_printer (id_prefix KindVirtual @ uuid) input)) = Ok () \<Longrightarrow>
    row_ok (virtual_printer (id_prefix KindVirtual @ uuid) input)"
  by (simp add: virtual_printer_def Let_def row_ok_def validated_reference_def evidence_of_def own_provider_def
      fingerprint_for_connection_def PrinterFingerprint_default_def)

lemma validated_Ok: "validated_reference r = Ok u \<longleftrightarrow> PrinterRef_validate r = Ok ()"
  by (simp add: validated_reference_def)

definition added :: "catalog_env \<Rightarrow> Timestamp \<Rightarrow> CatalogPrinter \<Rightarrow> PrinterCatalog \<Rightarrow> PrinterCatalog \<Rightarrow> bool" where
  "added E clock p c c' \<longleftrightarrow> PrinterRef_validate (cp_reference p) = Ok () \<and> feature_allows_printer (pcat_features c) p \<and>
     written E clock (append_printer p (pcat_state c)) ((pcat_resolver c)(cp_id p \<mapsto> cp_reference p)) c c'"

lemma added_keeps:
  assumes "added E clock p c c'" "catalog_serde E" "catalog_ok E c" "row_ok p"
    and "cp_id p \<notin> set (map cp_id (cat_printers (pcat_state c)))" "connection_kind (cp_connection p) \<noteq> KindSystemQueue"
  shows "catalog_ok E c'"
proof -
  have app: "state_ok (append_printer p (pcat_state c)) \<and>
      (\<forall>j. find (\<lambda>p. cp_id p = j) (cat_printers (append_printer p (pcat_state c))) =
       (if j = cp_id p then Some p else find (\<lambda>p. cp_id p = j) (cat_printers (pcat_state c))))"
    using assms by (intro appended_state) (auto simp: catalog_ok_def)
  then have "resolver_of (pcat_features c) (cat_printers (append_printer p (pcat_state c))) =
      (resolver_of (pcat_features c) (cat_printers (pcat_state c)))(cp_id p \<mapsto> cp_reference p)"
    using assms(1) by (intro resolver_of_changed) (auto simp: added_def)
  moreover have w: "written E clock (append_printer p (pcat_state c)) ((pcat_resolver c)(cp_id p \<mapsto> cp_reference p)) c c'"
    using assms(1) by (simp add: added_def)
  ultimately show ?thesis using app assms(3) by (intro written_ok [OF w assms(2)]) (simp_all add: catalog_ok_def)
qed

lemma add_manual_run:
  assumes "catalog_add_manual E clock uuid input c = (r, c')"
  shows "c' = c \<or> added E clock (manual_printer (id_prefix KindNetwork @ uuid) input) c c'"
proof -
  let ?p = "manual_printer (id_prefix KindNetwork @ uuid) input"
  obtain r1 c1 where run: "commit E clock (append_printer ?p (pcat_state c)) c = (r1, c1)" by (rule prod.exhaust)
  have allowed: "feature_allows_printer f (manual_printer i input) = ft_network_printer_discovery f" for f i
    by (simp add: feature_allows_printer_def manual_printer_def Let_def)
  show ?thesis using run
  proof (cases rule: commit_cases)
    case (failed e)
    then show ?thesis using assms run
      by (auto simp: catalog_add_manual_def catalog_runs Let_def commit_appended_def
          dest!: generated_id_Ok split: sum.splits if_splits)
  next
    case (written db)
    then show ?thesis using assms run
      by (auto simp: catalog_add_manual_def catalog_runs Let_def commit_appended_def written_def validated_Ok
          resolver_put_valid added_def allowed reject_if_def dest!: generated_id_Ok split: sum.splits if_splits)
  qed
qed

lemma create_virtual_run:
  assumes "catalog_create_virtual E clock uuid input c = (r, c')"
  shows "c' = c \<or> added E clock (virtual_printer (id_prefix KindVirtual @ uuid) input) c c' \<and>
    pcat_devices c' = device_register (id_prefix KindVirtual @ uuid) ModeAlwaysSucceed 0 (pcat_devices c)"
proof -
  let ?p = "virtual_printer (id_prefix KindVirtual @ uuid) input"
  obtain r1 c1 where run: "commit E clock (append_printer ?p (pcat_state c)) c = (r1, c1)" by (rule prod.exhaust)
  have allowed: "feature_allows_printer f (virtual_printer i input) = ft_virtual_printer f" for f i
    by (simp add: feature_allows_printer_def virtual_printer_def Let_def)
  show ?thesis using run
  proof (cases rule: commit_cases)
    case (failed e)
    then show ?thesis using assms run
      by (auto simp: catalog_create_virtual_def catalog_runs Let_def commit_appended_def
          dest!: generated_id_Ok split: sum.splits if_splits)
  next
    case (written db)
    then show ?thesis using assms run
      by (auto simp: catalog_create_virtual_def catalog_runs Let_def commit_appended_def written_def validated_Ok
          resolver_put_valid added_def allowed reject_if_def dest!: generated_id_Ok split: sum.splits if_splits)
  qed
qed

lemma add_manual_keeps:
  assumes "catalog_add_manual E clock uuid input c = (r, c')" "catalog_serde E" "catalog_ok E c"
    and "id_prefix KindNetwork @ uuid \<notin> set (map cp_id (cat_printers (pcat_state c)))"
  shows "catalog_ok E c'"
proof -
  let ?p = "manual_printer (id_prefix KindNetwork @ uuid) input"
  have p: "cp_id ?p = id_prefix KindNetwork @ uuid" "connection_kind (cp_connection ?p) \<noteq> KindSystemQueue"
    by (simp_all add: manual_printer_def Let_def)
  have "catalog_ok E c'" if new: "added E clock ?p c c'"
  proof (rule added_keeps [OF new assms(2,3)])
    show "row_ok ?p" using new by (intro manual_row) (simp add: added_def validated_reference_def)
  qed (use p assms(4) in \<open>simp_all del: id_prefix.simps\<close>)
  then show ?thesis using add_manual_run [OF assms(1)] assms(3) by blast
qed

lemma create_virtual_keeps:
  assumes "catalog_create_virtual E clock uuid input c = (r, c')" "catalog_serde E" "catalog_ok E c"
    and "id_prefix KindVirtual @ uuid \<notin> set (map cp_id (cat_printers (pcat_state c)))"
  shows "catalog_ok E c'"
proof -
  let ?p = "virtual_printer (id_prefix KindVirtual @ uuid) input"
  have p: "cp_id ?p = id_prefix KindVirtual @ uuid" "connection_kind (cp_connection ?p) \<noteq> KindSystemQueue"
    by (simp_all add: virtual_printer_def Let_def)
  have "catalog_ok E c'" if new: "added E clock ?p c c'"
  proof (rule added_keeps [OF new assms(2,3)])
    show "row_ok ?p" using new by (intro virtual_row) (simp add: added_def validated_reference_def)
  qed (use p assms(4) in \<open>simp_all del: id_prefix.simps\<close>)
  then show ?thesis using create_virtual_run [OF assms(1)] assms(3) by blast
qed

lemma update_printer_suppressed: "update_printer i f s = Ok (q, s2) \<Longrightarrow> cat_suppressed s2 = cat_suppressed s"
  by (auto simp: update_printer_def and_then_Ok)

lemma clear_virtual_history_run:
  assumes "catalog_clear_virtual_history E pid c = (r, c')"
  shows "\<exists>devices. c' = c\<lparr>pcat_devices := devices\<rparr> \<and> dom (pv_devices devices) = dom (pv_devices (pcat_devices c))"
proof (cases "device_clear_history pid (pcat_devices c)")
  case (Pair r1 devices)
  then have "dom (pv_devices devices) = dom (pv_devices (pcat_devices c))"
    by (auto simp: device_clear_history_def device_lookup_def device_store_def ebind_def emodify_def
        split: sum.splits option.splits if_splits)
  moreover have "c' = c \<or> c' = c\<lparr>pcat_devices := devices\<rparr>" using assms Pair
    by (auto simp: catalog_clear_virtual_history_def catalog_runs parse_id_def new_identifier_Ok
        split: sum.splits if_splits)
  ultimately show ?thesis by (metis PrinterCatalog.surjective PrinterCatalog.update_convs(4))
qed

lemma without_printer_state:
  assumes "without_printer i s = Ok (p, s2)" "state_ok s"
  shows "state_ok s2 \<and> p \<in> set (cat_printers s) \<and> cp_id p = i \<and>
    (\<forall>j. find (\<lambda>p. cp_id p = j) (cat_printers s2) =
      (if j = i then None else find (\<lambda>p. cp_id p = j) (cat_printers s)))"
proof -
  have p: "find (\<lambda>p. cp_id p = i) (cat_printers s) = Some p"
      "s2 = s\<lparr>cat_printers := remove_first (\<lambda>p. cp_id p = i) (cat_printers s),
        cat_suppressed := (if connection_kind (cp_connection p) = KindSystemQueue \<and> i \<notin> set (cat_suppressed s)
          then cat_suppressed s @ [i] else cat_suppressed s)\<rparr>"
    using assms(1) by (auto simp: without_printer_def and_then_Ok)
  then have own: "p \<in> set (cat_printers s)" "cp_id p = i" using find_Some_iff_set by fastforce+
  then have row: "row_ok p" using assms(2) by (auto simp: state_ok_def list_all_iff)
  let ?left = "remove_first (\<lambda>p. cp_id p = i) (cat_printers s)"
  have dist: "distinct (map cp_id (cat_printers s))" using assms(2) by (simp add: state_ok_def)
  have gone: "i \<notin> set (map cp_id ?left)"
    using find_remove_first [OF dist, of i i] by (auto simp: find_None_iff)
  have "prefix (id_prefix KindSystemQueue) i" if "connection_kind (cp_connection p) = KindSystemQueue"
    using row that own(2) by (auto simp: row_ok_def Let_def simp del: id_prefix.simps)
  then have "state_ok s2" using assms(2) p(2) gone distinct_remove_first [OF dist]
    by (auto simp: state_ok_def list_all_iff dest!: set_remove_first simp del: id_prefix.simps)
  then show ?thesis using own p(2) find_remove_first [OF dist] by simp
qed

lemma remove_run:
  assumes "catalog_remove E clock pid c = (r, c')"
  shows "c' = c \<and> (\<exists>e. r = Err e) \<or> (\<exists>p s2. without_printer pid (pcat_state c) = Ok (p, s2) \<and> r = Ok () \<and>
    written E clock s2 ((pcat_resolver c)(pid := None)) c c' \<and>
    pcat_devices c' = (if is_virtual p then device_remove pid (pcat_devices c) else pcat_devices c))"
proof (cases "without_printer pid (pcat_state c)")
  case (Inl e)
  then show ?thesis using assms
    by (auto simp: catalog_remove_def catalog_runs parse_id_def new_identifier_Ok split: sum.splits if_splits)
next
  case (Inr ps)
  obtain p s2 where ps: "ps = (p, s2)" by (rule prod.exhaust)
  obtain r1 c1 where run: "commit E clock s2 c = (r1, c1)" by (rule prod.exhaust)
  show ?thesis using run
  proof (cases rule: commit_cases)
    case (failed e)
    then show ?thesis using assms Inr ps run
      by (auto simp: catalog_remove_def catalog_runs parse_id_def new_identifier_Ok split: sum.splits if_splits)
  next
    case (written db)
    then show ?thesis using assms Inr ps run
      by (auto simp: catalog_remove_def catalog_runs parse_id_def new_identifier_Ok written_def
          split: sum.splits if_splits)
  qed
qed

lemma remove_keeps:
  assumes "catalog_remove E clock pid c = (r, c')" "catalog_serde E" "catalog_ok E c"
  shows "catalog_ok E c'"
proof -
  consider "c' = c" | p s2 where "without_printer pid (pcat_state c) = Ok (p, s2)"
      "written E clock s2 ((pcat_resolver c)(pid := None)) c c'"
    using remove_run [OF assms(1)] by blast
  then show ?thesis
  proof cases
    case 2
    have left: "state_ok s2" "\<forall>j. find (\<lambda>p. cp_id p = j) (cat_printers s2) =
        (if j = pid then None else find (\<lambda>p. cp_id p = j) (cat_printers (pcat_state c)))"
      using without_printer_state [OF 2(1)] assms(3) by (auto simp: catalog_ok_def)
    have "(pcat_resolver c)(pid := None) = resolver_of (pcat_features c) (cat_printers s2)"
      using left(2) assms(3) by (auto simp: catalog_ok_def resolver_of_def fun_eq_iff)
    then show ?thesis by (rule written_ok [OF 2(2) assms(2) left(1)])
  qed (use assms in simp)
qed

end
