(* ===== verification/Catalog_Merge_Laws.thy ===== *)
theory Catalog_Merge_Laws
  imports Catalog_Laws
begin

text \<open>
  The merge of a discovery pass into the catalogue keeps its invariant and what the user configured,
  and the catalogue that is stored can be loaded again.
\<close>

lemma find_absent: "i \<notin> set (map cp_id ps) \<Longrightarrow> find (\<lambda>p. cp_id p = i) ps = None"
  by (induction ps) auto

section \<open>One observation\<close>

lemma discovered_id_prefix: "prefix (id_prefix KindSystemQueue) (discovered_printer_id lower ob)"
  by (simp add: discovered_printer_id_def)

lemma observed_id_prefix:
  "observation_of ob \<Longrightarrow> prefix (id_prefix (connection_kind (dp_connection ob))) (observed_id lower ob)"
  using discovered_id_prefix [of lower ob]
  by (auto simp: observation_of_def observed_id_def Let_def split: option.splits simp del: id_prefix.simps)

lemma profile_kind:
  "connection_kind c = connection_kind (pr_connection r) \<Longrightarrow>
     profile_consistent (r\<lparr>pr_connection := c\<rparr>) = profile_consistent r"
  by (simp add: profile_consistent_def split: option.splits VirtualPrinterProfile.splits)

lemma observed_again_row:
  assumes "row_ok p" "scanned_ok ob" "connection_kind (dp_connection ob) = connection_kind (cp_connection p)"
  shows "row_ok (observed_again ob p) \<and> cp_id (observed_again ob p) = cp_id p \<and>
    connection_kind (cp_connection (observed_again ob p)) = connection_kind (cp_connection p)"
proof -
  have "PrinterRef_validate ((cp_reference p)\<lparr>pr_connection := dp_connection ob\<rparr>) = Ok ()"
    using assms by (simp add: PrinterRef_validate_Ok row_ok_def scanned_ok_def profile_kind Let_def)
  then show ?thesis using assms
    by (auto simp: observed_again_def row_ok_def Let_def evidence_of_def fingerprint_merge scanned_ok_def
        observation_of_def)
qed

lemma newly_observed_row:
  assumes "scanned_ok ob" "prefix (id_prefix (connection_kind (dp_connection ob))) i"
  shows "row_ok (newly_observed i ob) \<and> cp_id (newly_observed i ob) = i"
proof -
  have "PrinterRef_validate (cp_reference (newly_observed i ob)) = Ok ()" using assms(1)
    by (cases "dp_connection ob")
       (auto simp: newly_observed_def Let_def PrinterRef_validate_Ok profile_consistent_def scanned_ok_def
        validate_text_Ok new_printer_submission_mode_def MAX_PRINTER_NAME_BYTES_def)
  then show ?thesis using assms
    by (auto simp: newly_observed_def row_ok_def Let_def scanned_ok_def observation_of_def)
qed

lemma evidence_kind:
  assumes "evidence_matches lower ob p" "row_ok p" "observation_of ob"
  shows "connection_kind (dp_connection ob) = connection_kind (cp_connection p)"
proof -
  consider key where "key \<in> set (identity_keys lower (dp_fingerprint ob))" "key \<in> set (identity_keys lower (cp_fingerprint p))"
    | m n where "m \<in> set (dp_providers ob)" "n \<in> set (cp_providers p)" "prov_provider n = prov_provider m"
    using assms(1) by (auto simp: evidence_matches_def list_ex_iff same_provider_entry_def Let_def)
  then show ?thesis
  proof cases
    case 1
    then have "key_of (connection_kind (dp_connection ob)) key" "key_of (connection_kind (cp_connection p)) key"
      using assms(2,3) identity_keys_of by (auto simp: row_ok_def observation_of_def evidence_of_def Let_def)
    then show ?thesis by (rule key_of_unique)
  next
    case 2
    then have "provider_of (connection_kind (dp_connection ob)) = provider_of (connection_kind (cp_connection p))"
      using assms(2,3) by (auto simp: row_ok_def observation_of_def evidence_of_def Let_def simp del: provider_of.simps)
    then show ?thesis by (simp only: provider_of_unique)
  qed
qed

lemma matching_kind:
  assumes "matching_printer_index lower ps (observed_id lower ob) ob = Some n" "list_all row_ok ps" "observation_of ob"
  shows "n < length ps \<and> connection_kind (dp_connection ob) = connection_kind (cp_connection (ps ! n))"
proof (cases "position (\<lambda>p. cp_id p = observed_id lower ob) ps")
  case None
  then have "n < length ps \<and> evidence_matches lower ob (ps ! n)"
    using assms(1) position_bound by (simp add: matching_printer_index_def)
  then show ?thesis using evidence_kind assms(2,3) by (auto simp: list_all_length)
next
  case (Some m)
  then have n: "n < length ps" "cp_id (ps ! n) = observed_id lower ob"
    using assms(1) position_bound by (fastforce simp: matching_printer_index_def)+
  then have "row_ok (ps ! n)" using assms(2) by (simp add: list_all_length)
  then have "prefix (id_prefix (connection_kind (cp_connection (ps ! n)))) (observed_id lower ob)"
    using n(2) by (simp add: row_ok_def Let_def)
  from id_prefix_unique [OF this observed_id_prefix [OF assms(3)]] n(1) show ?thesis by simp
qed

section \<open>The merge\<close>

text \<open>What a pass may not change: the identity of a printer and what the user chose for it.\<close>

definition configured ::
  "CatalogPrinter \<Rightarrow> PrinterId \<times> ustring \<times> SubmissionMode \<times> VirtualPrinterProfile option \<times> bool \<times>
     ConnectionKind \<times> VirtualPrinterMode \<times> nat" where
  "configured p = (cp_id p, pr_display_name (cp_reference p), pr_submission_mode (cp_reference p),
     pr_virtual_profile (cp_reference p), pr_enabled (cp_reference p), connection_kind (cp_connection p),
     cp_virtual_mode p, cp_virtual_delay_ms p)"

lemma observed_again_configured:
  "connection_kind (dp_connection ob) = connection_kind (cp_connection p) \<Longrightarrow>
     configured (observed_again ob p) = configured p"
  by (simp add: configured_def observed_again_def Let_def)

definition rows_ok :: "ustring list \<Rightarrow> CatalogPrinter list \<Rightarrow> bool" where
  "rows_ok suppressed ps \<longleftrightarrow> distinct (map cp_id ps) \<and> list_all row_ok ps \<and>
     set (map cp_id ps) \<inter> set suppressed = {}"

lemma ids_configured: "map configured ps = map configured qs \<Longrightarrow> map cp_id ps = map cp_id qs"
proof -
  assume "map configured ps = map configured qs"
  then have "map fst (map configured ps) = map fst (map configured qs)" by simp
  then show ?thesis by (simp add: comp_def configured_def)
qed

lemma ids_extended:
  assumes "map configured qs = map configured ps @ new"
  shows "set (map cp_id ps) \<subseteq> set (map cp_id qs)"
proof -
  have "map fst (map configured qs) = map fst (map configured ps) @ map fst new" using assms by simp
  then have "map cp_id qs = map cp_id ps @ map fst new" by (simp add: comp_def configured_def)
  then show ?thesis by (simp flip: set_map)
qed

lemma merge_observed_step:
  assumes "rows_ok suppressed ps" "scanned_ok ob"
  shows "rows_ok suppressed (merge_observed lower suppressed ob ps) \<and>
    (\<exists>new. map configured (merge_observed lower suppressed ob ps) = map configured ps @ new)"
proof (cases "observed_id lower ob \<in> set suppressed")
  case True
  then show ?thesis using assms by (simp add: merge_observed_def)
next
  case False
  let ?i = "observed_id lower ob"
  have rows: "list_all row_ok ps" and ob: "observation_of ob" using assms by (simp_all add: rows_ok_def scanned_ok_def)
  show ?thesis
  proof (cases "matching_printer_index lower ps ?i ob")
    case None
    then have fresh: "?i \<notin> set (map cp_id ps)"
      by (auto simp: matching_printer_index_def position_None split: option.splits)
    have "row_ok (newly_observed ?i ob) \<and> cp_id (newly_observed ?i ob) = ?i"
      using newly_observed_row observed_id_prefix ob assms(2) by blast
    with None False fresh assms(1) show ?thesis by (auto simp: merge_observed_def rows_ok_def)
  next
    case (Some n)
    have n: "n < length ps" "connection_kind (dp_connection ob) = connection_kind (cp_connection (ps ! n))"
      using matching_kind [OF Some rows ob] by auto
    have "row_ok (ps ! n)" using rows n(1) by (simp add: list_all_length)
    note again = observed_again_row [OF this assms(2) n(2)]
    have same: "map configured (ps[n := observed_again ob (ps ! n)]) = map configured ps"
      using n observed_again_configured [OF n(2)] by (simp add: map_update list_update_same_conv)
    have "list_all row_ok (ps[n := observed_again ob (ps ! n)])"
      using rows again set_update_subset_insert [of ps n "observed_again ob (ps ! n)"] by (auto simp: list_all_iff)
    then show ?thesis using assms(1) Some False same ids_configured [OF same]
      by (simp add: merge_observed_def rows_ok_def flip: set_map)
  qed
qed

lemma merge_fold:
  assumes "rows_ok suppressed ps" "list_all scanned_ok obs"
  shows "rows_ok suppressed (fold (merge_observed lower suppressed) obs ps) \<and>
    (\<exists>new. map configured (fold (merge_observed lower suppressed) obs ps) = map configured ps @ new)"
  using assms
proof (induction obs arbitrary: ps)
  case (Cons ob obs)
  let ?ps = "merge_observed lower suppressed ob ps"
  have step: "rows_ok suppressed ?ps" "\<exists>new. map configured ?ps = map configured ps @ new"
    using merge_observed_step [OF Cons.prems(1), of ob lower] Cons.prems(2) by auto
  from Cons.IH [OF step(1)] step(2) Cons.prems(2) show ?case by fastforce
qed simp

lemma mark_system_offline_row:
  "row_ok (mark_system_offline p) = row_ok p" "configured (mark_system_offline p) = configured p"
  "cp_id (mark_system_offline p) = cp_id p"
  by (simp_all add: mark_system_offline_def row_ok_def configured_def)

lemma merge_discovered_state:
  assumes "state_ok s" "list_all scanned_ok obs"
  shows "state_ok (merge_discovered lower obs s) \<and> cat_suppressed (merge_discovered lower obs s) = cat_suppressed s \<and>
    (\<exists>new. map configured (cat_printers (merge_discovered lower obs s)) = map configured (cat_printers s) @ new)"
proof -
  let ?ps = "map mark_system_offline (cat_printers s)"
  have ids: "map cp_id ?ps = map cp_id (cat_printers s)" by (simp add: mark_system_offline_row)
  have "rows_ok (cat_suppressed s) ?ps" unfolding rows_ok_def ids using assms(1)
    by (simp add: state_ok_def list_all_iff mark_system_offline_row)
  from merge_fold [OF this assms(2), of lower] have
    "rows_ok (cat_suppressed s) (fold (merge_observed lower (cat_suppressed s)) obs ?ps)"
    "\<exists>new. map configured (fold (merge_observed lower (cat_suppressed s)) obs ?ps) = map configured ?ps @ new" by blast+
  then show ?thesis using assms(1)
    by (simp add: merge_discovered_def state_ok_def rows_ok_def mark_system_offline_row comp_def)
qed

section \<open>Which row an observation belongs to\<close>

text \<open>
  Two observations with the same evidence are given the same identifier. The evidence is the identifier the
  provider assigned, else the first identity key, else the first provider that has one of its own, else the connection.
\<close>

definition same_evidence :: "(ustring \<Rightarrow> ustring) \<Rightarrow> DiscoveredPrinter \<Rightarrow> DiscoveredPrinter \<Rightarrow> bool" where
  "same_evidence lower a b \<longleftrightarrow> dp_id a = dp_id b \<and> (dp_id a = None \<longrightarrow>
     evidence_text lower (dp_fingerprint a) (dp_providers a) = evidence_text lower (dp_fingerprint b) (dp_providers b) \<and>
     (evidence_text lower (dp_fingerprint a) (dp_providers a) = None \<longrightarrow> dp_connection a = dp_connection b))"

lemma same_evidence_id: "same_evidence lower a b \<Longrightarrow> observed_id lower a = observed_id lower b"
  by (auto simp: same_evidence_def observed_id_def discovered_printer_id_def split: option.split)

lemma suppressed_ignored:
  assumes "observed_id lower ob \<in> set (cat_suppressed s)"
  shows "merge_discovered lower (before @ ob # after) s = merge_discovered lower (before @ after) s"
  using assms by (simp add: merge_discovered_def merge_observed_def)

text \<open>
  An observation belongs to a row when it has the identifier of the row, or when it has no identifier
  of the catalogue and its evidence is that of the row. \<open>observed_by\<close> is what becomes of a row through the observations that
  belong to it, one after the other.
\<close>

definition belongs :: "(ustring \<Rightarrow> ustring) \<Rightarrow> PrinterId set \<Rightarrow> DiscoveredPrinter \<Rightarrow> CatalogPrinter \<Rightarrow> bool" where
  "belongs lower ids ob p \<longleftrightarrow>
     observed_id lower ob = cp_id p \<or> observed_id lower ob \<notin> ids \<and> evidence_matches lower ob p"

fun observed_by ::
  "(ustring \<Rightarrow> ustring) \<Rightarrow> PrinterId set \<Rightarrow> DiscoveredPrinter list \<Rightarrow> CatalogPrinter \<Rightarrow> CatalogPrinter \<Rightarrow> bool" where
  "observed_by lower ids [] p q \<longleftrightarrow> q = p"
| "observed_by lower ids (ob # obs) p q \<longleftrightarrow> belongs lower ids ob p \<and> observed_by lower ids obs (observed_again ob p) q"

lemma observed_again_id: "cp_id (observed_again ob p) = cp_id p"
  by (simp add: observed_again_def Let_def)

lemma observed_by_address:
  "observed_by lower ids obs p q \<Longrightarrow> cp_connection q = (if obs = [] then cp_connection p else dp_connection (last obs))"
proof (induction obs arbitrary: p)
  case (Cons ob obs)
  have "cp_connection (observed_again ob p) = dp_connection ob" by (simp add: observed_again_def Let_def)
  then show ?case using Cons.IH [of "observed_again ob p"] Cons.prems by simp
qed simp

lemma position_is:
  "position P xs = Some n \<Longrightarrow> n < length xs \<and> P (xs ! n)"
  by (induction xs arbitrary: n) (auto split: if_splits)

lemma matching_belongs:
  assumes "matching_printer_index lower ps (observed_id lower ob) ob = Some n" "ids \<subseteq> set (map cp_id ps)"
  shows "n < length ps \<and> belongs lower ids ob (ps ! n)"
proof (cases "position (\<lambda>p. cp_id p = observed_id lower ob) ps")
  case None
  then have "observed_id lower ob \<notin> ids" using assms(2) by (fastforce simp: position_None)
  then show ?thesis using assms(1) None position_is by (fastforce simp: matching_printer_index_def belongs_def)
next
  case (Some m)
  then show ?thesis using assms(1) position_is by (fastforce simp: matching_printer_index_def belongs_def)
qed

lemma matching_own:
  assumes "distinct (map cp_id ps)" "k < length ps" "cp_id (ps ! k) = observed_id lower ob"
  shows "matching_printer_index lower ps (observed_id lower ob) ob = Some k"
proof -
  have "position (\<lambda>p. cp_id p = observed_id lower ob) ps \<noteq> None"
    using assms(2,3) by (auto simp: position_None)
  then obtain m where m: "position (\<lambda>p. cp_id p = observed_id lower ob) ps = Some m" by blast
  then have "m < length ps" "cp_id (ps ! m) = cp_id (ps ! k)" using position_is [OF m] assms(3) by auto
  then have "m = k" using assms(1,2) by (metis length_map nth_eq_iff_index_eq nth_map)
  with m show ?thesis by (simp add: matching_printer_index_def)
qed

text \<open>A row takes every observation that has its identifier, and no observation that does not belong to it.\<close>

definition takes ::
  "(ustring \<Rightarrow> ustring) \<Rightarrow> PrinterId set \<Rightarrow> DiscoveredPrinter list \<Rightarrow> CatalogPrinter \<Rightarrow> CatalogPrinter \<Rightarrow> bool" where
  "takes lower ids obs p q \<longleftrightarrow> (\<exists>taken. subseq taken obs \<and> observed_by lower ids taken p q \<and>
     filter (\<lambda>ob. observed_id lower ob = cp_id p) taken = filter (\<lambda>ob. observed_id lower ob = cp_id p) obs)"

lemma takes_skip: "takes lower ids obs p q \<Longrightarrow> observed_id lower ob \<noteq> cp_id p \<Longrightarrow> takes lower ids (ob # obs) p q"
  unfolding takes_def by (auto intro: list_emb_Cons)

lemma takes_more: "takes lower ids obs (observed_again ob p) q \<Longrightarrow> belongs lower ids ob p \<Longrightarrow> takes lower ids (ob # obs) p q"
proof -
  assume "takes lower ids obs (observed_again ob p) q" and b: "belongs lower ids ob p"
  then obtain taken where "subseq taken obs" "observed_by lower ids taken (observed_again ob p) q"
    "filter (\<lambda>ob. observed_id lower ob = cp_id p) taken = filter (\<lambda>ob. observed_id lower ob = cp_id p) obs"
    by (auto simp: takes_def observed_again_id)
  with b show ?thesis unfolding takes_def by (intro exI [of _ "ob # taken"]) simp
qed

lemma fold_takes:
  assumes "rows_ok suppressed ps" "list_all scanned_ok obs" "ids \<subseteq> set (map cp_id ps)" "k < length ps"
  shows "takes lower ids obs (ps ! k) (fold (merge_observed lower suppressed) obs ps ! k)"
  using assms
proof (induction obs arbitrary: ps)
  case Nil
  then show ?case by (auto simp: takes_def)
next
  case (Cons ob obs)
  let ?qs = "merge_observed lower suppressed ob ps"
  obtain new where step: "rows_ok suppressed ?qs" "map configured ?qs = map configured ps @ new"
    using merge_observed_step [OF Cons.prems(1), of ob lower] Cons.prems(2) by auto
  have len: "length ps \<le> length ?qs" using arg_cong [OF step(2), of length] by simp
  have "ids \<subseteq> set (map cp_id ?qs)" using Cons.prems(3) ids_extended [OF step(2)] by blast
  then have ih: "takes lower ids obs (?qs ! k) (fold (merge_observed lower suppressed) obs ?qs ! k)"
    using Cons.IH [OF step(1)] Cons.prems(2,4) len by simp
  have dist: "distinct (map cp_id ps)" using Cons.prems(1) by (simp add: rows_ok_def)
  have "cp_id (ps ! k) \<in> set (map cp_id ps)" using Cons.prems(4) by simp
  then have fresh: "cp_id (ps ! k) \<notin> set suppressed" using Cons.prems(1) by (auto simp: rows_ok_def)
  show ?case
  proof (cases "observed_id lower ob \<in> set suppressed")
    case True
    then have "?qs = ps" by (simp add: merge_observed_def)
    with ih True fresh show ?thesis by (auto intro!: takes_skip)
  next
    case False
    show ?thesis
    proof (cases "matching_printer_index lower ps (observed_id lower ob) ob")
      case None
      then have "observed_id lower ob \<noteq> cp_id (ps ! k)" using matching_own [OF dist Cons.prems(4), of lower ob] by auto
      moreover have "?qs ! k = ps ! k" using None False Cons.prems(4) by (simp add: merge_observed_def nth_append)
      ultimately show ?thesis using ih by (auto intro!: takes_skip)
    next
      case (Some n)
      note n = matching_belongs [OF Some Cons.prems(3)]
      have qs: "?qs = ps[n := observed_again ob (ps ! n)]" using Some False by (simp add: merge_observed_def)
      show ?thesis
      proof (cases "n = k")
        case True
        then have "?qs ! k = observed_again ob (ps ! k)" using qs n by simp
        with ih n True show ?thesis by (auto intro!: takes_more)
      next
        case n_k: False
        then have "observed_id lower ob \<noteq> cp_id (ps ! k)" using matching_own [OF dist Cons.prems(4), of lower ob] Some by auto
        moreover have "?qs ! k = ps ! k" using qs n_k by simp
        ultimately show ?thesis using ih by (auto intro!: takes_skip)
      qed
    qed
  qed
qed

lemma mark_offline_address: "cp_connection (mark_system_offline p) = cp_connection p"
  by (simp add: mark_system_offline_def)

lemma merge_discovered_takes:
  assumes "state_ok s" "list_all scanned_ok obs" "k < length (cat_printers s)"
  shows "takes lower (set (map cp_id (cat_printers s))) obs (mark_system_offline (cat_printers s ! k))
    (cat_printers (merge_discovered lower obs s) ! k)"
proof -
  let ?ps = "map mark_system_offline (cat_printers s)"
  have ids: "map cp_id ?ps = map cp_id (cat_printers s)" by (simp add: mark_system_offline_row)
  have "rows_ok (cat_suppressed s) ?ps" unfolding rows_ok_def ids using assms(1)
    by (simp add: state_ok_def list_all_iff mark_system_offline_row)
  from fold_takes [OF this assms(2), of "set (map cp_id (cat_printers s))" k lower] assms(3)
  show ?thesis by (simp add: ids merge_discovered_def del: set_map flip: ids)
qed

section \<open>The resolver\<close>

definition resolve_one :: "ProductFeatures \<Rightarrow> CatalogPrinter \<Rightarrow> StaticPrinterResolver \<Rightarrow> StaticPrinterResolver" where
  "resolve_one features p R = (if feature_allows_printer features p then R(cp_id p \<mapsto> cp_reference p)
     else R(cp_id p := None))"

lemma resolve_all_run:
  "list_all row_ok ps \<Longrightarrow>
     resolve_all ps c = (Ok (), c\<lparr>pcat_resolver := fold (resolve_one (pcat_features c)) ps (pcat_resolver c)\<rparr>)"
  by (induction ps arbitrary: c)
     (auto simp: catalog_runs is_active_def resolver_put_valid row_reference resolve_one_def)

lemma resolve_fold:
  "distinct (map cp_id ps) \<Longrightarrow> fold (resolve_one features) ps R i = (case find (\<lambda>p. cp_id p = i) ps of
     Some p \<Rightarrow> if feature_allows_printer features p then Some (cp_reference p) else None
   | None \<Rightarrow> R i)"
proof (induction ps arbitrary: R)
  case (Cons p ps)
  have "cp_id p = i \<Longrightarrow> find (\<lambda>p. cp_id p = i) ps = None"
    using Cons.prems by (intro find_absent) auto
  with Cons show ?case by (auto simp: resolve_one_def split: option.splits)
qed simp

lemma resolve_merged:
  assumes "distinct (map cp_id qs)" "set (map cp_id ps) \<subseteq> set (map cp_id qs)"
  shows "fold (resolve_one features) qs (resolver_of features ps) = resolver_of features qs"
proof
  fix i
  have "resolver_of features ps i = None" if "find (\<lambda>p. cp_id p = i) qs = None"
  proof -
    have "i \<notin> set (map cp_id qs)" using that by (auto simp: find_None_iff)
    then have "find (\<lambda>p. cp_id p = i) ps = None" using assms(2) by (intro find_absent) blast
    then show ?thesis by (simp add: resolver_of_def)
  qed
  then show "fold (resolve_one features) qs (resolver_of features ps) i = resolver_of features qs i"
    by (simp add: resolve_fold [OF assms(1)] resolver_of_def [of features qs] split: option.splits)
qed

section \<open>The second part of a refresh\<close>

lemma refresh_finish_run:
  assumes "refresh_finish E clock (names, d) c = (r, c')" "catalog_ok E c" "list_all scanned_ok (ds_printers d)"
  shows "(\<exists>status. c' = c\<lparr>pcat_status := status\<rparr>) \<and> (\<exists>e. r = Err e) \<or>
    (let s2 = merge_discovered (cx_lower E) (ds_printers d) (pcat_state c) in
      written E clock s2 (resolver_of (pcat_features c) (cat_printers s2)) c c' \<and>
      pcat_devices c' = pcat_devices c \<and> r = catalog_list E c')"
proof -
  let ?s2 = "merge_discovered (cx_lower E) (ds_printers d) (pcat_state c)"
  let ?c1 = "c\<lparr>pcat_status := map (provider_status (cx_rfc3339 E clock) d) names\<rparr>"
  have ok: "state_ok (pcat_state c)" using assms(2) by (simp add: catalog_ok_def)
  obtain new where merged: "state_ok ?s2" "map configured (cat_printers ?s2) = map configured (cat_printers (pcat_state c)) @ new"
    using merge_discovered_state [OF ok assms(3), of "cx_lower E"] by blast
  have rows: "list_all row_ok (cat_printers ?s2)" "distinct (map cp_id (cat_printers ?s2))"
    using merged(1) by (simp_all add: state_ok_def)
  have sub: "set (map cp_id (cat_printers (pcat_state c))) \<subseteq> set (map cp_id (cat_printers ?s2))"
    using ids_extended [OF merged(2)] .
  obtain r1 c2 where run: "commit E clock ?s2 ?c1 = (r1, c2)" by (rule prod.exhaust)
  then show ?thesis
  proof (cases rule: commit_cases)
    case (failed e)
    then show ?thesis using assms(1) run by (auto simp: refresh_finish_def catalog_runs)
  next
    case (written db)
    then show ?thesis using assms run resolve_merged [OF rows(2) sub]
      by (auto simp: refresh_finish_def catalog_runs resolve_all_run [OF rows(1)] log_info_def written_def
          catalog_ok_def Let_def)
  qed
qed

lemma refresh_finish_keeps:
  assumes "refresh_finish E clock scan c = (r, c')" "catalog_serde E" "catalog_ok E c"
    and "list_all scanned_ok (ds_printers (snd scan))"
  shows "catalog_ok E c'"
proof -
  obtain names d where scan: "scan = (names, d)" by (rule prod.exhaust)
  let ?s2 = "merge_discovered (cx_lower E) (ds_printers d) (pcat_state c)"
  consider status where "c' = c\<lparr>pcat_status := status\<rparr>"
    | "written E clock ?s2 (resolver_of (pcat_features c) (cat_printers ?s2)) c c'"
    using refresh_finish_run [OF assms(1) [unfolded scan] assms(3)] assms(4) scan by (auto simp: Let_def)
  then show ?thesis
  proof cases
    case 2
    have "state_ok ?s2" using merge_discovered_state assms(3,4) scan by (auto simp: catalog_ok_def)
    from written_ok [OF 2 assms(2) this] show ?thesis by simp
  qed (use assms(3) in \<open>simp add: catalog_ok_def\<close>)
qed

section \<open>Loading again\<close>

lemma check_printers_Ok:
  assumes "list_all row_ok ps" "distinct (map cp_id ps)" "set (map cp_id ps) \<inter> seen = {}"
  shows "\<exists>devices'. check_printers features seen ps devices = Ok devices' \<and>
    dom (pv_devices devices') = dom (pv_devices devices) \<union>
      cp_id ` {p \<in> set ps. is_virtual p \<and> feature_allows_printer features p}"
  using assms
proof (induction ps arbitrary: seen devices)
  case (Cons p ps)
  let ?d = "if is_virtual p \<and> feature_allows_printer features p
    then device_register (cp_id p) (persisted_virtual_mode (cp_virtual_mode p)) (cp_virtual_delay_ms p) devices else devices"
  have "set (map cp_id ps) \<inter> insert (cp_id p) seen = {}" using Cons.prems by auto
  from Cons.IH [OF _ _ this, of ?d] Cons.prems obtain devices' where
    d: "check_printers features (insert (cp_id p) seen) ps ?d = Ok devices'"
      "dom (pv_devices devices') = dom (pv_devices ?d) \<union> cp_id ` {p \<in> set ps. is_virtual p \<and> feature_allows_printer features p}"
    by auto
  have "dom (pv_devices ?d) = (if is_virtual p \<and> feature_allows_printer features p
      then insert (cp_id p) (dom (pv_devices devices)) else dom (pv_devices devices))"
    by (auto simp: device_register_def Let_def)
  moreover have "check_printers features seen (p # ps) devices = Ok devices'"
    using Cons.prems d(1) row_reference [of p] by (simp add: reject_if_def)
  ultimately show ?case using d(2) by auto
qed simp

lemma resolver_add_active:
  assumes "list_all row_ok ps" "distinct (map cp_id ps)" "\<forall>p \<in> set ps. R (cp_id p) = None"
  shows "resolver_add R (active_references features ps) = Ok (R ++ resolver_of features ps)"
  using assms
proof (induction ps arbitrary: R)
  case Nil
  then show ?case by (simp add: active_references_def resolver_of_def map_add_def)
next
  case (Cons p ps)
  have none: "find (\<lambda>q. cp_id q = cp_id p) ps = None"
    using Cons.prems(2) by (intro find_absent) simp
  show ?case
  proof (cases "feature_allows_printer features p")
    case True
    have "\<forall>q \<in> set ps. (R(cp_id p \<mapsto> cp_reference p)) (cp_id q) = None" using Cons.prems by (auto simp: image_iff dest: sym)
    with Cons.prems have "resolver_add (R(cp_id p \<mapsto> cp_reference p)) (active_references features ps) =
        Ok (R(cp_id p \<mapsto> cp_reference p) ++ resolver_of features ps)" by (intro Cons.IH) simp_all
    moreover have "R(cp_id p \<mapsto> cp_reference p) ++ resolver_of features ps = R ++ resolver_of features (p # ps)"
      using True none by (auto simp: map_add_def resolver_of_def fun_eq_iff split: option.splits)
    ultimately show ?thesis using True Cons.prems row_reference
      by (simp add: active_references_def resolver_check_def)
  next
    case False
    have "R ++ resolver_of features ps = R ++ resolver_of features (p # ps)"
      using False none by (auto simp: map_add_def resolver_of_def fun_eq_iff split: option.splits)
    then show ?thesis using False Cons by (simp add: active_references_def)
  qed
qed

lemma load_stored:
  assumes "state_ok s" "stored_ok E s db"
  shows "\<exists>c. catalog_load E clock devices features log db = Ok c \<and> pcat_state c = s \<and> pcat_storage c = db \<and>
    pcat_features c = features \<and> pcat_resolver c = resolver_of features (cat_printers s) \<and>
    dom (pv_devices (pcat_devices c)) = dom (pv_devices devices) \<union>
      cp_id ` {p \<in> set (cat_printers s). is_virtual p \<and> feature_allows_printer features p}"
proof -
  have read: "read_catalog E clock db = Ok (s, db)" using assms(2)
    by (auto simp: stored_ok_def read_catalog_def decode_catalog_def current_unchanged split: sum.splits option.splits)
  have rows: "list_all row_ok (cat_printers s)" "distinct (map cp_id (cat_printers s))" using assms(1) by (simp_all add: state_ok_def)
  obtain devices' where d: "check_printers features {} (cat_printers s) devices = Ok devices'"
      "dom (pv_devices devices') = dom (pv_devices devices) \<union>
        cp_id ` {p \<in> set (cat_printers s). is_virtual p \<and> feature_allows_printer features p}"
    using check_printers_Ok [OF rows, of "{}" features devices] by auto
  have "resolver_new (active_references features (cat_printers s)) = Ok (resolver_of features (cat_printers s))"
    using resolver_add_active [OF rows, of Map.empty features] by (simp add: resolver_new_def)
  then show ?thesis using read d by (simp add: catalog_load_def)
qed

end
