(* ===== verification/Catalog_Reachable.thy ===== *)
theory Catalog_Reachable
  imports Catalog_Merge_Laws
begin

text \<open>
  The life of a catalogue as a step relation: its operations, the two parts of a discovery pass with
  anything in between, what other components do to the shared repository and devices, and a restart.
\<close>

type_synonym discovery_scan = "ustring list \<times> DiscoverySnapshot"
type_synonym catalog_world = "PrinterCatalog \<times> discovery_scan list"

definition same_setting :: "catalog_env \<Rightarrow> SqliteStorage \<Rightarrow> SqliteStorage \<Rightarrow> bool" where
  "same_setting E db db' \<longleftrightarrow> get_metadata (cx_storage E) Settings CATALOG_SETTING db' =
     get_metadata (cx_storage E) Settings CATALOG_SETTING db"

text \<open>UUIDs are fresh: a generated identifier is not in the catalogue yet.\<close>

definition fresh_id :: "PrinterId \<Rightarrow> PrinterCatalog \<Rightarrow> bool" where
  "fresh_id i c \<longleftrightarrow> i \<notin> set (map cp_id (cat_printers (pcat_state c)))"

inductive catalog_step :: "catalog_env \<Rightarrow> catalog_world \<Rightarrow> catalog_world \<Rightarrow> bool" for E where
  configuring: "catalog_configure E clock pid changes c = (r, c') \<Longrightarrow> catalog_step E (c, scans) (c', scans)"
| adding: "catalog_add_manual E clock uuid input c = (r, c') \<Longrightarrow>
    fresh_id (lit ''printer_network_'' @ uuid) c \<Longrightarrow> catalog_step E (c, scans) (c', scans)"
| creating: "catalog_create_virtual E clock uuid virtual_input c = (r, c') \<Longrightarrow>
    fresh_id (lit ''printer_virtual_'' @ uuid) c \<Longrightarrow> catalog_step E (c, scans) (c', scans)"
| updating: "catalog_update_virtual E clock pid mode delay_ms c = (r, c') \<Longrightarrow> catalog_step E (c, scans) (c', scans)"
| clearing: "catalog_clear_virtual_history E pid c = (ru, c') \<Longrightarrow> catalog_step E (c, scans) (c', scans)"
| removing: "catalog_remove E clock pid c = (ru, c') \<Longrightarrow> catalog_step E (c, scans) (c', scans)"
| scanning: "catalog_step E (c, scans) (c, refresh_scan E S c # scans)"
| merging: "scan \<in> set scans \<Longrightarrow> refresh_finish E clock scan c = (rl, c') \<Longrightarrow>
    catalog_step E (c, scans) (c', remove1 scan scans)"
| sharing: "same_setting E (pcat_storage c) db \<Longrightarrow>
    catalog_step E (c, scans) (c\<lparr>pcat_storage := db, pcat_devices := devices\<rparr>, scans)"
| restarting: "catalog_load E clock devices features log (pcat_storage c) = Ok c' \<Longrightarrow>
    catalog_step E (c, scans) (c', [])"

text \<open>A catalogue starts from what is stored, if its rows are what this release writes.\<close>

inductive catalog_reachable :: "catalog_env \<Rightarrow> catalog_world \<Rightarrow> bool" for E where
  loaded: "catalog_load E clock devices features log db = Ok c \<Longrightarrow> state_ok (pcat_state c) \<Longrightarrow>
    catalog_reachable E (c, [])"
| stepped: "catalog_reachable E w \<Longrightarrow> catalog_step E w w' \<Longrightarrow> catalog_reachable E w'"

definition world_ok :: "catalog_env \<Rightarrow> catalog_world \<Rightarrow> bool" where
  "world_ok E w \<longleftrightarrow> catalog_ok E (fst w) \<and> (\<forall>scan \<in> set (snd w). list_all scanned_ok (ds_printers (snd scan)))"

lemma default_state_ok: "state_ok PersistedCatalog_default"
  by (simp add: state_ok_def PersistedCatalog_default_def)

lemma read_catalog_stored:
  assumes "catalog_serde E" "read_catalog E clock db = Ok (s, db')"
  shows "stored_ok E s db'"
proof -
  obtain stored where stored: "get_metadata (cx_storage E) Settings CATALOG_SETTING db = Ok stored"
    using assms(2) by (cases "get_metadata (cx_storage E) Settings CATALOG_SETTING db") (auto simp: read_catalog_def)
  show ?thesis
  proof (cases stored)
    case None
    then show ?thesis using assms(2) stored by (simp add: read_catalog_def stored_ok_def)
  next
    case (Some v)
    obtain migrated v' where m: "migrate_legacy_printer_config v = (migrated, v')" by (rule prod.exhaust)
    show ?thesis
    proof (cases migrated)
      case True
      then show ?thesis using assms(2) stored Some m store_catalog_stored [OF assms(1)]
        by (auto simp: read_catalog_def decode_catalog_def and_then_Ok)
    next
      case False
      then have "catalog_current v" using migrate_current [of v] m by simp
      then show ?thesis using assms(2) stored Some m False current_unchanged [of v]
        by (auto simp: read_catalog_def decode_catalog_def and_then_Ok stored_ok_def)
    qed
  qed
qed

lemma loaded_ok:
  assumes "catalog_load E clock devices features log db = Ok c" "state_ok (pcat_state c)" "catalog_serde E"
  shows "catalog_ok E c"
proof -
  obtain s db' where read: "read_catalog E clock db = Ok (s, db')" and s: "pcat_state c = s" "pcat_storage c = db'"
      and f: "pcat_features c = features"
      and R: "resolver_new (active_references features (cat_printers s)) = Ok (pcat_resolver c)"
    using assms(1) by (auto simp: catalog_load_def and_then_Ok)
  have rows: "list_all row_ok (cat_printers s)" "distinct (map cp_id (cat_printers s))"
    using assms(2) s(1) by (simp_all add: state_ok_def)
  have "pcat_resolver c = resolver_of features (cat_printers s)"
    using R resolver_add_active [OF rows, of Map.empty features] by (simp add: resolver_new_def)
  with s f assms(2) read_catalog_stored [OF assms(3) read] show ?thesis by (simp add: catalog_ok_def)
qed

lemma read_stored: "stored_ok E s db \<Longrightarrow> read_catalog E clock db = Ok (s, db)"
  by (auto simp: stored_ok_def read_catalog_def decode_catalog_def current_unchanged split: sum.splits option.splits)

lemma loaded_state:
  "catalog_load E clock devices features log db = Ok c \<Longrightarrow> stored_ok E s db \<Longrightarrow> pcat_state c = s"
  by (auto simp: catalog_load_def and_then_Ok read_stored)

lemma step_world_ok:
  assumes "catalog_step E w w'" "catalog_serde E" "world_ok E w"
  shows "world_ok E w'"
  using assms(1)
proof cases
  case (adding clock uuid input c r c' scans)
  then show ?thesis using assms(3) add_manual_keeps [OF adding(3) assms(2)] by (simp add: world_ok_def fresh_id_def)
next
  case (creating clock uuid input c r c' scans)
  then show ?thesis using assms(3) create_virtual_keeps [OF creating(3) assms(2)] by (simp add: world_ok_def fresh_id_def)
next
  case (scanning c scans S)
  then show ?thesis using assms(3) scan_ok [of c E S]
    by (auto simp: world_ok_def catalog_ok_def state_ok_def)
next
  case (merging scan scans clock c r c')
  then show ?thesis using assms refresh_finish_keeps [OF merging(4) assms(2)] notin_set_remove1
    by (auto simp: world_ok_def)
next
  case (restarting clock devices features log c c' scans)
  then have "state_ok (pcat_state c')" using assms(3) loaded_state by (fastforce simp: world_ok_def catalog_ok_def)
  then show ?thesis using restarting loaded_ok assms(2) by (auto simp: world_ok_def)
next
  case (clearing pid c r c' scans)
  then show ?thesis using assms(3) clear_virtual_history_run [OF clearing(3)]
    by (auto simp: world_ok_def catalog_ok_def)
next
  case (sharing c db scans devices)
  then show ?thesis using assms(3) by (simp add: world_ok_def catalog_ok_def stored_ok_def same_setting_def)
qed (use assms(2,3) configure_keeps update_virtual_keeps remove_keeps in \<open>auto simp: world_ok_def\<close>)

lemma catalog_reachable_ok: "catalog_reachable E w \<Longrightarrow> catalog_serde E \<Longrightarrow> world_ok E w"
proof (induction rule: catalog_reachable.induct)
  case (loaded clock devices features log db c)
  then show ?case using loaded_ok by (auto simp: world_ok_def)
qed (blast intro: step_world_ok)

text \<open>What was suppressed stays suppressed.\<close>

lemma written_state: "written E clock s R c c' \<Longrightarrow> pcat_state c' = s"
  by (simp add: written_def)

lemma step_suppressed:
  assumes "catalog_step E w w'" "catalog_serde E" "world_ok E w"
  shows "set (cat_suppressed (pcat_state (fst w))) \<subseteq> set (cat_suppressed (pcat_state (fst w')))"
  using assms(1)
proof cases
  case (configuring clock pid changes c r c' scans)
  have "catalog_ok E c" using assms(3) configuring(1) by (simp add: world_ok_def)
  from configure_run [OF configuring(3) this] configuring show ?thesis
    by (auto dest!: written_state update_printer_suppressed)
next
  case (adding clock uuid input c r c' scans)
  from add_manual_run [OF adding(3)] adding show ?thesis
    by (auto simp: added_def append_printer_def dest!: written_state)
next
  case (creating clock uuid input c r c' scans)
  from create_virtual_run [OF creating(3)] creating show ?thesis
    by (auto simp: added_def append_printer_def dest!: written_state)
next
  case (updating clock pid mode delay_ms c r c' scans)
  from update_virtual_run [OF updating(3)] updating show ?thesis
    by (auto dest!: written_state update_printer_suppressed)
next
  case (clearing pid c r c' scans)
  from clear_virtual_history_run [OF clearing(3)] clearing show ?thesis by auto
next
  case (removing clock pid c r c' scans)
  from remove_run [OF removing(3)] removing show ?thesis
    by (auto simp: without_printer_def and_then_Ok dest!: written_state)
next
  case (merging scan scans clock c r c')
  obtain names d where scan: "scan = (names, d)" by (rule prod.exhaust)
  have ok: "catalog_ok E c" "list_all scanned_ok (ds_printers d)" using assms(3) merging scan by (auto simp: world_ok_def)
  from refresh_finish_run [OF merging(4) [unfolded scan] this] merging show ?thesis
    using merge_discovered_state [OF _ ok(2), of "pcat_state c" "cx_lower E"] ok(1)
    by (auto simp: Let_def catalog_ok_def dest!: written_state)
next
  case (restarting clock devices features log c c' scans)
  then have "pcat_state c' = pcat_state c" using assms(3) loaded_state by (fastforce simp: world_ok_def catalog_ok_def)
  with restarting show ?thesis by simp
qed simp_all

lemma steps_suppressed:
  assumes "(catalog_step E)\<^sup>*\<^sup>* w w'" "catalog_serde E" "world_ok E w"
  shows "world_ok E w' \<and> set (cat_suppressed (pcat_state (fst w))) \<subseteq> set (cat_suppressed (pcat_state (fst w')))"
  using assms(1)
proof induction
  case (step y z)
  then show ?case using step_world_ok step_suppressed assms(2) by blast
qed (use assms(3) in simp)


end
