(* ===== verification/Catalog_Properties.thy ===== *)
theory Catalog_Properties
  imports Catalog_Reachable Wire_Codec
begin

text \<open>
  The properties of the desktop's printer catalogue: it never locks itself out, what was removed stays
  removed, a discovery pass keeps what the user configured, old rows are completed once, and which of
  its printers the protocol can carry.
\<close>

section \<open>A sample catalogue\<close>

definition sample_queue_id :: PrinterId where
  "sample_queue_id = lit ''printer_discovered_d886b80d8a3f9335''"

definition sample_queue :: CatalogPrinter where
  "sample_queue = \<lparr>cp_reference = \<lparr>pr_id = sample_queue_id, pr_display_name = lit ''Desk'',
       pr_connection = SystemQueue (lit ''q''), pr_submission_mode = Driver, pr_virtual_profile = None,
       pr_enabled = True\<rparr>,
     cp_source_name = lit ''q'', cp_availability = Online, cp_capabilities = None,
     cp_fingerprint = PrinterFingerprint_default\<lparr>fp_queue_name := Some (lit ''q'')\<rparr>,
     cp_providers = [], cp_virtual_width = None, cp_virtual_mode = ModeAlwaysSucceed, cp_virtual_delay_ms = 0\<rparr>"

definition sample_stored_catalog :: PersistedCatalog where
  "sample_stored_catalog = \<lparr>cat_printers = [sample_queue], cat_suppressed = []\<rparr>"

definition sample_emptied :: PersistedCatalog where
  "sample_emptied = \<lparr>cat_printers = [], cat_suppressed = [sample_queue_id]\<rparr>"

text \<open>A Serde that knows two catalogues.\<close>

definition sample_catalog_env :: catalog_env where
  "sample_catalog_env = \<lparr>
     cx_storage = \<lparr>json_text = (\<lambda>v. case v of JNull \<Rightarrow> Some [] | JBool True \<Rightarrow> Some [116] | _ \<Rightarrow> None),
       json_parse = (\<lambda>t. if t = [] then Some JNull else Some (JBool True)), digest = (\<lambda>s. s), millis_ok = (\<lambda>_. True)\<rparr>,
     cx_to_value = (\<lambda>s. if s = sample_stored_catalog then Ok JNull else if s = sample_emptied then Ok (JBool True) else Err []),
     cx_from_value = (\<lambda>v. if v = JNull then Ok sample_stored_catalog else Ok sample_emptied),
     cx_storage_text = (\<lambda>_. []), cx_lower = (\<lambda>s. s), cx_rfc3339 = (\<lambda>_. []),
     cx_projection = \<lparr>pl_png = (\<lambda>_. None), pl_time_text = (\<lambda>_. []), pl_spooler_text = (\<lambda>_. [])\<rparr>\<rparr>"

lemma sample_catalog_serde: "catalog_serde sample_catalog_env"
  by (auto simp: catalog_serde_def sample_catalog_env_def catalog_current_def sample_stored_catalog_def sample_emptied_def
      split: Value.splits bool.splits if_splits)

definition sample_features :: ProductFeatures where
  "sample_features = \<lparr>ft_virtual_printer = True, ft_system_printer_discovery = True,
     ft_network_printer_discovery = True, ft_usb_printer_discovery = False, ft_remote_diagnostics = False,
     ft_managed_hardware = False\<rparr>"

definition sample_catalog_database :: SqliteStorage where
  "sample_catalog_database = empty_database\<lparr>settings_table :=
     [\<lparr>kv_key = CATALOG_SETTING, kv_value_json = [], kv_updated_at = 0\<rparr>]\<rparr>"

definition no_devices :: PerPrinterVirtualSpooler where
  "no_devices = \<lparr>pv_devices = Map.empty, pv_sounds = []\<rparr>"

definition sample_printer_catalog :: PrinterCatalog where
  "sample_printer_catalog = \<lparr>pcat_storage = sample_catalog_database, pcat_state = sample_stored_catalog,
     pcat_resolver = [sample_queue_id \<mapsto> cp_reference sample_queue], pcat_devices = no_devices,
     pcat_features = sample_features, pcat_status = [], pcat_revision = 1, pcat_log = []\<rparr>"

lemma sample_queue_row: "row_ok sample_queue"
  by (simp add: row_ok_def sample_queue_def sample_queue_id_def PrinterRef_validate_Ok profile_consistent_def
      PrinterConnection_validate_def validate_text_Ok MAX_PRINTER_NAME_BYTES_def evidence_of_def
      PrinterFingerprint_default_def lit_def trim_def trim_start_def trim_end_def is_whitespace_def byte_len_def
      utf8_len_def)

lemma sample_stored_ok: "state_ok sample_stored_catalog"
  by (simp add: state_ok_def sample_stored_catalog_def sample_queue_row)

lemma sample_loads:
  "catalog_load sample_catalog_env 0 no_devices sample_features [] sample_catalog_database = Ok sample_printer_catalog"
proof -
  have "get_metadata (cx_storage sample_catalog_env) Settings CATALOG_SETTING sample_catalog_database = Ok (Some JNull)"
    by (simp add: get_metadata_def catalog_key_valid sample_catalog_database_def sample_catalog_env_def empty_database_def)
  then have "read_catalog sample_catalog_env 0 sample_catalog_database = Ok (sample_stored_catalog, sample_catalog_database)"
    by (simp add: read_catalog_def decode_catalog_def migrate_legacy_printer_config_def sample_catalog_env_def)
  moreover have "\<not> is_virtual sample_queue" by (simp add: is_virtual_def sample_queue_def)
  moreover have "feature_allows_printer sample_features sample_queue"
    by (simp add: feature_allows_printer_def sample_queue_def sample_features_def)
  ultimately show ?thesis
    using row_reference [OF sample_queue_row]
    by (simp add: catalog_load_def sample_stored_catalog_def active_references_def resolver_new_def resolver_check_def
        sample_printer_catalog_def reject_if_def)
       (simp add: sample_queue_def)
qed

lemma sample_catalog_reachable: "catalog_reachable sample_catalog_env (sample_printer_catalog, [])"
  by (rule catalog_reachable.loaded [OF sample_loads]) (simp add: sample_printer_catalog_def sample_stored_ok)

section \<open>The invariant\<close>

text \<open>C33: However its operations, discovery passes and restarts interleave, a catalogue keeps unique
  identifiers and valid printers, the agent resolves exactly the active ones, and it can be loaded from
  the repository again with exactly what is shown.\<close>

theorem catalogue_invariant:
  assumes "catalog_reachable E (c, scans)" "catalog_serde E"
  shows "distinct (map cp_id (cat_printers (pcat_state c))) \<and>
    list_all (\<lambda>p. PrinterRef_validate (cp_reference p) = Ok ()) (cat_printers (pcat_state c)) \<and>
    pcat_resolver c = resolver_of (pcat_features c) (cat_printers (pcat_state c)) \<and>
    (\<exists>c'. catalog_load E clock devices features log (pcat_storage c) = Ok c' \<and> pcat_state c' = pcat_state c)"
proof -
  have ok: "catalog_ok E c" using catalog_reachable_ok [OF assms] by (simp add: world_ok_def)
  then have "list_all (\<lambda>p. PrinterRef_validate (cp_reference p) = Ok ()) (cat_printers (pcat_state c))"
    by (auto simp: catalog_ok_def state_ok_def list_all_iff row_reference)
  then show ?thesis using ok load_stored [of "pcat_state c" E "pcat_storage c" clock devices features log]
    by (auto simp: catalog_ok_def state_ok_def)
qed

theorem catalogue_invariant_witness:
  "\<exists>c'. catalog_load sample_catalog_env 7 no_devices sample_features [] sample_catalog_database = Ok c' \<and>
     cat_printers (pcat_state c') = [sample_queue]"
  using catalogue_invariant [OF sample_catalog_reachable sample_catalog_serde, of 7 no_devices sample_features "[]"]
  by (auto simp: sample_printer_catalog_def sample_stored_catalog_def)

section \<open>Removal\<close>

text \<open>C34: A system queue that was removed is not in the catalogue at any later point, whatever is discovered,
  added or configured since and however often the application is restarted; and every later observation
  with the evidence the queue was identified by, in whatever pass and among whatever other observations, has no effect
  on the catalogue at all. The evidence is the first identity key of the observation, not the queue: an
  observation of the same device with another first key gets another identifier and is not covered.\<close>

theorem removed_queue_stays_removed:
  assumes "catalog_reachable E (c, scans)" "catalog_serde E"
    and "catalog_get i c = Ok p" "connection_kind (cp_connection p) = KindSystemQueue"
    and "catalog_remove E clock i c = (Ok (), c')" "(catalog_step E)\<^sup>*\<^sup>* (c', scans) (c'', scans'')"
  shows "i \<notin> set (map cp_id (cat_printers (pcat_state c''))) \<and> pcat_resolver c'' i = None \<and>
    (\<forall>first ob before after. observed_id (cx_lower E) first = i \<longrightarrow> same_evidence (cx_lower E) first ob \<longrightarrow>
       merge_discovered (cx_lower E) (before @ ob # after) (pcat_state c'') =
       merge_discovered (cx_lower E) (before @ after) (pcat_state c''))"
proof -
  have world: "world_ok E (c', scans)"
    using step_world_ok [OF catalog_step.removing [OF assms(5)] assms(2) catalog_reachable_ok [OF assms(1,2)]] .
  have found: "find (\<lambda>p. cp_id p = i) (cat_printers (pcat_state c)) = Some p"
    using assms(3) by (simp add: catalog_get_def)
  have "i \<in> set (cat_suppressed (pcat_state c'))"
    using remove_run [OF assms(5)] found assms(4) by (auto simp: without_printer_def and_then_Ok dest!: written_state)
  then have "world_ok E (c'', scans'')" "i \<in> set (cat_suppressed (pcat_state c''))"
    using steps_suppressed [OF assms(6,2) world] by auto
  then have "i \<notin> set (map cp_id (cat_printers (pcat_state c'')))" "catalog_ok E c''"
    by (auto simp: world_ok_def catalog_ok_def state_ok_def)
  moreover have "merge_discovered (cx_lower E) (before @ ob # after) (pcat_state c'') =
      merge_discovered (cx_lower E) (before @ after) (pcat_state c'')"
    if "observed_id (cx_lower E) first = i" "same_evidence (cx_lower E) first ob" for first ob before after
    using suppressed_ignored [of "cx_lower E" ob] same_evidence_id [OF that(2)] that(1)
      \<open>i \<in> set (cat_suppressed (pcat_state c''))\<close> by simp
  ultimately show ?thesis using find_absent by (simp add: catalog_ok_def resolver_of_def)
qed

lemma sample_removes:
  "\<exists>c'. catalog_remove sample_catalog_env 0 sample_queue_id sample_printer_catalog = (Ok (), c') \<and>
     pcat_state c' = sample_emptied"
proof -
  have "parse_id sample_queue_id = Ok sample_queue_id"
    by (simp add: parse_id_def new_identifier_Ok valid_identifier_def sample_queue_id_def lit_def trim_def
        trim_start_def trim_end_def is_whitespace_def is_control_def)
  moreover have "without_printer sample_queue_id sample_stored_catalog = Ok (sample_queue, sample_emptied)"
    by (simp add: without_printer_def sample_stored_catalog_def sample_emptied_def sample_queue_def)
  moreover have "\<exists>db. store_catalog sample_catalog_env 0 sample_emptied sample_catalog_database = Ok db"
    by (simp add: store_catalog_def sample_catalog_env_def sample_emptied_def sample_stored_catalog_def set_metadata_def
        catalog_key_valid bounded_json_def reject_if_def now_millis_def timestamp_millis_def)
  moreover have "\<not> is_virtual sample_queue" by (simp add: is_virtual_def sample_queue_def)
  ultimately show ?thesis
    by (auto simp: catalog_remove_def catalog_runs commit_def sample_printer_catalog_def)
qed

text \<open>The queue as a provider sees it, and again when it is offline and under another name.\<close>

definition sample_seen :: "ustring \<Rightarrow> PrinterAvailability \<Rightarrow> DiscoveredPrinter" where
  "sample_seen name availability = \<lparr>dp_id = None, dp_name = name, dp_kind = PurposeUnknown, dp_connection = SystemQueue (lit ''q''),
     dp_fingerprint = PrinterFingerprint_default\<lparr>fp_queue_name := Some (lit ''q'')\<rparr>,
     dp_availability = availability, dp_capabilities = None,
     dp_providers = [\<lparr>prov_provider = lit ''system-queue'', prov_provider_id = Some (lit ''q''), prov_attributes = []\<rparr>]\<rparr>"

lemma sample_evidence: "evidence_text (\<lambda>s. s) (dp_fingerprint (sample_seen name a)) (dp_providers (sample_seen name a)) = Some (lit ''queue:q'')"
  by (simp add: evidence_text_def sample_seen_def identity_keys_def PrinterFingerprint_default_def normalized_def lit_def
      trim_def trim_start_def trim_end_def is_whitespace_def)

lemma sample_queue_observed: "observed_id (\<lambda>s. s) (sample_seen name a) = sample_queue_id"
proof -
  have bytes: "utf8_bytes (lit ''queue:q'') = [113, 117, 101, 117, 101, 58, 113]"
    by (simp add: lit_def utf8_bytes_def utf8_encode_def)
  have hash: "fnv1a [113, 117, 101, 117, 101, 58, 113] = 0xd886b80d8a3f9335"
    by code_simp
  have "dp_id (sample_seen name a) = None" by (simp add: sample_seen_def)
  moreover have "rev [0..<16] = [15, 14, 13, 12, 11, 10, 9, 8, 7, 6, 5, 4, 3, 2, 1, 0]" by code_simp
  then have "hex16 0xd886b80d8a3f9335 = [100, 56, 56, 54, 98, 56, 48, 100, 56, 97, 51, 102, 57, 51, 51, 53]"
    unfolding hex16_def by (simp only: list.map) (simp add: hex_digit_def)
  ultimately show ?thesis
    unfolding observed_id_def discovered_printer_id_def sample_evidence sample_queue_id_def
    by (simp add: bytes hash) (simp add: lit_def)
qed

theorem removed_queue_stays_removed_witness:
  "\<exists>c'. catalog_remove sample_catalog_env 0 sample_queue_id sample_printer_catalog = (Ok (), c') \<and>
     pcat_resolver c' sample_queue_id = None \<and>
     merge_discovered (\<lambda>s. s) [sample_seen (lit ''Desk 2'') Offline] (pcat_state c') = pcat_state c'"
proof -
  obtain c' where run: "catalog_remove sample_catalog_env 0 sample_queue_id sample_printer_catalog = (Ok (), c')"
      "pcat_state c' = sample_emptied"
    using sample_removes by blast
  have get: "catalog_get sample_queue_id sample_printer_catalog = Ok sample_queue"
    by (simp add: catalog_get_def sample_printer_catalog_def sample_stored_catalog_def sample_queue_def)
  have kind: "connection_kind (cp_connection sample_queue) = KindSystemQueue" by (simp add: sample_queue_def)
  have lower: "cx_lower sample_catalog_env = (\<lambda>s. s)" by (simp add: sample_catalog_env_def)
  have same: "same_evidence (\<lambda>s. s) (sample_seen (lit ''q'') Online) (sample_seen (lit ''Desk 2'') Offline)"
    using sample_evidence by (simp add: same_evidence_def) (simp add: sample_seen_def)
  note stays = removed_queue_stays_removed [OF sample_catalog_reachable sample_catalog_serde get kind run(1) rtranclp.rtrancl_refl]
  have "merge_discovered (\<lambda>s. s) ([] @ sample_seen (lit ''Desk 2'') Offline # []) (pcat_state c') =
      merge_discovered (\<lambda>s. s) ([] @ []) (pcat_state c')"
    using stays same sample_queue_observed unfolding lower by blast
  moreover have "merge_discovered (\<lambda>s. s) [] (pcat_state c') = pcat_state c'"
    using run(2) by (simp add: merge_discovered_def sample_emptied_def)
  ultimately show ?thesis using stays run(1) by auto
qed

section \<open>Discovery\<close>

text \<open>C35: A discovery pass that is merged changes neither the identity and the kind of a printer nor its name, mode,
  profile, whether it is enabled, or its simulation; it keeps their order and only appends printers.
  Everything else a row shows, its address included, comes from the observations that belong to it, in
  their order: a row takes every observation that has its identifier, otherwise only observations
  that have no identifier of the catalogue and share its evidence, and never one of another row. Without
  such an observation it is as it was, but a system queue is then offline. A pass that is not stored leaves all rows alone.\<close>

theorem discovery_keeps_choices:
  assumes "catalog_reachable E (c, scans)" "catalog_serde E" "(names, d) \<in> set scans"
    and "refresh_finish E clock (names, d) c = (r, c')"
  shows "(\<exists>new. map configured (cat_printers (pcat_state c')) = map configured (cat_printers (pcat_state c)) @ new) \<and>
    (pcat_state c' = pcat_state c \<and> (\<exists>e. r = Err e) \<or>
     (\<forall>k < length (cat_printers (pcat_state c)).
       let p = cat_printers (pcat_state c) ! k; ids = set (map cp_id (cat_printers (pcat_state c))) in
       \<exists>taken. subseq taken (ds_printers d) \<and>
         observed_by (cx_lower E) ids taken (mark_system_offline p) (cat_printers (pcat_state c') ! k) \<and>
         cp_connection (cat_printers (pcat_state c') ! k) =
           (if taken = [] then cp_connection p else dp_connection (last taken)) \<and>
         filter (\<lambda>ob. observed_id (cx_lower E) ob = cp_id p) taken =
           filter (\<lambda>ob. observed_id (cx_lower E) ob = cp_id p) (ds_printers d)))"
proof (intro conjI)
  have ok: "catalog_ok E c" "list_all scanned_ok (ds_printers d)"
    using catalog_reachable_ok [OF assms(1,2)] assms(3) by (auto simp: world_ok_def)
  then have state: "state_ok (pcat_state c)" by (simp add: catalog_ok_def)
  let ?s = "merge_discovered (cx_lower E) (ds_printers d) (pcat_state c)"
  have outcome: "pcat_state c' = pcat_state c \<and> (\<exists>e. r = Err e) \<or> pcat_state c' = ?s"
    using refresh_finish_run [OF assms(4) ok] by (auto simp: Let_def dest!: written_state)
  then show "\<exists>new. map configured (cat_printers (pcat_state c')) = map configured (cat_printers (pcat_state c)) @ new"
    using merge_discovered_state [OF state ok(2), of "cx_lower E"] by auto
  have "let p = cat_printers (pcat_state c) ! k; ids = set (map cp_id (cat_printers (pcat_state c))) in
       \<exists>taken. subseq taken (ds_printers d) \<and>
         observed_by (cx_lower E) ids taken (mark_system_offline p) (cat_printers ?s ! k) \<and>
         cp_connection (cat_printers ?s ! k) = (if taken = [] then cp_connection p else dp_connection (last taken)) \<and>
         filter (\<lambda>ob. observed_id (cx_lower E) ob = cp_id p) taken =
           filter (\<lambda>ob. observed_id (cx_lower E) ob = cp_id p) (ds_printers d)"
    if k: "k < length (cat_printers (pcat_state c))" for k
  proof -
    obtain taken where taken: "subseq taken (ds_printers d)"
      "observed_by (cx_lower E) (set (map cp_id (cat_printers (pcat_state c)))) taken
         (mark_system_offline (cat_printers (pcat_state c) ! k)) (cat_printers ?s ! k)"
      "filter (\<lambda>ob. observed_id (cx_lower E) ob = cp_id (cat_printers (pcat_state c) ! k)) taken =
         filter (\<lambda>ob. observed_id (cx_lower E) ob = cp_id (cat_printers (pcat_state c) ! k)) (ds_printers d)"
      using merge_discovered_takes [OF state ok(2) k, of "cx_lower E"] unfolding takes_def mark_system_offline_row by blast
    with observed_by_address [OF taken(2)] show ?thesis unfolding Let_def mark_offline_address by blast
  qed
  then show "pcat_state c' = pcat_state c \<and> (\<exists>e. r = Err e) \<or>
     (\<forall>k < length (cat_printers (pcat_state c)).
       let p = cat_printers (pcat_state c) ! k; ids = set (map cp_id (cat_printers (pcat_state c))) in
       \<exists>taken. subseq taken (ds_printers d) \<and>
         observed_by (cx_lower E) ids taken (mark_system_offline p) (cat_printers (pcat_state c') ! k) \<and>
         cp_connection (cat_printers (pcat_state c') ! k) =
           (if taken = [] then cp_connection p else dp_connection (last taken)) \<and>
         filter (\<lambda>ob. observed_id (cx_lower E) ob = cp_id p) taken =
           filter (\<lambda>ob. observed_id (cx_lower E) ob = cp_id p) (ds_printers d))"
    using outcome by (elim disjE) simp_all
qed

theorem discovery_keeps_choices_witness:
  "\<forall>S. \<exists>new. map configured (cat_printers (pcat_state (snd (refresh_finish sample_catalog_env 0
     (refresh_scan sample_catalog_env S sample_printer_catalog) sample_printer_catalog)))) = configured sample_queue # new"
proof
  fix S
  let ?scan = "refresh_scan sample_catalog_env S sample_printer_catalog"
  have "catalog_reachable sample_catalog_env (sample_printer_catalog, [?scan])"
    by (rule catalog_reachable.stepped [OF sample_catalog_reachable catalog_step.scanning])
  moreover obtain names d where scan: "?scan = (names, d)" by (rule prod.exhaust)
  ultimately have reach: "catalog_reachable sample_catalog_env (sample_printer_catalog, [(names, d)])" by simp
  from discovery_keeps_choices [OF this sample_catalog_serde _ surjective_pairing, where clock = 0 and names = names and d = d]
  show "\<exists>new. map configured (cat_printers (pcat_state (snd (refresh_finish sample_catalog_env 0 ?scan
      sample_printer_catalog)))) = configured sample_queue # new"
    unfolding scan by (simp add: sample_printer_catalog_def sample_stored_catalog_def)
qed

text \<open>
  A pass merges into the catalogue as it is by then. The only virtual printer was removed meanwhile and is
  observed by the pass: it is added again, but its device is gone, so the catalogue cannot be listed.
\<close>

lemma collect_results_Err: "Inl e \<in> set rs \<Longrightarrow> \<exists>e. collect_results rs = Err e"
proof (induction rs)
  case (Cons r rs)
  then show ?case by (cases r) auto
qed simp

lemma stale_pass_readds:
  assumes "refresh_finish E clock (names, d) c = (r, c')" "catalog_ok E c" "ds_printers d = [ob]" "scanned_ok ob"
    and "cat_printers (pcat_state c) = []" "dp_id ob = Some i" "dp_connection ob = Virtual j"
    and "i \<notin> set (cat_suppressed (pcat_state c))" "pv_devices (pcat_devices c) i = None"
    and "ft_virtual_printer (pcat_features c)"
  shows "(\<exists>e. r = Err e) \<and> (pcat_state c' = pcat_state c \<or>
    map cp_id (cat_printers (pcat_state c')) = [i] \<and> (\<exists>e. catalog_list E c' = Err e))"
proof -
  let ?p = "newly_observed i ob"
  let ?s = "merge_discovered (cx_lower E) (ds_printers d) (pcat_state c)"
  have merged: "cat_printers ?s = [?p]" using assms(3,5-8)
    by (simp add: merge_discovered_def merge_observed_def observed_id_def matching_printer_index_def)
  have p: "cp_id ?p = i" "is_virtual ?p" "feature_allows_printer (pcat_features c) ?p" using assms(7,10)
    by (simp_all add: newly_observed_def Let_def is_virtual_def feature_allows_printer_def)
  have "\<exists>e. printer_summary (cx_projection E) (pcat_features c) (pcat_devices c) ?p = Inl e"
    using p(1,2) assms(9) by (simp add: printer_summary_def virtual_details_def device_policy_def device_lookup_def
        ebind_def)
  then have listed: "\<exists>e. catalog_list E c2 = Err e"
    if "pcat_state c2 = ?s" "pcat_devices c2 = pcat_devices c" "pcat_features c2 = pcat_features c" for c2
    using that merged p(3) by (auto simp: catalog_list_def is_active_def)
  show ?thesis using refresh_finish_run [OF assms(1,2)] assms(3,4) merged p(1) listed [of c']
    by (auto simp: Let_def written_def)
qed

section \<open>Migration\<close>

text \<open>C36: Migrating a stored catalogue loses nothing and completes it once. It keeps every entry of the catalogue but
  the printers and as many rows in the same order; of a row it keeps every entry but the reference and
  the capabilities, and of the reference every entry that is there. It puts in only what is missing:
  the mode of a row whose connection is known (driver for queues, raw otherwise), the profile of a
  virtual printer (the page for the driver, else the receipt of its stored width), and the
  capabilities of a queue that had no mode, whose own paper widths and other keys stay. Then every row is in the current
  form, a second migration changes nothing, and a catalogue in the current form is left as it is.\<close>

theorem migration_completes_once:
  "completes_catalog v (snd (migrate_legacy_printer_config v)) \<and>
   catalog_current (snd (migrate_legacy_printer_config v)) \<and>
   migrate_legacy_printer_config (snd (migrate_legacy_printer_config v)) = (False, snd (migrate_legacy_printer_config v)) \<and>
   (fst (migrate_legacy_printer_config v) \<longleftrightarrow> snd (migrate_legacy_printer_config v) \<noteq> v) \<and>
   (fst (migrate_legacy_printer_config v) \<longleftrightarrow> \<not> catalog_current v)"
proof -
  have "snd (migrate_legacy_printer_config v) = v" if "catalog_current v" using current_unchanged [OF that] by simp
  moreover have "catalog_current v" if "snd (migrate_legacy_printer_config v) = v" using migrated_current [of v] that by simp
  ultimately show ?thesis using migration_completes migrated_current migrate_current current_unchanged by blast
qed

section \<open>What the protocol can carry\<close>

lemma remdups_adj_sorted:
  assumes "inj f" "sorted (map f xs)"
  shows "distinct (remdups_adj xs)"
  using assms(2)
proof (induction xs rule: remdups_adj.induct)
  case (3 x y ys)
  show ?case
  proof (cases "x = y")
    case False
    have "x \<notin> set (y # ys)"
    proof
      assume "x \<in> set (y # ys)"
      then have "f y \<le> f x" "f x \<le> f y" using "3.prems" by auto
      with assms(1) False show "False" by (auto dest: injD)
    qed
    with 3 False show ?thesis by simp
  qed (use 3 in simp)
qed simp_all

lemma protocol_widths_valid: "distinct (protocol_widths ws) \<and> length (protocol_widths ws) \<le> 2"
proof -
  have "inj millimetres"
  proof (rule injI)
    fix a b assume "millimetres a = millimetres b"
    then show "a = b" by (cases a; cases b) simp_all
  qed
  then have dist: "distinct (protocol_widths ws)" unfolding protocol_widths_def
    by (rule remdups_adj_sorted) simp
  have "set (protocol_widths ws) \<subseteq> {Mm58, Mm80}" using ReceiptWidth.exhaust by auto
  then have "card (set (protocol_widths ws)) \<le> card {Mm58, Mm80}" by (intro card_mono) auto
  with dist show ?thesis by (simp add: distinct_card)
qed

lemma two_distinct: "distinct xs \<Longrightarrow> length xs = 2 \<longrightarrow> xs ! 0 \<noteq> xs ! Suc 0"
  by (auto simp: distinct_conv_nth)

lemma paper_sizes_valid:
  assumes "distinct ss"
  shows "length ss \<le> 4 \<and> distinct (map protocol_paper_size ss)"
proof -
  have "inj protocol_paper_size"
  proof (rule injI)
    fix a b assume "protocol_paper_size a = protocol_paper_size b"
    then show "a = b" by (cases a; cases b) simp_all
  qed
  moreover have "set ss \<subseteq> {PaperA4, PaperA5, PaperLetter, PaperLegal}" using StandardPaper.exhaust by auto
  then have "card (set ss) \<le> card {PaperA4, PaperA5, PaperLetter, PaperLegal}" by (intro card_mono) auto
  ultimately show ?thesis using assms by (simp add: distinct_card distinct_map inj_on_subset [OF _ subset_UNIV])
qed

lemma WireCapabilities_Ok:
  "WireCapabilities_validate w = Ok () \<longleftrightarrow>
     cap_media_widths w \<noteq> [] \<and> length (cap_media_widths w) \<le> 2 \<and>
     (length (cap_media_widths w) = 2 \<longrightarrow> cap_media_widths w ! 0 \<noteq> cap_media_widths w ! 1) \<and>
     (\<forall>formats. cap_document_formats w = Some formats \<longrightarrow> formats \<noteq> [] \<and> length formats \<le> 2 \<and>
       (length formats = 2 \<longrightarrow> formats ! 0 \<noteq> formats ! 1)) \<and>
     (\<forall>sizes. cap_paper_sizes w = Some sizes \<longrightarrow> length sizes \<le> 4 \<and> distinct sizes)"
proof -
  have scan: "(\<forall>x \<in> set (List.enumerate 0 sizes). (case x of (i, s) \<Rightarrow> s \<notin> set (take i sizes))) = distinct sizes"
    for sizes :: "StandardPaperSize list"
    using enumerate_distinct [of sizes] by (simp add: case_prod_beta)
  show ?thesis unfolding WireCapabilities_validate_def
    by (auto simp: first_err_Ok if_some_Ok case_prod_beta simp flip: scan)
qed

lemma protocol_capabilities_valid:
  assumes "protocol_capabilities pc mode = Some w" "\<forall>pdf. pc_pdf pc = Some pdf \<longrightarrow> distinct (pdf_paper_sizes pdf)"
  shows "WireCapabilities_validate w = Ok ()"
proof -
  let ?ws = "protocol_widths (pc_receipt_widths_mm pc)"
  have shape: "cap_media_widths w = ?ws" "?ws \<noteq> []"
      "cap_document_formats w = Some (protocol_document_formats pc)"
      "cap_paper_sizes w = None \<or> (\<exists>pdf. pc_pdf pc = Some pdf \<and>
         cap_paper_sizes w = Some (map protocol_paper_size (pdf_paper_sizes pdf)))"
    using assms(1) by (auto simp: protocol_capabilities_def Let_def split: if_splits option.splits)
  have "length sizes \<le> 4 \<and> distinct sizes" if "cap_paper_sizes w = Some sizes" for sizes
    using shape(4) that assms(2) paper_sizes_valid by auto
  then show ?thesis using shape protocol_widths_valid two_distinct [of ?ws]
    by (auto simp: WireCapabilities_Ok protocol_document_formats_def)
qed

section \<open>Descriptors\<close>

lemma wire_string_ok: "s \<noteq> [] \<Longrightarrow> byte_len s \<le> n \<Longrightarrow> 1 \<le> utf16_count s \<and> utf16_count s \<le> n"
  using utf16_count_le_byte_len [of s] by (cases s) (auto simp: utf16_len_def)

lemma descriptor_parts:
  assumes "protocol_descriptor lower p = Ok d"
  shows "pd_id d = cp_id p \<and> pd_name d = pr_display_name (cp_reference p) \<and>
    kind_matches_connection (pd_kind d) (pd_connection d) \<and>
    (PrinterConnection_validate (cp_connection p) = Ok () \<longrightarrow> WireConnection_validate (pd_connection d) = Ok ()) \<and>
    pd_capabilities d = Option.bind (cp_capabilities p)
      (\<lambda>pc. protocol_capabilities pc (pr_submission_mode (cp_reference p)))"
proof -
  show ?thesis using assms wire_string_ok
    by (cases "cp_connection p")
       (auto simp: protocol_descriptor_def protocol_connection_def and_then_Ok PrinterConnection_validate_def
        WireConnection_validate_def first_err_Ok validate_text_Ok validate_string_Ok MAX_PRINTER_NAME_BYTES_def)
qed

text \<open>C37: A printer of the catalogue is advertised with a valid descriptor exactly when its identifier is one of
  the protocol's and its fingerprint has between 1 and 256 UTF-16 units; nothing bounds the fingerprint,
  which is the first identity key.\<close>

theorem descriptor_valid_iff:
  assumes "catalog_reachable E (c, scans)" "catalog_serde E" "p \<in> set (cat_printers (pcat_state c))"
    and "protocol_descriptor lower p = Ok d"
    and "\<forall>pc pdf. cp_capabilities p = Some pc \<longrightarrow> pc_pdf pc = Some pdf \<longrightarrow> distinct (pdf_paper_sizes pdf)"
  shows "PrinterDescriptor_validate d = Ok () \<longleftrightarrow>
    validate_identifier (cp_id p) (lit ''id'') 128 = Ok () \<and>
    1 \<le> utf16_count (pd_fingerprint d) \<and> utf16_count (pd_fingerprint d) \<le> 256"
proof -
  have "row_ok p" using catalog_reachable_ok [OF assms(1,2)] assms(3) by (auto simp: world_ok_def catalog_ok_def state_ok_def list_all_iff)
  then have "PrinterConnection_validate (cp_connection p) = Ok ()" and
      name: "pr_display_name (cp_reference p) \<noteq> []" "byte_len (pr_display_name (cp_reference p)) \<le> 256"
    by (auto simp: row_ok_def Let_def PrinterRef_validate_Ok)
  then have parts: "pd_id d = cp_id p" "pd_name d = pr_display_name (cp_reference p)"
      "kind_matches_connection (pd_kind d) (pd_connection d)" "WireConnection_validate (pd_connection d) = Ok ()"
      "pd_capabilities d = Option.bind (cp_capabilities p) (\<lambda>pc. protocol_capabilities pc (pr_submission_mode (cp_reference p)))"
    using descriptor_parts [OF assms(4)] by blast+
  have "1 \<le> utf16_count (pd_name d) \<and> utf16_count (pd_name d) \<le> 256"
    using wire_string_ok name parts(2) by simp
  moreover have "WireCapabilities_validate w = Ok ()" if "pd_capabilities d = Some w" for w
    using that parts(5) assms(5) protocol_capabilities_valid by (cases "cp_capabilities p") auto
  ultimately show ?thesis using parts(1,3,4)
    by (auto simp: PrinterDescriptor_validate_def first_err_Ok if_some_Ok validate_string_Ok)
qed

theorem descriptor_valid_iff_witness:
  "\<exists>d. protocol_descriptor (\<lambda>s. s) sample_queue = Ok d \<and> PrinterDescriptor_validate d = Ok ()"
proof -
  obtain d where d: "protocol_descriptor (\<lambda>s. s) sample_queue = Ok d" "pd_fingerprint d = lit ''queue:q''"
    by (simp add: protocol_descriptor_def sample_queue_def protocol_connection_def evidence_text_def identity_keys_def normalized_def
        PrinterFingerprint_default_def lit_def trim_def trim_start_def trim_end_def is_whitespace_def)
  have "sample_queue \<in> set (cat_printers (pcat_state sample_printer_catalog))" "cp_capabilities sample_queue = None"
    by (simp_all add: sample_printer_catalog_def sample_stored_catalog_def sample_queue_def)
  moreover have "validate_identifier (cp_id sample_queue) (lit ''id'') 128 = Ok ()"
    by (simp add: sample_queue_def sample_queue_id_def first_err_Ok lit_def is_ascii_alnum_def is_identifier_char_def is_ascii_digit_def is_ascii_upper_def is_ascii_lower_def
        utf16_len_def)
  moreover have "1 \<le> utf16_count (lit ''queue:q'') \<and> utf16_count (lit ''queue:q'') \<le> 256"
    by (simp add: lit_def utf16_len_def)
  ultimately show ?thesis
    using descriptor_valid_iff [OF sample_catalog_reachable sample_catalog_serde _ d(1)] d by auto
qed

end
