(* ===== verification/Server_Configuration.thy ===== *)
theory Server_Configuration
  imports Agent_Auth Job_Ledger Wire_Codec
begin

text \<open>
  The server the desktop application is configured for
  (\<open>apps/oppa/src-tauri/src/server_configuration.rs\<close>): the base URL with its validation, the
  identity saved after pairing, and what is taken over from the configuration of earlier releases.
\<close>

section \<open>Settings\<close>

definition SERVER_CONFIGURATION_SETTING :: ustring where
  "SERVER_CONFIGURATION_SETTING = lit ''openprinter-server-configuration-v2''"

definition LEGACY_SERVER_CONFIGURATION_SETTING :: ustring where
  "LEGACY_SERVER_CONFIGURATION_SETTING = lit ''openprinter-server-configuration-v1''"

definition CONNECTION_SETTING :: ustring where
  "CONNECTION_SETTING = lit ''openprinter-connection-v1''"

definition RECENT_SERVERS_SETTING :: ustring where
  "RECENT_SERVERS_SETTING = lit ''recent-servers-v1''"

definition DEFAULT_SERVER_URL :: ustring where
  "DEFAULT_SERVER_URL = lit ''http://127.0.0.1:8787/''"

record OpenPrinterServerConfiguration =
  osc_server_url :: Url

text \<open>The built-in URL parses; the \<open>expect\<close> of the code is \<open>projr\<close>.\<close>

definition ServerConfiguration_default :: "url_lib \<Rightarrow> OpenPrinterServerConfiguration" where
  "ServerConfiguration_default L = \<lparr>osc_server_url = projr (url_parse L DEFAULT_SERVER_URL)\<rparr>"

definition invalid_configuration :: "ustring \<Rightarrow> CommandError" where
  "invalid_configuration m = CommandError_new (lit ''invalid_server_configuration'') m"

definition ServerConfiguration_from_input ::
  "url_lib \<Rightarrow> ustring \<Rightarrow> CommandError + OpenPrinterServerConfiguration" where
  "ServerConfiguration_from_input L server_url =
     and_then (map_err (\<lambda>e. invalid_configuration (AuthError_to_string e)) (normalize_server_url L server_url))
       (\<lambda>u. Ok \<lparr>osc_server_url = u\<rparr>)"

definition ServerConfiguration_validate ::
  "url_lib \<Rightarrow> OpenPrinterServerConfiguration \<Rightarrow> CommandError + unit" where
  "ServerConfiguration_validate L c =
     and_then (map_err (\<lambda>e. invalid_configuration (AuthError_to_string e))
       (normalize_server_url L (u_as_str (osc_server_url c)))) (\<lambda>_. Ok ())"

record OpenPrinterConnection =
  oc_server_url :: Url
  oc_server_id :: ustring
  oc_agent_id :: ustring
  oc_key_id :: ustring
  oc_credential_ref :: ustring

section \<open>Earlier configurations\<close>

record LegacyConfigurationMigration =
  lm_suggested :: "OpenPrinterServerConfiguration option"
  lm_requires_pairing :: bool

text \<open>\<open>port\<close> is the accessor \<open>Url::port\<close>: the port of a URL unless it is the one of its scheme.\<close>

definition normalized_origin :: "(Url \<Rightarrow> 16 word option) \<Rightarrow> Url \<Rightarrow> ustring option" where
  "normalized_origin port u =
     Option.bind (if u_scheme u \<in> {lit ''http'', lit ''ws''} then Some (lit ''http'')
         else if u_scheme u \<in> {lit ''https'', lit ''wss''} then Some (lit ''https'') else None) (\<lambda>scheme.
     Option.bind (u_host_str u) (\<lambda>host.
     Some (case port u of
         Some p \<Rightarrow> scheme @ lit ''://'' @ host @ lit '':'' @ dec (unat p) @ lit ''/''
       | None \<Rightarrow> scheme @ lit ''://'' @ host @ lit ''/'')))"

fun ok_value :: "'e + 'a \<Rightarrow> 'a option" where
  "ok_value (Inr a) = Some a"
| "ok_value (Inl _) = None"

definition legacy_url :: "url_lib \<Rightarrow> Value \<Rightarrow> string \<Rightarrow> Url option" where
  "legacy_url L v key = Option.bind (value_get v (lit key)) (\<lambda>w.
     Option.bind (as_str w) (\<lambda>s. ok_value (url_parse L s)))"

text \<open>A shared origin that is not accepted as a server URL ends the migration, not the suggestion only.\<close>

definition migrate_legacy_configuration ::
  "url_lib \<Rightarrow> (Url \<Rightarrow> 16 word option) \<Rightarrow> Value \<Rightarrow> LegacyConfigurationMigration option" where
  "migrate_legacy_configuration L port v =
     Option.bind (as_object v) (\<lambda>_.
     Option.bind (legacy_url L v ''authorizationUrl'') (\<lambda>authorization.
     Option.bind (legacy_url L v ''tokenUrl'') (\<lambda>token.
     Option.bind (legacy_url L v ''gatewayUrl'') (\<lambda>gateway.
     Option.bind (normalized_origin port authorization) (\<lambda>authorization_origin.
     Option.bind (normalized_origin port token) (\<lambda>token_origin.
     Option.bind (normalized_origin port gateway) (\<lambda>gateway_origin.
     Option.bind (if authorization_origin = token_origin \<and> token_origin = gateway_origin
         then map_option (\<lambda>u. Some \<lparr>osc_server_url = u\<rparr>) (ok_value (normalize_server_url L authorization_origin))
         else Some None) (\<lambda>suggested.
     Some \<lparr>lm_suggested = suggested, lm_requires_pairing = True\<rparr>))))))))"

section \<open>Facts\<close>

lemma from_input_secure:
  assumes "ServerConfiguration_from_input L s = Ok c"
  shows "\<exists>u. url_parse L s = Ok u \<and> validate_server_url u = Ok ()"
  using assms by (auto simp: ServerConfiguration_from_input_def normalize_server_url_def and_then_Ok)

text \<open>A configuration is suggested only when the three endpoints name one origin, whose normal form it is.\<close>

lemma migrate_suggested:
  assumes "migrate_legacy_configuration L port v = Some m" "lm_suggested m = Some c"
  shows "\<exists>authorization token gateway origin.
    legacy_url L v ''authorizationUrl'' = Some authorization \<and> legacy_url L v ''tokenUrl'' = Some token \<and>
    legacy_url L v ''gatewayUrl'' = Some gateway \<and> normalized_origin port authorization = Some origin \<and>
    normalized_origin port token = Some origin \<and> normalized_origin port gateway = Some origin \<and>
    normalize_server_url L origin = Ok (osc_server_url c) \<and> lm_requires_pairing m"
  using assms by (auto simp: migrate_legacy_configuration_def bind_eq_Some_conv split: if_splits)
    (auto elim: ok_value.elims)

end
