(* ===== verification/Desktop_Service.thy ===== *)
theory Desktop_Service
  imports Server_Configuration Catalog_Refresh Agent_Runtime Document_Fetch Transport
begin

text \<open>
  The desktop host (\<open>apps/oppa/src-tauri\<close>: \<open>service.rs\<close> and the connection part of \<open>models.rs\<close>): one
  state around the agent, the printer catalogue, the job history, the credential store and the
  connection, with the operations the front end calls. They share one repository, the agent's.
  Operations that change the configured or paired server hold a lock from their first to their last
  statement, so each is one step. Events that only tell the front end to read again are left out.
\<close>

section \<open>State\<close>

datatype OpenPrinterConnectionState =
  PhaseIdle | PhaseDiscovering | PhaseDiscoveryFailed | PhaseUnpaired | PhasePairing | PhasePaired
| PhaseConnecting | PhaseAuthenticating | PhaseConnected | PhaseAuthenticationFailed | PhaseCredentialRevoked

datatype ConnectionControl = ControlReconnect | ControlConfigurationChanged | ControlPublishInventory | ControlShutdown

record ConnectedServiceSummary =
  cs_name :: ustring
  cs_server_id :: ustring
  cs_server_version :: ustring
  cs_gateway_url :: ustring

record DiscoveredServiceSummary =
  dsv_name :: ustring
  dsv_server_id :: ustring
  dsv_server_version :: ustring
  dsv_pairing_url :: ustring
  dsv_gateway_url :: ustring

record RecentServer =
  rs_server_url :: ustring
  rs_name :: "ustring option"
  rs_paired_at :: ustring

record DocumentIdentity =
  did_agent_id :: ustring
  did_credential_ref :: ustring

text \<open>
  \<open>sv_controls\<close> are the commands in the channel to the connection supervisor, \<open>sv_supervised\<close> whether
  the supervisor still holds its receiver. The log is the one of the catalogue.
\<close>

record 's Service =
  sv_agent :: Agent
  sv_secrets :: 's
  sv_catalog :: PrinterCatalog
  sv_jobs :: "JobSummary list"
  sv_last_connection_at :: "ustring option"
  sv_agent_id :: "ustring option"
  sv_configuration :: OpenPrinterServerConfiguration
  sv_connection :: "OpenPrinterConnection option"
  sv_identity :: "DocumentIdentity option"
  sv_phase :: OpenPrinterConnectionState
  sv_connected :: "ConnectedServiceSummary option"
  sv_generation :: "64 word"
  sv_controls :: "ConnectionControl list"
  sv_supervised :: bool
  sv_shutdown :: bool

text \<open>
  The environment: URLs, HTTP, cryptography, the credential store, Serde's conversions of the
  settings, the environments of catalogue, history and agent, texts, and what the build embeds.
\<close>

record ('doc, 's) service_env =
  dx_urls :: url_lib
  dx_port :: "Url \<Rightarrow> 16 word option"
  dx_http :: http_client
  dx_crypto :: crypto
  dx_secrets :: "'s secret_ops"
  dx_config_to_value :: "OpenPrinterServerConfiguration \<Rightarrow> ustring + Value"
  dx_config_from_value :: "Value \<Rightarrow> OpenPrinterServerConfiguration option"
  dx_connection_to_value :: "OpenPrinterConnection \<Rightarrow> ustring + Value"
  dx_connection_from_value :: "Value \<Rightarrow> OpenPrinterConnection option"
  dx_servers_to_value :: "RecentServer list \<Rightarrow> ustring + Value"
  dx_servers_from_value :: "Value \<Rightarrow> RecentServer list option"
  dx_catalog :: catalog_env
  dx_ledger :: "Value ledger_env"
  dx_agent :: "(Value, 'doc) renv"
  dx_base64_decode :: "ustring \<Rightarrow> nat list option"
  dx_transport_text :: "TransportError \<Rightarrow> ustring"
  dx_runtime_text :: "AgentRuntimeError \<Rightarrow> ustring"
  dx_product :: ProductConfig
  dx_version :: ustring
  dx_os :: ustring

type_synonym ('s, 'a) service_op = "('s Service, CommandError, 'a) eff"

section \<open>Parts of the state\<close>

abbreviation sv_db :: "'s Service \<Rightarrow> SqliteStorage" where
  "sv_db s \<equiv> proc_db (ag_proc (sv_agent s))"

abbreviation sv_handle :: "'s Service \<Rightarrow> AgentHandle" where
  "sv_handle s \<equiv> proc_handle (ag_proc (sv_agent s))"

abbreviation sv_state :: "'s Service \<Rightarrow> AgentState" where
  "sv_state s \<equiv> snap_state (snapshot (sv_handle s))"

definition with_db :: "SqliteStorage \<Rightarrow> 's Service \<Rightarrow> 's Service" where
  "with_db db s = s\<lparr>sv_agent := (sv_agent s)\<lparr>ag_proc := (ag_proc (sv_agent s))\<lparr>proc_db := db\<rparr>\<rparr>\<rparr>"

definition with_handle :: "(AgentHandle \<Rightarrow> AgentHandle) \<Rightarrow> 's Service \<Rightarrow> 's Service" where
  "with_handle f s = s\<lparr>sv_agent := (sv_agent s)\<lparr>ag_proc := (ag_proc (sv_agent s))\<lparr>
     proc_handle := f (sv_handle s)\<rparr>\<rparr>\<rparr>"

definition on_catalog :: "(PrinterCatalog, 'e, 'a) eff \<Rightarrow> ('s Service, 'e, 'a) eff" where
  "on_catalog m s = (case m ((sv_catalog s)\<lparr>pcat_storage := sv_db s\<rparr>) of
     (r, c) \<Rightarrow> (r, with_db (pcat_storage c) (s\<lparr>sv_catalog := c\<rparr>)))"

definition on_jobs :: "(JobLedger, 'e, 'a) eff \<Rightarrow> ('s Service, 'e, 'a) eff" where
  "on_jobs m s = (case m \<lparr>lg_storage = sv_db s, lg_jobs = sv_jobs s\<rparr> of
     (r, g) \<Rightarrow> (r, with_db (lg_storage g) (s\<lparr>sv_jobs := lg_jobs g\<rparr>)))"

definition on_secrets :: "('s, 'e, 'a) eff \<Rightarrow> ('s Service, 'e, 'a) eff" where
  "on_secrets m s = (case m (sv_secrets s) of (r, k) \<Rightarrow> (r, s\<lparr>sv_secrets := k\<rparr>))"

definition on_agent :: "(Agent, 'e, 'a) eff \<Rightarrow> ('s Service, 'e, 'a) eff" where
  "on_agent m s = (case m (sv_agent s) of (r, a) \<Rightarrow> (r, s\<lparr>sv_agent := a\<rparr>))"

definition get_setting :: "('doc, 's) service_env \<Rightarrow> ustring \<Rightarrow> ('s Service, StorageError, Value option) eff" where
  "get_setting E key s = (get_metadata (cx_storage (dx_catalog E)) Settings key (sv_db s), s)"

definition set_setting ::
  "('doc, 's) service_env \<Rightarrow> Timestamp \<Rightarrow> ustring \<Rightarrow> Value \<Rightarrow> ('s Service, StorageError, unit) eff" where
  "set_setting E clock key v s =
     (case set_metadata (cx_storage (dx_catalog E)) Settings key v clock (sv_db s) of
        Inl e \<Rightarrow> (Err e, s) | Inr (_, db) \<Rightarrow> (Ok (), with_db db s))"

abbreviation storage_text :: "('doc, 's) service_env \<Rightarrow> StorageError \<Rightarrow> ustring" where
  "storage_text E \<equiv> cx_storage_text (dx_catalog E)"

definition service_log ::
  "('doc, 's) service_env \<Rightarrow> Timestamp \<Rightarrow> DiagnosticLevel \<Rightarrow> ustring \<Rightarrow> ustring \<Rightarrow> 's Service \<Rightarrow> 's Service" where
  "service_log E clock level target message s = s\<lparr>sv_catalog := (sv_catalog s)\<lparr>pcat_log :=
     log_push (cx_rfc3339 (dx_catalog E) clock) level target message (pcat_log (sv_catalog s))\<rparr>\<rparr>"

text \<open>
  The channel holds eight commands. \<open>send\<close> waits for room, so it fails only without a receiver;
  \<open>try_send\<close> drops the command when the channel is full.
\<close>

definition CONTROL_CAPACITY :: nat where "CONTROL_CAPACITY = 8"

definition send_control :: "ConnectionControl \<Rightarrow> ('s Service, unit, unit) eff" where
  "send_control c s = (if sv_supervised s then (Ok (), s\<lparr>sv_controls := sv_controls s @ [c]\<rparr>) else (Err (), s))"

definition publish_inventory :: "'s Service \<Rightarrow> 's Service" where
  "publish_inventory s = (if sv_supervised s \<and> length (sv_controls s) < CONTROL_CAPACITY
     then s\<lparr>sv_controls := sv_controls s @ [ControlPublishInventory]\<rparr> else s)"

definition bump_generation :: "'s Service \<Rightarrow> 's Service" where
  "bump_generation s = s\<lparr>sv_generation := sv_generation s + 1\<rparr>"

section \<open>The observable state\<close>

text \<open>\<open>let _ = handle.transition(..)\<close>.\<close>

definition try_transition :: "AgentState \<Rightarrow> 's Service \<Rightarrow> 's Service" where
  "try_transition state = with_handle (\<lambda>h. case agent_transition state h of Inl _ \<Rightarrow> h | Inr h' \<Rightarrow> h')"

fun agent_state_name :: "AgentState \<Rightarrow> ustring" where
  "agent_state_name Unconfigured = lit ''Unconfigured''"
| "agent_state_name Pairing = lit ''Pairing''"
| "agent_state_name AgentState.Disconnected = lit ''Disconnected''"
| "agent_state_name AgentState.Connecting = lit ''Connecting''"
| "agent_state_name AgentState.Connected = lit ''Connected''"
| "agent_state_name Degraded = lit ''Degraded''"
| "agent_state_name ShuttingDown = lit ''ShuttingDown''"

fun agent_error_text :: "AgentError \<Rightarrow> ustring" where
  "agent_error_text (InvalidAgentTransition from to) =
     lit ''invalid agent transition from '' @ agent_state_name from @ lit '' to '' @ agent_state_name to"

definition service_transition ::
  "('doc, 's) service_env \<Rightarrow> Timestamp \<Rightarrow> AgentState \<Rightarrow> 's Service \<Rightarrow> 's Service" where
  "service_transition E clock state s = (case agent_transition state (sv_handle s) of
     Inl e \<Rightarrow> service_log E clock LevelWarn (lit ''agent'') (agent_error_text e) s
   | Inr h \<Rightarrow> with_handle (\<lambda>_. h) s)"

definition require_transition :: "AgentState \<Rightarrow> ('s, unit) service_op" where
  "require_transition state s = (case agent_transition state (sv_handle s) of
     Inl e \<Rightarrow> (Err (command_internal (agent_error_text e)), s)
   | Inr h \<Rightarrow> (Ok (), with_handle (\<lambda>_. h) s))"

definition set_phase :: "OpenPrinterConnectionState \<Rightarrow> 's Service \<Rightarrow> 's Service" where
  "set_phase p s = s\<lparr>sv_phase := p\<rparr>"

definition set_errors :: "ustring list \<Rightarrow> 's Service \<Rightarrow> 's Service" where
  "set_errors errors = with_handle (set_active_errors errors)"

definition set_connection_error ::
  "('doc, 's) service_env \<Rightarrow> Timestamp \<Rightarrow> ustring \<Rightarrow> 's Service \<Rightarrow> 's Service" where
  "set_connection_error E clock message s =
     (let m = sanitize message in service_log E clock LevelWarn (lit ''transport'') m (set_errors [m] s))"

definition leave_connected :: "'s Service \<Rightarrow> 's Service" where
  "leave_connected s =
     (if sv_state s \<in> {AgentState.Connecting, AgentState.Connected, Degraded}
      then try_transition AgentState.Disconnected s else s)"

definition authentication_failed ::
  "('doc, 's) service_env \<Rightarrow> Timestamp \<Rightarrow> ustring \<Rightarrow> bool \<Rightarrow> 's Service \<Rightarrow> 's Service" where
  "authentication_failed E clock message revoked s =
     (let m = sanitize message;
          s1 = set_phase (if revoked then PhaseCredentialRevoked else PhaseAuthenticationFailed) (leave_connected s) in
      service_log E clock LevelError (lit ''authentication'') m (set_errors [m] s1))"

definition force_unconfigured_with_errors :: "ustring list \<Rightarrow> 's Service \<Rightarrow> 's Service" where
  "force_unconfigured_with_errors errors s =
     (let s1 = leave_connected (s\<lparr>sv_agent_id := None, sv_connected := None\<rparr>);
          s2 = (if sv_state s1 \<noteq> Unconfigured then try_transition Unconfigured s1 else s1) in
      set_errors errors s2)"

definition force_unconfigured :: "ustring \<Rightarrow> 's Service \<Rightarrow> 's Service" where
  "force_unconfigured message = force_unconfigured_with_errors [sanitize message]"

section \<open>Discovery and pairing\<close>

definition discovered_summary :: "DiscoveredServer \<Rightarrow> DiscoveredServiceSummary" where
  "discovered_summary d = \<lparr>dsv_name = ds_name (dd_server (dv_document d)), dsv_server_id = ds_id (dd_server (dv_document d)),
     dsv_server_version = ds_version (dd_server (dv_document d)), dsv_pairing_url = u_as_str (dv_pairing_url d),
     dsv_gateway_url = u_as_str (dv_gateway_url d)\<rparr>"

definition discover_configured :: "('doc, 's) service_env \<Rightarrow> 's Service \<Rightarrow> AuthError + DiscoveredServer" where
  "discover_configured E s = discover (dx_urls E) (dx_http E) (osc_server_url (sv_configuration s))"

definition service_discover ::
  "('doc, 's) service_env \<Rightarrow> Timestamp \<Rightarrow> ('s, DiscoveredServiceSummary) service_op" where
  "service_discover E clock =
     ebind (emodify (set_phase PhaseDiscovering)) (\<lambda>_ s. case discover_configured E s of
       Inr d \<Rightarrow> (Ok (discovered_summary d),
         set_phase (if sv_connection s \<noteq> None then PhasePaired else PhaseUnpaired) s)
     | Inl e \<Rightarrow> (Err (CommandError_new (lit ''discovery_failed'') (AuthError_to_string e)),
         set_connection_error E clock (AuthError_to_string e) (set_phase PhaseDiscoveryFailed s)))"

definition recent_servers :: "('doc, 's) service_env \<Rightarrow> Value option \<Rightarrow> RecentServer list" where
  "recent_servers E stored = (case Option.bind stored (dx_servers_from_value E) of Some rs \<Rightarrow> rs | None \<Rightarrow> [])"

definition MAX_RECENT_SERVERS :: nat where "MAX_RECENT_SERVERS = 10"

definition remember_server :: "RecentServer \<Rightarrow> RecentServer list \<Rightarrow> RecentServer list" where
  "remember_server r rs = take MAX_RECENT_SERVERS (r # filter (\<lambda>x. rs_server_url x \<noteq> rs_server_url r) rs)"

text \<open>Best effort: what cannot be read is an empty list, what cannot be written is dropped.\<close>

definition save_recent_server ::
  "('doc, 's) service_env \<Rightarrow> Timestamp \<Rightarrow> ustring \<Rightarrow> ustring option \<Rightarrow> 's Service \<Rightarrow> 's Service" where
  "save_recent_server E clock server_url name s =
     (let stored = (case fst (get_setting E RECENT_SERVERS_SETTING s) of Inr v \<Rightarrow> v | Inl _ \<Rightarrow> None);
          servers = remember_server \<lparr>rs_server_url = server_url, rs_name = name,
            rs_paired_at = cx_rfc3339 (dx_catalog E) clock\<rparr> (recent_servers E stored) in
      case dx_servers_to_value E servers of
        Inr v \<Rightarrow> snd (set_setting E clock RECENT_SERVERS_SETTING v s)
      | Inl _ \<Rightarrow> s)"

definition list_recent_servers :: "('doc, 's) service_env \<Rightarrow> ('s, RecentServer list) service_op" where
  "list_recent_servers E =
     ebind (emap_err (\<lambda>e. command_internal (storage_text E e)) (get_setting E RECENT_SERVERS_SETTING))
       (\<lambda>stored. eret (recent_servers E stored))"

definition delete_recent_server ::
  "('doc, 's) service_env \<Rightarrow> Timestamp \<Rightarrow> ustring \<Rightarrow> ('s, unit) service_op" where
  "delete_recent_server E clock server_url =
     ebind (list_recent_servers E) (\<lambda>servers.
     let left = filter (\<lambda>r. rs_server_url r \<noteq> server_url) servers in
     if length left = length servers then eret ()
     else ebind (elift (map_err command_internal (dx_servers_to_value E left))) (\<lambda>v.
       emap_err (\<lambda>e. command_internal (storage_text E e)) (set_setting E clock RECENT_SERVERS_SETTING v)))"

definition fetch_server_name :: "('doc, 's) service_env \<Rightarrow> ustring \<Rightarrow> ustring option" where
  "fetch_server_name E server_url = Option.bind (ok_value (url_parse (dx_urls E) server_url)) (\<lambda>u.
     map_option (\<lambda>d. ds_name (dd_server (dv_document d))) (ok_value (discover (dx_urls E) (dx_http E) u)))"

definition pairing_request ::
  "('doc, 's) service_env \<Rightarrow> nat \<Rightarrow> ustring \<Rightarrow> ustring \<Rightarrow> GeneratedCredential \<Rightarrow> PairingRequest" where
  "pairing_request E n pairing_code agent_name g = \<lparr>pq_protocol_version = PROTOCOL_VERSION, pq_code = pairing_code,
     pq_agent = \<lparr>pa_name = agent_name, pa_version = dx_version E, pa_platform = dx_os E,
       pa_installation_id = lit ''installation_'' @ cr_uuid (dx_crypto E) (Suc n)\<rparr>,
     pq_credential = \<lparr>pc_algorithm = SIGNATURE_ALGORITHM, pc_public_key = gk_public_key g\<rparr>\<rparr>"

definition pairing_aborted :: "OpenPrinterConnectionState \<Rightarrow> CommandError \<Rightarrow> ('s, 'a) service_op" where
  "pairing_aborted phase e s = (Err e, set_phase phase (try_transition Unconfigured s))"

definition key_delete_quietly :: "('doc, 's) service_env \<Rightarrow> ustring \<Rightarrow> ('s Service, 'e, bool) eff" where
  "key_delete_quietly E credential_ref =
     ecase (on_secrets (key_delete (dx_secrets E) credential_ref)) (\<lambda>r. eret (is_ok r))"

definition paired_connection :: "Url \<Rightarrow> PairingResponse \<Rightarrow> GeneratedCredential \<Rightarrow> OpenPrinterConnection" where
  "paired_connection server_url response g = \<lparr>oc_server_url = server_url, oc_server_id = pr_server_id response,
     oc_agent_id = pr_agent_id response, oc_key_id = pr_key_id response, oc_credential_ref = gk_credential_ref g\<rparr>"

definition identity_of :: "OpenPrinterConnection \<Rightarrow> DocumentIdentity" where
  "identity_of c = \<lparr>did_agent_id = oc_agent_id c, did_credential_ref = oc_credential_ref c\<rparr>"

text \<open>From the stored connection to the end of the pairing.\<close>

definition adopt_connection ::
  "('doc, 's) service_env \<Rightarrow> Timestamp \<Rightarrow> DiscoveredServer \<Rightarrow> OpenPrinterConnection \<Rightarrow>
     ('s, DiscoveredServiceSummary) service_op" where
  "adopt_connection E clock d c =
     ebind (emodify (\<lambda>s. set_errors [] (s\<lparr>sv_agent_id := Some (oc_agent_id c), sv_identity := Some (identity_of c),
       sv_connection := Some c, sv_phase := PhasePaired\<rparr>))) (\<lambda>_.
     ebind (require_transition AgentState.Disconnected) (\<lambda>_.
     ebind (ecase (send_control ControlReconnect) (\<lambda>_. eret ())) (\<lambda>_.
     ebind (emodify (save_recent_server E clock (u_as_str (oc_server_url c))
       (Some (ds_name (dd_server (dv_document d)))))) (\<lambda>_.
     ebind (emodify (service_log E clock LevelInfo (lit ''authentication'') (lit ''OpenPrinter pairing completed.''))) (\<lambda>_.
     eret (discovered_summary d))))))"

definition store_pairing ::
  "('doc, 's) service_env \<Rightarrow> Timestamp \<Rightarrow> DiscoveredServer \<Rightarrow> OpenPrinterConnection \<Rightarrow>
     ('s, DiscoveredServiceSummary) service_op" where
  "store_pairing E clock d c =
     ebind (elift (map_err command_internal (dx_connection_to_value E c))) (\<lambda>v.
     ecase (set_setting E clock CONNECTION_SETTING v) (\<lambda>r. case r of
       Inr _ \<Rightarrow> adopt_connection E clock d c
     | Inl e \<Rightarrow> ebind (key_delete_quietly E (oc_credential_ref c)) (\<lambda>cleaned.
         pairing_aborted PhaseUnpaired (CommandError_new (lit ''connection_store_failed'')
           (lit ''Paired credential metadata could not be saved: '' @ storage_text E e @ lit ''. '' @
            (if cleaned then lit ''The newly generated local key was deleted safely.''
             else lit ''Local key cleanup also failed and requires credential-store attention.''))))))"

definition pair_with ::
  "('doc, 's) service_env \<Rightarrow> Timestamp \<Rightarrow> nat \<Rightarrow> ustring \<Rightarrow> ustring \<Rightarrow> DiscoveredServer \<Rightarrow> Url \<Rightarrow>
     ('s, DiscoveredServiceSummary) service_op" where
  "pair_with E clock n pairing_code agent_name d server_url =
     ecase (on_secrets (key_generate (dx_crypto E) (dx_secrets E) n (ds_id (dd_server (dv_document d))))) (\<lambda>r. case r of
       Inl e \<Rightarrow> pairing_aborted PhaseUnpaired
         (CommandError_new (lit ''credential_generation_failed'') (AuthError_to_string e))
     | Inr g \<Rightarrow>
         (case pair (cr_base64 (dx_crypto E)) (dx_http E) d (pairing_request E n pairing_code agent_name g) of
            Inl e \<Rightarrow> ebind (key_delete_quietly E (gk_credential_ref g)) (\<lambda>_. pairing_aborted PhaseUnpaired
              (CommandError_new (lit ''pairing_failed'') (AuthError_to_string e)))
          | Inr response \<Rightarrow> store_pairing E clock d (paired_connection server_url response g)))"

definition pair_server ::
  "('doc, 's) service_env \<Rightarrow> Timestamp \<Rightarrow> nat \<Rightarrow> ustring \<Rightarrow> ustring \<Rightarrow> ('s, DiscoveredServiceSummary) service_op" where
  "pair_server E clock n pairing_code agent_name s =
     (if trim agent_name \<noteq> agent_name \<or> agent_name = [] \<or> byte_len agent_name > 128 then
        (Err (CommandError_new (lit ''invalid_agent_name'')
          (lit ''Agent name must contain 1 to 128 characters without surrounding whitespace.'')), s)
      else if sv_connection s \<noteq> None then
        (Err (CommandError_new (lit ''already_paired'') (lit ''Forget the current server before pairing again.'')), s)
      else ebind (require_transition Pairing) (\<lambda>_.
        ebind (emodify (set_phase PhasePairing)) (\<lambda>_ s1.
        (case discover_configured E s1 of
           Inl e \<Rightarrow> pairing_aborted PhaseDiscoveryFailed
             (CommandError_new (lit ''discovery_failed'') (AuthError_to_string e)) s1
         | Inr d \<Rightarrow> pair_with E clock n pairing_code agent_name d (osc_server_url (sv_configuration s1)) s1))) s)"

section \<open>Forgetting and reconfiguring\<close>

definition take_connection :: "('doc, 's) service_env \<Rightarrow> ('s, unit) service_op" where
  "take_connection E s = (case sv_connection s of
     None \<Rightarrow> (Ok (), s)
   | Some c \<Rightarrow> emap_err (\<lambda>e. CommandError_new (lit ''credential_delete_failed'') (AuthError_to_string e))
       (on_secrets (key_delete (dx_secrets E) (oc_credential_ref c))) (s\<lparr>sv_connection := None\<rparr>))"

definition forget_connection :: "('doc, 's) service_env \<Rightarrow> Timestamp \<Rightarrow> ('s, unit) service_op" where
  "forget_connection E clock =
     ebind (emodify (\<lambda>s. s\<lparr>sv_identity := None\<rparr>)) (\<lambda>_.
     ebind (take_connection E) (\<lambda>_.
     ebind (emap_err (\<lambda>e. CommandError_new (lit ''connection_store_failed'') (storage_text E e))
       (set_setting E clock CONNECTION_SETTING JNull)) (\<lambda>_.
     emodify (\<lambda>s. force_unconfigured_with_errors [] (set_phase PhaseUnpaired s)))))"

definition forget_server :: "('doc, 's) service_env \<Rightarrow> Timestamp \<Rightarrow> ('s, unit) service_op" where
  "forget_server E clock =
     ebind (forget_connection E clock) (\<lambda>_.
     ebind (emodify bump_generation) (\<lambda>_.
     ebind (ecase (send_control ControlConfigurationChanged) (\<lambda>_. eret ())) (\<lambda>_.
     emodify (service_log E clock LevelInfo (lit ''authentication'') (lit ''Local paired credential was deleted.'')))))"

definition same_url :: "OpenPrinterServerConfiguration \<Rightarrow> OpenPrinterServerConfiguration \<Rightarrow> bool" where
  "same_url a b \<longleftrightarrow> u_as_str (osc_server_url a) = u_as_str (osc_server_url b)"

definition configuration_not_saved ::
  "('doc, 's) service_env \<Rightarrow> Timestamp \<Rightarrow> StorageError \<Rightarrow> ('s, 'a) service_op" where
  "configuration_not_saved E clock e =
     ebind (emodify (\<lambda>s. force_unconfigured
       (lit ''The server URL was not saved. Pair again after choosing the intended server.'')
       (bump_generation (service_log E clock LevelError (lit ''configuration'')
         (lit ''Could not persist the OpenPrinter server URL after deleting the prior credential: '' @
          sanitize (storage_text E e)) s)))) (\<lambda>_.
     ebind (ecase (send_control ControlConfigurationChanged) (\<lambda>_. eret ())) (\<lambda>_.
     elift (Err (CommandError_new (lit ''configuration_store_failed'')
       (lit ''The server URL could not be saved. The prior credential was deleted to keep the connection safe.'')))))"

text \<open>\<open>clock\<close> numbers its readings.\<close>

definition apply_server_configuration ::
  "('doc, 's) service_env \<Rightarrow> (nat \<Rightarrow> Timestamp) \<Rightarrow> OpenPrinterServerConfiguration \<Rightarrow>
     ('s, OpenPrinterServerConfiguration) service_op" where
  "apply_server_configuration E clock configuration s =
     (if same_url (sv_configuration s) configuration then (Ok configuration, s)
      else ebind (forget_connection E (clock 0)) (\<lambda>_.
        ebind (elift (map_err command_internal (dx_config_to_value E configuration))) (\<lambda>v.
        ecase (set_setting E (clock 1) SERVER_CONFIGURATION_SETTING v) (\<lambda>r. case r of
          Inl e \<Rightarrow> configuration_not_saved E (clock 2) e
        | Inr _ \<Rightarrow>
            ebind (emodify (\<lambda>s. force_unconfigured_with_errors []
              (bump_generation (s\<lparr>sv_configuration := configuration\<rparr>)))) (\<lambda>_.
            ebind (emap_err (\<lambda>_. command_internal (lit ''Connection supervisor is unavailable.''))
              (send_control ControlConfigurationChanged)) (\<lambda>_.
            ebind (emodify (service_log E (clock 2) LevelInfo (lit ''configuration'')
              (lit ''OpenPrinter server URL changed; prior credentials were deleted.''))) (\<lambda>_.
            eret configuration)))))) s)"

definition set_server_configuration ::
  "('doc, 's) service_env \<Rightarrow> (nat \<Rightarrow> Timestamp) \<Rightarrow> ustring \<Rightarrow> ('s, OpenPrinterServerConfiguration) service_op" where
  "set_server_configuration E clock server_url =
     ebind (elift (ServerConfiguration_from_input (dx_urls E) server_url)) (apply_server_configuration E clock)"

definition reset_server_configuration ::
  "('doc, 's) service_env \<Rightarrow> (nat \<Rightarrow> Timestamp) \<Rightarrow> ('s, OpenPrinterServerConfiguration) service_op" where
  "reset_server_configuration E clock = apply_server_configuration E clock (ServerConfiguration_default (dx_urls E))"

definition apply_recent_server ::
  "('doc, 's) service_env \<Rightarrow> (nat \<Rightarrow> Timestamp) \<Rightarrow> ustring \<Rightarrow> ('s, unit) service_op" where
  "apply_recent_server E clock server_url =
     ebind (set_server_configuration E clock server_url) (\<lambda>_. eret ())"

definition service_reconnect :: "('doc, 's) service_env \<Rightarrow> Timestamp \<Rightarrow> ('s, unit) service_op" where
  "service_reconnect E clock =
     ebind (\<lambda>s. (reject_if (sv_agent_id s = None) (CommandError_new (lit ''not_configured'')
       (lit ''Pair this agent before connecting.'')), s)) (\<lambda>_.
     ebind (emap_err (\<lambda>_. command_internal (lit ''Connection supervisor is unavailable.''))
       (send_control ControlReconnect)) (\<lambda>_.
     emodify (service_log E clock LevelInfo (lit ''transport'') (lit ''Reconnect requested.''))))"

definition service_shutdown :: "'s Service \<Rightarrow> 's Service" where
  "service_shutdown s = try_transition ShuttingDown (snd (send_control ControlShutdown (s\<lparr>sv_shutdown := True\<rparr>)))"

end
