(* ===== verification/Desktop_Jobs.thy ===== *)
theory Desktop_Jobs
  imports Desktop_Service
begin

text \<open>
  Printers and jobs in the desktop host (\<open>apps/oppa/src-tauri\<close>: \<open>service.rs\<close>, \<open>documents.rs\<close> and the
  tasks \<open>connection.rs\<close> spawns): the front end's printer operations, the local test prints with their
  history entry, what the history learns from the agent's results, and the document fetcher of the
  paired agent.
\<close>

section \<open>Printers\<close>

text \<open>A successful change is logged where the code does, and the inventory is offered to the server.\<close>

definition printers_changed :: "('s, 'a) service_op \<Rightarrow> ('s Service \<Rightarrow> 's Service) \<Rightarrow> ('s, 'a) service_op" where
  "printers_changed m log = ebind m (\<lambda>r. ebind (emodify (\<lambda>s. publish_inventory (log s))) (\<lambda>_. eret r))"

definition printer_log :: "('doc, 's) service_env \<Rightarrow> Timestamp \<Rightarrow> ustring \<Rightarrow> 's Service \<Rightarrow> 's Service" where
  "printer_log E clock message = service_log E clock LevelInfo (lit ''printer'') message"

definition list_printers :: "('doc, 's) service_env \<Rightarrow> ('s, PrinterSummary list) service_op" where
  "list_printers E = on_catalog (\<lambda>c. (catalog_list (dx_catalog E) c, c))"

definition refresh_printers ::
  "('doc, 's) service_env \<Rightarrow> scan_env \<Rightarrow> Timestamp \<Rightarrow> ('s, PrinterSummary list) service_op" where
  "refresh_printers E S clock = printers_changed (on_catalog (catalog_refresh (dx_catalog E) S clock)) (\<lambda>s. s)"

definition configure_printer ::
  "('doc, 's) service_env \<Rightarrow> Timestamp \<Rightarrow> ustring \<Rightarrow> ConfigurePrinterChanges \<Rightarrow> ('s, PrinterSummary) service_op" where
  "configure_printer E clock pid changes =
     printers_changed (on_catalog (catalog_configure (dx_catalog E) clock pid changes)) (\<lambda>s. s)"

definition add_manual_printer ::
  "('doc, 's) service_env \<Rightarrow> Timestamp \<Rightarrow> ustring \<Rightarrow> ManualPrinterInput \<Rightarrow> ('s, PrinterSummary) service_op" where
  "add_manual_printer E clock uuid input =
     printers_changed (on_catalog (catalog_add_manual (dx_catalog E) clock uuid input))
       (printer_log E clock (lit ''Manual network printer added.''))"

definition create_virtual_printer ::
  "('doc, 's) service_env \<Rightarrow> Timestamp \<Rightarrow> ustring \<Rightarrow> VirtualPrinterInput \<Rightarrow> ('s, PrinterSummary) service_op" where
  "create_virtual_printer E clock uuid input =
     printers_changed (on_catalog (catalog_create_virtual (dx_catalog E) clock uuid input))
       (printer_log E clock (lit ''Virtual printer created.''))"

definition update_virtual_printer ::
  "('doc, 's) service_env \<Rightarrow> Timestamp \<Rightarrow> ustring \<Rightarrow> VirtualPrinterMode \<Rightarrow> nat \<Rightarrow> ('s, PrinterSummary) service_op" where
  "update_virtual_printer E clock pid mode delay_ms =
     printers_changed (on_catalog (catalog_update_virtual (dx_catalog E) clock pid mode delay_ms)) (\<lambda>s. s)"

definition clear_printer_history :: "('doc, 's) service_env \<Rightarrow> ustring \<Rightarrow> ('s, unit) service_op" where
  "clear_printer_history E pid = on_catalog (catalog_clear_virtual_history (dx_catalog E) pid)"

definition set_virtual_printer_sound :: "('doc, 's) service_env \<Rightarrow> ustring \<Rightarrow> bool \<Rightarrow> ('s, unit) service_op" where
  "set_virtual_printer_sound E pid enabled =
     ebind (elift (map_err (\<lambda>_. command_invalid (lit ''Invalid printer ID.'')) (new_identifier pid))) (\<lambda>i.
     on_catalog (\<lambda>c. (case device_set_sound i enabled (pcat_devices c) of (r, devices) \<Rightarrow>
       (map_err (\<lambda>e. CommandError_new (lit ''printer_not_found'') (pl_spooler_text (cx_projection (dx_catalog E)) e)) r,
        c\<lparr>pcat_devices := devices\<rparr>))))"

definition remove_printer :: "('doc, 's) service_env \<Rightarrow> Timestamp \<Rightarrow> ustring \<Rightarrow> ('s, unit) service_op" where
  "remove_printer E clock pid =
     printers_changed (on_catalog (catalog_remove (dx_catalog E) clock pid))
       (printer_log E clock (lit ''Printer removed.''))"

section \<open>The history\<close>

definition update_job_entry ::
  "('doc, 's) service_env \<Rightarrow> Timestamp \<Rightarrow> ustring \<Rightarrow> DesktopJobState \<Rightarrow> ustring option \<Rightarrow> 32 word option \<Rightarrow>
     ('s, unit) service_op" where
  "update_job_entry E clock jid state e attempts =
     on_jobs (ledger_update (dx_ledger E) clock jid state e attempts (le_time_text (dx_ledger E) clock))"

definition insert_summary :: "('doc, 's) service_env \<Rightarrow> Timestamp \<Rightarrow> JobSummary \<Rightarrow> ('s, unit) service_op" where
  "insert_summary E clock job = on_jobs (ledger_insert (dx_ledger E) clock job)"

definition outcome_state :: "ProcessOutcome \<Rightarrow> DesktopJobState \<times> ustring option" where
  "outcome_state out = (case out of
     OutcomeSubmitted _ _ \<Rightarrow> (JobSubmitted, None)
   | OutcomeFailed _ m \<Rightarrow> (JobFailed, Option.bind m (\<lambda>m. case am_kind m of
       AgentJobFailedMsg failed \<Rightarrow> Some (fd_message (jf_error failed)) | _ \<Rightarrow> None))
   | OutcomeCancelled _ \<Rightarrow> (JobCancelled, None)
   | OutcomeSkipped _ state \<Rightarrow> (desktop_job_state state, None))"

definition apply_process_outcome ::
  "('doc, 's) service_env \<Rightarrow> Timestamp \<Rightarrow> ProcessOutcome \<Rightarrow> ('s, unit) service_op" where
  "apply_process_outcome E clock out = (case outcome_state out of
     (state, e) \<Rightarrow> update_job_entry E clock (outcome_job_id out) state e (Some 1))"

definition list_recent_jobs :: "'s Service \<Rightarrow> JobSummary list" where
  "list_recent_jobs s = ledger_list \<lparr>lg_storage = sv_db s, lg_jobs = sv_jobs s\<rparr>"

definition clear_jobs :: "('doc, 's) service_env \<Rightarrow> Timestamp \<Rightarrow> ('s, unit) service_op" where
  "clear_jobs E clock = on_jobs (ledger_clear (dx_ledger E) clock)"

text \<open>An error of the history is only logged: \<open>if let Err(error) = .. { log.warn(..) }\<close>.\<close>

definition warn_on_error ::
  "('doc, 's) service_env \<Rightarrow> Timestamp \<Rightarrow> ('s, unit) service_op \<Rightarrow> 's Service \<Rightarrow> 's Service" where
  "warn_on_error E clock m s = (case m s of
     (Inr _, s1) \<Rightarrow> s1 | (Inl e, s1) \<Rightarrow> service_log E clock LevelWarn (lit ''job'') (ce_message e) s1)"

section \<open>Local tests\<close>

definition test_document :: "ReceiptWidth \<Rightarrow> ustring \<Rightarrow> PrintDocument" where
  "test_document width product_name = \<lparr>doc_width = width, doc_sections =
     [TextSection (product_name @ lit '' TEST PRINT'') (Some AlignCenter) (Some True),
      DividerSection,
      TextSection (lit ''Connection verified'') (Some AlignCenter) None,
      TextSection (lit ''Submitted by the local desktop agent.'') None None,
      FeedSection 3,
      CutSection]\<rparr>"

definition test_width :: "CatalogPrinter \<Rightarrow> ReceiptWidth" where
  "test_width p =
     (let width = (case cp_virtual_width p of Some w \<Rightarrow> w
        | None \<Rightarrow> (case cp_capabilities p of
            Some pc \<Rightarrow> (case pc_receipt_widths_mm pc of w # _ \<Rightarrow> w | [] \<Rightarrow> 80) | None \<Rightarrow> 80)) in
      if width = 58 then Mm58 else Mm80)"

definition testable_printer :: "ustring \<Rightarrow> ('s, CatalogPrinter) service_op" where
  "testable_printer pid s =
     (and_then (catalog_get pid (sv_catalog s)) (\<lambda>p.
      and_then (reject_if (\<not> is_active (sv_catalog s) p)
        (unavailable (lit ''This printer connection is disabled in the current product build.''))) (\<lambda>_.
      and_then (reject_if (\<not> pr_enabled (cp_reference p)) (command_invalid (lit ''Printer is disabled.''))) (\<lambda>_.
      Ok p))), s)"

definition test_summary ::
  "('doc, 's) service_env \<Rightarrow> Timestamp \<Rightarrow> CatalogPrinter \<Rightarrow> ustring \<Rightarrow> ustring \<Rightarrow> JobSummary" where
  "test_summary E clock p jid key = (let now = le_time_text (dx_ledger E) clock in
     \<lparr>jb_id = jid, jb_printer_id = cp_id p, jb_printer_name = pr_display_name (cp_reference p),
      jb_idempotency_key = key, jb_state = JobReceived, jb_received_at = now, jb_updated_at = now,
      jb_attempts = 0, jb_error = None\<rparr>)"

definition local_test_text :: "JobFailure \<Rightarrow> ustring" where
  "local_test_text f = lit ''local test print failed ('' @ fail_code f @ lit ''): '' @ fail_message f"

text \<open>The end of a test, failed with a code and a message or not: the history learns the result, and the summary is read back.\<close>

definition finish_test ::
  "('doc, 's) service_env \<Rightarrow> Timestamp \<Rightarrow> ustring \<Rightarrow> ustring \<Rightarrow> CommandError \<Rightarrow>
     (ustring \<times> ustring) + 'b \<Rightarrow> ('s, JobSummary) service_op" where
  "finish_test E clock jid done_text missing result = (case result of
     Inr _ \<Rightarrow>
       ebind (update_job_entry E clock jid JobSubmitted None (Some 1)) (\<lambda>_.
       ebind (emodify (service_log E clock LevelInfo (lit ''job'') done_text)) (\<lambda>_ s.
       (ok_or missing (find (\<lambda>j. jb_id j = jid) (list_recent_jobs s)), s)))
   | Inl (c, message) \<Rightarrow>
       ebind (update_job_entry E clock jid JobFailed (Some message) (Some 1)) (\<lambda>_.
       ebind (emodify (service_log E clock LevelWarn (lit ''job'') message)) (\<lambda>_.
       elift (Err (CommandError_new c message)))))"

definition send_test_print ::
  "('doc, 's) service_env \<Rightarrow> (nat \<Rightarrow> Timestamp) \<Rightarrow> ustring \<Rightarrow> ustring \<Rightarrow> ustring \<Rightarrow> ('s, JobSummary) service_op" where
  "send_test_print E clock job_uuid key_uuid pid =
     ebind (testable_printer pid) (\<lambda>p.
     let jid = lit ''job_test_'' @ job_uuid;
         key = lit ''test_'' @ key_uuid;
         job = \<lparr>job_id = jid, idempotency_key = key, printer_id = cp_id p,
           created_at = le_time_text (dx_ledger E) (clock 0),
           document = ReceiptJob (test_document (test_width p) (pf_product_name (dx_product E))),
           metadata = None\<rparr> in
     ebind (insert_summary E (clock 0) (test_summary E (clock 0) p jid key)) (\<lambda>_.
     ecase (on_agent (lift_proc (submit_local_test (rt_env (dx_agent E)) job))) (\<lambda>r.
     finish_test E (clock 1) jid (lit ''Local test job '' @ jid @ lit '' completed.'')
       (command_internal (lit ''Test job disappeared from local history.''))
       (map_err (\<lambda>f. (lit ''test_print_failed'', sanitize (local_test_text f))) r))))"

definition decode_test_pdf :: "('doc, 's) service_env \<Rightarrow> ustring \<Rightarrow> CommandError + nat list" where
  "decode_test_pdf E pdf_base64 =
     and_then (reject_if (byte_len pdf_base64 > (MAX_PDF_DOCUMENT_BYTES + 2) div 3 * 4)
       (CommandError_new (lit ''document.limit_exceeded'') (lit ''PDF files must be '' @
         dec (MAX_PDF_DOCUMENT_BYTES div (1024 * 1024)) @ lit '' MB or smaller.''))) (\<lambda>_.
     ok_or (command_invalid (lit ''The selected file could not be read.'')) (dx_base64_decode E pdf_base64))"

definition send_test_pdf ::
  "('doc, 's) service_env \<Rightarrow> (nat \<Rightarrow> Timestamp) \<Rightarrow> ustring \<Rightarrow> ustring \<Rightarrow> ustring \<Rightarrow> ustring \<Rightarrow> PrintSettings \<Rightarrow>
     ('s, JobSummary) service_op" where
  "send_test_pdf E clock job_uuid key_uuid pid pdf_base64 settings =
     ebind (elift (decode_test_pdf E pdf_base64)) (\<lambda>bytes.
     ebind (testable_printer pid) (\<lambda>p.
     let jid = lit ''job_pdf_test_'' @ job_uuid in
     ebind (insert_summary E (clock 0) (test_summary E (clock 0) p jid (lit ''pdf_test_'' @ key_uuid))) (\<lambda>_.
     ebind (elift (map_err (\<lambda>e. command_internal (identifier_error_text e)) (new_identifier jid))) (\<lambda>i.
     ecase (on_agent (lift_proc (submit_local_pdf (rt_env (dx_agent E)) i (cp_id p) bytes settings))) (\<lambda>r.
     finish_test E (clock 1) jid (lit ''Local PDF test job '' @ jid @ lit '' was accepted.'')
       (command_internal (lit ''PDF test job disappeared from local history.''))
       (map_err (\<lambda>f. (fail_code f, sanitize (fail_message f))) r))))))"

section \<open>Delivered jobs\<close>

definition printer_name :: "ustring \<Rightarrow> 's Service \<Rightarrow> ustring" where
  "printer_name pid s = (case catalog_get pid (sv_catalog s) of
     Inr p \<Rightarrow> pr_display_name (cp_reference p) | Inl _ \<Rightarrow> lit ''Printer'')"

text \<open>The entry a delivery makes before the agent sees it.\<close>

definition announce_job ::
  "('doc, 's) service_env \<Rightarrow> Timestamp \<Rightarrow> PrintJob \<Rightarrow> 's Service \<Rightarrow> 's Service" where
  "announce_job E clock job s = (let now = le_time_text (dx_ledger E) clock in
     warn_on_error E clock (insert_summary E clock \<lparr>jb_id = job_id job, jb_printer_id = printer_id job,
       jb_printer_name = printer_name (printer_id job) s, jb_idempotency_key = idempotency_key job,
       jb_state = JobQueued, jb_received_at = now, jb_updated_at = now, jb_attempts = 0, jb_error = None\<rparr>) s)"

definition unreported_state :: "AgentMessageKind \<Rightarrow> DesktopJobState \<times> ustring option" where
  "unreported_state kind = (case kind of
     AgentJobSubmittedMsg _ \<Rightarrow> (JobSubmitted, None)
   | AgentJobFailedMsg failed \<Rightarrow> (JobFailed, Some (fd_message (jf_error failed)))
   | AgentJobReceivedMsg _ \<Rightarrow> (JobReceived, Some (lit ''Receipt status is waiting for gateway delivery.''))
   | _ \<Rightarrow> (JobFailed, Some (lit ''Gateway status reporting failed.'')))"

text \<open>What the task of a delivery does with the agent's result.\<close>

definition delivery_finished ::
  "('doc, 's) service_env \<Rightarrow> Timestamp \<Rightarrow> ustring \<Rightarrow> AgentRuntimeError + ServerJobOutcome \<Rightarrow> 's Service \<Rightarrow> 's Service" where
  "delivery_finished E clock jid r s = (case r of
     Inr (ServerPrintJobOutcome flow) \<Rightarrow> (case flow_receipt flow of
         ReceiveInserted _ \<Rightarrow> s
       | ReceiveDuplicate state _ \<Rightarrow> warn_on_error E clock (update_job_entry E clock jid (desktop_job_state state) None None) s
       | ReceiveDuplicateKey _ existing_job_id _ \<Rightarrow> warn_on_error E clock
           (on_jobs (fail_if_non_terminal (dx_ledger E) clock jid
             (lit ''Idempotency key already belongs to job '' @ existing_job_id @ lit ''.''))) s)
   | Inr (ServerCancelOutcome _) \<Rightarrow> s
   | Inl (Reporting m source) \<Rightarrow> (case unreported_state (am_kind m) of (state, e) \<Rightarrow>
       service_log E clock LevelWarn (lit ''transport'') (report_message source)
         (warn_on_error E clock (update_job_entry E clock jid state e None) s))
   | Inl e \<Rightarrow> service_log E clock LevelWarn (lit ''job'') (dx_runtime_text E e)
       (warn_on_error E clock (on_jobs (fail_if_non_terminal (dx_ledger E) clock jid (dx_runtime_text E e))) s))"

definition delivery_task ::
  "('doc, 's) service_env \<Rightarrow> Timestamp \<Rightarrow> ServerMessage \<Rightarrow> ustring \<Rightarrow> 's Service \<Rightarrow> 's Service" where
  "delivery_task E clock m jid s = (case on_agent (handle_server_message (dx_agent E) m) s of
     (r, s1) \<Rightarrow> delivery_finished E clock jid r s1)"

definition cancellation_task ::
  "('doc, 's) service_env \<Rightarrow> Timestamp \<Rightarrow> ServerMessage \<Rightarrow> 's Service \<Rightarrow> 's Service" where
  "cancellation_task E clock m s = (case on_agent (handle_server_message (dx_agent E) m) s of
     (Inr _, s1) \<Rightarrow> s1
   | (Inl e, s1) \<Rightarrow> service_log E clock LevelWarn (lit ''job'') (dx_runtime_text E e) s1)"

text \<open>The task started by a completed handshake; \<open>fuel\<close> bounds the replay of the outbox.\<close>

definition recovery_task ::
  "('doc, 's) service_env \<Rightarrow> Timestamp \<Rightarrow> nat \<Rightarrow> nat \<Rightarrow> 's Service \<Rightarrow> 's Service option" where
  "recovery_task E clock fuel startup_recovered s =
     map_option (\<lambda>(r, a). (let s1 = s\<lparr>sv_agent := a\<rparr> in case r of
        Inl e \<Rightarrow> service_log E clock LevelWarn (lit ''job'') (dx_runtime_text E e) s1
      | Inr replayed \<Rightarrow> (case on_agent (agent_recover (dx_agent E)) s1 of
            (Inl e, s2) \<Rightarrow> service_log E clock LevelWarn (lit ''job'') (dx_runtime_text E e) s2
          | (Inr (_, outcomes), s2) \<Rightarrow>
              service_log E clock LevelInfo (lit ''job'') (lit ''Startup recovery restored '' @ dec startup_recovered @
                lit '' interrupted submission(s), replayed '' @ dec replayed @
                lit '' durable status report(s), and processed '' @ dec (length outcomes) @ lit '' pending job(s).'')
                (fold (\<lambda>out. warn_on_error E clock (apply_process_outcome E clock out)) outcomes s2))))
       (replay_outbound_reports (dx_agent E) fuel (sv_agent s))"

text \<open>The observer of the agent's job events.\<close>

definition observe_event :: "('doc, 's) service_env \<Rightarrow> Timestamp \<Rightarrow> AgentEvent \<Rightarrow> 's Service \<Rightarrow> 's Service" where
  "observe_event E clock event = warn_on_error E clock (on_jobs (apply_event (dx_ledger E) clock event))"

section \<open>Documents\<close>

text \<open>The fetcher reads the paired identity at each request, so a forgotten server fetches nothing.\<close>

definition DEFAULT_FETCH_TIMEOUT :: nat where "DEFAULT_FETCH_TIMEOUT = 30000000000"

definition paired_fetch ::
  "fetch_env \<Rightarrow> 's secret_ops \<Rightarrow> ustring + unit \<Rightarrow> nat \<Rightarrow> ustring \<Rightarrow> PdfSource \<Rightarrow>
     ('s Service, DocumentFetchError, nat list) eff" where
  "paired_fetch F K http_client n jid pdf s = (case sv_identity s of
     None \<Rightarrow> (Err (Authorization (lit ''this agent is not paired with a server'')), s)
   | Some i \<Rightarrow> ebind (elift (map_err TransportFailed http_client)) (\<lambda>_.
       on_secrets (fetch_pdf F K \<lparr>hf_credential_ref = did_credential_ref i, hf_agent_id = did_agent_id i,
         hf_timeout = DEFAULT_FETCH_TIMEOUT\<rparr> n jid pdf)) s)"

end
