(* ===== verification/Desktop_Startup.thy ===== *)
theory Desktop_Startup
  imports Desktop_Jobs
begin

text \<open>
  The start of the desktop host (\<open>service.rs\<close>, \<open>DesktopService::initialize\<close>): what is recovered from
  the repository and the credential store. The paths, the keyring and the agent's parts are supplied;
  the tasks it spawns are the steps of the other theories.
\<close>

text \<open>The repository and the credential store, before the service exists.\<close>

type_synonym 's stores = "SqliteStorage \<times> 's"
type_synonym ('s, 'a) startup_op = "('s stores, CommandError, 'a) eff"

definition startup_db :: "('doc, 's) service_env \<Rightarrow> (SqliteStorage \<Rightarrow> 'a storage_result) \<Rightarrow> ('s, 'a) startup_op" where
  "startup_db E operation s = (case operation (fst s) of
     Inl e \<Rightarrow> (Err (command_internal (storage_text E e)), s)
   | Inr (a, db) \<Rightarrow> (Ok a, (db, snd s)))"

definition startup_setting :: "('doc, 's) service_env \<Rightarrow> ustring \<Rightarrow> ('s, Value option) startup_op" where
  "startup_setting E key s = (map_err (\<lambda>e. command_internal (storage_text E e))
     (get_metadata (cx_storage (dx_catalog E)) Settings key (fst s)), s)"

definition startup_set_setting ::
  "('doc, 's) service_env \<Rightarrow> Timestamp \<Rightarrow> ustring \<Rightarrow> Value \<Rightarrow> ('s, unit) startup_op" where
  "startup_set_setting E clock key v =
     startup_db E (set_metadata (cx_storage (dx_catalog E)) Settings key v clock)"

definition startup_secrets :: "('s, 'e, 'a) eff \<Rightarrow> ('s stores, 'e, 'a) eff" where
  "startup_secrets m s = (case m (snd s) of (r, k) \<Rightarrow> (r, (fst s, k)))"

section \<open>The configuration\<close>

definition stored_configuration ::
  "('doc, 's) service_env \<Rightarrow> Value \<Rightarrow> OpenPrinterServerConfiguration" where
  "stored_configuration E v = (case dx_config_from_value E v of
     Some c \<Rightarrow> if is_ok (ServerConfiguration_validate (dx_urls E) c) then c else ServerConfiguration_default (dx_urls E)
   | None \<Rightarrow> ServerConfiguration_default (dx_urls E))"

definition legacy_configuration ::
  "('doc, 's) service_env \<Rightarrow> Value \<Rightarrow> OpenPrinterServerConfiguration" where
  "legacy_configuration E v =
     (case Option.bind (migrate_legacy_configuration (dx_urls E) (dx_port E) v) lm_suggested of
        Some c \<Rightarrow> c | None \<Rightarrow> ServerConfiguration_default (dx_urls E))"

text \<open>The configuration, whether it was taken over from an earlier release, and whether one was stored.\<close>

definition initial_configuration ::
  "('doc, 's) service_env \<Rightarrow> ('s, OpenPrinterServerConfiguration \<times> bool \<times> bool) startup_op" where
  "initial_configuration E =
     ebind (startup_setting E SERVER_CONFIGURATION_SETTING) (\<lambda>stored. case stored of
       Some v \<Rightarrow> eret (stored_configuration E v, False, True)
     | None \<Rightarrow> ebind (startup_setting E LEGACY_SERVER_CONFIGURATION_SETTING) (\<lambda>legacy. case legacy of
         Some v \<Rightarrow> eret (legacy_configuration E v, True, False)
       | None \<Rightarrow> eret (ServerConfiguration_default (dx_urls E), False, False)))"

definition remove_legacy ::
  "('doc, 's) service_env \<Rightarrow> (nat \<Rightarrow> Timestamp) \<Rightarrow> OpenPrinterServerConfiguration \<Rightarrow> ('s, unit) startup_op" where
  "remove_legacy E clock c =
     ebind (emap_err (\<lambda>e. CommandError_new (lit ''credential_clear_failed'') (PlatformError_to_string e))
       (startup_secrets (so_delete (dx_secrets E) (lit ''oauth-token-set-v1'')))) (\<lambda>_.
     ebind (elift (map_err command_internal (dx_config_to_value E c))) (\<lambda>v.
     ebind (startup_set_setting E (clock 1) SERVER_CONFIGURATION_SETTING v) (\<lambda>_.
     startup_set_setting E (clock 2) LEGACY_SERVER_CONFIGURATION_SETTING JNull)))"

section \<open>The connection\<close>

text \<open>
  The stored connection is used when it belongs to the configured server and its private key exists;
  otherwise the message says why not.
\<close>

definition initial_connection ::
  "('doc, 's) service_env \<Rightarrow> OpenPrinterServerConfiguration \<Rightarrow>
     ('s, OpenPrinterConnection option \<times> ustring option) startup_op" where
  "initial_connection E configuration =
     ebind (startup_setting E CONNECTION_SETTING) (\<lambda>stored. case Option.bind stored (dx_connection_from_value E) of
       None \<Rightarrow> eret (None, None)
     | Some c \<Rightarrow>
         if u_as_str (oc_server_url c) \<noteq> u_as_str (osc_server_url configuration) then eret (None, None)
         else ecase (startup_secrets (key_exists (dx_secrets E) (oc_credential_ref c))) (\<lambda>r. case r of
           Inr True \<Rightarrow> eret (Some c, None)
         | Inr False \<Rightarrow> eret (None, Some (lit ''The paired private key is missing; pair again.''))
         | Inl e \<Rightarrow> eret (None, Some (sanitize (AuthError_to_string e)))))"

definition initial_phase :: "bool \<Rightarrow> bool \<Rightarrow> bool \<Rightarrow> OpenPrinterConnectionState" where
  "initial_phase has_connection migrated has_stored =
     (if has_connection then PhasePaired else if migrated \<or> has_stored then PhaseUnpaired else PhaseIdle)"

section \<open>The service\<close>

definition pending_summary ::
  "('doc, 's) service_env \<Rightarrow> PrinterCatalog \<Rightarrow> Value StoredPrintJob \<Rightarrow> JobSummary" where
  "pending_summary E c stored = \<lparr>jb_id = sj_id stored, jb_printer_id = sj_printer_id stored,
     jb_printer_name = (case catalog_get (sj_printer_id stored) c of
       Inr p \<Rightarrow> pr_display_name (cp_reference p) | Inl _ \<Rightarrow> lit ''Printer''),
     jb_idempotency_key = sj_idempotency_key stored, jb_state = JobReceived,
     jb_received_at = le_time_text (dx_ledger E) (sj_received_at stored),
     jb_updated_at = le_time_text (dx_ledger E) (sj_updated_at stored),
     jb_attempts = of_nat (sj_retry_attempts stored), jb_error = map_option se_message (sj_error stored)\<rparr>"

definition startup_log ::
  "('doc, 's) service_env \<Rightarrow> (nat \<Rightarrow> Timestamp) \<Rightarrow> bool \<Rightarrow> DiagnosticLogEntry list" where
  "startup_log E clock migrated =
     (let started = log_push (cx_rfc3339 (dx_catalog E) (clock 0)) LevelInfo (lit ''application'')
        (pf_product_name (dx_product E) @ lit '' desktop runtime is starting.'') [] in
      if migrated then log_push (cx_rfc3339 (dx_catalog E) (clock 3)) LevelInfo (lit ''configuration'')
        (lit ''Legacy token configuration was removed; explicit pairing is required.'') started
      else started)"

definition initial_handle :: "OpenPrinterConnection option \<Rightarrow> nat \<Rightarrow> ustring option \<Rightarrow> AgentHandle" where
  "initial_handle connection jobs credential_error = AgentHandle_new
     \<lparr>snap_state = (if connection \<noteq> None then AgentState.Disconnected else Unconfigured),
      snap_pending_jobs = jobs,
      snap_active_errors = (case credential_error of Some e \<Rightarrow> [e] | None \<Rightarrow> [])\<rparr>"

definition assemble ::
  "OpenPrinterServerConfiguration \<Rightarrow> OpenPrinterConnection option \<Rightarrow> OpenPrinterConnectionState \<Rightarrow> AgentHandle \<Rightarrow>
     PrinterCatalog \<Rightarrow> JobLedger \<Rightarrow> 's \<Rightarrow> 's Service" where
  "assemble configuration connection phase h c g secrets = \<lparr>
     sv_agent = \<lparr>ag_proc = \<lparr>proc_db = lg_storage g, proc_handle = h, proc_active = Map.empty, proc_tick = 0\<rparr>,
       ag_sent = []\<rparr>,
     sv_secrets = secrets, sv_catalog = c, sv_jobs = lg_jobs g, sv_last_connection_at = None,
     sv_agent_id = map_option oc_agent_id connection, sv_configuration = configuration,
     sv_connection = connection, sv_identity = map_option identity_of connection, sv_phase = phase,
     sv_connected = None, sv_generation = 0, sv_controls = [], sv_supervised = True, sv_shutdown = False\<rparr>"

definition initialize ::
  "('doc, 's) service_env \<Rightarrow> (nat \<Rightarrow> Timestamp) \<Rightarrow> PerPrinterVirtualSpooler \<Rightarrow> ('s, RecoveryResult \<times> 's Service) startup_op" where
  "initialize E clock devices =
     ebind (startup_db E (recover_interrupted (cx_storage (dx_catalog E)) (clock 0))) (\<lambda>recovery.
     ebind (\<lambda>s. (map_err (\<lambda>e. command_internal (storage_text E e)) (pending (cx_storage (dx_catalog E)) (fst s)), s))
       (\<lambda>waiting.
     ebind (initial_configuration E) (\<lambda>(configuration, migrated, has_stored).
     ebind (if migrated then remove_legacy E clock configuration else eret ()) (\<lambda>_.
     ebind (initial_connection E configuration) (\<lambda>(connection, credential_error).
     ebind (\<lambda>s. (case catalog_load (dx_catalog E) (clock 3) devices (pf_features (dx_product E))
         (startup_log E clock migrated) (fst s) of
         Inl e \<Rightarrow> (Err e, s) | Inr c \<Rightarrow> (Ok c, (pcat_storage c, snd s)))) (\<lambda>c.
     ebind (\<lambda>s. (ledger_load (dx_ledger E) (fst s), s)) (\<lambda>g.
     ebind (\<lambda>s. (case restore_pending (dx_ledger E) (clock 4) (map (pending_summary E c) waiting) g of
         (Inl e, g') \<Rightarrow> (Err e, (lg_storage g', snd s))
       | (Inr _, g') \<Rightarrow> (Ok g', (lg_storage g', snd s)))) (\<lambda>g'.
     \<lambda>s. (Ok (recovery, assemble configuration connection
        (initial_phase (connection \<noteq> None) migrated has_stored)
        (initial_handle connection (length waiting) credential_error) c g' (snd s)), s)))))))))"

end
