(* ===== verification/Desktop_Laws.thy ===== *)
theory Desktop_Laws
  imports Desktop_Startup Agent_Auth_Laws Job_Ledger_Laws
begin

text \<open>
  Facts about the desktop host: its settings, what pairing and forgetting leave in the repository, the
  credential store and memory, and which operations touch the paired server at all.
\<close>

section \<open>Settings\<close>

lemma setting_keys_valid:
  "validate_key f CONNECTION_SETTING 128 = Ok ()" "validate_key f RECENT_SERVERS_SETTING 128 = Ok ()"
  by (simp_all add: validate_key_def CONNECTION_SETTING_def RECENT_SERVERS_SETTING_def lit_def trim_def trim_start_def
      trim_end_def is_whitespace_def is_control_def first_err_Ok)

lemma setting_keys_distinct: "CONNECTION_SETTING \<noteq> RECENT_SERVERS_SETTING"
  by (simp add: CONNECTION_SETTING_def RECENT_SERVERS_SETTING_def lit_def)

lemma set_metadata_other:
  assumes "set_metadata E Settings k v clock db = Ok (u, db')" "k' \<noteq> k"
  shows "get_metadata E Settings k' db' = get_metadata E Settings k' db"
  using assms by (auto simp: set_metadata_def get_metadata_def and_then_Ok upsert_lookup)

text \<open>What the code relies on of Serde and of SQLite's text.\<close>

definition settings_faithful :: "('doc, 's) service_env \<Rightarrow> bool" where
  "settings_faithful E \<longleftrightarrow>
     (\<forall>v t. json_text (cx_storage (dx_catalog E)) v = Some t \<longrightarrow> json_parse (cx_storage (dx_catalog E)) t = Some v) \<and>
     (\<forall>c v. dx_connection_to_value E c = Ok v \<longrightarrow> dx_connection_from_value E v = Some c) \<and>
     dx_connection_from_value E JNull = None"

definition store_remembers :: "'s secret_ops \<Rightarrow> bool" where
  "store_remembers K \<longleftrightarrow> (\<forall>a v s s'. so_set K a v s = (Ok (), s') \<longrightarrow> so_get K a s' = (Ok (Some v), s'))"

definition store_forgets :: "'s secret_ops \<Rightarrow> bool" where
  "store_forgets K \<longleftrightarrow> (\<forall>a s s'. so_delete K a s = (Ok (), s') \<longrightarrow> so_get K a s' = (Ok None, s'))"

context credential_store
begin

lemma ops_remember: "store_remembers ops"
  using get_after_set by (simp add: store_remembers_def ops_def)

lemma ops_forget: "store_forgets ops"
  using get_after_delete by (simp add: store_forgets_def ops_def)

end

definition service_setting :: "('doc, 's) service_env \<Rightarrow> ustring \<Rightarrow> 's Service \<Rightarrow> StorageError + Value option" where
  "service_setting E key s = get_metadata (cx_storage (dx_catalog E)) Settings key (sv_db s)"

section \<open>Parts the operations leave alone\<close>

definition link :: "'s Service \<Rightarrow> OpenPrinterConnection option \<times> DocumentIdentity option \<times> OpenPrinterServerConfiguration" where
  "link s = (sv_connection s, sv_identity s, sv_configuration s)"

definition kept :: "'s Service \<Rightarrow> SqliteStorage \<times> 's" where
  "kept s = (sv_db s, sv_secrets s)"

named_theorems service_frame \<open>operations of the service that leave the paired server and the stores alone\<close>

lemma link_fields [service_frame]:
  "link (s\<lparr>sv_agent := x1\<rparr>) = link s" "link (s\<lparr>sv_secrets := x2\<rparr>) = link s" "link (s\<lparr>sv_catalog := x3\<rparr>) = link s"
  "link (s\<lparr>sv_jobs := x4\<rparr>) = link s" "link (s\<lparr>sv_last_connection_at := x5\<rparr>) = link s"
  "link (s\<lparr>sv_agent_id := x6\<rparr>) = link s" "link (s\<lparr>sv_phase := x7\<rparr>) = link s" "link (s\<lparr>sv_connected := x8\<rparr>) = link s"
  "link (s\<lparr>sv_generation := x9\<rparr>) = link s" "link (s\<lparr>sv_controls := x10\<rparr>) = link s"
  "link (s\<lparr>sv_supervised := x11\<rparr>) = link s" "link (s\<lparr>sv_shutdown := x12\<rparr>) = link s"
  "link (with_db db s) = link s" "link (with_handle h s) = link s"
  by (simp_all add: link_def with_db_def with_handle_def)

lemma kept_fields [service_frame]:
  "kept (s\<lparr>sv_catalog := x3\<rparr>) = kept s" "kept (s\<lparr>sv_jobs := x4\<rparr>) = kept s"
  "kept (s\<lparr>sv_last_connection_at := x5\<rparr>) = kept s" "kept (s\<lparr>sv_agent_id := x6\<rparr>) = kept s"
  "kept (s\<lparr>sv_phase := x7\<rparr>) = kept s" "kept (s\<lparr>sv_connected := x8\<rparr>) = kept s" "kept (s\<lparr>sv_generation := x9\<rparr>) = kept s"
  "kept (s\<lparr>sv_controls := x10\<rparr>) = kept s" "kept (s\<lparr>sv_supervised := x11\<rparr>) = kept s"
  "kept (s\<lparr>sv_shutdown := x12\<rparr>) = kept s" "kept (s\<lparr>sv_connection := x13\<rparr>) = kept s"
  "kept (s\<lparr>sv_identity := x14\<rparr>) = kept s" "kept (s\<lparr>sv_configuration := x15\<rparr>) = kept s"
  "kept (with_handle h s) = kept s"
  by (simp_all add: kept_def with_handle_def)

lemma frame_helpers [service_frame]:
  "link (service_log E t l c m s) = link s" "kept (service_log E t l c m s) = kept s"
  "link (snd (send_control k s)) = link s" "kept (snd (send_control k s)) = kept s"
  "link (publish_inventory s) = link s" "kept (publish_inventory s) = kept s"
  "link (bump_generation s) = link s" "kept (bump_generation s) = kept s"
  "link (try_transition st s) = link s" "kept (try_transition st s) = kept s"
  "link (set_phase p s) = link s" "kept (set_phase p s) = kept s"
  "link (set_errors es s) = link s" "kept (set_errors es s) = kept s"
  by (simp_all add: service_log_def send_control_def publish_inventory_def bump_generation_def try_transition_def
      set_phase_def set_errors_def service_frame)

lemma frame_more [service_frame]:
  "link (service_transition E t st s) = link s" "kept (service_transition E t st s) = kept s"
  "link (set_connection_error E t m s) = link s" "kept (set_connection_error E t m s) = kept s"
  "link (leave_connected s) = link s" "kept (leave_connected s) = kept s"
  by (simp_all add: service_transition_def set_connection_error_def leave_connected_def Let_def service_frame
      split: sum.split)

lemma frame_unconfigured [service_frame]:
  "link (force_unconfigured_with_errors es s) = link s" "kept (force_unconfigured_with_errors es s) = kept s"
  "link (authentication_failed E t m r s) = link s" "kept (authentication_failed E t m r s) = kept s"
  by (simp_all add: force_unconfigured_with_errors_def authentication_failed_def Let_def service_frame)

lemma require_transition_frame: "require_transition st s = (r, s') \<Longrightarrow> link s' = link s \<and> kept s' = kept s"
  by (auto simp: require_transition_def service_frame split: sum.splits)

lemma send_control_frame: "send_control k s = (r, s') \<Longrightarrow> link s' = link s \<and> kept s' = kept s"
  using service_frame by (auto simp: send_control_def service_frame split: if_splits)

lemma set_setting_link: "set_setting E t k v s = (r, s') \<Longrightarrow> link s' = link s \<and> sv_secrets s' = sv_secrets s"
  by (auto simp: set_setting_def service_frame with_db_def split: sum.splits prod.splits)

lemma save_recent_link [service_frame]:
  "link (save_recent_server E t u n s) = link s" "sv_secrets (save_recent_server E t u n s) = sv_secrets s"
  by (auto simp: save_recent_server_def Let_def split: sum.split)
    (metis prod.collapse set_setting_link)+

lemma save_recent_keeps_connection:
  "service_setting E CONNECTION_SETTING (save_recent_server E t u n s) = service_setting E CONNECTION_SETTING s"
  using setting_keys_distinct
  by (auto simp: save_recent_server_def service_setting_def set_setting_def Let_def with_db_def set_metadata_other
      split: sum.split)

section \<open>Restarting\<close>

text \<open>The stores a service leaves are those of the next start.\<close>

definition restart_connection ::
  "('doc, 's) service_env \<Rightarrow> OpenPrinterServerConfiguration \<Rightarrow> 's Service \<Rightarrow>
     CommandError + OpenPrinterConnection option \<times> ustring option" where
  "restart_connection E configuration s = fst (initial_connection E configuration (sv_db s, sv_secrets s))"

lemma restart_depends:
  "kept s = kept s' \<Longrightarrow> restart_connection E c s = restart_connection E c s'"
  by (simp add: kept_def restart_connection_def)

lemma restart_none:
  assumes "service_setting E CONNECTION_SETTING s = Ok (Some JNull)" "settings_faithful E"
  shows "restart_connection E c s = Ok (None, None)"
  using assms by (simp add: restart_connection_def initial_connection_def startup_setting_def service_setting_def
      settings_faithful_def ebind_def eret_def)

lemma restart_some:
  assumes "service_setting E CONNECTION_SETTING s = Ok (Some v)" "dx_connection_from_value E v = Some c"
    and "osc_server_url configuration = oc_server_url c"
    and "key_exists (dx_secrets E) (oc_credential_ref c) (sv_secrets s) = (Ok True, k)"
  shows "restart_connection E configuration s = Ok (Some c, None)"
  using assms by (simp add: restart_connection_def initial_connection_def startup_setting_def service_setting_def
      startup_secrets_def ebind_def eret_def ecase_def)

section \<open>Forgetting\<close>

lemma set_setting_stored:
  assumes "set_setting E t CONNECTION_SETTING v s = (Ok u, s')" "settings_faithful E"
  shows "service_setting E CONNECTION_SETTING s' = Ok (Some v)"
  using assms set_metadata_get
  by (fastforce simp: set_setting_def service_setting_def with_db_def settings_faithful_def split: sum.splits)

lemma forget_connection_run:
  assumes "forget_connection E t s = (Ok u, s')"
  obtains s1 s2 where "take_connection E (s\<lparr>sv_identity := None\<rparr>) = (Ok (), s1)"
    "set_setting E t CONNECTION_SETTING JNull s1 = (Ok (), s2)"
    "s' = force_unconfigured_with_errors [] (set_phase PhaseUnpaired s2)"
  using assms that by (auto simp: forget_connection_def ebind_Ok)

lemma take_connection_link: "take_connection E s = (r, s') \<Longrightarrow>
    sv_connection s' = None \<and> sv_identity s' = sv_identity s \<and> sv_configuration s' = sv_configuration s \<and>
    sv_db s' = sv_db s \<and> sv_generation s' = sv_generation s"
  by (auto simp: take_connection_def emap_err_def on_secrets_def split: option.splits prod.splits)

lemma forget_connection_link:
  assumes "forget_connection E t s = (r, s')"
  shows "sv_connection s' = None \<and> sv_identity s' = None \<and> sv_configuration s' = sv_configuration s"
proof -
  obtain x s1 where taken: "take_connection E (s\<lparr>sv_identity := None\<rparr>) = (x, s1)"
    by (cases "take_connection E (s\<lparr>sv_identity := None\<rparr>)")
  note s1 = take_connection_link [OF taken]
  obtain y s2 where set: "set_setting E t CONNECTION_SETTING JNull s1 = (y, s2)"
    by (cases "set_setting E t CONNECTION_SETTING JNull s1")
  have s2: "link s2 = link s1" using set_setting_link [OF set] by simp
  have s3: "link (force_unconfigured_with_errors [] (set_phase PhaseUnpaired s2)) = link s2" by (simp add: service_frame)
  show ?thesis using assms taken set s1 s2 s3
    by (cases x; cases y) (auto simp: forget_connection_def ebind_def emodify_def emap_err_def link_def)
qed

lemma unconfigured_fields [simp]:
  "sv_agent_id (force_unconfigured_with_errors es s) = None" "sv_connected (force_unconfigured_with_errors es s) = None"
  "sv_generation (force_unconfigured_with_errors es s) = sv_generation s"
  "sv_phase (force_unconfigured_with_errors es s) = sv_phase s"
  by (simp_all add: force_unconfigured_with_errors_def leave_connected_def try_transition_def set_errors_def Let_def
      with_handle_def)

lemma set_setting_generation: "set_setting E t k v s = (r, s') \<Longrightarrow> sv_generation s' = sv_generation s"
  by (auto simp: set_setting_def with_db_def split: sum.splits prod.splits)

lemma forget_connection_Ok:
  assumes "forget_connection E t s = (Ok u, s')" "settings_faithful E"
  shows "service_setting E CONNECTION_SETTING s' = Ok (Some JNull) \<and> sv_agent_id s' = None \<and> sv_connected s' = None \<and>
    sv_phase s' = PhaseUnpaired \<and> sv_generation s' = sv_generation s"
proof -
  from assms(1) obtain s1 s2 where taken: "take_connection E (s\<lparr>sv_identity := None\<rparr>) = (Ok (), s1)"
    and set: "set_setting E t CONNECTION_SETTING JNull s1 = (Ok (), s2)"
    and s': "s' = force_unconfigured_with_errors [] (set_phase PhaseUnpaired s2)"
    by (rule forget_connection_run)
  have "kept s' = kept s2" unfolding s' by (simp add: service_frame)
  then have "service_setting E CONNECTION_SETTING s' = service_setting E CONNECTION_SETTING s2"
    by (simp add: kept_def service_setting_def)
  moreover have "sv_generation s2 = sv_generation s"
    using take_connection_link [OF taken] set_setting_generation [OF set] by simp
  ultimately show ?thesis using s' set_setting_stored [OF set assms(2)] by (simp add: set_phase_def)
qed

lemma forget_connection_secrets:
  assumes "forget_connection E t s = (Ok u, s')"
  shows "case sv_connection s of None \<Rightarrow> sv_secrets s' = sv_secrets s
    | Some c \<Rightarrow> key_delete (dx_secrets E) (oc_credential_ref c) (sv_secrets s) = (Ok (), sv_secrets s')"
proof -
  from assms obtain s1 s2 where taken: "take_connection E (s\<lparr>sv_identity := None\<rparr>) = (Ok (), s1)"
    and set: "set_setting E t CONNECTION_SETTING JNull s1 = (Ok (), s2)"
    and s': "s' = force_unconfigured_with_errors [] (set_phase PhaseUnpaired s2)"
    by (rule forget_connection_run)
  have "kept s' = kept s2" unfolding s' by (simp add: service_frame)
  then have "sv_secrets s' = sv_secrets s1" using set_setting_link [OF set] by (simp add: kept_def)
  then show ?thesis using taken by (auto simp: take_connection_def on_secrets_def split: option.splits prod.splits)
qed

lemma forget_server_run:
  assumes "forget_server E t s = (Ok u, s')"
  obtains s1 where "forget_connection E t s = (Ok (), s1)" "link s' = link s1" "kept s' = kept s1"
    "sv_generation s' = sv_generation s1 + 1" "sv_phase s' = sv_phase s1" "sv_agent_id s' = sv_agent_id s1"
    "sv_connected s' = sv_connected s1"
proof -
  from assms obtain s1 where s1: "forget_connection E t s = (Ok (), s1)"
    and s': "s' = service_log E t LevelInfo (lit ''authentication'') (lit ''Local paired credential was deleted.'')
      (snd (send_control ControlConfigurationChanged (bump_generation s1)))"
    by (auto simp: forget_server_def ebind_Ok ecase_eq split: prod.splits)
  show thesis
    by (rule that [OF s1]) (simp_all add: s' service_frame, simp_all add: service_log_def send_control_def bump_generation_def)
qed

lemma key_deleted_absent:
  assumes "key_delete K r k = (Ok u, k')" "store_forgets K"
  shows "key_exists K r k' = (Ok False, k')"
proof -
  have "validate_credential_ref r = Ok ()" "so_delete K r k = (Ok (), k')"
    using assms(1) by (auto simp: key_delete_def ebind_Ok)
  then show ?thesis using assms(2)
    by (simp add: key_exists_def store_forgets_def ebind_def elift_def emap_err_def eret_def)
qed

section \<open>Pairing\<close>

lemma key_generated_exists:
  assumes "key_generate C K n server_id k = (Ok g, k')" "store_remembers K" "uuid_shape (cr_uuid C n)"
  shows "key_exists K (gk_credential_ref g) k' = (Ok True, k')"
proof -
  obtain v where "so_set K (gk_credential_ref g) v k = (Ok (), k')" "gk_credential_ref g = lit ''oppa-ed25519-'' @ cr_uuid C n"
    using assms(1) by (auto simp: key_generate_def Let_def ebind_Ok)
  then show ?thesis using assms(2) generated_ref_valid [OF assms(3)]
    by (simp add: key_exists_def store_remembers_def ebind_def elift_def emap_err_def eret_def)
qed

lemma adopt_connection_run:
  assumes "adopt_connection E t d c s = (Ok x, s')"
  shows "sv_connection s' = Some c \<and> sv_identity s' = Some (identity_of c) \<and> sv_configuration s' = sv_configuration s \<and>
    sv_secrets s' = sv_secrets s \<and> service_setting E CONNECTION_SETTING s' = service_setting E CONNECTION_SETTING s \<and>
    x = discovered_summary d"
proof -
  let ?s1 = "set_errors [] (s\<lparr>sv_agent_id := Some (oc_agent_id c), sv_identity := Some (identity_of c),
    sv_connection := Some c, sv_phase := PhasePaired\<rparr>)"
  obtain s2 where s2: "require_transition AgentState.Disconnected ?s1 = (Ok (), s2)"
    and s': "s' = service_log E t LevelInfo (lit ''authentication'') (lit ''OpenPrinter pairing completed.'')
        (save_recent_server E t (u_as_str (oc_server_url c)) (Some (ds_name (dd_server (dv_document d))))
          (snd (send_control ControlReconnect s2)))" and x: "x = discovered_summary d"
    using assms by (auto simp: adopt_connection_def ebind_Ok ecase_eq split: prod.splits)
  have k2: "link s2 = link ?s1" "kept s2 = kept ?s1" using require_transition_frame [OF s2] by auto
  have "link s' = link ?s1" using k2 by (simp add: s' service_frame)
  moreover have "kept s' = kept (save_recent_server E t (u_as_str (oc_server_url c))
      (Some (ds_name (dd_server (dv_document d)))) (snd (send_control ControlReconnect s2)))" by (simp add: s' service_frame)
  then have "service_setting E CONNECTION_SETTING s' = service_setting E CONNECTION_SETTING (snd (send_control ControlReconnect s2))"
      "sv_secrets s' = sv_secrets (snd (send_control ControlReconnect s2))"
    by (simp_all add: kept_def service_setting_def save_recent_link save_recent_keeps_connection [unfolded service_setting_def])
  moreover have "kept (snd (send_control ControlReconnect s2)) = kept s" using k2 by (simp add: service_frame)
  ultimately show ?thesis using x by (simp add: link_def kept_def service_setting_def set_errors_def with_handle_def)
qed

lemma pairing_aborted_Err [simp]: "pairing_aborted p e s \<noteq> (Ok a, s')"
  by (simp add: pairing_aborted_def)

lemma store_pairing_Ok:
  assumes "store_pairing E t d c s = (Ok x, s')"
  obtains v s1 where "dx_connection_to_value E c = Ok v" "set_setting E t CONNECTION_SETTING v s = (Ok (), s1)"
    "adopt_connection E t d c s1 = (Ok x, s')"
proof -
  obtain v where v: "dx_connection_to_value E c = Ok v" using assms by (auto simp: store_pairing_def ebind_Ok)
  obtain r s1 where set: "set_setting E t CONNECTION_SETTING v s = (r, s1)" by (cases "set_setting E t CONNECTION_SETTING v s")
  show thesis using that [OF v] assms v set
    by (cases r) (auto simp: store_pairing_def ebind_Ok ecase_eq)
qed

lemma pair_with_Ok:
  assumes "pair_with E t n code name d u s = (Ok x, s')"
  obtains g k response where
    "key_generate (dx_crypto E) (dx_secrets E) n (ds_id (dd_server (dv_document d))) (sv_secrets s) = (Ok g, k)"
    "pair (cr_base64 (dx_crypto E)) (dx_http E) d (pairing_request E n code name g) = Ok response"
    "store_pairing E t d (paired_connection u response g) (s\<lparr>sv_secrets := k\<rparr>) = (Ok x, s')"
proof -
  obtain r k where gen: "key_generate (dx_crypto E) (dx_secrets E) n (ds_id (dd_server (dv_document d))) (sv_secrets s) = (r, k)"
    by (cases "key_generate (dx_crypto E) (dx_secrets E) n (ds_id (dd_server (dv_document d))) (sv_secrets s)")
  show thesis using that assms gen
    by (cases r) (auto simp: pair_with_def ecase_eq on_secrets_def ebind_Ok split: sum.splits)
qed

lemma pair_server_Ok:
  assumes "pair_server E t n code name s = (Ok x, s')"
  obtains d s1 where "sv_connection s = None" "discover_configured E s = Ok d" "link s1 = link s" "kept s1 = kept s"
    "pair_with E t n code name d (osc_server_url (sv_configuration s)) s1 = (Ok x, s')"
proof -
  obtain s0 where none: "sv_connection s = None" and s0: "require_transition Pairing s = (Ok (), s0)"
    and rest: "(case discover_configured E (set_phase PhasePairing s0) of
        Inl e \<Rightarrow> pairing_aborted PhaseDiscoveryFailed (CommandError_new (lit ''discovery_failed'') (AuthError_to_string e))
          (set_phase PhasePairing s0)
      | Inr d \<Rightarrow> pair_with E t n code name d (osc_server_url (sv_configuration (set_phase PhasePairing s0)))
          (set_phase PhasePairing s0)) = (Ok x, s')"
    using assms by (auto simp: pair_server_def ebind_Ok split: if_splits)
  have same: "link (set_phase PhasePairing s0) = link s" "kept (set_phase PhasePairing s0) = kept s"
    using require_transition_frame [OF s0] by (simp_all add: service_frame)
  then have conf: "sv_configuration (set_phase PhasePairing s0) = sv_configuration s" by (simp add: link_def)
  show thesis using that [OF none _ same] rest conf by (auto simp: discover_configured_def split: sum.splits)
qed

section \<open>The operations of the host\<close>

definition link_ok :: "'s Service \<Rightarrow> bool" where
  "link_ok s \<longleftrightarrow> sv_identity s = map_option identity_of (sv_connection s) \<and>
     (\<forall>c. sv_connection s = Some c \<longrightarrow> u_as_str (oc_server_url c) = u_as_str (osc_server_url (sv_configuration s)))"

lemma link_ok_frame: "link s' = link s \<Longrightarrow> link_ok s' \<longleftrightarrow> link_ok s"
  by (auto simp: link_def link_ok_def)

lemma link_ok_none: "sv_connection s = None \<Longrightarrow> sv_identity s = None \<Longrightarrow> link_ok s"
  by (simp add: link_ok_def)

definition keeps_link :: "('s Service, 'e, 'a) eff \<Rightarrow> bool" where
  "keeps_link m \<longleftrightarrow> (\<forall>s r s'. m s = (r, s') \<longrightarrow> link s' = link s)"

named_theorems link_keeps \<open>operations that do not touch the paired server\<close>

lemma keeps_linkD: "keeps_link m \<Longrightarrow> m s = (r, s') \<Longrightarrow> link s' = link s"
  by (simp add: keeps_link_def)

lemma keeps_link_bind [link_keeps]:
  assumes "keeps_link m" "\<And>a. keeps_link (f a)"
  shows "keeps_link (ebind m f)"
  unfolding keeps_link_def ebind_def
  using keeps_linkD [OF assms(1)] keeps_linkD [OF assms(2)] by (fastforce split: prod.splits sum.splits)

lemma keeps_link_case [link_keeps]:
  assumes "keeps_link m" "\<And>r. keeps_link (f r)"
  shows "keeps_link (ecase m f)"
  unfolding keeps_link_def ecase_def
  using keeps_linkD [OF assms(1)] keeps_linkD [OF assms(2)] by (fastforce split: prod.splits)

lemma keeps_link_basic [link_keeps]: "keeps_link (eret a)" "keeps_link (elift x)" "keeps_link (\<lambda>s. (f s, s))"
  by (auto simp: keeps_link_def)

lemma keeps_link_map [link_keeps]: "keeps_link m \<Longrightarrow> keeps_link (emap_err h m)"
  by (auto simp: keeps_link_def emap_err_def split: prod.splits)

lemma keeps_link_modify [link_keeps]: "(\<And>s. link (f s) = link s) \<Longrightarrow> keeps_link (emodify f)"
  by (simp add: keeps_link_def)

lemma keeps_link_parts [link_keeps]:
  "keeps_link (on_catalog mc)" "keeps_link (on_jobs mj)" "keeps_link (on_agent ma)" "keeps_link (on_secrets ms)"
  "keeps_link (get_setting E k)" "keeps_link (set_setting E t k v)" "keeps_link (send_control c)"
  "keeps_link (require_transition st)"
  by (auto simp: keeps_link_def on_catalog_def on_jobs_def on_agent_def on_secrets_def get_setting_def service_frame
      dest: set_setting_link send_control_frame require_transition_frame split: prod.splits)

lemma printer_operations_link [link_keeps]:
  "keeps_link (list_printers E)" "keeps_link (refresh_printers E S t)" "keeps_link (configure_printer E t i ch)"
  "keeps_link (add_manual_printer E t u mi)" "keeps_link (create_virtual_printer E t u vi)"
  "keeps_link (update_virtual_printer E t i md dl)" "keeps_link (clear_printer_history E i)"
  "keeps_link (set_virtual_printer_sound E i b)" "keeps_link (remove_printer E t i)"
  by (auto simp: list_printers_def refresh_printers_def configure_printer_def add_manual_printer_def
      create_virtual_printer_def update_virtual_printer_def clear_printer_history_def set_virtual_printer_sound_def
      remove_printer_def printers_changed_def printer_log_def service_frame intro!: link_keeps)

lemma job_operations_link [link_keeps]:
  "keeps_link (update_job_entry E t i st e n)" "keeps_link (insert_summary E t j)" "keeps_link (clear_jobs E t)"
  "keeps_link (apply_process_outcome E t out)" "keeps_link (finish_test E t i tx ms r)"
  by (auto simp: update_job_entry_def insert_summary_def clear_jobs_def apply_process_outcome_def finish_test_def Let_def
      service_frame intro!: link_keeps split: prod.splits sum.splits)

lemma testable_printer_link [link_keeps]: "keeps_link (testable_printer i)"
  by (simp add: keeps_link_def testable_printer_def)

lemma test_operations_link [link_keeps]:
  "keeps_link (send_test_print E ts u k i)" "keeps_link (send_test_pdf E ts u k i b st)"
  by (auto simp: send_test_print_def send_test_pdf_def Let_def intro!: link_keeps)

lemma warned_link: "keeps_link m \<Longrightarrow> link (warn_on_error E t m s) = link s"
  by (auto simp: warn_on_error_def service_frame dest: keeps_linkD split: prod.splits sum.splits)

lemma task_links [service_frame]:
  "link (announce_job E t j s) = link s" "link (delivery_finished E t i r s) = link s"
  "link (observe_event E t ev s) = link s"
  by (auto simp: announce_job_def delivery_finished_def observe_event_def Let_def service_frame warned_link link_keeps
      split: sum.splits ServerJobOutcome.splits ReceiveJobOutcome.splits AgentRuntimeError.splits prod.splits)

lemma delivery_task_link [service_frame]: "link (delivery_task E t m j s) = link s"
  using keeps_linkD [OF keeps_link_parts(3) [of "handle_server_message (dx_agent E) m"]]
  by (auto simp: delivery_task_def service_frame split: prod.splits)

lemma cancellation_task_link [service_frame]: "link (cancellation_task E t m s) = link s"
  using keeps_linkD [OF keeps_link_parts(3) [of "handle_server_message (dx_agent E) m"]]
  by (auto simp: cancellation_task_def service_frame split: prod.splits sum.splits)

lemma outcomes_link: "link (fold (\<lambda>out. warn_on_error E t (apply_process_outcome E t out)) outs s) = link s"
  by (induction outs arbitrary: s) (simp_all add: warned_link link_keeps)

lemma recovered_link:
  assumes "recovery_task E t fuel n s = Some s'"
  shows "link s' = link s"
proof -
  obtain r a where run: "replay_outbound_reports (dx_agent E) fuel (sv_agent s) = Some (r, a)"
    using assms by (auto simp: recovery_task_def)
  obtain x s2 where rec: "on_agent (agent_recover (dx_agent E)) (s\<lparr>sv_agent := a\<rparr>) = (x, s2)"
    by (cases "on_agent (agent_recover (dx_agent E)) (s\<lparr>sv_agent := a\<rparr>)")
  have "link s2 = link s" using keeps_linkD [OF keeps_link_parts(3) rec] by (simp add: service_frame)
  then show ?thesis using assms run rec
    by (cases r; cases x) (auto simp: recovery_task_def Let_def service_frame outcomes_link)
qed

lemma server_operations_link [link_keeps]:
  "keeps_link (service_discover E t)" "keeps_link (list_recent_servers E)" "keeps_link (delete_recent_server E t u)"
  "keeps_link (service_reconnect E t)"
  by (auto simp: service_discover_def list_recent_servers_def delete_recent_server_def service_reconnect_def Let_def
      service_frame intro!: link_keeps) (auto simp: keeps_link_def service_frame split: sum.splits)

lemma shutdown_link [service_frame]: "link (service_shutdown s) = link s"
  by (simp add: service_shutdown_def service_frame)

lemma forget_server_link_ok:
  assumes "forget_server E t s = (r, s')"
  shows "link_ok s'"
proof -
  obtain x s1 where fc: "forget_connection E t s = (x, s1)" by (cases "forget_connection E t s")
  have none: "sv_connection s1 = None" "sv_identity s1 = None" using forget_connection_link [OF fc] by simp_all
  obtain y s2 where sc: "send_control ControlConfigurationChanged (bump_generation s1) = (y, s2)"
    by (cases "send_control ControlConfigurationChanged (bump_generation s1)")
  have "link s2 = link s1" using send_control_frame [OF sc] by (simp add: service_frame)
  then have "link s' = link s1" using assms fc sc
    by (cases x) (auto simp: forget_server_def ebind_def ecase_def emodify_def eret_def service_frame)
  then show ?thesis using none by (auto simp: link_def intro: link_ok_none)
qed

lemma aborting_link [link_keeps]: "keeps_link (pairing_aborted p e)"
  by (simp add: keeps_link_def pairing_aborted_def service_frame)

lemma quiet_delete_link [link_keeps]: "keeps_link (key_delete_quietly E r)"
  by (auto simp: key_delete_quietly_def intro!: link_keeps)

lemma adopt_link:
  assumes "adopt_connection E t d c s = (r, s')"
  shows "link s' = (Some c, Some (identity_of c), sv_configuration s)"
proof -
  let ?s1 = "set_errors [] (s\<lparr>sv_agent_id := Some (oc_agent_id c), sv_identity := Some (identity_of c),
    sv_connection := Some c, sv_phase := PhasePaired\<rparr>)"
  let ?rest = "ebind (require_transition AgentState.Disconnected) (\<lambda>_.
     ebind (ecase (send_control ControlReconnect) (\<lambda>_. eret ())) (\<lambda>_.
     ebind (emodify (save_recent_server E t (u_as_str (oc_server_url c))
       (Some (ds_name (dd_server (dv_document d)))))) (\<lambda>_.
     ebind (emodify (service_log E t LevelInfo (lit ''authentication'') (lit ''OpenPrinter pairing completed.''))) (\<lambda>_.
     eret (discovered_summary d)))))"
  have run: "?rest ?s1 = (r, s')" using assms by (simp add: adopt_connection_def ebind_def [of "emodify _"] emodify_def)
  have "keeps_link ?rest" by (auto simp: service_frame intro!: link_keeps)
  then have "link s' = link ?s1" using run by (rule keeps_linkD)
  then show ?thesis by (simp add: link_def set_errors_def with_handle_def)
qed

lemma store_pairing_link:
  assumes "store_pairing E t d c s = (r, s')"
  shows "link s' = link s \<or> link s' = (Some c, Some (identity_of c), sv_configuration s)"
proof (cases "dx_connection_to_value E c")
  case (Inl e)
  then show ?thesis using assms by (auto simp: store_pairing_def ebind_def elift_def)
next
  case (Inr v)
  obtain x s1 where set: "set_setting E t CONNECTION_SETTING v s = (x, s1)"
    by (cases "set_setting E t CONNECTION_SETTING v s")
  have s1: "link s1 = link s" using set_setting_link [OF set] by simp
  show ?thesis
  proof (cases x)
    case (Inl e)
    let ?rest = "ebind (key_delete_quietly E (oc_credential_ref c)) (\<lambda>cleaned.
         pairing_aborted PhaseUnpaired (CommandError_new (lit ''connection_store_failed'')
           (lit ''Paired credential metadata could not be saved: '' @ storage_text E e @ lit ''. '' @
            (if cleaned then lit ''The newly generated local key was deleted safely.''
             else lit ''Local key cleanup also failed and requires credential-store attention.''))))"
    have run: "?rest s1 = (r, s')"
      using assms Inr set Inl by (simp add: store_pairing_def ebind_def [of "elift _"] elift_def ecase_def)
    have "keeps_link ?rest" by (auto intro!: link_keeps)
    then have "link s' = link s1" using run by (rule keeps_linkD)
    with s1 show ?thesis by simp
  next
    case (Inr u)
    then have "adopt_connection E t d c s1 = (r, s')"
      using assms \<open>dx_connection_to_value E c = Inr v\<close> set by (simp add: store_pairing_def ebind_def elift_def ecase_def)
    from adopt_link [OF this] s1 show ?thesis by (simp add: link_def)
  qed
qed

lemma pair_with_link:
  assumes "pair_with E t n code name d u s = (r, s')"
  shows "link s' = link s \<or> (\<exists>c. oc_server_url c = u \<and> link s' = (Some c, Some (identity_of c), sv_configuration s))"
proof -
  obtain x k where gen: "key_generate (dx_crypto E) (dx_secrets E) n (ds_id (dd_server (dv_document d))) (sv_secrets s) = (x, k)"
    by (cases "key_generate (dx_crypto E) (dx_secrets E) n (ds_id (dd_server (dv_document d))) (sv_secrets s)")
  let ?s1 = "s\<lparr>sv_secrets := k\<rparr>"
  have s1: "link ?s1 = link s" by (simp add: service_frame)
  have run: "on_secrets (key_generate (dx_crypto E) (dx_secrets E) n (ds_id (dd_server (dv_document d)))) s = (x, ?s1)"
    using gen by (simp add: on_secrets_def)
  show ?thesis
  proof (cases x)
    case (Inl e)
    then have "link s' = link ?s1" using assms run keeps_linkD [OF aborting_link(1)]
      by (auto simp: pair_with_def ecase_def)
    with s1 show ?thesis by simp
  next
    case g: (Inr g)
    show ?thesis
    proof (cases "pair (cr_base64 (dx_crypto E)) (dx_http E) d (pairing_request E n code name g)")
      case (Inl e)
      let ?rest = "ebind (key_delete_quietly E (gk_credential_ref g)) (\<lambda>_. pairing_aborted PhaseUnpaired
          (CommandError_new (lit ''pairing_failed'') (AuthError_to_string e)))"
      have aborted: "?rest ?s1 = (r, s')" using assms run g Inl by (simp add: pair_with_def ecase_def)
      have "keeps_link ?rest" by (auto intro!: link_keeps)
      then have "link s' = link ?s1" using aborted by (rule keeps_linkD)
      with s1 show ?thesis by simp
    next
      case (Inr response)
      then have "store_pairing E t d (paired_connection u response g) ?s1 = (r, s')"
        using assms run g by (simp add: pair_with_def ecase_def)
      from store_pairing_link [OF this] s1 show ?thesis
        by (auto simp: paired_connection_def link_def intro!: exI [of _ "paired_connection u response g"])
    qed
  qed
qed

lemma pair_server_link_ok:
  assumes "pair_server E t n code name s = (r, s')" "link_ok s"
  shows "link_ok s'"
proof -
  obtain x s0 where s0: "require_transition Pairing s = (x, s0)" by (cases "require_transition Pairing s")
  let ?s1 = "set_phase PhasePairing s0"
  have same: "link s0 = link s" "link ?s1 = link s" using require_transition_frame [OF s0] by (simp_all add: service_frame)
  then have conf: "sv_configuration ?s1 = sv_configuration s" by (simp add: link_def)
  have "link s' = link s \<or> (\<exists>c. oc_server_url c = osc_server_url (sv_configuration s) \<and>
      link s' = (Some c, Some (identity_of c), sv_configuration s))"
  proof (cases "\<exists>u d. x = Ok u \<and> discover_configured E ?s1 = Ok d \<and>
      pair_with E t n code name d (osc_server_url (sv_configuration ?s1)) ?s1 = (r, s')")
    case True
    then obtain d where "pair_with E t n code name d (osc_server_url (sv_configuration ?s1)) ?s1 = (r, s')" by blast
    from pair_with_link [OF this] same conf show ?thesis by auto
  next
    case False
    then show ?thesis using assms(1) s0 same keeps_linkD [OF aborting_link(1), of _ _ ?s1]
      by (cases x) (auto simp: pair_server_def ebind_def emodify_def split: if_splits sum.splits)
  qed
  then show ?thesis using assms(2) link_ok_frame [of s' s] by (auto simp: link_ok_def link_def)
qed

definition unlinked :: "'s Service \<Rightarrow> bool" where
  "unlinked s \<longleftrightarrow> sv_connection s = None \<and> sv_identity s = None"

lemma unlinked_frame: "link s' = link s \<Longrightarrow> unlinked s' \<longleftrightarrow> unlinked s"
  by (simp add: link_def unlinked_def)

definition stays_unlinked :: "('s Service, 'e, 'a) eff \<Rightarrow> bool" where
  "stays_unlinked m \<longleftrightarrow> (\<forall>s r s'. m s = (r, s') \<longrightarrow> unlinked s \<longrightarrow> unlinked s')"

lemma stays_unlinkedD: "stays_unlinked m \<Longrightarrow> m s = (r, s') \<Longrightarrow> unlinked s \<Longrightarrow> unlinked s'"
  by (simp add: stays_unlinked_def)

lemma stays_unlinked_bind:
  assumes "stays_unlinked m" "\<And>a. stays_unlinked (f a)"
  shows "stays_unlinked (ebind m f)"
  unfolding stays_unlinked_def ebind_def
  using stays_unlinkedD [OF assms(1)] stays_unlinkedD [OF assms(2)] by (fastforce split: prod.splits sum.splits)

lemma stays_unlinked_case:
  assumes "stays_unlinked m" "\<And>r. stays_unlinked (f r)"
  shows "stays_unlinked (ecase m f)"
  unfolding stays_unlinked_def ecase_def
  using stays_unlinkedD [OF assms(1)] stays_unlinkedD [OF assms(2)] by (fastforce split: prod.splits)

lemma keeps_stays: "keeps_link m \<Longrightarrow> stays_unlinked m"
  unfolding keeps_link_def stays_unlinked_def using unlinked_frame by blast

lemma reconfigured_link:
  "link (force_unconfigured_with_errors [] (bump_generation (s\<lparr>sv_configuration := c\<rparr>))) =
    (sv_connection s, sv_identity s, c)"
  by (simp add: service_frame) (simp add: link_def)

lemma reconfigured_unlinked:
  "stays_unlinked (emodify (\<lambda>s. force_unconfigured_with_errors [] (bump_generation (s\<lparr>sv_configuration := c\<rparr>))))"
proof -
  have "unlinked (force_unconfigured_with_errors [] (bump_generation (s\<lparr>sv_configuration := c\<rparr>)))" if "unlinked s"
    for s :: "'a Service"
    using that reconfigured_link [where s = s and c = c] by (simp add: unlinked_def link_def)
  then show ?thesis by (simp add: stays_unlinked_def)
qed

lemma not_saved_link [link_keeps]: "keeps_link (configuration_not_saved E t e)"
  by (auto simp: configuration_not_saved_def force_unconfigured_def service_frame intro!: link_keeps)

lemma apply_configuration_link_ok:
  assumes "apply_server_configuration E clock c s = (r, s')" "link_ok s"
  shows "link_ok s'"
proof (cases "same_url (sv_configuration s) c")
  case True
  then show ?thesis using assms by (simp add: apply_server_configuration_def)
next
  case False
  let ?rest = "ebind (elift (map_err command_internal (dx_config_to_value E c))) (\<lambda>v.
        ecase (set_setting E (clock 1) SERVER_CONFIGURATION_SETTING v) (\<lambda>r. case r of
          Inl e \<Rightarrow> configuration_not_saved E (clock 2) e
        | Inr _ \<Rightarrow>
            ebind (emodify (\<lambda>s. force_unconfigured_with_errors []
              (bump_generation (s\<lparr>sv_configuration := c\<rparr>)))) (\<lambda>_.
            ebind (emap_err (\<lambda>_. command_internal (lit ''Connection supervisor is unavailable.''))
              (send_control ControlConfigurationChanged)) (\<lambda>_.
            ebind (emodify (service_log E (clock 2) LevelInfo (lit ''configuration'')
              (lit ''OpenPrinter server URL changed; prior credentials were deleted.''))) (\<lambda>_.
            eret c)))))"
  have tail: "stays_unlinked (ebind (emap_err (\<lambda>_. command_internal (lit ''Connection supervisor is unavailable.''))
              (send_control ControlConfigurationChanged)) (\<lambda>_.
            ebind (emodify (service_log E (clock 2) LevelInfo (lit ''configuration'')
              (lit ''OpenPrinter server URL changed; prior credentials were deleted.''))) (\<lambda>_.
            eret c)))"
    by (intro keeps_stays link_keeps) (simp add: service_frame)
  have rest: "stays_unlinked ?rest"
    by (intro stays_unlinked_bind stays_unlinked_case keeps_stays [OF keeps_link_basic(2)]
        keeps_stays [OF keeps_link_parts(6)])
      (simp add: stays_unlinked_bind [OF reconfigured_unlinked tail] keeps_stays not_saved_link split: sum.split)
  obtain x s1 where fc: "forget_connection E (clock 0) s = (x, s1)" by (cases "forget_connection E (clock 0) s")
  have s1: "unlinked s1" using forget_connection_link [OF fc] by (simp add: unlinked_def)
  have "s' = s1 \<or> ?rest s1 = (r, s')" using assms(1) False fc
    by (cases x) (auto simp: apply_server_configuration_def ebind_def [of "forget_connection _ _"])
  then have "unlinked s'" using s1 stays_unlinkedD [OF rest] by blast
  then show ?thesis by (simp add: unlinked_def link_ok_none)
qed

lemma set_configuration_link_ok:
  "set_server_configuration E clock u s = (r, s') \<Longrightarrow> link_ok s \<Longrightarrow> link_ok s'"
  by (auto simp: set_server_configuration_def ebind_def elift_def split: sum.splits dest: apply_configuration_link_ok)

text \<open>Everything the front end, the tray, the tasks and the observers do to the host.\<close>

inductive service_step :: "('doc, 's) service_env \<Rightarrow> 's Service \<Rightarrow> 's Service \<Rightarrow> bool" for E where
  discovering: "service_discover E t s = (rd, s') \<Longrightarrow> service_step E s s'"
| pairing: "pair_server E t n code name s = (rd, s') \<Longrightarrow> service_step E s s'"
| forgetting: "forget_server E t s = (ru, s') \<Longrightarrow> service_step E s s'"
| configuring_server: "set_server_configuration E clock u s = (rc, s') \<Longrightarrow> service_step E s s'"
| resetting_server: "reset_server_configuration E clock s = (rc, s') \<Longrightarrow> service_step E s s'"
| applying_recent: "apply_recent_server E clock u s = (ru, s') \<Longrightarrow> service_step E s s'"
| deleting_recent: "delete_recent_server E t u s = (ru, s') \<Longrightarrow> service_step E s s'"
| reconnecting: "service_reconnect E t s = (ru, s') \<Longrightarrow> service_step E s s'"
| stopping: "service_step E s (service_shutdown s)"
| refreshing: "refresh_printers E S t s = (rp, s') \<Longrightarrow> service_step E s s'"
| configuring: "configure_printer E t i ch s = (rp1, s') \<Longrightarrow> service_step E s s'"
| adding: "add_manual_printer E t u mi s = (rp1, s') \<Longrightarrow> service_step E s s'"
| creating: "create_virtual_printer E t u vi s = (rp1, s') \<Longrightarrow> service_step E s s'"
| updating: "update_virtual_printer E t i md dl s = (rp1, s') \<Longrightarrow> service_step E s s'"
| clearing_printer: "clear_printer_history E i s = (ru, s') \<Longrightarrow> service_step E s s'"
| sounding: "set_virtual_printer_sound E i b s = (ru, s') \<Longrightarrow> service_step E s s'"
| removing: "remove_printer E t i s = (ru, s') \<Longrightarrow> service_step E s s'"
| clearing_jobs: "clear_jobs E t s = (ru, s') \<Longrightarrow> service_step E s s'"
| testing: "send_test_print E clock u k i s = (rj, s') \<Longrightarrow> service_step E s s'"
| testing_pdf: "send_test_pdf E clock u k i p st s = (rj, s') \<Longrightarrow> service_step E s s'"
| delivering: "service_step E s (delivery_task E t m i s)"
| cancelling: "service_step E s (cancellation_task E t m s)"
| recovering: "recovery_task E t fuel n s = Some s' \<Longrightarrow> service_step E s s'"
| observing: "service_step E s (observe_event E t ev s)"

lemma keeps_link_ok: "keeps_link m \<Longrightarrow> m s = (r, s') \<Longrightarrow> link_ok s \<Longrightarrow> link_ok s'"
  using keeps_linkD link_ok_frame by blast

lemma step_link_ok:
  assumes "service_step E s s'" "link_ok s"
  shows "link_ok s'"
  using assms
proof (induction rule: service_step.induct)
  case (pairing t n code name s rd s')
  then show ?case by (rule pair_server_link_ok)
next
  case (forgetting t s ru s')
  then show ?case using forget_server_link_ok by blast
next
  case (configuring_server clock u s rc s')
  then show ?case using set_configuration_link_ok by blast
next
  case (resetting_server clock s rc s')
  then show ?case using apply_configuration_link_ok by (simp add: reset_server_configuration_def) blast
next
  case (applying_recent clock u s ru s')
  then obtain x where "set_server_configuration E clock u s = (x, s')"
    by (auto simp: apply_recent_server_def ebind_def eret_def split: prod.splits sum.splits)
  then show ?case using applying_recent(2) set_configuration_link_ok by blast
next
  case (recovering t fuel n s s')
  then show ?case using recovered_link link_ok_frame by blast
next
  case (stopping s)
  then show ?case using link_ok_frame [OF shutdown_link] by blast
next
  case (delivering s t m i)
  then show ?case using link_ok_frame [OF delivery_task_link] by blast
next
  case (cancelling s t m)
  then show ?case using link_ok_frame [OF cancellation_task_link] by blast
next
  case (observing s t ev)
  then show ?case using link_ok_frame [OF task_links(3)] by blast
qed (rule keeps_link_ok [rotated], assumption+, rule link_keeps)+

end
