(* ===== verification/Connection_Supervisor.thy ===== *)
theory Connection_Supervisor
  imports Desktop_Startup Wire_Printer
begin

text \<open>
  The connection actor of the desktop host (\<open>apps/oppa/src-tauri/src/connection.rs\<close>). Its loop is a
  machine of stages, cut where the code releases the lock on the server configuration or waits, so
  that the operations of the service may come in between; one branch of the inner \<open>select!\<close> is one
  step. A stage works on the actor: the service it shares, the transport and the variables of the
  loop, the requests in the channel of reports, and the answers given to them.
\<close>

section \<open>State\<close>

definition CONNECT_TIMEOUT :: nat where "CONNECT_TIMEOUT = 12000000000"
definition IDLE_TIMEOUT :: nat where "IDLE_TIMEOUT = 90000000000"
definition OUTBOUND_BUFFER_CAPACITY :: nat where "OUTBOUND_BUFFER_CAPACITY = 256"

definition PROTOCOL_NEGOTIATION_SETTING :: ustring where
  "PROTOCOL_NEGOTIATION_SETTING = lit ''openprinter-protocol-negotiation-v1''"

record StoredNegotiation =
  sn_server_id :: ustring
  sn_legacy_until_ms :: "64 word"

record ConnectionNegotiation =
  ng_offered :: "ProtocolVersion list"
  ng_selected :: "ProtocolVersion option"

text \<open>A request of the agent, with the identity of its completion channel.\<close>

record OutboundRequest =
  or_id :: nat
  or_message :: AgentMessage

datatype connection_task = DeliveryTask ServerMessage ustring | CancellationTask ServerMessage | RecoveryTask

text \<open>\<open>at_channel\<close> holds the requests sent and not yet received, \<open>at_tasks\<close> the tasks spawned and not yet run.\<close>

record 's Actor =
  at_service :: "'s Service"
  at_transport :: WebSocketTransport
  at_backoff :: ReconnectBackoff
  at_automatic :: bool
  at_retry_after :: "nat option"
  at_planner :: "HandshakePlanner option"
  at_handshaken :: bool
  at_negotiation :: ConnectionNegotiation
  at_awaiting :: "OutboundRequest list"
  at_channel :: "OutboundRequest list"
  at_answers :: "(nat \<times> (ustring + unit)) list"
  at_tasks :: "connection_task list"
  at_attempts :: nat
  at_tick :: nat

text \<open>The environment; the servers, sockets and providers met by an attempt depend on its number.\<close>

record ('doc, 's) actor_env =
  sx_service :: "('doc, 's) service_env"
  sx_http :: "nat \<Rightarrow> http_client"
  sx_transport :: "nat \<Rightarrow> transport_env"
  sx_scan :: "nat \<Rightarrow> scan_env"
  sx_clock :: "nat \<Rightarrow> Timestamp"
  sx_uuid :: "nat \<Rightarrow> ustring"
  sx_now_millis :: "nat \<Rightarrow> 64 word"
  sx_uptime_seconds :: "nat \<Rightarrow> 64 word"
  sx_jitter :: "nat \<Rightarrow> f64"
  sx_negotiation_to_value :: "StoredNegotiation \<Rightarrow> Value"
  sx_negotiation_from_value :: "Value \<Rightarrow> StoredNegotiation option"

definition actor_clock :: "('doc, 's) actor_env \<Rightarrow> 's Actor \<Rightarrow> Timestamp" where
  "actor_clock X a = sx_clock X (at_tick a)"

definition actor_transport_env :: "('doc, 's) actor_env \<Rightarrow> 's Actor \<Rightarrow> transport_env" where
  "actor_transport_env X a = sx_transport X (at_attempts a)"

definition on_service :: "('s Service \<Rightarrow> 's Service) \<Rightarrow> 's Actor \<Rightarrow> 's Actor" where
  "on_service f a = a\<lparr>at_service := f (at_service a)\<rparr>"

definition same_generation :: "64 word \<Rightarrow> 's Actor \<Rightarrow> bool" where
  "same_generation gen a \<longleftrightarrow> sv_generation (at_service a) = gen"

section \<open>The negotiation cache\<close>

definition load_legacy_record ::
  "('doc, 's) actor_env \<Rightarrow> ustring \<Rightarrow> 's Service \<Rightarrow> LegacyServerRecord option" where
  "load_legacy_record X server_id s =
     (case fst (get_setting (sx_service X) PROTOCOL_NEGOTIATION_SETTING s) of
        Inr (Some v) \<Rightarrow> Option.bind (sx_negotiation_from_value X v) (\<lambda>stored.
          if sn_server_id stored = server_id
          then Some \<lparr>legacy_until_ms = sn_legacy_until_ms stored\<rparr> else None)
      | _ \<Rightarrow> None)"

definition store_cache_update ::
  "('doc, 's) actor_env \<Rightarrow> Timestamp \<Rightarrow> ustring \<Rightarrow> CacheUpdate \<Rightarrow> 's Service \<Rightarrow> 's Service" where
  "store_cache_update X clock server_id update s =
     (let store = (\<lambda>v. case set_setting (sx_service X) clock PROTOCOL_NEGOTIATION_SETTING v s of
        (Inr _, s1) \<Rightarrow> s1
      | (Inl e, s1) \<Rightarrow> service_log (sx_service X) clock LevelWarn (lit ''transport'')
          (storage_text (sx_service X) e) s1) in
      (case update of
        Unchanged \<Rightarrow> s
      | Clear \<Rightarrow> store JNull
      | Store r \<Rightarrow> store (sx_negotiation_to_value X \<lparr>sn_server_id = server_id, sn_legacy_until_ms = legacy_until_ms r\<rparr>)))"

section \<open>Answers\<close>

definition answer :: "OutboundRequest \<Rightarrow> ustring + unit \<Rightarrow> 's Actor \<Rightarrow> 's Actor" where
  "answer q r a = a\<lparr>at_answers := at_answers a @ [(or_id q, r)]\<rparr>"

definition refusals :: "ustring \<Rightarrow> OutboundRequest list \<Rightarrow> (nat \<times> (ustring + unit)) list" where
  "refusals message qs = map (\<lambda>q. (or_id q, Err message)) qs"

definition reject_pending :: "ustring \<Rightarrow> 's Actor \<Rightarrow> 's Actor" where
  "reject_pending message a =
     a\<lparr>at_answers := at_answers a @ refusals (sanitize message) (at_awaiting a), at_awaiting := []\<rparr>"

definition finish_outbound :: "ustring \<Rightarrow> 's Actor \<Rightarrow> 's Actor" where
  "finish_outbound message a =
     a\<lparr>at_answers := at_answers a @ refusals (sanitize message) (at_channel a), at_channel := []\<rparr>"

text \<open>A completion that is dropped reads as this error at the reporter.\<close>

definition drop_pending :: "'s Actor \<Rightarrow> 's Actor" where
  "drop_pending a = a\<lparr>at_answers := at_answers a @ refusals (lit ''connection reporter stopped'') (at_awaiting a),
     at_awaiting := []\<rparr>"

text \<open>What the reporter makes of the answer to its request.\<close>

definition reported_result :: "'s Actor \<Rightarrow> nat \<Rightarrow> (OutboundReportError + unit) option" where
  "reported_result a i = map_option (map_err OutboundReportError_new) (map_of (at_answers a) i)"

section \<open>Sending\<close>

definition actor_send :: "('doc, 's) actor_env \<Rightarrow> AgentMessage \<Rightarrow> 's Actor \<Rightarrow> (TransportError + unit) \<times> 's Actor" where
  "actor_send X m a = (case transport_send (actor_transport_env X a) m (at_transport a) of
     (r, t) \<Rightarrow> (r, a\<lparr>at_transport := t\<rparr>))"

definition close_transport :: "'s Actor \<Rightarrow> 's Actor" where
  "close_transport a = a\<lparr>at_transport := snd (transport_close (at_transport a))\<rparr>"

definition envelope ::
  "('doc, 's) actor_env \<Rightarrow> AgentMessageKind \<Rightarrow> ustring option \<Rightarrow> nat \<Rightarrow> AgentMessage" where
  "envelope X kind correlation_id n = \<lparr>am_protocol_version = required_version kind,
     am_message_id = lit ''message_'' @ sx_uuid X n,
     am_sent_at = le_time_text (dx_ledger (sx_service X)) (sx_clock X n),
     am_correlation_id = correlation_id, am_kind = kind\<rparr>"

definition hello_message ::
  "('doc, 's) actor_env \<Rightarrow> ustring \<Rightarrow> ProtocolVersion list \<Rightarrow> nat \<Rightarrow> AgentMessage" where
  "hello_message X agent_id versions = envelope X (AgentHelloMsg \<lparr>ah_agent_id = agent_id,
     ah_agent_version = dx_version (sx_service X), ah_product_id = pf_product_id (dx_product (sx_service X)),
     ah_product_version = dx_version (sx_service X), ah_supported_versions = versions\<rparr>) None"

definition send_inventory ::
  "('doc, 's) actor_env \<Rightarrow> ustring option \<Rightarrow> ProtocolVersion \<Rightarrow> 's Actor \<Rightarrow> (TransportError + unit) \<times> 's Actor" where
  "send_inventory X correlation_id version a =
     (let c = sv_catalog (at_service a) in
      case protocol_descriptors (dx_catalog (sx_service X)) c of
        Inl e \<Rightarrow> (Err (ProtocolEncoding (ce_message e)), a)
      | Inr ds \<Rightarrow> actor_send X (envelope X (AgentInventoryMsg \<lparr>inv_revision = pcat_revision c,
            inv_printers = project_inventory ds version\<rparr>) correlation_id (at_tick a)) (a\<lparr>at_tick := Suc (at_tick a)\<rparr>))"

text \<open>The version inventories are projected to.\<close>

definition selected_version :: "'s Actor \<Rightarrow> ProtocolVersion" where
  "selected_version a = (case ng_selected (at_negotiation a) of Some v \<Rightarrow> v | None \<Rightarrow> BASE)"

definition actor_error :: "('doc, 's) actor_env \<Rightarrow> ustring \<Rightarrow> 's Actor \<Rightarrow> 's Actor" where
  "actor_error X message a = on_service (set_connection_error (sx_service X) (actor_clock X a) message) a"

definition transport_failed :: "('doc, 's) actor_env \<Rightarrow> TransportError \<Rightarrow> 's Actor \<Rightarrow> 's Actor" where
  "transport_failed X e = actor_error X (dx_transport_text (sx_service X) e)"

definition actor_log :: "('doc, 's) actor_env \<Rightarrow> DiagnosticLevel \<Rightarrow> string \<Rightarrow> ustring \<Rightarrow> 's Actor \<Rightarrow> 's Actor" where
  "actor_log X level target message a =
     on_service (service_log (sx_service X) (actor_clock X a) level (lit target) message) a"

definition spawn :: "connection_task \<Rightarrow> 's Actor \<Rightarrow> 's Actor" where
  "spawn t a = a\<lparr>at_tasks := at_tasks a @ [t]\<rparr>"

section \<open>Messages of the server\<close>

datatype MessageDisposition = DispositionContinue | DispositionReconnect "nat option" | DispositionStop

text \<open>Continue after a send that succeeded, reconnect after one that failed.\<close>

definition unless_failed ::
  "('doc, 's) actor_env \<Rightarrow> (TransportError + unit) \<times> 's Actor \<Rightarrow> MessageDisposition \<times> 's Actor" where
  "unless_failed X result = (case result of
     (Inl e, a) \<Rightarrow> (DispositionReconnect None, transport_failed X e a)
   | (Inr _, a) \<Rightarrow> (DispositionContinue, a))"

text \<open>The requests that waited for the handshake are sent in order; the first failure refuses the rest.\<close>

fun send_awaiting ::
  "('doc, 's) actor_env \<Rightarrow> OutboundRequest list \<Rightarrow> 's Actor \<Rightarrow> MessageDisposition \<times> 's Actor" where
  "send_awaiting X [] a = (DispositionContinue, a\<lparr>at_awaiting := []\<rparr>)"
| "send_awaiting X (q # qs) a = (case actor_send X (or_message q) a of
     (Inr _, a1) \<Rightarrow> send_awaiting X qs (answer q (Ok ()) a1)
   | (Inl e, a1) \<Rightarrow>
       (let diagnostic = sanitize (dx_transport_text (sx_service X) e) in
        (DispositionReconnect None,
         actor_error X diagnostic (reject_pending diagnostic ((answer q (Err diagnostic) a1)\<lparr>at_awaiting := qs\<rparr>)))))"

definition hello_accepted ::
  "('doc, 's) actor_env \<Rightarrow> ustring \<Rightarrow> ServerHello \<Rightarrow> 's Actor \<Rightarrow> 's Actor" where
  "hello_accepted X gateway hello a =
     (let a1 = a\<lparr>at_negotiation := (at_negotiation a)\<lparr>ng_selected := Some (sh_selected_version hello)\<rparr>, at_handshaken := True\<rparr>;
          a2 = on_service (\<lambda>s. service_transition (sx_service X) (actor_clock X a) AgentState.Connected
            (set_phase PhaseConnected (set_errors [] (s\<lparr>
               sv_last_connection_at := Some (le_time_text (dx_ledger (sx_service X)) (actor_clock X a)),
               sv_connected := Some \<lparr>cs_name = brand_name (sh_brand hello), cs_server_id = sh_server_id hello,
                 cs_server_version = sh_server_version hello, cs_gateway_url = gateway\<rparr>\<rparr>)))) a1 in
      actor_log X LevelInfo ''transport'' (lit ''Authenticated connection to '' @ brand_name (sh_brand hello) @
        lit '' established.'') a2)"

definition handle_hello ::
  "('doc, 's) actor_env \<Rightarrow> ustring \<Rightarrow> ustring \<Rightarrow> ustring option \<Rightarrow> ServerHello \<Rightarrow> 's Actor \<Rightarrow>
     MessageDisposition \<times> 's Actor" where
  "handle_hello X gateway hello_id correlation_id hello a =
     (if at_handshaken a \<or> correlation_id \<noteq> Some hello_id then
        (DispositionReconnect None, actor_error X (lit ''Gateway hello did not match the active handshake.'') a)
      else if sh_selected_version hello \<notin> set (ng_offered (at_negotiation a)) then
        (DispositionReconnect None,
         actor_error X (lit ''Gateway selected a protocol version the agent did not offer.'') a)
      else (case send_inventory X None (sh_selected_version hello) (hello_accepted X gateway hello a) of
          (Inl e, a1) \<Rightarrow> (DispositionReconnect None, transport_failed X e a1)
        | (Inr _, a1) \<Rightarrow> (case send_awaiting X (at_awaiting a1) a1 of
              (DispositionContinue, a2) \<Rightarrow> (DispositionContinue, spawn RecoveryTask a2)
            | ended \<Rightarrow> ended)))"

definition handle_disconnect ::
  "('doc, 's) actor_env \<Rightarrow> Disconnect \<Rightarrow> 's Actor \<Rightarrow> MessageDisposition \<times> 's Actor" where
  "handle_disconnect X d a =
     (if dc_reconnect d then DispositionReconnect (map_option (\<lambda>ms. unat ms * 1000000) (dc_retry_after_ms d))
      else DispositionStop,
      actor_log X LevelWarn ''transport'' (lit ''Gateway requested disconnect ('' @ dc_code d @ lit ''): '' @
        sanitize (dc_reason d)) a)"

definition handle_invalidated :: "('doc, 's) actor_env \<Rightarrow> 's Actor \<Rightarrow> MessageDisposition \<times> 's Actor" where
  "handle_invalidated X a =
     (let a1 = (case refresh_printers (sx_service X) (sx_scan X (at_tick a)) (actor_clock X a) (at_service a) of
          (Inr _, s) \<Rightarrow> a\<lparr>at_service := s\<rparr>
        | (Inl e, s) \<Rightarrow> actor_log X LevelWarn ''discovery'' (ce_message e) (a\<lparr>at_service := s\<rparr>)) in
      unless_failed X (send_inventory X None (selected_version a1) a1))"

definition dispatch_message ::
  "('doc, 's) actor_env \<Rightarrow> ustring \<Rightarrow> ustring \<Rightarrow> ServerMessage \<Rightarrow> 's Actor \<Rightarrow> MessageDisposition \<times> 's Actor" where
  "dispatch_message X gateway hello_id m a = (case sm_kind m of
     ServerHelloMsg hello \<Rightarrow> handle_hello X gateway hello_id (sm_correlation_id m) hello a
   | ServerHeartbeatMsg _ \<Rightarrow>
       if \<not> at_handshaken a then (DispositionReconnect None, a)
       else unless_failed X (actor_send X (envelope X
         (AgentHeartbeatMsg \<lparr>uptime_seconds = sx_uptime_seconds X (at_tick a)\<rparr>) (Some (sm_message_id m)) (at_tick a))
         (a\<lparr>at_tick := Suc (at_tick a)\<rparr>))
   | ServerRequestInventoryMsg \<Rightarrow>
       unless_failed X (send_inventory X (Some (sm_message_id m)) (selected_version a) a)
   | ServerConfigurationInvalidatedMsg _ \<Rightarrow> handle_invalidated X a
   | ServerPrintJobMsg job \<Rightarrow> (DispositionContinue,
       spawn (DeliveryTask m (job_id job)) (on_service (announce_job (sx_service X) (actor_clock X a) job) a))
   | ServerCancelJobMsg _ \<Rightarrow> (DispositionContinue, spawn (CancellationTask m) a)
   | ServerDisconnectMsg d \<Rightarrow> handle_disconnect X d a)"

definition connection_message ::
  "('doc, 's) actor_env \<Rightarrow> ustring \<Rightarrow> 64 word \<Rightarrow> ustring \<Rightarrow> ServerMessage \<Rightarrow> 's Actor \<Rightarrow> MessageDisposition \<times> 's Actor" where
  "connection_message X gateway gen hello_id m a =
     (if \<not> same_generation gen a then (DispositionStop, a)
      else if \<not> at_handshaken a \<and> \<not> is_server_hello (sm_kind m) then
        (DispositionReconnect None, actor_error X (lit ''Gateway sent '' @ server_message_type (sm_kind m) @
          lit '' before completing the server hello handshake.'') a)
      else if at_handshaken a \<and> sm_protocol_version m = EXTENDED \<and> ng_selected (at_negotiation a) \<noteq> Some EXTENDED then
        (DispositionReconnect None,
         actor_error X (lit ''Gateway used an extended protocol version that was not negotiated.'') a)
      else dispatch_message X gateway hello_id m a)"

end
