(* ===== verification/Connection_Stages.thy ===== *)
theory Connection_Stages
  imports Connection_Supervisor
begin

text \<open>
  The loop of the connection actor (\<open>connection.rs\<close>, \<open>run_connection_supervisor\<close>): the stages of an
  attempt, the branches of the inner \<open>select!\<close>, and the two waits. Every stage names where the code is.
\<close>

section \<open>Retrying\<close>

text \<open>\<open>next_retry_delay\<close>: the delay, if the policy allows another attempt.\<close>

definition next_retry_delay :: "('doc, 's) actor_env \<Rightarrow> 's Actor \<Rightarrow> nat option \<times> 's Actor" where
  "next_retry_delay X a =
     (case next_delay (te_floats (actor_transport_env X a)) (sx_jitter X (at_tick a)) (at_backoff a) of
        (r, b) \<Rightarrow> (case r of Inr (Some (_, delay)) \<Rightarrow> Some delay | _ \<Rightarrow> None, a\<lparr>at_backoff := b, at_tick := Suc (at_tick a)\<rparr>))"

definition retry_later :: "('doc, 's) actor_env \<Rightarrow> 's Actor \<Rightarrow> 's Actor" where
  "retry_later X a = (case next_retry_delay X a of (d, a1) \<Rightarrow> a1\<lparr>at_retry_after := d\<rparr>)"

definition pause :: "'s Actor \<Rightarrow> 's Actor" where
  "pause a = a\<lparr>at_automatic := False\<rparr>"

definition retry_or_pause :: "('doc, 's) actor_env \<Rightarrow> 's Actor \<Rightarrow> 's Actor" where
  "retry_or_pause X a = (let a1 = retry_later X a in if at_retry_after a1 = None then pause a1 else a1)"

definition reset_backoff :: "'s Actor \<Rightarrow> 's Actor" where
  "reset_backoff a = a\<lparr>at_backoff := backoff_reset (at_backoff a)\<rparr>"

section \<open>Stages\<close>

text \<open>What an attempt knows: the connection as it was read, its generation, the gateway, its hello.\<close>

record attempt =
  ap_connection :: OpenPrinterConnection
  ap_server_url :: Url
  ap_generation :: "64 word"
  ap_gateway :: Url
  ap_hello_id :: ustring

datatype stage =
  Top
| WaitingForReconnect
| DelayBeforeAttempt
| Delaying nat bool
| ReadingConnection
| DiscoveringServer attempt
| Preparing attempt
| OpeningSocket attempt
| OpenFailed attempt TransportError bool
| SocketOpened attempt
| Authenticating attempt
| AwaitingChallenge attempt
| SigningChallenge attempt GatewayAuthenticationChallenge
| Proving attempt GatewayAuthenticationChallenge ustring
| AwaitingAcceptance attempt
| Greeting attempt
| GreetFailed attempt TransportError
| Exchanging attempt
| ClosingConnection attempt
| Returned

definition SHUTTING_DOWN :: ustring where "SHUTTING_DOWN = lit ''application is shutting down''"
definition CONFIGURATION_CHANGED :: ustring where "CONFIGURATION_CHANGED = lit ''server configuration changed''"

text \<open>
  Returning drops what is pending, the requests left in the channel, and both receivers.
\<close>

definition returned :: "'s Actor \<Rightarrow> stage \<times> 's Actor" where
  "returned a = (Returned, on_service (\<lambda>s. s\<lparr>sv_supervised := False\<rparr>)
     ((drop_pending a)\<lparr>at_answers := at_answers (drop_pending a) @
        refusals (lit ''connection reporter stopped'') (at_channel a), at_channel := []\<rparr>))"

definition top :: "'s Actor \<Rightarrow> stage \<times> 's Actor" where
  "top a = (Top, a)"

text \<open>The head of the loop.\<close>

definition top_stage :: "'s Actor \<Rightarrow> stage \<times> 's Actor" where
  "top_stage a =
     (if sv_shutdown (at_service a) then returned (finish_outbound SHUTTING_DOWN a)
      else if \<not> at_automatic a then (WaitingForReconnect, a)
      else (DelayBeforeAttempt, a))"

definition delay_stage :: "'s Actor \<Rightarrow> stage \<times> 's Actor" where
  "delay_stage a = (case at_retry_after a of
     Some delay \<Rightarrow> (Delaying delay False, a\<lparr>at_retry_after := None\<rparr>)
   | None \<Rightarrow> (ReadingConnection, a))"

text \<open>
  The start of the loop; \<open>w\<close> stands for the transport, which an attempt creates before its first use.
\<close>

definition BackoffPolicy_default :: BackoffPolicy where
  "BackoffPolicy_default = \<lparr>bp_initial_delay = 1000000000, bp_maximum_delay = 60000000000,
     bp_multiplier = Finite 2 0, bp_jitter_fraction = Finite 3602879701896397 (- 54), bp_maximum_attempts = None\<rparr>"

definition initial_actor :: "'s Service \<Rightarrow> WebSocketTransport \<Rightarrow> ReconnectBackoff \<Rightarrow> 's Actor" where
  "initial_actor s w b = \<lparr>at_service = s, at_transport = w, at_backoff = b, at_automatic = True, at_retry_after = None,
     at_planner = None, at_handshaken = False, at_negotiation = \<lparr>ng_offered = [], ng_selected = None\<rparr>,
     at_awaiting = [], at_channel = [], at_answers = [], at_tasks = [], at_attempts = 0, at_tick = 0\<rparr>"

definition supervisor_start ::
  "('doc, 's) actor_env \<Rightarrow> 's Service \<Rightarrow> WebSocketTransport \<Rightarrow> stage \<times> 's Actor" where
  "supervisor_start X s w = (case ReconnectBackoff_new BackoffPolicy_default of
     Inl e \<Rightarrow> returned (transport_failed X e
       (initial_actor s w \<lparr>rb_policy = BackoffPolicy_default, rb_attempts = 0\<rparr>))
   | Inr b \<Rightarrow> (Top, initial_actor s w b))"

lemma supervisor_starts:
  "supervisor_start X s w = (Top, initial_actor s w \<lparr>rb_policy = BackoffPolicy_default, rb_attempts = 0\<rparr>)"
  by (simp add: supervisor_start_def ReconnectBackoff_new_def BackoffPolicy_validate_def BackoffPolicy_default_def
      f64_is_finite_def f64_one_def f64_zero_def reject_if_def)

section \<open>The attempt\<close>

text \<open>The placeholders of an attempt before discovery and before the hello are its URL and no text.\<close>

definition reading_stage :: "'s Actor \<Rightarrow> stage \<times> 's Actor" where
  "reading_stage a = (let s = at_service a; u = osc_server_url (sv_configuration s) in
     case sv_connection s of
       None \<Rightarrow> top (pause a)
     | Some c \<Rightarrow> (DiscoveringServer \<lparr>ap_connection = c, ap_server_url = u, ap_generation = sv_generation s,
         ap_gateway = u, ap_hello_id = []\<rparr>, a\<lparr>at_attempts := Suc (at_attempts a)\<rparr>))"

definition discovering_stage ::
  "('doc, 's) actor_env \<Rightarrow> attempt \<Rightarrow> 's Actor \<Rightarrow> stage \<times> 's Actor" where
  "discovering_stage X t a =
     (case discover (dx_urls (sx_service X)) (sx_http X (at_attempts a)) (ap_server_url t) of
        Inl e \<Rightarrow> top (retry_or_pause X (actor_error X (AuthError_to_string e)
          (on_service (set_phase PhaseDiscoveryFailed) a)))
      | Inr d \<Rightarrow>
          if ds_id (dd_server (dv_document d)) \<noteq> oc_server_id (ap_connection t)
          then top (pause (on_service (authentication_failed (sx_service X) (actor_clock X a)
            (lit ''The configured URL now identifies a different server. Forget it and pair again.'') False) a))
          else (Preparing (t\<lparr>ap_gateway := dv_gateway_url d\<rparr>), a))"

definition preparing_stage :: "('doc, 's) actor_env \<Rightarrow> attempt \<Rightarrow> 's Actor \<Rightarrow> stage \<times> 's Actor" where
  "preparing_stage X t a =
     (if \<not> same_generation (ap_generation t) a then top (pause a)
      else (OpeningSocket t, on_service (\<lambda>s. service_transition (sx_service X) (actor_clock X a) AgentState.Connecting
        (set_phase PhaseConnecting (s\<lparr>sv_agent_id := Some (oc_agent_id (ap_connection t)), sv_connected := None\<rparr>))) a))"

definition actor_transport_config :: "attempt \<Rightarrow> TransportConfig" where
  "actor_transport_config t = \<lparr>tc_endpoint = ap_gateway t, tc_connect_timeout = CONNECT_TIMEOUT,
     tc_idle_timeout = IDLE_TIMEOUT, tc_outbound_buffer_capacity = OUTBOUND_BUFFER_CAPACITY\<rparr>"

text \<open>The flag of \<open>OpenFailed\<close> says whether the transport was created, so that its error may be retried.\<close>

definition opening_stage :: "('doc, 's) actor_env \<Rightarrow> attempt \<Rightarrow> 's Actor \<Rightarrow> stage \<times> 's Actor" where
  "opening_stage X t a = (case WebSocketTransport_new (actor_transport_config t) of
     Inl e \<Rightarrow> (OpenFailed t e False, a)
   | Inr w \<Rightarrow> (case transport_connect (actor_transport_env X a) w of
       (Inl e, w1) \<Rightarrow> (OpenFailed t e True, a\<lparr>at_transport := w1\<rparr>)
     | (Inr _, w1) \<Rightarrow> (SocketOpened t, a\<lparr>at_transport := w1\<rparr>)))"

definition disconnected_with_error :: "('doc, 's) actor_env \<Rightarrow> TransportError \<Rightarrow> 's Actor \<Rightarrow> 's Actor" where
  "disconnected_with_error X e a = transport_failed X e
     (on_service (service_transition (sx_service X) (actor_clock X a) AgentState.Disconnected) a)"

definition open_failed_stage ::
  "('doc, 's) actor_env \<Rightarrow> attempt \<Rightarrow> TransportError \<Rightarrow> bool \<Rightarrow> 's Actor \<Rightarrow> stage \<times> 's Actor" where
  "open_failed_stage X t e created a =
     (if \<not> same_generation (ap_generation t) a then top (pause a)
      else (let a1 = disconnected_with_error X e a in
        if \<not> created \<or> \<not> is_retryable e then top (pause a1)
        else (case next_retry_delay X a1 of
            (None, a2) \<Rightarrow> top (pause a2)
          | (Some delay, a2) \<Rightarrow> (Delaying delay True, a2))))"

definition opened_stage :: "attempt \<Rightarrow> 's Actor \<Rightarrow> stage \<times> 's Actor" where
  "opened_stage t a =
     (if \<not> same_generation (ap_generation t) a then top (pause (close_transport a)) else (Authenticating t, a))"

definition authentication_ended :: "('doc, 's) actor_env \<Rightarrow> ustring \<Rightarrow> bool \<Rightarrow> 's Actor \<Rightarrow> stage \<times> 's Actor" where
  "authentication_ended X message revoked a = top (pause (on_service
     (authentication_failed (sx_service X) (actor_clock X a) message revoked) a))"

definition challenge_stage :: "('doc, 's) actor_env \<Rightarrow> attempt \<Rightarrow> 's Actor \<Rightarrow> stage \<times> 's Actor" where
  "challenge_stage X t a = (case receive_authentication (actor_transport_env X a) (at_transport a) of
     (r, w) \<Rightarrow> (let a1 = a\<lparr>at_transport := w\<rparr> in case r of
       Inr (Challenge c) \<Rightarrow> (SigningChallenge t c, a1)
     | Inr _ \<Rightarrow> authentication_ended X (lit ''Gateway did not send an authentication challenge.'') False a1
     | Inl e \<Rightarrow> authentication_ended X (dx_transport_text (sx_service X) e) False a1))"

definition signing_stage ::
  "('doc, 's) actor_env \<Rightarrow> attempt \<Rightarrow> GatewayAuthenticationChallenge \<Rightarrow> 's Actor \<Rightarrow> stage \<times> 's Actor" where
  "signing_stage X t c a =
     (case on_secrets (sign_challenge (dx_crypto (sx_service X)) (dx_secrets (sx_service X))
         (oc_credential_ref (ap_connection t)) c) (at_service a) of
        (Inl e, s) \<Rightarrow> authentication_ended X (AuthError_to_string e) False (a\<lparr>at_service := s\<rparr>)
      | (Inr signature, s) \<Rightarrow> (Proving t c signature, a\<lparr>at_service := s\<rparr>))"

definition proof_of ::
  "OpenPrinterConnection \<Rightarrow> GatewayAuthenticationChallenge \<Rightarrow> ustring \<Rightarrow> GatewayAuthenticationResponse" where
  "proof_of c challenge signature = \<lparr>gp_message_type = lit ''auth.response'',
     gp_challenge_id = gc_challenge_id challenge, gp_agent_id = oc_agent_id c, gp_key_id = oc_key_id c,
     gp_algorithm = SIGNATURE_ALGORITHM, gp_signature = signature\<rparr>"

definition proving_stage ::
  "('doc, 's) actor_env \<Rightarrow> attempt \<Rightarrow> GatewayAuthenticationChallenge \<Rightarrow> ustring \<Rightarrow> 's Actor \<Rightarrow> stage \<times> 's Actor" where
  "proving_stage X t c signature a =
     (case send_authentication_response (actor_transport_env X a) (proof_of (ap_connection t) c signature) (at_transport a) of
        (Inl e, w) \<Rightarrow> top (retry_later X (transport_failed X e (a\<lparr>at_transport := w\<rparr>)))
      | (Inr _, w) \<Rightarrow> (AwaitingAcceptance t, a\<lparr>at_transport := w\<rparr>))"

definition acceptance_stage :: "('doc, 's) actor_env \<Rightarrow> attempt \<Rightarrow> 's Actor \<Rightarrow> stage \<times> 's Actor" where
  "acceptance_stage X t a = (case receive_authentication (actor_transport_env X a) (at_transport a) of
     (r, w) \<Rightarrow> (let a1 = a\<lparr>at_transport := w\<rparr>;
         invalid = authentication_ended X (lit ''Gateway authentication response was invalid.'') False a1 in case r of
       Inr (Accepted accepted) \<Rightarrow>
         if ga_agent_id accepted = oc_agent_id (ap_connection t) then (Greeting t, a1) else invalid
     | Inr _ \<Rightarrow> invalid
     | Inl (AuthenticationRejected c) \<Rightarrow> authentication_ended X
         (lit ''Gateway authentication failed: '' @ c) (c = lit ''credential_revoked'') a1
     | Inl e \<Rightarrow> top (retry_later X (transport_failed X e a1))))"

definition attempt_planner :: "('doc, 's) actor_env \<Rightarrow> attempt \<Rightarrow> 's Actor \<Rightarrow> HandshakePlanner" where
  "attempt_planner X t a = (case at_planner a of
     Some p \<Rightarrow> p
   | None \<Rightarrow> HandshakePlanner_new (load_legacy_record X (oc_server_id (ap_connection t)) (at_service a))
       (sx_now_millis X (at_tick a)))"

text \<open>The hello, and the variables of the inner loop once it is sent.\<close>

definition greeting_stage :: "('doc, 's) actor_env \<Rightarrow> attempt \<Rightarrow> 's Actor \<Rightarrow> stage \<times> 's Actor" where
  "greeting_stage X t a =
     (let p = attempt_planner X t a;
          hello = hello_message X (oc_agent_id (ap_connection t)) (offered p) (at_tick a) in
      case actor_send X hello (a\<lparr>at_planner := Some p, at_tick := Suc (at_tick a)\<rparr>) of
        (Inl e, a1) \<Rightarrow> (GreetFailed t e, a1)
      | (Inr _, a1) \<Rightarrow> (Exchanging (t\<lparr>ap_hello_id := am_message_id hello\<rparr>),
          actor_log X LevelInfo ''transport'' (lit ''Gateway socket established; waiting for server hello.'')
            (a1\<lparr>at_handshaken := False, at_negotiation := \<lparr>ng_offered = offered p, ng_selected = None\<rparr>,
               at_awaiting := []\<rparr>)))"

definition greet_failed_stage ::
  "('doc, 's) actor_env \<Rightarrow> attempt \<Rightarrow> TransportError \<Rightarrow> 's Actor \<Rightarrow> stage \<times> 's Actor" where
  "greet_failed_stage X t e a =
     (if \<not> same_generation (ap_generation t) a then top (pause a)
      else top (retry_or_pause X (disconnected_with_error X e a)))"

section \<open>The exchange\<close>

definition ended :: "attempt \<Rightarrow> 's Actor \<Rightarrow> stage \<times> 's Actor" where
  "ended t a = (ClosingConnection t, a)"

definition hello_timed_out :: "('doc, 's) actor_env \<Rightarrow> attempt \<Rightarrow> 's Actor \<Rightarrow> stage \<times> 's Actor" where
  "hello_timed_out X t a =
     (if same_generation (ap_generation t) a
      then ended t (retry_or_pause X (reject_pending (lit ''gateway hello timed out'')
        (actor_error X (lit ''Gateway did not complete the server hello handshake in time.'') a)))
      else ended t (reject_pending CONFIGURATION_CHANGED (pause a)))"

definition exchange_shutdown :: "'s Actor \<Rightarrow> stage \<times> 's Actor" where
  "exchange_shutdown a = returned (finish_outbound SHUTTING_DOWN (reject_pending SHUTTING_DOWN (close_transport a)))"

definition exchange_publish :: "('doc, 's) actor_env \<Rightarrow> attempt \<Rightarrow> 's Actor \<Rightarrow> stage \<times> 's Actor" where
  "exchange_publish X t a =
     (if \<not> at_handshaken a then (Exchanging t, a)
      else if \<not> same_generation (ap_generation t) a then ended t (pause a)
      else (case send_inventory X None (selected_version a) a of
          (Inr _, a1) \<Rightarrow> (Exchanging t, a1)
        | (Inl e, a1) \<Rightarrow> ended t (retry_or_pause X (transport_failed X e a1))))"

definition exchange_control ::
  "('doc, 's) actor_env \<Rightarrow> attempt \<Rightarrow> ConnectionControl \<Rightarrow> 's Actor \<Rightarrow> stage \<times> 's Actor" where
  "exchange_control X t c a = (case c of
     ControlReconnect \<Rightarrow>
       ended t (reset_backoff (reject_pending (lit ''connection was restarted'') (close_transport a)))
   | ControlConfigurationChanged \<Rightarrow>
       ended t (pause (reject_pending CONFIGURATION_CHANGED (close_transport a)))
   | ControlPublishInventory \<Rightarrow> exchange_publish X t a
   | ControlShutdown \<Rightarrow> exchange_shutdown a)"

definition exchange_request ::
  "('doc, 's) actor_env \<Rightarrow> attempt \<Rightarrow> OutboundRequest \<Rightarrow> 's Actor \<Rightarrow> stage \<times> 's Actor" where
  "exchange_request X t q a =
     (if \<not> same_generation (ap_generation t) a then ended t (pause (answer q (Err CONFIGURATION_CHANGED) a))
      else if at_handshaken a then (case actor_send X (or_message q) a of
          (Inr _, a1) \<Rightarrow> (Exchanging t, answer q (Ok ()) a1)
        | (Inl e, a1) \<Rightarrow> (let diagnostic = sanitize (dx_transport_text (sx_service X) e) in
            ended t (retry_or_pause X (actor_error X diagnostic (answer q (Err diagnostic) a1)))))
      else if length (at_awaiting a) < OUTBOUND_BUFFER_CAPACITY
      then (Exchanging t, a\<lparr>at_awaiting := at_awaiting a @ [q]\<rparr>)
      else (Exchanging t, answer q (Err (lit ''outbound reports exceeded the pre-handshake bound'')) a))"

definition handshake_done :: "('doc, 's) actor_env \<Rightarrow> attempt \<Rightarrow> 's Actor \<Rightarrow> 's Actor" where
  "handshake_done X t a = (let a1 = reset_backoff (a\<lparr>at_planner := None\<rparr>) in
     case (at_planner a, ng_selected (at_negotiation a)) of
       (Some p, Some selected) \<Rightarrow> on_service (store_cache_update X (actor_clock X a) (oc_server_id (ap_connection t))
         (on_accepted p selected (sx_now_millis X (at_tick a)))) a1
     | _ \<Rightarrow> a1)"

text \<open>After a received message: what its handling decided, and the end of the handshake if it was one.\<close>

definition message_handled ::
  "('doc, 's) actor_env \<Rightarrow> attempt \<Rightarrow> bool \<Rightarrow> MessageDisposition \<times> 's Actor \<Rightarrow> stage \<times> 's Actor" where
  "message_handled X t was_handshaken handled = (case handled of (d, a) \<Rightarrow>
     (let (next_stage, a1) = (case d of
          DispositionContinue \<Rightarrow> (Exchanging t, a)
        | DispositionReconnect (Some delay) \<Rightarrow> (ClosingConnection t, a\<lparr>at_retry_after := Some delay\<rparr>)
        | DispositionReconnect None \<Rightarrow> (ClosingConnection t, retry_or_pause X a)
        | DispositionStop \<Rightarrow> (ClosingConnection t, pause a)) in
      (next_stage, if \<not> was_handshaken \<and> at_handshaken a1 then handshake_done X t a1 else a1)))"

text \<open>
  A connection that fails before the server's hello may fall back to the base version, at once.
\<close>

definition exchange_failed ::
  "('doc, 's) actor_env \<Rightarrow> attempt \<Rightarrow> TransportError \<Rightarrow> 's Actor \<Rightarrow> stage \<times> 's Actor" where
  "exchange_failed X t e a =
     (if \<not> same_generation (ap_generation t) a then ended t (pause (reject_pending CONFIGURATION_CHANGED a))
      else (let (fell_back_now, a1) = (case at_planner a of
                Some p \<Rightarrow> if at_handshaken a then (False, a)
                  else (case on_closed_before_hello p of (b, p') \<Rightarrow> (b, a\<lparr>at_planner := Some p'\<rparr>))
              | None \<Rightarrow> (False, a));
            message = dx_transport_text (sx_service X) e;
            a2 = reject_pending message (actor_error X message a1) in
        ended t (if fell_back_now then a2\<lparr>at_retry_after := Some 0\<rparr>
          else if is_retryable e then retry_later X a2 else pause a2)))"

definition exchange_receive :: "('doc, 's) actor_env \<Rightarrow> attempt \<Rightarrow> 's Actor \<Rightarrow> stage \<times> 's Actor" where
  "exchange_receive X t a = (case transport_receive (actor_transport_env X a) (at_transport a) of
     (Inl e, w) \<Rightarrow> exchange_failed X t e (a\<lparr>at_transport := w\<rparr>)
   | (Inr m, w) \<Rightarrow> message_handled X t (at_handshaken a)
       (connection_message X (u_as_str (ap_gateway t)) (ap_generation t) (ap_hello_id t) m (a\<lparr>at_transport := w\<rparr>)))"

definition closing_stage :: "('doc, 's) actor_env \<Rightarrow> attempt \<Rightarrow> 's Actor \<Rightarrow> stage \<times> 's Actor" where
  "closing_stage X t a0 = (let a = drop_pending (close_transport a0) in
     top (if same_generation (ap_generation t) a
       then on_service (\<lambda>s. service_transition (sx_service X) (actor_clock X a) AgentState.Disconnected
         (let s1 = s\<lparr>sv_connected := None\<rparr> in
          if sv_phase s1 \<in> {PhaseConnecting, PhaseAuthenticating, PhaseConnected} then set_phase PhasePaired s1 else s1)) a
       else a))"

section \<open>Waiting\<close>

text \<open>What a wait or the \<open>select!\<close> is woken by.\<close>

datatype wake = Cancelled | Control ConnectionControl | Request OutboundRequest | RequestsClosed | Timer | SocketReady

definition waiting_woken :: "wake \<Rightarrow> 's Actor \<Rightarrow> stage \<times> 's Actor" where
  "waiting_woken w a = (case w of
     Control ControlReconnect \<Rightarrow> (DelayBeforeAttempt, reset_backoff (a\<lparr>at_automatic := True\<rparr>))
   | Control ControlShutdown \<Rightarrow> returned (finish_outbound SHUTTING_DOWN a)
   | Control _ \<Rightarrow> top a
   | Cancelled \<Rightarrow> returned (finish_outbound SHUTTING_DOWN a)
   | RequestsClosed \<Rightarrow> returned (finish_outbound SHUTTING_DOWN a)
   | Request q \<Rightarrow> (WaitingForReconnect, answer q
       (Err (lit ''gateway connection is not configured for automatic reconnection'')) a)
   | _ \<Rightarrow> (WaitingForReconnect, a))"

text \<open>The flag says that the wait follows a failed connection, where the loop starts again.\<close>

definition delaying_woken :: "nat \<Rightarrow> bool \<Rightarrow> wake \<Rightarrow> 's Actor \<Rightarrow> stage \<times> 's Actor" where
  "delaying_woken delay again w a = (let go = (if again then Top else ReadingConnection) in case w of
     Timer \<Rightarrow> (go, a)
   | Control ControlReconnect \<Rightarrow> (go, reset_backoff a)
   | Control ControlConfigurationChanged \<Rightarrow> top (pause a)
   | Control ControlShutdown \<Rightarrow> returned (finish_outbound SHUTTING_DOWN a)
   | Cancelled \<Rightarrow> returned (finish_outbound SHUTTING_DOWN a)
   | _ \<Rightarrow> (Delaying delay again, a))"

definition exchange_woken :: "('doc, 's) actor_env \<Rightarrow> attempt \<Rightarrow> wake \<Rightarrow> 's Actor \<Rightarrow> stage \<times> 's Actor" where
  "exchange_woken X t w a = (case w of
     Timer \<Rightarrow> if at_handshaken a then (Exchanging t, a) else hello_timed_out X t a
   | Cancelled \<Rightarrow> exchange_shutdown a
   | Control c \<Rightarrow> exchange_control X t c a
   | Request q \<Rightarrow> exchange_request X t q a
   | RequestsClosed \<Rightarrow> returned (close_transport a)
   | SocketReady \<Rightarrow> exchange_receive X t a)"

definition woken :: "('doc, 's) actor_env \<Rightarrow> stage \<Rightarrow> wake \<Rightarrow> 's Actor \<Rightarrow> stage \<times> 's Actor" where
  "woken X g w a = (case g of
     WaitingForReconnect \<Rightarrow> waiting_woken w a
   | Delaying delay again \<Rightarrow> delaying_woken delay again w a
   | Exchanging t \<Rightarrow> exchange_woken X t w a
   | _ \<Rightarrow> (g, a))"

text \<open>The stages that do not wait for one of these.\<close>

definition advance :: "('doc, 's) actor_env \<Rightarrow> stage \<Rightarrow> 's Actor \<Rightarrow> stage \<times> 's Actor" where
  "advance X g a = (case g of
     Top \<Rightarrow> top_stage a
   | DelayBeforeAttempt \<Rightarrow> delay_stage a
   | ReadingConnection \<Rightarrow> reading_stage a
   | DiscoveringServer t \<Rightarrow> discovering_stage X t a
   | Preparing t \<Rightarrow> preparing_stage X t a
   | OpeningSocket t \<Rightarrow> opening_stage X t a
   | OpenFailed t e created \<Rightarrow> open_failed_stage X t e created a
   | SocketOpened t \<Rightarrow> opened_stage t a
   | Authenticating t \<Rightarrow> (AwaitingChallenge t, on_service (set_phase PhaseAuthenticating) a)
   | AwaitingChallenge t \<Rightarrow> challenge_stage X t a
   | SigningChallenge t c \<Rightarrow> signing_stage X t c a
   | Proving t c signature \<Rightarrow> proving_stage X t c signature a
   | AwaitingAcceptance t \<Rightarrow> acceptance_stage X t a
   | Greeting t \<Rightarrow> greeting_stage X t a
   | GreetFailed t e \<Rightarrow> greet_failed_stage X t e a
   | ClosingConnection t \<Rightarrow> closing_stage X t a
   | _ \<Rightarrow> (g, a))"

end
