(* ===== verification/Connection_Laws.thy ===== *)
theory Connection_Laws
  imports Connection_Stages Transport_Laws "HOL-Library.Multiset"
begin

text \<open>
  Where the requests of the agent are while the connection actor runs: in the channel, waiting for the
  handshake, or answered. Every stage and every wake-up keeps their number, and a request waits only
  before the handshake of a connection.
\<close>

section \<open>What leaves the requests alone\<close>

definition held :: "'s Actor \<Rightarrow> (nat \<times> (ustring + unit)) list \<times> OutboundRequest list \<times> OutboundRequest list" where
  "held a = (at_answers a, at_awaiting a, at_channel a)"

definition accounted :: "'s Actor \<Rightarrow> nat multiset" where
  "accounted a = mset (map fst (at_answers a)) + mset (map or_id (at_awaiting a)) + mset (map or_id (at_channel a))"

named_theorems held_simps \<open>operations of the actor that leave its requests alone\<close>

lemma held_on_service [held_simps]: "held (on_service f a) = held a"
  by (simp add: held_def on_service_def)

lemma held_fields [held_simps]:
  "held (a\<lparr>at_service := s\<rparr>) = held a" "held (a\<lparr>at_transport := w\<rparr>) = held a"
  "held (a\<lparr>at_backoff := b\<rparr>) = held a" "held (a\<lparr>at_automatic := x\<rparr>) = held a"
  "held (a\<lparr>at_retry_after := d\<rparr>) = held a" "held (a\<lparr>at_planner := p\<rparr>) = held a"
  "held (a\<lparr>at_handshaken := x\<rparr>) = held a" "held (a\<lparr>at_negotiation := n\<rparr>) = held a"
  "held (a\<lparr>at_tasks := ts\<rparr>) = held a" "held (a\<lparr>at_attempts := k\<rparr>) = held a" "held (a\<lparr>at_tick := k\<rparr>) = held a"
  by (simp_all add: held_def)

lemma held_helpers [held_simps]:
  "held (actor_error X m a) = held a" "held (transport_failed X e a) = held a" "held (actor_log X l c m a) = held a"
  "held (spawn t a) = held a" "held (close_transport a) = held a" "held (pause a) = held a"
  "held (reset_backoff a) = held a" "held (snd (next_retry_delay X a)) = held a"
  by (simp_all add: actor_error_def transport_failed_def actor_log_def spawn_def close_transport_def pause_def
      reset_backoff_def next_retry_delay_def held_simps split: prod.split)

lemma held_next: "next_retry_delay X a = (d, b) \<Longrightarrow> held b = held a"
  using held_helpers(8) [of X a] by simp

lemma held_retry [held_simps]: "held (retry_later X a) = held a" "held (retry_or_pause X a) = held a"
  by (auto simp: retry_later_def retry_or_pause_def Let_def held_simps held_next split: prod.splits)

lemma held_disconnected [held_simps]: "held (disconnected_with_error X e a) = held a"
  by (simp add: disconnected_with_error_def held_simps)

lemma held_send [held_simps]: "held (snd (actor_send X m a)) = held a"
  by (simp add: actor_send_def held_simps split: prod.split)

lemma held_inventory [held_simps]: "held (snd (send_inventory X c v a)) = held a"
  by (simp add: send_inventory_def Let_def held_simps split: sum.split)

lemma held_accepted [held_simps]: "held (hello_accepted X g h a) = held a"
  by (simp add: hello_accepted_def Let_def held_simps)

lemma held_done [held_simps]: "held (handshake_done X t a) = held a"
  by (simp add: handshake_done_def Let_def held_simps split: option.split)

lemma held_accounted: "held a = held b \<Longrightarrow> accounted a = accounted b"
  by (simp add: held_def accounted_def)

lemma held_awaiting: "held a = held b \<Longrightarrow> at_awaiting a = at_awaiting b"
  by (simp add: held_def)

lemmas accounted_simps = held_simps [THEN held_accounted]
lemmas awaiting_simps = held_simps [THEN held_awaiting]

section \<open>Answering\<close>

lemma accounted_answer [simp]: "accounted (answer q r a) = add_mset (or_id q) (accounted a)"
  by (simp add: accounted_def answer_def)

lemma answer_fields [simp]:
  "at_awaiting (answer q r a) = at_awaiting a" "at_channel (answer q r a) = at_channel a"
  "at_handshaken (answer q r a) = at_handshaken a"
  by (simp_all add: answer_def)

lemma accounted_awaits: "accounted (a\<lparr>at_awaiting := at_awaiting a @ [q]\<rparr>) = add_mset (or_id q) (accounted a)"
  by (simp add: accounted_def)

lemma refusals_ids [simp]: "image_mset fst (mset (refusals m qs)) = image_mset or_id (mset qs)"
  by (simp add: refusals_def image_mset.compositionality comp_def)

lemma accounted_rejected [simp]:
  "accounted (reject_pending m a) = accounted a" "accounted (drop_pending a) = accounted a"
  "accounted (finish_outbound m a) = accounted a"
  "at_awaiting (reject_pending m a) = []" "at_awaiting (drop_pending a) = []"
  by (simp_all add: accounted_def reject_pending_def drop_pending_def finish_outbound_def)

lemma returned_accounts:
  "returned a = (g, b) \<Longrightarrow> g = Returned \<and> accounted b = accounted a \<and> at_awaiting b = [] \<and> at_channel b = []"
  by (auto simp: returned_def on_service_def accounted_def drop_pending_def)

lemma send_awaiting_accounts:
  "send_awaiting X qs a = (d, b) \<Longrightarrow> accounted b = accounted (a\<lparr>at_awaiting := qs\<rparr>) \<and> at_awaiting b = [] \<and>
    at_handshaken b = at_handshaken a"
proof (induction X qs a arbitrary: d b rule: send_awaiting.induct)
  case (2 X q qs a)
  obtain r a1 where send: "actor_send X (or_message q) a = (r, a1)" by (cases "actor_send X (or_message q) a")
  then have same: "held a1 = held a" "at_handshaken a1 = at_handshaken a"
    using held_send [of X "or_message q" a] by (auto simp: actor_send_def split: prod.splits)
  show ?case
  proof (cases r)
    case (Inl e)
    let ?m = "sanitize (dx_transport_text (sx_service X) e)"
    let ?r = "reject_pending ?m ((answer q (Err ?m) a1)\<lparr>at_awaiting := qs\<rparr>)"
    have b: "b = actor_error X ?m ?r" using 2(2) send Inl by (auto simp: Let_def)
    then have "held b = held ?r" by (simp add: held_simps)
    then have "accounted b = accounted ?r" "at_awaiting b = []" by (auto dest: held_accounted held_awaiting)
    then show ?thesis using same b
      by (simp add: accounted_def answer_def held_def actor_error_def on_service_def reject_pending_def)
  next
    case (Inr u)
    then have "send_awaiting X qs (answer q (Ok ()) a1) = (d, b)" using 2(2) send by simp
    with 2(1) [OF send [symmetric] Inr] show ?thesis using same by (auto simp: accounted_def answer_def held_def)
  qed
qed (simp add: accounted_def)

section \<open>Stages\<close>

text \<open>Requests wait only before the handshake of a connection, and nothing is left in a channel nobody reads.\<close>

definition fits :: "stage \<Rightarrow> 's Actor \<Rightarrow> bool" where
  "fits g a \<longleftrightarrow> (at_awaiting a = [] \<or>
     (case g of Exchanging _ \<Rightarrow> \<not> at_handshaken a | ClosingConnection _ \<Rightarrow> True | _ \<Rightarrow> False)) \<and>
     (g = Returned \<longrightarrow> at_channel a = [])"

definition keeps_requests :: "'s Actor \<Rightarrow> stage \<times> 's Actor \<Rightarrow> bool" where
  "keeps_requests a r \<longleftrightarrow> accounted (snd r) = accounted a \<and> fits (fst r) (snd r)"

lemma keeps_held: "held b = held a \<Longrightarrow> at_awaiting a = [] \<Longrightarrow> g \<noteq> Returned \<Longrightarrow> keeps_requests a (g, b)"
  by (auto simp: keeps_requests_def fits_def dest: held_accounted held_awaiting)

lemma keeps_closing: "accounted b = accounted a \<Longrightarrow> keeps_requests a (ClosingConnection t, b)"
  by (simp add: keeps_requests_def fits_def)

lemma keeps_returned: "accounted b = accounted a \<Longrightarrow> keeps_requests a (returned b)"
  using returned_accounts [of b] by (cases "returned b") (auto simp: keeps_requests_def fits_def)

lemma keeps_ended: "held b = held a \<Longrightarrow> keeps_requests a (ended t b)"
  by (auto simp: ended_def intro!: keeps_closing held_accounted)

lemma keeps_top: "held b = held a \<Longrightarrow> at_awaiting a = [] \<Longrightarrow> keeps_requests a (top b)"
  by (auto simp: top_def intro!: keeps_held)

lemma open_stages_keep:
  assumes "at_awaiting a = []"
  shows "keeps_requests a (top_stage a)" "keeps_requests a (delay_stage a)" "keeps_requests a (reading_stage a)"
    "keeps_requests a (discovering_stage X t a)" "keeps_requests a (preparing_stage X t a)"
    "keeps_requests a (opening_stage X t a)" "keeps_requests a (open_failed_stage X t e b a)"
    "keeps_requests a (opened_stage t a)"
  using assms
  by (auto simp: top_stage_def delay_stage_def reading_stage_def discovering_stage_def preparing_stage_def
      opening_stage_def open_failed_stage_def opened_stage_def Let_def held_simps
      intro!: keeps_held keeps_top keeps_returned split: option.split sum.split prod.split)
    (metis held_next held_disconnected)+

lemma authentication_ended_keeps:
  "at_awaiting a = [] \<Longrightarrow> held b = held a \<Longrightarrow> keeps_requests a (authentication_ended X m r b)"
  by (simp add: authentication_ended_def keeps_top held_simps)

lemma authentication_stages_keep:
  assumes "at_awaiting a = []"
  shows "keeps_requests a (challenge_stage X t a)" "keeps_requests a (signing_stage X t c a)"
    "keeps_requests a (proving_stage X t c s a)" "keeps_requests a (acceptance_stage X t a)"
    "keeps_requests a (greet_failed_stage X t e a)"
  using assms
  by (auto simp: challenge_stage_def signing_stage_def proving_stage_def acceptance_stage_def greet_failed_stage_def
      Let_def held_simps intro!: keeps_held keeps_top authentication_ended_keeps
      split: prod.split sum.split GatewayAuthenticationServerMessage.split TransportError.split)

lemma greeting_keeps:
  assumes "at_awaiting a = []"
  shows "keeps_requests a (greeting_stage X t a)"
proof -
  let ?b = "a\<lparr>at_planner := Some (attempt_planner X t a), at_tick := Suc (at_tick a)\<rparr>"
  let ?m = "hello_message X (oc_agent_id (ap_connection t)) (offered (attempt_planner X t a)) (at_tick a)"
  obtain r a1 where send: "actor_send X ?m ?b = (r, a1)" by (cases "actor_send X ?m ?b")
  then have "held a1 = held a" using held_send [of X ?m ?b] by (simp add: held_simps)
  with assms show ?thesis using send
    by (cases r) (auto simp: greeting_stage_def Let_def keeps_requests_def fits_def accounted_def held_def actor_log_def
        on_service_def)
qed

lemma closing_keeps: "keeps_requests a (closing_stage X t a)"
proof -
  let ?b = "drop_pending (close_transport a)"
  have b: "accounted ?b = accounted a" "at_awaiting ?b = []"
    using held_accounted [of "close_transport a" a] by (simp_all add: held_simps)
  have "keeps_requests ?b (closing_stage X t a)"
    using b(2) by (auto simp: closing_stage_def Let_def held_simps intro!: keeps_top)
  with b(1) show ?thesis by (simp add: keeps_requests_def)
qed

lemma advance_keeps:
  assumes "fits g a"
  shows "keeps_requests a (advance X g a)"
proof (cases "at_awaiting a = []")
  case True
  note stages = open_stages_keep [OF True] authentication_stages_keep [OF True] greeting_keeps [OF True]
  show ?thesis
  proof (cases g)
    case (Authenticating t)
    then show ?thesis using True by (auto simp: advance_def held_simps intro!: keeps_held)
  qed (use assms in \<open>auto simp: advance_def stages closing_keeps, simp_all add: keeps_requests_def\<close>)
next
  case False
  have same: "keeps_requests a (g, a)" using assms by (simp add: keeps_requests_def)
  show ?thesis using same
    by (cases g) (use assms False in \<open>auto simp: advance_def closing_keeps fits_def\<close>)
qed

section \<open>Messages\<close>

lemma handshaken_send: "at_handshaken (snd (actor_send X m a)) = at_handshaken a"
  by (simp add: actor_send_def split: prod.split)

lemma handshaken_inventory: "at_handshaken (snd (send_inventory X c v a)) = at_handshaken a"
  by (simp add: send_inventory_def Let_def handshaken_send split: sum.split)

lemma handshaken_accepted: "at_handshaken (hello_accepted X g h a)"
  by (simp add: hello_accepted_def Let_def actor_log_def on_service_def)

lemma unless_failed_held: "unless_failed X r = (d, b) \<Longrightarrow> held b = held (snd r)"
  by (cases r) (auto simp: unless_failed_def held_simps split: sum.splits)

lemma unless_failed_handshaken: "unless_failed X r = (d, b) \<Longrightarrow> at_handshaken b = at_handshaken (snd r)"
  by (cases r) (auto simp: unless_failed_def transport_failed_def actor_error_def on_service_def split: sum.splits)

text \<open>What handling a message leaves: the same requests, and none waiting when the exchange goes on.\<close>

definition message_keeps :: "'s Actor \<Rightarrow> MessageDisposition \<times> 's Actor \<Rightarrow> bool" where
  "message_keeps a r \<longleftrightarrow> accounted (snd r) = accounted a \<and>
     (fst r = DispositionContinue \<longrightarrow> at_awaiting (snd r) = [] \<or> \<not> at_handshaken (snd r))"

lemma message_keeps_held: "held b = held a \<Longrightarrow> d \<noteq> DispositionContinue \<or> at_awaiting a = [] \<Longrightarrow> message_keeps a (d, b)"
  by (auto simp: message_keeps_def dest: held_accounted held_awaiting)

lemma hello_keeps: "message_keeps a (handle_hello X g i c h a)"
proof (cases "at_handshaken a \<or> c \<noteq> Some i \<or> sh_selected_version h \<notin> set (ng_offered (at_negotiation a))")
  case True
  then show ?thesis by (auto simp: handle_hello_def held_simps intro!: message_keeps_held)
next
  case False
  obtain r a1 where inv: "send_inventory X None (sh_selected_version h) (hello_accepted X g h a) = (r, a1)"
    by (cases "send_inventory X None (sh_selected_version h) (hello_accepted X g h a)")
  have same: "held a1 = held a"
    using held_inventory [of X None "sh_selected_version h" "hello_accepted X g h a"] inv by (simp add: held_simps)
  show ?thesis
  proof (cases r)
    case (Inl e)
    then show ?thesis using False inv same by (auto simp: handle_hello_def held_simps intro!: message_keeps_held)
  next
    case (Inr u)
    obtain d b where sent: "send_awaiting X (at_awaiting a1) a1 = (d, b)" by (cases "send_awaiting X (at_awaiting a1) a1")
    have "a1\<lparr>at_awaiting := at_awaiting a1\<rparr> = a1" by simp
    then have b: "accounted b = accounted a" "at_awaiting b = []"
      using send_awaiting_accounts [OF sent] held_accounted [OF same] by metis+
    then have "accounted (spawn RecoveryTask b) = accounted a" "at_awaiting (spawn RecoveryTask b) = []"
      by (simp_all add: accounted_def spawn_def)
    then show ?thesis using False inv Inr sent b
      by (cases d) (auto simp: handle_hello_def message_keeps_def)
  qed
qed

lemma invalidated_keeps:
  assumes "at_awaiting a = []"
  shows "message_keeps a (handle_invalidated X a)"
proof -
  obtain d b where r: "handle_invalidated X a = (d, b)" by (cases "handle_invalidated X a")
  have "held b = held a"
    using unless_failed_held [OF r [unfolded handle_invalidated_def Let_def]]
    by (auto simp: held_simps split: prod.splits sum.splits)
  then show ?thesis using assms r by (auto intro!: message_keeps_held)
qed

lemma unless_failed_keeps:
  "held (snd r) = held a \<Longrightarrow> at_awaiting a = [] \<Longrightarrow> message_keeps a (unless_failed X r)"
  using unless_failed_held [of X r] by (cases "unless_failed X r") (auto intro!: message_keeps_held)

lemma dispatch_keeps:
  assumes "at_awaiting a = [] \<or> is_server_hello (sm_kind m)"
  shows "message_keeps a (dispatch_message X g i m a)"
proof (cases "is_server_hello (sm_kind m)")
  case True
  then show ?thesis using hello_keeps by (auto simp: dispatch_message_def split: ServerMessageKind.splits)
next
  case False
  with assms have "at_awaiting a = []" by simp
  then show ?thesis using False
    by (auto simp: dispatch_message_def handle_disconnect_def held_simps invalidated_keeps
        intro!: message_keeps_held unless_failed_keeps split: ServerMessageKind.split)
qed

lemma connection_message_keeps:
  assumes "at_awaiting a = [] \<or> \<not> at_handshaken a"
  shows "message_keeps a (connection_message X g gen i m a)"
  using assms by (auto simp: connection_message_def held_simps intro!: message_keeps_held dispatch_keeps)

section \<open>The exchange\<close>

lemma handshaken_done: "at_handshaken (handshake_done X t c) = at_handshaken c"
  by (simp add: handshake_done_def Let_def reset_backoff_def on_service_def split: option.split)

lemma handled_keeps:
  assumes "message_keeps a r"
  shows "keeps_requests a (message_handled X t w r)"
proof -
  obtain d b where r: "r = (d, b)" by (cases r)
  then have b: "accounted b = accounted a" using assms by (simp add: message_keeps_def)
  show ?thesis
  proof (cases d)
    case DispositionContinue
    then show ?thesis using assms r
      by (auto simp: message_handled_def Let_def keeps_requests_def fits_def message_keeps_def
          accounted_simps awaiting_simps handshaken_done)
  next
    case (DispositionReconnect delay)
    then show ?thesis using r b
      by (cases delay) (auto simp: message_handled_def Let_def accounted_simps intro!: keeps_closing)
  next
    case DispositionStop
    then show ?thesis using r b
      by (auto simp: message_handled_def Let_def accounted_simps intro!: keeps_closing)
  qed
qed

lemma published_keeps:
  assumes "fits (Exchanging t) a"
  shows "keeps_requests a (exchange_publish X t a)"
proof -
  obtain r b where inv: "send_inventory X None (selected_version a) a = (r, b)"
    by (cases "send_inventory X None (selected_version a) a")
  then have b: "held b = held a" "at_handshaken b = at_handshaken a"
    using held_inventory [of X None "selected_version a" a] handshaken_inventory [of X None "selected_version a" a]
    by simp_all
  then have "accounted b = accounted a" "at_awaiting b = at_awaiting a" by (auto dest: held_accounted held_awaiting)
  with assms b inv show ?thesis
    by (cases r) (auto simp: exchange_publish_def held_simps keeps_requests_def fits_def ended_def accounted_simps)
qed

lemma shutdown_keeps: "keeps_requests a (exchange_shutdown a)"
  by (auto simp: exchange_shutdown_def accounted_simps intro!: keeps_returned)

lemma exchange_request_keeps:
  assumes "fits (Exchanging t) a"
  shows "accounted (snd (exchange_request X t q a)) = add_mset (or_id q) (accounted a) \<and>
    fits (fst (exchange_request X t q a)) (snd (exchange_request X t q a))"
proof -
  obtain r b where sent: "actor_send X (or_message q) a = (r, b)" by (cases "actor_send X (or_message q) a")
  then have "held b = held a" "at_handshaken b = at_handshaken a"
    using held_send [of X "or_message q" a] handshaken_send [of X "or_message q" a] by simp_all
  then have "accounted b = accounted a" "at_awaiting b = at_awaiting a" "at_handshaken b = at_handshaken a"
    by (auto dest: held_accounted held_awaiting)
  with assms sent show ?thesis
    by (cases r) (auto simp: exchange_request_def ended_def Let_def accounted_simps fits_def accounted_awaits)
qed

lemma exchange_receive_keeps:
  assumes "fits (Exchanging t) a"
  shows "keeps_requests a (exchange_receive X t a)"
proof -
  obtain r w where rd: "transport_receive (actor_transport_env X a) (at_transport a) = (r, w)"
    by (cases "transport_receive (actor_transport_env X a) (at_transport a)")
  let ?b = "a\<lparr>at_transport := w\<rparr>"
  have same: "accounted ?b = accounted a" by (simp add: accounted_simps)
  show ?thesis
  proof (cases r)
    case (Inl e)
    then show ?thesis using rd
      by (auto simp: exchange_receive_def exchange_failed_def Let_def ended_def accounted_simps
          intro!: keeps_closing split: option.split prod.split)
  next
    case (Inr m)
    have "message_keeps ?b (connection_message X (u_as_str (ap_gateway t)) (ap_generation t) (ap_hello_id t) m ?b)"
      using assms by (auto simp: fits_def intro!: connection_message_keeps)
    then have "message_keeps a (connection_message X (u_as_str (ap_gateway t)) (ap_generation t) (ap_hello_id t) m ?b)"
      using same by (simp add: message_keeps_def)
    then show ?thesis using rd Inr by (simp add: exchange_receive_def handled_keeps)
  qed
qed

lemma control_keeps:
  assumes "fits (Exchanging t) a"
  shows "keeps_requests a (exchange_control X t c a)"
  using published_keeps [OF assms]
  by (cases c) (auto simp: exchange_control_def ended_def accounted_simps shutdown_keeps intro!: keeps_closing)

text \<open>A wake-up other than a request keeps them all; a request is added.\<close>

lemma woken_keeps:
  assumes "fits g a" "\<And>q. w \<noteq> Request q"
  shows "keeps_requests a (woken X g w a)"
proof -
  have same: "keeps_requests a (g, a)" using assms(1) by (simp add: keeps_requests_def)
  show ?thesis
  proof (cases g)
    case WaitingForReconnect
    then have "at_awaiting a = []" using assms(1) by (simp add: fits_def)
    then show ?thesis using WaitingForReconnect assms(2) same
      by (auto simp: woken_def waiting_woken_def held_simps intro!: keeps_held keeps_top keeps_returned
          split: wake.split ConnectionControl.split)
  next
    case (Delaying d again)
    then have "at_awaiting a = []" using assms(1) by (simp add: fits_def)
    then show ?thesis using Delaying assms(2) same
      by (auto simp: woken_def delaying_woken_def Let_def held_simps intro!: keeps_held keeps_top keeps_returned
          split: wake.split ConnectionControl.split)
  next
    case (Exchanging t)
    then show ?thesis using assms same control_keeps exchange_receive_keeps shutdown_keeps
      by (cases w) (auto simp: woken_def exchange_woken_def hello_timed_out_def ended_def accounted_simps
          intro!: keeps_closing keeps_returned)
  qed (use same in \<open>simp_all add: woken_def\<close>)
qed

lemma requested_keeps:
  assumes "fits g a" "case g of WaitingForReconnect \<Rightarrow> True | Exchanging _ \<Rightarrow> True | _ \<Rightarrow> False"
  shows "accounted (snd (woken X g (Request q) a)) = add_mset (or_id q) (accounted a) \<and>
    fits (fst (woken X g (Request q) a)) (snd (woken X g (Request q) a))"
  using assms exchange_request_keeps
  by (cases g) (auto simp: woken_def waiting_woken_def exchange_woken_def fits_def)

end
