(* ===== verification/Connection_Runs.thy ===== *)
theory Connection_Runs
  imports Connection_Laws
begin

text \<open>
  Runs of the connection actor, interleaved with everything else the application does, and what holds
  along them: the requests are accounted for, the socket of an attempt carries a run of the session
  automaton, and a connection is used only in a version it offered.
\<close>

section \<open>Runs\<close>

text \<open>
  A step is a stage, a wake-up, a report of the agent with a fresh completion channel, or what the rest
  of the application does to the service, tasks included: the relation \<open>R\<close>. The list holds the requests made.
\<close>

type_synonym 's connection_world = "stage \<times> 's Actor \<times> OutboundRequest list"

fun reads_requests :: "stage \<Rightarrow> bool" where
  "reads_requests WaitingForReconnect = True"
| "reads_requests (Exchanging _) = True"
| "reads_requests _ = False"

fun reads_controls :: "stage \<Rightarrow> bool" where
  "reads_controls (Delaying _ _) = True"
| "reads_controls g = reads_requests g"

inductive actor_step ::
  "('doc, 's) actor_env \<Rightarrow> ('s Service \<Rightarrow> 's Service \<Rightarrow> bool) \<Rightarrow> 's connection_world \<Rightarrow> 's connection_world \<Rightarrow> bool"
  for X R where
  advancing: "advance X g a = (g', a') \<Longrightarrow> actor_step X R (g, a, qs) (g', a', qs)"
| timer: "woken X g Timer a = (g', a') \<Longrightarrow> actor_step X R (g, a, qs) (g', a', qs)"
| readable: "woken X g SocketReady a = (g', a') \<Longrightarrow> actor_step X R (g, a, qs) (g', a', qs)"
| cancelled: "sv_shutdown (at_service a) \<Longrightarrow> woken X g Cancelled a = (g', a') \<Longrightarrow> actor_step X R (g, a, qs) (g', a', qs)"
| closed: "at_channel a = [] \<Longrightarrow> woken X g RequestsClosed a = (g', a') \<Longrightarrow> actor_step X R (g, a, qs) (g', a', qs)"
| controlled: "reads_controls g \<Longrightarrow> sv_controls (at_service a) = c # cs \<Longrightarrow>
    woken X g (Control c) (on_service (\<lambda>s. s\<lparr>sv_controls := cs\<rparr>) a) = (g', a') \<Longrightarrow> actor_step X R (g, a, qs) (g', a', qs)"
| requested: "reads_requests g \<Longrightarrow> at_channel a = q # rs \<Longrightarrow>
    woken X g (Request q) (a\<lparr>at_channel := rs\<rparr>) = (g', a') \<Longrightarrow> actor_step X R (g, a, qs) (g', a', qs)"
| reporting: "g \<noteq> Returned \<Longrightarrow> or_id q \<notin> or_id ` set qs \<Longrightarrow>
    actor_step X R (g, a, qs) (g, a\<lparr>at_channel := at_channel a @ [q]\<rparr>, qs @ [q])"
| serving: "R (at_service a) s \<Longrightarrow> actor_step X R (g, a, qs) (g, a\<lparr>at_service := s\<rparr>, qs)"
| working: "R (at_service a) s \<Longrightarrow> at_tasks a = ts @ t # us \<Longrightarrow> actor_step X R (g, a, qs) (g, a\<lparr>at_tasks := ts @ us, at_service := s\<rparr>, qs)"

definition actor_run ::
  "('doc, 's) actor_env \<Rightarrow> ('s Service \<Rightarrow> 's Service \<Rightarrow> bool) \<Rightarrow> 's Service \<Rightarrow> WebSocketTransport \<Rightarrow> 's connection_world \<Rightarrow> bool" where
  "actor_run X R s w c \<longleftrightarrow>
     (case supervisor_start X s w of (g, a) \<Rightarrow> (actor_step X R)\<^sup>*\<^sup>* (g, a, []) c)"

lemma actor_run_induct [consumes 1, case_names start step]:
  assumes "actor_run X R s w c"
    and "P (Top, initial_actor s w \<lparr>rb_policy = BackoffPolicy_default, rb_attempts = 0\<rparr>, [])"
    and "\<And>c c'. actor_run X R s w c \<Longrightarrow> actor_step X R c c' \<Longrightarrow> P c \<Longrightarrow> P c'"
  shows "P c"
proof -
  let ?c0 = "(Top, initial_actor s w \<lparr>rb_policy = BackoffPolicy_default, rb_attempts = 0\<rparr>, [])"
  have run: "(actor_step X R)\<^sup>*\<^sup>* ?c0 c" using assms(1) by (simp add: actor_run_def supervisor_starts)
  then show ?thesis
  proof (induction rule: rtranclp_induct)
    case (step c c')
    then have "actor_run X R s w c" by (simp add: actor_run_def supervisor_starts)
    with step assms(3) show ?case by blast
  qed (rule assms(2))
qed

section \<open>Requests\<close>

definition requests_ok :: "'s connection_world \<Rightarrow> bool" where
  "requests_ok c \<longleftrightarrow> (case c of (g, a, qs) \<Rightarrow> accounted a = mset (map or_id qs) \<and> distinct (map or_id qs) \<and> fits g a)"

lemma fits_frame:
  "held b = held a \<Longrightarrow> at_handshaken b = at_handshaken a \<Longrightarrow> fits g b \<longleftrightarrow> fits g a"
  by (cases g) (auto simp: fits_def held_def)

lemma step_requests_ok:
  assumes "actor_step X R c c'" "requests_ok c"
  shows "requests_ok c'"
  using assms
proof (induction rule: actor_step.induct)
  case (advancing g a g' a' qs)
  then show ?case using advance_keeps [of g a X] by (auto simp: requests_ok_def keeps_requests_def)
next
  case (timer g a g' a' qs)
  then show ?case using woken_keeps [of g a Timer X] by (auto simp: requests_ok_def keeps_requests_def)
next
  case (readable g a g' a' qs)
  then show ?case using woken_keeps [of g a SocketReady X] by (auto simp: requests_ok_def keeps_requests_def)
next
  case (cancelled a g g' a' qs)
  then show ?case using woken_keeps [of g a Cancelled X] by (auto simp: requests_ok_def keeps_requests_def)
next
  case (closed a g g' a' qs)
  then show ?case using woken_keeps [of g a RequestsClosed X] by (auto simp: requests_ok_def keeps_requests_def)
next
  case (controlled g a c cs g' a' qs)
  let ?b = "on_service (\<lambda>s. s\<lparr>sv_controls := cs\<rparr>) a"
  have "held ?b = held a" "at_handshaken ?b = at_handshaken a" by (simp_all add: held_simps) (simp add: on_service_def)
  then have "fits g ?b" "accounted ?b = accounted a"
    using controlled(4) fits_frame [of ?b a g] held_accounted [of ?b a] by (auto simp: requests_ok_def)
  then show ?case using controlled(3,4) woken_keeps [of g ?b "Control c" X]
    by (auto simp: requests_ok_def keeps_requests_def)
next
  case (requested g a q rs g' a' qs)
  let ?b = "a\<lparr>at_channel := rs\<rparr>"
  have "fits g ?b" "add_mset (or_id q) (accounted ?b) = accounted a"
    using requested(2,4) by (auto simp: requests_ok_def fits_def accounted_def split: stage.splits)
  moreover have "case g of WaitingForReconnect \<Rightarrow> True | Exchanging _ \<Rightarrow> True | _ \<Rightarrow> False"
    using requested(1) by (cases g) auto
  ultimately show ?case using requested(3,4) requested_keeps [of g ?b X q]
    by (auto simp: requests_ok_def keeps_requests_def)
next
  case (reporting g q qs a)
  then show ?case by (auto simp: requests_ok_def fits_def accounted_def split: stage.splits)
next
  case (serving a s g qs)
  then show ?case using fits_frame [of "a\<lparr>at_service := s\<rparr>" a g] by (simp add: requests_ok_def held_simps accounted_simps)
next
  case (working a s ts t us g qs)
  then show ?case using fits_frame [of "a\<lparr>at_tasks := ts @ us, at_service := s\<rparr>" a g]
    by (simp add: requests_ok_def held_simps accounted_simps)
qed

lemma run_requests_ok: "actor_run X R s w c \<Longrightarrow> requests_ok c"
proof (induction rule: actor_run_induct)
  case start
  show ?case by (simp add: requests_ok_def accounted_def fits_def initial_actor_def)
qed (rule step_requests_ok)

section \<open>The socket\<close>

definition on_wire :: "('doc, 's) actor_env \<Rightarrow> 's Actor \<Rightarrow> bool" where
  "on_wire X a \<longleftrightarrow> transport_ok (actor_transport_env X a) (at_transport a)"

fun uses_socket :: "stage \<Rightarrow> bool" where
  "uses_socket (SocketOpened _) = True"
| "uses_socket (Authenticating _) = True"
| "uses_socket (AwaitingChallenge _) = True"
| "uses_socket (SigningChallenge _ _) = True"
| "uses_socket (Proving _ _ _) = True"
| "uses_socket (AwaitingAcceptance _) = True"
| "uses_socket (Greeting _) = True"
| "uses_socket (GreetFailed _ _) = True"
| "uses_socket (Exchanging _) = True"
| "uses_socket (ClosingConnection _) = True"
| "uses_socket _ = False"

definition linked :: "('doc, 's) actor_env \<Rightarrow> stage \<Rightarrow> 's Actor \<Rightarrow> bool" where
  "linked X g a \<longleftrightarrow> (uses_socket g \<longrightarrow> on_wire X a)"

named_theorems wire_simps \<open>operations of the actor that do not touch the socket\<close>

lemma on_wire_fields [wire_simps]:
  "on_wire X (on_service f a) = on_wire X a"
  "on_wire X (a\<lparr>at_service := s\<rparr>) = on_wire X a" "on_wire X (a\<lparr>at_backoff := b\<rparr>) = on_wire X a"
  "on_wire X (a\<lparr>at_automatic := x\<rparr>) = on_wire X a" "on_wire X (a\<lparr>at_retry_after := d\<rparr>) = on_wire X a"
  "on_wire X (a\<lparr>at_planner := p\<rparr>) = on_wire X a" "on_wire X (a\<lparr>at_handshaken := x\<rparr>) = on_wire X a"
  "on_wire X (a\<lparr>at_negotiation := n\<rparr>) = on_wire X a" "on_wire X (a\<lparr>at_tasks := ts\<rparr>) = on_wire X a"
  "on_wire X (a\<lparr>at_awaiting := q\<rparr>) = on_wire X a" "on_wire X (a\<lparr>at_channel := q\<rparr>) = on_wire X a"
  "on_wire X (a\<lparr>at_answers := r\<rparr>) = on_wire X a" "on_wire X (a\<lparr>at_tick := k\<rparr>) = on_wire X a"
  by (simp_all add: on_wire_def actor_transport_env_def on_service_def)

lemma on_wire_helpers [wire_simps]:
  "on_wire X (actor_error Y m a) = on_wire X a" "on_wire X (transport_failed Y e a) = on_wire X a"
  "on_wire X (actor_log Y l c m a) = on_wire X a" "on_wire X (spawn t a) = on_wire X a"
  "on_wire X (pause a) = on_wire X a" "on_wire X (reset_backoff a) = on_wire X a"
  "on_wire X (answer q r a) = on_wire X a" "on_wire X (reject_pending m a) = on_wire X a"
  "on_wire X (finish_outbound m a) = on_wire X a" "on_wire X (drop_pending a) = on_wire X a"
  by (simp_all add: actor_error_def transport_failed_def actor_log_def spawn_def pause_def reset_backoff_def
      answer_def reject_pending_def finish_outbound_def drop_pending_def wire_simps)

lemma on_wire_next: "next_retry_delay Y a = (d, b) \<Longrightarrow> on_wire X b = on_wire X a"
  by (auto simp: next_retry_delay_def wire_simps split: prod.splits)

lemma on_wire_retry [wire_simps]:
  "on_wire X (retry_later Y a) = on_wire X a" "on_wire X (retry_or_pause Y a) = on_wire X a"
  by (auto simp: retry_later_def retry_or_pause_def Let_def wire_simps on_wire_next split: prod.splits)

lemma on_wire_parts [wire_simps]:
  "on_wire X (disconnected_with_error Y e a) = on_wire X a" "on_wire X (hello_accepted Y g h a) = on_wire X a"
  "on_wire X (handshake_done Y t a) = on_wire X a"
  by (simp_all add: disconnected_with_error_def hello_accepted_def handshake_done_def Let_def wire_simps
      split: option.split)

lemma on_wire_transport:
  assumes "on_wire X a" "\<And>T. transport_ok T (at_transport a) \<Longrightarrow> transport_ok T w"
  shows "on_wire X (a\<lparr>at_transport := w\<rparr>)"
  using assms by (simp add: on_wire_def actor_transport_env_def)

lemma close_on_wire: "on_wire X a \<Longrightarrow> on_wire X (close_transport a)"
  unfolding close_transport_def
  by (rule on_wire_transport) (auto intro: close_keeps [OF surjective_pairing])

lemma send_on_wire: "actor_send X m a = (r, b) \<Longrightarrow> on_wire X a \<Longrightarrow> on_wire X b"
  by (auto simp: actor_send_def on_wire_def actor_transport_env_def intro: send_keeps split: prod.splits)

lemma inventory_on_wire: "send_inventory X c v a = (r, b) \<Longrightarrow> on_wire X a \<Longrightarrow> on_wire X b"
  by (auto simp: send_inventory_def Let_def wire_simps intro: send_on_wire split: sum.splits)

lemma awaiting_on_wire: "send_awaiting X qs a = (d, b) \<Longrightarrow> on_wire X a \<Longrightarrow> on_wire X b"
  by (induction X qs a arbitrary: d b rule: send_awaiting.induct)
    (auto simp: Let_def wire_simps dest: send_on_wire split: prod.splits sum.splits)

lemma linked_top [simp]: "linked X (fst (top a)) (snd (top a))" "linked X (fst (returned a)) (snd (returned a))"
  by (simp_all add: linked_def top_def returned_def)

lemma linked_ended: "on_wire X a \<Longrightarrow> linked X (fst (ended t a)) (snd (ended t a))"
  by (simp add: linked_def ended_def)

lemma authentication_ended_linked [simp]:
  "linked X (fst (authentication_ended Y m r a)) (snd (authentication_ended Y m r a))"
  by (simp add: authentication_ended_def)

lemma opening_linked: "linked X (fst (opening_stage X t a)) (snd (opening_stage X t a))"
proof (cases "WebSocketTransport_new (actor_transport_config t)")
  case (Inl e)
  then show ?thesis by (simp add: opening_stage_def linked_def)
next
  case (Inr w)
  obtain r w1 where conn: "transport_connect (actor_transport_env X a) w = (r, w1)"
    by (cases "transport_connect (actor_transport_env X a) w")
  have "transport_ok (actor_transport_env X a) w1" by (rule connect_keeps [OF conn new_keeps [OF Inr]])
  then show ?thesis using Inr conn
    by (cases r) (auto simp: opening_stage_def linked_def on_wire_def actor_transport_env_def)
qed

text \<open>The stages that use the socket, started on one that carries a session.\<close>

lemma socket_stages_linked:
  assumes "on_wire X a"
  shows "linked X (fst (opened_stage t a)) (snd (opened_stage t a))"
    "linked X (fst (challenge_stage X t a)) (snd (challenge_stage X t a))"
    "linked X (fst (signing_stage X t c a)) (snd (signing_stage X t c a))"
    "linked X (fst (proving_stage X t c s a)) (snd (proving_stage X t c s a))"
    "linked X (fst (acceptance_stage X t a)) (snd (acceptance_stage X t a))"
    "linked X (fst (greet_failed_stage X t e a)) (snd (greet_failed_stage X t e a))"
proof -
  show "linked X (fst (opened_stage t a)) (snd (opened_stage t a))"
    using assms by (simp add: opened_stage_def) (simp add: linked_def)
  show "linked X (fst (signing_stage X t c a)) (snd (signing_stage X t c a))"
    using assms by (auto simp: signing_stage_def split: prod.split sum.split) (simp add: linked_def wire_simps)
  show "linked X (fst (greet_failed_stage X t e a)) (snd (greet_failed_stage X t e a))"
    by (simp add: greet_failed_stage_def)
  obtain r w where rd: "receive_authentication (actor_transport_env X a) (at_transport a) = (r, w)"
    by (cases "receive_authentication (actor_transport_env X a) (at_transport a)")
  have b: "on_wire X (a\<lparr>at_transport := w\<rparr>)"
    using assms receive_authentication_keeps [OF rd] by (simp add: on_wire_def actor_transport_env_def)
  show "linked X (fst (challenge_stage X t a)) (snd (challenge_stage X t a))"
    using rd b by (auto simp: challenge_stage_def Let_def split: sum.split GatewayAuthenticationServerMessage.split)
      (simp add: linked_def)
  show "linked X (fst (acceptance_stage X t a)) (snd (acceptance_stage X t a))"
    using rd b
    by (auto simp: acceptance_stage_def Let_def
        split: sum.split GatewayAuthenticationServerMessage.split TransportError.split)
      (simp add: linked_def)
  obtain r' w' where wr: "send_authentication_response (actor_transport_env X a) (proof_of (ap_connection t) c s)
      (at_transport a) = (r', w')"
    by (cases "send_authentication_response (actor_transport_env X a) (proof_of (ap_connection t) c s) (at_transport a)")
  have "on_wire X (a\<lparr>at_transport := w'\<rparr>)"
    using assms send_authentication_response_keeps [OF wr] by (simp add: on_wire_def actor_transport_env_def)
  then show "linked X (fst (proving_stage X t c s a)) (snd (proving_stage X t c s a))"
    using wr by (auto simp: proving_stage_def split: sum.split) (simp add: linked_def)
qed

lemma greeting_linked:
  assumes "on_wire X a"
  shows "linked X (fst (greeting_stage X t a)) (snd (greeting_stage X t a))"
proof -
  let ?b = "a\<lparr>at_planner := Some (attempt_planner X t a), at_tick := Suc (at_tick a)\<rparr>"
  let ?m = "hello_message X (oc_agent_id (ap_connection t)) (offered (attempt_planner X t a)) (at_tick a)"
  obtain r a1 where send: "actor_send X ?m ?b = (r, a1)" by (cases "actor_send X ?m ?b")
  have "on_wire X a1" by (rule send_on_wire [OF send]) (simp add: assms wire_simps)
  then show ?thesis using send
    by (cases r) (auto simp: greeting_stage_def Let_def linked_def wire_simps)
qed

lemma advance_linked:
  assumes "linked X g a"
  shows "linked X (fst (advance X g a)) (snd (advance X g a))"
proof (cases "uses_socket g")
  case True
  then have "on_wire X a" using assms by (simp add: linked_def)
  note stages = socket_stages_linked [OF this] greeting_linked [OF this] this
  show ?thesis
    using True by (cases g) (auto simp: advance_def stages closing_stage_def Let_def, simp_all add: linked_def stages wire_simps)
next
  case False
  then show ?thesis using opening_linked
    by (cases g) (auto simp: advance_def top_stage_def delay_stage_def reading_stage_def discovering_stage_def
        preparing_stage_def open_failed_stage_def Let_def split: option.split sum.split prod.split,
        auto simp: linked_def)
qed

section \<open>The handshake and the tasks\<close>

definition core :: "'s Actor \<Rightarrow> bool \<times> ConnectionNegotiation \<times> connection_task list" where
  "core a = (at_handshaken a, at_negotiation a, at_tasks a)"

named_theorems core_simps \<open>operations of the actor that leave handshake and tasks alone\<close>

lemma core_fields [core_simps]:
  "core (on_service f a) = core a" "core (a\<lparr>at_service := s\<rparr>) = core a" "core (a\<lparr>at_transport := w\<rparr>) = core a"
  "core (a\<lparr>at_backoff := b\<rparr>) = core a" "core (a\<lparr>at_automatic := x\<rparr>) = core a"
  "core (a\<lparr>at_retry_after := d\<rparr>) = core a" "core (a\<lparr>at_planner := p\<rparr>) = core a"
  "core (a\<lparr>at_awaiting := q\<rparr>) = core a" "core (a\<lparr>at_channel := q\<rparr>) = core a" "core (a\<lparr>at_answers := r\<rparr>) = core a"
  "core (a\<lparr>at_attempts := k\<rparr>) = core a" "core (a\<lparr>at_tick := k\<rparr>) = core a"
  by (simp_all add: core_def on_service_def)

lemma core_helpers [core_simps]:
  "core (actor_error Y m a) = core a" "core (transport_failed Y e a) = core a" "core (actor_log Y l c m a) = core a"
  "core (pause a) = core a" "core (reset_backoff a) = core a" "core (answer q r a) = core a"
  "core (reject_pending m a) = core a" "core (finish_outbound m a) = core a" "core (drop_pending a) = core a"
  "core (close_transport a) = core a"
  by (simp_all add: actor_error_def transport_failed_def actor_log_def pause_def reset_backoff_def close_transport_def
      answer_def reject_pending_def finish_outbound_def drop_pending_def core_simps)

lemma core_next: "next_retry_delay Y a = (d, b) \<Longrightarrow> core b = core a"
  by (auto simp: next_retry_delay_def core_simps split: prod.splits)

lemma core_parts [core_simps]:
  "core (retry_later Y a) = core a" "core (retry_or_pause Y a) = core a" "core (disconnected_with_error Y e a) = core a"
  "core (handshake_done Y t a) = core a" "core (snd (returned a)) = core a"
  by (auto simp: retry_later_def retry_or_pause_def disconnected_with_error_def handshake_done_def returned_def
      Let_def core_simps core_next split: prod.splits option.split)

lemma core_send: "actor_send X m a = (r, b) \<Longrightarrow> core b = core a"
  by (auto simp: actor_send_def core_simps split: prod.splits)

lemma core_inventory: "send_inventory X c v a = (r, b) \<Longrightarrow> core b = core a"
  by (auto simp: send_inventory_def Let_def core_simps dest!: core_send split: sum.splits)

lemma core_awaiting: "send_awaiting X qs a = (d, b) \<Longrightarrow> core b = core a"
  by (induction X qs a arbitrary: d b rule: send_awaiting.induct)
    (auto simp: Let_def core_simps dest!: core_send split: prod.splits sum.splits)

lemma core_unless_failed: "unless_failed X r = (d, b) \<Longrightarrow> core b = core (snd r)"
  by (auto simp: unless_failed_def core_simps split: prod.splits sum.splits)

lemma core_invalidated: "handle_invalidated X a = (d, b) \<Longrightarrow> core b = core a"
  unfolding handle_invalidated_def Let_def
  by (drule core_unless_failed)
    (auto simp: core_simps core_inventory [OF surjective_pairing] split: prod.splits sum.splits)

definition negotiated :: "'s Actor \<Rightarrow> bool" where
  "negotiated a \<longleftrightarrow> (at_handshaken a \<longrightarrow>
     (\<exists>v. ng_selected (at_negotiation a) = Some v \<and> v \<in> set (ng_offered (at_negotiation a))))"

lemma negotiated_core: "core b = core a \<Longrightarrow> negotiated b \<longleftrightarrow> negotiated a"
  unfolding core_def negotiated_def by (elim Pair_inject) simp

text \<open>The tasks a message of the server starts.\<close>

definition admitted_task :: "64 word \<Rightarrow> ServerMessage \<Rightarrow> 's Actor \<Rightarrow> connection_task \<Rightarrow> bool" where
  "admitted_task gen m a t \<longleftrightarrow> same_generation gen a \<and> (case t of
     RecoveryTask \<Rightarrow> \<not> at_handshaken a \<and> is_server_hello (sm_kind m)
   | DeliveryTask m' j \<Rightarrow> m' = m \<and> at_handshaken a \<and>
       (\<exists>job. sm_kind m = ServerPrintJobMsg job \<and> job_id job = j) \<and>
       (sm_protocol_version m = EXTENDED \<longrightarrow> ng_selected (at_negotiation a) = Some EXTENDED)
   | CancellationTask m' \<Rightarrow> m' = m \<and> at_handshaken a \<and>
       (\<exists>c. sm_kind m = ServerCancelJobMsg c) \<and>
       (sm_protocol_version m = EXTENDED \<longrightarrow> ng_selected (at_negotiation a) = Some EXTENDED))"

definition message_effect ::
  "('doc, 's) actor_env \<Rightarrow> 64 word \<Rightarrow> ServerMessage \<Rightarrow> 's Actor \<Rightarrow> 's Actor \<Rightarrow> bool" where
  "message_effect X gen m a b \<longleftrightarrow> (on_wire X a \<longrightarrow> on_wire X b) \<and> (negotiated a \<longrightarrow> negotiated b) \<and>
     (\<exists>ts. at_tasks b = at_tasks a @ ts \<and> list_all (admitted_task gen m a) ts)"

lemma message_effect_core:
  "core b = core a \<Longrightarrow> (on_wire X a \<Longrightarrow> on_wire X b) \<Longrightarrow> message_effect X gen m a b"
  using negotiated_core [of b a] by (auto simp: message_effect_def core_def)

lemma hello_effect:
  assumes "handle_hello X g i c h a = (d, b)" "same_generation gen a" "is_server_hello (sm_kind m)"
  shows "message_effect X gen m a b"
proof (cases "at_handshaken a \<or> c \<noteq> Some i \<or> sh_selected_version h \<notin> set (ng_offered (at_negotiation a))")
  case True
  then show ?thesis using assms(1)
    by (auto simp: handle_hello_def core_simps wire_simps intro!: message_effect_core split: if_splits)
next
  case False
  let ?v = "sh_selected_version h"
  let ?a1 = "hello_accepted X g h a"
  have core1: "core ?a1 = (True, (at_negotiation a)\<lparr>ng_selected := Some ?v\<rparr>, at_tasks a)"
    by (simp add: hello_accepted_def Let_def core_simps) (simp add: core_def)
  obtain r a2 where inv: "send_inventory X None ?v ?a1 = (r, a2)" by (cases "send_inventory X None ?v ?a1")
  have w2: "on_wire X a \<Longrightarrow> on_wire X a2" using inventory_on_wire [OF inv] by (simp add: wire_simps)
  have core2: "core a2 = core ?a1" by (rule core_inventory [OF inv])
  obtain d' a3 where sent: "send_awaiting X (at_awaiting a2) a2 = (d', a3)" by (cases "send_awaiting X (at_awaiting a2) a2")
  have w3: "on_wire X a \<Longrightarrow> on_wire X a3" using awaiting_on_wire [OF sent] w2 by simp
  have core3: "core a3 = core ?a1" using core_awaiting [OF sent] core2 by simp
  have b: "b = transport_failed X (projl r) a2 \<or> b = a3 \<or> b = spawn RecoveryTask a3"
    using assms(1) False inv sent by (auto simp: handle_hello_def split: sum.splits MessageDisposition.splits)
  then have "on_wire X a \<Longrightarrow> on_wire X b" using w2 w3 by (auto simp: wire_simps)
  moreover have "core b = core ?a1 \<or> core b = (True, (at_negotiation a)\<lparr>ng_selected := Some ?v\<rparr>, at_tasks a @ [RecoveryTask])"
    using b core1 core2 core3 by (auto simp: core_simps) (auto simp: spawn_def core_def)
  ultimately show ?thesis using False assms(2,3) core1
    by (auto simp: message_effect_def core_def negotiated_def admitted_task_def)
qed

lemma unless_failed_effect:
  assumes "unless_failed X r = (d, b)" "core (snd r) = core a" "on_wire X a \<Longrightarrow> on_wire X (snd r)"
  shows "message_effect X gen m a b"
proof -
  have "b = snd r \<or> (\<exists>e. b = transport_failed X e (snd r))"
    using assms(1) by (cases r) (auto simp: unless_failed_def split: sum.splits)
  then show ?thesis using assms(2,3) by (auto simp: core_simps wire_simps intro!: message_effect_core)
qed

lemma send_effect:
  assumes "unless_failed X (actor_send X k c) = (d, b)" "core c = core a" "on_wire X c = on_wire X a"
  shows "message_effect X gen m a b"
proof (rule unless_failed_effect [OF assms(1)])
  show "core (snd (actor_send X k c)) = core a" using core_send [OF surjective_pairing] assms(2) by metis
  show "on_wire X a \<Longrightarrow> on_wire X (snd (actor_send X k c))"
    using send_on_wire [OF surjective_pairing] assms(3) by metis
qed

lemma inventory_effect:
  assumes "unless_failed X (send_inventory X k v c) = (d, b)" "core c = core a" "on_wire X c = on_wire X a"
  shows "message_effect X gen m a b"
proof (rule unless_failed_effect [OF assms(1)])
  show "core (snd (send_inventory X k v c)) = core a" using core_inventory [OF surjective_pairing] assms(2) by metis
  show "on_wire X a \<Longrightarrow> on_wire X (snd (send_inventory X k v c))"
    using inventory_on_wire [OF surjective_pairing] assms(3) by metis
qed

lemma task_effect:
  "admitted_task gen m a t \<Longrightarrow> core c = core a \<Longrightarrow> on_wire X c = on_wire X a \<Longrightarrow> message_effect X gen m a (spawn t c)"
  by (auto simp: message_effect_def core_def negotiated_def spawn_def wire_simps)

lemma dispatch_effect:
  assumes "dispatch_message X g i m a = (d, b)" "same_generation gen a"
    and "at_handshaken a \<or> is_server_hello (sm_kind m)"
    and "at_handshaken a \<and> sm_protocol_version m = EXTENDED \<Longrightarrow> ng_selected (at_negotiation a) = Some EXTENDED"
  shows "message_effect X gen m a b"
proof (cases "sm_kind m")
  case (ServerHelloMsg h)
  then show ?thesis using hello_effect [of X g i _ h a d b gen m] assms(1,2) by (auto simp: dispatch_message_def)
next
  case (ServerHeartbeatMsg h)
  then show ?thesis using assms(1)
    by (cases "at_handshaken a")
      (auto simp: dispatch_message_def core_simps wire_simps elim!: send_effect, auto intro!: message_effect_core)
next
  case ServerRequestInventoryMsg
  then show ?thesis using assms(1) by (auto simp: dispatch_message_def elim: inventory_effect)
next
  case (ServerConfigurationInvalidatedMsg c)
  then show ?thesis using assms(1)
    by (auto simp: dispatch_message_def handle_invalidated_def Let_def core_simps wire_simps elim!: inventory_effect
        split: prod.splits sum.splits)
next
  case (ServerPrintJobMsg job)
  then show ?thesis using assms
    by (auto simp: dispatch_message_def core_simps wire_simps admitted_task_def intro!: task_effect)
next
  case (ServerCancelJobMsg c)
  then show ?thesis using assms by (auto simp: dispatch_message_def admitted_task_def intro!: task_effect)
next
  case (ServerDisconnectMsg c)
  then show ?thesis using assms(1)
    by (auto simp: dispatch_message_def handle_disconnect_def core_simps wire_simps intro!: message_effect_core)
qed

lemma connection_message_effect:
  assumes "connection_message X g gen i m a = (d, b)"
  shows "message_effect X gen m a b"
proof (cases "same_generation gen a \<and> (at_handshaken a \<or> is_server_hello (sm_kind m)) \<and>
    \<not> (at_handshaken a \<and> sm_protocol_version m = EXTENDED \<and> ng_selected (at_negotiation a) \<noteq> Some EXTENDED)")
  case True
  then have "dispatch_message X g i m a = (d, b)" using assms by (auto simp: connection_message_def)
  then show ?thesis using True by (auto elim: dispatch_effect)
next
  case False
  then show ?thesis using assms
    by (auto simp: connection_message_def core_simps wire_simps intro!: message_effect_core split: if_splits)
qed

text \<open>What a step leaves of socket, handshake and tasks.\<close>

definition step_effect :: "('doc, 's) actor_env \<Rightarrow> stage \<Rightarrow> 's Actor \<Rightarrow> stage \<times> 's Actor \<Rightarrow> bool" where
  "step_effect X g a r \<longleftrightarrow> (case r of (g', b) \<Rightarrow>
     (linked X g a \<longrightarrow> linked X g' b) \<and> (negotiated a \<longrightarrow> negotiated b) \<and>
     (\<exists>ts. at_tasks b = at_tasks a @ ts \<and> list_all (\<lambda>k. \<exists>t m w. g = Exchanging t \<and>
        transport_receive (actor_transport_env X a) (at_transport a) = (Ok m, w) \<and>
        admitted_task (ap_generation t) m a k) ts))"

lemma step_effect_core:
  assumes "core (snd r) = core a" "linked X g a \<Longrightarrow> linked X (fst r) (snd r)"
  shows "step_effect X g a r"
  using assms negotiated_core [OF assms(1)] by (cases r) (auto simp: step_effect_def core_def)

lemma handled_effect:
  assumes "message_effect X gen m a b"
  shows "\<exists>g' c. message_handled X t w (d, b) = (g', c) \<and> message_effect X gen m a c"
proof -
  have "\<exists>g' c. message_handled X t w (d, b) = (g', c) \<and> core c = core b \<and> on_wire X c = on_wire X b"
    by (cases d) (auto simp: message_handled_def Let_def core_simps wire_simps split: option.split)
  then obtain g' c where c: "message_handled X t w (d, b) = (g', c)" "core c = core b" "on_wire X c = on_wire X b"
    by blast
  then have "message_effect X gen m a c"
    using assms negotiated_core [OF c(2)] by (auto simp: message_effect_def core_def)
  with c(1) show ?thesis by blast
qed

lemma core_ends [core_simps]: "core (snd (top a)) = core a" "core (snd (ended t a)) = core a"
  by (simp_all add: top_def ended_def)

lemma core_authentication_ended [core_simps]: "core (snd (authentication_ended X m r a)) = core a"
  by (simp add: authentication_ended_def core_simps)

lemma stages_core:
  "core (snd (top_stage a)) = core a" "core (snd (delay_stage a)) = core a" "core (snd (reading_stage a)) = core a"
  "core (snd (discovering_stage X t a)) = core a" "core (snd (preparing_stage X t a)) = core a"
  "core (snd (opening_stage X t a)) = core a" "core (snd (open_failed_stage X t e b a)) = core a"
  "core (snd (opened_stage t a)) = core a" "core (snd (challenge_stage X t a)) = core a"
  "core (snd (signing_stage X t c a)) = core a" "core (snd (proving_stage X t c s a)) = core a"
  "core (snd (acceptance_stage X t a)) = core a" "core (snd (greet_failed_stage X t e a)) = core a"
  "core (snd (closing_stage X t a)) = core a"
  by (simp_all add: top_stage_def delay_stage_def reading_stage_def discovering_stage_def preparing_stage_def
      opening_stage_def opened_stage_def challenge_stage_def signing_stage_def proving_stage_def acceptance_stage_def
      greet_failed_stage_def closing_stage_def Let_def core_simps
      split: option.split sum.split prod.split GatewayAuthenticationServerMessage.split TransportError.split)
    (auto simp: open_failed_stage_def Let_def core_simps dest!: core_next split: option.split prod.split)

lemma greeting_effect: "step_effect X (Greeting t) a (greeting_stage X t a)"
proof -
  let ?b = "a\<lparr>at_planner := Some (attempt_planner X t a), at_tick := Suc (at_tick a)\<rparr>"
  let ?m = "hello_message X (oc_agent_id (ap_connection t)) (offered (attempt_planner X t a)) (at_tick a)"
  obtain r a1 where send: "actor_send X ?m ?b = (r, a1)" by (cases "actor_send X ?m ?b")
  then have "core a1 = core a" using core_send [OF send] by (simp add: core_simps)
  moreover have "linked X (Greeting t) a \<Longrightarrow> linked X (fst (greeting_stage X t a)) (snd (greeting_stage X t a))"
    by (rule greeting_linked) (simp add: linked_def)
  ultimately show ?thesis using send
    by (cases r) (auto simp: step_effect_def greeting_stage_def Let_def core_def negotiated_def actor_log_def on_service_def)
qed

lemma advance_effect: "step_effect X g a (advance X g a)"
proof (cases "\<exists>t. g = Greeting t")
  case True
  then show ?thesis using greeting_effect by (auto simp: advance_def)
next
  case False
  then have "core (snd (advance X g a)) = core a"
    by (cases g) (auto simp: advance_def stages_core core_simps)
  then show ?thesis by (rule step_effect_core) (rule advance_linked)
qed

lemma closing_effect:
  assumes "core b = core a" "on_wire X a \<Longrightarrow> on_wire X b"
  shows "step_effect X (Exchanging t) a (ended t b)"
  using assms by (intro step_effect_core) (auto simp: ended_def linked_def)

lemma returned_effect: "core b = core a \<Longrightarrow> step_effect X g a (returned b)"
  by (intro step_effect_core) (simp_all add: core_simps)

lemma exchange_control_effect: "step_effect X (Exchanging t) a (exchange_control X t c a)"
proof -
  obtain r b where inv: "send_inventory X None (selected_version a) a = (r, b)"
    by (cases "send_inventory X None (selected_version a) a")
  have same: "core b = core a" "on_wire X a \<Longrightarrow> on_wire X b" using core_inventory [OF inv] inventory_on_wire [OF inv] by auto
  have stay: "step_effect X (Exchanging t) a (Exchanging t, a)" "step_effect X (Exchanging t) a (Exchanging t, b)"
    using same by (auto intro!: step_effect_core simp: linked_def)
  show ?thesis using inv same stay
    by (cases c; cases r) (auto simp: exchange_control_def exchange_publish_def exchange_shutdown_def core_simps wire_simps
        intro!: closing_effect returned_effect close_on_wire)
qed

lemma exchange_request_effect: "step_effect X (Exchanging t) a (exchange_request X t q a)"
proof -
  obtain r b where sent: "actor_send X (or_message q) a = (r, b)" by (cases "actor_send X (or_message q) a")
  have same: "core b = core a" "on_wire X a \<Longrightarrow> on_wire X b" using core_send [OF sent] send_on_wire [OF sent] by auto
  have stay: "step_effect X (Exchanging t) a (Exchanging t, c)" if "core c = core a" "on_wire X a \<Longrightarrow> on_wire X c" for c
    using that by (auto intro!: step_effect_core simp: linked_def)
  show ?thesis using sent same
    by (cases r) (auto simp: exchange_request_def Let_def core_simps wire_simps intro!: closing_effect stay)
qed

lemma exchange_receive_effect: "step_effect X (Exchanging t) a (exchange_receive X t a)"
proof -
  obtain r w where rd: "transport_receive (actor_transport_env X a) (at_transport a) = (r, w)"
    by (cases "transport_receive (actor_transport_env X a) (at_transport a)")
  let ?b = "a\<lparr>at_transport := w\<rparr>"
  have wire: "on_wire X ?b" if "on_wire X a"
    using that receive_keeps [OF rd] by (simp add: on_wire_def actor_transport_env_def)
  show ?thesis
  proof (cases r)
    case (Inl e)
    have "core (case on_closed_before_hello p of (x, p') \<Rightarrow> (?b\<lparr>at_planner := Some p'\<rparr>)) = core a" for p
      by (simp add: core_simps split: prod.split)
    then show ?thesis using rd Inl wire
      by (auto simp: exchange_receive_def exchange_failed_def Let_def core_simps wire_simps
          intro!: closing_effect split: option.split prod.split)
  next
    case (Inr m)
    obtain d b where cm: "connection_message X (u_as_str (ap_gateway t)) (ap_generation t) (ap_hello_id t) m ?b = (d, b)"
      by (cases "connection_message X (u_as_str (ap_gateway t)) (ap_generation t) (ap_hello_id t) m ?b")
    obtain g' c where c: "message_handled X t (at_handshaken a) (d, b) = (g', c)"
        "message_effect X (ap_generation t) m ?b c"
      using handled_effect [OF connection_message_effect [OF cm]] by blast
    have "admitted_task (ap_generation t) m ?b = admitted_task (ap_generation t) m a"
      by (simp add: admitted_task_def same_generation_def fun_eq_iff split: connection_task.split)
    then have "message_effect X (ap_generation t) m ?b c \<longleftrightarrow> (on_wire X ?b \<longrightarrow> on_wire X c) \<and> (negotiated a \<longrightarrow> negotiated c) \<and>
        (\<exists>ts. at_tasks c = at_tasks a @ ts \<and> list_all (admitted_task (ap_generation t) m a) ts)"
      by (simp add: message_effect_def negotiated_def)
    moreover have "linked X (Exchanging t) a \<Longrightarrow> on_wire X c \<Longrightarrow> linked X g' c" by (simp add: linked_def)
    ultimately show ?thesis using rd Inr cm c wire
      by (auto simp: exchange_receive_def step_effect_def linked_def list_all_iff)
  qed
qed

lemma woken_effect: "step_effect X g a (woken X g w a)"
proof -
  have stay: "step_effect X g a (g, a)" by (auto intro!: step_effect_core)
  have quiet: "step_effect X h a (g', b)" if "core b = core a" "\<not> uses_socket g'" for h g' b
    using that by (auto intro!: step_effect_core simp: linked_def)
  show ?thesis
  proof (cases g)
    case WaitingForReconnect
    then show ?thesis using stay
      by (auto simp: woken_def waiting_woken_def top_def core_simps intro!: quiet returned_effect
          split: wake.split ConnectionControl.split)
  next
    case (Delaying d again)
    then show ?thesis using stay
      by (auto simp: woken_def delaying_woken_def Let_def top_def core_simps intro!: quiet returned_effect
          split: wake.split ConnectionControl.split)
  next
    case (Exchanging t)
    then show ?thesis using stay exchange_control_effect exchange_request_effect exchange_receive_effect
      by (cases w) (auto simp: woken_def exchange_woken_def hello_timed_out_def exchange_shutdown_def core_simps wire_simps
          intro!: closing_effect returned_effect)
  qed (use stay in \<open>simp_all add: woken_def\<close>)
qed

section \<open>Along a run\<close>

definition world_linked :: "('doc, 's) actor_env \<Rightarrow> 's connection_world \<Rightarrow> bool" where
  "world_linked X c \<longleftrightarrow> (case c of (g, a, qs) \<Rightarrow> linked X g a \<and> negotiated a)"

lemma step_effect_linked: "step_effect X g a (g', b) \<Longrightarrow> linked X g a \<Longrightarrow> negotiated a \<Longrightarrow> linked X g' b \<and> negotiated b"
  by (simp add: step_effect_def)

lemma linked_frame: "on_wire X b = on_wire X a \<Longrightarrow> core b = core a \<Longrightarrow> linked X g b = linked X g a \<and> negotiated b = negotiated a"
  using negotiated_core [of b a] by (simp add: linked_def)

lemma step_world_linked:
  assumes "actor_step X R c c'" "world_linked X c"
  shows "world_linked X c'"
  using assms
proof (induction rule: actor_step.induct)
  case (advancing g a g' a' qs)
  then show ?case using step_effect_linked [of X g a g' a'] advance_effect [of X g a] by (simp add: world_linked_def)
next
  case (timer g a g' a' qs)
  then show ?case using step_effect_linked [of X g a g' a'] woken_effect [of X g a Timer] by (simp add: world_linked_def)
next
  case (readable g a g' a' qs)
  then show ?case using step_effect_linked [of X g a g' a'] woken_effect [of X g a SocketReady] by (simp add: world_linked_def)
next
  case (cancelled a g g' a' qs)
  then show ?case using step_effect_linked [of X g a g' a'] woken_effect [of X g a Cancelled] by (simp add: world_linked_def)
next
  case (closed a g g' a' qs)
  then show ?case using step_effect_linked [of X g a g' a'] woken_effect [of X g a RequestsClosed] by (simp add: world_linked_def)
next
  case (controlled g a c cs g' a' qs)
  let ?b = "on_service (\<lambda>s. s\<lparr>sv_controls := cs\<rparr>) a"
  have "linked X g ?b = linked X g a \<and> negotiated ?b = negotiated a"
    by (rule linked_frame) (simp_all add: wire_simps core_simps)
  then show ?case using controlled(3,4) step_effect_linked [of X g ?b g' a'] woken_effect [of X g ?b "Control c"]
    by (simp add: world_linked_def)
next
  case (requested g a q rs g' a' qs)
  let ?b = "a\<lparr>at_channel := rs\<rparr>"
  have "linked X g ?b = linked X g a \<and> negotiated ?b = negotiated a"
    by (rule linked_frame) (simp_all add: wire_simps core_simps)
  then show ?case using requested(3,4) step_effect_linked [of X g ?b g' a'] woken_effect [of X g ?b "Request q"]
    by (simp add: world_linked_def)
next
  case (reporting g q qs a)
  then show ?case using linked_frame [of X "a\<lparr>at_channel := at_channel a @ [q]\<rparr>" a g]
    by (simp add: world_linked_def wire_simps core_simps)
next
  case (serving a s g qs)
  then show ?case using linked_frame [of X "a\<lparr>at_service := s\<rparr>" a g] by (simp add: world_linked_def wire_simps core_simps)
next
  case (working a s ts t us g qs)
  then show ?case by (auto simp: world_linked_def linked_def wire_simps negotiated_def)
qed

lemma run_world_linked: "actor_run X R s w c \<Longrightarrow> world_linked X c"
proof (induction rule: actor_run_induct)
  case start
  show ?case by (simp add: world_linked_def linked_def negotiated_def initial_actor_def)
qed (rule step_world_linked)

text \<open>A task that was not there before comes from a message read in the exchange.\<close>

lemma step_task:
  assumes "actor_step X R (g, a, qs) (g', a', qs')" "k \<in> set (at_tasks a')" "k \<notin> set (at_tasks a)"
  shows "\<exists>t m w. g = Exchanging t \<and> transport_receive (actor_transport_env X a) (at_transport a) = (Ok m, w) \<and>
    admitted_task (ap_generation t) m a k"
proof -
  have found: "\<exists>t m w. g = Exchanging t \<and> transport_receive (actor_transport_env X b) (at_transport b) = (Ok m, w) \<and>
      admitted_task (ap_generation t) m b k"
    if "step_effect X g b (g', a')" "at_tasks b = at_tasks a" for b
    using that assms(2,3) by (auto simp: step_effect_def list_all_iff)
  have woke: "step_effect X g a (g', a')" if "woken X g w a = (g', a')" for w
    using woken_effect [of X g a w] that by simp
  show ?thesis using assms(1)
  proof (cases rule: actor_step.cases)
    case advancing
    then show ?thesis using found [of a] advance_effect [of X g a] by simp
  next
    case (controlled c cs)
    let ?b = "on_service (\<lambda>s. s\<lparr>sv_controls := cs\<rparr>) a"
    have "at_tasks ?b = at_tasks a" "actor_transport_env X ?b = actor_transport_env X a" "at_transport ?b = at_transport a"
      "admitted_task gen m ?b k = admitted_task gen m a k" for gen m
      by (simp_all add: on_service_def actor_transport_env_def admitted_task_def same_generation_def split: connection_task.split)
    then show ?thesis using found [of ?b] woken_effect [of X g ?b "Control c"] controlled by simp
  next
    case (requested q rs)
    let ?b = "a\<lparr>at_channel := rs\<rparr>"
    have "admitted_task gen m ?b k = admitted_task gen m a k" for gen m
      by (simp add: admitted_task_def same_generation_def split: connection_task.split)
    then show ?thesis using found [of ?b] woken_effect [of X g ?b "Request q"] requested
      by (simp add: actor_transport_env_def)
  next
    case (working ts t us s)
    then show ?thesis using assms(2,3) by auto
  qed (use assms(2,3) found [of a] woke in auto)
qed

section \<open>What a session contains\<close>

text \<open>A session whose hello was sent has read an acceptance before it.\<close>

lemma session_admitted:
  "session T es p \<Longrightarrow> p \<noteq> Challenged \<Longrightarrow> \<exists>xs t ys. es = xs @ Got (TextFrame t) # ys \<and> accepting_text T t"
proof (induction rule: session.induct)
  case (extend es p e q)
  show ?case
  proof (cases "p = Challenged")
    case True
    then have "\<exists>t. e = Got (TextFrame t) \<and> accepting_text T t" using extend(2,4) by (auto elim: session_step.cases)
    then show ?thesis by fastforce
  next
    case False
    then show ?thesis using extend(3) by fastforce
  qed
qed simp

lemma session_established:
  "session T es Established \<Longrightarrow> \<exists>xs t ys u zs. es = xs @ Got (TextFrame t) # ys @ Sent (TextFrame u) # zs \<and>
     accepting_text T t \<and> message_text T True u"
proof (induction es Established rule: session.induct)
  case (extend es p e)
  show ?case
  proof (cases "p = Established")
    case True
    then show ?thesis using extend(2) by fastforce
  next
    case False
    then have p: "p = Admitted" and e: "\<exists>u. e = Sent (TextFrame u) \<and> message_text T True u"
      using extend(3) by (auto elim: session_step.cases)
    then show ?thesis using session_admitted [OF extend(1)] by fastforce
  qed
qed

text \<open>The texts written on a socket; reading writes none.\<close>

fun spoken :: "wire_event list \<Rightarrow> ustring list" where
  "spoken [] = []"
| "spoken (Sent (TextFrame t) # es) = t # spoken es"
| "spoken (_ # es) = spoken es"

lemma spoken_append [simp]: "spoken (es @ fs) = spoken es @ spoken fs"
  by (induction es rule: spoken.induct) auto

lemma write_pong_spoken:
  assumes "write_frame (PongFrame x) s = (r, s')"
  shows "spoken (wire_log s') = spoken (wire_log s)"
proof (cases "tr_socket s")
  case None
  then show ?thesis using assms by (simp add: write_frame_def)
next
  case (Some k)
  have "spoken (sk_log (snd (socket_send (PongFrame x) k))) = spoken (sk_log k)"
    by (simp add: socket_send_def split: list.split sum.split)
  then show ?thesis using assms Some by (auto simp: write_frame_def wire_log_def split: prod.splits)
qed

lemma disconnected_spoken: "spoken (wire_log (transport_disconnect s)) = []"
  by (simp add: wire_log_def transport_disconnect_def set_state_def)

lemma receive_spoken:
  "receive_text_frame s = (r, s') \<Longrightarrow> spoken (wire_log s') = spoken (wire_log s) \<or> spoken (wire_log s') = []"
proof (induction s arbitrary: r s' rule: receive_text_frame.induct)
  case (1 s)
  obtain x s1 where nx: "next_frame s = (x, s1)" by (cases "next_frame s")
  note unfold = receive_text_frame.simps [of s]
  from nx show ?case
  proof (cases rule: next_frame_cases)
    case (1 e)
    then show ?thesis using "1.prems" nx disconnected_spoken by (auto simp: unfold)
  next
    case (2 f k rest)
    then have s1: "spoken (wire_log s1) = spoken (wire_log s)" by (cases f) (auto simp: wire_log_def)
    show ?thesis
    proof (cases f)
      case (PingFrame y)
      obtain z s2 where wr: "write_frame (PongFrame y) s1 = (z, s2)" by (cases "write_frame (PongFrame y) s1")
      then have "spoken (wire_log s2) = spoken (wire_log s)" using write_pong_spoken s1 by metis
      then show ?thesis
        using "1.prems" "1.IH"(1) [of x s1 f y z s2] nx 2 PingFrame wr disconnected_spoken
        by (cases z) (auto simp: unfold)
    next
      case (PongFrame y)
      then show ?thesis using "1.prems" "1.IH"(2) [of x s1 f y] nx 2 s1 by (auto simp: unfold)
    next
      case RawFrame
      then show ?thesis using "1.prems" "1.IH"(3) [of x s1 f] nx 2 s1 by (auto simp: unfold)
    qed (use "1.prems" nx 2 s1 disconnected_spoken in \<open>auto simp: unfold\<close>)
  qed
qed

lemma transport_receive_spoken:
  assumes "transport_receive T s = (r, s')"
  shows "spoken (wire_log s') = spoken (wire_log s) \<or> spoken (wire_log s') = []"
proof -
  obtain x s1 where rd: "receive_text_frame s = (x, s1)" by (cases "receive_text_frame s")
  show ?thesis using receive_spoken [OF rd] assms rd disconnected_spoken
    by (auto simp: transport_receive_def ebind_def split: if_splits sum.splits)
qed

end
