(* ===== verification/Supervision_Laws.thy ===== *)
theory Supervision_Laws
  imports Connection_Runs Desktop_Laws
begin

text \<open>
  What one wake-up of the exchange with the gateway does: the reports that waited for the handshake,
  a report during the exchange, and a connection whose server was forgotten or changed meanwhile.
\<close>

section \<open>Sending\<close>

text \<open>A transport whose hello was sent and whose socket is open.\<close>

definition speaking :: "WebSocketTransport \<Rightarrow> bool" where
  "speaking w \<longleftrightarrow> tr_hello_sent w \<and> tr_socket w \<noteq> None"

lemma send_encoded_flags: "send_encoded T m w = (r, w') \<Longrightarrow> same_flags w w'"
  by (cases "encoded_text T m")
    (auto simp: send_encoded_def ebind_def elift_def same_flags_def dest: write_frame_flags [unfolded same_flags_def])

lemma transport_send_log:
  assumes "transport_send T m w = (Ok u, w')" "speaking w"
  shows "speaking w' \<and> wire_log w' = wire_log w @ sent_messages T [m]"
proof -
  obtain r w1 where send: "send_encoded T m w = (r, w1)" by (cases "send_encoded T m w")
  have "r = Ok ()" "w' = w1" "same_flags w w1"
    using assms send send_encoded_flags [OF send]
    by (auto simp: transport_send_def speaking_def Let_def split: if_splits sum.splits)
  then show ?thesis using send_encoded_log [OF send] assms(2) by (simp add: speaking_def same_flags_def)
qed

lemma transport_receive_speaking:
  assumes "transport_receive T w = (Ok m, w')" "transport_ok T w"
  shows "speaking w'"
proof -
  have flags: "tr_hello_sent w" "tr_authenticated w" using assms(1) by (auto simp: transport_receive_def split: if_splits)
  then have sock: "tr_socket w \<noteq> None" using assms(2) by (auto simp: transport_ok_def base_ok_def)
  obtain x w1 where rd0: "receive_text_frame w = (x, w1)" by (cases "receive_text_frame w")
  then obtain t where rd: "receive_text_frame w = (Ok t, w')"
    using assms(1) by (cases x) (auto simp: transport_receive_def ebind_def split: if_splits sum.splits)
  have "base_ok T w" "session_ok T (phase_of w) w" using assms(2) by (auto simp: transport_ok_def)
  from receive_text_frame_ok [OF rd this sock] show ?thesis
    using flags by (auto simp: speaking_def same_flags_def read_text_def)
qed

lemma actor_send_log:
  assumes "actor_send X m a = (Ok u, b)" "speaking (at_transport a)"
  shows "speaking (at_transport b) \<and>
    wire_log (at_transport b) = wire_log (at_transport a) @ sent_messages (actor_transport_env X a) [m] \<and>
    at_attempts b = at_attempts a"
  using assms transport_send_log [of "actor_transport_env X a" m "at_transport a"]
  by (auto simp: actor_send_def split: prod.splits)

lemma send_awaiting_log:
  assumes "send_awaiting X qs a = (DispositionContinue, b)" "speaking (at_transport a)"
  shows "speaking (at_transport b) \<and> at_awaiting b = [] \<and>
    wire_log (at_transport b) = wire_log (at_transport a) @ sent_messages (actor_transport_env X a) (map or_message qs) \<and>
    at_answers b = at_answers a @ map (\<lambda>q. (or_id q, Ok ())) qs \<and> at_channel b = at_channel a"
  using assms
proof (induction X qs a arbitrary: b rule: send_awaiting.induct)
  case (2 X q qs a)
  obtain r a1 where send: "actor_send X (or_message q) a = (r, a1)" by (cases "actor_send X (or_message q) a")
  then obtain u where r: "r = Ok u" using 2(2) by (cases r) (auto simp: Let_def)
  have a1: "speaking (at_transport a1)" "at_attempts a1 = at_attempts a"
    "wire_log (at_transport a1) = wire_log (at_transport a) @ sent_messages (actor_transport_env X a) [or_message q]"
    using actor_send_log [of X "or_message q" a u a1] send r 2(3) by auto
  have held: "held a1 = held a" using held_send [of X "or_message q" a] send by simp
  have "send_awaiting X qs (answer q (Ok ()) a1) = (DispositionContinue, b)" using 2(2) send r by simp
  moreover have "speaking (at_transport (answer q (Ok ()) a1))" using a1 by (simp add: answer_def)
  ultimately show ?case using 2(1) [OF send [symmetric] r] a1 held
    by (simp add: answer_def held_def sent_messages_def actor_transport_env_def)
qed (simp_all add: sent_messages_def)

section \<open>The hello\<close>

lemma descriptors_log [simp]: "protocol_descriptors E (c\<lparr>pcat_log := l\<rparr>) = protocol_descriptors E c"
  by (simp add: protocol_descriptors_def is_active_def)

lemma logged_catalog: "\<exists>l. sv_catalog (service_log E t v g m s) = (sv_catalog s)\<lparr>pcat_log := l\<rparr>"
  by (simp add: service_log_def) blast

lemma transition_catalog: "\<exists>l. sv_catalog (service_transition E t state s) = (sv_catalog s)\<lparr>pcat_log := l\<rparr>"
  using logged_catalog [of E t LevelWarn "lit ''agent''"]
  by (auto simp: service_transition_def with_handle_def split: sum.split intro!: exI [of _ "pcat_log (sv_catalog s)"])

lemma accepted_catalog:
  "\<exists>l. sv_catalog (at_service (hello_accepted X g h a)) = (sv_catalog (at_service a))\<lparr>pcat_log := l\<rparr>"
proof -
  let ?s = "set_phase PhaseConnected (set_errors [] ((at_service a)\<lparr>
     sv_last_connection_at := Some (le_time_text (dx_ledger (sx_service X)) (actor_clock X a)),
     sv_connected := Some \<lparr>cs_name = brand_name (sh_brand h), cs_server_id = sh_server_id h,
       cs_server_version = sh_server_version h, cs_gateway_url = g\<rparr>\<rparr>))"
  have "sv_catalog ?s = sv_catalog (at_service a)" by (simp add: set_phase_def set_errors_def with_handle_def)
  then obtain l where "sv_catalog (service_transition (sx_service X) (actor_clock X a) AgentState.Connected ?s) =
      (sv_catalog (at_service a))\<lparr>pcat_log := l\<rparr>"
    using transition_catalog [of "sx_service X" "actor_clock X a" AgentState.Connected ?s] by auto
  then show ?thesis
    by (simp add: hello_accepted_def Let_def actor_log_def on_service_def service_log_def) blast
qed

lemma accepted_fields [simp]:
  "at_transport (hello_accepted X g h a) = at_transport a" "at_attempts (hello_accepted X g h a) = at_attempts a"
  by (simp_all add: hello_accepted_def Let_def actor_log_def on_service_def)

lemma send_inventory_log:
  assumes "send_inventory X c v a = (Ok u, b)" "speaking (at_transport a)"
  shows "\<exists>ds m. protocol_descriptors (dx_catalog (sx_service X)) (sv_catalog (at_service a)) = Ok ds \<and>
    am_kind m = AgentInventoryMsg \<lparr>inv_revision = pcat_revision (sv_catalog (at_service a)),
      inv_printers = project_inventory ds v\<rparr> \<and>
    speaking (at_transport b) \<and> at_attempts b = at_attempts a \<and>
    wire_log (at_transport b) = wire_log (at_transport a) @ sent_messages (actor_transport_env X a) [m]"
proof -
  obtain ds where ds: "protocol_descriptors (dx_catalog (sx_service X)) (sv_catalog (at_service a)) = Ok ds"
    using assms(1) by (auto simp: send_inventory_def Let_def split: sum.splits)
  let ?m = "envelope X (AgentInventoryMsg \<lparr>inv_revision = pcat_revision (sv_catalog (at_service a)),
    inv_printers = project_inventory ds v\<rparr>) c (at_tick a)"
  have "actor_send X ?m (a\<lparr>at_tick := Suc (at_tick a)\<rparr>) = (Ok u, b)"
    using assms(1) ds by (simp add: send_inventory_def Let_def)
  from actor_send_log [OF this] assms(2) ds show ?thesis
    by (intro exI [of _ ds] exI [of _ ?m]) (simp add: envelope_def actor_transport_env_def)
qed

definition hello_exchange ::
  "('doc, 's) actor_env \<Rightarrow> attempt \<Rightarrow> 's Actor \<Rightarrow> 's Actor \<Rightarrow> ServerMessage \<Rightarrow> WebSocketTransport \<Rightarrow> bool" where
  "hello_exchange X t a b m w \<longleftrightarrow> (\<exists>h ds inventory. sm_kind m = ServerHelloMsg h \<and>
     sm_correlation_id m = Some (ap_hello_id t) \<and> sh_selected_version h \<in> set (ng_offered (at_negotiation a)) \<and>
     protocol_descriptors (dx_catalog (sx_service X)) (sv_catalog (at_service a)) = Ok ds \<and>
     am_kind inventory = AgentInventoryMsg \<lparr>inv_revision = pcat_revision (sv_catalog (at_service a)),
       inv_printers = project_inventory ds (sh_selected_version h)\<rparr> \<and>
     wire_log (at_transport b) = wire_log w @
       sent_messages (actor_transport_env X a) (inventory # map or_message (at_awaiting a)))"

lemma hello_sends:
  assumes "handle_hello X g i c h a = (DispositionContinue, b)" "speaking (at_transport a)"
    and "sm_kind m = ServerHelloMsg h" "c = sm_correlation_id m" "i = ap_hello_id t"
  shows "hello_exchange X t a b m (at_transport a) \<and>
    at_answers b = at_answers a @ map (\<lambda>q. (or_id q, Ok ())) (at_awaiting a) \<and> at_awaiting b = [] \<and> at_handshaken b"
proof -
  let ?v = "sh_selected_version h" and ?a1 = "hello_accepted X g h a"
  obtain r a2 where inv: "send_inventory X None ?v ?a1 = (r, a2)" by (cases "send_inventory X None ?v ?a1")
  obtain d a3 where sent: "send_awaiting X (at_awaiting a2) a2 = (d, a3)" by (cases "send_awaiting X (at_awaiting a2) a2")
  have ok: "\<not> at_handshaken a" "c = Some i" "?v \<in> set (ng_offered (at_negotiation a))"
      "r = Ok ()" "d = DispositionContinue" "b = spawn RecoveryTask a3"
    using assms(1) inv sent by (auto simp: handle_hello_def split: if_splits sum.splits MessageDisposition.splits)
  have held: "held a2 = held a" using held_inventory [of X None ?v ?a1] inv by (simp add: held_simps)
  obtain ds inventory where ds: "protocol_descriptors (dx_catalog (sx_service X)) (sv_catalog (at_service a)) = Ok ds"
      "am_kind inventory = AgentInventoryMsg \<lparr>inv_revision = pcat_revision (sv_catalog (at_service a)),
        inv_printers = project_inventory ds ?v\<rparr>"
      "speaking (at_transport a2)" "at_attempts a2 = at_attempts a"
      "wire_log (at_transport a2) = wire_log (at_transport a) @ sent_messages (actor_transport_env X a) [inventory]"
    using send_inventory_log [of X None ?v ?a1 "()" a2] inv ok(4) assms(2) accepted_catalog [of X g h a]
    by (auto simp: actor_transport_env_def)
  have a3: "wire_log (at_transport a3) = wire_log (at_transport a2) @
        sent_messages (actor_transport_env X a) (map or_message (at_awaiting a))"
      "at_answers a3 = at_answers a @ map (\<lambda>q. (or_id q, Ok ())) (at_awaiting a)" "at_awaiting a3 = []"
    using send_awaiting_log [of X "at_awaiting a2" a2 a3] sent ok(5) ds(3,4) held
    by (auto simp: held_def actor_transport_env_def)
  have "at_handshaken a3" using core_awaiting [OF sent] core_inventory [OF inv] handshaken_accepted [of X g h a]
    by (simp add: core_def)
  then show ?thesis using ok ds a3 assms(3-5) by (auto simp: hello_exchange_def spawn_def sent_messages_def)
qed

text \<open>Before the handshake only the server's hello keeps a connection open.\<close>

lemma handled_stays:
  assumes "message_handled X t w (d, b) = (Exchanging t', c)"
  shows "d = DispositionContinue \<and> held c = held b \<and> at_transport c = at_transport b \<and> at_handshaken c = at_handshaken b"
proof -
  have "at_transport (handshake_done X t b) = at_transport b" "at_handshaken (handshake_done X t b) = at_handshaken b"
    by (simp_all add: handshake_done_def Let_def reset_backoff_def on_service_def split: option.split)
  then show ?thesis using assms
    by (cases d) (auto simp: message_handled_def Let_def held_simps split: option.splits if_splits)
qed

lemma first_exchange:
  assumes "exchange_receive X t a = (Exchanging t', b)" "\<not> at_handshaken a" "on_wire X a"
  shows "same_generation (ap_generation t) a \<and> (\<exists>m w. transport_receive (actor_transport_env X a) (at_transport a) = (Ok m, w) \<and>
    hello_exchange X t a b m w) \<and> at_awaiting b = [] \<and> at_handshaken b \<and>
    at_answers b = at_answers a @ map (\<lambda>q. (or_id q, Ok ())) (at_awaiting a)"
proof -
  obtain r w where rd: "transport_receive (actor_transport_env X a) (at_transport a) = (r, w)"
    by (cases "transport_receive (actor_transport_env X a) (at_transport a)")
  obtain m where m: "r = Ok m" using assms(1) rd
    by (cases r) (auto simp: exchange_receive_def exchange_failed_def Let_def ended_def split: if_splits prod.splits option.splits)
  let ?a = "a\<lparr>at_transport := w\<rparr>"
  have speaking: "speaking w" using transport_receive_speaking rd m assms(3) by (simp add: on_wire_def)
  obtain d c where cm: "connection_message X (u_as_str (ap_gateway t)) (ap_generation t) (ap_hello_id t) m ?a = (d, c)"
    by (cases "connection_message X (u_as_str (ap_gateway t)) (ap_generation t) (ap_hello_id t) m ?a")
  have stays: "d = DispositionContinue" "held b = held c" "at_transport b = at_transport c" "at_handshaken b = at_handshaken c"
    using assms(1) rd m cm handled_stays [of X t "at_handshaken a" d c t' b] by (auto simp: exchange_receive_def)
  have gen: "same_generation (ap_generation t) a" and "is_server_hello (sm_kind m)"
    using cm stays(1) assms(2) by (auto simp: connection_message_def same_generation_def split: if_splits)
  then obtain h where h: "sm_kind m = ServerHelloMsg h" by (cases "sm_kind m") auto
  then have hh: "handle_hello X (u_as_str (ap_gateway t)) (ap_hello_id t) (sm_correlation_id m) h ?a = (DispositionContinue, c)"
    using cm stays(1) assms(2) gen by (simp add: connection_message_def same_generation_def dispatch_message_def)
  have "hello_exchange X t ?a c m w \<and> at_answers c = at_answers a @ map (\<lambda>q. (or_id q, Ok ())) (at_awaiting a) \<and>
      at_awaiting c = [] \<and> at_handshaken c"
    using hello_sends [OF hh _ h refl refl] speaking by simp
  then have "hello_exchange X t a b m w" "at_answers b = at_answers a @ map (\<lambda>q. (or_id q, Ok ())) (at_awaiting a)"
      "at_awaiting b = []" "at_handshaken b"
    using stays by (auto simp: hello_exchange_def held_def actor_transport_env_def)
  then show ?thesis using gen rd m by blast
qed

section \<open>A changed server\<close>

definition spoken_by :: "'s Actor \<Rightarrow> ustring list" where
  "spoken_by a = spoken (wire_log (at_transport a))"

lemma closed_speaks: "spoken_by (close_transport a) = spoken_by a \<or> spoken_by (close_transport a) = []"
  by (auto simp: spoken_by_def close_transport_def transport_close_def wire_log_def Let_def set_state_def split: option.split)

lemma refusals_confirm_nothing [simp]: "(i, Ok u) \<notin> set (refusals m qs)"
  by (auto simp: refusals_def)

definition silent_step :: "'s Actor \<Rightarrow> 's Actor \<Rightarrow> bool" where
  "silent_step a b \<longleftrightarrow> at_tasks b = at_tasks a \<and> (spoken_by b = spoken_by a \<or> spoken_by b = []) \<and>
     (at_service b = at_service a \<or> at_service b = (at_service a)\<lparr>sv_supervised := False\<rparr>) \<and>
     (\<forall>i u. (i, Ok u) \<in> set (at_answers b) \<longrightarrow> (i, Ok u) \<in> set (at_answers a))"

lemma silent_close:
  assumes "silent_step a b"
  shows "silent_step a (close_transport b)"
  using assms closed_speaks [of b] by (auto simp: silent_step_def) (simp_all add: close_transport_def)

lemma silent_refuse:
  "silent_step a b \<Longrightarrow> silent_step a (reject_pending m b)" "silent_step a b \<Longrightarrow> silent_step a (finish_outbound m b)"
  "silent_step a b \<Longrightarrow> silent_step a (answer q (Err e) b)" "silent_step a b \<Longrightarrow> silent_step a (pause b)"
  "silent_step a b \<Longrightarrow> silent_step a (reset_backoff b)" "silent_step a b \<Longrightarrow> silent_step a (snd (returned b))"
  by (auto simp: silent_step_def reject_pending_def finish_outbound_def answer_def pause_def reset_backoff_def
      returned_def drop_pending_def on_service_def spoken_by_def)

lemma silent_refl: "silent_step a a"
  by (simp add: silent_step_def)

lemma changed_server_step:
  assumes "\<not> same_generation (ap_generation t) a"
  shows "silent_step a (snd (exchange_woken X t w a))"
proof (cases w)
  case SocketReady
  obtain r w' where rd: "transport_receive (actor_transport_env X a) (at_transport a) = (r, w')"
    by (cases "transport_receive (actor_transport_env X a) (at_transport a)")
  have quiet: "silent_step a (a\<lparr>at_transport := w'\<rparr>)"
    using transport_receive_spoken [OF rd] by (auto simp: silent_step_def spoken_by_def)
  have gen: "\<not> same_generation (ap_generation t) (a\<lparr>at_transport := w'\<rparr>)" using assms by (simp add: same_generation_def)
  show ?thesis
  proof (cases r)
    case (Inl e)
    then show ?thesis using rd SocketReady gen quiet
      by (simp add: exchange_woken_def exchange_receive_def exchange_failed_def ended_def silent_refuse)
  next
    case (Inr m)
    have "at_handshaken (pause c) = at_handshaken c" for c :: "'a Actor" by (simp add: pause_def)
    with Inr show ?thesis using rd SocketReady gen quiet
      by (simp add: exchange_woken_def exchange_receive_def connection_message_def message_handled_def Let_def
          silent_refuse)
  qed
next
  case (Control c)
  then show ?thesis using assms
    by (cases c) (auto simp: exchange_woken_def exchange_control_def exchange_publish_def exchange_shutdown_def ended_def
        intro!: silent_refuse silent_close silent_refl)
qed (use assms in \<open>auto simp: exchange_woken_def hello_timed_out_def exchange_shutdown_def exchange_request_def ended_def
       intro!: silent_refuse silent_close silent_refl\<close>)

lemma changed_server_stage:
  assumes "\<not> same_generation (ap_generation t) a"
  shows "case exchange_woken X t k a of (g, b) \<Rightarrow> g = ClosingConnection t \<or> g = Returned \<or> g = Exchanging t \<and> b = a"
proof (cases k)
  case SocketReady
  obtain r w where rd: "transport_receive (actor_transport_env X a) (at_transport a) = (r, w)"
    by (cases "transport_receive (actor_transport_env X a) (at_transport a)")
  have "\<not> same_generation (ap_generation t) (a\<lparr>at_transport := w\<rparr>)" using assms by (simp add: same_generation_def)
  then show ?thesis using rd SocketReady
    by (cases r) (simp_all add: exchange_woken_def exchange_receive_def exchange_failed_def ended_def
        connection_message_def message_handled_def Let_def)
next
  case (Control c)
  then show ?thesis using assms
    by (cases c) (simp_all add: exchange_woken_def exchange_control_def exchange_publish_def exchange_shutdown_def
        returned_def ended_def)
qed (use assms in \<open>auto simp: exchange_woken_def hello_timed_out_def exchange_shutdown_def exchange_request_def
       returned_def ended_def\<close>)

section \<open>The cancellation stays\<close>

definition shut :: "'s Service \<Rightarrow> bool" where
  "shut s \<longleftrightarrow> sv_shutdown s"

definition keeps_shut :: "('s Service, 'e, 'a) eff \<Rightarrow> bool" where
  "keeps_shut m \<longleftrightarrow> (\<forall>s r s'. m s = (r, s') \<longrightarrow> shut s' = shut s)"

named_theorems shut_simps \<open>parts of the host's operations that leave the cancellation alone\<close>
named_theorems shut_keeps \<open>operations of the host that do not take the cancellation back\<close>

lemma keeps_shutD: "keeps_shut m \<Longrightarrow> m s = (r, s') \<Longrightarrow> shut s' = shut s"
  by (simp add: keeps_shut_def)

lemma shut_fields [shut_simps]:
  "shut (s\<lparr>sv_agent := x1\<rparr>) = shut s" "shut (s\<lparr>sv_secrets := x2\<rparr>) = shut s" "shut (s\<lparr>sv_catalog := x3\<rparr>) = shut s"
  "shut (s\<lparr>sv_jobs := x4\<rparr>) = shut s" "shut (s\<lparr>sv_last_connection_at := x5\<rparr>) = shut s"
  "shut (s\<lparr>sv_agent_id := x6\<rparr>) = shut s" "shut (s\<lparr>sv_phase := x7\<rparr>) = shut s" "shut (s\<lparr>sv_connected := x8\<rparr>) = shut s"
  "shut (s\<lparr>sv_generation := x9\<rparr>) = shut s" "shut (s\<lparr>sv_controls := x10\<rparr>) = shut s"
  "shut (s\<lparr>sv_supervised := x11\<rparr>) = shut s" "shut (s\<lparr>sv_connection := x13\<rparr>) = shut s"
  "shut (s\<lparr>sv_identity := x14\<rparr>) = shut s" "shut (s\<lparr>sv_configuration := x15\<rparr>) = shut s"
  "shut (with_db db s) = shut s" "shut (with_handle h s) = shut s"
  by (simp_all add: shut_def with_db_def with_handle_def)

lemma shut_helpers [shut_simps]:
  "shut (service_log E t l c m s) = shut s" "shut (snd (send_control k s)) = shut s"
  "shut (publish_inventory s) = shut s" "shut (bump_generation s) = shut s" "shut (try_transition st s) = shut s"
  "shut (set_phase p s) = shut s" "shut (set_errors es s) = shut s"
  by (simp_all add: service_log_def send_control_def publish_inventory_def bump_generation_def try_transition_def
      set_phase_def set_errors_def shut_simps)

lemma shut_more [shut_simps]:
  "shut (service_transition E t st s) = shut s" "shut (set_connection_error E t m s) = shut s"
  "shut (leave_connected s) = shut s" "shut (force_unconfigured_with_errors es s) = shut s"
  "shut (authentication_failed E t m b s) = shut s"
  by (simp_all add: service_transition_def set_connection_error_def leave_connected_def authentication_failed_def
      force_unconfigured_with_errors_def Let_def shut_simps split: sum.split)

lemma keeps_shut_bind [shut_keeps]:
  assumes "keeps_shut m" "\<And>a. keeps_shut (f a)"
  shows "keeps_shut (ebind m f)"
  unfolding keeps_shut_def ebind_def
  using keeps_shutD [OF assms(1)] keeps_shutD [OF assms(2)] by (fastforce split: prod.splits sum.splits)

lemma keeps_shut_case [shut_keeps]:
  assumes "keeps_shut m" "\<And>r. keeps_shut (f r)"
  shows "keeps_shut (ecase m f)"
  unfolding keeps_shut_def ecase_def
  using keeps_shutD [OF assms(1)] keeps_shutD [OF assms(2)] by (fastforce split: prod.splits)

lemma keeps_shut_basic [shut_keeps]: "keeps_shut (eret a)" "keeps_shut (elift x)" "keeps_shut (\<lambda>s. (f s, s))"
  by (auto simp: keeps_shut_def)

lemma keeps_shut_map [shut_keeps]: "keeps_shut m \<Longrightarrow> keeps_shut (emap_err h m)"
  by (auto simp: keeps_shut_def emap_err_def split: prod.splits)

lemma keeps_shut_modify [shut_keeps]: "(\<And>s. shut (f s) = shut s) \<Longrightarrow> keeps_shut (emodify f)"
  by (simp add: keeps_shut_def)

lemma set_setting_shut: "set_setting E t k v s = (r, s') \<Longrightarrow> shut s' = shut s"
  by (auto simp: set_setting_def shut_simps split: sum.splits prod.splits)

lemma keeps_shut_parts [shut_keeps]:
  "keeps_shut (on_catalog mc)" "keeps_shut (on_jobs mj)" "keeps_shut (on_agent ma)" "keeps_shut (on_secrets ms)"
  "keeps_shut (get_setting E k)" "keeps_shut (set_setting E t k v)" "keeps_shut (send_control c)"
  "keeps_shut (require_transition st)"
  by (auto simp: keeps_shut_def on_catalog_def on_jobs_def on_agent_def on_secrets_def get_setting_def shut_simps
      send_control_def require_transition_def dest: set_setting_shut split: prod.splits sum.splits if_splits)

lemma save_recent_shut [shut_simps]: "shut (save_recent_server E t u n s) = shut s"
  by (auto simp: save_recent_server_def Let_def split: sum.split) (metis prod.collapse set_setting_shut)+

lemma printer_operations_shut [shut_keeps]:
  "keeps_shut (list_printers E)" "keeps_shut (refresh_printers E S t)" "keeps_shut (configure_printer E t i ch)"
  "keeps_shut (add_manual_printer E t u mi)" "keeps_shut (create_virtual_printer E t u vi)"
  "keeps_shut (update_virtual_printer E t i md dl)" "keeps_shut (clear_printer_history E i)"
  "keeps_shut (set_virtual_printer_sound E i b)" "keeps_shut (remove_printer E t i)"
  by (auto simp: list_printers_def refresh_printers_def configure_printer_def add_manual_printer_def
      create_virtual_printer_def update_virtual_printer_def clear_printer_history_def set_virtual_printer_sound_def
      remove_printer_def printers_changed_def printer_log_def shut_simps intro!: shut_keeps)

lemma job_operations_shut [shut_keeps]:
  "keeps_shut (update_job_entry E t i st e n)" "keeps_shut (insert_summary E t j)" "keeps_shut (clear_jobs E t)"
  "keeps_shut (apply_process_outcome E t out)" "keeps_shut (finish_test E t i tx ms r)"
  by (auto simp: update_job_entry_def insert_summary_def clear_jobs_def apply_process_outcome_def finish_test_def Let_def
      shut_simps intro!: shut_keeps split: prod.splits sum.splits)

lemma testable_printer_shut [shut_keeps]: "keeps_shut (testable_printer i)"
  by (simp add: keeps_shut_def testable_printer_def)

lemma test_operations_shut [shut_keeps]:
  "keeps_shut (send_test_print E ts u k i)" "keeps_shut (send_test_pdf E ts u k i b st)"
  by (auto simp: send_test_print_def send_test_pdf_def Let_def intro!: shut_keeps)

lemma warned_shut: "keeps_shut m \<Longrightarrow> shut (warn_on_error E t m s) = shut s"
  by (auto simp: warn_on_error_def shut_simps dest: keeps_shutD split: prod.splits sum.splits)

lemma tasks_shut [shut_simps]:
  "shut (announce_job E t j s) = shut s" "shut (delivery_finished E t i r s) = shut s"
  "shut (observe_event E t ev s) = shut s"
  by (auto simp: announce_job_def delivery_finished_def observe_event_def Let_def shut_simps warned_shut shut_keeps
      split: sum.splits ServerJobOutcome.splits ReceiveJobOutcome.splits AgentRuntimeError.splits prod.splits)

lemma message_tasks_shut [shut_simps]:
  "shut (delivery_task E t m j s) = shut s" "shut (cancellation_task E t m s) = shut s"
  using keeps_shutD [OF keeps_shut_parts(3) [of "handle_server_message (dx_agent E) m"]]
  by (auto simp: delivery_task_def cancellation_task_def shut_simps split: prod.splits sum.splits)

lemma outcomes_shut: "shut (fold (\<lambda>out. warn_on_error E t (apply_process_outcome E t out)) outs s) = shut s"
  by (induction outs arbitrary: s) (simp_all add: warned_shut shut_keeps)

lemma recovered_shut:
  assumes "recovery_task E t fuel n s = Some s'"
  shows "shut s' = shut s"
proof -
  obtain r a where run: "replay_outbound_reports (dx_agent E) fuel (sv_agent s) = Some (r, a)"
    using assms by (auto simp: recovery_task_def)
  obtain x s2 where rec: "on_agent (agent_recover (dx_agent E)) (s\<lparr>sv_agent := a\<rparr>) = (x, s2)"
    by (cases "on_agent (agent_recover (dx_agent E)) (s\<lparr>sv_agent := a\<rparr>)")
  have "shut s2 = shut s" using keeps_shutD [OF keeps_shut_parts(3) rec] by (simp add: shut_simps)
  then show ?thesis using assms run rec
    by (cases r; cases x) (auto simp: recovery_task_def Let_def shut_simps outcomes_shut)
qed

lemma server_operations_shut [shut_keeps]:
  "keeps_shut (service_discover E t)" "keeps_shut (delete_recent_server E t u)" "keeps_shut (service_reconnect E t)"
  by (auto simp: service_discover_def delete_recent_server_def service_reconnect_def list_recent_servers_def Let_def
      shut_simps intro!: shut_keeps) (auto simp: keeps_shut_def shut_simps split: sum.splits)

lemma keeps_shut_sum [shut_keeps]:
  "(\<And>e. keeps_shut (f e)) \<Longrightarrow> (\<And>a. keeps_shut (g a)) \<Longrightarrow> keeps_shut (case r of Inl e \<Rightarrow> f e | Inr a \<Rightarrow> g a)"
  by (simp split: sum.split)

lemma pairing_parts_shut [shut_keeps]:
  "keeps_shut (pairing_aborted p e)" "keeps_shut (key_delete_quietly E k)" "keeps_shut (adopt_connection E t d c)"
  by (auto simp: keeps_shut_def [of "pairing_aborted p e"] pairing_aborted_def key_delete_quietly_def adopt_connection_def
      shut_simps intro!: shut_keeps)

lemma pairing_shut [shut_keeps]:
  "keeps_shut (store_pairing E t d c)" "keeps_shut (pair_with E t n code name d u)" "keeps_shut (pair_server E t n code name)"
proof -
  show stored: "keeps_shut (store_pairing E t d c)" for d c
    by (simp add: store_pairing_def shut_keeps)
  show pair: "keeps_shut (pair_with E t n code name d u)" for d u
    by (simp add: pair_with_def shut_keeps stored)
  have rest: "keeps_shut (\<lambda>s1. case discover_configured E s1 of
      Inl e \<Rightarrow> pairing_aborted PhaseDiscoveryFailed (CommandError_new (lit ''discovery_failed'') (AuthError_to_string e)) s1
    | Inr d \<Rightarrow> pair_with E t n code name d (osc_server_url (sv_configuration s1)) s1)"
    using keeps_shutD [OF pair] keeps_shutD [OF pairing_parts_shut(1)]
    unfolding keeps_shut_def by (fastforce split: sum.splits)
  have "keeps_shut (ebind (require_transition Pairing) (\<lambda>_. ebind (emodify (set_phase PhasePairing)) (\<lambda>_ s1.
      case discover_configured E s1 of
        Inl e \<Rightarrow> pairing_aborted PhaseDiscoveryFailed (CommandError_new (lit ''discovery_failed'') (AuthError_to_string e)) s1
      | Inr d \<Rightarrow> pair_with E t n code name d (osc_server_url (sv_configuration s1)) s1)))"
    by (intro shut_keeps rest) (simp add: shut_simps)
  then show "keeps_shut (pair_server E t n code name)"
    unfolding keeps_shut_def pair_server_def by (auto split: if_splits)
qed

lemma take_connection_shut [shut_keeps]: "keeps_shut (take_connection E)"
  by (auto simp: keeps_shut_def take_connection_def emap_err_def on_secrets_def shut_simps split: option.splits prod.splits)

lemma forgetting_shut [shut_keeps]: "keeps_shut (forget_connection E t)" "keeps_shut (forget_server E t)"
  by (auto simp: forget_connection_def forget_server_def shut_simps intro!: shut_keeps)

lemma configuration_shut [shut_keeps]:
  "keeps_shut (apply_server_configuration E clock c)" "keeps_shut (set_server_configuration E clock u)"
  "keeps_shut (reset_server_configuration E clock)" "keeps_shut (apply_recent_server E clock u)"
proof -
  have unsaved: "keeps_shut (configuration_not_saved E t e)" for t e
    by (auto simp: configuration_not_saved_def force_unconfigured_def shut_simps intro!: shut_keeps)
  have rest: "keeps_shut (ebind (forget_connection E (clock 0)) (\<lambda>_.
        ebind (elift (map_err command_internal (dx_config_to_value E c))) (\<lambda>v.
        ecase (set_setting E (clock 1) SERVER_CONFIGURATION_SETTING v) (\<lambda>r. case r of
          Inl e \<Rightarrow> configuration_not_saved E (clock 2) e
        | Inr _ \<Rightarrow>
            ebind (emodify (\<lambda>s. force_unconfigured_with_errors []
              (bump_generation (s\<lparr>sv_configuration := c\<rparr>)))) (\<lambda>_.
            ebind (emap_err (\<lambda>_. command_internal (lit ''Connection supervisor is unavailable.''))
              (send_control ControlConfigurationChanged)) (\<lambda>_.
            ebind (emodify (service_log E (clock 2) LevelInfo (lit ''configuration'')
              (lit ''OpenPrinter server URL changed; prior credentials were deleted.''))) (\<lambda>_.
            eret c)))))))" for c
    by (auto simp: shut_simps intro!: shut_keeps unsaved)
  show applied: "keeps_shut (apply_server_configuration E clock c)" for c
    using keeps_shutD [OF rest] unfolding keeps_shut_def apply_server_configuration_def by (auto split: if_splits)
  show "keeps_shut (set_server_configuration E clock u)" "keeps_shut (reset_server_configuration E clock)"
     "keeps_shut (apply_recent_server E clock u)"
    by (auto simp: set_server_configuration_def reset_server_configuration_def apply_recent_server_def
        intro!: shut_keeps applied)
qed

lemma shutdown_shut: "shut (service_shutdown s)"
  by (simp add: service_shutdown_def shut_simps) (simp add: shut_def)

text \<open>Whatever the rest of the application does, a cancellation is not taken back.\<close>

lemma keeps_shut_step: "keeps_shut m \<Longrightarrow> m s = (r, s') \<Longrightarrow> shut s \<Longrightarrow> shut s'"
  by (simp add: keeps_shut_def)

lemma step_shut:
  assumes "service_step E s s'" "shut s"
  shows "shut s'"
  using assms
proof (induction rule: service_step.induct)
  case (recovering t fuel n s s')
  then show ?case using recovered_shut by blast
next
  case (stopping s)
  then show ?case by (simp add: shutdown_shut)
next
  case (delivering s t m i)
  then show ?case by (simp add: shut_simps)
next
  case (cancelling s t m)
  then show ?case by (simp add: shut_simps)
next
  case (observing s t ev)
  then show ?case by (simp add: shut_simps)
qed (rule keeps_shut_step [rotated], assumption+, rule shut_keeps)+

section \<open>Host and supervisor together\<close>

text \<open>
  The host and its connection supervisor together: the supervisor's steps do not touch the paired
  server, so what holds along the operations of the host holds along the runs of both.
\<close>

definition alink ::
  "'s Actor \<Rightarrow> (OpenPrinterConnection option \<times> DocumentIdentity option \<times> OpenPrinterServerConfiguration) \<times> bool" where
  "alink a = (link (at_service a), shut (at_service a))"

named_theorems alink_simps \<open>operations of the actor that leave the paired server and the cancellation alone\<close>

lemma alink_on_service: "(\<And>s. link (f s) = link s) \<Longrightarrow> (\<And>s. shut (f s) = shut s) \<Longrightarrow> alink (on_service f a) = alink a"
  by (simp add: alink_def on_service_def)

lemma alink_fields [alink_simps]:
  "alink (a\<lparr>at_transport := w\<rparr>) = alink a" "alink (a\<lparr>at_backoff := b\<rparr>) = alink a"
  "alink (a\<lparr>at_automatic := x\<rparr>) = alink a" "alink (a\<lparr>at_retry_after := d\<rparr>) = alink a"
  "alink (a\<lparr>at_planner := p\<rparr>) = alink a" "alink (a\<lparr>at_handshaken := x\<rparr>) = alink a"
  "alink (a\<lparr>at_negotiation := n\<rparr>) = alink a" "alink (a\<lparr>at_awaiting := q\<rparr>) = alink a"
  "alink (a\<lparr>at_channel := q\<rparr>) = alink a" "alink (a\<lparr>at_answers := r\<rparr>) = alink a" "alink (a\<lparr>at_tasks := ts\<rparr>) = alink a"
  "alink (a\<lparr>at_attempts := k\<rparr>) = alink a" "alink (a\<lparr>at_tick := k\<rparr>) = alink a"
  "alink (a\<lparr>at_service := s\<rparr>) = (link s, shut s)"
  by (simp_all add: alink_def)

lemma alink_helpers [alink_simps]:
  "alink (actor_error Y m a) = alink a" "alink (transport_failed Y e a) = alink a" "alink (actor_log Y l c m a) = alink a"
  "alink (pause a) = alink a" "alink (reset_backoff a) = alink a" "alink (answer q r a) = alink a" "alink (spawn t a) = alink a"
  "alink (reject_pending m a) = alink a" "alink (finish_outbound m a) = alink a" "alink (drop_pending a) = alink a"
  "alink (close_transport a) = alink a"
  by (simp_all add: actor_error_def transport_failed_def actor_log_def pause_def reset_backoff_def close_transport_def
      answer_def spawn_def reject_pending_def finish_outbound_def drop_pending_def alink_simps alink_on_service service_frame shut_simps)

lemma alink_next: "next_retry_delay Y a = (d, b) \<Longrightarrow> alink b = alink a"
  by (auto simp: next_retry_delay_def alink_simps split: prod.splits)

lemma cache_link [service_frame]: "link (store_cache_update X t i u s) = link s"
  and cache_shut [shut_simps]: "shut (store_cache_update X t i u s) = shut s"
proof -
  let ?s = "\<lambda>v. case set_setting (sx_service X) t PROTOCOL_NEGOTIATION_SETTING v s of (Inr _, s1) \<Rightarrow> s1
      | (Inl e, s1) \<Rightarrow> service_log (sx_service X) t LevelWarn (lit ''transport'') (storage_text (sx_service X) e) s1"
  have "link (?s v) = link s \<and> shut (?s v) = shut s" for v
    using set_setting_link [of "sx_service X" t PROTOCOL_NEGOTIATION_SETTING v s]
      set_setting_shut [of "sx_service X" t PROTOCOL_NEGOTIATION_SETTING v s]
    by (auto simp: service_frame shut_simps split: prod.split sum.split)
  then show "link (store_cache_update X t i u s) = link s" "shut (store_cache_update X t i u s) = shut s"
    by (simp_all add: store_cache_update_def Let_def split: CacheUpdate.split)
qed

lemma alink_parts [alink_simps]:
  "alink (retry_later Y a) = alink a" "alink (retry_or_pause Y a) = alink a" "alink (disconnected_with_error Y e a) = alink a"
  "alink (snd (returned a)) = alink a" "alink (hello_accepted Y g h a) = alink a" "alink (handshake_done Y t a) = alink a"
  by (auto simp: retry_later_def retry_or_pause_def disconnected_with_error_def returned_def hello_accepted_def
      handshake_done_def Let_def alink_simps alink_next alink_on_service service_frame shut_simps split: prod.splits option.split)

lemma alink_ends [alink_simps]:
  "alink (snd (top a)) = alink a" "alink (snd (ended t a)) = alink a" "alink (snd (authentication_ended X m r a)) = alink a"
  by (simp_all add: top_def ended_def authentication_ended_def alink_simps alink_on_service service_frame shut_simps)

lemma alink_send: "actor_send X m a = (r, b) \<Longrightarrow> alink b = alink a"
  by (auto simp: actor_send_def alink_simps split: prod.splits)

lemma alink_inventory: "send_inventory X c v a = (r, b) \<Longrightarrow> alink b = alink a"
  by (auto simp: send_inventory_def Let_def alink_simps dest!: alink_send split: sum.splits)

lemma alink_awaiting: "send_awaiting X qs a = (d, b) \<Longrightarrow> alink b = alink a"
  by (induction X qs a arbitrary: d b rule: send_awaiting.induct)
    (auto simp: Let_def alink_simps dest!: alink_send split: prod.splits sum.splits)

lemma alink_unless_failed: "unless_failed X r = (d, b) \<Longrightarrow> alink b = alink (snd r)"
  by (auto simp: unless_failed_def alink_simps split: prod.splits sum.splits)

lemma alink_sent: "alink (snd (actor_send X m a)) = alink a" "alink (snd (send_inventory X c v a)) = alink a"
  using alink_send [of X m a] alink_inventory [of X c v a] by (metis prod.collapse)+

lemma alink_hello: "handle_hello X g i c h a = (d, b) \<Longrightarrow> alink b = alink a"
  by (auto simp: handle_hello_def alink_simps dest!: alink_inventory alink_awaiting
      split: if_splits prod.splits sum.splits MessageDisposition.splits)

lemma alink_invalidated:
  assumes "handle_invalidated X a = (d, b)"
  shows "alink b = alink a"
proof -
  let ?a1 = "case refresh_printers (sx_service X) (sx_scan X (at_tick a)) (actor_clock X a) (at_service a) of
      (Inr _, s) \<Rightarrow> a\<lparr>at_service := s\<rparr>
    | (Inl e, s) \<Rightarrow> actor_log X LevelWarn ''discovery'' (ce_message e) (a\<lparr>at_service := s\<rparr>)"
  have "alink ?a1 = alink a"
    using keeps_linkD [OF printer_operations_link(2), of "sx_service X" "sx_scan X (at_tick a)" "actor_clock X a" "at_service a"]
      keeps_shutD [OF printer_operations_shut(2), of "sx_service X" "sx_scan X (at_tick a)" "actor_clock X a" "at_service a"]
    by (auto simp: alink_simps alink_def [of a] split: prod.split sum.split)
  then show ?thesis using alink_unless_failed [of X _ d b] assms by (simp add: handle_invalidated_def Let_def alink_sent)
qed

lemma alink_dispatch: "dispatch_message X g i m a = (d, b) \<Longrightarrow> alink b = alink a"
  by (auto simp: dispatch_message_def handle_disconnect_def alink_simps alink_sent alink_on_service service_frame shut_simps
      dest!: alink_hello alink_invalidated alink_unless_failed split: ServerMessageKind.splits if_splits)

lemma alink_message: "connection_message X g gen i m a = (d, b) \<Longrightarrow> alink b = alink a"
  by (auto simp: connection_message_def alink_simps dest!: alink_dispatch split: if_splits)

section \<open>Steps\<close>

lemma alink_signing: "alink (snd (signing_stage X t c a)) = alink a"
  using keeps_linkD [OF keeps_link_parts(4)
      [of "sign_challenge (dx_crypto (sx_service X)) (dx_secrets (sx_service X)) (oc_credential_ref (ap_connection t)) c"],
      of "at_service a"]
    keeps_shutD [OF keeps_shut_parts(4)
      [of "sign_challenge (dx_crypto (sx_service X)) (dx_secrets (sx_service X)) (oc_credential_ref (ap_connection t)) c"],
      of "at_service a"]
  by (auto simp: signing_stage_def alink_simps alink_def [of a] split: prod.split sum.split)

lemma alink_greeting: "alink (snd (greeting_stage X t a)) = alink a"
proof -
  let ?b = "a\<lparr>at_planner := Some (attempt_planner X t a), at_tick := Suc (at_tick a)\<rparr>"
  let ?m = "hello_message X (oc_agent_id (ap_connection t)) (offered (attempt_planner X t a)) (at_tick a)"
  obtain r a1 where send: "actor_send X ?m ?b = (r, a1)" by (cases "actor_send X ?m ?b")
  then show ?thesis using alink_send [OF send]
    by (cases r) (auto simp: greeting_stage_def Let_def alink_simps)
qed

lemma advance_alink: "alink (snd (advance X g a)) = alink a"
proof (cases g)
  case (OpenFailed t e b)
  then show ?thesis
    by (auto simp: advance_def open_failed_stage_def Let_def alink_simps dest!: alink_next split: option.split prod.split)
next
  case (DiscoveringServer t)
  then show ?thesis by (auto simp: advance_def discovering_stage_def alink_simps alink_on_service service_frame shut_simps split: sum.split)
next
  case (AwaitingAcceptance t)
  then show ?thesis
    by (auto simp: advance_def acceptance_stage_def Let_def alink_simps
        split: prod.split sum.split GatewayAuthenticationServerMessage.split TransportError.split)
next
  case (AwaitingChallenge t)
  then show ?thesis
    by (auto simp: advance_def challenge_stage_def Let_def alink_simps
        split: prod.split sum.split GatewayAuthenticationServerMessage.split)
qed (auto simp: advance_def alink_signing alink_greeting top_stage_def delay_stage_def reading_stage_def preparing_stage_def
    opening_stage_def opened_stage_def proving_stage_def greet_failed_stage_def closing_stage_def Let_def alink_simps
    alink_on_service service_frame shut_simps split: option.split prod.split sum.split)

lemma alink_handled: "alink (snd (message_handled X t w (d, b))) = alink b"
  by (cases d) (auto simp: message_handled_def Let_def alink_simps split: option.split)

lemma exchange_alink: "alink (snd (exchange_woken X t w a)) = alink a"
proof (cases w)
  case SocketReady
  obtain r w' where rd: "transport_receive (actor_transport_env X a) (at_transport a) = (r, w')"
    by (cases "transport_receive (actor_transport_env X a) (at_transport a)")
  show ?thesis
  proof (cases r)
    case (Inl e)
    then show ?thesis using rd SocketReady
      by (auto simp: exchange_woken_def exchange_receive_def exchange_failed_def Let_def alink_simps
          split: option.split prod.split)
  next
    case (Inr m)
    let ?b = "a\<lparr>at_transport := w'\<rparr>"
    obtain d b where cm: "connection_message X (u_as_str (ap_gateway t)) (ap_generation t) (ap_hello_id t) m ?b = (d, b)"
      by (cases "connection_message X (u_as_str (ap_gateway t)) (ap_generation t) (ap_hello_id t) m ?b")
    then show ?thesis using rd SocketReady Inr alink_message [OF cm] alink_handled [of X t "at_handshaken a" d b]
      by (simp add: exchange_woken_def exchange_receive_def alink_simps)
  qed
next
  case (Request q)
  obtain r b where sent: "actor_send X (or_message q) a = (r, b)" by (cases "actor_send X (or_message q) a")
  then show ?thesis using Request alink_send [OF sent]
    by (cases r) (auto simp: exchange_woken_def exchange_request_def Let_def alink_simps)
next
  case (Control c)
  obtain r b where inv: "send_inventory X None (selected_version a) a = (r, b)"
    by (cases "send_inventory X None (selected_version a) a")
  then show ?thesis using Control alink_inventory [OF inv]
    by (cases c; cases r) (auto simp: exchange_woken_def exchange_control_def exchange_publish_def exchange_shutdown_def alink_simps)
qed (auto simp: exchange_woken_def hello_timed_out_def exchange_shutdown_def alink_simps)

lemma woken_alink: "alink (snd (woken X g w a)) = alink a"
proof (cases g)
  case WaitingForReconnect
  then show ?thesis
    by (auto simp: woken_def waiting_woken_def alink_simps split: wake.split ConnectionControl.split)
next
  case (Delaying d again)
  then show ?thesis
    by (auto simp: woken_def delaying_woken_def Let_def alink_simps split: wake.split ConnectionControl.split)
qed (auto simp: woken_def exchange_alink)

text \<open>
  What the supervisor relies on from the host: a property of the service that every other part of the
  application keeps and that reads only the paired server and the cancellation. It then holds along every run.
\<close>

locale service_invariant =
  fixes R :: "'s Service \<Rightarrow> 's Service \<Rightarrow> bool"
    and P :: "'s Service \<Rightarrow> bool"
  assumes service_keeps: "R s s' \<Longrightarrow> P s \<Longrightarrow> P s'"
    and follows_link: "link s' = link s \<Longrightarrow> shut s' = shut s \<Longrightarrow> P s' \<longleftrightarrow> P s"
begin

lemma actor_keeps: "alink b = alink a \<Longrightarrow> P (at_service b) \<longleftrightarrow> P (at_service a)"
  by (rule follows_link) (simp_all add: alink_def)

lemma step_keeps:
  assumes "actor_step X R (g, a, qs) (g', a', qs')" "P (at_service a)"
  shows "P (at_service a')"
  using assms(1)
proof (cases rule: actor_step.cases)
  case advancing
  then show ?thesis using assms(2) advance_alink [of X g a] actor_keeps [of a' a] by simp
next
  case timer
  then show ?thesis using assms(2) woken_alink [of X g Timer a] actor_keeps [of a' a] by simp
next
  case readable
  then show ?thesis using assms(2) woken_alink [of X g SocketReady a] actor_keeps [of a' a] by simp
next
  case cancelled
  then show ?thesis using assms(2) woken_alink [of X g Cancelled a] actor_keeps [of a' a] by simp
next
  case closed
  then show ?thesis using assms(2) woken_alink [of X g RequestsClosed a] actor_keeps [of a' a] by simp
next
  case (controlled c cs)
  let ?b = "on_service (\<lambda>s. s\<lparr>sv_controls := cs\<rparr>) a"
  have "alink ?b = alink a" by (rule alink_on_service) (simp_all add: service_frame shut_simps)
  then show ?thesis using controlled assms(2) woken_alink [of X g "Control c" ?b] actor_keeps [of a' a] by simp
next
  case (requested q rs)
  then show ?thesis using assms(2) woken_alink [of X g "Request q" "a\<lparr>at_channel := rs\<rparr>"] actor_keeps [of a' a]
    by (simp add: alink_simps)
qed (use assms(2) service_keeps in auto)

lemma run_keeps:
  assumes "actor_run X R s w c" "P s"
  shows "P (at_service (fst (snd c)))"
  using assms(1)
proof (induction rule: actor_run_induct)
  case start
  then show ?case using assms(2) by (simp add: initial_actor_def)
next
  case (step c c')
  then show ?case by (cases c; cases c') (auto intro: step_keeps)
qed

end

text \<open>Along the operations of the host and the steps of the supervisor the identity follows the connection.\<close>

interpretation paired: service_invariant "service_step E" link_ok
  by unfold_locales (auto dest: step_link_ok link_ok_frame)

text \<open>A cancelled application stays cancelled along the same steps.\<close>

interpretation cancelled: service_invariant "service_step E" shut
  by unfold_locales (auto dest: step_shut)

text \<open>A started host has it.\<close>

lemma initial_connection_url:
  assumes "initial_connection E configuration st = (Ok (Some k, e), st')"
  shows "u_as_str (oc_server_url k) = u_as_str (osc_server_url configuration)"
proof -
  obtain stored st1 where set: "startup_setting E CONNECTION_SETTING st = (Ok stored, st1)"
    using assms by (auto simp: initial_connection_def ebind_Ok)
  obtain c where c: "Option.bind stored (dx_connection_from_value E) = Some c"
    using assms set by (cases "Option.bind stored (dx_connection_from_value E)") (auto simp: initial_connection_def ebind_def)
  obtain x st2 where key: "startup_secrets (key_exists (dx_secrets E) (oc_credential_ref c)) st1 = (x, st2)"
    by (cases "startup_secrets (key_exists (dx_secrets E) (oc_credential_ref c)) st1")
  show ?thesis using assms set c key
    by (cases x) (auto simp: initial_connection_def ebind_def ecase_def split: if_splits bool.splits)
qed

lemma restored_Ok:
  "(case m of (Inl e, g) \<Rightarrow> (Err e, f g) | (Inr u, g) \<Rightarrow> (Ok g, f g)) = (Ok x, y) \<longleftrightarrow> (\<exists>u. m = (Inr u, x) \<and> y = f x)"
  by (auto split: prod.splits sum.splits)

lemma loaded_Ok: "(case x of Inl e \<Rightarrow> (Err e, st) | Inr c \<Rightarrow> (Ok c, f c)) = (Ok d, y) \<longleftrightarrow> x = Ok d \<and> y = f d"
  by (auto split: sum.splits)

lemma initialize_link_ok:
  assumes "initialize E clock devices st = (Ok (r, s), st')"
  shows "link_ok s"
proof -
  obtain configuration migrated stored connection e h c g secrets st1 st2
    where conn: "initial_connection E configuration st1 = (Ok (connection, e), st2)"
      and s: "s = assemble configuration connection (initial_phase (connection \<noteq> None) migrated stored) h c g secrets"
    using assms unfolding initialize_def
    by (auto simp: ebind_Ok restored_Ok loaded_Ok)
  then show ?thesis using initial_connection_url [of E configuration st1 _ e st2] by (auto simp: s assemble_def link_ok_def)
qed

section \<open>Stopping\<close>

text \<open>The stages between here and the next place where the cancellation is looked at.\<close>

fun stages_left :: "stage \<Rightarrow> nat" where
  "stages_left Returned = 0"
| "stages_left Top = 1"
| "stages_left WaitingForReconnect = 1"
| "stages_left (Delaying _ _) = 1"
| "stages_left (Exchanging _) = 1"
| "stages_left (ClosingConnection _) = 2"
| "stages_left (GreetFailed _ _) = 2"
| "stages_left (OpenFailed _ _ _) = 2"
| "stages_left (Greeting _) = 3"
| "stages_left (AwaitingAcceptance _) = 4"
| "stages_left (Proving _ _ _) = 5"
| "stages_left (SigningChallenge _ _) = 6"
| "stages_left (AwaitingChallenge _) = 7"
| "stages_left (Authenticating _) = 8"
| "stages_left (SocketOpened _) = 9"
| "stages_left (OpeningSocket _) = 10"
| "stages_left (Preparing _) = 11"
| "stages_left (DiscoveringServer _) = 12"
| "stages_left ReadingConnection = 13"
| "stages_left DelayBeforeAttempt = 14"

lemma stages_left_bound: "stages_left g \<le> 14"
  by (cases g) simp_all

lemma stopping_advance:
  assumes "\<not> reads_controls g" "shut (at_service a)" "g \<noteq> Returned"
  shows "stages_left (fst (advance X g a)) < stages_left g"
proof (cases g)
  case (AwaitingAcceptance t)
  then show ?thesis using assms
    by (auto simp: advance_def acceptance_stage_def authentication_ended_def top_def Let_def
        split: prod.split sum.split GatewayAuthenticationServerMessage.split TransportError.split)
next
  case (AwaitingChallenge t)
  then show ?thesis using assms
    by (auto simp: advance_def challenge_stage_def authentication_ended_def top_def Let_def
        split: prod.split sum.split GatewayAuthenticationServerMessage.split)
next
  case Top
  then show ?thesis using assms by (simp add: advance_def top_stage_def returned_def shut_def)
qed (use assms in \<open>auto simp: advance_def open_failed_stage_def signing_stage_def greeting_stage_def delay_stage_def
    reading_stage_def discovering_stage_def preparing_stage_def opening_stage_def opened_stage_def proving_stage_def
    greet_failed_stage_def closing_stage_def authentication_ended_def top_def Let_def
    split: option.split prod.split sum.split\<close>)

lemma cancelled_wait: "reads_controls g \<Longrightarrow> fst (woken X g Cancelled a) = Returned"
  by (cases g) (auto simp: woken_def waiting_woken_def delaying_woken_def exchange_woken_def exchange_shutdown_def
      returned_def Let_def)

text \<open>
  A run of the supervisor and everything else, with the number of the supervisor's own stages it has
  left behind and the number of waits that ended. Which branch of a wait is taken is not said, and the steps of the
  rest of the application are not counted.
\<close>

inductive stopping_run ::
  "('doc, 's) actor_env \<Rightarrow> ('s Service \<Rightarrow> 's Service \<Rightarrow> bool) \<Rightarrow> 's connection_world \<Rightarrow> nat \<Rightarrow> nat \<Rightarrow> 's connection_world \<Rightarrow> bool"
  for X R c where
  start: "stopping_run X R c 0 0 c"
| stage: "stopping_run X R c n m (g, a, qs) \<Longrightarrow> actor_step X R (g, a, qs) (g', a', qs') \<Longrightarrow> g' \<noteq> g \<Longrightarrow>
    \<not> reads_controls g \<Longrightarrow> stopping_run X R c (Suc n) m (g', a', qs')"
| wait: "stopping_run X R c n m (g, a, qs) \<Longrightarrow> actor_step X R (g, a, qs) (g', a', qs') \<Longrightarrow> g' \<noteq> g \<Longrightarrow>
    reads_controls g \<Longrightarrow> stopping_run X R c n (Suc m) (g', a', qs')"
| other: "stopping_run X R c n m (g, a, qs) \<Longrightarrow> actor_step X R (g, a, qs) (g, a', qs') \<Longrightarrow>
    stopping_run X R c n m (g, a', qs')"

lemma every_run_counted:
  assumes "(actor_step X R)\<^sup>*\<^sup>* c c'"
  shows "\<exists>n m. stopping_run X R c n m c'"
  using assms
proof (induction rule: rtranclp_induct)
  case base
  then show ?case using start by blast
next
  case (step c1 c2)
  then obtain n m where run: "stopping_run X R c n m c1" by blast
  obtain g a qs where c1: "c1 = (g, a, qs)" by (cases c1)
  obtain g' a' qs' where c2: "c2 = (g', a', qs')" by (cases c2)
  note here = run [unfolded c1] and there = step.hyps(2) [unfolded c1 c2]
  consider "g' = g" | "g' \<noteq> g" "reads_controls g" | "g' \<noteq> g" "\<not> reads_controls g" by blast
  then show ?case
  proof cases
    case 1
    then show ?thesis using other [OF here] there unfolding c2 by blast
  next
    case 2
    then show ?thesis using wait [OF here there] unfolding c2 by blast
  next
    case 3
    then show ?thesis using stage [OF here there] unfolding c2 by blast
  qed
qed

text \<open>Where the supervisor does not wait, only its own stage moves it.\<close>

lemma unwaited_step:
  assumes "actor_step X R (g, a, qs) (g', a', qs')" "\<not> reads_controls g" "g' \<noteq> g"
  shows "advance X g a = (g', a')"
proof -
  have "woken X g w b = (g, b)" for w b using assms(2) by (cases g) (simp_all add: woken_def)
  then show ?thesis using assms(1) assms(2,3)
    by (auto elim!: actor_step.cases)
qed

lemma stopping_bound:
  assumes "stopping_run X (service_step E) (g, a, qs) n m (g', a', qs')" "shut (at_service a)"
  shows "shut (at_service a') \<and> n + stages_left g' \<le> 14 * (m + 1)"
  using assms(1)
proof (induction "(g', a', qs')" arbitrary: g' a' qs' rule: stopping_run.induct)
  case start
  then show ?case using assms(2) stages_left_bound [of g] by simp
next
  case (stage n m g1 a1 qs1 g' a' qs')
  have "g1 \<noteq> Returned" using stage unwaited_step [OF stage(3,5,4)] by (auto simp: advance_def)
  then have "stages_left g' < stages_left g1"
    using stopping_advance [of g1 a1 X] stage(2,5) unwaited_step [OF stage(3,5,4)] by simp
  then show ?case using stage(2) cancelled.step_keeps [OF stage(3)] by simp
next
  case (wait n m g1 a1 qs1 g' a' qs')
  then show ?case using cancelled.step_keeps [OF wait(3)] stages_left_bound [of g'] by simp
next
  case (other n m g1 a1 qs1 a' qs')
  then show ?case using cancelled.step_keeps [OF other(3)] by simp
qed

end
