(* ===== verification/Host_Properties.thy ===== *)
theory Host_Properties
  imports Desktop_Laws Supervision_Laws Authentication_Properties Catalog_Properties
begin

text \<open>
  A concrete desktop host: the environment with a Serde of two values, an in-memory credential store
  and the sample server, and the host before and after pairing.
\<close>

definition sample_connection :: OpenPrinterConnection where
  "sample_connection = \<lparr>oc_server_url = sample_url, oc_server_id = lit ''s1'', oc_agent_id = lit ''s1'',
     oc_key_id = lit ''s1'', oc_credential_ref = sample_ref\<rparr>"

definition sample_host_renv :: "(Value, unit) renv" where
  "sample_host_renv = \<lparr>rt_env = \<lparr>env_storage = cx_storage sample_catalog_env, env_to_value = (\<lambda>_. None),
     env_from_value = (\<lambda>_. Err []), env_message_value = (\<lambda>_. None), env_clock = (\<lambda>_. 0),
     env_uuid = (\<lambda>_. lit ''u''), env_rfc3339 = (\<lambda>_. []), env_resolve = (\<lambda>_ _. Ok None),
     env_render = (\<lambda>_ _. Ok ()), env_render_pdf = (\<lambda>_ _. Ok ()), env_join_error = (\<lambda>_. None), env_fetch = None,
     env_spoolers = (\<lambda>_. Map.empty), env_cancel_during = (\<lambda>_. False), env_resolution_text = (\<lambda>_. []),
     env_renderer_text = (\<lambda>_. []), env_fetch_text = (\<lambda>_. []), env_spooler_text = (\<lambda>_. [])\<rparr>,
     rt_report = (\<lambda>_ _. Ok ()), rt_message_from_value = (\<lambda>_. None)\<rparr>"

definition sample_product :: ProductConfig where
  "sample_product = \<lparr>pf_schema_version = 1, pf_product_id = lit ''oppa'', pf_product_name = lit ''OPPA'',
     pf_application_id = lit ''a.b.c'', pf_description = [], pf_updates = \<lparr>up_endpoint = None\<rparr>,
     pf_branding = \<lparr>br_support_url = sample_url, br_documentation_url = sample_url\<rparr>, pf_features = sample_features,
     pf_legal = \<lparr>lg_privacy_url = None, lg_terms_url = None, lg_text = None\<rparr>, pf_deep_link_scheme = None\<rparr>"

text \<open>Only the sample connection and the empty value can be written.\<close>

definition sample_host_env :: "(unit, memory_store) service_env" where
  "sample_host_env = \<lparr>dx_urls = sample_url_lib, dx_port = (\<lambda>_. None), dx_http = sample_http, dx_crypto = sample_crypto,
     dx_secrets = memory_ops, dx_config_to_value = (\<lambda>_. Err []), dx_config_from_value = (\<lambda>_. None),
     dx_connection_to_value = (\<lambda>c. if c = sample_connection then Ok (JBool True) else Err []),
     dx_connection_from_value = (\<lambda>v. if v = JBool True then Some sample_connection else None),
     dx_servers_to_value = (\<lambda>_. Err []), dx_servers_from_value = (\<lambda>_. None), dx_catalog = sample_catalog_env,
     dx_ledger = \<lparr>le_storage = cx_storage sample_catalog_env, le_to_value = (\<lambda>_. Err []), le_from_value = (\<lambda>_. Err []),
       le_storage_text = (\<lambda>_. []), le_time_text = (\<lambda>_. [])\<rparr>,
     dx_agent = sample_host_renv, dx_base64_decode = (\<lambda>_. None), dx_transport_text = (\<lambda>_. []), dx_runtime_text = (\<lambda>_. []),
     dx_product = sample_product, dx_version = lit ''12'', dx_os = lit ''os''\<rparr>"

definition sample_handle :: AgentHandle where
  "sample_handle = AgentHandle_new \<lparr>snap_state = Unconfigured, snap_pending_jobs = 0, snap_active_errors = []\<rparr>"

definition sample_host :: "memory_store Service" where
  "sample_host = assemble \<lparr>osc_server_url = sample_url\<rparr> None PhaseIdle sample_handle sample_printer_catalog
     \<lparr>lg_storage = sample_catalog_database, lg_jobs = []\<rparr> Map.empty"

lemma sample_host_faithful: "settings_faithful sample_host_env"
  by (auto simp: settings_faithful_def sample_host_env_def sample_catalog_env_def split: Value.splits bool.splits if_splits)

lemma sample_stores: "store_remembers (dx_secrets sample_host_env)" "store_forgets (dx_secrets sample_host_env)"
  using memory.ops_remember memory.ops_forget by (simp_all add: sample_host_env_def memory_ops_eq)

lemma sample_host_discovers: "discover_configured sample_host_env s = Ok sample_discovered"
  if "osc_server_url (sv_configuration s) = sample_url"
  using that sample_discovers by (simp add: discover_configured_def sample_host_env_def)

definition sample_generated :: GeneratedCredential where
  "sample_generated = \<lparr>gk_credential_ref = sample_ref, gk_public_key = \<lparr>jwk_kty = lit ''OKP'', jwk_crv = lit ''Ed25519'',
     jwk_x = replicate 32 65\<rparr>\<rparr>"

lemma sample_installation: "identifier_shape 128 (lit ''installation_'' @ replicate 36 97)"
proof -
  let ?i = "lit ''installation_'' @ replicate 36 97"
  have shape: "\<forall>c \<in> set ?i. c < 128 \<and> is_identifier_char c"
    by (auto simp: lit_def is_identifier_char_def is_ascii_alnum_def is_ascii_lower_def)
  have "length ?i = 49" "hd ?i = 105" by (simp_all add: lit_def)
  moreover have "utf16_count ?i = length ?i" using shape by (intro utf16_count_ascii) auto
  moreover have "is_ascii_alnum 105" by (simp add: is_ascii_alnum_def is_ascii_lower_def)
  moreover have "?i \<noteq> []" by simp
  ultimately show ?thesis using shape by (auto simp: identifier_shape_def simp del: utf16_count_simps)
qed

lemma sample_host_request:
  "PairingRequest_validate sample_base64url
     (pairing_request sample_host_env 0 (lit ''AB-12'') (lit ''Desk'') sample_generated) = Ok ()"
  using sample_installation
  by (simp add: PairingRequest_validate_def pairing_request_def sample_host_env_def sample_generated_def sample_crypto_def
      first_err_Ok wire_checks sample_base64url_def)
    (simp add: lit_def utf8_bytes_def utf8_encode_def is_ascii_alnum_def is_ascii_digit_def is_ascii_upper_def)

lemma sample_host_pairs:
  "pair sample_base64url sample_http sample_discovered
     (pairing_request sample_host_env 0 (lit ''AB-12'') (lit ''Desk'') sample_generated) = Ok sample_pairing_response"
  using sample_host_request
  by (simp add: pair_def sample_http_def sample_body sample_response_valid)
    (simp add: sample_pairing_response_def sample_discovered_def sample_document_def)

lemma sample_paired_connection: "paired_connection sample_url sample_pairing_response sample_generated = sample_connection"
  by (simp add: paired_connection_def sample_pairing_response_def sample_generated_def sample_connection_def)

lemma sample_set_connection:
  "is_ok (fst (set_setting sample_host_env 0 CONNECTION_SETTING (JBool True) s))"
  "is_ok (fst (set_setting sample_host_env 0 CONNECTION_SETTING JNull s))"
  by (simp_all add: set_setting_def set_metadata_def setting_keys_valid sample_host_env_def sample_catalog_env_def
      bounded_json_def now_millis_def timestamp_millis_def reject_if_def split: sum.split)

definition sample_pairing :: "(CommandError + DiscoveredServiceSummary) \<times> memory_store Service" where
  "sample_pairing = pair_server sample_host_env 0 0 (lit ''AB-12'') (lit ''Desk'') sample_host"

lemma require_transition_Ok:
  "can_transition (sv_state s) st \<Longrightarrow> \<exists>s'. require_transition st s = (Ok (), s') \<and> sv_state s' = st \<and> link s' = link s \<and>
     kept s' = kept s"
  by (auto simp: require_transition_def agent_transition_def Let_def service_frame) (simp add: with_handle_def)

lemma sample_host_fields [simp]:
  "sv_connection sample_host = None" "sv_configuration sample_host = \<lparr>osc_server_url = sample_url\<rparr>"
  "sv_secrets sample_host = Map.empty" "sv_state sample_host = Unconfigured" "sv_identity sample_host = None"
  by (simp_all add: sample_host_def assemble_def sample_handle_def AgentHandle_new_def Let_def)

lemma sample_pairing_run: "fst sample_pairing = Ok (discovered_summary sample_discovered)"
proof -
  obtain s1 where s1: "require_transition Pairing sample_host = (Ok (), s1)" "sv_state s1 = Pairing"
      "link s1 = link sample_host" "kept s1 = kept sample_host"
    using require_transition_Ok [of sample_host Pairing] by (auto simp: can_transition_def)
  let ?s2 = "set_phase PhasePairing s1"
  have s2: "osc_server_url (sv_configuration ?s2) = sample_url" "sv_secrets ?s2 = Map.empty" "sv_state ?s2 = Pairing"
    using s1 by (auto simp: link_def kept_def set_phase_def)
  let ?s3 = "?s2\<lparr>sv_secrets := (Map.empty :: memory_store)(sample_ref \<mapsto> replicate 32 65)\<rparr>"
  have generated: "on_secrets (key_generate (dx_crypto sample_host_env) (dx_secrets sample_host_env) 0
      (ds_id (dd_server (dv_document sample_discovered)))) ?s2 = (Ok sample_generated, ?s3)"
    using sample_generates(1) [of Map.empty] s2(2)
    by (simp add: on_secrets_def sample_host_env_def sample_generated_def sample_discovered_def sample_document_def)
  obtain s4 where s4: "set_setting sample_host_env 0 CONNECTION_SETTING (JBool True) ?s3 = (Ok (), s4)"
    using sample_set_connection(1) [of ?s3]
    by (cases "set_setting sample_host_env 0 CONNECTION_SETTING (JBool True) ?s3";
        cases "fst (set_setting sample_host_env 0 CONNECTION_SETTING (JBool True) ?s3)") auto
  have "sv_state s4 = Pairing"
    using s4 s2(3) by (auto simp: set_setting_def with_db_def split: sum.splits prod.splits)
  let ?s5 = "set_errors [] (s4\<lparr>sv_agent_id := Some (oc_agent_id sample_connection),
    sv_identity := Some (identity_of sample_connection), sv_connection := Some sample_connection, sv_phase := PhasePaired\<rparr>)"
  have "sv_state ?s5 = Pairing"
    using \<open>sv_state s4 = Pairing\<close> by (simp add: set_errors_def with_handle_def set_active_errors_def Let_def)
  then obtain s6 where s6: "require_transition AgentState.Disconnected ?s5 = (Ok (), s6)"
    using require_transition_Ok [of ?s5 AgentState.Disconnected] by (auto simp: can_transition_def)
  have "fst (adopt_connection sample_host_env 0 sample_discovered sample_connection s4) = Ok (discovered_summary sample_discovered)"
    using s6 by (simp add: adopt_connection_def ebind_def emodify_def ecase_def eret_def split: prod.split)
  then have stored: "fst (store_pairing sample_host_env 0 sample_discovered sample_connection ?s3) = Ok (discovered_summary sample_discovered)"
    using s4 by (simp add: store_pairing_def ebind_def elift_def ecase_def sample_host_env_def)
  have "pair (cr_base64 (dx_crypto sample_host_env)) (dx_http sample_host_env) sample_discovered
      (pairing_request sample_host_env 0 (lit ''AB-12'') (lit ''Desk'') sample_generated) = Ok sample_pairing_response"
    using sample_host_pairs by (simp add: sample_host_env_def sample_crypto_def)
  then have "fst (pair_with sample_host_env 0 0 (lit ''AB-12'') (lit ''Desk'') sample_discovered sample_url ?s2) =
      Ok (discovered_summary sample_discovered)"
    using generated stored by (simp add: pair_with_def ecase_def sample_paired_connection)
  moreover have "trim (lit ''Desk'') = lit ''Desk''" "byte_len (lit ''Desk'') \<le> 128" "lit ''Desk'' \<noteq> []"
    by (simp_all add: lit_def trim_def trim_start_def trim_end_def is_whitespace_def byte_len_def utf8_len_def)
  ultimately show ?thesis
    using s1(1) s2(1) sample_host_discovers [of ?s2]
    by (simp add: sample_pairing_def pair_server_def ebind_def emodify_def)
qed

lemma sample_pairing_eq:
  "pair_server sample_host_env 0 0 (lit ''AB-12'') (lit ''Desk'') sample_host =
     (Ok (discovered_summary sample_discovered), snd sample_pairing)"
  using sample_pairing_run by (simp add: sample_pairing_def prod_eq_iff)

text \<open>The host as it is when paired.\<close>

definition sample_linked :: "memory_store Service" where
  "sample_linked = (with_db (empty_database\<lparr>settings_table :=
       [\<lparr>kv_key = CONNECTION_SETTING, kv_value_json = [116], kv_updated_at = 0\<rparr>]\<rparr>) sample_host)
     \<lparr>sv_connection := Some sample_connection,
      sv_identity := Some (identity_of sample_connection), sv_secrets := [sample_ref \<mapsto> replicate 32 65]\<rparr>"

lemma sample_linked_fields [simp]:
  "sv_connection sample_linked = Some sample_connection" "sv_generation sample_linked = 0"
  "sv_secrets sample_linked = [sample_ref \<mapsto> replicate 32 65]"
  "oc_credential_ref sample_connection = sample_ref" "oc_server_url sample_connection = sample_url"
  by (simp_all add: sample_linked_def sample_connection_def sample_host_def assemble_def with_db_def)

lemma sample_linked_setting:
  "cx_storage (dx_catalog E) = cx_storage sample_catalog_env \<Longrightarrow>
     service_setting E CONNECTION_SETTING sample_linked = Ok (Some (JBool True))"
  by (simp add: service_setting_def get_metadata_def setting_keys_valid sample_linked_def with_db_def sample_catalog_env_def)

definition sample_forgotten :: "memory_store Service" where
  "sample_forgotten = snd (forget_server sample_host_env 0 sample_linked)"

lemma sample_forgets: "forget_server sample_host_env 0 sample_linked = (Ok (), sample_forgotten)"
proof -
  let ?s1 = "sample_linked\<lparr>sv_identity := None, sv_connection := None, sv_secrets := Map.empty\<rparr>"
  have "take_connection sample_host_env (sample_linked\<lparr>sv_identity := None\<rparr>) = (Ok (), ?s1)"
    using sample_generates(2) [of "[sample_ref \<mapsto> replicate 32 65]"]
    by (simp add: take_connection_def sample_host_env_def emap_err_def on_secrets_def)
  moreover obtain s2 where "set_setting sample_host_env 0 CONNECTION_SETTING JNull ?s1 = (Ok (), s2)"
    using sample_set_connection(2) [of ?s1]
    by (cases "set_setting sample_host_env 0 CONNECTION_SETTING JNull ?s1";
        cases "fst (set_setting sample_host_env 0 CONNECTION_SETTING JNull ?s1)") auto
  ultimately have "fst (forget_connection sample_host_env 0 sample_linked) = Ok ()"
    by (simp add: forget_connection_def ebind_def emodify_def emap_err_def)
  then have "fst (forget_server sample_host_env 0 sample_linked) = Ok ()"
    by (cases "forget_connection sample_host_env 0 sample_linked")
      (simp add: forget_server_def ebind_def emodify_def ecase_def eret_def split: prod.split)
  then show ?thesis by (simp add: sample_forgotten_def prod_eq_iff)
qed

text \<open>
  The properties of the desktop host: what pairing and forgetting leave for the next start, what a
  forgetting that fails leaves, and that documents are fetched with the paired identity or not at all.
\<close>

section \<open>Pairing\<close>

text \<open>C15: A pairing that reports success survives a restart: from the stores it leaves, a start with the
  same server URL takes up exactly the connection it made, whose private key exists, and names no error.\<close>

theorem pairing_durable:
  assumes "pair_server E clock n code name s = (Ok d, s')" "settings_faithful E" "store_remembers (dx_secrets E)"
    and "uuid_shape (cr_uuid (dx_crypto E) n)"
  shows "\<exists>c. sv_connection s' = Some c \<and> sv_identity s' = Some (identity_of c) \<and>
    oc_server_url c = osc_server_url (sv_configuration s) \<and> sv_configuration s' = sv_configuration s \<and>
    key_exists (dx_secrets E) (oc_credential_ref c) (sv_secrets s') = (Ok True, sv_secrets s') \<and>
    restart_connection E (sv_configuration s') s' = Ok (Some c, None)"
proof -
  from assms(1) obtain dd s1 where s1: "link s1 = link s"
    and run: "pair_with E clock n code name dd (osc_server_url (sv_configuration s)) s1 = (Ok d, s')"
    by (rule pair_server_Ok)
  from run obtain g k response
    where gen: "key_generate (dx_crypto E) (dx_secrets E) n (ds_id (dd_server (dv_document dd))) (sv_secrets s1) = (Ok g, k)"
      and store: "store_pairing E clock dd (paired_connection (osc_server_url (sv_configuration s)) response g)
        (s1\<lparr>sv_secrets := k\<rparr>) = (Ok d, s')"
    by (rule pair_with_Ok)
  let ?c = "paired_connection (osc_server_url (sv_configuration s)) response g"
  from store obtain v s2 where v: "dx_connection_to_value E ?c = Ok v"
      "set_setting E clock CONNECTION_SETTING v (s1\<lparr>sv_secrets := k\<rparr>) = (Ok (), s2)"
      "adopt_connection E clock dd ?c s2 = (Ok d, s')"
    by (rule store_pairing_Ok)
  note adopted = adopt_connection_run [OF v(3)]
  have s2: "sv_configuration s2 = sv_configuration s" "sv_secrets s2 = k"
    using set_setting_link [OF v(2)] s1 by (auto simp: link_def)
  have key: "key_exists (dx_secrets E) (oc_credential_ref ?c) (sv_secrets s') = (Ok True, sv_secrets s')"
    using key_generated_exists [OF gen assms(3,4)] adopted s2 by (simp add: paired_connection_def)
  have "service_setting E CONNECTION_SETTING s' = Ok (Some v)"
    using adopted set_setting_stored [OF v(2) assms(2)] by simp
  moreover have "dx_connection_from_value E v = Some ?c" using v(1) assms(2) by (simp add: settings_faithful_def)
  moreover have "osc_server_url (sv_configuration s') = oc_server_url ?c"
    using adopted s2 by (simp add: paired_connection_def)
  ultimately have "restart_connection E (sv_configuration s') s' = Ok (Some ?c, None)" using key by (rule restart_some)
  then show ?thesis using adopted s2 key by (intro exI [of _ ?c]) (simp add: paired_connection_def)
qed

theorem pairing_durable_witness:
  "\<exists>c. sv_connection (snd sample_pairing) = Some c \<and> oc_server_url c = sample_url \<and>
    restart_connection sample_host_env \<lparr>osc_server_url = sample_url\<rparr> (snd sample_pairing) = Ok (Some c, None)"
proof -
  have "uuid_shape (cr_uuid (dx_crypto sample_host_env) 0)"
    by (simp add: sample_host_env_def sample_crypto_def uuid_shape_def)
  from pairing_durable [OF sample_pairing_eq sample_host_faithful sample_stores(1) this] show ?thesis by auto
qed

section \<open>Forgetting\<close>

text \<open>C14: A forgetting that succeeds leaves no connection, identity or agent identifier in memory, a start with
  any server URL takes up no connection, document requests are refused without reading the store, and the
  attempts of the supervisor that are under way are out of date. What happens to the secret store
  depends on the connection that was in memory: with one, the store changes by the deletion of that
  connection's key and the key is gone; with none (nothing was paired, or an earlier forgetting failed
  after taking the connection, see \<open>failed_forget_returns\<close>), the store is exactly as before, a key
  left in it included.\<close>

theorem forget_erases:
  assumes "forget_server E clock s = (Ok (), s')" "settings_faithful E" "store_forgets (dx_secrets E)"
  shows "sv_connection s' = None \<and> sv_agent_id s' = None \<and> sv_connected s' = None \<and> sv_phase s' = PhaseUnpaired \<and>
    sv_generation s' = sv_generation s + 1 \<and> restart_connection E configuration s' = Ok (None, None) \<and>
    paired_fetch F K client n j pdf s' =
      (Err (Authorization (lit ''this agent is not paired with a server'')), s') \<and>
    (case sv_connection s of None \<Rightarrow> sv_secrets s' = sv_secrets s
     | Some c \<Rightarrow> key_delete (dx_secrets E) (oc_credential_ref c) (sv_secrets s) = (Ok (), sv_secrets s') \<and>
         key_exists (dx_secrets E) (oc_credential_ref c) (sv_secrets s') = (Ok False, sv_secrets s'))"
proof -
  from assms(1) obtain s1 where fc: "forget_connection E clock s = (Ok (), s1)" and same: "link s' = link s1" "kept s' = kept s1"
      "sv_generation s' = sv_generation s1 + 1" "sv_phase s' = sv_phase s1" "sv_agent_id s' = sv_agent_id s1"
      "sv_connected s' = sv_connected s1"
    by (rule forget_server_run)
  note facts = forget_connection_Ok [OF fc assms(2)] forget_connection_link [OF fc]
  have none: "sv_connection s' = None" "sv_identity s' = None" using facts same(1) by (simp_all add: link_def)
  have "service_setting E CONNECTION_SETTING s' = Ok (Some JNull)"
    using facts same(2) by (simp add: kept_def service_setting_def)
  then have restart: "restart_connection E configuration s' = Ok (None, None)" using assms(2) by (rule restart_none)
  have "case sv_connection s of None \<Rightarrow> sv_secrets s1 = sv_secrets s
     | Some c \<Rightarrow> key_delete (dx_secrets E) (oc_credential_ref c) (sv_secrets s) = (Ok (), sv_secrets s1) \<and>
         key_exists (dx_secrets E) (oc_credential_ref c) (sv_secrets s1) = (Ok False, sv_secrets s1)"
    using forget_connection_secrets [OF fc] key_deleted_absent [OF _ assms(3)] by (simp split: option.splits)
  then show ?thesis using facts same none restart by (auto simp: kept_def paired_fetch_def split: option.splits)
qed

theorem forget_erases_witness:
  "sv_connection sample_linked = Some sample_connection \<and> sv_connection sample_forgotten = None \<and>
    sv_generation sample_forgotten = 1 \<and>
    key_exists memory_ops sample_ref (sv_secrets sample_forgotten) = (Ok False, sv_secrets sample_forgotten)"
proof -
  have "dx_secrets sample_host_env = memory_ops" by (simp add: sample_host_env_def)
  then show ?thesis
    using forget_erases [OF sample_forgets sample_host_faithful sample_stores(2), of "\<lparr>osc_server_url = sample_url\<rparr>"
      sample_fetch_env memory_ops "Ok ()" 0 "[]" sample_pdf] by simp
qed

text \<open>C18: A forgetting whose key deletion fails has taken the connection out of memory and nothing else: the
  stored connection and the store are as before, so the next start takes the server up again; and a
  second forgetting reports success without deleting the key.\<close>

theorem failed_forget_returns:
  assumes "sv_connection s = Some c"
    and "key_delete (dx_secrets E) (oc_credential_ref c) (sv_secrets s) = (Err e, k)"
  shows "\<exists>s1. forget_server E clock s =
      (Err (CommandError_new (lit ''credential_delete_failed'') (AuthError_to_string e)), s1) \<and>
    sv_connection s1 = None \<and> sv_generation s1 = sv_generation s \<and> sv_phase s1 = sv_phase s \<and>
    restart_connection E configuration s1 = restart_connection E configuration (s\<lparr>sv_secrets := k\<rparr>) \<and>
    (\<forall>s2. forget_server E clock' s1 = (Ok (), s2) \<longrightarrow> sv_secrets s2 = k)"
proof -
  let ?s1 = "s\<lparr>sv_identity := None, sv_connection := None, sv_secrets := k\<rparr>"
  have run: "forget_server E clock s =
      (Err (CommandError_new (lit ''credential_delete_failed'') (AuthError_to_string e)), ?s1)"
    using assms by (simp add: forget_server_def forget_connection_def take_connection_def ebind_def emodify_def
        emap_err_def on_secrets_def)
  have "restart_connection E configuration ?s1 = restart_connection E configuration (s\<lparr>sv_secrets := k\<rparr>)"
    by (rule restart_depends) (simp add: kept_def)
  moreover have "sv_secrets s2 = k" if again: "forget_server E clock' ?s1 = (Ok (), s2)" for s2
  proof -
    from again obtain s3 where fc: "forget_connection E clock' ?s1 = (Ok (), s3)" and "kept s2 = kept s3"
      by (rule forget_server_run)
    then show ?thesis using forget_connection_secrets [OF fc] by (simp add: kept_def)
  qed
  ultimately show ?thesis using run by (intro exI [of _ ?s1]) simp
qed

text \<open>A store whose deletion fails, for instance because the session is locked.\<close>

definition locked_ops :: "memory_store secret_ops" where
  "locked_ops = memory_ops\<lparr>so_delete := (\<lambda>a s. (Err (CredentialStoreFailed (lit ''locked'')), s))\<rparr>"

theorem failed_forget_returns_witness:
  "\<exists>e s1. forget_server (sample_host_env\<lparr>dx_secrets := locked_ops\<rparr>) 0 sample_linked = (Err e, s1) \<and>
    sv_connection s1 = None \<and>
    restart_connection (sample_host_env\<lparr>dx_secrets := locked_ops\<rparr>) \<lparr>osc_server_url = sample_url\<rparr> s1 =
      Ok (Some sample_connection, None)"
proof -
  let ?E = "sample_host_env\<lparr>dx_secrets := locked_ops\<rparr>" and ?k = "sv_secrets sample_linked"
  let ?e = "AuthPlatform (CredentialStoreFailed (lit ''locked''))"
  have same: "sample_linked\<lparr>sv_secrets := ?k\<rparr> = sample_linked" by (simp del: sample_linked_fields)
  have "key_delete (dx_secrets ?E) (oc_credential_ref sample_connection) ?k = (Err ?e, ?k)"
    using sample_ref_ok(2) by (simp add: key_delete_def locked_ops_def ebind_def elift_def emap_err_def)
  from failed_forget_returns [OF sample_linked_fields(1) this, of 0 "\<lparr>osc_server_url = sample_url\<rparr>" 0]
  obtain e s1 where s1: "forget_server ?E 0 sample_linked = (Err e, s1)" "sv_connection s1 = None"
      "restart_connection ?E \<lparr>osc_server_url = sample_url\<rparr> s1 =
       restart_connection ?E \<lparr>osc_server_url = sample_url\<rparr> (sample_linked\<lparr>sv_secrets := ?k\<rparr>)" by blast
  have "service_setting ?E CONNECTION_SETTING sample_linked = Ok (Some (JBool True))"
    by (rule sample_linked_setting) (simp add: sample_host_env_def)
  moreover have "key_exists (dx_secrets ?E) (oc_credential_ref sample_connection) ?k = (Ok True, ?k)"
    using sample_ref_ok by (simp add: key_exists_def locked_ops_def memory_ops_def memory_get_def ebind_def elift_def
        emap_err_def eret_def egets_def)
  ultimately have "restart_connection ?E \<lparr>osc_server_url = sample_url\<rparr> sample_linked = Ok (Some sample_connection, None)"
    by (intro restart_some [where v = "JBool True"]) (simp_all add: sample_host_env_def)
  with s1 show ?thesis unfolding same by metis
qed

end
