(* ===== verification/Supervision_Samples.thy ===== *)
theory Supervision_Samples
  imports Host_Properties Connection_Properties Supervision_Laws
begin

text \<open>
  A concrete run of the connection supervisor: an attempt on the sample server that authenticates,
  greets, is greeted and receives a print job, with one report waiting for the handshake.
\<close>

section \<open>The server\<close>

definition sample_challenge :: GatewayAuthenticationChallenge where
  "sample_challenge = \<lparr>gc_message_type = lit ''auth.challenge'', gc_challenge_id = lit ''m1'',
     gc_payload = replicate 86 65, gc_expires_at = lit ''2024-01-01T00:00:00Z''\<rparr>"

definition sample_admission :: GatewayAuthenticationAccepted where
  "sample_admission = sample_accepted\<lparr>ga_agent_id := lit ''s1''\<rparr>"

definition sample_server_hello :: ServerHello where
  "sample_server_hello = \<lparr>sh_server_id = lit ''s1'', sh_server_version = lit ''1'', sh_brand = \<lparr>brand_name = lit ''Desk''\<rparr>,
     sh_session_id = lit ''m1'', sh_supported_versions = [V2, V1], sh_selected_version = V2,
     sh_heartbeat_interval_ms = 5000, sh_max_message_bytes = 1024\<rparr>"

definition sample_greeting :: ServerMessage where
  "sample_greeting = \<lparr>sm_protocol_version = V1, sm_message_id = lit ''m1'', sm_sent_at = lit ''2024-01-01T00:00:00Z'',
     sm_correlation_id = Some (lit ''message_u''), sm_kind = ServerHelloMsg sample_server_hello\<rparr>"

text \<open>The text \<open>h\<close> is read as the hello of the server, any other as the print job.\<close>

definition sample_session_serde :: serde where
  "sample_session_serde = sample_serde\<lparr>
     from_slice := (\<lambda>bytes. Some (JObject ((lit ''protocolVersion'', JString (lit ''1'')) #
       (if bytes = [104] then [(lit ''type'', JNull)] else [])))),
     server_from_value := (\<lambda>v. Ok (if value_get v (lit ''type'') = None then sample_message else sample_greeting))\<rparr>"

definition sample_reads :: "Next list" where
  "sample_reads = [NextFrame (TextFrame (lit ''c'')), NextFrame (TextFrame (lit ''a'')), NextFrame (TextFrame (lit ''h'')),
     NextFrame (TextFrame (lit ''j''))]"

definition sample_gateway :: transport_env where
  "sample_gateway = sample_transport_env\<lparr>te_serde := sample_session_serde,
     te_base64 := \<lparr>b64_decode = (\<lambda>_. Some (replicate 64 0)), b64_encode = (\<lambda>_. replicate 86 65)\<rparr>,
     te_response_to_string := (\<lambda>_. Ok (lit ''r'')),
     te_auth_from_str := (\<lambda>t. Some (if t = lit ''c'' then Challenge sample_challenge else Accepted sample_admission)),
     te_connect := (\<lambda>_. ConnectDone sample_reads [] CloseDone)\<rparr>"

definition sample_actor_env :: "(unit, memory_store) actor_env" where
  "sample_actor_env = \<lparr>
     sx_service = sample_host_env\<lparr>dx_ledger := (dx_ledger sample_host_env)\<lparr>
       le_time_text := (\<lambda>_. lit ''2024-01-01T00:00:00Z'')\<rparr>\<rparr>,
     sx_http = (\<lambda>_. sample_http), sx_transport = (\<lambda>_. sample_gateway),
     sx_scan = (\<lambda>_. \<lparr>sc_host = OtherHost, sc_text = \<lparr>tl_utf8_error = (\<lambda>_. []), tl_utf8_lossy = (\<lambda>b. b)\<rparr>,
       sc_query = CommandElapsed, sc_lpoptions = (\<lambda>_. CommandElapsed), sc_connects = (\<lambda>_ _. False), sc_late = (\<lambda>_. False)\<rparr>),
     sx_clock = (\<lambda>_. 0), sx_uuid = (\<lambda>_. lit ''u''), sx_now_millis = (\<lambda>_. 0), sx_uptime_seconds = (\<lambda>_. 5),
     sx_jitter = (\<lambda>_. f64_zero), sx_negotiation_to_value = (\<lambda>_. JNull), sx_negotiation_from_value = (\<lambda>_. None)\<rparr>"

text \<open>The host when it is paired and has no printers.\<close>

definition sample_online :: "memory_store Service" where
  "sample_online = sample_linked\<lparr>sv_catalog := sample_printer_catalog\<lparr>pcat_state := sample_emptied\<rparr>\<rparr>"

lemma sample_online_fields [simp]:
  "sv_connection sample_online = Some sample_connection" "sv_generation sample_online = 0"
  "sv_secrets sample_online = [sample_ref \<mapsto> replicate 32 65]" "sv_shutdown sample_online = False"
  "osc_server_url (sv_configuration sample_online) = sample_url"
  by (simp_all add: sample_online_def) (simp_all add: sample_linked_def sample_host_def assemble_def with_db_def)

lemma sample_identifiers [simp]:
  "identifier_shape 128 (lit ''message_u'')" "identifier_shape 128 (lit ''oppa'')" "identifier_shape 128 (lit ''s1'')"
  by (simp_all add: identifier_eval)

lemma byte_len_replicate [simp]: "byte_len (replicate n 65) = n"
  by (simp add: byte_len_ascii)

lemma sample_challenge_valid:
  "Challenge_validate (te_base64 sample_gateway) sample_challenge = Ok ()"
  "Challenge_validate sample_base64url sample_challenge = Ok ()"
  by (simp_all add: Challenge_validate_def sample_challenge_def first_err_Ok wire_checks sample_timestamp
      sample_gateway_def sample_base64url_def)

lemma sample_admission_valid: "Accepted_validate sample_admission = Ok ()"
  by (simp add: Accepted_validate_def sample_admission_def sample_accepted_def first_err_Ok wire_checks)

definition sample_signature :: ustring where "sample_signature = replicate 86 65"

lemma sample_proof_valid:
  "Response_validate (te_base64 sample_gateway) (proof_of sample_connection sample_challenge sample_signature) = Ok ()"
  by (simp add: Response_validate_def proof_of_def sample_connection_def sample_challenge_def sample_signature_def
      first_err_Ok wire_checks sample_gateway_def)

lemma sample_signs:
  "sign_challenge sample_crypto memory_ops sample_ref sample_challenge [sample_ref \<mapsto> replicate 32 65] =
     (Ok sample_signature, [sample_ref \<mapsto> replicate 32 65])"
  using sample_ref_ok sample_challenge_valid(2)
  by (simp add: sign_challenge_def key_sign_def run_eval sample_crypto_def memory_ops_def memory_get_def reject_if_def
      sample_signature_def sample_base64url_def MAX_CHALLENGE_BYTES_def)
    (simp add: sample_challenge_def run_eval)

lemma sample_greeting_valid: "ServerMessage_validate sample_greeting = Ok ()"
  by (simp add: ServerMessage_validate_def sample_greeting_def first_err_Ok wire_checks validate_envelope_def sample_timestamp
      ServerMessageKind_validate_def required_server_version_def if_some_Ok BASE_def ServerHello_validate_def
      sample_server_hello_def Brand_validate_def validate_brand_name_def and_then_Ok MAX_WIRE_MESSAGE_BYTES_def)
    (simp add: lit_def is_brand_edge_whitespace_def is_brand_unsafe_character_def is_whitespace_def)

lemma sample_decodes:
  "decode_server_message sample_session_serde (utf8_bytes (lit ''h'')) = Ok sample_greeting"
  "decode_server_message sample_session_serde (utf8_bytes (lit ''j'')) = Ok sample_message"
proof -
  have shape: "decode_value sample_session_serde (utf8_bytes t) SUPPORTED =
      Ok (JObject ((lit ''protocolVersion'', JString (lit ''1'')) # (if t = lit ''h'' then [(lit ''type'', JNull)] else [])))"
    "validate_envelope_shape (JObject ((lit ''protocolVersion'', JString (lit ''1'')) #
      (if t = lit ''h'' then [(lit ''type'', JNull)] else []))) = Ok ()" if "t \<in> {lit ''h'', lit ''j''}" for t
    using that by (auto simp: decode_value_def enforce_size_def MAX_WIRE_MESSAGE_BYTES_def reject_if_def
        sample_session_serde_def assert_supported_version_def SUPPORTED_def validate_envelope_shape_def
        reject_unknown_fields_def ENVELOPE_FIELDS_def lit_def utf8_bytes_def utf8_encode_def EXTENDED_def BASE_def)
  have "server_from_value sample_session_serde v = Ok (if value_get v (lit ''type'') = None then sample_message else sample_greeting)"
    for v by (simp add: sample_session_serde_def)
  moreover have "lit ''protocolVersion'' \<noteq> lit ''type''" "lit ''h'' \<noteq> lit ''j''" by (simp_all add: lit_def)
  moreover have "\<exists>job. sm_kind sample_message = ServerPrintJobMsg job" "sm_kind sample_greeting = ServerHelloMsg sample_server_hello"
      "sh_supported_versions sample_server_hello = [V2, V1]"
    by (simp_all add: sample_message_def sample_greeting_def sample_server_hello_def)
  ultimately show "decode_server_message sample_session_serde (utf8_bytes (lit ''h'')) = Ok sample_greeting"
      "decode_server_message sample_session_serde (utf8_bytes (lit ''j'')) = Ok sample_message"
    using shape [of "lit ''h''"] shape [of "lit ''j''"] sample_greeting_valid sample_message_valid
    by (auto simp: decode_server_message_def decode_server_message_for_def deserialize_message_def
        ensure_offers_supported_def reject_if_def SUPPORTED_def)
qed

section \<open>The run\<close>

definition sample_attempt :: attempt where
  "sample_attempt = \<lparr>ap_connection = sample_connection, ap_server_url = sample_url, ap_generation = 0,
     ap_gateway = dv_gateway_url sample_discovered, ap_hello_id = []\<rparr>"

definition sample_wire :: "wire_event list \<Rightarrow> Next list \<Rightarrow> bool \<Rightarrow> bool \<Rightarrow> WebSocketTransport" where
  "sample_wire l rs authenticated greeted = \<lparr>tr_config = actor_transport_config sample_attempt,
     tr_socket = Some \<lparr>sk_log = l, sk_reads = rs, sk_writes = [], sk_close = CloseDone\<rparr>,
     tr_state = ConnectionState.Connected, tr_published = ConnectionState.Connected, tr_outbound = [],
     tr_authenticated = authenticated, tr_hello_sent = greeted, tr_connects = 1\<rparr>"

definition sample_actor :: "nat \<Rightarrow> WebSocketTransport \<Rightarrow> memory_store Actor" where
  "sample_actor attempts w = (initial_actor sample_online w \<lparr>rb_policy = BackoffPolicy_default, rb_attempts = 0\<rparr>)
     \<lparr>at_attempts := attempts\<rparr>"

abbreviation sample_run :: "memory_store connection_world \<Rightarrow> bool" where
  "sample_run c \<equiv> actor_run sample_actor_env (\<lambda>_ _. True) sample_online sample_created c"

lemma sample_run_step: "sample_run c \<Longrightarrow> actor_step sample_actor_env (\<lambda>_ _. True) c c' \<Longrightarrow> sample_run c'"
  by (auto simp: actor_run_def)

text \<open>Between two stages the rest of the application may restore the service.\<close>

lemma sample_run_served: "sample_run (g, a, qs) \<Longrightarrow> sample_run (g, a\<lparr>at_service := sample_online\<rparr>, qs)"
  by (rule sample_run_step, assumption) (rule actor_step.serving, simp)

lemma sample_advances:
  assumes "sample_run (g, a, qs)" "fst (advance sample_actor_env g a) = g'"
    and "(snd (advance sample_actor_env g a))\<lparr>at_service := sample_online\<rparr> = b"
  shows "sample_run (g', b, qs)"
proof -
  have "sample_run (g', snd (advance sample_actor_env g a), qs)"
    using assms(2) by (intro sample_run_step [OF assms(1)] actor_step.advancing) (simp add: prod_eq_iff)
  from sample_run_served [OF this] show ?thesis using assms(3) by simp
qed

lemma rest_on_service [simp]:
  "(on_service f a)\<lparr>at_service := s\<rparr> = a\<lparr>at_service := s\<rparr>" "at_transport (on_service f a) = at_transport a"
  by (simp_all add: on_service_def)

lemma sample_actor_fields [simp]:
  "at_service (sample_actor n w) = sample_online" "at_transport (sample_actor n w) = w" "at_attempts (sample_actor n w) = n"
  "at_automatic (sample_actor n w)" "at_retry_after (sample_actor n w) = None" "at_planner (sample_actor n w) = None"
  "at_tick (sample_actor n w) = 0" "at_awaiting (sample_actor n w) = []" "at_channel (sample_actor n w) = []"
  "at_tasks (sample_actor n w) = []" "at_answers (sample_actor n w) = []"
  "(sample_actor n w)\<lparr>at_service := sample_online\<rparr> = sample_actor n w"
  "(sample_actor n w)\<lparr>at_attempts := m\<rparr> = sample_actor m w" "(sample_actor n w)\<lparr>at_transport := v\<rparr> = sample_actor n v"
  by (simp_all add: sample_actor_def initial_actor_def)

lemma sample_actor_env_fields [simp]:
  "sx_http sample_actor_env n = sample_http" "sx_transport sample_actor_env n = sample_gateway"
  "dx_urls (sx_service sample_actor_env) = sample_url_lib" "dx_secrets (sx_service sample_actor_env) = memory_ops"
  "dx_crypto (sx_service sample_actor_env) = sample_crypto" "actor_transport_env sample_actor_env a = sample_gateway"
  by (simp_all add: sample_actor_env_def sample_host_env_def actor_transport_env_def)

lemma sample_attempt_fields [simp]:
  "ap_connection sample_attempt = sample_connection" "ap_server_url sample_attempt = sample_url"
  "ap_generation sample_attempt = 0" "ap_gateway sample_attempt = dv_gateway_url sample_discovered"
  by (simp_all add: sample_attempt_def)

lemma sample_gen [simp]: "same_generation 0 (sample_actor n w)"
  by (simp add: same_generation_def)

lemma sample_reading: "sample_run (DiscoveringServer (sample_attempt\<lparr>ap_gateway := sample_url\<rparr>), sample_actor 1 sample_created, [])"
proof -
  have "sample_run (Top, sample_actor 0 sample_created, [])"
    by (simp add: actor_run_def supervisor_starts sample_actor_def initial_actor_def)
  then have "sample_run (DelayBeforeAttempt, sample_actor 0 sample_created, [])"
    by (rule sample_advances) (simp_all add: advance_def top_stage_def)
  then have "sample_run (ReadingConnection, sample_actor 0 sample_created, [])"
    by (rule sample_advances) (simp_all add: advance_def delay_stage_def)
  then show ?thesis
    by (rule sample_advances) (simp_all add: advance_def reading_stage_def Let_def sample_attempt_def)
qed

lemma sample_server_known: "ds_id (dd_server (dv_document sample_discovered)) = oc_server_id sample_connection"
  by (simp add: sample_discovered_def sample_document_def sample_connection_def)

lemma sample_opens: "sample_run (Authenticating sample_attempt, sample_actor 1 (sample_wire [] sample_reads False False), [])"
proof -
  have gateway: "WebSocketTransport_new (actor_transport_config sample_attempt) =
      Ok (sample_created\<lparr>tr_config := actor_transport_config sample_attempt\<rparr>)"
    by (simp add: WebSocketTransport_new_def TransportConfig_validate_def actor_transport_config_def sample_discovered_def
        sample_url_def first_err_Ok CONNECT_TIMEOUT_def IDLE_TIMEOUT_def OUTBOUND_BUFFER_CAPACITY_def sample_created_def
        Let_def reject_if_def)
  have connect: "transport_connect sample_gateway (sample_created\<lparr>tr_config := actor_transport_config sample_attempt\<rparr>) =
      (Ok (), sample_wire [] sample_reads False False)"
    by (simp add: transport_connect_def sample_gateway_def sample_transport_env_def sample_created_def set_state_def
        new_socket_def sample_wire_def)
  from sample_reading have "sample_run (Preparing sample_attempt, sample_actor 1 sample_created, [])"
    by (rule sample_advances)
      (simp_all add: advance_def discovering_stage_def sample_discovers sample_server_known sample_attempt_def)
  then have "sample_run (OpeningSocket sample_attempt, sample_actor 1 sample_created, [])"
    by (rule sample_advances) (simp_all add: advance_def preparing_stage_def)
  then have "sample_run (SocketOpened sample_attempt, sample_actor 1 (sample_wire [] sample_reads False False), [])"
    by (rule sample_advances) (simp_all add: advance_def opening_stage_def gateway connect)
  then show ?thesis by (rule sample_advances) (simp_all add: advance_def opened_stage_def)
qed

lemma sample_receives:
  "receive_text_frame (sample_wire l (NextFrame (TextFrame t) # rs) p q) = (Ok t, sample_wire (l @ [Got (TextFrame t)]) rs p q)"
  by (simp add: receive_text_frame.simps next_frame_def socket_next_def sample_wire_def)

lemma sample_writes:
  "write_frame (TextFrame t) (sample_wire l rs p q) = (Ok (), sample_wire (l @ [Sent (TextFrame t)]) rs p q)"
  by (simp add: write_frame_def socket_send_def sample_wire_def)

lemma sample_wire_fields [simp]:
  "tr_state (sample_wire l rs p q) = ConnectionState.Connected" "tr_authenticated (sample_wire l rs p q) = p"
  "tr_hello_sent (sample_wire l rs p q) = q" "tr_outbound (sample_wire l rs p q) = []"
  "wire_log (sample_wire l rs p q) = l"
  "(sample_wire l rs p q)\<lparr>tr_authenticated := x\<rparr> = sample_wire l rs x q"
  "(sample_wire l rs p q)\<lparr>tr_hello_sent := x\<rparr> = sample_wire l rs p x"
  by (simp_all add: sample_wire_def wire_log_def)

lemma sample_gateway_fields [simp]:
  "te_auth_from_str sample_gateway (lit ''c'') = Some (Challenge sample_challenge)"
  "te_auth_from_str sample_gateway (lit ''a'') = Some (Accepted sample_admission)"
  "te_response_to_string sample_gateway x = Ok (lit ''r'')" "te_serde sample_gateway = sample_session_serde"
  "byte_len (lit ''c'') = 1" "byte_len (lit ''a'') = 1" "byte_len (lit ''r'') = 1"
  by (simp_all add: sample_gateway_def) (simp_all add: lit_def)

lemma sample_authentication:
  "receive_authentication sample_gateway (sample_wire l (NextFrame (TextFrame (lit ''c'')) # rs) False False) =
     (Ok (Challenge sample_challenge), sample_wire (l @ [Got (TextFrame (lit ''c''))]) rs False False)"
  "send_authentication_response sample_gateway (proof_of sample_connection sample_challenge sample_signature)
     (sample_wire l rs False False) = (Ok (), sample_wire (l @ [Sent (TextFrame (lit ''r''))]) rs False False)"
  "receive_authentication sample_gateway (sample_wire l (NextFrame (TextFrame (lit ''a'')) # rs) False False) =
     (Ok (Accepted sample_admission), sample_wire (l @ [Got (TextFrame (lit ''a''))]) rs True False)"
proof -
  have types: "gc_message_type sample_challenge = lit ''auth.challenge''" "ga_message_type sample_admission = lit ''auth.accepted''"
      "gp_message_type (proof_of sample_connection sample_challenge sample_signature) = lit ''auth.response''"
    by (simp_all add: sample_challenge_def sample_admission_def sample_accepted_def proof_of_def)
  show "receive_authentication sample_gateway (sample_wire l (NextFrame (TextFrame (lit ''c'')) # rs) False False) =
      (Ok (Challenge sample_challenge), sample_wire (l @ [Got (TextFrame (lit ''c''))]) rs False False)"
    using sample_challenge_valid(1) types
    by (simp add: receive_authentication_def run_eval sample_receives MAX_AUTH_MESSAGE_BYTES_def accept_authentication_def)
  show "receive_authentication sample_gateway (sample_wire l (NextFrame (TextFrame (lit ''a'')) # rs) False False) =
      (Ok (Accepted sample_admission), sample_wire (l @ [Got (TextFrame (lit ''a''))]) rs True False)"
    using sample_admission_valid types
    by (simp add: receive_authentication_def run_eval sample_receives MAX_AUTH_MESSAGE_BYTES_def accept_authentication_def)
  show "send_authentication_response sample_gateway (proof_of sample_connection sample_challenge sample_signature)
     (sample_wire l rs False False) = (Ok (), sample_wire (l @ [Sent (TextFrame (lit ''r''))]) rs False False)"
    using sample_proof_valid types
    by (simp add: send_authentication_response_def run_eval sample_writes MAX_AUTH_MESSAGE_BYTES_def)
qed

definition sample_log :: "wire_event list" where
  "sample_log = [Got (TextFrame (lit ''c'')), Sent (TextFrame (lit ''r'')), Got (TextFrame (lit ''a''))]"

definition sample_left :: "Next list" where
  "sample_left = [NextFrame (TextFrame (lit ''h'')), NextFrame (TextFrame (lit ''j''))]"

lemma sample_admits: "sample_run (Greeting sample_attempt, sample_actor 1 (sample_wire sample_log sample_left True False), [])"
proof -
  from sample_opens
  have "sample_run (AwaitingChallenge sample_attempt, sample_actor 1 (sample_wire [] sample_reads False False), [])"
    by (rule sample_advances) (simp_all add: advance_def)
  then have "sample_run (SigningChallenge sample_attempt sample_challenge,
      sample_actor 1 (sample_wire [Got (TextFrame (lit ''c''))] (tl sample_reads) False False), [])"
    by (rule sample_advances) (simp_all add: advance_def challenge_stage_def sample_reads_def sample_authentication Let_def)
  then have "sample_run (Proving sample_attempt sample_challenge sample_signature,
      sample_actor 1 (sample_wire [Got (TextFrame (lit ''c''))] (tl sample_reads) False False), [])"
    by (rule sample_advances) (simp_all add: advance_def signing_stage_def on_secrets_def sample_signs)
  then have "sample_run (AwaitingAcceptance sample_attempt,
      sample_actor 1 (sample_wire [Got (TextFrame (lit ''c'')), Sent (TextFrame (lit ''r''))] (tl sample_reads) False False), [])"
    by (rule sample_advances) (simp_all add: advance_def proving_stage_def sample_authentication)
  then show ?thesis
    by (rule sample_advances)
      (simp_all add: advance_def acceptance_stage_def sample_reads_def sample_authentication Let_def sample_log_def
        sample_left_def sample_admission_def sample_connection_def)
qed

text \<open>The hello of the agent, and a report that waits for the answer to it.\<close>

definition sample_planner :: HandshakePlanner where
  "sample_planner = \<lparr>offered = [V2, V1], had_record = False, may_fall_back = True, fell_back = False\<rparr>"

definition sample_exchange :: attempt where
  "sample_exchange = sample_attempt\<lparr>ap_hello_id := lit ''message_u''\<rparr>"

definition sample_request :: OutboundRequest where
  "sample_request = \<lparr>or_id = 7, or_message = sample_heartbeat\<rparr>"

definition sample_greeted :: "OutboundRequest list \<Rightarrow> memory_store Actor" where
  "sample_greeted qs = (sample_actor 1 (sample_wire (sample_log @ [Sent (TextFrame [104])]) sample_left True True))
     \<lparr>at_planner := Some sample_planner, at_tick := 1,
      at_negotiation := \<lparr>ng_offered = [V2, V1], ng_selected = None\<rparr>, at_awaiting := qs\<rparr>"

lemma sample_planned: "attempt_planner sample_actor_env sample_attempt (sample_actor n w) = sample_planner"
  by (simp add: attempt_planner_def load_legacy_record_def sample_actor_env_def HandshakePlanner_new_def sample_planner_def
      EXTENDED_def BASE_def split: sum.split option.split)

lemma sample_encodes_valid:
  assumes "AgentMessage_validate m = Ok ()"
  shows "encoded_text sample_gateway m = Ok [if is_agent_hello (am_kind m) then 104 else 98]"
  using assms by (simp add: encoded_text_def encode_agent_message_def encode_message_def)
    (simp add: sample_session_serde_def sample_serde_def enforce_size_def MAX_WIRE_MESSAGE_BYTES_def reject_if_def)

lemma sample_envelope_fields:
  "am_message_id (envelope sample_actor_env k c n) = lit ''message_u''"
  "am_sent_at (envelope sample_actor_env k c n) = lit ''2024-01-01T00:00:00Z''"
  "am_correlation_id (envelope sample_actor_env k c n) = c" "am_kind (envelope sample_actor_env k c n) = k"
  "am_protocol_version (envelope sample_actor_env k c n) = required_version k"
  "dx_version (sx_service sample_actor_env) = lit ''12''"
  "pf_product_id (dx_product (sx_service sample_actor_env)) = lit ''oppa''"
  by (simp_all add: envelope_def sample_actor_env_def sample_host_env_def sample_product_def) (simp add: lit_def)

lemma sample_hello_sent:
  "AgentMessage_validate (hello_message sample_actor_env (lit ''s1'') [V2, V1] n) = Ok ()"
  by (simp add: AgentMessage_validate_def hello_message_def sample_envelope_fields first_err_Ok wire_checks validate_envelope_def
      sample_timestamp AgentMessageKind_validate_def AgentHello_validate_def required_version_def if_some_Ok BASE_def)
    (simp add: lit_def)

lemma sample_inventory_sent:
  "AgentMessage_validate (envelope sample_actor_env (AgentInventoryMsg \<lparr>inv_revision = 1, inv_printers = []\<rparr>) None n) = Ok ()"
  by (simp add: AgentMessage_validate_def sample_envelope_fields first_err_Ok wire_checks validate_envelope_def
      sample_timestamp AgentMessageKind_validate_def PrinterInventory_validate_def validate_safe_integer_def
      MAX_SAFE_INTEGER_def required_version_def if_some_Ok BASE_def validate_printers_def)

lemma sample_sending:
  assumes "AgentMessage_validate m = Ok ()" "at_transport a = sample_wire l rs True (\<not> is_agent_hello (am_kind m))"
  shows "actor_send sample_actor_env m a =
    (Ok (), a\<lparr>at_transport := sample_wire (l @ [Sent (TextFrame [if is_agent_hello (am_kind m) then 104 else 98])]) rs True True\<rparr>)"
  using assms(2) sample_encodes_valid [OF assms(1)]
  by (simp add: actor_send_def transport_send_def send_encoded_def run_eval sample_writes flush_buffer.simps)

lemma sample_greets: "sample_run (Exchanging sample_exchange, sample_greeted [], [])"
proof -
  have id: "am_message_id (hello_message sample_actor_env i vs n) = lit ''message_u''" for i vs n
    by (simp add: hello_message_def sample_envelope_fields)
  have hello: "is_agent_hello (am_kind (hello_message sample_actor_env i vs n))" for i vs n
    by (simp add: hello_message_def sample_envelope_fields)
  let ?a = "(sample_actor 1 (sample_wire sample_log sample_left True False))\<lparr>at_planner := Some sample_planner, at_tick := Suc 0\<rparr>"
  have "actor_send sample_actor_env (hello_message sample_actor_env (lit ''s1'') [V2, V1] 0) ?a =
      (Ok (), ?a\<lparr>at_transport := sample_wire (sample_log @ [Sent (TextFrame [104])]) sample_left True True\<rparr>)"
    using sample_sending [OF sample_hello_sent, of ?a sample_log sample_left 0] hello by simp
  then show ?thesis
    by (intro sample_advances [OF sample_admits])
      (simp_all add: advance_def greeting_stage_def Let_def sample_planned id sample_exchange_def sample_connection_def
        sample_planner_def sample_greeted_def actor_log_def, simp add: sample_actor_def initial_actor_def)
qed

lemma sample_greeted_fields [simp]:
  "at_service (sample_greeted qs) = sample_online" "at_channel (sample_greeted qs) = []" "at_awaiting (sample_greeted qs) = qs"
  "\<not> at_handshaken (sample_greeted qs)" "at_tasks (sample_greeted qs) = []" "at_answers (sample_greeted qs) = []"
  "at_transport (sample_greeted qs) = sample_wire (sample_log @ [Sent (TextFrame [104])]) sample_left True True"
  "at_negotiation (sample_greeted qs) = \<lparr>ng_offered = [V2, V1], ng_selected = None\<rparr>" "at_tick (sample_greeted qs) = 1"
  "at_planner (sample_greeted qs) = Some sample_planner" "ap_generation sample_exchange = 0"
  "same_generation 0 (sample_greeted qs)" "ap_hello_id sample_exchange = lit ''message_u''"
  by (simp_all add: sample_greeted_def sample_exchange_def same_generation_def)
    (simp_all add: sample_actor_def initial_actor_def)

lemma sample_waits: "sample_run (Exchanging sample_exchange, sample_greeted [sample_request], [sample_request])"
proof -
  have "sample_run (Exchanging sample_exchange, (sample_greeted [])\<lparr>at_channel := [sample_request]\<rparr>, [sample_request])"
    using sample_run_step [OF sample_greets actor_step.reporting [of _ sample_request]] by simp
  moreover have "actor_step sample_actor_env (\<lambda>_ _. True)
      (Exchanging sample_exchange, (sample_greeted [])\<lparr>at_channel := [sample_request]\<rparr>, [sample_request])
      (Exchanging sample_exchange, sample_greeted [sample_request], [sample_request])"
    by (rule actor_step.requested [where rs = "[]" and q = sample_request])
      (simp_all add: woken_def exchange_woken_def exchange_request_def same_generation_def OUTBOUND_BUFFER_CAPACITY_def,
        simp add: sample_greeted_def sample_actor_def initial_actor_def)
  ultimately show ?thesis by (rule sample_run_step)
qed

lemma sample_reads_hello:
  "transport_receive sample_gateway (sample_wire l (NextFrame (TextFrame (lit ''h'')) # rs) True True) =
     (Ok sample_greeting, sample_wire (l @ [Got (TextFrame (lit ''h''))]) rs True True)"
  "transport_receive sample_gateway (sample_wire l (NextFrame (TextFrame (lit ''j'')) # rs) True True) =
     (Ok sample_message, sample_wire (l @ [Got (TextFrame (lit ''j''))]) rs True True)"
  by (simp_all add: transport_receive_def run_eval sample_receives sample_decodes)

lemma sample_no_printers:
  "protocol_descriptors (dx_catalog (sx_service sample_actor_env)) (sv_catalog (at_service (hello_accepted sample_actor_env g h a)))
     = Ok []" "pcat_revision (sv_catalog (at_service (hello_accepted sample_actor_env g h a))) = 1"
  if "at_service a = sample_online"
  using accepted_catalog [of sample_actor_env g h a] that
  by (auto simp: sample_online_def sample_printer_catalog_def sample_emptied_def)
    (simp add: protocol_descriptors_def)

definition sample_exchanged_log :: "wire_event list" where
  "sample_exchanged_log = sample_log @ [Sent (TextFrame [104]), Got (TextFrame (lit ''h'')), Sent (TextFrame [98]), Sent (TextFrame [98])]"

definition sample_served :: "memory_store Actor" where
  "sample_served = (sample_greeted [])\<lparr>at_transport := sample_wire sample_exchanged_log [NextFrame (TextFrame (lit ''j''))] True True,
     at_planner := None, at_tick := Suc (Suc 0), at_handshaken := True, at_negotiation := \<lparr>ng_offered = [V2, V1], ng_selected = Some V2\<rparr>,
     at_answers := [(7, Ok ())], at_tasks := [RecoveryTask]\<rparr>"

lemma accepted_rest:
  "at_tick (hello_accepted X g h a) = at_tick a" "at_awaiting (hello_accepted X g h a) = at_awaiting a"
  "at_answers (hello_accepted X g h a) = at_answers a" "at_tasks (hello_accepted X g h a) = at_tasks a"
  "at_handshaken (hello_accepted X g h a)" "at_planner (hello_accepted X g h a) = at_planner a"
  "at_backoff (hello_accepted X g h a) = at_backoff a" "at_automatic (hello_accepted X g h a) = at_automatic a"
  "at_retry_after (hello_accepted X g h a) = at_retry_after a" "at_channel (hello_accepted X g h a) = at_channel a"
  "at_negotiation (hello_accepted X g h a) = (at_negotiation a)\<lparr>ng_selected := Some (sh_selected_version h)\<rparr>"
  by (simp_all add: hello_accepted_def Let_def actor_log_def on_service_def)

lemma rest_handshake_done:
  "(handshake_done X t a)\<lparr>at_service := s\<rparr> = a\<lparr>at_planner := None, at_backoff := backoff_reset (at_backoff a), at_service := s\<rparr>"
  by (simp add: handshake_done_def Let_def reset_backoff_def split: option.split)

lemma sample_heartbeat_plain: "\<not> is_agent_hello (am_kind sample_heartbeat)"
  by (simp add: sample_heartbeat_def)

lemma sample_hello_handled:
  assumes a: "a = (sample_greeted [sample_request])\<lparr>at_transport :=
      sample_wire (sample_log @ [Sent (TextFrame [104]), Got (TextFrame (lit ''h''))]) [NextFrame (TextFrame (lit ''j''))] True True\<rparr>"
  shows "connection_message sample_actor_env g 0 (lit ''message_u'') sample_greeting a =
    (DispositionContinue, (hello_accepted sample_actor_env g sample_server_hello a)
      \<lparr>at_transport := sample_wire sample_exchanged_log [NextFrame (TextFrame (lit ''j''))] True True, at_tick := Suc (Suc 0),
       at_awaiting := [], at_answers := [(7, Ok ())], at_tasks := [RecoveryTask]\<rparr>)"
proof -
  let ?ha = "hello_accepted sample_actor_env g sample_server_hello a"
  let ?w = "\<lambda>l. sample_wire (sample_log @ [Sent (TextFrame [104]), Got (TextFrame (lit ''h''))] @ l)
    [NextFrame (TextFrame (lit ''j''))] True True"
  let ?i = "envelope sample_actor_env (AgentInventoryMsg \<lparr>inv_revision = 1, inv_printers = []\<rparr>) None (Suc 0)"
  have plain: "\<not> is_agent_hello (am_kind ?i)" by (simp add: sample_envelope_fields)
  have inventory: "send_inventory sample_actor_env None V2 ?ha = (Ok (), ?ha\<lparr>at_tick := Suc (Suc 0), at_transport := ?w [Sent (TextFrame [98])]\<rparr>)"
    using sample_sending [OF sample_inventory_sent [of "Suc 0"], of "?ha\<lparr>at_tick := Suc (Suc 0)\<rparr>" "sample_log @
        [Sent (TextFrame [104]), Got (TextFrame (lit ''h''))]" "[NextFrame (TextFrame (lit ''j''))]"] plain
      sample_no_printers [of a g sample_server_hello]
    by (simp add: send_inventory_def Let_def accepted_rest a project_inventory_def)
  have awaiting: "send_awaiting sample_actor_env [sample_request] (?ha\<lparr>at_tick := Suc (Suc 0), at_transport := ?w [Sent (TextFrame [98])]\<rparr>) =
      (DispositionContinue, ?ha\<lparr>at_tick := Suc (Suc 0), at_transport := ?w [Sent (TextFrame [98]), Sent (TextFrame [98])],
        at_answers := [(7, Ok ())], at_awaiting := []\<rparr>)"
    using sample_sending [OF sample_heartbeat_valid, of "?ha\<lparr>at_tick := Suc (Suc 0), at_transport := ?w [Sent (TextFrame [98])]\<rparr>"
        "sample_log @ [Sent (TextFrame [104]), Got (TextFrame (lit ''h'')), Sent (TextFrame [98])]" "[NextFrame (TextFrame (lit ''j''))]"]
      sample_heartbeat_plain
    by (simp add: sample_request_def answer_def accepted_rest a)
  have gen: "same_generation 0 a" "\<not> at_handshaken a" "at_awaiting ?ha = [sample_request]"
    by (simp_all add: a same_generation_def accepted_rest)
  have h: "sm_kind sample_greeting = ServerHelloMsg sample_server_hello" "sm_correlation_id sample_greeting = Some (lit ''message_u'')"
      "sh_selected_version sample_server_hello = V2" "V2 \<in> set (ng_offered (at_negotiation a))"
    by (simp_all add: sample_greeting_def sample_server_hello_def a)
  show ?thesis using gen h inventory awaiting
    by (simp add: connection_message_def dispatch_message_def handle_hello_def spawn_def sample_exchanged_log_def accepted_rest
        sample_request_def) (simp add: a)
qed

lemma sample_exchanges:
  "exchange_receive sample_actor_env sample_exchange (sample_greeted [sample_request]) = (Exchanging sample_exchange, b) \<Longrightarrow>
     b\<lparr>at_service := sample_online\<rparr> = sample_served"
  "fst (exchange_receive sample_actor_env sample_exchange (sample_greeted [sample_request])) = Exchanging sample_exchange"
proof -
  let ?a = "(sample_greeted [sample_request])\<lparr>at_transport :=
    sample_wire (sample_log @ [Sent (TextFrame [104]), Got (TextFrame (lit ''h''))]) [NextFrame (TextFrame (lit ''j''))] True True\<rparr>"
  note handled = sample_hello_handled [OF refl]
  show "fst (exchange_receive sample_actor_env sample_exchange (sample_greeted [sample_request])) = Exchanging sample_exchange"
    by (simp add: exchange_receive_def sample_left_def sample_reads_hello handled message_handled_def Let_def)
  show "b\<lparr>at_service := sample_online\<rparr> = sample_served"
    if "exchange_receive sample_actor_env sample_exchange (sample_greeted [sample_request]) = (Exchanging sample_exchange, b)"
    using that
    by (auto simp: exchange_receive_def sample_left_def sample_reads_hello handled message_handled_def Let_def accepted_rest
        rest_handshake_done intro!: Actor.equality)
      (simp_all add: sample_served_def accepted_rest sample_server_hello_def,
        simp_all add: sample_greeted_def sample_actor_def initial_actor_def backoff_reset_def)
qed

lemma sample_hello_exchanged:
  "\<exists>b. exchange_receive sample_actor_env sample_exchange (sample_greeted [sample_request]) = (Exchanging sample_exchange, b) \<and>
     b\<lparr>at_service := sample_online\<rparr> = sample_served"
  using sample_exchanges by (metis prod.collapse)

lemma sample_serves: "sample_run (Exchanging sample_exchange, sample_served, [sample_request])"
proof -
  obtain b where b: "exchange_receive sample_actor_env sample_exchange (sample_greeted [sample_request]) = (Exchanging sample_exchange, b)"
      "b\<lparr>at_service := sample_online\<rparr> = sample_served"
    using sample_hello_exchanged by blast
  have "sample_run (Exchanging sample_exchange, b, [sample_request])"
    by (rule sample_run_step [OF sample_waits actor_step.readable]) (simp add: woken_def exchange_woken_def b)
  from sample_run_served [OF this] b show ?thesis by simp
qed

text \<open>The print job is read.\<close>

lemma sample_job_read:
  "\<exists>b. actor_step sample_actor_env (\<lambda>_ _. True) (Exchanging sample_exchange, sample_served, [sample_request])
      (Exchanging sample_exchange, b, [sample_request]) \<and> at_tasks b = [RecoveryTask, DeliveryTask sample_message (lit ''j1'')]"
proof -
  let ?a = "sample_served\<lparr>at_transport := sample_wire (sample_exchanged_log @ [Got (TextFrame (lit ''j''))]) [] True True\<rparr>"
  have fields: "at_handshaken sample_served" "same_generation 0 ?a" "at_tasks ?a = [RecoveryTask]"
      "at_transport sample_served = sample_wire sample_exchanged_log [NextFrame (TextFrame (lit ''j''))] True True"
    by (simp_all add: sample_served_def same_generation_def)
  have m: "sm_kind sample_message = ServerPrintJobMsg sample_job" "sm_protocol_version sample_message \<noteq> EXTENDED"
    by (simp_all add: sample_message_def EXTENDED_def)
  have "connection_message sample_actor_env g 0 i sample_message ?a = (DispositionContinue,
      spawn (DeliveryTask sample_message (lit ''j1'')) (on_service (announce_job (sx_service sample_actor_env)
        (actor_clock sample_actor_env ?a) sample_job) ?a))" for g i
    using fields m by (simp add: connection_message_def dispatch_message_def)
  then have "\<exists>b. exchange_receive sample_actor_env sample_exchange sample_served = (Exchanging sample_exchange, b) \<and>
      at_tasks b = [RecoveryTask, DeliveryTask sample_message (lit ''j1'')]"
    using fields by (simp add: exchange_receive_def sample_reads_hello message_handled_def spawn_def on_service_def)
  then obtain b where "woken sample_actor_env (Exchanging sample_exchange) SocketReady sample_served = (Exchanging sample_exchange, b)"
      "at_tasks b = [RecoveryTask, DeliveryTask sample_message (lit ''j1'')]"
    by (auto simp: woken_def exchange_woken_def)
  then show ?thesis by (intro exI [of _ b] conjI actor_step.readable)
qed

section \<open>A start\<close>

text \<open>The environment with a history that can be written, and the stores of a paired host.\<close>

definition sample_boot_env :: "(unit, memory_store) actor_env" where
  "sample_boot_env = sample_actor_env\<lparr>sx_service := (sx_service sample_actor_env)\<lparr>
     dx_ledger := (dx_ledger (sx_service sample_actor_env))\<lparr>le_to_value := (\<lambda>_. Ok JNull)\<rparr>\<rparr>\<rparr>"

definition sample_stores_left :: "memory_store stores" where
  "sample_stores_left = (empty_database\<lparr>settings_table := [\<lparr>kv_key = CATALOG_SETTING, kv_value_json = [], kv_updated_at = 0\<rparr>,
     \<lparr>kv_key = CONNECTION_SETTING, kv_value_json = [116], kv_updated_at = 0\<rparr>]\<rparr>, [sample_ref \<mapsto> replicate 32 65])"

lemma sample_boot_fields [simp]:
  "cx_storage (dx_catalog (sx_service sample_boot_env)) = cx_storage sample_catalog_env"
  "dx_catalog (sx_service sample_boot_env) = sample_catalog_env"
  "dx_secrets (sx_service sample_boot_env) = memory_ops" "dx_urls (sx_service sample_boot_env) = sample_url_lib"
  "dx_connection_from_value (sx_service sample_boot_env) (JBool True) = Some sample_connection"
  "le_storage (dx_ledger (sx_service sample_boot_env)) = cx_storage sample_catalog_env"
  "le_to_value (dx_ledger (sx_service sample_boot_env)) js = Ok JNull"
  "pf_features (dx_product (sx_service sample_boot_env)) = sample_features"
  by (simp_all add: sample_boot_env_def sample_actor_env_def sample_host_env_def sample_product_def)

lemma boot_keys_valid:
  "validate_key f SERVER_CONFIGURATION_SETTING 128 = Ok ()" "validate_key f LEGACY_SERVER_CONFIGURATION_SETTING 128 = Ok ()"
  "validate_key f JOB_HISTORY_SETTING 128 = Ok ()"
  by (simp_all add: validate_key_def SERVER_CONFIGURATION_SETTING_def LEGACY_SERVER_CONFIGURATION_SETTING_def
      JOB_HISTORY_SETTING_def lit_def trim_def trim_start_def trim_end_def is_whitespace_def is_control_def first_err_Ok)

lemma boot_metadata:
  "get_metadata (cx_storage sample_catalog_env) Settings SERVER_CONFIGURATION_SETTING (fst sample_stores_left) = Ok None"
  "get_metadata (cx_storage sample_catalog_env) Settings LEGACY_SERVER_CONFIGURATION_SETTING (fst sample_stores_left) = Ok None"
  "get_metadata (cx_storage sample_catalog_env) Settings JOB_HISTORY_SETTING (fst sample_stores_left) = Ok None"
  "get_metadata (cx_storage sample_catalog_env) Settings CATALOG_SETTING (fst sample_stores_left) = Ok (Some JNull)"
  "get_metadata (cx_storage sample_catalog_env) Settings CONNECTION_SETTING (fst sample_stores_left) = Ok (Some (JBool True))"
  by (simp_all add: get_metadata_def boot_keys_valid setting_keys_valid catalog_key_valid sample_stores_left_def sample_catalog_env_def)
    (simp_all add: CATALOG_SETTING_def CONNECTION_SETTING_def SERVER_CONFIGURATION_SETTING_def
      LEGACY_SERVER_CONFIGURATION_SETTING_def JOB_HISTORY_SETTING_def lit_def)

lemma boot_configuration:
  "initial_configuration (sx_service sample_boot_env) sample_stores_left =
     (Ok (\<lparr>osc_server_url = sample_url\<rparr>, False, False), sample_stores_left)"
  by (simp add: initial_configuration_def run_eval startup_setting_def boot_metadata ServerConfiguration_default_def
      sample_url_lib_def)

lemma boot_connection:
  "initial_connection (sx_service sample_boot_env) \<lparr>osc_server_url = sample_url\<rparr> sample_stores_left =
     (Ok (Some sample_connection, None), sample_stores_left)"
proof -
  have "key_exists memory_ops sample_ref (snd sample_stores_left) = (Ok True, snd sample_stores_left)"
    using sample_ref_ok by (simp add: sample_stores_left_def key_exists_def memory_ops_def memory_get_def run_eval)
  then show ?thesis
    by (simp add: initial_connection_def run_eval startup_setting_def boot_metadata startup_secrets_def)
qed

lemma boot_history:
  "ledger_load (dx_ledger (sx_service sample_boot_env)) (fst sample_stores_left) =
     Ok \<lparr>lg_storage = fst sample_stores_left, lg_jobs = []\<rparr>"
  "\<exists>g. restore_pending (dx_ledger (sx_service sample_boot_env)) 0 [] \<lparr>lg_storage = fst sample_stores_left, lg_jobs = []\<rparr> = (Ok (), g)"
proof -
  show "ledger_load (dx_ledger (sx_service sample_boot_env)) (fst sample_stores_left) =
      Ok \<lparr>lg_storage = fst sample_stores_left, lg_jobs = []\<rparr>"
    by (simp add: ledger_load_def boot_metadata)
  show "\<exists>g. restore_pending (dx_ledger (sx_service sample_boot_env)) 0 [] \<lparr>lg_storage = fst sample_stores_left, lg_jobs = []\<rparr> =
      (Ok (), g)"
    by (simp add: restore_pending_def with_jobs_def persist_def newest_first_def set_metadata_def boot_keys_valid
        sample_catalog_env_def bounded_json_def now_millis_def timestamp_millis_def reject_if_def)
qed

lemma boot_repository:
  "\<exists>r. startup_db (sx_service sample_boot_env) (recover_interrupted (cx_storage sample_catalog_env) 0) sample_stores_left =
     (Ok r, sample_stores_left)"
  "pending (cx_storage sample_catalog_env) (fst sample_stores_left) = Ok []"
  by (auto simp: startup_db_def Let_def recover_interrupted_def sample_stores_left_def now_millis_def timestamp_millis_def
      timestamp_from_millis_def reject_if_def sample_catalog_env_def pending_def pending_rows_def load_jobs_def empty_database_def)

lemma sample_boots:
  "\<exists>recovery s st. initialize (sx_service sample_boot_env) (\<lambda>_. 0) no_devices sample_stores_left = (Ok (recovery, s), st) \<and>
     sv_connection s = Some sample_connection"
proof -
  let ?E = "sx_service sample_boot_env" and ?db = "fst sample_stores_left"
  have "stored_ok sample_catalog_env sample_stored_catalog ?db"
    by (simp add: stored_ok_def boot_metadata) (simp add: sample_catalog_env_def catalog_current_def)
  from load_stored [OF sample_stored_ok this, of 0 no_devices sample_features "startup_log ?E (\<lambda>_. 0) False"]
  obtain c where c: "catalog_load sample_catalog_env 0 no_devices sample_features (startup_log ?E (\<lambda>_. 0) False) ?db = Ok c"
      "pcat_storage c = ?db" by blast
  obtain g where g: "restore_pending (dx_ledger ?E) 0 [] \<lparr>lg_storage = ?db, lg_jobs = []\<rparr> = (Ok (), g)"
    using boot_history(2) by blast
  obtain r where r: "startup_db ?E (recover_interrupted (cx_storage sample_catalog_env) 0) sample_stores_left = (Ok r, sample_stores_left)"
    using boot_repository(1) by blast
  show ?thesis
    by (simp add: initialize_def ebind_def r boot_repository(2) boot_configuration boot_connection c boot_history(1) g eret_def)
      (simp add: assemble_def)
qed

end
