(* ===== verification/Supervision_Properties.thy ===== *)
theory Supervision_Properties
  imports Supervision_Samples
begin

text \<open>
  The properties of the connection supervisor: which server a job is taken from, what happens to the
  reports of the agent, what the handshake writes, what a change of the server stops, and which
  identity documents are fetched with.
\<close>

section \<open>Jobs\<close>

text \<open>C10: Whatever the rest of the application does in between, a print job is handed to the agent only when
  it was read on the socket of an attempt that is not out of date, whose handshake is complete in a
  version the agent offered, the extended one if the message claims it, and on whose socket an
  acceptance of the agent's credential was read before the agent's hello was sent.\<close>

theorem jobs_from_admitted_server:
  assumes "actor_run X R s w (g, a, qs)" "actor_step X R (g, a, qs) (g', a', qs')"
    and "DeliveryTask m j \<in> set (at_tasks a')" "DeliveryTask m j \<notin> set (at_tasks a)"
  shows "\<exists>t v job w' xs c ys u zs. g = Exchanging t \<and> same_generation (ap_generation t) a \<and> at_handshaken a \<and>
    ng_selected (at_negotiation a) = Some v \<and> v \<in> set (ng_offered (at_negotiation a)) \<and>
    (sm_protocol_version m = EXTENDED \<longrightarrow> v = EXTENDED) \<and>
    transport_receive (actor_transport_env X a) (at_transport a) = (Ok m, w') \<and>
    sm_kind m = ServerPrintJobMsg job \<and> job_id job = j \<and>
    wire_log (at_transport a) = xs @ Got (TextFrame c) # ys @ Sent (TextFrame u) # zs \<and>
    accepting_text (actor_transport_env X a) c \<and> message_text (actor_transport_env X a) True u"
proof -
  let ?T = "actor_transport_env X a" and ?w = "at_transport a"
  obtain t w' where g: "g = Exchanging t" and rd: "transport_receive ?T ?w = (Ok m, w')"
      and task: "admitted_task (ap_generation t) m a (DeliveryTask m j)"
    using step_task [OF assms(2-4)] by (auto simp: admitted_task_def)
  have ok: "transport_ok ?T ?w" "negotiated a"
    using run_world_linked [OF assms(1)] g by (auto simp: world_linked_def linked_def on_wire_def)
  have flags: "tr_authenticated ?w" "tr_hello_sent ?w" using rd by (auto simp: transport_receive_def split: if_splits)
  then have "session ?T (wire_log ?w) Established"
    using ok(1) by (auto simp: transport_ok_def base_ok_def session_ok_def phase_of_def wire_log_def split: option.splits)
  from session_established [OF this]
  have wire: "\<exists>xs c ys u zs. wire_log ?w = xs @ Got (TextFrame c) # ys @ Sent (TextFrame u) # zs \<and>
      accepting_text ?T c \<and> message_text ?T True u" .
  obtain v job where "same_generation (ap_generation t) a" "at_handshaken a" "ng_selected (at_negotiation a) = Some v"
      "v \<in> set (ng_offered (at_negotiation a))" "sm_protocol_version m = EXTENDED \<longrightarrow> v = EXTENDED"
      "sm_kind m = ServerPrintJobMsg job" "job_id job = j"
    using task ok(2) by (auto simp: admitted_task_def negotiated_def)
  with g rd wire show ?thesis by blast
qed

theorem jobs_from_admitted_server_witness:
  "accepting_text sample_gateway (lit ''a'') \<and>
    (\<exists>b. actor_step sample_actor_env (\<lambda>_ _. True) (Exchanging sample_exchange, sample_served, [sample_request])
      (Exchanging sample_exchange, b, [sample_request]) \<and> DeliveryTask sample_message (lit ''j1'') \<in> set (at_tasks b)) \<and>
    (\<exists>c u. {Got (TextFrame c), Sent (TextFrame u)} \<subseteq> set sample_exchanged_log \<and>
      accepting_text sample_gateway c \<and> message_text sample_gateway True u)"
proof -
  obtain b where b: "actor_step sample_actor_env (\<lambda>_ _. True) (Exchanging sample_exchange, sample_served, [sample_request])
      (Exchanging sample_exchange, b, [sample_request])" "at_tasks b = [RecoveryTask, DeliveryTask sample_message (lit ''j1'')]"
    using sample_job_read by blast
  have "at_tasks sample_served = [RecoveryTask]" and l: "wire_log (at_transport sample_served) = sample_exchanged_log"
    by (simp_all add: sample_served_def)
  with b obtain xs c ys u zs where log: "sample_exchanged_log = xs @ Got (TextFrame c) # ys @ Sent (TextFrame u) # zs"
      "accepting_text sample_gateway c" "message_text sample_gateway True u"
    using jobs_from_admitted_server [OF sample_serves b(1), of sample_message "lit ''j1''"] by auto
  moreover have "accepting_text sample_gateway (lit ''a'')"
    using sample_admission_valid by (auto simp: accepting_text_def MAX_AUTH_MESSAGE_BYTES_def)
  moreover have "\<exists>b. actor_step sample_actor_env (\<lambda>_ _. True) (Exchanging sample_exchange, sample_served, [sample_request])
      (Exchanging sample_exchange, b, [sample_request]) \<and> DeliveryTask sample_message (lit ''j1'') \<in> set (at_tasks b)"
    using b by (intro exI [of _ b]) simp
  moreover have "{Got (TextFrame c), Sent (TextFrame u)} \<subseteq> set sample_exchanged_log" unfolding log by simp
  ultimately show ?thesis by blast
qed

section \<open>Reports\<close>

text \<open>C12: Every report the agent hands to the supervisor is, at any time, either answered once, waiting for
  the handshake of the open connection, or still in the channel, and nothing else is; when the supervisor
  has returned, every report has its answer.\<close>

theorem reports_answered_once:
  assumes "actor_run X R s w (g, a, qs)"
  shows "mset (map fst (at_answers a)) + mset (map or_id (at_awaiting a)) + mset (map or_id (at_channel a)) = mset (map or_id qs) \<and>
    distinct (map fst (at_answers a)) \<and>
    (at_awaiting a = [] \<or> (\<exists>t. g = Exchanging t \<and> \<not> at_handshaken a \<or> g = ClosingConnection t)) \<and>
    (g = Returned \<longrightarrow> set (map fst (at_answers a)) = or_id ` set qs)"
proof -
  have ok: "accounted a = mset (map or_id qs)" "distinct (map or_id qs)" "fits g a"
    using run_requests_ok [OF assms] by (auto simp: requests_ok_def)
  have "mset (map fst (at_answers a) @ map or_id (at_awaiting a) @ map or_id (at_channel a)) = mset (map or_id qs)"
    using ok(1) by (simp add: accounted_def add.assoc)
  then have "distinct (map fst (at_answers a))" using ok(2) mset_eq_imp_distinct_iff by (metis distinct_append)
  moreover have "at_awaiting a = [] \<or> (\<exists>t. g = Exchanging t \<and> \<not> at_handshaken a \<or> g = ClosingConnection t)"
    using ok(3) by (auto simp: fits_def split: stage.splits)
  moreover have "set (map fst (at_answers a)) = or_id ` set qs" if "g = Returned"
  proof -
    have "at_awaiting a = []" "at_channel a = []" using ok(3) that by (auto simp: fits_def)
    then have "mset (map fst (at_answers a)) = mset (map or_id qs)" using ok(1) by (simp add: accounted_def)
    then show ?thesis by (metis list.set_map mset_eq_setD)
  qed
  ultimately show ?thesis using ok(1) by (simp add: accounted_def)
qed

theorem reports_answered_once_witness:
  "\<exists>a. sample_run (Returned, a, [sample_request]) \<and> set (map fst (at_answers a)) = {7}"
proof -
  obtain a where a: "woken sample_actor_env (Exchanging sample_exchange) RequestsClosed sample_served = (Returned, a)"
    by (simp add: woken_def exchange_woken_def returned_def)
  have "at_channel sample_served = []" by (simp add: sample_served_def)
  from sample_run_step [OF sample_serves actor_step.closed [OF this a]] have run: "sample_run (Returned, a, [sample_request])" .
  from reports_answered_once [OF run] show ?thesis using run by (intro exI [of _ a]) (simp add: sample_request_def)
qed

text \<open>C11: Along every run the one message that keeps a connection open before the handshake is the server's hello: it
  answers the agent's own hello and selects a version that was offered; the inventory in that version
  and then every waiting report are written at once, in the order the reports came, with nothing in between,
  and exactly these reports are confirmed.\<close>

theorem waiting_reports_in_order:
  assumes "actor_run X R s w (Exchanging t, a, qs)" "exchange_receive X t a = (Exchanging t', b)" "\<not> at_handshaken a"
  shows "\<exists>m w' h ds inventory. transport_receive (actor_transport_env X a) (at_transport a) = (Ok m, w') \<and>
    sm_kind m = ServerHelloMsg h \<and> sm_correlation_id m = Some (ap_hello_id t) \<and>
    sh_selected_version h \<in> set (ng_offered (at_negotiation a)) \<and>
    protocol_descriptors (dx_catalog (sx_service X)) (sv_catalog (at_service a)) = Ok ds \<and>
    am_kind inventory = AgentInventoryMsg \<lparr>inv_revision = pcat_revision (sv_catalog (at_service a)),
      inv_printers = project_inventory ds (sh_selected_version h)\<rparr> \<and>
    wire_log (at_transport b) = wire_log w' @
      sent_messages (actor_transport_env X a) (inventory # map or_message (at_awaiting a)) \<and>
    at_answers b = at_answers a @ map (\<lambda>q. (or_id q, Ok ())) (at_awaiting a) \<and> at_awaiting b = [] \<and>
    at_handshaken b \<and> same_generation (ap_generation t) a"
proof -
  have "on_wire X a" using run_world_linked [OF assms(1)] by (simp add: world_linked_def linked_def)
  from first_exchange [OF assms(2,3) this] show ?thesis unfolding hello_exchange_def by blast
qed

theorem waiting_reports_in_order_witness:
  "\<exists>b. exchange_receive sample_actor_env sample_exchange (sample_greeted [sample_request]) = (Exchanging sample_exchange, b) \<and>
    at_answers b = [(7, Ok ())] \<and> at_handshaken b"
proof -
  obtain b where b: "exchange_receive sample_actor_env sample_exchange (sample_greeted [sample_request]) = (Exchanging sample_exchange, b)"
    using sample_hello_exchanged by blast
  from waiting_reports_in_order [OF sample_waits b] show ?thesis
    using b by (intro exI [of _ b]) (auto simp: sample_request_def)
qed

section \<open>A change of the server\<close>

text \<open>C16: Once the paired server was changed or forgotten, nothing that wakes an open connection makes it act for
  the old one: no task is started, no text is written, no report is confirmed, the service is left as
  it is apart from the supervisor's own end, and the connection is closed unless the event is ignored.\<close>

theorem changed_server_silent:
  assumes "woken X (Exchanging t) k a = (g, b)" "\<not> same_generation (ap_generation t) a"
  shows "at_tasks b = at_tasks a \<and>
    (spoken (wire_log (at_transport b)) = spoken (wire_log (at_transport a)) \<or> spoken (wire_log (at_transport b)) = []) \<and>
    (at_service b = at_service a \<or> at_service b = (at_service a)\<lparr>sv_supervised := False\<rparr>) \<and>
    (\<forall>i u. (i, Ok u) \<in> set (at_answers b) \<longrightarrow> (i, Ok u) \<in> set (at_answers a)) \<and>
    (g = ClosingConnection t \<or> g = Returned \<or> g = Exchanging t \<and> b = a)"
proof -
  have step: "exchange_woken X t k a = (g, b)" using assms(1) by (simp add: woken_def)
  have "g = ClosingConnection t \<or> g = Returned \<or> g = Exchanging t \<and> b = a"
    using changed_server_stage [OF assms(2), of X k] step by simp
  moreover have "silent_step a b" using changed_server_step [OF assms(2), of X k] step by simp
  ultimately show ?thesis by (auto simp: silent_step_def spoken_by_def)
qed

theorem changed_server_silent_witness:
  "fst (woken sample_actor_env (Exchanging (sample_exchange\<lparr>ap_generation := 1\<rparr>)) SocketReady sample_served) \<noteq> Exchanging sample_exchange \<and>
    at_tasks (snd (woken sample_actor_env (Exchanging (sample_exchange\<lparr>ap_generation := 1\<rparr>)) SocketReady sample_served)) =
      [RecoveryTask]"
proof -
  let ?t = "sample_exchange\<lparr>ap_generation := 1\<rparr>"
  obtain g b where w: "woken sample_actor_env (Exchanging ?t) SocketReady sample_served = (g, b)"
    by (cases "woken sample_actor_env (Exchanging ?t) SocketReady sample_served")
  have "\<not> same_generation (ap_generation ?t) sample_served" by (simp add: sample_served_def same_generation_def)
  from changed_server_silent [OF w this] have "at_tasks b = at_tasks sample_served"
      "g = ClosingConnection ?t \<or> g = Returned \<or> g = Exchanging ?t" by auto
  moreover have "?t \<noteq> sample_exchange" by (metis attempt.select_convs(3) attempt.surjective
      attempt.update_convs(3) sample_greeted_fields(11) zero_neq_one)
  ultimately show ?thesis using w by (auto simp: sample_served_def)
qed

section \<open>Shutting down\<close>

text \<open>C17: Once the application is shutting down the supervisor ends, whatever the server, the network and the
  credential store answer and whatever the rest of the application does in between. Which branch of a
  wait is taken is left open, as \<open>select!\<close> leaves it. A run that has left \<open>n\<close> of the supervisor's own
  stages and ended \<open>m\<close> waits, by the cancellation or by anything else, has \<open>n\<close> at most \<open>14 * (m + 1)\<close>,
  and has returned when \<open>n\<close> is that; the cancellation is never taken back; and a supervisor that has not
  returned can go on: from a stage of its own to another one, and from every wait, by the cancellation,
  to the return. What is not claimed is how many waits end otherwise before the cancellation is picked.\<close>

theorem supervisor_stops:
  assumes "stopping_run X (service_step E) (g, a, qs) n m (g', a', qs')" "sv_shutdown (at_service a)"
  shows "n \<le> 14 * (m + 1) \<and> (n = 14 * (m + 1) \<longrightarrow> g' = Returned) \<and> sv_shutdown (at_service a') \<and>
    (g' = Returned \<or> (\<exists>g'' a''. actor_step X (service_step E) (g', a', qs') (g'', a'', qs') \<and>
       (if reads_controls g' then g'' = Returned else g'' \<noteq> g')))"
proof -
  have bound: "shut (at_service a') \<and> n + stages_left g' \<le> 14 * (m + 1)"
    using stopping_bound [OF assms(1)] assms(2) by (simp add: shut_def)
  then have at_end: "n = 14 * (m + 1) \<longrightarrow> g' = Returned" by (cases g') simp_all
  have "g' = Returned \<or> (\<exists>g'' a''. actor_step X (service_step E) (g', a', qs') (g'', a'', qs') \<and>
       (if reads_controls g' then g'' = Returned else g'' \<noteq> g'))"
  proof (cases "reads_controls g'")
    case True
    then show ?thesis
      using actor_step.cancelled [of a' X g' _ _ "service_step E" qs'] cancelled_wait [OF True, of X a'] bound
      by (cases "woken X g' Cancelled a'") (auto simp: shut_def)
  next
    case False
    then show ?thesis using actor_step.advancing [of X g' a' _ _ "service_step E" qs'] stopping_advance [of g' a' X] bound
      by (cases "advance X g' a'") fastforce
  qed
  with bound at_end show ?thesis by (simp add: shut_def)
qed

text \<open>
  A timer that is taken although the application is shutting down, another shutdown of the host, and the head of the loop.
\<close>

theorem supervisor_stops_witness:
  "\<exists>a'. stopping_run sample_actor_env (service_step sample_host_env)
      (Delaying 5 True, sample_served\<lparr>at_service := service_shutdown sample_online\<rparr>, []) 1 1 (Returned, a', []) \<and>
    sv_shutdown (at_service a')"
proof -
  let ?a = "sample_served\<lparr>at_service := service_shutdown sample_online\<rparr>"
  let ?b = "?a\<lparr>at_service := service_shutdown (at_service ?a)\<rparr>"
  let ?run = "stopping_run sample_actor_env (service_step sample_host_env) (Delaying 5 True, ?a, [])"
  let ?step = "actor_step sample_actor_env (service_step sample_host_env)"
  have shut: "sv_shutdown (service_shutdown s)" for s :: "memory_store Service"
    using shutdown_shut [of s] by (simp add: shut_def)
  obtain a' where last: "advance sample_actor_env Top ?b = (Returned, a')"
    using shut by (auto simp: advance_def top_stage_def returned_def)
  have "?step (Delaying 5 True, ?a, []) (Top, ?a, [])"
    by (rule actor_step.timer) (simp add: woken_def delaying_woken_def)
  from stopping_run.wait [OF stopping_run.start this] have 1: "?run 0 1 (Top, ?a, [])" by simp
  have "?step (Top, ?a, []) (Top, ?b, [])" by (rule actor_step.serving) (rule service_step.stopping)
  from stopping_run.other [OF 1 this] have 2: "?run 0 1 (Top, ?b, [])" .
  have "?step (Top, ?b, []) (Returned, a', [])" using last by (rule actor_step.advancing)
  from stopping_run.stage [OF 2 this] have 3: "?run 1 1 (Returned, a', [])" by simp
  from supervisor_stops [OF 3] shut 3 show ?thesis by auto
qed

section \<open>Documents\<close>

text \<open>C13: From a start on, whatever the operations of the host and the supervisor do, a document is requested
  with the key and the agent identifier of the connection that is paired at that moment, which is a
  connection to the configured server, and refused without a request when there is none.\<close>

theorem documents_follow_pairing:
  assumes "initialize (sx_service X) clock devices st = (Ok (recovery, s), st')"
    and "actor_run X (service_step (sx_service X)) s w (g, a, qs)"
  shows "case sv_connection (at_service a) of
      None \<Rightarrow> paired_fetch F K client n j pdf (at_service a) =
        (Err (Authorization (lit ''this agent is not paired with a server'')), at_service a)
    | Some c \<Rightarrow> u_as_str (oc_server_url c) = u_as_str (osc_server_url (sv_configuration (at_service a))) \<and>
        paired_fetch F K client n j pdf (at_service a) = ebind (elift (map_err TransportFailed client)) (\<lambda>_.
          on_secrets (fetch_pdf F K \<lparr>hf_credential_ref = oc_credential_ref c, hf_agent_id = oc_agent_id c,
            hf_timeout = DEFAULT_FETCH_TIMEOUT\<rparr> n j pdf)) (at_service a)"
proof -
  have "link_ok (at_service a)"
    using paired.run_keeps [OF assms(2) initialize_link_ok [OF assms(1)]] by simp
  then show ?thesis by (auto simp: link_ok_def paired_fetch_def identity_of_def split: option.splits)
qed

theorem documents_follow_pairing_witness:
  "\<exists>recovery s st. initialize (sx_service sample_boot_env) (\<lambda>_. 0) no_devices sample_stores_left = (Ok (recovery, s), st) \<and>
    paired_fetch sample_fetch_env memory_ops (Err []) 0 [] sample_pdf s = (Err (TransportFailed []), s)"
proof -
  obtain recovery s st
    where s: "initialize (sx_service sample_boot_env) (\<lambda>_. 0) no_devices sample_stores_left = (Ok (recovery, s), st)"
      "sv_connection s = Some sample_connection"
    using sample_boots by blast
  let ?a = "initial_actor s sample_created \<lparr>rb_policy = BackoffPolicy_default, rb_attempts = 0\<rparr>"
  have "actor_run sample_boot_env (service_step (sx_service sample_boot_env)) s sample_created (Top, ?a, [])"
    by (simp add: actor_run_def supervisor_starts)
  from documents_follow_pairing [OF s(1) this, of sample_fetch_env memory_ops "Err []" 0 "[]" sample_pdf] s show ?thesis
    by (simp add: initial_actor_def ebind_def elift_def)
qed

end
