(* ===== verification/Spec2Isabelle.thy ===== *)
theory Spec2Isabelle
  imports Wire_Properties Runtime_Properties Rendering_Properties Connection_Properties
    Authentication_Properties Desktop_Properties Product Discovery_Properties Printing_Properties
    Catalog_Properties Host_Properties Supervision_Properties
begin

text \<open>
  OPPA, the OpenPrinter agent: a desktop agent that receives print jobs from a server over a
  WebSocket protocol, stores them durably, renders and submits them to local printers, and reports
  the results.

  The parts, and how they interact. The desktop host (\<open>apps/oppa/src-tauri\<close>) starts from its stores,
  pairs with a server and runs the connection supervisor. The supervisor discovers, authenticates and
  greets the server over the transport, hands the jobs it reads to the agent runtime as tasks and sends
  the reports of the agent. The runtime passes jobs to the processor, which works on the durable
  repository, resolves printers in the catalogue, renders documents and submits them to spoolers.

  \<^item> \<open>Oppa_Prelude\<close>: Rust results as sums, strings as code points, stateful operations that pass their
    state on in both cases, the lemmas several components share; \<open>Std_Library\<close> (UTF-8, URLs, commands),
    \<open>Sorted_Map\<close> (\<open>BTreeMap\<close>, with the locale \<open>ordered_map\<close>, interpreted as \<open>btree\<close>) and \<open>Packed_Bits\<close>:
    the parts of the standard library and of the host the program reads.
  \<^item> \<open>Oppa_Core\<close> models \<open>crates/oppa-core\<close>, \<open>Printer_Ref\<close> \<open>crates/oppa-printer\<close>.
  \<^item> \<open>Wire_Validation\<close>, \<open>Wire_Document\<close>, \<open>Wire_Printer\<close>, \<open>Wire_Message\<close>, \<open>Wire_Auth\<close>, \<open>Wire_Codec\<close>
    model \<open>crates/oppa-protocol\<close>: validation, documents and jobs, printer descriptors with the
    negotiation of versions, the messages, the authentication messages and the codec.
  \<^item> \<open>Storage\<close> models \<open>crates/oppa-storage\<close>: the tables as lists of rows, every operation of the
    repository as one function. \<open>Storage_Laws\<close> proves its invariant and states the life cycle of a job
    as the locale \<open>job_lifecycle\<close>, interpreted on the repository.
  \<^item> \<open>Agent_Lifecycle\<close> models \<open>crates/oppa-agent/src/lib.rs\<close>, \<open>Processor\<close> \<open>processor.rs\<close> and
    \<open>Agent_Runtime\<close> \<open>runtime.rs\<close>; \<open>Backends\<close> the errors and the registry through which the agent reaches
    renderer, fetcher and spoolers. \<open>Processor_Laws\<close> shows that every operation is a run of repository
    steps, \<open>Processor_Durability\<close> that answers are durable, \<open>Processor_Cancellation\<close> treats the
    interleavings, \<open>Agent_Runtime_Laws\<close> the replay of reports.
  \<^item> \<open>Receipt_Text\<close>, \<open>Receipt_Layout\<close>, \<open>Escpos\<close>, \<open>Receipt_Page\<close>, \<open>Pdf_Render\<close>, \<open>Document_Renderer\<close>
    model \<open>crates/oppa-renderer\<close>; \<open>Receipt_Page\<close> also shows what the canvas keeps, \<open>Escpos_Roundtrip\<close>
    what the interpreter reads back.
  \<^item> \<open>Spoolers\<close> and \<open>Virtual_Spooler\<close> model \<open>crates/oppa-spooler\<close> and the virtual devices of the
    desktop, \<open>Driver_Print\<close> \<open>crates/oppa-windows-print\<close>; \<open>Spooler_Laws\<close> and \<open>Virtual_Spooler_Laws\<close> show
    what an accepted submission handed over and how the histories stay bounded.
  \<^item> \<open>Discovery\<close> and \<open>Discovery_Providers\<close> model \<open>crates/oppa-discovery\<close>; \<open>Discovery_Laws\<close> the merge.
  \<^item> \<open>Platform\<close> models \<open>crates/oppa-platform\<close> (locale \<open>credential_store\<close>, interpreted on the in-memory store
    of the crate), \<open>Agent_Auth\<close> \<open>crates/oppa-auth\<close>, \<open>Document_Fetch\<close> \<open>crates/oppa-documents\<close>,
    \<open>Product\<close> \<open>crates/oppa-product\<close>. \<open>Agent_Auth_Laws\<close> follows a key through its life over any store.
  \<^item> \<open>Transport\<close> models \<open>crates/oppa-transport\<close>; \<open>Transport_Laws\<close> shows that it implements a session
    automaton and treats its reconnection loop.
  \<^item> \<open>Job_Ledger\<close>, \<open>Catalog_Migration\<close>, \<open>Catalog_Printer\<close>, \<open>Printer_Catalog\<close>, \<open>Catalog_Refresh\<close> model
    the job history and the printer catalogue of the desktop (\<open>job_ledger.rs\<close>, \<open>printer_catalog.rs\<close>);
    \<open>Catalog_Laws\<close>, \<open>Catalog_Merge_Laws\<close>, \<open>Catalog_Reachable\<close> its invariant under every
    interleaving of operations, discovery passes and restarts.
  \<^item> \<open>Server_Configuration\<close>, \<open>Desktop_Service\<close>, \<open>Desktop_Jobs\<close>, \<open>Desktop_Startup\<close> model the host
    (\<open>server_configuration.rs\<close>, \<open>service.rs\<close>, \<open>documents.rs\<close>): its state as one record, an operation of the
    service as one function, the start from the stores. \<open>Desktop_Laws\<close> shows what pairing and forgetting
    leave and that the identity for documents follows the connection.
  \<^item> \<open>Connection_Supervisor\<close> and \<open>Connection_Stages\<close> model \<open>connection.rs\<close>: the loop is a machine of stages,
    cut where the code waits or releases its lock; a wake-up of a wait or of \<open>select!\<close> is one step.
    \<open>Connection_Laws\<close> accounts for the requests of the agent, \<open>Connection_Runs\<close> defines the runs, interleaved
    with whatever the rest of the application does to the service, and their invariants;
    \<open>Supervision_Laws\<close> holds what one wake-up does and the locale \<open>service_invariant\<close>: what every operation
    of the host keeps holds along the runs of both. It is interpreted twice on the operations of the host, for the paired
    server and for the cancellation; with the latter \<open>stopping_run\<close> counts what a shutdown leaves to do.
  \<^item> \<open>Wire_Properties\<close>, \<open>Storage_Properties\<close>, \<open>Processor_Properties\<close>, \<open>Runtime_Properties\<close>,
    \<open>Rendering_Properties\<close>, \<open>Printing_Properties\<close>, \<open>Discovery_Properties\<close>, \<open>Connection_Properties\<close>,
    \<open>Authentication_Properties\<close>, \<open>Desktop_Properties\<close>, \<open>Catalog_Properties\<close>, \<open>Host_Properties\<close>,
    \<open>Supervision_Properties\<close> state the properties; \<open>Sample_Values\<close> and
    \<open>Supervision_Samples\<close> are a concrete configuration and the run their instances use.

  Conventions: a Rust \<open>String\<close> is the list of its code points, an error is a value of a sum type, a
  stateful operation passes its state on in both cases. Readings of the clock, of UUIDs and of anything
  else that may answer differently each time take the number of the reading. Tokio's locks are modelled
  by the granularity of the steps: what the code does under one lock is one function.
  Some operations are one step although the code releases a lock or awaits in between: a drain of the waiting
  jobs (\<open>process_pending\<close>; of what happens meanwhile only the cancellation of the job being submitted
  is seen), a replay of the outbox, the operations of the host, the two parts of a discovery pass, and a
  change of the job history with its write. The interleavings of a single job with deliveries, cancellations
  and recoveries are those of \<open>Processor_Cancellation\<close>.

  What the properties say they say in terms of their own: \<open>drain_run\<close> lists the state after each job of a
  drain, \<open>processor_failure\<close> the failures there are, \<open>listed_page\<close> and \<open>page_expression\<close> the grammar of
  page ranges, \<open>fails_at\<close> the call of a driver that failed first, \<open>printed_pixel\<close> the pixels a printer
  blackens, \<open>joined\<close> the entry two observations become, \<open>observed_by\<close> what becomes of a row through its
  observations, \<open>completes_catalog\<close> what a migration may put in.

  Parameters, each the record of an interface that is not in the repository: \<open>serde\<close> and the conversions
  to JSON values, \<open>base64url\<close>, \<open>float_lib\<close>, \<open>url_lib\<close>, \<open>crypto\<close>, \<open>text_lib\<close>; what sockets, HTTP,
  commands, drivers and credential stores answer (\<open>transport_env\<close>, \<open>fetch_env\<close>, \<open>http_client\<close>,
  \<open>spool_env\<close>, \<open>driver_api\<close>, \<open>scan_env\<close>, \<open>secret_ops\<close>); glyphs, barcodes, images and the PDF engine. What a
  property needs of them is a named hypothesis (\<open>reads_version\<close>, \<open>catalog_serde\<close>, \<open>settings_faithful\<close>,
  \<open>store_remembers\<close>, \<open>store_forgets\<close>) with an instance that meets it.

  Fuel: \<open>replay_loop\<close> takes the number of iterations; one more than the length of the outbox is enough,
  since an iteration that continues has removed a full batch, and \<open>recovery_task\<close> passes its fuel to it.
  \<open>connect_with_backoff\<close> takes the number of attempts; with a limit, one more than what is left of it is
  enough (\<open>reconnect_returns\<close>). The supervisor loop is a step relation and has no fuel.

  Not modelled: SQLite's own failures and old schema versions, Serde, TLS and sockets, cryptography,
  the rasterisation of PDF pages, the calls of operating-system services (GDI, keyrings, notifications,
  autostart), and of the desktop shell the Tauri commands, windows, tray, emission of events, the status
  projection and the export of diagnostics, which only read the modelled state or pass calls on.
\<close>

end
